(* ===== verification/Prelude.thy ===== *)
theory Prelude
  imports Complex_Main "HOL-Library.Word"
begin

text \<open>
  Shared base of the development.

  \<^item> The values every component uses: identifiers (\<open>uuid\<close>, 128 bits), instants (\<open>instant\<close>,
    microseconds since 1970-01-01 UTC), Python strings (\<open>string\<close>, their UTF-8 bytes).
  \<^item> Errors as values: the exceptions the services raise are the datatype \<open>error\<close>, and a
    service call is a function from the database to a result \<open>error + 'a\<close> and the database
    the session then holds (\<open>svc\<close>). The state is returned on the error branch as well, because
    what a handler wrote before it raised is undone only by the request scope
    (\<open>request_scope\<close>, \<open>get_db\<close> of \<open>core/database.py\<close>).
  \<^item> The parts of the Python library the components use: \<open>str.lower\<close>, \<open>str.strip\<close>,
    \<open>str.startswith\<close>, \<open>str.join\<close>, decimal printing, \<open>str(UUID)\<close>, \<open>datetime.isoformat\<close>.
  \<^item> Tables: lists of rows with a primary key, with the laws of lookup, insert and update
    stated once as the locale \<open>keyed_table\<close>.
\<close>

section \<open>Errors and service calls\<close>

datatype error =
    ValueError string
  | PermissionError string
  | TypeError string
  | KeyError string
  | IndexError
  | AttributeError string
  | AssertionError
  | ZeroDivisionError
  | IntegrityError string
  | MultipleResultsFound
  | HTTPException nat string
  | ExecutionPlanNotFound string
  | InvalidExecutionPlanTransition string
  | InvalidToken
  | StructError
  | RecursionError
  | RuntimeError string

type_synonym 'a result = "error + 'a"
type_synonym ('s, 'a) svc = "'s \<Rightarrow> 'a result \<times> 's"

named_theorems svc_simps "unfolding of service combinators"

definition ret :: "'a \<Rightarrow> ('s, 'a) svc" where
  "ret x s = (Inr x, s)"

definition raise :: "error \<Rightarrow> ('s, 'a) svc" where
  "raise e s = (Inl e, s)"

definition andthen :: "('s, 'a) svc \<Rightarrow> ('a \<Rightarrow> ('s, 'b) svc) \<Rightarrow> ('s, 'b) svc" where
  "andthen m f s = (case m s of (Inl e, s') \<Rightarrow> (Inl e, s') | (Inr x, s') \<Rightarrow> f x s')"

text \<open>
  \<open>get_db\<close>: the session is committed when the request handler returns and rolled back when any
  exception leaves it.
\<close>

definition request_scope :: "('s, 'a) svc \<Rightarrow> ('s, 'a) svc" where
  "request_scope m s = (case m s of (Inl e, _) \<Rightarrow> (Inl e, s) | (Inr x, s') \<Rightarrow> (Inr x, s'))"

declare ret_def [svc_simps] raise_def [svc_simps] andthen_def [svc_simps]
  request_scope_def [svc_simps]

lemma request_scope_error_state:
  "request_scope m s = (Inl e, s') \<Longrightarrow> s' = s"
  by (auto simp: request_scope_def split: prod.splits sum.splits)

lemma request_scope_ok:
  "request_scope m s = (Inr x, s') \<longleftrightarrow> m s = (Inr x, s')"
  by (auto simp: request_scope_def split: prod.splits sum.splits)

lemma request_scope_err_iff:
  "fst (request_scope m s) = Inl e \<longleftrightarrow> fst (m s) = Inl e"
  by (auto simp: request_scope_def split: prod.splits sum.splits)

lemma andthen_ok:
  "andthen m f s = (Inr y, s'') \<longleftrightarrow> (\<exists>x s'. m s = (Inr x, s') \<and> f x s' = (Inr y, s''))"
  by (auto simp: andthen_def split: prod.splits sum.splits)

lemma andthen_assoc: "andthen (andthen m f) g = andthen m (\<lambda>x. andthen (f x) g)"
  by (auto simp: andthen_def fun_eq_iff split: prod.splits sum.splits)

lemma andthen_ret [simp]: "andthen m ret = m"
  by (auto simp: andthen_def ret_def fun_eq_iff split: prod.splits sum.splits)

lemma ret_andthen [simp]: "andthen (ret x) f = f x"
  by (auto simp: andthen_def ret_def fun_eq_iff)

lemma raise_andthen [simp]: "andthen (raise e) f = raise e"
  by (auto simp: andthen_def raise_def fun_eq_iff)

text \<open>A predicate kept by every outcome of a service call, error outcomes included.\<close>

definition keeps :: "('s \<Rightarrow> bool) \<Rightarrow> ('s, 'a) svc \<Rightarrow> bool" where
  "keeps I m \<longleftrightarrow> (\<forall>s. I s \<longrightarrow> I (snd (m s)))"

lemma keepsI: "(\<And>s. I s \<Longrightarrow> I (snd (m s))) \<Longrightarrow> keeps I m"
  by (simp add: keeps_def)

lemma keeps_ret [intro]: "keeps I (ret x)"
  by (simp add: keeps_def ret_def)

lemma keeps_raise [intro]: "keeps I (raise e)"
  by (simp add: keeps_def raise_def)

lemma keeps_andthen [intro]:
  assumes "keeps I m" and "\<And>x. keeps I (f x)"
  shows "keeps I (andthen m f)"
proof (rule keepsI)
  fix s assume "I s"
  with assms(1) have "I (snd (m s))" by (simp add: keeps_def)
  with assms(2) show "I (snd (andthen m f s))"
    by (auto simp: andthen_def keeps_def split: prod.splits sum.splits)
qed

lemma keeps_request_scope [intro]: "keeps I m \<Longrightarrow> keeps I (request_scope m)"
  by (auto simp: keeps_def request_scope_def split: prod.splits sum.splits)

text \<open>
  \<open>Result.scalar_one_or_none()\<close> of SQLAlchemy: none for no row, the row for one row, an
  exception for more.
\<close>

fun scalar_one_or_none :: "'a list \<Rightarrow> 'a option result" where
  "scalar_one_or_none [] = Inr None"
| "scalar_one_or_none [x] = Inr (Some x)"
| "scalar_one_or_none (x # y # zs) = Inl MultipleResultsFound"

lemma scalar_one_or_none_ok: "length xs \<le> 1 \<Longrightarrow> \<exists>r. scalar_one_or_none xs = Inr r"
  by (cases xs rule: scalar_one_or_none.cases) auto

lemma scalar_one_or_none_Some: "scalar_one_or_none xs = Inr (Some x) \<longleftrightarrow> xs = [x]"
  by (cases xs rule: scalar_one_or_none.cases) auto

lemma scalar_one_or_none_None: "scalar_one_or_none xs = Inr None \<longleftrightarrow> xs = []"
  by (cases xs rule: scalar_one_or_none.cases) auto

section \<open>Strings\<close>

definition is_upper_char :: "char \<Rightarrow> bool" where
  "is_upper_char c \<longleftrightarrow> (let n = of_char c :: nat in 65 \<le> n \<and> n \<le> 90)"

definition is_digit_char :: "char \<Rightarrow> bool" where
  "is_digit_char c \<longleftrightarrow> (let n = of_char c :: nat in 48 \<le> n \<and> n \<le> 57)"

definition is_space_char :: "char \<Rightarrow> bool" where
  "is_space_char c \<longleftrightarrow>
     (let n = of_char c :: nat in n = 32 \<or> (9 \<le> n \<and> n \<le> 13) \<or> (28 \<le> n \<and> n \<le> 31))"

text \<open>\<open>str.lower\<close>, \<open>str.strip\<close> on ASCII text; bytes above 127 are left alone.\<close>

definition py_lower :: "string \<Rightarrow> string" where
  "py_lower s = map (\<lambda>c. if is_upper_char c then char_of (of_char c + 32 :: nat) else c) s"

definition py_strip :: "string \<Rightarrow> string" where
  "py_strip s = rev (dropWhile is_space_char (rev (dropWhile is_space_char s)))"

definition py_startswith :: "string \<Rightarrow> string \<Rightarrow> bool" where
  "py_startswith s p \<longleftrightarrow> take (length p) s = p"

fun py_contains :: "string \<Rightarrow> string \<Rightarrow> bool" where
  "py_contains [] p = (p = [])"
| "py_contains (c # s) p = (take (length p) (c # s) = p \<or> py_contains s p)"

fun py_join :: "string \<Rightarrow> string list \<Rightarrow> string" where
  "py_join sep [] = []"
| "py_join sep [x] = x"
| "py_join sep (x # y # zs) = x @ sep @ py_join sep (y # zs)"

lemma is_upper_char_lowered:
  "\<not> is_upper_char (if is_upper_char c then char_of (of_char c + 32 :: nat) else c)"
  by (auto simp: is_upper_char_def Let_def)

lemma py_lower_idem [simp]: "py_lower (py_lower s) = py_lower s"
  using is_upper_char_lowered by (auto simp: py_lower_def)

lemma length_py_lower [simp]: "length (py_lower s) = length s"
  by (simp add: py_lower_def)

lemma dropWhile_hd: "dropWhile P xs = y # ys \<Longrightarrow> \<not> P y"
  by (induction xs) (auto split: if_splits)

lemma dropWhile_idem: "dropWhile P (dropWhile P xs) = dropWhile P xs"
  by (induction xs) auto

lemma py_startswith_append [simp]: "py_startswith (p @ s) p"
  by (simp add: py_startswith_def)

section \<open>Decimal printing\<close>

definition digit_char :: "nat \<Rightarrow> char" where
  "digit_char d = char_of (48 + d)"

fun nat_str :: "nat \<Rightarrow> string" where
  "nat_str n = (if n < 10 then [digit_char n] else nat_str (n div 10) @ [digit_char (n mod 10)])"

declare nat_str.simps [simp del]

definition int_str :: "int \<Rightarrow> string" where
  "int_str i = (if i < 0 then CHR ''-'' # nat_str (nat (- i)) else nat_str (nat i))"

definition digit_val :: "char \<Rightarrow> nat" where
  "digit_val c = of_char c - 48"

definition str_nat :: "string \<Rightarrow> nat" where
  "str_nat s = foldl (\<lambda>a c. 10 * a + digit_val c) 0 s"

lemma of_char_digit_char [simp]: "d < 10 \<Longrightarrow> (of_char (digit_char d) :: nat) = 48 + d"
  by (simp add: digit_char_def)

lemma digit_val_digit_char [simp]: "d < 10 \<Longrightarrow> digit_val (digit_char d) = d"
  by (simp add: digit_val_def)

lemma is_digit_digit_char [simp]: "d < 10 \<Longrightarrow> is_digit_char (digit_char d)"
  by (simp add: is_digit_char_def)

lemma str_nat_snoc: "str_nat (s @ [c]) = 10 * str_nat s + digit_val c"
  by (simp add: str_nat_def)

lemma str_nat_nat_str [simp]: "str_nat (nat_str n) = n"
proof (induction n rule: nat_str.induct)
  case (1 n)
  show ?case
  proof (cases "n < 10")
    case True
    then show ?thesis by (subst nat_str.simps) (simp add: str_nat_def)
  next
    case False
    with 1 show ?thesis by (subst nat_str.simps) (simp add: str_nat_snoc)
  qed
qed

lemma nat_str_inject [simp]: "nat_str m = nat_str n \<longleftrightarrow> m = n"
  by (metis str_nat_nat_str)

lemma nat_str_digits: "c \<in> set (nat_str n) \<Longrightarrow> is_digit_char c"
proof (induction n rule: nat_str.induct)
  case (1 n)
  show ?case
  proof (cases "n < 10")
    case True
    with "1.prems" show ?thesis by (subst (asm) nat_str.simps) simp
  next
    case False
    with "1.prems" have "c \<in> set (nat_str (n div 10)) \<or> c = digit_char (n mod 10)"
      by (subst (asm) nat_str.simps) auto
    with "1.IH" [OF False] show ?thesis by auto
  qed
qed

lemma nat_str_nonempty [simp]: "nat_str n \<noteq> []"
  by (subst nat_str.simps) simp

lemma minus_not_digit: "\<not> is_digit_char (CHR ''-'')"
  by (simp add: is_digit_char_def)

lemma nat_str_no_minus: "nat_str n \<noteq> CHR ''-'' # s"
proof
  assume "nat_str n = CHR ''-'' # s"
  then have "CHR ''-'' \<in> set (nat_str n)" by simp
  from nat_str_digits [OF this] show False by (simp add: minus_not_digit)
qed

lemma int_str_inject [simp]: "int_str i = int_str j \<longleftrightarrow> i = j"
  using nat_str_no_minus nat_str_no_minus [symmetric]
  by (auto simp: int_str_def split: if_splits)

text \<open>Zero padded printing to a fixed width (\<open>f"{n:0wd}"\<close>).\<close>

fun pad_digits :: "nat \<Rightarrow> nat \<Rightarrow> string" where
  "pad_digits 0 n = []"
| "pad_digits (Suc w) n = pad_digits w (n div 10) @ [digit_char (n mod 10)]"

lemma length_pad_digits [simp]: "length (pad_digits w n) = w"
  by (induction w arbitrary: n) auto

lemma str_nat_pad_digits: "n < 10 ^ w \<Longrightarrow> str_nat (pad_digits w n) = n"
proof (induction w arbitrary: n)
  case 0
  then show ?case by (simp add: str_nat_def)
next
  case (Suc w)
  then have "n div 10 < 10 ^ w" by (simp add: less_mult_imp_div_less mult.commute)
  with Suc.IH show ?case by (simp add: str_nat_snoc)
qed

lemma pad_digits_all_digits: "c \<in> set (pad_digits w n) \<Longrightarrow> is_digit_char c"
  by (induction w arbitrary: n) auto

section \<open>Identifiers\<close>

type_synonym uuid = "128 word"

definition hex_char :: "nat \<Rightarrow> char" where
  "hex_char d = (if d < 10 then char_of (48 + d) else char_of (87 + d))"

fun hex_digits :: "nat \<Rightarrow> nat \<Rightarrow> string" where
  "hex_digits 0 n = []"
| "hex_digits (Suc w) n = hex_digits w (n div 16) @ [hex_char (n mod 16)]"

text \<open>\<open>str(UUID)\<close>: 32 lower case hexadecimal digits in groups of 8, 4, 4, 4 and 12.\<close>

definition uuid_str :: "uuid \<Rightarrow> string" where
  "uuid_str u =
     (let h = hex_digits 32 (unat u) in
      py_join ''-'' [take 8 h, take 4 (drop 8 h), take 4 (drop 12 h), take 4 (drop 16 h), drop 20 h])"

lemma length_hex_digits [simp]: "length (hex_digits w n) = w"
  by (induction w arbitrary: n) auto

lemma hex_char_inject: "a < 16 \<Longrightarrow> b < 16 \<Longrightarrow> hex_char a = hex_char b \<Longrightarrow> a = b"
proof -
  assume a: "a < 16" "b < 16" and eq: "hex_char a = hex_char b"
  have v: "(of_char (hex_char d) :: nat) = (if d < 10 then 48 + d else 87 + d)" if "d < 16" for d
    using that by (simp add: hex_char_def)
  from eq have "(of_char (hex_char a) :: nat) = of_char (hex_char b)" by simp
  with a show "a = b" by (auto simp: v split: if_splits)
qed

lemma hex_digits_inject:
  "m < 16 ^ w \<Longrightarrow> n < 16 ^ w \<Longrightarrow> hex_digits w m = hex_digits w n \<Longrightarrow> m = n"
proof (induction w arbitrary: m n)
  case 0
  then show ?case by simp
next
  case (Suc w)
  then have "m div 16 < 16 ^ w" and "n div 16 < 16 ^ w"
    by (simp_all add: less_mult_imp_div_less mult.commute)
  moreover from Suc.prems(3) have "hex_digits w (m div 16) = hex_digits w (n div 16)"
    and "hex_char (m mod 16) = hex_char (n mod 16)" by simp_all
  ultimately have "m div 16 = n div 16" and "m mod 16 = n mod 16"
    using Suc.IH hex_char_inject [of "m mod 16" "n mod 16"] by auto
  then show ?case by (metis div_mult_mod_eq)
qed

lemma take_drop_step: "drop m z = take n (drop m z) @ drop (m + n) z"
  by (metis append_take_drop_id drop_drop add.commute)

lemma hex_char_not_dash: "d < 16 \<Longrightarrow> hex_char d \<noteq> CHR ''-''"
proof
  assume "d < 16" and "hex_char d = CHR ''-''"
  then have "(of_char (hex_char d) :: nat) = of_char (CHR ''-'')" by simp
  with \<open>d < 16\<close> show False by (auto simp: hex_char_def split: if_splits)
qed

lemma hex_digits_no_dash: "CHR ''-'' \<notin> set (hex_digits w n)"
proof (induction w arbitrary: n)
  case (Suc w)
  then show ?case using hex_char_not_dash [of "n mod 16"] by auto
qed simp

text \<open>Dropping the dashes of a printed identifier gives back its digits.\<close>

lemma filter_uuid_str: "filter (\<lambda>c. c \<noteq> CHR ''-'') (uuid_str u) = hex_digits 32 (unat u)"
proof -
  let ?h = "hex_digits 32 (unat u)"
  have nd: "filter (\<lambda>c. c \<noteq> CHR ''-'') xs = xs" if "set xs \<subseteq> set ?h" for xs
    using that hex_digits_no_dash [of 32 "unat u"] by (intro filter_True) blast
  have sub: "set (take n (drop m ?h)) \<subseteq> set ?h" for m n
    by (meson order_trans set_drop_subset set_take_subset)
  have "filter (\<lambda>c. c \<noteq> CHR ''-'') (uuid_str u) =
    take 8 ?h @ take 4 (drop 8 ?h) @ take 4 (drop 12 ?h) @ take 4 (drop 16 ?h) @ drop 20 ?h"
    unfolding uuid_str_def Let_def py_join.simps
    by (simp add: nd sub set_take_subset set_drop_subset del: hex_digits.simps)
  also have "\<dots> = ?h"
    using take_drop_step [of 8 ?h 4] take_drop_step [of 12 ?h 4] take_drop_step [of 16 ?h 4]
    by (simp del: hex_digits.simps take_append append_take_drop_id)
      (metis append_take_drop_id)
  finally show ?thesis .
qed

lemma uuid_str_inject [simp]: "uuid_str a = uuid_str b \<longleftrightarrow> a = b"
proof
  assume "uuid_str a = uuid_str b"
  then have xy: "hex_digits 32 (unat a) = hex_digits 32 (unat b)"
    by (metis filter_uuid_str)
  have lt: "unat u < 16 ^ 32" for u :: uuid
    using unsigned_less [of u] by simp
  from hex_digits_inject [OF lt lt xy] show "a = b" by (rule unsigned_word_eqI)
qed simp

text \<open>
  \<open>UUID(s)\<close>: dashes are ignored and 32 hexadecimal digits must remain. (The prefixes \<open>urn:\<close> and
  \<open>uuid:\<close>, braces, and the signs, blanks and underscores \<open>int(s, 16)\<close> tolerates are not modelled:
  every text the components parse was printed by \<open>str(UUID)\<close>.)
\<close>

definition hex_val :: "char \<Rightarrow> nat option" where
  "hex_val c = (let n = of_char c :: nat in
     if 48 \<le> n \<and> n \<le> 57 then Some (n - 48)
     else if 97 \<le> n \<and> n \<le> 102 then Some (n - 87)
     else if 65 \<le> n \<and> n \<le> 70 then Some (n - 55) else None)"

fun hex_parse :: "string \<Rightarrow> nat \<Rightarrow> nat option" where
  "hex_parse [] acc = Some acc"
| "hex_parse (c # cs) acc =
     (case hex_val c of None \<Rightarrow> None | Some d \<Rightarrow> hex_parse cs (16 * acc + d))"

definition uuid_of_str :: "string \<Rightarrow> uuid option" where
  "uuid_of_str s =
     (let h = filter (\<lambda>c. c \<noteq> CHR ''-'') s in
      if length h \<noteq> 32 then None else map_option word_of_nat (hex_parse h 0))"

lemma hex_val_hex_char: "d < 16 \<Longrightarrow> hex_val (hex_char d) = Some d"
  by (auto simp: hex_val_def hex_char_def Let_def)

lemma hex_parse_append:
  "hex_parse (xs @ ys) acc = (case hex_parse xs acc of None \<Rightarrow> None | Some a \<Rightarrow> hex_parse ys a)"
  by (induction xs arbitrary: acc) (auto split: option.splits)

lemma hex_parse_digits: "n < 16 ^ w \<Longrightarrow> hex_parse (hex_digits w n) acc = Some (16 ^ w * acc + n)"
proof (induction w arbitrary: n acc)
  case (Suc w)
  then have "n div 16 < 16 ^ w" by (simp add: less_mult_imp_div_less mult.commute)
  from Suc.IH [OF this] show ?case
    by (simp add: hex_parse_append hex_val_hex_char algebra_simps)
qed simp

lemma uuid_of_str_inverse [simp]: "uuid_of_str (uuid_str u) = Some u"
proof -
  have "unat u < 16 ^ 32" using unsigned_less [of u] by simp
  then show ?thesis
    by (simp add: uuid_of_str_def filter_uuid_str hex_parse_digits del: hex_digits.simps)
qed

section \<open>Instants\<close>

type_synonym instant = int

definition days_us :: "int \<Rightarrow> instant" where
  "days_us d = d * 86400000000"

definition minutes_us :: "int \<Rightarrow> instant" where
  "minutes_us m = m * 60000000"

text \<open>Proleptic Gregorian date of a day number (days since 1970-01-01).\<close>

definition civil_from_days :: "int \<Rightarrow> int \<times> int \<times> int" where
  "civil_from_days z0 =
     (let z = z0 + 719468;
          era = z div 146097;
          doe = z - era * 146097;
          yoe = (doe - doe div 1460 + doe div 36524 - doe div 146096) div 365;
          doy = doe - (365 * yoe + yoe div 4 - yoe div 100);
          mp = (5 * doy + 2) div 153;
          d = doy - (153 * mp + 2) div 5 + 1;
          m = (if mp < 10 then mp + 3 else mp - 9);
          y = yoe + era * 400 + (if m \<le> 2 then 1 else 0)
      in (y, m, d))"

text \<open>\<open>datetime.isoformat()\<close> of an aware UTC datetime: microseconds only when not zero.\<close>

definition isoformat :: "instant \<Rightarrow> string" where
  "isoformat t =
     (let s = t div 1000000; us = t mod 1000000; (y, m, d) = civil_from_days (s div 86400);
          r = s mod 86400
      in pad_digits 4 (nat y) @ ''-'' @ pad_digits 2 (nat m) @ ''-'' @ pad_digits 2 (nat d) @ ''T'' @
         pad_digits 2 (nat (r div 3600)) @ '':'' @ pad_digits 2 (nat (r div 60 mod 60)) @ '':'' @
         pad_digits 2 (nat (r mod 60)) @ (if us = 0 then [] else ''.'' @ pad_digits 6 (nat us)) @
         ''+00:00'')"

text \<open>\<open>datetime.utcnow().isoformat() + "Z"\<close>: the same text with another suffix.\<close>

definition isoformat_z :: "instant \<Rightarrow> string" where
  "isoformat_z t = take (length (isoformat t) - 6) (isoformat t) @ ''Z''"

section \<open>Tables\<close>

text \<open>
  A table is the list of its rows. \<open>row_find\<close> is a select by primary key, \<open>row_put\<close> the flush of a
  changed row, appending a row its insert.
\<close>

definition row_find :: "('r \<Rightarrow> 'k) \<Rightarrow> 'k \<Rightarrow> 'r list \<Rightarrow> 'r option" where
  "row_find key k rs = find (\<lambda>r. key r = k) rs"

definition row_put :: "('r \<Rightarrow> 'k) \<Rightarrow> 'r \<Rightarrow> 'r list \<Rightarrow> 'r list" where
  "row_put key r rs = map (\<lambda>x. if key x = key r then r else x) rs"

definition row_add :: "'r \<Rightarrow> 'r list \<Rightarrow> 'r list" where
  "row_add r rs = rs @ [r]"

lemma find_append: "find P (xs @ ys) = (case find P xs of None \<Rightarrow> find P ys | Some x \<Rightarrow> Some x)"
  by (induction xs) auto

lemma row_find_Some: "row_find key k rs = Some r \<Longrightarrow> r \<in> set rs \<and> key r = k"
  by (auto simp: row_find_def find_Some_iff)

lemma row_find_None: "row_find key k rs = None \<longleftrightarrow> k \<notin> key ` set rs"
  by (auto simp: row_find_def find_None_iff)

lemma row_find_put:
  "row_find key k (row_put key r rs) =
     (if k = key r \<and> k \<in> key ` set rs then Some r else row_find key k rs)"
  unfolding row_find_def row_put_def by (induction rs) auto

lemma row_find_add:
  "row_find key k (row_add r rs) =
     (case row_find key k rs of None \<Rightarrow> if key r = k then Some r else None | Some x \<Rightarrow> Some x)"
  unfolding row_find_def row_add_def find_append
  by (cases "find (\<lambda>r. key r = k) rs") simp_all

lemma map_key_row_put [simp]: "map key (row_put key r rs) = map key rs"
  by (auto simp: row_put_def)

lemma set_row_put: "x \<in> set (row_put key r rs) \<Longrightarrow> x = r \<or> x \<in> set rs"
  by (auto simp: row_put_def split: if_splits)

lemma length_row_put [simp]: "length (row_put key r rs) = length rs"
  by (simp add: row_put_def)

lemma filter_single:
  assumes "distinct (map f xs)" and "x \<in> set xs" and "\<And>y. P y \<longleftrightarrow> f y = f x"
  shows "filter P xs = [x]"
  using assms(1,2)
proof (induction xs)
  case (Cons y ys)
  show ?case
  proof (cases "y = x")
    case True
    with Cons.prems(1) have "f x \<notin> f ` set ys" by simp
    then have "f z \<noteq> f x" if "z \<in> set ys" for z using that by (metis image_eqI)
    then have "filter (\<lambda>a. f a = f x) ys = []" by (simp add: filter_empty_conv)
    with True show ?thesis by (simp add: assms(3))
  next
    case False
    with Cons.prems have "x \<in> set ys" and "f y \<noteq> f x" by auto
    with Cons show ?thesis by (simp add: assms(3))
  qed
qed simp

locale keyed_table =
  fixes key :: "'r \<Rightarrow> 'k"
    and lookup :: "'k \<Rightarrow> 'r list \<Rightarrow> 'r option"
    and put :: "'r \<Rightarrow> 'r list \<Rightarrow> 'r list"
    and add :: "'r \<Rightarrow> 'r list \<Rightarrow> 'r list"
  assumes lookup_put: "lookup k (put r rs) =
      (if k = key r \<and> lookup k rs \<noteq> None then Some r else lookup k rs)"
    and lookup_add: "lookup k (add r rs) =
      (if lookup k rs = None \<and> key r = k then Some r else lookup k rs)"
    and lookup_key: "lookup k rs = Some r \<Longrightarrow> key r = k"
begin

lemma put_same: "lookup (key r) rs \<noteq> None \<Longrightarrow> lookup (key r) (put r rs) = Some r"
  by (simp add: lookup_put)

lemma put_other: "k \<noteq> key r \<Longrightarrow> lookup k (put r rs) = lookup k rs"
  by (simp add: lookup_put)

lemma add_keeps: "lookup k rs = Some x \<Longrightarrow> lookup k (add r rs) = Some x"
  by (simp add: lookup_add)

lemma add_new: "lookup (key r) rs = None \<Longrightarrow> lookup (key r) (add r rs) = Some r"
  by (simp add: lookup_add)

lemma put_put: "key r = key r' \<Longrightarrow> lookup k (put r (put r' rs)) = lookup k (put r rs)"
  by (auto simp: lookup_put)

end

lemma keyed_table_rows: "keyed_table key (row_find key) (row_put key) row_add"
proof
  fix k r and rs :: "'a list"
  show "row_find key k (row_put key r rs) =
      (if k = key r \<and> row_find key k rs \<noteq> None then Some r else row_find key k rs)"
    using row_find_None [of key k rs] by (simp add: row_find_put)
  show "row_find key k (row_add r rs) =
      (if row_find key k rs = None \<and> key r = k then Some r else row_find key k rs)"
    by (cases "row_find key k rs") (simp_all add: row_find_add)
  show "row_find key k rs = Some r \<Longrightarrow> key r = k"
    by (drule row_find_Some) simp
qed

end
