(* ===== verification/Identity.thy ===== *)
theory Identity
  imports Prelude
begin

text \<open>
  The enumerations of \<open>domains/auth/models.py\<close> with the strings they are stored as, the role
  hierarchy of \<open>AuthService\<close> (\<open>_ROLE_RANK\<close>, \<open>_can_manage\<close>) and the role guards of
  \<open>core/dependencies.py\<close>. Roles are ordered by rank through the type class \<open>preorder\<close> of the
  library, so that the library's order reasoning applies to them.
\<close>

datatype user_role = PLATFORM_ADMIN | ADMIN | ENGINEER | FINOPS | EXECUTIVE | VIEWER

fun role_value :: "user_role \<Rightarrow> string" where
  "role_value PLATFORM_ADMIN = ''platform_admin''"
| "role_value ADMIN = ''admin''"
| "role_value ENGINEER = ''engineer''"
| "role_value FINOPS = ''finops''"
| "role_value EXECUTIVE = ''executive''"
| "role_value VIEWER = ''viewer''"

datatype lifecycle_state = ACTIVE | SUSPENDED | ARCHIVED

fun lifecycle_value :: "lifecycle_state \<Rightarrow> string" where
  "lifecycle_value ACTIVE = ''active''"
| "lifecycle_value SUSPENDED = ''suspended''"
| "lifecycle_value ARCHIVED = ''archived''"

fun role_rank :: "user_role \<Rightarrow> nat" where
  "role_rank VIEWER = 0"
| "role_rank EXECUTIVE = 1"
| "role_rank ENGINEER = 1"
| "role_rank FINOPS = 1"
| "role_rank ADMIN = 2"
| "role_rank PLATFORM_ADMIN = 3"

instantiation user_role :: preorder
begin

definition less_eq_user_role :: "user_role \<Rightarrow> user_role \<Rightarrow> bool" where
  "less_eq_user_role a b \<longleftrightarrow> role_rank a \<le> role_rank b"

definition less_user_role :: "user_role \<Rightarrow> user_role \<Rightarrow> bool" where
  "less_user_role a b \<longleftrightarrow> role_rank a < role_rank b"

instance
  by standard (auto simp: less_eq_user_role_def less_user_role_def)

end

definition can_manage :: "user_role \<Rightarrow> user_role \<Rightarrow> bool" where
  "can_manage actor_role target_role \<longleftrightarrow> role_rank actor_role > role_rank target_role"

lemma can_manage_less: "can_manage a b \<longleftrightarrow> b < a"
  by (simp add: can_manage_def less_user_role_def)

lemma role_value_inject [simp]: "role_value a = role_value b \<longleftrightarrow> a = b"
  by (cases a; cases b) simp_all

text \<open>\<open>require_roles(*roles)\<close>: the platform administrator satisfies every requirement.\<close>

definition require_roles :: "user_role list \<Rightarrow> user_role \<Rightarrow> user_role result" where
  "require_roles roles role =
     (if role = PLATFORM_ADMIN then Inr role
      else if role \<notin> set roles then Inl (HTTPException 403 ''Required role'')
      else Inr role)"

definition require_platform_admin :: "user_role \<Rightarrow> user_role result" where
  "require_platform_admin role =
     (if role \<noteq> PLATFORM_ADMIN
      then Inl (HTTPException 403 ''Platform administrator access required.'')
      else Inr role)"

lemma require_roles_ok: "require_roles roles role = Inr r \<longleftrightarrow> r = role \<and> (role = PLATFORM_ADMIN \<or> role \<in> set roles)"
  by (auto simp: require_roles_def)

lemma require_platform_admin_ok: "require_platform_admin role = Inr r \<longleftrightarrow> r = role \<and> role = PLATFORM_ADMIN"
  by (auto simp: require_platform_admin_def)

text \<open>
  Management is a strict order on roles by rank, nobody manages
  their own rank, and the roles an administrator manages are exactly the four below it.
  The documentation of the guard says that no other role manages anyone; the rank table also
  lets the three middle roles manage viewers.
\<close>

theorem can_manage_hierarchy:
  "\<not> can_manage a a
   \<and> (can_manage a b \<and> can_manage b c \<longrightarrow> can_manage a c)
   \<and> (can_manage a b \<longrightarrow> \<not> can_manage b a)
   \<and> (can_manage ADMIN b \<longleftrightarrow> b \<in> {ENGINEER, FINOPS, EXECUTIVE, VIEWER})
   \<and> (can_manage PLATFORM_ADMIN b \<longleftrightarrow> b \<noteq> PLATFORM_ADMIN)
   \<and> (\<not> can_manage VIEWER b)
   \<and> (can_manage ENGINEER b \<longleftrightarrow> b = VIEWER)"
  by (cases b) (auto simp: can_manage_def)

theorem can_manage_hierarchy_witness:
  "can_manage PLATFORM_ADMIN ADMIN \<and> can_manage ADMIN VIEWER \<and> can_manage PLATFORM_ADMIN VIEWER"
  using can_manage_hierarchy [of PLATFORM_ADMIN ADMIN VIEWER] by (simp add: can_manage_def)

end
