(* ===== verification/Policy.thy ===== *)
theory Policy
  imports Identity
begin

text \<open>
  \<open>core/policy.py\<close>: the session context built from request headers and the authorization
  decision for actions on experiments. Header values are optional strings; the decision carries
  the identifier \<open>uuid4()\<close> drew for it, which is a parameter, and the clock value its success
  message prints.
\<close>

record session_context =
  session_risk :: string
  maintenance_window :: bool
  geo_velocity_high :: bool
  device_trusted :: bool

record policy_decision =
  allowed :: bool
  reason :: string
  policy_decision_id :: string

definition truthy_words :: "string list" where
  "truthy_words = [''1'', ''true'', ''yes'', ''y'', ''on'']"

text \<open>\<open>value or default\<close> for an optional string: the default for \<open>None\<close> and for the empty string.\<close>

definition str_or :: "string option \<Rightarrow> string \<Rightarrow> string" where
  "str_or v d = (case v of None \<Rightarrow> d | Some s \<Rightarrow> if s = [] then d else s)"

definition build_session_context ::
  "string option \<Rightarrow> string option \<Rightarrow> string option \<Rightarrow> string option \<Rightarrow> session_context" where
  "build_session_context risk window geo device =
     (let normalized_risk = py_lower (py_strip (str_or risk ''medium''));
          normalized_risk =
            (if normalized_risk \<notin> set [''low'', ''medium'', ''high''] then ''medium''
             else normalized_risk)
      in \<lparr>session_risk = normalized_risk,
          maintenance_window = py_lower (py_strip (str_or window '''')) \<in> set truthy_words,
          geo_velocity_high = py_lower (py_strip (str_or geo '''')) \<in> set truthy_words,
          device_trusted = py_lower (py_strip (str_or device ''true'')) \<in> set truthy_words\<rparr>)"

definition runtime_actions :: "string list" where
  "runtime_actions = [''experiment.transition.running'', ''experiment.run.create'']"

definition transition_actions :: "string list" where
  "transition_actions = [''experiment.transition.approved'', ''experiment.transition.running'']"

definition run_actions :: "string list" where
  "run_actions = [''experiment.run.create'', ''experiment.run.update'']"

definition executor_roles :: "string list" where
  "executor_roles = [role_value ADMIN, role_value ENGINEER]"

definition critical_words :: "string list" where
  "critical_words = [''critical'', ''tier0'', ''tier-0'']"

definition authorize_experiment_action ::
  "string \<Rightarrow> user_role \<Rightarrow> string option \<Rightarrow> string option \<Rightarrow> session_context \<Rightarrow> bool \<Rightarrow> nat
   \<Rightarrow> instant \<Rightarrow> string \<Rightarrow> policy_decision" where
  "authorize_experiment_action action role environment criticality session
     requires_dual_approval approval_count now decision_id =
     (let env = py_lower (str_or environment ''unknown'');
          crit = py_lower (str_or criticality ''medium'');
          deny = (\<lambda>r. \<lparr>allowed = False, reason = r, policy_decision_id = decision_id\<rparr>)
      in if role_value role = role_value VIEWER
         then deny ''viewer role cannot execute critical actions''
         else if session_risk session = ''high''
         then deny ''session risk is high''
         else if geo_velocity_high session \<and> action \<in> set runtime_actions
         then deny ''geo-velocity risk is high for this action''
         else if \<not> device_trusted session \<and> action \<in> set runtime_actions
         then deny ''untrusted device for runtime action''
         else if action \<in> set transition_actions \<and> role_value role \<notin> set executor_roles
         then deny ''role not allowed for approval or execution transition''
         else if action \<in> set run_actions \<and> role_value role \<notin> set executor_roles
         then deny ''role not allowed for run execution''
         else if env = ''production'' \<and> action \<in> set runtime_actions
           \<and> \<not> maintenance_window session
         then deny ''production execution requires maintenance window''
         else if crit \<in> set critical_words \<and> session_risk session \<noteq> ''low''
         then deny ''critical assets require low session risk''
         else if requires_dual_approval \<and> action = ''experiment.transition.running''
           \<and> approval_count < 2
         then deny ''high-risk experiment requires at least two approvals''
         else \<lparr>allowed = True,
               reason = ''authorized action='' @ action @ '' env='' @ env @ '' criticality='' @ crit
                 @ '' at='' @ isoformat now,
               policy_decision_id = decision_id\<rparr>)"

section \<open>The decision as a specification\<close>

text \<open>What the guard promises, stated without the order of its checks.\<close>

definition authorized_spec ::
  "string \<Rightarrow> user_role \<Rightarrow> string option \<Rightarrow> string option \<Rightarrow> session_context \<Rightarrow> bool \<Rightarrow> nat \<Rightarrow> bool" where
  "authorized_spec action role environment criticality session dual n \<longleftrightarrow>
     role \<noteq> VIEWER \<and> session_risk session \<noteq> ''high''
     \<and> (action \<in> set runtime_actions \<longrightarrow> \<not> geo_velocity_high session \<and> device_trusted session)
     \<and> (action \<in> set transition_actions \<union> set run_actions \<longrightarrow> role = ADMIN \<or> role = ENGINEER)
     \<and> (action \<in> set runtime_actions \<and> py_lower (str_or environment ''unknown'') = ''production''
        \<longrightarrow> maintenance_window session)
     \<and> (py_lower (str_or criticality ''medium'') \<in> set critical_words
        \<longrightarrow> session_risk session = ''low'')
     \<and> (dual \<and> action = ''experiment.transition.running'' \<longrightarrow> 2 \<le> n)"

lemma authorize_id [simp]:
  "policy_decision_id (authorize_experiment_action a r e c s d n t i) = i"
  by (simp add: authorize_experiment_action_def Let_def)

lemma executor_roles_iff [simp]: "role_value r \<in> set executor_roles \<longleftrightarrow> r = ADMIN \<or> r = ENGINEER"
  by (cases r) (simp_all add: executor_roles_def)

lemma allowed_if: "allowed (if c then x else y) = (if c then allowed x else allowed y)"
  by simp

lemma guard_chain: "(if c then False else p) \<longleftrightarrow> \<not> c \<and> p"
  by simp

lemma authorize_allowed:
  "allowed (authorize_experiment_action action role environment criticality session dual n now did)
   \<longleftrightarrow> authorized_spec action role environment criticality session dual n"
  unfolding authorize_experiment_action_def authorized_spec_def Let_def allowed_if
  by (simp only: policy_decision.select_convs role_value_inject executor_roles_iff Un_iff
      linorder_not_less [symmetric] guard_chain de_Morgan_conj not_not simp_thms) argo

lemma no_headers:
  "build_session_context None None None None =
     \<lparr>session_risk = ''medium'', maintenance_window = False, geo_velocity_high = False,
      device_trusted = True\<rparr>"
  by code_simp

lemma session_risk_level:
  "session_risk (build_session_context r w g d) \<in> set [''low'', ''medium'', ''high'']"
  by (simp only: build_session_context_def Let_def session_context.select_convs) simp

text \<open>
  The decision allows an action exactly when the specification holds, for
  every action string, role, environment, criticality, session and approval count.
\<close>

theorem authorize_iff_spec:
  "allowed (authorize_experiment_action action role environment criticality session dual n now did)
   \<longleftrightarrow> authorized_spec action role environment criticality session dual n"
  by (rule authorize_allowed)

text \<open>
  Whatever headers a client sends, the session risk is one of the three levels; a
  request without headers is medium risk, outside a maintenance window and on a trusted
  device, so it is refused on critical assets and refused to run anything in production.
\<close>

theorem session_context_defaults:
  "session_risk (build_session_context r w g d) \<in> set [''low'', ''medium'', ''high'']
   \<and> \<not> allowed (authorize_experiment_action a role env (Some ''critical'')
        (build_session_context None None None None) dual n now did)
   \<and> \<not> allowed (authorize_experiment_action ''experiment.run.create'' role (Some ''Production'') c
        (build_session_context None None None None) dual n now did)"
proof -
  have prod: "py_lower (str_or (Some ''Production'') ''unknown'') = ''production''"
    and crit: "py_lower (str_or (Some ''critical'') ''medium'') \<in> set critical_words"
    and run: "''experiment.run.create'' \<in> set runtime_actions"
    and med: "''medium'' \<noteq> ''low''"
    by code_simp+
  show ?thesis
    unfolding authorize_allowed authorized_spec_def no_headers
    using session_risk_level prod crit run med by simp
qed

end
