(* ===== verification/HashChain.thy ===== *)
theory HashChain
  imports Prelude
begin

text \<open>
  The contract of a hash chain, stated once: entries carry the hash of their predecessor and their
  own hash, which is a digest of a text built from the predecessor's hash and the entry. The locale
  asks only that the text determines the predecessor's hash it was built from. Inside it: what the
  verification loop accepts, that extending a verified chain by a correctly linked entry keeps it
  verified, and that two verified chains of the same length with the same last hash are built from
  the same texts unless two different texts with the same digest can be exhibited.
\<close>

locale hash_chain =
  fixes digest :: "'b \<Rightarrow> 'h"
    and base :: "'h \<Rightarrow> 'e \<Rightarrow> 'b"
    and prev_of :: "'e \<Rightarrow> 'h"
    and hash_of :: "'e \<Rightarrow> 'h"
    and genesis :: 'h
    and clean :: "'h \<Rightarrow> bool"
  assumes clean_genesis: "clean genesis"
    and clean_digest: "clean (digest b)"
    and base_prev: "clean p \<Longrightarrow> clean q \<Longrightarrow> base p e = base q f \<Longrightarrow> p = q"
begin

fun linked :: "'h \<Rightarrow> 'e list \<Rightarrow> bool" where
  "linked p [] = True"
| "linked p (e # es) = (prev_of e = p \<and> hash_of e = digest (base p e) \<and> linked (hash_of e) es)"

fun last_hash :: "'h \<Rightarrow> 'e list \<Rightarrow> 'h" where
  "last_hash p [] = p"
| "last_hash p (e # es) = last_hash (hash_of e) es"

fun texts :: "'h \<Rightarrow> 'e list \<Rightarrow> 'b list" where
  "texts p [] = []"
| "texts p (e # es) = base p e # texts (hash_of e) es"

lemma last_hash_append: "last_hash p (es @ fs) = last_hash (last_hash p es) fs"
  by (induction es arbitrary: p) auto

lemma last_hash_last: "es \<noteq> [] \<Longrightarrow> last_hash p es = hash_of (last es)"
  by (induction es arbitrary: p) auto

lemma linked_append: "linked p (es @ fs) \<longleftrightarrow> linked p es \<and> linked (last_hash p es) fs"
  by (induction es arbitrary: p) auto

lemma texts_append: "texts p (es @ fs) = texts p es @ texts (last_hash p es) fs"
  by (induction es arbitrary: p) auto

lemma linked_extend:
  "linked p es \<Longrightarrow> prev_of e = last_hash p es \<Longrightarrow> hash_of e = digest (base (last_hash p es) e)
   \<Longrightarrow> linked p (es @ [e])"
  by (simp add: linked_append)

lemma linked_prefix: "linked p (es @ fs) \<Longrightarrow> linked p es"
  by (simp add: linked_append)

lemma clean_last_hash: "clean p \<Longrightarrow> linked p es \<Longrightarrow> clean (last_hash p es)"
  by (induction es arbitrary: p) (auto simp: clean_digest)

text \<open>Binding: equal last hashes determine all texts, or a collision is at hand.\<close>

lemma binding:
  assumes "clean p" and "linked p es" and "linked p fs" and "length es = length fs"
    and "last_hash p es = last_hash p fs"
  shows "texts p es = texts p fs \<or> (\<exists>a b. a \<noteq> b \<and> digest a = digest b)"
  using assms(2-5)
proof (induction es arbitrary: fs rule: rev_induct)
  case Nil
  then show ?case by simp
next
  case (snoc e es)
  then obtain f fs' where fs: "fs = fs' @ [f]"
    by (metis append_Nil2 length_0_conv rev_exhaust length_append_singleton nat.distinct(1))
  let ?a = "base (last_hash p es) e" and ?b = "base (last_hash p fs') f"
  from snoc.prems fs have le: "linked p es" and lf: "linked p fs'" and len: "length es = length fs'"
    and dig: "digest ?a = digest ?b"
    by (auto simp: linked_append last_hash_append)
  show ?case
  proof (cases "?a = ?b")
    case False
    with dig show ?thesis by blast
  next
    case True
    have "last_hash p es = last_hash p fs'"
      using base_prev [OF _ _ True] clean_last_hash assms(1) le lf by blast
    with snoc.IH [OF le lf len] True fs show ?thesis by (auto simp: texts_append)
  qed
qed

end

end
