(* ===== verification/Float64.thy ===== *)
theory Float64
  imports Prelude "HOL-Library.Log_Nat"
begin

text \<open>
  Python's \<open>float\<close>: IEEE 754 binary64 with rounding to nearest, ties to even. A finite double is
  the rational it denotes (\<open>pyfloat\<close>); \<open>fl x\<close> is the double nearest to the exact rational \<open>x\<close>
  (53 significant bits, exponents down to the subnormal range), and each arithmetic operation of
  the code is the exact operation followed by \<open>fl\<close>. Values beyond the largest finite double,
  infinities and NaN are outside the model, and the two zeros are one value.
  \<open>py_round\<close> is \<open>round(x, n)\<close>: CPython rounds the exact binary value half to even at the given
  decimal digit and converts the decimal result back to the nearest double.
\<close>

type_synonym pyfloat = rat

definition pow2 :: "int \<Rightarrow> rat" where
  "pow2 e = (if 0 \<le> e then 2 ^ nat e else 1 / 2 ^ nat (- e))"

definition round_even :: "rat \<Rightarrow> int" where
  "round_even y =
     (let f = \<lfloor>y\<rfloor>; d = y - of_int f in
      if d < 1/2 then f else if d > 1/2 then f + 1 else if even f then f else f + 1)"

text \<open>\<open>fexp x\<close> is the exponent of the binade of a positive \<open>x\<close>.\<close>

definition fexp :: "rat \<Rightarrow> int" where
  "fexp x = (case quotient_of x of (p, q) \<Rightarrow>
     let e = bitlen p - bitlen q in if pow2 e \<le> x then e else e - 1)"

definition ulp :: "rat \<Rightarrow> rat" where
  "ulp x = pow2 (max (fexp x - 52) (-1074))"

definition fl :: "rat \<Rightarrow> pyfloat" where
  "fl x = (if x = 0 then 0 else let u = ulp \<bar>x\<bar> in of_int (round_even (x / u)) * u)"

definition fadd :: "pyfloat \<Rightarrow> pyfloat \<Rightarrow> pyfloat" where "fadd x y = fl (x + y)"
definition fsub :: "pyfloat \<Rightarrow> pyfloat \<Rightarrow> pyfloat" where "fsub x y = fl (x - y)"
definition fmul :: "pyfloat \<Rightarrow> pyfloat \<Rightarrow> pyfloat" where "fmul x y = fl (x * y)"
definition fdiv :: "pyfloat \<Rightarrow> pyfloat \<Rightarrow> pyfloat" where "fdiv x y = fl (x / y)"

definition py_round :: "nat \<Rightarrow> pyfloat \<Rightarrow> pyfloat" where
  "py_round n x = fl (of_int (round_even (x * 10 ^ n)) / 10 ^ n)"

definition py_sum :: "pyfloat list \<Rightarrow> pyfloat" where
  "py_sum xs = foldl fadd 0 xs"

section \<open>Powers of two and the binade of a number\<close>

lemma pow2_pos [simp]: "0 < pow2 e"
  by (simp add: pow2_def)

lemma pow2_nonneg [simp]: "0 \<le> pow2 e"
  using pow2_pos [of e] by linarith

lemma pow2_nonzero [simp]: "pow2 e \<noteq> 0"
  using pow2_pos [of e] by linarith

lemma pow2_powi: "pow2 e = 2 powi e"
  unfolding pow2_def power_int_def by (simp only: power_inverse divide_inverse mult_1_left)

lemma pow2_add: "pow2 (a + b) = pow2 a * pow2 b"
  by (simp add: pow2_powi power_int_add)

lemma pow2_diff: "pow2 (a - b) = pow2 a / pow2 b"
  by (simp add: pow2_powi power_int_diff)

lemma pow2_mono: "a \<le> b \<Longrightarrow> pow2 a \<le> pow2 b"
  by (simp add: pow2_powi power_int_increasing)

lemma pow2_strict_mono: "a < b \<Longrightarrow> pow2 a < pow2 b"
  by (simp add: pow2_powi power_int_strict_increasing)

lemma pow2_nat: "pow2 (int n) = 2 ^ n"
  by (simp add: pow2_def)

lemma pow2_int: "0 \<le> e \<Longrightarrow> \<exists>k :: int. 0 < k \<and> pow2 e = of_int k"
  by (rule exI [of _ "2 ^ nat e"]) (simp add: pow2_def)

lemma fexp_bounds:
  assumes "0 < x"
  shows "pow2 (fexp x) \<le> x" and "x < pow2 (fexp x + 1)"
proof -
  obtain p q where pq: "quotient_of x = (p, q)" by (cases "quotient_of x")
  then have q: "0 < q" and x: "x = of_int p / of_int q"
    using quotient_of_denom_pos quotient_of_div by blast+
  with assms have p: "0 < p"
    by (metis of_int_0_less_iff zero_less_divide_iff of_int_pos not_less_iff_gr_or_eq)
  let ?e = "bitlen p - bitlen q"
  have bl: "pow2 (bitlen m - 1) \<le> of_int m \<and> (of_int m :: rat) < pow2 (bitlen m)"
    if "0 < m" for m
  proof -
    from bitlen_bounds [OF that]
    have "(2::int) ^ nat (bitlen m - 1) \<le> m" and "m < 2 ^ nat (bitlen m)" by auto
    then have "(of_int (2 ^ nat (bitlen m - 1)) :: rat) \<le> of_int m"
      and "(of_int m :: rat) < of_int (2 ^ nat (bitlen m))"
      by (simp_all only: of_int_le_iff of_int_less_iff)
    moreover from that have "0 < bitlen m" by (simp add: bitlen_alt_def)
    ultimately show ?thesis by (simp add: pow2_def)
  qed
  have hi: "x < pow2 (?e + 1)"
  proof -
    have "of_int p < pow2 (bitlen p)" and "pow2 (bitlen q - 1) \<le> of_int q"
      using bl p q by auto
    then have "x < pow2 (bitlen p) / pow2 (bitlen q - 1)"
      unfolding x using p q by (intro frac_less) auto
    then show ?thesis by (simp add: pow2_diff [symmetric] algebra_simps)
  qed
  have lo: "pow2 (?e - 1) \<le> x"
  proof -
    have "pow2 (bitlen p - 1) \<le> of_int p" and "of_int q < pow2 (bitlen q)"
      using bl p q by auto
    then have "pow2 (bitlen p - 1) / pow2 (bitlen q) \<le> x"
      unfolding x using p q by (intro frac_le) auto
    then show ?thesis by (simp add: pow2_diff [symmetric] algebra_simps)
  qed
  show "pow2 (fexp x) \<le> x" and "x < pow2 (fexp x + 1)"
    using hi lo by (auto simp: fexp_def pq Let_def)
qed

lemma fexp_mono: "0 < x \<Longrightarrow> x \<le> y \<Longrightarrow> fexp x \<le> fexp y"
proof (rule ccontr)
  assume xy: "0 < x" "x \<le> y" and "\<not> fexp x \<le> fexp y"
  then have "pow2 (fexp y + 1) \<le> pow2 (fexp x)" by (intro pow2_mono) simp
  with fexp_bounds(1) [of x] fexp_bounds(2) [of y] xy show False by simp
qed

lemma ulp_pos [simp]: "0 < ulp x"
  by (simp add: ulp_def)

lemma ulp_nonzero [simp]: "ulp x \<noteq> 0"
  by (simp add: ulp_def)

section \<open>Rounding to an integer\<close>

lemma round_even_of_int [simp]: "round_even (of_int k) = k"
  by (simp add: round_even_def)

lemma round_even_cases: "round_even y = \<lfloor>y\<rfloor> \<or> round_even y = \<lfloor>y\<rfloor> + 1"
  by (auto simp: round_even_def Let_def)

lemma round_even_error: "\<bar>of_int (round_even y) - y\<bar> \<le> 1 / 2"
proof -
  have "of_int \<lfloor>y\<rfloor> \<le> y" and "y < of_int \<lfloor>y\<rfloor> + 1" by linarith+
  then show ?thesis by (auto simp: round_even_def Let_def abs_le_iff)
qed

lemma round_even_mono: "x \<le> y \<Longrightarrow> round_even x \<le> round_even y"
proof -
  assume xy: "x \<le> y"
  then have fl: "\<lfloor>x\<rfloor> \<le> \<lfloor>y\<rfloor>" by (rule floor_mono)
  show ?thesis
  proof (cases "\<lfloor>x\<rfloor> = \<lfloor>y\<rfloor>")
    case True
    with xy show ?thesis by (auto simp: round_even_def Let_def)
  next
    case False
    with fl round_even_cases [of x] round_even_cases [of y] show ?thesis by linarith
  qed
qed

lemma round_even_minus: "round_even (- y) = - round_even y"
proof (cases "y = of_int \<lfloor>y\<rfloor>")
  case True
  then have "- y = of_int (- \<lfloor>y\<rfloor>)" by simp
  with True show ?thesis by (metis round_even_of_int)
next
  case False
  then have fm: "\<lfloor>- y\<rfloor> = - \<lfloor>y\<rfloor> - 1" by linarith
  have d: "- y - of_int \<lfloor>- y\<rfloor> = 1 - (y - of_int \<lfloor>y\<rfloor>)" by (simp add: fm)
  show ?thesis
    unfolding round_even_def Let_def d unfolding fm by (auto simp: not_less)
qed

section \<open>Rounding to a double\<close>

lemma fl_0 [simp]: "fl 0 = 0"
  by (simp add: fl_def)

lemma fl_minus: "fl (- x) = - fl x"
  by (simp add: fl_def Let_def round_even_minus)

text \<open>A multiple of its own unit in the last place is a double.\<close>

lemma fl_exact: "x = of_int k * ulp \<bar>x\<bar> \<Longrightarrow> fl x = x"
proof (cases "x = 0")
  case False
  assume x: "x = of_int k * ulp \<bar>x\<bar>"
  then have "x / ulp \<bar>x\<bar> = of_int k" by (simp add: field_simps)
  with False x show ?thesis by (simp add: fl_def Let_def)
qed simp

lemma pow2_multiple:
  assumes "fexp x < e"
  shows "\<exists>k :: int. pow2 e = of_int k * ulp x \<or> pow2 e < pow2 (-1074)"
proof (cases "-1074 \<le> e")
  case True
  with assms have "0 \<le> e - max (fexp x - 52) (-1074)" by auto
  then obtain k :: int where "pow2 (e - max (fexp x - 52) (-1074)) = of_int k"
    using pow2_int by blast
  then have "pow2 e = of_int k * ulp x"
    by (simp add: ulp_def pow2_diff field_simps)
  then show ?thesis by blast
next
  case False
  then show ?thesis using pow2_strict_mono [of e "-1074"] by auto
qed

lemma fl_mono_pos: "0 < x \<Longrightarrow> x \<le> y \<Longrightarrow> fl x \<le> fl y"
proof -
  assume x: "0 < x" and xy: "x \<le> y"
  then have y: "0 < y" by simp
  have fe: "fexp x \<le> fexp y" using x xy by (rule fexp_mono)
  have flx: "fl z = of_int (round_even (z / ulp z)) * ulp z" if "0 < z" for z
    using that by (simp add: fl_def Let_def)
  show ?thesis
  proof (cases "ulp x = ulp y")
    case True
    from xy have "x / ulp y \<le> y / ulp y" by (simp add: divide_right_mono less_imp_le)
    then have "round_even (x / ulp y) \<le> round_even (y / ulp y)" by (rule round_even_mono)
    then have "(of_int (round_even (x / ulp y)) :: rat) \<le> of_int (round_even (y / ulp y))"
      by (simp only: of_int_le_iff)
    then show ?thesis
      using x y True by (simp add: flx mult_right_mono less_imp_le)
  next
    case False
    let ?b = "pow2 (fexp y)"
    from False have "fexp x \<noteq> fexp y" by (auto simp: ulp_def)
    with fe have lt: "fexp x < fexp y" by simp
    have ey: "-1074 < fexp y - 52"
    proof (rule ccontr)
      assume "\<not> -1074 < fexp y - 52"
      with fe have "max (fexp x - 52) (-1074) = max (fexp y - 52) (-1074)" by simp
      with False show False by (simp add: ulp_def)
    qed
    from lt have "0 \<le> fexp y - max (fexp x - 52) (-1074)" using ey by auto
    then obtain k :: int where k: "pow2 (fexp y - max (fexp x - 52) (-1074)) = of_int k"
      using pow2_int by blast
    then have bk: "?b = of_int k * ulp x" by (simp add: ulp_def pow2_diff field_simps)
    have "x < ?b"
      using fexp_bounds(2) [OF x] pow2_mono [of "fexp x + 1" "fexp y"] lt by simp
    then have "x / ulp x \<le> of_int k" by (simp add: bk divide_le_eq less_imp_le)
    then have "round_even (x / ulp x) \<le> k" using round_even_mono by fastforce
    then have "(of_int (round_even (x / ulp x)) :: rat) \<le> of_int k" by (simp only: of_int_le_iff)
    then have 1: "fl x \<le> ?b" using x by (simp add: flx bk mult_right_mono less_imp_le)
    have uy: "ulp y = pow2 (fexp y - 52)" using ey by (simp add: ulp_def max_def)
    obtain j :: int where j: "pow2 52 = of_int j" using pow2_int [of 52] by auto
    have bj: "?b = of_int j * ulp y" by (simp add: uy pow2_diff j [symmetric])
    from fexp_bounds(1) [OF y] have "of_int j \<le> y / ulp y" by (simp add: bj le_divide_eq)
    then have "j \<le> round_even (y / ulp y)" using round_even_mono by fastforce
    then have "(of_int j :: rat) \<le> of_int (round_even (y / ulp y))" by (simp only: of_int_le_iff)
    then have 2: "?b \<le> fl y" using y by (simp add: flx bj mult_right_mono less_imp_le)
    from 1 2 show ?thesis by simp
  qed
qed

lemma fl_nonneg: "0 \<le> x \<Longrightarrow> 0 \<le> fl x"
proof (cases "x = 0")
  case False
  assume "0 \<le> x"
  with False have "0 < x" by simp
  then have "0 \<le> x / ulp x" by (simp add: less_imp_le)
  then have "round_even 0 \<le> round_even (x / ulp x)" by (rule round_even_mono)
  then have "0 \<le> round_even (x / ulp x)" using round_even_of_int [of 0] by simp
  with \<open>0 < x\<close> show ?thesis by (simp add: fl_def Let_def less_imp_le)
qed simp

lemma fl_nonpos: "x \<le> 0 \<Longrightarrow> fl x \<le> 0"
  using fl_nonneg [of "- x"] by (simp add: fl_minus)

theorem fl_mono: "x \<le> y \<Longrightarrow> fl x \<le> fl y"
proof -
  assume xy: "x \<le> y"
  consider "0 < x" | "x \<le> 0" "0 \<le> y" | "y < 0" by linarith
  then show ?thesis
  proof cases
    case 1
    then show ?thesis using xy by (rule fl_mono_pos)
  next
    case 2
    then show ?thesis using fl_nonpos fl_nonneg order_trans by blast
  next
    case 3
    then have "fl (- y) \<le> fl (- x)" using xy by (intro fl_mono_pos) auto
    then show ?thesis by (simp add: fl_minus)
  qed
qed

lemma fl_of_int: "\<bar>k\<bar> < 2 ^ 53 \<Longrightarrow> fl (of_int k) = of_int k"
proof (cases "k = 0")
  case False
  assume k: "\<bar>k\<bar> < 2 ^ 53"
  let ?x = "of_int \<bar>k\<bar> :: rat"
  from False have pos: "0 < ?x" by simp
  have "fexp ?x < 53"
  proof (rule ccontr)
    assume "\<not> fexp ?x < 53"
    then have "pow2 53 \<le> ?x"
      using fexp_bounds(1) [OF pos] pow2_mono [of 53 "fexp ?x"] by auto
    moreover have "pow2 53 = of_int (2 ^ 53)" by (simp add: pow2_def)
    ultimately have "(of_int (2 ^ 53) :: rat) \<le> of_int \<bar>k\<bar>" by simp
    then have "2 ^ 53 \<le> \<bar>k\<bar>" by (simp only: of_int_le_iff)
    with k show False by simp
  qed
  then have "0 \<le> - max (fexp ?x - 52) (-1074)" by auto
  then obtain j :: int where "pow2 (- max (fexp ?x - 52) (-1074)) = of_int j"
    using pow2_int by blast
  then have "of_int j * ulp ?x = 1"
    using pow2_diff [of 0 "max (fexp ?x - 52) (-1074)"]
    by (simp add: ulp_def pow2_def [of 0])
  then have "(of_int k :: rat) = of_int (k * j) * ulp \<bar>of_int k\<bar>" by (simp add: mult.assoc)
  then show ?thesis by (rule fl_exact)
qed simp

lemma fl_numeral [simp]: "numeral n < (2 :: int) ^ 53 \<Longrightarrow> fl (numeral n) = numeral n"
  using fl_of_int [of "numeral n"] by simp

lemma fl_1 [simp]: "fl 1 = 1"
  using fl_of_int [of 1] by simp

text \<open>The rounding error is at most half a unit in the last place.\<close>

lemma fl_error: "\<bar>fl x - x\<bar> \<le> ulp \<bar>x\<bar> / 2"
proof (cases "x = 0")
  case False
  let ?u = "ulp \<bar>x\<bar>"
  have "fl x - x = (of_int (round_even (x / ?u)) - x / ?u) * ?u"
    using False by (simp add: fl_def Let_def algebra_simps)
  then have "\<bar>fl x - x\<bar> = \<bar>of_int (round_even (x / ?u)) - x / ?u\<bar> * ?u"
    by (simp add: abs_mult less_imp_le)
  also have "\<dots> \<le> 1 / 2 * ?u" by (rule mult_right_mono [OF round_even_error]) (simp add: less_imp_le)
  finally show ?thesis by simp
qed (simp add: less_imp_le)

lemma fexp_le: "0 < x \<Longrightarrow> x \<le> pow2 e \<Longrightarrow> fexp x \<le> e"
proof (rule ccontr)
  assume x: "0 < x" "x \<le> pow2 e" and "\<not> fexp x \<le> e"
  then have "pow2 e < pow2 (fexp x)" by (intro pow2_strict_mono) simp
  with fexp_bounds(1) [OF x(1)] x(2) show False by simp
qed

lemma fexp_less: "0 < x \<Longrightarrow> x < pow2 e \<Longrightarrow> fexp x < e"
proof (rule ccontr)
  assume x: "0 < x" "x < pow2 e" and "\<not> fexp x < e"
  then have "pow2 e \<le> pow2 (fexp x)" by (intro pow2_mono) simp
  with fexp_bounds(1) [OF x(1)] x(2) show False by simp
qed

text \<open>An integer of at most 53 bits times a power of two down to the subnormal unit is a double.\<close>

lemma fl_scaled:
  assumes "max (fexp \<bar>of_int m * pow2 e\<bar> - 52) (-1074) \<le> e"
  shows "fl (of_int m * pow2 e) = of_int m * pow2 e"
proof -
  let ?E = "max (fexp \<bar>of_int m * pow2 e\<bar> - 52) (-1074)"
  from assms obtain k :: int where "pow2 (e - ?E) = of_int k" using pow2_int [of "e - ?E"] by auto
  then have "pow2 e = of_int k * ulp \<bar>of_int m * pow2 e\<bar>"
    by (simp add: ulp_def pow2_diff field_simps)
  then have "of_int m * pow2 e = of_int (m * k) * ulp \<bar>of_int m * pow2 e\<bar>"
    by (metis mult.assoc of_int_mult)
  then show ?thesis by (rule fl_exact)
qed

lemma fl_repr:
  assumes "\<bar>m\<bar> \<le> 2 ^ 53" and "-1074 \<le> e"
  shows "fl (of_int m * pow2 e) = of_int m * pow2 e"
proof (cases "m = 0")
  case False
  let ?x = "\<bar>of_int m * pow2 e\<bar>"
  have pos: "0 < ?x" using False by simp
  have x: "?x = of_int \<bar>m\<bar> * pow2 e" by (simp add: abs_mult)
  have top: "of_int (2 ^ 53) * pow2 e = pow2 (53 + e)"
    by (simp only: pow2_add) (simp add: pow2_def)
  show ?thesis
  proof (cases "\<bar>m\<bar> = 2 ^ 53")
    case True
    have "fexp ?x \<le> 53 + e" using fexp_le [OF pos] True x top by simp
    then have "max (fexp ?x - 52) (-1074) \<le> e + 1" using assms(2) by simp
    moreover have "of_int m * pow2 e = of_int (m div 2) * pow2 (e + 1)"
    proof -
      have "even m" using True by (metis dvd_abs_iff even_numeral even_power zero_less_numeral)
      then have "m = 2 * (m div 2)" by simp
      then have "(of_int m :: rat) = 2 * of_int (m div 2)" by (metis of_int_mult of_int_numeral)
      then show ?thesis by (simp add: pow2_add) (simp add: pow2_def)
    qed
    ultimately show ?thesis using fl_scaled [of "m div 2" "e + 1"] by simp
  next
    case False
    with assms(1) have "\<bar>m\<bar> < 2 ^ 53" by simp
    then have "(of_int \<bar>m\<bar> :: rat) < of_int (2 ^ 53)" by (simp only: of_int_less_iff)
    then have "?x < pow2 (53 + e)" unfolding x top [symmetric] by (rule mult_strict_right_mono) simp
    then have "fexp ?x < 53 + e" by (rule fexp_less [OF pos])
    then have "max (fexp ?x - 52) (-1074) \<le> e" using assms(2) by simp
    then show ?thesis by (rule fl_scaled)
  qed
qed simp

text \<open>A rounded value is a double: rounding again changes nothing.\<close>

lemma fl_idem [simp]: "fl (fl x) = fl x"
proof (cases "x = 0")
  case False
  let ?e = "max (fexp \<bar>x\<bar> - 52) (-1074)" and ?m = "round_even (x / ulp \<bar>x\<bar>)"
  from False have pos: "0 < \<bar>x\<bar>" by simp
  have "\<bar>x\<bar> < pow2 (fexp \<bar>x\<bar> + 1)" by (rule fexp_bounds(2) [OF pos])
  also have "\<dots> \<le> pow2 (53 + ?e)" by (rule pow2_mono) simp
  also have "\<dots> = of_int (2 ^ 53) * ulp \<bar>x\<bar>"
    by (simp only: pow2_add ulp_def) (simp add: pow2_def)
  finally have "\<bar>x / ulp \<bar>x\<bar>\<bar> \<le> of_int (2 ^ 53)" by (simp add: abs_divide divide_le_eq less_imp_le)
  then have "x / ulp \<bar>x\<bar> \<le> of_int (2 ^ 53)" and "of_int (- (2 ^ 53)) \<le> x / ulp \<bar>x\<bar>"
    unfolding abs_le_iff by (simp_all only: of_int_minus) linarith
  then have "?m \<le> 2 ^ 53" and "- (2 ^ 53) \<le> ?m"
    using round_even_mono [of "x / ulp \<bar>x\<bar>" "of_int (2 ^ 53)"]
      round_even_mono [of "of_int (- (2 ^ 53))" "x / ulp \<bar>x\<bar>"]
    unfolding round_even_of_int by blast+
  then have "\<bar>?m\<bar> \<le> 2 ^ 53" by simp
  moreover have "fl x = of_int ?m * pow2 ?e" using False by (simp add: fl_def Let_def ulp_def)
  ultimately show ?thesis using fl_repr [of ?m ?e] by simp
qed simp

section \<open>Consequences used by the components\<close>

lemma fl_py_round [simp]: "fl (py_round n x) = py_round n x"
  by (simp add: py_round_def)

text \<open>Adding a non-negative double never lowers a double.\<close>

lemma fadd_ge: "fl x = x \<Longrightarrow> 0 \<le> y \<Longrightarrow> x \<le> fadd x y"
  using fl_mono [of x "x + y"] by (simp add: fadd_def)

lemma fsub_le: "fl x = x \<Longrightarrow> 0 \<le> y \<Longrightarrow> fsub x y \<le> x"
  using fl_mono [of "x - y" x] by (simp add: fsub_def)

lemma fl_ops [simp]: "fl (fadd x y) = fadd x y" "fl (fsub x y) = fsub x y"
  "fl (fmul x y) = fmul x y" "fl (fdiv x y) = fdiv x y"
  by (simp_all add: fadd_def fsub_def fmul_def fdiv_def)

lemma fl_le_int: "x \<le> of_int k \<Longrightarrow> \<bar>k\<bar> < 2 ^ 53 \<Longrightarrow> fl x \<le> of_int k"
  using fl_mono [of x "of_int k"] by (simp add: fl_of_int)

lemma fl_ge_int: "of_int k \<le> x \<Longrightarrow> \<bar>k\<bar> < 2 ^ 53 \<Longrightarrow> of_int k \<le> fl x"
  using fl_mono [of "of_int k" x] by (simp add: fl_of_int)

lemma py_round_mono: "x \<le> y \<Longrightarrow> py_round n x \<le> py_round n y"
  unfolding py_round_def
  by (intro fl_mono divide_right_mono) (auto intro: round_even_mono mult_right_mono)

lemma py_round_0 [simp]: "py_round n 0 = 0"
  using round_even_of_int [of 0] by (simp add: py_round_def)

lemma py_round_of_int: "\<bar>k\<bar> < 2 ^ 53 \<Longrightarrow> py_round n (of_int k) = of_int k"
proof -
  assume k: "\<bar>k\<bar> < 2 ^ 53"
  have "(of_int k :: rat) * 10 ^ n = of_int (k * 10 ^ n)" by simp
  then have "round_even (of_int k * 10 ^ n) = k * 10 ^ n" by (metis round_even_of_int)
  then show ?thesis using k by (simp add: py_round_def fl_of_int)
qed

lemma py_round_nonneg: "0 \<le> x \<Longrightarrow> 0 \<le> py_round n x"
  using py_round_mono [of 0 x n] by simp

lemma fadd_mono: "a \<le> c \<Longrightarrow> b \<le> d \<Longrightarrow> fadd a b \<le> fadd c d"
  unfolding fadd_def by (intro fl_mono add_mono)

lemma fsub_mono: "a \<le> c \<Longrightarrow> d \<le> b \<Longrightarrow> fsub a b \<le> fsub c d"
  unfolding fsub_def by (intro fl_mono diff_mono)

lemma fmul_mono: "a \<le> c \<Longrightarrow> 0 \<le> k \<Longrightarrow> fmul a k \<le> fmul c k"
  unfolding fmul_def by (intro fl_mono mult_right_mono)

lemma fdiv_mono: "a \<le> c \<Longrightarrow> 0 < k \<Longrightarrow> fdiv a k \<le> fdiv c k"
  unfolding fdiv_def by (intro fl_mono divide_right_mono) auto

lemma fadd_nonneg: "0 \<le> a \<Longrightarrow> 0 \<le> b \<Longrightarrow> 0 \<le> fadd a b"
  unfolding fadd_def by (intro fl_nonneg) simp

lemma fmul_nonneg: "0 \<le> a \<Longrightarrow> 0 \<le> b \<Longrightarrow> 0 \<le> fmul a b"
  unfolding fmul_def by (intro fl_nonneg) simp

lemmas float_mono = fl_mono fadd_mono fsub_mono fmul_mono fdiv_mono py_round_mono

end
