(* ===== verification/JsonCanon.thy ===== *)
theory JsonCanon
  imports Prelude Float64 "HOL-Library.Char_ord" "HOL-Library.List_Lexorder"
begin

text \<open>
  The payloads of the audit chain and their canonical text: \<open>_normalize_payload\<close> and
  \<open>_canonical_payload\<close> of \<open>AuditChainService\<close>, with the part of \<open>json.dumps\<close> they use
  (\<open>sort_keys=True\<close>, \<open>separators=(",", ":")\<close>, \<open>ensure_ascii=False\<close>). \<open>pyval\<close> are the Python values a
  payload is made of, \<open>json\<close> the values left after normalisation. Dictionaries are association
  lists with distinct keys; every call site uses string keys, on which \<open>str(k)\<close> is the identity.
  The text of a float (\<open>float.__repr__\<close>) is a parameter \<open>frepr\<close>.
\<close>

datatype json =
    JNull
  | JBool bool
  | JInt int
  | JFloat pyfloat
  | JStr string
  | JList "json list"
  | JDict "(string \<times> json) list"

datatype pyval =
    PNone
  | PBool bool
  | PInt int
  | PFloat pyfloat
  | PStr string
  | PUuid uuid
  | PDatetime instant
  | PEnum string
  | PList "pyval list"
  | PTuple "pyval list"
  | PDict "(string \<times> pyval) list"

fun normalize_payload :: "pyval \<Rightarrow> json" where
  "normalize_payload (PDict kvs) = JDict (map (\<lambda>(k, v). (k, normalize_payload v)) kvs)"
| "normalize_payload (PList vs) = JList (map normalize_payload vs)"
| "normalize_payload (PTuple vs) = JList (map normalize_payload vs)"
| "normalize_payload (PUuid u) = JStr (uuid_str u)"
| "normalize_payload (PDatetime t) = JStr (isoformat t)"
| "normalize_payload (PEnum v) = JStr v"
| "normalize_payload PNone = JNull"
| "normalize_payload (PBool b) = JBool b"
| "normalize_payload (PInt i) = JInt i"
| "normalize_payload (PFloat x) = JFloat x"
| "normalize_payload (PStr s) = JStr s"

text \<open>A stored payload is read back as plain dictionaries, lists and scalars.\<close>

fun of_json :: "json \<Rightarrow> pyval" where
  "of_json (JDict kvs) = PDict (map (\<lambda>(k, v). (k, of_json v)) kvs)"
| "of_json (JList vs) = PList (map of_json vs)"
| "of_json JNull = PNone"
| "of_json (JBool b) = PBool b"
| "of_json (JInt i) = PInt i"
| "of_json (JFloat x) = PFloat x"
| "of_json (JStr s) = PStr s"

section \<open>Printing\<close>

definition json_esc :: "char \<Rightarrow> string" where
  "json_esc c =
     (if c = CHR ''\"'' then [CHR 0x5C, CHR ''\"'']
      else if c = CHR 0x5C then [CHR 0x5C, CHR 0x5C]
      else if c = CHR 0x0A then [CHR 0x5C, CHR ''n'']
      else if c = CHR 0x0D then [CHR 0x5C, CHR ''r'']
      else if c = CHR 0x09 then [CHR 0x5C, CHR ''t'']
      else if c = CHR 0x08 then [CHR 0x5C, CHR ''b'']
      else if c = CHR 0x0C then [CHR 0x5C, CHR ''f'']
      else if (of_char c :: nat) < 32 then CHR 0x5C # CHR ''u'' # hex_digits 4 (of_char c)
      else [c])"

definition json_string :: "string \<Rightarrow> string" where
  "json_string s = [CHR ''\"''] @ concat (map json_esc s) @ [CHR ''\"'']"

fun dumps :: "bool \<Rightarrow> (pyfloat \<Rightarrow> string) \<Rightarrow> json \<Rightarrow> string" where
  "dumps srt frepr JNull = ''null''"
| "dumps srt frepr (JBool b) = (if b then ''true'' else ''false'')"
| "dumps srt frepr (JInt i) = int_str i"
| "dumps srt frepr (JFloat x) = frepr x"
| "dumps srt frepr (JStr s) = json_string s"
| "dumps srt frepr (JList vs) = ''['' @ py_join '','' (map (dumps srt frepr) vs) @ '']''"
| "dumps srt frepr (JDict kvs) =
     (let kts = map (\<lambda>(k, v). (k, dumps srt frepr v)) kvs;
          kts = (if srt then sort_key fst kts else kts)
      in ''{'' @ py_join '','' (map (\<lambda>(k, t). json_string k @ '':'' @ t) kts) @ ''}'')"

definition canonical_payload :: "(pyfloat \<Rightarrow> string) \<Rightarrow> pyval \<Rightarrow> string" where
  "canonical_payload frepr p = dumps True frepr (normalize_payload p)"

section \<open>Normalisation\<close>

lemma normalize_of_json [simp]: "normalize_payload (of_json j) = j"
proof (induction j)
  case (JDict kvs)
  then show ?case by (force intro!: map_idI simp: comp_def)
qed (auto intro: map_idI simp: comp_def)

lemma canonical_of_stored [simp]:
  "canonical_payload frepr (of_json (normalize_payload p)) = canonical_payload frepr p"
  by (simp add: canonical_payload_def)

text \<open>The text contains no line break, whatever the strings in the payload are.\<close>

lemma hex_char_not_newline: "d < 16 \<Longrightarrow> hex_char d \<noteq> CHR 0x0A"
proof
  assume "d < 16" and "hex_char d = CHR 0x0A"
  then have "(of_char (hex_char d) :: nat) = of_char (CHR 0x0A)" by simp
  with \<open>d < 16\<close> show False by (auto simp: hex_char_def split: if_splits)
qed

lemma hex_digits_no_newline: "CHR 0x0A \<notin> set (hex_digits w n)"
proof (induction w arbitrary: n)
  case (Suc w)
  then show ?case using hex_char_not_newline [of "n mod 16"] by auto
qed simp

lemma json_esc_no_newline: "CHR 0x0A \<notin> set (json_esc c)"
  using hex_digits_no_newline [of 4 "of_char c"] by (auto simp: json_esc_def)

lemma json_string_no_newline: "CHR 0x0A \<notin> set (json_string s)"
  using json_esc_no_newline by (auto simp: json_string_def)

lemma py_join_set: "set (py_join sep xs) \<subseteq> set sep \<union> \<Union> (set ` set xs)"
  by (induction sep xs rule: py_join.induct) auto

lemma int_str_no_newline: "CHR 0x0A \<notin> set (int_str i)"
  using nat_str_digits [of "CHR 0x0A"] by (auto simp: int_str_def is_digit_char_def)

lemma dumps_no_newline:
  assumes "\<And>x. CHR 0x0A \<notin> set (frepr x)"
  shows "CHR 0x0A \<notin> set (dumps srt frepr j)"
proof (induction j)
  case (JList vs)
  then show ?case using py_join_set [of "'',''" "map (dumps srt frepr) vs"] by auto
next
  case (JDict kvs)
  define ts where "ts = (let kts = map (\<lambda>(k, v). (k, dumps srt frepr v)) kvs
    in if srt then sort_key fst kts else kts)"
  have "set ts = set (map (\<lambda>(k, v). (k, dumps srt frepr v)) kvs)"
    by (simp add: ts_def Let_def)
  then have "CHR 0x0A \<notin> set (json_string k @ '':'' @ t)" if "(k, t) \<in> set ts" for k t
    using that JDict json_string_no_newline [of k] by force
  then have "CHR 0x0A \<notin> \<Union> (set ` set (map (\<lambda>(k, t). json_string k @ '':'' @ t) ts))"
    by force
  moreover have "dumps srt frepr (JDict kvs) =
      ''{'' @ py_join '','' (map (\<lambda>(k, t). json_string k @ '':'' @ t) ts) @ ''}''"
    by (simp add: ts_def Let_def)
  ultimately show ?case
    using py_join_set [of "'',''" "map (\<lambda>(k, t). json_string k @ '':'' @ t) ts"]
    by (auto simp del: set_map dumps.simps)
qed (auto simp: assms int_str_no_newline json_string_no_newline)

end
