(* ===== verification/AuditChain.thy ===== *)
theory AuditChain
  imports HashChain JsonCanon "HOL-Library.Product_Lexorder" "HOL-Library.Multiset"
begin

text \<open>
  \<open>domains/audit_chain/service.py\<close>: the hash-chained audit log of an organization and its signed
  checkpoints. The state (\<open>audit_db\<close>) holds the two tables and the alert requests the service
  hands to the notifications service. SHA-256 and HMAC-SHA-256 are parameters (the record
  \<open>platform\<close>: text to 256 bits); their hexadecimal digests are computed here. A call draws the identifier and the
  clock reading of the row it writes from outside (\<open>stamp\<close>).
\<close>

text \<open>What the service takes from the platform: the digests, the printer of floats, the secret.\<close>

record platform =
  sha256 :: "string \<Rightarrow> 256 word"
  hmac_sha256 :: "string \<Rightarrow> string \<Rightarrow> 256 word"
  float_repr :: "pyfloat \<Rightarrow> string"
  float_of_str :: "string \<Rightarrow> pyfloat option"
  secret_key :: string

section \<open>State\<close>

record audit_event =
  ev_id :: uuid
  ev_org :: uuid
  ev_actor :: "uuid option"
  event_type :: string
  entity_type :: string
  entity_id :: string
  payload :: json
  prev_hash :: string
  event_hash :: string
  created_at :: instant

record audit_checkpoint =
  cp_id :: uuid
  cp_org :: uuid
  generated_by :: "uuid option"
  latest_event_hash :: string
  cp_checked_events :: nat
  snapshot_payload :: json
  snapshot_signature :: string
  cp_created_at :: instant

datatype severity = INFO | WARNING | CRITICAL

record alert_request =
  alert_org :: uuid
  alert_severity :: severity
  alert_event_type :: string
  alert_title :: string
  alert_body :: string
  alert_source_id :: string

record audit_db =
  events :: "audit_event list"
  checkpoints :: "audit_checkpoint list"
  alerts :: "alert_request list"

type_synonym stamp = "uuid \<times> instant"

definition empty_audit :: audit_db where
  "empty_audit = \<lparr>events = [], checkpoints = [], alerts = []\<rparr>"

section \<open>Hashing\<close>

definition GENESIS_HASH :: string where
  "GENESIS_HASH = ''GENESIS''"

definition hexdigest :: "256 word \<Rightarrow> string" where
  "hexdigest w = hex_digits 64 (unat w)"

definition actor_value :: "uuid option \<Rightarrow> string" where
  "actor_value a = (case a of None \<Rightarrow> ''system'' | Some u \<Rightarrow> uuid_str u)"

definition hash_base ::
  "platform \<Rightarrow> string \<Rightarrow> uuid \<Rightarrow> uuid option \<Rightarrow> string \<Rightarrow> string \<Rightarrow> string \<Rightarrow> pyval
   \<Rightarrow> instant \<Rightarrow> string" where
  "hash_base pf prev org actor etype entity eid pl created =
     py_join ''|'' [prev, uuid_str org, actor_value actor, etype, entity, eid,
       canonical_payload (float_repr pf) pl, isoformat created]"

definition build_hash ::
  "platform \<Rightarrow> string \<Rightarrow> uuid \<Rightarrow> uuid option \<Rightarrow> string \<Rightarrow> string
   \<Rightarrow> string \<Rightarrow> pyval \<Rightarrow> instant \<Rightarrow> string" where
  "build_hash pf prev org actor etype entity eid pl created =
     hexdigest (sha256 pf (hash_base pf prev org actor etype entity eid pl created))"

section \<open>Queries\<close>

definition ev_key :: "audit_event \<Rightarrow> instant \<times> uuid" where
  "ev_key e = (created_at e, ev_id e)"

definition cp_key :: "audit_checkpoint \<Rightarrow> instant \<times> uuid" where
  "cp_key c = (cp_created_at c, cp_id c)"

text \<open>The events of an organization, oldest first; \<open>latest_for_org\<close> takes the newest.\<close>

definition org_events :: "uuid \<Rightarrow> 'z audit_db_scheme \<Rightarrow> audit_event list" where
  "org_events org db = sort_key ev_key (filter (\<lambda>e. ev_org e = org) (events db))"

definition latest_for_org :: "uuid \<Rightarrow> 'z audit_db_scheme \<Rightarrow> audit_event option" where
  "latest_for_org org db =
     (case rev (org_events org db) of [] \<Rightarrow> None | e # _ \<Rightarrow> Some e)"

definition AUDIT_NOTIFICATION_ALLOWLIST :: "string list" where
  "AUDIT_NOTIFICATION_ALLOWLIST =
     [''invite.created'', ''invite.accepted'', ''invite.revoked'', ''auth.user.deactivated'',
      ''auth.passkey.revoked'', ''auth.mfa.totp.enabled'', ''auth.mfa.totp.disabled'',
      ''auth.password.changed'', ''auth.password.admin_reset'', ''auth.mfa.admin_reset'',
      ''auth.user.lgpd_purge'', ''cloud_account.created'', ''cloud_account.deleted'',
      ''cloud_account.sync.completed'', ''cloud_account.sync.warning'',
      ''worker.ingestion.dlq_failure'', ''worker.carbon_sync.dlq_failure'',
      ''budget.threshold.crossed'', ''cost.anomaly.detected'', ''support_access.started'',
      ''support_access.ended'', ''platform_admin.workspace.force_suspended'',
      ''platform_admin.workspace.force_restored'', ''platform_admin.workspace.force_archived'',
      ''experiment.approved'', ''change_event.created'']"

definition should_emit_notification :: "string \<Rightarrow> bool" where
  "should_emit_notification etype \<longleftrightarrow> etype \<in> set AUDIT_NOTIFICATION_ALLOWLIST"

definition event_severity :: "string \<Rightarrow> severity" where
  "event_severity etype =
     (let normalized_event = py_lower etype in
      if list_ex (py_contains normalized_event) [''blocked'', ''compromised'', ''critical''] then CRITICAL
      else if list_ex (py_contains normalized_event) [''deleted'', ''revoked'', ''failed'', ''denied'']
      then WARNING
      else INFO)"

section \<open>Appending\<close>

definition new_event ::
  "platform \<Rightarrow> uuid \<Rightarrow> uuid option \<Rightarrow> string \<Rightarrow> string \<Rightarrow> string
   \<Rightarrow> pyval \<Rightarrow> stamp \<Rightarrow> 'z audit_db_scheme \<Rightarrow> audit_event" where
  "new_event pf org actor etype entity eid pl st db =
     (let normalized_payload = normalize_payload pl;
          prev = (case latest_for_org org db of None \<Rightarrow> GENESIS_HASH | Some e \<Rightarrow> event_hash e);
          created = snd st;
          h = build_hash pf prev org actor etype entity eid (of_json normalized_payload) created
      in \<lparr>ev_id = fst st, ev_org = org, ev_actor = actor, event_type = etype, entity_type = entity,
          entity_id = eid, payload = normalized_payload, prev_hash = prev, event_hash = h,
          created_at = created\<rparr>)"

definition new_alert :: "audit_event \<Rightarrow> alert_request" where
  "new_alert e =
     \<lparr>alert_org = ev_org e, alert_severity = event_severity (event_type e),
      alert_event_type = event_type e, alert_title = ''Activity: '' @ event_type e,
      alert_body = entity_type e @ '' '' @ entity_id e @ '' updated by workspace action.'',
      alert_source_id = uuid_str (ev_id e)\<rparr>"

definition append_event ::
  "platform \<Rightarrow> uuid \<Rightarrow> uuid option \<Rightarrow> string \<Rightarrow> string \<Rightarrow> string
   \<Rightarrow> pyval \<Rightarrow> stamp \<Rightarrow> 'z audit_db_scheme \<Rightarrow> 'z audit_db_scheme" where
  "append_event pf org actor etype entity eid pl st db =
     (let e = new_event pf org actor etype entity eid pl st db;
          db = db\<lparr>events := row_add e (events db)\<rparr>
      in if should_emit_notification etype then db\<lparr>alerts := alerts db @ [new_alert e]\<rparr> else db)"

section \<open>Verification\<close>

record audit_verification =
  is_valid :: bool
  checked_events :: nat
  broken_event_id :: "uuid option"
  expected_prev_hash :: "string option"
  found_prev_hash :: "string option"

text \<open>The hash recomputed for a stored event on top of a previous hash.\<close>

definition event_base :: "platform \<Rightarrow> string \<Rightarrow> audit_event \<Rightarrow> string" where
  "event_base pf prev e =
     hash_base pf prev (ev_org e) (ev_actor e) (event_type e) (entity_type e) (entity_id e)
       (of_json (payload e)) (created_at e)"

definition expected_hash ::
  "platform \<Rightarrow> string \<Rightarrow> audit_event \<Rightarrow> string" where
  "expected_hash pf prev e =
     build_hash pf prev (ev_org e) (ev_actor e) (event_type e) (entity_type e) (entity_id e)
       (of_json (payload e)) (created_at e)"

fun verify_loop ::
  "platform \<Rightarrow> string \<Rightarrow> nat \<Rightarrow> audit_event list
   \<Rightarrow> audit_verification" where
  "verify_loop pf prev n [] =
     \<lparr>is_valid = True, checked_events = n, broken_event_id = None, expected_prev_hash = None,
      found_prev_hash = None\<rparr>"
| "verify_loop pf prev n (e # es) =
     (let expected = expected_hash pf prev e; n = n + 1 in
      if prev_hash e \<noteq> prev
      then \<lparr>is_valid = False, checked_events = n, broken_event_id = Some (ev_id e),
            expected_prev_hash = Some prev, found_prev_hash = Some (prev_hash e)\<rparr>
      else if event_hash e \<noteq> expected
      then \<lparr>is_valid = False, checked_events = n, broken_event_id = Some (ev_id e),
            expected_prev_hash = Some expected, found_prev_hash = Some (event_hash e)\<rparr>
      else verify_loop pf (event_hash e) n es)"

definition verify_chain ::
  "platform \<Rightarrow> uuid \<Rightarrow> 'z audit_db_scheme \<Rightarrow> audit_verification" where
  "verify_chain pf org db = verify_loop pf GENESIS_HASH 0 (org_events org db)"

section \<open>The chain is an instance of the hash chain\<close>

definition pipe_free :: "string \<Rightarrow> bool" where
  "pipe_free s \<longleftrightarrow> CHR ''|'' \<notin> set s"

lemma pipe_split:
  "pipe_free p \<Longrightarrow> pipe_free q \<Longrightarrow> p @ CHR ''|'' # s = q @ CHR ''|'' # t \<Longrightarrow> p = q \<and> s = t"
proof (induction p arbitrary: q)
  case Nil
  then show ?case by (cases q) (auto simp: pipe_free_def)
next
  case (Cons c p)
  then show ?case by (cases q) (auto simp: pipe_free_def)
qed

lemma hex_char_not_pipe: "d < 16 \<Longrightarrow> hex_char d \<noteq> CHR ''|''"
proof
  assume "d < 16" and "hex_char d = CHR ''|''"
  then have "(of_char (hex_char d) :: nat) = of_char (CHR ''|'')" by simp
  with \<open>d < 16\<close> show False by (auto simp: hex_char_def split: if_splits)
qed

lemma pipe_free_hex [simp]: "pipe_free (hex_digits w n)"
proof (induction w arbitrary: n)
  case (Suc w)
  then show ?case using hex_char_not_pipe [of "n mod 16"] by (auto simp: pipe_free_def)
qed (simp add: pipe_free_def)

lemma pipe_free_hexdigest [simp]: "pipe_free (hexdigest w)"
  by (simp add: hexdigest_def)

lemma pipe_free_genesis [simp]: "pipe_free GENESIS_HASH"
  by (simp add: pipe_free_def GENESIS_HASH_def)

lemma hash_base_shape:
  "hash_base pf prev org actor etype entity eid pl created =
     prev @ ''|'' @ uuid_str org @ ''|'' @ actor_value actor @ ''|'' @ etype @ ''|'' @ entity @ ''|'' @
     eid @ ''|'' @ canonical_payload (float_repr pf) pl @ ''|'' @ isoformat created"
  by (simp add: hash_base_def)

lemma event_base_tail: "\<exists>t. event_base pf p e = p @ CHR ''|'' # t"
  by (simp add: event_base_def hash_base_shape)

interpretation ac: hash_chain "\<lambda>b. hexdigest (sha256 pf b)" "event_base pf" prev_hash event_hash
    GENESIS_HASH pipe_free
  for pf :: platform
proof
  fix p q e f
  assume clean: "pipe_free p" "pipe_free q" and eq: "event_base pf p e = event_base pf q f"
  obtain s t where "event_base pf p e = p @ CHR ''|'' # s"
    and "event_base pf q f = q @ CHR ''|'' # t"
    using event_base_tail by blast
  with eq pipe_split [OF clean, of s t] show "p = q" by simp
qed simp_all

lemma expected_hash_digest: "expected_hash pf p e = hexdigest (sha256 pf (event_base pf p e))"
  by (simp add: expected_hash_def event_base_def build_hash_def)

lemma verify_loop_linked:
  "is_valid (verify_loop pf p n es) \<longleftrightarrow> ac.linked pf p es"
  by (induction es arbitrary: p n) (auto simp: Let_def expected_hash_digest)

lemma verify_chain_linked:
  "is_valid (verify_chain pf org db)
   \<longleftrightarrow> ac.linked pf GENESIS_HASH (org_events org db)"
  by (simp add: verify_chain_def verify_loop_linked)

lemma verify_loop_checked:
  "is_valid (verify_loop pf p n es) \<Longrightarrow> checked_events (verify_loop pf p n es) = n + length es"
  by (induction es arbitrary: p n) (auto simp: Let_def split: if_splits)

section \<open>Queries on an extended log\<close>

lemma sort_key_snoc:
  assumes "\<forall>x \<in> set xs. f x \<le> f y"
  shows "sort_key f (xs @ [y]) = sort_key f xs @ [y]"
proof (rule properties_for_sort_key)
  show "mset (sort_key f xs @ [y]) = mset (xs @ [y])" by simp
next
  fix k
  show "filter (\<lambda>x. f k = f x) (sort_key f xs @ [y]) = filter (\<lambda>x. f k = f x) (xs @ [y])"
    using sort_key_stable [of f "f k" xs] by (simp add: eq_commute [of "f k"])
next
  show "sorted (map f (sort_key f xs @ [y]))"
    using assms by (auto simp: sorted_append)
qed

lemma org_events_filter: "e \<in> set (org_events org db) \<longleftrightarrow> e \<in> set (events db) \<and> ev_org e = org"
  by (auto simp: org_events_def)

definition newer_than_org :: "stamp \<Rightarrow> uuid \<Rightarrow> 'z audit_db_scheme \<Rightarrow> bool" where
  "newer_than_org st org db \<longleftrightarrow>
     list_all (\<lambda>e. ev_org e = org \<longrightarrow> ev_key e < (snd st, fst st)) (events db)"

lemma new_event_key: "ev_key (new_event pf org a t n i p st db) = (snd st, fst st)"
  by (simp add: new_event_def ev_key_def Let_def)

lemma new_event_fields [simp]:
  "ev_org (new_event pf org a t n i p st db) = org"
  "ev_id (new_event pf org a t n i p st db) = fst st"
  "event_type (new_event pf org a t n i p st db) = t"
  "created_at (new_event pf org a t n i p st db) = snd st"
  "payload (new_event pf org a t n i p st db) = normalize_payload p"
  by (simp_all add: new_event_def Let_def)

lemma events_append_event [simp]:
  "events (append_event pf org a t n i p st db) =
     events db @ [new_event pf org a t n i p st db]"
  by (simp add: append_event_def Let_def row_add_def)

lemma checkpoints_append_event [simp]:
  "checkpoints (append_event pf org a t n i p st db) = checkpoints db"
  by (simp add: append_event_def Let_def)

lemma org_events_append_other:
  "org' \<noteq> org \<Longrightarrow> org_events org' (append_event pf org a t n i p st db) = org_events org' db"
  by (simp add: org_events_def)

lemma org_events_append_same:
  "newer_than_org st org db \<Longrightarrow>
   org_events org (append_event pf org a t n i p st db) =
     org_events org db @ [new_event pf org a t n i p st db]"
  unfolding org_events_def events_append_event filter_append
  by (simp add: sort_key_snoc new_event_key newer_than_org_def list_all_iff less_imp_le)

lemma latest_last_hash:
  "(case latest_for_org org db of None \<Rightarrow> GENESIS_HASH | Some e \<Rightarrow> event_hash e)
   = ac.last_hash GENESIS_HASH (org_events org db)"
proof (cases "org_events org db" rule: rev_cases)
  case Nil
  then show ?thesis by (simp add: latest_for_org_def)
next
  case (snoc es e)
  then show ?thesis by (simp add: latest_for_org_def ac.last_hash_append)
qed

lemma new_event_linked:
  "prev_hash (new_event pf org a t n i p st db) =
     ac.last_hash GENESIS_HASH (org_events org db)
   \<and> event_hash (new_event pf org a t n i p st db) =
     hexdigest (sha256 pf (event_base pf (ac.last_hash GENESIS_HASH (org_events org db))
       (new_event pf org a t n i p st db)))"
  unfolding latest_last_hash [symmetric]
  by (simp add: new_event_def Let_def event_base_def build_hash_def)

lemma linked_append_event:
  assumes "newer_than_org st org db"
    and "ac.linked pf GENESIS_HASH (org_events org db)"
  shows "ac.linked pf GENESIS_HASH
    (org_events org (append_event pf org a t n i p st db))"
  unfolding org_events_append_same [OF assms(1)]
  using assms(2) new_event_linked [of pf org a t n i p st db]
  by (intro ac.linked_extend) simp_all

end
