(* ===== verification/AuditService.thy ===== *)
theory AuditService
  imports AuditChain
begin

text \<open>
  The rest of \<open>AuditChainService\<close>: listing and export of the log, signed checkpoints, their
  verification and their retention; and the properties of the whole component. The chain theorems
  come from the interpretation of the hash chain contract in \<open>AuditChain\<close>.
\<close>

section \<open>Listing and export\<close>

text \<open>SQL \<open>LIKE\<close> with its wildcards and the backslash escape.\<close>

fun sql_like :: "string \<Rightarrow> string \<Rightarrow> bool" where
  "sql_like [] t = (t = [])"
| "sql_like (p # ps) [] = (p = CHR ''%'' \<and> sql_like ps [])"
| "sql_like (p # ps) (c # t) =
     (if p = CHR ''%'' then sql_like ps (c # t) \<or> sql_like (p # ps) t
      else if p = CHR ''_'' then sql_like ps t
      else if p = CHR 0x5C then
        (case ps of [] \<Rightarrow> False | q # qs \<Rightarrow> q = c \<and> sql_like qs t)
      else p = c \<and> sql_like ps t)"

record event_query =
  q_event_type :: "string option"
  q_event_prefix :: "string option"
  q_entity_type :: "string option"
  q_created_after :: "instant option"
  q_created_before :: "instant option"

definition truthy_str :: "string option \<Rightarrow> bool" where
  "truthy_str v \<longleftrightarrow> (case v of None \<Rightarrow> False | Some s \<Rightarrow> s \<noteq> [])"

definition event_matches :: "uuid \<Rightarrow> event_query \<Rightarrow> audit_event \<Rightarrow> bool" where
  "event_matches org q e \<longleftrightarrow>
     ev_org e = org
     \<and> (truthy_str (q_event_type q) \<longrightarrow> Some (event_type e) = q_event_type q)
     \<and> (truthy_str (q_event_prefix q) \<longrightarrow>
          (case q_event_prefix q of None \<Rightarrow> True | Some p \<Rightarrow> sql_like (p @ ''%'') (event_type e)))
     \<and> (truthy_str (q_entity_type q) \<longrightarrow> Some (entity_type e) = q_entity_type q)
     \<and> (case q_created_after q of None \<Rightarrow> True | Some t \<Rightarrow> t \<le> created_at e)
     \<and> (case q_created_before q of None \<Rightarrow> True | Some t \<Rightarrow> created_at e \<le> t)"

definition list_events ::
  "uuid \<Rightarrow> event_query \<Rightarrow> nat \<Rightarrow> nat \<Rightarrow> 'z audit_db_scheme \<Rightarrow> audit_event list \<times> nat" where
  "list_events org q limit offset db =
     (let matching = filter (event_matches org q) (events db) in
      (take limit (drop offset (rev (sort_key ev_key matching))), length matching))"

definition str_json :: "string option \<Rightarrow> json" where
  "str_json v = (case v of None \<Rightarrow> JNull | Some s \<Rightarrow> JStr s)"

definition event_line :: "platform \<Rightarrow> audit_event \<Rightarrow> string" where
  "event_line pf e =
     dumps False (float_repr pf) (JDict
       [(''id'', JStr (uuid_str (ev_id e))),
        (''org_id'', JStr (uuid_str (ev_org e))),
        (''actor_user_id'', str_json (map_option uuid_str (ev_actor e))),
        (''event_type'', JStr (event_type e)),
        (''entity_type'', JStr (entity_type e)),
        (''entity_id'', JStr (entity_id e)),
        (''payload'', payload e),
        (''prev_hash'', JStr (prev_hash e)),
        (''event_hash'', JStr (event_hash e)),
        (''created_at'', JStr (isoformat (created_at e)))])"

definition export_events_jsonl ::
  "platform \<Rightarrow> uuid \<Rightarrow> event_query \<Rightarrow> nat \<Rightarrow> nat \<Rightarrow> 'z audit_db_scheme \<Rightarrow> string" where
  "export_events_jsonl pf org q limit offset db =
     (let lines = map (event_line pf) (fst (list_events org q limit offset db)) in
      py_join [CHR 0x0A] lines @ (if lines = [] then [] else [CHR 0x0A]))"

section \<open>Checkpoints\<close>

definition sign_snapshot :: "platform \<Rightarrow> pyval \<Rightarrow> string" where
  "sign_snapshot pf snapshot =
     hexdigest (hmac_sha256 pf (secret_key pf) (canonical_payload (float_repr pf) snapshot))"

definition create_checkpoint ::
  "platform \<Rightarrow> uuid \<Rightarrow> uuid option \<Rightarrow> stamp \<Rightarrow> ('z audit_db_scheme, audit_checkpoint) svc" where
  "create_checkpoint pf org by_user st db =
     (if \<not> is_valid (verify_chain pf org db)
      then (Inl (ValueError ''Cannot checkpoint invalid audit chain''), db)
      else
        let latest_hash =
              (case latest_for_org org db of None \<Rightarrow> GENESIS_HASH | Some e \<Rightarrow> event_hash e);
            n = length (filter (\<lambda>e. ev_org e = org) (events db));
            snapshot = PDict
              [(''org_id'', PStr (uuid_str org)),
               (''checked_events'', PInt (int n)),
               (''latest_event_hash'', PStr latest_hash),
               (''verified_at'', PStr (isoformat (snd st)))];
            cp = \<lparr>cp_id = fst st, cp_org = org, generated_by = by_user,
              latest_event_hash = latest_hash, cp_checked_events = n,
              snapshot_payload = normalize_payload snapshot,
              snapshot_signature = sign_snapshot pf snapshot, cp_created_at = snd st\<rparr>
        in (Inr cp, db\<lparr>checkpoints := row_add cp (checkpoints db)\<rparr>))"

definition list_checkpoints :: "uuid \<Rightarrow> nat \<Rightarrow> nat \<Rightarrow> 'z audit_db_scheme \<Rightarrow> audit_checkpoint list" where
  "list_checkpoints org limit offset db =
     take limit (drop offset (rev (sort_key cp_key (filter (\<lambda>c. cp_org c = org) (checkpoints db)))))"

definition get_checkpoint :: "uuid \<Rightarrow> uuid \<Rightarrow> 'z audit_db_scheme \<Rightarrow> audit_checkpoint option" where
  "get_checkpoint org cid db =
     (case row_find cp_id cid (checkpoints db) of
        None \<Rightarrow> None | Some c \<Rightarrow> if cp_org c = org then Some c else None)"

record checkpoint_verification =
  cv_id :: uuid
  is_signature_valid :: bool
  is_chain_valid :: bool
  cv_checked_events :: nat
  cv_latest_event_hash :: string
  cv_created_at :: instant

definition verify_checkpoint ::
  "platform \<Rightarrow> uuid \<Rightarrow> uuid \<Rightarrow> 'z audit_db_scheme \<Rightarrow> checkpoint_verification result" where
  "verify_checkpoint pf org cid db =
     (case get_checkpoint org cid db of
        None \<Rightarrow> Inl (ValueError ''Checkpoint not found'')
      | Some cp \<Rightarrow> Inr
          \<lparr>cv_id = cp_id cp,
           is_signature_valid = (sign_snapshot pf (of_json (snapshot_payload cp)) = snapshot_signature cp),
           is_chain_valid = is_valid (verify_chain pf org db),
           cv_checked_events = cp_checked_events cp,
           cv_latest_event_hash = latest_event_hash cp,
           cv_created_at = cp_created_at cp\<rparr>)"

definition cleanup_checkpoints :: "uuid \<Rightarrow> int \<Rightarrow> 'z audit_db_scheme \<Rightarrow> (nat \<times> nat) \<times> 'z audit_db_scheme" where
  "cleanup_checkpoints org keep_last db =
     (let keep_last = nat (max 1 keep_last);
          cps = list_checkpoints org 5000 0 db
      in if length cps \<le> keep_last then ((0, length cps), db)
         else
           let to_delete = drop keep_last cps in
           ((length to_delete, keep_last),
            db\<lparr>checkpoints := filter (\<lambda>c. cp_id c \<notin> set (map cp_id to_delete)) (checkpoints db)\<rparr>))"

text \<open>One round of the checkpoint worker over the organizations that have events.\<close>

record checkpoint_report =
  org_count :: nat
  created_checkpoints :: nat
  deleted_checkpoints :: nat

fun checkpoint_orgs ::
  "platform \<Rightarrow> int \<Rightarrow> (uuid \<Rightarrow> stamp) \<Rightarrow> uuid list \<Rightarrow> 'z audit_db_scheme \<Rightarrow> (nat \<times> nat) \<times> 'z audit_db_scheme" where
  "checkpoint_orgs pf keep stamps [] db = ((0, 0), db)"
| "checkpoint_orgs pf keep stamps (org # orgs) db =
     (let (r, db1) = create_checkpoint pf org None (stamps org) db;
          created = (case r of Inl _ \<Rightarrow> 0 | Inr _ \<Rightarrow> 1);
          ((deleted, _), db2) = cleanup_checkpoints org keep db1;
          ((c, d), db3) = checkpoint_orgs pf keep stamps orgs db2
      in ((created + c, deleted + d), db3))"

definition generate_checkpoints_for_all_orgs ::
  "platform \<Rightarrow> int \<Rightarrow> (uuid \<Rightarrow> stamp) \<Rightarrow> 'z audit_db_scheme \<Rightarrow> checkpoint_report \<times> 'z audit_db_scheme" where
  "generate_checkpoints_for_all_orgs pf keep stamps db =
     (let orgs = remdups (map ev_org (events db));
          ((c, d), db') = checkpoint_orgs pf keep stamps orgs db
      in (\<lparr>org_count = length orgs, created_checkpoints = c, deleted_checkpoints = d\<rparr>, db'))"

section \<open>A concrete platform for examples\<close>

definition toy_platform :: platform where
  "toy_platform = \<lparr>sha256 = (\<lambda>s. of_nat (foldl (\<lambda>a c. a * 257 + of_char c + 1) 7 s)),
     hmac_sha256 = (\<lambda>k s. of_nat (foldl (\<lambda>a c. a * 263 + of_char c + 1) 11 (k @ s))),
     float_repr = (\<lambda>x. ''0.0''), float_of_str = (\<lambda>s. None), secret_key = ''k''\<rparr>"

section \<open>Lemmas\<close>

lemma checkpoints_create [simp]:
  "events (snd (create_checkpoint pf org u st db)) = events db"
  by (simp add: create_checkpoint_def Let_def)

lemma events_cleanup [simp]: "events (snd (cleanup_checkpoints org k db)) = events db"
  by (simp add: cleanup_checkpoints_def Let_def)

lemma verify_chain_events:
  "events db' = events db \<Longrightarrow> verify_chain pf org db' = verify_chain pf org db"
  by (simp add: verify_chain_def org_events_def)

lemma length_org_events: "length (org_events org db) = length (filter (\<lambda>e. ev_org e = org) (events db))"
  by (simp add: org_events_def)

text \<open>The verification loop stops at the first event that does not fit.\<close>

lemma verify_loop_break:
  "\<not> is_valid (verify_loop pf p n es) \<Longrightarrow>
   \<exists>good e rest. es = good @ e # rest \<and> ac.linked pf p good
     \<and> \<not> ac.linked pf (ac.last_hash p good) [e]
     \<and> checked_events (verify_loop pf p n es) = n + length good + 1
     \<and> broken_event_id (verify_loop pf p n es) = Some (ev_id e)"
proof (induction es arbitrary: p n)
  case Nil
  then show ?case by simp
next
  case (Cons e es)
  show ?case
  proof (cases "ac.linked pf p [e]")
    case True
    then have step: "verify_loop pf p n (e # es) = verify_loop pf (event_hash e) (n + 1) es"
      by (simp add: Let_def expected_hash_digest)
    with Cons obtain good f rest where ih: "es = good @ f # rest" "ac.linked pf (event_hash e) good"
      "\<not> ac.linked pf (ac.last_hash (event_hash e) good) [f]"
      "checked_events (verify_loop pf (event_hash e) (n + 1) es) = n + 1 + length good + 1"
      "broken_event_id (verify_loop pf (event_hash e) (n + 1) es) = Some (ev_id f)"
      by metis
    have "e # es = (e # good) @ f # rest" using ih(1) by simp
    moreover have "ac.linked pf p (e # good)" using True ih(2) by simp
    ultimately show ?thesis using step ih(3-5) by (intro exI [of _ "e # good"]) auto
  next
    case False
    then have "checked_events (verify_loop pf p n (e # es)) = n + 1"
      and "broken_event_id (verify_loop pf p n (e # es)) = Some (ev_id e)"
      by (auto simp: Let_def expected_hash_digest)
    with False show ?thesis by (intro exI [of _ "[]"]) auto
  qed
qed

lemma hexdigest_inject [simp]: "hexdigest a = hexdigest b \<longleftrightarrow> a = b"
proof
  assume eq: "hexdigest a = hexdigest b"
  have lt: "unat w < 16 ^ 64" for w :: "256 word" using unsigned_less [of w] by simp
  from eq have "unat a = unat b" unfolding hexdigest_def by (rule hex_digits_inject [OF lt lt])
  then show "a = b" by (rule unsigned_word_eqI)
qed simp

lemma hexdigest_not_genesis: "hexdigest w \<noteq> GENESIS_HASH"
proof
  assume "hexdigest w = GENESIS_HASH"
  then have "length (hexdigest w) = length GENESIS_HASH" by simp
  then show False by (simp add: hexdigest_def GENESIS_HASH_def)
qed

lemma linked_hash_digest:
  "ac.linked pf p es \<Longrightarrow> e \<in> set es \<Longrightarrow> \<exists>w. event_hash e = hexdigest w"
  by (induction es arbitrary: p) auto

lemma sort_key_Cons_least:
  assumes "\<forall>x \<in> set xs. f y \<le> f x" and "\<forall>x \<in> set xs. f x \<noteq> f y"
  shows "sort_key f (xs @ [y]) = y # sort_key f xs"
proof (rule properties_for_sort_key)
  show "mset (y # sort_key f xs) = mset (xs @ [y])" by simp
next
  fix k
  have "filter (\<lambda>x. f k = f x) (sort_key f xs) = filter (\<lambda>x. f k = f x) xs"
    using sort_key_stable [of f "f k" xs] by (simp add: eq_commute [of "f k"])
  moreover have "filter (\<lambda>x. f k = f x) xs = []" if "f k = f y"
    using that assms(2) by (auto simp: filter_empty_conv)
  ultimately show "filter (\<lambda>x. f k = f x) (y # sort_key f xs) = filter (\<lambda>x. f k = f x) (xs @ [y])"
    by auto
next
  show "sorted (map f (y # sort_key f xs))"
    using assms(1) by auto
qed

lemma py_join_newline:
  "lines \<noteq> [] \<Longrightarrow> py_join [c] lines @ [c] = concat (map (\<lambda>l. l @ [c]) lines)"
  by (induction "[c]" lines rule: py_join.induct) auto

lemma count_newline_lines:
  "(\<And>l. l \<in> set lines \<Longrightarrow> c \<notin> set l) \<Longrightarrow> count_list (concat (map (\<lambda>l. l @ [c]) lines)) c = length lines"
  by (induction lines) auto

section \<open>Properties\<close>

text \<open>
  C2 (invariant): appending an event dated after every event of its organization keeps the chain
  verified, adds one to the number of checked events, and leaves the verification of every other
  organization as it was.
\<close>

theorem append_event_keeps_chain:
  assumes "newer_than_org st org db" and "is_valid (verify_chain pf org db)"
  shows "is_valid (verify_chain pf org (append_event pf org actor etype entity eid pl st db))
    \<and> checked_events (verify_chain pf org (append_event pf org actor etype entity eid pl st db))
        = checked_events (verify_chain pf org db) + 1
    \<and> (\<forall>org' \<in> - {org}. verify_chain pf org' (append_event pf org actor etype entity eid pl st db)
        = verify_chain pf org' db)"
proof (intro conjI ballI)
  let ?db = "append_event pf org actor etype entity eid pl st db"
  show valid: "is_valid (verify_chain pf org ?db)"
    using assms by (simp add: verify_chain_linked linked_append_event)
  show "checked_events (verify_chain pf org ?db) = checked_events (verify_chain pf org db) + 1"
    using verify_loop_checked valid assms(2) org_events_append_same [OF assms(1)]
    by (simp add: verify_chain_def)
  show "verify_chain pf org' ?db = verify_chain pf org' db" if "org' \<in> - {org}" for org'
    using that by (simp add: verify_chain_def org_events_append_other)
qed

theorem append_event_keeps_chain_witness:
  "is_valid (verify_chain toy_platform 1
     (append_event toy_platform 1 None ''invite.created'' ''workspace_invite'' ''i1'' PNone (9, 5) empty_audit))"
proof -
  have "newer_than_org (9, 5) 1 empty_audit" by (simp add: newer_than_org_def empty_audit_def)
  moreover have "is_valid (verify_chain toy_platform 1 empty_audit)"
    by (simp add: verify_chain_def org_events_def empty_audit_def)
  ultimately show ?thesis using append_event_keeps_chain by blast
qed

text \<open>
  C25 (functional): the verification accepts exactly the correctly linked logs; otherwise it reports
  the first event that does not extend the correctly linked events before it, with its position.
\<close>

theorem verify_chain_first_break:
  "(is_valid (verify_chain pf org db)
      \<and> ac.linked pf GENESIS_HASH (org_events org db)
      \<and> checked_events (verify_chain pf org db) = length (org_events org db))
   \<or> (\<not> is_valid (verify_chain pf org db)
      \<and> (\<exists>good e rest. org_events org db = good @ e # rest
          \<and> ac.linked pf GENESIS_HASH good
          \<and> \<not> ac.linked pf (ac.last_hash GENESIS_HASH good) [e]
          \<and> checked_events (verify_chain pf org db) = length good + 1
          \<and> broken_event_id (verify_chain pf org db) = Some (ev_id e)))"
proof (cases "is_valid (verify_chain pf org db)")
  case True
  then show ?thesis
    using verify_loop_checked [of pf GENESIS_HASH 0 "org_events org db"]
    by (simp add: verify_chain_def verify_loop_linked)
next
  case False
  then show ?thesis
    using verify_loop_break [of pf GENESIS_HASH 0 "org_events org db"] by (simp add: verify_chain_def)
qed

text \<open>
  Tamper evidence. Two logs of an organization that both verify, have the same number
  of events and end in the same hash were hashed from the same texts, event by event, unless two
  different texts with the same SHA-256 digest are at hand.
\<close>

theorem verified_chain_binding:
  assumes "is_valid (verify_chain pf org db)" and "is_valid (verify_chain pf org db')"
    and "length (org_events org db) = length (org_events org db')"
    and "ac.last_hash GENESIS_HASH (org_events org db) = ac.last_hash GENESIS_HASH (org_events org db')"
  shows "ac.texts pf GENESIS_HASH (org_events org db) = ac.texts pf GENESIS_HASH (org_events org db')
    \<or> (\<exists>a b. a \<noteq> b \<and> sha256 pf a = sha256 pf b)"
  using ac.binding [of GENESIS_HASH pf "org_events org db" "org_events org db'"] assms
  by (simp add: verify_chain_linked)

definition audit_example :: audit_db where
  "audit_example =
     append_event toy_platform 1 None ''invite.created'' ''workspace_invite'' ''i1'' PNone (9, 5) empty_audit"

theorem verified_chain_binding_witness:
  "ac.texts toy_platform GENESIS_HASH (org_events 1 audit_example)
     = ac.texts toy_platform GENESIS_HASH (org_events 1 audit_example)
   \<or> (\<exists>a b. a \<noteq> b \<and> sha256 toy_platform a = sha256 toy_platform b)"
proof -
  have "newer_than_org (9, 5) 1 empty_audit" by (simp add: newer_than_org_def empty_audit_def)
  then have "is_valid (verify_chain toy_platform 1 audit_example)"
    unfolding audit_example_def verify_chain_linked
    by (rule linked_append_event) (simp add: org_events_def empty_audit_def)
  then show ?thesis by (intro verified_chain_binding) simp_all
qed

text \<open>
  The digest does not bind the borders between fields. Moving text across the separator
  from the entity identifier into the entity type gives a different event with the same hash, for
  every digest.
\<close>

theorem hash_fields_ambiguous:
  "build_hash pf prev org actor etype (t @ ''|'' @ i) j pl created
     = build_hash pf prev org actor etype t (i @ ''|'' @ j) pl created
   \<and> (t @ ''|'' @ i, j) \<noteq> (t, i @ ''|'' @ j)"
  by (simp add: build_hash_def hash_base_shape)

text \<open>
  The order of the chain is the order of the clock readings. An event appended to a
  verified non-empty log with a reading before every other event of the organization makes the
  verification fail, whatever the digest.
\<close>

theorem clock_regression_breaks_chain:
  assumes "is_valid (verify_chain pf org db)" and "org_events org db \<noteq> []"
    and "\<forall>e \<in> set (org_events org db). snd st < created_at e"
  shows "\<not> is_valid (verify_chain pf org (append_event pf org actor etype entity eid pl st db))"
proof -
  let ?e = "new_event pf org actor etype entity eid pl st db"
  have key: "ev_key ?e < ev_key x" if "x \<in> set (filter (\<lambda>e. ev_org e = org) (events db))" for x
    using assms(3) that by (auto simp: org_events_def new_event_key ev_key_def)
  have first: "org_events org (append_event pf org actor etype entity eid pl st db)
      = ?e # org_events org db"
  proof -
    have "sort_key ev_key (filter (\<lambda>e. ev_org e = org) (events db) @ [?e])
        = ?e # sort_key ev_key (filter (\<lambda>e. ev_org e = org) (events db))"
      using key less_imp_neq [OF key] by (intro sort_key_Cons_least ballI) (simp_all add: less_imp_le neq_commute)
    then show ?thesis by (simp add: org_events_def)
  qed
  obtain l where l: "l \<in> set (org_events org db)"
    and prev: "prev_hash ?e = event_hash l"
    using new_event_linked [of pf org actor etype entity eid pl st db] assms(2)
    by (metis ac.last_hash_last last_in_set)
  from linked_hash_digest [OF _ l] assms(1) obtain w where "event_hash l = hexdigest w"
    by (auto simp: verify_chain_linked)
  with prev first show ?thesis by (simp add: verify_chain_linked hexdigest_not_genesis)
qed

theorem clock_regression_breaks_chain_witness:
  "\<not> is_valid (verify_chain toy_platform 1
      (append_event toy_platform 1 None ''invite.revoked'' ''workspace_invite'' ''i1'' PNone (7, 4) audit_example))"
proof -
  have "newer_than_org (9, 5) 1 empty_audit" by (simp add: newer_than_org_def empty_audit_def)
  then have o: "org_events 1 audit_example =
      [new_event toy_platform 1 None ''invite.created'' ''workspace_invite'' ''i1'' PNone (9, 5) empty_audit]"
    unfolding audit_example_def
    by (subst org_events_append_same) (simp_all add: org_events_def empty_audit_def)
  have "is_valid (verify_chain toy_platform 1 audit_example)"
    using \<open>newer_than_org (9, 5) 1 empty_audit\<close> unfolding audit_example_def verify_chain_linked
    by (rule linked_append_event) (simp add: org_events_def empty_audit_def)
  moreover have "org_events 1 audit_example \<noteq> []"
    and "\<forall>e \<in> set (org_events 1 audit_example). snd (7 :: uuid, 4 :: instant) < created_at e"
    by (simp_all add: o)
  ultimately show ?thesis by (rule clock_regression_breaks_chain)
qed

text \<open>
  A checkpoint that was created verifies right away: its signature is recognised and
  the chain it was taken from is valid, and it records the length and last hash of that chain.
\<close>

theorem checkpoint_roundtrip:
  assumes "create_checkpoint pf org u st db = (Inr cp, db')" and "get_checkpoint org (fst st) db' = Some cp"
  shows "\<exists>v. verify_checkpoint pf org (fst st) db' = Inr v
     \<and> is_signature_valid v \<and> is_chain_valid v
     \<and> cv_checked_events v = length (org_events org db')
     \<and> cv_latest_event_hash v = ac.last_hash GENESIS_HASH (org_events org db')"
proof -
  have ev: "events db' = events db" using checkpoints_create [of pf org u st db] assms(1) by simp
  then have o: "org_events org db' = org_events org db" by (simp add: org_events_def)
  from assms(1) have valid: "is_valid (verify_chain pf org db)"
    and sig: "sign_snapshot pf (of_json (snapshot_payload cp)) = snapshot_signature cp"
    and n: "cp_checked_events cp = length (org_events org db)"
    and h: "latest_event_hash cp = ac.last_hash GENESIS_HASH (org_events org db)"
    unfolding latest_last_hash [symmetric]
    by (auto simp: create_checkpoint_def Let_def length_org_events sign_snapshot_def
        canonical_payload_def split: if_splits)
  show ?thesis
    using assms(2) valid sig n h verify_chain_events [OF ev] o by (simp add: verify_checkpoint_def)
qed

definition checkpoint_example :: "audit_checkpoint result \<times> audit_db" where
  "checkpoint_example = create_checkpoint toy_platform 1 None (3, 6) audit_example"

lemma checkpoint_example_ok:
  "\<exists>cp. checkpoint_example = (Inr cp, snd checkpoint_example)
     \<and> get_checkpoint 1 3 (snd checkpoint_example) = Some cp"
proof -
  have "newer_than_org (9, 5) 1 empty_audit" by (simp add: newer_than_org_def empty_audit_def)
  then have "is_valid (verify_chain toy_platform 1 audit_example)"
    unfolding audit_example_def verify_chain_linked
    by (rule linked_append_event) (simp add: org_events_def empty_audit_def)
  moreover have "checkpoints audit_example = []" by (simp add: audit_example_def empty_audit_def)
  ultimately show ?thesis
    by (simp add: checkpoint_example_def create_checkpoint_def Let_def get_checkpoint_def
        row_find_def row_add_def)
qed

theorem checkpoint_roundtrip_witness:
  "\<exists>v. verify_checkpoint toy_platform 1 3 (snd checkpoint_example) = Inr v
     \<and> is_signature_valid v \<and> is_chain_valid v"
proof -
  obtain cp where "create_checkpoint toy_platform 1 None (3, 6) audit_example = (Inr cp, snd checkpoint_example)"
    and "get_checkpoint 1 (fst (3 :: uuid, 6 :: instant)) (snd checkpoint_example) = Some cp"
    using checkpoint_example_ok by (auto simp: checkpoint_example_def)
  from checkpoint_roundtrip [OF this] show ?thesis by auto
qed

text \<open>
  Checking a checkpoint says nothing about the events it was taken from. After every
  event of the organization is erased, the checkpoint still reports a valid signature and a valid
  chain, because the recorded length and last hash are never compared with the log.
\<close>

theorem checkpoint_misses_erasure:
  assumes "verify_checkpoint pf org cid db = Inr v" and "is_signature_valid v"
  shows "\<exists>v'. verify_checkpoint pf org cid
      (db\<lparr>events := filter (\<lambda>e. ev_org e \<noteq> org) (events db)\<rparr>) = Inr v'
    \<and> is_signature_valid v' \<and> is_chain_valid v'
    \<and> cv_checked_events v' = cv_checked_events v"
proof -
  let ?db = "db\<lparr>events := filter (\<lambda>e. ev_org e \<noteq> org) (events db)\<rparr>"
  have "org_events org ?db = []" by (simp add: org_events_def)
  then have "is_valid (verify_chain pf org ?db)" by (simp add: verify_chain_def)
  moreover have "get_checkpoint org cid ?db = get_checkpoint org cid db"
    by (simp add: get_checkpoint_def)
  ultimately show ?thesis
    using assms by (auto simp: verify_checkpoint_def split: option.splits)
qed

theorem checkpoint_misses_erasure_witness:
  "\<exists>v'. verify_checkpoint toy_platform 1 3
      ((snd checkpoint_example)\<lparr>events :=
         filter (\<lambda>e. ev_org e \<noteq> 1) (events (snd checkpoint_example))\<rparr>) = Inr v'
    \<and> is_chain_valid v'"
proof -
  obtain cp where cp: "checkpoint_example = (Inr cp, snd checkpoint_example)"
    "get_checkpoint 1 3 (snd checkpoint_example) = Some cp"
    using checkpoint_example_ok by blast
  then have "sign_snapshot toy_platform (of_json (snapshot_payload cp)) = snapshot_signature cp"
    by (auto simp: checkpoint_example_def create_checkpoint_def Let_def sign_snapshot_def
        canonical_payload_def split: if_splits)
  with cp(2) obtain v where "verify_checkpoint toy_platform 1 3 (snd checkpoint_example) = Inr v"
    and "is_signature_valid v"
    by (simp add: verify_checkpoint_def)
  from checkpoint_misses_erasure [OF this] show ?thesis by blast
qed

text \<open>
  The exported log is one line per listed event, in the order listed, and no line
  contains a line break, provided the printer of floats writes none: splitting the text at line
  breaks gives the events back.
\<close>

theorem export_one_line_per_event:
  assumes "\<forall>x. CHR 0x0A \<notin> set (float_repr pf x)"
  shows "export_events_jsonl pf org q limit offset db
      = concat (map (\<lambda>e. event_line pf e @ [CHR 0x0A]) (fst (list_events org q limit offset db)))
    \<and> count_list (export_events_jsonl pf org q limit offset db) (CHR 0x0A)
      = length (fst (list_events org q limit offset db))"
proof -
  let ?es = "fst (list_events org q limit offset db)"
  have nl: "CHR 0x0A \<notin> set l" if "l \<in> set (map (event_line pf) ?es)" for l
    using that assms dumps_no_newline [of "float_repr pf" False]
    by (auto simp: event_line_def simp del: dumps.simps)
  have eq: "export_events_jsonl pf org q limit offset db
      = concat (map (\<lambda>l. l @ [CHR 0x0A]) (map (event_line pf) ?es))"
    using py_join_newline [of "map (event_line pf) ?es" "CHR 0x0A"]
    by (cases "?es = []") (simp_all add: export_events_jsonl_def Let_def)
  moreover have "count_list (concat (map (\<lambda>l. l @ [CHR 0x0A]) (map (event_line pf) ?es))) (CHR 0x0A)
      = length (map (event_line pf) ?es)"
    by (rule count_newline_lines) (rule nl)
  ultimately show ?thesis by (simp add: comp_def)
qed

theorem export_one_line_per_event_witness:
  "count_list (export_events_jsonl toy_platform 1 \<lparr>q_event_type = None, q_event_prefix = None,
      q_entity_type = None, q_created_after = None, q_created_before = None\<rparr> 100 0 audit_example) (CHR 0x0A)
   = length (fst (list_events 1 \<lparr>q_event_type = None, q_event_prefix = None,
      q_entity_type = None, q_created_after = None, q_created_before = None\<rparr> 100 0 audit_example))"
proof -
  have "\<forall>x. CHR 0x0A \<notin> set (float_repr toy_platform x)" by (simp add: toy_platform_def)
  from export_one_line_per_event [OF this] show ?thesis by blast
qed

end
