(* ===== verification/PolicyLog.thy ===== *)
theory PolicyLog
  imports Policy AuditService
begin

text \<open>
  \<open>domains/policy/service.py\<close>: the policy bundle of an organization and the evidence row written
  for every authorization decision. The session state extends the audit log by the two tables of
  \<open>domains/policy/models.py\<close>. What a call draws from outside is its record \<open>call\<close>: the identifiers
  \<open>uuid4()\<close> returns and the clock readings, in the order the code asks for them.
\<close>

record call =
  fresh :: "nat \<Rightarrow> uuid"
  clock :: "nat \<Rightarrow> instant"

text \<open>The identifiers and clock readings left after the first ones were drawn.\<close>

definition later :: "nat \<Rightarrow> nat \<Rightarrow> call \<Rightarrow> call" where
  "later i j c = \<lparr>fresh = (\<lambda>n. fresh c (n + i)), clock = (\<lambda>n. clock c (n + j))\<rparr>"

record policy_bundle =
  pb_id :: uuid
  pb_org :: uuid
  pb_name :: string
  pb_version :: string
  pb_engine :: string
  pb_rules :: "(string \<times> bool) list"
  pb_is_active :: bool
  pb_created_at :: instant

record policy_evidence =
  pe_id :: uuid
  pe_org :: uuid
  pe_bundle :: "uuid option"
  pe_actor :: "uuid option"
  pe_action :: string
  pe_resource_type :: string
  pe_resource_id :: string
  pe_allowed :: bool
  pe_reason :: string
  pe_session :: session_context
  pe_decision_id :: string

record policy_db = audit_db +
  bundles :: "policy_bundle list"
  evidence :: "policy_evidence list"

definition get_active_bundle :: "uuid \<Rightarrow> 'z policy_db_scheme \<Rightarrow> policy_bundle option" where
  "get_active_bundle org db =
     (case rev (sort_key pb_created_at
        (filter (\<lambda>b. pb_org b = org \<and> pb_is_active b) (bundles db))) of
        [] \<Rightarrow> None | b # _ \<Rightarrow> Some b)"

definition default_rules :: "(string \<times> bool) list" where
  "default_rules =
     [(''session_risk_block_high'', True),
      (''production_requires_maintenance_window'', True),
      (''critical_requires_low_session_risk'', True),
      (''high_risk_requires_dual_approval'', True)]"

definition ensure_default_bundle ::
  "call \<Rightarrow> uuid \<Rightarrow> 'z policy_db_scheme \<Rightarrow> policy_bundle \<times> 'z policy_db_scheme" where
  "ensure_default_bundle c org db =
     (case get_active_bundle org db of
        Some b \<Rightarrow> (b, db)
      | None \<Rightarrow>
          let b = \<lparr>pb_id = fresh c 0, pb_org = org, pb_name = ''default-runtime-guardrails'',
                pb_version = ''1.0.0'', pb_engine = ''internal-pbac-abac'', pb_rules = default_rules,
                pb_is_active = True, pb_created_at = clock c 0\<rparr>
          in (b, db\<lparr>bundles := row_add b (bundles db)\<rparr>))"

definition record_decision ::
  "platform \<Rightarrow> call \<Rightarrow> uuid \<Rightarrow> uuid option \<Rightarrow> policy_decision \<Rightarrow> session_context \<Rightarrow> string \<Rightarrow> string
   \<Rightarrow> string \<Rightarrow> 'z policy_db_scheme \<Rightarrow> policy_evidence \<times> 'z policy_db_scheme" where
  "record_decision pf c org actor decision session action rtype rid db =
     (let (bundle, db) = ensure_default_bundle c org db;
          ev = \<lparr>pe_id = fresh c 1, pe_org = org, pe_bundle = Some (pb_id bundle), pe_actor = actor,
            pe_action = action, pe_resource_type = rtype, pe_resource_id = rid,
            pe_allowed = allowed decision, pe_reason = reason decision, pe_session = session,
            pe_decision_id = policy_decision_id decision\<rparr>;
          db = db\<lparr>evidence := row_add ev (evidence db)\<rparr>;
          db = append_event pf org actor ''policy.decision.recorded'' rtype rid
            (PDict [(''policy_decision_id'', PStr (pe_decision_id ev)),
                    (''action'', PStr (pe_action ev)),
                    (''allowed'', PBool (pe_allowed ev)),
                    (''policy_bundle_id'', PStr (uuid_str (pb_id bundle)))])
            (fresh c 2, clock c 1) db
      in (ev, db))"

lemma sort_key_Nil: "sort_key f xs = [] \<longleftrightarrow> xs = []"
  using length_sort [of f xs] by (cases xs) auto

lemma ensure_default_bundle_active:
  "get_active_bundle org (snd (ensure_default_bundle c org db))
     = Some (fst (ensure_default_bundle c org db))"
proof (cases "get_active_bundle org db")
  case None
  then have "filter (\<lambda>b. pb_org b = org \<and> pb_is_active b) (bundles db) = []"
    by (simp add: get_active_bundle_def sort_key_Nil split: list.splits)
  then show ?thesis
    by (simp add: ensure_default_bundle_def None Let_def get_active_bundle_def row_add_def)
qed (simp add: ensure_default_bundle_def)

lemma audit_parts_bundle [simp]:
  "events (snd (ensure_default_bundle c org db)) = events db"
  "evidence (snd (ensure_default_bundle c org db)) = evidence db"
  by (simp_all add: ensure_default_bundle_def Let_def split: option.splits)

lemma more_append_event [simp]:
  "audit_db.more (append_event pf org a t n i p st db) = audit_db.more db"
  by (simp add: append_event_def Let_def)

lemma policy_append_event [simp]:
  "bundles (append_event pf org a t n i p st db) = bundles db"
  "evidence (append_event pf org a t n i p st db) = evidence db"
  by (simp_all add: append_event_def Let_def)

lemma record_decision_evidence:
  "evidence (snd (record_decision pf c org actor d s a rt rid db)) =
     evidence db @ [fst (record_decision pf c org actor d s a rt rid db)]"
  by (simp add: record_decision_def Let_def row_add_def split: prod.splits)
    (metis audit_parts_bundle(2) snd_conv)

lemma record_decision_fields:
  "pe_allowed (fst (record_decision pf c org actor d s a rt rid db)) = allowed d
   \<and> pe_decision_id (fst (record_decision pf c org actor d s a rt rid db)) = policy_decision_id d
   \<and> pe_action (fst (record_decision pf c org actor d s a rt rid db)) = a"
  by (simp add: record_decision_def Let_def split: prod.splits)

text \<open>
  Recording a decision writes exactly one evidence row, with the outcome, action
  and identifier of the decision, under the bundle that is active afterwards, and appends exactly
  one audit event of type \<open>policy.decision.recorded\<close> for the same resource.
\<close>

theorem record_decision_effect:
  "\<exists>ev e. record_decision pf c org actor d s a rt rid db =
        (ev, snd (record_decision pf c org actor d s a rt rid db))
     \<and> evidence (snd (record_decision pf c org actor d s a rt rid db)) = evidence db @ [ev]
     \<and> pe_allowed ev = allowed d \<and> pe_decision_id ev = policy_decision_id d \<and> pe_action ev = a
     \<and> map_option pb_id (get_active_bundle org (snd (record_decision pf c org actor d s a rt rid db)))
         = pe_bundle ev
     \<and> events (snd (record_decision pf c org actor d s a rt rid db)) = events db @ [e]
     \<and> ev_org e = org \<and> event_type e = ''policy.decision.recorded''"
proof -
  obtain b db1 where b: "ensure_default_bundle c org db = (b, db1)" by fastforce
  from ensure_default_bundle_active [of org c db] b have act: "get_active_bundle org db1 = Some b"
    by simp
  from audit_parts_bundle [of c org db] b have ev: "events db1 = events db" "evidence db1 = evidence db"
    by simp_all
  have "get_active_bundle org db2 = get_active_bundle org db1"
    if "bundles db2 = bundles db1" for db2 :: "'a policy_db_scheme"
    using that by (simp add: get_active_bundle_def)
  then show ?thesis
    by (simp add: record_decision_def b Let_def ev row_add_def act)
qed

end
