(* ===== verification/Experiments.thy ===== *)
theory Experiments
  imports PolicyLog
begin

text \<open>
  \<open>domains/experiments\<close>: optimization experiments, their approvals and runs (\<open>models.py\<close>,
  \<open>service.py\<close>). The status machine is the table \<open>VALID_EXPERIMENT_TRANSITIONS\<close>; every service
  operation is a definition on the session state \<open>exp_db\<close>, which extends the policy tables. A
  lookup by primary key and organization reads at most one row, as the database guarantees.
\<close>

section \<open>Data\<close>

datatype experiment_status =
  DRAFT | HYPOTHESIS | SIMULATING | APPROVED | RUNNING | MEASURING | CONCLUDED | CANCELLED

fun experiment_status_value :: "experiment_status \<Rightarrow> string" where
  "experiment_status_value DRAFT = ''draft''"
| "experiment_status_value HYPOTHESIS = ''hypothesis''"
| "experiment_status_value SIMULATING = ''simulating''"
| "experiment_status_value APPROVED = ''approved''"
| "experiment_status_value RUNNING = ''running''"
| "experiment_status_value MEASURING = ''measuring''"
| "experiment_status_value CONCLUDED = ''concluded''"
| "experiment_status_value CANCELLED = ''cancelled''"

datatype experiment_outcome = IMPROVED | REGRESSED | INCONCLUSIVE | OUTCOME_CANCELLED

fun experiment_outcome_value :: "experiment_outcome \<Rightarrow> string" where
  "experiment_outcome_value IMPROVED = ''improved''"
| "experiment_outcome_value REGRESSED = ''regressed''"
| "experiment_outcome_value INCONCLUSIVE = ''inconclusive''"
| "experiment_outcome_value OUTCOME_CANCELLED = ''cancelled''"

datatype run_type = DRY_RUN | CANARY | FULL

fun run_type_value :: "run_type \<Rightarrow> string" where
  "run_type_value DRY_RUN = ''dry_run''"
| "run_type_value CANARY = ''canary''"
| "run_type_value FULL = ''full''"

datatype run_status = RUN_PENDING | RUN_RUNNING | RUN_COMPLETED | RUN_ROLLED_BACK

fun run_status_value :: "run_status \<Rightarrow> string" where
  "run_status_value RUN_PENDING = ''pending''"
| "run_status_value RUN_RUNNING = ''running''"
| "run_status_value RUN_COMPLETED = ''completed''"
| "run_status_value RUN_ROLLED_BACK = ''rolled_back''"

fun valid_experiment_transitions :: "experiment_status \<Rightarrow> experiment_status list" where
  "valid_experiment_transitions DRAFT = [HYPOTHESIS, CANCELLED]"
| "valid_experiment_transitions HYPOTHESIS = [SIMULATING, CANCELLED]"
| "valid_experiment_transitions SIMULATING = [APPROVED, DRAFT, CANCELLED]"
| "valid_experiment_transitions APPROVED = [RUNNING, CANCELLED]"
| "valid_experiment_transitions RUNNING = [MEASURING, CANCELLED]"
| "valid_experiment_transitions MEASURING = [CONCLUDED, RUNNING]"
| "valid_experiment_transitions CONCLUDED = []"
| "valid_experiment_transitions CANCELLED = []"

record guardrails_config =
  max_blast_radius_pct :: pyfloat
  rollback_on_error_rate :: pyfloat
  max_cost_increase_pct :: pyfloat
  require_approval :: bool

record optimization_experiment =
  exp_id :: uuid
  exp_org :: uuid
  exp_opportunity :: "uuid option"
  exp_title :: string
  exp_hypothesis :: "string option"
  exp_description :: "string option"
  target_environment :: string
  target_criticality :: string
  status :: experiment_status
  outcome :: "experiment_outcome option"
  simulated_savings_usd :: "pyfloat option"
  simulated_confidence :: "pyfloat option"
  simulation_notes :: "string option"
  guardrails :: "guardrails_config option"
  causal_change_event_ids :: "string list option"
  causal_summary :: "string option"
  owner_id :: "uuid option"
  approved_by_id :: "uuid option"
  exp_risk_budget :: "uuid option"
  estimated_risk_score :: "pyfloat option"
  actual_savings_usd :: "pyfloat option"
  actual_confidence :: "pyfloat option"
  started_at :: "instant option"
  concluded_at :: "instant option"
  exp_created_at :: instant
  exp_updated_at :: instant

record experiment_run =
  run_id :: uuid
  run_experiment :: uuid
  run_org :: uuid
  run_kind :: run_type
  run_state :: run_status
  metrics_before :: "json option"
  metrics_after :: "json option"
  impact_usd :: "pyfloat option"
  error_rate_before :: "pyfloat option"
  error_rate_after :: "pyfloat option"
  rollback_triggered :: bool
  rollback_reason :: "string option"
  run_notes :: "string option"
  run_started_at :: "instant option"
  run_completed_at :: "instant option"
  run_created_at :: instant

record experiment_approval =
  ap_id :: uuid
  ap_org :: uuid
  ap_experiment :: uuid
  approver_user_id :: uuid
  ap_note :: "string option"
  ap_created_at :: instant

record exp_db = policy_db +
  experiments :: "optimization_experiment list"
  runs :: "experiment_run list"
  approvals :: "experiment_approval list"

section \<open>Requests\<close>

record experiment_create =
  ec_title :: string
  ec_hypothesis :: "string option"
  ec_description :: "string option"
  ec_opportunity :: "uuid option"
  ec_risk_budget :: "uuid option"
  ec_guardrails :: "guardrails_config option"
  ec_change_events :: "string list option"
  ec_environment :: string
  ec_criticality :: string

record experiment_update =
  eu_title :: "string option"
  eu_hypothesis :: "string option"
  eu_description :: "string option"
  eu_simulation_notes :: "string option"
  eu_simulated_savings :: "pyfloat option"
  eu_simulated_confidence :: "pyfloat option"
  eu_causal_summary :: "string option"
  eu_guardrails :: "guardrails_config option"
  eu_environment :: "string option"
  eu_criticality :: "string option"
  eu_actual_savings :: "pyfloat option"
  eu_actual_confidence :: "pyfloat option"
  eu_outcome :: "experiment_outcome option"

record run_create =
  rc_type :: run_type
  rc_notes :: "string option"
  rc_metrics_before :: "json option"

record run_update =
  ru_status :: "run_status option"
  ru_metrics_after :: "json option"
  ru_impact_usd :: "pyfloat option"
  ru_error_rate_before :: "pyfloat option"
  ru_error_rate_after :: "pyfloat option"
  ru_rollback_triggered :: "bool option"
  ru_rollback_reason :: "string option"
  ru_notes :: "string option"

section \<open>Payload helpers\<close>

definition opt_str :: "string option \<Rightarrow> pyval" where
  "opt_str v = (case v of None \<Rightarrow> PNone | Some s \<Rightarrow> PStr s)"

definition opt_uuid_str :: "uuid option \<Rightarrow> pyval" where
  "opt_uuid_str v = (case v of None \<Rightarrow> PNone | Some u \<Rightarrow> PStr (uuid_str u))"

definition guardrails_dump :: "guardrails_config \<Rightarrow> pyval" where
  "guardrails_dump g =
     PDict [(''max_blast_radius_pct'', PFloat (max_blast_radius_pct g)),
            (''rollback_on_error_rate'', PFloat (rollback_on_error_rate g)),
            (''max_cost_increase_pct'', PFloat (max_cost_increase_pct g)),
            (''require_approval'', PBool (require_approval g))]"

definition opt_field :: "string \<Rightarrow> ('a \<Rightarrow> pyval) \<Rightarrow> 'a option \<Rightarrow> (string \<times> pyval) list" where
  "opt_field k f v = (case v of None \<Rightarrow> [] | Some x \<Rightarrow> [(k, f x)])"

text \<open>\<open>req.model_dump(exclude_none=True)\<close> of an update, in field order.\<close>

definition update_dump :: "experiment_update \<Rightarrow> pyval" where
  "update_dump r = PDict (
     opt_field ''title'' PStr (eu_title r) @
     opt_field ''hypothesis'' PStr (eu_hypothesis r) @
     opt_field ''description'' PStr (eu_description r) @
     opt_field ''simulation_notes'' PStr (eu_simulation_notes r) @
     opt_field ''simulated_savings_usd'' PFloat (eu_simulated_savings r) @
     opt_field ''simulated_confidence'' PFloat (eu_simulated_confidence r) @
     opt_field ''causal_summary'' PStr (eu_causal_summary r) @
     opt_field ''guardrails'' guardrails_dump (eu_guardrails r) @
     opt_field ''target_environment'' PStr (eu_environment r) @
     opt_field ''target_criticality'' PStr (eu_criticality r) @
     opt_field ''actual_savings_usd'' PFloat (eu_actual_savings r) @
     opt_field ''actual_confidence'' PFloat (eu_actual_confidence r) @
     opt_field ''outcome'' (\<lambda>x. PEnum (experiment_outcome_value x)) (eu_outcome r))"

definition run_update_dump :: "run_update \<Rightarrow> pyval" where
  "run_update_dump r = PDict (
     opt_field ''status'' (\<lambda>x. PEnum (run_status_value x)) (ru_status r) @
     opt_field ''metrics_after'' of_json (ru_metrics_after r) @
     opt_field ''impact_usd'' PFloat (ru_impact_usd r) @
     opt_field ''error_rate_before'' PFloat (ru_error_rate_before r) @
     opt_field ''error_rate_after'' PFloat (ru_error_rate_after r) @
     opt_field ''rollback_triggered'' PBool (ru_rollback_triggered r) @
     opt_field ''rollback_reason'' PStr (ru_rollback_reason r) @
     opt_field ''notes'' PStr (ru_notes r))"

section \<open>Operations on experiments\<close>

definition new_experiment :: "call \<Rightarrow> uuid \<Rightarrow> uuid \<Rightarrow> experiment_create \<Rightarrow> optimization_experiment" where
  "new_experiment c org owner req =
     \<lparr>exp_id = fresh c 0, exp_org = org, exp_opportunity = ec_opportunity req,
      exp_title = ec_title req, exp_hypothesis = ec_hypothesis req,
      exp_description = ec_description req, target_environment = ec_environment req,
      target_criticality = ec_criticality req, status = DRAFT, outcome = None,
      simulated_savings_usd = None, simulated_confidence = None, simulation_notes = None,
      guardrails = ec_guardrails req, causal_change_event_ids = ec_change_events req,
      causal_summary = None, owner_id = Some owner, approved_by_id = None,
      exp_risk_budget = ec_risk_budget req, estimated_risk_score = None,
      actual_savings_usd = None, actual_confidence = None, started_at = None,
      concluded_at = None, exp_created_at = clock c 0, exp_updated_at = clock c 0\<rparr>"

definition created_payload :: "optimization_experiment \<Rightarrow> pyval" where
  "created_payload e =
     PDict [(''title'', PStr (exp_title e)),
            (''opportunity_id'', opt_uuid_str (exp_opportunity e)),
            (''risk_budget_id'', opt_uuid_str (exp_risk_budget e)),
            (''target_environment'', PStr (target_environment e)),
            (''target_criticality'', PStr (target_criticality e)),
            (''guardrails'', (case guardrails e of None \<Rightarrow> PDict [] | Some g \<Rightarrow> guardrails_dump g))]"

definition create_experiment ::
  "platform \<Rightarrow> call \<Rightarrow> uuid \<Rightarrow> uuid \<Rightarrow> experiment_create \<Rightarrow> 'z exp_db_scheme
   \<Rightarrow> optimization_experiment \<times> 'z exp_db_scheme" where
  "create_experiment pf c org owner req db =
     (let e = new_experiment c org owner req;
          db = db\<lparr>experiments := row_add e (experiments db)\<rparr>;
          db = append_event pf org (Some owner) ''experiment.created'' ''optimization_experiment''
            (uuid_str (exp_id e))
            (created_payload e)
            (fresh c 1, clock c 1) db
      in (e, db))"

definition get_experiment :: "uuid \<Rightarrow> uuid \<Rightarrow> 'z exp_db_scheme \<Rightarrow> optimization_experiment option" where
  "get_experiment org eid db =
     (case row_find exp_id eid (experiments db) of
        None \<Rightarrow> None | Some e \<Rightarrow> if exp_org e = org then Some e else None)"

definition put_experiment :: "optimization_experiment \<Rightarrow> 'z exp_db_scheme \<Rightarrow> 'z exp_db_scheme" where
  "put_experiment e db = db\<lparr>experiments := row_put exp_id e (experiments db)\<rparr>"

definition list_experiments ::
  "uuid \<Rightarrow> experiment_status option \<Rightarrow> nat \<Rightarrow> nat \<Rightarrow> 'z exp_db_scheme \<Rightarrow> optimization_experiment list \<times> nat" where
  "list_experiments org st limit offset db =
     (let matching = filter (\<lambda>e. exp_org e = org \<and> (case st of None \<Rightarrow> True | Some s \<Rightarrow> status e = s))
            (experiments db)
      in (take limit (drop offset (rev (sort_key exp_updated_at matching))), length matching))"

definition set_opt :: "('a option \<Rightarrow> 'b) \<Rightarrow> ('a option) \<Rightarrow> 'b \<Rightarrow> 'b" where
  "set_opt f v old = (case v of None \<Rightarrow> old | Some x \<Rightarrow> f (Some x))"

definition apply_update :: "experiment_update \<Rightarrow> optimization_experiment \<Rightarrow> optimization_experiment" where
  "apply_update r e =
     e\<lparr>exp_title := set_opt the (eu_title r) (exp_title e),
       exp_hypothesis := set_opt id (eu_hypothesis r) (exp_hypothesis e),
       exp_description := set_opt id (eu_description r) (exp_description e),
       simulation_notes := set_opt id (eu_simulation_notes r) (simulation_notes e),
       simulated_savings_usd := set_opt id (eu_simulated_savings r) (simulated_savings_usd e),
       simulated_confidence := set_opt id (eu_simulated_confidence r) (simulated_confidence e),
       causal_summary := set_opt id (eu_causal_summary r) (causal_summary e),
       guardrails := set_opt id (eu_guardrails r) (guardrails e),
       target_environment := set_opt the (eu_environment r) (target_environment e),
       target_criticality := set_opt the (eu_criticality r) (target_criticality e),
       actual_savings_usd := set_opt id (eu_actual_savings r) (actual_savings_usd e),
       actual_confidence := set_opt id (eu_actual_confidence r) (actual_confidence e),
       outcome := set_opt id (eu_outcome r) (outcome e)\<rparr>"

definition update_experiment ::
  "platform \<Rightarrow> call \<Rightarrow> uuid \<Rightarrow> uuid \<Rightarrow> experiment_update \<Rightarrow> 'z exp_db_scheme
   \<Rightarrow> optimization_experiment option \<times> 'z exp_db_scheme" where
  "update_experiment pf c org eid req db =
     (case get_experiment org eid db of
        None \<Rightarrow> (None, db)
      | Some e \<Rightarrow>
          let e' = apply_update req e;
              e = (if e' = e then e else e'\<lparr>exp_updated_at := clock c 0\<rparr>);
              db = put_experiment e db;
              db = append_event pf org (owner_id e) ''experiment.updated'' ''optimization_experiment''
                (uuid_str (exp_id e)) (update_dump req) (fresh c 0, clock c 1) db
          in (Some e, db))"

text \<open>\<open>[s.value for s in allowed]\<close> as Python prints it in the error message.\<close>

definition py_list_repr :: "string list \<Rightarrow> string" where
  "py_list_repr xs = ''['' @ py_join '', '' (map (\<lambda>s. [CHR 0x27] @ s @ [CHR 0x27]) xs) @ '']''"

definition apply_transition ::
  "call \<Rightarrow> experiment_status \<Rightarrow> uuid option \<Rightarrow> optimization_experiment \<Rightarrow> optimization_experiment" where
  "apply_transition c new approver e =
     (let e = e\<lparr>status := new\<rparr>;
          e = (if new = RUNNING then e\<lparr>started_at := Some (clock c 0)\<rparr> else e);
          e = (if new = APPROVED \<and> approver \<noteq> None then e\<lparr>approved_by_id := approver\<rparr> else e);
          e = (if new \<in> set [CONCLUDED, CANCELLED] then
                 let e = e\<lparr>concluded_at := Some (clock c 1)\<rparr>
                 in if new = CANCELLED then e\<lparr>outcome := Some OUTCOME_CANCELLED\<rparr> else e
               else e)
      in e)"

definition transitioned_payload :: "optimization_experiment \<Rightarrow> string option \<Rightarrow> pyval" where
  "transitioned_payload e notes =
     PDict [(''status'', PStr (experiment_status_value (status e))),
            (''outcome'', opt_str (map_option experiment_outcome_value (outcome e))),
            (''notes'', opt_str notes)]"

definition transition_experiment ::
  "platform \<Rightarrow> call \<Rightarrow> uuid \<Rightarrow> uuid \<Rightarrow> experiment_status \<Rightarrow> string option \<Rightarrow> uuid option
   \<Rightarrow> ('z exp_db_scheme, optimization_experiment) svc" where
  "transition_experiment pf c org eid new notes approver db =
     (case get_experiment org eid db of
        None \<Rightarrow> (Inl (ValueError ''Experiment not found''), db)
      | Some e \<Rightarrow>
          let allowed_targets = valid_experiment_transitions (status e) in
          if new \<notin> set allowed_targets
          then (Inl (ValueError (''Cannot transition from '' @ experiment_status_value (status e)
                  @ '' to '' @ experiment_status_value new @ ''. Allowed: ''
                  @ py_list_repr (map experiment_status_value allowed_targets))), db)
          else
            let e = (apply_transition c new approver e)\<lparr>exp_updated_at := clock c 2\<rparr>;
                db = put_experiment e db;
                db = append_event pf org approver ''experiment.transitioned'' ''optimization_experiment''
                  (uuid_str (exp_id e))
                  (transitioned_payload e notes)
                  (fresh c 0, clock c 3) db
            in (Inr e, db))"

section \<open>Approvals\<close>

definition approved_payload :: "experiment_approval \<Rightarrow> pyval" where
  "approved_payload a =
     PDict [(''approval_id'', PStr (uuid_str (ap_id a))), (''note'', opt_str (ap_note a))]"

definition create_approval ::
  "platform \<Rightarrow> call \<Rightarrow> uuid \<Rightarrow> uuid \<Rightarrow> uuid \<Rightarrow> string option
   \<Rightarrow> ('z exp_db_scheme, experiment_approval) svc" where
  "create_approval pf c org eid approver note db =
     (case get_experiment org eid db of
        None \<Rightarrow> (Inl (ValueError ''Experiment not found''), db)
      | Some e \<Rightarrow>
          if owner_id e = Some approver
          then (Inl (ValueError ''Experiment owner cannot self-approve''), db)
          else if list_ex (\<lambda>a. ap_experiment a = eid \<and> approver_user_id a = approver) (approvals db)
          then (Inl (ValueError ''User already approved this experiment''), db)
          else
            let a = \<lparr>ap_id = fresh c 0, ap_org = org, ap_experiment = eid,
                  approver_user_id = approver, ap_note = note, ap_created_at = clock c 0\<rparr>;
                db = db\<lparr>approvals := row_add a (approvals db)\<rparr>;
                db = append_event pf org (Some approver) ''experiment.approved''
                  ''optimization_experiment'' (uuid_str eid)
                  (approved_payload a)
                  (fresh c 1, clock c 1) db
            in (Inr a, db))"

definition list_approvals :: "uuid \<Rightarrow> uuid \<Rightarrow> 'z exp_db_scheme \<Rightarrow> experiment_approval list" where
  "list_approvals org eid db =
     sort_key ap_created_at (filter (\<lambda>a. ap_org a = org \<and> ap_experiment a = eid) (approvals db))"

definition approval_count :: "uuid \<Rightarrow> uuid \<Rightarrow> 'z exp_db_scheme \<Rightarrow> nat" where
  "approval_count org eid db = length (remdups (map approver_user_id (list_approvals org eid db)))"

definition is_high_risk :: "optimization_experiment \<Rightarrow> bool" where
  "is_high_risk e =
     (let estimated_risk = (case estimated_risk_score e of None \<Rightarrow> 0 | Some x \<Rightarrow> x);
          blast_radius = (case guardrails e of None \<Rightarrow> 0 | Some g \<Rightarrow> max_blast_radius_pct g);
          max_cost_increase = (case guardrails e of None \<Rightarrow> 0 | Some g \<Rightarrow> max_cost_increase_pct g)
      in estimated_risk \<ge> fl (7/10) \<or> blast_radius \<ge> fl (2/10) \<or> max_cost_increase \<ge> fl (1/10))"

section \<open>Summary\<close>

text \<open>
  \<open>get_summary\<close> binds the pair returned by \<open>list\<close> and iterates over it as if it were the list of
  experiments, so the first object whose \<open>status\<close> it reads is a Python list.
\<close>

datatype py_object = PyExperiments "optimization_experiment list" | PyInt nat | PyExperiment optimization_experiment

fun object_status :: "py_object \<Rightarrow> experiment_status result" where
  "object_status (PyExperiments es) = Inl (AttributeError ''list object has no attribute status'')"
| "object_status (PyInt n) = Inl (AttributeError ''int object has no attribute status'')"
| "object_status (PyExperiment e) = Inr (status e)"

fun concluded_of :: "py_object list \<Rightarrow> py_object list result" where
  "concluded_of [] = Inr []"
| "concluded_of (x # xs) =
     (case object_status x of
        Inl err \<Rightarrow> Inl err
      | Inr s \<Rightarrow> (case concluded_of xs of
          Inl err \<Rightarrow> Inl err
        | Inr ys \<Rightarrow> Inr (if s = CONCLUDED then x # ys else ys)))"

record experiment_summary =
  sum_total :: nat
  sum_by_status :: "(experiment_status \<times> nat) list"
  sum_simulated :: pyfloat
  sum_actual :: pyfloat
  sum_success_rate :: pyfloat

definition summary_of :: "optimization_experiment list \<Rightarrow> optimization_experiment list \<Rightarrow> experiment_summary" where
  "summary_of es concluded =
     (let improved = filter (\<lambda>e. outcome e = Some IMPROVED) concluded;
          rate = (if concluded = [] then 0
                  else fdiv (of_nat (length improved)) (of_nat (length concluded)))
      in \<lparr>sum_total = length es,
          sum_by_status = map (\<lambda>s. (s, length (filter (\<lambda>e. status e = s) es)))
            (remdups (map status es)),
          sum_simulated = py_round 2 (py_sum (map (\<lambda>e. case simulated_savings_usd e of None \<Rightarrow> 0 | Some x \<Rightarrow> x) es)),
          sum_actual = py_round 2 (py_sum (map (\<lambda>e. case actual_savings_usd e of None \<Rightarrow> 0 | Some x \<Rightarrow> x) es)),
          sum_success_rate = py_round 3 rate\<rparr>)"

definition experiments_in :: "py_object list \<Rightarrow> optimization_experiment list" where
  "experiments_in xs = concat (map (\<lambda>x. case x of PyExperiment e \<Rightarrow> [e] | _ \<Rightarrow> []) xs)"

definition get_summary :: "uuid \<Rightarrow> 'z exp_db_scheme \<Rightarrow> experiment_summary result" where
  "get_summary org db =
     (let (items, total) = list_experiments org None 9999 0 db;
          exps = [PyExperiments items, PyInt total]
      in case concluded_of exps of
           Inl err \<Rightarrow> Inl err
         | Inr concluded \<Rightarrow> Inr (summary_of (experiments_in exps) (experiments_in concluded)))"

section \<open>Runs\<close>

definition run_created_payload :: "experiment_run \<Rightarrow> pyval" where
  "run_created_payload r =
     PDict [(''experiment_id'', PStr (uuid_str (run_experiment r))),
            (''run_type'', PStr (run_type_value (run_kind r))),
            (''notes'', opt_str (run_notes r))]"

definition create_run ::
  "platform \<Rightarrow> call \<Rightarrow> uuid \<Rightarrow> uuid \<Rightarrow> run_create \<Rightarrow> uuid option
   \<Rightarrow> ('z exp_db_scheme, experiment_run) svc" where
  "create_run pf c org eid req actor db =
     (case get_experiment org eid db of
        None \<Rightarrow> (Inl (ValueError ''Experiment not found''), db)
      | Some e \<Rightarrow>
          if status e \<noteq> RUNNING
          then (Inl (ValueError ''Experiment must be in RUNNING state to create a run''), db)
          else
            let r = \<lparr>run_id = fresh c 0, run_experiment = eid, run_org = org, run_kind = rc_type req,
                  run_state = RUN_PENDING, metrics_before = rc_metrics_before req,
                  metrics_after = None, impact_usd = None, error_rate_before = None,
                  error_rate_after = None, rollback_triggered = False, rollback_reason = None,
                  run_notes = rc_notes req, run_started_at = Some (clock c 0),
                  run_completed_at = None, run_created_at = clock c 1\<rparr>;
                db = db\<lparr>runs := row_add r (runs db)\<rparr>;
                db = append_event pf org actor ''experiment.run.created'' ''experiment_run''
                  (uuid_str (run_id r))
                  (run_created_payload r)
                  (fresh c 1, clock c 2) db
            in (Inr r, db))"

definition apply_run_update :: "run_update \<Rightarrow> experiment_run \<Rightarrow> experiment_run" where
  "apply_run_update u r =
     r\<lparr>run_state := set_opt the (ru_status u) (run_state r),
       metrics_after := set_opt id (ru_metrics_after u) (metrics_after r),
       impact_usd := set_opt id (ru_impact_usd u) (impact_usd r),
       error_rate_before := set_opt id (ru_error_rate_before u) (error_rate_before r),
       error_rate_after := set_opt id (ru_error_rate_after u) (error_rate_after r),
       rollback_triggered := set_opt the (ru_rollback_triggered u) (rollback_triggered r),
       rollback_reason := set_opt id (ru_rollback_reason u) (rollback_reason r),
       run_notes := set_opt id (ru_notes u) (run_notes r)\<rparr>"

definition update_run ::
  "platform \<Rightarrow> call \<Rightarrow> uuid \<Rightarrow> uuid \<Rightarrow> uuid \<Rightarrow> run_update \<Rightarrow> uuid option \<Rightarrow> 'z exp_db_scheme
   \<Rightarrow> experiment_run option \<times> 'z exp_db_scheme" where
  "update_run pf c org eid rid req actor db =
     (case row_find run_id rid (runs db) of
        None \<Rightarrow> (None, db)
      | Some r \<Rightarrow>
          if run_experiment r \<noteq> eid \<or> run_org r \<noteq> org then (None, db)
          else
            let r = apply_run_update req r;
                r = (if ru_status req = Some RUN_COMPLETED \<or> ru_status req = Some RUN_ROLLED_BACK
                     then r\<lparr>run_completed_at := Some (clock c 0)\<rparr> else r);
                db = db\<lparr>runs := row_put run_id r (runs db)\<rparr>;
                db = append_event pf org actor ''experiment.run.updated'' ''experiment_run''
                  (uuid_str (run_id r)) (run_update_dump req) (fresh c 0, clock c 1) db
            in (Some r, db))"

definition list_runs :: "uuid \<Rightarrow> uuid \<Rightarrow> 'z exp_db_scheme \<Rightarrow> experiment_run list" where
  "list_runs org eid db =
     rev (sort_key run_created_at (filter (\<lambda>r. run_experiment r = eid \<and> run_org r = org) (runs db)))"

end
