(* ===== verification/ExperimentLaws.thy ===== *)
theory ExperimentLaws
  imports Experiments
begin

text \<open>
  What the experiment service guarantees: the effect of every operation on the tables, the
  lifecycle of an experiment as a step relation on databases with its reachable states, the
  invariant of those states (timestamps match the status, approvers are distinct and never the
  owner, runs belong to experiments that were started), and the status graph.
\<close>

section \<open>Tables and frames\<close>

interpretation experiment_rows: keyed_table exp_id "row_find exp_id" "row_put exp_id" row_add
  by (rule keyed_table_rows)

interpretation run_rows: keyed_table run_id "row_find run_id" "row_put run_id" row_add
  by (rule keyed_table_rows)

lemma experiment_append_event [simp]:
  "experiments (append_event pf org a t n i p st db) = experiments db"
  "runs (append_event pf org a t n i p st db) = runs db"
  "approvals (append_event pf org a t n i p st db) = approvals db"
  by (simp_all add: append_event_def Let_def)

lemma append_event_snoc:
  "\<exists>ev. events (append_event pf org a t n i p st db) = events db @ [ev]
     \<and> ev_org ev = org \<and> event_type ev = t \<and> entity_id ev = i"
  by (simp add: append_event_def new_event_def row_add_def Let_def)

lemma append_event_last [simp]:
  "event_type (last (events (append_event pf org a t n i p st db))) = t"
  "entity_id (last (events (append_event pf org a t n i p st db))) = i"
  "ev_actor (last (events (append_event pf org a t n i p st db))) = a"
  "butlast (events (append_event pf org a t n i p st db)) = events db"
  by (simp_all add: append_event_def new_event_def row_add_def Let_def)

lemma get_experiment_Some:
  "get_experiment org eid db = Some e \<Longrightarrow>
     e \<in> set (experiments db) \<and> exp_id e = eid \<and> exp_org e = org"
  by (auto simp: get_experiment_def dest: row_find_Some split: option.splits if_splits)

lemma get_experiment_append_event [simp]:
  "get_experiment org' eid (append_event pf org a t n i p st db) = get_experiment org' eid db"
  by (simp add: get_experiment_def)

lemma experiments_put [simp]:
  "experiments (put_experiment e db) = row_put exp_id e (experiments db)"
  "runs (put_experiment e db) = runs db"
  "approvals (put_experiment e db) = approvals db"
  "events (put_experiment e db) = events db"
  by (simp_all add: put_experiment_def)

lemma get_put_experiment:
  assumes "get_experiment org eid db = Some e" and "exp_id e' = eid" and "exp_org e' = org"
  shows "get_experiment org' k (put_experiment e' db) =
    (if k = eid \<and> org' = org then Some e' else get_experiment org' k db)"
proof -
  from assms(1) have found: "row_find exp_id eid (experiments db) = Some e" and "exp_org e = org"
    by (auto simp: get_experiment_def split: option.splits if_splits)
  with assms(2,3) show ?thesis
    by (auto simp: get_experiment_def experiment_rows.lookup_put)
qed

lemma apply_transition_keeps [simp]:
  "exp_id (apply_transition c new a e) = exp_id e"
  "exp_org (apply_transition c new a e) = exp_org e"
  "owner_id (apply_transition c new a e) = owner_id e"
  "guardrails (apply_transition c new a e) = guardrails e"
  "estimated_risk_score (apply_transition c new a e) = estimated_risk_score e"
  "status (apply_transition c new a e) = new"
  by (simp_all add: apply_transition_def Let_def)

lemma apply_transition_stamps:
  "started_at (apply_transition c new a e) = (if new = RUNNING then Some (clock c 0) else started_at e)"
  "concluded_at (apply_transition c new a e) =
     (if new = CONCLUDED \<or> new = CANCELLED then Some (clock c 1) else concluded_at e)"
  "approved_by_id (apply_transition c new a e) =
     (if new = APPROVED \<and> a \<noteq> None then a else approved_by_id e)"
  "outcome (apply_transition c new a e) =
     (if new = CANCELLED then Some OUTCOME_CANCELLED else outcome e)"
  by (auto simp: apply_transition_def Let_def)

lemma apply_update_keeps [simp]:
  "exp_id (apply_update r e) = exp_id e"
  "exp_org (apply_update r e) = exp_org e"
  "owner_id (apply_update r e) = owner_id e"
  "status (apply_update r e) = status e"
  "started_at (apply_update r e) = started_at e"
  "concluded_at (apply_update r e) = concluded_at e"
  "approved_by_id (apply_update r e) = approved_by_id e"
  "estimated_risk_score (apply_update r e) = estimated_risk_score e"
  by (simp_all add: apply_update_def)

lemma apply_run_update_keeps [simp]:
  "run_id (apply_run_update u r) = run_id r"
  "run_experiment (apply_run_update u r) = run_experiment r"
  "run_org (apply_run_update u r) = run_org r"
  by (simp_all add: apply_run_update_def)

lemma stamped_keeps [simp]:
  "exp_id (e\<lparr>exp_updated_at := t\<rparr>) = exp_id e"
  "exp_org (e\<lparr>exp_updated_at := t\<rparr>) = exp_org e"
  "owner_id (e\<lparr>exp_updated_at := t\<rparr>) = owner_id e"
  "status (e\<lparr>exp_updated_at := t\<rparr>) = status e"
  "started_at (e\<lparr>exp_updated_at := t\<rparr>) = started_at e"
  "concluded_at (e\<lparr>exp_updated_at := t\<rparr>) = concluded_at e"
  by simp_all

section \<open>The service operations by cases\<close>

lemma transition_cases:
  obtains (missing) "get_experiment org eid db = None"
      "transition_experiment pf c org eid new nts approver db = (Inl (ValueError ''Experiment not found''), db)"
  | (refused) e m where "get_experiment org eid db = Some e"
      "new \<notin> set (valid_experiment_transitions (status e))"
      "transition_experiment pf c org eid new nts approver db = (Inl (ValueError m), db)"
  | (moved) e e' where "get_experiment org eid db = Some e"
      "new \<in> set (valid_experiment_transitions (status e))"
      "e' = (apply_transition c new approver e)\<lparr>exp_updated_at := clock c 2\<rparr>"
      "transition_experiment pf c org eid new nts approver db =
         (Inr e', append_event pf org approver ''experiment.transitioned'' ''optimization_experiment''
            (uuid_str eid) (transitioned_payload e' nts) (fresh c 0, clock c 3) (put_experiment e' db))"
proof (cases "get_experiment org eid db")
  case None
  then show thesis by (rule missing) (simp add: transition_experiment_def None)
next
  case (Some e)
  then have id: "exp_id e = eid" by (simp add: get_experiment_Some)
  show thesis
  proof (cases "new \<in> set (valid_experiment_transitions (status e))")
    case True
    show thesis
      by (rule moved [OF Some True refl])
        (simp only: transition_experiment_def Some option.case True not_True_eq_False if_False Let_def
          stamped_keeps apply_transition_keeps id)
  next
    case False
    have "\<exists>m. transition_experiment pf c org eid new nts approver db = (Inl (ValueError m), db)"
      by (simp add: transition_experiment_def Some False Let_def)
    with refused [OF Some False] show thesis by blast
  qed
qed

lemma update_cases:
  obtains (missing) "get_experiment org eid db = None"
      "update_experiment pf c org eid req db = (None, db)"
  | (updated) e e' where "get_experiment org eid db = Some e"
      "e' = (let u = apply_update req e in if u = e then e else u\<lparr>exp_updated_at := clock c 0\<rparr>)"
      "update_experiment pf c org eid req db =
         (Some e', append_event pf org (owner_id e') ''experiment.updated'' ''optimization_experiment''
            (uuid_str eid) (update_dump req) (fresh c 0, clock c 1) (put_experiment e' db))"
proof (cases "get_experiment org eid db")
  case None
  then show thesis by (rule missing) (simp add: update_experiment_def None)
next
  case (Some e)
  then have id: "exp_id e = eid" by (simp add: get_experiment_Some)
  show thesis
    by (rule updated [OF Some refl])
      (simp only: update_experiment_def Some option.case Let_def if_distrib [of exp_id] stamped_keeps
        apply_update_keeps id if_cancel)
qed

lemma approval_cases:
  obtains (refused) m where "create_approval pf c org eid approver nt db = (Inl (ValueError m), db)"
      "get_experiment org eid db = None \<or>
       (\<exists>e. get_experiment org eid db = Some e \<and>
         (owner_id e = Some approver \<or>
          (\<exists>a\<in>set (approvals db). ap_experiment a = eid \<and> approver_user_id a = approver)))"
  | (approved) e a where "get_experiment org eid db = Some e" "owner_id e \<noteq> Some approver"
      "\<forall>a\<in>set (approvals db). \<not> (ap_experiment a = eid \<and> approver_user_id a = approver)"
      "a = \<lparr>ap_id = fresh c 0, ap_org = org, ap_experiment = eid,
             approver_user_id = approver, ap_note = nt, ap_created_at = clock c 0\<rparr>"
      "create_approval pf c org eid approver nt db =
         (Inr a, append_event pf org (Some approver) ''experiment.approved'' ''optimization_experiment''
            (uuid_str eid) (approved_payload a) (fresh c 1, clock c 1) (db\<lparr>approvals := approvals db @ [a]\<rparr>))"
proof (cases "get_experiment org eid db")
  case None
  then show thesis using refused by (simp add: create_approval_def)
next
  case (Some e)
  show thesis
  proof (cases "owner_id e = Some approver")
    case True
    with Some show thesis using refused by (simp add: create_approval_def)
  next
    case owner: False
    show thesis
    proof (cases "list_ex (\<lambda>a. ap_experiment a = eid \<and> approver_user_id a = approver) (approvals db)")
      case True
      then have "\<exists>a\<in>set (approvals db). ap_experiment a = eid \<and> approver_user_id a = approver"
        by (simp add: list_ex_iff)
      moreover have "create_approval pf c org eid approver nt db =
          (Inl (ValueError ''User already approved this experiment''), db)"
        by (simp add: create_approval_def Some owner True)
      ultimately show thesis using refused Some by blast
    next
      case False
      then have fresh: "\<forall>a\<in>set (approvals db). \<not> (ap_experiment a = eid \<and> approver_user_id a = approver)"
        by (simp add: list_ex_iff)
      show thesis
        by (rule approved [OF Some owner fresh refl])
          (simp only: create_approval_def Some option.case owner if_False False Let_def row_add_def)
    qed
  qed
qed

section \<open>Reachable databases\<close>

text \<open>
  One step is one service call, by any organization, on any input, at any time; the identifier of a
  new experiment is unused, as for \<open>uuid4()\<close> keys.
\<close>

inductive exp_step :: "platform \<Rightarrow> exp_db \<Rightarrow> exp_db \<Rightarrow> bool" for pf where
  create: "fresh c 0 \<notin> exp_id ` set (experiments db) \<Longrightarrow>
     exp_step pf db (snd (create_experiment pf c org owner req db))"
| update: "exp_step pf db (snd (update_experiment pf c org eid ureq db))"
| transition: "exp_step pf db (snd (transition_experiment pf c org eid new notes approver db))"
| approve: "exp_step pf db (snd (create_approval pf c org eid approver note db))"
| run: "exp_step pf db (snd (create_run pf c org eid rreq actor db))"
| run_update: "exp_step pf db (snd (update_run pf c org eid rid rureq actor db))"

definition empty_exp_db :: exp_db where
  "empty_exp_db = \<lparr>events = [], checkpoints = [], alerts = [], bundles = [], evidence = [],
     experiments = [], runs = [], approvals = []\<rparr>"

inductive exp_reach :: "platform \<Rightarrow> exp_db \<Rightarrow> bool" for pf where
  start: "exp_reach pf empty_exp_db"
| step: "exp_reach pf db \<Longrightarrow> exp_step pf db db' \<Longrightarrow> exp_reach pf db'"

inductive_cases exp_stepE: "exp_step pf db db'"

definition experiment_ok :: "optimization_experiment \<Rightarrow> bool" where
  "experiment_ok e \<longleftrightarrow>
     (status e \<in> {RUNNING, MEASURING, CONCLUDED} \<longrightarrow> started_at e \<noteq> None)
   \<and> (concluded_at e \<noteq> None \<longleftrightarrow> status e \<in> {CONCLUDED, CANCELLED})"

definition approval_ok :: "optimization_experiment list \<Rightarrow> experiment_approval \<Rightarrow> bool" where
  "approval_ok es a \<longleftrightarrow> (\<exists>e\<in>set es. exp_id e = ap_experiment a \<and> exp_org e = ap_org a
     \<and> owner_id e \<noteq> Some (approver_user_id a))"

definition run_ok :: "optimization_experiment list \<Rightarrow> experiment_run \<Rightarrow> bool" where
  "run_ok es r \<longleftrightarrow>
     (\<exists>e\<in>set es. exp_id e = run_experiment r \<and> exp_org e = run_org r \<and> started_at e \<noteq> None)
   \<and> run_started_at r \<noteq> None
   \<and> (run_state r \<in> {RUN_COMPLETED, RUN_ROLLED_BACK} \<longrightarrow> run_completed_at r \<noteq> None)"

definition approval_key :: "experiment_approval \<Rightarrow> uuid \<times> uuid" where
  "approval_key a = (ap_experiment a, approver_user_id a)"

definition exp_db_ok :: "'z exp_db_scheme \<Rightarrow> bool" where
  "exp_db_ok db \<longleftrightarrow> distinct (map exp_id (experiments db))
   \<and> list_all experiment_ok (experiments db)
   \<and> distinct (map approval_key (approvals db))
   \<and> list_all (approval_ok (experiments db)) (approvals db)
   \<and> list_all (run_ok (experiments db)) (runs db)"

text \<open>Replacing a row by a later version of the same experiment.\<close>

definition successor :: "optimization_experiment \<Rightarrow> optimization_experiment \<Rightarrow> bool" where
  "successor e e' \<longleftrightarrow> exp_id e' = exp_id e \<and> exp_org e' = exp_org e \<and> owner_id e' = owner_id e
     \<and> (started_at e \<noteq> None \<longrightarrow> started_at e' \<noteq> None)"

lemma successor_refl [simp]: "successor e e"
  by (simp add: successor_def)

definition covers :: "optimization_experiment list \<Rightarrow> optimization_experiment list \<Rightarrow> bool" where
  "covers es es' \<longleftrightarrow> (\<forall>e\<in>set es. \<exists>e'\<in>set es'. successor e e')"

lemma covers_put:
  assumes "distinct (map exp_id es)" and "e \<in> set es" and "successor e e'"
  shows "covers es (row_put exp_id e' es)"
  unfolding covers_def
proof
  fix x assume x: "x \<in> set es"
  have "successor x (if exp_id x = exp_id e' then e' else x)"
  proof (cases "exp_id x = exp_id e'")
    case True
    with assms x have "x = e"
      by (auto simp: successor_def dest: inj_onD simp: distinct_map)
    with assms(3) True show ?thesis by simp
  qed simp
  with x show "\<exists>y\<in>set (row_put exp_id e' es). successor x y"
    unfolding row_put_def set_map by blast
qed

lemma covers_add: "covers es (row_add e es)"
  unfolding covers_def row_add_def set_append using successor_refl by blast

lemma approval_ok_covers: "covers es es' \<Longrightarrow> approval_ok es a \<Longrightarrow> approval_ok es' a"
  by (fastforce simp: covers_def approval_ok_def successor_def)

lemma run_ok_covers: "covers es es' \<Longrightarrow> run_ok es r \<Longrightarrow> run_ok es' r"
  unfolding run_ok_def covers_def successor_def by (metis (no_types))

lemma list_all_covers:
  "covers es es' \<Longrightarrow> list_all (approval_ok es) as \<Longrightarrow> list_all (approval_ok es') as"
  "covers es es' \<Longrightarrow> list_all (run_ok es) rs \<Longrightarrow> list_all (run_ok es') rs"
  by (auto simp: list_all_iff intro: approval_ok_covers run_ok_covers)

lemma exp_db_ok_event [simp]:
  "exp_db_ok (append_event pf org a t n i p st db) = exp_db_ok db"
  by (simp add: exp_db_ok_def)

lemma exp_db_ok_put:
  assumes ok: "exp_db_ok db" and e: "get_experiment org eid db = Some e"
    and succ: "successor e e'" and e': "experiment_ok e'"
  shows "exp_db_ok (put_experiment e' db)"
proof -
  from e have "e \<in> set (experiments db)" by (simp add: get_experiment_Some)
  with ok succ have "covers (experiments db) (row_put exp_id e' (experiments db))"
    by (intro covers_put) (auto simp: exp_db_ok_def)
  with ok e' show ?thesis
    by (auto simp: exp_db_ok_def list_all_covers)
      (auto simp: list_all_iff dest: set_row_put)
qed

lemma successor_transition:
  "successor e ((apply_transition c new a e)\<lparr>exp_updated_at := t\<rparr>)"
  by (simp add: successor_def apply_transition_stamps)

lemma experiment_ok_transition:
  assumes "experiment_ok e" and "new \<in> set (valid_experiment_transitions (status e))"
  shows "experiment_ok ((apply_transition c new a e)\<lparr>exp_updated_at := t\<rparr>)"
  using assms by (cases "status e") (auto simp: experiment_ok_def apply_transition_stamps)

lemma updated_keeps:
  assumes "e' = (let u = apply_update req e in if u = e then e else u\<lparr>exp_updated_at := t\<rparr>)"
  shows "successor e e'" and "experiment_ok e' = experiment_ok e"
  using assms by (auto simp: Let_def successor_def experiment_ok_def)

lemma create_experiment_ok:
  assumes "exp_db_ok db" and "fresh c 0 \<notin> exp_id ` set (experiments db)"
  shows "exp_db_ok (snd (create_experiment pf c org owner req db))"
proof -
  let ?e = "new_experiment c org owner req"
  have "experiment_ok ?e" by (simp add: experiment_ok_def new_experiment_def)
  moreover have "exp_id ?e = fresh c 0" by (simp add: new_experiment_def)
  moreover have "experiments (snd (create_experiment pf c org owner req db)) = row_add ?e (experiments db)"
    and "approvals (snd (create_experiment pf c org owner req db)) = approvals db"
    and "runs (snd (create_experiment pf c org owner req db)) = runs db"
    by (simp_all add: create_experiment_def Let_def)
  ultimately show ?thesis
    using assms covers_add [of "experiments db" ?e]
    by (auto simp: exp_db_ok_def list_all_covers) (auto simp: row_add_def)
qed

lemma update_experiment_ok:
  assumes "exp_db_ok db" shows "exp_db_ok (snd (update_experiment pf c org eid req db))"
proof (cases rule: update_cases [where org = org and eid = eid and db = db and pf = pf and c = c and req = req])
  case missing
  with assms show ?thesis by simp
next
  case (updated e e')
  from assms updated(1) have "experiment_ok e"
    by (auto simp: exp_db_ok_def list_all_iff dest: get_experiment_Some)
  with assms updated updated_keeps [OF updated(2)] show ?thesis
    by (simp add: exp_db_ok_put)
qed

lemma transition_experiment_ok:
  assumes "exp_db_ok db" shows "exp_db_ok (snd (transition_experiment pf c org eid new notes a db))"
proof (cases rule: transition_cases [where org = org and eid = eid and db = db and pf = pf and c = c and new = new and nts = "notes" and approver = a])
  case (moved e e')
  from assms moved(1) have "experiment_ok e"
    by (auto simp: exp_db_ok_def list_all_iff dest: get_experiment_Some)
  from this moved(2) have "experiment_ok e'" unfolding moved(3) by (rule experiment_ok_transition)
  moreover have "successor e e'" unfolding moved(3) by (rule successor_transition)
  ultimately show ?thesis using assms moved(1,4) by (simp add: exp_db_ok_put)
qed (use assms in simp_all)

lemma create_approval_ok:
  assumes "exp_db_ok db" shows "exp_db_ok (snd (create_approval pf c org eid approver note db))"
proof (cases rule: approval_cases [where org = org and eid = eid and db = db and pf = pf and c = c and approver = approver and nt = "note"])
  case (approved e a)
  from approved(1) have e: "e \<in> set (experiments db)" "exp_id e = eid" "exp_org e = org"
    by (simp_all add: get_experiment_Some)
  with approved(2) have "approval_ok (experiments db) a"
    unfolding approved(4) approval_ok_def by auto
  moreover from approved(3) have "approval_key a \<notin> approval_key ` set (approvals db)"
    unfolding approved(4) approval_key_def by auto
  ultimately show ?thesis using assms by (simp add: approved(5) exp_db_ok_def)
qed (use assms in simp_all)

lemma create_run_ok:
  assumes "exp_db_ok db" shows "exp_db_ok (snd (create_run pf c org eid req actor db))"
proof (cases "get_experiment org eid db")
  case (Some e)
  then have e: "e \<in> set (experiments db)" "exp_id e = eid" "exp_org e = org"
    by (simp_all add: get_experiment_Some)
  show ?thesis
  proof (cases "status e = RUNNING")
    case True
    with e assms have "started_at e \<noteq> None"
      by (auto simp: exp_db_ok_def list_all_iff experiment_ok_def)
    with e True assms show ?thesis
      by (auto simp: create_run_def Some Let_def exp_db_ok_def run_ok_def row_add_def)
  qed (simp add: create_run_def Some assms)
qed (simp add: create_run_def assms)

lemma update_run_ok:
  assumes "exp_db_ok db" shows "exp_db_ok (snd (update_run pf c org eid rid req actor db))"
proof (cases "row_find run_id rid (runs db)")
  case (Some r)
  let ?r = "(if ru_status req = Some RUN_COMPLETED \<or> ru_status req = Some RUN_ROLLED_BACK
      then apply_run_update req r\<lparr>run_completed_at := Some (clock c 0)\<rparr> else apply_run_update req r)"
  from Some assms have "run_ok (experiments db) r"
    by (auto simp: exp_db_ok_def list_all_iff dest: row_find_Some)
  then have "run_ok (experiments db) ?r"
    by (cases "ru_status req") (auto simp: run_ok_def apply_run_update_def set_opt_def)
  with assms have "exp_db_ok (db\<lparr>runs := row_put run_id ?r (runs db)\<rparr>)"
    by (auto simp: exp_db_ok_def list_all_iff dest: set_row_put)
  then show ?thesis using assms by (simp add: update_run_def Some Let_def)
qed (simp add: update_run_def assms)

lemma exp_step_ok: "exp_step pf db db' \<Longrightarrow> exp_db_ok db \<Longrightarrow> exp_db_ok db'"
  by (induction rule: exp_step.induct)
    (simp_all add: create_experiment_ok update_experiment_ok transition_experiment_ok
      create_approval_ok create_run_ok update_run_ok)

lemma exp_reach_ok: "exp_reach pf db \<Longrightarrow> exp_db_ok db"
proof (induction rule: exp_reach.induct)
  case start
  show ?case by (simp add: exp_db_ok_def empty_exp_db_def)
qed (rule exp_step_ok)

text \<open>
  C3 (invariant): in every database the service can reach, identifiers are distinct, an experiment
  that runs or ran has a start time, it has a conclusion time exactly when it is concluded or
  cancelled, every approval is of an existing experiment of the same organization by a user who is
  not its owner, no user approved an experiment twice, and every run belongs to an experiment of
  its organization that was started, with a completion time once it is completed or rolled back.
\<close>

theorem reachable_experiments_ok:
  assumes "exp_reach pf db"
  shows "distinct (map exp_id (experiments db)) \<and> list_all experiment_ok (experiments db)
    \<and> distinct (map approval_key (approvals db))
    \<and> list_all (approval_ok (experiments db)) (approvals db)
    \<and> list_all (run_ok (experiments db)) (runs db)"
  using exp_reach_ok [OF assms] by (simp add: exp_db_ok_def)

definition sample_create :: experiment_create where
  "sample_create = \<lparr>ec_title = ''t'', ec_hypothesis = None, ec_description = None,
     ec_opportunity = None, ec_risk_budget = None, ec_guardrails = None, ec_change_events = None,
     ec_environment = ''unknown'', ec_criticality = ''medium''\<rparr>"

definition sample_call :: call where
  "sample_call = \<lparr>fresh = word_of_nat, clock = int\<rparr>"

lemma sample_reach:
  "exp_reach pf (snd (create_experiment pf sample_call 1 2 sample_create empty_exp_db))"
  by (rule exp_reach.step [OF exp_reach.start exp_step.create]) (simp add: empty_exp_db_def)

lemma sample_created:
  "experiments (snd (create_experiment pf sample_call 1 2 sample_create empty_exp_db))
     = [new_experiment sample_call 1 2 sample_create]"
  by (simp add: create_experiment_def Let_def row_add_def empty_exp_db_def)

theorem reachable_experiments_ok_witness:
  "experiment_ok (new_experiment sample_call 1 2 sample_create)"
  using reachable_experiments_ok [OF sample_reach] sample_created by simp

text \<open>
  A transition on every branch. It fails on a missing experiment or a status that
  the table does not list, and then changes nothing; otherwise the stored experiment has the new
  status, every other experiment is as before, and one audit event names it. Starting stamps
  \<open>started_at\<close>, concluding and cancelling stamp \<open>concluded_at\<close>, cancelling sets the outcome.
\<close>

theorem transition_outcome:
  "case transition_experiment pf c org eid new notes approver db of
     (Inl err, db') \<Rightarrow> db' = db \<and>
       (case get_experiment org eid db of
          None \<Rightarrow> err = ValueError ''Experiment not found''
        | Some e \<Rightarrow> new \<notin> set (valid_experiment_transitions (status e)))
   | (Inr e', db') \<Rightarrow>
       (\<exists>e. get_experiment org eid db = Some e
          \<and> new \<in> set (valid_experiment_transitions (status e)) \<and> status e' = new
          \<and> started_at e' = (if new = RUNNING then Some (clock c 0) else started_at e)
          \<and> concluded_at e' =
              (if new = CONCLUDED \<or> new = CANCELLED then Some (clock c 1) else concluded_at e)
          \<and> outcome e' = (if new = CANCELLED then Some OUTCOME_CANCELLED else outcome e)
          \<and> approved_by_id e' =
              (if new = APPROVED \<and> approver \<noteq> None then approver else approved_by_id e))
       \<and> (\<forall>o' k. get_experiment o' k db' =
            (if k = eid \<and> o' = org then Some e' else get_experiment o' k db))
       \<and> butlast (events db') = events db
       \<and> event_type (last (events db')) = ''experiment.transitioned''
       \<and> entity_id (last (events db')) = uuid_str eid"
proof (cases rule: transition_cases [where org = org and eid = eid and db = db and pf = pf
      and c = c and new = new and nts = "notes" and approver = approver])
  case (moved e e')
  then have "exp_id e' = eid" and "exp_org e' = org" by (simp_all add: get_experiment_Some)
  note get = get_put_experiment [OF moved(1) this]
  have "get_experiment o' k (append_event pf org approver ''experiment.transitioned''
      ''optimization_experiment'' (uuid_str eid) p st (put_experiment e' db)) =
    (if k = eid \<and> o' = org then Some e' else get_experiment o' k db)" for o' k p st
    using get [of o' k] by (simp only: get_experiment_append_event)
  moreover have "status e' = new" and "started_at e' = (if new = RUNNING then Some (clock c 0) else started_at e)"
    and "concluded_at e' = (if new = CONCLUDED \<or> new = CANCELLED then Some (clock c 1) else concluded_at e)"
    and "outcome e' = (if new = CANCELLED then Some OUTCOME_CANCELLED else outcome e)"
    and "approved_by_id e' = (if new = APPROVED \<and> approver \<noteq> None then approver else approved_by_id e)"
    unfolding moved(3) by (simp_all add: apply_transition_stamps)
  ultimately show ?thesis
    unfolding moved(4) prod.case sum.case append_event_last experiments_put
    by (intro conjI exI [of _ e] allI moved(1,2) refl)
qed simp_all

section \<open>The status graph\<close>

definition moves :: "experiment_status \<Rightarrow> experiment_status \<Rightarrow> bool" where
  "moves s t \<longleftrightarrow> t \<in> set (valid_experiment_transitions s)"

text \<open>A history: the statuses an experiment went through, oldest first.\<close>

fun history :: "experiment_status list \<Rightarrow> bool" where
  "history [] = True"
| "history [s] = True"
| "history (s # t # ss) = (moves s t \<and> history (t # ss))"

text \<open>The status an experiment must have been in before one can be reached.\<close>

fun needs :: "experiment_status \<Rightarrow> experiment_status set" where
  "needs DRAFT = {DRAFT}"
| "needs HYPOTHESIS = {DRAFT, HYPOTHESIS}"
| "needs SIMULATING = {DRAFT, HYPOTHESIS, SIMULATING}"
| "needs APPROVED = {DRAFT, HYPOTHESIS, SIMULATING, APPROVED}"
| "needs RUNNING = {DRAFT, HYPOTHESIS, SIMULATING, APPROVED, RUNNING}"
| "needs MEASURING = {DRAFT, HYPOTHESIS, SIMULATING, APPROVED, RUNNING, MEASURING}"
| "needs CONCLUDED = {DRAFT, HYPOTHESIS, SIMULATING, APPROVED, RUNNING, MEASURING, CONCLUDED}"
| "needs CANCELLED = {DRAFT, CANCELLED}"

lemma needs_step: "moves s t \<Longrightarrow> needs t \<subseteq> insert t (needs s)"
  by (cases s) (auto simp: moves_def)

lemma history_needs:
  "history (s # ss) \<Longrightarrow> needs s \<subseteq> seen \<Longrightarrow> needs (last (s # ss)) \<subseteq> seen \<union> set (s # ss)"
proof (induction ss arbitrary: s seen)
  case Nil
  then show ?case by auto
next
  case (Cons t ss)
  then have "needs t \<subseteq> insert t seen" using needs_step [of s t] by auto
  with Cons.IH [of t "insert t seen"] Cons.prems(1) show ?case by auto
qed

lemma not_final_moves: "s \<noteq> CONCLUDED \<Longrightarrow> s \<noteq> CANCELLED \<Longrightarrow> moves\<^sup>*\<^sup>* s CONCLUDED"
proof -
  have 1: "moves MEASURING CONCLUDED" "moves RUNNING MEASURING" "moves APPROVED RUNNING"
    "moves SIMULATING APPROVED" "moves HYPOTHESIS SIMULATING" "moves DRAFT HYPOTHESIS"
    by (simp_all add: moves_def)
  note r = converse_rtranclp_into_rtranclp
  have 2: "moves\<^sup>*\<^sup>* MEASURING CONCLUDED" using 1 by blast
  have 3: "moves\<^sup>*\<^sup>* RUNNING CONCLUDED" by (rule r [OF 1(2) 2])
  have 4: "moves\<^sup>*\<^sup>* APPROVED CONCLUDED" by (rule r [OF 1(3) 3])
  have 5: "moves\<^sup>*\<^sup>* SIMULATING CONCLUDED" by (rule r [OF 1(4) 4])
  have 6: "moves\<^sup>*\<^sup>* HYPOTHESIS CONCLUDED" by (rule r [OF 1(5) 5])
  have 7: "moves\<^sup>*\<^sup>* DRAFT CONCLUDED" by (rule r [OF 1(6) 6])
  assume "s \<noteq> CONCLUDED" and "s \<noteq> CANCELLED"
  with 2 3 4 5 6 7 show ?thesis by (cases s) simp_all
qed

text \<open>
  The status graph has no shortcuts and no dead ends: an experiment that reaches
  \<open>RUNNING\<close> was simulated and approved, one that is \<open>CONCLUDED\<close> also ran and was measured;
  from every status but the two final ones \<open>CONCLUDED\<close> can be reached; and the final ones are stuck.
\<close>

theorem status_graph:
  assumes "history (DRAFT # ss)"
  shows "needs (last (DRAFT # ss)) \<subseteq> set (DRAFT # ss)
    \<and> (last (DRAFT # ss) \<noteq> CONCLUDED \<and> last (DRAFT # ss) \<noteq> CANCELLED \<longleftrightarrow>
         moves\<^sup>+\<^sup>+ (last (DRAFT # ss)) CONCLUDED)"
proof
  show "needs (last (DRAFT # ss)) \<subseteq> set (DRAFT # ss)"
    using history_needs [OF assms, of "{DRAFT}"] by auto
  have stuck: "\<not> moves\<^sup>+\<^sup>+ s CONCLUDED" if "s = CONCLUDED \<or> s = CANCELLED" for s
    using that by (auto simp: moves_def dest: tranclpD)
  show "last (DRAFT # ss) \<noteq> CONCLUDED \<and> last (DRAFT # ss) \<noteq> CANCELLED \<longleftrightarrow>
      moves\<^sup>+\<^sup>+ (last (DRAFT # ss)) CONCLUDED"
    using stuck not_final_moves by (metis rtranclpD)
qed

theorem status_graph_witness:
  "{SIMULATING, APPROVED} \<subseteq> set [DRAFT, HYPOTHESIS, SIMULATING, APPROVED, RUNNING]"
  using status_graph [of "[HYPOTHESIS, SIMULATING, APPROVED, RUNNING]"] by (simp add: moves_def)

end
