(* ===== verification/Idempotency.thy ===== *)
theory Idempotency
  imports AuditChain
begin

text \<open>
  \<open>core/idempotency.py\<close> over Redis: the fingerprint and key of a request, \<open>prepare_request\<close> and
  \<open>store_response\<close>. Redis is its key-value contents with expiry instants; every command may raise,
  which is the argument \<open>up\<close> of the call (whether its n-th command succeeds). \<open>DisabledRedis\<close>, the
  client used when no URL is configured, is the second backend. A call is the run of its commands, so that
  those of concurrent calls can be interleaved. The cached response is kept as
  its status code and payload; \<open>json.dumps\<close> and \<open>json.loads\<close> of the envelope are inverse on it.

  The commands the code uses are the interface \<open>kv_commands\<close>; the protocol of concurrent requests
  is proved over it.
\<close>

section \<open>Redis\<close>

datatype 'p cell = Text string | Envelope nat 'p

type_synonym 'p redis = "string \<Rightarrow> ('p cell \<times> instant) option"

text \<open>A key is present until its expiry instant.\<close>

definition redis_get :: "instant \<Rightarrow> string \<Rightarrow> 'p redis \<Rightarrow> 'p cell option" where
  "redis_get now k r = (case r k of None \<Rightarrow> None | Some (v, ex) \<Rightarrow> if now < ex then Some v else None)"

definition redis_set :: "instant \<Rightarrow> string \<Rightarrow> 'p cell \<Rightarrow> int \<Rightarrow> 'p redis \<Rightarrow> 'p redis" where
  "redis_set now k v ttl_seconds r = r(k \<mapsto> (v, now + ttl_seconds * 1000000))"

text \<open>\<open>SET key value NX EX ttl\<close>: whether the key was absent and is now set.\<close>

definition redis_set_nx ::
  "instant \<Rightarrow> string \<Rightarrow> 'p cell \<Rightarrow> int \<Rightarrow> 'p redis \<Rightarrow> bool \<times> 'p redis" where
  "redis_set_nx now k v ttl_seconds r =
     (if redis_get now k r = None then (True, redis_set now k v ttl_seconds r) else (False, r))"

datatype backend = Live | Disabled

definition kv_get :: "backend \<Rightarrow> instant \<Rightarrow> string \<Rightarrow> 'p redis \<Rightarrow> 'p cell option" where
  "kv_get b now k r = (case b of Live \<Rightarrow> redis_get now k r | Disabled \<Rightarrow> None)"

definition kv_set_nx ::
  "backend \<Rightarrow> instant \<Rightarrow> string \<Rightarrow> 'p cell \<Rightarrow> int \<Rightarrow> 'p redis \<Rightarrow> bool \<times> 'p redis" where
  "kv_set_nx b now k v ttl r = (case b of Live \<Rightarrow> redis_set_nx now k v ttl r | Disabled \<Rightarrow> (False, r))"

definition kv_set :: "backend \<Rightarrow> instant \<Rightarrow> string \<Rightarrow> 'p cell \<Rightarrow> int \<Rightarrow> 'p redis \<Rightarrow> 'p redis" where
  "kv_set b now k v ttl r = (case b of Live \<Rightarrow> redis_set now k v ttl r | Disabled \<Rightarrow> r)"

section \<open>Keys\<close>

definition py_upper :: "string \<Rightarrow> string" where
  "py_upper s = map (\<lambda>c. let n = of_char c :: nat in
     if 97 \<le> n \<and> n \<le> 122 then char_of (n - 32) else c) s"

definition build_fingerprint :: "platform \<Rightarrow> string \<Rightarrow> string \<Rightarrow> string \<Rightarrow> string" where
  "build_fingerprint pf http_method path body =
     hexdigest (sha256 pf (py_join ''|'' [py_upper http_method, path, body]))"

definition build_scope_key :: "uuid \<Rightarrow> uuid \<Rightarrow> string \<Rightarrow> uuid option \<Rightarrow> string \<Rightarrow> string" where
  "build_scope_key org user operation resource key =
     ''idemp:'' @ uuid_str org @ '':'' @ uuid_str user @ '':'' @ operation @ '':''
     @ (case resource of None \<Rightarrow> ''-'' | Some u \<Rightarrow> uuid_str u) @ '':'' @ key"

section \<open>Preparing a request\<close>

datatype prepare_state = New | Conflict | Replay | InProgress

definition day_seconds :: int where
  "day_seconds = 24 * 60 * 60"

text \<open>
  Where a request stands between two of its commands: before the first read, after a read that found
  nothing, after a conditional set that failed, after the fingerprints agreed, decided with the result, or
  in the handler of an exception.
\<close>

datatype 'p phase = Started | Missed | Lost | Matched | Decided prepare_state "(nat \<times> 'p) option" | Failed

definition compared :: "string \<Rightarrow> 'p cell option \<Rightarrow> 'p phase" where
  "compared fingerprint existing =
     (if existing \<noteq> Some (Text fingerprint) then Decided Conflict None else Matched)"

text \<open>\<open>json.loads\<close> raises on a text that is no envelope; an empty one counts as absent.\<close>

definition cached_answer :: "'p cell option \<Rightarrow> 'p phase" where
  "cached_answer cached =
     (case cached of
        Some (Envelope code body) \<Rightarrow> Decided Replay (Some (code, body))
      | Some (Text t) \<Rightarrow> if t = [] then Decided InProgress None else Failed
      | None \<Rightarrow> Decided InProgress None)"

text \<open>
  One command and the code up to the next: \<open>up\<close> says whether Redis answers it; a command that raises has
  changed nothing.
\<close>

definition request_command ::
  "backend \<Rightarrow> bool \<Rightarrow> instant \<Rightarrow> string \<Rightarrow> string \<Rightarrow> 'p phase \<times> 'p redis \<Rightarrow> 'p phase \<times> 'p redis" where
  "request_command b up now scope_key fingerprint s =
     (let req_key = scope_key @ '':req''; resp_key = scope_key @ '':resp'';
          raise_or = (\<lambda>next r. if up then next else (Failed, r))
      in case s of
           (Started, r) \<Rightarrow> raise_or
             (case kv_get b now req_key r of None \<Rightarrow> Missed | Some v \<Rightarrow> compared fingerprint (Some v), r) r
         | (Missed, r) \<Rightarrow> raise_or
             (case kv_set_nx b now req_key (Text fingerprint) day_seconds r of
                (locked, r) \<Rightarrow> (if locked then Decided New None else Lost, r)) r
         | (Lost, r) \<Rightarrow> raise_or (compared fingerprint (kv_get b now req_key r), r) r
         | (Matched, r) \<Rightarrow> raise_or (cached_answer (kv_get b now resp_key r), r) r
         | (Decided d x, r) \<Rightarrow> (Decided d x, r)
         | (Failed, r) \<Rightarrow> (Failed, r))"

text \<open>The whole call is at most four commands; the handler of an exception answers as if the request were new.\<close>

definition prepare_request ::
  "backend \<Rightarrow> (nat \<Rightarrow> bool) \<Rightarrow> instant \<Rightarrow> string \<Rightarrow> string \<Rightarrow> 'p redis
   \<Rightarrow> (prepare_state \<times> (nat \<times> 'p) option) \<times> 'p redis" where
  "prepare_request b up now scope_key fingerprint r =
     (case fold (\<lambda>n. request_command b (up n) now scope_key fingerprint) [0, 1, 2, 3] (Started, r) of
        (Decided state cached, r) \<Rightarrow> ((state, cached), r)
      | (_, r) \<Rightarrow> ((New, None), r))"

text \<open>Without interleaving the commands run as the function reads.\<close>

lemma prepare_request_code:
  "prepare_request b up now scope_key fingerprint r =
     (let req_key = scope_key @ '':req''; resp_key = scope_key @ '':resp'';
          failed = (\<lambda>r. ((New, None), r));
          compare = (\<lambda>n existing r.
            if existing \<noteq> Some (Text fingerprint) then ((Conflict, None), r)
            else if \<not> up n then failed r
            else case kv_get b now resp_key r of
                   Some (Envelope code body) \<Rightarrow> ((Replay, Some (code, body)), r)
                 | Some (Text t) \<Rightarrow> if t = [] then ((InProgress, None), r) else failed r
                 | None \<Rightarrow> ((InProgress, None), r))
      in if \<not> up 0 then failed r
         else case kv_get b now req_key r of
                Some v \<Rightarrow> compare 1 (Some v) r
              | None \<Rightarrow>
                  if \<not> up 1 then failed r
                  else let (locked, r') = kv_set_nx b now req_key (Text fingerprint) day_seconds r in
                    if locked then ((New, None), r')
                    else if \<not> up 2 then failed r'
                    else compare 3 (kv_get b now req_key r') r')"
  by (cases "kv_get b now (scope_key @ '':req'') r")
    (auto simp: prepare_request_def request_command_def compared_def cached_answer_def Let_def
      split: option.splits cell.splits prod.splits)

text \<open>Four commands are enough: none is left in between.\<close>

lemma prepare_request_ends:
  "\<exists>d x r'. fold (\<lambda>n. request_command b (up n) now scope fp) [0, 1, 2, 3] (Started, r) \<in> {(Decided d x, r'), (Failed, r')}"
  by (cases "kv_get b now (scope @ '':req'') r")
    (auto simp: request_command_def compared_def cached_answer_def Let_def split: option.splits cell.splits prod.splits)

definition store_response ::
  "backend \<Rightarrow> bool \<Rightarrow> instant \<Rightarrow> string \<Rightarrow> nat \<Rightarrow> 'p \<Rightarrow> 'p redis \<Rightarrow> 'p redis" where
  "store_response b up now scope_key status_code body r =
     (if status_code \<ge> 500 then r
      else if \<not> up then r
      else kv_set b now (scope_key @ '':resp'') (Envelope status_code body) day_seconds r)"

section \<open>The commands as an interface\<close>

text \<open>
  What the protocol relies on: reading a key after it was set returns it, a conditional set
  succeeds exactly on an absent key, and commands on other keys do not interfere.
\<close>

locale kv_commands =
  fixes get :: "string \<Rightarrow> 's \<Rightarrow> 'v option"
    and put :: "string \<Rightarrow> 'v \<Rightarrow> 's \<Rightarrow> 's"
    and put_nx :: "string \<Rightarrow> 'v \<Rightarrow> 's \<Rightarrow> bool \<times> 's"
  assumes get_put: "get k (put k' v s) = (if k = k' then Some v else get k s)"
    and put_nx_absent: "get k s = None \<Longrightarrow> put_nx k v s = (True, put k v s)"
    and put_nx_present: "get k s \<noteq> None \<Longrightarrow> put_nx k v s = (False, s)"
begin

lemma put_nx_get: "get k (snd (put_nx k v s)) = Some (case get k s of None \<Rightarrow> v | Some w \<Rightarrow> w)"
  by (cases "get k s") (auto simp: put_nx_absent put_nx_present get_put)

lemma put_nx_other: "k' \<noteq> k \<Longrightarrow> get k' (snd (put_nx k v s)) = get k' s"
  by (cases "get k s") (auto simp: put_nx_absent put_nx_present get_put)

lemma put_nx_won: "fst (put_nx k v s) \<longleftrightarrow> get k s = None"
  by (cases "get k s") (auto simp: put_nx_absent put_nx_present)

text \<open>Once a key is present no later conditional set of it succeeds.\<close>

lemma put_nx_once: "fst (put_nx k v s) \<Longrightarrow> \<not> fst (put_nx k w (snd (put_nx k v s)))"
  by (simp add: put_nx_won put_nx_get)

end

lemma redis_get_set:
  "0 < ttl \<Longrightarrow> redis_get now k (redis_set now k' v ttl r) = (if k = k' then Some v else redis_get now k r)"
  by (simp add: redis_get_def redis_set_def)

interpretation live: kv_commands "redis_get now" "\<lambda>k v. redis_set now k v day_seconds"
    "\<lambda>k v. redis_set_nx now k v day_seconds"
  for now :: instant
  by unfold_locales (simp_all add: redis_get_set redis_set_nx_def day_seconds_def)

section \<open>Sequential behaviour\<close>

lemma scope_keys_differ [simp]: "scope @ '':req'' \<noteq> scope @ '':resp''" "scope @ '':resp'' \<noteq> scope @ '':req''"
  by simp_all

text \<open>
  With Redis answering, the first request under a key is new and locks the key with
  its fingerprint; while the key lives, a repeat of the same request is in progress until a response
  below 500 is stored and from then on replays that response; a different request under the key is a
  conflict at any time.
\<close>

theorem idempotent_request_cycle:
  assumes "redis_get now (scope @ '':req'') r = None" and "code < 500" and "fp' \<noteq> fp"
  shows "\<exists>r1. prepare_request Live (\<lambda>_. True) now scope fp r = ((New, None), r1)
     \<and> (redis_get now (scope @ '':resp'') r = None \<longrightarrow>
          prepare_request Live (\<lambda>_. True) now scope fp r1 = ((InProgress, None), r1))
     \<and> prepare_request Live (\<lambda>_. True) now scope fp' r1 = ((Conflict, None), r1)
     \<and> prepare_request Live (\<lambda>_. True) now scope fp (store_response Live True now scope code body r1)
         = ((Replay, Some (code, body)), store_response Live True now scope code body r1)"
proof -
  let ?req = "scope @ '':req''" and ?resp = "scope @ '':resp''"
  define r1 where "r1 = redis_set now ?req (Text fp) day_seconds r"
  have req1: "redis_get now ?req r1 = Some (Text fp)"
    and resp1: "redis_get now ?resp r1 = redis_get now ?resp r"
    by (simp_all add: r1_def redis_get_set day_seconds_def)
  have stored: "store_response Live True now scope code body r1
      = redis_set now ?resp (Envelope code body) day_seconds r1"
    using assms(2) by (simp add: store_response_def kv_set_def)
  have req2: "redis_get now ?req (redis_set now ?resp (Envelope code body) day_seconds r1) = Some (Text fp)"
    and resp2: "redis_get now ?resp (redis_set now ?resp (Envelope code body) day_seconds r1)
      = Some (Envelope code body)"
    using req1 by (simp_all add: redis_get_set day_seconds_def)
  have "prepare_request Live (\<lambda>_. True) now scope fp r = ((New, None), r1)"
    using assms(1) by (simp add: prepare_request_code kv_get_def kv_set_nx_def redis_set_nx_def r1_def)
  moreover have "prepare_request Live (\<lambda>_. True) now scope fp r1 = ((InProgress, None), r1)"
    if "redis_get now ?resp r = None"
    using that by (simp add: prepare_request_code kv_get_def req1 resp1)
  moreover have "prepare_request Live (\<lambda>_. True) now scope fp' r1 = ((Conflict, None), r1)"
    using assms(3) by (simp add: prepare_request_code kv_get_def req1)
  moreover have "prepare_request Live (\<lambda>_. True) now scope fp (store_response Live True now scope code body r1)
      = ((Replay, Some (code, body)), store_response Live True now scope code body r1)"
    unfolding stored by (simp add: prepare_request_code kv_get_def req2 resp2)
  ultimately show ?thesis by (intro exI [of _ r1] conjI impI) assumption+
qed

theorem idempotent_request_cycle_witness:
  "\<exists>r1. prepare_request Live (\<lambda>_. True) 0 ''s'' ''a'' (\<lambda>_. None) = ((New, None), r1)
     \<and> (redis_get 0 (''s'' @ '':resp'') (\<lambda>_. None) = (None :: unit cell option) \<longrightarrow>
          prepare_request Live (\<lambda>_. True) 0 ''s'' ''a'' r1 = ((InProgress, None), r1))
     \<and> prepare_request Live (\<lambda>_. True) 0 ''s'' ''b'' r1 = ((Conflict, None), r1)
     \<and> prepare_request Live (\<lambda>_. True) 0 ''s'' ''a'' (store_response Live True 0 ''s'' 201 () r1)
         = ((Replay, Some (201, ())), store_response Live True 0 ''s'' 201 () r1)"
  by (rule idempotent_request_cycle) (simp_all add: redis_get_def)

text \<open>
  A Redis command that raises makes the request new, so an outage never blocks a
  mutation; but with no Redis configured every request that carries a key is a conflict, because
  the disabled client neither sets the key nor returns it.
\<close>

theorem redis_fault_policy:
  "prepare_request b (\<lambda>n. n \<noteq> 0 \<and> up n) now scope fp r = ((New, None), r)
   \<and> (fst (fst (prepare_request Live up now scope fp r)) = Replay \<longrightarrow>
        redis_get now (scope @ '':req'') r = Some (Text fp))
   \<and> (up 0 \<and> up 1 \<and> up 2 \<longrightarrow> prepare_request Disabled up now scope fp r = ((Conflict, None), r))"
proof (intro conjI impI)
  assume replay: "fst (fst (prepare_request Live up now scope fp r)) = Replay"
  show "redis_get now (scope @ '':req'') r = Some (Text fp)"
  proof (cases "redis_get now (scope @ '':req'') r")
    case None
    let ?r' = "redis_set now (scope @ '':req'') (Text fp) day_seconds r"
    have "redis_set_nx now (scope @ '':req'') (Text fp) day_seconds r = (True, ?r')"
      using None by (simp add: redis_set_nx_def)
    with None replay show ?thesis
      by (simp add: prepare_request_code kv_get_def kv_set_nx_def Let_def split: if_splits)
  next
    case (Some v)
    with replay show ?thesis
      by (simp add: prepare_request_code kv_get_def Let_def split: if_splits)
  qed
qed (simp_all add: prepare_request_code kv_get_def kv_set_nx_def)

theorem redis_fault_policy_witness:
  "prepare_request Disabled (\<lambda>_. True) 0 ''s'' ''a'' (\<lambda>_. None :: (unit cell \<times> instant) option)
     = ((Conflict, None), (\<lambda>_. None))"
  using redis_fault_policy [of _ "\<lambda>_. True" 0 "''s''" "''a''" "\<lambda>_. None"] by blast

section \<open>Concurrent requests\<close>

text \<open>
  Any number of requests under one key run \<open>prepare_request\<close> command by command in any interleaving, each
  command at an instant of its own within a day of the start and answered or not, while requests that were
  told to run, by the key or by the handler, store responses.
\<close>

record 'p race =
  store :: "'p redis"
  phase_of :: "nat \<Rightarrow> 'p phase"

definition within_day :: "instant \<Rightarrow> instant \<Rightarrow> bool" where
  "within_day t now \<longleftrightarrow> t \<le> now \<and> now < t + day_seconds * 1000000"

inductive race_step :: "instant \<Rightarrow> string \<Rightarrow> (nat \<Rightarrow> string) \<Rightarrow> 'p race \<Rightarrow> 'p race \<Rightarrow> bool"
  for t0 scope fps where
  command: "within_day t0 now \<Longrightarrow>
     request_command Live up now scope (fps i) (phase_of s i, store s) = (ph, r) \<Longrightarrow>
     race_step t0 scope fps s (s\<lparr>store := r, phase_of := (phase_of s)(i := ph)\<rparr>)"
| respond: "within_day t0 now \<Longrightarrow> phase_of s i = Decided New None \<or> phase_of s i = Failed \<Longrightarrow>
     race_step t0 scope fps s (s\<lparr>store := store_response Live up now scope code body (store s)\<rparr>)"

inductive_cases race_stepE: "race_step t0 scope fps s t"

inductive race_reach :: "instant \<Rightarrow> string \<Rightarrow> (nat \<Rightarrow> string) \<Rightarrow> 'p race \<Rightarrow> bool"
  for t0 scope fps where
  start: "redis_get t0 (scope @ '':req'') r = None \<Longrightarrow>
     race_reach t0 scope fps \<lparr>store = r, phase_of = (\<lambda>_. Started)\<rparr>"
| step: "race_reach t0 scope fps s \<Longrightarrow> race_step t0 scope fps s t \<Longrightarrow> race_reach t0 scope fps t"

text \<open>The key is free for the whole day, or held for the whole day with a fingerprint.\<close>

definition key_free :: "instant \<Rightarrow> string \<Rightarrow> 'p redis \<Rightarrow> bool" where
  "key_free t0 k r \<longleftrightarrow> (\<forall>v ex. r k = Some (v, ex) \<longrightarrow> ex \<le> t0)"

definition key_held :: "instant \<Rightarrow> string \<Rightarrow> string \<Rightarrow> 'p redis \<Rightarrow> bool" where
  "key_held t0 k fp r \<longleftrightarrow> (\<exists>ex. r k = Some (Text fp, ex) \<and> t0 + day_seconds * 1000000 \<le> ex)"

lemma key_free_get: "key_free t0 k r \<Longrightarrow> t0 \<le> now \<Longrightarrow> redis_get now k r = None"
  by (auto simp: key_free_def redis_get_def split: option.splits)

lemma key_held_get: "key_held t0 k fp r \<Longrightarrow> within_day t0 now \<Longrightarrow> redis_get now k r = Some (Text fp)"
  by (auto simp: key_held_def redis_get_def within_day_def)

lemma key_held_unique: "key_held t0 k fp r \<Longrightarrow> key_held t0 k fp' r \<Longrightarrow> fp' = fp"
  by (auto simp: key_held_def)

lemma key_set_held: "t0 \<le> now \<Longrightarrow> key_held t0 k fp (redis_set now k (Text fp) day_seconds r)"
  by (simp add: key_held_def redis_set_def)

lemma store_response_frame:
  "key_held t0 (scope @ '':req'') fp (store_response b up now scope code body r) \<longleftrightarrow> key_held t0 (scope @ '':req'') fp r"
  "key_free t0 (scope @ '':req'') (store_response b up now scope code body r) \<longleftrightarrow> key_free t0 (scope @ '':req'') r"
  by (simp_all add: key_held_def key_free_def store_response_def kv_set_def redis_set_def split: backend.splits)

text \<open>The winner holds the key, and whoever was not turned away has its fingerprint.\<close>

definition race_inv :: "instant \<Rightarrow> string \<Rightarrow> (nat \<Rightarrow> string) \<Rightarrow> 'p race \<Rightarrow> bool" where
  "race_inv t0 scope fps s \<longleftrightarrow>
     (key_free t0 (scope @ '':req'') (store s)
        \<and> (\<forall>i. phase_of s i \<in> {Started, Missed, Failed}))
   \<or> (\<exists>j. phase_of s j = Decided New None \<and> key_held t0 (scope @ '':req'') (fps j) (store s)
        \<and> (\<forall>i. i \<noteq> j \<longrightarrow> phase_of s i \<in> {Started, Missed, Lost, Failed, Decided Conflict None}
             \<or> fps i = fps j \<and> (phase_of s i = Matched \<or> phase_of s i = Decided InProgress None
                                  \<or> (\<exists>x. phase_of s i = Decided Replay x))))"

text \<open>What one command does while the key is held with the fingerprint \<open>w\<close>: it leaves Redis alone.\<close>

lemma command_held:
  assumes "key_held t0 (scope @ '':req'') w r" "within_day t0 now"
    and "ph \<in> {Started, Missed, Lost, Failed, Decided Conflict None}
      \<or> fp = w \<and> (ph = Matched \<or> ph = Decided InProgress None \<or> (\<exists>x. ph = Decided Replay x))"
    and "request_command Live up now scope fp (ph, r) = (ph', r')"
  shows "r' = r \<and> (ph' \<in> {Started, Missed, Lost, Failed, Decided Conflict None}
      \<or> fp = w \<and> (ph' = Matched \<or> ph' = Decided InProgress None \<or> (\<exists>x. ph' = Decided Replay x)))"
  using assms(3,4) key_held_get [OF assms(1,2)]
  by (auto simp: request_command_def kv_get_def kv_set_nx_def redis_set_nx_def compared_def cached_answer_def Let_def
      split: if_splits option.splits cell.splits)

lemma command_winner: "request_command b up now scope fp (Decided d x, r) = (Decided d x, r)"
  by (simp add: request_command_def)

text \<open>While the key is free a command leaves Redis alone, or takes the key.\<close>

lemma command_free:
  assumes "key_free t0 (scope @ '':req'') r" "within_day t0 now" "ph \<in> {Started, Missed, Failed}"
    and "request_command Live up now scope fp (ph, r) = (ph', r')"
  shows "r' = r \<and> ph' \<in> {Started, Missed, Failed}
    \<or> ph' = Decided New None \<and> key_held t0 (scope @ '':req'') fp r'"
proof -
  from assms(1,2) have "redis_get now (scope @ '':req'') r = None" by (simp add: key_free_get within_day_def)
  with assms(2-4) show ?thesis
    by (auto simp: request_command_def kv_get_def kv_set_nx_def redis_set_nx_def within_day_def Let_def
        intro: key_set_held split: if_splits)
qed

lemma race_command_inv:
  assumes inv: "race_inv t0 scope fps s" and day: "within_day t0 now"
    and run: "request_command Live up now scope (fps i) (phase_of s i, store s) = (ph, r)"
  shows "race_inv t0 scope fps (s\<lparr>store := r, phase_of := (phase_of s)(i := ph)\<rparr>)"
  using inv unfolding race_inv_def [of _ _ _ s]
proof
  assume free: "key_free t0 (scope @ '':req'') (store s) \<and> (\<forall>i. phase_of s i \<in> {Started, Missed, Failed})"
  with command_free [OF _ day _ run] consider "r = store s" "ph \<in> {Started, Missed, Failed}"
    | "ph = Decided New None" "key_held t0 (scope @ '':req'') (fps i) r" by blast
  then show ?thesis using free by cases (auto simp: race_inv_def)
next
  assume "\<exists>j. phase_of s j = Decided New None \<and> key_held t0 (scope @ '':req'') (fps j) (store s)
        \<and> (\<forall>i. i \<noteq> j \<longrightarrow> phase_of s i \<in> {Started, Missed, Lost, Failed, Decided Conflict None}
             \<or> fps i = fps j \<and> (phase_of s i = Matched \<or> phase_of s i = Decided InProgress None
                                  \<or> (\<exists>x. phase_of s i = Decided Replay x)))"
  then obtain j where j: "phase_of s j = Decided New None" "key_held t0 (scope @ '':req'') (fps j) (store s)"
    and rest: "\<And>i. i \<noteq> j \<Longrightarrow> phase_of s i \<in> {Started, Missed, Lost, Failed, Decided Conflict None}
             \<or> fps i = fps j \<and> (phase_of s i = Matched \<or> phase_of s i = Decided InProgress None
                                  \<or> (\<exists>x. phase_of s i = Decided Replay x))" by blast
  have "r = store s \<and> (if i = j then ph = Decided New None
      else ph \<in> {Started, Missed, Lost, Failed, Decided Conflict None}
        \<or> fps i = fps j \<and> (ph = Matched \<or> ph = Decided InProgress None \<or> (\<exists>x. ph = Decided Replay x)))"
    using command_held [OF j(2) day rest run] run j(1) by (auto simp: command_winner)
  then show ?thesis unfolding race_inv_def using j rest by (intro disjI2 exI [of _ j]) auto
qed

lemma race_step_inv: "race_step t0 scope fps s t \<Longrightarrow> race_inv t0 scope fps s \<Longrightarrow> race_inv t0 scope fps t"
  by (erule race_stepE) (simp_all add: race_command_inv, simp add: race_inv_def store_response_frame)

lemma race_reach_inv: "race_reach t0 scope fps s \<Longrightarrow> race_inv t0 scope fps s"
proof (induction rule: race_reach.induct)
  case (start r)
  then show ?case by (auto simp: race_inv_def key_free_def redis_get_def split: if_splits)
next
  case (step s t)
  then show ?case by (blast intro: race_step_inv)
qed

text \<open>
  C7 (safety): of any number of concurrent requests under a free key, in any interleaving of the commands of
  \<open>prepare_request\<close> within a day, answered by Redis or not and with responses stored in between, at most one
  is told to run by Redis; any other that runs got an exception, the code's deliberate fail-open; and a
  request that is told to wait or is given a cached response has the fingerprint of the one that ran.
\<close>

theorem at_most_one_new_request:
  assumes "race_reach t0 scope fps s"
  shows "(\<forall>i j x y. phase_of s i = Decided New x \<and> phase_of s j = Decided New y \<longrightarrow> i = j)
    \<and> (\<forall>i x. phase_of s i = Decided Replay x \<or> phase_of s i = Decided InProgress x \<longrightarrow>
         (\<exists>j. phase_of s j = Decided New None \<and> fps j = fps i))"
  using race_reach_inv [OF assms] unfolding race_inv_def
proof
  assume "key_free t0 (scope @ '':req'') (store s) \<and> (\<forall>i. phase_of s i \<in> {Started, Missed, Failed})"
  then have "\<And>i d x. phase_of s i \<noteq> Decided d x" by (metis empty_iff insert_iff phase.distinct(7,15,29))
  then show ?thesis by simp
next
  assume "\<exists>j. phase_of s j = Decided New None \<and> key_held t0 (scope @ '':req'') (fps j) (store s)
        \<and> (\<forall>i. i \<noteq> j \<longrightarrow> phase_of s i \<in> {Started, Missed, Lost, Failed, Decided Conflict None}
             \<or> fps i = fps j \<and> (phase_of s i = Matched \<or> phase_of s i = Decided InProgress None
                                  \<or> (\<exists>x. phase_of s i = Decided Replay x)))"
  then obtain j where j: "phase_of s j = Decided New None"
    and rest: "\<And>i. i \<noteq> j \<Longrightarrow> phase_of s i \<in> {Started, Missed, Lost, Failed, Decided Conflict None}
             \<or> fps i = fps j \<and> (phase_of s i = Matched \<or> phase_of s i = Decided InProgress None
                                  \<or> (\<exists>x. phase_of s i = Decided Replay x))" by blast
  have only: "i = j" if "phase_of s i = Decided New x" for i x
    using rest [of i] that by fastforce
  have same: "i \<noteq> j \<and> fps j = fps i" if "phase_of s i = Decided Replay x \<or> phase_of s i = Decided InProgress x" for i x
    using rest [of i] that j by fastforce
  show ?thesis
  proof (intro conjI allI impI)
    fix i k x y assume "phase_of s i = Decided New x \<and> phase_of s k = Decided New y"
    with only show "i = k" by blast
  next
    fix i x assume "phase_of s i = Decided Replay x \<or> phase_of s i = Decided InProgress x"
    with same j show "\<exists>j. phase_of s j = Decided New None \<and> fps j = fps i" by blast
  qed
qed

text \<open>Two requests interleaved: both miss the key, the first takes it, the second waits.\<close>

theorem at_most_one_new_request_witness:
  "\<exists>s :: unit race. race_reach 0 ''s'' (\<lambda>_. ''f'') s \<and> phase_of s 0 = Decided New None \<and> phase_of s 1 = Decided InProgress None
     \<and> (\<forall>i j x y. phase_of s i = Decided New x \<and> phase_of s j = Decided New y \<longrightarrow> i = j)"
proof -
  let ?r0 = "(\<lambda>_. None) :: unit redis"
  let ?r1 = "redis_set 0 (''s'' @ '':req'') (Text ''f'') day_seconds ?r0"
  let ?go = "\<lambda>i s. case request_command Live True 0 ''s'' ''f'' (phase_of s i, store s) of
     (ph, r) \<Rightarrow> s\<lparr>store := r, phase_of := (phase_of s)(i := ph)\<rparr>"
  have start: "race_reach 0 ''s'' (\<lambda>_. ''f'') \<lparr>store = ?r0, phase_of = (\<lambda>_. Started)\<rparr>"
    by (rule race_reach.start) (simp add: redis_get_def)
  have go: "race_reach 0 ''s'' (\<lambda>_. ''f'') (?go i s)" if "race_reach 0 ''s'' (\<lambda>_. ''f'') s" for i and s :: "unit race"
    using that by (auto intro!: race_reach.step [OF that] race_step.command simp: within_day_def day_seconds_def
        split: prod.splits)
  define s where "s = ?go 1 (?go 1 (?go 1 (?go 0 (?go 1 (?go 0 \<lparr>store = ?r0, phase_of = (\<lambda>_. Started)\<rparr>)))))"
  have reach: "race_reach 0 ''s'' (\<lambda>_. ''f'') s" unfolding s_def by (intro go start)
  have "phase_of s 0 = Decided New None" "phase_of s 1 = Decided InProgress None"
    by (simp_all add: s_def request_command_def kv_get_def kv_set_nx_def redis_set_nx_def redis_get_def redis_set_def
        compared_def cached_answer_def day_seconds_def)
  moreover from at_most_one_new_request [OF reach]
  have "\<forall>i j x y. phase_of s i = Decided New x \<and> phase_of s j = Decided New y \<longrightarrow> i = j" by (rule conjunct1)
  ultimately show ?thesis using reach by blast
qed

end
