(* ===== verification/ExperimentRouter.thy ===== *)
theory ExperimentRouter
  imports ExperimentLaws Idempotency
begin

text \<open>
  \<open>domains/experiments/router.py\<close>: the request handlers of the experiments, with the policy gate
  (\<open>_evaluate_and_record_policy\<close>), the idempotency protocol of the two POST handlers that take an
  \<open>Idempotency-Key\<close>, and the commit or rollback of \<open>get_db\<close> around them. A handler works on the
  session's database; Redis is outside the transaction and is not rolled back. The response models
  copy the row (\<open>from_attributes\<close>), so a body is the row it was made from.
\<close>

section \<open>Requests and replies\<close>

record principal =
  pr_user :: uuid
  pr_org :: uuid
  pr_role :: user_role

datatype body = ExperimentBody optimization_experiment | RunBody experiment_run
  | ApprovalBody experiment_approval

record reply =
  status_code :: nat
  content :: body
  decision_header :: "string option"

text \<open>What the idempotency protocol of one request sees: the client, the clock, the commands.\<close>

record redis_call =
  rc_backend :: backend
  rc_up :: "nat \<Rightarrow> bool"
  rc_now :: instant
  rc_store_up :: bool
  rc_store_now :: instant

record raw_request =
  rq_method :: string
  rq_path :: string
  rq_body :: string
  rq_key :: "string option"

type_synonym 'z web = "body redis \<times> 'z exp_db_scheme"

text \<open>\<open>get_db\<close> around a handler that also talks to Redis.\<close>

definition web_scope :: "('z web \<Rightarrow> 'a result \<times> 'z web) \<Rightarrow> 'z web \<Rightarrow> 'a result \<times> 'z web" where
  "web_scope m w =
     (case m w of (Inl e, r, _) \<Rightarrow> (Inl e, r, snd w) | (Inr x, r, db) \<Rightarrow> (Inr x, r, db))"

section \<open>The policy gate\<close>

definition evaluate_and_record_policy ::
  "platform \<Rightarrow> call \<Rightarrow> principal \<Rightarrow> session_context \<Rightarrow> string \<Rightarrow> optimization_experiment \<Rightarrow> nat
   \<Rightarrow> bool \<Rightarrow> ('z exp_db_scheme, string) svc" where
  "evaluate_and_record_policy pf c u session action e n dual db =
     (let decision = authorize_experiment_action action (pr_role u) (Some (target_environment e))
            (Some (target_criticality e)) session dual n (clock c 0) (uuid_str (fresh c 0));
          (ev, db) = record_decision pf (later 1 1 c) (pr_org u) (Some (pr_user u)) decision session
            action ''optimization_experiment'' (uuid_str (exp_id e)) db
      in if allowed decision then (Inr (policy_decision_id decision), db)
         else (Inl (HTTPException 403 (reason decision)), db))"

definition bad_request :: "error \<Rightarrow> error" where
  "bad_request e = (case e of ValueError m \<Rightarrow> HTTPException 400 m | _ \<Rightarrow> e)"

definition not_found :: "'a result" where
  "not_found = Inl (HTTPException 404 ''Experiment not found'')"

section \<open>Idempotency around a handler\<close>

definition request_scope_key :: "principal \<Rightarrow> string \<Rightarrow> uuid option \<Rightarrow> raw_request \<Rightarrow> string option" where
  "request_scope_key u operation resource q =
     (case rq_key q of
        None \<Rightarrow> None
      | Some k \<Rightarrow> if k = [] then None
          else Some (build_scope_key (pr_org u) (pr_user u) operation resource k))"

text \<open>
  The block at the top of the two handlers: a cached reply, an error, or leave to go on.
\<close>

definition enter_request ::
  "platform \<Rightarrow> redis_call \<Rightarrow> string option \<Rightarrow> raw_request \<Rightarrow> 'p redis
   \<Rightarrow> (nat \<times> 'p) option result \<times> 'p redis" where
  "enter_request pf rc scope q r =
     (case scope of
        None \<Rightarrow> (Inr None, r)
      | Some k \<Rightarrow>
          (case prepare_request (rc_backend rc) (rc_up rc) (rc_now rc) k
                  (build_fingerprint pf (rq_method q) (rq_path q) (rq_body q)) r of
             ((state, cached), r') \<Rightarrow>
               if state = Replay \<and> cached \<noteq> None then (Inr cached, r')
               else if state = Conflict then
                 (Inl (HTTPException 409 ''Idempotency-Key already used with a different request payload''), r')
               else if state = InProgress then
                 (Inl (HTTPException 409 ''Request with this Idempotency-Key is still being processed''), r')
               else (Inr None, r')))"

definition leave_request :: "redis_call \<Rightarrow> string option \<Rightarrow> nat \<Rightarrow> 'p \<Rightarrow> 'p redis \<Rightarrow> 'p redis" where
  "leave_request rc scope code out r =
     (case scope of
        None \<Rightarrow> r
      | Some k \<Rightarrow> store_response (rc_backend rc) (rc_store_up rc) (rc_store_now rc) k code out r)"

section \<open>Handlers\<close>

definition create_experiment_route ::
  "platform \<Rightarrow> redis_call \<Rightarrow> call \<Rightarrow> principal \<Rightarrow> raw_request \<Rightarrow> experiment_create \<Rightarrow> 'z web
   \<Rightarrow> reply result \<times> 'z web" where
  "create_experiment_route pf rc c u q req w =
     (let scope = request_scope_key u ''experiments.create'' None q in
      case enter_request pf rc scope q (fst w) of
        (Inl err, r) \<Rightarrow> (Inl err, r, snd w)
      | (Inr (Some (code, out)), r) \<Rightarrow>
          (Inr \<lparr>status_code = code, content = out, decision_header = None\<rparr>, r, snd w)
      | (Inr None, r) \<Rightarrow>
          let (e, db) = create_experiment pf c (pr_org u) (pr_user u) req (snd w);
              r = leave_request rc scope 201 (ExperimentBody e) r
          in (Inr \<lparr>status_code = 201, content = ExperimentBody e, decision_header = None\<rparr>, r, db))"

definition get_experiment_route ::
  "principal \<Rightarrow> uuid \<Rightarrow> ('z exp_db_scheme, reply) svc" where
  "get_experiment_route u eid db =
     (case get_experiment (pr_org u) eid db of
        None \<Rightarrow> (not_found, db)
      | Some e \<Rightarrow> (Inr \<lparr>status_code = 200, content = ExperimentBody e, decision_header = None\<rparr>, db))"

definition update_experiment_route ::
  "platform \<Rightarrow> call \<Rightarrow> principal \<Rightarrow> uuid \<Rightarrow> experiment_update \<Rightarrow> ('z exp_db_scheme, reply) svc" where
  "update_experiment_route pf c u eid req db =
     (case update_experiment pf c (pr_org u) eid req db of
        (None, db) \<Rightarrow> (not_found, db)
      | (Some e, db) \<Rightarrow>
          (Inr \<lparr>status_code = 200, content = ExperimentBody e, decision_header = None\<rparr>, db))"

definition transition_action :: "experiment_status \<Rightarrow> string" where
  "transition_action s =
     (if s = APPROVED then ''experiment.transition.approved''
      else if s = RUNNING then ''experiment.transition.running''
      else ''experiment.transition.generic'')"

definition transition_experiment_route ::
  "platform \<Rightarrow> call \<Rightarrow> principal \<Rightarrow> session_context \<Rightarrow> uuid \<Rightarrow> experiment_status \<Rightarrow> string option
   \<Rightarrow> ('z exp_db_scheme, reply) svc" where
  "transition_experiment_route pf c u session eid new notes db =
     (case get_experiment (pr_org u) eid db of
        None \<Rightarrow> (not_found, db)
      | Some e \<Rightarrow>
          (case evaluate_and_record_policy pf c u session (transition_action new) e
                  (approval_count (pr_org u) eid db) (is_high_risk e) db of
             (Inl err, db) \<Rightarrow> (Inl err, db)
           | (Inr did, db) \<Rightarrow>
               (case transition_experiment pf (later 4 3 c) (pr_org u) eid new notes (Some (pr_user u)) db of
                  (Inl err, db) \<Rightarrow> (Inl (bad_request err), db)
                | (Inr e, db) \<Rightarrow>
                    (Inr \<lparr>status_code = 200, content = ExperimentBody e, decision_header = Some did\<rparr>, db))))"

definition create_run_route ::
  "platform \<Rightarrow> call \<Rightarrow> principal \<Rightarrow> session_context \<Rightarrow> uuid \<Rightarrow> run_create
   \<Rightarrow> ('z exp_db_scheme, reply) svc" where
  "create_run_route pf c u session eid req db =
     (case get_experiment (pr_org u) eid db of
        None \<Rightarrow> (not_found, db)
      | Some e \<Rightarrow>
          (case evaluate_and_record_policy pf c u session ''experiment.run.create'' e
                  (approval_count (pr_org u) eid db) (is_high_risk e) db of
             (Inl err, db) \<Rightarrow> (Inl err, db)
           | (Inr did, db) \<Rightarrow>
               (case create_run pf (later 4 3 c) (pr_org u) eid req (Some (pr_user u)) db of
                  (Inl err, db) \<Rightarrow> (Inl (bad_request err), db)
                | (Inr r, db) \<Rightarrow>
                    (Inr \<lparr>status_code = 201, content = RunBody r, decision_header = Some did\<rparr>, db))))"

definition update_run_route ::
  "platform \<Rightarrow> call \<Rightarrow> principal \<Rightarrow> session_context \<Rightarrow> uuid \<Rightarrow> uuid \<Rightarrow> run_update
   \<Rightarrow> ('z exp_db_scheme, reply) svc" where
  "update_run_route pf c u session eid rid req db =
     (case get_experiment (pr_org u) eid db of
        None \<Rightarrow> (not_found, db)
      | Some e \<Rightarrow>
          (case evaluate_and_record_policy pf c u session ''experiment.run.update'' e
                  (approval_count (pr_org u) eid db) (is_high_risk e) db of
             (Inl err, db) \<Rightarrow> (Inl err, db)
           | (Inr did, db) \<Rightarrow>
               (case update_run pf (later 4 3 c) (pr_org u) eid rid req (Some (pr_user u)) db of
                  (None, db) \<Rightarrow> (Inl (HTTPException 404 ''Run not found''), db)
                | (Some r, db) \<Rightarrow>
                    (Inr \<lparr>status_code = 200, content = RunBody r, decision_header = Some did\<rparr>, db))))"

definition approve_body ::
  "platform \<Rightarrow> call \<Rightarrow> principal \<Rightarrow> session_context \<Rightarrow> uuid \<Rightarrow> string option
   \<Rightarrow> ('z exp_db_scheme, reply) svc" where
  "approve_body pf c u session eid note db =
     (case get_experiment (pr_org u) eid db of
        None \<Rightarrow> (not_found, db)
      | Some e \<Rightarrow>
          (case evaluate_and_record_policy pf c u session ''experiment.transition.approved'' e
                  (approval_count (pr_org u) eid db) (is_high_risk e) db of
             (Inl err, db) \<Rightarrow> (Inl err, db)
           | (Inr did, db) \<Rightarrow>
               (case create_approval pf (later 4 3 c) (pr_org u) eid (pr_user u) note db of
                  (Inl err, db) \<Rightarrow> (Inl (bad_request err), db)
                | (Inr a, db) \<Rightarrow>
                    (Inr \<lparr>status_code = 201, content = ApprovalBody a, decision_header = Some did\<rparr>, db))))"

definition approve_experiment_route ::
  "platform \<Rightarrow> redis_call \<Rightarrow> call \<Rightarrow> principal \<Rightarrow> session_context \<Rightarrow> raw_request \<Rightarrow> uuid
   \<Rightarrow> string option \<Rightarrow> 'z web \<Rightarrow> reply result \<times> 'z web" where
  "approve_experiment_route pf rc c u session q eid note w =
     (let scope = request_scope_key u ''experiments.approve'' (Some eid) q in
      case enter_request pf rc scope q (fst w) of
        (Inl err, r) \<Rightarrow> (Inl err, r, snd w)
      | (Inr (Some (code, out)), r) \<Rightarrow>
          (Inr \<lparr>status_code = code, content = out, decision_header = None\<rparr>, r, snd w)
      | (Inr None, r) \<Rightarrow>
          (case approve_body pf c u session eid note (snd w) of
             (Inl err, db) \<Rightarrow> (Inl err, r, db)
           | (Inr out, db) \<Rightarrow> (Inr out, leave_request rc scope 201 (content out) r, db)))"

end
