(* ===== verification/RouterLaws.thy ===== *)
theory RouterLaws
  imports ExperimentRouter
begin

text \<open>
  What the experiment handlers guarantee: the policy gate by cases, the two person rule for
  starting a high risk experiment, what a refused request leaves behind, how a PATCH changes the
  risk class, and how the handlers behave under a repeated \<open>Idempotency-Key\<close>.
\<close>

section \<open>The gate\<close>

lemma experiment_ensure_bundle [simp]:
  "experiments (snd (ensure_default_bundle c org db)) = experiments db"
  "runs (snd (ensure_default_bundle c org db)) = runs db"
  "approvals (snd (ensure_default_bundle c org db)) = approvals db"
  by (simp_all add: ensure_default_bundle_def Let_def split: option.splits)

lemma experiment_record_decision [simp]:
  "experiments (snd (record_decision pf c org actor d s a rt rid db)) = experiments db"
  "runs (snd (record_decision pf c org actor d s a rt rid db)) = runs db"
  "approvals (snd (record_decision pf c org actor d s a rt rid db)) = approvals db"
  by (simp_all add: record_decision_def Let_def split_beta)

lemma gate_cases:
  obtains (denied) ev db' m where
      "evaluate_and_record_policy pf c u session action e n dual db = (Inl (HTTPException 403 m), db')"
      "\<not> authorized_spec action (pr_role u) (Some (target_environment e)) (Some (target_criticality e))
          session dual n"
      "evidence db' = evidence db @ [ev]" "\<not> pe_allowed ev" "pe_action ev = action"
      "experiments db' = experiments db" "runs db' = runs db" "approvals db' = approvals db"
  | (granted) ev db' where
      "evaluate_and_record_policy pf c u session action e n dual db = (Inr (uuid_str (fresh c 0)), db')"
      "authorized_spec action (pr_role u) (Some (target_environment e)) (Some (target_criticality e))
          session dual n"
      "evidence db' = evidence db @ [ev]" "pe_allowed ev" "pe_action ev = action"
      "experiments db' = experiments db" "runs db' = runs db" "approvals db' = approvals db"
proof -
  define d where "d = authorize_experiment_action action (pr_role u) (Some (target_environment e))
    (Some (target_criticality e)) session dual n (clock c 0) (uuid_str (fresh c 0))"
  let ?rec = "record_decision pf (later 1 1 c) (pr_org u) (Some (pr_user u)) d session action
    ''optimization_experiment'' (uuid_str (exp_id e)) db"
  have spec: "allowed d \<longleftrightarrow> authorized_spec action (pr_role u) (Some (target_environment e))
      (Some (target_criticality e)) session dual n"
    unfolding d_def by (rule authorize_allowed)
  have did: "policy_decision_id d = uuid_str (fresh c 0)" unfolding d_def by (rule authorize_id)
  have run: "evaluate_and_record_policy pf c u session action e n dual db =
      (if allowed d then (Inr (policy_decision_id d), snd ?rec)
       else (Inl (HTTPException 403 (reason d)), snd ?rec))"
    by (simp only: evaluate_and_record_policy_def Let_def d_def [symmetric]) (simp split: prod.splits)
  have evi: "evidence (snd ?rec) = evidence db @ [fst ?rec]" by (rule record_decision_evidence)
  have fields: "pe_allowed (fst ?rec) = allowed d" "pe_action (fst ?rec) = action"
    using record_decision_fields by blast+
  note frame = experiment_record_decision [of pf "later 1 1 c" "pr_org u" "Some (pr_user u)" d session
    action "''optimization_experiment''" "uuid_str (exp_id e)" db]
  show thesis
  proof (cases "allowed d")
    case True
    show thesis
      by (rule granted [OF _ _ evi _ _ frame]) (use True spec did run fields in simp_all)
  next
    case False
    show thesis
      by (rule denied [OF _ _ evi _ _ frame]) (use False spec run fields in simp_all)
  qed
qed

lemma bad_request_ValueError [simp]: "bad_request (ValueError m) = HTTPException 400 m"
  by (simp add: bad_request_def)

section \<open>The transition handler by cases\<close>

lemma transition_route_ok:
  assumes "transition_experiment_route pf c u session eid new notes db = (Inr rep, db')"
  obtains e where "get_experiment (pr_org u) eid db = Some e"
    and "new \<in> set (valid_experiment_transitions (status e))"
    and "authorized_spec (transition_action new) (pr_role u) (Some (target_environment e))
      (Some (target_criticality e)) session (is_high_risk e) (approval_count (pr_org u) eid db)"
proof (cases "get_experiment (pr_org u) eid db")
  case None
  with assms show thesis by (simp add: transition_experiment_route_def not_found_def)
next
  case (Some e)
  show thesis
  proof (cases rule: gate_cases [where pf = pf and c = c and u = u and session = session
        and action = "transition_action new" and e = e and n = "approval_count (pr_org u) eid db"
        and dual = "is_high_risk e" and db = db])
    case (denied ev db1 m)
    with assms Some show thesis by (simp add: transition_experiment_route_def)
  next
    case (granted ev db1)
    have get: "get_experiment (pr_org u) eid db1 = Some e"
      using Some unfolding get_experiment_def granted(6) .
    show thesis
    proof (cases rule: transition_cases [where org = "pr_org u" and eid = eid and db = db1 and pf = pf
          and c = "later 4 3 c" and new = new and nts = "notes" and approver = "Some (pr_user u)"])
      case (moved e1 e')
      from moved(1) get have "e1 = e" by simp
      with moved(2) have "new \<in> set (valid_experiment_transitions (status e))" by simp
      from that [OF Some this granted(2)] show thesis .
    qed (use assms Some granted(1) in \<open>simp_all add: transition_experiment_route_def\<close>)
  qed
qed

section \<open>Approvals\<close>

lemma two_distinct: "2 \<le> length (remdups xs) \<Longrightarrow> \<exists>x\<in>set xs. \<exists>y\<in>set xs. x \<noteq> y"
proof (rule ccontr)
  assume two: "2 \<le> length (remdups xs)" and "\<not> (\<exists>x\<in>set xs. \<exists>y\<in>set xs. x \<noteq> y)"
  then have "card (set xs) \<le> 1" by (auto simp: card_le_Suc0_iff_eq)
  with two show False by (simp add: length_remdups_card_conv)
qed

lemma exp_db_ok_owner:
  assumes "exp_db_ok db" and "get_experiment org eid db = Some e"
    and "a \<in> set (approvals db)" and "ap_experiment a = eid"
  shows "owner_id e \<noteq> Some (approver_user_id a)"
proof -
  from assms(1,3) obtain e' where e': "e' \<in> set (experiments db)" "exp_id e' = ap_experiment a"
      "owner_id e' \<noteq> Some (approver_user_id a)"
    by (auto simp: exp_db_ok_def list_all_iff approval_ok_def)
  from assms(2) have e: "e \<in> set (experiments db)" "exp_id e = eid"
    by (simp_all add: get_experiment_Some)
  from assms(1) have "inj_on exp_id (set (experiments db))"
    by (simp add: exp_db_ok_def distinct_map)
  from inj_onD [OF this _ e'(1) e(1)] e'(2) e(2) assms(4) have "e' = e" by simp
  with e'(3) show ?thesis by simp
qed

lemma two_approvers:
  assumes "exp_db_ok db" and "get_experiment org eid db = Some e" and "2 \<le> approval_count org eid db"
  shows "\<exists>a\<in>set (approvals db). \<exists>b\<in>set (approvals db).
    ap_experiment a = eid \<and> ap_experiment b = eid \<and> approver_user_id a \<noteq> approver_user_id b
    \<and> owner_id e \<noteq> Some (approver_user_id a) \<and> owner_id e \<noteq> Some (approver_user_id b)"
proof -
  let ?mine = "list_approvals org eid db"
  from two_distinct [OF assms(3) [unfolded approval_count_def]]
  obtain a b where ab: "a \<in> set ?mine" "b \<in> set ?mine" "approver_user_id a \<noteq> approver_user_id b"
    by auto
  then have "a \<in> set (approvals db)" "b \<in> set (approvals db)" "ap_experiment a = eid" "ap_experiment b = eid"
    by (simp_all add: list_approvals_def)
  moreover from this exp_db_ok_owner [OF assms(1,2)]
  have "owner_id e \<noteq> Some (approver_user_id a)" "owner_id e \<noteq> Some (approver_user_id b)"
    by blast+
  ultimately show ?thesis using ab(3) by blast
qed

text \<open>
  C1 (safety): the two person rule. A request that starts a high risk experiment succeeds only for
  an ADMIN or ENGINEER, when the session is not high risk, and when two different users, neither of
  them the owner, have approved the experiment, which is approved or being measured.
\<close>

theorem four_eyes:
  assumes "exp_reach pf db"
    and "transition_experiment_route pf c u session eid RUNNING notes db = (Inr rep, db')"
    and "get_experiment (pr_org u) eid db = Some e" and "is_high_risk e"
  shows "(pr_role u = ADMIN \<or> pr_role u = ENGINEER) \<and> session_risk session \<noteq> ''high''
    \<and> (status e = APPROVED \<or> status e = MEASURING)
    \<and> (\<exists>a\<in>set (approvals db). \<exists>b\<in>set (approvals db).
         ap_experiment a = eid \<and> ap_experiment b = eid \<and> approver_user_id a \<noteq> approver_user_id b
         \<and> owner_id e \<noteq> Some (approver_user_id a) \<and> owner_id e \<noteq> Some (approver_user_id b))"
proof -
  from transition_route_ok [OF assms(2)] assms(3)
  have move: "RUNNING \<in> set (valid_experiment_transitions (status e))"
    and auth: "authorized_spec (transition_action RUNNING) (pr_role u) (Some (target_environment e))
      (Some (target_criticality e)) session (is_high_risk e) (approval_count (pr_org u) eid db)"
    by force+
  have act: "transition_action RUNNING = ''experiment.transition.running''"
    by (simp add: transition_action_def)
  have "''experiment.transition.running'' \<in> set transition_actions" by code_simp
  with auth act assms(4) have "2 \<le> approval_count (pr_org u) eid db"
    and "pr_role u = ADMIN \<or> pr_role u = ENGINEER" and "session_risk session \<noteq> ''high''"
    by (simp_all add: authorized_spec_def)
  moreover from move have "status e = APPROVED \<or> status e = MEASURING" by (cases "status e") simp_all
  moreover from two_approvers [OF exp_reach_ok [OF assms(1)] assms(3)] calculation(1) show ?thesis
    using calculation by blast
qed

section \<open>When the transition handler succeeds\<close>

lemma transition_route_succeeds:
  assumes "get_experiment (pr_org u) eid db = Some e"
    and "new \<in> set (valid_experiment_transitions (status e))"
    and "authorized_spec (transition_action new) (pr_role u) (Some (target_environment e))
      (Some (target_criticality e)) session (is_high_risk e) (approval_count (pr_org u) eid db)"
  shows "\<exists>rep db'. transition_experiment_route pf c u session eid new notes db = (Inr rep, db')"
proof (cases rule: gate_cases [where pf = pf and c = c and u = u and session = session
      and action = "transition_action new" and e = e and n = "approval_count (pr_org u) eid db"
      and dual = "is_high_risk e" and db = db])
  case (granted ev db1)
  have get: "get_experiment (pr_org u) eid db1 = Some e"
    using assms(1) unfolding get_experiment_def granted(6) .
  show ?thesis
  proof (cases rule: transition_cases [where org = "pr_org u" and eid = eid and db = db1 and pf = pf
        and c = "later 4 3 c" and new = new and nts = "notes" and approver = "Some (pr_user u)"])
    case (moved e1 e')
    with assms(1) granted(1) show ?thesis by (simp add: transition_experiment_route_def)
  qed (use get assms(2) in simp_all)
qed (use assms(3) in simp_all)

lemma transition_route_denied:
  assumes "get_experiment (pr_org u) eid db = Some e"
    and "\<not> authorized_spec (transition_action new) (pr_role u) (Some (target_environment e))
      (Some (target_criticality e)) session (is_high_risk e) (approval_count (pr_org u) eid db)"
  shows "\<exists>ev db1 m. transition_experiment_route pf c u session eid new notes db
        = (Inl (HTTPException 403 m), db1)
      \<and> evidence db1 = evidence db @ [ev] \<and> \<not> pe_allowed ev"
proof (cases rule: gate_cases [where pf = pf and c = c and u = u and session = session
      and action = "transition_action new" and e = e and n = "approval_count (pr_org u) eid db"
      and dual = "is_high_risk e" and db = db])
  case (denied ev db1 m)
  with assms(1) show ?thesis by (simp add: transition_experiment_route_def)
qed (use assms(2) in simp_all)

text \<open>
  A refused request leaves no evidence. The handler writes the denial to the policy
  evidence before it raises 403, and the request scope then rolls that row back with everything
  else, so the committed tables are the ones before the request.
\<close>

theorem denial_evidence_lost:
  assumes "get_experiment (pr_org u) eid db = Some e"
    and "\<not> authorized_spec (transition_action new) (pr_role u) (Some (target_environment e))
      (Some (target_criticality e)) session (is_high_risk e) (approval_count (pr_org u) eid db)"
  shows "\<exists>ev db1 m. transition_experiment_route pf c u session eid new notes db
        = (Inl (HTTPException 403 m), db1)
      \<and> evidence db1 = evidence db @ [ev] \<and> \<not> pe_allowed ev
      \<and> request_scope (transition_experiment_route pf c u session eid new notes) db
          = (Inl (HTTPException 403 m), db)"
proof -
  from transition_route_denied [OF assms] obtain ev db1 m where
    r: "transition_experiment_route pf c u session eid new notes db = (Inl (HTTPException 403 m), db1)"
    and ev: "evidence db1 = evidence db @ [ev]" "\<not> pe_allowed ev" by blast
  have "request_scope (transition_experiment_route pf c u session eid new notes) db
      = (Inl (HTTPException 403 m), db)"
    by (simp add: request_scope_def r)
  with r ev show ?thesis by blast
qed

section \<open>The risk class\<close>

definition unestimated :: "'z exp_db_scheme \<Rightarrow> bool" where
  "unestimated db \<longleftrightarrow> list_all (\<lambda>e. estimated_risk_score e = None) (experiments db)"

lemma unestimated_event [simp]: "unestimated (append_event pf org a t n i p st db) = unestimated db"
  by (simp add: unestimated_def)

lemma unestimated_put:
  "unestimated db \<Longrightarrow> estimated_risk_score e = None \<Longrightarrow> unestimated (put_experiment e db)"
  by (auto simp: unestimated_def list_all_iff dest: set_row_put)

lemma unestimated_get:
  "unestimated db \<Longrightarrow> get_experiment org eid db = Some e \<Longrightarrow> estimated_risk_score e = None"
  by (auto simp: unestimated_def list_all_iff dest: get_experiment_Some)

lemma exp_step_unestimated: "exp_step pf db db' \<Longrightarrow> unestimated db \<Longrightarrow> unestimated db'"
proof (induction rule: exp_step.induct)
  case (create c db org owner req)
  then show ?case
    by (simp add: create_experiment_def Let_def unestimated_def row_add_def new_experiment_def)
next
  case (update db c org eid req)
  show ?case
  proof (cases rule: update_cases [where org = org and eid = eid and db = db and pf = pf
        and c = c and req = req])
    case (updated e e')
    then have "estimated_risk_score e' = estimated_risk_score e" by (auto simp: Let_def)
    with updated unestimated_get [OF update updated(1)] update show ?thesis
      by (simp add: unestimated_put)
  qed (use update in simp_all)
next
  case (transition db c org eid new nts a)
  show ?case
  proof (cases rule: transition_cases [where org = org and eid = eid and db = db and pf = pf
        and c = c and new = new and nts = nts and approver = a])
    case (moved e e')
    with unestimated_get [OF transition moved(1)] transition show ?thesis
      by (simp add: unestimated_put)
  qed (use transition in simp_all)
next
  case (approve db c org eid approver nt)
  show ?case
    by (cases rule: approval_cases [where org = org and eid = eid and db = db and pf = pf
          and c = c and approver = approver and nt = nt])
      (use approve in \<open>simp_all add: unestimated_def\<close>)
next
  case (run db c org eid req actor)
  then show ?case by (simp add: create_run_def Let_def unestimated_def split: option.split)
next
  case (run_update db c org eid rid req actor)
  then show ?case by (simp add: update_run_def Let_def unestimated_def split: option.split)
qed

lemma exp_reach_unestimated: "exp_reach pf db \<Longrightarrow> unestimated db"
proof (induction rule: exp_reach.induct)
  case start
  show ?case by (simp add: unestimated_def empty_exp_db_def)
qed (rule exp_step_unestimated)

lemma risk_unestimated:
  "estimated_risk_score e = None \<Longrightarrow> guardrails e = Some g \<Longrightarrow>
     is_high_risk e \<longleftrightarrow> max_blast_radius_pct g \<ge> fl (2/10) \<or> max_cost_increase_pct g \<ge> fl (1/10)"
proof -
  have "\<not> (0 :: rat) \<ge> fl (7/10)" by code_simp
  then show "estimated_risk_score e = None \<Longrightarrow> guardrails e = Some g \<Longrightarrow>
     is_high_risk e \<longleftrightarrow> max_blast_radius_pct g \<ge> fl (2/10) \<or> max_cost_increase_pct g \<ge> fl (1/10)"
    by (simp add: is_high_risk_def)
qed

definition default_guardrails :: guardrails_config where
  "default_guardrails = \<lparr>max_blast_radius_pct = fl (2/10), rollback_on_error_rate = fl (5/100),
     max_cost_increase_pct = fl (1/10), require_approval = True\<rparr>"

text \<open>
  No operation ever estimates the risk of an experiment, so its risk class is decided by
  its guardrails alone: the default guardrails are high risk, and a PATCH that lowers both limits,
  by a user of any role and with no policy decision, makes a high risk experiment low risk at
  whatever status it has, which lifts the two person rule. The audit event of that PATCH names the
  owner of the experiment as its actor, not the user who sent it.
\<close>

theorem risk_class_by_guardrails:
  assumes "exp_reach pf db" and "get_experiment (pr_org u) eid db = Some e"
    and "eu_guardrails req = Some g"
    and "max_blast_radius_pct g < fl (2/10)" and "max_cost_increase_pct g < fl (1/10)"
  shows "(guardrails e = Some default_guardrails \<longrightarrow> is_high_risk e)
    \<and> (\<exists>e' db'. update_experiment_route pf c u eid req db =
          (Inr \<lparr>status_code = 200, content = ExperimentBody e', decision_header = None\<rparr>, db')
        \<and> get_experiment (pr_org u) eid db' = Some e' \<and> \<not> is_high_risk e'
        \<and> status e' = status e \<and> evidence db' = evidence db
        \<and> ev_actor (last (events db')) = owner_id e)"
proof
  from unestimated_get [OF exp_reach_unestimated [OF assms(1)] assms(2)]
  have none: "estimated_risk_score e = None" .
  then show "guardrails e = Some default_guardrails \<longrightarrow> is_high_risk e"
    by (simp add: risk_unestimated default_guardrails_def)
  show "\<exists>e' db'. update_experiment_route pf c u eid req db =
        (Inr \<lparr>status_code = 200, content = ExperimentBody e', decision_header = None\<rparr>, db')
      \<and> get_experiment (pr_org u) eid db' = Some e' \<and> \<not> is_high_risk e'
      \<and> status e' = status e \<and> evidence db' = evidence db
      \<and> ev_actor (last (events db')) = owner_id e"
  proof (cases rule: update_cases [where org = "pr_org u" and eid = eid and db = db and pf = pf
        and c = c and req = req])
    case (updated e1 e')
    from updated(1) assms(2) have e1: "e1 = e" by simp
    have g: "guardrails (apply_update req e) = Some g"
      by (simp add: apply_update_def set_opt_def assms(3))
    with updated(2) e1 have "guardrails e' = Some g" and "estimated_risk_score e' = None"
      and st: "status e' = status e" "owner_id e' = owner_id e" and "exp_id e' = exp_id e" and "exp_org e' = exp_org e"
      using none by (auto simp: Let_def split: if_splits)
    then have low: "\<not> is_high_risk e'" and id: "exp_id e' = eid" "exp_org e' = pr_org u"
      using assms(2,4,5) by (auto simp: risk_unestimated get_experiment_Some)
    from get_put_experiment [OF assms(2) id]
    have "get_experiment (pr_org u) eid (snd (update_experiment pf c (pr_org u) eid req db)) = Some e'"
      unfolding updated(3) by simp
    moreover have "evidence (snd (update_experiment pf c (pr_org u) eid req db)) = evidence db"
      unfolding updated(3) by (simp add: put_experiment_def)
    ultimately show ?thesis using low st updated(3)
      by (intro exI [of _ e'] exI [of _ "snd (update_experiment pf c (pr_org u) eid req db)"])
        (simp add: update_experiment_route_def new_event_def Let_def)
  qed (use assms(2) in simp_all)
qed

section \<open>A sample run\<close>

text \<open>One experiment with the default guardrails, its owner user 2, in a given status with a given
  list of approvers: used to show that the properties above apply to reachable databases.\<close>

definition risky_create :: experiment_create where
  "risky_create = sample_create\<lparr>ec_guardrails := Some default_guardrails\<rparr>"

definition sample_state :: "experiment_status \<Rightarrow> uuid list \<Rightarrow> exp_db \<Rightarrow> bool" where
  "sample_state s us d \<longleftrightarrow>
     (\<exists>e. experiments d = [e] \<and> exp_id e = 0 \<and> exp_org e = 1 \<and> status e = s
        \<and> owner_id e = Some 2 \<and> guardrails e = Some default_guardrails
        \<and> target_environment e = ''unknown'' \<and> target_criticality e = ''medium'')
   \<and> map approver_user_id (approvals d) = us
   \<and> list_all (\<lambda>a. ap_experiment a = 0 \<and> ap_org a = 1) (approvals d)"

lemma sample_start: "\<exists>d. exp_reach pf d \<and> sample_state DRAFT [] d"
proof (intro exI conjI)
  let ?d = "snd (create_experiment pf sample_call 1 2 risky_create empty_exp_db)"
  show "exp_reach pf ?d"
    by (rule exp_reach.step [OF exp_reach.start exp_step.create]) (simp add: empty_exp_db_def)
  show "sample_state DRAFT [] ?d"
    by (simp add: sample_state_def create_experiment_def Let_def row_add_def empty_exp_db_def
        new_experiment_def sample_call_def risky_create_def sample_create_def)
qed

lemma sample_move:
  assumes "exp_reach pf d" and "sample_state s us d" and "moves s t"
  shows "\<exists>d'. exp_reach pf d' \<and> sample_state t us d'"
proof (intro exI conjI)
  let ?d = "snd (transition_experiment pf sample_call 1 0 t None None d)"
  show "exp_reach pf ?d" by (rule exp_reach.step [OF assms(1) exp_step.transition])
  from assms(2) obtain e where e: "experiments d = [e]" "exp_id e = 0" "exp_org e = 1" "status e = s"
    by (auto simp: sample_state_def)
  then have get: "get_experiment 1 0 d = Some e" by (simp add: get_experiment_def row_find_def)
  show "sample_state t us ?d"
  proof (cases rule: transition_cases [where org = 1 and eid = 0 and db = d and pf = pf
        and c = sample_call and new = t and nts = None and approver = None])
    case (moved e1 e')
    with get have "e1 = e" by simp
    with moved(3) have "e' = (apply_transition sample_call t None e)\<lparr>exp_updated_at := clock sample_call 2\<rparr>"
      by simp
    with assms(2) e show ?thesis
      unfolding moved(4) by (simp add: sample_state_def row_put_def apply_transition_def Let_def)
  qed (use get assms(3) e in \<open>simp_all add: moves_def\<close>)
qed

lemma sample_approve:
  assumes "exp_reach pf d" and "sample_state s us d" and "u \<noteq> 2" and "u \<notin> set us"
  shows "\<exists>d'. exp_reach pf d' \<and> sample_state s (us @ [u]) d'"
proof (intro exI conjI)
  let ?d = "snd (create_approval pf sample_call 1 0 u None d)"
  show "exp_reach pf ?d" by (rule exp_reach.step [OF assms(1) exp_step.approve])
  from assms(2) obtain e where e: "experiments d = [e]" "exp_id e = 0" "exp_org e = 1" "owner_id e = Some 2"
    by (auto simp: sample_state_def)
  then have get: "get_experiment 1 0 d = Some e" by (simp add: get_experiment_def row_find_def)
  show "sample_state s (us @ [u]) ?d"
  proof (cases rule: approval_cases [where org = 1 and eid = 0 and db = d and pf = pf
        and c = sample_call and approver = u and nt = None])
    case (refused m)
    with get e(4) assms(3) have "u \<in> approver_user_id ` set (approvals d)" by auto
    with assms(2,4) show ?thesis by (auto simp: sample_state_def)
  next
    case (approved e1 a)
    with assms(2) show ?thesis by (simp add: sample_state_def)
  qed
qed

lemma sample_approved: "\<exists>d. exp_reach pf d \<and> sample_state APPROVED [3, 4] d"
proof -
  have m: "moves DRAFT HYPOTHESIS" "moves HYPOTHESIS SIMULATING" "moves SIMULATING APPROVED"
    by (simp_all add: moves_def)
  obtain d0 where "exp_reach pf d0" "sample_state DRAFT [] d0" using sample_start by blast
  from sample_move [OF this m(1)] obtain d1 where "exp_reach pf d1" "sample_state HYPOTHESIS [] d1" by blast
  from sample_move [OF this m(2)] obtain d2 where "exp_reach pf d2" "sample_state SIMULATING [] d2" by blast
  from sample_move [OF this m(3)] obtain d3 where "exp_reach pf d3" "sample_state APPROVED [] d3" by blast
  from sample_approve [OF this, of 3] obtain d4 where "exp_reach pf d4" "sample_state APPROVED ([] @ [3]) d4" by auto
  from sample_approve [OF this, of 4] show ?thesis by simp
qed

definition sample_user :: principal where
  "sample_user = \<lparr>pr_user = 5, pr_org = 1, pr_role = ENGINEER\<rparr>"

definition sample_session :: session_context where
  "sample_session = \<lparr>session_risk = ''low'', maintenance_window = True, geo_velocity_high = False,
     device_trusted = True\<rparr>"

lemma sample_get: "sample_state s us d \<Longrightarrow> \<exists>e. get_experiment 1 0 d = Some e \<and> status e = s
    \<and> guardrails e = Some default_guardrails \<and> owner_id e = Some 2
    \<and> target_environment e = ''unknown'' \<and> target_criticality e = ''medium''"
  by (auto simp: sample_state_def get_experiment_def row_find_def)

lemma sample_high_risk: "guardrails e = Some default_guardrails \<Longrightarrow> is_high_risk e"
  by (simp add: is_high_risk_def default_guardrails_def)

lemma sample_count:
  assumes "sample_state s us d" shows "approval_count 1 0 d = length (remdups us)"
proof -
  from assms have "list_approvals 1 0 d = sort_key ap_created_at (approvals d)"
    by (auto simp: sample_state_def list_approvals_def list_all_iff)
  then have "set (map approver_user_id (list_approvals 1 0 d)) = set us"
    using assms by (auto simp: sample_state_def)
  then show ?thesis by (simp add: approval_count_def length_remdups_card_conv)
qed

theorem four_eyes_witness:
  "\<exists>db rep db'. exp_reach toy_platform db
     \<and> transition_experiment_route toy_platform sample_call sample_user sample_session 0 RUNNING None db
         = (Inr rep, db')
     \<and> (\<exists>a\<in>set (approvals db). \<exists>b\<in>set (approvals db).
         ap_experiment a = 0 \<and> ap_experiment b = 0 \<and> approver_user_id a \<noteq> approver_user_id b)"
proof -
  obtain d where d: "exp_reach toy_platform d" "sample_state APPROVED [3, 4] d"
    using sample_approved by blast
  from sample_get [OF d(2)] obtain e where e: "get_experiment (pr_org sample_user) 0 d = Some e"
      "status e = APPROVED" "guardrails e = Some default_guardrails"
      "target_environment e = ''unknown''" "target_criticality e = ''medium''"
    by (auto simp: sample_user_def)
  have n: "approval_count (pr_org sample_user) 0 d = 2"
    using sample_count [OF d(2)] by (simp add: sample_user_def)
  have "authorized_spec (transition_action RUNNING) (pr_role sample_user) (Some (target_environment e))
      (Some (target_criticality e)) sample_session (is_high_risk e) (approval_count (pr_org sample_user) 0 d)"
    unfolding e(4,5) n by (simp add: authorized_spec_def sample_user_def sample_session_def)
  moreover have "RUNNING \<in> set (valid_experiment_transitions (status e))" by (simp add: e(2))
  ultimately obtain rep d' where
    r: "transition_experiment_route toy_platform sample_call sample_user sample_session 0 RUNNING None d
         = (Inr rep, d')"
    using transition_route_succeeds [OF e(1)] by blast
  from four_eyes [OF d(1) r e(1) sample_high_risk [OF e(3)]] d(1) r show ?thesis by blast
qed

theorem denial_evidence_lost_witness:
  "\<exists>db m. exp_reach toy_platform db
     \<and> request_scope (transition_experiment_route toy_platform sample_call sample_user sample_session 0
          RUNNING None) db = (Inl (HTTPException 403 m), db)"
proof -
  obtain d where d: "exp_reach toy_platform d" "sample_state DRAFT [] d"
    using sample_start by blast
  from sample_get [OF d(2)] obtain e where e: "get_experiment (pr_org sample_user) 0 d = Some e"
      "guardrails e = Some default_guardrails"
    by (auto simp: sample_user_def)
  have n: "approval_count (pr_org sample_user) 0 d = 0"
    using sample_count [OF d(2)] by (simp add: sample_user_def)
  have "\<not> authorized_spec (transition_action RUNNING) (pr_role sample_user) (Some (target_environment e))
      (Some (target_criticality e)) sample_session (is_high_risk e) (approval_count (pr_org sample_user) 0 d)"
    unfolding n using sample_high_risk [OF e(2)] by (simp add: authorized_spec_def transition_action_def)
  from denial_evidence_lost [OF e(1) this] d(1) show ?thesis by blast
qed

theorem risk_class_by_guardrails_witness:
  "\<exists>(db :: exp_db) e. exp_reach toy_platform db \<and> is_high_risk e
     \<and> (\<exists>e' (db' :: exp_db). get_experiment 1 0 db' = Some e' \<and> \<not> is_high_risk e'
       \<and> status e' = APPROVED)"
proof -
  obtain d where d: "exp_reach toy_platform d" "sample_state APPROVED [3, 4] d"
    using sample_approved by blast
  let ?u = "\<lparr>pr_user = 5, pr_org = 1, pr_role = VIEWER\<rparr>"
  let ?g = "\<lparr>max_blast_radius_pct = 0, rollback_on_error_rate = 0, max_cost_increase_pct = 0,
     require_approval = True\<rparr>"
  let ?req = "\<lparr>eu_title = None, eu_hypothesis = None, eu_description = None,
     eu_simulation_notes = None, eu_simulated_savings = None, eu_simulated_confidence = None,
     eu_causal_summary = None, eu_guardrails = Some ?g, eu_environment = None, eu_criticality = None,
     eu_actual_savings = None, eu_actual_confidence = None, eu_outcome = None\<rparr>"
  from sample_get [OF d(2)] obtain e where e: "get_experiment (pr_org ?u) 0 d = Some e"
      "status e = APPROVED" "guardrails e = Some default_guardrails"
    by auto
  have blast: "max_blast_radius_pct ?g < fl (2/10)" and cost: "max_cost_increase_pct ?g < fl (1/10)"
    by (simp; code_simp)+
  have req: "eu_guardrails ?req = Some ?g" by simp
  from risk_class_by_guardrails [OF d(1) e(1) req blast cost, where c = sample_call]
  obtain e' and d' :: exp_db where "get_experiment (pr_org ?u) 0 d' = Some e'" "\<not> is_high_risk e'" "status e' = status e"
    by blast
  with d(1) e(2) sample_high_risk [OF e(3)] show ?thesis by auto
qed

end
