(* ===== verification/RetryLaws.thy ===== *)
theory RetryLaws
  imports RouterLaws
begin

text \<open>
  Retries of the two POST handlers under an \<open>Idempotency-Key\<close>: keys of different users never meet,
  a retried creation is answered from the cache and creates nothing, and a handler that fails leaves
  its key locked.
\<close>

section \<open>Scope keys\<close>

lemma hex_digits_length: "length (uuid_str u) = 36"
  by (simp add: uuid_str_def Let_def del: hex_digits.simps)

lemma uuid_str_append: "uuid_str a @ x = uuid_str b @ y \<longleftrightarrow> a = b \<and> x = y"
  using hex_digits_length by (auto simp: append_eq_append_conv)

lemma uuid_str_hd: "uuid_str u \<noteq> CHR ''-'' # x"
proof
  assume eq: "uuid_str u = CHR ''-'' # x"
  have "hd (uuid_str u) = hd (hex_digits 32 (unat u))"
    using length_hex_digits [of 32 "unat u"]
    by (auto simp: uuid_str_def Let_def hd_append simp del: hex_digits.simps length_hex_digits)
  moreover have "hd (hex_digits 32 (unat u)) \<in> set (hex_digits 32 (unat u))"
    by (metis length_hex_digits hd_in_set list.size(3) zero_neq_numeral)
  ultimately show False using eq hex_digits_no_dash [of 32 "unat u"] by simp
qed

lemma split_at_colon:
  "CHR '':'' \<notin> set a \<Longrightarrow> CHR '':'' \<notin> set b \<Longrightarrow>
     a @ CHR '':'' # x = b @ CHR '':'' # y \<longleftrightarrow> a = b \<and> x = y"
proof (induction a arbitrary: b)
  case Nil
  then show ?case by (cases b) auto
next
  case (Cons c a)
  then show ?case by (cases b) auto
qed

lemma resource_part:
  "(case r of None \<Rightarrow> ''-'' | Some u \<Rightarrow> uuid_str u) @ '':'' @ k =
   (case r' of None \<Rightarrow> ''-'' | Some u \<Rightarrow> uuid_str u) @ '':'' @ k' \<longleftrightarrow> r = r' \<and> k = k'"
proof (cases r; cases r')
  fix u assume "r = None" "r' = Some u"
  moreover have "uuid_str u @ '':'' @ k' \<noteq> ''-'' @ '':'' @ k"
  proof
    assume "uuid_str u @ '':'' @ k' = ''-'' @ '':'' @ k"
    then have "uuid_str u @ ('':'' @ k') = CHR ''-'' # ('':'' @ k)" by simp
    with hex_digits_length [of u] obtain x where "uuid_str u = CHR ''-'' # x"
      by (cases "uuid_str u") auto
    with uuid_str_hd show False by blast
  qed
  ultimately show ?thesis by auto
next
  fix u assume "r = Some u" "r' = None"
  moreover have "uuid_str u @ '':'' @ k \<noteq> ''-'' @ '':'' @ k'"
  proof
    assume "uuid_str u @ '':'' @ k = ''-'' @ '':'' @ k'"
    then have "uuid_str u @ ('':'' @ k) = CHR ''-'' # ('':'' @ k')" by simp
    with hex_digits_length [of u] obtain x where "uuid_str u = CHR ''-'' # x"
      by (cases "uuid_str u") auto
    with uuid_str_hd show False by blast
  qed
  ultimately show ?thesis by auto
qed (auto simp: uuid_str_append)

text \<open>
  Two requests share an idempotency key only when they are of the same organization,
  user, operation, resource and client key; operations are fixed names without a colon.
\<close>

theorem scope_key_injective:
  assumes "CHR '':'' \<notin> set operation" and "CHR '':'' \<notin> set operation'"
  shows "build_scope_key org user operation resource key = build_scope_key org' user' operation' resource' key'
    \<longleftrightarrow> org = org' \<and> user = user' \<and> operation = operation' \<and> resource = resource' \<and> key = key'"
proof -
  have "build_scope_key o1 u1 op1 r1 k1 =
      ''idemp:'' @ uuid_str o1 @ (CHR '':'' # uuid_str u1 @ (CHR '':'' # op1 @ CHR '':'' #
        ((case r1 of None \<Rightarrow> ''-'' | Some u \<Rightarrow> uuid_str u) @ '':'' @ k1)))" for o1 u1 op1 r1 k1
    by (simp add: build_scope_key_def)
  then show ?thesis
    using split_at_colon [OF assms] by (auto simp: uuid_str_append resource_part simp del: append_Cons)
qed

theorem scope_key_injective_witness:
  "build_scope_key 1 2 ''experiments.create'' None ''k'' \<noteq> build_scope_key 1 3 ''experiments.create'' None ''k''"
  using scope_key_injective [of "''experiments.create''" "''experiments.create''" 1 2 None "''k''" 1 3 None "''k''"]
  by simp

section \<open>Cached replies and locked keys\<close>

definition live_call :: "instant \<Rightarrow> instant \<Rightarrow> redis_call" where
  "live_call t0 t1 = \<lparr>rc_backend = Live, rc_up = (\<lambda>_. True), rc_now = t0, rc_store_up = True,
     rc_store_now = t1\<rparr>"

lemma redis_get_set_later:
  "redis_get t k (redis_set t0 k' v ttl r) =
     (if k = k' then (if t < t0 + ttl * 1000000 then Some v else None) else redis_get t k r)"
  by (simp add: redis_get_def redis_set_def)

lemma enter_new:
  assumes "redis_get t0 (k @ '':req'') r = None"
  shows "enter_request pf (live_call t0 t1) (Some k) q r =
    (Inr None, redis_set t0 (k @ '':req'')
       (Text (build_fingerprint pf (rq_method q) (rq_path q) (rq_body q))) day_seconds r)"
  using assms by (simp add: enter_request_def prepare_request_code kv_get_def kv_set_nx_def
      redis_set_nx_def live_call_def Let_def)

lemma enter_replay:
  assumes "redis_get t0 (k @ '':req'') r =
      Some (Text (build_fingerprint pf (rq_method q) (rq_path q) (rq_body q)))"
    and "redis_get t0 (k @ '':resp'') r = Some (Envelope code out)"
  shows "enter_request pf (live_call t0 t1) (Some k) q r = (Inr (Some (code, out)), r)"
  using assms by (simp add: enter_request_def prepare_request_code kv_get_def live_call_def Let_def)

lemma enter_locked:
  assumes "redis_get t0 (k @ '':req'') r =
      Some (Text (build_fingerprint pf (rq_method q) (rq_path q) (rq_body q)))"
    and "redis_get t0 (k @ '':resp'') r = None"
  shows "enter_request pf (live_call t0 t1) (Some k) q r =
    (Inl (HTTPException 409 ''Request with this Idempotency-Key is still being processed''), r)"
  using assms by (simp add: enter_request_def prepare_request_code kv_get_def live_call_def Let_def)

lemma leave_live:
  "code < 500 \<Longrightarrow> leave_request (live_call t0 t1) (Some k) code out r =
     redis_set t1 (k @ '':resp'') (Envelope code out) day_seconds r"
  by (simp add: leave_request_def store_response_def kv_set_def live_call_def)

text \<open>
  C8 (safety): a creation that is retried under its key within a day, whatever user agent state it
  meets, returns the status and experiment of the first answer and leaves the database and Redis as
  they are: the experiment is created once.
\<close>

theorem create_once:
  assumes "rq_key q = Some key" and "key \<noteq> []"
    and "redis_get t0 (build_scope_key (pr_org u) (pr_user u) ''experiments.create'' None key @ '':req'') (fst w) = None"
    and "t0 \<le> t1" and "t1 \<le> t2" and "t2 < t0 + day_seconds * 1000000"
    and "create_experiment_route pf (live_call t0 t1) c u q req w = (Inr first, w1)"
  shows "create_experiment_route pf (live_call t2 t3) c' u q req w1 =
      (Inr \<lparr>status_code = 201, content = content first, decision_header = None\<rparr>, w1)
    \<and> status_code first = 201
    \<and> experiments (snd w1) = experiments (snd w) @ [new_experiment c (pr_org u) (pr_user u) req]"
proof -
  let ?k = "build_scope_key (pr_org u) (pr_user u) ''experiments.create'' None key"
  let ?fp = "Text (build_fingerprint pf (rq_method q) (rq_path q) (rq_body q))"
  have scope: "request_scope_key u ''experiments.create'' None q = Some ?k"
    using assms(1,2) by (simp add: request_scope_key_def)
  define r1 where "r1 = redis_set t0 (?k @ '':req'') ?fp day_seconds (fst w)"
  have enter: "enter_request pf (live_call t0 t1) (Some ?k) q (fst w) = (Inr None, r1)"
    using enter_new [OF assms(3)] by (simp add: r1_def)
  obtain e db1 where create: "create_experiment pf c (pr_org u) (pr_user u) req (snd w) = (e, db1)"
    by fastforce
  have exps: "e = new_experiment c (pr_org u) (pr_user u) req" "experiments db1 = experiments (snd w) @ [e]"
    using create by (auto simp: create_experiment_def Let_def row_add_def)
  define r2 where "r2 = redis_set t1 (?k @ '':resp'') (Envelope 201 (ExperimentBody e)) day_seconds r1"
  have "create_experiment_route pf (live_call t0 t1) c u q req w
      = (Inr \<lparr>status_code = 201, content = ExperimentBody e, decision_header = None\<rparr>, r2, db1)"
    by (simp add: create_experiment_route_def scope enter create leave_live r2_def)
  with assms(7) have first: "first = \<lparr>status_code = 201, content = ExperimentBody e, decision_header = None\<rparr>"
    and w1: "w1 = (r2, db1)" by simp_all
  have "redis_get t2 (?k @ '':req'') r2 = Some ?fp"
    and "redis_get t2 (?k @ '':resp'') r2 = Some (Envelope 201 (ExperimentBody e))"
    using assms(4,5,6) by (simp_all add: r2_def r1_def redis_get_set_later)
  from enter_replay [OF this]
  have "create_experiment_route pf (live_call t2 t3) c' u q req w1 =
      (Inr \<lparr>status_code = 201, content = ExperimentBody e, decision_header = None\<rparr>, w1)"
    by (simp add: create_experiment_route_def scope w1)
  with first w1 exps show ?thesis by simp
qed

theorem create_once_witness:
  "\<exists>first w1. create_experiment_route toy_platform (live_call 0 1) sample_call sample_user
        \<lparr>rq_method = ''POST'', rq_path = ''/experiments'', rq_body = ''b'', rq_key = Some ''k''\<rparr>
        sample_create ((\<lambda>_. None), empty_exp_db) = (Inr first, w1)
     \<and> length (experiments (snd w1)) = 1"
proof -
  let ?q = "\<lparr>rq_method = ''POST'', rq_path = ''/experiments'', rq_body = ''b'', rq_key = Some ''k''\<rparr>"
  have none: "redis_get 0 (build_scope_key (pr_org sample_user) (pr_user sample_user)
      ''experiments.create'' None ''k'' @ '':req'') (\<lambda>_. None :: (body cell \<times> instant) option) = None"
    by (simp add: redis_get_def)
  have "\<exists>first w1. create_experiment_route toy_platform (live_call 0 1) sample_call sample_user ?q
      sample_create ((\<lambda>_. None), empty_exp_db) = (Inr first, w1)"
    using enter_new [OF none, of toy_platform 1 ?q]
    by (simp add: create_experiment_route_def request_scope_key_def split: prod.splits)
  then obtain first w1 where r: "create_experiment_route toy_platform (live_call 0 1) sample_call
      sample_user ?q sample_create ((\<lambda>_. None), empty_exp_db) = (Inr first, w1)" by blast
  have "experiments (snd w1) = experiments (snd ((\<lambda>_. None) :: body redis, empty_exp_db)) @
      [new_experiment sample_call (pr_org sample_user) (pr_user sample_user) sample_create]"
    using create_once [of ?q "''k''" 0 sample_user "((\<lambda>_. None), empty_exp_db)" 1 2 toy_platform
        sample_call sample_create first w1 3 sample_call] none r
    by (simp add: day_seconds_def)
  then show ?thesis using r by (auto simp: empty_exp_db_def)
qed

text \<open>
  An approval request that fails, for whatever reason, keeps its key locked: the same
  request sent again within the day is answered 409 \<open>still being processed\<close>, even when it would
  now be allowed, and it changes nothing.
\<close>

theorem failed_approval_locks_key:
  assumes "rq_key q = Some key" and "key \<noteq> []"
    and "redis_get t0 (build_scope_key (pr_org u) (pr_user u) ''experiments.approve'' (Some eid) key @ '':req'') (fst w) = None"
    and "redis_get t2 (build_scope_key (pr_org u) (pr_user u) ''experiments.approve'' (Some eid) key @ '':resp'') (fst w) = None"
    and "t0 \<le> t2" and "t2 < t0 + day_seconds * 1000000"
    and "approve_body pf c u session eid nt (snd w) = (Inl err, db1)"
  shows "\<exists>r1. web_scope (approve_experiment_route pf (live_call t0 t1) c u session q eid nt) w = (Inl err, r1, snd w)
    \<and> approve_experiment_route pf (live_call t2 t3) c' u session' q eid nt (r1, db')
      = (Inl (HTTPException 409 ''Request with this Idempotency-Key is still being processed''), r1, db')"
proof -
  let ?k = "build_scope_key (pr_org u) (pr_user u) ''experiments.approve'' (Some eid) key"
  let ?fp = "Text (build_fingerprint pf (rq_method q) (rq_path q) (rq_body q))"
  have scope: "request_scope_key u ''experiments.approve'' (Some eid) q = Some ?k"
    using assms(1,2) by (simp add: request_scope_key_def)
  define r1 where "r1 = redis_set t0 (?k @ '':req'') ?fp day_seconds (fst w)"
  have enter: "enter_request pf (live_call t0 t1) (Some ?k) q (fst w) = (Inr None, r1)"
    using enter_new [OF assms(3)] by (simp add: r1_def)
  have "web_scope (approve_experiment_route pf (live_call t0 t1) c u session q eid nt) w = (Inl err, r1, snd w)"
    by (simp add: web_scope_def approve_experiment_route_def scope enter assms(7))
  moreover have "redis_get t2 (?k @ '':req'') r1 = Some ?fp" and "redis_get t2 (?k @ '':resp'') r1 = None"
    using assms(4-6) by (simp_all add: r1_def redis_get_set_later)
  from enter_locked [OF this]
  have "approve_experiment_route pf (live_call t2 t3) c' u session' q eid nt (r1, db')
      = (Inl (HTTPException 409 ''Request with this Idempotency-Key is still being processed''), r1, db')"
    by (simp add: approve_experiment_route_def scope)
  ultimately show ?thesis by blast
qed

theorem failed_approval_locks_key_witness:
  "\<exists>r1. web_scope (approve_experiment_route toy_platform (live_call 0 1) sample_call sample_user
        sample_session \<lparr>rq_method = ''POST'', rq_path = ''/p'', rq_body = ''b'', rq_key = Some ''k''\<rparr> 9 None)
        ((\<lambda>_. None), empty_exp_db) = (Inl (HTTPException 404 ''Experiment not found''), r1, empty_exp_db)"
proof -
  have "approve_body toy_platform sample_call sample_user sample_session 9 None empty_exp_db
      = (Inl (HTTPException 404 ''Experiment not found''), empty_exp_db)"
    by (simp add: approve_body_def get_experiment_def row_find_def empty_exp_db_def not_found_def)
  then show ?thesis
    using failed_approval_locks_key [where w = "((\<lambda>_. None), empty_exp_db)" and key = "''k''"
      and q = "\<lparr>rq_method = ''POST'', rq_path = ''/p'', rq_body = ''b'', rq_key = Some ''k''\<rparr>"
      and pf = toy_platform and c = sample_call and u = sample_user and session = sample_session
      and eid = 9 and ?t0.0 = 0 and ?t2.0 = 2 and ?t1.0 = 1 and nt = None
      and err = "HTTPException 404 ''Experiment not found''" and ?db1.0 = empty_exp_db and ?t3.0 = 3
      and c' = sample_call and session' = sample_session and db' = empty_exp_db]
    by (auto simp: redis_get_def day_seconds_def)
qed

end
