(* ===== verification/PyText.thy ===== *)
theory PyText
  imports Float64
begin

text \<open>
  Text the decision engines print: fixed point formatting of a float (\<open>f"{x:.nf}"\<close> and
  \<open>f"{x:,.0f}"\<close>, both correctly rounded from the exact binary value) and the letters outside ASCII
  of their messages, as UTF-8 bytes.
\<close>

definition fixed_str :: "nat \<Rightarrow> pyfloat \<Rightarrow> string" where
  "fixed_str n x =
     (let k = nat (round_even (\<bar>x\<bar> * 10 ^ n)) in
      (if x < 0 then ''-'' else []) @ nat_str (k div 10 ^ n)
      @ (if n = 0 then [] else ''.'' @ pad_digits n (k mod 10 ^ n)))"

function group_str :: "nat \<Rightarrow> string" where
  "group_str k = (if k < 1000 then nat_str k else group_str (k div 1000) @ '','' @ pad_digits 3 (k mod 1000))"
  by pat_completeness auto
termination by (relation "measure id") auto

declare group_str.simps [simp del]

definition comma_str :: "pyfloat \<Rightarrow> string" where
  "comma_str x = (if x < 0 then ''-'' else []) @ group_str (nat (round_even \<bar>x\<bar>))"

definition a_acute :: string where "a_acute = [CHR 0xC3, CHR 0xA1]"
definition a_tilde :: string where "a_tilde = [CHR 0xC3, CHR 0xA3]"
definition c_cedil :: string where "c_cedil = [CHR 0xC3, CHR 0xA7]"
definition e_acute :: string where "e_acute = [CHR 0xC3, CHR 0xA9]"
definition i_acute :: string where "i_acute = [CHR 0xC3, CHR 0xAD]"
definition o_acute :: string where "o_acute = [CHR 0xC3, CHR 0xB3]"
definition right_arrow :: string where "right_arrow = [CHR 0xE2, CHR 0x86, CHR 0x92]"

text \<open>
  \<open>sum\<close> of floats since Python 3.12: a compensated sum that carries the low order part.
\<close>

fun float_sum_loop :: "pyfloat \<Rightarrow> pyfloat \<Rightarrow> pyfloat list \<Rightarrow> pyfloat" where
  "float_sum_loop hi lo [] = fadd hi lo"
| "float_sum_loop hi lo (x # xs) =
     (let t = fadd hi x;
          c = (if \<bar>hi\<bar> \<ge> \<bar>x\<bar> then fadd (fsub hi t) x else fadd (fsub x t) hi)
      in float_sum_loop t (fadd lo c) xs)"

definition float_sum :: "pyfloat list \<Rightarrow> pyfloat" where
  "float_sum xs = float_sum_loop 0 0 xs"

text \<open>\<open>x or 0.0\<close> on an optional number.\<close>

definition or_zero :: "pyfloat option \<Rightarrow> pyfloat" where
  "or_zero v = (case v of None \<Rightarrow> 0 | Some x \<Rightarrow> x)"

text \<open>\<open>math.floor(x * 100) / 100.0\<close>, the engines' truncation of a score to two digits.\<close>

definition floor2 :: "pyfloat \<Rightarrow> pyfloat" where
  "floor2 x = fdiv (of_int \<lfloor>fmul x 100\<rfloor>) 100"

lemma floor2_mono: "x \<le> y \<Longrightarrow> floor2 x \<le> floor2 y"
  by (simp add: floor2_def fdiv_mono floor_mono fmul_mono)

lemma floor2_unit: "0 \<le> x \<Longrightarrow> x \<le> 1 \<Longrightarrow> 0 \<le> floor2 x \<and> floor2 x \<le> 1"
proof -
  assume x: "0 \<le> x" "x \<le> 1"
  have "floor2 0 = 0" and "floor2 1 = 1" by code_simp+
  with floor2_mono [OF x(1)] floor2_mono [OF x(2)] show ?thesis by simp
qed

text \<open>\<open>if b: confidence += k\<close> and \<open>if b: confidence -= k\<close>.\<close>

definition bump :: "bool \<Rightarrow> pyfloat \<Rightarrow> pyfloat \<Rightarrow> pyfloat" where
  "bump b k x = (if b then fadd x k else x)"

definition lower_by :: "bool \<Rightarrow> pyfloat \<Rightarrow> pyfloat \<Rightarrow> pyfloat" where
  "lower_by b k x = (if b then fsub x k else x)"

definition in_range :: "pyfloat \<Rightarrow> pyfloat \<Rightarrow> pyfloat \<Rightarrow> bool" where
  "in_range lo hi x \<longleftrightarrow> lo \<le> x \<and> x \<le> hi \<and> fl x = x"

lemma bump_in_range: "0 \<le> k \<Longrightarrow> in_range lo hi x \<Longrightarrow> in_range lo (fadd hi k) (bump b k x)"
proof -
  assume k: "0 \<le> k" and w: "in_range lo hi x"
  then have "x \<le> fadd x k" by (simp add: in_range_def fadd_ge)
  moreover have "fadd x k \<le> fadd hi k" using w by (simp add: in_range_def fadd_mono)
  ultimately show ?thesis using w by (auto simp: in_range_def bump_def)
qed

lemma lower_by_in_range: "0 \<le> k \<Longrightarrow> in_range lo hi x \<Longrightarrow> in_range (fsub lo k) hi (lower_by b k x)"
proof -
  assume k: "0 \<le> k" and w: "in_range lo hi x"
  then have "fsub x k \<le> x" by (simp add: in_range_def fsub_le)
  moreover have "fsub lo k \<le> fsub x k" using w by (simp add: in_range_def fsub_mono)
  ultimately show ?thesis using w by (auto simp: in_range_def lower_by_def)
qed

text \<open>The clamp and truncation every confidence ends with.\<close>

definition clamp2 :: "pyfloat \<Rightarrow> pyfloat" where
  "clamp2 x = floor2 (max 0 (min 1 x))"

lemma clamp2_mono: "x \<le> y \<Longrightarrow> clamp2 x \<le> clamp2 y"
  unfolding clamp2_def by (intro floor2_mono) auto

lemma clamp2_unit: "0 \<le> clamp2 x" "clamp2 x \<le> 1"
  using floor2_unit [of "max 0 (min 1 x)"] by (simp_all add: clamp2_def)

lemma clamp2_in_range: "in_range lo hi x \<Longrightarrow> clamp2 lo \<le> clamp2 x \<and> clamp2 x \<le> clamp2 hi"
  by (simp add: in_range_def clamp2_mono)

text \<open>\<open>max(values) if values else None\<close>.\<close>

definition py_max :: "pyfloat list \<Rightarrow> pyfloat option" where
  "py_max xs = (case xs of [] \<Rightarrow> None | y # ys \<Rightarrow> Some (foldl max y ys))"

lemma foldl_max_ge: "(y :: pyfloat) \<le> foldl max y ys \<and> (\<forall>x\<in>set ys. x \<le> foldl max y ys)"
proof (induction ys arbitrary: y)
  case (Cons z ys)
  from Cons.IH [of "max y z"] show ?case by auto
qed simp

lemma foldl_max_in: "foldl max (y :: pyfloat) ys \<in> insert y (set ys)"
proof (induction ys arbitrary: y)
  case (Cons z ys)
  from Cons.IH [of "max y z"] show ?case by (auto simp: max_def split: if_splits)
qed simp

lemma py_max_None [simp]: "py_max xs = None \<longleftrightarrow> xs = []"
  by (cases xs) (simp_all add: py_max_def)

lemma py_max_Some: "py_max xs = Some m \<Longrightarrow> m \<in> set xs \<and> (\<forall>x\<in>set xs. x \<le> m)"
proof (cases xs)
  case (Cons y ys)
  assume "py_max xs = Some m"
  with Cons have "m = foldl max y ys" by (simp add: py_max_def)
  with Cons foldl_max_in [of y ys] foldl_max_ge [of y ys] show ?thesis by simp
qed (simp add: py_max_def)

end
