(* ===== verification/FloatValues.thy ===== *)
theory FloatValues
  imports PyText
begin

text \<open>
  The doubles of the decimal constants of the decision engines and of the few sums and products of them
  that the range lemmas need, as exact fractions. \<open>fl_lit\<close> checks one such value: its binade and the
  nearest multiple of the unit in the last place.
\<close>

named_theorems float_values

lemma round_even_near: "\<bar>y - of_int m\<bar> < 1/2 \<or> \<bar>y - of_int m\<bar> = 1/2 \<and> even m \<Longrightarrow> round_even y = m"
proof -
  assume a: "\<bar>y - of_int m\<bar> < 1/2 \<or> \<bar>y - of_int m\<bar> = 1/2 \<and> even m"
  then consider "\<lfloor>y\<rfloor> = m" | "\<lfloor>y\<rfloor> = m - 1" by linarith
  then show ?thesis
  proof cases
    case 1
    then have "y - of_int m < 1/2 \<or> y - of_int m = 1/2 \<and> even m" using a by linarith
    with 1 show ?thesis by (auto simp: round_even_def Let_def)
  next
    case 2
    then have "1/2 < y - of_int (m - 1) \<or> y - of_int (m - 1) = 1/2 \<and> even m" using a by (simp, linarith)
    with 2 show ?thesis by (auto simp: round_even_def Let_def)
  qed
qed

lemma fl_lit:
  assumes "pow2 e \<le> x" and "x < pow2 (e + 1)" and "-1022 \<le> e"
    and "\<bar>x / pow2 (e - 52) - of_int m\<bar> < 1/2 \<or> \<bar>x / pow2 (e - 52) - of_int m\<bar> = 1/2 \<and> even m"
  shows "fl x = of_int m * pow2 (e - 52)"
proof -
  have x: "0 < x" using assms(1) pow2_pos [of e] by linarith
  have "fexp x = e"
  proof -
    have "\<not> fexp x + 1 \<le> e"
      using pow2_mono [of "fexp x + 1" e] fexp_bounds(2) [OF x] assms(1) by fastforce
    moreover have "\<not> e + 1 \<le> fexp x"
      using pow2_mono [of "e + 1" "fexp x"] fexp_bounds(1) [OF x] assms(2) by fastforce
    ultimately show ?thesis by linarith
  qed
  then show ?thesis using x assms(3) round_even_near [OF assms(4)] by (simp add: fl_def ulp_def Let_def)
qed

lemma fmul_0 [float_values]: "fmul 0 x = 0"
  by (simp add: fmul_def fl_0)

lemma fmul_minus [float_values]: "fmul (- numeral k) x = - fmul (numeral k) x"
  by (simp add: fmul_def flip: fl_minus)

lemma fadd_minus: "fadd (- x) y = - fsub x y"
  by (simp add: fadd_def fsub_def flip: fl_minus)

lemma floor_fraction [float_values]:
  "\<lfloor>numeral a / numeral b :: rat\<rfloor> = numeral a div numeral b"
  using floor_divide_of_int_eq [of "numeral a" "numeral b", where 'a = rat] by simp

lemma round_even_numeral [float_values]:
  "round_even (numeral k) = numeral k" "round_even (- numeral k) = - numeral k"
  using round_even_of_int [of "numeral k"] round_even_of_int [of "- numeral k"] by simp_all

section \<open>Values\<close>

lemma fl_62_100 [float_values]: "fl (62/100) = 5584463537939415/9007199254740992"
  using fl_lit [of "-1" "62/100" 5584463537939415] by (simp add: pow2_def)

lemma fl_6_100 [float_values]: "fl (6/100) = 1080863910568919/18014398509481984"
  using fl_lit [of "-5" "6/100" 8646911284551352] by (simp add: pow2_def)

lemma fv_1 [float_values]: "fadd (5584463537939415/9007199254740992) (1080863910568919/18014398509481984) = 3062447746611937/4503599627370496"
  using fl_lit [of "-1" "(5584463537939415/9007199254740992) + (1080863910568919/18014398509481984)" 6124895493223874] by (simp add: fadd_def pow2_def)

lemma fl_16_100 [float_values]: "fl (16/100) = 5764607523034235/36028797018963968"
  using fl_lit [of "-3" "16/100" 5764607523034235] by (simp add: pow2_def)

lemma fv_2 [float_values]: "fadd (5584463537939415/9007199254740992) (5764607523034235/36028797018963968) = 3512807709348987/4503599627370496"
  using fl_lit [of "-1" "(5584463537939415/9007199254740992) + (5764607523034235/36028797018963968)" 7025615418697974] by (simp add: fadd_def pow2_def)

lemma fl_10_100 [float_values]: "fl (10/100) = 3602879701896397/36028797018963968"
  using fl_lit [of "-4" "10/100" 7205759403792794] by (simp add: pow2_def)

lemma fv_3 [float_values]: "fsub (3062447746611937/4503599627370496) (3602879701896397/36028797018963968) = 5224175567749775/9007199254740992"
  using fl_lit [of "-1" "(3062447746611937/4503599627370496) - (3602879701896397/36028797018963968)" 5224175567749775] by (simp add: fsub_def pow2_def)

lemma fv_4 [float_values]: "fsub (5224175567749775/9007199254740992) (1080863910568919/18014398509481984) = 1170935903116329/2251799813685248"
  using fl_lit [of "-1" "(5224175567749775/9007199254740992) - (1080863910568919/18014398509481984)" 4683743612465316] by (simp add: fsub_def pow2_def)

lemma fl_8_100 [float_values]: "fl (8/100) = 5764607523034235/72057594037927936"
  using fl_lit [of "-4" "8/100" 5764607523034235] by (simp add: pow2_def)

lemma fv_5 [float_values]: "fsub (1170935903116329/2251799813685248) (5764607523034235/72057594037927936) = 7926335344172073/18014398509481984"
  using fl_lit [of "-2" "(1170935903116329/2251799813685248) - (5764607523034235/72057594037927936)" 7926335344172073] by (simp add: fsub_def pow2_def)

lemma fv_6 [float_values]: "fsub (7926335344172073/18014398509481984) (5764607523034235/72057594037927936) = 3242591731706757/9007199254740992"
  using fl_lit [of "-2" "(7926335344172073/18014398509481984) - (5764607523034235/72057594037927936)" 6485183463413514] by (simp add: fsub_def pow2_def)

lemma fv_7 [float_values]: "fmul (3242591731706757/9007199254740992) 100 = 36"
  using fl_lit [of "5" "(3242591731706757/9007199254740992) * 100" 5066549580791808] by (simp add: fmul_def pow2_def)

lemma fl_36_100 [float_values]: "fl (36/100) = 3242591731706757/9007199254740992"
  using fl_lit [of "-2" "36/100" 6485183463413514] by (simp add: pow2_def)

lemma fl_5_100 [float_values]: "fl (5/100) = 3602879701896397/72057594037927936"
  using fl_lit [of "-5" "5/100" 7205759403792794] by (simp add: pow2_def)

lemma fv_8 [float_values]: "fadd (3512807709348987/4503599627370496) (3602879701896397/72057594037927936) = 467248461339689/562949953421312"
  using fl_lit [of "-1" "(3512807709348987/4503599627370496) + (3602879701896397/72057594037927936)" 7475975381435024] by (simp add: fadd_def pow2_def)

lemma fl_4_100 [float_values]: "fl (4/100) = 5764607523034235/144115188075855872"
  using fl_lit [of "-5" "4/100" 5764607523034235] by (simp add: pow2_def)

lemma fv_9 [float_values]: "fadd (467248461339689/562949953421312) (5764607523034235/144115188075855872) = 979532918953083/1125899906842624"
  using fl_lit [of "-1" "(467248461339689/562949953421312) + (5764607523034235/144115188075855872)" 7836263351624664] by (simp add: fadd_def pow2_def)

lemma fv_10 [float_values]: "fmul (979532918953083/1125899906842624) 100 = 6122080743456769/70368744177664"
  using fl_lit [of "6" "(979532918953083/1125899906842624) * 100" 6122080743456769] by (simp add: fmul_def pow2_def)

lemma fl_87_100 [float_values]: "fl (87/100) = 7836263351624663/9007199254740992"
  using fl_lit [of "-1" "87/100" 7836263351624663] by (simp add: pow2_def)

lemma fl_66_100 [float_values]: "fl (66/100) = 5944751508129055/9007199254740992"
  using fl_lit [of "-1" "66/100" 5944751508129055] by (simp add: pow2_def)

lemma fl_3_100 [float_values]: "fl (3/100) = 1080863910568919/36028797018963968"
  using fl_lit [of "-6" "3/100" 8646911284551352] by (simp add: pow2_def)

lemma fv_11 [float_values]: "fadd (5944751508129055/9007199254740992) (1080863910568919/36028797018963968) = 6214967485771285/9007199254740992"
  using fl_lit [of "-1" "(5944751508129055/9007199254740992) + (1080863910568919/36028797018963968)" 6214967485771285] by (simp add: fadd_def pow2_def)

lemma fv_12 [float_values]: "fmul (6214967485771285/9007199254740992) 100 = 69"
  using fl_lit [of "6" "(6214967485771285/9007199254740992) * 100" 4855443348258816] by (simp add: fmul_def pow2_def)

lemma fl_69_100 [float_values]: "fl (69/100) = 1553741871442821/2251799813685248"
  using fl_lit [of "-1" "69/100" 6214967485771284] by (simp add: pow2_def)

lemma fv_13 [float_values]: "fadd (5944751508129055/9007199254740992) (3602879701896397/36028797018963968) = 3422735716801577/4503599627370496"
  using fl_lit [of "-1" "(5944751508129055/9007199254740992) + (3602879701896397/36028797018963968)" 6845471433603154] by (simp add: fadd_def pow2_def)

lemma fv_14 [float_values]: "fadd (3422735716801577/4503599627370496) (3602879701896397/72057594037927936) = 1823957849085051/2251799813685248"
  using fl_lit [of "-1" "(3422735716801577/4503599627370496) + (3602879701896397/72057594037927936)" 7295831396340204] by (simp add: fadd_def pow2_def)

lemma fv_15 [float_values]: "fadd (1823957849085051/2251799813685248) (1080863910568919/36028797018963968) = 3783023686991217/4503599627370496"
  using fl_lit [of "-1" "(1823957849085051/2251799813685248) + (1080863910568919/36028797018963968)" 7566047373982434] by (simp add: fadd_def pow2_def)

lemma fv_16 [float_values]: "fadd (3783023686991217/4503599627370496) (1080863910568919/36028797018963968) = 979532918953083/1125899906842624"
  using fl_lit [of "-1" "(3783023686991217/4503599627370496) + (1080863910568919/36028797018963968)" 7836263351624664] by (simp add: fadd_def pow2_def)

lemma fl_55_100 [float_values]: "fl (55/100) = 2476979795053773/4503599627370496"
  using fl_lit [of "-1" "55/100" 4953959590107546] by (simp add: pow2_def)

lemma fv_17 [float_values]: "fsub (2476979795053773/4503599627370496) (5764607523034235/72057594037927936) = 8466767299456533/18014398509481984"
  using fl_lit [of "-2" "(2476979795053773/4503599627370496) - (5764607523034235/72057594037927936)" 8466767299456533] by (simp add: fsub_def pow2_def)

lemma fv_18 [float_values]: "fmul (8466767299456533/18014398509481984) 100 = 47"
  using fl_lit [of "5" "(8466767299456533/18014398509481984) * 100" 6614661952700416] by (simp add: fmul_def pow2_def)

lemma fl_47_100 [float_values]: "fl (47/100) = 2116691824864133/4503599627370496"
  using fl_lit [of "-2" "47/100" 8466767299456532] by (simp add: pow2_def)

lemma fl_2_10 [float_values]: "fl (2/10) = 3602879701896397/18014398509481984"
  using fl_lit [of "-3" "2/10" 7205759403792794] by (simp add: pow2_def)

lemma fv_19 [float_values]: "fadd (2476979795053773/4503599627370496) (3602879701896397/18014398509481984) = 3/4"
  using fl_lit [of "-1" "(2476979795053773/4503599627370496) + (3602879701896397/18014398509481984)" 6755399441055744] by (simp add: fadd_def pow2_def)

lemma fl_1_10 [float_values]: "fl (1/10) = 3602879701896397/36028797018963968"
  using fl_lit [of "-4" "1/10" 7205759403792794] by (simp add: pow2_def)

lemma fv_20 [float_values]: "fadd (3/4) (3602879701896397/36028797018963968) = 7656119366529843/9007199254740992"
  using fl_lit [of "-1" "(3/4) + (3602879701896397/36028797018963968)" 7656119366529843] by (simp add: fadd_def pow2_def)

lemma fv_21 [float_values]: "fmul (7656119366529843/9007199254740992) 100 = 85"
  using fl_lit [of "6" "(7656119366529843/9007199254740992) * 100" 5981343255101440] by (simp add: fmul_def pow2_def)

lemma fl_85_100 [float_values]: "fl (85/100) = 7656119366529843/9007199254740992"
  using fl_lit [of "-1" "85/100" 7656119366529843] by (simp add: pow2_def)

lemma fl_45_100 [float_values]: "fl (45/100) = 8106479329266893/18014398509481984"
  using fl_lit [of "-2" "45/100" 8106479329266893] by (simp add: pow2_def)

lemma fl_25_100 [float_values]: "fl (25/100) = 1/4"
  using fl_lit [of "-2" "25/100" 4503599627370496] by (simp add: pow2_def)

lemma fl_20_100 [float_values]: "fl (20/100) = 3602879701896397/18014398509481984"
  using fl_lit [of "-3" "20/100" 7205759403792794] by (simp add: pow2_def)

lemma fv_22 [float_values]: "fmul 10 (1/4) = 5/2"
  using fl_lit [of "1" "10 * (1/4)" 5629499534213120] by (simp add: fmul_def pow2_def)

lemma fv_23 [float_values]: "fmul 15 (3602879701896397/18014398509481984) = 3"
  using fl_lit [of "1" "15 * (3602879701896397/18014398509481984)" 6755399441055744] by (simp add: fmul_def pow2_def)

lemma fv_24 [float_values]: "fmul 30 (3602879701896397/36028797018963968) = 3"
  using fl_lit [of "1" "30 * (3602879701896397/36028797018963968)" 6755399441055744] by (simp add: fmul_def pow2_def)

lemma fv_25 [float_values]: "fadd 0 (5/2) = 5/2"
  using fl_lit [of "1" "0 + (5/2)" 5629499534213120] by (simp add: fadd_def pow2_def)

lemma fv_26 [float_values]: "fadd (5/2) 3 = 11/2"
  using fl_lit [of "2" "(5/2) + 3" 6192449487634432] by (simp add: fadd_def pow2_def)

lemma fv_27 [float_values]: "fadd (11/2) 3 = 17/2"
  using fl_lit [of "3" "(11/2) + 3" 4785074604081152] by (simp add: fadd_def pow2_def)

lemma fv_28 [float_values]: "fmul 100 (8106479329266893/18014398509481984) = 45"
  using fl_lit [of "5" "100 * (8106479329266893/18014398509481984)" 6333186975989760] by (simp add: fmul_def pow2_def)

lemma fv_29 [float_values]: "fmul 80 (1/4) = 20"
  using fl_lit [of "4" "80 * (1/4)" 5629499534213120] by (simp add: fmul_def pow2_def)

lemma fv_30 [float_values]: "fmul 85 (3602879701896397/18014398509481984) = 17"
  using fl_lit [of "4" "85 * (3602879701896397/18014398509481984)" 4785074604081152] by (simp add: fmul_def pow2_def)

lemma fv_31 [float_values]: "fmul 100 (3602879701896397/36028797018963968) = 10"
  using fl_lit [of "3" "100 * (3602879701896397/36028797018963968)" 5629499534213120] by (simp add: fmul_def pow2_def)

lemma fv_32 [float_values]: "fadd 45 20 = 65"
  using fl_lit [of "6" "45 + 20" 4573968371548160] by (simp add: fadd_def pow2_def)

lemma fv_33 [float_values]: "fadd 65 17 = 82"
  using fl_lit [of "6" "65 + 17" 5770237022568448] by (simp add: fadd_def pow2_def)

lemma fv_34 [float_values]: "fadd 82 10 = 92"
  using fl_lit [of "6" "82 + 10" 6473924464345088] by (simp add: fadd_def pow2_def)

lemma fv_35 [float_values]: "fsub 45 (5/2) = 85/2"
  using fl_lit [of "5" "45 - (5/2)" 5981343255101440] by (simp add: fsub_def pow2_def)

lemma fv_36 [float_values]: "fsub (85/2) 3 = 79/2"
  using fl_lit [of "5" "(85/2) - 3" 5559130790035456] by (simp add: fsub_def pow2_def)

lemma fv_37 [float_values]: "fsub (79/2) 3 = 73/2"
  using fl_lit [of "5" "(79/2) - 3" 5136918324969472] by (simp add: fsub_def pow2_def)

end
