(* ===== verification/AksAutoscaler.thy ===== *)
theory AksAutoscaler
  imports FloatValues
begin

text \<open>
  \<open>domains/decision_engine/aks_autoscaler_recommendation_engine.py\<close>: whether to enable the autoscaler
  of an AKS node pool, with the bounds, saving and confidence it proposes. The evidence dictionary is
  the record \<open>autoscaler_evidence\<close>, one field per key. The lemmas give the exact condition of a
  recommendation and the ranges of what it proposes.
\<close>

section \<open>Model\<close>

record autoscaler_input =
  cluster_name :: "string option"
  node_pool :: "string option"
  node_sku :: "string option"
  current_node_count :: int
  current_monthly_cost :: pyfloat
  cpu_p95 :: "pyfloat option"
  memory_p95 :: "pyfloat option"
  history_days :: int
  autoscaler_enabled :: bool
  autoscaler_min_count :: "int option"
  autoscaler_max_count :: "int option"
  is_system_pool :: bool
  has_kube_system_workloads :: bool
  has_critical_workloads :: bool
  cpu_p95_stddev :: "pyfloat option"
  memory_p95_stddev :: "pyfloat option"

record autoscaler_evidence =
  ae_input :: autoscaler_input
  ae_cpu_p95 :: "pyfloat option"
  ae_memory_p95 :: "pyfloat option"
  ae_current_monthly_cost :: pyfloat
  ae_variability_score :: pyfloat
  ae_recommended_min_count :: "int option"
  ae_recommended_max_count :: "int option"
  ae_autoscaler_action :: string
  ae_estimated_monthly_cost :: "pyfloat option"
  ae_estimated_savings :: pyfloat
  ae_estimated_savings_pct :: pyfloat
  ae_risk_level :: string
  ae_confidence :: pyfloat
  ae_reason :: string
  ae_blocked_by :: "string list"

record autoscaler_decision =
  recommend :: bool
  reason :: string
  risk_level :: string
  confidence :: pyfloat
  evidence :: autoscaler_evidence

definition variability_score :: "pyfloat option \<Rightarrow> pyfloat option \<Rightarrow> pyfloat" where
  "variability_score cpu_stddev memory_stddev =
     (let cpu_component = min 1 (max 0 (fdiv (or_zero cpu_stddev) 20));
          memory_component = min 1 (max 0 (fdiv (or_zero memory_stddev) 25));
          score = fdiv (fadd cpu_component memory_component) 2
      in floor2 score)"

definition initial_evidence :: "autoscaler_input \<Rightarrow> autoscaler_evidence" where
  "initial_evidence i =
     \<lparr>ae_input = i, ae_cpu_p95 = map_option (py_round 2) (cpu_p95 i),
      ae_memory_p95 = map_option (py_round 2) (memory_p95 i),
      ae_current_monthly_cost = py_round 2 (current_monthly_cost i),
      ae_variability_score = variability_score (cpu_p95_stddev i) (memory_p95_stddev i),
      ae_recommended_min_count = None, ae_recommended_max_count = None,
      ae_autoscaler_action = ''none'', ae_estimated_monthly_cost = None, ae_estimated_savings = 0,
      ae_estimated_savings_pct = 0, ae_risk_level = ''high'', ae_confidence = 0, ae_reason = [],
      ae_blocked_by = []\<rparr>"

definition add_if :: "bool \<Rightarrow> string \<Rightarrow> string list \<Rightarrow> string list" where
  "add_if b s xs = (if b then xs @ [s] else xs)"

definition autoscaler_blockers :: "autoscaler_input \<Rightarrow> string list" where
  "autoscaler_blockers i =
     add_if (case memory_p95 i of None \<Rightarrow> False | Some m \<Rightarrow> m > 80) ''memory_p95_above_80''
     (add_if (case cpu_p95 i of None \<Rightarrow> False | Some c \<Rightarrow> c > 70) ''cpu_p95_above_70''
     (add_if (has_critical_workloads i) ''critical_workloads''
     (add_if (has_kube_system_workloads i) ''kube_system_workloads''
     (add_if (is_system_pool i) ''system_pool''
     (add_if (cpu_p95 i = None \<or> memory_p95 i = None \<or> history_days i < 7) ''insufficient_history''
       [])))))"

definition refuse :: "autoscaler_evidence \<Rightarrow> string \<Rightarrow> string \<Rightarrow> autoscaler_decision" where
  "refuse ev msg level =
     \<lparr>recommend = False, reason = msg, risk_level = level, confidence = 0,
      evidence = ev\<lparr>ae_reason := msg\<rparr>\<rparr>"

definition recommended_min :: "int \<Rightarrow> int" where
  "recommended_min n = max 2 (min (n - 1) (max 2 (round_even (fmul (of_int n) (fl (4/10))))))"

definition recommended_max :: "int \<Rightarrow> int" where
  "recommended_max n = max 6 (n + 1)"

definition savings_rate :: "pyfloat \<Rightarrow> pyfloat \<Rightarrow> bool \<Rightarrow> pyfloat" where
  "savings_rate cpu mem variable =
     (if cpu \<le> 35 \<and> mem \<le> 50 then fl (25/100)
      else if cpu \<le> 40 \<and> mem \<le> 55 then fl (20/100)
      else if variable then fl (18/100) else fl (15/100))"

definition autoscaler_confidence :: "int \<Rightarrow> bool \<Rightarrow> bool \<Rightarrow> bool \<Rightarrow> pyfloat" where
  "autoscaler_confidence days low_utilization variable risk_low =
     (let c = fl (66/100);
          c = fadd c (if days \<ge> 30 then fl (10/100) else if days \<ge> 14 then fl (7/100) else fl (3/100));
          c = bump low_utilization (fl (5/100)) c;
          c = bump variable (fl (3/100)) c;
          c = bump risk_low (fl (3/100)) c
      in clamp2 c)"

definition decide_aks_autoscaler_recommendation :: "autoscaler_input \<Rightarrow> autoscaler_decision result" where
  "decide_aks_autoscaler_recommendation i =
     (let ev = initial_evidence i;
          variability = variability_score (cpu_p95_stddev i) (memory_p95_stddev i);
          blocked_by = autoscaler_blockers i;
          ev = ev\<lparr>ae_blocked_by := blocked_by\<rparr>;
          n = current_node_count i
      in if blocked_by \<noteq> [] then
           Inr (refuse ev (''Bloqueado por seguranca: '' @ py_join '', '' blocked_by @ ''.'') ''high'')
         else if autoscaler_enabled i then
           Inr (refuse ev ''Sem recomendacao: autoscaler ja habilitado.'' ''low'')
         else if n < 3 then
           Inr (refuse ev ''Sem recomendacao: node pool com menos de 3 nodes.'' ''medium'')
         else case (cpu_p95 i, memory_p95 i) of
           (Some cpu, Some mem) \<Rightarrow>
             let low_utilization = (cpu \<le> 45 \<and> mem \<le> 60);
                 variable_workload = (variability \<ge> fl (55/100))
             in if \<not> (low_utilization \<or> variable_workload) then
                  Inr (refuse ev ''Sem recomendacao: sem sinal de baixa utilizacao ou variabilidade relevante.'' ''medium'')
                else
                  let rate = savings_rate cpu mem variable_workload;
                      cost = current_monthly_cost i;
                      estimated_savings = py_round 2 (fmul cost rate);
                      estimated_monthly_cost = py_round 2 (fsub cost estimated_savings);
                      level = (if low_utilization \<and> variability \<le> fl (35/100) then ''low'' else ''medium'');
                      conf = autoscaler_confidence (history_days i) low_utilization variable_workload
                        (level = ''low'');
                      msg = ''Node pool elegivel para autoscaler (CPU p95 '' @ fixed_str 1 cpu
                        @ ''% / memoria p95 '' @ fixed_str 1 mem @ ''%). '' @ ''Recomendado min=''
                        @ int_str (recommended_min n) @ '', max='' @ int_str (recommended_max n) @ ''.''
                  in Inr \<lparr>recommend = True, reason = msg, risk_level = level, confidence = conf,
                       evidence = ev\<lparr>
                         ae_recommended_min_count := Some (recommended_min n),
                         ae_recommended_max_count := Some (recommended_max n),
                         ae_autoscaler_action := ''enable'',
                         ae_estimated_monthly_cost := Some estimated_monthly_cost,
                         ae_estimated_savings := estimated_savings,
                         ae_estimated_savings_pct := py_round 2 (fmul rate 100),
                         ae_risk_level := level, ae_confidence := conf, ae_reason := msg\<rparr>\<rparr>
         | _ \<Rightarrow> Inl AssertionError)"

section \<open>When a recommendation is made\<close>

lemma add_if_Nil [simp]: "add_if b s xs = [] \<longleftrightarrow> \<not> b \<and> xs = []"
  by (simp add: add_if_def)

definition autoscaler_safe :: "autoscaler_input \<Rightarrow> pyfloat \<Rightarrow> pyfloat \<Rightarrow> bool" where
  "autoscaler_safe i cpu mem \<longleftrightarrow>
     cpu_p95 i = Some cpu \<and> memory_p95 i = Some mem \<and> cpu \<le> 70 \<and> mem \<le> 80
   \<and> 7 \<le> history_days i \<and> \<not> is_system_pool i \<and> \<not> has_kube_system_workloads i
   \<and> \<not> has_critical_workloads i"

lemma no_blockers:
  "autoscaler_blockers i = [] \<longleftrightarrow> (\<exists>cpu mem. autoscaler_safe i cpu mem)"
  by (cases "cpu_p95 i"; cases "memory_p95 i")
    (auto simp: autoscaler_blockers_def autoscaler_safe_def)

lemma refuse_no [simp]: "recommend (refuse ev m l) = False" "confidence (refuse ev m l) = 0"
  by (simp_all add: refuse_def)

definition autoscaler_signal :: "autoscaler_input \<Rightarrow> pyfloat \<Rightarrow> pyfloat \<Rightarrow> bool" where
  "autoscaler_signal i cpu mem \<longleftrightarrow> (cpu \<le> 45 \<and> mem \<le> 60)
     \<or> variability_score (cpu_p95_stddev i) (memory_p95_stddev i) \<ge> fl (55/100)"

lemma decide_by_cases:
  obtains (refused) d where "decide_aks_autoscaler_recommendation i = Inr d" "\<not> recommend d" "confidence d = 0"
      "\<not> (\<exists>cpu mem. autoscaler_safe i cpu mem \<and> autoscaler_signal i cpu mem
           \<and> \<not> autoscaler_enabled i \<and> 3 \<le> current_node_count i)"
  | (recommended) d cpu mem rate where "decide_aks_autoscaler_recommendation i = Inr d" "recommend d"
      "autoscaler_safe i cpu mem" "autoscaler_signal i cpu mem"
      "\<not> autoscaler_enabled i" "3 \<le> current_node_count i"
      "ae_recommended_min_count (evidence d) = Some (recommended_min (current_node_count i))"
      "ae_recommended_max_count (evidence d) = Some (recommended_max (current_node_count i))"
      "\<exists>v. rate = savings_rate cpu mem v"
      "ae_estimated_savings (evidence d) = py_round 2 (fmul (current_monthly_cost i) rate)"
      "ae_estimated_monthly_cost (evidence d) =
         Some (py_round 2 (fsub (current_monthly_cost i) (ae_estimated_savings (evidence d))))"
      "\<exists>l v r. confidence d = autoscaler_confidence (history_days i) l v r"
proof (cases "autoscaler_blockers i = []")
  case blocked: False
  then have "\<not> (\<exists>cpu mem. autoscaler_safe i cpu mem)" by (simp only: no_blockers) simp
  with blocked refused show thesis
    by (simp add: decide_aks_autoscaler_recommendation_def Let_def)
next
  case free: True
  then obtain cpu mem where safe: "autoscaler_safe i cpu mem" by (auto simp: no_blockers)
  then have vals: "cpu_p95 i = Some cpu" "memory_p95 i = Some mem" by (simp_all add: autoscaler_safe_def)
  have uniq: "autoscaler_safe i c m \<Longrightarrow> c = cpu \<and> m = mem" for c m
    using vals by (simp add: autoscaler_safe_def)
  show thesis
  proof (cases "\<not> autoscaler_enabled i \<and> 3 \<le> current_node_count i \<and> autoscaler_signal i cpu mem")
    case True
    let ?d = "projr (decide_aks_autoscaler_recommendation i)"
    let ?v = "variability_score (cpu_p95_stddev i) (memory_p95_stddev i) \<ge> fl (55/100)"
    from True have go: "autoscaler_enabled i = False" "(current_node_count i < 3) = False"
      "(\<not> ((cpu \<le> 45 \<and> mem \<le> 60) \<or> ?v)) = False"
      by (auto simp: autoscaler_signal_def)
    note d = decide_aks_autoscaler_recommendation_def [of i, unfolded Let_def free vals go option.case
        prod.case if_False, simplified]
    show thesis
      by (rule recommended [of ?d cpu mem "savings_rate cpu mem ?v"])
        (use True safe in \<open>(simp add: d; blast?)+\<close>)
  next
    case False
    then have none: "\<not> (\<exists>cpu mem. autoscaler_safe i cpu mem \<and> autoscaler_signal i cpu mem
        \<and> \<not> autoscaler_enabled i \<and> 3 \<le> current_node_count i)" using uniq by blast
    show thesis
    proof (rule refused [OF _ _ _ none, of "projr (decide_aks_autoscaler_recommendation i)"])
      show "decide_aks_autoscaler_recommendation i = Inr (projr (decide_aks_autoscaler_recommendation i))"
        using False by (auto simp: decide_aks_autoscaler_recommendation_def Let_def free vals autoscaler_signal_def)
      show "\<not> recommend (projr (decide_aks_autoscaler_recommendation i))"
        using False by (auto simp: decide_aks_autoscaler_recommendation_def Let_def free vals autoscaler_signal_def)
      show "confidence (projr (decide_aks_autoscaler_recommendation i)) = 0"
        using False by (auto simp: decide_aks_autoscaler_recommendation_def Let_def free vals autoscaler_signal_def)
    qed
  qed
qed

text \<open>
  The engine never raises, and it recommends exactly when both utilizations are known
  and within the safety limits, seven days of history exist, no system, kube-system or critical
  workload is involved, the autoscaler is off, the pool has three nodes or more, and there is a
  signal: low utilization or high variability. A refusal has confidence zero.
\<close>

theorem autoscaler_exact:
  "\<exists>d. decide_aks_autoscaler_recommendation i = Inr d
     \<and> (recommend d \<longleftrightarrow> (\<exists>cpu mem. autoscaler_safe i cpu mem \<and> autoscaler_signal i cpu mem
          \<and> \<not> autoscaler_enabled i \<and> 3 \<le> current_node_count i))
     \<and> (recommend d \<or> confidence d = 0)"
proof (cases rule: decide_by_cases [of i])
  case (refused d)
  then show ?thesis by blast
next
  case (recommended d cpu mem rate)
  then show ?thesis by blast
qed

section \<open>What is recommended\<close>

lemma recommended_bounds:
  assumes "3 \<le> n"
  shows "2 \<le> recommended_min n" "recommended_min n < n" "n < recommended_max n" "6 \<le> recommended_max n"
  using assms by (auto simp: recommended_min_def recommended_max_def)

lemma savings_rate_range: "0 \<le> savings_rate cpu mem v" "savings_rate cpu mem v \<le> 1"
  using fl_le_int [of "25/100" 1] fl_le_int [of "20/100" 1] fl_le_int [of "18/100" 1] fl_le_int [of "15/100" 1]
  by (simp_all add: savings_rate_def fl_nonneg)

lemma confidence_range:
  "fl (69/100) \<le> autoscaler_confidence days l v r \<and> autoscaler_confidence days l v r \<le> fl (87/100)"
proof -
  let ?days = "if days \<ge> 30 then fl (10/100) else if days \<ge> 14 then fl (7/100) else fl (3/100)"
  let ?lo = "fadd (fl (66/100)) (fl (3/100))"
  let ?hi = "fadd (fadd (fadd (fadd (fl (66/100)) (fl (10/100))) (fl (5/100))) (fl (3/100))) (fl (3/100))"
  have pos: "0 \<le> fl (5/100)" "0 \<le> fl (3/100)" by (simp_all add: fl_nonneg)
  have "fl (3/100) \<le> ?days" "?days \<le> fl (10/100)" by (auto intro: fl_mono)
  then have "in_range ?lo (fadd (fl (66/100)) (fl (10/100))) (fadd (fl (66/100)) ?days)"
    by (simp add: in_range_def fadd_mono)
  then have "in_range ?lo ?hi (bump r (fl (3/100)) (bump v (fl (3/100)) (bump l (fl (5/100))
      (fadd (fl (66/100)) ?days))))"
    by (intro bump_in_range pos)
  moreover have "clamp2 ?lo = fl (69/100)" and "clamp2 ?hi = fl (87/100)"
    by (simp only: float_values, simp add: clamp2_def floor2_def float_values fdiv_def)+
  ultimately show ?thesis
    using clamp2_in_range by (fastforce simp: autoscaler_confidence_def Let_def)
qed

lemma savings_range:
  assumes "0 \<le> cost" and "fl cost = cost" and "0 \<le> rate" and "rate \<le> 1"
  shows "0 \<le> py_round 2 (fmul cost rate)" and "py_round 2 (fmul cost rate) \<le> py_round 2 cost"
proof -
  have "fmul cost rate \<le> fl (cost * 1)"
    unfolding fmul_def using assms by (intro fl_mono mult_left_mono)
  then have le: "fmul cost rate \<le> cost" using assms(2) by simp
  show "py_round 2 (fmul cost rate) \<le> py_round 2 cost" by (rule py_round_mono [OF le])
  show "0 \<le> py_round 2 (fmul cost rate)" using assms by (intro py_round_nonneg fmul_nonneg)
qed

text \<open>
  What a recommendation proposes: a minimum of at least two nodes and below the current
  count, a maximum above it and of at least six, a saving between zero and the (rounded) cost for a
  cost that is a non-negative double, a remaining cost of at most the cost, and a confidence between
  0.69 and 0.87.
\<close>

theorem autoscaler_proposal:
  assumes "decide_aks_autoscaler_recommendation i = Inr d" and "recommend d"
    and "0 \<le> current_monthly_cost i" and "fl (current_monthly_cost i) = current_monthly_cost i"
  shows "\<exists>lo hi rest. ae_recommended_min_count (evidence d) = Some lo
     \<and> ae_recommended_max_count (evidence d) = Some hi
     \<and> 2 \<le> lo \<and> lo < current_node_count i \<and> current_node_count i < hi \<and> 6 \<le> hi
     \<and> 0 \<le> ae_estimated_savings (evidence d)
     \<and> ae_estimated_savings (evidence d) \<le> py_round 2 (current_monthly_cost i)
     \<and> ae_estimated_monthly_cost (evidence d) = Some rest \<and> rest \<le> py_round 2 (current_monthly_cost i)
     \<and> fl (69/100) \<le> confidence d \<and> confidence d \<le> fl (87/100)"
proof (cases rule: decide_by_cases [of i])
  case (refused d')
  with assms(1,2) show ?thesis by simp
next
  case (recommended d' cpu mem rate)
  with assms(1) have d: "d' = d" by simp
  from recommended(9) savings_rate_range have rate: "0 \<le> rate" "rate \<le> 1" by auto
  note sav = savings_range [OF assms(3,4) rate]
  let ?rest = "py_round 2 (fsub (current_monthly_cost i) (ae_estimated_savings (evidence d)))"
  have "fsub (current_monthly_cost i) (ae_estimated_savings (evidence d)) \<le> fl (current_monthly_cost i)"
    unfolding fsub_def using sav(1) recommended(10) d by (intro fl_mono) simp
  then have "?rest \<le> py_round 2 (current_monthly_cost i)" using assms(4) by (simp add: py_round_mono)
  moreover have "fl (69/100) \<le> confidence d \<and> confidence d \<le> fl (87/100)"
    using recommended(12) confidence_range d by auto
  ultimately show ?thesis
    using recommended(7,8,10,11) recommended_bounds [OF recommended(6)] sav d by simp
qed

definition autoscaler_example :: autoscaler_input where
  "autoscaler_example =
     \<lparr>cluster_name = None, node_pool = None, node_sku = None, current_node_count = 5,
      current_monthly_cost = 1000, cpu_p95 = Some 30, memory_p95 = Some 40, history_days = 30,
      autoscaler_enabled = False, autoscaler_min_count = None, autoscaler_max_count = None,
      is_system_pool = False, has_kube_system_workloads = False, has_critical_workloads = False,
      cpu_p95_stddev = None, memory_p95_stddev = None\<rparr>"

theorem autoscaler_proposal_witness:
  "\<exists>d lo. decide_aks_autoscaler_recommendation autoscaler_example = Inr d \<and> recommend d
     \<and> ae_recommended_min_count (evidence d) = Some lo \<and> 2 \<le> lo \<and> lo < 5"
proof (cases rule: decide_by_cases [of autoscaler_example])
  case (refused d)
  then show ?thesis
    by (auto simp: autoscaler_example_def autoscaler_safe_def autoscaler_signal_def)
next
  case (recommended d cpu mem rate)
  have "0 \<le> current_monthly_cost autoscaler_example"
    and "fl (current_monthly_cost autoscaler_example) = current_monthly_cost autoscaler_example"
    by (simp_all add: autoscaler_example_def)
  from autoscaler_proposal [OF recommended(1,2) this] recommended(1,2)
  show ?thesis by (auto simp: autoscaler_example_def)
qed

end
