(* ===== verification/Observations.thy ===== *)
theory Observations
  imports FloatValues
begin

text \<open>
  The metric observations both rightsizing engines read and what they compute from them: the points
  of a time window, the largest p95 value of a metric, the number of distinct dates, and the choice
  of the 30, 14 or 7 day window. The two engines classify metric names differently, so the
  classification is a parameter here and each engine supplies its own.
\<close>

section \<open>Model\<close>

text \<open>
  An observation: the start of its window (an instant and its UTC offset; a value that is not a
  datetime is \<open>None\<close>, a naive datetime has offset 0), the metric name, and the p95 value, which may
  be missing or not convertible to a number.
\<close>

datatype p95_value = NoValue | Unreadable | Value pyfloat

record observation =
  window_start :: "(instant \<times> int) option"
  metric_name :: string
  p95_value :: p95_value

definition local_date :: "instant \<Rightarrow> int \<Rightarrow> int" where
  "local_date t offset = (t + offset) div 86400000000"

definition point :: "(string \<Rightarrow> 'k option) \<Rightarrow> instant \<Rightarrow> observation \<Rightarrow> ('k \<times> pyfloat \<times> int) option" where
  "point kind start item =
     (case window_start item of
        None \<Rightarrow> None
      | Some (t, offset) \<Rightarrow>
          if t < start then None
          else case kind (metric_name item) of
            None \<Rightarrow> None
          | Some k \<Rightarrow> (case p95_value item of Value v \<Rightarrow> Some (k, v, local_date t offset) | _ \<Rightarrow> None))"

definition points :: "(string \<Rightarrow> 'k option) \<Rightarrow> instant \<Rightarrow> int \<Rightarrow> observation list \<Rightarrow> ('k \<times> pyfloat \<times> int) list" where
  "points kind now days obs = List.map_filter (point kind (now - days_us days)) obs"

definition values_of :: "'k \<Rightarrow> ('k \<times> pyfloat \<times> int) list \<Rightarrow> pyfloat list" where
  "values_of k ps = map (\<lambda>p. fst (snd p)) (filter (\<lambda>p. fst p = k) ps)"

definition distinct_dates :: "('k \<times> pyfloat \<times> int) list \<Rightarrow> nat" where
  "distinct_dates ps = length (remdups (map (\<lambda>p. snd (snd p)) ps))"

text \<open>Largest cpu value, largest memory value, and days of history of a window.\<close>

definition window_p95 ::
  "(string \<Rightarrow> 'k option) \<Rightarrow> 'k \<Rightarrow> 'k \<Rightarrow> instant \<Rightarrow> observation list \<Rightarrow> int
   \<Rightarrow> pyfloat option \<times> pyfloat option \<times> nat" where
  "window_p95 kind cpu mem now obs days =
     (let ps = points kind now days obs
      in (py_max (values_of cpu ps), py_max (values_of mem ps), distinct_dates ps))"

fun first_window :: "(int \<Rightarrow> nat \<Rightarrow> bool) \<Rightarrow> (int \<Rightarrow> pyfloat option \<times> pyfloat option \<times> nat) \<Rightarrow> int list
   \<Rightarrow> (int \<times> pyfloat \<times> pyfloat \<times> nat) option" where
  "first_window ok st [] = None"
| "first_window ok st (w # ws) =
     (case st w of
        (Some c, Some m, h) \<Rightarrow> if ok w h then Some (w, c, m, h) else first_window ok st ws
      | _ \<Rightarrow> first_window ok st ws)"

text \<open>
  The window used: the first of 30, 14, 7 days with a full history, otherwise the first with at
  least seven days of it, which then counts for as many days as it has.
\<close>

definition select_window ::
  "(int \<Rightarrow> pyfloat option \<times> pyfloat option \<times> nat) \<Rightarrow> (int \<times> int \<times> pyfloat \<times> pyfloat \<times> nat) option" where
  "select_window st =
     (case first_window (\<lambda>w h. int h \<ge> w) st [30, 14, 7] of
        Some (w, c, m, h) \<Rightarrow> Some (w, w, c, m, h)
      | None \<Rightarrow>
          (case first_window (\<lambda>w h. h \<ge> 7) st [30, 14, 7] of
             Some (w, c, m, h) \<Rightarrow> Some (min w (int h), w, c, m, h)
           | None \<Rightarrow> None))"

section \<open>Facts\<close>

lemma first_window_Some:
  "first_window ok st ws = Some (w, c, m, h) \<Longrightarrow>
     w \<in> set ws \<and> st w = (Some c, Some m, h) \<and> ok w h"
  by (induction ws) (auto split: prod.splits option.splits if_splits)

lemma first_window_None:
  "first_window ok st ws = None \<longleftrightarrow>
     (\<forall>w\<in>set ws. \<forall>c m h. st w = (Some c, Some m, h) \<longrightarrow> \<not> ok w h)"
  by (induction ws) (auto split: prod.splits option.splits if_splits)

lemma select_window_Some:
  assumes "select_window st = Some (days, w, c, m, h)"
  shows "w \<in> {30, 14, 7}" "st w = (Some c, Some m, h)" "7 \<le> h" "7 \<le> days" "days \<le> w"
proof -
  have "w \<in> {30, 14, 7} \<and> st w = (Some c, Some m, h) \<and> 7 \<le> h \<and> 7 \<le> days \<and> days \<le> w"
  proof (cases "first_window (\<lambda>w h. int h \<ge> w) st [30, 14, 7]")
    case (Some r)
    obtain w' c' m' h' where r: "r = (w', c', m', h')" by (cases r)
    from first_window_Some [OF Some [unfolded r]] assms Some r show ?thesis
      by (auto simp: select_window_def)
  next
    case None
    with assms obtain r where r: "first_window (\<lambda>w h. h \<ge> 7) st [30, 14, 7] = Some r"
      by (auto simp: select_window_def split: option.splits)
    obtain w' c' m' h' where r': "r = (w', c', m', h')" by (cases r)
    from first_window_Some [OF r [unfolded r']] assms None r r' show ?thesis
      by (auto simp: select_window_def)
  qed
  then show "w \<in> {30, 14, 7}" "st w = (Some c, Some m, h)" "7 \<le> h" "7 \<le> days" "days \<le> w"
    by blast+
qed

lemma set_points:
  "p \<in> set (points kind now d obs) \<longleftrightarrow> (\<exists>item\<in>set obs. point kind (now - days_us d) item = Some p)"
proof (induction obs)
  case (Cons x obs)
  then show ?case
    by (cases "point kind (now - days_us d) x") (auto simp: points_def)
qed (simp add: points_def)

lemma points_mono: "d \<le> d' \<Longrightarrow> set (points kind now d obs) \<subseteq> set (points kind now d' obs)"
proof
  fix p assume d: "d \<le> d'" and "p \<in> set (points kind now d obs)"
  then obtain item where item: "item \<in> set obs" "point kind (now - days_us d) item = Some p"
    by (auto simp: set_points)
  have "now - days_us d' \<le> now - days_us d" using d by (simp add: days_us_def)
  with item(2) have "point kind (now - days_us d') item = Some p"
    by (auto simp: point_def split: option.splits p95_value.splits if_splits)
  with item(1) show "p \<in> set (points kind now d' obs)"
    by (auto simp: set_points)
qed

text \<open>Every value of a metric in the last seven days is below the maximum of the selected window.\<close>

lemma selected_bounds_week:
  assumes "select_window (window_p95 kind cpu mem now obs) = Some (days, w, c, m, h)"
    and "(k, v, d) \<in> set (points kind now 7 obs)"
  shows "k = cpu \<Longrightarrow> v \<le> c" and "k = mem \<Longrightarrow> v \<le> m"
proof -
  note sel = select_window_Some [OF assms(1)]
  from sel(1) have "7 \<le> w" by auto
  from points_mono [OF this] assms(2) have p: "(k, v, d) \<in> set (points kind now w obs)" by blast
  from sel(2) have c: "py_max (values_of cpu (points kind now w obs)) = Some c"
    and m: "py_max (values_of mem (points kind now w obs)) = Some m"
    by (simp_all add: window_p95_def Let_def)
  have "v \<in> set (values_of k (points kind now w obs))"
    using p by (force simp: values_of_def)
  then show "k = cpu \<Longrightarrow> v \<le> c" and "k = mem \<Longrightarrow> v \<le> m"
    using py_max_Some [OF c] py_max_Some [OF m] by auto
qed

end
