(* ===== verification/VmRightsizing.thy ===== *)
theory VmRightsizing
  imports Observations
begin

text \<open>
  \<open>domains/decision_engine/vm_rightsizing_engine.py\<close>: the SKU grammar, the next smaller SKU, and the
  decision whether to recommend it, from the p95 utilization of the selected window. The evidence
  dictionary is the record \<open>vm_evidence\<close>. The lemmas show that the printed smaller SKU parses back,
  that the cost ratio therefore always exists, and when and what the engine recommends.
\<close>

section \<open>SKUs\<close>

datatype vm_metric = VmCpu | VmMemory

definition vm_metric_kind :: "string \<Rightarrow> vm_metric option" where
  "vm_metric_kind raw =
     (let name = py_lower (py_strip raw) in
      if name = [] then None
      else if py_contains name ''cpu'' then Some VmCpu
      else if py_contains name ''memory'' \<or> py_contains name ''mem'' then Some VmMemory
      else None)"

definition is_alpha :: "char \<Rightarrow> bool" where
  "is_alpha c \<longleftrightarrow> (let n = of_char c :: nat in (65 \<le> n \<and> n \<le> 90) \<or> (97 \<le> n \<and> n \<le> 122))"

definition is_alnum :: "char \<Rightarrow> bool" where
  "is_alnum c \<longleftrightarrow> is_alpha c \<or> is_digit_char c"

record sku =
  sku_prefix :: string
  sku_family :: string
  sku_size :: nat
  sku_flavor :: string
  sku_version :: string

text \<open>
  The regular expression \<open>^(Standard[_-])([A-Za-z]+)(\d+)([A-Za-z0-9]*?)_(v\d+)$\<close>: letters, then
  digits, then letters and digits up to the underscore are maximal runs, because each run is
  followed by a character of another class.
\<close>

definition parse_azure_like_sku :: "string \<Rightarrow> sku option" where
  "parse_azure_like_sku sku_name =
     (let raw = py_strip sku_name;
          prefix = take 9 raw;
          rest = drop 9 raw;
          family = takeWhile is_alpha rest;
          rest = dropWhile is_alpha rest;
          digits = takeWhile is_digit_char rest;
          rest = dropWhile is_digit_char rest;
          flavor = takeWhile is_alnum rest;
          rest = dropWhile is_alnum rest;
          version = drop 1 rest
      in if (prefix = ''Standard_'' \<or> prefix = ''Standard-'') \<and> family \<noteq> [] \<and> digits \<noteq> []
            \<and> take 2 rest = ''_v'' \<and> drop 2 rest \<noteq> [] \<and> list_all is_digit_char (drop 2 rest)
         then Some \<lparr>sku_prefix = prefix, sku_family = family, sku_size = str_nat digits,
                    sku_flavor = flavor, sku_version = version\<rparr>
         else None)"

definition print_sku :: "sku \<Rightarrow> string" where
  "print_sku k = sku_prefix k @ sku_family k @ nat_str (sku_size k) @ sku_flavor k @ ''_'' @ sku_version k"

definition smaller_compatible_sku :: "string \<Rightarrow> string option" where
  "smaller_compatible_sku current_sku =
     (case parse_azure_like_sku current_sku of
        None \<Rightarrow> None
      | Some k \<Rightarrow>
          if sku_size k \<le> 1 then None
          else let target_size = max 1 (sku_size k div 2) in
            if target_size = sku_size k then None
            else Some (print_sku (k\<lparr>sku_size := target_size\<rparr>)))"

definition size_ratio :: "string \<Rightarrow> string \<Rightarrow> pyfloat option" where
  "size_ratio current_sku target_sku =
     (case (parse_azure_like_sku current_sku, parse_azure_like_sku target_sku) of
        (Some cur, Some tgt) \<Rightarrow>
          if sku_family cur \<noteq> sku_family tgt \<or> sku_flavor cur \<noteq> sku_flavor tgt
            \<or> sku_version cur \<noteq> sku_version tgt then None
          else if sku_size cur \<le> 0 then None
          else Some (fdiv (of_nat (sku_size tgt)) (of_nat (sku_size cur)))
      | _ \<Rightarrow> None)"

section \<open>Decision\<close>

record vm_evidence =
  ve_cpu_p95 :: "pyfloat option"
  ve_memory_p95 :: "pyfloat option"
  ve_window_days :: int
  ve_history_days :: nat
  ve_current_sku :: "string option"
  ve_recommended_sku :: "string option"
  ve_current_monthly_cost :: pyfloat
  ve_estimated_monthly_cost :: "pyfloat option"
  ve_estimated_savings :: pyfloat
  ve_estimated_savings_pct :: pyfloat
  ve_confidence :: pyfloat
  ve_risk_level :: string
  ve_reason :: string

record vm_decision =
  vm_recommend :: bool
  vm_reason :: string
  vm_risk_level :: string
  vm_confidence :: pyfloat
  vm_evidence :: vm_evidence

definition vm_refuse :: "vm_evidence \<Rightarrow> string \<Rightarrow> vm_decision" where
  "vm_refuse ev msg = \<lparr>vm_recommend = False, vm_reason = msg, vm_risk_level = ''high'',
     vm_confidence = 0, vm_evidence = ev\<lparr>ve_reason := msg\<rparr>\<rparr>"

definition savings_pct :: "pyfloat \<Rightarrow> pyfloat \<Rightarrow> pyfloat" where
  "savings_pct savings cost = py_round 2 (if cost > 0 then fmul (fdiv savings cost) 100 else 0)"

definition vm_risk :: "pyfloat \<Rightarrow> pyfloat \<Rightarrow> string" where
  "vm_risk cpu mem = (if cpu > 50 \<or> mem > 60 then ''medium'' else ''low'')"

definition vm_confidence_of :: "int \<Rightarrow> pyfloat \<Rightarrow> pyfloat \<Rightarrow> pyfloat" where
  "vm_confidence_of days cpu mem =
     (let c = fl (55/100);
          c = (if days \<ge> 30 then fadd c (fl (2/10)) else if days \<ge> 14 then fadd c (fl (12/100)) else c);
          c = bump (cpu \<le> 35 \<and> mem \<le> 50) (fl (1/10)) c;
          c = lower_by (vm_risk cpu mem = ''medium'') (fl (8/100)) c
      in clamp2 c)"

definition vm_ok_reason :: "pyfloat \<Rightarrow> pyfloat \<Rightarrow> int \<Rightarrow> string" where
  "vm_ok_reason cpu mem days =
     ''CPU p95 '' @ fixed_str 1 cpu @ ''% e mem'' @ o_acute @ ''ria p95 '' @ fixed_str 1 mem
     @ ''% abaixo dos limites em janela de '' @ int_str days @ '' dias.''"

definition vm_no_data :: string where
  "vm_no_data = ''Dados insuficientes: hist'' @ o_acute @ ''rico m'' @ i_acute
     @ ''nimo de 7 dias com CPU e mem'' @ o_acute @ ''ria p95.''"

definition vm_no_sku :: string where
  "vm_no_sku = ''SKU alvo n'' @ a_tilde @ ''o encontrado: sem SKU menor compat'' @ i_acute
     @ ''vel para esta fam'' @ i_acute @ ''lia.''"

definition vm_cpu_high :: string where
  "vm_cpu_high = ''Bloqueado por seguran'' @ c_cedil @ ''a: CPU p95 acima de 60%.''"

definition vm_mem_high :: string where
  "vm_mem_high = ''Bloqueado por seguran'' @ c_cedil @ ''a: mem'' @ o_acute @ ''ria p95 acima de 70%.''"

definition vm_no_ratio :: string where
  "vm_no_ratio = ''N'' @ a_tilde @ ''o foi poss'' @ i_acute @ ''vel estimar custo do SKU alvo.''"

definition vm_no_saving :: string where
  "vm_no_saving = ''Economia estimada n'' @ a_tilde @ ''o positiva.''"

definition decide_vm_rightsizing ::
  "instant \<Rightarrow> string option \<Rightarrow> pyfloat \<Rightarrow> observation list \<Rightarrow> vm_decision" where
  "decide_vm_rightsizing now current_sku cost observations =
     (let ev = (\<lambda>cpu mem days h target.
            \<lparr>ve_cpu_p95 = cpu, ve_memory_p95 = mem, ve_window_days = days, ve_history_days = h,
             ve_current_sku = current_sku, ve_recommended_sku = target,
             ve_current_monthly_cost = py_round 2 cost, ve_estimated_monthly_cost = None,
             ve_estimated_savings = 0, ve_estimated_savings_pct = 0, ve_confidence = 0,
             ve_risk_level = ''high'', ve_reason = []\<rparr>);
          sku_text = (case current_sku of None \<Rightarrow> [] | Some s \<Rightarrow> s)
      in case select_window (window_p95 vm_metric_kind VmCpu VmMemory now observations) of
           None \<Rightarrow> vm_refuse (ev None None 0 0 None) vm_no_data
         | Some (days, w, cpu, mem, h) \<Rightarrow>
             let ev = ev (Some (py_round 2 cpu)) (Some (py_round 2 mem)) days h in
             case smaller_compatible_sku sku_text of
               None \<Rightarrow> vm_refuse (ev None) vm_no_sku
             | Some target \<Rightarrow>
                 if cpu > 60 then vm_refuse (ev (Some target)) vm_cpu_high
                 else if mem > 70 then vm_refuse (ev (Some target)) vm_mem_high
                 else case size_ratio sku_text target of
                   None \<Rightarrow> vm_refuse (ev (Some target)) vm_no_ratio
                 | Some ratio \<Rightarrow>
                     let estimated_monthly_cost = py_round 2 (fmul cost ratio);
                         estimated_savings = py_round 2 (fsub cost estimated_monthly_cost);
                         ev = (ev (Some target))\<lparr>
                           ve_estimated_monthly_cost := Some estimated_monthly_cost,
                           ve_estimated_savings := estimated_savings,
                           ve_estimated_savings_pct := savings_pct estimated_savings cost\<rparr>
                     in if estimated_savings \<le> 0 then vm_refuse ev vm_no_saving
                        else let level = vm_risk cpu mem;
                                 conf = vm_confidence_of days cpu mem;
                                 msg = vm_ok_reason cpu mem days
                          in \<lparr>vm_recommend = True, vm_reason = msg, vm_risk_level = level,
                              vm_confidence = conf,
                              vm_evidence = ev\<lparr>ve_confidence := conf, ve_risk_level := level,
                                ve_reason := msg\<rparr>\<rparr>)"

section \<open>Printing and parsing\<close>

definition sku_ok :: "sku \<Rightarrow> bool" where
  "sku_ok k \<longleftrightarrow> (sku_prefix k = ''Standard_'' \<or> sku_prefix k = ''Standard-'')
     \<and> sku_family k \<noteq> [] \<and> list_all is_alpha (sku_family k)
     \<and> list_all is_alnum (sku_flavor k)
     \<and> (sku_flavor k = [] \<or> \<not> is_digit_char (hd (sku_flavor k)))
     \<and> (\<exists>ds. sku_version k = CHR ''v'' # ds \<and> ds \<noteq> [] \<and> list_all is_digit_char ds)"

lemma alpha_not_digit: "is_alpha c \<Longrightarrow> \<not> is_digit_char c"
  by (auto simp: is_alpha_def is_digit_char_def Let_def)

lemma not_space: "is_alpha c \<or> is_digit_char c \<Longrightarrow> \<not> is_space_char c"
  by (auto simp: is_alpha_def is_digit_char_def is_space_char_def Let_def)

lemma underscore: "\<not> is_alpha (CHR ''_'')" "\<not> is_digit_char (CHR ''_'')" "\<not> is_alnum (CHR ''_'')"
  by (simp_all add: is_alpha_def is_digit_char_def is_alnum_def)

lemma takeWhile_run: "list_all P xs \<Longrightarrow> ys = [] \<or> \<not> P (hd ys) \<Longrightarrow> takeWhile P (xs @ ys) = xs"
  by (induction xs) (cases ys; auto)+

lemma dropWhile_run: "list_all P xs \<Longrightarrow> ys = [] \<or> \<not> P (hd ys) \<Longrightarrow> dropWhile P (xs @ ys) = ys"
  by (induction xs) (cases ys; auto)+

lemma dropWhile_hd_id: "\<not> P (hd xs) \<Longrightarrow> dropWhile P xs = xs"
  by (cases xs) auto

lemma strip_id: "\<not> is_space_char (hd s) \<Longrightarrow> \<not> is_space_char (last s) \<Longrightarrow> py_strip s = s"
  by (cases "s = []") (simp_all add: py_strip_def dropWhile_hd_id hd_rev)

lemma list_all_takeWhile: "list_all P (takeWhile P xs)"
  by (induction xs) auto

lemma parse_sku_ok: "parse_azure_like_sku s = Some k \<Longrightarrow> sku_ok k"
proof -
  assume p: "parse_azure_like_sku s = Some k"
  let ?r = "drop 9 (py_strip s)"
  let ?r1 = "dropWhile is_alpha ?r"
  let ?r2 = "dropWhile is_digit_char ?r1"
  let ?r3 = "dropWhile is_alnum ?r2"
  from p have k: "k = \<lparr>sku_prefix = take 9 (py_strip s), sku_family = takeWhile is_alpha ?r,
      sku_size = str_nat (takeWhile is_digit_char ?r1), sku_flavor = takeWhile is_alnum ?r2,
      sku_version = drop 1 ?r3\<rparr>"
    and pre: "take 9 (py_strip s) = ''Standard_'' \<or> take 9 (py_strip s) = ''Standard-''"
    and fam: "takeWhile is_alpha ?r \<noteq> []"
    and ver: "take 2 ?r3 = ''_v''" "drop 2 ?r3 \<noteq> []" "list_all is_digit_char (drop 2 ?r3)"
    by (auto simp: parse_azure_like_sku_def Let_def split: if_splits)
  have "?r3 = take 2 ?r3 @ drop 2 ?r3" by simp
  with ver(1) have "?r3 = CHR ''_'' # CHR ''v'' # drop 2 ?r3" by simp
  then have "drop 1 ?r3 = CHR ''v'' # drop 2 ?r3" by (metis One_nat_def drop0 drop_Suc_Cons)
  moreover have "takeWhile is_alnum ?r2 = [] \<or> \<not> is_digit_char (hd (takeWhile is_alnum ?r2))"
  proof (cases ?r2)
    case (Cons c cs)
    then have "\<not> is_digit_char c" by (rule dropWhile_hd)
    then show ?thesis unfolding Cons by simp
  next
    case Nil
    show ?thesis unfolding Nil by simp
  qed
  ultimately show ?thesis
    using k pre fam ver(2,3) by (simp add: sku_ok_def list_all_takeWhile)
qed

lemma nat_str_all_digits: "list_all is_digit_char (nat_str n)"
  by (auto simp: list_all_iff dest: nat_str_digits)

lemma parse_print:
  assumes "sku_ok k" shows "parse_azure_like_sku (print_sku k) = Some k"
proof -
  from assms obtain ds where v: "sku_version k = CHR ''v'' # ds" "ds \<noteq> []" "list_all is_digit_char ds"
    by (auto simp: sku_ok_def)
  define r3 where "r3 = ''_'' @ sku_version k"
  define r2 where "r2 = sku_flavor k @ r3"
  define r1 where "r1 = nat_str (sku_size k) @ r2"
  have pre: "length (sku_prefix k) = 9" using assms by (auto simp: sku_ok_def)
  have hd: "\<not> is_space_char (hd (print_sku k))"
    using assms by (auto simp: sku_ok_def print_sku_def is_space_char_def)
  have "last (print_sku k) = last ds" using v by (simp add: print_sku_def)
  moreover have "is_digit_char (last ds)" using v(2,3) by (auto simp: list_all_iff)
  ultimately have "py_strip (print_sku k) = print_sku k"
    using strip_id [OF hd] not_space by simp
  then have strip: "py_strip (print_sku k) = sku_prefix k @ sku_family k @ r1"
    by (simp add: print_sku_def r1_def r2_def r3_def)
  have fam: "list_all is_alpha (sku_family k)" using assms by (simp add: sku_ok_def)
  have dig1: "\<not> is_alpha (hd r1)"
    using nat_str_all_digits [of "sku_size k"] alpha_not_digit
    by (cases "nat_str (sku_size k)") (auto simp: r1_def)
  have flv: "list_all is_alnum (sku_flavor k)" using assms by (simp add: sku_ok_def)
  have dig2: "\<not> is_digit_char (hd r2)"
    using assms underscore by (cases "sku_flavor k") (auto simp: sku_ok_def r2_def r3_def)
  have r3: "\<not> is_alnum (hd r3)" using underscore by (simp add: r3_def)
  note runs = takeWhile_run [OF fam disjI2 [OF dig1]] dropWhile_run [OF fam disjI2 [OF dig1]]
    takeWhile_run [OF nat_str_all_digits disjI2 [OF dig2], of "sku_size k", folded r1_def]
    dropWhile_run [OF nat_str_all_digits disjI2 [OF dig2], of "sku_size k", folded r1_def]
    takeWhile_run [OF flv disjI2 [OF r3], folded r2_def]
    dropWhile_run [OF flv disjI2 [OF r3], folded r2_def]
  have tail: "take 2 r3 = ''_v''" "drop 2 r3 = ds" "drop 1 r3 = sku_version k"
    using v by (simp_all add: r3_def)
  have parts: "take 9 (sku_prefix k @ sku_family k @ r1) = sku_prefix k"
    "drop 9 (sku_prefix k @ sku_family k @ r1) = sku_family k @ r1"
    using pre by simp_all
  have ok: "(sku_prefix k = ''Standard_'' \<or> sku_prefix k = ''Standard-'') \<and> sku_family k \<noteq> []
      \<and> nat_str (sku_size k) \<noteq> [] \<and> ''_v'' = ''_v'' \<and> ds \<noteq> [] \<and> list_all is_digit_char ds"
    using assms v by (simp add: sku_ok_def)
  show ?thesis
    unfolding parse_azure_like_sku_def Let_def strip parts runs tail if_P [OF ok] by simp
qed

section \<open>The smaller SKU\<close>

lemma smaller_cases:
  assumes "smaller_compatible_sku s = Some t"
  obtains k where "parse_azure_like_sku s = Some k" "2 \<le> sku_size k"
    "t = print_sku (k\<lparr>sku_size := sku_size k div 2\<rparr>)"
    "parse_azure_like_sku t = Some (k\<lparr>sku_size := sku_size k div 2\<rparr>)"
proof -
  from assms obtain k where k: "parse_azure_like_sku s = Some k" "\<not> sku_size k \<le> 1"
    "t = print_sku (k\<lparr>sku_size := max 1 (sku_size k div 2)\<rparr>)"
    by (auto simp: smaller_compatible_sku_def Let_def split: option.splits if_splits)
  then have m: "max 1 (sku_size k div 2) = sku_size k div 2" by simp
  from parse_sku_ok [OF k(1)] have "sku_ok (k\<lparr>sku_size := sku_size k div 2\<rparr>)"
    by (simp add: sku_ok_def)
  from parse_print [OF this] that [OF k(1)] k(2,3) show thesis unfolding m by simp
qed

lemma smaller_ratio: "smaller_compatible_sku s = Some t \<Longrightarrow> \<exists>r. size_ratio s t = Some r"
  by (erule smaller_cases) (simp add: size_ratio_def)

text \<open>
  The SKU the engine proposes is again a SKU of its grammar: it parses to the same
  prefix, family, flavor and version with half the size, so the ratio of the two always exists and
  lies between a third and a half.
\<close>

theorem smaller_sku_roundtrip:
  assumes "smaller_compatible_sku s = Some t"
  shows "\<exists>k. parse_azure_like_sku s = Some k
     \<and> parse_azure_like_sku t = Some (k\<lparr>sku_size := sku_size k div 2\<rparr>)
     \<and> size_ratio s t = Some (fdiv (of_nat (sku_size k div 2)) (of_nat (sku_size k)))
     \<and> fl (1/3) \<le> fdiv (of_nat (sku_size k div 2)) (of_nat (sku_size k))
     \<and> fdiv (of_nat (sku_size k div 2)) (of_nat (sku_size k)) \<le> fl (1/2)"
proof -
  from assms obtain k where k: "parse_azure_like_sku s = Some k" "2 \<le> sku_size k"
    "parse_azure_like_sku t = Some (k\<lparr>sku_size := sku_size k div 2\<rparr>)"
    by (rule smaller_cases)
  let ?n = "sku_size k" and ?q = "of_nat (sku_size k div 2) / of_nat (sku_size k) :: rat"
  have "?n \<le> 3 * (?n div 2)" and "2 * (?n div 2) \<le> ?n" using k(2) by presburger+
  then have "(of_nat ?n :: rat) \<le> of_nat (3 * (?n div 2))" and "(of_nat (2 * (?n div 2)) :: rat) \<le> of_nat ?n"
    by (simp_all only: of_nat_le_iff)
  then have "1 / 3 \<le> ?q" and "?q \<le> 1 / 2" using k(2) by (simp_all add: field_simps)
  then have "fl (1/3) \<le> fl ?q" and "fl ?q \<le> fl (1/2)" by (simp_all add: fl_mono)
  with k show ?thesis by (simp add: size_ratio_def fdiv_def)
qed

theorem smaller_sku_roundtrip_witness:
  "smaller_compatible_sku ''Standard_D4s_v5'' = Some ''Standard_D2s_v5''
   \<and> (\<exists>r. size_ratio ''Standard_D4s_v5'' ''Standard_D2s_v5'' = Some r \<and> r \<le> fl (1/2))"
proof -
  have t: "smaller_compatible_sku ''Standard_D4s_v5'' = Some ''Standard_D2s_v5''" by code_simp
  from smaller_sku_roundtrip [OF t] t show ?thesis by auto
qed

section \<open>Decisions\<close>

text \<open>What the engine requires before it recommends a SKU.\<close>

definition vm_eligible ::
  "instant \<Rightarrow> string option \<Rightarrow> observation list \<Rightarrow> int \<times> int \<times> pyfloat \<times> pyfloat \<times> nat \<Rightarrow> string \<Rightarrow> bool" where
  "vm_eligible now current_sku obs sel target \<longleftrightarrow>
     select_window (window_p95 vm_metric_kind VmCpu VmMemory now obs) = Some sel
   \<and> smaller_compatible_sku (case current_sku of None \<Rightarrow> [] | Some s \<Rightarrow> s) = Some target
   \<and> fst (snd (snd sel)) \<le> 60 \<and> fst (snd (snd (snd sel))) \<le> 70"

definition half_cost :: "string option \<Rightarrow> string \<Rightarrow> pyfloat \<Rightarrow> pyfloat" where
  "half_cost current_sku target cost = py_round 2 (fmul cost (the (size_ratio
     (case current_sku of None \<Rightarrow> [] | Some s \<Rightarrow> s) target)))"

lemma vm_refuse_no [simp]: "vm_recommend (vm_refuse ev m) = False" "vm_reason (vm_refuse ev m) = m"
  "vm_confidence (vm_refuse ev m) = 0" "ve_estimated_savings (vm_evidence (vm_refuse ev m)) = ve_estimated_savings ev"
  by (simp_all add: vm_refuse_def)

lemma vm_eligible_run:
  assumes "vm_eligible now current_sku obs (days, w, cpu, mem, h) target"
  shows "vm_recommend (decide_vm_rightsizing now current_sku cost obs) \<longleftrightarrow>
      0 < py_round 2 (fsub cost (half_cost current_sku target cost))"
    and "vm_recommend (decide_vm_rightsizing now current_sku cost obs) \<Longrightarrow>
      vm_confidence (decide_vm_rightsizing now current_sku cost obs) = vm_confidence_of days cpu mem
    \<and> vm_risk_level (decide_vm_rightsizing now current_sku cost obs) = vm_risk cpu mem
    \<and> ve_recommended_sku (vm_evidence (decide_vm_rightsizing now current_sku cost obs)) = Some target
    \<and> ve_estimated_monthly_cost (vm_evidence (decide_vm_rightsizing now current_sku cost obs))
        = Some (half_cost current_sku target cost)"
proof -
  let ?s = "case current_sku of None \<Rightarrow> [] | Some s \<Rightarrow> s"
  from assms have sel: "select_window (window_p95 vm_metric_kind VmCpu VmMemory now obs) = Some (days, w, cpu, mem, h)"
    and sku: "smaller_compatible_sku ?s = Some target"
    and lim: "(60 < cpu) = False" "(70 < mem) = False"
    by (auto simp: vm_eligible_def)
  obtain r where r: "size_ratio ?s target = Some r"
    using smaller_ratio [OF sku] by blast
  have half: "half_cost current_sku target cost = py_round 2 (fmul cost r)"
    by (simp add: half_cost_def r)
  show "vm_recommend (decide_vm_rightsizing now current_sku cost obs) \<longleftrightarrow>
      0 < py_round 2 (fsub cost (half_cost current_sku target cost))"
    unfolding half by (simp add: decide_vm_rightsizing_def Let_def sel sku lim r not_le)
  show "vm_recommend (decide_vm_rightsizing now current_sku cost obs) \<Longrightarrow>
      vm_confidence (decide_vm_rightsizing now current_sku cost obs) = vm_confidence_of days cpu mem
    \<and> vm_risk_level (decide_vm_rightsizing now current_sku cost obs) = vm_risk cpu mem
    \<and> ve_recommended_sku (vm_evidence (decide_vm_rightsizing now current_sku cost obs)) = Some target
    \<and> ve_estimated_monthly_cost (vm_evidence (decide_vm_rightsizing now current_sku cost obs))
        = Some (half_cost current_sku target cost)"
    unfolding half by (simp add: decide_vm_rightsizing_def Let_def sel sku lim r split: if_splits)
qed

lemma vm_recommend_eligible:
  assumes "vm_recommend (decide_vm_rightsizing now current_sku cost obs)"
  shows "\<exists>sel target. vm_eligible now current_sku obs sel target"
proof (cases "select_window (window_p95 vm_metric_kind VmCpu VmMemory now obs)")
  case None
  with assms show ?thesis by (simp add: decide_vm_rightsizing_def Let_def)
next
  case (Some sel)
  obtain days w cpu mem h where s: "sel = (days, w, cpu, mem, h)" by (cases sel)
  from assms Some s show ?thesis
    by (auto simp: decide_vm_rightsizing_def Let_def vm_eligible_def not_less
        split: option.splits if_splits)
qed

text \<open>
  The engine recommends exactly when a window of data was selected, a smaller SKU
  exists, the peaks are at most 60% CPU and 70% memory, and the rounded saving is positive. The
  refusal \<open>cost of the target SKU cannot be estimated\<close> is never given.
\<close>

theorem vm_decision_exact:
  "(vm_recommend (decide_vm_rightsizing now current_sku cost obs) \<longleftrightarrow>
     (\<exists>sel target. vm_eligible now current_sku obs sel target
        \<and> 0 < py_round 2 (fsub cost (half_cost current_sku target cost))))
   \<and> vm_reason (decide_vm_rightsizing now current_sku cost obs) \<noteq> vm_no_ratio"
proof
  show "vm_recommend (decide_vm_rightsizing now current_sku cost obs) \<longleftrightarrow>
     (\<exists>sel target. vm_eligible now current_sku obs sel target
        \<and> 0 < py_round 2 (fsub cost (half_cost current_sku target cost)))"
    using vm_recommend_eligible [of now current_sku cost obs]
      vm_eligible_run(1) [of now current_sku obs _ _ _ _ _ _ cost]
    by (metis prod_cases5)
  have differ: "vm_no_data \<noteq> vm_no_ratio" "vm_no_sku \<noteq> vm_no_ratio" "vm_cpu_high \<noteq> vm_no_ratio"
    "vm_mem_high \<noteq> vm_no_ratio" "vm_no_saving \<noteq> vm_no_ratio" "vm_ok_reason c m d \<noteq> vm_no_ratio" for c m d
    by (simp_all add: vm_no_data_def vm_no_sku_def vm_cpu_high_def vm_mem_high_def vm_no_ratio_def
        vm_no_saving_def vm_ok_reason_def)
  then show "vm_reason (decide_vm_rightsizing now current_sku cost obs) \<noteq> vm_no_ratio"
    by (auto simp: decide_vm_rightsizing_def Let_def split: option.split dest!: smaller_ratio)
qed

lemma vm_confidence_range:
  assumes "7 \<le> days"
  shows "fl (47/100) \<le> vm_confidence_of days cpu mem \<and> vm_confidence_of days cpu mem \<le> fl (85/100)"
proof -
  let ?c = "if days \<ge> 30 then fadd (fl (55/100)) (fl (2/10))
    else if days \<ge> 14 then fadd (fl (55/100)) (fl (12/100)) else fl (55/100)"
  have top: "fl (12/100) \<le> fl (2/10)" "0 \<le> fl (2/10)" "0 \<le> fl (12/100)" "0 \<le> fl (1/10)" "0 \<le> fl (8/100)"
    by (simp_all add: fl_mono fl_nonneg)
  then have "in_range (fl (55/100)) (fadd (fl (55/100)) (fl (2/10))) ?c"
    using fadd_ge [of "fl (55/100)" "fl (2/10)"] fadd_ge [of "fl (55/100)" "fl (12/100)"]
    by (auto simp: in_range_def intro: fadd_mono)
  then have "in_range (fsub (fl (55/100)) (fl (8/100)))
      (fadd (fadd (fl (55/100)) (fl (2/10))) (fl (1/10)))
      (lower_by (vm_risk cpu mem = ''medium'') (fl (8/100)) (bump (cpu \<le> 35 \<and> mem \<le> 50) (fl (1/10)) ?c))"
    using top by (intro lower_by_in_range bump_in_range) simp_all
  moreover have "clamp2 (fsub (fl (55/100)) (fl (8/100))) = fdiv 47 100"
    and "clamp2 (fadd (fadd (fl (55/100)) (fl (2/10))) (fl (1/10))) = fdiv 85 100"
    by (simp only: float_values, simp add: clamp2_def floor2_def float_values)+
  ultimately show ?thesis using clamp2_in_range by (fastforce simp: vm_confidence_of_def Let_def fdiv_def)
qed

text \<open>
  C27 (safety): a recommendation is safe and bounded: at least seven distinct days of data were in the
  window, every usable CPU value of the last seven days is at most 60 and every memory value at most
  70, the saving is positive, the risk is low or medium and the confidence between 0.47 and 0.85.
\<close>

theorem vm_recommendation_safe:
  assumes "vm_recommend (decide_vm_rightsizing now current_sku cost obs)"
  shows "(\<exists>days w cpu mem h target. vm_eligible now current_sku obs (days, w, cpu, mem, h) target
        \<and> 7 \<le> h \<and> 7 \<le> days)
    \<and> list_all (\<lambda>p. (fst p = VmCpu \<longrightarrow> fst (snd p) \<le> 60) \<and> (fst p = VmMemory \<longrightarrow> fst (snd p) \<le> 70))
        (points vm_metric_kind now 7 obs)
    \<and> vm_risk_level (decide_vm_rightsizing now current_sku cost obs) \<in> set [''low'', ''medium'']
    \<and> fl (47/100) \<le> vm_confidence (decide_vm_rightsizing now current_sku cost obs)
    \<and> vm_confidence (decide_vm_rightsizing now current_sku cost obs) \<le> fl (85/100)"
proof -
  from vm_recommend_eligible [OF assms] obtain days w cpu mem h target where
    el: "vm_eligible now current_sku obs (days, w, cpu, mem, h) target" by (metis prod_cases5)
  then have sel: "select_window (window_p95 vm_metric_kind VmCpu VmMemory now obs) = Some (days, w, cpu, mem, h)"
    and lim: "cpu \<le> 60" "mem \<le> 70" by (simp_all add: vm_eligible_def)
  note days = select_window_Some(3,4) [OF sel]
  have "list_all (\<lambda>p. (fst p = VmCpu \<longrightarrow> fst (snd p) \<le> 60) \<and> (fst p = VmMemory \<longrightarrow> fst (snd p) \<le> 70))
      (points vm_metric_kind now 7 obs)"
    using selected_bounds_week [OF sel] lim by (fastforce simp: list_all_iff)
  moreover have "vm_risk cpu mem \<in> set [''low'', ''medium'']" by (simp add: vm_risk_def)
  moreover note out = vm_eligible_run(2) [OF el assms]
  ultimately show ?thesis
    unfolding conjunct1 [OF out] conjunct1 [OF conjunct2 [OF out]]
    using el days vm_confidence_range [OF days(2), of cpu mem] by blast
qed

text \<open>Seven days of CPU 30 and memory 40 for a machine of 100 a month.\<close>

definition vm_sample :: "observation list" where
  "vm_sample = concat (map (\<lambda>d. [
     \<lparr>window_start = Some (days_us d, 0), metric_name = ''Percentage CPU'', p95_value = Value 30\<rparr>,
     \<lparr>window_start = Some (days_us d, 0), metric_name = ''Memory'', p95_value = Value 40\<rparr>]) [1..7])"

lemma vm_sample_selected:
  "select_window (window_p95 vm_metric_kind VmCpu VmMemory (days_us 8) vm_sample) = Some (7, 7, 30, 40, 7)"
proof -
  have kinds: "vm_metric_kind ''Percentage CPU'' = Some VmCpu" "vm_metric_kind ''Memory'' = Some VmMemory"
    by code_simp+
  have days: "[1..7] = [1, 2, 3, 4, 5, 6, 7 :: int]" by (simp add: upto.simps)
  show ?thesis
    by (simp add: select_window_def window_p95_def points_def List.map_filter_def point_def vm_sample_def
      days kinds days_us_def local_date_def values_of_def py_max_def distinct_dates_def)
qed

theorem vm_recommendation_safe_witness:
  "vm_recommend (decide_vm_rightsizing (days_us 8) (Some ''Standard_D4s_v5'') 100 vm_sample)
   \<and> vm_risk_level (decide_vm_rightsizing (days_us 8) (Some ''Standard_D4s_v5'') 100 vm_sample)
       \<in> set [''low'', ''medium'']"
proof -
  have sku: "smaller_compatible_sku ''Standard_D4s_v5'' = Some ''Standard_D2s_v5''"
    and ratio: "size_ratio ''Standard_D4s_v5'' ''Standard_D2s_v5'' = Some (1/2)"
    and save: "0 < py_round 2 (fsub 100 (py_round 2 (fmul 100 (1/2))))" by code_simp+
  have half: "half_cost (Some ''Standard_D4s_v5'') ''Standard_D2s_v5'' 100 = py_round 2 (fmul 100 (1/2))"
    by (simp only: half_cost_def option.case ratio option.sel)
  have "vm_eligible (days_us 8) (Some ''Standard_D4s_v5'') vm_sample (7, 7, 30, 40, 7) ''Standard_D2s_v5''"
    by (simp add: vm_eligible_def vm_sample_selected sku)
  then have rec: "vm_recommend (decide_vm_rightsizing (days_us 8) (Some ''Standard_D4s_v5'') 100 vm_sample)"
    using save half by (simp only: vm_eligible_run(1))
  from vm_recommendation_safe [OF this] rec show ?thesis by blast
qed

end
