(* ===== verification/AksNodepool.thy ===== *)
theory AksNodepool
  imports Observations
begin

text \<open>
  \<open>domains/decision_engine/aks_nodepool_rightsizing_engine.py\<close>: whether to remove one node from an AKS
  node pool. The utilization comes either aggregated (cpu, memory and history days all given) or
  from observations, as in the VM engine with its own classification of metrics. The lemmas state the
  exact condition of a recommendation, the bounds of what it proposes, and the difference between
  the two sources: only the observations enforce the seven days of history.
\<close>

section \<open>Model\<close>

datatype np_metric = NpCpu | NpMemory | NpAllocatedCpu | NpAllocatedMemory | NpRequestedCpu
  | NpRequestedMemory | NpNodeCount

definition np_metric_kind :: "string \<Rightarrow> np_metric option" where
  "np_metric_kind raw =
     (let name = py_lower (py_strip raw) in
      if name = [] then None
      else if py_contains name ''allocated'' \<and> py_contains name ''cpu'' then Some NpAllocatedCpu
      else if py_contains name ''allocated'' \<and> (py_contains name ''memory'' \<or> py_contains name ''mem'')
        then Some NpAllocatedMemory
      else if py_contains name ''requested'' \<and> py_contains name ''cpu'' then Some NpRequestedCpu
      else if py_contains name ''requested'' \<and> (py_contains name ''memory'' \<or> py_contains name ''mem'')
        then Some NpRequestedMemory
      else if py_contains name ''node_count'' \<or> py_contains name ''node count'' then Some NpNodeCount
      else if py_contains name ''cpu'' then Some NpCpu
      else if py_contains name ''memory'' \<or> py_contains name ''mem'' then Some NpMemory
      else None)"

record np_input =
  np_cluster_name :: "string option"
  np_node_pool :: "string option"
  np_node_sku :: "string option"
  np_node_count :: int
  np_monthly_cost :: pyfloat
  np_observations :: "observation list"
  np_cpu_p95 :: "pyfloat option"
  np_memory_p95 :: "pyfloat option"
  np_history_days :: "int option"
  np_allocated_cpu :: "pyfloat option"
  np_allocated_memory :: "pyfloat option"
  np_requested_cpu :: "pyfloat option"
  np_requested_memory :: "pyfloat option"
  np_is_system_pool :: bool
  np_autoscaler_enabled :: bool
  np_autoscaler_min_count :: "int option"
  np_autoscaler_max_count :: "int option"
  np_kube_system_workloads :: bool
  np_critical_workloads :: bool
  np_cpu_stddev :: "pyfloat option"
  np_memory_stddev :: "pyfloat option"

record np_stats =
  ns_days :: "int option"
  ns_history :: int
  ns_cpu :: "pyfloat option"
  ns_memory :: "pyfloat option"
  ns_allocated_cpu :: "pyfloat option"
  ns_allocated_memory :: "pyfloat option"
  ns_requested_cpu :: "pyfloat option"
  ns_requested_memory :: "pyfloat option"

definition window_stat :: "instant \<Rightarrow> observation list \<Rightarrow> int \<Rightarrow> np_metric \<Rightarrow> pyfloat option" where
  "window_stat now obs days k = py_max (values_of k (points np_metric_kind now days obs))"

definition np_select :: "instant \<Rightarrow> np_input \<Rightarrow> np_stats" where
  "np_select now i =
     (case (np_cpu_p95 i, np_memory_p95 i, np_history_days i) of
        (Some c, Some m, Some d) \<Rightarrow>
          let h = max 0 d in
          \<lparr>ns_days = (if h > 0 then Some (min 30 h) else None), ns_history = h,
           ns_cpu = Some c, ns_memory = Some m,
           ns_allocated_cpu = np_allocated_cpu i, ns_allocated_memory = np_allocated_memory i,
           ns_requested_cpu = np_requested_cpu i, ns_requested_memory = np_requested_memory i\<rparr>
      | _ \<Rightarrow>
          (case select_window (window_p95 np_metric_kind NpCpu NpMemory now (np_observations i)) of
             None \<Rightarrow> \<lparr>ns_days = None, ns_history = 0, ns_cpu = None, ns_memory = None,
               ns_allocated_cpu = None, ns_allocated_memory = None, ns_requested_cpu = None,
               ns_requested_memory = None\<rparr>
           | Some (days, w, c, m, h) \<Rightarrow>
               let st = window_stat now (np_observations i) w in
               \<lparr>ns_days = Some days, ns_history = int h, ns_cpu = Some c, ns_memory = Some m,
                ns_allocated_cpu = st NpAllocatedCpu, ns_allocated_memory = st NpAllocatedMemory,
                ns_requested_cpu = st NpRequestedCpu, ns_requested_memory = st NpRequestedMemory\<rparr>))"

record np_evidence =
  ne_input :: np_input
  ne_stats :: np_stats
  ne_cpu_p95 :: "pyfloat option"
  ne_memory_p95 :: "pyfloat option"
  ne_window_days :: int
  ne_current_monthly_cost :: pyfloat
  ne_recommended_node_count :: "int option"
  ne_estimated_monthly_cost :: "pyfloat option"
  ne_estimated_savings :: pyfloat
  ne_estimated_savings_pct :: pyfloat
  ne_requested_pressure :: "bool option"
  ne_confidence :: pyfloat
  ne_risk_level :: string
  ne_reason :: string

record np_decision =
  np_recommend :: bool
  np_reason :: string
  np_risk_level :: string
  np_confidence :: pyfloat
  np_evidence :: np_evidence

definition np_refuse :: "np_evidence \<Rightarrow> string \<Rightarrow> string \<Rightarrow> np_decision" where
  "np_refuse ev msg level = \<lparr>np_recommend = False, np_reason = msg, np_risk_level = level,
     np_confidence = 0, np_evidence = ev\<lparr>ne_reason := msg\<rparr>\<rparr>"

definition np_blocked :: "string \<Rightarrow> string" where
  "np_blocked what = ''Bloqueado por seguran'' @ c_cedil @ ''a: '' @ what"

definition np_no_data :: string where
  "np_no_data = ''Dados insuficientes: hist'' @ o_acute @ ''rico m'' @ i_acute
     @ ''nimo de 7 dias com CPU e mem'' @ o_acute @ ''ria p95.''"

definition np_not_low :: string where
  "np_not_low = ''Sem recomenda'' @ c_cedil @ a_tilde @ ''o: utiliza'' @ c_cedil @ a_tilde
     @ ''o ainda n'' @ a_tilde @ ''o est'' @ a_acute @ '' abaixo do limite conservador.''"

definition np_no_saving :: string where
  "np_no_saving = ''Economia estimada n'' @ a_tilde @ ''o positiva.''"

definition request_ratio :: "pyfloat option \<Rightarrow> pyfloat option \<Rightarrow> pyfloat option" where
  "request_ratio req alloc =
     (case (req, alloc) of (Some r, Some a) \<Rightarrow> if a > 0 then Some (fdiv r a) else None | _ \<Rightarrow> None)"

definition at_capacity :: "pyfloat option \<Rightarrow> bool" where
  "at_capacity r = (case r of None \<Rightarrow> False | Some x \<Rightarrow> x \<ge> fl (85/100))"

definition requested_pressure :: "np_stats \<Rightarrow> bool" where
  "requested_pressure st \<longleftrightarrow>
     at_capacity (request_ratio (ns_requested_cpu st) (ns_allocated_cpu st))
   \<or> at_capacity (request_ratio (ns_requested_memory st) (ns_allocated_memory st))"

definition np_risk :: "pyfloat \<Rightarrow> pyfloat \<Rightarrow> bool \<Rightarrow> bool \<Rightarrow> string" where
  "np_risk cpu mem pressure critical =
     (let level = (if cpu < 40 \<and> mem < 50 then ''low''
            else if \<not> (cpu < 50 \<and> mem < 60) then ''high'' else ''medium'');
          level = (if pressure then ''high'' else level)
      in if critical \<and> level \<noteq> ''high'' then ''high'' else level)"

definition stddev_step :: "pyfloat option \<Rightarrow> pyfloat option \<Rightarrow> pyfloat \<Rightarrow> pyfloat" where
  "stddev_step cpu_stddev memory_stddev c =
     (case (cpu_stddev, memory_stddev) of
        (Some a, Some b) \<Rightarrow>
          if a \<le> 6 \<and> b \<le> 8 then fadd c (fl (4/100))
          else if a \<ge> 15 \<or> b \<ge> 18 then fsub c (fl (8/100)) else c
      | _ \<Rightarrow> c)"

definition np_confidence_of ::
  "int \<Rightarrow> pyfloat \<Rightarrow> pyfloat \<Rightarrow> bool \<Rightarrow> bool \<Rightarrow> pyfloat option \<Rightarrow> pyfloat option \<Rightarrow> string \<Rightarrow> pyfloat" where
  "np_confidence_of days cpu mem pressure critical cpu_stddev memory_stddev level =
     (let c = fadd (fl (62/100))
            (if days \<ge> 30 then fl (16/100) else if days \<ge> 14 then fl (12/100) else fl (6/100));
          c = bump (cpu \<le> 35 \<and> mem \<le> 50) (fl (5/100)) c;
          c = lower_by pressure (fl (10/100)) c;
          c = lower_by critical (fl (6/100)) c;
          c = stddev_step cpu_stddev memory_stddev c;
          c = lower_by (level = ''medium'') (fl (1/100)) c;
          c = lower_by (level = ''high'') (fl (8/100)) c
      in clamp2 c)"

definition np_ok_reason :: "pyfloat \<Rightarrow> pyfloat \<Rightarrow> int \<Rightarrow> bool \<Rightarrow> bool \<Rightarrow> string" where
  "np_ok_reason cpu mem days pressure critical =
     ''Node pool com baixa utiliza'' @ c_cedil @ a_tilde @ ''o sustentada por '' @ int_str days
     @ '' dias (CPU p95 '' @ fixed_str 1 cpu @ ''% / mem'' @ o_acute @ ''ria p95 '' @ fixed_str 1 mem @ ''%).''
     @ (if pressure then '' Press'' @ a_tilde @ ''o de requests pr'' @ o_acute
          @ ''xima da capacidade alocada.'' else [])
     @ (if critical then '' Workloads cr'' @ i_acute @ ''ticos detectados.'' else [])"

definition np_rest_cost :: "np_input \<Rightarrow> pyfloat" where
  "np_rest_cost i = py_round 2 (fmul (fdiv (np_monthly_cost i) (of_int (np_node_count i)))
     (of_int (np_node_count i - 1)))"

definition np_saving :: "np_input \<Rightarrow> pyfloat" where
  "np_saving i = py_round 2 (fsub (np_monthly_cost i) (np_rest_cost i))"

definition np_saving_pct :: "np_input \<Rightarrow> pyfloat" where
  "np_saving_pct i = py_round 2 (if np_monthly_cost i > 0
     then fmul (fdiv (np_saving i) (np_monthly_cost i)) 100 else 0)"

definition decide_aks_nodepool_rightsizing :: "instant \<Rightarrow> np_input \<Rightarrow> np_decision result" where
  "decide_aks_nodepool_rightsizing now i =
     (let st = np_select now i;
          n = np_node_count i;
          ev = \<lparr>ne_input = i, ne_stats = st, ne_cpu_p95 = map_option (py_round 2) (ns_cpu st),
            ne_memory_p95 = map_option (py_round 2) (ns_memory st),
            ne_window_days = (case ns_days st of None \<Rightarrow> 0 | Some d \<Rightarrow> d),
            ne_current_monthly_cost = py_round 2 (np_monthly_cost i),
            ne_recommended_node_count = None, ne_estimated_monthly_cost = None,
            ne_estimated_savings = 0, ne_estimated_savings_pct = 0, ne_requested_pressure = None,
            ne_confidence = 0, ne_risk_level = ''high'', ne_reason = []\<rparr>
      in case ns_days st of
        None \<Rightarrow> Inr (np_refuse ev np_no_data ''high'')
      | Some days \<Rightarrow>
        if n \<le> 2 then Inr (np_refuse ev (np_blocked ''node pool com 2 nodes ou menos.'') ''high'')
        else if np_is_system_pool i then
          Inr (np_refuse ev (np_blocked (''node pool de sistema (cr'' @ i_acute @ ''tico).'')) ''high'')
        else if np_kube_system_workloads i then
          Inr (np_refuse ev (np_blocked ''workloads do namespace kube-system detectados.'') ''high'')
        else if np_autoscaler_enabled i
          \<and> (case np_autoscaler_min_count i of None \<Rightarrow> False | Some k \<Rightarrow> n \<le> k) then
          Inr (np_refuse ev (np_blocked (''node count atual no limite m'' @ i_acute
            @ ''nimo do autoscaler.'')) ''high'')
        else case (ns_cpu st, ns_memory st) of
          (Some cpu, Some mem) \<Rightarrow>
            if cpu > 60 then Inr (np_refuse ev (np_blocked ''CPU p95 acima de 60%.'') ''high'')
            else if mem > 70 then
              Inr (np_refuse ev (np_blocked (''mem'' @ o_acute @ ''ria p95 acima de 70%.'')) ''high'')
            else if \<not> (cpu < 45 \<and> mem < 60) then Inr (np_refuse ev np_not_low ''medium'')
            else
              let ev = ev\<lparr>ne_recommended_node_count := Some (n - 1),
                    ne_estimated_monthly_cost := Some (np_rest_cost i),
                    ne_estimated_savings := np_saving i,
                    ne_estimated_savings_pct := np_saving_pct i\<rparr>
              in if np_saving i \<le> 0 then Inr (np_refuse ev np_no_saving ''high'')
                 else
                   let pressure = requested_pressure st;
                       level = np_risk cpu mem pressure (np_critical_workloads i);
                       conf = np_confidence_of days cpu mem pressure (np_critical_workloads i)
                         (np_cpu_stddev i) (np_memory_stddev i) level;
                       msg = np_ok_reason cpu mem days pressure (np_critical_workloads i)
                   in Inr \<lparr>np_recommend = True, np_reason = msg, np_risk_level = level,
                        np_confidence = conf,
                        np_evidence = ev\<lparr>ne_requested_pressure := Some pressure,
                          ne_confidence := conf, ne_risk_level := level, ne_reason := msg\<rparr>\<rparr>
        | _ \<Rightarrow> Inl AssertionError)"

section \<open>When a recommendation is made\<close>

lemma np_refuse_no [simp]: "np_recommend (np_refuse ev m l) = False"
  by (simp add: np_refuse_def)

definition np_eligible :: "instant \<Rightarrow> np_input \<Rightarrow> int \<Rightarrow> pyfloat \<Rightarrow> pyfloat \<Rightarrow> bool" where
  "np_eligible now i days cpu mem \<longleftrightarrow>
     ns_days (np_select now i) = Some days
   \<and> ns_cpu (np_select now i) = Some cpu \<and> ns_memory (np_select now i) = Some mem
   \<and> 3 \<le> np_node_count i \<and> \<not> np_is_system_pool i \<and> \<not> np_kube_system_workloads i
   \<and> \<not> (np_autoscaler_enabled i
        \<and> (case np_autoscaler_min_count i of None \<Rightarrow> False | Some k \<Rightarrow> np_node_count i \<le> k))
   \<and> cpu < 45 \<and> mem < 60 \<and> 0 < np_saving i"

lemma np_select_known:
  "ns_days (np_select now i) = Some d \<Longrightarrow>
     \<exists>cpu mem. ns_cpu (np_select now i) = Some cpu \<and> ns_memory (np_select now i) = Some mem"
  by (auto simp: np_select_def Let_def split: option.splits)

lemma np_eligible_run:
  assumes "np_eligible now i days cpu mem"
  shows "\<exists>d. decide_aks_nodepool_rightsizing now i = Inr d \<and> np_recommend d
    \<and> ne_recommended_node_count (np_evidence d) = Some (np_node_count i - 1)
    \<and> ne_estimated_savings (np_evidence d) = np_saving i
    \<and> np_risk_level d = np_risk cpu mem (requested_pressure (np_select now i)) (np_critical_workloads i)
    \<and> np_confidence d = np_confidence_of days cpu mem (requested_pressure (np_select now i))
        (np_critical_workloads i) (np_cpu_stddev i) (np_memory_stddev i) (np_risk_level d)"
proof -
  from assms have st: "ns_days (np_select now i) = Some days" "ns_cpu (np_select now i) = Some cpu"
    "ns_memory (np_select now i) = Some mem"
    and g: "(np_node_count i \<le> 2) = False" "np_is_system_pool i = False" "np_kube_system_workloads i = False"
    "(np_autoscaler_enabled i
        \<and> (case np_autoscaler_min_count i of None \<Rightarrow> False | Some k \<Rightarrow> np_node_count i \<le> k)) = False"
    "(60 < cpu) = False" "(70 < mem) = False" "(\<not> (cpu < 45 \<and> mem < 60)) = False" "(np_saving i \<le> 0) = False"
    by (simp_all only: np_eligible_def) auto
  show ?thesis
    unfolding decide_aks_nodepool_rightsizing_def Let_def st option.case prod.case g if_False
    by simp
qed

lemma np_decision_cases:
  obtains (refused) d where "decide_aks_nodepool_rightsizing now i = Inr d" "\<not> np_recommend d"
      "\<not> (\<exists>days cpu mem. np_eligible now i days cpu mem)"
  | (recommended) d days cpu mem where "decide_aks_nodepool_rightsizing now i = Inr d" "np_recommend d"
      "np_eligible now i days cpu mem"
proof (cases "\<exists>days cpu mem. np_eligible now i days cpu mem")
  case True
  then show thesis using np_eligible_run recommended by blast
next
  case False
  have "\<exists>d. decide_aks_nodepool_rightsizing now i = Inr d \<and> \<not> np_recommend d"
  proof (cases "ns_days (np_select now i)")
    case None
    then show ?thesis by (simp add: decide_aks_nodepool_rightsizing_def Let_def)
  next
    case (Some days)
    from np_select_known [OF this] obtain cpu mem where
      v: "ns_cpu (np_select now i) = Some cpu" "ns_memory (np_select now i) = Some mem" by blast
    from False Some v have "\<not> np_eligible now i days cpu mem" by blast
    with Some v show ?thesis
      by (auto simp: decide_aks_nodepool_rightsizing_def Let_def np_eligible_def not_less not_le)
  qed
  with False refused show thesis by blast
qed

text \<open>
  The engine never raises (its assertions always hold), and it recommends exactly for
  an eligible pool: data selected, three nodes or more, no system pool or kube-system workload, above
  the autoscaler minimum, CPU below 45%, memory below 60% and a positive rounded saving.
\<close>

theorem nodepool_exact:
  "\<exists>d. decide_aks_nodepool_rightsizing now i = Inr d
     \<and> (np_recommend d \<longleftrightarrow> (\<exists>days cpu mem. np_eligible now i days cpu mem))"
  by (cases rule: np_decision_cases [of now i]) blast+

section \<open>What is recommended\<close>

lemma stddev_in_range:
  assumes "in_range lo hi x"
  shows "in_range (fsub lo (fl (8/100))) (fadd hi (fl (4/100))) (stddev_step a b x)"
proof -
  have pos: "0 \<le> fl (8/100)" "0 \<le> fl (4/100)" by (simp_all add: fl_nonneg)
  have fx: "fl x = x" "lo \<le> x" "x \<le> hi" using assms by (simp_all add: in_range_def)
  have "fsub lo (fl (8/100)) \<le> fsub x (fl (8/100))" "fsub x (fl (8/100)) \<le> x"
    "x \<le> fadd x (fl (4/100))" "fadd x (fl (4/100)) \<le> fadd hi (fl (4/100))"
    using fx pos by (simp_all add: fsub_mono fadd_mono fsub_le fadd_ge)
  then show ?thesis
    using fx(1) by (auto simp: stddev_step_def in_range_def split: option.split)
qed

lemma level_in_range:
  assumes "in_range lo hi x"
  shows "in_range (fsub lo (fl (8/100))) hi
    (lower_by (l = ''high'') (fl (8/100)) (lower_by (l = ''medium'') (fl (1/100)) x))"
proof -
  have pos: "0 \<le> fl (8/100)" "0 \<le> fl (1/100)" "fl (1/100) \<le> fl (8/100)"
    by (simp_all add: fl_nonneg fl_mono)
  have fx: "fl x = x" "lo \<le> x" "x \<le> hi" using assms by (simp_all add: in_range_def)
  have "fsub lo (fl (8/100)) \<le> fsub x (fl (8/100))" "fsub x (fl (8/100)) \<le> fsub x (fl (1/100))"
    "fsub x (fl (1/100)) \<le> x"
    using fx pos by (simp_all add: fsub_mono fsub_le)
  then show ?thesis using fx by (auto simp: lower_by_def in_range_def)
qed

lemma np_confidence_range:
  "fl (36/100) \<le> np_confidence_of days cpu mem p k a b l \<and> np_confidence_of days cpu mem p k a b l \<le> fl (87/100)"
proof -
  let ?d = "if days \<ge> 30 then fl (16/100) else if days \<ge> 14 then fl (12/100) else fl (6/100)"
  let ?lo = "fadd (fl (62/100)) (fl (6/100))" and ?hi = "fadd (fl (62/100)) (fl (16/100))"
  have "fl (6/100) \<le> ?d" "?d \<le> fl (16/100)" by (auto intro: fl_mono)
  then have "in_range ?lo ?hi (fadd (fl (62/100)) ?d)" by (simp add: in_range_def fadd_mono)
  moreover have "0 \<le> fl (5/100)" "0 \<le> fl (10/100)" "0 \<le> fl (6/100)" by (simp_all add: fl_nonneg)
  ultimately have "in_range (fsub (fsub (fsub (fsub ?lo (fl (10/100))) (fl (6/100))) (fl (8/100))) (fl (8/100)))
      (fadd (fadd ?hi (fl (5/100))) (fl (4/100)))
      (lower_by (l = ''high'') (fl (8/100)) (lower_by (l = ''medium'') (fl (1/100))
        (stddev_step a b (lower_by k (fl (6/100)) (lower_by p (fl (10/100))
          (bump (cpu \<le> 35 \<and> mem \<le> 50) (fl (5/100)) (fadd (fl (62/100)) ?d)))))))"
    by (intro level_in_range stddev_in_range lower_by_in_range bump_in_range) simp_all
  moreover have "clamp2 (fsub (fsub (fsub (fsub ?lo (fl (10/100))) (fl (6/100))) (fl (8/100))) (fl (8/100)))
      = fdiv 36 100"
    and "clamp2 (fadd (fadd ?hi (fl (5/100))) (fl (4/100))) = fdiv 87 100"
    by (simp only: float_values, simp add: clamp2_def floor2_def float_values)+
  ultimately show ?thesis using clamp2_in_range by (fastforce simp: np_confidence_of_def Let_def fdiv_def)
qed

text \<open>
  A recommendation removes one node, keeps at least two and never goes below an enabled
  autoscaler's minimum; its saving is positive; it is high risk whenever critical workloads or
  request pressure are present; and its confidence lies between 0.36 and 0.87.
\<close>

theorem nodepool_proposal:
  assumes "decide_aks_nodepool_rightsizing now i = Inr d" and "np_recommend d"
  shows "\<exists>n. ne_recommended_node_count (np_evidence d) = Some n \<and> n = np_node_count i - 1 \<and> 2 \<le> n
     \<and> (np_autoscaler_enabled i \<longrightarrow> (case np_autoscaler_min_count i of None \<Rightarrow> True | Some k \<Rightarrow> k \<le> n))
     \<and> 0 < ne_estimated_savings (np_evidence d)
     \<and> (np_critical_workloads i \<or> requested_pressure (np_select now i) \<longrightarrow> np_risk_level d = ''high'')
     \<and> fl (36/100) \<le> np_confidence d \<and> np_confidence d \<le> fl (87/100)"
proof (cases rule: np_decision_cases [of now i])
  case (refused d')
  with assms show ?thesis by simp
next
  case (recommended d' days cpu mem)
  from np_eligible_run [OF recommended(3)] assms(1)
  have out: "ne_recommended_node_count (np_evidence d) = Some (np_node_count i - 1)"
    "ne_estimated_savings (np_evidence d) = np_saving i"
    "np_risk_level d = np_risk cpu mem (requested_pressure (np_select now i)) (np_critical_workloads i)"
    "np_confidence d = np_confidence_of days cpu mem (requested_pressure (np_select now i))
        (np_critical_workloads i) (np_cpu_stddev i) (np_memory_stddev i) (np_risk_level d)"
    by auto
  have "np_critical_workloads i \<or> requested_pressure (np_select now i) \<longrightarrow> np_risk_level d = ''high''"
    unfolding out(3) by (auto simp: np_risk_def Let_def)
  moreover have "fl (36/100) \<le> np_confidence d \<and> np_confidence d \<le> fl (87/100)"
    unfolding out(4) by (rule np_confidence_range)
  moreover from recommended(3) have "2 \<le> np_node_count i - 1" "0 < np_saving i"
    "np_autoscaler_enabled i \<longrightarrow>
       (case np_autoscaler_min_count i of None \<Rightarrow> True | Some k \<Rightarrow> k \<le> np_node_count i - 1)"
    by (auto simp: np_eligible_def split: option.splits)
  ultimately show ?thesis using out(1,2) by simp
qed

text \<open>One day of aggregated history: CPU 30, memory 40, five nodes of 1000 a month.\<close>

definition np_sample :: np_input where
  "np_sample = \<lparr>np_cluster_name = None, np_node_pool = None, np_node_sku = None, np_node_count = 5,
     np_monthly_cost = 1000, np_observations = [], np_cpu_p95 = Some 30, np_memory_p95 = Some 40,
     np_history_days = Some 1, np_allocated_cpu = None, np_allocated_memory = None,
     np_requested_cpu = None, np_requested_memory = None, np_is_system_pool = False,
     np_autoscaler_enabled = False, np_autoscaler_min_count = None, np_autoscaler_max_count = None,
     np_kube_system_workloads = False, np_critical_workloads = False, np_cpu_stddev = None,
     np_memory_stddev = None\<rparr>"

lemma np_sample_eligible: "np_eligible now np_sample 1 30 40"
proof -
  have "0 < np_saving np_sample" by code_simp
  then show ?thesis by (simp add: np_eligible_def np_select_def Let_def np_sample_def)
qed

theorem nodepool_proposal_witness:
  "\<exists>d. decide_aks_nodepool_rightsizing 0 np_sample = Inr d \<and> np_recommend d
     \<and> ne_recommended_node_count (np_evidence d) = Some 4 \<and> np_confidence d \<le> fl (87/100)"
proof -
  from np_eligible_run [OF np_sample_eligible [of 0]] obtain d where
    d: "decide_aks_nodepool_rightsizing 0 np_sample = Inr d" "np_recommend d" by blast
  from nodepool_proposal [OF d] d show ?thesis by (auto simp: np_sample_def)
qed

text \<open>
  The minimum history of seven days holds only for observations. From aggregated
  statistics, the only source the decision service uses, one day of history is enough for a
  recommendation, although the refusal text names seven.
\<close>

theorem nodepool_history_gate:
  "(case ns_days (np_select now (i\<lparr>np_history_days := None\<rparr>)) of None \<Rightarrow> True | Some d \<Rightarrow> 7 \<le> d)
   \<and> (\<exists>d. np_history_days np_sample = Some 1 \<and> decide_aks_nodepool_rightsizing now np_sample = Inr d
        \<and> np_recommend d)"
proof
  show "case ns_days (np_select now (i\<lparr>np_history_days := None\<rparr>)) of None \<Rightarrow> True | Some d \<Rightarrow> 7 \<le> d"
    by (auto simp: np_select_def Let_def split: option.splits dest: select_window_Some(4))
  from np_eligible_run [OF np_sample_eligible [of now]]
  show "\<exists>d. np_history_days np_sample = Some 1 \<and> decide_aks_nodepool_rightsizing now np_sample = Inr d
      \<and> np_recommend d" by (auto simp: np_sample_def)
qed

end
