(* ===== verification/Scorer.thy ===== *)
theory Scorer
  imports FloatValues
begin

text \<open>
  \<open>domains/decision_engine/scorer.py\<close>: the composite score of an optimization opportunity, in double
  precision as the code computes it. The lemmas bound the score, order it by savings, risk and
  effort, and compare it with the range its module documents.
\<close>

section \<open>Model\<close>

datatype risk_level = RISK_LOW | RISK_MEDIUM | RISK_HIGH
datatype effort_level = EFFORT_LOW | EFFORT_MEDIUM | EFFORT_HIGH

datatype opportunity_category =
    IDLE_RESOURCES | RIGHTSIZING | AKS_NODEPOOL_RIGHTSIZING | AKS_AUTOSCALER_RECOMMENDATION
  | STORAGE_OPTIMIZATION | NETWORK_OPTIMIZATION | RESERVED_INSTANCES | LICENSE_OPTIMIZATION
  | ARCHITECTURE_CHANGE

fun risk_value :: "risk_level \<Rightarrow> string" where
  "risk_value RISK_LOW = ''low''"
| "risk_value RISK_MEDIUM = ''medium''"
| "risk_value RISK_HIGH = ''high''"

fun effort_value :: "effort_level \<Rightarrow> string" where
  "effort_value EFFORT_LOW = ''low''"
| "effort_value EFFORT_MEDIUM = ''medium''"
| "effort_value EFFORT_HIGH = ''high''"

definition weight_financial :: pyfloat where "weight_financial = fl (45/100)"
definition weight_risk :: pyfloat where "weight_risk = fl (25/100)"
definition weight_effort :: pyfloat where "weight_effort = fl (20/100)"
definition weight_criticality :: pyfloat where "weight_criticality = fl (10/100)"

fun RISK_SCORES :: "risk_level \<Rightarrow> pyfloat" where
  "RISK_SCORES RISK_LOW = 20"
| "RISK_SCORES RISK_MEDIUM = 55"
| "RISK_SCORES RISK_HIGH = 90"

fun EFFORT_SCORES :: "effort_level \<Rightarrow> pyfloat" where
  "EFFORT_SCORES EFFORT_LOW = 15"
| "EFFORT_SCORES EFFORT_MEDIUM = 50"
| "EFFORT_SCORES EFFORT_HIGH = 85"

fun CATEGORY_RISK :: "opportunity_category \<Rightarrow> risk_level" where
  "CATEGORY_RISK IDLE_RESOURCES = RISK_LOW"
| "CATEGORY_RISK RIGHTSIZING = RISK_MEDIUM"
| "CATEGORY_RISK AKS_NODEPOOL_RIGHTSIZING = RISK_MEDIUM"
| "CATEGORY_RISK AKS_AUTOSCALER_RECOMMENDATION = RISK_MEDIUM"
| "CATEGORY_RISK STORAGE_OPTIMIZATION = RISK_LOW"
| "CATEGORY_RISK NETWORK_OPTIMIZATION = RISK_MEDIUM"
| "CATEGORY_RISK RESERVED_INSTANCES = RISK_LOW"
| "CATEGORY_RISK LICENSE_OPTIMIZATION = RISK_MEDIUM"
| "CATEGORY_RISK ARCHITECTURE_CHANGE = RISK_HIGH"

fun CATEGORY_EFFORT :: "opportunity_category \<Rightarrow> effort_level" where
  "CATEGORY_EFFORT IDLE_RESOURCES = EFFORT_LOW"
| "CATEGORY_EFFORT RIGHTSIZING = EFFORT_MEDIUM"
| "CATEGORY_EFFORT AKS_NODEPOOL_RIGHTSIZING = EFFORT_MEDIUM"
| "CATEGORY_EFFORT AKS_AUTOSCALER_RECOMMENDATION = EFFORT_MEDIUM"
| "CATEGORY_EFFORT STORAGE_OPTIMIZATION = EFFORT_LOW"
| "CATEGORY_EFFORT NETWORK_OPTIMIZATION = EFFORT_MEDIUM"
| "CATEGORY_EFFORT RESERVED_INSTANCES = EFFORT_LOW"
| "CATEGORY_EFFORT LICENSE_OPTIMIZATION = EFFORT_MEDIUM"
| "CATEGORY_EFFORT ARCHITECTURE_CHANGE = EFFORT_HIGH"

definition ENVIRONMENT_CRITICALITY :: "string \<Rightarrow> pyfloat option" where
  "ENVIRONMENT_CRITICALITY =
     map_of [(''production'', 100), (''staging'', 60), (''development'', 30), (''unknown'', 50)]"

definition normalize_financial_impact :: "pyfloat \<Rightarrow> pyfloat \<Rightarrow> pyfloat result" where
  "normalize_financial_impact monthly_savings max_savings =
     (if max_savings = 0 then Inl ZeroDivisionError
      else Inr (min (fmul (fdiv monthly_savings max_savings) 100) 100))"

record score_result =
  financial_impact_score :: pyfloat
  risk_score :: pyfloat
  effort_score :: pyfloat
  criticality_score :: pyfloat
  composite_score :: pyfloat
  sr_risk_level :: risk_level
  sr_effort_level :: effort_level
  rationale :: string

definition composite :: "pyfloat \<Rightarrow> pyfloat \<Rightarrow> pyfloat \<Rightarrow> pyfloat \<Rightarrow> pyfloat" where
  "composite financial inv_risk inv_effort criticality =
     fadd (fadd (fadd (fmul financial weight_financial) (fmul inv_risk weight_risk))
        (fmul inv_effort weight_effort)) (fmul criticality weight_criticality)"

definition compute_score ::
  "opportunity_category \<Rightarrow> pyfloat \<Rightarrow> string \<Rightarrow> risk_level option \<Rightarrow> effort_level option \<Rightarrow> pyfloat
   \<Rightarrow> score_result result" where
  "compute_score category monthly_savings_usd environment override_risk override_effort max_savings =
     (let risk = (case override_risk of Some r \<Rightarrow> r | None \<Rightarrow> CATEGORY_RISK category);
          effort = (case override_effort of Some e \<Rightarrow> e | None \<Rightarrow> CATEGORY_EFFORT category)
      in case normalize_financial_impact monthly_savings_usd max_savings of
           Inl err \<Rightarrow> Inl err
         | Inr financial \<Rightarrow>
             let risk_raw = RISK_SCORES risk;
                 effort_raw = EFFORT_SCORES effort;
                 criticality = (case ENVIRONMENT_CRITICALITY environment of None \<Rightarrow> 50 | Some c \<Rightarrow> c);
                 inv_risk = fsub 100 risk_raw;
                 inv_effort = fsub 100 effort_raw;
                 total = composite financial inv_risk inv_effort criticality
             in Inr \<lparr>financial_impact_score = py_round 1 financial,
                  risk_score = py_round 1 risk_raw,
                  effort_score = py_round 1 effort_raw,
                  criticality_score = py_round 1 criticality,
                  composite_score = py_round 1 total,
                  sr_risk_level = risk, sr_effort_level = effort,
                  rationale =
                    ''Financial impact: '' @ fixed_str 0 financial @ ''/100 ($''
                    @ comma_str monthly_savings_usd @ ''/month savings). ''
                    @ ''Risk: '' @ risk_value risk @ '' ('' @ fixed_str 0 risk_raw @ '' raw ''
                    @ right_arrow @ '' '' @ fixed_str 0 inv_risk @ '' inverted). ''
                    @ ''Effort: '' @ effort_value effort @ '' ('' @ fixed_str 0 effort_raw @ '' raw ''
                    @ right_arrow @ '' '' @ fixed_str 0 inv_effort @ '' inverted). ''
                    @ ''Environment criticality: '' @ fixed_str 0 criticality @ '' ('' @ environment @ ''). ''
                    @ ''Composite: '' @ fixed_str 1 total @ ''/100.''\<rparr>)"

section \<open>Playbooks\<close>

text \<open>
  The steps of the playbook of each category; \<open>PLAYBOOKS.get(category)\<close> is their text, one step a line.
\<close>

fun playbook_steps :: "opportunity_category \<Rightarrow> string list" where
  "playbook_steps IDLE_RESOURCES =
     [''1. Identify resource via resource_id in Azure Portal.'',
      ''2. Validate last-accessed date (check Activity Log).'',
      ''3. Create snapshot/backup if required.'',
      ''4. Schedule deallocation during off-peak hours.'',
      ''5. Monitor for 72h to confirm no impact.'',
      ''6. Delete resource and archive evidence.'']"
| "playbook_steps RIGHTSIZING =
     [''1. Pull CPU/memory utilization for last 30 days.'',
      ''2. Identify SKU downgrade target (e.g., D4s_v3 '' @ right_arrow @ '' D2s_v3).'',
      ''3. Create change request and notify service owner.'',
      ''4. Schedule resize in maintenance window.'',
      ''5. Validate application health metrics post-resize.'',
      ''6. Record realized savings in initiative.'']"
| "playbook_steps AKS_NODEPOOL_RIGHTSIZING =
     [''1. Confirm node pool CPU/memory p95 in last 14 days.'',
      ''2. Validate autoscaler constraints (min/max) before action.'',
      ''3. Propose reducing node count by 1 in maintenance window.'',
      ''4. Monitor pod scheduling and saturation after change.'',
      ''5. Track realized savings and rollback if saturation increases.'']"
| "playbook_steps AKS_AUTOSCALER_RECOMMENDATION =
     [''1. Confirm node pool autoscaler is disabled and history >= 7 days.'',
      ''2. Validate security blockers: system pool, kube-system, critical workloads.'',
      ''3. Apply conservative autoscaler bounds (min/max) in maintenance window.'',
      ''4. Monitor scaling events, pod pending time, and saturation for 72h.'',
      ''5. Record realized savings and tune min/max if needed.'']"
| "playbook_steps RESERVED_INSTANCES =
     [''1. Analyze usage trend for last 90 days.'',
      ''2. Identify stable workloads with >80% utilization.'',
      ''3. Calculate 1yr vs 3yr RI cost comparison.'',
      ''4. Submit purchase request to FinOps approval.'',
      ''5. Apply RI scope to target subscriptions.'',
      ''6. Track utilization rate monthly.'']"
| "playbook_steps STORAGE_OPTIMIZATION =
     [''1. List storage accounts with low-access patterns.'',
      ''2. Identify blob containers eligible for Cool/Archive tier.'',
      ''3. Create lifecycle management policy.'',
      ''4. Apply policy and validate cost reduction.'',
      ''5. Document tier boundaries for team reference.'']"
| "playbook_steps NETWORK_OPTIMIZATION =
     [''1. Analyze egress traffic patterns.'',
      ''2. Identify cross-region data transfer hotspots.'',
      ''3. Evaluate CDN or regional caching strategy.'',
      ''4. Implement changes with network team approval.'',
      ''5. Monitor bandwidth costs post-change.'']"
| "playbook_steps LICENSE_OPTIMIZATION =
     [''1. Audit license assignments vs. active users.'',
      ''2. Identify unassigned or underused licenses.'',
      ''3. Coordinate with IT/Procurement for reallocation.'',
      ''4. Update license assignments.'',
      ''5. Set quarterly review cadence.'']"
| "playbook_steps ARCHITECTURE_CHANGE =
     [''1. Document current architecture and cost drivers.'',
      ''2. Design target architecture with cost model.'',
      ''3. Review with Tech Lead and Security.'',
      ''4. Create migration plan with rollback strategy.'',
      ''5. Execute phased migration.'',
      ''6. Validate performance and cost after migration.'']"

definition PLAYBOOKS :: "opportunity_category \<Rightarrow> string" where
  "PLAYBOOKS category = py_join [CHR 0x0A] (playbook_steps category)"

section \<open>Order and bounds\<close>

lemma weights: "0 \<le> weight_financial" "0 \<le> weight_risk" "0 \<le> weight_effort" "0 \<le> weight_criticality"
  by code_simp+

lemma composite_mono:
  "f \<le> f' \<Longrightarrow> r \<le> r' \<Longrightarrow> e \<le> e' \<Longrightarrow> c \<le> c' \<Longrightarrow> composite f r e c \<le> composite f' r' e' c'"
  by (simp add: composite_def fadd_mono fmul_mono weights)

lemma financial_mono:
  assumes "x \<le> y" and "0 < m"
    and "normalize_financial_impact x m = Inr fx" and "normalize_financial_impact y m = Inr fy"
  shows "fx \<le> fy"
proof -
  have "fmul (fdiv x m) 100 \<le> fmul (fdiv y m) 100" using assms(1,2) by (simp add: fmul_mono fdiv_mono)
  moreover have "fx = min (fmul (fdiv x m) 100) 100" and "fy = min (fmul (fdiv y m) 100) 100"
    using assms(2-4) by (simp_all add: normalize_financial_impact_def)
  ultimately show ?thesis by simp
qed

lemma financial_unit:
  assumes "0 \<le> x" and "0 < m" and "normalize_financial_impact x m = Inr f"
  shows "0 \<le> f \<and> f \<le> 100"
proof -
  have "f = min (fmul (fdiv x m) 100) 100" using assms(2,3) by (simp add: normalize_financial_impact_def)
  moreover have "0 \<le> fmul (fdiv x m) 100"
    using fdiv_mono [OF assms(1,2)] by (intro fmul_nonneg) (simp_all add: fdiv_def)
  ultimately show ?thesis by simp
qed

lemma inverse_risk: "10 \<le> fsub 100 (RISK_SCORES r)" "fsub 100 (RISK_SCORES r) \<le> 80"
  by (cases r; simp add: fsub_def)+

lemma inverse_effort: "15 \<le> fsub 100 (EFFORT_SCORES e)" "fsub 100 (EFFORT_SCORES e) \<le> 85"
  by (cases e; simp add: fsub_def)+

lemmas inverses = inverse_risk inverse_effort

lemma criticality_range:
  "30 \<le> (case ENVIRONMENT_CRITICALITY env of None \<Rightarrow> 50 | Some c \<Rightarrow> c)"
  "(case ENVIRONMENT_CRITICALITY env of None \<Rightarrow> 50 | Some c \<Rightarrow> c) \<le> 100"
  by (auto simp: ENVIRONMENT_CRITICALITY_def split: if_splits option.splits)

text \<open>The composite at the ends of its inputs, and for the largest negative impact.\<close>

lemmas weight_defs = weight_financial_def weight_risk_def weight_effort_def weight_criticality_def

lemma lowest_composite: "py_round 1 (composite 0 10 15 30) = fl (85/10)"
  by (simp only: composite_def weight_defs float_values) (simp add: py_round_def round_even_numeral)

lemma highest_composite: "py_round 1 (composite 100 80 85 100) = 92"
  by (simp only: composite_def weight_defs float_values) (simp add: py_round_def round_even_numeral)

lemma negative_impact: "normalize_financial_impact (- 5000) 5000 = Inr (- 100)"
  by code_simp

lemma negative_composite: "py_round 1 (composite (- 100) (fsub 100 90) (fsub 100 85) 30) < 0"
proof -
  have "fsub 100 90 = 10" "fsub 100 85 = 15" by (simp_all add: fsub_def)
  then have "composite (- 100) (fsub 100 90) (fsub 100 85) 30 = - (73/2)"
    by (simp only: composite_def weight_defs float_values fadd_minus)
  moreover have "0 < fl (365/10)" using fl_lit [of 5 "365/10" 5136918324969472] by (simp add: pow2_def)
  ultimately show ?thesis by (simp add: py_round_def round_even_numeral fl_minus)
qed

text \<open>
  For a non-negative saving and a positive reference saving the score exists, its parts
  are in their ranges, and the composite lies between 8.5 and 92 after rounding: never the
  documented extremes 0 and 100.
\<close>

theorem score_bounds:
  assumes "0 \<le> savings" and "0 < max_savings"
  shows "\<exists>s. compute_score cat savings env orisk oeffort max_savings = Inr s
    \<and> 0 \<le> financial_impact_score s \<and> financial_impact_score s \<le> 100
    \<and> fl (85/10) \<le> composite_score s \<and> composite_score s \<le> 92"
proof -
  obtain f where f: "normalize_financial_impact savings max_savings = Inr f"
    using assms(2) by (simp add: normalize_financial_impact_def)
  define risk where "risk = (case orisk of Some r \<Rightarrow> r | None \<Rightarrow> CATEGORY_RISK cat)"
  define effort where "effort = (case oeffort of Some e \<Rightarrow> e | None \<Rightarrow> CATEGORY_EFFORT cat)"
  define crit where "crit = (case ENVIRONMENT_CRITICALITY env of None \<Rightarrow> 50 | Some c \<Rightarrow> c)"
  let ?total = "composite f (fsub 100 (RISK_SCORES risk)) (fsub 100 (EFFORT_SCORES effort)) crit"
  from financial_unit [OF assms f] have f01: "0 \<le> f" "f \<le> 100" by simp_all
  have lo: "composite 0 10 15 30 \<le> ?total"
    using f01 inverses criticality_range [of env] by (intro composite_mono) (simp_all add: crit_def)
  have hi: "?total \<le> composite 100 80 85 100"
    using f01 inverses criticality_range [of env] by (intro composite_mono) (simp_all add: crit_def)
  have "fl (85/10) \<le> py_round 1 ?total" and "py_round 1 ?total \<le> 92"
    using py_round_mono [OF lo, of 1] py_round_mono [OF hi, of 1] unfolding lowest_composite highest_composite .
  moreover have "0 \<le> py_round 1 f" and "py_round 1 f \<le> 100"
    using py_round_mono [OF f01(1), of 1] py_round_mono [OF f01(2), of 1]
      py_round_of_int [of 100 1] by simp_all
  ultimately show ?thesis
    using f by (simp add: compute_score_def Let_def risk_def [symmetric] effort_def [symmetric]
        crit_def [symmetric])
qed

theorem score_bounds_witness:
  "\<exists>s. compute_score IDLE_RESOURCES 5000 ''production'' None None 5000 = Inr s \<and> composite_score s \<le> 92"
  using score_bounds [of 5000 5000 IDLE_RESOURCES "''production''" None None] by auto

text \<open>
  The score ranks as intended: more savings, or a lower risk or effort, never lowers
  the composite, other things equal.
\<close>

theorem score_monotone:
  assumes "compute_score cat x env (Some r) (Some e) m = Inr s"
    and "compute_score cat' y env (Some r') (Some e') m = Inr s'"
    and "0 < m" and "x \<le> y" and "RISK_SCORES r' \<le> RISK_SCORES r" and "EFFORT_SCORES e' \<le> EFFORT_SCORES e"
  shows "composite_score s \<le> composite_score s'"
proof -
  obtain fx fy where f: "normalize_financial_impact x m = Inr fx" "normalize_financial_impact y m = Inr fy"
    using assms(3) by (simp add: normalize_financial_impact_def)
  note le = financial_mono [OF assms(4,3) f]
  have "composite fx (fsub 100 (RISK_SCORES r)) (fsub 100 (EFFORT_SCORES e)) c
      \<le> composite fy (fsub 100 (RISK_SCORES r')) (fsub 100 (EFFORT_SCORES e')) c" for c
    using le assms(5,6) by (intro composite_mono fsub_mono) simp_all
  from py_round_mono [OF this, of 1] f assms(1,2) show ?thesis
    by (auto simp: compute_score_def Let_def)
qed

theorem score_monotone_witness:
  "\<exists>s s'. compute_score RIGHTSIZING 100 ''staging'' (Some RISK_HIGH) (Some EFFORT_HIGH) 5000 = Inr s
     \<and> compute_score RIGHTSIZING 200 ''staging'' (Some RISK_LOW) (Some EFFORT_LOW) 5000 = Inr s'
     \<and> composite_score s \<le> composite_score s'"
proof -
  obtain s s' where "compute_score RIGHTSIZING 100 ''staging'' (Some RISK_HIGH) (Some EFFORT_HIGH) 5000 = Inr s"
    "compute_score RIGHTSIZING 200 ''staging'' (Some RISK_LOW) (Some EFFORT_LOW) 5000 = Inr s'"
    by (simp add: compute_score_def normalize_financial_impact_def Let_def)
  moreover from score_monotone [OF this] have "composite_score s \<le> composite_score s'" by simp
  ultimately show ?thesis by blast
qed

text \<open>
  The two ends that the code leaves open: a zero reference saving raises, and a negative
  saving has no floor, so its composite falls below the documented 0.
\<close>

theorem score_open_ends:
  "compute_score cat x env orisk oeffort 0 = Inl ZeroDivisionError
   \<and> (\<exists>s. compute_score ARCHITECTURE_CHANGE (- 5000) ''development'' None None 5000 = Inr s
        \<and> composite_score s < 0)"
proof
  show "compute_score cat x env orisk oeffort 0 = Inl ZeroDivisionError"
    by (simp add: compute_score_def normalize_financial_impact_def Let_def)
  show "\<exists>s. compute_score ARCHITECTURE_CHANGE (- 5000) ''development'' None None 5000 = Inr s
      \<and> composite_score s < 0"
    using negative_impact negative_composite by (simp add: compute_score_def Let_def ENVIRONMENT_CRITICALITY_def)
qed

end
