(* ===== verification/Opportunities.thy ===== *)
theory Opportunities
  imports Experiments Scorer
begin

text \<open>
  The table of optimization opportunities (\<open>domains/decision_engine/models.py\<close>) that the execution
  plans and the initiatives read and change, and the calibration of the decision engine by category
  (\<open>confidence_calibration_service.py\<close>): how accurate past savings estimates were. The calibration
  is shown to compute a fold over the history of results of its category, and categories and
  organizations do not interfere.
\<close>

section \<open>Opportunities\<close>

fun category_value :: "opportunity_category \<Rightarrow> string" where
  "category_value RIGHTSIZING = ''rightsizing''"
| "category_value AKS_NODEPOOL_RIGHTSIZING = ''aks_nodepool_rightsizing''"
| "category_value AKS_AUTOSCALER_RECOMMENDATION = ''aks_autoscaler_recommendation''"
| "category_value IDLE_RESOURCES = ''idle_resources''"
| "category_value RESERVED_INSTANCES = ''reserved_instances''"
| "category_value STORAGE_OPTIMIZATION = ''storage_optimization''"
| "category_value NETWORK_OPTIMIZATION = ''network_optimization''"
| "category_value LICENSE_OPTIMIZATION = ''license_optimization''"
| "category_value ARCHITECTURE_CHANGE = ''architecture_change''"

definition all_categories :: "opportunity_category list" where
  "all_categories = [RIGHTSIZING, AKS_NODEPOOL_RIGHTSIZING, AKS_AUTOSCALER_RECOMMENDATION,
     IDLE_RESOURCES, RESERVED_INSTANCES, STORAGE_OPTIMIZATION, NETWORK_OPTIMIZATION,
     LICENSE_OPTIMIZATION, ARCHITECTURE_CHANGE]"

text \<open>\<open>OpportunityCategory(text)\<close>, none for a text that is no category.\<close>

definition category_of :: "string \<Rightarrow> opportunity_category option" where
  "category_of s = find (\<lambda>c. category_value c = s) all_categories"

lemma category_of_value [simp]: "category_of (category_value c) = Some c"
  by (cases c) (simp_all add: category_of_def all_categories_def)

lemma category_value_inject [simp]: "category_value a = category_value b \<longleftrightarrow> a = b"
  by (metis category_of_value option.inject)

text \<open>
  A row without \<open>updated_at\<close>, which no operation reads. The scores are those of the last scoring, the
  evidence a JSON value.
\<close>

datatype opportunity_status = OPP_OPEN | OPP_IN_PROGRESS | OPP_RESOLVED | OPP_DISMISSED | OPP_VALIDATED

record opportunity =
  op_id :: uuid
  op_org :: uuid
  op_title :: string
  op_category :: opportunity_category
  op_composite_score :: pyfloat
  op_savings :: "pyfloat option"
  op_risk :: risk_level
  op_effort :: effort_level
  op_status :: opportunity_status
  op_resource_id :: "string option"
  op_playbook :: "string option"
  op_evidence :: "json option"
  op_account :: "uuid option"
  op_description :: string
  op_financial_score :: pyfloat
  op_risk_score :: pyfloat
  op_effort_score :: pyfloat
  op_criticality_score :: pyfloat
  op_annual_savings :: pyfloat
  op_current_cost :: pyfloat
  op_resource_name :: "string option"
  op_sku_name :: "string option"
  op_machine_family :: "string option"
  op_service :: "string option"
  op_region :: "string option"
  op_environment :: "string option"
  op_owner_team :: "string option"
  op_rationale :: "string option"
  op_created :: instant
  op_detected :: instant

record calibration =
  cal_id :: uuid
  cal_org :: uuid
  cal_dimension_type :: string
  cal_dimension_key :: string
  cal_total :: nat
  cal_cumulative :: pyfloat
  cal_accuracy :: pyfloat
  cal_adjustment :: pyfloat

record opp_db = exp_db +
  opportunities :: "opportunity list"
  calibrations :: "calibration list"

section \<open>Calibration\<close>

record calibration_snapshot =
  snap_accuracy :: pyfloat
  snap_adjustment :: pyfloat
  snap_total :: nat

definition compute_accuracy :: "pyfloat \<Rightarrow> pyfloat \<Rightarrow> pyfloat" where
  "compute_accuracy expected_savings actual_savings =
     (if expected_savings \<le> 0 then 0
      else py_round 4 (max 0 (min (fl (12/10)) (fdiv actual_savings expected_savings))))"

definition compute_adjustment :: "pyfloat \<Rightarrow> pyfloat" where
  "compute_adjustment historical_accuracy =
     (if historical_accuracy > fl (8/10) then fl (6/100)
      else if historical_accuracy < fl (5/10) then - fl (8/100) else 0)"

definition category_row :: "uuid \<Rightarrow> opportunity_category \<Rightarrow> calibration \<Rightarrow> bool" where
  "category_row org cat r \<longleftrightarrow> cal_org r = org \<and> cal_dimension_type r = ''category''
     \<and> cal_dimension_key r = category_value cat"

definition new_calibration :: "call \<Rightarrow> uuid \<Rightarrow> opportunity_category \<Rightarrow> calibration" where
  "new_calibration c org cat =
     \<lparr>cal_id = fresh c 0, cal_org = org, cal_dimension_type = ''category'',
      cal_dimension_key = category_value cat, cal_total = 0, cal_cumulative = 0, cal_accuracy = 0,
      cal_adjustment = 0\<rparr>"

definition calibrate :: "pyfloat \<Rightarrow> calibration \<Rightarrow> calibration" where
  "calibrate accuracy r =
     (let total = cal_total r + 1;
          cumulative = fadd (cal_cumulative r) accuracy;
          history = py_round 4 (fdiv cumulative (of_nat (max total 1)))
      in r\<lparr>cal_total := total, cal_cumulative := cumulative, cal_accuracy := history,
           cal_adjustment := compute_adjustment history\<rparr>)"

definition snapshot_of :: "calibration \<Rightarrow> calibration_snapshot" where
  "snapshot_of r = \<lparr>snap_accuracy = cal_accuracy r, snap_adjustment = cal_adjustment r,
     snap_total = cal_total r\<rparr>"

definition record_category_result ::
  "call \<Rightarrow> uuid \<Rightarrow> opportunity_category \<Rightarrow> pyfloat \<Rightarrow> pyfloat
   \<Rightarrow> ('z opp_db_scheme, calibration_snapshot) svc" where
  "record_category_result c org cat expected_savings actual_savings db =
     (let accuracy = compute_accuracy expected_savings actual_savings in
      case scalar_one_or_none (filter (category_row org cat) (calibrations db)) of
        Inl err \<Rightarrow> (Inl err, db)
      | Inr None \<Rightarrow>
          let row = calibrate accuracy (new_calibration c org cat)
          in (Inr (snapshot_of row), db\<lparr>calibrations := row_add row (calibrations db)\<rparr>)
      | Inr (Some r) \<Rightarrow>
          let row = calibrate accuracy r
          in (Inr (snapshot_of row), db\<lparr>calibrations := row_put cal_id row (calibrations db)\<rparr>))"

definition get_category_snapshots ::
  "uuid \<Rightarrow> opportunity_category list \<Rightarrow> 'z opp_db_scheme
   \<Rightarrow> opportunity_category \<Rightarrow> calibration_snapshot option" where
  "get_category_snapshots org cats db =
     (if cats = [] then Map.empty
      else foldl (\<lambda>out r. case category_of (cal_dimension_key r) of
             None \<Rightarrow> out | Some cat \<Rightarrow> out(cat \<mapsto> snapshot_of r)) Map.empty
        (filter (\<lambda>r. cal_org r = org \<and> cal_dimension_type r = ''category''
           \<and> cal_dimension_key r \<in> category_value ` set cats) (calibrations db)))"

section \<open>The calibration is a fold over the history\<close>

lemma compute_accuracy_range: "0 \<le> compute_accuracy e a" "compute_accuracy e a \<le> fl (12/10)"
proof -
  have top: "py_round 4 (fl (12/10)) = fl (12/10)" "0 \<le> fl (12/10)" by code_simp+
  have m: "max 0 (min (fl (12/10)) q) \<le> fl (12/10)" for q using top(2) by simp
  show "0 \<le> compute_accuracy e a" by (simp add: compute_accuracy_def py_round_nonneg)
  show "compute_accuracy e a \<le> fl (12/10)"
    using py_round_mono [OF m, of 4] top by (simp add: compute_accuracy_def)
qed

definition cal_row :: "uuid \<Rightarrow> opportunity_category \<Rightarrow> 'z opp_db_scheme \<Rightarrow> calibration option" where
  "cal_row org cat db = find (category_row org cat) (calibrations db)"

text \<open>At most one row per organization and category, and distinct identifiers: the table's constraints.\<close>

definition calibrations_ok :: "'z opp_db_scheme \<Rightarrow> bool" where
  "calibrations_ok db \<longleftrightarrow> distinct (map cal_id (calibrations db))
     \<and> distinct (map (\<lambda>r. (cal_org r, cal_dimension_type r, cal_dimension_key r)) (calibrations db))"

lemma category_rows:
  assumes "calibrations_ok db"
  shows "filter (category_row org cat) (calibrations db) =
    (case cal_row org cat db of None \<Rightarrow> [] | Some r \<Rightarrow> [r])"
proof (cases "cal_row org cat db")
  case None
  then have "filter (category_row org cat) (calibrations db) = []"
    by (simp add: cal_row_def find_None_iff filter_empty_conv)
  with None show ?thesis by simp
next
  case (Some r)
  then have r: "r \<in> set (calibrations db)" "category_row org cat r"
    by (auto simp: cal_row_def find_Some_iff)
  have "filter (category_row org cat) (calibrations db) = [r]"
    using assms r by (intro filter_single [of "\<lambda>r. (cal_org r, cal_dimension_type r, cal_dimension_key r)"])
      (auto simp: calibrations_ok_def category_row_def)
  with Some show ?thesis by simp
qed

lemma calibrate_keeps [simp]:
  "cal_id (calibrate a r) = cal_id r" "cal_org (calibrate a r) = cal_org r"
  "cal_dimension_type (calibrate a r) = cal_dimension_type r"
  "cal_dimension_key (calibrate a r) = cal_dimension_key r"
  by (simp_all add: calibrate_def Let_def)

lemma find_row_put:
  assumes "distinct (map k rs)" and "r \<in> set rs" and "k r' = k r" and "\<And>x. k x = k r \<Longrightarrow> x \<in> set rs \<Longrightarrow> P r' = P x"
  shows "find P (row_put k r' rs) = (case find P rs of None \<Rightarrow> None
     | Some x \<Rightarrow> if k x = k r then Some r' else Some x)"
  using assms(4) unfolding row_put_def assms(3)
  by (induction rs) (auto split: option.splits)

lemma record_row:
  assumes ok: "calibrations_ok db"
    and run: "record_category_result c org cat e a db = (Inr s, db')"
  shows "cal_row org' cat' db' = (if org' = org \<and> cat' = cat
      then Some (calibrate (compute_accuracy e a)
        (case cal_row org cat db of None \<Rightarrow> new_calibration c org cat | Some r \<Rightarrow> r))
      else cal_row org' cat' db)"
proof (cases "cal_row org cat db")
  case None
  then have "filter (category_row org cat) (calibrations db) = []" using category_rows [OF ok] by simp
  with run have db': "calibrations db' = calibrations db @ [calibrate (compute_accuracy e a) (new_calibration c org cat)]"
    by (auto simp: record_category_result_def Let_def row_add_def)
  have "category_row org' cat' (calibrate x (new_calibration c org cat)) \<longleftrightarrow> org' = org \<and> cat' = cat" for x
    by (auto simp: category_row_def new_calibration_def)
  with None db' show ?thesis by (auto simp: cal_row_def find_append split: option.split)
next
  case (Some r)
  then have r: "r \<in> set (calibrations db)" "category_row org cat r"
    by (auto simp: cal_row_def find_Some_iff)
  have "filter (category_row org cat) (calibrations db) = [r]" using category_rows [OF ok] Some by simp
  with run have db': "calibrations db' = row_put cal_id (calibrate (compute_accuracy e a) r) (calibrations db)"
    by (auto simp: record_category_result_def Let_def)
  have ids: "distinct (map cal_id (calibrations db))" using ok by (simp add: calibrations_ok_def)
  then have same: "x = r" if "cal_id x = cal_id r" "x \<in> set (calibrations db)" for x
    using that r(1) by (auto simp: distinct_map dest: inj_onD)
  have cat: "category_row org' cat' (calibrate y x) = category_row org' cat' x" for x y
    by (simp add: category_row_def)
  have "cal_row org' cat' db' = (case cal_row org' cat' db of None \<Rightarrow> None
      | Some x \<Rightarrow> if cal_id x = cal_id r then Some (calibrate (compute_accuracy e a) r) else Some x)"
    unfolding cal_row_def db' using same cat by (intro find_row_put [OF ids r(1)]) auto
  moreover have "cal_id x = cal_id r \<longleftrightarrow> org' = org \<and> cat' = cat" if "cal_row org' cat' db = Some x" for x
  proof
    assume "cal_id x = cal_id r"
    moreover from that have "x \<in> set (calibrations db)" "category_row org' cat' x"
      by (auto simp: cal_row_def find_Some_iff)
    ultimately have "category_row org' cat' r" using same by metis
    with r(2) show "org' = org \<and> cat' = cat" by (auto simp: category_row_def)
  next
    assume "org' = org \<and> cat' = cat"
    with that Some show "cal_id x = cal_id r" by simp
  qed
  ultimately show ?thesis using Some by (auto split: option.splits)
qed

lemma record_ok:
  assumes ok: "calibrations_ok db" and fresh: "fresh c 0 \<notin> cal_id ` set (calibrations db)"
  shows "\<exists>s db'. record_category_result c org cat e a db = (Inr s, db') \<and> calibrations_ok db'"
proof (cases "cal_row org cat db")
  case None
  then have "filter (category_row org cat) (calibrations db) = []" using category_rows [OF ok] by simp
  moreover from this have "(org, ''category'', category_value cat) \<notin>
      (\<lambda>r. (cal_org r, cal_dimension_type r, cal_dimension_key r)) ` set (calibrations db)"
    by (auto simp: filter_empty_conv category_row_def)
  ultimately show ?thesis using ok fresh
    by (auto simp: record_category_result_def Let_def calibrations_ok_def row_add_def new_calibration_def)
next
  case (Some r)
  then have r: "r \<in> set (calibrations db)" by (auto simp: cal_row_def find_Some_iff)
  have "filter (category_row org cat) (calibrations db) = [r]" using category_rows [OF ok] Some by simp
  moreover have "map (\<lambda>r. (cal_org r, cal_dimension_type r, cal_dimension_key r))
      (row_put cal_id (calibrate x r) (calibrations db)) =
    map (\<lambda>r. (cal_org r, cal_dimension_type r, cal_dimension_key r)) (calibrations db)" for x
    using ok r by (auto simp: row_put_def calibrations_ok_def distinct_map dest: inj_onD)
  ultimately show ?thesis using ok
    by (simp add: record_category_result_def Let_def calibrations_ok_def)
qed

text \<open>
  The abstract calibration: the list of results recorded so far for each organization and category.
  \<open>abstracts\<close> relates it to the table: the row of a key is the fold of its history.
\<close>

type_synonym calibration_history = "uuid \<Rightarrow> opportunity_category \<Rightarrow> pyfloat list"

definition row_fits :: "pyfloat list \<Rightarrow> calibration option \<Rightarrow> bool" where
  "row_fits xs row \<longleftrightarrow> (case row of
       None \<Rightarrow> xs = []
     | Some r \<Rightarrow> xs \<noteq> [] \<and> cal_total r = length xs \<and> cal_cumulative r = py_sum xs
         \<and> cal_accuracy r = py_round 4 (fdiv (py_sum xs) (of_nat (length xs)))
         \<and> cal_adjustment r = compute_adjustment (cal_accuracy r))"

definition abstracts :: "calibration_history \<Rightarrow> 'z opp_db_scheme \<Rightarrow> bool" where
  "abstracts h db \<longleftrightarrow> (\<forall>org cat. row_fits (h org cat) (cal_row org cat db))"

definition push :: "uuid \<Rightarrow> opportunity_category \<Rightarrow> pyfloat \<Rightarrow> calibration_history \<Rightarrow> calibration_history" where
  "push org cat x h = h(org := (h org)(cat := h org cat @ [x]))"

lemma py_sum_snoc: "py_sum (xs @ [x]) = fadd (py_sum xs) x"
  by (simp add: py_sum_def)

text \<open>
  C26 (refinement): recording a result implements appending its accuracy, which is between 0 and 1.2,
  to the history of that organization and category: the stored row is the count, sum, rounded mean
  and adjustment of the whole history, and every other history is unchanged.
\<close>

theorem calibration_refines_history:
  assumes "calibrations_ok db" and "abstracts h db"
    and "fresh c 0 \<notin> cal_id ` set (calibrations db)"
  shows "\<exists>s db'. record_category_result c org cat e a db = (Inr s, db') \<and> calibrations_ok db'
     \<and> abstracts (push org cat (compute_accuracy e a) h) db'
     \<and> snap_total s = Suc (length (h org cat))
     \<and> 0 \<le> compute_accuracy e a \<and> compute_accuracy e a \<le> fl (12/10)"
proof -
  from record_ok [OF assms(1,3)] obtain s db' where
    run: "record_category_result c org cat e a db = (Inr s, db')" and ok: "calibrations_ok db'" by blast
  let ?x = "compute_accuracy e a"
  let ?old = "case cal_row org cat db of None \<Rightarrow> new_calibration c org cat | Some r \<Rightarrow> r"
  have old: "cal_total ?old = length (h org cat) \<and> cal_cumulative ?old = py_sum (h org cat)"
    using assms(2) [unfolded abstracts_def row_fits_def, rule_format, of org cat]
    by (cases "cal_row org cat db") (simp_all add: new_calibration_def py_sum_def)
  have "abstracts (push org cat ?x h) db'"
    unfolding abstracts_def
  proof (intro allI)
    fix o' k
    show "row_fits (push org cat ?x h o' k) (cal_row o' k db')"
    proof (cases "o' = org \<and> k = cat")
      case True
      with record_row [OF assms(1) run, of o' k] old show ?thesis
        by (simp add: push_def calibrate_def Let_def py_sum_snoc row_fits_def)
    next
      case False
      then have "push org cat ?x h o' k = h o' k" by (auto simp: push_def)
      moreover from False record_row [OF assms(1) run, of o' k] have "cal_row o' k db' = cal_row o' k db"
        by auto
      ultimately show ?thesis using assms(2) [unfolded abstracts_def, rule_format, of o' k] by simp
    qed
  qed
  moreover have "snap_total s = Suc (length (h org cat))"
  proof -
    have "snap_total s = Suc (cal_total ?old)"
      using run category_rows [OF assms(1), of org cat]
      by (auto simp: record_category_result_def Let_def snapshot_of_def calibrate_def split: option.splits)
    with old show ?thesis by simp
  qed
  ultimately show ?thesis using run ok compute_accuracy_range by blast
qed

definition empty_opp_db :: opp_db where
  "empty_opp_db = \<lparr>events = [], checkpoints = [], alerts = [], bundles = [], evidence = [],
     experiments = [], runs = [], approvals = [], opportunities = [], calibrations = []\<rparr>"

theorem calibration_refines_history_witness:
  "\<exists>s db'. record_category_result \<lparr>fresh = (\<lambda>_. 0), clock = (\<lambda>_. 0)\<rparr> 1 RIGHTSIZING 100 90 empty_opp_db
      = (Inr s, db') \<and> snap_total s = 1"
proof -
  have "calibrations_ok empty_opp_db" and "abstracts (\<lambda>_ _. []) empty_opp_db"
    "fresh \<lparr>fresh = (\<lambda>_. 0), clock = (\<lambda>_. 0)\<rparr> 0 \<notin> cal_id ` set (calibrations empty_opp_db)"
    by (simp_all add: calibrations_ok_def abstracts_def row_fits_def empty_opp_db_def cal_row_def)
  from calibration_refines_history [OF this, of 1 RIGHTSIZING 100 90] show ?thesis by auto
qed

end
