(* ===== verification/ExecutionPlans.thy ===== *)
theory ExecutionPlans
  imports Opportunities
begin

text \<open>
  \<open>domains/intel/execution_plan_service.py\<close>: execution plans made from selected opportunities, their
  review, scheduling, handoff to an experiment, and the tracking of that experiment. The plan row
  keeps a JSON payload (a dictionary in key order) next to its columns; the service reads and
  rewrites it, and returns it validated, which does not change it. Text that a payload holds for a
  user supplied datetime is its \<open>isoformat()\<close>.
\<close>

section \<open>Dictionaries\<close>

type_synonym dict = "(string \<times> json) list"

definition jget :: "string \<Rightarrow> dict \<Rightarrow> json" where
  "jget k d = (case map_of d k of None \<Rightarrow> JNull | Some v \<Rightarrow> v)"

fun jset :: "string \<Rightarrow> json \<Rightarrow> dict \<Rightarrow> dict" where
  "jset k v [] = [(k, v)]"
| "jset k v ((k', v') # d) = (if k' = k then (k, v) # d else (k', v') # jset k v d)"

definition jset_if :: "bool \<Rightarrow> string \<Rightarrow> json \<Rightarrow> dict \<Rightarrow> dict" where
  "jset_if b k v d = (if b then jset k v d else d)"

text \<open>\<open>x if isinstance(x, dict) else {}\<close>.\<close>

definition as_dict :: "json \<Rightarrow> dict" where
  "as_dict j = (case j of JDict d \<Rightarrow> d | _ \<Rightarrow> [])"

definition jstrs :: "string list \<Rightarrow> json" where
  "jstrs xs = JList (map JStr xs)"

definition jopt :: "string option \<Rightarrow> json" where
  "jopt v = (case v of None \<Rightarrow> JNull | Some s \<Rightarrow> JStr s)"

definition given :: "string option \<Rightarrow> bool" where
  "given v \<longleftrightarrow> (case v of None \<Rightarrow> False | Some s \<Rightarrow> s \<noteq> [])"

definition text_of :: "string option \<Rightarrow> string" where
  "text_of v = (case v of None \<Rightarrow> [] | Some s \<Rightarrow> s)"

lemma map_of_jset [simp]: "map_of (jset k v d) = (map_of d)(k \<mapsto> v)"
  by (induction d rule: jset.induct) (auto simp: fun_eq_iff)

lemma jget_jset [simp]: "jget k (jset k' v d) = (if k = k' then v else jget k d)"
  by (simp add: jget_def)

lemma jget_jset_if [simp]:
  "jget k (jset_if b k' v d) = (if b \<and> k = k' then v else jget k d)"
  by (simp add: jset_if_def)

lemma as_dict_JDict [simp]: "as_dict (JDict d) = d"
  by (simp add: as_dict_def)

section \<open>Data\<close>

record plan_out =
  po_id :: uuid
  po_status :: string
  po_mode :: string
  po_total :: pyfloat
  po_risk :: string
  po_conflicts :: "string list"
  po_checklist :: "string list"
  po_steps :: "string list"
  po_gates :: "string list"
  po_selected :: "string list"

record execution_plan =
  pl_id :: uuid
  pl_org :: uuid
  pl_mode :: string
  pl_status :: string
  pl_risk_level :: string
  pl_total :: pyfloat
  pl_selected :: "string list"
  pl_gates :: "string list"
  pl_conflicts :: "string list"
  pl_payload :: dict
  pl_created_by :: "uuid option"
  pl_created_at :: instant

record plan_db = opp_db +
  plans :: "execution_plan list"

text \<open>\<open>plan.model_dump()\<close>: all fields of the response model in order, the optional ones empty.\<close>

definition plan_dump :: "plan_out \<Rightarrow> dict" where
  "plan_dump p =
     [(''execution_plan_id'', JStr (uuid_str (po_id p))), (''status'', JStr (po_status p)),
      (''mode'', JStr (po_mode p)), (''total_savings_monthly'', JFloat (po_total p)),
      (''risk_level'', JStr (po_risk p)), (''conflicts'', jstrs (po_conflicts p)),
      (''checklist'', jstrs (po_checklist p)), (''steps'', jstrs (po_steps p)),
      (''gates_triggered'', jstrs (po_gates p)), (''selected_opportunity_ids'', jstrs (po_selected p)),
      (''scheduled_for'', JNull), (''maintenance_window'', JNull), (''pulselab_experiment_id'', JNull),
      (''handoff_checklist'', JList []), (''experiment_status'', JNull), (''experiment_result'', JNull),
      (''actual_savings'', JNull), (''execution_outcome'', JNull)]"

section \<open>Preparing a plan\<close>

definition fetch_selected :: "uuid \<Rightarrow> uuid list \<Rightarrow> 'z opp_db_scheme \<Rightarrow> opportunity list" where
  "fetch_selected org ids db = filter (\<lambda>o1. op_org o1 = org \<and> op_id o1 \<in> set ids) (opportunities db)"

definition aks_categories :: "opportunity_category list" where
  "aks_categories = [AKS_NODEPOOL_RIGHTSIZING, AKS_AUTOSCALER_RECOMMENDATION]"

fun add_category :: "string \<Rightarrow> opportunity_category \<Rightarrow> (string \<times> opportunity_category list) list
    \<Rightarrow> (string \<times> opportunity_category list) list" where
  "add_category k c [] = [(k, [c])]"
| "add_category k c ((k', cs) # m) =
     (if k' = k then (k, if c \<in> set cs then cs else c # cs) # m else (k', cs) # add_category k c m)"

definition resource_key :: "opportunity \<Rightarrow> string option" where
  "resource_key o1 =
     (if op_category o1 \<notin> set aks_categories then None
      else case op_resource_id o1 of
        None \<Rightarrow> None
      | Some r \<Rightarrow> if r = [] then None else Some (py_lower (py_strip r)))"

definition by_resource :: "opportunity list \<Rightarrow> (string \<times> opportunity_category list) list" where
  "by_resource selected = foldl (\<lambda>m o1. case resource_key o1 of
       None \<Rightarrow> m | Some k \<Rightarrow> add_category k (op_category o1) m) [] selected"

definition detect_conflicts :: "opportunity list \<Rightarrow> string list" where
  "detect_conflicts selected =
     map (\<lambda>(k, cs). ''Conflito em '' @ k @ '': AKS nodepool rightsizing e autoscaler nao devem ser aplicados simultaneamente sem revisao.'')
       (filter (\<lambda>(k, cs). set aks_categories \<subseteq> set cs) (by_resource selected))"

definition float_of_json :: "platform \<Rightarrow> json \<Rightarrow> pyfloat option" where
  "float_of_json pf j =
     (case j of JInt i \<Rightarrow> Some (fl (of_int i)) | JFloat x \<Rightarrow> Some x
      | JBool b \<Rightarrow> Some (if b then 1 else 0) | JStr s \<Rightarrow> float_of_str pf s | _ \<Rightarrow> None)"

definition extract_confidence :: "platform \<Rightarrow> opportunity \<Rightarrow> pyfloat" where
  "extract_confidence pf o1 =
     (let evidence = (case op_evidence o1 of None \<Rightarrow> [] | Some j \<Rightarrow> as_dict j);
          value = (case float_of_json pf (jget ''confidence'' evidence) of
             Some x \<Rightarrow> x
           | None \<Rightarrow>
               if op_risk o1 = RISK_LOW \<and> op_effort o1 = EFFORT_LOW then fl (8/10)
               else if op_risk o1 = RISK_LOW then fl (72/100)
               else if op_risk o1 = RISK_MEDIUM then fl (58/100)
               else fl (45/100))
      in max 0 (min 1 value))"

definition gates_of :: "platform \<Rightarrow> opportunity list \<Rightarrow> string list \<Rightarrow> string list" where
  "gates_of pf selected conflicts =
     (if list_ex (\<lambda>o1. op_risk o1 = RISK_HIGH) selected then [''high_risk''] else [])
     @ (if conflicts \<noteq> [] then [''aks_conflict_same_nodepool''] else [])
     @ (if list_ex (\<lambda>o1. extract_confidence pf o1 < fl (60/100)) selected then [''low_confidence''] else [])
     @ (if list_ex (\<lambda>o1. or_zero (op_savings o1) \<le> 0) selected then [''non_positive_savings''] else [])
     @ (if list_ex (\<lambda>o1. py_strip (text_of (op_playbook o1)) = []) selected then [''missing_playbook''] else [])"

definition plan_status_of :: "string list \<Rightarrow> string" where
  "plan_status_of gates =
     (if ''non_positive_savings'' \<in> set gates \<or> ''missing_playbook'' \<in> set gates
      then ''blocked'' else ''review_required'')"

definition max_risk_level :: "opportunity list \<Rightarrow> string" where
  "max_risk_level selected =
     (if list_ex (\<lambda>o1. op_risk o1 = RISK_HIGH) selected then ''high''
      else if list_ex (\<lambda>o1. op_risk o1 = RISK_MEDIUM) selected then ''medium'' else ''low'')"

fun category_checklist :: "opportunity_category \<Rightarrow> string list" where
  "category_checklist RIGHTSIZING =
     [''Validar baseline de CPU/memoria e confirmar que o recurso nao atende workload elastico temporario.'',
      ''Confirmar rollback rapido para SKU anterior em caso de degradacao.'']"
| "category_checklist AKS_NODEPOOL_RIGHTSIZING =
     [''Revisar workloads criticos e pods de sistema antes de reduzir nodepool.'',
      ''Executar mudanca em janela com monitoramento de saturacao e pending pods.'']"
| "category_checklist AKS_AUTOSCALER_RECOMMENDATION =
     [''Validar limites min/max com time de plataforma e SLO do servico.'',
      ''Simular impacto de burst para evitar throttling por limite baixo.'']"
| "category_checklist IDLE_RESOURCES =
     [''Confirmar recurso sem dependencia ativa antes de desligar/remover.'',
      ''Validar owner e janela de manutencao para operacao segura.'']"
| "category_checklist STORAGE_OPTIMIZATION =
     [''Validar politica de retencao e compliance antes de mover para cold tier.'',
      ''Executar em lote pequeno e medir latencia/custos por 24h.'']"
| "category_checklist _ = [''Validar runbook e riscos da categoria antes da execucao assistida.'']"

fun first_categories :: "opportunity_category list \<Rightarrow> opportunity list \<Rightarrow> opportunity_category list" where
  "first_categories seen [] = []"
| "first_categories seen (o1 # os) =
     (if op_category o1 \<in> set seen then first_categories seen os
      else op_category o1 # first_categories (op_category o1 # seen) os)"

definition build_checklist :: "opportunity list \<Rightarrow> string list \<Rightarrow> string list" where
  "build_checklist selected conflicts =
     [''Confirmar aprovacao de negocio e owner tecnico antes de qualquer execucao.'',
      ''Definir janela de mudanca, observabilidade e criterio de rollback.'']
     @ concat (map category_checklist (first_categories [] selected))
     @ (if conflicts \<noteq> [] then [''Executar itens conflitantes em etapas separadas com validacao intermediaria.''] else [])"

definition ranked :: "opportunity list \<Rightarrow> opportunity list" where
  "ranked selected = sort_key (\<lambda>o1. (- or_zero (op_savings o1), - op_composite_score o1)) selected"

definition build_steps :: "string \<Rightarrow> opportunity list \<Rightarrow> string \<Rightarrow> string list" where
  "build_steps mode selected st =
     (let top = take 3 (ranked selected);
          top_names = (if top = [] then ''sem itens'' else py_join '', '' (map op_title top))
      in [''Priorizar revisao iniciando por: '' @ top_names @ ''.'',
          ''Aplicar checklist deterministico e registrar evidencias de risco ('' @ st @ '').'',
          if mode = ''manual_review''
          then ''Gerar handoff para execucao manual assistida, sem automacao de mudanca.''
          else ''Gerar handoff para PulseLab como experimento controlado, sem execucao automatica.''])"

definition plan_row :: "uuid \<Rightarrow> uuid option \<Rightarrow> instant \<Rightarrow> plan_out \<Rightarrow> execution_plan" where
  "plan_row org actor now p =
     \<lparr>pl_id = po_id p, pl_org = org, pl_mode = po_mode p, pl_status = po_status p,
      pl_risk_level = po_risk p, pl_total = po_total p, pl_selected = po_selected p,
      pl_gates = po_gates p, pl_conflicts = po_conflicts p, pl_payload = plan_dump p,
      pl_created_by = actor, pl_created_at = now\<rparr>"

definition plan_created_payload :: "plan_out \<Rightarrow> pyval" where
  "plan_created_payload p = of_json (JDict
     [(''execution_plan_id'', JStr (uuid_str (po_id p))),
      (''selected_opportunity_ids'', jstrs (po_selected p)), (''risk_level'', JStr (po_risk p)),
      (''status'', JStr (po_status p)), (''total_savings_monthly'', JFloat (po_total p)),
      (''gates_triggered'', jstrs (po_gates p)), (''conflicts'', jstrs (po_conflicts p))])"

definition persist_plan ::
  "platform \<Rightarrow> call \<Rightarrow> uuid \<Rightarrow> uuid option \<Rightarrow> plan_out \<Rightarrow> 'z plan_db_scheme \<Rightarrow> 'z plan_db_scheme" where
  "persist_plan pf c org actor p db =
     append_event pf org actor ''execution_plan.created'' ''execution_plan'' (uuid_str (po_id p))
       (plan_created_payload p) (fresh c 1, clock c 1)
       (db\<lparr>plans := row_add (plan_row org actor (clock c 0) p) (plans db)\<rparr>)"

definition new_plan :: "platform \<Rightarrow> call \<Rightarrow> string \<Rightarrow> opportunity list \<Rightarrow> plan_out" where
  "new_plan pf c mode selected =
     (let conflicts = detect_conflicts selected;
          gates = gates_of pf selected conflicts;
          st = plan_status_of gates
      in \<lparr>po_id = fresh c 0, po_status = st, po_mode = mode,
          po_total = py_round 2 (float_sum (map (\<lambda>o1. or_zero (op_savings o1)) selected)),
          po_risk = max_risk_level selected, po_conflicts = conflicts,
          po_checklist = build_checklist selected conflicts,
          po_steps = build_steps mode selected st, po_gates = gates,
          po_selected = map (\<lambda>o1. uuid_str (op_id o1)) selected\<rparr>)"

definition prepare_plan ::
  "platform \<Rightarrow> call \<Rightarrow> uuid \<Rightarrow> uuid list \<Rightarrow> string \<Rightarrow> uuid option \<Rightarrow> ('z plan_db_scheme, plan_out) svc" where
  "prepare_plan pf c org ids mode actor db =
     (let selected = fetch_selected org ids db in
      if length selected \<noteq> length ids
      then let found = map op_id selected;
               missing = map uuid_str (filter (\<lambda>i. i \<notin> set found) ids)
           in (Inl (ValueError (''Opportunities not found: '' @ py_join '', '' missing)), db)
      else let p = new_plan pf c mode selected in (Inr p, persist_plan pf c org actor p db))"

section \<open>Reading the payload\<close>

definition filled :: "json \<Rightarrow> string option" where
  "filled j = (case j of JStr s \<Rightarrow> if py_strip s \<noteq> [] then Some s else None | _ \<Rightarrow> None)"

definition extract_pulselab_experiment_id :: "dict \<Rightarrow> string option" where
  "extract_pulselab_experiment_id d =
     (case filled (jget ''pulselab_experiment_id'' d) of
        Some s \<Rightarrow> Some s
      | None \<Rightarrow> filled (jget ''experiment_id'' (as_dict (jget ''handoff'' d))))"

definition one_of :: "string list \<Rightarrow> json \<Rightarrow> string option" where
  "one_of xs j = (case j of JStr s \<Rightarrow> if s \<in> set xs then Some s else None | _ \<Rightarrow> None)"

definition extract_experiment_status :: "dict \<Rightarrow> string option" where
  "extract_experiment_status d =
     one_of [''running'', ''completed'', ''failed''] (jget ''experiment_status'' d)"

definition extract_execution_outcome :: "dict \<Rightarrow> string option" where
  "extract_execution_outcome d =
     one_of [''success'', ''partial'', ''failed''] (jget ''execution_outcome'' d)"

definition extract_actual_savings :: "platform \<Rightarrow> dict \<Rightarrow> pyfloat option" where
  "extract_actual_savings pf d = float_of_json pf (jget ''actual_savings'' d)"

section \<open>Reading plans\<close>

definition find_plan :: "uuid \<Rightarrow> uuid \<Rightarrow> 'z plan_db_scheme \<Rightarrow> execution_plan option" where
  "find_plan org pid db =
     (case row_find pl_id pid (plans db) of
        None \<Rightarrow> None | Some p \<Rightarrow> if pl_org p = org then Some p else None)"

definition get_plan :: "uuid \<Rightarrow> uuid \<Rightarrow> 'z plan_db_scheme \<Rightarrow> dict option" where
  "get_plan org pid db = map_option pl_payload (find_plan org pid db)"

record plan_query =
  pq_status :: "string option"
  pq_risk :: "string option"
  pq_from :: "instant option"
  pq_to :: "instant option"

record plan_item =
  pi_id :: string
  pi_status :: string
  pi_risk :: string
  pi_total :: pyfloat
  pi_gates :: "string list"
  pi_selected :: "string list"
  pi_experiment :: "string option"
  pi_experiment_status :: "string option"
  pi_outcome :: "string option"
  pi_actual :: "pyfloat option"
  pi_created_at :: instant

definition plan_matches :: "uuid \<Rightarrow> plan_query \<Rightarrow> execution_plan \<Rightarrow> bool" where
  "plan_matches org q p \<longleftrightarrow> pl_org p = org
     \<and> (given (pq_status q) \<longrightarrow> pl_status p = text_of (pq_status q))
     \<and> (given (pq_risk q) \<longrightarrow> pl_risk_level p = text_of (pq_risk q))
     \<and> (case pq_from q of None \<Rightarrow> True | Some t \<Rightarrow> t \<le> pl_created_at p)
     \<and> (case pq_to q of None \<Rightarrow> True | Some t \<Rightarrow> pl_created_at p \<le> t)"

definition plan_item_of :: "platform \<Rightarrow> execution_plan \<Rightarrow> plan_item" where
  "plan_item_of pf p =
     \<lparr>pi_id = uuid_str (pl_id p), pi_status = pl_status p, pi_risk = pl_risk_level p,
      pi_total = pl_total p, pi_gates = pl_gates p, pi_selected = pl_selected p,
      pi_experiment = extract_pulselab_experiment_id (pl_payload p),
      pi_experiment_status = extract_experiment_status (pl_payload p),
      pi_outcome = extract_execution_outcome (pl_payload p),
      pi_actual = extract_actual_savings pf (pl_payload p), pi_created_at = pl_created_at p\<rparr>"

definition list_plans ::
  "platform \<Rightarrow> uuid \<Rightarrow> plan_query \<Rightarrow> nat \<Rightarrow> nat \<Rightarrow> 'z plan_db_scheme \<Rightarrow> plan_item list \<times> nat" where
  "list_plans pf org q limit offset db =
     (let matching = filter (plan_matches org q) (plans db)
      in (map (plan_item_of pf) (take limit (drop offset (rev (sort_key pl_created_at matching)))),
          length matching))"

end
