(* ===== verification/PlanFlow.thy ===== *)
theory PlanFlow
  imports ExecutionPlans
begin

text \<open>
  The operations that change an execution plan after it was prepared
  (\<open>domains/intel/execution_plan_service.py\<close>): the review decision, the schedule, the handoff to a
  new experiment of \<open>Experiments\<close>, and the synchronization of that experiment back into the plan,
  which feeds the calibration of \<open>Opportunities\<close>. The payload column is taken as the service assigns
  it; whether the object mapper notices an assignment of a dictionary it already holds is not modelled.
\<close>

section \<open>Shared steps\<close>

definition put_plan :: "execution_plan \<Rightarrow> 'z plan_db_scheme \<Rightarrow> 'z plan_db_scheme" where
  "put_plan p db = db\<lparr>plans := row_put pl_id p (plans db)\<rparr>"

definition plan_event ::
  "platform \<Rightarrow> uuid \<Rightarrow> uuid \<Rightarrow> string \<Rightarrow> execution_plan \<Rightarrow> dict \<Rightarrow> stamp
   \<Rightarrow> 'z plan_db_scheme \<Rightarrow> 'z plan_db_scheme" where
  "plan_event pf org actor kind p data st db =
     append_event pf org (Some actor) kind ''execution_plan'' (uuid_str (pl_id p))
       (of_json (JDict data)) st db"

section \<open>Review and schedule\<close>

definition ALLOWED_STATUS_TRANSITIONS :: "string \<Rightarrow> string list" where
  "ALLOWED_STATUS_TRANSITIONS s =
     (if s = ''review_required'' then [''approved'', ''rejected'']
      else if s = ''blocked'' then [''rejected''] else [])"

definition reviewed_payload :: "string \<Rightarrow> uuid \<Rightarrow> string option \<Rightarrow> instant \<Rightarrow> dict \<Rightarrow> dict" where
  "reviewed_payload new_status actor comment now d =
     (let d = jset ''status'' (JStr new_status) d;
          review = as_dict (jget ''review'' d);
          review = jset ''comment'' (jopt comment) review;
          review = jset ''actor_user_id'' (JStr (uuid_str actor)) review;
          review = jset ''updated_at'' (JStr (isoformat_z now)) review
      in jset_if (given comment) ''review'' (JDict review) d)"

definition review_event_payload :: "execution_plan \<Rightarrow> string \<Rightarrow> uuid \<Rightarrow> string option \<Rightarrow> dict" where
  "review_event_payload p new_status actor comment =
     [(''execution_plan_id'', JStr (uuid_str (pl_id p))), (''previous_status'', JStr (pl_status p)),
      (''new_status'', JStr new_status), (''actor_user_id'', JStr (uuid_str actor)),
      (''comment'', jopt comment), (''total_savings_monthly'', JFloat (pl_total p)),
      (''risk_level'', JStr (pl_risk_level p)), (''gates_triggered'', jstrs (pl_gates p))]"

definition update_plan_status ::
  "platform \<Rightarrow> call \<Rightarrow> uuid \<Rightarrow> uuid \<Rightarrow> string \<Rightarrow> uuid \<Rightarrow> string option
   \<Rightarrow> ('z plan_db_scheme, dict) svc" where
  "update_plan_status pf c org pid new_status actor comment db =
     (case find_plan org pid db of
        None \<Rightarrow> (Inl (ExecutionPlanNotFound ''Execution plan not found''), db)
      | Some p \<Rightarrow>
          if new_status \<notin> set (ALLOWED_STATUS_TRANSITIONS (pl_status p))
          then (Inl (InvalidExecutionPlanTransition
                  (''Invalid status transition: '' @ pl_status p @ '' -> '' @ new_status)), db)
          else let data = reviewed_payload new_status actor comment (clock c 0) (pl_payload p);
                   kind = (if new_status = ''approved'' then ''execution_plan.approved''
                                 else ''execution_plan.rejected'');
                   db = put_plan (p\<lparr>pl_status := new_status, pl_payload := data\<rparr>) db
               in (Inr data, plan_event pf org actor kind p
                     (review_event_payload p new_status actor comment) (fresh c 0, clock c 1) db))"

definition scheduled_payload ::
  "string \<Rightarrow> string \<Rightarrow> uuid \<Rightarrow> string option \<Rightarrow> instant \<Rightarrow> dict \<Rightarrow> dict" where
  "scheduled_payload scheduled_for window actor comment now d =
     (let d = jset ''status'' (JStr ''scheduled'') d;
          d = jset ''scheduled_for'' (JStr scheduled_for) d;
          d = jset ''maintenance_window'' (JStr window) d;
          schedule = as_dict (jget ''schedule'' d);
          schedule = jset ''scheduled_for'' (JStr scheduled_for) schedule;
          schedule = jset ''maintenance_window'' (JStr window) schedule;
          schedule = jset ''actor_user_id'' (JStr (uuid_str actor)) schedule;
          schedule = jset ''updated_at'' (JStr (isoformat_z now)) schedule;
          schedule = jset_if (given comment) ''comment'' (jopt comment) schedule
      in jset ''schedule'' (JDict schedule) d)"

definition schedule_event_payload ::
  "execution_plan \<Rightarrow> string \<Rightarrow> string \<Rightarrow> uuid \<Rightarrow> string option \<Rightarrow> dict" where
  "schedule_event_payload p scheduled_for window actor comment =
     [(''execution_plan_id'', JStr (uuid_str (pl_id p))), (''previous_status'', JStr (pl_status p)),
      (''new_status'', JStr ''scheduled''), (''actor_user_id'', JStr (uuid_str actor)),
      (''scheduled_for'', JStr scheduled_for), (''maintenance_window'', JStr window),
      (''comment'', jopt comment), (''total_savings_monthly'', JFloat (pl_total p)),
      (''risk_level'', JStr (pl_risk_level p)), (''gates_triggered'', jstrs (pl_gates p))]"

definition schedule_plan ::
  "platform \<Rightarrow> call \<Rightarrow> uuid \<Rightarrow> uuid \<Rightarrow> uuid \<Rightarrow> string \<Rightarrow> string \<Rightarrow> string option
   \<Rightarrow> ('z plan_db_scheme, dict) svc" where
  "schedule_plan pf c org pid actor scheduled_for window comment db =
     (case find_plan org pid db of
        None \<Rightarrow> (Inl (ExecutionPlanNotFound ''Execution plan not found''), db)
      | Some p \<Rightarrow>
          if pl_status p \<noteq> ''approved''
          then (Inl (InvalidExecutionPlanTransition
                  (''Invalid schedule transition: '' @ pl_status p @ '' -> scheduled'')), db)
          else let data = scheduled_payload scheduled_for window actor comment (clock c 0) (pl_payload p);
                   db = put_plan (p\<lparr>pl_status := ''scheduled'', pl_payload := data\<rparr>) db
               in (Inr data, plan_event pf org actor ''execution_plan.scheduled'' p
                     (schedule_event_payload p scheduled_for window actor comment)
                     (fresh c 0, clock c 1) db))"

section \<open>Handoff\<close>

fun json_texts :: "json list \<Rightarrow> string list" where
  "json_texts [] = []"
| "json_texts (JStr s # js) = s # json_texts js"
| "json_texts (_ # js) = json_texts js"

definition build_handoff_checklist :: "dict \<Rightarrow> string list" where
  "build_handoff_checklist d =
     (case jget ''checklist'' d of JList js \<Rightarrow> json_texts js | _ \<Rightarrow> [])
     @ [if jget ''status'' d \<noteq> JStr ''scheduled''
        then ''Recomenda-se agendar janela de manutencao antes de iniciar qualquer experimento.''
        else ''Confirmar que a janela agendada continua valida com os owners responsaveis.'',
        ''Registrar experimento PulseLab com escopo controlado e rollback explicito.'',
        ''Garantir monitoramento ativo de custo, performance e erro durante o experimento.'',
        ''Nao executar mudanca direta em cloud sem etapa assistida no PulseLab.'']"

definition handoff_request :: "execution_plan \<Rightarrow> string \<Rightarrow> string \<Rightarrow> experiment_create" where
  "handoff_request p environment criticality =
     \<lparr>ec_title = ''PulseLab handoff for execution plan '' @ uuid_str (pl_id p),
      ec_hypothesis = Some ''Mudanca controlada pode capturar savings com risco operacional limitado.'',
      ec_description = Some (''Handoff gerado a partir de execution plan aprovado/agendado. ''
        @ ''Sem execucao automatica em cloud.''),
      ec_opportunity = (case pl_selected p of [] \<Rightarrow> None | s # _ \<Rightarrow> uuid_of_str s),
      ec_risk_budget = None, ec_guardrails = None,
      ec_change_events = Some [uuid_str (pl_id p)],
      ec_environment = environment, ec_criticality = criticality\<rparr>"

definition handoff_payload ::
  "string \<Rightarrow> string \<Rightarrow> string \<Rightarrow> uuid \<Rightarrow> string option \<Rightarrow> instant \<Rightarrow> dict \<Rightarrow> dict" where
  "handoff_payload eid environment criticality actor comment now d =
     (let checklist = jstrs (build_handoff_checklist d);
          d = jset ''mode'' (JStr ''pulselab_handoff'') d;
          d = jset ''pulselab_experiment_id'' (JStr eid) d;
          d = jset ''handoff_checklist'' checklist d;
          handoff = as_dict (jget ''handoff'' d);
          handoff = jset ''experiment_id'' (JStr eid) handoff;
          handoff = jset ''target_environment'' (JStr environment) handoff;
          handoff = jset ''target_criticality'' (JStr criticality) handoff;
          handoff = jset ''actor_user_id'' (JStr (uuid_str actor)) handoff;
          handoff = jset ''created_at'' (JStr (isoformat_z now)) handoff;
          handoff = jset ''checklist'' checklist handoff;
          handoff = jset_if (given comment) ''comment'' (jopt comment) handoff
      in jset ''handoff'' (JDict handoff) d)"

definition handoff_event_payload ::
  "execution_plan \<Rightarrow> string \<Rightarrow> string \<Rightarrow> string \<Rightarrow> uuid \<Rightarrow> string option \<Rightarrow> dict" where
  "handoff_event_payload p eid environment criticality actor comment =
     [(''execution_plan_id'', JStr (uuid_str (pl_id p))), (''experiment_id'', JStr eid),
      (''previous_mode'', JStr (pl_mode p)), (''new_mode'', JStr ''pulselab_handoff''),
      (''status'', JStr (pl_status p)),
      (''scheduled_for'', jget ''scheduled_for'' (pl_payload p)),
      (''maintenance_window'', jget ''maintenance_window'' (pl_payload p)),
      (''target_environment'', JStr environment), (''target_criticality'', JStr criticality),
      (''final_checklist'', jstrs (build_handoff_checklist (pl_payload p))),
      (''comment'', jopt comment), (''actor_user_id'', JStr (uuid_str actor)),
      (''total_savings_monthly'', JFloat (pl_total p)), (''risk_level'', JStr (pl_risk_level p)),
      (''gates_triggered'', jstrs (pl_gates p))]"

definition create_pulselab_handoff ::
  "platform \<Rightarrow> call \<Rightarrow> uuid \<Rightarrow> uuid \<Rightarrow> uuid \<Rightarrow> string \<Rightarrow> string \<Rightarrow> string option
   \<Rightarrow> ('z plan_db_scheme, dict) svc" where
  "create_pulselab_handoff pf c org pid actor environment criticality comment db =
     (case find_plan org pid db of
        None \<Rightarrow> (Inl (ExecutionPlanNotFound ''Execution plan not found''), db)
      | Some p \<Rightarrow>
          if pl_status p \<notin> {''approved'', ''scheduled''}
          then (Inl (InvalidExecutionPlanTransition
                  (''Invalid handoff transition: '' @ pl_status p @ '' -> pulselab_handoff'')), db)
          else case extract_pulselab_experiment_id (pl_payload p) of
            Some eid \<Rightarrow> (Inl (InvalidExecutionPlanTransition
                  (''Execution plan already handed off to PulseLab: '' @ eid)), db)
          | None \<Rightarrow>
              let (e, db) = create_experiment pf c org actor (handoff_request p environment criticality) db;
                  eid = uuid_str (exp_id e);
                  data = handoff_payload eid environment criticality actor comment (clock c 2) (pl_payload p);
                  db = put_plan (p\<lparr>pl_mode := ''pulselab_handoff'', pl_payload := data\<rparr>) db
              in (Inr data, plan_event pf org actor ''execution_plan.handoff_created'' p
                    (handoff_event_payload p eid environment criticality actor comment)
                    (fresh c 2, clock c 3) db))"

section \<open>Tracking the experiment\<close>

record execution_status =
  xs_plan :: string
  xs_experiment :: string
  xs_status :: string
  xs_actual :: pyfloat
  xs_expected :: pyfloat
  xs_delta :: pyfloat
  xs_outcome :: string

definition derive_execution_state :: "experiment_status \<Rightarrow> experiment_outcome option \<Rightarrow> string \<times> string" where
  "derive_execution_state st out =
     (if st = CANCELLED then (''failed'', ''failed'')
      else if st = CONCLUDED
      then (if out = Some IMPROVED then (''completed'', ''success'')
            else if out = Some INCONCLUSIVE then (''completed'', ''partial'')
            else (''failed'', ''failed''))
      else (''running'', ''partial''))"

definition iso_or_none :: "instant option \<Rightarrow> json" where
  "iso_or_none v = (case v of None \<Rightarrow> JNull | Some t \<Rightarrow> JStr (isoformat t))"

text \<open>\<open>max(counts.items(), key=...)[0]\<close>: the first key, in order of first occurrence, with the most occurrences.\<close>

definition most_common :: "opportunity_category list \<Rightarrow> opportunity_category option" where
  "most_common cs =
     foldl (\<lambda>best c. case best of None \<Rightarrow> Some c
        | Some b \<Rightarrow> if count_list cs b < count_list cs c then Some c else best) None (rev (remdups (rev cs)))"

definition infer_primary_category :: "uuid \<Rightarrow> execution_plan \<Rightarrow> 'z opp_db_scheme \<Rightarrow> opportunity_category option" where
  "infer_primary_category org p db =
     (let ids = List.map_filter uuid_of_str (pl_selected p)
      in if ids = [] then None else most_common (map op_category (fetch_selected org ids db)))"

definition outcome_json :: "optimization_experiment \<Rightarrow> json" where
  "outcome_json e = jopt (map_option experiment_outcome_value (outcome e))"

definition tracked_payload :: "optimization_experiment \<Rightarrow> instant \<Rightarrow> dict \<Rightarrow> dict" where
  "tracked_payload e now d =
     (let (derived_status, derived_outcome) = derive_execution_state (status e) (outcome e);
          actual = py_round 2 (or_zero (actual_savings_usd e));
          d = jset ''experiment_status'' (JStr derived_status) d;
          d = jset ''execution_outcome'' (JStr derived_outcome) d;
          d = jset ''actual_savings'' (JFloat actual) d;
          d = jset ''experiment_result'' (JDict
            [(''experiment_status'', JStr (experiment_status_value (status e))),
             (''experiment_outcome'', outcome_json e),
             (''actual_savings_usd'', JFloat actual),
             (''actual_confidence'', (case actual_confidence e of None \<Rightarrow> JNull
                | Some x \<Rightarrow> JFloat (py_round 4 x))),
             (''started_at'', iso_or_none (started_at e)),
             (''concluded_at'', iso_or_none (concluded_at e)),
             (''updated_at'', iso_or_none (Some (exp_updated_at e)))]) d;
          tracking = as_dict (jget ''execution_tracking'' d);
          tracking = jset ''last_synced_at'' (JStr (isoformat_z now)) tracking;
          tracking = jset ''experiment_status_raw'' (JStr (experiment_status_value (status e))) tracking;
          tracking = jset ''experiment_outcome_raw'' (outcome_json e) tracking
      in jset ''execution_tracking'' (JDict tracking) d)"

definition calibrated_payload :: "opportunity_category \<Rightarrow> calibration_snapshot \<Rightarrow> dict \<Rightarrow> dict" where
  "calibrated_payload cat s d =
     (let tracking = as_dict (jget ''execution_tracking'' d);
          tracking = jset ''calibration'' (JDict
            [(''dimension_type'', JStr ''category''), (''dimension_key'', JStr (category_value cat)),
             (''historical_accuracy'', JFloat (snap_accuracy s)),
             (''confidence_adjustment'', JFloat (snap_adjustment s)),
             (''total_executions'', JInt (int (snap_total s)))]) tracking
      in jset ''execution_tracking'' (JDict tracking) d)"

definition sync_event_type :: "string \<Rightarrow> string" where
  "sync_event_type derived_status =
     (if derived_status = ''running'' then ''execution_plan.execution_started''
      else if derived_status = ''completed'' then ''execution_plan.execution_completed''
      else ''execution_plan.execution_failed'')"

definition sync_status :: "execution_plan \<Rightarrow> optimization_experiment \<Rightarrow> execution_status" where
  "sync_status p e =
     (let actual = py_round 2 (or_zero (actual_savings_usd e));
          expected = py_round 2 (pl_total p)
      in \<lparr>xs_plan = uuid_str (pl_id p), xs_experiment = uuid_str (exp_id e),
          xs_status = fst (derive_execution_state (status e) (outcome e)),
          xs_actual = actual, xs_expected = expected, xs_delta = py_round 2 (fsub actual expected),
          xs_outcome = snd (derive_execution_state (status e) (outcome e))\<rparr>)"

definition sync_event_payload :: "execution_plan \<Rightarrow> string option \<Rightarrow> execution_status \<Rightarrow> dict" where
  "sync_event_payload p previous x =
     [(''execution_plan_id'', JStr (xs_plan x)), (''experiment_id'', JStr (xs_experiment x)),
      (''previous_status'', jopt previous), (''new_status'', JStr (xs_status x)),
      (''outcome'', JStr (xs_outcome x)), (''actual_savings'', JFloat (xs_actual x)),
      (''expected_savings'', JFloat (xs_expected x)), (''delta'', JFloat (xs_delta x))]"

definition sync_calibration ::
  "call \<Rightarrow> uuid \<Rightarrow> execution_plan \<Rightarrow> execution_status \<Rightarrow> ('z plan_db_scheme, unit) svc" where
  "sync_calibration c org p x db =
     (if xs_status x \<notin> {''completed'', ''failed''} then (Inr (), db)
      else case infer_primary_category org p db of
        None \<Rightarrow> (Inr (), db)
      | Some cat \<Rightarrow>
          case record_category_result (later 1 2 c) org cat (xs_expected x) (xs_actual x) db of
            (Inl err, db) \<Rightarrow> (Inl err, db)
          | (Inr s, db) \<Rightarrow> (Inr (), put_plan (p\<lparr>pl_payload := calibrated_payload cat s (pl_payload p)\<rparr>) db))"

definition sync_execution_tracking ::
  "platform \<Rightarrow> call \<Rightarrow> uuid \<Rightarrow> uuid \<Rightarrow> execution_plan \<Rightarrow> optimization_experiment
   \<Rightarrow> ('z plan_db_scheme, execution_status) svc" where
  "sync_execution_tracking pf c org actor p e db =
     (let x = sync_status p e;
          previous = extract_experiment_status (pl_payload p);
          p = p\<lparr>pl_payload := tracked_payload e (clock c 0) (pl_payload p)\<rparr>;
          db = put_plan p db
      in if previous = Some (xs_status x) then (Inr x, db)
         else let db = plan_event pf org actor (sync_event_type (xs_status x)) p
                    (sync_event_payload p previous x) (fresh c 0, clock c 1) db
              in case sync_calibration c org p x db of
                   (Inl err, db) \<Rightarrow> (Inl err, db) | (Inr _, db) \<Rightarrow> (Inr x, db))"

definition get_execution_status ::
  "platform \<Rightarrow> call \<Rightarrow> uuid \<Rightarrow> uuid \<Rightarrow> uuid \<Rightarrow> ('z plan_db_scheme, execution_status) svc" where
  "get_execution_status pf c org pid actor db =
     (case find_plan org pid db of
        None \<Rightarrow> (Inl (ExecutionPlanNotFound ''Execution plan not found''), db)
      | Some p \<Rightarrow>
          case extract_pulselab_experiment_id (pl_payload p) of
            None \<Rightarrow> (Inl (InvalidExecutionPlanTransition ''Execution plan has no PulseLab experiment handoff''), db)
          | Some raw \<Rightarrow>
              case uuid_of_str raw of
                None \<Rightarrow> (Inl (InvalidExecutionPlanTransition ''Execution plan has invalid PulseLab experiment id''), db)
              | Some eid \<Rightarrow>
                  case get_experiment org eid db of
                    None \<Rightarrow> (Inl (ExecutionPlanNotFound ''PulseLab experiment not found for this execution plan''), db)
                  | Some e \<Rightarrow> sync_execution_tracking pf c org actor p e db)"

end
