(* ===== verification/PlanLaws.thy ===== *)
theory PlanLaws
  imports PlanFlow ExperimentLaws
begin

text \<open>
  What the execution plan service guarantees: the gates of a new plan, the status graph of a plan as
  a step relation on databases, the invariant of its reachable states (an experiment is started only
  for a plan no gate blocks, and at most one plan is linked to an experiment), the effect of the
  handoff and the synchronization of an experiment, which calibrates at most once per result.
\<close>

section \<open>Frames\<close>

interpretation plan_rows: keyed_table pl_id "row_find pl_id" "row_put pl_id" row_add
  by (rule keyed_table_rows)

interpretation opportunity_rows: keyed_table op_id "row_find op_id" "row_put op_id" row_add
  by (rule keyed_table_rows)

lemma opp_append_event [simp]:
  "opportunities (append_event pf org a t n i p st db) = opportunities db"
  "calibrations (append_event pf org a t n i p st db) = calibrations db"
  by (simp_all add: append_event_def Let_def)

lemma plans_append_event [simp]: "plans (append_event pf org a t n i p st db) = plans db"
  by (simp add: append_event_def Let_def)

lemma plan_event_frame [simp]:
  "plans (plan_event pf org a t p d st db) = plans db"
  "experiments (plan_event pf org a t p d st db) = experiments db"
  "opportunities (plan_event pf org a t p d st db) = opportunities db"
  "calibrations (plan_event pf org a t p d st db) = calibrations db"
  by (simp_all add: plan_event_def)

lemma put_plan_frame [simp]:
  "plans (put_plan p db) = row_put pl_id p (plans db)"
  "experiments (put_plan p db) = experiments db"
  "events (put_plan p db) = events db"
  "opportunities (put_plan p db) = opportunities db"
  "calibrations (put_plan p db) = calibrations db"
  by (simp_all add: put_plan_def)

lemma create_experiment_frame:
  assumes "create_experiment pf c org owner req db = (e, db')"
  shows "e = new_experiment c org owner req" "experiments db' = row_add e (experiments db)"
    "plans db' = plans db"
  using assms by (auto simp: create_experiment_def Let_def)

lemma find_plan_Some:
  "find_plan org pid db = Some p \<Longrightarrow> p \<in> set (plans db) \<and> pl_id p = pid \<and> pl_org p = org"
  by (auto simp: find_plan_def dest: row_find_Some split: option.splits if_splits)

lemma find_put_plan:
  assumes "find_plan org pid db = Some p" and "pl_id p' = pl_id p" and "pl_org p' = pl_org p"
  shows "find_plan org' k (put_plan p' db) =
    (if k = pid \<and> org' = org then Some p' else find_plan org' k db)"
proof -
  from assms(1) have "row_find pl_id pid (plans db) = Some p" "pl_org p = org" "pl_id p = pid"
    by (auto simp: find_plan_def dest: row_find_Some split: option.splits if_splits)
  with assms(2,3) show ?thesis by (auto simp: find_plan_def plan_rows.lookup_put)
qed

section \<open>Reading the payload\<close>

lemma py_strip_nonempty: "c \<in> set s \<Longrightarrow> \<not> is_space_char c \<Longrightarrow> py_strip s \<noteq> []"
proof
  assume c: "c \<in> set s" "\<not> is_space_char c" and "py_strip s = []"
  then have "dropWhile is_space_char (rev (dropWhile is_space_char s)) = []" by (simp add: py_strip_def)
  then have "\<forall>x\<in>set (dropWhile is_space_char s). is_space_char x" by (simp add: dropWhile_eq_Nil_conv)
  moreover have "c \<in> set (dropWhile is_space_char s)" using c by (induction s) auto
  ultimately show False using c by blast
qed

lemma hex_char_no_space: "d < 16 \<Longrightarrow> \<not> is_space_char (hex_char d)"
proof -
  assume "d < 16"
  then have "(of_char (hex_char d) :: nat) > 47" by (auto simp: hex_char_def)
  then show ?thesis by (auto simp: is_space_char_def)
qed

lemma py_strip_uuid_str [simp]: "py_strip (uuid_str u) \<noteq> []"
proof (rule py_strip_nonempty)
  let ?c = "hex_char (unat u mod 16)"
  have "?c \<in> set (hex_digits (Suc 31) (unat u))" by (simp only: hex_digits.simps set_append) simp
  then have "?c \<in> set (hex_digits 32 (unat u))" by (simp add: Suc_numeral del: hex_digits.simps)
  then show "?c \<in> set (uuid_str u)" using filter_uuid_str [of u] by (metis filter_is_subset subsetD)
  show "\<not> is_space_char ?c" by (rule hex_char_no_space) simp
qed

lemma filled_uuid_str [simp]: "filled (JStr (uuid_str u)) = Some (uuid_str u)"
  by (simp add: filled_def)

definition linked_experiment :: "execution_plan \<Rightarrow> string option" where
  "linked_experiment p = extract_pulselab_experiment_id (pl_payload p)"

lemma extract_jset [simp]:
  "k \<notin> {''pulselab_experiment_id'', ''handoff''} \<Longrightarrow>
     extract_pulselab_experiment_id (jset k v d) = extract_pulselab_experiment_id d"
  "k \<noteq> ''experiment_status'' \<Longrightarrow> extract_experiment_status (jset k v d) = extract_experiment_status d"
  by (auto simp: extract_pulselab_experiment_id_def extract_experiment_status_def split: option.split)

lemma extract_jset_if [simp]:
  "k \<notin> {''pulselab_experiment_id'', ''handoff''} \<Longrightarrow>
     extract_pulselab_experiment_id (jset_if b k v d) = extract_pulselab_experiment_id d"
  "k \<noteq> ''experiment_status'' \<Longrightarrow> extract_experiment_status (jset_if b k v d) = extract_experiment_status d"
  by (simp_all add: jset_if_def)

lemma derived_values: "fst (derive_execution_state s out) \<in> {''running'', ''completed'', ''failed''}"
  by (simp add: derive_execution_state_def)

lemma payload_links [simp]:
  "extract_pulselab_experiment_id (reviewed_payload st a com t d) = extract_pulselab_experiment_id d"
  "extract_pulselab_experiment_id (scheduled_payload sf w a com t d) = extract_pulselab_experiment_id d"
  "extract_pulselab_experiment_id (tracked_payload e t d) = extract_pulselab_experiment_id d"
  "extract_pulselab_experiment_id (calibrated_payload cat s d) = extract_pulselab_experiment_id d"
  "extract_pulselab_experiment_id (handoff_payload (uuid_str u) env crit a com t d) = Some (uuid_str u)"
  "extract_pulselab_experiment_id (plan_dump p) = None"
  by (simp_all add: reviewed_payload_def scheduled_payload_def tracked_payload_def
      calibrated_payload_def Let_def split_beta)
    (simp_all add: extract_pulselab_experiment_id_def handoff_payload_def plan_dump_def Let_def
      filled_def jget_def as_dict_def)

lemma payload_status [simp]:
  "jget ''status'' (reviewed_payload st a com t d) = JStr st"
  "jget ''status'' (scheduled_payload sf w a com t d) = JStr ''scheduled''"
  "jget ''status'' (tracked_payload e t d) = jget ''status'' d"
  "jget ''status'' (calibrated_payload cat s d) = jget ''status'' d"
  "jget ''status'' (handoff_payload eid env crit a com t d) = jget ''status'' d"
  "jget ''status'' (plan_dump p) = JStr (po_status p)"
  by (simp_all add: reviewed_payload_def scheduled_payload_def tracked_payload_def
      calibrated_payload_def handoff_payload_def Let_def split_beta)
    (simp add: plan_dump_def jget_def)

lemma payload_tracking [simp]:
  "extract_experiment_status (reviewed_payload st a com t d) = extract_experiment_status d"
  "extract_experiment_status (scheduled_payload sf w a com t d) = extract_experiment_status d"
  "extract_experiment_status (handoff_payload eid env crit a com t d) = extract_experiment_status d"
  "extract_experiment_status (calibrated_payload cat s d) = extract_experiment_status d"
  "extract_experiment_status (tracked_payload e t d) = Some (fst (derive_execution_state (status e) (outcome e)))"
  "extract_experiment_status (plan_dump p) = None"
proof -
  show "extract_experiment_status (tracked_payload e t d) = Some (fst (derive_execution_state (status e) (outcome e)))"
    using derived_values [of "status e" "outcome e"]
    by (simp add: tracked_payload_def Let_def split_beta) (simp add: extract_experiment_status_def one_of_def)
qed (simp_all add: reviewed_payload_def scheduled_payload_def
      calibrated_payload_def handoff_payload_def Let_def extract_experiment_status_def one_of_def,
     simp add: plan_dump_def jget_def)

section \<open>Effect of the operations\<close>

lemma review_cases:
  assumes "update_plan_status pf c org pid new actor com db = (r, db')"
  obtains (refused) err where "r = Inl err" "db' = db"
  | (reviewed) p p' where "find_plan org pid db = Some p" "new \<in> set (ALLOWED_STATUS_TRANSITIONS (pl_status p))"
      "p' = p\<lparr>pl_status := new, pl_payload := reviewed_payload new actor com (clock c 0) (pl_payload p)\<rparr>"
      "r = Inr (pl_payload p')"
      "db' = plan_event pf org actor (if new = ''approved'' then ''execution_plan.approved''
          else ''execution_plan.rejected'') p (review_event_payload p new actor com) (fresh c 0, clock c 1)
          (put_plan p' db)"
  using assms by (auto simp: update_plan_status_def Let_def split: option.splits if_splits)

lemma schedule_cases:
  assumes "schedule_plan pf c org pid actor sf w com db = (r, db')"
  obtains (refused) err where "r = Inl err" "db' = db"
  | (scheduled) p p' where "find_plan org pid db = Some p" "pl_status p = ''approved''"
      "p' = p\<lparr>pl_status := ''scheduled'', pl_payload := scheduled_payload sf w actor com (clock c 0) (pl_payload p)\<rparr>"
      "r = Inr (pl_payload p')"
      "db' = plan_event pf org actor ''execution_plan.scheduled'' p
          (schedule_event_payload p sf w actor com) (fresh c 0, clock c 1) (put_plan p' db)"
  using assms by (auto simp: schedule_plan_def Let_def split: option.splits if_splits)

lemma handoff_cases:
  assumes "create_pulselab_handoff pf c org pid actor env crit com db = (r, db')"
  obtains (refused) err where "r = Inl err" "db' = db"
  | (handed) p p' e db1 where "find_plan org pid db = Some p" "pl_status p \<in> {''approved'', ''scheduled''}"
      "linked_experiment p = None"
      "create_experiment pf c org actor (handoff_request p env crit) db = (e, db1)"
      "p' = p\<lparr>pl_mode := ''pulselab_handoff'', pl_payload := handoff_payload (uuid_str (exp_id e)) env crit
          actor com (clock c 2) (pl_payload p)\<rparr>"
      "r = Inr (pl_payload p')"
      "db' = plan_event pf org actor ''execution_plan.handoff_created'' p
          (handoff_event_payload p (uuid_str (exp_id e)) env crit actor com) (fresh c 2, clock c 3)
          (put_plan p' db1)"
  using assms
  by (auto simp: create_pulselab_handoff_def linked_experiment_def Let_def
      split: option.splits if_splits prod.splits)

lemma record_frame:
  assumes "record_category_result c org cat e a db = (r, db')"
  shows "plans db' = plans db \<and> experiments db' = experiments db \<and> opportunities db' = opportunities db"
  using assms by (auto simp: record_category_result_def Let_def split: sum.splits option.splits)

lemma sync_cases:
  assumes "get_execution_status pf c org pid actor db = (r, db')"
  obtains (refused) err where "r = Inl err" "db' = db"
  | (synced) p e d where "find_plan org pid db = Some p" "\<exists>raw. linked_experiment p = Some raw \<and> uuid_of_str raw = Some (exp_id e)"
      "get_experiment org (exp_id e) db = Some e"
      "plans db' = row_put pl_id (p\<lparr>pl_payload := d\<rparr>) (plans db)" "experiments db' = experiments db"
      "d = tracked_payload e (clock c 0) (pl_payload p)
        \<or> (\<exists>cat s. d = calibrated_payload cat s (tracked_payload e (clock c 0) (pl_payload p)))"
      "\<And>x. r = Inr x \<Longrightarrow> x = sync_status p e"
proof (cases "find_plan org pid db")
  case None
  with assms refused show thesis by (auto simp: get_execution_status_def)
next
  case (Some p)
  note plan = this
  show thesis
  proof (cases "\<exists>raw eid e. linked_experiment p = Some raw \<and> uuid_of_str raw = Some eid
      \<and> get_experiment org eid db = Some e")
    case False
    with assms Some refused show thesis
      by (auto simp: get_execution_status_def linked_experiment_def split: option.splits)
  next
    case True
    then obtain raw e where e: "linked_experiment p = Some raw" "uuid_of_str raw = Some (exp_id e)"
      "get_experiment org (exp_id e) db = Some e" using get_experiment_Some by metis
    let ?p = "p\<lparr>pl_payload := tracked_payload e (clock c 0) (pl_payload p)\<rparr>"
    from assms Some e have run: "sync_execution_tracking pf c org actor p e db = (r, db')"
      by (simp add: get_execution_status_def linked_experiment_def)
    have twice: "row_put pl_id (p\<lparr>pl_payload := d\<rparr>) (row_put pl_id (p\<lparr>pl_payload := d'\<rparr>) rs) =
        row_put pl_id (p\<lparr>pl_payload := d\<rparr>) rs" for d d' rs
      by (simp add: row_put_def)
    define tracked where "tracked d \<longleftrightarrow> d = pl_payload ?p \<or> (\<exists>cat s. d = calibrated_payload cat s (pl_payload ?p))" for d
    have one: "tracked (pl_payload ?p)" and two: "tracked (calibrated_payload cat s (pl_payload ?p))" for cat s
      unfolding tracked_def by blast+
    define fits where "fits ds \<longleftrightarrow> (\<exists>d. ds = row_put pl_id (p\<lparr>pl_payload := d\<rparr>) (plans db) \<and> tracked d)" for ds
    have fits: "tracked d \<Longrightarrow> fits (row_put pl_id (p\<lparr>pl_payload := d\<rparr>) (plans db))" for d
      unfolding fits_def by blast
    from run fits [OF one] fits [OF two] have "experiments db' = experiments db \<and> fits (plans db')
      \<and> (\<forall>x. r = Inr x \<longrightarrow> x = sync_status p e)"
      by (auto simp: sync_execution_tracking_def sync_calibration_def Let_def twice
          split: if_splits option.splits prod.splits sum.splits dest!: record_frame)
    then obtain d where "plans db' = row_put pl_id (p\<lparr>pl_payload := d\<rparr>) (plans db)" "tracked d"
      "experiments db' = experiments db" "\<forall>x. r = Inr x \<longrightarrow> x = sync_status p e"
      unfolding fits_def by blast
    with synced plan e show thesis unfolding tracked_def by auto
  qed
qed

section \<open>Reachable databases\<close>

text \<open>
  One step is one call of the plan service, by any organization and on any input, or any other
  operation: one that leaves the plans alone and keeps every experiment, possibly changed, with its
  identifier and organization, as all operations of \<open>ExperimentLaws\<close> do. New identifiers are unused.
\<close>

inductive plan_step :: "platform \<Rightarrow> plan_db \<Rightarrow> plan_db \<Rightarrow> bool" for pf where
  prepare: "fresh c 0 \<notin> pl_id ` set (plans db) \<Longrightarrow>
     plan_step pf db (snd (prepare_plan pf c org ids mode actor db))"
| review: "plan_step pf db (snd (update_plan_status pf c org pid new actor_id com db))"
| schedule: "plan_step pf db (snd (schedule_plan pf c org pid actor_id sf w com db))"
| handoff: "fresh c 0 \<notin> exp_id ` set (experiments db) \<Longrightarrow>
     plan_step pf db (snd (create_pulselab_handoff pf c org pid actor_id env crit com db))"
| sync: "plan_step pf db (snd (get_execution_status pf c org pid actor_id db))"
| other: "plans db' = plans db \<Longrightarrow> covers (experiments db) (experiments db') \<Longrightarrow> plan_step pf db db'"

inductive plan_reach :: "platform \<Rightarrow> plan_db \<Rightarrow> bool" for pf where
  start: "plans db = [] \<Longrightarrow> plan_reach pf db"
| step: "plan_reach pf db \<Longrightarrow> plan_step pf db db' \<Longrightarrow> plan_reach pf db'"

definition plan_ok :: "optimization_experiment list \<Rightarrow> execution_plan \<Rightarrow> bool" where
  "plan_ok es p \<longleftrightarrow> jget ''status'' (pl_payload p) = JStr (pl_status p)
   \<and> pl_status p \<in> {''review_required'', ''blocked'', ''approved'', ''rejected'', ''scheduled''}
   \<and> (pl_status p \<in> {''review_required'', ''approved'', ''scheduled''} \<longrightarrow>
        plan_status_of (pl_gates p) = ''review_required'')
   \<and> (linked_experiment p \<noteq> None \<longrightarrow> pl_status p \<in> {''approved'', ''scheduled''})
   \<and> (\<forall>s. linked_experiment p = Some s \<longrightarrow> (\<exists>e\<in>set es. uuid_str (exp_id e) = s \<and> exp_org e = pl_org p))
   \<and> (extract_experiment_status (pl_payload p) \<noteq> None \<longrightarrow> linked_experiment p \<noteq> None)"

definition plans_ok :: "'z plan_db_scheme \<Rightarrow> bool" where
  "plans_ok db \<longleftrightarrow> distinct (map pl_id (plans db))
   \<and> list_all (plan_ok (experiments db)) (plans db)
   \<and> (\<forall>p\<in>set (plans db). \<forall>q\<in>set (plans db).
        linked_experiment p \<noteq> None \<and> linked_experiment p = linked_experiment q \<longrightarrow> p = q)"

lemma covers_id: "covers es es' \<Longrightarrow> e \<in> set es \<Longrightarrow> \<exists>e'\<in>set es'. exp_id e' = exp_id e \<and> exp_org e' = exp_org e"
  by (auto simp: covers_def successor_def)

lemma plan_ok_covers:
  assumes es: "covers es es'" and ok: "plan_ok es p"
  shows "plan_ok es' p"
proof -
  have "\<exists>e\<in>set es'. uuid_str (exp_id e) = s \<and> exp_org e = pl_org p" if "linked_experiment p = Some s" for s
  proof -
    from ok that obtain e where "e \<in> set es" "uuid_str (exp_id e) = s" "exp_org e = pl_org p"
      unfolding plan_ok_def by blast
    with covers_id [OF es] show ?thesis by force
  qed
  with ok show ?thesis unfolding plan_ok_def by blast
qed

lemma covers_refl: "covers es es"
  unfolding covers_def by (metis successor_refl)

lemma plans_ok_other:
  "plans_ok db \<Longrightarrow> plans db' = plans db \<Longrightarrow> covers (experiments db) (experiments db') \<Longrightarrow> plans_ok db'"
  by (auto simp: plans_ok_def list_all_iff intro: plan_ok_covers)

lemma distinct_key_eq: "distinct (map k xs) \<Longrightarrow> x \<in> set xs \<Longrightarrow> y \<in> set xs \<Longrightarrow> k x = k y \<Longrightarrow> x = y"
  by (simp add: distinct_map inj_on_def)

lemma plans_ok_put:
  assumes ok: "plans_ok db" and p: "find_plan org pid db = Some p" and key: "pl_id p' = pl_id p"
    and ok': "plan_ok (experiments db') p'" and put: "plans db' = row_put pl_id p' (plans db)"
    and es: "covers (experiments db) (experiments db')"
    and link: "linked_experiment p' = linked_experiment p
      \<or> (\<forall>q\<in>set (plans db). linked_experiment q \<noteq> linked_experiment p')"
  shows "plans_ok db'"
proof -
  from ok have d: "distinct (map pl_id (plans db))" by (simp add: plans_ok_def)
  have old: "q \<in> set (plans db) \<and> pl_id q \<noteq> pl_id p" if "q \<in> set (plans db')" "q \<noteq> p'" for q
    using that key unfolding put row_put_def by auto
  have inP: "p \<in> set (plans db)" using p by (simp add: find_plan_Some)
  have "distinct (map pl_id (plans db'))" using d put by simp
  moreover have "list_all (plan_ok (experiments db')) (plans db')"
    using ok ok' es old by (metis list_all_iff plan_ok_covers plans_ok_def)
  moreover have "q = r" if qr: "q \<in> set (plans db')" "r \<in> set (plans db')"
    and l: "linked_experiment q \<noteq> None" "linked_experiment q = linked_experiment r" for q r
  proof -
    have uniq: "x = p'" if "x \<in> set (plans db')" "linked_experiment x = linked_experiment p'"
        "linked_experiment x \<noteq> None" for x
    proof (rule ccontr)
      assume "x \<noteq> p'"
      with that(1) have x: "x \<in> set (plans db)" "pl_id x \<noteq> pl_id p" using old by auto
      with link that(2) have "linked_experiment x = linked_experiment p" by auto
      with ok x(1) inP that(3) have "x = p" by (auto simp: plans_ok_def)
      with x(2) show False by simp
    qed
    show ?thesis
    proof (cases "q = p' \<or> r = p'")
      case True
      with uniq qr l show ?thesis by metis
    next
      case False
      with ok old qr l show ?thesis unfolding plans_ok_def by blast
    qed
  qed
  ultimately show ?thesis unfolding plans_ok_def by blast
qed

lemma prepare_ok:
  assumes ok: "plans_ok db" and new: "fresh c 0 \<notin> pl_id ` set (plans db)"
  shows "plans_ok (snd (prepare_plan pf c org ids mode actor db))"
proof -
  let ?p = "plan_row org actor (clock c 0) (new_plan pf c mode (fetch_selected org ids db))"
  have fields: "pl_id ?p = fresh c 0" "linked_experiment ?p = None"
    by (simp_all add: plan_row_def new_plan_def Let_def linked_experiment_def)
  have okp: "plan_ok es ?p" for es
    using fields by (auto simp: plan_ok_def plan_row_def new_plan_def plan_status_of_def Let_def
        linked_experiment_def)
  have row: "plans_ok db'" if "plans db' = row_add ?p (plans db)" "experiments db' = experiments db" for db' :: "'a plan_db_scheme"
    using ok new fields okp unfolding plans_ok_def that row_add_def list_all_iff
    by (simp add: ball_Un) (metis option.distinct(1))
  show ?thesis
  proof (cases "length (fetch_selected org ids db) = length ids")
    case True
    then have "plans (snd (prepare_plan pf c org ids mode actor db)) = row_add ?p (plans db)"
      "experiments (snd (prepare_plan pf c org ids mode actor db)) = experiments db"
      by (simp_all add: prepare_plan_def persist_plan_def Let_def)
    then show ?thesis by (rule row)
  qed (simp add: prepare_plan_def Let_def ok)
qed

lemma plan_of: "plans_ok db \<Longrightarrow> find_plan org pid db = Some p \<Longrightarrow> plan_ok (experiments db) p"
  by (auto simp: plans_ok_def list_all_iff dest!: find_plan_Some)

lemma review_ok:
  assumes ok: "plans_ok db" shows "plans_ok (snd (update_plan_status pf c org pid new actor com db))"
proof -
  obtain r db' where run: "update_plan_status pf c org pid new actor com db = (r, db')" by fastforce
  then show ?thesis
  proof (cases rule: review_cases)
  case (reviewed p p')
  from plan_of [OF ok reviewed(1)] reviewed(2) have "plan_ok (experiments db) p'"
    by (auto simp: plan_ok_def reviewed(3) linked_experiment_def ALLOWED_STATUS_TRANSITIONS_def
        split: if_splits)
  then show ?thesis unfolding run snd_conv using reviewed(5)
    by (intro plans_ok_put [OF ok reviewed(1), of p']) (simp_all add: reviewed(3) linked_experiment_def covers_refl)
qed (simp add: ok run)
qed

lemma schedule_ok:
  assumes ok: "plans_ok db" shows "plans_ok (snd (schedule_plan pf c org pid actor sf w com db))"
proof -
  obtain r db' where run: "schedule_plan pf c org pid actor sf w com db = (r, db')" by fastforce
  then show ?thesis
  proof (cases rule: schedule_cases)
  case (scheduled p p')
  from plan_of [OF ok scheduled(1)] scheduled(2) have "plan_ok (experiments db) p'"
    by (simp add: plan_ok_def scheduled(3) linked_experiment_def)
  then show ?thesis unfolding run snd_conv using scheduled(5)
    by (intro plans_ok_put [OF ok scheduled(1), of p']) (simp_all add: scheduled(3) linked_experiment_def covers_refl)
qed (simp add: ok run)
qed

lemma handoff_ok:
  assumes ok: "plans_ok db" and new: "fresh c 0 \<notin> exp_id ` set (experiments db)"
  shows "plans_ok (snd (create_pulselab_handoff pf c org pid actor env crit com db))"
proof -
  obtain r db' where run: "create_pulselab_handoff pf c org pid actor env crit com db = (r, db')" by fastforce
  then show ?thesis
  proof (cases rule: handoff_cases)
  case (handed p p' e db1)
  note created = create_experiment_frame [OF handed(4)]
  have e: "exp_id e = fresh c 0" "exp_org e = org" using created(1) by (simp_all add: new_experiment_def)
  have link: "linked_experiment p' = Some (uuid_str (fresh c 0))"
    using handed(5) e by (simp add: linked_experiment_def)
  have org: "pl_org p = org" using handed(1) by (simp add: find_plan_Some)
  have "plan_ok (row_add e (experiments db)) p'"
    using plan_of [OF ok handed(1)] handed(2) link e org
    by (auto simp: plan_ok_def handed(5) linked_experiment_def row_add_def)
  moreover have "linked_experiment q \<noteq> linked_experiment p'" if "q \<in> set (plans db)" for q
  proof
    assume "linked_experiment q = linked_experiment p'"
    moreover from ok that have "plan_ok (experiments db) q" by (simp add: plans_ok_def list_all_iff)
    ultimately obtain x where "x \<in> set (experiments db)" "uuid_str (exp_id x) = uuid_str (fresh c 0)"
      unfolding plan_ok_def link by blast
    with new show False by (metis imageI uuid_str_inject)
  qed
  ultimately show ?thesis unfolding run snd_conv using handed(7) created
    by (intro plans_ok_put [OF ok handed(1), of p']) (auto simp: handed(5) covers_add)
qed (simp add: ok run)
qed

lemma sync_ok:
  assumes ok: "plans_ok db" shows "plans_ok (snd (get_execution_status pf c org pid actor db))"
proof -
  obtain r db' where run: "get_execution_status pf c org pid actor db = (r, db')" by fastforce
  then show ?thesis
  proof (cases rule: sync_cases)
  case (synced p e d)
  from synced(6) have d: "extract_pulselab_experiment_id d = extract_pulselab_experiment_id (pl_payload p)"
    "jget ''status'' d = jget ''status'' (pl_payload p)" by auto
  have "plan_ok (experiments db) (p\<lparr>pl_payload := d\<rparr>)"
    using plan_of [OF ok synced(1)] synced(2) d by (auto simp: plan_ok_def linked_experiment_def)
  then show ?thesis unfolding run snd_conv
    by (intro plans_ok_put [OF ok synced(1), of "p\<lparr>pl_payload := d\<rparr>"])
      (simp_all add: synced(4,5) d linked_experiment_def covers_refl)
qed (simp add: ok run)
qed

lemma plan_step_ok: "plan_step pf db db' \<Longrightarrow> plans_ok db \<Longrightarrow> plans_ok db'"
  by (induction rule: plan_step.induct)
    (simp_all add: prepare_ok review_ok schedule_ok handoff_ok sync_ok plans_ok_other)

lemma plan_reach_ok: "plan_reach pf db \<Longrightarrow> plans_ok db"
  by (induction rule: plan_reach.induct) (simp add: plans_ok_def, rule plan_step_ok)

section \<open>Conflicts\<close>

text \<open>The categories recorded under a resource are those of the selected opportunities with that key.\<close>

definition recorded :: "string \<Rightarrow> opportunity_category \<Rightarrow> (string \<times> opportunity_category list) list \<Rightarrow> bool" where
  "recorded k c m \<longleftrightarrow> (\<exists>e\<in>set m. fst e = k \<and> c \<in> set (snd e))"

definition by_resource_inv :: "opportunity set \<Rightarrow> (string \<times> opportunity_category list) list \<Rightarrow> bool" where
  "by_resource_inv S m \<longleftrightarrow> distinct (map fst m)
     \<and> (\<forall>k c. recorded k c m \<longleftrightarrow> (\<exists>o1\<in>S. resource_key o1 = Some k \<and> op_category o1 = c))"

lemma recorded_simps [simp]:
  "\<not> recorded k c []"
  "recorded k c ((k', cs) # m) \<longleftrightarrow> k' = k \<and> c \<in> set cs \<or> recorded k c m"
  by (auto simp: recorded_def)

lemma keys_add_category: "fst ` set (add_category k c m) = insert k (fst ` set m)"
  by (induction m rule: add_category.induct) auto

lemma distinct_add_category: "distinct (map fst m) \<Longrightarrow> distinct (map fst (add_category k c m))"
proof (induction m rule: add_category.induct)
  case (2 k c k' cs m)
  then show ?case using keys_add_category [of k c m] by (auto simp flip: set_map)
qed simp

lemma recorded_add_category [simp]:
  "recorded k' c' (add_category k c m) \<longleftrightarrow> k' = k \<and> c' = c \<or> recorded k' c' m"
proof (induction m)
  case (Cons e m)
  then show ?case by (cases e) auto
qed auto

lemma by_resource_step:
  assumes "by_resource_inv S m"
  shows "by_resource_inv (insert o1 S) (case resource_key o1 of None \<Rightarrow> m | Some k \<Rightarrow> add_category k (op_category o1) m)"
proof (cases "resource_key o1")
  case None
  with assms show ?thesis by (auto simp: by_resource_inv_def)
next
  case (Some k)
  with assms show ?thesis by (auto simp: by_resource_inv_def distinct_add_category)
qed

lemma by_resource_fold:
  "by_resource_inv S m \<Longrightarrow> by_resource_inv (S \<union> set os) (foldl (\<lambda>m o1. case resource_key o1 of
       None \<Rightarrow> m | Some k \<Rightarrow> add_category k (op_category o1) m) m os)"
proof (induction os arbitrary: S m)
  case (Cons o1 os)
  from Cons.IH [OF by_resource_step [OF Cons.prems, of o1]] show ?case by (simp add: Un_commute)
qed simp

lemma by_resource_ok: "by_resource_inv (set selected) (by_resource selected)"
  using by_resource_fold [of "{}" "[]" selected] by (simp add: by_resource_def by_resource_inv_def)

definition conflicting :: "opportunity list \<Rightarrow> bool" where
  "conflicting selected \<longleftrightarrow> (\<exists>a\<in>set selected. \<exists>b\<in>set selected.
     op_category a = AKS_NODEPOOL_RIGHTSIZING \<and> op_category b = AKS_AUTOSCALER_RECOMMENDATION
     \<and> resource_key a \<noteq> None \<and> resource_key a = resource_key b)"

lemma detect_conflicts_iff: "detect_conflicts selected \<noteq> [] \<longleftrightarrow> conflicting selected"
proof -
  let ?m = "by_resource selected"
  have inv: "by_resource_inv (set selected) ?m" by (rule by_resource_ok)
  then have d: "distinct (map fst ?m)" by (simp add: by_resource_inv_def)
  have same: "e = e'" if "e \<in> set ?m" "e' \<in> set ?m" "fst e = fst e'" for e e'
    using d that by (rule distinct_key_eq)
  have "detect_conflicts selected \<noteq> [] \<longleftrightarrow> (\<exists>e\<in>set ?m. set aks_categories \<subseteq> set (snd e))"
    by (simp add: detect_conflicts_def filter_empty_conv split_beta)
  also have "\<dots> \<longleftrightarrow> (\<exists>k. recorded k AKS_NODEPOOL_RIGHTSIZING ?m \<and> recorded k AKS_AUTOSCALER_RECOMMENDATION ?m)"
  proof
    assume "\<exists>e\<in>set ?m. set aks_categories \<subseteq> set (snd e)"
    then show "\<exists>k. recorded k AKS_NODEPOOL_RIGHTSIZING ?m \<and> recorded k AKS_AUTOSCALER_RECOMMENDATION ?m"
      by (auto simp: recorded_def aks_categories_def)
  next
    assume "\<exists>k. recorded k AKS_NODEPOOL_RIGHTSIZING ?m \<and> recorded k AKS_AUTOSCALER_RECOMMENDATION ?m"
    then obtain e e' where e: "e \<in> set ?m" "AKS_NODEPOOL_RIGHTSIZING \<in> set (snd e)" "e' \<in> set ?m"
      "AKS_AUTOSCALER_RECOMMENDATION \<in> set (snd e')" "fst e = fst e'"
      unfolding recorded_def by metis
    moreover from e same have "e = e'" by blast
    ultimately show "\<exists>e\<in>set ?m. set aks_categories \<subseteq> set (snd e)" by (auto simp: aks_categories_def)
  qed
  also have "\<dots> \<longleftrightarrow> conflicting selected"
    using inv by (auto simp: by_resource_inv_def conflicting_def) metis+
  finally show ?thesis .
qed

section \<open>Properties\<close>

lemma fetch_selected_complete:
  assumes key: "distinct (map op_id (opportunities db))"
  shows "length (fetch_selected org ids db) = length ids \<longleftrightarrow>
    distinct ids \<and> (\<forall>i\<in>set ids. \<exists>o1\<in>set (opportunities db). op_id o1 = i \<and> op_org o1 = org)"
proof -
  let ?f = "fetch_selected org ids db"
  have d: "distinct (map op_id ?f)" using key by (simp add: fetch_selected_def distinct_map_filter)
  have sub: "op_id ` set ?f \<subseteq> set ids" by (auto simp: fetch_selected_def)
  have all: "op_id ` set ?f = set ids \<longleftrightarrow> (\<forall>i\<in>set ids. \<exists>o1\<in>set (opportunities db). op_id o1 = i \<and> op_org o1 = org)"
    by (force simp: fetch_selected_def)
  have len: "length ?f = card (op_id ` set ?f)" using d by (metis distinct_card length_map set_map)
  have le: "card (op_id ` set ?f) \<le> card (set ids)" "card (set ids) \<le> length ids"
    using sub by (simp_all add: card_mono card_length)
  have "length ?f = length ids \<longleftrightarrow> card (op_id ` set ?f) = card (set ids) \<and> card (set ids) = length ids"
    using len le by linarith
  also have "card (op_id ` set ?f) = card (set ids) \<longleftrightarrow> op_id ` set ?f = set ids"
    using card_subset_eq [OF _ sub] by auto
  finally show ?thesis using all by (metis card_distinct distinct_card)
qed

lemma gates_blocked:
  "plan_status_of (gates_of pf selected conflicts) =
     (if \<exists>o1\<in>set selected. or_zero (op_savings o1) \<le> 0 \<or> py_strip (text_of (op_playbook o1)) = []
      then ''blocked'' else ''review_required'')"
  by (auto simp: plan_status_of_def gates_of_def list_ex_iff)

text \<open>
  A plan is prepared exactly when the requested opportunities are distinct and all
  belong to the organization. It is blocked exactly when a selected opportunity saves nothing or has
  a blank playbook, and the conflict gate fires exactly when both kinds of AKS change are selected
  for one resource; otherwise nothing changes. A request that only repeats an identifier is refused
  with a message that names no opportunity.
\<close>

theorem prepare_plan_exact:
  assumes key: "distinct (map op_id (opportunities db))"
  shows "case prepare_plan pf c org ids mode actor db of
     (Inr p, db') \<Rightarrow> distinct ids
       \<and> (\<forall>i\<in>set ids. \<exists>o1\<in>set (opportunities db). op_id o1 = i \<and> op_org o1 = org)
       \<and> (po_status p = ''blocked'') = (\<exists>o1\<in>set (fetch_selected org ids db).
            or_zero (op_savings o1) \<le> 0 \<or> py_strip (text_of (op_playbook o1)) = [])
       \<and> (''aks_conflict_same_nodepool'' \<in> set (po_gates p)) = conflicting (fetch_selected org ids db)
       \<and> plans db' = plans db @ [plan_row org actor (clock c 0) p]
   | (Inl err, db') \<Rightarrow> db' = db
       \<and> (\<not> distinct ids \<or> (\<exists>i\<in>set ids. \<forall>o1\<in>set (opportunities db). op_id o1 = i \<longrightarrow> op_org o1 \<noteq> org))
       \<and> ((\<forall>i\<in>set ids. \<exists>o1\<in>set (opportunities db). op_id o1 = i \<and> op_org o1 = org) \<longrightarrow>
            err = ValueError ''Opportunities not found: '')"
proof (cases "length (fetch_selected org ids db) = length ids")
  case True
  let ?sel = "fetch_selected org ids db"
  let ?p = "new_plan pf c mode ?sel"
  have run: "prepare_plan pf c org ids mode actor db = (Inr ?p, persist_plan pf c org actor ?p db)"
    using True by (simp add: prepare_plan_def Let_def)
  have "po_status ?p = plan_status_of (gates_of pf ?sel (detect_conflicts ?sel))"
    and gates: "po_gates ?p = gates_of pf ?sel (detect_conflicts ?sel)"
    by (simp_all add: new_plan_def Let_def)
  then have "(po_status ?p = ''blocked'') = (\<exists>o1\<in>set ?sel. or_zero (op_savings o1) \<le> 0
      \<or> py_strip (text_of (op_playbook o1)) = [])" by (simp add: gates_blocked)
  moreover have "(''aks_conflict_same_nodepool'' \<in> set (po_gates ?p)) = conflicting ?sel"
    unfolding gates detect_conflicts_iff [symmetric] by (simp add: gates_of_def)
  moreover have "plans (persist_plan pf c org actor ?p db) = plans db @ [plan_row org actor (clock c 0) ?p]"
    by (simp add: persist_plan_def row_add_def)
  ultimately show ?thesis unfolding run using True fetch_selected_complete [OF key, of org ids] by simp
next
  case False
  have "filter (\<lambda>i. i \<notin> op_id ` set (fetch_selected org ids db)) ids = []"
    if "\<forall>i\<in>set ids. \<exists>o1\<in>set (opportunities db). op_id o1 = i \<and> op_org o1 = org"
    using that by (fastforce simp: filter_empty_conv fetch_selected_def)
  with False fetch_selected_complete [OF key, of org ids] show ?thesis
    by (auto simp: prepare_plan_def Let_def)
qed

text \<open>
  C4 (safety): whatever calls were made, an experiment is only ever linked to a plan that was
  approved, so no gate blocked it; the experiment exists in the plan's organization, and no other
  plan is linked to it. A decision is final: a rejected or blocked plan has no experiment.
\<close>

theorem handoff_only_unblocked:
  assumes "plan_reach pf db" and "p \<in> set (plans db)" and "linked_experiment p = Some s"
  shows "pl_status p \<in> {''approved'', ''scheduled''} \<and> plan_status_of (pl_gates p) = ''review_required''
    \<and> (\<exists>e\<in>set (experiments db). uuid_str (exp_id e) = s \<and> exp_org e = pl_org p)
    \<and> (\<forall>q\<in>set (plans db). linked_experiment q = Some s \<longrightarrow> q = p)"
proof -
  from plan_reach_ok [OF assms(1)] have ok: "plans_ok db" .
  with assms(2) have "plan_ok (experiments db) p" by (simp add: plans_ok_def list_all_iff)
  with assms(3) show ?thesis using ok assms(2) by (auto simp: plan_ok_def plans_ok_def)
qed

text \<open>
  A handoff that succeeds had an approved or scheduled plan without an experiment.
  It creates exactly one experiment, a draft that names the plan, with no guardrails, so it is never
  treated as high risk whatever the risk of the plan, and it links the plan to it; a second handoff
  of the plan is refused and changes nothing.
\<close>

theorem handoff_creates_one_draft:
  assumes run: "create_pulselab_handoff pf c org pid actor env crit com db = (Inr d, db')"
  shows "\<exists>p e. find_plan org pid db = Some p \<and> pl_status p \<in> {''approved'', ''scheduled''}
    \<and> linked_experiment p = None
    \<and> experiments db' = experiments db @ [e] \<and> status e = DRAFT \<and> exp_org e = org
    \<and> owner_id e = Some actor \<and> causal_change_event_ids e = Some [uuid_str pid]
    \<and> guardrails e = None \<and> \<not> is_high_risk e
    \<and> extract_pulselab_experiment_id d = Some (uuid_str (exp_id e))
    \<and> (\<exists>err. create_pulselab_handoff pf c2 org pid actor2 env2 crit2 com2 db' = (Inl err, db'))"
  using run
proof (cases rule: handoff_cases)
  case (handed p p' e db1)
  note created = create_experiment_frame [OF handed(4)]
  have pid: "pl_id p = pid" "pl_org p = org" using handed(1) by (simp_all add: find_plan_Some)
  have low: "(0::pyfloat) < fl (7/10)" "(0::pyfloat) < fl (2/10)" "(0::pyfloat) < fl (1/10)" by code_simp+
  have e: "status e = DRAFT" "exp_org e = org" "owner_id e = Some actor"
    "causal_change_event_ids e = Some [uuid_str pid]" "guardrails e = None" "\<not> is_high_risk e"
    using low by (simp_all add: created(1) new_experiment_def handoff_request_def pid is_high_risk_def)
  have find1: "find_plan org pid db1 = Some p" using handed(1) created(3) by (simp add: find_plan_def)
  have "find_plan org pid (put_plan p' db1) = Some p'"
    using find_put_plan [OF find1, of p' org pid] by (simp add: handed(5))
  then have "find_plan org pid db' = Some p'" unfolding handed(7) by (simp add: find_plan_def)
  moreover have "extract_pulselab_experiment_id (pl_payload p') = Some (uuid_str (exp_id e))"
    "pl_status p' = pl_status p" by (simp_all add: handed(5))
  ultimately have "create_pulselab_handoff pf c2 org pid actor2 env2 crit2 com2 db' =
      (Inl (InvalidExecutionPlanTransition (''Execution plan already handed off to PulseLab: '' @ uuid_str (exp_id e))), db')"
    using handed(2) by (simp add: create_pulselab_handoff_def)
  moreover have "experiments db' = experiments db @ [e]"
    unfolding handed(7) using created(2) by (simp add: row_add_def)
  ultimately show ?thesis using handed e \<open>extract_pulselab_experiment_id (pl_payload p') = _\<close> by auto
qed simp

text \<open>
  Synchronizing an experiment is idempotent. Once a call succeeded, another one,
  while the experiment did not change, returns the same status and only refreshes the plan's payload:
  no audit event, no calibration, no experiment is added, so one result is calibrated at most once.
\<close>

theorem sync_idempotent:
  assumes run: "get_execution_status pf c org pid actor db = (Inr x, db1)"
  shows "fst (get_execution_status pf c2 org pid actor2 db1) = Inr x
    \<and> events (snd (get_execution_status pf c2 org pid actor2 db1)) = events db1
    \<and> calibrations (snd (get_execution_status pf c2 org pid actor2 db1)) = calibrations db1
    \<and> experiments (snd (get_execution_status pf c2 org pid actor2 db1)) = experiments db1
    \<and> map pl_status (plans (snd (get_execution_status pf c2 org pid actor2 db1))) = map pl_status (plans db1)"
  using run
proof (cases rule: sync_cases)
  case (synced p e d)
  let ?p = "p\<lparr>pl_payload := d\<rparr>"
  have x: "x = sync_status p e" using synced(7) by simp
  have "find_plan org pid (put_plan ?p db) = Some ?p"
    using find_put_plan [OF synced(1), of ?p org pid] by simp
  then have plan: "find_plan org pid db1 = Some ?p" using synced(4) by (simp add: find_plan_def)
  from synced(6) have d: "extract_pulselab_experiment_id d = extract_pulselab_experiment_id (pl_payload p)"
    "extract_experiment_status d = Some (xs_status (sync_status p e))"
    by (auto simp: sync_status_def Let_def)
  have same: "sync_status ?p e = sync_status p e" by (simp add: sync_status_def)
  from synced(2) obtain raw where raw: "extract_pulselab_experiment_id (pl_payload p) = Some raw"
      "uuid_of_str raw = Some (exp_id e)" by (auto simp: linked_experiment_def)
  have "get_experiment org (exp_id e) db1 = Some e" using synced(3,5) by (simp add: get_experiment_def)
  with plan raw d(1) have "get_execution_status pf c2 org pid actor2 db1 = sync_execution_tracking pf c2 org actor2 ?p e db1"
    by (simp add: get_execution_status_def)
  also have "\<dots> = (Inr x, put_plan (?p\<lparr>pl_payload := tracked_payload e (clock c2 0) d\<rparr>) db1)"
    using d(2) by (simp add: sync_execution_tracking_def Let_def same x)
  finally show ?thesis using synced(4) by (simp add: row_put_def)
qed simp

section \<open>A plan from preparation to a synchronized experiment\<close>

definition sample_opportunity :: opportunity where
  "sample_opportunity = \<lparr>op_id = 5, op_org = 1, op_title = ''t'', op_category = RIGHTSIZING,
     op_composite_score = 50, op_savings = Some 100, op_risk = RISK_LOW, op_effort = EFFORT_LOW,
     op_status = OPP_OPEN, op_resource_id = None, op_playbook = Some ''p'', op_evidence = None, op_account = None,
     op_description = [], op_financial_score = 0, op_risk_score = 0, op_effort_score = 0,
     op_criticality_score = 0, op_annual_savings = 0, op_current_cost = 0, op_resource_name = None,
     op_sku_name = None, op_machine_family = None, op_service = None, op_region = None,
     op_environment = None, op_owner_team = None, op_rationale = None, op_created = 0, op_detected = 0\<rparr>"

definition sample_plan_db :: plan_db where
  "sample_plan_db = \<lparr>events = [], checkpoints = [], alerts = [], bundles = [], evidence = [],
     experiments = [], runs = [], approvals = [], opportunities = [sample_opportunity],
     calibrations = [], plans = []\<rparr>"

definition db_prepared :: plan_db where
  "db_prepared = snd (prepare_plan toy_platform sample_call 1 [5] ''manual_review'' None sample_plan_db)"

definition db_approved :: plan_db where
  "db_approved = snd (update_plan_status toy_platform sample_call 1 0 ''approved'' 2 None db_prepared)"

definition db_handed :: plan_db where
  "db_handed = snd (create_pulselab_handoff toy_platform sample_call 1 0 2 ''staging'' ''low'' None db_approved)"

lemma sample_plan_prepared:
  "plans db_prepared = [plan_row 1 None 0 (new_plan toy_platform sample_call ''manual_review'' [sample_opportunity])]"
  "experiments db_prepared = []"
  by (simp_all add: db_prepared_def prepare_plan_def fetch_selected_def sample_plan_db_def
      sample_opportunity_def persist_plan_def row_add_def Let_def sample_call_def)

lemma sample_status:
  "pl_status (plan_row 1 None 0 (new_plan toy_platform sample_call ''manual_review'' [sample_opportunity])) = ''review_required''"
proof -
  have "py_strip ''p'' = ''p''" by code_simp
  then show ?thesis
    by (simp add: plan_row_def new_plan_def Let_def gates_blocked sample_opportunity_def or_zero_def text_of_def)
qed

lemma sample_plan_approved:
  obtains p where "plans db_approved = [p]" "pl_status p = ''approved''" "pl_id p = 0" "pl_org p = 1"
    "linked_experiment p = None" "experiments db_approved = []"
    "\<exists>d. update_plan_status toy_platform sample_call 1 0 ''approved'' 2 None db_prepared = (Inr d, db_approved)"
proof -
  let ?p = "plan_row 1 None 0 (new_plan toy_platform sample_call ''manual_review'' [sample_opportunity])"
  have p: "pl_id ?p = 0" "pl_org ?p = 1" "linked_experiment ?p = None"
    by (simp_all add: plan_row_def new_plan_def Let_def linked_experiment_def sample_call_def)
  then have "find_plan 1 0 db_prepared = Some ?p"
    by (simp add: find_plan_def row_find_def sample_plan_prepared)
  then have "\<exists>q. plans db_approved = [q] \<and> pl_status q = ''approved'' \<and> pl_id q = 0 \<and> pl_org q = 1
      \<and> linked_experiment q = None \<and> experiments db_approved = []
      \<and> (\<exists>d. update_plan_status toy_platform sample_call 1 0 ''approved'' 2 None db_prepared = (Inr d, db_approved))"
    using p by (simp add: db_approved_def update_plan_status_def ALLOWED_STATUS_TRANSITIONS_def sample_status
        Let_def sample_plan_prepared row_put_def linked_experiment_def)
  then show thesis using that by blast
qed

lemma sample_plan_handed:
  obtains p d where "plans db_handed = [p]" "pl_id p = 0" "pl_org p = 1"
    "linked_experiment p = Some (uuid_str 0)"
    "experiments db_handed = [new_experiment sample_call 1 2 (handoff_request p ''staging'' ''low'')]"
    "create_pulselab_handoff toy_platform sample_call 1 0 2 ''staging'' ''low'' None db_approved = (Inr d, db_handed)"
proof -
  obtain q where q: "plans db_approved = [q]" "pl_status q = ''approved''" "pl_id q = 0" "pl_org q = 1"
    "linked_experiment q = None" "experiments db_approved = []" using sample_plan_approved by metis
  let ?r = "create_pulselab_handoff toy_platform sample_call 1 0 2 ''staging'' ''low'' None db_approved"
  have find: "find_plan 1 0 db_approved = Some q" using q by (simp add: find_plan_def row_find_def)
  have run: "?r = (fst ?r, db_handed)" by (simp add: db_handed_def)
  then show thesis
  proof (cases rule: handoff_cases)
    case (refused err)
    then show thesis using find q by (auto simp: create_pulselab_handoff_def linked_experiment_def Let_def split: prod.splits)
  next
    case (handed p p' e db1)
    note created = create_experiment_frame [OF handed(4)]
    have p: "p = q" using handed(1) find by simp
    have e: "exp_id e = 0" by (simp add: created(1) new_experiment_def sample_call_def)
    have req: "handoff_request p' x y = handoff_request p x y" for x y
      by (simp add: handed(5) handoff_request_def)
    from run handed(6) have "?r = (Inr (pl_payload p'), db_handed)" by simp
    moreover have "plans db_handed = [p']" unfolding handed(7) using created(3) q p by (simp add: row_put_def handed(5))
    moreover have "experiments db_handed = [e]" unfolding handed(7) using created(2) q by (simp add: row_add_def)
    moreover have "pl_id p' = 0" "pl_org p' = 1" "linked_experiment p' = Some (uuid_str 0)"
      using q p e by (simp_all add: handed(5) linked_experiment_def)
    ultimately show thesis using that created(1) req by metis
  qed
qed

lemma sample_plan_reach: "plan_reach toy_platform db_handed"
proof -
  have "plan_reach toy_platform sample_plan_db" by (rule plan_reach.start) (simp add: sample_plan_db_def)
  then have "plan_reach toy_platform db_prepared" unfolding db_prepared_def
    by (rule plan_reach.step) (rule plan_step.prepare, simp add: sample_plan_db_def)
  then have "plan_reach toy_platform db_approved" unfolding db_approved_def
    by (rule plan_reach.step) (rule plan_step.review)
  moreover have "experiments db_approved = []" using sample_plan_approved by metis
  ultimately show ?thesis unfolding db_handed_def
    by - (rule plan_reach.step, assumption, rule plan_step.handoff, simp)
qed

theorem prepare_plan_exact_witness:
  "po_status (projr (fst (prepare_plan toy_platform sample_call 1 [5] ''manual_review'' None sample_plan_db))) \<noteq> ''blocked''"
proof -
  have strip: "py_strip ''p'' = ''p''" by code_simp
  have "distinct (map op_id (opportunities sample_plan_db))" by (simp add: sample_plan_db_def)
  from prepare_plan_exact [OF this, where pf = toy_platform and c = sample_call and org = 1 and ids = "[5]"
      and mode = "''manual_review''" and actor = None]
  show ?thesis by (auto simp: fetch_selected_def sample_plan_db_def sample_opportunity_def or_zero_def text_of_def strip split: prod.splits sum.splits)
qed

theorem handoff_only_unblocked_witness:
  "\<exists>p\<in>set (plans db_handed). pl_status p \<in> {''approved'', ''scheduled''}"
proof -
  obtain p where "plans db_handed = [p]" "linked_experiment p = Some (uuid_str 0)"
    using sample_plan_handed by metis
  then show ?thesis using handoff_only_unblocked [OF sample_plan_reach, of p] by simp
qed

theorem handoff_creates_one_draft_witness:
  "\<exists>e. experiments db_handed = experiments db_approved @ [e] \<and> status e = DRAFT"
proof -
  obtain d where "create_pulselab_handoff toy_platform sample_call 1 0 2 ''staging'' ''low'' None db_approved
      = (Inr d, db_handed)" using sample_plan_handed by metis
  from handoff_creates_one_draft [OF this] show ?thesis by blast
qed

theorem sync_idempotent_witness:
  "\<exists>x db1. get_execution_status toy_platform sample_call 1 0 2 db_handed = (Inr x, db1)
    \<and> events (snd (get_execution_status toy_platform sample_call 1 0 3 db1)) = events db1"
proof -
  obtain p where p: "plans db_handed = [p]" "pl_id p = 0" "pl_org p = 1" "linked_experiment p = Some (uuid_str 0)"
    "experiments db_handed = [new_experiment sample_call 1 2 (handoff_request p ''staging'' ''low'')]"
    using sample_plan_handed by metis
  let ?e = "new_experiment sample_call 1 2 (handoff_request p ''staging'' ''low'')"
  have e: "exp_id ?e = 0" "exp_org ?e = 1" "status ?e = DRAFT" by (simp_all add: new_experiment_def sample_call_def)
  have "find_plan 1 0 db_handed = Some p" "get_experiment 1 0 db_handed = Some ?e"
    using p e by (simp_all add: find_plan_def get_experiment_def row_find_def)
  with p have "get_execution_status toy_platform sample_call 1 0 2 db_handed
      = sync_execution_tracking toy_platform sample_call 1 2 p ?e db_handed"
    by (simp add: get_execution_status_def linked_experiment_def)
  moreover have "\<exists>db1. sync_execution_tracking toy_platform sample_call 1 2 p ?e db_handed = (Inr (sync_status p ?e), db1)"
    using e(3) by (simp add: sync_execution_tracking_def Let_def sync_calibration_def sync_status_def
        derive_execution_state_def)
  ultimately obtain db1 where "get_execution_status toy_platform sample_call 1 0 2 db_handed = (Inr (sync_status p ?e), db1)"
    by auto
  with sync_idempotent [OF this] show ?thesis by blast
qed

end
