(* ===== verification/AuthState.thy ===== *)
theory AuthState
  imports PolicyLog
begin

text \<open>
  The tables of \<open>domains/auth/models.py\<close> (organizations, key rings, users, challenges, backup codes,
  passkeys, revoked tokens) as an extension of the audit log's session, the selects and inserts the
  services share, and the operations of the external cryptography as a record of functions. What a
  call draws from \<open>secrets\<close> is an argument, a stream of strings.
\<close>

section \<open>External cryptography and settings\<close>

text \<open>The claims of the tokens the service signs; a claim a token does not carry is \<open>None\<close>.\<close>

record claims =
  cl_sub :: "string option"
  cl_exp :: int
  cl_iat :: "int option"
  cl_type :: string
  cl_org :: "string option"
  cl_role :: "string option"
  cl_provider :: "string option"
  cl_nonce :: "string option"

text \<open>
  \<open>fe_encrypt key randomness text\<close> and \<open>fe_decrypt key token\<close> are Fernet (no token: it raises),
  \<open>pw_hash salt password\<close> and \<open>pw_verify password hash\<close> are passlib's bcrypt context,
  \<open>jwt_encode\<close> and \<open>jwt_decode now\<close> are python-jose under the service's secret with expiry checked (a token is good up to and including
  the second it expires in), \<open>hmac_sha1 key message\<close> is the raw digest, a list of bytes.
\<close>

record crypto =
  fe_encrypt :: "string \<Rightarrow> string \<Rightarrow> string \<Rightarrow> string"
  fe_decrypt :: "string \<Rightarrow> string \<Rightarrow> string option"
  fe_master :: string
  pw_hash :: "string \<Rightarrow> string \<Rightarrow> string"
  pw_verify :: "string \<Rightarrow> string \<Rightarrow> bool"
  jwt_encode :: "claims \<Rightarrow> string"
  jwt_decode :: "instant \<Rightarrow> string \<Rightarrow> claims option"
  hmac_sha1 :: "string \<Rightarrow> string \<Rightarrow> string"
  access_minutes :: int
  refresh_days :: int

definition fernet_ok :: "crypto \<Rightarrow> bool" where
  "fernet_ok cr \<longleftrightarrow> (\<forall>k r m. fe_decrypt cr k (fe_encrypt cr k r m) = Some m)"

definition passwords_ok :: "crypto \<Rightarrow> bool" where
  "passwords_ok cr \<longleftrightarrow> (\<forall>s p. pw_verify cr p (pw_hash cr s p))"

definition jwt_ok :: "crypto \<Rightarrow> bool" where
  "jwt_ok cr \<longleftrightarrow> (\<forall>now c. jwt_decode cr now (jwt_encode cr c) =
     (if now div 1000000 \<le> cl_exp c then Some c else None))"

section \<open>Tables\<close>

record organization =
  og_id :: uuid
  og_name :: string
  og_slug :: string
  og_passwordless_only :: bool
  og_lifecycle :: lifecycle_state
  og_quota :: int
  og_suspended_at :: "instant option"
  og_suspended_reason :: "string option"

record keyring =
  kr_id :: uuid
  kr_org :: uuid
  kr_version :: int
  kr_material :: string
  kr_active :: bool
  kr_rotated_at :: "instant option"

record user =
  us_id :: uuid
  us_org :: "uuid option"
  us_email :: string
  us_full_name :: string
  us_password :: string
  us_role :: user_role
  us_active :: bool
  us_passkey_enabled :: bool
  us_totp_enabled :: bool
  us_totp_secret :: "string option"
  us_totp_verified_at :: "instant option"
  us_must_change :: bool
  us_password_changed_at :: "instant option"
  us_terms_accepted_at :: "instant option"
  us_terms_version :: "string option"
  us_created_at :: instant
  us_last_login :: "instant option"
  us_deleted_at :: "instant option"

record challenge =
  ch_id :: uuid
  ch_org :: "uuid option"
  ch_user :: uuid
  ch_text :: string
  ch_purpose :: string
  ch_expires_at :: instant
  ch_consumed_at :: "instant option"

record backup_code =
  bc_id :: uuid
  bc_user :: uuid
  bc_hash :: string
  bc_used_at :: "instant option"

record passkey =
  pk_id :: uuid
  pk_org :: uuid
  pk_user :: uuid
  pk_credential :: string
  pk_key :: json
  pk_sign_count :: int
  pk_transports :: string
  pk_created_at :: instant
  pk_last_used_at :: "instant option"

record revoked_token =
  rv_jti :: string
  rv_user :: uuid
  rv_revoked_at :: instant
  rv_expires_at :: instant

record auth_db = audit_db +
  orgs :: "organization list"
  keyrings :: "keyring list"
  users :: "user list"
  challenges :: "challenge list"
  backup_codes :: "backup_code list"
  passkeys :: "passkey list"
  revoked :: "revoked_token list"

section \<open>Selects and inserts\<close>

definition get_user_by_email :: "string \<Rightarrow> 'z auth_db_scheme \<Rightarrow> user option" where
  "get_user_by_email email db = row_find us_email email (users db)"

definition get_user_by_id :: "uuid \<Rightarrow> 'z auth_db_scheme \<Rightarrow> user option" where
  "get_user_by_id uid db = row_find us_id uid (users db)"

definition get_org :: "uuid \<Rightarrow> 'z auth_db_scheme \<Rightarrow> organization option" where
  "get_org org db = row_find og_id org (orgs db)"

definition get_org_name :: "uuid option \<Rightarrow> 'z auth_db_scheme \<Rightarrow> string" where
  "get_org_name org db = (case org of None \<Rightarrow> []
     | Some i \<Rightarrow> (case get_org i db of None \<Rightarrow> [] | Some g \<Rightarrow> og_name g))"

definition put_user :: "user \<Rightarrow> 'z auth_db_scheme \<Rightarrow> 'z auth_db_scheme" where
  "put_user u db = db\<lparr>users := row_put us_id u (users db)\<rparr>"

definition put_org :: "organization \<Rightarrow> 'z auth_db_scheme \<Rightarrow> 'z auth_db_scheme" where
  "put_org g db = db\<lparr>orgs := row_put og_id g (orgs db)\<rparr>"

text \<open>
  Inserts of a user and of an organization: the unique columns and the reference to an organization
  are checked at the flush.
\<close>

definition insert_user :: "user \<Rightarrow> ('z auth_db_scheme, user) svc" where
  "insert_user u db =
     (if us_email u \<in> us_email ` set (users db) then (Inl (IntegrityError ''users.email''), db)
      else if us_org u \<notin> insert None (Some ` og_id ` set (orgs db))
      then (Inl (IntegrityError ''users.org_id''), db)
      else (Inr u, db\<lparr>users := row_add u (users db)\<rparr>))"

definition insert_org :: "organization \<Rightarrow> ('z auth_db_scheme, organization) svc" where
  "insert_org g db =
     (if og_slug g \<in> og_slug ` set (orgs db) then (Inl (IntegrityError ''organizations.slug''), db)
      else (Inr g, db\<lparr>orgs := row_add g (orgs db)\<rparr>))"

text \<open>An audit event of a user's organization: a user without one violates the column's constraint.\<close>

definition user_event ::
  "platform \<Rightarrow> uuid option \<Rightarrow> uuid \<Rightarrow> string \<Rightarrow> string \<Rightarrow> string \<Rightarrow> (string \<times> pyval) list \<Rightarrow> stamp
   \<Rightarrow> ('z auth_db_scheme, unit) svc" where
  "user_event pf org actor kind entity eid data st db =
     (case org of
        None \<Rightarrow> (Inl (IntegrityError ''audit_chain_events.org_id''), db)
      | Some i \<Rightarrow> (Inr (), append_event pf i (Some actor) kind entity eid (PDict data) st db))"

section \<open>Frames\<close>

lemma auth_append_event [simp]:
  "orgs (append_event pf org a t n i p st db) = orgs db"
  "keyrings (append_event pf org a t n i p st db) = keyrings db"
  "users (append_event pf org a t n i p st db) = users db"
  "challenges (append_event pf org a t n i p st db) = challenges db"
  "backup_codes (append_event pf org a t n i p st db) = backup_codes db"
  "passkeys (append_event pf org a t n i p st db) = passkeys db"
  "revoked (append_event pf org a t n i p st db) = revoked db"
  by (simp_all add: append_event_def Let_def)

lemma put_user_frame [simp]:
  "users (put_user u db) = row_put us_id u (users db)"
  "orgs (put_user u db) = orgs db"
  "keyrings (put_user u db) = keyrings db"
  "challenges (put_user u db) = challenges db"
  "backup_codes (put_user u db) = backup_codes db"
  "passkeys (put_user u db) = passkeys db"
  "revoked (put_user u db) = revoked db"
  "events (put_user u db) = events db"
  by (simp_all add: put_user_def)

interpretation user_rows: keyed_table us_id "row_find us_id" "row_put us_id" row_add
  by (rule keyed_table_rows)

interpretation org_rows: keyed_table og_id "row_find og_id" "row_put og_id" row_add
  by (rule keyed_table_rows)

lemma get_user_append_event [simp]:
  "get_user_by_id uid (append_event pf org a t n i p st db) = get_user_by_id uid db"
  "get_user_by_email em (append_event pf org a t n i p st db) = get_user_by_email em db"
  "get_org g (append_event pf org a t n i p st db) = get_org g db"
  by (simp_all add: get_user_by_id_def get_user_by_email_def get_org_def)

lemma user_event_cases:
  "user_event pf org actor kind entity eid data st db = (r, db') \<Longrightarrow>
     (org = None \<and> r = Inl (IntegrityError ''audit_chain_events.org_id'') \<and> db' = db)
     \<or> (\<exists>i. org = Some i \<and> r = Inr () \<and> db' = append_event pf i (Some actor) kind entity eid (PDict data) st db)"
  by (auto simp: user_event_def split: option.splits)

lemma get_user_by_id_Some: "get_user_by_id uid db = Some u \<Longrightarrow> u \<in> set (users db) \<and> us_id u = uid"
  by (auto simp: get_user_by_id_def dest: row_find_Some)

lemma get_user_by_email_Some: "get_user_by_email em db = Some u \<Longrightarrow> u \<in> set (users db) \<and> us_email u = em"
  by (auto simp: get_user_by_email_def dest: row_find_Some)

lemma get_put_user:
  "get_user_by_id uid db = Some u \<Longrightarrow> us_id u' = uid \<Longrightarrow>
     get_user_by_id k (put_user u' db) = (if k = uid then Some u' else get_user_by_id k db)"
  by (auto simp: get_user_by_id_def user_rows.lookup_put)

end
