(* ===== verification/Tokens.thy ===== *)
theory Tokens
  imports AuthState
begin

text \<open>
  Sessions: the access and refresh tokens of \<open>core/security.py\<close>, the revocation table of
  \<open>domains/auth/token_blacklist.py\<close>, the dependencies of \<open>core/dependencies.py\<close> that turn a request's
  token into a user, and \<open>AuthService.refresh_tokens\<close> with its route.
\<close>

section \<open>Tokens\<close>

text \<open>The numeric dates of a token count whole seconds.\<close>

definition seconds :: "instant \<Rightarrow> int" where
  "seconds t = t div 1000000"

definition fromtimestamp :: "int \<Rightarrow> instant" where
  "fromtimestamp s = s * 1000000"

definition access_claims :: "crypto \<Rightarrow> instant \<Rightarrow> string \<Rightarrow> string \<Rightarrow> user_role \<Rightarrow> claims" where
  "access_claims cr now subject org role =
     \<lparr>cl_sub = Some subject, cl_exp = seconds (now + minutes_us (access_minutes cr)),
      cl_iat = Some (seconds now), cl_type = ''access'', cl_org = Some org, cl_role = Some (role_value role),
      cl_provider = None, cl_nonce = None\<rparr>"

definition create_access_token :: "crypto \<Rightarrow> instant \<Rightarrow> string \<Rightarrow> string \<Rightarrow> user_role \<Rightarrow> string" where
  "create_access_token cr now subject org role = jwt_encode cr (access_claims cr now subject org role)"

definition refresh_claims :: "crypto \<Rightarrow> instant \<Rightarrow> string \<Rightarrow> claims" where
  "refresh_claims cr now subject =
     \<lparr>cl_sub = Some subject, cl_exp = seconds (now + days_us (refresh_days cr)), cl_iat = None,
      cl_type = ''refresh'', cl_org = None, cl_role = None, cl_provider = None, cl_nonce = None\<rparr>"

definition create_refresh_token :: "crypto \<Rightarrow> instant \<Rightarrow> string \<Rightarrow> string" where
  "create_refresh_token cr now subject = jwt_encode cr (refresh_claims cr now subject)"

definition decode_token :: "crypto \<Rightarrow> instant \<Rightarrow> string \<Rightarrow> claims result" where
  "decode_token cr now token =
     (case jwt_decode cr now token of None \<Rightarrow> Inl (ValueError ''Invalid token'') | Some p \<Rightarrow> Inr p)"

text \<open>The pair every login hands out; a user of no organization gets an empty \<open>org_id\<close> claim.\<close>

definition org_id_str :: "uuid option \<Rightarrow> string" where
  "org_id_str org = (case org of None \<Rightarrow> [] | Some i \<Rightarrow> uuid_str i)"

definition token_pair :: "crypto \<Rightarrow> instant \<Rightarrow> instant \<Rightarrow> user \<Rightarrow> string \<times> string" where
  "token_pair cr now now' u =
     (create_access_token cr now (uuid_str (us_id u)) (org_id_str (us_org u)) (us_role u),
      create_refresh_token cr now' (uuid_str (us_id u)))"

section \<open>Revocation\<close>

definition revoke_all_tokens_for_user :: "uuid \<Rightarrow> instant \<Rightarrow> ('z auth_db_scheme, unit) svc" where
  "revoke_all_tokens_for_user uid now db =
     (let rest = filter (\<lambda>r. rv_user r \<noteq> uid) (revoked db);
          db = db\<lparr>revoked := rest\<rparr>
      in if ''*'' \<in> rv_jti ` set rest then (Inl (IntegrityError ''revoked_tokens.jti''), db)
         else (Inr (), db\<lparr>revoked := row_add \<lparr>rv_jti = ''*'', rv_user = uid, rv_revoked_at = now,
                 rv_expires_at = now + days_us 30\<rparr> rest\<rparr>))"

definition is_token_revoked :: "uuid \<Rightarrow> instant \<Rightarrow> 'z auth_db_scheme \<Rightarrow> bool result" where
  "is_token_revoked uid issued_at db =
     (case scalar_one_or_none (filter (\<lambda>r. rv_user r = uid \<and> issued_at < rv_revoked_at r) (revoked db)) of
        Inl err \<Rightarrow> Inl err | Inr found \<Rightarrow> Inr (found \<noteq> None))"

section \<open>The user of a request\<close>

text \<open>The bearer token of the header, or else the access cookie.\<close>

definition get_token_payload :: "crypto \<Rightarrow> instant \<Rightarrow> string option \<Rightarrow> string option \<Rightarrow> claims result" where
  "get_token_payload cr now bearer cookie =
     (let token = (case bearer of Some (a # t) \<Rightarrow> Some (a # t) | _ \<Rightarrow> cookie);
          refuse = Inl (HTTPException 401 ''Invalid or expired token'')
      in case token of
           None \<Rightarrow> refuse
         | Some [] \<Rightarrow> refuse
         | Some t \<Rightarrow>
             (case decode_token cr now t of
                Inl _ \<Rightarrow> refuse
              | Inr p \<Rightarrow> if cl_type p \<noteq> ''access'' then refuse else Inr p))"

definition subject_id :: "claims \<Rightarrow> uuid result" where
  "subject_id p =
     (case cl_sub p of
        None \<Rightarrow> Inl (KeyError ''sub'')
      | Some s \<Rightarrow> (case uuid_of_str s of
          None \<Rightarrow> Inl (ValueError ''badly formed hexadecimal UUID string'') | Some i \<Rightarrow> Inr i))"

definition workspace_open :: "user \<Rightarrow> 'z auth_db_scheme \<Rightarrow> user result" where
  "workspace_open u db =
     (if us_role u = PLATFORM_ADMIN then Inr u
      else case us_org u of
        None \<Rightarrow> Inr u
      | Some i \<Rightarrow> (case get_org i db of
          None \<Rightarrow> Inr u
        | Some g \<Rightarrow>
            if og_lifecycle g \<noteq> ACTIVE
            then Inl (HTTPException 403 (''Workspace is '' @ lifecycle_value (og_lifecycle g)
                   @ ''. Contact your administrator.''))
            else Inr u))"

definition user_of_payload :: "claims \<Rightarrow> 'z auth_db_scheme \<Rightarrow> user result" where
  "user_of_payload p db =
     (case subject_id p of
        Inl err \<Rightarrow> Inl err
      | Inr uid \<Rightarrow>
          (case is_token_revoked uid (fromtimestamp (case cl_iat p of None \<Rightarrow> 0 | Some t \<Rightarrow> t)) db of
             Inl err \<Rightarrow> Inl err
           | Inr True \<Rightarrow> Inl (HTTPException 401 ''Session revoked'')
           | Inr False \<Rightarrow>
               (case get_user_by_id uid db of
                  None \<Rightarrow> Inl (HTTPException 401 ''User inactive or not found'')
                | Some u \<Rightarrow>
                    if \<not> us_active u then Inl (HTTPException 401 ''User inactive or not found'')
                    else workspace_open u db)))"

definition get_current_user ::
  "crypto \<Rightarrow> instant \<Rightarrow> string option \<Rightarrow> string option \<Rightarrow> 'z auth_db_scheme \<Rightarrow> user result" where
  "get_current_user cr now bearer cookie db =
     (case get_token_payload cr now bearer cookie of
        Inl err \<Rightarrow> Inl err | Inr p \<Rightarrow> user_of_payload p db)"

text \<open>\<open>Depends(require_roles(...))\<close>: the current user, with one of the roles.\<close>

definition current_user_with_role ::
  "user_role list \<Rightarrow> crypto \<Rightarrow> instant \<Rightarrow> string option \<Rightarrow> string option \<Rightarrow> 'z auth_db_scheme \<Rightarrow> user result" where
  "current_user_with_role roles cr now bearer cookie db =
     (case get_current_user cr now bearer cookie db of
        Inl err \<Rightarrow> Inl err
      | Inr u \<Rightarrow> (case require_roles roles (us_role u) of Inl err \<Rightarrow> Inl err | Inr _ \<Rightarrow> Inr u))"

section \<open>Refreshing\<close>

definition refresh_tokens :: "crypto \<Rightarrow> call \<Rightarrow> string \<Rightarrow> 'z auth_db_scheme \<Rightarrow> (string \<times> string) result" where
  "refresh_tokens cr c token db =
     (case decode_token cr (clock c 0) token of
        Inl err \<Rightarrow> Inl err
      | Inr p \<Rightarrow>
          if cl_type p \<noteq> ''refresh'' then Inl (ValueError ''Invalid refresh token'')
          else case subject_id p of
            Inl err \<Rightarrow> Inl err
          | Inr uid \<Rightarrow>
              (case get_user_by_id uid db of
                 None \<Rightarrow> Inl (ValueError ''User not found or inactive'')
               | Some u \<Rightarrow>
                   if \<not> us_active u then Inl (ValueError ''User not found or inactive'')
                   else case (case cl_iat p of None \<Rightarrow> Inr False
                              | Some t \<Rightarrow> is_token_revoked uid (fromtimestamp t) db) of
                     Inl err \<Rightarrow> Inl err
                   | Inr True \<Rightarrow> Inl (ValueError ''Session revoked. Please login again.'')
                   | Inr False \<Rightarrow> Inr (token_pair cr (clock c 1) (clock c 2) u)))"

definition unauthorized :: "error \<Rightarrow> error" where
  "unauthorized err = (case err of ValueError m \<Rightarrow> HTTPException 401 m | e \<Rightarrow> e)"

text \<open>The route takes the body's token, or the cookie's when there is no body.\<close>

definition refresh_route ::
  "crypto \<Rightarrow> call \<Rightarrow> string option \<Rightarrow> string option \<Rightarrow> 'z auth_db_scheme \<Rightarrow> (string \<times> string) result" where
  "refresh_route cr c body cookie db =
     (case (case body of Some t \<Rightarrow> Some t | None \<Rightarrow> cookie) of
        None \<Rightarrow> Inl (HTTPException 401 ''Missing refresh token'')
      | Some [] \<Rightarrow> Inl (HTTPException 401 ''Missing refresh token'')
      | Some t \<Rightarrow> (case refresh_tokens cr c t db of Inl err \<Rightarrow> Inl (unauthorized err) | Inr p \<Rightarrow> Inr p))"

definition logout_all ::
  "crypto \<Rightarrow> instant \<Rightarrow> string option \<Rightarrow> string option \<Rightarrow> ('z auth_db_scheme, unit) svc" where
  "logout_all cr now bearer cookie db =
     (case get_current_user cr now bearer cookie db of
        Inl err \<Rightarrow> (Inl err, db)
      | Inr u \<Rightarrow> revoke_all_tokens_for_user (us_id u) now db)"

end
