(* ===== verification/AuthExample.thy ===== *)
theory AuthExample
  imports AuthState
begin

text \<open>
  A concrete instance of the external cryptography: a cipher that writes the key in front, password
  hashes that append the password to the salt, and tokens that write out their claims. It satisfies
  everything the theorems assume of the libraries, so they can be applied.
\<close>

section \<open>Tokens\<close>

fun escape :: "string \<Rightarrow> string" where
  "escape [] = ''.''"
| "escape (c # s) = CHR ''c'' # c # escape s"

fun unescape :: "string \<Rightarrow> (string \<times> string) option" where
  "unescape [] = None"
| "unescape [m] = (if m = CHR ''.'' then Some ([], []) else None)"
| "unescape (m # c # s) =
     (if m = CHR ''.'' then Some ([], c # s) else map_option (\<lambda>(t, r). (c # t, r)) (unescape s))"

lemma unescape_escape [simp]: "unescape (escape s @ r) = Some (s, r)"
proof (induction s)
  case Nil
  then show ?case by (cases r) simp_all
qed simp

definition pack_option :: "string option \<Rightarrow> string" where
  "pack_option v = (case v of None \<Rightarrow> ''n'' | Some s \<Rightarrow> CHR ''s'' # escape s)"

fun unpack_options :: "nat \<Rightarrow> string \<Rightarrow> string option list option" where
  "unpack_options 0 t = Some []"
| "unpack_options (Suc n) [] = None"
| "unpack_options (Suc n) (m # t) =
     (if m = CHR ''n'' then map_option (\<lambda>vs. None # vs) (unpack_options n t)
      else case unescape t of None \<Rightarrow> None
        | Some (s, r) \<Rightarrow> map_option (\<lambda>vs. Some s # vs) (unpack_options n r))"

lemma unpack_pack_options: "unpack_options (length vs) (concat (map pack_option vs)) = Some vs"
  by (induction vs) (auto simp: pack_option_def split: option.splits)

definition int_of :: "string \<Rightarrow> int" where
  "int_of s = (case s of CHR ''-'' # r \<Rightarrow> - int (str_nat r) | _ \<Rightarrow> int (str_nat s))"

lemma int_of_int_str [simp]: "int_of (int_str i) = i"
proof (cases "i < 0")
  case False
  obtain c s where cs: "nat_str (nat i) = c # s" "c \<noteq> CHR ''-''"
    using nat_str_no_minus [of "nat i"] nat_str_nonempty [of "nat i"] by (metis list.exhaust)
  have "int (str_nat (c # s)) = i" using False by (simp flip: cs(1))
  with cs(2) have "int_of (c # s) = i" by (auto simp: int_of_def split: list.splits char.splits bool.splits)
  with False show ?thesis by (simp add: int_str_def cs(1))
qed (simp add: int_of_def int_str_def)

definition claim_list :: "claims \<Rightarrow> string option list" where
  "claim_list c = [cl_sub c, Some (int_str (cl_exp c)), map_option int_str (cl_iat c), Some (cl_type c),
     cl_org c, cl_role c, cl_provider c, cl_nonce c]"

definition claims_of_list :: "string option list \<Rightarrow> claims" where
  "claims_of_list vs = \<lparr>cl_sub = vs ! 0, cl_exp = int_of (the (vs ! 1)), cl_iat = map_option int_of (vs ! 2),
     cl_type = the (vs ! 3), cl_org = vs ! 4, cl_role = vs ! 5, cl_provider = vs ! 6, cl_nonce = vs ! 7\<rparr>"

definition pack_claims :: "claims \<Rightarrow> string" where
  "pack_claims c = concat (map pack_option (claim_list c))"

definition unpack_claims :: "string \<Rightarrow> claims option" where
  "unpack_claims t = map_option claims_of_list (unpack_options 8 t)"

lemma claim_list_length: "length (claim_list c) = 8"
  by (simp add: claim_list_def)

lemma unpack_pack_claims: "unpack_claims (pack_claims c) = Some c"
proof -
  have "unpack_options 8 (pack_claims c) = Some (claim_list c)"
    using unpack_pack_options [of "claim_list c"] unfolding pack_claims_def claim_list_length .
  moreover have "claims_of_list (claim_list c) = c"
    by (cases c) (simp add: claims_of_list_def claim_list_def numeral_eq_Suc option.map_comp comp_def option.map_ident)
  ultimately show ?thesis by (simp add: unpack_claims_def)
qed

section \<open>The instance\<close>

definition toy_crypto :: crypto where
  "toy_crypto = \<lparr>fe_encrypt = (\<lambda>k r m. k @ ''/'' @ m),
     fe_decrypt = (\<lambda>k t. if py_startswith t (k @ ''/'') then Some (drop (length k + 1) t) else None),
     fe_master = ''m'', pw_hash = (\<lambda>s p. ''h'' @ p), pw_verify = (\<lambda>p h. h = ''h'' @ p),
     jwt_encode = pack_claims,
     jwt_decode = (\<lambda>now t. case unpack_claims t of None \<Rightarrow> None
       | Some c \<Rightarrow> if now div 1000000 \<le> cl_exp c then Some c else None),
     hmac_sha1 = (\<lambda>k m. replicate 20 (CHR ''0'')), access_minutes = 60, refresh_days = 7\<rparr>"

lemma toy_fernet: "fernet_ok toy_crypto"
  using py_startswith_append [of "k @ ''/''" for k] by (simp add: fernet_ok_def toy_crypto_def)

lemma toy_passwords: "passwords_ok toy_crypto"
  by (simp add: passwords_ok_def toy_crypto_def)

lemma toy_jwt: "jwt_ok toy_crypto"
  by (simp add: jwt_ok_def toy_crypto_def unpack_pack_claims)

definition empty_auth_db :: auth_db where
  "empty_auth_db = \<lparr>events = [], checkpoints = [], alerts = [], orgs = [], keyrings = [], users = [],
     challenges = [], backup_codes = [], passkeys = [], revoked = []\<rparr>"

definition toy_call :: call where
  "toy_call = \<lparr>fresh = (\<lambda>n. word_of_nat n), clock = (\<lambda>n. 0)\<rparr>"

definition toy_call' :: call where
  "toy_call' = \<lparr>fresh = (\<lambda>n. word_of_nat (n + 1)), clock = (\<lambda>n. 0)\<rparr>"

definition toy_sec :: "nat \<Rightarrow> string" where
  "toy_sec n = ''k''"

definition toy_org :: organization where
  "toy_org = \<lparr>og_id = 1, og_name = ''o'', og_slug = ''o'', og_passwordless_only = False, og_lifecycle = ACTIVE,
     og_quota = 2, og_suspended_at = None, og_suspended_reason = None\<rparr>"

definition toy_user :: user where
  "toy_user = \<lparr>us_id = 5, us_org = Some 1, us_email = ''u@x'', us_full_name = ''u'', us_password = ''hp'',
     us_role = ENGINEER, us_active = True, us_passkey_enabled = False, us_totp_enabled = False,
     us_totp_secret = None, us_totp_verified_at = None, us_must_change = False,
     us_password_changed_at = None, us_terms_accepted_at = None, us_terms_version = None,
     us_created_at = 0, us_last_login = None, us_deleted_at = None\<rparr>"

lemma toy_user_simps [simp]:
  "us_id toy_user = 5" "us_org toy_user = Some 1" "us_email toy_user = ''u@x''" "us_password toy_user = ''hp''"
  "us_role toy_user = ENGINEER" "us_active toy_user" "\<not> us_totp_enabled toy_user"
  by (simp_all add: toy_user_def)

definition toy_db :: auth_db where
  "toy_db = empty_auth_db\<lparr>orgs := [toy_org], users := [toy_user]\<rparr>"

end
