(* ===== verification/TokenLaws.thy ===== *)
theory TokenLaws
  imports Tokens AuthExample
begin

text \<open>
  What a session is worth: which access tokens are accepted, what a global logout ends and what it
  does not.
\<close>

section \<open>Accepted tokens\<close>

lemma subject_id_str: "cl_sub p = Some (uuid_str uid) \<Longrightarrow> subject_id p = Inr uid"
  by (simp add: subject_id_def)

lemma decode_created:
  "jwt_ok cr \<Longrightarrow> decode_token cr now (jwt_encode cr p) =
     (if seconds now \<le> cl_exp p then Inr p else Inl (ValueError ''Invalid token''))"
  by (simp add: decode_token_def jwt_ok_def seconds_def)

lemma current_user_of_token:
  assumes "jwt_ok cr" and "jwt_encode cr p \<noteq> []" and "cl_type p = ''access''"
  shows "get_current_user cr now (Some (jwt_encode cr p)) cookie db =
    (if seconds now \<le> cl_exp p then user_of_payload p db
     else Inl (HTTPException 401 ''Invalid or expired token''))"
proof -
  obtain a t where at: "jwt_encode cr p = a # t" using assms(2) by (cases "jwt_encode cr p") auto
  have "decode_token cr now (a # t) =
      (if seconds now \<le> cl_exp p then Inr p else Inl (ValueError ''Invalid token''))"
    using decode_created [OF assms(1), of now p] by (simp only: at)
  with assms(3) show ?thesis by (simp add: get_current_user_def get_token_payload_def at Let_def)
qed

text \<open>The rows of a revocation table name each user at most once.\<close>

definition one_revocation_each :: "'z auth_db_scheme \<Rightarrow> bool" where
  "one_revocation_each db \<longleftrightarrow> distinct (map rv_user (revoked db))"

lemma revoke_all_one_each:
  "one_revocation_each db \<Longrightarrow> one_revocation_each (snd (revoke_all_tokens_for_user uid now db))"
  by (auto simp: one_revocation_each_def revoke_all_tokens_for_user_def Let_def row_add_def distinct_map
      intro: inj_on_subset)

lemma revoked_after:
  assumes "revoke_all_tokens_for_user uid t db = (Inr (), db')"
  shows "is_token_revoked uid s db' = Inr (s < t)"
    and "users db' = users db" and "orgs db' = orgs db"
proof -
  have db': "db' = db\<lparr>revoked := filter (\<lambda>r. rv_user r \<noteq> uid) (revoked db)
      @ [\<lparr>rv_jti = ''*'', rv_user = uid, rv_revoked_at = t, rv_expires_at = t + days_us 30\<rparr>]\<rparr>"
    using assms by (auto simp: revoke_all_tokens_for_user_def Let_def row_add_def split: if_splits)
  have "filter (\<lambda>r. rv_user r = uid \<and> s < rv_revoked_at r) (filter (\<lambda>r. rv_user r \<noteq> uid) (revoked db)) = []"
    by (simp add: filter_empty_conv)
  then show "is_token_revoked uid s db' = Inr (s < t)" by (simp add: db' is_token_revoked_def)
qed (use assms in \<open>auto simp: revoke_all_tokens_for_user_def Let_def split: if_splits\<close>)

lemma workspace_open_frame: "orgs db' = orgs db \<Longrightarrow> workspace_open u db' = workspace_open u db"
  by (simp add: workspace_open_def get_org_def split: option.split)

section \<open>Properties\<close>

text \<open>
  After a global logout at time \<open>t\<close>, an access token issued at \<open>t0\<close> and not expired is
  refused as revoked exactly when the second it was issued in began before \<open>t\<close>; later tokens are
  worth what the user's account and workspace allow.
\<close>

theorem logout_all_exact:
  assumes ok: "jwt_ok cr" and nonempty: "create_access_token cr t0 (uuid_str uid) org role \<noteq> []"
    and out: "revoke_all_tokens_for_user uid t db = (Inr (), db')"
    and live: "seconds now \<le> seconds (t0 + minutes_us (access_minutes cr))"
  shows "get_current_user cr now (Some (create_access_token cr t0 (uuid_str uid) org role)) cookie db' =
    (if fromtimestamp (seconds t0) < t then Inl (HTTPException 401 ''Session revoked'')
     else case get_user_by_id uid db of
       None \<Rightarrow> Inl (HTTPException 401 ''User inactive or not found'')
     | Some u \<Rightarrow> if us_active u then workspace_open u db
                 else Inl (HTTPException 401 ''User inactive or not found''))"
proof -
  let ?p = "access_claims cr t0 (uuid_str uid) org role"
  have "get_current_user cr now (Some (create_access_token cr t0 (uuid_str uid) org role)) cookie db'
      = user_of_payload ?p db'"
    using current_user_of_token [OF ok, of ?p now cookie db'] nonempty live
    by (simp add: create_access_token_def access_claims_def)
  moreover have "subject_id ?p = Inr uid" by (rule subject_id_str) (simp add: access_claims_def)
  moreover have "cl_iat ?p = Some (seconds t0)" by (simp add: access_claims_def)
  moreover have "workspace_open u db' = workspace_open u db" for u
    by (rule workspace_open_frame) (rule revoked_after(3) [OF out])
  moreover have "get_user_by_id uid db' = get_user_by_id uid db"
    using revoked_after(2) [OF out] by (simp add: get_user_by_id_def)
  ultimately show ?thesis
    using revoked_after(1) [OF out] by (auto simp: user_of_payload_def split: option.splits)
qed

lemma toy_token_nonempty: "create_access_token toy_crypto t s org role \<noteq> []"
  by (simp add: create_access_token_def toy_crypto_def pack_claims_def claim_list_def access_claims_def
      pack_option_def)

lemma toy_settings: "access_minutes toy_crypto = 60" "refresh_days toy_crypto = 7"
  by (simp_all add: toy_crypto_def)

lemma toy_logout: "revoke_all_tokens_for_user 5 t toy_db = (Inr (), snd (revoke_all_tokens_for_user 5 t toy_db))"
  by (simp add: revoke_all_tokens_for_user_def toy_db_def empty_auth_db_def)

lemma toy_db_user: "get_user_by_id 5 toy_db = Some toy_user"
  by (simp add: get_user_by_id_def row_find_def toy_user_def toy_db_def)

lemma toy_db_open: "workspace_open toy_user toy_db = Inr toy_user"
  by (simp add: workspace_open_def get_org_def row_find_def toy_user_def toy_org_def toy_db_def)

theorem logout_all_exact_witness:
  "get_current_user toy_crypto 9000000 (Some (create_access_token toy_crypto 1000000 (uuid_str 5) [] ENGINEER)) None
     (snd (revoke_all_tokens_for_user 5 2000000 toy_db)) = Inl (HTTPException 401 ''Session revoked'')"
proof -
  have "seconds 9000000 \<le> seconds (1000000 + minutes_us (access_minutes toy_crypto))"
    by (simp add: seconds_def minutes_us_def toy_settings)
  from logout_all_exact [OF toy_jwt toy_token_nonempty toy_logout this, of "[]" ENGINEER None 2000000]
  show ?thesis by (simp add: seconds_def fromtimestamp_def)
qed

lemma refresh_of_token:
  assumes ok: "jwt_ok cr" and u: "get_user_by_id uid db = Some u" "us_active u"
    and live: "seconds (clock c 0) \<le> seconds (t0 + days_us (refresh_days cr))"
  shows "refresh_tokens cr c (create_refresh_token cr t0 (uuid_str uid)) db = Inr (token_pair cr (clock c 1) (clock c 2) u)"
proof -
  have "cl_sub (refresh_claims cr t0 (uuid_str uid)) = Some (uuid_str uid)" by (simp add: refresh_claims_def)
  from subject_id_str [OF this] u decode_created [OF ok, of "clock c 0" "refresh_claims cr t0 (uuid_str uid)"] live
  show ?thesis by (simp add: refresh_tokens_def create_refresh_token_def refresh_claims_def)
qed

text \<open>
  A refresh token carries no issue time, so a global logout does not end it: in the
  state after the logout the token still buys a new pair, and the new access token is accepted when its
  second of issue began after the logout.
\<close>

theorem refresh_survives_logout:
  assumes ok: "jwt_ok cr" and u: "get_user_by_id uid db = Some u" "us_active u" "us_id u = uid"
    and out: "revoke_all_tokens_for_user uid t db = (Inr (), db')"
    and live: "seconds (clock c 0) \<le> seconds (t0 + days_us (refresh_days cr))"
    and later: "t \<le> fromtimestamp (seconds (clock c 1))" and minutes: "0 \<le> access_minutes cr"
    and nonempty: "fst (token_pair cr (clock c 1) (clock c 2) u) \<noteq> []"
  shows "refresh_tokens cr c (create_refresh_token cr t0 (uuid_str uid)) db' = Inr (token_pair cr (clock c 1) (clock c 2) u)
    \<and> get_current_user cr (clock c 1) (Some (fst (token_pair cr (clock c 1) (clock c 2) u))) None db' = workspace_open u db"
proof
  have u': "get_user_by_id uid db' = Some u"
    using u(1) revoked_after(2) [OF out] by (simp add: get_user_by_id_def)
  from refresh_of_token [OF ok this u(2) live]
  show "refresh_tokens cr c (create_refresh_token cr t0 (uuid_str uid)) db' = Inr (token_pair cr (clock c 1) (clock c 2) u)" .
  have "seconds (clock c 1) \<le> seconds (clock c 1 + minutes_us (access_minutes cr))"
    unfolding seconds_def using minutes by (intro zdiv_mono1) (simp_all add: minutes_us_def)
  from logout_all_exact [OF ok _ out this, of "org_id_str (us_org u)" "us_role u" None] nonempty u later
  show "get_current_user cr (clock c 1) (Some (fst (token_pair cr (clock c 1) (clock c 2) u))) None db' = workspace_open u db"
    by (simp add: token_pair_def)
qed

theorem refresh_survives_logout_witness:
  "get_current_user toy_crypto 9000000 (Some (fst (token_pair toy_crypto 9000000 9000000 toy_user))) None
     (snd (revoke_all_tokens_for_user 5 2000000 toy_db)) = Inr toy_user"
proof -
  let ?c = "\<lparr>fresh = (\<lambda>n. 0), clock = (\<lambda>n. 9000000)\<rparr>"
  have "fst (token_pair toy_crypto 9000000 9000000 toy_user) \<noteq> []"
    by (simp add: token_pair_def toy_token_nonempty)
  with refresh_survives_logout [OF toy_jwt toy_db_user _ _ toy_logout, of ?c 0 2000000]
  show ?thesis
    by (simp add: toy_db_open seconds_def fromtimestamp_def days_us_def toy_settings)
qed

text \<open>
  The revocation row's primary key is the constant \<open>*\<close>, so while one user's global
  logout is recorded, every other user's global logout fails on it.
\<close>

theorem second_logout_fails:
  assumes "revoke_all_tokens_for_user uid t db = (Inr (), db')" and "other \<noteq> uid"
  shows "fst (revoke_all_tokens_for_user other t' db') = Inl (IntegrityError ''revoked_tokens.jti'')"
proof -
  have "\<lparr>rv_jti = ''*'', rv_user = uid, rv_revoked_at = t, rv_expires_at = t + days_us 30\<rparr> \<in> set (revoked db')"
    using assms(1) by (auto simp: revoke_all_tokens_for_user_def Let_def row_add_def split: if_splits)
  with assms(2) have "''*'' \<in> rv_jti ` set (filter (\<lambda>r. rv_user r \<noteq> other) (revoked db'))"
    by (force simp: image_iff)
  then show ?thesis by (simp add: revoke_all_tokens_for_user_def)
qed

theorem second_logout_fails_witness:
  "fst (revoke_all_tokens_for_user 6 9 (snd (revoke_all_tokens_for_user 5 8 empty_auth_db)))
   = Inl (IntegrityError ''revoked_tokens.jti'')"
  by (rule second_logout_fails [of 5 8 empty_auth_db]) (simp_all add: revoke_all_tokens_for_user_def empty_auth_db_def)

end
