(* ===== verification/Keyring.thy ===== *)
theory Keyring
  imports AuthState
begin

text \<open>
  The key rings of \<open>core/security.py\<close>: every organization has versioned keys, secrets are encrypted
  under the active one and carry its version, and a worker rotates keys that are too old. The table
  is shown to keep every key it ever held, so that a secret can be read after any number of rotations.
\<close>

section \<open>Operations\<close>

definition WORKSPACE_CIPHERTEXT_PREFIX :: string where
  "WORKSPACE_CIPHERTEXT_PREFIX = ''wk1''"

definition active_ring :: "uuid \<Rightarrow> 'z auth_db_scheme \<Rightarrow> keyring option" where
  "active_ring org db =
     (case rev (sort_key kr_version (filter (\<lambda>k. kr_org k = org \<and> kr_active k) (keyrings db))) of
        [] \<Rightarrow> None | k # _ \<Rightarrow> Some k)"

text \<open>\<open>sec 0\<close> is the generated workspace key, \<open>sec 1\<close> the randomness of its encryption.\<close>

definition new_ring :: "crypto \<Rightarrow> uuid \<Rightarrow> string \<Rightarrow> string \<Rightarrow> uuid \<Rightarrow> int \<Rightarrow> instant \<Rightarrow> keyring" where
  "new_ring cr kid key salt org version now =
     \<lparr>kr_id = kid, kr_org = org, kr_version = version,
      kr_material = fe_encrypt cr (fe_master cr) salt key, kr_active = True, kr_rotated_at = Some now\<rparr>"

definition ensure_workspace_keyring ::
  "crypto \<Rightarrow> call \<Rightarrow> (nat \<Rightarrow> string) \<Rightarrow> uuid \<Rightarrow> ('z auth_db_scheme, keyring) svc" where
  "ensure_workspace_keyring cr c sec org db =
     (case active_ring org db of
        Some k \<Rightarrow> (Inr k, db)
      | None \<Rightarrow>
          let k = new_ring cr (fresh c 0) (sec 0) (sec 1) org 1 (clock c 0)
          in if list_ex (\<lambda>x. kr_org x = org \<and> kr_version x = 1) (keyrings db)
             then (Inl (IntegrityError ''uq_workspace_keyrings_org_key_version''), db)
             else (Inr k, db\<lparr>keyrings := row_add k (keyrings db)\<rparr>))"

text \<open>A user of no organization has no key: the insert of a ring for them violates its constraint.\<close>

definition encrypt_secret_for_org ::
  "crypto \<Rightarrow> call \<Rightarrow> (nat \<Rightarrow> string) \<Rightarrow> uuid option \<Rightarrow> string \<Rightarrow> ('z auth_db_scheme, string) svc" where
  "encrypt_secret_for_org cr c sec org value db =
     (case org of
        None \<Rightarrow> (Inl (IntegrityError ''workspace_keyrings.org_id''), db)
      | Some i \<Rightarrow>
     (case ensure_workspace_keyring cr c sec i db of
        (Inl err, db) \<Rightarrow> (Inl err, db)
      | (Inr k, db) \<Rightarrow>
          case fe_decrypt cr (fe_master cr) (kr_material k) of
            None \<Rightarrow> (Inl InvalidToken, db)
          | Some key \<Rightarrow>
              (Inr (WORKSPACE_CIPHERTEXT_PREFIX @ '':'' @ int_str (kr_version k) @ '':''
                 @ fe_encrypt cr key (sec 2) value), db)))"

text \<open>\<open>int(text)\<close>: surrounding white space, a sign, and single underscores between digits are allowed.\<close>

definition digits_ok :: "string \<Rightarrow> bool" where
  "digits_ok s \<longleftrightarrow> s \<noteq> [] \<and> list_all (\<lambda>c. is_digit_char c \<or> c = CHR ''_'') s
     \<and> is_digit_char (hd s) \<and> is_digit_char (last s) \<and> \<not> py_contains s ''__''"

definition py_int :: "string \<Rightarrow> int option" where
  "py_int s =
     (let t = py_strip s;
          neg = (t \<noteq> [] \<and> hd t = CHR ''-'');
          ds = (if t \<noteq> [] \<and> (hd t = CHR ''-'' \<or> hd t = CHR ''+'') then tl t else t)
      in if \<not> digits_ok ds then None
         else let n = int (str_nat (filter is_digit_char ds)) in Some (if neg then - n else n))"

text \<open>\<open>text.split(":", 2)\<close> into exactly three parts.\<close>

definition split_colon2 :: "string \<Rightarrow> (string \<times> string \<times> string) option" where
  "split_colon2 s =
     (let a = takeWhile (\<lambda>c. c \<noteq> CHR '':'') s; r = dropWhile (\<lambda>c. c \<noteq> CHR '':'') s;
          b = takeWhile (\<lambda>c. c \<noteq> CHR '':'') (tl r); r' = dropWhile (\<lambda>c. c \<noteq> CHR '':'') (tl r)
      in if r = [] \<or> r' = [] then None else Some (a, b, tl r'))"

definition decrypt_secret :: "crypto \<Rightarrow> string \<Rightarrow> string result" where
  "decrypt_secret cr encrypted =
     (case fe_decrypt cr (fe_master cr) encrypted of None \<Rightarrow> Inl InvalidToken | Some v \<Rightarrow> Inr v)"

definition ring_of_version :: "uuid option \<Rightarrow> int \<Rightarrow> 'z auth_db_scheme \<Rightarrow> keyring list" where
  "ring_of_version org v db = filter (\<lambda>k. Some (kr_org k) = org \<and> kr_version k = v) (keyrings db)"

definition str_of_org :: "uuid option \<Rightarrow> string" where
  "str_of_org org = (case org of None \<Rightarrow> ''None'' | Some i \<Rightarrow> uuid_str i)"

definition decrypt_secret_for_org :: "crypto \<Rightarrow> uuid option \<Rightarrow> string \<Rightarrow> 'z auth_db_scheme \<Rightarrow> string result" where
  "decrypt_secret_for_org cr org encrypted db =
     (if \<not> py_startswith encrypted (WORKSPACE_CIPHERTEXT_PREFIX @ '':'') then decrypt_secret cr encrypted
      else case split_colon2 encrypted of
        None \<Rightarrow> Inl (ValueError ''Invalid workspace ciphertext format'')
      | Some (_, version_str, token) \<Rightarrow>
          (case py_int version_str of
             None \<Rightarrow> Inl (ValueError ''Invalid workspace ciphertext format'')
           | Some v \<Rightarrow>
               (case scalar_one_or_none (ring_of_version org v db) of
                  Inl err \<Rightarrow> Inl err
                | Inr None \<Rightarrow> Inl (ValueError (''Workspace keyring not found for org='' @ str_of_org org
                      @ '' version='' @ int_str v))
                | Inr (Some k) \<Rightarrow>
                    (case fe_decrypt cr (fe_master cr) (kr_material k) of
                       None \<Rightarrow> Inl InvalidToken
                     | Some key \<Rightarrow>
                         (case fe_decrypt cr key token of
                            None \<Rightarrow> Inl (ValueError ''Failed to decrypt workspace-scoped secret'')
                          | Some v \<Rightarrow> Inr v)))))"

section \<open>Rotation\<close>

definition due :: "instant \<Rightarrow> keyring \<Rightarrow> bool" where
  "due cutoff k \<longleftrightarrow> kr_active k \<and> (case kr_rotated_at k of None \<Rightarrow> True | Some t \<Rightarrow> t \<le> cutoff)"

text \<open>\<open>order_by(rotated_at.asc().nullsfirst())\<close>.\<close>

definition due_keyrings :: "instant \<Rightarrow> nat \<Rightarrow> 'z auth_db_scheme \<Rightarrow> keyring list" where
  "due_keyrings cutoff batch db =
     (let ks = filter (due cutoff) (keyrings db)
      in take batch (filter (\<lambda>k. kr_rotated_at k = None) ks
           @ sort_key (\<lambda>k. the (kr_rotated_at k)) (filter (\<lambda>k. kr_rotated_at k \<noteq> None) ks)))"

definition max_version :: "uuid \<Rightarrow> 'z auth_db_scheme \<Rightarrow> int" where
  "max_version org db =
     (let vs = map kr_version (filter (\<lambda>k. kr_org k = org) (keyrings db))
      in if vs = [] then 0 else Max (set vs))"

definition rotate_one ::
  "crypto \<Rightarrow> uuid \<Rightarrow> string \<Rightarrow> string \<Rightarrow> instant \<Rightarrow> keyring \<Rightarrow> 'z auth_db_scheme \<Rightarrow> 'z auth_db_scheme" where
  "rotate_one cr kid key salt now current db =
     (let v = max_version (kr_org current) db;
          db = db\<lparr>keyrings := row_put kr_id (current\<lparr>kr_active := False\<rparr>) (keyrings db)\<rparr>
      in db\<lparr>keyrings := row_add (new_ring cr kid key salt (kr_org current) (v + 1) now) (keyrings db)\<rparr>)"

text \<open>The loop; the \<open>i\<close>-th ring draws the \<open>i\<close>-th identifier and the strings \<open>2 i\<close> and \<open>2 i + 1\<close>.\<close>

fun rotate_all ::
  "crypto \<Rightarrow> call \<Rightarrow> (nat \<Rightarrow> string) \<Rightarrow> instant \<Rightarrow> nat \<Rightarrow> keyring list \<Rightarrow> 'z auth_db_scheme \<Rightarrow> 'z auth_db_scheme" where
  "rotate_all cr c sec now i [] db = db"
| "rotate_all cr c sec now i (k # ks) db =
     rotate_all cr c sec now (i + 1) ks (rotate_one cr (fresh c i) (sec (2 * i)) (sec (2 * i + 1)) now k db)"

definition rotate_expired_workspace_keyrings ::
  "crypto \<Rightarrow> call \<Rightarrow> (nat \<Rightarrow> string) \<Rightarrow> int \<Rightarrow> int \<Rightarrow> instant option
   \<Rightarrow> ('z auth_db_scheme, nat \<times> nat) svc" where
  "rotate_expired_workspace_keyrings cr c sec max_age_days batch_size now db =
     (if max_age_days \<le> 0 then (Inl (ValueError ''max_age_days must be greater than zero''), db)
      else if batch_size \<le> 0 then (Inl (ValueError ''batch_size must be greater than zero''), db)
      else let reference_time = (case now of None \<Rightarrow> clock c 0 | Some t \<Rightarrow> t);
               ks = due_keyrings (reference_time - days_us max_age_days) (nat batch_size) db
           in (Inr (length ks, length ks), rotate_all cr c sec reference_time 0 ks db))"

end
