(* ===== verification/Mfa.thy ===== *)
theory Mfa
  imports Keyring Tokens
begin

text \<open>
  Second factors and password login of \<open>AuthService\<close>: time based codes (HMAC-SHA1 with dynamic
  truncation over a base32 secret), backup codes, the operations that turn them on and off, and
  \<open>login\<close>. Byte strings are lists of characters, as strings are.
\<close>

section \<open>Base32\<close>

fun to_bits :: "nat \<Rightarrow> nat \<Rightarrow> bool list" where
  "to_bits 0 n = []"
| "to_bits (Suc w) n = to_bits w (n div 2) @ [odd n]"

definition of_bits :: "bool list \<Rightarrow> nat" where
  "of_bits bs = foldl (\<lambda>a b. 2 * a + of_bool b) 0 bs"

text \<open>The complete groups of \<open>k\<close> elements; a shorter rest is dropped.\<close>

function groups :: "nat \<Rightarrow> 'a list \<Rightarrow> 'a list list" where
  "groups k xs = (if k = 0 \<or> length xs < k then [] else take k xs # groups k (drop k xs))"
  by pat_completeness auto
termination by (relation "measure (\<lambda>(k, xs). length xs)") auto

declare groups.simps [simp del]

definition b32_alphabet :: string where
  "b32_alphabet = ''ABCDEFGHIJKLMNOPQRSTUVWXYZ234567''"

definition b32_val :: "char \<Rightarrow> nat option" where
  "b32_val ch = (let n = of_char ch :: nat in
     if 65 \<le> n \<and> n \<le> 90 then Some (n - 65) else if 50 \<le> n \<and> n \<le> 55 then Some (n - 24) else None)"

definition byte_bits :: "string \<Rightarrow> bool list" where
  "byte_bits s = concat (map (\<lambda>ch. to_bits 8 (of_char ch)) s)"

text \<open>\<open>b32encode(raw).rstrip("=")\<close>.\<close>

definition b32encode :: "string \<Rightarrow> string" where
  "b32encode raw =
     (let bits = byte_bits raw; bits = bits @ replicate ((5 - length bits mod 5) mod 5) False
      in map (\<lambda>g. b32_alphabet ! of_bits g) (groups 5 bits))"

definition py_upper :: "string \<Rightarrow> string" where
  "py_upper s = map (\<lambda>ch. let n = of_char ch :: nat in if 97 \<le> n \<and> n \<le> 122 then char_of (n - 32) else ch) s"

definition rstrip_char :: "char \<Rightarrow> string \<Rightarrow> string" where
  "rstrip_char x s = rev (dropWhile (\<lambda>ch. ch = x) (rev s))"

text \<open>\<open>b32decode(s + "=" * (-len(s) % 8), casefold=True)\<close>.\<close>

definition b32decode :: "string \<Rightarrow> string result" where
  "b32decode s =
     (let padded = s @ replicate ((8 - length s mod 8) mod 8) (CHR ''='');
          body = rstrip_char (CHR ''='') (py_upper padded);
          pads = length padded - length body;
          digits = map b32_val body
      in if None \<in> set digits then Inl (ValueError ''Non-base32 digit found'')
         else if pads \<notin> {0, 1, 3, 4, 6} then Inl (ValueError ''Incorrect padding'')
         else Inr (map (\<lambda>g. char_of (of_bits g)) (groups 8 (concat (map (\<lambda>d. to_bits 5 (the d)) digits)))))"

section \<open>Time based codes\<close>

fun be_bytes :: "nat \<Rightarrow> nat \<Rightarrow> string" where
  "be_bytes 0 n = []"
| "be_bytes (Suc w) n = be_bytes w (n div 256) @ [char_of (n mod 256)]"

definition be_value :: "string \<Rightarrow> nat" where
  "be_value s = foldl (\<lambda>a ch. 256 * a + of_char ch) 0 s"

unbundle bit_operations_syntax

definition totp_at :: "crypto \<Rightarrow> string \<Rightarrow> int \<Rightarrow> string result" where
  "totp_at cr secret_b32 ts =
     (case b32decode secret_b32 of
        Inl err \<Rightarrow> Inl err
      | Inr key \<Rightarrow>
          let counter = ts div 30
          in if counter < 0 \<or> 2 ^ 64 \<le> counter then Inl StructError
             else
               let digest = hmac_sha1 cr key (be_bytes 8 (nat counter))
               in if digest = [] then Inl IndexError
                  else
                    let offset = unat (of_char (last digest) AND (0x0F :: 8 word));
                        piece = take 4 (drop offset digest)
                    in if length piece \<noteq> 4 then Inl StructError
                       else
                         let dbc = unat (word_of_nat (be_value piece) AND (0x7FFFFFFF :: 32 word))
                         in Inr (pad_digits 6 (dbc mod 10 ^ 6)))"

definition normalize_totp_code :: "string \<Rightarrow> string" where
  "normalize_totp_code code = filter (\<lambda>ch. \<not> is_space_char ch) code"

fun try_drifts :: "crypto \<Rightarrow> string \<Rightarrow> string \<Rightarrow> int \<Rightarrow> int list \<Rightarrow> bool result" where
  "try_drifts cr secret normalized now [] = Inr False"
| "try_drifts cr secret normalized now (d # ds) =
     (case totp_at cr secret (now + d * 30) of
        Inl err \<Rightarrow> Inl err
      | Inr code \<Rightarrow> if code = normalized then Inr True else try_drifts cr secret normalized now ds)"

definition verify_totp_secret :: "crypto \<Rightarrow> string \<Rightarrow> string \<Rightarrow> instant \<Rightarrow> bool result" where
  "verify_totp_secret cr secret code now =
     (let normalized = normalize_totp_code code
      in if \<not> (normalized \<noteq> [] \<and> list_all is_digit_char normalized) \<or> length normalized < 6 then Inr False
         else try_drifts cr secret normalized (seconds now) [-1, 0, 1])"

definition verify_totp_code_for_user ::
  "crypto \<Rightarrow> user \<Rightarrow> string \<Rightarrow> instant \<Rightarrow> 'z auth_db_scheme \<Rightarrow> bool result" where
  "verify_totp_code_for_user cr u code now db =
     (case us_totp_secret u of
        None \<Rightarrow> Inr False
      | Some [] \<Rightarrow> Inr False
      | Some ct \<Rightarrow>
          (case decrypt_secret_for_org cr (us_org u) ct db of
             Inl err \<Rightarrow> Inl err
           | Inr secret \<Rightarrow> verify_totp_secret cr secret code now))"

section \<open>Backup codes\<close>

definition BACKUP_CODE_COUNT :: nat where
  "BACKUP_CODE_COUNT = 8"

definition hash_backup_code :: "platform \<Rightarrow> string \<Rightarrow> string" where
  "hash_backup_code pf code = hexdigest (sha256 pf code)"

definition clear_backup_codes :: "uuid \<Rightarrow> 'z auth_db_scheme \<Rightarrow> 'z auth_db_scheme" where
  "clear_backup_codes uid db = db\<lparr>backup_codes := filter (\<lambda>b. bc_user b \<noteq> uid) (backup_codes db)\<rparr>"

text \<open>\<open>raw i\<close> is the \<open>i\<close>-th result of \<open>secrets.token_hex(5)\<close>; the printed code has a dash in it.\<close>

definition new_backup_code :: "platform \<Rightarrow> call \<Rightarrow> nat \<Rightarrow> (nat \<Rightarrow> string) \<Rightarrow> user \<Rightarrow> nat \<Rightarrow> backup_code" where
  "new_backup_code pf c base raw u i =
     \<lparr>bc_id = fresh c (base + i), bc_user = us_id u, bc_hash = hash_backup_code pf (raw i), bc_used_at = None\<rparr>"

definition generate_backup_codes ::
  "platform \<Rightarrow> call \<Rightarrow> nat \<Rightarrow> (nat \<Rightarrow> string) \<Rightarrow> user \<Rightarrow> ('z auth_db_scheme, string list) svc" where
  "generate_backup_codes pf c base raw u db =
     (let db = clear_backup_codes (us_id u) db
      in if us_org u = None then (Inl (IntegrityError ''totp_backup_codes.org_id''), db)
         else (Inr (map (\<lambda>i. take 5 (raw i) @ ''-'' @ drop 5 (raw i)) [0..<BACKUP_CODE_COUNT]),
               db\<lparr>backup_codes := backup_codes db @ map (new_backup_code pf c base raw u) [0..<BACKUP_CODE_COUNT]\<rparr>))"

definition backup_codes_remaining :: "user \<Rightarrow> 'z auth_db_scheme \<Rightarrow> nat" where
  "backup_codes_remaining u db =
     length (filter (\<lambda>b. bc_user b = us_id u \<and> bc_used_at b = None) (backup_codes db))"

definition normalize_backup_code :: "string \<Rightarrow> string" where
  "normalize_backup_code code = py_lower (py_strip (filter (\<lambda>ch. ch \<noteq> CHR ''-'') code))"

definition unused_codes :: "platform \<Rightarrow> uuid \<Rightarrow> string \<Rightarrow> 'z auth_db_scheme \<Rightarrow> backup_code list" where
  "unused_codes pf uid code db =
     filter (\<lambda>b. bc_user b = uid \<and> bc_hash b = hash_backup_code pf (normalize_backup_code code)
        \<and> bc_used_at b = None) (backup_codes db)"

definition use_backup_code :: "platform \<Rightarrow> instant \<Rightarrow> user \<Rightarrow> string \<Rightarrow> ('z auth_db_scheme, bool) svc" where
  "use_backup_code pf now u code db =
     (case scalar_one_or_none (unused_codes pf (us_id u) code db) of
        Inl err \<Rightarrow> (Inl err, db)
      | Inr None \<Rightarrow> (Inr False, db)
      | Inr (Some b) \<Rightarrow>
          (Inr True, db\<lparr>backup_codes := row_put bc_id (b\<lparr>bc_used_at := Some now\<rparr>) (backup_codes db)\<rparr>))"

section \<open>Turning the second factor on and off\<close>

definition totp_event ::
  "platform \<Rightarrow> user \<Rightarrow> string \<Rightarrow> stamp \<Rightarrow> ('z auth_db_scheme, unit) svc" where
  "totp_event pf u kind st = user_event pf (us_org u) (us_id u) kind ''user'' (uuid_str (us_id u))
     [(''email'', PStr (us_email u))] st"

definition otpauth_url :: "string \<Rightarrow> user \<Rightarrow> string \<Rightarrow> string" where
  "otpauth_url rp_name u secret =
     (let issuer = (if rp_name = [] then ''CauSium'' else rp_name)
      in ''otpauth://totp/'' @ issuer @ '':'' @ us_email u @ ''?secret='' @ secret @ ''&issuer='' @ issuer
         @ ''&algorithm=SHA1&digits=6&period=30'')"

text \<open>\<open>rnd\<close> is \<open>secrets.token_bytes(20)\<close>.\<close>

definition begin_totp_setup ::
  "platform \<Rightarrow> crypto \<Rightarrow> call \<Rightarrow> (nat \<Rightarrow> string) \<Rightarrow> string \<Rightarrow> string \<Rightarrow> user
   \<Rightarrow> ('z auth_db_scheme, string \<times> string) svc" where
  "begin_totp_setup pf cr c sec rnd rp_name u db =
     (let secret = b32encode rnd
      in case encrypt_secret_for_org cr c sec (us_org u) secret db of
           (Inl err, db) \<Rightarrow> (Inl err, db)
         | (Inr ct, db) \<Rightarrow>
             let u = u\<lparr>us_totp_secret := Some ct, us_totp_enabled := False, us_totp_verified_at := None\<rparr>
             in (case totp_event pf u ''auth.mfa.totp.setup_started'' (fresh c 1, clock c 1) (put_user u db) of
                   (Inl err, db) \<Rightarrow> (Inl err, db)
                 | (Inr _, db) \<Rightarrow> (Inr (secret, otpauth_url rp_name u secret), db)))"

definition enable_totp ::
  "platform \<Rightarrow> crypto \<Rightarrow> call \<Rightarrow> (nat \<Rightarrow> string) \<Rightarrow> user \<Rightarrow> string
   \<Rightarrow> ('z auth_db_scheme, user \<times> string list) svc" where
  "enable_totp pf cr c raw u code db =
     (if us_totp_secret u \<in> {None, Some []} then (Inl (ValueError ''TOTP setup not initialized''), db)
      else case verify_totp_code_for_user cr u code (clock c 0) db of
        Inl err \<Rightarrow> (Inl err, db)
      | Inr False \<Rightarrow> (Inl (ValueError ''Invalid MFA code''), db)
      | Inr True \<Rightarrow>
          let u = u\<lparr>us_totp_enabled := True, us_totp_verified_at := Some (clock c 1)\<rparr>
          in (case generate_backup_codes pf c 0 raw u (put_user u db) of
                (Inl err, db) \<Rightarrow> (Inl err, db)
              | (Inr codes, db) \<Rightarrow>
                  (case totp_event pf u ''auth.mfa.totp.enabled'' (fresh c 8, clock c 2) db of
                     (Inl err, db) \<Rightarrow> (Inl err, db)
                   | (Inr _, db) \<Rightarrow> (Inr (u, codes), db))))"

definition disable_totp ::
  "platform \<Rightarrow> crypto \<Rightarrow> call \<Rightarrow> user \<Rightarrow> string \<Rightarrow> ('z auth_db_scheme, user) svc" where
  "disable_totp pf cr c u code db =
     (if \<not> us_totp_enabled u then (Inl (ValueError ''TOTP is not enabled''), db)
      else case verify_totp_code_for_user cr u code (clock c 0) db of
        Inl err \<Rightarrow> (Inl err, db)
      | Inr False \<Rightarrow> (Inl (ValueError ''Invalid MFA code''), db)
      | Inr True \<Rightarrow>
          let u = u\<lparr>us_totp_enabled := False, us_totp_secret := None, us_totp_verified_at := None\<rparr>
          in (case totp_event pf u ''auth.mfa.totp.disabled'' (fresh c 0, clock c 1) (put_user u db) of
                (Inl err, db) \<Rightarrow> (Inl err, db)
              | (Inr _, db) \<Rightarrow> (Inr u, db)))"

text \<open>The route that replaces the backup codes.\<close>

definition totp_backup_codes_regenerate ::
  "platform \<Rightarrow> crypto \<Rightarrow> call \<Rightarrow> (nat \<Rightarrow> string) \<Rightarrow> uuid \<Rightarrow> string \<Rightarrow> ('z auth_db_scheme, string list) svc" where
  "totp_backup_codes_regenerate pf cr c raw uid code db =
     (case get_user_by_id uid db of
        None \<Rightarrow> (Inl (HTTPException 400 ''TOTP not enabled''), db)
      | Some u \<Rightarrow>
          if \<not> us_totp_enabled u then (Inl (HTTPException 400 ''TOTP not enabled''), db)
          else case verify_totp_code_for_user cr u code (clock c 0) db of
            Inl err \<Rightarrow> (Inl err, db)
          | Inr False \<Rightarrow> (Inl (HTTPException 400 ''Invalid MFA code''), db)
          | Inr True \<Rightarrow> generate_backup_codes pf c 0 raw u db)"

section \<open>Password login\<close>

text \<open>The second factor of a login: a time based code, or else a backup code, which is consumed.\<close>

definition second_factor ::
  "platform \<Rightarrow> crypto \<Rightarrow> call \<Rightarrow> user \<Rightarrow> string option \<Rightarrow> ('z auth_db_scheme, unit) svc" where
  "second_factor pf cr c u totp_code db =
     (if \<not> us_totp_enabled u then (Inr (), db)
      else case totp_code of
        None \<Rightarrow> (Inl (ValueError ''MFA code required''), db)
      | Some [] \<Rightarrow> (Inl (ValueError ''MFA code required''), db)
      | Some code \<Rightarrow>
          (case verify_totp_code_for_user cr u code (clock c 0) db of
             Inl err \<Rightarrow> (Inl err, db)
           | Inr True \<Rightarrow> (Inr (), db)
           | Inr False \<Rightarrow>
               (case use_backup_code pf (clock c 1) u code db of
                  (Inl err, db) \<Rightarrow> (Inl err, db)
                | (Inr False, db) \<Rightarrow> (Inl (ValueError ''Invalid MFA code''), db)
                | (Inr True, db) \<Rightarrow> (Inr (), db))))"

definition password_allowed :: "user \<Rightarrow> 'z auth_db_scheme \<Rightarrow> bool" where
  "password_allowed u db \<longleftrightarrow>
     (case us_org u of None \<Rightarrow> True
      | Some i \<Rightarrow> (case get_org i db of None \<Rightarrow> True | Some g \<Rightarrow> \<not> og_passwordless_only g))"

definition login_event :: "platform \<Rightarrow> user \<Rightarrow> stamp \<Rightarrow> 'z auth_db_scheme \<Rightarrow> 'z auth_db_scheme" where
  "login_event pf u st db =
     (case us_org u of
        None \<Rightarrow> db
      | Some i \<Rightarrow> append_event pf i (Some (us_id u)) ''auth.password.login'' ''user'' (uuid_str (us_id u))
          (PDict [(''email'', PStr (us_email u))]) st db)"

definition login ::
  "platform \<Rightarrow> crypto \<Rightarrow> call \<Rightarrow> string \<Rightarrow> string \<Rightarrow> string option
   \<Rightarrow> ('z auth_db_scheme, user \<times> string \<times> string) svc" where
  "login pf cr c email password totp_code db =
     (case get_user_by_email email db of
        None \<Rightarrow> (Inl (ValueError ''Invalid credentials''), db)
      | Some u \<Rightarrow>
          if \<not> pw_verify cr password (us_password u) then (Inl (ValueError ''Invalid credentials''), db)
          else if \<not> us_active u then (Inl (ValueError ''Account inactive''), db)
          else if \<not> password_allowed u db
          then (Inl (ValueError ''Password login disabled by organization policy (passwordless-only)''), db)
          else case second_factor pf cr c u totp_code db of
            (Inl err, db) \<Rightarrow> (Inl err, db)
          | (Inr _, db) \<Rightarrow>
              let u = u\<lparr>us_last_login := Some (clock c 2)\<rparr>;
                  db = login_event pf u (fresh c 0, clock c 3) (put_user u db)
              in (Inr (u, token_pair cr (clock c 4) (clock c 5) u), db))"

definition login_route ::
  "platform \<Rightarrow> crypto \<Rightarrow> call \<Rightarrow> string \<Rightarrow> string \<Rightarrow> string option
   \<Rightarrow> ('z auth_db_scheme, user \<times> string \<times> string) svc" where
  "login_route pf cr c email password totp_code =
     request_scope (\<lambda>db. case login pf cr c email password totp_code db of
       (Inl err, db) \<Rightarrow> (Inl (unauthorized err), db) | (Inr r, db) \<Rightarrow> (Inr r, db))"

end
