(* ===== verification/KeyringLaws.thy ===== *)
theory KeyringLaws
  imports Keyring AuthExample
begin

text \<open>
  What the key rings guarantee: versions are unique in an organization, at most one ring is active,
  every key can be recovered, no operation loses a key, and so a secret encrypted once can be
  decrypted after any number of rotations.
\<close>

section \<open>Invariant\<close>

definition ring_key :: "keyring \<Rightarrow> uuid \<times> int" where
  "ring_key k = (kr_org k, kr_version k)"

definition ring_ok :: "crypto \<Rightarrow> keyring \<Rightarrow> bool" where
  "ring_ok cr k \<longleftrightarrow> 1 \<le> kr_version k \<and> fe_decrypt cr (fe_master cr) (kr_material k) \<noteq> None"

definition rings_ok :: "crypto \<Rightarrow> keyring list \<Rightarrow> bool" where
  "rings_ok cr ks \<longleftrightarrow> distinct (map kr_id ks) \<and> distinct (map ring_key ks) \<and> list_all (ring_ok cr) ks
     \<and> (\<forall>a\<in>set ks. \<forall>b\<in>set ks. kr_active a \<and> kr_active b \<and> kr_org a = kr_org b \<longrightarrow> a = b)"

text \<open>No key is lost: its organization, version and material stay.\<close>

definition same_ring :: "keyring \<Rightarrow> keyring \<Rightarrow> bool" where
  "same_ring k k' \<longleftrightarrow> kr_id k' = kr_id k \<and> ring_key k' = ring_key k \<and> kr_material k' = kr_material k"

definition keeps_rings :: "keyring list \<Rightarrow> keyring list \<Rightarrow> bool" where
  "keeps_rings ks ks' \<longleftrightarrow> (\<forall>k\<in>set ks. \<exists>k'\<in>set ks'. same_ring k k')"

lemma keeps_rings_refl [simp]: "keeps_rings ks ks"
  by (auto simp: keeps_rings_def same_ring_def)

lemma keeps_rings_trans: "keeps_rings a b \<Longrightarrow> keeps_rings b c \<Longrightarrow> keeps_rings a c"
  unfolding keeps_rings_def same_ring_def by metis

lemma keeps_rings_add: "keeps_rings ks (row_add k ks)"
  by (auto simp: keeps_rings_def same_ring_def row_add_def)

lemma row_put_row:
  assumes "distinct (map kr_id ks)" and "k \<in> set ks" and "kr_id k' = kr_id k"
  shows "row_put kr_id k' ks = map (\<lambda>x. if x = k then k' else x) ks"
  using assms unfolding row_put_def by (auto simp: distinct_map dest: inj_onD)

lemma rings_ok_add:
  assumes "rings_ok cr ks" and "kr_id k \<notin> kr_id ` set ks" and "ring_key k \<notin> ring_key ` set ks"
    and "ring_ok cr k" and "\<forall>x\<in>set ks. kr_active x \<longrightarrow> kr_org x \<noteq> kr_org k"
  shows "rings_ok cr (row_add k ks)"
proof -
  have "a = b" if "a \<in> set (row_add k ks)" "b \<in> set (row_add k ks)" "kr_active a" "kr_active b"
      "kr_org a = kr_org b" for a b
  proof (cases "a = k \<or> b = k")
    case True
    with that assms(5) show ?thesis by (auto simp: row_add_def)
  next
    case False
    with that assms(1) show ?thesis by (auto simp: row_add_def rings_ok_def)
  qed
  then show ?thesis using assms(1-4) by (simp add: rings_ok_def row_add_def)
qed

lemma new_ring_ok: "fernet_ok cr \<Longrightarrow> 1 \<le> v \<Longrightarrow> ring_ok cr (new_ring cr i key salt org v now)"
  by (simp add: ring_ok_def new_ring_def fernet_ok_def)

lemma retire_ok:
  assumes ok: "rings_ok cr ks" and k: "k \<in> set ks"
  shows "rings_ok cr (row_put kr_id (k\<lparr>kr_active := False\<rparr>) ks)"
    and "keeps_rings ks (row_put kr_id (k\<lparr>kr_active := False\<rparr>) ks)"
    and "\<forall>x\<in>set (row_put kr_id (k\<lparr>kr_active := False\<rparr>) ks). kr_active x \<and> kr_org x = kr_org k \<longrightarrow> \<not> kr_active k"
    and "\<forall>x\<in>set ks. kr_id x \<noteq> kr_id k \<longrightarrow> x \<in> set (row_put kr_id (k\<lparr>kr_active := False\<rparr>) ks)"
proof -
  let ?r = "k\<lparr>kr_active := False\<rparr>"
  have d: "distinct (map kr_id ks)" using ok by (simp add: rings_ok_def)
  have map: "row_put kr_id ?r ks = map (\<lambda>x. if x = k then ?r else x) ks"
    by (rule row_put_row [OF d k]) simp
  have keys: "map ring_key (row_put kr_id ?r ks) = map ring_key ks"
    unfolding map by (auto simp: ring_key_def)
  have el: "x = ?r \<or> x \<in> set ks \<and> x \<noteq> k" if "x \<in> set (row_put kr_id ?r ks)" for x
    using that unfolding map by auto
  have rok: "ring_ok cr ?r" using ok k by (auto simp: rings_ok_def list_all_iff ring_ok_def)
  have all: "\<forall>x\<in>set ks. ring_ok cr x" using ok by (simp add: rings_ok_def list_all_iff)
  have "ring_ok cr x" if "x \<in> set (row_put kr_id ?r ks)" for x
    using el [OF that] rok all by metis
  then have "list_all (ring_ok cr) (row_put kr_id ?r ks)" by (simp add: list_all_iff)
  moreover have "a = b" if "a \<in> set (row_put kr_id ?r ks)" "b \<in> set (row_put kr_id ?r ks)"
      "kr_active a" "kr_active b" "kr_org a = kr_org b" for a b
  proof -
    have "a \<in> set ks" "b \<in> set ks" using el [OF that(1)] el [OF that(2)] that(3,4) by auto
    with that ok show ?thesis unfolding rings_ok_def by blast
  qed
  ultimately show "rings_ok cr (row_put kr_id ?r ks)" using ok keys by (auto simp: rings_ok_def)
  show "keeps_rings ks (row_put kr_id ?r ks)"
    unfolding keeps_rings_def
  proof
    fix x assume "x \<in> set ks"
    then have "(if x = k then ?r else x) \<in> set (row_put kr_id ?r ks)" unfolding map set_map by (rule imageI)
    moreover have "same_ring x (if x = k then ?r else x)" by (simp add: same_ring_def ring_key_def)
    ultimately show "\<exists>k'\<in>set (row_put kr_id ?r ks). same_ring x k'" by blast
  qed
  show "\<forall>x\<in>set (row_put kr_id ?r ks). kr_active x \<and> kr_org x = kr_org k \<longrightarrow> \<not> kr_active k"
    using el ok k by (fastforce simp: rings_ok_def)
  show "\<forall>x\<in>set ks. kr_id x \<noteq> kr_id k \<longrightarrow> x \<in> set (row_put kr_id ?r ks)" unfolding map by auto
qed

lemma max_version_ge: "k \<in> set (keyrings db) \<Longrightarrow> kr_org k = org \<Longrightarrow> kr_version k \<le> max_version org db"
  by (auto simp: max_version_def Let_def filter_empty_conv intro!: Max_ge)

lemma max_version_nonneg: "rings_ok cr (keyrings db) \<Longrightarrow> 0 \<le> max_version org db"
proof (cases "\<exists>k\<in>set (keyrings db). kr_org k = org")
  case True
  then obtain k where k: "k \<in> set (keyrings db)" "kr_org k = org" by blast
  moreover assume "rings_ok cr (keyrings db)"
  ultimately have "1 \<le> kr_version k" by (auto simp: rings_ok_def list_all_iff ring_ok_def)
  with max_version_ge [OF k] show ?thesis by simp
qed (auto simp: max_version_def filter_empty_conv)

lemma rotate_one_ok:
  assumes fe: "fernet_ok cr" and ok: "rings_ok cr (keyrings db)" and k: "k \<in> set (keyrings db)"
    and act: "kr_active k" and new: "i \<notin> kr_id ` set (keyrings db)"
  shows "rings_ok cr (keyrings (rotate_one cr i key salt now k db))"
    and "keeps_rings (keyrings db) (keyrings (rotate_one cr i key salt now k db))"
    and "kr_id ` set (keyrings (rotate_one cr i key salt now k db)) = insert i (kr_id ` set (keyrings db))"
    and "\<forall>x\<in>set (keyrings db). kr_id x \<noteq> kr_id k \<longrightarrow> x \<in> set (keyrings (rotate_one cr i key salt now k db))"
proof -
  let ?ks = "row_put kr_id (k\<lparr>kr_active := False\<rparr>) (keyrings db)"
  let ?n = "new_ring cr i key salt (kr_org k) (max_version (kr_org k) db + 1) now"
  note retired = retire_ok [OF ok k]
  have rings: "keyrings (rotate_one cr i key salt now k db) = ?ks @ [?n]"
    by (simp add: rotate_one_def Let_def row_add_def)
  have n: "kr_id ?n = i" "ring_key ?n = (kr_org k, max_version (kr_org k) db + 1)" "kr_org ?n = kr_org k"
    by (simp_all add: new_ring_def ring_key_def)
  have nok: "ring_ok cr ?n" using max_version_nonneg [OF ok] by (intro new_ring_ok [OF fe]) simp
  have ids: "kr_id ` set ?ks = kr_id ` set (keyrings db)" by (metis map_key_row_put set_map)
  have keys: "ring_key ` set ?ks = ring_key ` set (keyrings db)"
    using row_put_row [of "keyrings db" k "k\<lparr>kr_active := False\<rparr>"] ok k
    by (auto simp: rings_ok_def ring_key_def image_iff)
  have "ring_key ?n \<notin> ring_key ` set ?ks"
    unfolding keys n(2) using max_version_ge [of _ db "kr_org k"] by (fastforce simp: ring_key_def)
  then have "rings_ok cr (row_add ?n ?ks)"
    using retired(1,3) new act nok n(1,3) ids by (intro rings_ok_add) auto
  then show "rings_ok cr (keyrings (rotate_one cr i key salt now k db))"
    unfolding rings row_add_def .
  show "keeps_rings (keyrings db) (keyrings (rotate_one cr i key salt now k db))"
    using retired(2) unfolding rings keeps_rings_def by auto
  show "kr_id ` set (keyrings (rotate_one cr i key salt now k db)) = insert i (kr_id ` set (keyrings db))"
    unfolding rings using ids n(1) by auto
  show "\<forall>x\<in>set (keyrings db). kr_id x \<noteq> kr_id k \<longrightarrow> x \<in> set (keyrings (rotate_one cr i key salt now k db))"
    using retired(4) unfolding rings by auto
qed

section \<open>Reachable key rings\<close>

lemma last_sorted:
  "(case rev (sort_key f xs) of [] \<Rightarrow> None | x # _ \<Rightarrow> Some x) = None \<longleftrightarrow> xs = []"
  "(case rev (sort_key f xs) of [] \<Rightarrow> None | x # _ \<Rightarrow> Some x) = Some y \<Longrightarrow> y \<in> set xs"
proof -
  obtain ys where ys: "rev (sort_key f xs) = ys" by simp
  then have "set ys = set xs" by auto
  then show "(case rev (sort_key f xs) of [] \<Rightarrow> None | x # _ \<Rightarrow> Some x) = None \<longleftrightarrow> xs = []"
    "(case rev (sort_key f xs) of [] \<Rightarrow> None | x # _ \<Rightarrow> Some x) = Some y \<Longrightarrow> y \<in> set xs"
    unfolding ys by (cases ys; auto)+
qed

lemma active_ring_Some: "active_ring org db = Some k \<Longrightarrow> k \<in> set (keyrings db) \<and> kr_org k = org \<and> kr_active k"
  unfolding active_ring_def by (drule last_sorted(2)) simp

lemma active_ring_None: "active_ring org db = None \<longleftrightarrow> (\<forall>k\<in>set (keyrings db). kr_active k \<longrightarrow> kr_org k \<noteq> org)"
  unfolding active_ring_def last_sorted(1) by (auto simp: filter_empty_conv)

text \<open>
  A step is a first use of an organization's key or a run of the rotation worker, with unused
  identifiers, or any operation that leaves the table alone.
\<close>

inductive keyring_step :: "crypto \<Rightarrow> 'z auth_db_scheme \<Rightarrow> 'z auth_db_scheme \<Rightarrow> bool" for cr where
  ensure: "fresh c 0 \<notin> kr_id ` set (keyrings db) \<Longrightarrow>
     keyring_step cr db (snd (ensure_workspace_keyring cr c sec org db))"
| rotate: "inj_on (fresh c) {..<length (keyrings db)} \<Longrightarrow>
     fresh c ` {..<length (keyrings db)} \<inter> kr_id ` set (keyrings db) = {} \<Longrightarrow>
     keyring_step cr db (snd (rotate_expired_workspace_keyrings cr c sec days batch now db))"
| other: "keyrings db' = keyrings db \<Longrightarrow> keyring_step cr db db'"

lemma rotate_all_ok:
  assumes fe: "fernet_ok cr"
  shows "rings_ok cr (keyrings db) \<Longrightarrow> set ks \<subseteq> set (keyrings db) \<Longrightarrow> distinct (map kr_id ks) \<Longrightarrow>
    list_all kr_active ks \<Longrightarrow> inj_on (fresh c) {n..<n + length ks} \<Longrightarrow>
    fresh c ` {n..<n + length ks} \<inter> kr_id ` set (keyrings db) = {} \<Longrightarrow>
    rings_ok cr (keyrings (rotate_all cr c sec now n ks db))
    \<and> keeps_rings (keyrings db) (keyrings (rotate_all cr c sec now n ks db))"
proof (induction ks arbitrary: n db)
  case (Cons k ks)
  let ?db = "rotate_one cr (fresh c n) (sec (2 * n)) (sec (2 * n + 1)) now k db"
  have k: "k \<in> set (keyrings db)" "kr_active k" using Cons.prems by auto
  have range: "{n..<n + length (k # ks)} = insert n {n + 1..<n + 1 + length ks}" by auto
  have new: "fresh c n \<notin> kr_id ` set (keyrings db)" using Cons.prems(6) unfolding range by blast
  note one = rotate_one_ok [OF fe Cons.prems(1) k new, of "sec (2 * n)" "sec (2 * n + 1)" now]
  have sub: "set ks \<subseteq> set (keyrings ?db)"
  proof
    fix x assume x: "x \<in> set ks"
    with Cons.prems(3) have "kr_id x \<noteq> kr_id k" by (metis distinct.simps(2) imageI list.simps(9) set_map)
    with x one(4) Cons.prems(2) show "x \<in> set (keyrings ?db)" by auto
  qed
  have inj: "inj_on (fresh c) {n + 1..<n + 1 + length ks}"
    using Cons.prems(5) unfolding range by (rule inj_on_subset) blast
  have fresh_n: "fresh c n \<notin> fresh c ` {n + 1..<n + 1 + length ks}"
    using Cons.prems(5) unfolding range inj_on_insert by simp
  from Cons.prems(6) have "fresh c ` {n + 1..<n + 1 + length ks} \<inter> kr_id ` set (keyrings db) = {}"
    unfolding range image_insert by blast
  with fresh_n have apart: "fresh c ` {n + 1..<n + 1 + length ks} \<inter> kr_id ` set (keyrings ?db) = {}"
    by (simp only: one(3) Int_insert_right if_False)
  have "distinct (map kr_id ks)" "list_all kr_active ks" using Cons.prems(3,4) by simp_all
  from Cons.IH [OF one(1) sub this inj apart]
  have "rings_ok cr (keyrings (rotate_all cr c sec now (n + 1) ks ?db))
      \<and> keeps_rings (keyrings ?db) (keyrings (rotate_all cr c sec now (n + 1) ks ?db))" .
  then show ?case using keeps_rings_trans [OF one(2)] by (simp only: rotate_all.simps)
qed simp

lemma due_keyrings_set: "set (due_keyrings cutoff n db) \<subseteq> set (filter (due cutoff) (keyrings db))"
  by (auto simp: due_keyrings_def Let_def dest!: in_set_takeD)

lemma due_keyrings_distinct:
  assumes "distinct (map kr_id (keyrings db))"
  shows "distinct (map kr_id (due_keyrings cutoff n db))"
proof -
  let ?ks = "filter (due cutoff) (keyrings db)"
  let ?nulls = "filter (\<lambda>k. kr_rotated_at k = None) ?ks" and ?dated = "filter (\<lambda>k. kr_rotated_at k \<noteq> None) ?ks"
  let ?all = "?nulls @ sort_key (\<lambda>k. the (kr_rotated_at k)) ?dated"
  have "mset ?all = mset ?nulls + mset ?dated" by simp
  also have "\<dots> = mset ?ks" using multiset_partition [of "mset ?ks" "\<lambda>k. kr_rotated_at k = None"]
    by (simp only: mset_filter not_None_eq not_not)
  finally have "mset ?all = mset ?ks" .
  then have "mset (map kr_id ?all) = mset (map kr_id ?ks)" by (metis mset_map)
  moreover have "distinct (map kr_id ?ks)" using assms by (simp add: distinct_map_filter)
  ultimately have "distinct (map kr_id ?all)" by (metis mset_eq_imp_distinct_iff)
  then show ?thesis unfolding due_keyrings_def Let_def by (simp only: take_map [symmetric] distinct_take)
qed

lemma due_keyrings_length: "length (due_keyrings cutoff n db) \<le> length (keyrings db)"
proof -
  let ?ks = "filter (due cutoff) (keyrings db)"
  have "length (due_keyrings cutoff n db) \<le> length (filter (\<lambda>k. kr_rotated_at k = None) ?ks)
      + length (filter (\<lambda>k. kr_rotated_at k \<noteq> None) ?ks)"
    by (simp add: due_keyrings_def Let_def)
  also have "\<dots> = length ?ks" by (rule sum_length_filter_compl)
  also have "\<dots> \<le> length (keyrings db)" by simp
  finally show ?thesis .
qed

lemma keyring_step_ok:
  assumes fe: "fernet_ok cr" and step: "keyring_step cr db db'" and ok: "rings_ok cr (keyrings db)"
  shows "rings_ok cr (keyrings db') \<and> keeps_rings (keyrings db) (keyrings db')"
  using step
proof cases
  case (ensure c sec org)
  show ?thesis
  proof (cases "active_ring org db")
    case None
    let ?k = "new_ring cr (fresh c 0) (sec 0) (sec 1) org 1 (clock c 0)"
    have k: "kr_id ?k = fresh c 0" "ring_key ?k = (org, 1)" "kr_org ?k = org" "ring_ok cr ?k"
      using new_ring_ok [OF fe] by (simp_all add: new_ring_def ring_key_def)
    show ?thesis
    proof (cases "list_ex (\<lambda>x. kr_org x = org \<and> kr_version x = 1) (keyrings db)")
      case True
      with ensure(1) None ok show ?thesis by (simp add: ensure_workspace_keyring_def Let_def)
    next
      case False
      then have "ring_key ?k \<notin> ring_key ` set (keyrings db)" unfolding k(2)
        by (auto simp: list_ex_iff ring_key_def)
      moreover from None have "\<forall>x\<in>set (keyrings db). kr_active x \<longrightarrow> kr_org x \<noteq> kr_org ?k"
        by (simp only: k(3) active_ring_None)
      ultimately have "rings_ok cr (row_add ?k (keyrings db))"
        using ok k(1,4) ensure(2) by (intro rings_ok_add) simp_all
      with False None ensure(1) show ?thesis
        by (simp add: ensure_workspace_keyring_def Let_def keeps_rings_add)
    qed
  qed (use ensure ok in \<open>simp add: ensure_workspace_keyring_def\<close>)
next
  case (rotate c sec days batch now)
  let ?t = "case now of None \<Rightarrow> clock c 0 | Some t \<Rightarrow> t"
  let ?ks = "due_keyrings (?t - days_us days) (nat batch) db"
  have "set ?ks \<subseteq> set (keyrings db)" "list_all kr_active ?ks"
    using due_keyrings_set [of "?t - days_us days" "nat batch" db] by (auto simp: list_all_iff due_def)
  moreover have "distinct (map kr_id ?ks)" using ok by (intro due_keyrings_distinct) (simp add: rings_ok_def)
  moreover have "length ?ks \<le> length (keyrings db)" by (rule due_keyrings_length)
  then have "inj_on (fresh c) {0..<0 + length ?ks}" "fresh c ` {0..<0 + length ?ks} \<inter> kr_id ` set (keyrings db) = {}"
  proof -
    assume "length ?ks \<le> length (keyrings db)"
    then have "{0..<0 + length ?ks} \<subseteq> {..<length (keyrings db)}" by auto
    with rotate(2,3) show "inj_on (fresh c) {0..<0 + length ?ks}"
      "fresh c ` {0..<0 + length ?ks} \<inter> kr_id ` set (keyrings db) = {}"
      by (blast intro: inj_on_subset)+
  qed
  ultimately have "rings_ok cr (keyrings (rotate_all cr c sec ?t 0 ?ks db))
      \<and> keeps_rings (keyrings db) (keyrings (rotate_all cr c sec ?t 0 ?ks db))"
    by (intro rotate_all_ok [OF fe ok])
  moreover have "keyrings db' = keyrings db \<or> keyrings db' = keyrings (rotate_all cr c sec ?t 0 ?ks db)"
    by (cases "days \<le> 0"; cases "batch \<le> 0")
      (simp_all only: rotate(1) rotate_expired_workspace_keyrings_def Let_def if_True if_False snd_conv simp_thms)
  ultimately show ?thesis using ok keeps_rings_refl by metis
next
  case other
  with ok show ?thesis by simp
qed

lemma keyring_steps_ok:
  assumes "(keyring_step cr)\<^sup>*\<^sup>* db db'" and "fernet_ok cr" and "rings_ok cr (keyrings db)"
  shows "rings_ok cr (keyrings db') \<and> keeps_rings (keyrings db) (keyrings db')"
  using assms(1)
proof (induction rule: rtranclp_induct)
  case (step y z)
  then show ?case using keyring_step_ok [OF assms(2) step.hyps(2)] keeps_rings_trans by blast
qed (simp add: assms(3))

section \<open>Ciphertexts\<close>

lemma py_contains_subset: "py_contains s p \<Longrightarrow> set p \<subseteq> set s"
proof (induction s)
  case (Cons a s)
  then show ?case using set_take_subset [of "length p" "a # s"] by (auto simp: py_startswith_def)
qed simp

lemma py_strip_none: "\<forall>c\<in>set s. \<not> is_space_char c \<Longrightarrow> py_strip s = s"
proof -
  assume none: "\<forall>c\<in>set s. \<not> is_space_char c"
  have "dropWhile is_space_char xs = xs" if "\<forall>c\<in>set xs. \<not> is_space_char c" for xs
    using that by (cases xs) auto
  from this [OF none] this [of "rev s"] none
  have "dropWhile is_space_char s = s" "dropWhile is_space_char (rev s) = rev s" by simp_all
  then show ?thesis by (simp add: py_strip_def)
qed

lemma digit_facts: "is_digit_char c \<Longrightarrow> \<not> is_space_char c \<and> c \<noteq> CHR ''-'' \<and> c \<noteq> CHR ''+'' \<and> c \<noteq> CHR ''_'' \<and> c \<noteq> CHR '':''"
  by (auto simp: is_digit_char_def is_space_char_def Let_def)

lemma py_int_nat_str: "py_int (nat_str n) = Some (int n)"
proof -
  have d: "\<forall>c\<in>set (nat_str n). is_digit_char c" using nat_str_digits by blast
  then have strip: "py_strip (nat_str n) = nat_str n" by (intro py_strip_none) (auto dest: digit_facts)
  have ends: "is_digit_char (hd (nat_str n))" "is_digit_char (last (nat_str n))"
    using d nat_str_nonempty [of n] by simp_all
  have "\<not> py_contains (nat_str n) ''__''" using d py_contains_subset digit_facts by fastforce
  with d ends have "digits_ok (nat_str n)" by (simp add: digits_ok_def list_all_iff)
  moreover have "filter is_digit_char (nat_str n) = nat_str n" using d by simp
  ultimately show ?thesis using ends(1) digit_facts [OF ends(1)] by (simp add: py_int_def strip Let_def)
qed

lemma split_ciphertext:
  assumes "0 \<le> v"
  shows "split_colon2 (''wk1:'' @ int_str v @ '':'' @ t) = Some (''wk1'', int_str v, t)"
proof -
  have no: "\<forall>c\<in>set (int_str v). c \<noteq> CHR '':''"
    using assms by (auto simp: int_str_def dest!: nat_str_digits digit_facts)
  then have "takeWhile (\<lambda>c. c \<noteq> CHR '':'') (int_str v @ CHR '':'' # t) = int_str v"
    "dropWhile (\<lambda>c. c \<noteq> CHR '':'') (int_str v @ CHR '':'' # t) = CHR '':'' # t"
    by (simp_all add: takeWhile_append dropWhile_append)
  then show ?thesis by (simp add: split_colon2_def Let_def)
qed

lemma encrypt_shape:
  assumes fe: "fernet_ok cr" and ok: "rings_ok cr (keyrings db)" and new: "fresh c 0 \<notin> kr_id ` set (keyrings db)"
    and enc: "encrypt_secret_for_org cr c sec (Some org) value db = (Inr ct, db1)"
  obtains k key where "k \<in> set (keyrings db1)" "kr_org k = org"
    "fe_decrypt cr (fe_master cr) (kr_material k) = Some key"
    "ct = ''wk1:'' @ int_str (kr_version k) @ '':'' @ fe_encrypt cr key (sec 2) value"
    "rings_ok cr (keyrings db1)"
proof -
  from enc obtain k where run: "ensure_workspace_keyring cr c sec org db = (Inr k, db1)"
    and k: "case fe_decrypt cr (fe_master cr) (kr_material k) of None \<Rightarrow> False
      | Some key \<Rightarrow> ct = ''wk1:'' @ int_str (kr_version k) @ '':'' @ fe_encrypt cr key (sec 2) value"
    by (auto simp: encrypt_secret_for_org_def WORKSPACE_CIPHERTEXT_PREFIX_def split: prod.splits sum.splits option.splits)
  have "k \<in> set (keyrings db1) \<and> kr_org k = org"
  proof (cases "active_ring org db")
    case None
    with run show ?thesis
      by (auto simp: ensure_workspace_keyring_def Let_def row_add_def new_ring_def split: if_splits)
  next
    case (Some k')
    with run active_ring_Some [OF Some] show ?thesis by (auto simp: ensure_workspace_keyring_def)
  qed
  moreover have "keyring_step cr db db1" using keyring_step.ensure [OF new, of cr sec org] run by simp
  then have "rings_ok cr (keyrings db1)" using keyring_step_ok [OF fe _ ok] by blast
  ultimately show thesis using k that by (auto split: option.splits)
qed

lemma decrypt_after_rotation:
  assumes fe: "fernet_ok cr" and ok: "rings_ok cr (keyrings db)"
    and new: "fresh c 0 \<notin> kr_id ` set (keyrings db)"
    and enc: "encrypt_secret_for_org cr c sec (Some org) value db = (Inr ct, db1)"
    and steps: "(keyring_step cr)\<^sup>*\<^sup>* db1 db2"
  shows "decrypt_secret_for_org cr (Some org) ct db2 = Inr value"
proof -
  obtain k key where k: "k \<in> set (keyrings db1)" "kr_org k = org"
      "fe_decrypt cr (fe_master cr) (kr_material k) = Some key"
      "ct = ''wk1:'' @ int_str (kr_version k) @ '':'' @ fe_encrypt cr key (sec 2) value"
    and ok1: "rings_ok cr (keyrings db1)"
    using encrypt_shape [OF fe ok new enc] by blast
  from keyring_steps_ok [OF steps fe ok1] have ok2: "rings_ok cr (keyrings db2)"
    and keep: "keeps_rings (keyrings db1) (keyrings db2)" by auto
  from keep k(1) obtain k' where k': "k' \<in> set (keyrings db2)" "same_ring k k'" by (auto simp: keeps_rings_def)
  have v: "1 \<le> kr_version k" using ok1 k(1) by (auto simp: rings_ok_def list_all_iff ring_ok_def)
  have "ring_of_version (Some org) (kr_version k) db2 = [k']"
    unfolding ring_of_version_def using ok2 k' k(2)
    by (intro filter_single [of ring_key]) (auto simp: rings_ok_def same_ring_def ring_key_def)
  moreover have "py_int (int_str (kr_version k)) = Some (kr_version k)"
    using v by (simp add: int_str_def py_int_nat_str)
  moreover have "py_startswith ct (WORKSPACE_CIPHERTEXT_PREFIX @ '':'')"
    by (simp add: k(4) py_startswith_def WORKSPACE_CIPHERTEXT_PREFIX_def)
  moreover have "split_colon2 ct = Some (''wk1'', int_str (kr_version k), fe_encrypt cr key (sec 2) value)"
    unfolding k(4) using v by (intro split_ciphertext) simp
  ultimately show ?thesis using k'(2) k(3) fe
    by (simp add: decrypt_secret_for_org_def same_ring_def fernet_ok_def)
qed

text \<open>
  C31 (roundtrip): a secret encrypted for an organization is decrypted to the same text after any
  sequence of first uses and rotations of keys, in any organization, whatever the batch size and age
  limit: rotation never loses a key that a stored ciphertext names.
\<close>

theorem secret_survives_rotation:
  assumes fe: "fernet_ok cr" and ok: "rings_ok cr (keyrings db)"
    and new: "fresh c 0 \<notin> kr_id ` set (keyrings db)"
    and enc: "encrypt_secret_for_org cr c sec (Some org) value db = (Inr ct, db1)"
    and steps: "(keyring_step cr)\<^sup>*\<^sup>* db1 db2"
  shows "decrypt_secret_for_org cr (Some org) ct db2 = Inr value"
  using assms by (rule decrypt_after_rotation)

definition toy_ring_db :: auth_db where
  "toy_ring_db = snd (ensure_workspace_keyring toy_crypto toy_call toy_sec 1 empty_auth_db)"

lemma toy_rings:
  "keyrings toy_ring_db = [new_ring toy_crypto 0 ''k'' ''k'' 1 1 0]"
  by (simp add: toy_ring_db_def ensure_workspace_keyring_def active_ring_def empty_auth_db_def Let_def
      toy_call_def toy_sec_def row_add_def)

lemma nat_str_one: "nat_str 1 = ''1''"
  by (subst nat_str.simps) (simp add: digit_char_def char_of_def bit_0)

lemma toy_encrypt:
  "encrypt_secret_for_org toy_crypto toy_call toy_sec (Some 1) ''s'' empty_auth_db = (Inr ''wk1:1:k/s'', toy_ring_db)"
  unfolding toy_ring_db_def using nat_str_one
  by (simp add: encrypt_secret_for_org_def ensure_workspace_keyring_def active_ring_def empty_auth_db_def
      new_ring_def toy_crypto_def toy_call_def toy_sec_def WORKSPACE_CIPHERTEXT_PREFIX_def
      py_startswith_def int_str_def Let_def)

lemma toy_rotate:
  "(keyring_step toy_crypto)\<^sup>*\<^sup>* toy_ring_db
     (snd (rotate_expired_workspace_keyrings toy_crypto toy_call' toy_sec 1 10 (Some (days_us 5)) toy_ring_db))"
  by (rule r_into_rtranclp, rule keyring_step.rotate)
    (simp_all add: toy_rings new_ring_def toy_call'_def lessThan_Suc)

theorem secret_survives_rotation_witness:
  "decrypt_secret_for_org toy_crypto (Some 1) ''wk1:1:k/s''
     (snd (rotate_expired_workspace_keyrings toy_crypto toy_call' toy_sec 1 10 (Some (days_us 5)) toy_ring_db))
   = Inr ''s''"
  by (rule secret_survives_rotation [OF toy_fernet _ _ toy_encrypt toy_rotate])
    (simp_all add: empty_auth_db_def rings_ok_def)

end
