(* ===== verification/MfaLaws.thy ===== *)
theory MfaLaws
  imports Mfa KeyringLaws
begin

text \<open>
  What the second factors guarantee: the codes are six digits and exactly those of the current and the
  two neighbouring half minutes pass, a secret set up can be confirmed after any rotation of keys, and
  a backup code is good for one login.
\<close>

section \<open>Base32\<close>

lemma length_to_bits [simp]: "length (to_bits w n) = w"
  by (induction w arbitrary: n) auto

lemma of_bits_snoc: "of_bits (bs @ [b]) = 2 * of_bits bs + of_bool b"
  by (simp add: of_bits_def)

lemma of_bits_to_bits: "n < 2 ^ w \<Longrightarrow> of_bits (to_bits w n) = n"
proof (induction w arbitrary: n)
  case (Suc w)
  then have "n div 2 < 2 ^ w" by simp
  from Suc.IH [OF this] show ?case by (simp add: of_bits_snoc)
qed (simp add: of_bits_def)

lemma to_bits_of_bits: "to_bits (length bs) (of_bits bs) = bs"
  by (induction bs rule: rev_induct) (simp_all add: of_bits_snoc)

lemma of_bits_less: "of_bits bs < 2 ^ length bs"
  by (induction bs rule: rev_induct) (simp_all add: of_bits_snoc of_bits_def)

lemma groups_concat: "0 < k \<Longrightarrow> \<forall>g\<in>set gs. length g = k \<Longrightarrow> groups k (concat gs) = gs"
proof (induction gs)
  case Nil
  then show ?case by (subst groups.simps) simp
next
  case (Cons g gs)
  then show ?case by (subst groups.simps) simp
qed

lemma concat_groups: "0 < k \<Longrightarrow> k dvd length xs \<Longrightarrow> concat (groups k xs) = xs"
proof (induction k xs rule: groups.induct)
  case (1 k xs)
  show ?case
  proof (cases "length xs < k")
    case True
    with "1.prems" have "xs = []" by (auto dest: dvd_imp_le)
    with True show ?thesis by (subst groups.simps) simp
  next
    case False
    with "1.prems" have "k dvd length (drop k xs)" by (simp add: dvd_diff_nat)
    with False 1 show ?thesis by (subst groups.simps) simp
  qed
qed

lemma groups_length: "g \<in> set (groups k xs) \<Longrightarrow> length g = k"
proof (induction k xs rule: groups.induct)
  case (1 k xs)
  then show ?case by (subst (asm) (2) groups.simps) (auto split: if_splits)
qed

lemma length_groups: "0 < k \<Longrightarrow> length (groups k xs) = length xs div k"
proof (induction k xs rule: groups.induct)
  case (1 k xs)
  then show ?case by (subst groups.simps) (auto simp: le_div_geq)
qed

lemma b32_alphabet_facts:
  assumes "n < 32"
  shows "b32_val (b32_alphabet ! n) = Some n" and "py_upper [b32_alphabet ! n] = [b32_alphabet ! n]"
    and "b32_alphabet ! n \<noteq> CHR ''=''"
proof -
  have vals: "map b32_val b32_alphabet = map Some [0..<32]"
    by (simp add: b32_alphabet_def b32_val_def upt_rec)
  have kept: "list_all (\<lambda>ch. py_upper [ch] = [ch] \<and> ch \<noteq> CHR ''='') b32_alphabet"
    by (simp add: b32_alphabet_def py_upper_def)
  have len: "length b32_alphabet = 32" by (simp add: b32_alphabet_def)
  have "map b32_val b32_alphabet ! n = map Some [0..<32] ! n" by (simp only: vals)
  with assms show "b32_val (b32_alphabet ! n) = Some n" by (simp add: len)
  from assms have "b32_alphabet ! n \<in> set b32_alphabet" by (simp add: len)
  with kept show "py_upper [b32_alphabet ! n] = [b32_alphabet ! n]" "b32_alphabet ! n \<noteq> CHR ''=''"
    by (simp_all add: list_all_iff)
qed

lemma length_byte_bits [simp]: "length (byte_bits s) = 8 * length s"
  by (induction s) (simp_all add: byte_bits_def)

lemma groups_byte_bits: "groups 8 (byte_bits s) = map (\<lambda>ch. to_bits 8 (of_char ch)) s"
  unfolding byte_bits_def by (rule groups_concat) auto

lemma char_bits: "char_of (of_bits (to_bits 8 (of_char ch))) = ch"
  by (subst of_bits_to_bits) simp_all

lemma b32_roundtrip:
  assumes len: "length raw mod 5 = 0"
  shows "b32decode (b32encode raw) = Inr raw"
proof -
  let ?bits = "byte_bits raw" and ?e = "b32encode raw"
  let ?gs = "groups 5 ?bits"
  have dvd: "5 dvd length ?bits" using len by (simp add: mod_eq_0_iff_dvd)
  then have "(5 - length ?bits mod 5) mod 5 = 0" by (simp only: dvd_eq_mod_eq_0 minus_nat.diff_0 mod_self)
  then have e: "?e = map (\<lambda>g. b32_alphabet ! of_bits g) ?gs"
    by (simp only: b32encode_def Let_def replicate_0 append_Nil2)
  have small: "of_bits g < 32" if "g \<in> set ?gs" for g
    using of_bits_less [of g] groups_length [OF that] by simp
  have "length ?e = 8 * length raw div 5" by (simp add: e length_groups)
  also have "\<dots> = 8 * (length raw div 5)" using len by (auto simp: mod_eq_0_iff_dvd elim!: dvdE)
  finally have "length ?e mod 8 = 0" by simp
  then have padded: "?e @ replicate ((8 - length ?e mod 8) mod 8) (CHR ''='') = ?e" by simp
  have chars: "\<forall>ch\<in>set ?e. py_upper [ch] = [ch] \<and> ch \<noteq> CHR ''=''"
    using b32_alphabet_facts(2,3) small by (auto simp: e)
  then have upper: "py_upper ?e = ?e" by (auto simp: py_upper_def Let_def map_idI)
  have "dropWhile (\<lambda>ch. ch = CHR ''='') (rev ?e) = rev ?e"
    using chars by (cases "rev ?e") (auto simp: dest: arg_cong [of _ _ set])
  then have strip: "rstrip_char (CHR ''='') ?e = ?e" by (simp add: rstrip_char_def)
  have digits: "map b32_val ?e = map (\<lambda>g. Some (of_bits g)) ?gs"
    using b32_alphabet_facts(1) small by (simp add: e)
  have "map (\<lambda>d. to_bits 5 (the d)) (map b32_val ?e) = map (\<lambda>g. to_bits 5 (of_bits g)) ?gs"
    unfolding digits by simp
  also have "\<dots> = ?gs"
  proof (rule map_idI)
    fix g assume "g \<in> set ?gs"
    from groups_length [OF this] to_bits_of_bits [of g] show "to_bits 5 (of_bits g) = g" by simp
  qed
  finally have "concat (map (\<lambda>d. to_bits 5 (the d)) (map b32_val ?e)) = ?bits"
    using concat_groups [OF _ dvd] by simp
  moreover have "None \<notin> set (map b32_val ?e)" unfolding digits by auto
  moreover have "map (\<lambda>g. char_of (of_bits g)) (map (\<lambda>ch. to_bits 8 (of_char ch)) raw) = raw"
    by (simp add: comp_def char_bits)
  ultimately show ?thesis
    unfolding b32decode_def Let_def padded upper strip
    by (simp add: groups_byte_bits del: map_map)
qed

section \<open>Time based codes\<close>

definition hmac_sha1_ok :: "crypto \<Rightarrow> bool" where
  "hmac_sha1_ok cr \<longleftrightarrow> (\<forall>k m. length (hmac_sha1 cr k m) = 20)"

text \<open>The instants whose half minute fits the 64 bit counter.\<close>

definition counter_range :: "int \<Rightarrow> bool" where
  "counter_range ts \<longleftrightarrow> 0 \<le> ts \<and> ts < 30 * 2 ^ 64"

lemma counter_quotient: "0 \<le> ts \<and> ts < 30 * n \<Longrightarrow> \<not> (ts div 30 < 0 \<or> n \<le> ts div 30)"
  for ts n :: int
  using div_mult_mod_eq [of ts 30] pos_mod_sign [of 30 ts] by (auto simp: pos_imp_zdiv_neg_iff)

lemma padded_code:
  "r = Inr (pad_digits w n) \<Longrightarrow> \<exists>k. r = Inr k \<and> length k = w \<and> (\<forall>ch\<in>set k. is_digit_char ch)"
  by (intro exI [of _ "pad_digits w n"]) (auto dest: pad_digits_all_digits)

lemma totp_at_code:
  assumes "hmac_sha1_ok cr" and "counter_range ts" and key: "b32decode secret = Inr key"
  shows "\<exists>code. totp_at cr secret ts = Inr code \<and> length code = 6 \<and> (\<forall>ch\<in>set code. is_digit_char ch)"
proof -
  let ?d = "hmac_sha1 cr key (be_bytes 8 (nat (ts div 30)))"
  let ?o = "unat (of_char (last ?d) AND (0x0F :: 8 word))"
  have len: "length ?d = 20" using assms(1) by (simp add: hmac_sha1_ok_def)
  then have ne: "?d \<noteq> []" by auto
  have "of_char (last ?d) AND (0x0F :: 8 word) \<le> 0x0F" by (rule word_and_le1)
  then have "?o \<le> unat (0x0F :: 8 word)" by (simp only: word_le_nat_alt)
  then have four: "(length (take 4 (drop ?o ?d)) \<noteq> 4) = False"
    by (simp only: length_take length_drop len) simp
  have counter: "(ts div 30 < 0 \<or> 2 ^ 64 \<le> ts div 30) = False"
    using counter_quotient [of ts "2 ^ 64"] assms(2) by (simp only: counter_range_def simp_thms)
  have "(?d = []) = False" using ne by simp
  then have "totp_at cr secret ts
      = Inr (pad_digits 6 (unat (word_of_nat (be_value (take 4 (drop ?o ?d))) AND (0x7FFFFFFF :: 32 word)) mod 10 ^ 6))"
    by (simp only: totp_at_def key sum.case Let_def counter four if_False)
  then show ?thesis by (rule padded_code)
qed

lemma try_drifts_exact:
  assumes "hmac_sha1_ok cr" and key: "b32decode secret = Inr key"
    and "\<forall>d\<in>set ds. counter_range (now + d * 30)"
  shows "try_drifts cr secret code now ds = Inr (\<exists>d\<in>set ds. totp_at cr secret (now + d * 30) = Inr code)"
  using assms(3)
proof (induction ds)
  case (Cons d ds)
  then obtain k where "totp_at cr secret (now + d * 30) = Inr k"
    using totp_at_code [OF assms(1) _ key] by fastforce
  with Cons show ?case by auto
qed simp

lemma normalize_digits: "\<forall>ch\<in>set code. is_digit_char ch \<Longrightarrow> normalize_totp_code code = code"
  unfolding normalize_totp_code_def by (rule filter_True) (auto dest: digit_facts)

lemma totp_window_exact_lemma:
  assumes "hmac_sha1_ok cr" and "b32decode secret = Inr key"
    and "counter_range (seconds now - 30)" and "counter_range (seconds now + 30)"
  shows "verify_totp_secret cr secret code now =
      Inr (\<exists>d\<in>{-1, 0, 1}. totp_at cr secret (seconds now + d * 30) = Inr (normalize_totp_code code))
    \<and> (\<exists>k. totp_at cr secret (seconds now) = Inr k \<and> length k = 6 \<and> list_all is_digit_char k)"
proof
  let ?n = "normalize_totp_code code"
  have range: "\<forall>d\<in>set [-1, 0, 1]. counter_range (seconds now + d * 30)"
    using assms(3,4) by (auto simp: counter_range_def)
  have digits: "list_all is_digit_char ?n \<and> length ?n = 6"
    if "d \<in> {-1, 0, 1}" "totp_at cr secret (seconds now + d * 30) = Inr ?n" for d
    using totp_at_code [OF assms(1) _ assms(2), of "seconds now + d * 30"] range that
    by (auto simp: list_all_iff)
  show "verify_totp_secret cr secret code now =
      Inr (\<exists>d\<in>{-1, 0, 1}. totp_at cr secret (seconds now + d * 30) = Inr ?n)"
  proof (cases "?n \<noteq> [] \<and> list_all is_digit_char ?n \<and> 6 \<le> length ?n")
    case True
    then show ?thesis
      using try_drifts_exact [OF assms(1,2) range, of ?n] by (simp add: verify_totp_secret_def Let_def)
  next
    case False
    with digits have "\<not> (\<exists>d\<in>{-1, 0, 1}. totp_at cr secret (seconds now + d * 30) = Inr ?n)" by fastforce
    moreover have "verify_totp_secret cr secret code now = Inr False"
      using False by (auto simp: verify_totp_secret_def Let_def)
    ultimately show ?thesis by simp
  qed
  show "\<exists>k. totp_at cr secret (seconds now) = Inr k \<and> length k = 6 \<and> list_all is_digit_char k"
    using totp_at_code [OF assms(1) _ assms(2), of "seconds now"] range by (auto simp: list_all_iff)
qed

text \<open>
  For a secret that decodes and a clock between 1970 and the end of the 64 bit counter, the
  code of every instant exists and has six digits (the truncation never leaves the 20 byte digest), and a
  submitted text passes exactly when it is, blanks dropped, the code of the current half minute or of a
  neighbour.
\<close>

theorem totp_window_exact:
  assumes "hmac_sha1_ok cr" and "b32decode secret = Inr key"
    and "counter_range (seconds now - 30)" and "counter_range (seconds now + 30)"
  shows "verify_totp_secret cr secret code now =
      Inr (\<exists>d\<in>{-1, 0, 1}. totp_at cr secret (seconds now + d * 30) = Inr (normalize_totp_code code))
    \<and> (\<exists>k. totp_at cr secret (seconds now) = Inr k \<and> length k = 6 \<and> list_all is_digit_char k)"
  using assms by (rule totp_window_exact_lemma)

lemma toy_hmac: "hmac_sha1_ok toy_crypto"
  by (simp add: hmac_sha1_ok_def toy_crypto_def)

lemma b32decode_empty: "b32decode [] = Inr []"
  using b32_roundtrip [of "[]"] by (simp add: b32encode_def byte_bits_def groups.simps)

theorem totp_window_exact_witness:
  "verify_totp_secret toy_crypto [] ''1'' 99000000
     = Inr (\<exists>d\<in>{-1, 0, 1}. totp_at toy_crypto [] (99 + d * 30) = Inr (normalize_totp_code ''1''))
   \<and> (\<exists>k. totp_at toy_crypto [] 99 = Inr k \<and> length k = 6 \<and> list_all is_digit_char k)"
proof -
  have s: "seconds 99000000 = 99" by (simp add: seconds_def)
  have range: "counter_range (seconds 99000000 - 30)" "counter_range (seconds 99000000 + 30)"
    by (simp_all add: counter_range_def s)
  from totp_window_exact [OF toy_hmac b32decode_empty range, of "''1''"] show ?thesis by (simp only: s)
qed

section \<open>Backup codes\<close>

lemma use_backup_code_spent:
  assumes use: "use_backup_code pf now u code db = (Inr True, db')"
    and ids: "distinct (map bc_id (backup_codes db))"
    and same: "normalize_backup_code code' = normalize_backup_code code" and "us_id u' = us_id u"
  shows "unused_codes pf (us_id u') code' db' = []"
proof -
  obtain b where b: "unused_codes pf (us_id u) code db = [b]"
    and db': "backup_codes db' = row_put bc_id (b\<lparr>bc_used_at := Some now\<rparr>) (backup_codes db)"
    using use by (auto simp: use_backup_code_def scalar_one_or_none_Some split: sum.splits option.splits)
  have "\<not> (bc_user x = us_id u \<and> bc_hash x = hash_backup_code pf (normalize_backup_code code) \<and> bc_used_at x = None)"
    if "x \<in> set (backup_codes db')" for x
  proof (cases "x = b\<lparr>bc_used_at := Some now\<rparr>")
    case False
    with that have x: "x \<in> set (backup_codes db)" "bc_id x \<noteq> bc_id b"
      unfolding db' row_put_def by (auto split: if_splits)
    show ?thesis
    proof
      assume "bc_user x = us_id u \<and> bc_hash x = hash_backup_code pf (normalize_backup_code code) \<and> bc_used_at x = None"
      with x(1) have "x \<in> set (unused_codes pf (us_id u) code db)" by (simp add: unused_codes_def)
      with b x(2) show False by simp
    qed
  qed simp
  then show ?thesis by (simp add: unused_codes_def filter_empty_conv same assms(4))
qed

lemma scalar_frame [simp]:
  "backup_codes (login_event pf u st db) = backup_codes db"
  "users (login_event pf u st db) = users db"
  "keyrings (login_event pf u st db) = keyrings db"
  "orgs (login_event pf u st db) = orgs db"
  by (simp_all add: login_event_def split: option.split)

lemma second_factor_by_backup:
  assumes "us_totp_enabled u" and "verify_totp_code_for_user cr u code (clock c 0) db = Inr False"
    and "code \<noteq> []"
  shows "second_factor pf cr c u (Some code) db =
    (case use_backup_code pf (clock c 1) u code db of
       (Inl err, db) \<Rightarrow> (Inl err, db)
     | (Inr False, db) \<Rightarrow> (Inl (ValueError ''Invalid MFA code''), db)
     | (Inr True, db) \<Rightarrow> (Inr (), db))"
  using assms by (cases code) (simp_all add: second_factor_def)

lemma login_ok:
  assumes "login pf cr c email password code db = (Inr r, db')"
  obtains u db1 where "get_user_by_email email db = Some u" "pw_verify cr password (us_password u)"
    "us_active u" "password_allowed u db" "second_factor pf cr c u code db = (Inr (), db1)"
    "fst r = u\<lparr>us_last_login := Some (clock c 2)\<rparr>"
    "db' = login_event pf (u\<lparr>us_last_login := Some (clock c 2)\<rparr>) (fresh c 0, clock c 3)
       (put_user (u\<lparr>us_last_login := Some (clock c 2)\<rparr>) db1)"
proof (cases "get_user_by_email email db")
  case None
  with assms show thesis by (simp add: login_def)
next
  case (Some u)
  obtain f db1 where sf: "second_factor pf cr c u code db = (f, db1)" by fastforce
  with assms Some show thesis by (cases f) (auto simp: login_def Let_def split: if_splits intro!: that)
qed

text \<open>
  C34 (safety): a backup code opens one login. When a user with a second factor logged in with a code that
  is not a time based one, the same code, however it is spaced, dashed or capitalised, is refused at every
  later login at which it is no time based code either.
\<close>

theorem backup_code_opens_one_login:
  assumes ids: "distinct (map bc_id (backup_codes db))"
    and u: "get_user_by_email email db = Some u" "us_totp_enabled u"
    and no_totp: "verify_totp_code_for_user cr u code (clock c 0) db = Inr False"
    and first: "login pf cr c email password (Some code) db = (Inr r, db')"
    and u': "us_id u' = us_id u" "us_totp_enabled u'"
    and later: "get_user_by_email email' db' = Some u'"
    and same: "normalize_backup_code code' = normalize_backup_code code" and "code' \<noteq> []"
    and no_totp': "verify_totp_code_for_user cr u' code' (clock c' 0) db' = Inr False"
  shows "\<exists>m. login pf cr c' email' password' (Some code') db' = (Inl (ValueError m), db')"
proof -
  obtain db1 where sf: "second_factor pf cr c u (Some code) db = (Inr (), db1)"
    and db': "backup_codes db' = backup_codes db1"
    using login_ok [OF first] u(1) by (metis option.inject put_user_frame(5) scalar_frame(1))
  have ne: "code \<noteq> []" using sf u(2) by (auto simp: second_factor_def)
  from sf have "use_backup_code pf (clock c 1) u code db = (Inr True, db1)"
    unfolding second_factor_by_backup [OF u(2) no_totp ne]
    by (auto split: prod.splits sum.splits bool.splits)
  from use_backup_code_spent [OF this ids same u'(1)] db'
  have "unused_codes pf (us_id u') code' db' = []" by (simp add: unused_codes_def)
  then have "use_backup_code pf (clock c' 1) u' code' db' = (Inr False, db')" by (simp add: use_backup_code_def)
  with second_factor_by_backup [OF u'(2) no_totp' \<open>code' \<noteq> []\<close>]
  have "second_factor pf cr c' u' (Some code') db' = (Inl (ValueError ''Invalid MFA code''), db')" by simp
  with later show ?thesis by (simp add: login_def)
qed

section \<open>Setting up a second factor\<close>

lemma put_user_by_email:
  assumes "get_user_by_email em db = Some u" and "us_id u' = us_id u" and "us_email u' = em"
  shows "get_user_by_email em (put_user u' db) = Some u'"
proof -
  have "find (\<lambda>r. us_email r = em) xs = Some u \<Longrightarrow> find (\<lambda>r. us_email r = em) (row_put us_id u' xs) = Some u'" for xs
    using assms(2,3) by (induction xs) (auto simp: row_put_def split: if_splits)
  with assms(1) show ?thesis by (simp add: get_user_by_email_def row_find_def put_user_def)
qed

lemma begin_totp_setup_ok:
  assumes "begin_totp_setup pf cr c sec rnd rp u db = (Inr (secret, url), db')"
  obtains i ct db1 u' where "us_org u = Some i" "secret = b32encode rnd"
    "encrypt_secret_for_org cr c sec (Some i) secret db = (Inr ct, db1)"
    "u' = u\<lparr>us_totp_secret := Some ct, us_totp_enabled := False, us_totp_verified_at := None\<rparr>"
    "db' = append_event pf i (Some (us_id u)) ''auth.mfa.totp.setup_started'' ''user'' (uuid_str (us_id u))
       (PDict [(''email'', PStr (us_email u))]) (fresh c 1, clock c 1) (put_user u' db1)"
proof (cases "us_org u")
  case None
  with assms show thesis by (simp add: begin_totp_setup_def encrypt_secret_for_org_def)
next
  case (Some i)
  obtain e db0 where enc: "encrypt_secret_for_org cr c sec (Some i) (b32encode rnd) db = (e, db0)" by fastforce
  with assms Some show thesis
    by (cases e) (auto simp: begin_totp_setup_def totp_event_def user_event_def Let_def intro!: that)
qed

lemma encrypt_frame:
  assumes "encrypt_secret_for_org cr c sec org value db = (r, db')"
  shows "users db' = users db" and "orgs db' = orgs db" and "backup_codes db' = backup_codes db"
  using assms by (auto simp: encrypt_secret_for_org_def ensure_workspace_keyring_def Let_def
      split: option.splits prod.splits sum.splits if_splits)

lemma ciphertext_nonempty: "encrypt_secret_for_org cr c sec org value db = (Inr ct, db') \<Longrightarrow> ct \<noteq> []"
  by (auto simp: encrypt_secret_for_org_def WORKSPACE_CIPHERTEXT_PREFIX_def
      split: option.splits prod.splits sum.splits)

text \<open>
  After a setup, whatever first uses and rotations of keys happen in between, the code an
  authenticator computes from the secret it was given turns the second factor on: the secret survives
  base32, encryption and rotation.
\<close>

theorem setup_can_be_confirmed:
  assumes hm: "hmac_sha1_ok cr" and fe: "fernet_ok cr" and ok: "rings_ok cr (keyrings db)"
    and new: "fresh c 0 \<notin> kr_id ` set (keyrings db)" and rnd: "length rnd = 20"
    and begun: "begin_totp_setup pf cr c sec rnd rp u db = (Inr (secret, url), db1)"
    and u: "get_user_by_id uid db = Some u" "us_id u = uid"
    and steps: "(keyring_step cr)\<^sup>*\<^sup>* db1 db2" and u2: "get_user_by_id uid db2 = get_user_by_id uid db1"
    and range: "counter_range (seconds (clock c' 0) - 30)" "counter_range (seconds (clock c' 0) + 30)"
  shows "case get_user_by_id uid db2 of None \<Rightarrow> False
    | Some v \<Rightarrow> case totp_at cr secret (seconds (clock c' 0)) of Inl _ \<Rightarrow> False
      | Inr code \<Rightarrow> case enable_totp pf cr c' raw v code db2 of (Inl _, _) \<Rightarrow> False
        | (Inr (w, codes), _) \<Rightarrow> us_totp_enabled w \<and> length codes = 8"
proof -
  obtain i ct db0 u' where org: "us_org u = Some i" and secret: "secret = b32encode rnd"
    and enc: "encrypt_secret_for_org cr c sec (Some i) secret db = (Inr ct, db0)"
    and u': "u' = u\<lparr>us_totp_secret := Some ct, us_totp_enabled := False, us_totp_verified_at := None\<rparr>"
    and db1: "db1 = append_event pf i (Some (us_id u)) ''auth.mfa.totp.setup_started'' ''user'' (uuid_str (us_id u))
       (PDict [(''email'', PStr (us_email u))]) (fresh c 1, clock c 1) (put_user u' db0)"
    using begin_totp_setup_ok [OF begun] by blast
  have "get_user_by_id uid db0 = Some u" using u encrypt_frame(1) [OF enc] by (simp add: get_user_by_id_def)
  then have v: "get_user_by_id uid db2 = Some u'"
    using u(2) by (simp add: u2 db1 get_put_user u')
  have "keyrings db1 = keyrings db0" by (simp add: db1)
  then have "keyring_step cr db0 db1" by (rule keyring_step.other)
  with steps have "(keyring_step cr)\<^sup>*\<^sup>* db0 db2" by (rule converse_rtranclp_into_rtranclp [rotated])
  from decrypt_after_rotation [OF fe ok new enc this]
  have dec: "decrypt_secret_for_org cr (Some i) ct db2 = Inr secret" .
  have key: "b32decode secret = Inr rnd" unfolding secret by (rule b32_roundtrip) (simp add: rnd)
  from totp_window_exact_lemma [OF hm key range] obtain k where k: "totp_at cr secret (seconds (clock c' 0)) = Inr k"
    "list_all is_digit_char k" by blast
  then have "normalize_totp_code k = k" by (intro normalize_digits) (simp add: list_all_iff)
  with k(1) totp_window_exact_lemma [OF hm key range, of k]
  have ver: "verify_totp_secret cr secret k (clock c' 0) = Inr True" by force
  have "ct \<noteq> []" by (rule ciphertext_nonempty [OF enc])
  then have "verify_totp_code_for_user cr u' k (clock c' 0) db2 = Inr True"
    using dec ver org by (cases ct) (simp_all add: verify_totp_code_for_user_def u')
  with v k(1) \<open>ct \<noteq> []\<close> org show ?thesis
    by (simp add: enable_totp_def u' Let_def generate_backup_codes_def totp_event_def user_event_def
        BACKUP_CODE_COUNT_def)
qed

text \<open>
  Starting a setup turns an active second factor off at once, without a code: after
  it the password alone logs the user in.
\<close>

theorem setup_turns_second_factor_off:
  assumes begun: "begin_totp_setup pf cr c sec rnd rp u db = (Inr r, db1)"
    and u: "get_user_by_email (us_email u) db = Some u" "us_active u" "password_allowed u db"
    and pw: "pw_verify cr password (us_password u)"
  shows "\<exists>s. fst (login pf cr c' (us_email u) password None db1) = Inr s"
proof -
  obtain secret url where r: "r = (secret, url)" by (cases r)
  from begun [unfolded r] obtain i ct db0 u' where org: "us_org u = Some i"
    and enc: "encrypt_secret_for_org cr c sec (Some i) secret db = (Inr ct, db0)"
    and u': "u' = u\<lparr>us_totp_secret := Some ct, us_totp_enabled := False, us_totp_verified_at := None\<rparr>"
    and db1: "db1 = append_event pf i (Some (us_id u)) ''auth.mfa.totp.setup_started'' ''user'' (uuid_str (us_id u))
       (PDict [(''email'', PStr (us_email u))]) (fresh c 1, clock c 1) (put_user u' db0)"
    by (rule begin_totp_setup_ok) blast
  have "get_user_by_email (us_email u) db1 = Some u'"
    using u(1) encrypt_frame(1) [OF enc] put_user_by_email [of "us_email u" db u u']
    by (simp add: db1 get_user_by_email_def put_user_def u')
  moreover have "password_allowed u' db1"
    using u(3) encrypt_frame(2) [OF enc] by (simp add: password_allowed_def u' db1 get_org_def split: option.splits)
  ultimately show ?thesis using u(2) pw
    by (simp add: login_def u' second_factor_def Let_def)
qed

section \<open>The properties at concrete inputs\<close>

definition mfa_user :: user where
  "mfa_user = toy_user\<lparr>us_totp_enabled := True, us_totp_secret := None\<rparr>"

definition mfa_db :: auth_db where
  "mfa_db = toy_db\<lparr>users := [mfa_user], backup_codes := [\<lparr>bc_id = 9, bc_user = 5,
     bc_hash = hash_backup_code toy_platform ''ab'', bc_used_at = None\<rparr>]\<rparr>"

lemma mfa_user_simps [simp]:
  "us_id mfa_user = 5" "us_org mfa_user = Some 1" "us_email mfa_user = ''u@x''" "us_password mfa_user = ''hp''"
  "us_active mfa_user" "us_totp_enabled mfa_user" "us_totp_secret mfa_user = None"
  by (simp_all add: mfa_user_def)

lemma mfa_facts:
  "get_user_by_email ''u@x'' mfa_db = Some mfa_user" "password_allowed mfa_user mfa_db"
  "pw_verify toy_crypto ''p'' ''hp''" "keyrings mfa_db = []"
  by (simp_all add: get_user_by_email_def row_find_def mfa_db_def password_allowed_def get_org_def toy_db_def
      toy_org_def toy_crypto_def empty_auth_db_def)

lemma mfa_normal: "normalize_backup_code ''ab-'' = ''ab''" "normalize_backup_code ''a-b'' = ''ab''"
  by (simp_all add: normalize_backup_code_def py_strip_def is_space_char_def py_lower_def is_upper_char_def)

lemma mfa_no_totp: "us_totp_secret u = None \<Longrightarrow> verify_totp_code_for_user cr u code now db = Inr False"
  by (simp add: verify_totp_code_for_user_def)

lemma use_outcome:
  "r = (Inr True, db) \<Longrightarrow>
     (case r of (Inl err, db) \<Rightarrow> (Inl err, db) | (Inr False, db) \<Rightarrow> (Inl e, db) | (Inr True, db) \<Rightarrow> (Inr (), db))
     = (Inr (), db)"
  by simp

lemma mfa_use: "use_backup_code toy_platform 0 mfa_user ''ab-'' mfa_db = (Inr True, snd (use_backup_code toy_platform 0 mfa_user ''ab-'' mfa_db))"
  by (simp add: use_backup_code_def unused_codes_def mfa_normal) (simp add: mfa_db_def)

lemma mfa_use_users: "users (snd (use_backup_code toy_platform 0 mfa_user ''ab-'' mfa_db)) = [mfa_user]"
  by (simp add: use_backup_code_def unused_codes_def mfa_normal) (simp add: mfa_db_def)

lemma mfa_clock [simp]: "clock toy_call n = 0"
  by (simp add: toy_call_def)

lemma mfa_login:
  "\<exists>r. login toy_platform toy_crypto toy_call ''u@x'' ''p'' (Some ''ab-'') mfa_db
     = (Inr r, snd (login toy_platform toy_crypto toy_call ''u@x'' ''p'' (Some ''ab-'') mfa_db))"
  "get_user_by_email ''u@x'' (snd (login toy_platform toy_crypto toy_call ''u@x'' ''p'' (Some ''ab-'') mfa_db))
     = Some (mfa_user\<lparr>us_last_login := Some 0\<rparr>)"
proof -
  have sf: "second_factor toy_platform toy_crypto toy_call mfa_user (Some ''ab-'') mfa_db
      = (Inr (), snd (use_backup_code toy_platform 0 mfa_user ''ab-'' mfa_db))"
    by (subst second_factor_by_backup) (simp_all add: mfa_no_totp mfa_use [THEN use_outcome])
  show "\<exists>r. login toy_platform toy_crypto toy_call ''u@x'' ''p'' (Some ''ab-'') mfa_db
     = (Inr r, snd (login toy_platform toy_crypto toy_call ''u@x'' ''p'' (Some ''ab-'') mfa_db))"
    by (simp add: login_def mfa_facts sf Let_def)
  show "get_user_by_email ''u@x'' (snd (login toy_platform toy_crypto toy_call ''u@x'' ''p'' (Some ''ab-'') mfa_db))
     = Some (mfa_user\<lparr>us_last_login := Some 0\<rparr>)"
  proof -
    have "users (snd (login toy_platform toy_crypto toy_call ''u@x'' ''p'' (Some ''ab-'') mfa_db))
        = [mfa_user\<lparr>us_last_login := Some 0\<rparr>]"
      by (simp add: login_def mfa_facts sf Let_def mfa_use_users row_put_def)
    then show ?thesis by (simp add: get_user_by_email_def row_find_def)
  qed
qed

theorem backup_code_opens_one_login_witness:
  "\<exists>m. login toy_platform toy_crypto toy_call ''u@x'' ''p'' (Some ''a-b'')
       (snd (login toy_platform toy_crypto toy_call ''u@x'' ''p'' (Some ''ab-'') mfa_db))
     = (Inl (ValueError m), snd (login toy_platform toy_crypto toy_call ''u@x'' ''p'' (Some ''ab-'') mfa_db))"
proof -
  obtain r where "login toy_platform toy_crypto toy_call ''u@x'' ''p'' (Some ''ab-'') mfa_db
     = (Inr r, snd (login toy_platform toy_crypto toy_call ''u@x'' ''p'' (Some ''ab-'') mfa_db))"
    using mfa_login(1) by blast
  moreover have "distinct (map bc_id (backup_codes mfa_db))" by (simp add: mfa_db_def)
  ultimately show ?thesis
    by (intro backup_code_opens_one_login [where code = "''ab-''", OF _ mfa_facts(1) _ mfa_no_totp _ _ _ mfa_login(2) _ _ mfa_no_totp])
      (simp_all add: mfa_normal)
qed

lemma toy_begin:
  "begin_totp_setup toy_platform toy_crypto toy_call toy_sec (replicate 20 (CHR ''a'')) [] mfa_user mfa_db
   = (Inr (b32encode (replicate 20 (CHR ''a'')),
        otpauth_url [] mfa_user (b32encode (replicate 20 (CHR ''a'')))),
      snd (begin_totp_setup toy_platform toy_crypto toy_call toy_sec (replicate 20 (CHR ''a'')) [] mfa_user mfa_db))"
  by (simp add: begin_totp_setup_def encrypt_secret_for_org_def ensure_workspace_keyring_def active_ring_def
      mfa_facts(4) new_ring_def Let_def totp_event_def user_event_def
      toy_fernet [unfolded fernet_ok_def] otpauth_url_def)

theorem setup_turns_second_factor_off_witness:
  "\<exists>s. fst (login toy_platform toy_crypto toy_call ''u@x'' ''p'' None
     (snd (begin_totp_setup toy_platform toy_crypto toy_call toy_sec (replicate 20 (CHR ''a'')) [] mfa_user mfa_db)))
   = Inr s"
  using setup_turns_second_factor_off [OF toy_begin] mfa_facts by simp

theorem setup_can_be_confirmed_witness:
  "let db = snd (begin_totp_setup toy_platform toy_crypto toy_call toy_sec (replicate 20 (CHR ''a'')) [] mfa_user mfa_db);
       c = \<lparr>fresh = (\<lambda>n. 7), clock = (\<lambda>n. 99000000)\<rparr>
   in case get_user_by_id 5 db of None \<Rightarrow> False
    | Some v \<Rightarrow> case totp_at toy_crypto (b32encode (replicate 20 (CHR ''a''))) 99 of Inl _ \<Rightarrow> False
      | Inr code \<Rightarrow> case enable_totp toy_platform toy_crypto c toy_sec v code db of (Inl _, _) \<Rightarrow> False
        | (Inr (w, codes), _) \<Rightarrow> us_totp_enabled w \<and> length codes = 8"
proof -
  let ?c = "\<lparr>fresh = (\<lambda>n. 7), clock = (\<lambda>n. 99000000)\<rparr>"
  have u: "get_user_by_id 5 mfa_db = Some mfa_user"
    by (simp add: get_user_by_id_def row_find_def mfa_db_def)
  have s: "seconds (clock ?c 0) = 99" by (simp add: seconds_def)
  have range: "counter_range (seconds (clock ?c 0) - 30)" "counter_range (seconds (clock ?c 0) + 30)"
    by (simp_all only: s) (simp_all add: counter_range_def)
  have ok: "rings_ok toy_crypto (keyrings mfa_db)" "fresh toy_call 0 \<notin> kr_id ` set (keyrings mfa_db)"
    by (simp_all add: mfa_facts rings_ok_def)
  from setup_can_be_confirmed [OF toy_hmac toy_fernet ok _ toy_begin u _ rtranclp.rtrancl_refl refl range,
      where raw = toy_sec]
  show ?thesis unfolding Let_def s by simp
qed

end
