(* ===== verification/Accounts.thy ===== *)
theory Accounts
  imports Keyring Tokens Mfa
begin

text \<open>
  Accounts and workspaces of \<open>AuthService\<close>: registration, member creation under a quota, the
  administrator's operations on members, anonymization, the change and the reset of passwords. A
  request's actor is the \<open>user\<close> its token resolved to.
\<close>

section \<open>Anonymization\<close>

definition py_endswith :: "string \<Rightarrow> string \<Rightarrow> bool" where
  "py_endswith s p \<longleftrightarrow> length p \<le> length s \<and> drop (length s - length p) s = p"

definition ANONYMIZED_FULL_NAME :: string where
  "ANONYMIZED_FULL_NAME = ''Deleted User''"

definition ANONYMIZED_EMAIL_DOMAIN :: string where
  "ANONYMIZED_EMAIL_DOMAIN = ''deleted.invalid''"

definition anonymize_user_identity :: "platform \<Rightarrow> user \<Rightarrow> user" where
  "anonymize_user_identity pf u =
     (let u = (if py_endswith (us_email u) (''@'' @ ANONYMIZED_EMAIL_DOMAIN) then u
               else let digest = hexdigest (sha256 pf
                          (us_email u @ ''|'' @ uuid_str (us_id u) @ ''|'' @ secret_key pf))
                    in u\<lparr>us_email := ''deleted_'' @ take 40 digest @ ''@'' @ ANONYMIZED_EMAIL_DOMAIN\<rparr>)
      in if us_full_name u \<noteq> ANONYMIZED_FULL_NAME then u\<lparr>us_full_name := ANONYMIZED_FULL_NAME\<rparr> else u)"

text \<open>The flush of a changed user row: the unique column must not clash with another row.\<close>

definition flush_user :: "user \<Rightarrow> ('z auth_db_scheme, unit) svc" where
  "flush_user u db =
     (if list_ex (\<lambda>x. us_id x \<noteq> us_id u \<and> us_email x = us_email u) (users db)
      then (Inl (IntegrityError ''users.email''), db) else (Inr (), put_user u db))"

section \<open>Registration and members\<close>

definition blank_user :: "uuid \<Rightarrow> uuid option \<Rightarrow> string \<Rightarrow> string \<Rightarrow> string \<Rightarrow> user_role \<Rightarrow> instant \<Rightarrow> user" where
  "blank_user uid org email full_name password role now =
     \<lparr>us_id = uid, us_org = org, us_email = email, us_full_name = full_name, us_password = password,
      us_role = role, us_active = True, us_passkey_enabled = False, us_totp_enabled = False,
      us_totp_secret = None, us_totp_verified_at = None, us_must_change = False,
      us_password_changed_at = None, us_terms_accepted_at = None, us_terms_version = None,
      us_created_at = now, us_last_login = None, us_deleted_at = None\<rparr>"

definition blank_org :: "uuid \<Rightarrow> string \<Rightarrow> string \<Rightarrow> organization" where
  "blank_org oid name slug =
     \<lparr>og_id = oid, og_name = name, og_slug = slug, og_passwordless_only = False, og_lifecycle = ACTIVE,
      og_quota = 10, og_suspended_at = None, og_suspended_reason = None\<rparr>"

record register_request =
  rr_org_name :: string
  rr_org_slug :: string
  rr_email :: string
  rr_full_name :: string
  rr_password :: string

text \<open>
  Identifiers: \<open>fresh c 0\<close> the key ring, 1 the organization, 2 the user, 3 the event; \<open>sec\<close> as in
  \<open>Keyring\<close>, and \<open>sec 3\<close> the salt of the password hash.
\<close>

definition register ::
  "platform \<Rightarrow> crypto \<Rightarrow> call \<Rightarrow> (nat \<Rightarrow> string) \<Rightarrow> register_request
   \<Rightarrow> ('z auth_db_scheme, organization \<times> user) svc" where
  "register pf cr c sec req db =
     (case insert_org (blank_org (fresh c 1) (rr_org_name req) (rr_org_slug req)) db of
        (Inl err, db) \<Rightarrow> (Inl err, db)
      | (Inr g, db) \<Rightarrow>
     (case ensure_workspace_keyring cr c sec (og_id g) db of
        (Inl err, db) \<Rightarrow> (Inl err, db)
      | (Inr _, db) \<Rightarrow>
     (case insert_user (blank_user (fresh c 2) (Some (og_id g)) (rr_email req) (rr_full_name req)
             (pw_hash cr (sec 3) (rr_password req)) ADMIN (clock c 1)) db of
        (Inl err, db) \<Rightarrow> (Inl err, db)
      | (Inr u, db) \<Rightarrow>
          (Inr (g, u), append_event pf (og_id g) (Some (us_id u)) ''auth.user.registered'' ''user''
             (uuid_str (us_id u))
             (PDict [(''email'', PStr (us_email u)), (''role'', PStr (role_value (us_role u))),
                (''org_slug'', PStr (og_slug g))]) (fresh c 3, clock c 2) db))))"

record user_create =
  uc_email :: string
  uc_full_name :: string
  uc_password :: string
  uc_role :: user_role

definition active_members :: "uuid \<Rightarrow> 'z auth_db_scheme \<Rightarrow> nat" where
  "active_members org db = length (filter (\<lambda>u. us_org u = Some org \<and> us_active u) (users db))"

definition create_user :: "crypto \<Rightarrow> call \<Rightarrow> string \<Rightarrow> uuid option \<Rightarrow> user_create \<Rightarrow> ('z auth_db_scheme, user) svc" where
  "create_user cr c salt org req db =
     (let u = (blank_user (fresh c 0) org (uc_email req) (uc_full_name req)
                 (pw_hash cr salt (uc_password req)) (uc_role req) (clock c 0))\<lparr>us_must_change := True\<rparr>
      in case (case org of None \<Rightarrow> None | Some i \<Rightarrow> get_org i db) of
           None \<Rightarrow> insert_user u db
         | Some g \<Rightarrow>
             if og_quota g \<le> int (active_members (og_id g) db)
             then (Inl (ValueError (''Member quota reached ('' @ int_str (og_quota g)
                    @ '' active users allowed on this plan). Upgrade your workspace plan to add more members.'')), db)
             else insert_user u db)"

text \<open>\<open>POST /users\<close>: an administrator adds a member to the own workspace.\<close>

definition create_user_route :: "crypto \<Rightarrow> call \<Rightarrow> string \<Rightarrow> user \<Rightarrow> user_create \<Rightarrow> ('z auth_db_scheme, user) svc" where
  "create_user_route cr c salt actor req db =
     (case require_roles [ADMIN] (us_role actor) of
        Inl err \<Rightarrow> (Inl err, db) | Inr _ \<Rightarrow> create_user cr c salt (us_org actor) req db)"

definition list_org_users :: "uuid option \<Rightarrow> nat \<Rightarrow> nat \<Rightarrow> 'z auth_db_scheme \<Rightarrow> user list \<times> nat" where
  "list_org_users org limit offset db =
     (let us = filter (\<lambda>u. us_org u = org) (users db)
      in (take limit (drop offset (sort_key us_created_at us)), length us))"

definition update_passwordless_policy :: "uuid \<Rightarrow> bool \<Rightarrow> ('z auth_db_scheme, organization) svc" where
  "update_passwordless_policy org enabled db =
     (case get_org org db of
        None \<Rightarrow> (Inl (ValueError ''Organization not found''), db)
      | Some g \<Rightarrow> let g = g\<lparr>og_passwordless_only := enabled\<rparr> in (Inr g, put_org g db))"

section \<open>The administrator's operations\<close>

definition USER_NOT_FOUND :: error where
  "USER_NOT_FOUND = ValueError ''User not found''"

text \<open>The target of an operation: a user the actor can see.\<close>

definition visible_target :: "user \<Rightarrow> uuid \<Rightarrow> 'z auth_db_scheme \<Rightarrow> user option" where
  "visible_target actor tid db =
     (case get_user_by_id tid db of
        None \<Rightarrow> None
      | Some t \<Rightarrow> if us_role actor \<noteq> PLATFORM_ADMIN \<and> us_org t \<noteq> us_org actor then None else Some t)"

definition quoted :: "string \<Rightarrow> string" where
  "quoted s = [CHR 0x27] @ s @ [CHR 0x27]"

definition role_refusal :: "user \<Rightarrow> string \<Rightarrow> user \<Rightarrow> error" where
  "role_refusal actor what target =
     PermissionError (''Role '' @ quoted (role_value (us_role actor)) @ '' cannot '' @ what @ '' with role ''
       @ quoted (role_value (us_role target)))"

record user_update =
  uu_full_name :: "string option"
  uu_email :: "string option"
  uu_role :: "user_role option"

definition change :: "string \<Rightarrow> string \<Rightarrow> string \<Rightarrow> string \<times> pyval" where
  "change field old new = (field, PDict [(''from'', PStr old), (''to'', PStr new)])"

definition updated_name :: "user_update \<Rightarrow> user \<Rightarrow> user \<times> (string \<times> pyval) list" where
  "updated_name req t =
     (case uu_full_name req of
        None \<Rightarrow> (t, [])
      | Some n \<Rightarrow> if n = [] \<or> n = us_full_name t then (t, [])
                  else (t\<lparr>us_full_name := n\<rparr>, [change ''full_name'' (us_full_name t) n]))"

definition updated_email :: "user_update \<Rightarrow> user \<Rightarrow> user \<times> (string \<times> pyval) list" where
  "updated_email req t =
     (case uu_email req of
        None \<Rightarrow> (t, [])
      | Some e \<Rightarrow> if e = [] \<or> e = us_email t then (t, [])
                  else (t\<lparr>us_email := e\<rparr>, [change ''email'' (us_email t) e]))"

definition updated_role :: "user_update \<Rightarrow> user \<Rightarrow> user \<times> (string \<times> pyval) list" where
  "updated_role req t =
     (case uu_role req of
        None \<Rightarrow> (t, [])
      | Some r \<Rightarrow> if r = us_role t then (t, [])
                  else (t\<lparr>us_role := r\<rparr>, [change ''role'' (role_value (us_role t)) (role_value r)]))"

definition admin_update_user ::
  "platform \<Rightarrow> user \<Rightarrow> uuid \<Rightarrow> user_update \<Rightarrow> stamp \<Rightarrow> ('z auth_db_scheme, user) svc" where
  "admin_update_user pf actor tid req st db =
     (case visible_target actor tid db of
        None \<Rightarrow> (Inl USER_NOT_FOUND, db)
      | Some t \<Rightarrow>
          if \<not> can_manage (us_role actor) (us_role t)
          then (Inl (role_refusal actor ''edit a user'' t), db)
          else if uu_role req \<in> {Some ADMIN, Some PLATFORM_ADMIN} \<and> us_role actor \<noteq> PLATFORM_ADMIN
          then (Inl (PermissionError ''Only platform_admin can promote to admin/platform_admin''), db)
          else
            let (t, d1) = updated_name req t; (t, d2) = updated_email req t; (t, d3) = updated_role req t;
                changes = d1 @ d2 @ d3
            in if changes = [] then (Inr t, db)
               else case flush_user t db of
                 (Inl err, db) \<Rightarrow> (Inl err, db)
               | (Inr _, db) \<Rightarrow>
                   (case user_event pf (us_org t) (us_id actor) ''auth.user.updated'' ''user''
                           (uuid_str (us_id t)) changes st db of
                      (Inl err, db) \<Rightarrow> (Inl err, db) | (Inr _, db) \<Rightarrow> (Inr t, db)))"

definition admin_delete_user ::
  "platform \<Rightarrow> call \<Rightarrow> user \<Rightarrow> uuid \<Rightarrow> string \<Rightarrow> ('z auth_db_scheme, user) svc" where
  "admin_delete_user pf c actor tid why db =
     (case visible_target actor tid db of
        None \<Rightarrow> (Inl USER_NOT_FOUND, db)
      | Some t \<Rightarrow>
          if \<not> can_manage (us_role actor) (us_role t)
          then (Inl (role_refusal actor ''delete a user'' t), db)
          else if \<not> us_active t then (Inl (ValueError ''User is already inactive''), db)
          else
            let t = (anonymize_user_identity pf t)\<lparr>us_active := False, us_passkey_enabled := False,
                      us_deleted_at := Some (clock c 0)\<rparr>
            in case flush_user t db of
                 (Inl err, db) \<Rightarrow> (Inl err, db)
               | (Inr _, db) \<Rightarrow>
                   (case user_event pf (us_org t) (us_id actor) ''auth.user.deleted'' ''user''
                           (uuid_str (us_id t))
                           [(''target_user_id'', PStr (uuid_str (us_id t))),
                            (''actor_role'', PStr (role_value (us_role actor))), (''reason'', PStr why)]
                           (fresh c 0, clock c 1) db of
                      (Inl err, db) \<Rightarrow> (Inl err, db) | (Inr _, db) \<Rightarrow> (Inr t, db)))"

text \<open>The identity of a person is erased; \<open>salt\<close> and \<open>noise\<close> make the unusable password.\<close>

definition purged :: "platform \<Rightarrow> crypto \<Rightarrow> string \<Rightarrow> string \<Rightarrow> instant \<Rightarrow> user \<Rightarrow> user" where
  "purged pf cr salt noise now t =
     (anonymize_user_identity pf t)\<lparr>us_password := pw_hash cr salt noise, us_totp_secret := None,
        us_totp_enabled := False, us_totp_verified_at := None, us_passkey_enabled := False,
        us_active := False, us_deleted_at := Some now\<rparr>"

definition lgpd_purge_user ::
  "platform \<Rightarrow> crypto \<Rightarrow> call \<Rightarrow> string \<Rightarrow> string \<Rightarrow> user \<Rightarrow> uuid \<Rightarrow> ('z auth_db_scheme, unit) svc" where
  "lgpd_purge_user pf cr c salt noise actor tid db =
     (case get_user_by_id tid db of
        None \<Rightarrow> (Inl USER_NOT_FOUND, db)
      | Some t \<Rightarrow>
          let is_self = (us_id actor = us_id t)
          in if \<not> is_self \<and> \<not> can_manage (us_role actor) (us_role t)
             then (Inl (PermissionError (''Insufficient permission to purge this user'' @ [CHR 0x27] @ ''s data'')), db)
             else
               let t = purged pf cr salt noise (clock c 0) t
               in case flush_user t db of
                    (Inl err, db) \<Rightarrow> (Inl err, db)
                  | (Inr _, db) \<Rightarrow>
                      let db = db\<lparr>passkeys := filter (\<lambda>k. pk_user k \<noteq> us_id t) (passkeys db)\<rparr>;
                          db = db\<lparr>revoked := filter (\<lambda>r. rv_user r \<noteq> us_id t) (revoked db)\<rparr>
                      in user_event pf (us_org t) (us_id actor) ''auth.user.lgpd_purge'' ''user''
                           (uuid_str (us_id t))
                           [(''actor_role'', PStr (role_value (us_role actor))),
                            (''self_requested'', PBool is_self)] (fresh c 0, clock c 1) db)"

definition target_payload :: "user \<Rightarrow> user \<Rightarrow> (string \<times> pyval) list" where
  "target_payload actor t =
     [(''target_user_id'', PStr (uuid_str (us_id t))), (''actor_role'', PStr (role_value (us_role actor))),
      (''target_role'', PStr (role_value (us_role t)))]"

text \<open>The new password is a random text, returned once (and mailed when a server is configured).\<close>

definition admin_reset_password ::
  "platform \<Rightarrow> crypto \<Rightarrow> string \<Rightarrow> string \<Rightarrow> user \<Rightarrow> uuid \<Rightarrow> stamp
   \<Rightarrow> ('z auth_db_scheme, user \<times> string) svc" where
  "admin_reset_password pf cr salt temp actor tid st db =
     (case visible_target actor tid db of
        None \<Rightarrow> (Inl USER_NOT_FOUND, db)
      | Some t \<Rightarrow>
          if \<not> can_manage (us_role actor) (us_role t)
          then (Inl (role_refusal actor ''reset the password of a user'' t), db)
          else
            let t = t\<lparr>us_password := pw_hash cr salt temp, us_must_change := True\<rparr>
            in (case user_event pf (us_org t) (us_id actor) ''auth.password.admin_reset'' ''user''
                       (uuid_str (us_id t)) (target_payload actor t) st (put_user t db) of
                  (Inl err, db) \<Rightarrow> (Inl err, db) | (Inr _, db) \<Rightarrow> (Inr (t, temp), db)))"

definition admin_reset_mfa ::
  "platform \<Rightarrow> user \<Rightarrow> uuid \<Rightarrow> stamp \<Rightarrow> ('z auth_db_scheme, user \<times> nat \<times> bool) svc" where
  "admin_reset_mfa pf actor tid st db =
     (case visible_target actor tid db of
        None \<Rightarrow> (Inl USER_NOT_FOUND, db)
      | Some t \<Rightarrow>
          if us_id actor \<noteq> us_id t \<and> \<not> can_manage (us_role actor) (us_role t)
          then (Inl (role_refusal actor ''reset MFA for a user'' t), db)
          else
            let revoked_count = length (filter (\<lambda>k. pk_user k = us_id t) (passkeys db));
                db = db\<lparr>passkeys := filter (\<lambda>k. pk_user k \<noteq> us_id t) (passkeys db)\<rparr>;
                totp_disabled = (us_totp_enabled t \<or> us_totp_secret t \<notin> {None, Some []});
                t = t\<lparr>us_passkey_enabled := False, us_totp_enabled := False, us_totp_secret := None,
                      us_totp_verified_at := None\<rparr>;
                db = clear_backup_codes (us_id t) (put_user t db)
            in (case user_event pf (us_org t) (us_id actor) ''auth.mfa.admin_reset'' ''user''
                       (uuid_str (us_id t))
                       (target_payload actor t @ [(''revoked_passkeys'', PInt (int revoked_count)),
                          (''totp_disabled'', PBool totp_disabled)]) st db of
                  (Inl err, db) \<Rightarrow> (Inl err, db)
                | (Inr _, db) \<Rightarrow> (Inr (t, revoked_count, totp_disabled), db)))"

definition admin_deactivate_user ::
  "platform \<Rightarrow> call \<Rightarrow> user \<Rightarrow> uuid \<Rightarrow> string \<Rightarrow> ('z auth_db_scheme, user) svc" where
  "admin_deactivate_user pf c actor tid why db =
     (case visible_target actor tid db of
        None \<Rightarrow> (Inl USER_NOT_FOUND, db)
      | Some t \<Rightarrow>
          if us_id actor = us_id t then (Inl (PermissionError ''You cannot deactivate your own account''), db)
          else if \<not> can_manage (us_role actor) (us_role t)
          then (Inl (role_refusal actor ''deactivate a user'' t), db)
          else if \<not> us_active t then (Inl (ValueError ''User is already inactive''), db)
          else
            let t = t\<lparr>us_active := False, us_passkey_enabled := False,
                      us_deleted_at := (case us_deleted_at t of None \<Rightarrow> Some (clock c 0) | Some d \<Rightarrow> Some d)\<rparr>
            in (case user_event pf (us_org t) (us_id actor) ''auth.user.deactivated'' ''user''
                       (uuid_str (us_id t)) (target_payload actor t @ [(''reason'', PStr why)])
                       (fresh c 0, clock c 1) (put_user t db) of
                  (Inl err, db) \<Rightarrow> (Inl err, db) | (Inr _, db) \<Rightarrow> (Inr t, db)))"

section \<open>Passwords\<close>

definition change_password ::
  "platform \<Rightarrow> crypto \<Rightarrow> call \<Rightarrow> string \<Rightarrow> user \<Rightarrow> string \<Rightarrow> string \<Rightarrow> ('z auth_db_scheme, user) svc" where
  "change_password pf cr c salt u current new db =
     (if \<not> pw_verify cr current (us_password u) then (Inl (ValueError ''Current password is incorrect''), db)
      else if pw_verify cr new (us_password u)
      then (Inl (ValueError ''New password must differ from the current password''), db)
      else
        let u = u\<lparr>us_password := pw_hash cr salt new, us_must_change := False,
                  us_password_changed_at := Some (clock c 0)\<rparr>
        in (case user_event pf (us_org u) (us_id u) ''auth.password.changed'' ''user'' (uuid_str (us_id u))
                   [(''forced'', PBool False)] (fresh c 0, clock c 1) (put_user u db) of
              (Inl err, db) \<Rightarrow> (Inl err, db) | (Inr _, db) \<Rightarrow> (Inr u, db)))"

text \<open>
  The reset token is a challenge of purpose \<open>password_reset\<close>. Challenges have an organization, so the
  insert for a user without one violates its constraint.
\<close>

definition request_password_reset :: "call \<Rightarrow> string \<Rightarrow> string \<Rightarrow> ('z auth_db_scheme, string) svc" where
  "request_password_reset c token email db =
     (case get_user_by_email email db of
        None \<Rightarrow> (Inr token, db)
      | Some u \<Rightarrow>
          if us_org u = None then (Inl (IntegrityError ''auth_challenges.org_id''), db)
          else if token \<in> ch_text ` set (challenges db) then (Inl (IntegrityError ''auth_challenges.challenge''), db)
          else (Inr token, db\<lparr>challenges := row_add
                  \<lparr>ch_id = fresh c 0, ch_org = us_org u, ch_user = us_id u, ch_text = token,
                   ch_purpose = ''password_reset'', ch_expires_at = clock c 0 + minutes_us 60,
                   ch_consumed_at = None\<rparr> (challenges db)\<rparr>))"

text \<open>The route hides the token only when a mail server is configured.\<close>

definition forgot_password :: "bool \<Rightarrow> call \<Rightarrow> string \<Rightarrow> string \<Rightarrow> ('z auth_db_scheme, string option) svc" where
  "forgot_password mail_enabled c token email db =
     (case request_password_reset c token email db of
        (Inl err, db) \<Rightarrow> (Inl err, db)
      | (Inr t, db) \<Rightarrow> (Inr (if mail_enabled then None else Some t), db))"

definition pending_reset :: "string \<Rightarrow> 'z auth_db_scheme \<Rightarrow> challenge list" where
  "pending_reset token db =
     filter (\<lambda>x. ch_text x = token \<and> ch_purpose x = ''password_reset'' \<and> ch_consumed_at x = None) (challenges db)"

definition reset_password ::
  "crypto \<Rightarrow> instant \<Rightarrow> string \<Rightarrow> string \<Rightarrow> string \<Rightarrow> ('z auth_db_scheme, unit) svc" where
  "reset_password cr now salt token new db =
     (case scalar_one_or_none (pending_reset token db) of
        Inl err \<Rightarrow> (Inl err, db)
      | Inr None \<Rightarrow> (Inl (ValueError ''Invalid or expired reset token''), db)
      | Inr (Some ch) \<Rightarrow>
          if ch_expires_at ch < now then (Inl (ValueError ''Reset token has expired''), db)
          else case get_user_by_id (ch_user ch) db of
            None \<Rightarrow> (Inl USER_NOT_FOUND, db)
          | Some u \<Rightarrow>
              let db = put_user (u\<lparr>us_password := pw_hash cr salt new\<rparr>) db
              in (Inr (), db\<lparr>challenges := row_put ch_id (ch\<lparr>ch_consumed_at := Some now\<rparr>) (challenges db)\<rparr>))"

end
