(* ===== verification/Workspaces.thy ===== *)
theory Workspaces
  imports Accounts
begin

text \<open>
  The lifecycle of workspaces (\<open>domains/workspaces/router.py\<close> for their administrators,
  \<open>PlatformAdminService\<close> of \<open>domains/admin/service.py\<close> for the platform's), the support access
  sessions of the latter with the dependency that applies them, and the page arithmetic of
  \<open>core/schemas.py\<close>.
\<close>

section \<open>State\<close>

datatype invite_status = PENDING | ACCEPTED | EXPIRED | REVOKED

fun invite_status_value :: "invite_status \<Rightarrow> string" where
  "invite_status_value PENDING = ''pending''"
| "invite_status_value ACCEPTED = ''accepted''"
| "invite_status_value EXPIRED = ''expired''"
| "invite_status_value REVOKED = ''revoked''"

record invite =
  in_id :: uuid
  in_org :: uuid
  in_email :: string
  in_by :: uuid
  in_role :: user_role
  in_token :: string
  in_expires_at :: instant
  in_accepted_at :: "instant option"
  in_status :: invite_status
  in_created_at :: instant

datatype support_status = SA_ACTIVE | SA_ENDED | SA_EXPIRED

record support_session =
  sa_id :: uuid
  sa_actor :: uuid
  sa_org :: uuid
  sa_reason :: string
  sa_status :: support_status
  sa_expires_at :: instant
  sa_created_at :: instant
  sa_ended_at :: "instant option"

record tenant_db = auth_db +
  invites :: "invite list"
  support :: "support_session list"

section \<open>Pages\<close>

definition page_offset :: "nat \<Rightarrow> nat \<Rightarrow> nat" where
  "page_offset page page_size = (page - 1) * page_size"

definition has_next :: "nat \<Rightarrow> nat \<Rightarrow> nat \<Rightarrow> nat \<Rightarrow> bool" where
  "has_next items n page page_size \<longleftrightarrow> page_offset page page_size + items < n"

text \<open>The items of a page of a listing, as every list endpoint selects them.\<close>

definition page_of :: "nat \<Rightarrow> nat \<Rightarrow> 'a list \<Rightarrow> 'a list" where
  "page_of page page_size xs = take page_size (drop (page_offset page page_size) xs)"

section \<open>Lifecycle of a workspace\<close>

fun allowed_transitions :: "lifecycle_state \<Rightarrow> lifecycle_state list" where
  "allowed_transitions ACTIVE = [SUSPENDED]"
| "allowed_transitions SUSPENDED = [ACTIVE, ARCHIVED]"
| "allowed_transitions ARCHIVED = []"

definition get_my_workspace :: "user \<Rightarrow> 'z auth_db_scheme \<Rightarrow> organization result" where
  "get_my_workspace actor db =
     (case (case us_org actor of None \<Rightarrow> None | Some i \<Rightarrow> get_org i db) of
        None \<Rightarrow> Inl (HTTPException 404 ''Workspace not found'') | Some g \<Rightarrow> Inr g)"

definition update_workspace_status ::
  "platform \<Rightarrow> call \<Rightarrow> user \<Rightarrow> uuid \<Rightarrow> lifecycle_state \<Rightarrow> string option
   \<Rightarrow> ('z auth_db_scheme, organization) svc" where
  "update_workspace_status pf c actor org state why db =
     (case require_roles [ADMIN] (us_role actor) of
        Inl err \<Rightarrow> (Inl err, db)
      | Inr _ \<Rightarrow>
     (case get_org org db of
        None \<Rightarrow> (Inl (HTTPException 404 ''Workspace not found''), db)
      | Some g \<Rightarrow>
          if us_org actor \<noteq> Some (og_id g)
          then (Inl (HTTPException 403 ''Not authorised to manage this workspace''), db)
          else if state \<notin> set (allowed_transitions (og_lifecycle g))
          then (Inl (HTTPException 422 ''Transition is not allowed''), db)
          else if state = SUSPENDED \<and> why \<in> {None, Some []}
          then (Inl (HTTPException 422 ''A reason is required when suspending a workspace.''), db)
          else
            let prev = og_lifecycle g;
                g = (if state = SUSPENDED
                     then g\<lparr>og_suspended_at := Some (clock c 0), og_suspended_reason := why\<rparr>
                     else g\<lparr>og_suspended_at := None, og_suspended_reason := None\<rparr>);
                g = g\<lparr>og_lifecycle := state\<rparr>
            in (Inr g, append_event pf (og_id g) (Some (us_id actor)) ''workspace.lifecycle_changed''
                  ''organization'' (uuid_str (og_id g))
                  (PDict [(''from'', PStr (lifecycle_value prev)), (''to'', PStr (lifecycle_value state)),
                     (''reason'', case why of None \<Rightarrow> PNone | Some s \<Rightarrow> PStr s)]) (fresh c 0, clock c 1) (put_org g db))))"

text \<open>The handler with its dependency: the request's token decides who acts.\<close>

definition update_workspace_route ::
  "platform \<Rightarrow> crypto \<Rightarrow> call \<Rightarrow> instant \<Rightarrow> string option \<Rightarrow> string option \<Rightarrow> uuid \<Rightarrow> lifecycle_state
   \<Rightarrow> string option \<Rightarrow> ('z auth_db_scheme, organization) svc" where
  "update_workspace_route pf cr c now bearer cookie org state why db =
     (case get_current_user cr now bearer cookie db of
        Inl err \<Rightarrow> (Inl err, db)
      | Inr actor \<Rightarrow> update_workspace_status pf c actor org state why db)"

section \<open>The platform's administrators\<close>

definition admin_get_org :: "uuid \<Rightarrow> 'z auth_db_scheme \<Rightarrow> organization result" where
  "admin_get_org org db =
     (case get_org org db of None \<Rightarrow> Inl (HTTPException 404 ''Organization not found'') | Some g \<Rightarrow> Inr g)"

definition org_audit ::
  "platform \<Rightarrow> uuid \<Rightarrow> uuid \<Rightarrow> string \<Rightarrow> (string \<times> pyval) list \<Rightarrow> stamp \<Rightarrow> 'z auth_db_scheme \<Rightarrow> 'z auth_db_scheme" where
  "org_audit pf actor org kind data st db =
     append_event pf org (Some actor) kind ''organization'' (uuid_str org) (PDict data) st db"

definition force_suspend ::
  "platform \<Rightarrow> call \<Rightarrow> uuid \<Rightarrow> uuid \<Rightarrow> string \<Rightarrow> ('z auth_db_scheme, organization) svc" where
  "force_suspend pf c actor org why db =
     (case admin_get_org org db of
        Inl err \<Rightarrow> (Inl err, db)
      | Inr g \<Rightarrow>
          if og_lifecycle g = ARCHIVED then (Inl (HTTPException 409 ''Archived workspaces cannot be suspended.''), db)
          else if og_lifecycle g = SUSPENDED then (Inl (HTTPException 409 ''Workspace is already suspended.''), db)
          else
            let prev = og_lifecycle g;
                g = g\<lparr>og_lifecycle := SUSPENDED, og_suspended_at := Some (clock c 0), og_suspended_reason := Some why\<rparr>
            in (Inr g, org_audit pf actor org ''platform_admin.workspace.force_suspended''
                  [(''from'', PStr (lifecycle_value prev)), (''to'', PStr ''suspended''), (''reason'', PStr why)]
                  (fresh c 0, clock c 1) (put_org g db)))"

definition force_restore ::
  "platform \<Rightarrow> call \<Rightarrow> uuid \<Rightarrow> uuid \<Rightarrow> string \<Rightarrow> ('z auth_db_scheme, organization) svc" where
  "force_restore pf c actor org why db =
     (case admin_get_org org db of
        Inl err \<Rightarrow> (Inl err, db)
      | Inr g \<Rightarrow>
          if og_lifecycle g = ARCHIVED then (Inl (HTTPException 409 ''Archived workspaces cannot be restored.''), db)
          else if og_lifecycle g = ACTIVE then (Inl (HTTPException 409 ''Workspace is already active.''), db)
          else
            let g = g\<lparr>og_lifecycle := ACTIVE, og_suspended_at := None, og_suspended_reason := None\<rparr>
            in (Inr g, org_audit pf actor org ''platform_admin.workspace.force_restored''
                  [(''to'', PStr ''active''), (''reason'', PStr why)] (fresh c 0, clock c 1) (put_org g db)))"

definition force_archive ::
  "platform \<Rightarrow> call \<Rightarrow> uuid \<Rightarrow> uuid \<Rightarrow> string \<Rightarrow> ('z auth_db_scheme, organization) svc" where
  "force_archive pf c actor org why db =
     (case admin_get_org org db of
        Inl err \<Rightarrow> (Inl err, db)
      | Inr g \<Rightarrow>
          if og_lifecycle g = ARCHIVED then (Inl (HTTPException 409 ''Workspace is already archived.''), db)
          else
            let prev = og_lifecycle g; g = g\<lparr>og_lifecycle := ARCHIVED\<rparr>
            in (Inr g, org_audit pf actor org ''platform_admin.workspace.force_archived''
                  [(''from'', PStr (lifecycle_value prev)), (''to'', PStr ''archived''), (''reason'', PStr why)]
                  (fresh c 0, clock c 1) (put_org g db)))"

text \<open>
  The command line tool that promotes an account; \<open>noise\<close> is the random password of a new one.
\<close>

definition seed_platform_admin ::
  "crypto \<Rightarrow> call \<Rightarrow> string \<Rightarrow> string \<Rightarrow> string \<Rightarrow> string \<Rightarrow> string option \<Rightarrow> ('z auth_db_scheme, bool \<times> bool) svc" where
  "seed_platform_admin cr c salt noise email full_name password db =
     (let email = py_strip (py_lower email)
      in case get_user_by_email email db of
           None \<Rightarrow>
             let pw = (case password of Some (a # p) \<Rightarrow> a # p | _ \<Rightarrow> noise)
             in (case insert_user (blank_user (fresh c 0) None email full_name (pw_hash cr salt pw)
                        PLATFORM_ADMIN (clock c 0)) db of
                   (Inl err, db) \<Rightarrow> (Inl err, db) | (Inr _, db) \<Rightarrow> (Inr (True, True), db))
         | Some u \<Rightarrow>
             let u' = (case password of Some (a # p) \<Rightarrow> u\<lparr>us_password := pw_hash cr salt (a # p)\<rparr> | _ \<Rightarrow> u);
                 promoted = (us_role u \<noteq> PLATFORM_ADMIN);
                 u' = u'\<lparr>us_role := PLATFORM_ADMIN\<rparr>
             in (Inr (False, promoted), put_user u' db))"

section \<open>Support access\<close>

definition MAX_SUPPORT_ACCESS_MINUTES :: int where
  "MAX_SUPPORT_ACCESS_MINUTES = 60"

definition create_support_access_session ::
  "platform \<Rightarrow> call \<Rightarrow> uuid \<Rightarrow> uuid \<Rightarrow> string \<Rightarrow> int \<Rightarrow> ('z tenant_db_scheme, support_session) svc" where
  "create_support_access_session pf c actor org why minutes db =
     (let cleaned = py_strip why
      in if cleaned = [] then (Inl (HTTPException 422 ''Reason is required.''), db)
         else if minutes < 1 \<or> MAX_SUPPORT_ACCESS_MINUTES < minutes
         then (Inl (HTTPException 422 ''duration_minutes must be between 1 and 60.''), db)
         else case admin_get_org org db of
           Inl err \<Rightarrow> (Inl err, db)
         | Inr _ \<Rightarrow>
             let s = \<lparr>sa_id = fresh c 0, sa_actor = actor, sa_org = org, sa_reason = cleaned,
                      sa_status = SA_ACTIVE, sa_expires_at = clock c 0 + minutes_us minutes,
                      sa_created_at = clock c 0, sa_ended_at = None\<rparr>;
                 db = db\<lparr>support := row_add s (support db)\<rparr>
             in (Inr s, org_audit pf actor org ''support_access.started''
                   [(''support_access_session_id'', PStr (uuid_str (sa_id s))),
                    (''actor_user_id'', PStr (uuid_str actor)), (''target_org_id'', PStr (uuid_str org)),
                    (''reason'', PStr cleaned), (''duration_minutes'', PInt minutes),
                    (''expires_at'', PStr (isoformat (sa_expires_at s)))] (fresh c 1, clock c 1) db))"

definition put_session :: "support_session \<Rightarrow> 'z tenant_db_scheme \<Rightarrow> 'z tenant_db_scheme" where
  "put_session s db = db\<lparr>support := row_put sa_id s (support db)\<rparr>"

definition expire_session :: "instant \<Rightarrow> support_session \<Rightarrow> support_session" where
  "expire_session now s = s\<lparr>sa_status := SA_EXPIRED,
     sa_ended_at := (case sa_ended_at s of None \<Rightarrow> Some now | Some t \<Rightarrow> Some t)\<rparr>"

definition end_support_access_session ::
  "platform \<Rightarrow> call \<Rightarrow> uuid \<Rightarrow> uuid \<Rightarrow> string \<Rightarrow> ('z tenant_db_scheme, support_session) svc" where
  "end_support_access_session pf c actor sid why db =
     (let cleaned = py_strip why; now = clock c 0
      in if cleaned = [] then (Inl (HTTPException 422 ''Reason is required.''), db)
         else case row_find sa_id sid (support db) of
           None \<Rightarrow> (Inl (HTTPException 404 ''Support access session not found.''), db)
         | Some s \<Rightarrow>
             if sa_status s = SA_ENDED
             then (Inl (HTTPException 409 ''Support access session already ended.''), db)
             else if sa_status s = SA_EXPIRED \<or> sa_expires_at s \<le> now
             then (Inl (HTTPException 409 ''Support access session already expired.''), put_session (expire_session now s) db)
             else
               let s = s\<lparr>sa_status := SA_ENDED, sa_ended_at := Some now\<rparr>
               in (Inr s, org_audit pf actor (sa_org s) ''support_access.ended''
                     [(''support_access_session_id'', PStr (uuid_str (sa_id s))),
                      (''actor_user_id'', PStr (uuid_str actor)),
                      (''target_org_id'', PStr (uuid_str (sa_org s))), (''reason'', PStr cleaned),
                      (''ended_at'', PStr (isoformat now))] (fresh c 0, clock c 1) (put_session s db)))"

definition resolve_active_support_access_session ::
  "instant \<Rightarrow> uuid \<Rightarrow> uuid \<Rightarrow> ('z tenant_db_scheme, support_session) svc" where
  "resolve_active_support_access_session now actor sid db =
     (case row_find sa_id sid (support db) of
        None \<Rightarrow> (Inl (HTTPException 404 ''Support access session not found.''), db)
      | Some s \<Rightarrow>
          if sa_actor s \<noteq> actor
          then (Inl (HTTPException 403 ''Support access session belongs to another actor.''), db)
          else if sa_status s \<noteq> SA_ACTIVE \<or> sa_expires_at s \<le> now
          then (Inl (HTTPException 403 ''Support access session is not active.''),
                if sa_status s = SA_ACTIVE then put_session (expire_session now s) db else db)
          else (Inr s, db))"

definition stale :: "instant \<Rightarrow> support_session \<Rightarrow> bool" where
  "stale now s \<longleftrightarrow> sa_status s = SA_ACTIVE \<and> sa_expires_at s \<le> now"

definition expire_stale_support_sessions :: "instant \<Rightarrow> 'z tenant_db_scheme \<Rightarrow> 'z tenant_db_scheme" where
  "expire_stale_support_sessions now db =
     db\<lparr>support := map (\<lambda>s. if stale now s then expire_session now s else s) (support db)\<rparr>"

definition list_active_support_access_sessions ::
  "instant \<Rightarrow> 'z tenant_db_scheme \<Rightarrow> support_session list \<times> 'z tenant_db_scheme" where
  "list_active_support_access_sessions now db =
     (let db = expire_stale_support_sessions now db
      in (rev (sort_key sa_created_at (filter (\<lambda>s. sa_status s = SA_ACTIVE) (support db))), db))"

record support_context =
  sc_actor :: uuid
  sc_org :: "uuid option"
  sc_session :: "uuid option"

definition READ_METHODS :: "string list" where
  "READ_METHODS = [''GET'', ''HEAD'', ''OPTIONS'']"

text \<open>
  \<open>get_support_access_context\<close>: the organization a request reads from. The method of the request and
  its header are arguments.
\<close>

definition get_support_access_context ::
  "instant \<Rightarrow> string \<Rightarrow> user \<Rightarrow> uuid option \<Rightarrow> ('z tenant_db_scheme, support_context) svc" where
  "get_support_access_context now http_method u header db =
     (case header of
        None \<Rightarrow> (Inr \<lparr>sc_actor = us_id u, sc_org = us_org u, sc_session = None\<rparr>, db)
      | Some sid \<Rightarrow>
          if us_role u \<noteq> PLATFORM_ADMIN
          then (Inl (HTTPException 403 ''Only platform_admin can use support access sessions.''), db)
          else if py_upper http_method \<notin> set READ_METHODS
          then (Inl (HTTPException 403 ''Support access is read-only in this MVP.''), db)
          else case resolve_active_support_access_session now (us_id u) sid db of
            (Inl err, db) \<Rightarrow> (Inl err, db)
          | (Inr s, db) \<Rightarrow> (Inr \<lparr>sc_actor = us_id u, sc_org = Some (sa_org s), sc_session = Some (sa_id s)\<rparr>, db))"

end
