(* ===== verification/Invites.thy ===== *)
theory Invites
  imports Workspaces
begin

text \<open>
  \<open>InviteService\<close>: invitations to a workspace, their acceptance by the invited person, which creates
  the account, their expiry and their revocation.
\<close>

definition CURRENT_TERMS_VERSION :: string where
  "CURRENT_TERMS_VERSION = ''1.0''"

record invite_create =
  ic_email :: string
  ic_role :: user_role
  ic_expires_in_days :: int

record invite_accept =
  ia_full_name :: string
  ia_password :: string
  ia_terms_accepted :: bool

definition pending_for :: "uuid \<Rightarrow> string \<Rightarrow> 'z tenant_db_scheme \<Rightarrow> invite list" where
  "pending_for org email db =
     filter (\<lambda>i. in_org i = org \<and> in_email i = email \<and> in_status i = PENDING) (invites db)"

definition put_invite :: "invite \<Rightarrow> 'z tenant_db_scheme \<Rightarrow> 'z tenant_db_scheme" where
  "put_invite i db = db\<lparr>invites := row_put in_id i (invites db)\<rparr>"

text \<open>\<open>token\<close> is \<open>secrets.token_urlsafe(32)\<close>; the mail that carries it is left out.\<close>

definition create_invite ::
  "platform \<Rightarrow> call \<Rightarrow> string \<Rightarrow> uuid \<Rightarrow> uuid \<Rightarrow> invite_create \<Rightarrow> ('z tenant_db_scheme, invite) svc" where
  "create_invite pf c token org actor req db =
     (case get_org org db of
        None \<Rightarrow> (Inl (HTTPException 404 ''Organization not found''), db)
      | Some g \<Rightarrow>
          if og_quota g \<le> int (active_members org db)
          then (Inl (HTTPException 422 (''Member quota reached ('' @ int_str (og_quota g)
                 @ '' active users). Upgrade your workspace plan to invite more members.'')), db)
          else case scalar_one_or_none (pending_for org (ic_email req) db) of
            Inl err \<Rightarrow> (Inl err, db)
          | Inr (Some _) \<Rightarrow>
              (Inl (HTTPException 409 (''A pending invite for '' @ ic_email req @ '' already exists.'')), db)
          | Inr None \<Rightarrow>
              let i = \<lparr>in_id = fresh c 0, in_org = org, in_email = ic_email req, in_by = actor,
                       in_role = ic_role req, in_token = token,
                       in_expires_at = clock c 0 + days_us (ic_expires_in_days req), in_accepted_at = None,
                       in_status = PENDING, in_created_at = clock c 0\<rparr>
              in if token \<in> in_token ` set (invites db)
                 then (Inl (IntegrityError ''workspace_invites.token''), db)
                 else (Inr i, append_event pf org (Some actor) ''invite.created'' ''workspace_invite''
                        (uuid_str (in_id i))
                        (PDict [(''invited_email'', PStr (ic_email req)),
                           (''role'', PStr (role_value (ic_role req))),
                           (''expires_in_days'', PInt (ic_expires_in_days req))])
                        (fresh c 1, clock c 1) (db\<lparr>invites := row_add i (invites db)\<rparr>)))"

text \<open>The route: an administrator invites to the own workspace; it commits.\<close>

definition create_invite_route ::
  "platform \<Rightarrow> call \<Rightarrow> string \<Rightarrow> user \<Rightarrow> invite_create \<Rightarrow> ('z tenant_db_scheme, invite) svc" where
  "create_invite_route pf c token actor req db =
     (case require_roles [ADMIN] (us_role actor) of
        Inl err \<Rightarrow> (Inl err, db)
      | Inr _ \<Rightarrow> (case us_org actor of
          None \<Rightarrow> (Inl (HTTPException 404 ''Organization not found''), db)
        | Some org \<Rightarrow> create_invite pf c token org (us_id actor) req db))"

definition get_by_token :: "instant \<Rightarrow> string \<Rightarrow> ('z tenant_db_scheme, invite) svc" where
  "get_by_token now token db =
     (case row_find in_token token (invites db) of
        None \<Rightarrow> (Inl (HTTPException 404 ''Invite not found''), db)
      | Some i \<Rightarrow>
          if in_status i = PENDING \<and> in_expires_at i < now
          then let i = i\<lparr>in_status := EXPIRED\<rparr> in (Inr i, put_invite i db)
          else (Inr i, db))"

definition accept_invite ::
  "platform \<Rightarrow> crypto \<Rightarrow> call \<Rightarrow> string \<Rightarrow> string \<Rightarrow> invite_accept \<Rightarrow> ('z tenant_db_scheme, user) svc" where
  "accept_invite pf cr c salt token req db =
     (case get_by_token (clock c 0) token db of
        (Inl err, db) \<Rightarrow> (Inl err, db)
      | (Inr i, db) \<Rightarrow>
          if in_status i \<noteq> PENDING
          then (Inl (HTTPException 409 (''Invite is '' @ invite_status_value (in_status i)
                 @ '' and cannot be accepted.'')), db)
          else case get_org (in_org i) db of
            None \<Rightarrow> (Inl (HTTPException 404 ''Organization not found''), db)
          | Some g \<Rightarrow>
              if og_quota g \<le> int (active_members (in_org i) db)
              then (Inl (HTTPException 422 ''Member quota reached. Contact your workspace admin.''), db)
              else if get_user_by_email (in_email i) db \<noteq> None
              then (Inl (HTTPException 409 ''An account with this email already exists.''), db)
              else if \<not> ia_terms_accepted req
              then (Inl (HTTPException 422 ''Terms must be accepted''), db)
              else
                let now = clock c 1;
                    u = (blank_user (fresh c 0) (Some (in_org i)) (in_email i) (ia_full_name req)
                           (pw_hash cr salt (ia_password req)) (in_role i) now)
                        \<lparr>us_terms_accepted_at := Some now, us_terms_version := Some CURRENT_TERMS_VERSION\<rparr>;
                    i = i\<lparr>in_status := ACCEPTED, in_accepted_at := Some now\<rparr>
                in (case insert_user u (put_invite i db) of
                      (Inl err, db) \<Rightarrow> (Inl err, db)
                    | (Inr u, db) \<Rightarrow>
                        (Inr u, append_event pf (in_org i) (Some (us_id u)) ''invite.accepted'' ''workspace_invite''
                           (uuid_str (in_id i))
                           (PDict [(''invited_email'', PStr (in_email i)),
                              (''role'', PStr (role_value (in_role i))),
                              (''terms_version'', PStr CURRENT_TERMS_VERSION),
                              (''terms_accepted_at'', PStr (isoformat now))]) (fresh c 1, clock c 2) db)))"

text \<open>Listing marks the expired invitations of the workspace first.\<close>

definition expire_invites :: "uuid \<Rightarrow> instant \<Rightarrow> 'z tenant_db_scheme \<Rightarrow> 'z tenant_db_scheme" where
  "expire_invites org now db =
     db\<lparr>invites := map (\<lambda>i. if in_org i = org \<and> in_status i = PENDING \<and> in_expires_at i < now
        then i\<lparr>in_status := EXPIRED\<rparr> else i) (invites db)\<rparr>"

definition list_invites ::
  "uuid \<Rightarrow> instant \<Rightarrow> nat \<Rightarrow> nat \<Rightarrow> invite_status option \<Rightarrow> string option \<Rightarrow> 'z tenant_db_scheme
   \<Rightarrow> (invite list \<times> nat) \<times> 'z tenant_db_scheme" where
  "list_invites org now page page_size wanted q db =
     (let db = expire_invites org now db;
          needle = (case q of None \<Rightarrow> [] | Some s \<Rightarrow> py_lower (py_strip s));
          matching = filter (\<lambda>i. in_org i = org
            \<and> (case wanted of None \<Rightarrow> True | Some s \<Rightarrow> in_status i = s)
            \<and> (needle = [] \<or> sql_like (''%'' @ needle @ ''%'') (py_lower (in_email i)))) (invites db)
      in ((page_of page page_size (rev (sort_key in_created_at matching)), length matching), db))"

definition revoke_invite ::
  "platform \<Rightarrow> uuid \<Rightarrow> uuid \<Rightarrow> uuid \<Rightarrow> stamp \<Rightarrow> ('z tenant_db_scheme, invite) svc" where
  "revoke_invite pf org iid actor st db =
     (case row_find in_id iid (invites db) of
        None \<Rightarrow> (Inl (HTTPException 404 ''Invite not found''), db)
      | Some i \<Rightarrow>
          if in_org i \<noteq> org then (Inl (HTTPException 404 ''Invite not found''), db)
          else if in_status i \<noteq> PENDING
          then (Inl (HTTPException 409 (''Only pending invites can be revoked; current status is ''
                 @ invite_status_value (in_status i) @ ''.'')), db)
          else
            let i = i\<lparr>in_status := REVOKED\<rparr>
            in (Inr i, append_event pf org (Some actor) ''invite.revoked'' ''workspace_invite''
                  (uuid_str (in_id i)) (PDict [(''invited_email'', PStr (in_email i))]) st (put_invite i db)))"

end
