(* ===== verification/AccountLaws.thy ===== *)
theory AccountLaws
  imports Accounts AuthExample
begin

text \<open>
  What account management keeps: identifiers and emails stay unique, every user's organization exists,
  and no organization has more active members than its quota (put together over all operations in
  \<open>MembershipLaws\<close>); administrators act inside their own organization and below their own rank;
  and where the code does not keep to that.
\<close>

section \<open>The invariant\<close>

definition quota_kept :: "'z auth_db_scheme \<Rightarrow> bool" where
  "quota_kept db \<longleftrightarrow> (\<forall>g\<in>set (orgs db). int (active_members (og_id g) db) \<le> og_quota g)"

definition accounts_ok :: "'z auth_db_scheme \<Rightarrow> bool" where
  "accounts_ok db \<longleftrightarrow> distinct (map us_id (users db)) \<and> distinct (map us_email (users db))
     \<and> distinct (map og_id (orgs db))
     \<and> us_org ` set (users db) \<subseteq> insert None (Some ` og_id ` set (orgs db)) \<and> quota_kept db"

text \<open>
  An operation edits at most one user row: identifier and organization stay, no inactive user becomes
  active, and the email stays unique.
\<close>

definition user_edit :: "'z auth_db_scheme \<Rightarrow> user \<Rightarrow> user \<Rightarrow> bool" where
  "user_edit db t t' \<longleftrightarrow> t \<in> set (users db) \<and> us_id t' = us_id t \<and> us_org t' = us_org t
     \<and> (us_active t' \<longrightarrow> us_active t)
     \<and> (\<forall>x\<in>set (users db). us_id x \<noteq> us_id t \<longrightarrow> us_email x \<noteq> us_email t')"

definition edits_user :: "'z auth_db_scheme \<Rightarrow> 'z auth_db_scheme \<Rightarrow> bool" where
  "edits_user db db' \<longleftrightarrow> orgs db' = orgs db \<and>
     (users db' = users db \<or> (\<exists>t t'. user_edit db t t' \<and> users db' = row_put us_id t' (users db)))"

lemma edits_same: "orgs db' = orgs db \<Longrightarrow> users db' = users db \<Longrightarrow> edits_user db db'"
  by (simp add: edits_user_def)

lemma edits_refl [simp]: "edits_user db db"
  by (simp add: edits_user_def)

lemma edits_put:
  "user_edit db t t' \<Longrightarrow> orgs db' = orgs db \<Longrightarrow> users db' = row_put us_id t' (users db) \<Longrightarrow> edits_user db db'"
  unfolding edits_user_def by blast

lemma same_email_edit:
  assumes "accounts_ok db" and "t \<in> set (users db)" and "us_id t' = us_id t" and "us_org t' = us_org t"
    and "us_active t' \<longrightarrow> us_active t" and "us_email t' = us_email t"
  shows "user_edit db t t'"
proof -
  have d: "distinct (map us_email (users db))" using assms(1) by (simp add: accounts_ok_def)
  have "us_email x \<noteq> us_email t" if "x \<in> set (users db)" "us_id x \<noteq> us_id t" for x
    using d that assms(2) by (auto simp: distinct_map dest: inj_onD)
  with assms show ?thesis by (simp add: user_edit_def)
qed

lemma put_by_id:
  assumes "distinct (map us_id us)" and "t \<in> set us" and "us_id t' = us_id t"
  shows "row_put us_id t' us = map (\<lambda>x. if x = t then t' else x) us"
  using assms unfolding row_put_def by (auto simp: distinct_map dest: inj_onD)

lemma active_members_put:
  assumes "distinct (map us_id (users db))" and "user_edit db t t'" and "users db' = row_put us_id t' (users db)"
  shows "active_members i db' \<le> active_members i db"
proof -
  have "length (filter (\<lambda>u. us_org u = Some i \<and> us_active u) (map (\<lambda>x. if x = t then t' else x) us))
      \<le> length (filter (\<lambda>u. us_org u = Some i \<and> us_active u) us)" for us
    using assms(2) by (induction us) (auto simp: user_edit_def)
  then show ?thesis
    using assms put_by_id [of "users db" t t'] by (simp add: active_members_def user_edit_def)
qed

lemma emails_put:
  assumes ids: "distinct (map us_id (users db))" and em: "distinct (map us_email (users db))"
    and e: "user_edit db t t'"
  shows "distinct (map us_email (row_put us_id t' (users db)))"
proof -
  have map: "row_put us_id t' (users db) = map (\<lambda>x. if x = t then t' else x) (users db)"
    using put_by_id [OF ids] e by (simp add: user_edit_def)
  have other: "us_email x \<noteq> us_email t'" if "x \<in> set (users db)" "x \<noteq> t" for x
    using that e ids by (auto simp: user_edit_def distinct_map dest: inj_onD)
  have "inj_on (\<lambda>x. us_email (if x = t then t' else x)) (set (users db))"
    using em other not_sym [OF other] by (auto simp: inj_on_def distinct_map)
  moreover have "distinct (users db)" using ids by (simp add: distinct_map)
  ultimately show ?thesis unfolding map by (simp add: distinct_map comp_def)
qed

lemma edits_user_ok:
  assumes ok: "accounts_ok db" and e: "edits_user db db'"
  shows "accounts_ok db'"
proof (cases "users db' = users db")
  case True
  with ok e show ?thesis by (auto simp: accounts_ok_def edits_user_def quota_kept_def active_members_def)
next
  case False
  with e obtain t t' where t: "user_edit db t t'" and us: "users db' = row_put us_id t' (users db)"
    and og: "orgs db' = orgs db" by (auto simp: edits_user_def)
  have ids: "distinct (map us_id (users db))" and em: "distinct (map us_email (users db))"
    using ok by (simp_all add: accounts_ok_def)
  have "us_org ` set (users db') \<subseteq> us_org ` set (users db)"
    unfolding us using t by (auto simp: user_edit_def dest!: set_row_put)
  also have "us_org ` set (users db) \<subseteq> insert None (Some ` og_id ` set (orgs db))"
    using ok by (simp only: accounts_ok_def)
  finally have "us_org ` set (users db') \<subseteq> insert None (Some ` og_id ` set (orgs db'))" unfolding og .
  moreover have "quota_kept db'"
    unfolding quota_kept_def og
  proof
    fix g assume "g \<in> set (orgs db)"
    with ok have "int (active_members (og_id g) db) \<le> og_quota g" by (simp add: accounts_ok_def quota_kept_def)
    with active_members_put [OF ids t us, of "og_id g"] show "int (active_members (og_id g) db') \<le> og_quota g"
      by linarith
  qed
  moreover have "distinct (map us_id (users db'))" using ids by (simp add: us)
  moreover have "distinct (map us_email (users db'))" using emails_put [OF ids em t] by (simp add: us)
  ultimately show ?thesis using ok og by (simp add: accounts_ok_def)
qed

section \<open>Operations that edit one row\<close>

lemma user_event_tables:
  assumes "user_event pf org actor kind entity eid data st db = (r, db')"
  shows "users db' = users db" and "orgs db' = orgs db" and "keyrings db' = keyrings db"
    and "challenges db' = challenges db" and "passkeys db' = passkeys db" and "revoked db' = revoked db"
    and "backup_codes db' = backup_codes db"
  using user_event_cases [OF assms] by auto

lemma event_tables_snd [simp]:
  "users (snd (user_event pf org actor kind entity eid data st db)) = users db"
  "orgs (snd (user_event pf org actor kind entity eid data st db)) = orgs db"
  by (auto simp: user_event_def split: option.split)

lemma visible_target_in:
  "visible_target actor tid db = Some t \<Longrightarrow> t \<in> set (users db) \<and> us_id t = tid"
  by (auto simp: visible_target_def get_user_by_id_def dest!: row_find_Some split: option.splits if_splits)

lemma flush_user_cases:
  "flush_user t db = (r, db') \<Longrightarrow>
    (db' = db \<and> (\<exists>e. r = Inl e)) \<or>
    (r = Inr () \<and> db' = put_user t db \<and> (\<forall>x\<in>set (users db). us_id x \<noteq> us_id t \<longrightarrow> us_email x \<noteq> us_email t))"
  by (auto simp: flush_user_def list_ex_iff split: if_splits)

lemma flush_edit:
  assumes "t \<in> set (users db)" and "us_id t' = us_id t" and "us_org t' = us_org t"
    and "us_active t' \<longrightarrow> us_active t" and "flush_user t' db = (Inr r, db')"
  shows "edits_user db db'"
  using assms flush_user_cases [OF assms(5)]
  by (intro edits_put [of db t t']) (auto simp: user_edit_def)

lemma anonymize_keeps [simp]:
  "us_id (anonymize_user_identity pf u) = us_id u" "us_org (anonymize_user_identity pf u) = us_org u"
  "us_active (anonymize_user_identity pf u) = us_active u" "us_role (anonymize_user_identity pf u) = us_role u"
  by (simp_all add: anonymize_user_identity_def Let_def)

lemma updated_user_keeps:
  "us_id (fst (updated_name req t)) = us_id t" "us_org (fst (updated_name req t)) = us_org t"
  "us_active (fst (updated_name req t)) = us_active t" "us_role (fst (updated_name req t)) = us_role t"
  "us_id (fst (updated_email req t)) = us_id t" "us_org (fst (updated_email req t)) = us_org t"
  "us_active (fst (updated_email req t)) = us_active t" "us_role (fst (updated_email req t)) = us_role t"
  "us_id (fst (updated_role req t)) = us_id t" "us_org (fst (updated_role req t)) = us_org t"
  "us_active (fst (updated_role req t)) = us_active t"
  "us_role (fst (updated_role req t)) = (case uu_role req of None \<Rightarrow> us_role t | Some r \<Rightarrow> r)"
  by (auto simp: updated_name_def updated_email_def updated_role_def split: option.split)

definition updated :: "user_update \<Rightarrow> user \<Rightarrow> user" where
  "updated req t = fst (updated_role req (fst (updated_email req (fst (updated_name req t)))))"

lemma updated_fields:
  "us_id (updated req t) = us_id t" "us_org (updated req t) = us_org t" "us_active (updated req t) = us_active t"
  "us_role (updated req t) = (case uu_role req of None \<Rightarrow> us_role t | Some r \<Rightarrow> r)"
  by (simp_all add: updated_def updated_user_keeps split: option.split)

text \<open>Every administrator's operation on a visible target, as one edit of its row.\<close>

lemma admin_update_cases:
  assumes "admin_update_user pf actor tid req st db = (r, db')"
  shows "(users db' = users db \<and> orgs db' = orgs db) \<or>
    (\<exists>t d. visible_target actor tid db = Some t \<and> can_manage (us_role actor) (us_role t)
       \<and> (uu_role req \<in> {Some ADMIN, Some PLATFORM_ADMIN} \<longrightarrow> us_role actor = PLATFORM_ADMIN)
       \<and> flush_user (updated req t) db = (Inr (), d) \<and> users db' = users d \<and> orgs db' = orgs d)"
proof (cases "visible_target actor tid db")
  case None
  with assms show ?thesis by (simp add: admin_update_user_def)
next
  case (Some t)
  obtain t1 d1 where 1: "updated_name req t = (t1, d1)" by fastforce
  obtain t2 d2 where 2: "updated_email req t1 = (t2, d2)" by fastforce
  obtain t3 d3 where 3: "updated_role req t2 = (t3, d3)" by fastforce
  have up: "updated req t = t3" by (simp add: updated_def 1 2 3)
  obtain f d where f: "flush_user t3 db = (f, d)" by fastforce
  show ?thesis
  proof (cases "can_manage (us_role actor) (us_role t) \<and>
      (uu_role req \<in> {Some ADMIN, Some PLATFORM_ADMIN} \<longrightarrow> us_role actor = PLATFORM_ADMIN)
      \<and> d1 @ d2 @ d3 \<noteq> [] \<and> (\<exists>x. f = Inr x)")
    case False
    with assms Some flush_user_cases [OF f] show ?thesis
      by (auto simp: admin_update_user_def 1 2 3 f split: if_splits sum.splits)
  next
    case True
    obtain e d' where e: "user_event pf (us_org t3) (us_id actor) ''auth.user.updated'' ''user''
        (uuid_str (us_id t3)) (d1 @ d2 @ d3) st d = (e, d')" by fastforce
    from True have "d1 @ d2 @ d3 \<noteq> []" by blast
    with True assms Some have "db' = d'"
      by (cases e) (auto simp: admin_update_user_def 1 2 3 f e simp del: append_is_Nil_conv split: if_splits)
    with True Some user_event_tables [OF e] show ?thesis by (auto simp: up f)
  qed
qed

lemma admin_update_edits:
  assumes "admin_update_user pf actor tid req st db = (r, db')"
  shows "edits_user db db'"
  using admin_update_cases [OF assms]
proof
  assume "users db' = users db \<and> orgs db' = orgs db"
  then show ?thesis by (simp add: edits_same)
next
  assume "\<exists>t d. visible_target actor tid db = Some t \<and> can_manage (us_role actor) (us_role t)
       \<and> (uu_role req \<in> {Some ADMIN, Some PLATFORM_ADMIN} \<longrightarrow> us_role actor = PLATFORM_ADMIN)
       \<and> flush_user (updated req t) db = (Inr (), d) \<and> users db' = users d \<and> orgs db' = orgs d"
  then obtain t d where t: "visible_target actor tid db = Some t" and f: "flush_user (updated req t) db = (Inr (), d)"
    and db': "users db' = users d" "orgs db' = orgs d" by blast
  have "edits_user db d"
    by (rule flush_edit [OF _ _ _ _ f, of t]) (simp_all add: visible_target_in [OF t] updated_fields)
  with db' show ?thesis by (simp add: edits_user_def)
qed

text \<open>The other operations put one row and then touch other tables only.\<close>

lemma put_edits:
  assumes "accounts_ok db" and "t \<in> set (users db)" and "us_id t' = us_id t" and "us_org t' = us_org t"
    and "us_active t' \<longrightarrow> us_active t" and "us_email t' = us_email t"
    and "users db' = users (put_user t' db)" and "orgs db' = orgs db"
  shows "edits_user db db'"
  using edits_put [OF same_email_edit [OF assms(1-6)]] assms(7,8) by simp

lemma flush_event_edits:
  assumes t: "t \<in> set (users db)" "us_id t' = us_id t" "us_org t' = us_org t" "us_active t' \<longrightarrow> us_active t"
  shows "edits_user db (snd (case flush_user t' db of (Inl err, d) \<Rightarrow> (Inl err, d)
      | (Inr _, d) \<Rightarrow> (case user_event pf org who kind entity eid data st d of
          (Inl err, d) \<Rightarrow> (Inl err, d) | (Inr _, d) \<Rightarrow> (Inr x, d))))"
proof -
  obtain f d where f: "flush_user t' db = (f, d)" by fastforce
  obtain e d' where e: "user_event pf org who kind entity eid data st d = (e, d')" by fastforce
  show ?thesis
  proof (cases f)
    case (Inl err)
    with flush_user_cases [OF f] show ?thesis by (simp add: f)
  next
    case (Inr u)
    have "edits_user db d" using flush_edit [OF t] f Inr by simp
    then have "edits_user db d'" using user_event_tables [OF e] by (simp add: edits_user_def)
    then show ?thesis by (cases e) (simp_all add: f Inr e)
  qed
qed

lemma put_event_edits:
  assumes d: "users d = row_put us_id t' (users db)" "orgs d = orgs db"
    and t: "accounts_ok db" "t \<in> set (users db)" "us_id t' = us_id t" "us_org t' = us_org t"
      "us_active t' \<longrightarrow> us_active t" "us_email t' = us_email t"
  shows "edits_user db (snd (case user_event pf org who kind entity eid data st d of
          (Inl err, d) \<Rightarrow> (Inl err, d) | (Inr _, d) \<Rightarrow> (Inr x, d)))"
proof -
  obtain e d' where e: "user_event pf org who kind entity eid data st d = (e, d')" by fastforce
  have "edits_user db d'" using user_event_tables [OF e] d by (intro put_edits [OF t]) simp_all
  then show ?thesis by (cases e) (simp_all add: e)
qed

lemma admin_delete_edits: "edits_user db (snd (admin_delete_user pf c actor tid why db))"
  unfolding admin_delete_user_def Let_def
  by (auto dest!: visible_target_in split: option.split intro!: flush_event_edits)

lemma admin_reset_password_edits:
  "accounts_ok db \<Longrightarrow> edits_user db (snd (admin_reset_password pf cr salt temp actor tid st db))"
  unfolding admin_reset_password_def Let_def
  by (auto dest!: visible_target_in split: option.split intro!: put_event_edits)

lemma clear_backup_tables [simp]:
  "users (clear_backup_codes uid db) = users db" "orgs (clear_backup_codes uid db) = orgs db"
  by (simp_all add: clear_backup_codes_def)

lemma admin_reset_mfa_edits: "accounts_ok db \<Longrightarrow> edits_user db (snd (admin_reset_mfa pf actor tid st db))"
  unfolding admin_reset_mfa_def Let_def
  by (auto dest!: visible_target_in split: option.split intro!: put_event_edits)

lemma admin_deactivate_edits:
  "accounts_ok db \<Longrightarrow> edits_user db (snd (admin_deactivate_user pf c actor tid why db))"
  unfolding admin_deactivate_user_def Let_def
  by (auto dest!: visible_target_in split: option.split intro!: put_event_edits)

lemma lgpd_purge_edits: "edits_user db (snd (lgpd_purge_user pf cr c salt noise actor tid db))"
proof (cases "get_user_by_id tid db")
  case (Some t)
  let ?p = "purged pf cr salt noise (clock c 0) t"
  obtain f d where f: "flush_user ?p db = (f, d)" by fastforce
  have "f = Inl e \<Longrightarrow> d = db" for e using flush_user_cases [OF f] by auto
  moreover have "f = Inr u \<Longrightarrow> edits_user db d" for u
    using flush_edit [of t db ?p u d] f get_user_by_id_Some [OF Some] by (simp add: purged_def)
  ultimately show ?thesis using Some
    by (cases f) (auto simp: lgpd_purge_user_def Let_def f edits_user_def)
qed (simp add: lgpd_purge_user_def)

text \<open>The operations of a user on the own row.\<close>

definition own_row :: "user \<Rightarrow> 'z auth_db_scheme \<Rightarrow> bool" where
  "own_row u db \<longleftrightarrow> u \<in> set (users db)"

lemma change_password_edits:
  "accounts_ok db \<Longrightarrow> own_row u db \<Longrightarrow> edits_user db (snd (change_password pf cr c salt u current new db))"
  unfolding change_password_def own_row_def Let_def
  by (auto intro!: put_event_edits)

lemma reset_password_edits:
  "accounts_ok db \<Longrightarrow> edits_user db (snd (reset_password cr now salt token new db))"
  unfolding reset_password_def Let_def
  by (auto split: option.split sum.split dest!: get_user_by_id_Some
      intro!: put_edits [of db u "u\<lparr>us_password := p\<rparr>" for u p])

lemma request_reset_edits: "edits_user db (snd (request_password_reset c token email db))"
  unfolding request_password_reset_def by (auto split: option.split intro: edits_same)

lemma use_backup_tables:
  "use_backup_code pf now u code db = (r, d) \<Longrightarrow> users d = users db \<and> orgs d = orgs db"
  by (auto simp: use_backup_code_def split: sum.splits option.splits)

lemma second_factor_tables:
  assumes "second_factor pf cr c u code db = (r, db')"
  shows "users db' = users db" and "orgs db' = orgs db"
proof -
  have "users (snd (second_factor pf cr c u code db)) = users db \<and> orgs (snd (second_factor pf cr c u code db)) = orgs db"
    by (auto simp: second_factor_def dest!: use_backup_tables split: option.split list.split sum.split bool.split prod.split)
  with assms show "users db' = users db" "orgs db' = orgs db" by simp_all
qed

lemma login_event_tables [simp]:
  "users (login_event pf u st db) = users db" "orgs (login_event pf u st db) = orgs db"
  by (simp_all add: login_event_def split: option.split)

lemma login_edits:
  assumes ok: "accounts_ok db"
  shows "edits_user db (snd (login pf cr c email password code db))"
proof (cases "get_user_by_email email db")
  case (Some u)
  obtain f d where f: "second_factor pf cr c u code db = (f, d)" by fastforce
  note tables = second_factor_tables [OF f]
  have "edits_user db (login_event pf (u\<lparr>us_last_login := Some (clock c 2)\<rparr>) st
      (put_user (u\<lparr>us_last_login := Some (clock c 2)\<rparr>) d))" for st
    using get_user_by_email_Some [OF Some] tables
    by (intro put_edits [OF ok, of u "u\<lparr>us_last_login := Some (clock c 2)\<rparr>"]) simp_all
  with tables Some show ?thesis
    by (cases f) (simp_all add: login_def f Let_def edits_same)
qed (simp add: login_def)

lemma encrypt_tables:
  "users (snd (encrypt_secret_for_org cr c sec org v db)) = users db"
  "orgs (snd (encrypt_secret_for_org cr c sec org v db)) = orgs db"
  by (auto simp: encrypt_secret_for_org_def ensure_workspace_keyring_def Let_def split: option.split)

lemma begin_totp_edits:
  assumes "accounts_ok db" and "own_row u db"
  shows "edits_user db (snd (begin_totp_setup pf cr c sec rnd rp u db))"
proof -
  obtain e d where e: "encrypt_secret_for_org cr c sec (us_org u) (b32encode rnd) db = (e, d)" by fastforce
  from encrypt_tables [of cr c sec "us_org u" "b32encode rnd" db] have t: "users d = users db" "orgs d = orgs db"
    by (simp_all add: e)
  show ?thesis using assms t
    by (cases e) (auto simp: begin_totp_setup_def e Let_def totp_event_def own_row_def
        intro!: put_event_edits [of _ _ _ u] intro: edits_same)
qed

lemma disable_totp_edits:
  "accounts_ok db \<Longrightarrow> own_row u db \<Longrightarrow> edits_user db (snd (disable_totp pf cr c u code db))"
  unfolding disable_totp_def Let_def totp_event_def own_row_def
  by (auto split: sum.split bool.split intro!: put_event_edits [of _ _ _ u])

lemma generate_backup_tables:
  assumes "generate_backup_codes pf c b raw u db = (r, db')"
  shows "users db' = users db" and "orgs db' = orgs db"
  using assms by (auto simp: generate_backup_codes_def Let_def split: if_splits)

lemma enable_totp_edits:
  assumes "accounts_ok db" and "own_row u db"
  shows "edits_user db (snd (enable_totp pf cr c raw u code db))"
proof -
  let ?u = "u\<lparr>us_totp_enabled := True, us_totp_verified_at := Some (clock c 1)\<rparr>"
  obtain e d where e: "generate_backup_codes pf c 0 raw ?u (put_user ?u db) = (e, d)" by fastforce
  from generate_backup_tables [OF e] have t: "users d = row_put us_id ?u (users db)" "orgs d = orgs db" by simp_all
  have "edits_user db d" using assms t by (intro put_edits [OF assms(1), of u ?u]) (simp_all add: own_row_def)
  then show ?thesis using assms t
    by (cases e) (auto simp: enable_totp_def Let_def totp_event_def own_row_def e [unfolded One_nat_def]
        split: sum.split bool.split intro!: put_event_edits [of _ _ _ u])
qed

section \<open>Operations that add rows\<close>

lemma blank_fields [simp]:
  "us_id (blank_user uid org email name pw role now) = uid" "us_org (blank_user uid org email name pw role now) = org"
  "us_email (blank_user uid org email name pw role now) = email" "us_active (blank_user uid org email name pw role now)"
  "us_role (blank_user uid org email name pw role now) = role"
  "og_id (blank_org oid oname slug) = oid" "og_slug (blank_org oid oname slug) = slug"
  "og_quota (blank_org oid oname slug) = 10" "og_lifecycle (blank_org oid oname slug) = ACTIVE"
  "og_suspended_at (blank_org oid oname slug) = None" "og_suspended_reason (blank_org oid oname slug) = None"
  by (simp_all add: blank_user_def blank_org_def)

lemma active_members_add:
  "users db' = row_add u (users db) \<Longrightarrow> active_members i db' =
     active_members i db + (if us_org u = Some i \<and> us_active u then 1 else 0)"
  by (simp add: active_members_def row_add_def)

lemma active_members_orgs [simp]: "active_members i (db\<lparr>orgs := gs\<rparr>) = active_members i db"
  by (simp add: active_members_def)

lemma insert_user_ok:
  assumes ok: "accounts_ok db" and new: "us_id u \<notin> us_id ` set (users db)"
    and quota: "\<forall>g\<in>set (orgs db). us_org u = Some (og_id g) \<longrightarrow> int (active_members (og_id g) db) < og_quota g"
  shows "accounts_ok (snd (insert_user u db))"
proof (cases "us_email u \<in> us_email ` set (users db) \<or> us_org u \<notin> insert None (Some ` og_id ` set (orgs db))")
  case False
  let ?db = "db\<lparr>users := row_add u (users db)\<rparr>"
  have "int (active_members (og_id g) ?db) \<le> og_quota g" if "g \<in> set (orgs db)" for g
    using ok quota that active_members_add [of ?db u db "og_id g"] by (auto simp: accounts_ok_def quota_kept_def)
  with False ok new have "accounts_ok ?db"
    by (simp add: accounts_ok_def quota_kept_def row_add_def image_Un)
  with False show ?thesis by (simp add: insert_user_def)
qed (use ok in \<open>auto simp: insert_user_def\<close>)

lemma org_by_id:
  assumes "distinct (map og_id gs)" and "row_find og_id i gs = Some g" and "g' \<in> set gs" and "og_id g' = i"
  shows "g' = g"
  using assms row_find_Some [OF assms(2)] by (auto simp: distinct_map dest: inj_onD)

lemma create_user_ok:
  assumes ok: "accounts_ok db" and new: "fresh c 0 \<notin> us_id ` set (users db)"
  shows "accounts_ok (snd (create_user cr c salt org req db))"
proof -
  let ?u = "(blank_user (fresh c 0) org (uc_email req) (uc_full_name req)
                 (pw_hash cr salt (uc_password req)) (uc_role req) (clock c 0))\<lparr>us_must_change := True\<rparr>"
  have u: "us_id ?u = fresh c 0" "us_org ?u = org" by (simp_all add: blank_user_def)
  show ?thesis
  proof (cases "case org of None \<Rightarrow> None | Some i \<Rightarrow> get_org i db")
    case None
    then have "us_org ?u \<noteq> Some (og_id g)" if "g \<in> set (orgs db)" for g
      using that by (auto simp: u get_org_def row_find_None split: option.splits)
    with ok new None show ?thesis by (simp add: create_user_def insert_user_ok u)
  next
    case (Some g)
    then obtain i where i: "org = Some i" "row_find og_id i (orgs db) = Some g"
      by (auto simp: get_org_def split: option.splits)
    have "distinct (map og_id (orgs db))" using ok by (simp add: accounts_ok_def)
    note only = org_by_id [OF this i(2)]
    have gi: "get_org i db = Some g" using i(2) by (simp add: get_org_def)
    show ?thesis
    proof (cases "og_quota g \<le> int (active_members (og_id g) db)")
      case True
      with ok show ?thesis by (simp add: create_user_def Let_def i(1) gi)
    next
      case False
      have "\<forall>g'\<in>set (orgs db). us_org ?u = Some (og_id g') \<longrightarrow> int (active_members (og_id g') db) < og_quota g'"
      proof (intro ballI impI)
        fix g' assume "g' \<in> set (orgs db)" "us_org ?u = Some (og_id g')"
        with only [of g'] have "g' = g" by (simp add: u i(1))
        with False show "int (active_members (og_id g') db) < og_quota g'" by simp
      qed
      from insert_user_ok [OF ok _ this] new False show ?thesis
        by (simp add: create_user_def Let_def i(1) gi u)
    qed
  qed
qed

lemma new_org_ok:
  assumes ok: "accounts_ok db" and new: "og_id g \<notin> og_id ` set (orgs db)" and quota: "0 \<le> og_quota g"
  shows "active_members (og_id g) db = 0" and "accounts_ok (db\<lparr>orgs := row_add g (orgs db)\<rparr>)"
proof -
  have none: "us_org x \<noteq> Some (og_id g)" if "x \<in> set (users db)" for x
  proof
    assume "us_org x = Some (og_id g)"
    with that have "Some (og_id g) \<in> us_org ` set (users db)" by (metis image_eqI)
    with ok have "Some (og_id g) \<in> insert None (Some ` og_id ` set (orgs db))" unfolding accounts_ok_def by blast
    with new show False by auto
  qed
  then show zero: "active_members (og_id g) db = 0"
    by (simp add: active_members_def filter_empty_conv)
  show "accounts_ok (db\<lparr>orgs := row_add g (orgs db)\<rparr>)" using ok new zero quota
    by (auto simp: accounts_ok_def quota_kept_def row_add_def)
qed

lemma register_ok:
  assumes ok: "accounts_ok db" and new: "fresh c 1 \<notin> og_id ` set (orgs db)" "fresh c 2 \<notin> us_id ` set (users db)"
  shows "accounts_ok (snd (register pf cr c sec req db))"
proof -
  let ?g = "blank_org (fresh c 1) (rr_org_name req) (rr_org_slug req)"
  let ?u = "blank_user (fresh c 2) (Some (fresh c 1)) (rr_email req) (rr_full_name req)
             (pw_hash cr (sec 3) (rr_password req)) ADMIN (clock c 1)"
  show ?thesis
  proof (cases "og_slug ?g \<in> og_slug ` set (orgs db)")
    case True
    with ok show ?thesis by (simp add: register_def insert_org_def)
  next
    case False
    let ?d = "db\<lparr>orgs := row_add ?g (orgs db)\<rparr>"
    have gid: "og_id ?g = fresh c 1" "og_quota ?g = 10" by (simp_all add: blank_org_def)
    note fresh_org = new_org_ok [OF ok, of ?g, unfolded gid]
    have zero: "active_members (fresh c 1) ?d = 0" using fresh_org(1) new(1) by simp
    have okd: "accounts_ok ?d" using fresh_org(2) new(1) by simp
    obtain k d2 where k: "ensure_workspace_keyring cr c sec (fresh c 1) ?d = (k, d2)" by fastforce
    have t: "users d2 = users ?d" "orgs d2 = orgs ?d"
      using k by (auto simp: ensure_workspace_keyring_def Let_def split: option.splits if_splits)
    have ok2: "accounts_ok d2" using okd by (intro edits_user_ok [OF okd] edits_same t)
    have same2: "active_members i d2 = active_members i ?d" for i using t by (simp add: active_members_def)
    have "accounts_ok (snd (insert_user ?u d2))"
    proof (rule insert_user_ok [OF ok2])
      show "us_id ?u \<notin> us_id ` set (users d2)" using new(2) t by (simp add: blank_user_def)
      show "\<forall>g\<in>set (orgs d2). us_org ?u = Some (og_id g) \<longrightarrow> int (active_members (og_id g) d2) < og_quota g"
        using new(1) zero by (auto simp: t row_add_def blank_user_def gid same2)
    qed
    moreover have "accounts_ok (append_event pf org a kind entity eid p st d)" if "accounts_ok d"
      for d org a kind entity eid p st
      using that by (intro edits_user_ok [OF that] edits_same) simp_all
    moreover obtain i d3 where i: "insert_user ?u d2 = (i, d3)" by fastforce
    ultimately show ?thesis using False ok2
      by (cases k; cases i) (auto simp: register_def insert_org_def k [unfolded One_nat_def] i [unfolded One_nat_def])
  qed
qed

section \<open>Administrators act inside their organization\<close>

text \<open>What an actor may do to a row: change it when its role ranks below the actor's, or clear the actor's own factors.\<close>

definition factors_cleared :: "user \<Rightarrow> user" where
  "factors_cleared x = x\<lparr>us_passkey_enabled := False, us_totp_enabled := False, us_totp_secret := None,
     us_totp_verified_at := None\<rparr>"

definition within_rank :: "user \<Rightarrow> user \<Rightarrow> user \<Rightarrow> bool" where
  "within_rank actor x x' \<longleftrightarrow> x' = x \<or> can_manage (us_role actor) (us_role x)
     \<or> us_id x = us_id actor \<and> x' = factors_cleared x"

definition inside :: "user \<Rightarrow> 'z auth_db_scheme \<Rightarrow> 'z auth_db_scheme \<Rightarrow> bool" where
  "inside actor db db' \<longleftrightarrow> orgs db' = orgs db \<and>
     (users db' = users db \<or> (\<exists>t t'. visible_target actor (us_id t) db = Some t \<and> us_id t' = us_id t
        \<and> us_org t' = us_org t \<and> (us_role t' = us_role t \<or> role_rank (us_role t') < 2) \<and> within_rank actor t t'
        \<and> users db' = row_put us_id t' (users db)))"

lemma inside_refl [simp]: "inside actor db db"
  by (simp add: inside_def)

lemma visible_target_self: "visible_target actor tid db = Some t \<Longrightarrow> visible_target actor (us_id t) db = Some t"
  using visible_target_in by blast

lemma flush_event_inside:
  assumes "visible_target actor tid db = Some t" "us_id t' = us_id t" "us_org t' = us_org t"
    "us_role t' = us_role t \<or> role_rank (us_role t') < 2" "within_rank actor t t'"
  shows "inside actor db (snd (case flush_user t' db of (Inl err, d) \<Rightarrow> (Inl err, d)
      | (Inr _, d) \<Rightarrow> (case user_event pf org who kind entity eid data st d of
          (Inl err, d) \<Rightarrow> (Inl err, d) | (Inr _, d) \<Rightarrow> (Inr x, d))))"
proof -
  obtain f d where f: "flush_user t' db = (f, d)" by fastforce
  obtain e d' where e: "user_event pf org who kind entity eid data st d = (e, d')" by fastforce
  show ?thesis
  proof (cases f)
    case (Inl err)
    with flush_user_cases [OF f] show ?thesis by (simp add: f)
  next
    case (Inr u)
    with flush_user_cases [OF f] have "d = put_user t' db" by simp
    with user_event_tables [OF e] have "orgs d' = orgs db \<and> users d' = row_put us_id t' (users db)" by simp
    with assms visible_target_self [of actor tid db t] have "inside actor db d'" unfolding inside_def by blast
    then show ?thesis by (cases e) (simp_all add: f Inr e)
  qed
qed

lemma put_event_inside:
  assumes "users d = row_put us_id t' (users db)" "orgs d = orgs db"
    "visible_target actor tid db = Some t" "us_id t' = us_id t" "us_org t' = us_org t"
    "us_role t' = us_role t \<or> role_rank (us_role t') < 2" "within_rank actor t t'"
  shows "inside actor db (snd (case user_event pf org who kind entity eid data st d of
          (Inl err, d) \<Rightarrow> (Inl err, d) | (Inr _, d) \<Rightarrow> (Inr x, d)))"
proof -
  obtain e d' where e: "user_event pf org who kind entity eid data st d = (e, d')" by fastforce
  with user_event_tables [OF e] assms(1,2) have "orgs d' = orgs db \<and> users d' = row_put us_id t' (users db)" by simp
  with assms visible_target_self [of actor tid db t] have "inside actor db d'" unfolding inside_def by blast
  then show ?thesis by (cases e) (simp_all add: e)
qed

lemma admin_ops_inside:
  "inside actor db (snd (admin_delete_user pf c actor tid why db))"
  "inside actor db (snd (admin_reset_password pf cr salt temp actor tid st db))"
  "inside actor db (snd (admin_reset_mfa pf actor tid st db))"
  "inside actor db (snd (admin_deactivate_user pf c actor tid why db))"
  unfolding admin_delete_user_def admin_reset_password_def admin_reset_mfa_def admin_deactivate_user_def Let_def
  by (auto simp: within_rank_def factors_cleared_def split: option.split intro!: flush_event_inside put_event_inside)

lemma role_rank_high: "role_rank r < 2 \<longleftrightarrow> r \<notin> {ADMIN, PLATFORM_ADMIN}"
  by (cases r) simp_all

lemma admin_update_inside:
  assumes "us_role actor \<noteq> PLATFORM_ADMIN"
  shows "inside actor db (snd (admin_update_user pf actor tid req st db))"
proof -
  obtain r db' where run: "admin_update_user pf actor tid req st db = (r, db')" by fastforce
  from admin_update_cases [OF run] show ?thesis
  proof
    assume "users db' = users db \<and> orgs db' = orgs db"
    then show ?thesis by (simp add: run inside_def)
  next
    assume "\<exists>t d. visible_target actor tid db = Some t \<and> can_manage (us_role actor) (us_role t)
       \<and> (uu_role req \<in> {Some ADMIN, Some PLATFORM_ADMIN} \<longrightarrow> us_role actor = PLATFORM_ADMIN)
       \<and> flush_user (updated req t) db = (Inr (), d) \<and> users db' = users d \<and> orgs db' = orgs d"
    then obtain t d where t: "visible_target actor tid db = Some t" "uu_role req \<notin> {Some ADMIN, Some PLATFORM_ADMIN}"
        "can_manage (us_role actor) (us_role t)"
      and f: "flush_user (updated req t) db = (Inr (), d)" and db': "users db' = users d" "orgs db' = orgs d"
      using assms by blast
    from flush_user_cases [OF f] have "d = put_user (updated req t) db" by simp
    with db' have "orgs db' = orgs db" "users db' = row_put us_id (updated req t) (users db)" by simp_all
    moreover have "us_role (updated req t) = us_role t \<or> role_rank (us_role (updated req t)) < 2"
      using t(2) by (auto simp: updated_fields role_rank_high split: option.split)
    moreover have "within_rank actor t (updated req t)" using t(3) by (simp add: within_rank_def)
    ultimately have "inside actor db db'"
      unfolding inside_def using visible_target_self [OF t(1)] updated_fields by blast
    then show ?thesis by (simp add: run)
  qed
qed

text \<open>
  An operation on the account of a member by \<open>actor\<close>, and one by anybody of the organization \<open>i\<close> who is no
  platform administrator.
\<close>

inductive admin_step :: "platform \<Rightarrow> crypto \<Rightarrow> user \<Rightarrow> 'z auth_db_scheme \<Rightarrow> 'z auth_db_scheme \<Rightarrow> bool" for pf cr actor where
  update: "admin_step pf cr actor db (snd (admin_update_user pf actor tid upd st db))"
| delete: "admin_step pf cr actor db (snd (admin_delete_user pf c actor tid why db))"
| reset: "admin_step pf cr actor db (snd (admin_reset_password pf cr salt temp actor tid st db))"
| reset_mfa: "admin_step pf cr actor db (snd (admin_reset_mfa pf actor tid st db))"
| deactivate: "admin_step pf cr actor db (snd (admin_deactivate_user pf c actor tid why db))"

definition step_in :: "platform \<Rightarrow> crypto \<Rightarrow> uuid \<Rightarrow> 'z auth_db_scheme \<Rightarrow> 'z auth_db_scheme \<Rightarrow> bool" where
  "step_in pf cr i db db' \<longleftrightarrow> (\<exists>actor. us_org actor = Some i \<and> us_role actor \<noteq> PLATFORM_ADMIN \<and> admin_step pf cr actor db db')"

lemma admin_step_inside:
  "admin_step pf cr actor db db' \<Longrightarrow> us_role actor \<noteq> PLATFORM_ADMIN \<Longrightarrow> inside actor db db'"
  by (induction rule: admin_step.induct) (auto intro: admin_ops_inside admin_update_inside)

lemma put_within_rank:
  assumes "distinct (map us_id (users db))" "t \<in> set (users db)" "us_id t' = us_id t" "within_rank actor t t'"
  shows "list_all2 (within_rank actor) (users db) (row_put us_id t' (users db))"
  unfolding put_by_id [OF assms(1-3)] list.rel_map
  by (rule list.rel_refl_strong) (use assms(4) in \<open>auto simp: within_rank_def\<close>)

lemma inside_within_rank:
  assumes "inside actor db db'" and "distinct (map us_id (users db))"
  shows "list_all2 (within_rank actor) (users db) (users db')"
proof (cases "users db' = users db")
  case True
  then show ?thesis by (simp add: list.rel_refl within_rank_def)
next
  case False
  with assms(1) obtain t t' where t: "visible_target actor (us_id t) db = Some t" "us_id t' = us_id t"
      "within_rank actor t t'" "users db' = row_put us_id t' (users db)" by (auto simp: inside_def)
  with put_within_rank [OF assms(2) _ t(2,3)] visible_target_in [OF t(1)] show ?thesis by simp
qed

definition untouched :: "uuid \<Rightarrow> 'z auth_db_scheme \<Rightarrow> 'z auth_db_scheme \<Rightarrow> bool" where
  "untouched i db db' \<longleftrightarrow> list_all2 (\<lambda>x x'. us_id x' = us_id x \<and> us_org x' = us_org x
     \<and> (us_org x \<noteq> Some i \<longrightarrow> x' = x) \<and> (2 \<le> role_rank (us_role x') \<longrightarrow> us_role x' = us_role x)) (users db) (users db')"

lemma inside_untouched:
  assumes "inside actor db db'" and "us_org actor = Some i" and "us_role actor \<noteq> PLATFORM_ADMIN"
    and ids: "distinct (map us_id (users db))"
  shows "untouched i db db'"
proof (cases "users db' = users db")
  case True
  then show ?thesis by (simp add: untouched_def list.rel_refl)
next
  case False
  with assms(1) obtain t t' where t: "visible_target actor (us_id t) db = Some t" "us_id t' = us_id t" "us_org t' = us_org t"
      "us_role t' = us_role t \<or> role_rank (us_role t') < 2" and us: "users db' = row_put us_id t' (users db)"
    by (auto simp: inside_def)
  have org: "us_org t = Some i" using t(1) assms(2,3) by (auto simp: visible_target_def split: option.splits if_splits)
  have map: "users db' = map (\<lambda>x. if x = t then t' else x) (users db)"
    using put_by_id [OF ids _ t(2)] visible_target_in [OF t(1)] us by simp
  show ?thesis unfolding untouched_def map list.rel_map
    by (rule list.rel_refl_strong) (use t org in auto)
qed

lemma step_in_untouched:
  "step_in pf cr i db db' \<Longrightarrow> distinct (map us_id (users db)) \<Longrightarrow> untouched i db db'"
  by (auto simp: step_in_def intro: inside_untouched admin_step_inside)

lemma untouched_trans: "untouched i a b \<Longrightarrow> untouched i b c \<Longrightarrow> untouched i a c"
  unfolding untouched_def by (erule (1) list_all2_trans [rotated]) auto

lemma untouched_ids: "untouched i a b \<Longrightarrow> map us_id (users b) = map us_id (users a)"
  unfolding untouched_def by (rule list_eq_iff_nth_eq [THEN iffD2]) (auto simp: list_all2_conv_all_nth)

lemma steps_in_untouched:
  assumes "(step_in pf cr i)\<^sup>*\<^sup>* db db'" and "distinct (map us_id (users db))"
  shows "untouched i db db'"
  using assms(1)
proof (induction rule: rtranclp_induct)
  case base
  show ?case by (simp add: untouched_def list.rel_refl)
next
  case (step y z)
  with untouched_ids [OF step.IH] assms(2) have "untouched i y z" by (intro step_in_untouched) simp_all
  with step.IH show ?case by (rule untouched_trans)
qed

lemma purge_within_rank:
  assumes ids: "distinct (map us_id (users db))"
  shows "list_all2 (\<lambda>x x'. x' = x \<or> role_rank (us_role x) < role_rank (us_role actor) \<or> us_id x = us_id actor)
    (users db) (users (snd (lgpd_purge_user pf cr c salt noise actor tid db)))"
proof (cases "get_user_by_id tid db")
  case (Some t)
  let ?p = "purged pf cr salt noise (clock c 0) t"
  let ?ok = "\<lambda>x x'. x' = x \<or> role_rank (us_role x) < role_rank (us_role actor) \<or> us_id x = us_id actor"
  have same: "list_all2 ?ok (users db) (users db)" by (simp add: list.rel_refl)
  obtain f d where f: "flush_user ?p db = (f, d)" by fastforce
  show ?thesis
  proof (cases "us_id actor = us_id t \<or> can_manage (us_role actor) (us_role t)")
    case True
    have "users db = users d \<or> users d = row_put us_id ?p (users db)" using flush_user_cases [OF f] by auto
    moreover have "list_all2 ?ok (users db) (row_put us_id ?p (users db))"
      unfolding put_by_id [OF ids get_user_by_id_Some [OF Some, THEN conjunct1], of ?p, simplified purged_def, simplified]
        purged_def list.rel_map
      by (rule list.rel_refl_strong) (use True in \<open>auto simp: can_manage_def\<close>)
    ultimately have "list_all2 ?ok (users db) (users d)" using same by auto
    then show ?thesis using True Some same flush_user_cases [OF f]
      by (cases f) (auto simp: lgpd_purge_user_def Let_def f)
  qed (use Some same in \<open>auto simp: lgpd_purge_user_def\<close>)
qed (simp add: lgpd_purge_user_def list.rel_refl)

text \<open>
  C33 (safety): over any sequence of edits, deletions, deactivations, password and factor resets that members of one
  organization issue, none of them a platform administrator, every user of another organization and every user of none
  keeps the very same row, and no user gains an administrator's role. Each such operation changes at most
  rows whose role ranks below the actor's, apart from the actor's own second factors; so does the erasure
  of a person's data, which does not stay inside the organization, but changes the actor's own row as well.
\<close>

theorem administrators_stay_inside:
  assumes "(step_in pf cr i)\<^sup>*\<^sup>* db db1" and "us_org actor = Some i" and "us_role actor \<noteq> PLATFORM_ADMIN"
    and "admin_step pf cr actor db1 db2" and "distinct (map us_id (users db))"
  shows "filter (\<lambda>x. us_org x \<noteq> Some i) (users db2) = filter (\<lambda>x. us_org x \<noteq> Some i) (users db)
    \<and> map us_id (users db2) = map us_id (users db)
    \<and> list_all (\<lambda>(x, x'). us_role x' = us_role x \<or> us_role x' \<notin> {ADMIN, PLATFORM_ADMIN}) (zip (users db) (users db2))
    \<and> list_all2 (\<lambda>x x'. x' = x \<or> role_rank (us_role x) < role_rank (us_role actor)
        \<or> us_id x = us_id actor \<and> x' = factors_cleared x) (users db1) (users db2)
    \<and> list_all2 (\<lambda>x x'. x' = x \<or> role_rank (us_role x) < role_rank (us_role actor) \<or> us_id x = us_id actor)
        (users db1) (users (snd (lgpd_purge_user pf cr c salt noise actor tid db1)))"
proof -
  have one: "untouched i db db1" by (rule steps_in_untouched [OF assms(1,5)])
  have ids: "distinct (map us_id (users db1))" using assms(5) untouched_ids [OF one] by simp
  have "step_in pf cr i db1 db2" using assms(2-4) by (auto simp: step_in_def)
  with ids have "untouched i db1 db2" by (intro step_in_untouched)
  with one have u: "untouched i db db2" by (rule untouched_trans)
  have "filter (\<lambda>x. us_org x \<noteq> Some i) ys = filter (\<lambda>x. us_org x \<noteq> Some i) xs"
    if "list_all2 (\<lambda>x x'. us_id x' = us_id x \<and> us_org x' = us_org x
     \<and> (us_org x \<noteq> Some i \<longrightarrow> x' = x) \<and> (2 \<le> role_rank (us_role x') \<longrightarrow> us_role x' = us_role x)) xs ys" for xs ys
    using that by (induction rule: list_all2_induct) auto
  with u have others: "filter (\<lambda>x. us_org x \<noteq> Some i) (users db2) = filter (\<lambda>x. us_org x \<noteq> Some i) (users db)"
    by (simp add: untouched_def)
  have roles: "list_all (\<lambda>(x, x'). us_role x' = us_role x \<or> us_role x' \<notin> {ADMIN, PLATFORM_ADMIN}) (zip (users db) (users db2))"
    using u by (auto simp: untouched_def list_all_iff list_all2_iff role_rank_high [symmetric] not_less)
  have "list_all2 (within_rank actor) (users db1) (users db2)"
    by (rule inside_within_rank [OF admin_step_inside [OF assms(4,3)] ids])
  then have rank: "list_all2 (\<lambda>x x'. x' = x \<or> role_rank (us_role x) < role_rank (us_role actor)
      \<or> us_id x = us_id actor \<and> x' = factors_cleared x) (users db1) (users db2)"
    by (simp add: within_rank_def [abs_def] can_manage_def)
  from others untouched_ids [OF u] roles rank purge_within_rank [OF ids] show ?thesis by blast
qed

definition toy_admin :: user where
  "toy_admin = blank_user 6 (Some 1) ''a@x'' ''a'' ''hp'' ADMIN 0"

definition toy_two :: auth_db where
  "toy_two = toy_db\<lparr>users := [toy_admin, toy_user, blank_user 7 (Some 2) ''v@y'' ''v'' ''hp'' VIEWER 0],
     orgs := [toy_org, blank_org 2 ''p'' ''p'']\<rparr>"

lemma toy_two_ids: "distinct (map us_id (users toy_two))"
  by (simp add: toy_two_def toy_admin_def)

theorem administrators_stay_inside_witness:
  "map us_active (users (snd (admin_deactivate_user toy_platform toy_call toy_admin 5 ''r'' toy_two))) = [True, False, True]
   \<and> filter (\<lambda>x. us_org x \<noteq> Some 1) (users (snd (admin_deactivate_user toy_platform toy_call toy_admin 5 ''r'' toy_two)))
      = filter (\<lambda>x. us_org x \<noteq> Some 1) (users toy_two)"
proof
  show "map us_active (users (snd (admin_deactivate_user toy_platform toy_call toy_admin 5 ''r'' toy_two))) = [True, False, True]"
    by (simp add: admin_deactivate_user_def visible_target_def get_user_by_id_def row_find_def toy_two_def toy_admin_def
        can_manage_def Let_def user_event_def row_put_def)
  have "admin_step toy_platform toy_crypto toy_admin toy_two (snd (admin_deactivate_user toy_platform toy_call toy_admin 5 ''r'' toy_two))"
    by (rule admin_step.deactivate)
  from administrators_stay_inside [OF rtranclp.rtrancl_refl [of "step_in toy_platform toy_crypto 1"] _ _ this toy_two_ids]
  show "filter (\<lambda>x. us_org x \<noteq> Some 1) (users (snd (admin_deactivate_user toy_platform toy_call toy_admin 5 ''r'' toy_two)))
      = filter (\<lambda>x. us_org x \<noteq> Some 1) (users toy_two)" by (simp add: toy_admin_def)
qed

section \<open>Where the code does not keep to that\<close>

text \<open>
  \<open>lgpd_purge_user\<close> does not look at the organization: an administrator of one
  workspace can irreversibly erase every lower ranked user of any other.
\<close>

theorem purge_crosses_organizations:
  assumes t: "get_user_by_id tid db = Some t" "us_org t = Some j"
    and rank: "us_role actor = ADMIN" "us_role t \<notin> {ADMIN, PLATFORM_ADMIN}" "us_id actor \<noteq> tid"
    and free: "list_all (\<lambda>x. us_email x \<noteq> us_email (purged pf cr salt noise (clock c 0) t)) (users db)"
  shows "fst (lgpd_purge_user pf cr c salt noise actor tid db) = Inr ()
    \<and> map_option us_active (get_user_by_id tid (snd (lgpd_purge_user pf cr c salt noise actor tid db))) = Some False"
proof -
  let ?p = "purged pf cr salt noise (clock c 0) t"
  have id: "us_id t = tid" using get_user_by_id_Some [OF t(1)] by simp
  have p: "us_id ?p = tid" "us_org ?p = Some j" "\<not> us_active ?p" using id t(2) by (simp_all add: purged_def)
  have "can_manage (us_role actor) (us_role t)" using rank(1,2) by (cases "us_role t") (auto simp: can_manage_def)
  moreover have "flush_user ?p db = (Inr (), put_user ?p db)"
    using free by (auto simp: flush_user_def list_ex_iff list_all_iff)
  moreover have "get_user_by_id tid (put_user ?p db) = Some ?p"
    using get_put_user [OF t(1), of ?p tid] p(1) by simp
  ultimately show ?thesis using t rank(3) id p
    by (simp add: lgpd_purge_user_def Let_def user_event_def get_user_by_id_def)
qed

theorem purge_crosses_organizations_witness:
  "us_org toy_admin = Some 1 \<and> map_option us_org (get_user_by_id 7 toy_two) = Some (Some 2)
   \<and> map_option us_active (get_user_by_id 7 (snd (lgpd_purge_user toy_platform toy_crypto toy_call [] ''n'' toy_admin 7 toy_two)))
     = Some False"
proof -
  let ?v = "blank_user 7 (Some 2) ''v@y'' ''v'' ''hp'' VIEWER 0"
  have v: "get_user_by_id 7 toy_two = Some ?v"
    by (simp add: get_user_by_id_def row_find_def toy_two_def toy_admin_def)
  have "\<exists>w. us_email (purged toy_platform toy_crypto [] ''n'' (clock toy_call 0) ?v) = CHR ''d'' # w"
    by (simp add: purged_def anonymize_user_identity_def py_endswith_def ANONYMIZED_EMAIL_DOMAIN_def Let_def blank_user_def)
  then have "list_all (\<lambda>x. us_email x \<noteq> us_email (purged toy_platform toy_crypto [] ''n'' (clock toy_call 0) ?v)) (users toy_two)"
    by (auto simp: toy_two_def toy_admin_def)
  from purge_crosses_organizations [OF v _ _ _ _ this, of 2 toy_admin] v
  show ?thesis by (simp add: toy_admin_def)
qed

text \<open>
  The role of a new member is not checked, so an administrator of a workspace can
  create a platform administrator, who outranks them, while the update of a member refuses the same.
\<close>

theorem admin_creates_platform_admin:
  assumes "us_role actor = ADMIN" and "us_org actor = Some i" and "get_org i db = Some g"
    and "int (active_members i db) < og_quota g" and "uc_role req = PLATFORM_ADMIN"
    and "uc_email req \<notin> us_email ` set (users db)"
  shows "case create_user_route cr c salt actor req db of
      (Inl _, _) \<Rightarrow> False
    | (Inr u, db') \<Rightarrow> us_role u = PLATFORM_ADMIN \<and> u \<in> set (users db') \<and> us_active u
        \<and> can_manage (us_role u) (us_role actor)"
proof -
  have "og_id g = i" "g \<in> set (orgs db)" using assms(3) by (auto simp: get_org_def dest: row_find_Some)
  with assms show ?thesis
    by (auto simp: create_user_route_def require_roles_def create_user_def Let_def insert_user_def row_add_def can_manage_def)
qed

theorem admin_creates_platform_admin_witness:
  "case create_user_route toy_crypto toy_call [] toy_admin
       \<lparr>uc_email = ''n@x'', uc_full_name = ''n'', uc_password = ''p'', uc_role = PLATFORM_ADMIN\<rparr> (toy_db\<lparr>users := [toy_admin]\<rparr>) of
      (Inl _, _) \<Rightarrow> False
    | (Inr u, db') \<Rightarrow> us_role u = PLATFORM_ADMIN \<and> u \<in> set (users db') \<and> us_active u
        \<and> can_manage (us_role u) (us_role toy_admin)"
  by (rule admin_creates_platform_admin [where i = 1 and g = toy_org])
    (simp_all add: toy_admin_def get_org_def row_find_def toy_db_def toy_org_def active_members_def)

section \<open>Deactivation and reset\<close>

lemma row_put_last:
  assumes "key r \<notin> key ` set rs" and "key x = key r"
  shows "row_put key r (rs @ [x]) = rs @ [r]"
proof -
  have "key y \<noteq> key r" if "y \<in> set rs" for y using assms(1) that by (metis image_eqI)
  then have "map (\<lambda>y. if key y = key r then r else y) rs = rs" by (intro map_idI) simp
  with assms(2) show ?thesis by (simp add: row_put_def)
qed

lemma row_find_unique: "distinct (map key rs) \<Longrightarrow> r \<in> set rs \<Longrightarrow> row_find key (key r) rs = Some r"
proof (cases "row_find key (key r) rs")
  case None
  assume "r \<in> set rs"
  with None show ?thesis by (auto simp: row_find_None)
next
  case (Some x)
  assume "distinct (map key rs)" "r \<in> set rs"
  with row_find_Some [OF Some] Some show ?thesis by (auto simp: distinct_map dest: inj_onD)
qed

lemma deactivated:
  assumes run: "admin_deactivate_user pf c actor tid why db = (Inr u, db')"
  shows "get_user_by_id tid db' = Some u" and "\<not> us_active u" and "us_id u = tid"
    and "revoked db' = revoked db" and "\<exists>t. get_user_by_id tid db = Some t \<and> us_email u = us_email t"
proof -
  obtain t where t: "visible_target actor tid db = Some t"
    using run by (cases "visible_target actor tid db") (auto simp: admin_deactivate_user_def)
  then have t': "get_user_by_id tid db = Some t" by (auto simp: visible_target_def split: option.splits if_splits)
  let ?t = "t\<lparr>us_active := False, us_passkey_enabled := False,
       us_deleted_at := (case us_deleted_at t of None \<Rightarrow> Some (clock c 0) | Some d \<Rightarrow> Some d)\<rparr>"
  obtain e d where e: "user_event pf (us_org ?t) (us_id actor) ''auth.user.deactivated'' ''user''
      (uuid_str (us_id ?t)) (target_payload actor ?t @ [(''reason'', PStr why)]) (fresh c 0, clock c 1) (put_user ?t db) = (e, d)"
    by fastforce
  have u: "u = ?t" and db': "db' = d"
    using run by (auto simp: admin_deactivate_user_def t Let_def e [simplified] split: if_splits sum.splits prod.splits)
  have id: "us_id t = tid" using get_user_by_id_Some [OF t'] by simp
  have "get_user_by_id tid (put_user ?t db) = Some ?t" using get_put_user [OF t', of ?t tid] id by simp
  then show "get_user_by_id tid db' = Some u"
    using user_event_tables(1) [OF e] by (simp add: u db' get_user_by_id_def)
  show "\<not> us_active u" "us_id u = tid" by (simp_all add: u id)
  show "revoked db' = revoked db" using user_event_tables(6) [OF e] by (simp add: db')
  show "\<exists>t. get_user_by_id tid db = Some t \<and> us_email u = us_email t" using t' by (simp add: u)
qed

lemma current_user_row:
  assumes "get_current_user cr now bearer cookie db = Inr v"
  shows "get_user_by_id (us_id v) db = Some v \<and> us_active v"
proof -
  obtain p where p: "user_of_payload p db = Inr v"
    using assms by (auto simp: get_current_user_def split: sum.splits)
  then obtain uid u where "get_user_by_id uid db = Some u" "us_active u" "workspace_open u db = Inr v"
    by (auto simp: user_of_payload_def split: sum.splits bool.splits option.splits if_splits)
  moreover from this(3) have "v = u" by (auto simp: workspace_open_def split: if_splits option.splits)
  ultimately show ?thesis using get_user_by_id_Some by metis
qed

text \<open>
  C35 (safety): a deactivated account is out at once. Whatever token a request carries, it does not
  resolve to the account; its refresh tokens buy nothing; and no password logs it in.
\<close>

theorem deactivated_is_locked_out:
  assumes jwt: "jwt_ok cr" and emails: "distinct (map us_email (users db'))"
    and run: "admin_deactivate_user pf c actor tid why db = (Inr u, db')"
  shows "(case get_current_user cr now bearer cookie db' of Inl _ \<Rightarrow> True | Inr v \<Rightarrow> us_id v \<noteq> tid)
    \<and> (case refresh_tokens cr c' (create_refresh_token cr t0 (uuid_str tid)) db' of Inl _ \<Rightarrow> True | Inr _ \<Rightarrow> False)
    \<and> (case fst (login pf cr c' (us_email u) password code db') of Inl _ \<Rightarrow> True | Inr _ \<Rightarrow> False)"
proof (intro conjI)
  note u = deactivated [OF run]
  show "case get_current_user cr now bearer cookie db' of Inl _ \<Rightarrow> True | Inr v \<Rightarrow> us_id v \<noteq> tid"
  proof (cases "get_current_user cr now bearer cookie db'")
    case (Inr v)
    with current_user_row [OF Inr] u(1,2) show ?thesis by auto
  qed simp
  have "decode_token cr (clock c' 0) (create_refresh_token cr t0 (uuid_str tid)) =
      (if seconds (clock c' 0) \<le> cl_exp (refresh_claims cr t0 (uuid_str tid)) then Inr (refresh_claims cr t0 (uuid_str tid))
       else Inl (ValueError ''Invalid token''))"
    using jwt by (simp add: create_refresh_token_def decode_token_def jwt_ok_def seconds_def)
  moreover have "subject_id (refresh_claims cr t0 (uuid_str tid)) = Inr tid"
    by (simp add: subject_id_def refresh_claims_def)
  ultimately show "case refresh_tokens cr c' (create_refresh_token cr t0 (uuid_str tid)) db' of Inl _ \<Rightarrow> True | Inr _ \<Rightarrow> False"
    using u(1,2) by (simp add: refresh_tokens_def)
  have "get_user_by_email (us_email u) db' = Some u"
  proof (cases "get_user_by_email (us_email u) db'")
    case None
    then show ?thesis using get_user_by_id_Some [OF u(1)] by (auto simp: get_user_by_email_def row_find_None)
  next
    case (Some v)
    with get_user_by_email_Some [OF Some] get_user_by_id_Some [OF u(1)] emails have "v = u"
      by (auto simp: distinct_map dest: inj_onD)
    with Some show ?thesis by simp
  qed
  then show "case fst (login pf cr c' (us_email u) password code db') of Inl _ \<Rightarrow> True | Inr _ \<Rightarrow> False"
    using u(2) by (simp add: login_def)
qed

theorem deactivated_is_locked_out_witness:
  "case fst (login toy_platform toy_crypto toy_call ''u@x'' ''p'' None
     (snd (admin_deactivate_user toy_platform toy_call toy_admin 5 ''r'' toy_two))) of Inl _ \<Rightarrow> True | Inr _ \<Rightarrow> False"
proof -
  let ?r = "admin_deactivate_user toy_platform toy_call toy_admin 5 ''r'' toy_two"
  have "\<exists>u. ?r = (Inr u, snd ?r) \<and> us_email u = ''u@x''"
    by (simp add: admin_deactivate_user_def visible_target_def get_user_by_id_def row_find_def toy_two_def toy_admin_def
        can_manage_def Let_def user_event_def)
  then obtain u where u: "?r = (Inr u, snd ?r)" "us_email u = ''u@x''" by blast
  have "distinct (map us_email (users (snd ?r)))"
    by (simp add: admin_deactivate_user_def visible_target_def get_user_by_id_def row_find_def toy_two_def toy_admin_def
        can_manage_def Let_def user_event_def row_put_def)
  from deactivated_is_locked_out [OF toy_jwt this u(1), where c' = toy_call and password = "''p''" and code = None] u(2)
  show ?thesis by simp
qed

text \<open>
  The token mailed for an account changes its password within the hour, to a password
  that verifies, for that account only, and a second use of the token is refused.
\<close>

theorem password_reset_once:
  assumes ok: "accounts_ok db" and pw: "passwords_ok cr"
    and ids: "distinct (map ch_id (challenges db))" "fresh c 0 \<notin> ch_id ` set (challenges db)"
    and u: "get_user_by_email email db = Some u"
    and req: "request_password_reset c token email db = (Inr t, db1)"
    and time: "now \<le> clock c 0 + minutes_us 60"
  shows "case reset_password cr now salt token new db1 of (Inl _, _) \<Rightarrow> False
    | (Inr _, db2) \<Rightarrow>
        users db2 = row_put us_id (u\<lparr>us_password := pw_hash cr salt new\<rparr>) (users db)
        \<and> pw_verify cr new (pw_hash cr salt new)
        \<and> fst (reset_password cr now' salt' token new' db2) = Inl (ValueError ''Invalid or expired reset token'')"
proof -
  let ?ch = "\<lparr>ch_id = fresh c 0, ch_org = us_org u, ch_user = us_id u, ch_text = token,
     ch_purpose = ''password_reset'', ch_expires_at = clock c 0 + minutes_us 60, ch_consumed_at = None\<rparr>"
  let ?done = "?ch\<lparr>ch_consumed_at := Some now\<rparr>"
  have new: "token \<notin> ch_text ` set (challenges db)" and db1: "db1 = db\<lparr>challenges := challenges db @ [?ch]\<rparr>"
    using req by (auto simp: request_password_reset_def u row_add_def split: if_splits)
  have none: "filter (\<lambda>x. ch_text x = token \<and> ch_purpose x = ''password_reset'' \<and> ch_consumed_at x = None) (challenges db) = []"
    using new by (auto simp: filter_empty_conv)
  then have pending: "pending_reset token db1 = [?ch]" by (simp add: pending_reset_def db1)
  have "u \<in> set (users db)" using get_user_by_email_Some [OF u] by simp
  then have by_id: "get_user_by_id (us_id u) db1 = Some u"
    using ok by (auto simp: get_user_by_id_def db1 accounts_ok_def row_find_unique)
  let ?db2 = "(put_user (u\<lparr>us_password := pw_hash cr salt new\<rparr>) db1)
     \<lparr>challenges := row_put ch_id ?done (challenges db1)\<rparr>"
  have "reset_password cr now salt token new db1 = (Inr (), ?db2)"
    using time by (simp add: reset_password_def pending by_id Let_def)
  moreover have "row_put ch_id ?done (challenges db1) = challenges db @ [?done]"
    unfolding db1 using row_put_last [of ch_id ?done "challenges db" ?ch] ids(2) by simp
  then have "pending_reset token ?db2 = []" using none by (simp add: pending_reset_def)
  then have "fst (reset_password cr now' salt' token new' ?db2) = Inl (ValueError ''Invalid or expired reset token'')"
    by (simp add: reset_password_def)
  ultimately show ?thesis using pw by (simp add: passwords_ok_def db1)
qed

theorem password_reset_once_witness:
  "case reset_password toy_crypto 0 [] ''t'' ''q'' (snd (request_password_reset toy_call ''t'' ''u@x'' toy_db)) of
      (Inl _, _) \<Rightarrow> False
    | (Inr _, db2) \<Rightarrow>
        users db2 = row_put us_id (toy_user\<lparr>us_password := pw_hash toy_crypto [] ''q''\<rparr>) (users toy_db)
        \<and> pw_verify toy_crypto ''q'' (pw_hash toy_crypto [] ''q'')
        \<and> fst (reset_password toy_crypto 9 [] ''t'' ''r'' db2) = Inl (ValueError ''Invalid or expired reset token'')"
proof -
  have u: "get_user_by_email ''u@x'' toy_db = Some toy_user"
    by (simp add: get_user_by_email_def row_find_def toy_db_def)
  have req: "request_password_reset toy_call ''t'' ''u@x'' toy_db
      = (Inr ''t'', snd (request_password_reset toy_call ''t'' ''u@x'' toy_db))"
    by (simp add: request_password_reset_def u) (simp add: toy_db_def empty_auth_db_def)
  have "accounts_ok toy_db"
    by (simp add: accounts_ok_def quota_kept_def active_members_def toy_db_def toy_org_def)
  moreover have "challenges toy_db = []" by (simp add: toy_db_def empty_auth_db_def)
  ultimately show ?thesis
    by (intro password_reset_once [OF _ toy_passwords _ _ u req]) (simp_all add: toy_call_def minutes_us_def)
qed

end
