(* ===== verification/WorkspaceLaws.thy ===== *)
theory WorkspaceLaws
  imports Invites AccountLaws
begin

text \<open>
  What workspaces and support access guarantee: the moves along the lifecycle graph, who is locked out by a
  suspension, how far support access reaches, that an invitation admits one person, and that the pages
  of a listing partition it.
\<close>

section \<open>Pages\<close>

lemma page_of_prefix: "1 \<le> p \<Longrightarrow> take ((p - 1) * n) xs @ page_of p n xs = take (p * n) xs"
proof -
  assume "1 \<le> p"
  then have "p * n = (p - 1) * n + n" by (cases p) simp_all
  then show ?thesis by (simp only: page_of_def page_offset_def take_add)
qed

text \<open>
  The first \<open>k\<close> pages of a listing, put together, are its first \<open>k\<close> times page size
  items, none twice and none skipped, and a page says that another follows exactly when items are left.
\<close>

theorem pages_partition:
  assumes "1 \<le> n"
  shows "concat (map (\<lambda>p. page_of p n xs) [1..<k + 1]) = take (k * n) xs
    \<and> (1 \<le> k \<longrightarrow> (has_next (length (page_of k n xs)) (length xs) k n \<longleftrightarrow> drop (k * n) xs \<noteq> []))"
proof
  show "concat (map (\<lambda>p. page_of p n xs) [1..<k + 1]) = take (k * n) xs"
  proof (induction k)
    case (Suc k)
    have "concat (map (\<lambda>p. page_of p n xs) [1..<Suc k + 1]) = take (k * n) xs @ page_of (Suc k) n xs"
      using Suc.IH by simp
    also have "\<dots> = take (Suc k * n) xs" using page_of_prefix [of "Suc k" n xs] by simp
    finally show ?case .
  qed simp
  show "1 \<le> k \<longrightarrow> (has_next (length (page_of k n xs)) (length xs) k n \<longleftrightarrow> drop (k * n) xs \<noteq> [])"
  proof
    assume "1 \<le> k"
    then have kn: "k * n = (k - 1) * n + n" by (cases k) simp_all
    show "has_next (length (page_of k n xs)) (length xs) k n \<longleftrightarrow> drop (k * n) xs \<noteq> []"
      using assms by (auto simp: has_next_def page_of_def page_offset_def kn)
  qed
qed

theorem pages_partition_witness:
  "concat (map (\<lambda>p. page_of p 2 [1, 2, 3 :: nat]) [1..<3]) = [1, 2, 3]
   \<and> \<not> has_next (length (page_of 2 2 [1, 2, 3 :: nat])) (length [1, 2, 3 :: nat]) 2 2"
  using pages_partition [of 2 "[1, 2, 3 :: nat]" 2] by simp

section \<open>Lifecycle\<close>

lemma put_org_frame [simp]:
  "orgs (put_org g db) = row_put og_id g (orgs db)" "users (put_org g db) = users db"
  "revoked (put_org g db) = revoked db"
  by (simp_all add: put_org_def)

lemma org_audit_frame [simp]:
  "orgs (org_audit pf actor org kind data st db) = orgs db" "users (org_audit pf actor org kind data st db) = users db"
  by (simp_all add: org_audit_def)

lemma support_org_audit [simp]: "support (org_audit pf actor org kind data st db) = support db"
  by (simp add: org_audit_def append_event_def Let_def)

lemma get_org_Some: "get_org i db = Some g \<Longrightarrow> g \<in> set (orgs db) \<and> og_id g = i"
  by (auto simp: get_org_def dest: row_find_Some)

text \<open>The edges an administrator of the workspace or of the platform can take.\<close>

definition lifecycle_edge :: "lifecycle_state \<Rightarrow> lifecycle_state \<Rightarrow> bool" where
  "lifecycle_edge a b \<longleftrightarrow> (a, b) \<in> {(ACTIVE, SUSPENDED), (SUSPENDED, ACTIVE), (SUSPENDED, ARCHIVED), (ACTIVE, ARCHIVED)}"

definition org_ok :: "organization \<Rightarrow> bool" where
  "org_ok g \<longleftrightarrow> (case og_lifecycle g of
     ACTIVE \<Rightarrow> og_suspended_at g = None \<and> og_suspended_reason g = None
   | SUSPENDED \<Rightarrow> og_suspended_at g \<noteq> None \<and> og_suspended_reason g \<noteq> None
   | ARCHIVED \<Rightarrow> True)"

text \<open>
  What an action does to one workspace: it takes an edge, or changes the login policy; identifier, address and
  quota stay.
\<close>

definition org_move :: "organization \<Rightarrow> organization \<Rightarrow> bool" where
  "org_move g g' \<longleftrightarrow> og_id g' = og_id g \<and> og_slug g' = og_slug g \<and> og_quota g' = og_quota g
     \<and> (lifecycle_edge (og_lifecycle g) (og_lifecycle g') \<and> org_ok g' \<or> (\<exists>b. g' = g\<lparr>og_passwordless_only := b\<rparr>))"

definition moves_org :: "'z auth_db_scheme \<Rightarrow> 'z auth_db_scheme \<Rightarrow> bool" where
  "moves_org db db' \<longleftrightarrow> users db' = users db \<and> (orgs db' = orgs db
     \<or> (\<exists>g g'. g \<in> set (orgs db) \<and> org_move g g' \<and> orgs db' = row_put og_id g' (orgs db)))"

lemma moves_same: "users db' = users db \<Longrightarrow> orgs db' = orgs db \<Longrightarrow> moves_org db db'"
  by (simp add: moves_org_def)

lemma moves_refl [simp]: "moves_org db db"
  by (simp add: moves_org_def)

lemma moves_put:
  "users db' = users db \<Longrightarrow> orgs db' = row_put og_id g' (orgs db) \<Longrightarrow> g \<in> set (orgs db) \<Longrightarrow> org_move g g' \<Longrightarrow> moves_org db db'"
  unfolding moves_org_def by blast

lemma lifecycle_other: "x \<noteq> ARCHIVED \<Longrightarrow> x \<noteq> SUSPENDED \<Longrightarrow> x = ACTIVE" "x \<noteq> ARCHIVED \<Longrightarrow> x \<noteq> ACTIVE \<Longrightarrow> x = SUSPENDED"
  for x :: lifecycle_state
  by (cases x; simp)+

lemma update_workspace_moves: "moves_org db (snd (update_workspace_status pf c actor org state why db))"
proof (cases "get_org org db")
  case (Some g)
  note g = get_org_Some [OF Some]
  show ?thesis
  proof (cases "state \<in> set (allowed_transitions (og_lifecycle g)) \<and> \<not> (state = SUSPENDED \<and> why \<in> {None, Some []})")
    case True
    then have edge: "lifecycle_edge (og_lifecycle g) state" by (cases "og_lifecycle g") (auto simp: lifecycle_edge_def)
    from True Some g edge show ?thesis
      by (cases "og_lifecycle g")
        (auto simp: update_workspace_status_def Let_def org_ok_def org_move_def
          intro!: moves_put [of _ db _ g] split: sum.split)
  qed (use Some in \<open>auto simp: update_workspace_status_def split: sum.split\<close>)
qed (auto simp: update_workspace_status_def split: sum.split)

lemma force_moves:
  "moves_org db (snd (force_suspend pf c who org txt db))"
  "moves_org db (snd (force_restore pf c who org txt db))"
  "moves_org db (snd (force_archive pf c who org txt db))"
proof -
  have "moves_org db (snd (force_suspend pf c who org txt db)) \<and> moves_org db (snd (force_restore pf c who org txt db))
      \<and> moves_org db (snd (force_archive pf c who org txt db))"
  proof (cases "get_org org db")
    case (Some g)
    note g = get_org_Some [OF Some]
    show ?thesis using Some g
      by (cases "og_lifecycle g")
        (auto simp: force_suspend_def force_restore_def force_archive_def admin_get_org_def Let_def
          lifecycle_edge_def org_ok_def org_move_def intro!: moves_put [of _ db _ g])
  qed (simp add: force_suspend_def force_restore_def force_archive_def admin_get_org_def moves_same)
  then show "moves_org db (snd (force_suspend pf c who org txt db))" "moves_org db (snd (force_restore pf c who org txt db))"
    "moves_org db (snd (force_archive pf c who org txt db))" by blast+
qed

lemma policy_moves: "moves_org db (snd (update_passwordless_policy org enabled db))"
proof (cases "get_org org db")
  case (Some g)
  with get_org_Some [OF Some] show ?thesis
    by (auto simp: update_passwordless_policy_def Let_def org_move_def intro!: moves_put [of _ db _ g])
qed (simp add: update_passwordless_policy_def)

text \<open>
  Every workspace of the first state is found again: an archived one with nothing but its login policy
  changed, a consistent one consistent.
\<close>

definition lifecycle_kept :: "organization \<Rightarrow> organization \<Rightarrow> bool" where
  "lifecycle_kept g g' \<longleftrightarrow> og_id g' = og_id g \<and> (org_ok g \<longrightarrow> org_ok g')
     \<and> (og_lifecycle g = ARCHIVED \<longrightarrow> g' = g\<lparr>og_passwordless_only := og_passwordless_only g'\<rparr>)"

lemma kept_refl [simp]: "lifecycle_kept g g"
  by (simp add: lifecycle_kept_def)

lemma kept_trans: "lifecycle_kept a b \<Longrightarrow> lifecycle_kept b d \<Longrightarrow> lifecycle_kept a d"
  by (cases a; cases b; cases d) (auto simp: lifecycle_kept_def)

lemma org_move_kept: "org_move g g' \<Longrightarrow> lifecycle_kept g g'"
  by (cases "og_lifecycle g") (auto simp: org_move_def lifecycle_kept_def lifecycle_edge_def org_ok_def)

lemma moves_kept:
  assumes "moves_org db db'" and ids: "distinct (map og_id (orgs db))"
  shows "list_all2 lifecycle_kept (orgs db) (orgs db')"
proof (cases "orgs db' = orgs db")
  case True
  then show ?thesis by (simp add: list.rel_refl)
next
  case False
  with assms(1) obtain g g' where g: "g \<in> set (orgs db)" "org_move g g'" and db': "orgs db' = row_put og_id g' (orgs db)"
    by (auto simp: moves_org_def)
  have only: "x = g" if "x \<in> set (orgs db)" "og_id x = og_id g'" for x
    using that g ids by (auto simp: org_move_def distinct_map dest: inj_onD)
  have "lifecycle_kept x (if og_id x = og_id g' then g' else x)" if "x \<in> set (orgs db)" for x
    using only [OF that] org_move_kept [OF g(2)] by auto
  then show ?thesis unfolding db' row_put_def list.rel_map by (intro list.rel_refl_strong)
qed

lemma workspace_open_user: "workspace_open u db = Inr v \<Longrightarrow> v = u \<and> (us_role u = PLATFORM_ADMIN \<or>
    (case us_org u of None \<Rightarrow> True | Some i \<Rightarrow> case get_org i db of None \<Rightarrow> True | Some g \<Rightarrow> og_lifecycle g = ACTIVE))"
  by (auto simp: workspace_open_def split: if_splits option.splits)

lemma current_user_open:
  assumes "get_current_user cr now bearer cookie db = Inr v"
  shows "us_role v = PLATFORM_ADMIN \<or>
    (case us_org v of None \<Rightarrow> True | Some i \<Rightarrow> case get_org i db of None \<Rightarrow> True | Some g \<Rightarrow> og_lifecycle g = ACTIVE)"
proof -
  obtain p where "user_of_payload p db = Inr v"
    using assms by (auto simp: get_current_user_def split: sum.splits)
  then obtain u where "workspace_open u db = Inr v"
    by (auto simp: user_of_payload_def split: sum.splits bool.splits option.splits if_splits)
  from workspace_open_user [OF this] show ?thesis by auto
qed

text \<open>
  The graph lets an administrator reactivate or archive a suspended workspace, but
  a suspension locks out everybody in it, the administrator who ordered it included: afterwards no request
  of a user of the workspace who is no platform administrator passes the login, so the route never takes
  those edges for them.
\<close>

theorem suspension_locks_out_its_administrator:
  assumes "update_workspace_status pf c actor org SUSPENDED why db = (Inr g, db')"
  shows "(case get_current_user cr now bearer cookie db' of Inl _ \<Rightarrow> True
      | Inr v \<Rightarrow> us_role v = PLATFORM_ADMIN \<or> us_org v \<noteq> Some org)
    \<and> (case update_workspace_route pf cr c' now bearer cookie org state why' db' of (Inl _, d) \<Rightarrow> d = db'
      | (Inr _, _) \<Rightarrow> (case get_current_user cr now bearer cookie db' of Inl _ \<Rightarrow> False
          | Inr v \<Rightarrow> us_role v = PLATFORM_ADMIN \<and> us_org v = Some org))"
proof -
  obtain h where h: "get_org org db = Some h"
    using assms by (cases "get_org org db") (auto simp: update_workspace_status_def split: sum.splits)
  have id: "og_id h = org" using get_org_Some [OF h] by simp
  let ?g = "h\<lparr>og_suspended_at := Some (clock c 0), og_suspended_reason := why, og_lifecycle := SUSPENDED\<rparr>"
  have "orgs db' = row_put og_id ?g (orgs db)"
    using assms h by (auto simp: update_workspace_status_def Let_def split: sum.splits if_splits)
  then have susp: "get_org org db' = Some ?g"
    using h id by (simp add: get_org_def org_rows.lookup_put)
  have out: "us_role v = PLATFORM_ADMIN \<or> us_org v \<noteq> Some org" if "get_current_user cr now bearer cookie db' = Inr v" for v
    using current_user_open [OF that] susp by auto
  have own: "fst (update_workspace_status pf c' v org state why' db') = Inr g' \<Longrightarrow> us_org v = Some org" for v g'
    using susp id by (auto simp: update_workspace_status_def split: sum.splits if_splits)
  have same: "update_workspace_status pf c' v org state why' db' = (Inl e, d) \<Longrightarrow> d = db'" for v e d
    by (auto simp: update_workspace_status_def Let_def split: sum.splits option.splits if_splits)
  show ?thesis
  proof (cases "get_current_user cr now bearer cookie db'")
    case (Inr v)
    obtain r d where r: "update_workspace_status pf c' v org state why' db' = (r, d)" by fastforce
    then show ?thesis using out [OF Inr] own [of v] same [of v]
      by (cases r) (auto simp: update_workspace_route_def Inr)
  qed (simp add: update_workspace_route_def)
qed

theorem suspension_locks_out_its_administrator_witness:
  "case update_workspace_route toy_platform toy_crypto toy_call 0 None None 1 ACTIVE None
     (snd (update_workspace_status toy_platform toy_call toy_admin 1 SUSPENDED (Some ''r'') toy_two)) of
     (Inl _, d) \<Rightarrow> d = snd (update_workspace_status toy_platform toy_call toy_admin 1 SUSPENDED (Some ''r'') toy_two)
   | (Inr _, _) \<Rightarrow> False"
proof -
  let ?r = "update_workspace_status toy_platform toy_call toy_admin 1 SUSPENDED (Some ''r'') toy_two"
  have "\<exists>g. ?r = (Inr g, snd ?r)"
    by (simp add: update_workspace_status_def toy_admin_def require_roles_def toy_two_def get_org_def row_find_def
        toy_org_def Let_def)
  then obtain g where "?r = (Inr g, snd ?r)" by blast
  from suspension_locks_out_its_administrator [OF this, where cr = toy_crypto and now = 0 and bearer = None
      and cookie = None and c' = toy_call and state = ACTIVE and why' = None]
  show ?thesis by (simp add: get_current_user_def get_token_payload_def split: prod.splits sum.splits)
qed

end
