(* ===== verification/Webauthn.thy ===== *)
theory Webauthn
  imports Mfa
begin

text \<open>
  The wire formats of passkeys in \<open>AuthService\<close>: base64 for URLs as Python's \<open>binascii\<close> reads it, the
  CBOR subset of \<open>_read_cbor\<close>, and the fixed part of the authenticator data. Bytes are lists of
  characters, as everywhere.
\<close>

section \<open>Base64\<close>

definition b64_alphabet :: string where
  "b64_alphabet = ''ABCDEFGHIJKLMNOPQRSTUVWXYZabcdefghijklmnopqrstuvwxyz0123456789-_''"

definition b64_char :: "nat \<Rightarrow> char" where
  "b64_char n = b64_alphabet ! n"

text \<open>\<open>urlsafe_b64decode\<close> first maps the two characters of the URL alphabet to the standard one.\<close>

definition b64_val :: "char \<Rightarrow> nat option" where
  "b64_val ch = (let n = of_char ch :: nat in
     if 65 \<le> n \<and> n \<le> 90 then Some (n - 65) else if 97 \<le> n \<and> n \<le> 122 then Some (n - 71)
     else if 48 \<le> n \<and> n \<le> 57 then Some (n + 4) else if n = 43 \<or> n = 45 then Some 62
     else if n = 47 \<or> n = 95 then Some 63 else None)"

definition cons_ok :: "'a \<Rightarrow> 'a list result \<Rightarrow> 'a list result" where
  "cons_ok b r = (case r of Inl err \<Rightarrow> Inl err | Inr bs \<Rightarrow> Inr (b # bs))"

text \<open>
  \<open>binascii.a2b_base64\<close> in its lenient mode: the position in the group of four, the pads seen, and the
  bits left over. Other characters are skipped; enough padding ends the text.
\<close>

fun a2b :: "nat \<Rightarrow> nat \<Rightarrow> nat \<Rightarrow> string \<Rightarrow> string result" where
  "a2b quad pads left [] =
     (if quad = 0 then Inr []
      else if quad = 1 then Inl (ValueError ''Invalid base64-encoded string'')
      else Inl (ValueError ''Incorrect padding''))"
| "a2b quad pads left (ch # s) =
     (if ch = CHR ''=''
      then (if 2 \<le> quad then (if 4 \<le> quad + pads + 1 then Inr [] else a2b quad (pads + 1) left s)
            else a2b quad pads left s)
      else case b64_val ch of
        None \<Rightarrow> a2b quad pads left s
      | Some v \<Rightarrow>
          if quad = 0 then a2b 1 0 v s
          else if quad = 1 then cons_ok (char_of (left * 4 + v div 16)) (a2b 2 0 (v mod 16) s)
          else if quad = 2 then cons_ok (char_of (left * 16 + v div 4)) (a2b 3 0 (v mod 4) s)
          else cons_ok (char_of (left * 64 + v)) (a2b 0 0 0 s))"

definition is_ascii :: "string \<Rightarrow> bool" where
  "is_ascii s \<longleftrightarrow> list_all (\<lambda>ch. of_char ch < (128 :: nat)) s"

definition b64url_decode :: "string \<Rightarrow> string result" where
  "b64url_decode raw =
     (if \<not> is_ascii raw then Inl (ValueError ''string argument should contain only ASCII characters'')
      else a2b 0 0 0 (raw @ replicate ((4 - length raw mod 4) mod 4) (CHR ''='')))"

fun b64url_encode :: "string \<Rightarrow> string" where
  "b64url_encode [] = []"
| "b64url_encode [a] =
     (let m = of_char a :: nat in [b64_char (m div 4), b64_char (m mod 4 * 16)])"
| "b64url_encode [a, b] =
     (let m = of_char a :: nat; n = of_char b in
      [b64_char (m div 4), b64_char (m mod 4 * 16 + n div 16), b64_char (n mod 16 * 4)])"
| "b64url_encode (a # b # c # s) =
     (let m = of_char a :: nat; n = of_char b; k = of_char c in
      b64_char (m div 4) # b64_char (m mod 4 * 16 + n div 16) # b64_char (n mod 16 * 4 + k div 64)
        # b64_char (k mod 64) # b64url_encode s)"

section \<open>UTF-8\<close>

text \<open>What \<open>bytes.decode("utf-8")\<close> accepts: no overlong forms, no surrogates, nothing above U+10FFFF.\<close>

definition cont :: "char \<Rightarrow> bool" where
  "cont ch \<longleftrightarrow> (let n = of_char ch :: nat in 128 \<le> n \<and> n \<le> 191)"

fun utf8_ok :: "string \<Rightarrow> bool" where
  "utf8_ok [] = True"
| "utf8_ok (a # s) =
     (let m = of_char a :: nat in
      if m < 128 then utf8_ok s
      else if 194 \<le> m \<and> m \<le> 223 then (case s of b # s' \<Rightarrow> cont b \<and> utf8_ok s' | _ \<Rightarrow> False)
      else if 224 \<le> m \<and> m \<le> 239 then
        (case s of b # c # s' \<Rightarrow> cont b \<and> cont c \<and> (m = 224 \<longrightarrow> 160 \<le> (of_char b :: nat))
           \<and> (m = 237 \<longrightarrow> of_char b \<le> (159 :: nat)) \<and> utf8_ok s' | _ \<Rightarrow> False)
      else if 240 \<le> m \<and> m \<le> 244 then
        (case s of b # c # d # s' \<Rightarrow> cont b \<and> cont c \<and> cont d \<and> (m = 240 \<longrightarrow> 144 \<le> (of_char b :: nat))
           \<and> (m = 244 \<longrightarrow> of_char b \<le> (143 :: nat)) \<and> utf8_ok s' | _ \<Rightarrow> False)
      else False)"

definition utf8_decode :: "string \<Rightarrow> string result" where
  "utf8_decode bs = (if utf8_ok bs then Inr bs else Inl (ValueError ''invalid UTF-8''))"

section \<open>CBOR\<close>

datatype cbor =
    CInt int
  | CBytes string
  | CText string
  | CList "cbor list"
  | CMap "(cbor \<times> cbor) list"
  | CBool bool
  | CNull

text \<open>
  Dictionary keys: \<open>True == 1\<close> and \<open>False == 0\<close> in Python, lists and dictionaries are no keys. Assigning
  to a key that is present keeps its place and its first spelling.
\<close>

definition key_norm :: "cbor \<Rightarrow> cbor" where
  "key_norm k = (case k of CBool b \<Rightarrow> CInt (of_bool b) | _ \<Rightarrow> k)"

definition hashable :: "cbor \<Rightarrow> bool" where
  "hashable k = (case k of CList _ \<Rightarrow> False | CMap _ \<Rightarrow> False | _ \<Rightarrow> True)"

definition dict_set :: "cbor \<Rightarrow> cbor \<Rightarrow> (cbor \<times> cbor) list \<Rightarrow> (cbor \<times> cbor) list" where
  "dict_set k v kvs =
     (if list_ex (\<lambda>(k', _). key_norm k' = key_norm k) kvs
      then map (\<lambda>(k', v'). if key_norm k' = key_norm k then (k', v) else (k', v')) kvs
      else kvs @ [(k, v)])"

definition cbor_get :: "string \<Rightarrow> (cbor \<times> cbor) list \<Rightarrow> cbor" where
  "cbor_get k kvs = (case map_of kvs (CText k) of None \<Rightarrow> CNull | Some v \<Rightarrow> v)"

definition sub_bytes :: "string \<Rightarrow> nat \<Rightarrow> nat \<Rightarrow> string" where
  "sub_bytes data i n = take n (drop i data)"

definition read_len :: "nat \<Rightarrow> string \<Rightarrow> nat \<Rightarrow> (nat \<times> nat) result" where
  "read_len addl data offset =
     (if addl < 24 then Inr (addl, offset)
      else if addl = 24
      then (if length data \<le> offset then Inl IndexError else Inr (of_char (data ! offset), offset + 1))
      else if addl = 25 then Inr (be_value (sub_bytes data offset 2), offset + 2)
      else if addl = 26 then Inr (be_value (sub_bytes data offset 4), offset + 4)
      else if addl = 27 then Inr (be_value (sub_bytes data offset 8), offset + 8)
      else Inl (ValueError ''Unsupported CBOR additional info''))"

text \<open>The two loops, over the reader \<open>f\<close> of one item.\<close>

fun read_items :: "(nat \<Rightarrow> (cbor \<times> nat) result) \<Rightarrow> nat \<Rightarrow> nat \<Rightarrow> (cbor list \<times> nat) result" where
  "read_items f 0 offset = Inr ([], offset)"
| "read_items f (Suc n) offset =
     (case f offset of
        Inl err \<Rightarrow> Inl err
      | Inr (v, offset) \<Rightarrow>
          (case read_items f n offset of Inl err \<Rightarrow> Inl err | Inr (vs, offset) \<Rightarrow> Inr (v # vs, offset)))"

fun read_pairs ::
  "(nat \<Rightarrow> (cbor \<times> nat) result) \<Rightarrow> nat \<Rightarrow> nat \<Rightarrow> (cbor \<times> cbor) list \<Rightarrow> ((cbor \<times> cbor) list \<times> nat) result" where
  "read_pairs f 0 offset obj = Inr (obj, offset)"
| "read_pairs f (Suc n) offset obj =
     (case f offset of
        Inl err \<Rightarrow> Inl err
      | Inr (k, offset) \<Rightarrow>
          (case f offset of
             Inl err \<Rightarrow> Inl err
           | Inr (v, offset) \<Rightarrow>
               if \<not> hashable k then Inl (TypeError ''unhashable type'')
               else read_pairs f n offset (dict_set k v obj)))"

text \<open>The six types with a length, after their head, over the reader \<open>f\<close> of nested items.\<close>

definition read_body ::
  "(nat \<Rightarrow> (cbor \<times> nat) result) \<Rightarrow> string \<Rightarrow> nat \<Rightarrow> nat \<Rightarrow> nat \<Rightarrow> (cbor \<times> nat) result" where
  "read_body f data major len offset =
     (if major = 0 then Inr (CInt (int len), offset)
      else if major = 1 then Inr (CInt (- 1 - int len), offset)
      else if major = 2 then Inr (CBytes (sub_bytes data offset len), offset + len)
      else if major = 3
      then (case utf8_decode (sub_bytes data offset len) of
          Inl err \<Rightarrow> Inl err | Inr s \<Rightarrow> Inr (CText s, offset + len))
      else if major = 4
      then (case read_items f len offset of Inl err \<Rightarrow> Inl err | Inr (vs, offset) \<Rightarrow> Inr (CList vs, offset))
      else (case read_pairs f len offset [] of Inl err \<Rightarrow> Inl err | Inr (kvs, offset) \<Rightarrow> Inr (CMap kvs, offset)))"

text \<open>
  The reader. Its first argument is what is left of the interpreter's stack, counted in calls of the
  reader: a call without room raises \<open>RecursionError\<close>.
\<close>

fun read_cbor :: "nat \<Rightarrow> string \<Rightarrow> nat \<Rightarrow> (cbor \<times> nat) result" where
  "read_cbor 0 data offset = Inl RecursionError"
| "read_cbor (Suc depth) data offset =
     (if length data \<le> offset then Inl (ValueError ''Malformed CBOR attestation object'')
      else
        let initial = of_char (data ! offset) :: nat; major = initial div 32; addl = initial mod 32
        in if major < 6
           then (case read_len addl data (offset + 1) of
               Inl err \<Rightarrow> Inl err | Inr (len, offset) \<Rightarrow> read_body (read_cbor depth data) data major len offset)
           else if major = 7 \<and> addl = 20 then Inr (CBool False, offset + 1)
           else if major = 7 \<and> addl = 21 then Inr (CBool True, offset + 1)
           else if major = 7 \<and> addl = 22 then Inr (CNull, offset + 1)
           else Inl (ValueError ''Unsupported CBOR type in attestation object''))"

definition parse_attestation_object :: "nat \<Rightarrow> string \<Rightarrow> (cbor \<times> cbor) list result" where
  "parse_attestation_object depth attestation_object =
     (case b64url_decode attestation_object of
        Inl err \<Rightarrow> Inl err
      | Inr raw \<Rightarrow>
          (case read_cbor depth raw 0 of
             Inl err \<Rightarrow> Inl err
           | Inr (obj, offset) \<Rightarrow>
               if offset \<noteq> length raw then Inl (ValueError ''Invalid trailing bytes in attestation object'')
               else (case obj of CMap kvs \<Rightarrow> Inr kvs
                     | _ \<Rightarrow> Inl (ValueError ''Invalid attestation object payload''))))"

section \<open>Authenticator data\<close>

text \<open>The hash of the relying party, the flags and the signature counter.\<close>

definition parse_authenticator_data :: "string \<Rightarrow> (string \<times> nat \<times> nat) result" where
  "parse_authenticator_data authenticator_data =
     (case b64url_decode authenticator_data of
        Inl err \<Rightarrow> Inl err
      | Inr raw \<Rightarrow>
          if length raw < 37 then Inl (ValueError ''Invalid authenticatorData'')
          else Inr (b64url_encode (take 32 raw), of_char (raw ! 32), be_value (sub_bytes raw 33 4)))"

end
