(* ===== verification/Passkeys.thy ===== *)
theory Passkeys
  imports Webauthn Accounts
begin

text \<open>
  Passkeys of \<open>AuthService\<close>: challenges, registration with the attestation of the authenticator, login
  with a signed assertion, listing and revocation. What the cryptography library and the JSON reader do
  is a record of functions; the JSON text a credential's key is stored as is represented by its value.
\<close>

section \<open>External operations and settings\<close>

datatype cert_key = EC_key string | RSA_key string | Other_key

text \<open>
  \<open>wa_load_cert\<close> reads a DER certificate, \<open>wa_verify_cert key signature data\<close> is \<open>verify\<close> of its public key,
  \<open>wa_on_curve\<close> and \<open>wa_ecdsa x y signature data\<close> are the P-256 key of two coordinates and its \<open>verify\<close>.
\<close>

record webauthn_env =
  wa_json_loads :: "string \<Rightarrow> json option"
  wa_load_cert :: "string \<Rightarrow> cert_key option"
  wa_verify_cert :: "cert_key \<Rightarrow> string \<Rightarrow> string \<Rightarrow> bool"
  wa_on_curve :: "nat \<Rightarrow> nat \<Rightarrow> bool"
  wa_ecdsa :: "nat \<Rightarrow> nat \<Rightarrow> string \<Rightarrow> string \<Rightarrow> bool"
  wa_depth :: nat
  wa_rp_id :: string
  wa_origins :: "string list"
  wa_frontend_url :: string

definition res_bind :: "'a result \<Rightarrow> ('a \<Rightarrow> 'b result) \<Rightarrow> 'b result" where
  "res_bind r f = (case r of Inl err \<Rightarrow> Inl err | Inr x \<Rightarrow> f x)"

text \<open>\<open>if not ...: raise ValueError(...)\<close>.\<close>

definition require :: "bool \<Rightarrow> string \<Rightarrow> unit result" where
  "require b msg = (if b then Inr () else Inl (ValueError msg))"

definition sha256_bytes :: "platform \<Rightarrow> string \<Rightarrow> string" where
  "sha256_bytes pf s = be_bytes 32 (unat (sha256 pf s))"

section \<open>Client data\<close>

definition parse_client_data :: "webauthn_env \<Rightarrow> string \<Rightarrow> (json \<times> string) result" where
  "parse_client_data env client_data =
     res_bind (b64url_decode client_data) (\<lambda>decoded.
     res_bind (utf8_decode decoded) (\<lambda>t.
       case wa_json_loads env t of
         None \<Rightarrow> Inl (ValueError ''invalid JSON'') | Some j \<Rightarrow> Inr (j, decoded)))"

text \<open>\<open>.get(k, d)\<close> of a value that should be a dictionary.\<close>

definition json_get :: "string \<Rightarrow> json \<Rightarrow> json \<Rightarrow> json result" where
  "json_get k d j =
     (case j of JDict kvs \<Rightarrow> Inr (case map_of kvs k of None \<Rightarrow> d | Some v \<Rightarrow> v)
      | _ \<Rightarrow> Inl (AttributeError ''get''))"

definition origin_allowed :: "webauthn_env \<Rightarrow> json \<Rightarrow> bool result" where
  "origin_allowed env origin =
     (case origin of
        JStr s \<Rightarrow> Inr (s \<in> set (wa_origins env @ [wa_frontend_url env]))
      | JList _ \<Rightarrow> Inl (TypeError ''unhashable type'')
      | JDict _ \<Rightarrow> Inl (TypeError ''unhashable type'')
      | _ \<Rightarrow> Inr False)"

text \<open>The checks on the client data, of a registration or of a login; the origin is returned.\<close>

definition check_client_data :: "webauthn_env \<Rightarrow> bool \<Rightarrow> string \<Rightarrow> string \<Rightarrow> json result" where
  "check_client_data env registration challenge client_data =
     res_bind (parse_client_data env client_data) (\<lambda>(j, _).
     res_bind (json_get ''type'' JNull j) (\<lambda>ty.
     res_bind (require (ty = JStr (if registration then ''webauthn.create'' else ''webauthn.get''))
       (if registration then ''Invalid registration clientData type'' else ''Invalid login clientData type'')) (\<lambda>_.
     res_bind (json_get ''challenge'' JNull j) (\<lambda>ch.
     res_bind (require (ch = JStr challenge)
       (if registration then ''Registration challenge mismatch'' else ''Login challenge mismatch'')) (\<lambda>_.
     res_bind (json_get ''origin'' (JStr []) j) (\<lambda>origin.
     res_bind (origin_allowed env origin) (\<lambda>ok.
     res_bind (require ok
       (if registration then ''Registration origin not allowed'' else ''Login origin not allowed'')) (\<lambda>_.
       Inr origin))))))))"

section \<open>Attestation\<close>

definition verify_packed ::
  "platform \<Rightarrow> webauthn_env \<Rightarrow> (cbor \<times> cbor) list \<Rightarrow> string \<Rightarrow> string \<Rightarrow> unit result" where
  "verify_packed pf env att_stmt auth_data client_data =
     (case (cbor_get ''sig'' att_stmt, cbor_get ''alg'' att_stmt, cbor_get ''x5c'' att_stmt) of
        (CBytes sig, CInt alg, CList (cert_der # _)) \<Rightarrow>
          if alg \<noteq> - 7 then Inl (ValueError ''Unsupported packed attestation format'')
          else (case cert_der of
            CBytes der \<Rightarrow>
              (case wa_load_cert env der of
                 None \<Rightarrow> Inl (ValueError ''error parsing asn1 value'')
               | Some pub \<Rightarrow>
                   res_bind (parse_client_data env client_data) (\<lambda>(_, raw).
                   res_bind (require (pub \<noteq> Other_key) ''Unsupported attestation public key type'') (\<lambda>_.
                     require (wa_verify_cert env pub sig (auth_data @ sha256_bytes pf raw))
                       ''Invalid packed attestation signature'')))
          | _ \<Rightarrow> Inl (ValueError ''Invalid packed attestation certificate''))
      | _ \<Rightarrow> Inl (ValueError ''Unsupported packed attestation format''))"

definition verify_registration_attestation ::
  "platform \<Rightarrow> webauthn_env \<Rightarrow> string \<Rightarrow> string \<Rightarrow> string \<Rightarrow> unit result" where
  "verify_registration_attestation pf env attestation_object authenticator_data client_data =
     res_bind (parse_attestation_object (wa_depth env) attestation_object) (\<lambda>parsed.
       case (cbor_get ''fmt'' parsed, cbor_get ''authData'' parsed, cbor_get ''attStmt'' parsed) of
         (CText fmt, CBytes auth_data, CMap att_stmt) \<Rightarrow>
           res_bind (b64url_decode authenticator_data) (\<lambda>expected_auth_data.
           res_bind (require (auth_data = expected_auth_data) ''Attestation authData mismatch'') (\<lambda>_.
             if fmt = ''none'' then require (att_stmt = []) ''Invalid none attestation statement''
             else if fmt = ''packed'' then verify_packed pf env att_stmt expected_auth_data client_data
             else Inl (ValueError (''Unsupported attestation format: '' @ fmt))))
       | _ \<Rightarrow> Inl (ValueError ''Malformed attestation object''))"

section \<open>Assertion\<close>

definition jwk_coordinate :: "string \<Rightarrow> json \<Rightarrow> nat result" where
  "jwk_coordinate k jwk =
     (case jwk of
        JDict kvs \<Rightarrow> (case map_of kvs k of
            None \<Rightarrow> Inl (KeyError k)
          | Some (JStr s) \<Rightarrow> res_bind (b64url_decode s) (\<lambda>bs. Inr (be_value bs))
          | Some _ \<Rightarrow> Inl (TypeError ''can only concatenate str''))
      | _ \<Rightarrow> Inl (TypeError ''string indices''))"

definition verify_assertion_signature ::
  "platform \<Rightarrow> webauthn_env \<Rightarrow> json \<Rightarrow> string \<Rightarrow> string \<Rightarrow> string \<Rightarrow> unit result" where
  "verify_assertion_signature pf env jwk authenticator_data client_data signature =
     res_bind (json_get ''kty'' JNull jwk) (\<lambda>kty.
     res_bind (require (kty = JStr ''EC'') ''Unsupported passkey key type'') (\<lambda>_.
     res_bind (json_get ''crv'' JNull jwk) (\<lambda>crv.
     res_bind (require (crv = JStr ''P-256'') ''Unsupported passkey key type'') (\<lambda>_.
     res_bind (jwk_coordinate ''x'' jwk) (\<lambda>x.
     res_bind (jwk_coordinate ''y'' jwk) (\<lambda>y.
     res_bind (require (wa_on_curve env x y) ''Invalid EC key'') (\<lambda>_.
     res_bind (b64url_decode authenticator_data) (\<lambda>auth_data.
     res_bind (parse_client_data env client_data) (\<lambda>(_, raw).
     res_bind (b64url_decode signature) (\<lambda>sig.
       require (wa_ecdsa env x y sig (auth_data @ sha256_bytes pf raw)) ''Invalid passkey signature''))))))))))"

text \<open>The authenticator data: the hash of the relying party and the flags; the counter is returned.\<close>

definition check_authenticator_data ::
  "platform \<Rightarrow> webauthn_env \<Rightarrow> bool \<Rightarrow> string \<Rightarrow> nat result" where
  "check_authenticator_data pf env registration authenticator_data =
     res_bind (parse_authenticator_data authenticator_data) (\<lambda>(rp_id_hash, flags, sign_count).
     res_bind (require (rp_id_hash = b64url_encode (sha256_bytes pf (wa_rp_id env))) 
       (if registration then ''Registration RP ID hash mismatch'' else ''RP ID hash mismatch'')) (\<lambda>_.
     res_bind (require (odd flags)
       (if registration then ''User presence flag missing in registration authenticator data''
        else ''User presence flag missing in authenticator data'')) (\<lambda>_.
     res_bind (require (registration \<longrightarrow> odd (flags div 64))
       ''Attested credential data flag missing in registration authenticator data'') (\<lambda>_.
       Inr sign_count))))"

definition check_credential_id :: "string \<Rightarrow> string \<Rightarrow> unit result" where
  "check_credential_id authenticator_data credential_id =
     res_bind (b64url_decode authenticator_data) (\<lambda>raw.
     res_bind (require (55 \<le> length raw) ''Registration authenticator data too short'') (\<lambda>_.
       let n = be_value (sub_bytes raw 53 2)
       in res_bind (require (55 + n \<le> length raw) ''Registration authenticator credential id is truncated'') (\<lambda>_.
            require (b64url_encode (sub_bytes raw 55 n) = credential_id)
              ''Credential ID mismatch against authenticator data'')))"

section \<open>Challenges\<close>

definition create_challenge ::
  "call \<Rightarrow> string \<Rightarrow> user \<Rightarrow> string \<Rightarrow> ('z auth_db_scheme, string) svc" where
  "create_challenge c token u purpose db =
     (if us_org u = None then (Inl (IntegrityError ''auth_challenges.org_id''), db)
      else if token \<in> ch_text ` set (challenges db) then (Inl (IntegrityError ''auth_challenges.challenge''), db)
      else (Inr token, db\<lparr>challenges := row_add
              \<lparr>ch_id = fresh c 0, ch_org = us_org u, ch_user = us_id u, ch_text = token, ch_purpose = purpose,
               ch_expires_at = clock c 0 + minutes_us 5, ch_consumed_at = None\<rparr> (challenges db)\<rparr>))"

definition challenge_rows :: "user \<Rightarrow> string \<Rightarrow> string \<Rightarrow> 'z auth_db_scheme \<Rightarrow> challenge list" where
  "challenge_rows u token purpose db =
     filter (\<lambda>x. ch_org x = us_org u \<and> ch_user x = us_id u \<and> ch_text x = token \<and> ch_purpose x = purpose)
       (challenges db)"

definition consume_challenge ::
  "instant \<Rightarrow> user \<Rightarrow> string \<Rightarrow> string \<Rightarrow> ('z auth_db_scheme, challenge) svc" where
  "consume_challenge now u token purpose db =
     (case scalar_one_or_none (challenge_rows u token purpose db) of
        Inl err \<Rightarrow> (Inl err, db)
      | Inr None \<Rightarrow> (Inl (ValueError ''Invalid challenge''), db)
      | Inr (Some x) \<Rightarrow>
          if ch_consumed_at x \<noteq> None then (Inl (ValueError ''Challenge already consumed''), db)
          else if ch_expires_at x < now then (Inl (ValueError ''Challenge expired''), db)
          else let x = x\<lparr>ch_consumed_at := Some now\<rparr>
               in (Inr x, db\<lparr>challenges := row_put ch_id x (challenges db)\<rparr>))"

definition begin_passkey_registration :: "call \<Rightarrow> string \<Rightarrow> user \<Rightarrow> ('z auth_db_scheme, string) svc" where
  "begin_passkey_registration c token u db = create_challenge c token u ''passkey_register'' db"

section \<open>Registration\<close>

record passkey_registration =
  pr_challenge :: string
  pr_credential_id :: string
  pr_key :: json
  pr_client_data :: string
  pr_authenticator_data :: string
  pr_attestation :: "string option"
  pr_transports :: "string list option"
  pr_sign_count :: int

text \<open>Everything between the consumption of the challenge and the first query; the counter is returned.\<close>

definition check_registration :: "platform \<Rightarrow> webauthn_env \<Rightarrow> passkey_registration \<Rightarrow> nat result" where
  "check_registration pf env r =
     res_bind (check_client_data env True (pr_challenge r) (pr_client_data r)) (\<lambda>_.
       case pr_attestation r of
         None \<Rightarrow> Inl (ValueError ''Attestation object missing'')
       | Some attestation \<Rightarrow>
           res_bind (verify_registration_attestation pf env attestation (pr_authenticator_data r) (pr_client_data r)) (\<lambda>_.
           res_bind (check_authenticator_data pf env True (pr_authenticator_data r)) (\<lambda>parsed_sign_count.
           res_bind (check_credential_id (pr_authenticator_data r) (pr_credential_id r)) (\<lambda>_.
             Inr parsed_sign_count))))"

definition transports_of :: "string list option \<Rightarrow> string list" where
  "transports_of t = (case t of None \<Rightarrow> [] | Some l \<Rightarrow> l)"

definition new_passkey :: "call \<Rightarrow> user \<Rightarrow> passkey_registration \<Rightarrow> nat \<Rightarrow> uuid \<Rightarrow> passkey" where
  "new_passkey c u r parsed_sign_count org =
     \<lparr>pk_id = fresh c 0, pk_org = org, pk_user = us_id u, pk_credential = pr_credential_id r,
      pk_key = pr_key r, pk_sign_count = max (pr_sign_count r) (int parsed_sign_count),
      pk_transports = py_join '','' (transports_of (pr_transports r)), pk_created_at = clock c 1,
      pk_last_used_at = Some (clock c 1)\<rparr>"

definition verify_passkey_registration ::
  "platform \<Rightarrow> webauthn_env \<Rightarrow> call \<Rightarrow> user \<Rightarrow> passkey_registration \<Rightarrow> ('z auth_db_scheme, passkey) svc" where
  "verify_passkey_registration pf env c u r db =
     (case consume_challenge (clock c 0) u (pr_challenge r) ''passkey_register'' db of
        (Inl err, db) \<Rightarrow> (Inl err, db)
      | (Inr _, db) \<Rightarrow>
     (case check_registration pf env r of
        Inl err \<Rightarrow> (Inl err, db)
      | Inr parsed_sign_count \<Rightarrow>
     (case row_find pk_credential (pr_credential_id r) (passkeys db) of
        Some _ \<Rightarrow> (Inl (ValueError ''Credential already registered''), db)
      | None \<Rightarrow>
     (case us_org u of
        None \<Rightarrow> (Inl (IntegrityError ''passkey_credentials.org_id''), db)
      | Some org \<Rightarrow>
          let k = new_passkey c u r parsed_sign_count org;
              db = put_user (u\<lparr>us_passkey_enabled := True\<rparr>) (db\<lparr>passkeys := row_add k (passkeys db)\<rparr>)
          in (Inr k, append_event pf org (Some (us_id u)) ''auth.passkey.registered'' ''passkey_credential''
                (uuid_str (pk_id k))
                (PDict [(''credential_id'', PStr (pk_credential k)),
                   (''transports'', PList (map PStr (transports_of (pr_transports r)))),
                   (''sign_count'', PInt (pk_sign_count k))]) (fresh c 1, clock c 2) db)))))"

section \<open>Login\<close>

definition begin_passkey_login ::
  "call \<Rightarrow> string \<Rightarrow> string \<Rightarrow> ('z auth_db_scheme, user \<times> string \<times> string list) svc" where
  "begin_passkey_login c token email db =
     (case get_user_by_email email db of
        None \<Rightarrow> (Inl (ValueError ''User inactive or not found''), db)
      | Some u \<Rightarrow>
          if \<not> us_active u then (Inl (ValueError ''User inactive or not found''), db)
          else let ks = filter (\<lambda>k. pk_user k = us_id u) (passkeys db)
               in if ks = [] then (Inl (ValueError ''No passkeys registered''), db)
                  else (case create_challenge c token u ''passkey_login'' db of
                      (Inl err, db) \<Rightarrow> (Inl err, db)
                    | (Inr t, db) \<Rightarrow> (Inr (u, t, map pk_credential ks), db)))"

record passkey_login =
  pl_email :: string
  pl_challenge :: string
  pl_credential_id :: string
  pl_client_data :: string
  pl_authenticator_data :: string
  pl_signature :: string
  pl_sign_count :: int

text \<open>The checks before the credential is looked up; the origin and the counter are returned.\<close>

definition check_login :: "platform \<Rightarrow> webauthn_env \<Rightarrow> passkey_login \<Rightarrow> (json \<times> nat) result" where
  "check_login pf env r =
     res_bind (check_client_data env False (pl_challenge r) (pl_client_data r)) (\<lambda>origin.
     res_bind (check_authenticator_data pf env False (pl_authenticator_data r)) (\<lambda>parsed_sign_count.
       Inr (origin, parsed_sign_count)))"

definition users_passkey :: "user \<Rightarrow> string \<Rightarrow> 'z auth_db_scheme \<Rightarrow> passkey list" where
  "users_passkey u credential db =
     filter (\<lambda>k. pk_user k = us_id u \<and> pk_credential k = credential) (passkeys db)"

definition verify_passkey_login ::
  "platform \<Rightarrow> crypto \<Rightarrow> webauthn_env \<Rightarrow> call \<Rightarrow> passkey_login
   \<Rightarrow> ('z auth_db_scheme, user \<times> string \<times> string) svc" where
  "verify_passkey_login pf cr env c r db =
     (case get_user_by_email (pl_email r) db of
        None \<Rightarrow> (Inl (ValueError ''User inactive or not found''), db)
      | Some u \<Rightarrow>
     if \<not> us_active u then (Inl (ValueError ''User inactive or not found''), db)
     else (case consume_challenge (clock c 0) u (pl_challenge r) ''passkey_login'' db of
        (Inl err, db) \<Rightarrow> (Inl err, db)
      | (Inr _, db) \<Rightarrow>
     (case check_login pf env r of
        Inl err \<Rightarrow> (Inl err, db)
      | Inr (origin, parsed_sign_count) \<Rightarrow>
     (case scalar_one_or_none (users_passkey u (pl_credential_id r) db) of
        Inl err \<Rightarrow> (Inl err, db)
      | Inr None \<Rightarrow> (Inl (ValueError ''Credential not found''), db)
      | Inr (Some k) \<Rightarrow>
     (case verify_assertion_signature pf env (pk_key k) (pl_authenticator_data r) (pl_client_data r) (pl_signature r) of
        Inl err \<Rightarrow> (Inl err, db)
      | Inr _ \<Rightarrow>
          let effective_sign_count = max (int parsed_sign_count) (pl_sign_count r)
          in if effective_sign_count < pk_sign_count k
             then (Inl (ValueError ''Passkey sign counter rollback detected''), db)
             else
               let k = k\<lparr>pk_sign_count := effective_sign_count, pk_last_used_at := Some (clock c 1)\<rparr>;
                   u = u\<lparr>us_last_login := Some (clock c 2)\<rparr>;
                   db = put_user u (db\<lparr>passkeys := row_put pk_id k (passkeys db)\<rparr>)
               in (case user_event pf (us_org u) (us_id u) ''auth.passkey.login'' ''user'' (uuid_str (us_id u))
                          [(''credential_id'', PStr (pk_credential k)), (''sign_count'', PInt (pk_sign_count k)),
                           (''origin'', of_json origin)] (fresh c 0, clock c 3) db of
                     (Inl err, db) \<Rightarrow> (Inl err, db)
                   | (Inr _, db) \<Rightarrow> (Inr (u, token_pair cr (clock c 4) (clock c 5) u), db)))))))"

section \<open>Listing and revocation\<close>

definition list_user_passkeys :: "user \<Rightarrow> 'z auth_db_scheme \<Rightarrow> passkey list" where
  "list_user_passkeys u db = rev (sort_key pk_created_at (filter (\<lambda>k. pk_user k = us_id u) (passkeys db)))"

definition revoke_user_passkey ::
  "platform \<Rightarrow> user \<Rightarrow> uuid \<Rightarrow> stamp \<Rightarrow> ('z auth_db_scheme, unit) svc" where
  "revoke_user_passkey pf u kid st db =
     (case row_find pk_id kid (filter (\<lambda>k. pk_user k = us_id u) (passkeys db)) of
        None \<Rightarrow> (Inl (ValueError ''Passkey not found''), db)
      | Some k \<Rightarrow>
          let db = db\<lparr>passkeys := filter (\<lambda>k'. pk_id k' \<noteq> kid) (passkeys db)\<rparr>;
              remaining = list_user_passkeys u db;
              u = u\<lparr>us_passkey_enabled := (0 < length remaining)\<rparr>
          in user_event pf (us_org u) (us_id u) ''auth.passkey.revoked'' ''passkey_credential'' (uuid_str kid)
               [(''credential_id'', PStr (pk_credential k)),
                (''remaining_passkeys'', PInt (int (length remaining)))] st (put_user u db))"

text \<open>The routes: a \<open>ValueError\<close> of the service becomes an answer, and the session is rolled back.\<close>

definition passkey_register_verify ::
  "platform \<Rightarrow> webauthn_env \<Rightarrow> call \<Rightarrow> user \<Rightarrow> passkey_registration \<Rightarrow> ('z auth_db_scheme, passkey) svc" where
  "passkey_register_verify pf env c u r =
     request_scope (\<lambda>db. case verify_passkey_registration pf env c u r db of
       (Inl (ValueError m), db) \<Rightarrow> (Inl (HTTPException 400 m), db) | p \<Rightarrow> p)"

definition passkey_login_verify ::
  "platform \<Rightarrow> crypto \<Rightarrow> webauthn_env \<Rightarrow> call \<Rightarrow> passkey_login
   \<Rightarrow> ('z auth_db_scheme, user \<times> string \<times> string) svc" where
  "passkey_login_verify pf cr env c r =
     request_scope (\<lambda>db. case verify_passkey_login pf cr env c r db of
       (Inl (ValueError m), db) \<Rightarrow> (Inl (HTTPException 401 m), db) | p \<Rightarrow> p)"

end
