(* ===== verification/Oidc.thy ===== *)
theory Oidc
  imports Passkeys
begin

text \<open>
  Sign-in through Azure AD in \<open>AuthService\<close>: the state token, the exchange of the code, the cached key
  set, the validation of the identity token, and the account that is found or made for its email. The
  network and the signature check of the token are a record of functions.
\<close>

section \<open>External operations and settings\<close>

text \<open>
  \<open>oi_exchange code\<close> is the answer of the token endpoint, \<open>oi_fetch\<close> that of the key endpoint: the exception
  of the HTTP client, or status, text and what reading the text as JSON gives. \<open>oi_header\<close> reads a token's
  header without checking it, \<open>oi_decode token key alg audience\<close> is \<open>jwt.decode\<close>: the claims, or the error
  the service makes of its exception; \<open>oi_expired\<close> says whether a state token that does not decode raises
  \<open>ExpiredSignatureError\<close>.
\<close>

record oidc_env =
  oi_tenant_id :: string
  oi_client_id :: string
  oi_redirect :: string
  oi_scopes :: string
  oi_ttl :: int
  oi_urlencode :: "(string \<times> string) list \<Rightarrow> string"
  oi_exchange :: "string \<Rightarrow> (nat \<times> string \<times> json result) result"
  oi_fetch :: "(nat \<times> string \<times> json result) result"
  oi_header :: "string \<Rightarrow> (string \<times> json) list option"
  oi_decode :: "string \<Rightarrow> json \<Rightarrow> string \<Rightarrow> string \<Rightarrow> string + (string \<times> json) list"
  oi_expired :: "instant \<Rightarrow> string \<Rightarrow> bool"

definition tenant :: "oidc_env \<Rightarrow> string" where
  "tenant env = (if oi_tenant_id env = [] then ''common'' else oi_tenant_id env)"

section \<open>Accounts of new users\<close>

definition slug_char :: "char \<Rightarrow> bool" where
  "slug_char ch \<longleftrightarrow> is_digit_char ch \<or> (let n = of_char ch :: nat in 97 \<le> n \<and> n \<le> 122)"

text \<open>\<open>re.sub("[^a-z0-9]+", "-", s)\<close>; the flag says that a run is being replaced.\<close>

fun dash_runs :: "bool \<Rightarrow> string \<Rightarrow> string" where
  "dash_runs b [] = []"
| "dash_runs b (ch # s) =
     (if slug_char ch then ch # dash_runs False s
      else if b then dash_runs True s else CHR ''-'' # dash_runs True s)"

definition strip_char :: "char \<Rightarrow> string \<Rightarrow> string" where
  "strip_char x s = rstrip_char x (dropWhile (\<lambda>ch. ch = x) s)"

definition slugify :: "string \<Rightarrow> string" where
  "slugify v =
     (let slug = take 90 (strip_char (CHR ''-'') (dash_runs False (py_lower v)))
      in if slug = [] then ''workspace'' else slug)"

definition email_domain :: "string \<Rightarrow> string" where
  "email_domain email =
     (if CHR ''@'' \<in> set email then rev (takeWhile (\<lambda>ch. ch \<noteq> CHR ''@'') (rev email)) else ''workspace.local'')"

definition email_local :: "string \<Rightarrow> string" where
  "email_local email = takeWhile (\<lambda>ch. ch \<noteq> CHR ''@'') email"

definition slug_at :: "string \<Rightarrow> nat \<Rightarrow> string" where
  "slug_at base i = (if i \<le> 1 then base else base @ ''-'' @ nat_str i)"

text \<open>Candidates differ, so the search through the slugs in use ends.\<close>

lemma slug_at_inj: "1 \<le> i \<Longrightarrow> 1 \<le> j \<Longrightarrow> slug_at base i = slug_at base j \<longleftrightarrow> i = j"
  by (auto simp: slug_at_def)

lemma finite_taken: "finite {j. i \<le> j \<and> 1 \<le> j \<and> slug_at base j \<in> set taken}"
proof (rule inj_on_finite [of "slug_at base"])
  show "inj_on (slug_at base) {j. i \<le> j \<and> 1 \<le> j \<and> slug_at base j \<in> set taken}"
    using slug_at_inj by (auto intro!: inj_onI)
qed auto

function free_slug :: "string \<Rightarrow> string list \<Rightarrow> nat \<Rightarrow> nat" where
  "free_slug base taken i =
     (if i = 0 \<or> slug_at base i \<notin> set taken then i else free_slug base taken (i + 1))"
  by pat_completeness auto
termination
proof (relation "measure (\<lambda>(base, taken, i). card {j. i \<le> j \<and> 1 \<le> j \<and> slug_at base j \<in> set taken})")
  fix base :: string and taken :: "string list" and i :: nat
  assume "\<not> (i = 0 \<or> slug_at base i \<notin> set taken)"
  then have "i \<in> {j. i \<le> j \<and> 1 \<le> j \<and> slug_at base j \<in> set taken}" by simp
  moreover have "i \<notin> {j. i + 1 \<le> j \<and> 1 \<le> j \<and> slug_at base j \<in> set taken}" by simp
  moreover have "{j. i + 1 \<le> j \<and> 1 \<le> j \<and> slug_at base j \<in> set taken} \<subseteq> {j. i \<le> j \<and> 1 \<le> j \<and> slug_at base j \<in> set taken}"
    by auto
  ultimately have "{j. i + 1 \<le> j \<and> 1 \<le> j \<and> slug_at base j \<in> set taken} \<subset> {j. i \<le> j \<and> 1 \<le> j \<and> slug_at base j \<in> set taken}"
    by blast
  from psubset_card_mono [OF finite_taken this]
  show "((base, taken, i + 1), base, taken, i) \<in> measure (\<lambda>(base, taken, i). card {j. i \<le> j \<and> 1 \<le> j \<and> slug_at base j \<in> set taken})"
    by simp
qed simp

declare free_slug.simps [simp del]

definition ensure_oidc_user ::
  "crypto \<Rightarrow> call \<Rightarrow> string \<Rightarrow> string \<Rightarrow> string \<Rightarrow> string option \<Rightarrow> ('z auth_db_scheme, user) svc" where
  "ensure_oidc_user cr c salt noise email full_name db =
     (case get_user_by_email email db of
        Some u \<Rightarrow> if \<not> us_active u then (Inl (ValueError ''Account inactive''), db) else (Inr u, db)
      | None \<Rightarrow>
          let domain = email_domain email;
              base = ''oidc-'' @ slugify domain;
              slug = slug_at base (free_slug base (map og_slug (orgs db)) 1)
          in (case insert_org (blank_org (fresh c 0) (domain @ '' Workspace'') slug) db of
                (Inl err, db) \<Rightarrow> (Inl err, db)
              | (Inr g, db) \<Rightarrow>
                  insert_user (blank_user (fresh c 1) (Some (og_id g)) email
                    (case full_name of Some (a # n) \<Rightarrow> a # n | _ \<Rightarrow> email_local email)
                    (pw_hash cr salt noise) ADMIN (clock c 0)) db))"

section \<open>The state token\<close>

definition state_claims :: "instant \<Rightarrow> string \<Rightarrow> claims" where
  "state_claims now nonce =
     \<lparr>cl_sub = None, cl_exp = seconds (now + minutes_us 10), cl_iat = None, cl_type = ''oidc_state'',
      cl_org = None, cl_role = None, cl_provider = Some ''azure'', cl_nonce = Some nonce\<rparr>"

definition build_azure_oidc_start_url :: "crypto \<Rightarrow> oidc_env \<Rightarrow> instant \<Rightarrow> string \<Rightarrow> string result" where
  "build_azure_oidc_start_url cr env now nonce =
     (if oi_client_id env = [] then Inl (ValueError ''Azure OIDC not configured: azure_client_id is empty'')
      else Inr (''https://login.microsoftonline.com/'' @ tenant env @ ''/oauth2/v2.0/authorize?''
        @ oi_urlencode env [(''client_id'', oi_client_id env), (''response_type'', ''code''),
            (''redirect_uri'', oi_redirect env), (''response_mode'', ''query''), (''scope'', oi_scopes env),
            (''nonce'', nonce), (''state'', jwt_encode cr (state_claims now nonce))]))"

definition nonce_of_state :: "crypto \<Rightarrow> oidc_env \<Rightarrow> instant \<Rightarrow> string \<Rightarrow> string result" where
  "nonce_of_state cr env now state =
     (case jwt_decode cr now state of
        None \<Rightarrow> Inl (ValueError (if oi_expired env now state then ''OIDC state has expired'' else ''Invalid OIDC state''))
      | Some p \<Rightarrow>
          if cl_type p \<noteq> ''oidc_state'' \<or> cl_provider p \<noteq> Some ''azure'' then Inl (ValueError ''Invalid OIDC state'')
          else (case cl_nonce p of
              Some (a # n) \<Rightarrow> Inr (a # n) | _ \<Rightarrow> Inl (ValueError ''OIDC state missing nonce'')))"

section \<open>The key set\<close>

record jwks_cache =
  jc_data :: "json option"
  jc_fetched_at :: instant

definition json_truthy :: "json \<Rightarrow> bool" where
  "json_truthy j = (case j of JNull \<Rightarrow> False | JBool b \<Rightarrow> b | JInt i \<Rightarrow> i \<noteq> 0 | JFloat x \<Rightarrow> x \<noteq> 0
     | JStr s \<Rightarrow> s \<noteq> [] | JList vs \<Rightarrow> vs \<noteq> [] | JDict kvs \<Rightarrow> kvs \<noteq> [])"

text \<open>\<open>now\<close> reads the monotonic clock; the cache is a module variable.\<close>

definition fetch_azure_jwks :: "oidc_env \<Rightarrow> instant \<Rightarrow> jwks_cache \<Rightarrow> json result \<times> jwks_cache" where
  "fetch_azure_jwks env now cache =
     (let refresh = (case oi_fetch env of
            Inl err \<Rightarrow> (Inl err, cache)
          | Inr (status, body, answer) \<Rightarrow>
              if 400 \<le> status
              then (Inl (ValueError (''Failed to fetch Azure JWKS ('' @ nat_str status @ ''): '' @ take 200 body)), cache)
              else (case answer of
                  Inl err \<Rightarrow> (Inl err, cache)
                | Inr jwks \<Rightarrow>
                    (case json_get ''keys'' JNull jwks of
                       Inl err \<Rightarrow> (Inl err, cache)
                     | Inr (JList _) \<Rightarrow> (Inr jwks, \<lparr>jc_data = Some jwks, jc_fetched_at = now\<rparr>)
                     | Inr _ \<Rightarrow> (Inl (ValueError (''Azure JWKS response malformed: missing '' @ [CHR 0x27] @ ''keys'' @ [CHR 0x27] @ '' array'')), cache))))
      in case jc_data cache of
           None \<Rightarrow> refresh
         | Some jwks \<Rightarrow>
             if json_truthy jwks \<and> now - jc_fetched_at cache < oi_ttl env * 1000000 then (Inr jwks, cache) else refresh)"

section \<open>The identity token\<close>

definition RSA_ALGS :: "string list" where
  "RSA_ALGS = [''RS256'', ''RS384'', ''RS512'']"

fun find_key :: "json \<Rightarrow> json list \<Rightarrow> json result" where
  "find_key kid [] = Inr JNull"
| "find_key kid (k # ks) =
     (case json_get ''kid'' JNull k of Inl err \<Rightarrow> Inl err | Inr v \<Rightarrow> if v = kid then Inr k else find_key kid ks)"

definition dict_get :: "string \<Rightarrow> json \<Rightarrow> (string \<times> json) list \<Rightarrow> json" where
  "dict_get k d kvs = (case map_of kvs k of None \<Rightarrow> d | Some v \<Rightarrow> v)"

definition AZURE :: string where
  "AZURE = ''https://login.microsoftonline.com/''"

definition check_issuer :: "string \<Rightarrow> (string \<times> json) list \<Rightarrow> unit result" where
  "check_issuer tn claims =
     (let iss = dict_get ''iss'' (JStr []) claims
      in if tn = ''common''
         then (case iss of
             JStr s \<Rightarrow> require (py_startswith s AZURE \<and> py_endswith s ''/v2.0'') ''id_token issuer not a valid Azure AD v2 URL''
           | _ \<Rightarrow> Inl (AttributeError ''startswith''))
         else require (iss = JStr (AZURE @ tn @ ''/v2.0'')) ''id_token issuer mismatch'')"

definition signing_alg :: "(string \<times> json) list \<Rightarrow> string result" where
  "signing_alg header =
     (case dict_get ''alg'' (JStr ''RS256'') header of
        JStr alg \<Rightarrow> if alg \<in> set RSA_ALGS then Inr alg else Inl (ValueError ''Unsupported id_token algorithm'')
      | JList _ \<Rightarrow> Inl (TypeError ''unhashable type'')
      | JDict _ \<Rightarrow> Inl (TypeError ''unhashable type'')
      | _ \<Rightarrow> Inl (ValueError ''Unsupported id_token algorithm''))"

definition signing_key :: "(string \<times> json) list \<Rightarrow> json \<Rightarrow> json result" where
  "signing_key header jwks =
     res_bind (json_get ''keys'' (JList []) jwks) (\<lambda>keys.
     res_bind (case keys of JList ks \<Rightarrow> find_key (dict_get ''kid'' JNull header) ks
               | _ \<Rightarrow> Inl (TypeError ''not iterable'')) (\<lambda>key.
     if json_truthy key then Inr key else Inl (ValueError ''No JWKS key found'')))"

definition decode_id_token :: "oidc_env \<Rightarrow> string \<Rightarrow> json \<Rightarrow> string \<Rightarrow> (string \<times> json) list result" where
  "decode_id_token env id_token key alg =
     (case oi_decode env id_token key alg (oi_client_id env) of
        Inl msg \<Rightarrow> Inl (ValueError msg) | Inr claims \<Rightarrow> Inr claims)"

definition verify_azure_id_token ::
  "oidc_env \<Rightarrow> json \<Rightarrow> json \<Rightarrow> string \<Rightarrow> (string \<times> json) list result" where
  "verify_azure_id_token env id_token jwks nonce =
     (case id_token of
        JStr t \<Rightarrow>
          (case oi_header env t of
             None \<Rightarrow> Inl (ValueError ''Cannot parse id_token header'')
           | Some header \<Rightarrow>
               res_bind (signing_alg header) (\<lambda>alg.
               res_bind (signing_key header jwks) (\<lambda>key.
               res_bind (decode_id_token env t key alg) (\<lambda>claims.
               res_bind (check_issuer (tenant env) claims) (\<lambda>_.
               res_bind (require (dict_get ''nonce'' JNull claims = JStr nonce) ''id_token nonce mismatch'') (\<lambda>_.
                 Inr claims))))))
      | _ \<Rightarrow> Inl (ValueError ''Cannot parse id_token header''))"

text \<open>The first of three claims that is not empty; the provider documents them as strings.\<close>

definition first_truthy :: "json list \<Rightarrow> json" where
  "first_truthy js = (case filter json_truthy js of [] \<Rightarrow> JNull | j # _ \<Rightarrow> j)"

definition email_claim :: "(string \<times> json) list \<Rightarrow> string result" where
  "email_claim claims =
     (case first_truthy (map (\<lambda>k. dict_get k JNull claims) [''preferred_username'', ''email'', ''upn'']) of
        JNull \<Rightarrow> Inl (ValueError ''OIDC email claim missing'')
      | JStr s \<Rightarrow> Inr s
      | _ \<Rightarrow> Inl (TypeError ''expected str''))"

definition name_claim :: "(string \<times> json) list \<Rightarrow> string option" where
  "name_claim claims = (case dict_get ''name'' JNull claims of JStr s \<Rightarrow> Some s | _ \<Rightarrow> None)"

definition exchange_code :: "oidc_env \<Rightarrow> string \<Rightarrow> json result" where
  "exchange_code env code =
     res_bind (oi_exchange env code) (\<lambda>(status, body, answer).
       if 400 \<le> status then Inl (ValueError (''OIDC token exchange failed: '' @ take 300 body))
       else res_bind answer (\<lambda>answer. res_bind (json_get ''id_token'' JNull answer) (\<lambda>t.
         if json_truthy t then Inr t else Inl (ValueError ''OIDC id_token missing''))))"

section \<open>The callback\<close>

text \<open>The email and the name the provider vouches for, and the cache after the key set was asked for.\<close>

definition azure_claims ::
  "crypto \<Rightarrow> oidc_env \<Rightarrow> call \<Rightarrow> string \<Rightarrow> string \<Rightarrow> jwks_cache
   \<Rightarrow> (string \<times> string option) result \<times> jwks_cache" where
  "azure_claims cr env c code state cache =
     (case res_bind (nonce_of_state cr env (clock c 0) state) (\<lambda>nonce.
            res_bind (exchange_code env code) (\<lambda>id_token. Inr (nonce, id_token))) of
        Inl err \<Rightarrow> (Inl err, cache)
      | Inr (nonce, id_token) \<Rightarrow>
          (case fetch_azure_jwks env (clock c 1) cache of
             (keys, cache) \<Rightarrow>
               (res_bind keys (\<lambda>jwks.
                res_bind (verify_azure_id_token env id_token jwks nonce) (\<lambda>claims.
                res_bind (email_claim claims) (\<lambda>email. Inr (email, name_claim claims)))), cache)))"

text \<open>
  Clock readings: 0 the state, 1 the key set, 2 the account, 3 the login, 4 the event, 5 and 6 the tokens;
  identifiers: 0 and 1 of a new account, 2 the event.
\<close>

definition azure_session ::
  "platform \<Rightarrow> crypto \<Rightarrow> call \<Rightarrow> string \<Rightarrow> string \<Rightarrow> (string \<times> string option) result
   \<Rightarrow> ('z auth_db_scheme, user \<times> string \<times> string) svc" where
  "azure_session pf cr c salt noise claims db =
     (case claims of
        Inl err \<Rightarrow> (Inl err, db)
      | Inr (email, full_name) \<Rightarrow>
          (case ensure_oidc_user cr (c\<lparr>clock := (\<lambda>i. clock c (i + 2))\<rparr>) salt noise email full_name db of
             (Inl err, db) \<Rightarrow> (Inl err, db)
           | (Inr u, db) \<Rightarrow>
               let u = u\<lparr>us_last_login := Some (clock c 3)\<rparr>
               in (case user_event pf (us_org u) (us_id u) ''auth.oidc.login'' ''user'' (uuid_str (us_id u))
                          [(''provider'', PStr ''azure''), (''email'', PStr email)] (fresh c 2, clock c 4) (put_user u db) of
                     (Inl err, db) \<Rightarrow> (Inl err, db)
                   | (Inr _, db) \<Rightarrow> (Inr (u, token_pair cr (clock c 5) (clock c 6) u), db))))"

text \<open>The key set stays cached whatever becomes of the request.\<close>

definition login_with_azure_oidc_callback ::
  "platform \<Rightarrow> crypto \<Rightarrow> oidc_env \<Rightarrow> call \<Rightarrow> string \<Rightarrow> string \<Rightarrow> string \<Rightarrow> string
   \<Rightarrow> ('z auth_db_scheme \<times> jwks_cache, user \<times> string \<times> string) svc" where
  "login_with_azure_oidc_callback pf cr env c salt noise code state s =
     (case s of (db, cache) \<Rightarrow>
       (case azure_claims cr env c code state cache of
          (claims, cache) \<Rightarrow>
            (case azure_session pf cr c salt noise claims db of (r, db) \<Rightarrow> (r, (db, cache)))))"

end
