(* ===== verification/Codec.thy ===== *)
theory Codec
  imports Prelude
begin

text \<open>
  The contract of the text formats of the program (base32, base64, CBOR, JSON): a writer and a reader
  of the values that are valid in the format, and a format inside another one.
\<close>

text \<open>What the formats promise each other: what was written is read back, so no two values share a text.\<close>

locale codec =
  fixes valid :: "'a \<Rightarrow> bool" and render :: "'a \<Rightarrow> string" and scan :: "string \<Rightarrow> 'a result"
  assumes scan_render: "valid x \<Longrightarrow> scan (render x) = Inr x"
begin

lemma render_inject: "valid x \<Longrightarrow> valid y \<Longrightarrow> render x = render y \<longleftrightarrow> x = y"
  using scan_render by (metis sum.inject(2))

lemma scan_total: "valid x \<Longrightarrow> \<exists>s. scan s = Inr x"
  using scan_render by blast

end

text \<open>A format inside another one, as the attestation object is inside base64.\<close>

locale nested_codec = codec valid render scan + bytes: codec "\<lambda>_. True" wrap unwrap
  for valid :: "'a \<Rightarrow> bool" and render and scan and wrap :: "string \<Rightarrow> string" and unwrap
begin

sublocale whole: codec valid "\<lambda>x. wrap (render x)" "\<lambda>s. case unwrap s of Inl err \<Rightarrow> Inl err | Inr t \<Rightarrow> scan t"
  by unfold_locales (simp add: bytes.scan_render scan_render)

end

end
