(* ===== verification/WebauthnLaws.thy ===== *)
theory WebauthnLaws
  imports Webauthn MfaLaws Codec
begin

text \<open>
  Laws of the wire formats: base64 round trip, termination and depth of the CBOR reader, and its round
  trip with a canonical writer.
\<close>

section \<open>Encodings\<close>

interpretation b32: codec "\<lambda>raw. length raw mod 5 = 0" b32encode b32decode
  by unfold_locales (rule b32_roundtrip)

section \<open>Base64\<close>

lemma b64_alphabet_facts:
  assumes "n < 64"
  shows "b64_val (b64_char n) = Some n" and "of_char (b64_char n) < (128 :: nat)" and "b64_char n \<noteq> CHR ''=''"
proof -
  have vals: "map b64_val b64_alphabet = map Some [0..<64]"
    by (simp add: b64_alphabet_def b64_val_def upt_rec)
  have kept: "list_all (\<lambda>ch. of_char ch < (128 :: nat) \<and> ch \<noteq> CHR ''='') b64_alphabet"
    by (simp add: b64_alphabet_def)
  have len: "length b64_alphabet = 64" by (simp add: b64_alphabet_def)
  have "map b64_val b64_alphabet ! n = map Some [0..<64] ! n" by (simp only: vals)
  with assms show "b64_val (b64_char n) = Some n" by (simp add: len b64_char_def)
  from assms have "b64_char n \<in> set b64_alphabet" by (simp add: len b64_char_def)
  with kept show "of_char (b64_char n) < (128 :: nat)" "b64_char n \<noteq> CHR ''=''"
    by (simp_all add: list_all_iff)
qed

lemma of_char_less: "(of_char ch :: nat) < 256"
  by (metis of_char_mod_256 mod_less_divisor zero_less_numeral)

lemma sextets:
  fixes m n :: nat
  assumes "m < 256" and "n < 256"
  shows "m div 4 < 64" and "m mod 4 * 16 < 64" and "m mod 4 * 16 + n div 16 < 64"
    and "n mod 16 * 4 < 64" and "n mod 16 * 4 + m div 64 < 64" and "m mod 64 < 64"
proof -
  have "m mod 4 < 4" "n mod 16 < 16" by simp_all
  moreover have "n div 16 < 16" "m div 64 < 4" using assms by (simp_all add: div_less_iff_less_mult)
  ultimately show "m mod 4 * 16 < 64" "m mod 4 * 16 + n div 16 < 64" "n mod 16 * 4 < 64"
    "n mod 16 * 4 + m div 64 < 64" by linarith+
qed (use assms in \<open>simp_all add: div_less_iff_less_mult\<close>)

lemma octets:
  fixes m n :: nat
  assumes "m < 256" and "n < 256"
  shows "m div 4 * 4 + (m mod 4 * 16) div 16 = m" and "m div 4 * 4 + (m mod 4 * 16 + n div 16) div 16 = m"
    and "(m mod 4 * 16 + n div 16) mod 16 * 16 + n mod 16 * 4 div 4 = n"
    and "(m mod 4 * 16 + n div 16) mod 16 = n div 16"
    and "(n mod 16 * 4 + m div 64) div 4 = n mod 16" and "(n mod 16 * 4 + m div 64) mod 4 = m div 64"
proof -
  have "n div 16 < 16" "m div 64 < 4" using assms by (simp_all add: div_less_iff_less_mult)
  then show "m div 4 * 4 + (m mod 4 * 16 + n div 16) div 16 = m"
    "(m mod 4 * 16 + n div 16) mod 16 * 16 + n mod 16 * 4 div 4 = n"
    "(m mod 4 * 16 + n div 16) mod 16 = n div 16"
    "(n mod 16 * 4 + m div 64) div 4 = n mod 16" "(n mod 16 * 4 + m div 64) mod 4 = m div 64"
    by simp_all
qed simp

lemma high_nibble:
  fixes n :: nat
  assumes "n < 256"
  shows "n div 16 div 16 = 0" and "n div 16 mod 16 = n div 16" and "n div 64 div 4 = 0" and "n div 64 mod 4 = n div 64"
  using assms by (simp_all add: div_less_iff_less_mult flip: div_mult2_eq)

lemma a2b_char: "n < 64 \<Longrightarrow> a2b q p l (b64_char n # s) =
   (if q = 0 then a2b 1 0 n s
    else if q = 1 then cons_ok (char_of (l * 4 + n div 16)) (a2b 2 0 (n mod 16) s)
    else if q = 2 then cons_ok (char_of (l * 16 + n div 4)) (a2b 3 0 (n mod 4) s)
    else cons_ok (char_of (l * 64 + n)) (a2b 0 0 0 s))"
  using b64_alphabet_facts [of n] by simp

lemma a2b_pad: "a2b q p l (CHR ''='' # s) =
   (if 2 \<le> q then (if 4 \<le> q + p + 1 then Inr [] else a2b q (p + 1) l s) else a2b q p l s)"
  by simp

declare a2b.simps (2) [simp del]

lemmas encode_simps = Let_def sextets [OF of_char_less of_char_less] octets [OF of_char_less of_char_less]
  high_nibble [OF of_char_less]

lemma is_ascii_encode: "is_ascii (b64url_encode s)"
  by (induction s rule: b64url_encode.induct)
    (simp_all add: is_ascii_def encode_simps b64_alphabet_facts(2))

lemma cons_ok_Inr [simp]: "cons_ok b (Inr bs) = Inr (b # bs)"
  by (simp add: cons_ok_def)

text \<open>The padding \<open>_b64url_decode\<close> adds is the one the encoder left out.\<close>

definition pads_of :: "string \<Rightarrow> string" where
  "pads_of s = replicate ((4 - length s mod 4) mod 4) (CHR ''='')"

lemma pads_of_step: "pads_of (a # b # c # d # s) = pads_of s"
  by (simp add: pads_of_def)

lemma a2b_encode: "a2b 0 0 0 (b64url_encode s @ pads_of (b64url_encode s)) = Inr s"
proof (induction s rule: b64url_encode.induct)
  case (2 a)
  show ?case by (simp add: encode_simps a2b_char a2b_pad pads_of_def numeral_2_eq_2)
next
  case (3 a b)
  show ?case by (simp add: encode_simps a2b_char a2b_pad pads_of_def numeral_2_eq_2)
next
  case (4 a b c s)
  then show ?case by (simp add: encode_simps a2b_char pads_of_step)
qed (simp add: pads_of_def)

lemma b64url_roundtrip [simp]: "b64url_decode (b64url_encode s) = Inr s"
  using a2b_encode [of s] by (simp add: b64url_decode_def is_ascii_encode pads_of_def)

interpretation b64: codec "\<lambda>_. True" b64url_encode b64url_decode
  by unfold_locales simp

section \<open>The reader terminates\<close>

definition advances :: "(nat \<Rightarrow> ('a \<times> nat) result) \<Rightarrow> bool" where
  "advances f \<longleftrightarrow> (\<forall>i v j. f i = Inr (v, j) \<longrightarrow> i < j)"

lemma read_len_advances: "read_len addl data i = Inr (n, j) \<Longrightarrow> i \<le> j"
  by (auto simp: read_len_def split: if_splits)

lemma read_items_advances: "advances f \<Longrightarrow> read_items f n i = Inr (vs, j) \<Longrightarrow> i + n \<le> j \<and> length vs = n"
  by (induction f n i arbitrary: vs j rule: read_items.induct)
    (force simp: advances_def split: sum.splits prod.splits)+

lemma read_pairs_advances: "advances f \<Longrightarrow> read_pairs f n i obj = Inr (kvs, j) \<Longrightarrow> i \<le> j"
proof (induction n arbitrary: i obj)
  case (Suc n)
  from Suc.prems(2) obtain k i1 v i2 where f: "f i = Inr (k, i1)" "f i1 = Inr (v, i2)"
    and rest: "read_pairs f n i2 (dict_set k v obj) = Inr (kvs, j)"
    by (auto split: sum.splits prod.splits if_splits)
  have "i < i1" "i1 < i2" using Suc.prems(1) f by (simp_all add: advances_def)
  with Suc.IH [OF Suc.prems(1) rest] show ?case by simp
qed simp

lemma read_body_advances: "advances f \<Longrightarrow> read_body f data m n i = Inr (v, j) \<Longrightarrow> i \<le> j"
  by (auto simp: read_body_def split: if_splits sum.splits prod.splits
      dest: read_items_advances read_pairs_advances)

lemma read_cbor_advances: "advances (read_cbor depth data)"
proof (induction depth)
  case (Suc depth)
  show ?case unfolding advances_def
  proof (intro allI impI)
    fix i v j assume r: "read_cbor (Suc depth) data i = Inr (v, j)"
    show "i < j"
    proof (cases "of_char (data ! i) div 32 < (6 :: nat)")
      case True
      with r obtain n k where "read_len (of_char (data ! i) mod 32) data (i + 1) = Inr (n, k)"
        "read_body (read_cbor depth data) data (of_char (data ! i) div 32) n k = Inr (v, j)"
        by (auto simp: Let_def split: if_splits sum.splits)
      with read_len_advances read_body_advances [OF Suc] show ?thesis by fastforce
    qed (use r in \<open>auto simp: Let_def split: if_splits\<close>)
  qed
qed (simp add: advances_def)

text \<open>The outcomes of the loops depend on the reader only where it is called.\<close>

lemma read_items_cong:
  assumes same: "\<And>k. f k \<noteq> Inl RecursionError \<Longrightarrow> g k = f k"
  shows "read_items f n i \<noteq> Inl RecursionError \<Longrightarrow> read_items g n i = read_items f n i"
proof (induction n arbitrary: i)
  case (Suc n)
  show ?case
  proof (cases "f i")
    case (Inr p)
    then have g: "g i = Inr p" using same [of i] by simp
    obtain v j where p: "p = (v, j)" by fastforce
    from Suc.prems Inr p have "read_items f n j \<noteq> Inl RecursionError" by (auto split: sum.splits)
    from Suc.IH [OF this] show ?thesis by (simp add: Inr g p)
  qed (use Suc.prems same [of i] in auto)
qed simp

lemma read_pairs_cong:
  assumes same: "\<And>k. f k \<noteq> Inl RecursionError \<Longrightarrow> g k = f k"
  shows "read_pairs f n i obj \<noteq> Inl RecursionError \<Longrightarrow> read_pairs g n i obj = read_pairs f n i obj"
proof (induction n arbitrary: i obj)
  case (Suc n)
  show ?case
  proof (cases "f i")
    case (Inr p)
    then have g: "g i = Inr p" using same [of i] by simp
    obtain v j where p: "p = (v, j)" by fastforce
    have "f j \<noteq> Inl RecursionError" using Suc.prems by (auto simp: Inr p)
    from same [OF this] show ?thesis using Suc by (auto simp: Inr g p split: sum.splits)
  qed (use Suc.prems same [of i] in auto)
qed simp

lemma read_body_cong:
  assumes same: "\<And>k. f k \<noteq> Inl RecursionError \<Longrightarrow> g k = f k"
    and ne: "read_body f data m n i \<noteq> Inl RecursionError"
  shows "read_body g data m n i = read_body f data m n i"
proof (cases "m < 4")
  case False
  show ?thesis
  proof (cases "m = 4")
    case True
    with ne have "read_items f n i \<noteq> Inl RecursionError" by (auto simp: read_body_def)
    from read_items_cong [OF same this] True show ?thesis by (simp add: read_body_def)
  next
    case m: False
    with False ne have "read_pairs f n i [] \<noteq> Inl RecursionError" by (auto simp: read_body_def)
    from read_pairs_cong [OF same this] m False show ?thesis by (simp add: read_body_def)
  qed
qed (simp add: read_body_def)

lemma read_cbor_mono: "read_cbor d data i \<noteq> Inl RecursionError \<Longrightarrow> d \<le> d' \<Longrightarrow> read_cbor d' data i = read_cbor d data i"
proof (induction d arbitrary: d' i)
  case (Suc d)
  from Suc.prems(2) obtain e where d': "d' = Suc e" "d \<le> e" by (cases d') auto
  note same = read_body_cong [of "read_cbor d data" "read_cbor e data", OF Suc.IH [OF _ d'(2)]]
  from Suc.prems(1) same show ?case
    by (auto simp: d'(1) Let_def split: sum.split)
qed simp

lemma read_items_safe:
  assumes adv: "advances f"
  shows "(\<And>k. i \<le> k \<Longrightarrow> f k \<noteq> Inl RecursionError) \<Longrightarrow> read_items f n i \<noteq> Inl RecursionError"
proof (induction n arbitrary: i)
  case (Suc n)
  show ?case
  proof (cases "f i")
    case (Inr p)
    obtain v j where p: "p = (v, j)" by fastforce
    have "i < j" using adv Inr p by (simp add: advances_def)
    then have "read_items f n j \<noteq> Inl RecursionError" using Suc by simp
    then show ?thesis by (auto simp: Inr p split: sum.split)
  qed (use Suc.prems [of i] in auto)
qed simp

lemma read_pairs_safe:
  assumes adv: "advances f"
  shows "(\<And>k. i \<le> k \<Longrightarrow> f k \<noteq> Inl RecursionError) \<Longrightarrow> read_pairs f n i obj \<noteq> Inl RecursionError"
proof (induction n arbitrary: i obj)
  case (Suc n)
  show ?case
  proof (cases "f i")
    case (Inr p)
    obtain k j where p: "p = (k, j)" by fastforce
    have ij: "i < j" using adv Inr p by (simp add: advances_def)
    show ?thesis
    proof (cases "f j")
      case j: (Inr q)
      obtain v l where q: "q = (v, l)" by fastforce
      have "j < l" using adv j q by (simp add: advances_def)
      then have "read_pairs f n l (dict_set k v obj) \<noteq> Inl RecursionError" using Suc ij by simp
      then show ?thesis by (simp add: Inr p j q)
    qed (use Suc.prems [of j] ij in \<open>auto simp: Inr p\<close>)
  qed (use Suc.prems [of i] in auto)
qed simp

lemma read_body_safe:
  assumes "advances f" and "\<And>k. i \<le> k \<Longrightarrow> f k \<noteq> Inl RecursionError"
  shows "read_body f data m n i \<noteq> Inl RecursionError"
  using read_items_safe [OF assms] read_pairs_safe [OF assms]
  by (auto simp: read_body_def utf8_decode_def split: sum.split)

lemma read_len_safe: "read_len addl data i \<noteq> Inl RecursionError"
  by (simp add: read_len_def)

lemma read_cbor_safe: "length data < d + i \<Longrightarrow> 0 < d \<Longrightarrow> read_cbor d data i \<noteq> Inl RecursionError"
proof (induction d arbitrary: i)
  case (Suc d)
  have "read_body (read_cbor d data) data m n j \<noteq> Inl RecursionError" if j: "i + 1 \<le> j" "i < length data" for m n j
  proof (rule read_body_safe [OF read_cbor_advances])
    show "read_cbor d data k \<noteq> Inl RecursionError" if "j \<le> k" for k
      using Suc.IH [of k] Suc.prems j that by simp
  qed
  then show ?case using read_len_safe read_len_advances
    by (simp add: Let_def split: sum.split) (metis not_le)
qed simp

lemma deep_lists: "depth \<le> n \<Longrightarrow> read_cbor depth (pre @ replicate n (CHR 0x81) @ rest) (length pre) = Inl RecursionError"
proof (induction depth arbitrary: n pre)
  case (Suc depth)
  then obtain k where n: "n = Suc k" "depth \<le> k" by (cases n) auto
  have "(pre @ replicate n (CHR 0x81) @ rest) = (pre @ [CHR 0x81]) @ replicate k (CHR 0x81) @ rest"
    by (simp add: n)
  then show ?case using Suc.IH [OF n(2), of "pre @ [CHR 0x81]"]
    by (simp add: n(1) Let_def read_len_def read_body_def nth_append)
qed simp

text \<open>
  C37 (termination): the reader needs a call of its own per remaining byte at most: with that much stack
  it returns or raises something else than \<open>RecursionError\<close>, and more stack changes nothing; every item
  it returns has consumed a byte. The bound is sharp: \<open>n\<close> bytes that open a list each exhaust a stack
  with room for \<open>n\<close> calls, and \<open>RecursionError\<close> is no \<open>ValueError\<close>, so the routes do not answer 400.
\<close>

theorem cbor_reader_terminates:
  "(length data < depth + i \<and> 0 < depth \<longrightarrow> read_cbor depth data i \<noteq> Inl RecursionError
      \<and> (\<forall>d\<ge>depth. read_cbor d data i = read_cbor depth data i))
   \<and> (case read_cbor depth data i of Inl _ \<Rightarrow> True | Inr (_, j) \<Rightarrow> i < j)
   \<and> (depth \<le> n \<longrightarrow> read_cbor depth (replicate n (CHR 0x81) @ rest) 0 = Inl RecursionError)"
proof (intro conjI impI allI)
  show "read_cbor depth (replicate n (CHR 0x81) @ rest) 0 = Inl RecursionError" if "depth \<le> n"
    using deep_lists [OF that, of "[]"] by simp
  show "case read_cbor depth data i of Inl _ \<Rightarrow> True | Inr (_, j) \<Rightarrow> i < j"
    using read_cbor_advances [of depth data] by (auto simp: advances_def split: sum.split)
  assume "length data < depth + i \<and> 0 < depth"
  then show safe: "read_cbor depth data i \<noteq> Inl RecursionError" by (simp add: read_cbor_safe)
  show "read_cbor d data i = read_cbor depth data i" if "depth \<le> d" for d
    by (rule read_cbor_mono [OF safe that])
qed

theorem cbor_reader_terminates_witness:
  "read_cbor 9 [CHR 0x81, CHR 0x81, CHR 0x05] 0 = read_cbor 4 [CHR 0x81, CHR 0x81, CHR 0x05] 0
   \<and> read_cbor 4 [CHR 0x81, CHR 0x81, CHR 0x05] 0 = Inr (CList [CList [CInt 5]], 3)
   \<and> read_cbor 2 [CHR 0x81, CHR 0x81, CHR 0x05] 0 = Inl RecursionError"
proof (intro conjI)
  show "read_cbor 9 [CHR 0x81, CHR 0x81, CHR 0x05] 0 = read_cbor 4 [CHR 0x81, CHR 0x81, CHR 0x05] 0"
    by (rule mp [OF conjunct1 [OF cbor_reader_terminates [of "[CHR 0x81, CHR 0x81, CHR 0x05]" 4 0]],
        THEN conjunct2, THEN spec, THEN mp]) simp_all
  show "read_cbor 4 [CHR 0x81, CHR 0x81, CHR 0x05] 0 = Inr (CList [CList [CInt 5]], 3)"
  proof -
    have "(4 :: nat) = Suc (Suc (Suc (Suc 0)))" by simp
    then show ?thesis by (simp only:) (simp add: Let_def read_len_def read_body_def)
  qed
  show "read_cbor 2 [CHR 0x81, CHR 0x81, CHR 0x05] 0 = Inl RecursionError"
    by (simp add: numeral_2_eq_2 Let_def read_len_def read_body_def)
qed

section \<open>Reading what was written\<close>

text \<open>A writer of the canonical form, as authenticators produce it: shortest length heads.\<close>

definition cbor_head :: "nat \<Rightarrow> nat \<Rightarrow> string" where
  "cbor_head major n =
     (if n < 24 then [char_of (major * 32 + n)]
      else if n < 2 ^ 8 then char_of (major * 32 + 24) # be_bytes 1 n
      else if n < 2 ^ 16 then char_of (major * 32 + 25) # be_bytes 2 n
      else if n < 2 ^ 32 then char_of (major * 32 + 26) # be_bytes 4 n
      else char_of (major * 32 + 27) # be_bytes 8 n)"

fun cbor_write :: "cbor \<Rightarrow> string" where
  "cbor_write (CInt i) = (if 0 \<le> i then cbor_head 0 (nat i) else cbor_head 1 (nat (- 1 - i)))"
| "cbor_write (CBytes s) = cbor_head 2 (length s) @ s"
| "cbor_write (CText s) = cbor_head 3 (length s) @ s"
| "cbor_write (CList vs) = cbor_head 4 (length vs) @ concat (map cbor_write vs)"
| "cbor_write (CMap kvs) = cbor_head 5 (length kvs) @ concat (map (\<lambda>(k, v). cbor_write k @ cbor_write v) kvs)"
| "cbor_write (CBool b) = [if b then CHR 0xF5 else CHR 0xF4]"
| "cbor_write CNull = [CHR 0xF6]"

lemma length_be_bytes [simp]: "length (be_bytes w n) = w"
  by (induction w arbitrary: n) simp_all

lemma be_value_bytes: "n < 256 ^ w \<Longrightarrow> be_value (be_bytes w n) = n"
proof (induction w arbitrary: n)
  case (Suc w)
  then have "be_value (be_bytes w (n div 256)) = n div 256" by (simp add: less_mult_imp_div_less mult.commute)
  then show ?case by (simp add: be_value_def)
qed (simp add: be_value_def)

lemma sub_bytes_mid: "sub_bytes (pre @ s @ post) (length pre) (length s) = s"
  by (simp add: sub_bytes_def)

lemma length_cbor_head: "cbor_head m n \<noteq> []"
  by (simp add: cbor_head_def)

lemma head_digit: "m < 8 \<Longrightarrow> a < 32 \<Longrightarrow> of_char (char_of (m * 32 + a)) div 32 = m \<and> of_char (char_of (m * 32 + a)) mod 32 = a"
  for m a :: nat
  by simp

lemma read_len_wide:
  "be_value (sub_bytes data i w) = n \<Longrightarrow> (a, w) \<in> {(25, 2), (26, 4), (27, 8)} \<Longrightarrow> read_len a data i = Inr (n, i + w)"
  by (auto simp: read_len_def)

lemma read_head:
  assumes m: "m < 6" and n: "n < 2 ^ 64"
  shows "\<exists>x y. cbor_head m n = x # y \<and> of_char x div 32 = m
    \<and> read_len (of_char x mod 32) (pre @ (x # y) @ post) (length pre + 1) = Inr (n, length pre + length (cbor_head m n))"
proof -
  have wide: "\<exists>x y. char_of (m * 32 + a) # be_bytes w n = x # y \<and> of_char x div 32 = m
      \<and> read_len (of_char x mod 32) (pre @ (x # y) @ post) (length pre + 1) = Inr (n, length pre + (1 + w))"
    if "n < 256 ^ w" and "(a, w) \<in> {(25, 2), (26, 4), (27, 8)}" for a w
  proof -
    have "sub_bytes (pre @ (char_of (m * 32 + a) # be_bytes w n) @ post) (length pre + 1) w = be_bytes w n"
      using sub_bytes_mid [of "pre @ [char_of (m * 32 + a)]" "be_bytes w n" post] by simp
    with be_value_bytes [OF that(1)] have "read_len a (pre @ (char_of (m * 32 + a) # be_bytes w n) @ post) (length pre + 1)
        = Inr (n, length pre + 1 + w)" by (intro read_len_wide [OF _ that(2)]) simp
    moreover from that(2) m have "of_char (char_of (m * 32 + a) :: char) div 32 = m" "of_char (char_of (m * 32 + a) :: char) mod 32 = a"
      using head_digit [of m a] by auto
    ultimately show ?thesis by simp
  qed
  consider "n < 24" | "24 \<le> n" "n < 2 ^ 8" | "2 ^ 8 \<le> n" "n < 2 ^ 16" | "2 ^ 16 \<le> n" "n < 2 ^ 32" | "2 ^ 32 \<le> n"
    by linarith
  then show ?thesis
  proof cases
    case 1
    with m show ?thesis by (simp add: cbor_head_def read_len_def)
  next
    case 2
    with m show ?thesis by (simp add: cbor_head_def read_len_def nth_append)
  next
    case 3
    with wide [of 2 25] show ?thesis by (simp add: cbor_head_def)
  next
    case 4
    with wide [of 4 26] show ?thesis by (simp add: cbor_head_def)
  next
    case 5
    with n wide [of 8 27] show ?thesis by (simp add: cbor_head_def)
  qed
qed

text \<open>The stack a value needs, and the values that can be written: texts are UTF-8, keys are distinct.\<close>

fun nesting :: "cbor \<Rightarrow> nat" where
  "nesting (CList vs) = Suc (foldr max (map nesting vs) 0)"
| "nesting (CMap kvs) = Suc (foldr max (map (\<lambda>(k, v). max (nesting k) (nesting v)) kvs) 0)"
| "nesting v = 1"

fun cbor_ok :: "cbor \<Rightarrow> bool" where
  "cbor_ok (CInt i) \<longleftrightarrow> - (2 ^ 64) \<le> i \<and> i < 2 ^ 64"
| "cbor_ok (CBytes s) \<longleftrightarrow> length s < 2 ^ 64"
| "cbor_ok (CText s) \<longleftrightarrow> length s < 2 ^ 64 \<and> utf8_ok s"
| "cbor_ok (CList vs) \<longleftrightarrow> length vs < 2 ^ 64 \<and> list_all cbor_ok vs"
| "cbor_ok (CMap kvs) \<longleftrightarrow> length kvs < 2 ^ 64 \<and> list_all (\<lambda>(k, v). hashable k \<and> cbor_ok k \<and> cbor_ok v) kvs
     \<and> distinct (map (key_norm \<circ> fst) kvs)"
| "cbor_ok _ \<longleftrightarrow> True"

text \<open>\<open>f\<close> reads \<open>v\<close> back wherever its bytes stand.\<close>

definition reads_back :: "(string \<Rightarrow> nat \<Rightarrow> (cbor \<times> nat) result) \<Rightarrow> cbor \<Rightarrow> bool" where
  "reads_back f v \<longleftrightarrow> (\<forall>pre post. f (pre @ cbor_write v @ post) (length pre) = Inr (v, length pre + length (cbor_write v)))"

lemma reads_back_at:
  "reads_back f v \<Longrightarrow> data = pre @ cbor_write v @ post \<Longrightarrow> i = length pre
   \<Longrightarrow> f data i = Inr (v, i + length (cbor_write v))"
  by (simp add: reads_back_def)

lemma read_items_back:
  "\<forall>v\<in>set vs. reads_back f v \<Longrightarrow> data = pre @ concat (map cbor_write vs) @ post \<Longrightarrow> i = length pre \<Longrightarrow>
   read_items (f data) (length vs) i = Inr (vs, i + length (concat (map cbor_write vs)))"
proof (induction vs arbitrary: pre i)
  case (Cons v vs)
  have "f data i = Inr (v, i + length (cbor_write v))"
    using Cons.prems by (intro reads_back_at [of f v data pre "concat (map cbor_write vs) @ post"]) simp_all
  moreover have "read_items (f data) (length vs) (i + length (cbor_write v))
      = Inr (vs, i + length (cbor_write v) + length (concat (map cbor_write vs)))"
    by (rule Cons.IH [of "pre @ cbor_write v"]) (use Cons.prems in simp_all)
  ultimately show ?case by simp
qed simp

lemma dict_set_new: "key_norm k \<notin> (key_norm \<circ> fst) ` set kvs \<Longrightarrow> dict_set k v kvs = kvs @ [(k, v)]"
  by (auto simp: dict_set_def list_ex_iff) force

lemma read_pairs_back:
  "\<forall>(k, v)\<in>set kvs. hashable k \<and> reads_back f k \<and> reads_back f v \<Longrightarrow>
   data = pre @ concat (map (\<lambda>(k, v). cbor_write k @ cbor_write v) kvs) @ post \<Longrightarrow> i = length pre \<Longrightarrow>
   distinct (map (key_norm \<circ> fst) (obj @ kvs)) \<Longrightarrow>
   read_pairs (f data) (length kvs) i obj
     = Inr (obj @ kvs, i + length (concat (map (\<lambda>(k, v). cbor_write k @ cbor_write v) kvs)))"
proof (induction kvs arbitrary: pre i obj)
  case (Cons kv kvs)
  obtain k v where kv: "kv = (k, v)" by fastforce
  let ?rest = "concat (map (\<lambda>(k, v). cbor_write k @ cbor_write v) kvs)"
  have k: "f data i = Inr (k, i + length (cbor_write k))"
    using Cons.prems kv by (intro reads_back_at [of f k data pre "cbor_write v @ ?rest @ post"]) simp_all
  have v: "f data (i + length (cbor_write k)) = Inr (v, i + length (cbor_write k) + length (cbor_write v))"
    using Cons.prems kv by (intro reads_back_at [of f v data "pre @ cbor_write k" "?rest @ post"]) simp_all
  have "dict_set k v obj = obj @ [(k, v)]"
    using Cons.prems(4) by (intro dict_set_new) (simp add: kv)
  moreover have "read_pairs (f data) (length kvs) (i + length (cbor_write k) + length (cbor_write v)) (obj @ [(k, v)])
      = Inr ((obj @ [(k, v)]) @ kvs, i + length (cbor_write k) + length (cbor_write v) + length ?rest)"
    by (rule Cons.IH [of "pre @ cbor_write k @ cbor_write v"]) (use Cons.prems kv in simp_all)
  ultimately show ?case using Cons.prems(1) by (simp add: kv k v)
qed simp

lemma read_cbor_head:
  assumes "m < 6" and "n < 2 ^ 64"
  shows "read_cbor (Suc d) (pre @ cbor_head m n @ post) (length pre)
    = read_body (read_cbor d (pre @ cbor_head m n @ post)) (pre @ cbor_head m n @ post) m n
        (length pre + length (cbor_head m n))"
proof -
  from read_head [OF assms, of pre post] obtain x y where x: "cbor_head m n = x # y" "of_char x div 32 = m"
    "read_len (of_char x mod 32) (pre @ (x # y) @ post) (length pre + 1) = Inr (n, length pre + length (cbor_head m n))"
    by blast
  have "(pre @ (x # y) @ post) ! length pre = x" by (simp add: nth_append)
  with x assms(1) show ?thesis by (simp add: Let_def)
qed

lemma foldr_max_le: "foldr max (map g xs) 0 \<le> (d :: nat) \<longleftrightarrow> (\<forall>x\<in>set xs. g x \<le> d)"
  by (induction xs) auto

lemma cbor_reads_back: "cbor_ok v \<Longrightarrow> nesting v \<le> d \<Longrightarrow> reads_back (read_cbor d) v"
proof (induction v arbitrary: d rule: cbor_write.induct)
  case (1 i)
  then obtain e where d: "d = Suc e" by (cases d) simp_all
  show ?case
    using 1 read_cbor_head [of 0 "nat i" e] read_cbor_head [of 1 "nat (- 1 - i)" e]
    by (auto simp: reads_back_def d read_body_def simp del: read_cbor.simps)
next
  case (2 s)
  then obtain e where d: "d = Suc e" by (cases d) simp_all
  show ?case
    using 2 read_cbor_head [of 2 "length s" e _ "s @ _"] sub_bytes_mid [of "_ @ cbor_head 2 (length s)" s]
    by (simp add: reads_back_def d read_body_def del: read_cbor.simps)
next
  case (3 s)
  then obtain e where d: "d = Suc e" by (cases d) simp_all
  show ?case
    using 3 read_cbor_head [of 3 "length s" e _ "s @ _"] sub_bytes_mid [of "_ @ cbor_head 3 (length s)" s]
    by (simp add: reads_back_def d read_body_def utf8_decode_def del: read_cbor.simps)
next
  case (4 vs)
  from 4(3) obtain e where d: "d = Suc e" and e: "\<forall>v\<in>set vs. nesting v \<le> e"
    by (cases d) (simp_all add: foldr_max_le)
  let ?body = "concat (map cbor_write vs)"
  have each: "\<forall>v\<in>set vs. reads_back (read_cbor e) v" using 4 e by (simp add: list_all_iff)
  show ?case unfolding reads_back_def
  proof (intro allI)
    fix pre post
    let ?data = "pre @ cbor_head 4 (length vs) @ ?body @ post"
    have "read_items (read_cbor e ?data) (length vs) (length pre + length (cbor_head 4 (length vs)))
        = Inr (vs, length pre + length (cbor_head 4 (length vs)) + length ?body)"
      by (rule read_items_back [OF each, of _ "pre @ cbor_head 4 (length vs)" post]) simp_all
    then show "read_cbor d (pre @ cbor_write (CList vs) @ post) (length pre)
        = Inr (CList vs, length pre + length (cbor_write (CList vs)))"
      using 4(2) read_cbor_head [of 4 "length vs" e pre "?body @ post"]
      by (simp add: d read_body_def del: read_cbor.simps)
  qed
next
  case (5 kvs)
  from 5(4) obtain e where d: "d = Suc e" and e: "\<forall>(k, v)\<in>set kvs. nesting k \<le> e \<and> nesting v \<le> e"
    by (cases d) (auto simp: foldr_max_le case_prod_unfold)
  let ?body = "concat (map (\<lambda>(k, v). cbor_write k @ cbor_write v) kvs)"
  have each: "\<forall>(k, v)\<in>set kvs. hashable k \<and> reads_back (read_cbor e) k \<and> reads_back (read_cbor e) v"
    using 5 e by (fastforce simp: list_all_iff)
  show ?case unfolding reads_back_def
  proof (intro allI)
    fix pre post
    let ?data = "pre @ cbor_head 5 (length kvs) @ ?body @ post"
    have "read_pairs (read_cbor e ?data) (length kvs) (length pre + length (cbor_head 5 (length kvs))) []
        = Inr ([] @ kvs, length pre + length (cbor_head 5 (length kvs)) + length ?body)"
      by (rule read_pairs_back [OF each, of _ "pre @ cbor_head 5 (length kvs)" post]) (use 5(3) in simp_all)
    then show "read_cbor d (pre @ cbor_write (CMap kvs) @ post) (length pre)
        = Inr (CMap kvs, length pre + length (cbor_write (CMap kvs)))"
      using 5(3) read_cbor_head [of 5 "length kvs" e pre "?body @ post"]
      by (simp add: d read_body_def del: read_cbor.simps)
  qed
next
  case (6 b)
  then obtain e where d: "d = Suc e" by (cases d) simp_all
  show ?case by (simp add: reads_back_def d Let_def nth_append)
next
  case 7
  then obtain e where d: "d = Suc e" by (cases d) simp_all
  show ?case by (simp add: reads_back_def d Let_def nth_append)
qed

text \<open>A whole text, as the attestation object is read.\<close>

definition read_whole :: "nat \<Rightarrow> string \<Rightarrow> cbor result" where
  "read_whole depth raw = (case read_cbor depth raw 0 of
     Inl err \<Rightarrow> Inl err
   | Inr (v, i) \<Rightarrow> if i \<noteq> length raw then Inl (ValueError ''Invalid trailing bytes in attestation object'') else Inr v)"

interpretation cbor: nested_codec "\<lambda>v. cbor_ok v \<and> nesting v \<le> depth" cbor_write "read_whole depth"
    b64url_encode b64url_decode for depth
proof
  fix v assume v: "cbor_ok v \<and> nesting v \<le> depth"
  then have "read_cbor depth (pre @ cbor_write v @ post) (length pre) = Inr (v, length pre + length (cbor_write v))" for pre post
    using cbor_reads_back [of v depth] by (simp add: reads_back_def)
  from this [of "[]" "[]"] show "read_whole depth (cbor_write v) = Inr v" by (simp add: read_whole_def)
qed

lemma parse_attestation_whole:
  "parse_attestation_object depth s = (case (case b64url_decode s of Inl err \<Rightarrow> Inl err | Inr t \<Rightarrow> read_whole depth t) of
     Inl err \<Rightarrow> Inl err | Inr (CMap kvs) \<Rightarrow> Inr kvs | Inr _ \<Rightarrow> Inl (ValueError ''Invalid attestation object payload''))"
  by (auto simp: parse_attestation_object_def read_whole_def split: sum.split prod.split)

text \<open>
  C38 (roundtrip): the reader inverts the canonical encoding: a value with distinct keys, UTF-8 texts and
  64 bit numbers, written anywhere in a text, is read back with the offset after it, given stack for its
  nesting; so an attestation object survives its encoding as base64, and one byte more is refused.
\<close>

theorem cbor_roundtrip:
  assumes "cbor_ok v" and "nesting v \<le> depth"
  shows "read_cbor depth (pre @ cbor_write v @ post) (length pre) = Inr (v, length pre + length (cbor_write v))
    \<and> (v = CMap kvs \<longrightarrow> parse_attestation_object depth (b64url_encode (cbor_write v)) = Inr kvs
        \<and> parse_attestation_object depth (b64url_encode (cbor_write v @ [x]))
          = Inl (ValueError ''Invalid trailing bytes in attestation object''))"
proof -
  have r: "read_cbor depth (pre @ cbor_write v @ post) (length pre) = Inr (v, length pre + length (cbor_write v))"
    for pre post
    using cbor_reads_back [OF assms] by (simp add: reads_back_def)
  moreover have "parse_attestation_object depth (b64url_encode (cbor_write (CMap kvs))) = Inr kvs" if "v = CMap kvs"
    using cbor.whole.scan_render [of v depth] assms by (simp add: parse_attestation_whole that)
  moreover have "parse_attestation_object depth (b64url_encode (cbor_write v @ [x]))
      = Inl (ValueError ''Invalid trailing bytes in attestation object'')"
    using r [of "[]" "[x]"] by (simp add: parse_attestation_whole read_whole_def)
  ultimately show ?thesis by blast
qed

theorem cbor_roundtrip_witness:
  "parse_attestation_object 3 (b64url_encode (cbor_write (CMap [(CText ''fmt'', CText ''none''),
       (CText ''attStmt'', CMap []), (CText ''authData'', CBytes ''ab'')])))
   = Inr [(CText ''fmt'', CText ''none''), (CText ''attStmt'', CMap []), (CText ''authData'', CBytes ''ab'')]"
  by (rule conjunct2 [OF cbor_roundtrip [where pre = "[]" and post = "[]" and x = "CHR ''x''"],
        THEN mp, OF _ _ refl, THEN conjunct1])
    (simp_all add: hashable_def key_norm_def numeral_3_eq_3)

end
