(* ===== verification/PasskeyLaws.thy ===== *)
theory PasskeyLaws
  imports Passkeys WebauthnLaws AuthExample
begin

text \<open>
  What a login with a passkey proves, that its challenge works once, and what the checks leave open: the
  counter the client sends, and the key of a registration.
\<close>

section \<open>Lemmas\<close>

lemma res_bind_Inr: "res_bind r f = Inr y \<longleftrightarrow> (\<exists>x. r = Inr x \<and> f x = Inr y)"
  by (cases r) (simp_all add: res_bind_def)

lemma res_bind_simps [simp]: "res_bind (Inr x) f = f x" "res_bind (Inl err) f = Inl err"
  by (simp_all add: res_bind_def)

lemma require_Inr [simp]: "require b m = Inr y \<longleftrightarrow> b"
  by (simp add: require_def)

lemma require_True [simp]: "require True m = Inr ()"
  by (simp add: require_def)

lemma challenges_append_event: "challenges (append_event pf org a t n i p st db) = challenges db"
  by simp

lemma consume_Inr:
  "consume_challenge now u token purpose db = (Inr x', db') \<longleftrightarrow>
     (\<exists>x. challenge_rows u token purpose db = [x] \<and> ch_consumed_at x = None \<and> now \<le> ch_expires_at x
        \<and> x' = x\<lparr>ch_consumed_at := Some now\<rparr> \<and> db' = db\<lparr>challenges := row_put ch_id x' (challenges db)\<rparr>)"
  by (auto simp: consume_challenge_def Let_def scalar_one_or_none_Some split: sum.split option.split)

lemma challenge_rows_member:
  "challenge_rows u token purpose db = [x] \<Longrightarrow> x \<in> set (challenges db) \<and> ch_org x = us_org u
     \<and> ch_user x = us_id u \<and> ch_text x = token \<and> ch_purpose x = purpose"
  unfolding challenge_rows_def by (drule arg_cong [of _ _ set]) auto

section \<open>Login\<close>

text \<open>The evidence of a login: what had to hold of the database and of the request.\<close>

definition login_evidence ::
  "platform \<Rightarrow> webauthn_env \<Rightarrow> call \<Rightarrow> passkey_login \<Rightarrow> 'z auth_db_scheme \<Rightarrow> user \<Rightarrow> challenge \<Rightarrow> passkey \<Rightarrow> json \<Rightarrow> nat \<Rightarrow> bool" where
  "login_evidence pf env c r db u x k origin n \<longleftrightarrow>
     get_user_by_email (pl_email r) db = Some u \<and> us_active u
     \<and> challenge_rows u (pl_challenge r) ''passkey_login'' db = [x]
     \<and> ch_consumed_at x = None \<and> clock c 0 \<le> ch_expires_at x
     \<and> check_login pf env r = Inr (origin, n)
     \<and> users_passkey u (pl_credential_id r) db = [k]
     \<and> verify_assertion_signature pf env (pk_key k) (pl_authenticator_data r) (pl_client_data r) (pl_signature r) = Inr ()"

definition challenge_used :: "call \<Rightarrow> challenge \<Rightarrow> 'z auth_db_scheme \<Rightarrow> challenge list" where
  "challenge_used c x db = row_put ch_id (x\<lparr>ch_consumed_at := Some (clock c 0)\<rparr>) (challenges db)"

lemma login_shape:
  assumes "login_evidence pf env c r db u x k origin n"
  shows "if max (int n) (pl_sign_count r) < pk_sign_count k
         then fst (verify_passkey_login pf cr env c r db) = Inl (ValueError ''Passkey sign counter rollback detected'')
         else if us_org u = None then fst (verify_passkey_login pf cr env c r db) = Inl (IntegrityError ''audit_chain_events.org_id'')
         else \<exists>v db'. verify_passkey_login pf cr env c r db = (Inr v, db') \<and> us_id (fst v) = us_id u
           \<and> challenges db' = challenge_used c x db"
proof -
  let ?db = "db\<lparr>challenges := row_put ch_id (x\<lparr>ch_consumed_at := Some (clock c 0)\<rparr>) (challenges db)\<rparr>"
  note ev = assms [unfolded login_evidence_def]
  have "consume_challenge (clock c 0) u (pl_challenge r) ''passkey_login'' db = (Inr (x\<lparr>ch_consumed_at := Some (clock c 0)\<rparr>), ?db)"
    using ev by (simp add: consume_Inr)
  moreover have "scalar_one_or_none (users_passkey u (pl_credential_id r) ?db) = Inr (Some k)"
    using ev by (simp add: users_passkey_def)
  ultimately show ?thesis
    using ev by (auto simp: verify_passkey_login_def Let_def user_event_def challenge_used_def split: option.split)
qed

lemma login_has_evidence:
  assumes "verify_passkey_login pf cr env c r db = (Inr v, db')"
  obtains u x k origin n where "login_evidence pf env c r db u x k origin n"
proof -
  from assms obtain u where u: "get_user_by_email (pl_email r) db = Some u" "us_active u"
    by (auto simp: verify_passkey_login_def split: option.splits if_splits)
  with assms obtain x' db1 where c: "consume_challenge (clock c 0) u (pl_challenge r) ''passkey_login'' db = (Inr x', db1)"
    by (auto simp: verify_passkey_login_def split: prod.splits sum.splits)
  with u assms obtain origin n where l: "check_login pf env r = Inr (origin, n)"
    by (auto simp: verify_passkey_login_def split: sum.splits)
  with u c assms obtain k where k: "scalar_one_or_none (users_passkey u (pl_credential_id r) db1) = Inr (Some k)"
    by (auto simp: verify_passkey_login_def split: sum.splits option.splits)
  with u c l assms have "verify_assertion_signature pf env (pk_key k) (pl_authenticator_data r) (pl_client_data r)
      (pl_signature r) = Inr ()"
    by (auto simp: verify_passkey_login_def split: sum.splits)
  moreover from c have "users_passkey u (pl_credential_id r) db1 = users_passkey u (pl_credential_id r) db"
    by (auto simp: consume_Inr users_passkey_def)
  ultimately show thesis using that u l k c by (auto simp: login_evidence_def scalar_one_or_none_Some consume_Inr)
qed

text \<open>What was signed, and under which key: the checks of a login spelled out.\<close>

definition signed_login :: "platform \<Rightarrow> webauthn_env \<Rightarrow> passkey_login \<Rightarrow> json \<Rightarrow> bool" where
  "signed_login pf env r key \<longleftrightarrow> (\<exists>px py auth client raw sig origin flags n.
     jwk_coordinate ''x'' key = Inr px \<and> jwk_coordinate ''y'' key = Inr py \<and> wa_on_curve env px py
     \<and> b64url_decode (pl_authenticator_data r) = Inr auth
     \<and> parse_authenticator_data (pl_authenticator_data r) = Inr (b64url_encode (sha256_bytes pf (wa_rp_id env)), flags, n)
     \<and> odd flags \<and> parse_client_data env (pl_client_data r) = Inr (client, raw)
     \<and> json_get ''type'' JNull client = Inr (JStr ''webauthn.get'')
     \<and> json_get ''challenge'' JNull client = Inr (JStr (pl_challenge r))
     \<and> json_get ''origin'' (JStr []) client = Inr (JStr origin) \<and> origin \<in> set (wa_origins env @ [wa_frontend_url env])
     \<and> b64url_decode (pl_signature r) = Inr sig
     \<and> wa_ecdsa env px py sig (auth @ sha256_bytes pf raw))"

lemma login_evidence_signed:
  assumes "login_evidence pf env c r db u x k origin n"
  shows "signed_login pf env r (pk_key k)"
proof -
  from assms have login: "check_login pf env r = Inr (origin, n)"
    and sig: "verify_assertion_signature pf env (pk_key k) (pl_authenticator_data r) (pl_client_data r) (pl_signature r) = Inr ()"
    by (simp_all add: login_evidence_def)
  from login obtain client raw where client: "parse_client_data env (pl_client_data r) = Inr (client, raw)"
    "json_get ''type'' JNull client = Inr (JStr ''webauthn.get'')"
    "json_get ''challenge'' JNull client = Inr (JStr (pl_challenge r))"
    "json_get ''origin'' (JStr []) client = Inr origin" "origin_allowed env origin = Inr True"
    by (auto simp: check_login_def check_client_data_def res_bind_Inr)
  from login have "check_authenticator_data pf env False (pl_authenticator_data r) = Inr n"
    by (auto simp: check_login_def res_bind_Inr)
  then obtain flags where auth: "parse_authenticator_data (pl_authenticator_data r)
      = Inr (b64url_encode (sha256_bytes pf (wa_rp_id env)), flags, n)" "odd flags"
    by (auto simp: check_authenticator_data_def res_bind_Inr)
  from client(5) obtain site where site: "origin = JStr site" "site \<in> set (wa_origins env @ [wa_frontend_url env])"
    by (auto simp: origin_allowed_def split: json.splits)
  from sig obtain px py a s j w where "jwk_coordinate ''x'' (pk_key k) = Inr px" "jwk_coordinate ''y'' (pk_key k) = Inr py"
    "wa_on_curve env px py" "b64url_decode (pl_authenticator_data r) = Inr a" "b64url_decode (pl_signature r) = Inr s"
    "parse_client_data env (pl_client_data r) = Inr (j, w)" "wa_ecdsa env px py s (a @ sha256_bytes pf w)"
    by (auto simp: verify_assertion_signature_def res_bind_Inr)
  with client auth site show ?thesis unfolding signed_login_def by fastforce
qed

text \<open>
  C39 (safety): a login with a passkey succeeds only for an active user whose pending, unexpired challenge
  it answers, with checked client and authenticator data (their type, challenge, origin, relying party and
  the user's presence) and an ECDSA signature of both under the key of the user's own credential; and its challenge is used up: no later request that presents it, whoever sends it, succeeds
  on a database that still holds the row.
\<close>

theorem passkey_login_once:
  assumes "distinct (map ch_text (challenges db))"
    and "verify_passkey_login pf cr env c r db = (Inr v, db')"
    and "challenges dbn = challenges db' @ new" and "distinct (map ch_text (challenges dbn))"
    and "pl_challenge r' = pl_challenge r"
  shows "(\<exists>u x k origin n. login_evidence pf env c r db u x k origin n \<and> us_id (fst v) = us_id u
        \<and> signed_login pf env r (pk_key k))
    \<and> isl (fst (verify_passkey_login pf cr' env' c' r' dbn))"
proof
  from login_has_evidence [OF assms(2)] obtain u x k origin n where ev: "login_evidence pf env c r db u x k origin n" .
  from login_shape [OF ev, of cr] assms(2) have v: "us_id (fst v) = us_id u" "challenges db' = challenge_used c x db"
    by (simp_all split: if_splits)
  with ev login_evidence_signed [OF ev] show "\<exists>u x k origin n. login_evidence pf env c r db u x k origin n
      \<and> us_id (fst v) = us_id u \<and> signed_login pf env r (pk_key k)" by blast
  from ev have x: "x \<in> set (challenges db)" "ch_text x = pl_challenge r"
    by (auto simp: login_evidence_def dest: challenge_rows_member)
  let ?x = "x\<lparr>ch_consumed_at := Some (clock c 0)\<rparr>"
  have used: "?x \<in> set (challenges dbn)"
    using x(1) by (force simp: assms(3) v(2) challenge_used_def row_put_def)
  show "isl (fst (verify_passkey_login pf cr' env' c' r' dbn))"
  proof (rule ccontr)
    assume "\<not> isl (fst (verify_passkey_login pf cr' env' c' r' dbn))"
    then obtain w d where "verify_passkey_login pf cr' env' c' r' dbn = (Inr w, d)"
      by (metis isl_def old.prod.exhaust prod.collapse sum.exhaust)
    from login_has_evidence [OF this] obtain u' y k' o' n' where "login_evidence pf env' c' r' dbn u' y k' o' n'" .
    then have y: "y \<in> set (challenges dbn)" "ch_text y = pl_challenge r" "ch_consumed_at y = None"
      using assms(5) by (auto simp: login_evidence_def dest: challenge_rows_member)
    from assms(4) have inj: "inj_on ch_text (set (challenges dbn))" by (simp add: distinct_map)
    from inj_onD [OF inj _ y(1) used] x(2) y(2) have "y = ?x" by simp
    with y(3) show False by simp
  qed
qed

text \<open>
  The counter that detects cloned authenticators is taken from the signed data or
  from the request, whichever is larger. So a client whose signed counter is behind the stored one, which
  alone is refused, logs in by sending the stored counter next to it.
\<close>

theorem unsigned_counter_accepted:
  assumes "login_evidence pf env c r db u x k origin n" and "us_org u \<noteq> None"
    and "int n < pk_sign_count k" and "pl_sign_count r \<le> int n"
  shows "fst (verify_passkey_login pf cr env c r db) = Inl (ValueError ''Passkey sign counter rollback detected'')
    \<and> (\<exists>v. fst (verify_passkey_login pf cr env c (r\<lparr>pl_sign_count := pk_sign_count k\<rparr>) db) = Inr v)"
proof
  show "fst (verify_passkey_login pf cr env c r db) = Inl (ValueError ''Passkey sign counter rollback detected'')"
    using login_shape [OF assms(1), of cr] assms(3,4) by (simp add: max_def split: if_splits)
  have "login_evidence pf env c (r\<lparr>pl_sign_count := pk_sign_count k\<rparr>) db u x k origin n"
    using assms(1) by (simp add: login_evidence_def check_login_def)
  moreover have "\<not> max (int n) (pl_sign_count (r\<lparr>pl_sign_count := pk_sign_count k\<rparr>)) < pk_sign_count k" by simp
  ultimately show "\<exists>v. fst (verify_passkey_login pf cr env c (r\<lparr>pl_sign_count := pk_sign_count k\<rparr>) db) = Inr v"
    using login_shape [of pf env c "r\<lparr>pl_sign_count := pk_sign_count k\<rparr>" db u x k origin n cr] assms(2)
    by (metis fst_conv)
qed

text \<open>An environment and a database in which a login can succeed; the stored counter is 7.\<close>

definition toy_env :: webauthn_env where
  "toy_env = \<lparr>wa_json_loads = (\<lambda>s. Some (JDict [(''type'', JStr ''webauthn.get''), (''challenge'', JStr ''t''),
       (''origin'', JStr ''o'')])), wa_load_cert = (\<lambda>s. None), wa_verify_cert = (\<lambda>k s d. False),
     wa_on_curve = (\<lambda>x y. True), wa_ecdsa = (\<lambda>x y s d. s = ''s''), wa_depth = 100, wa_rp_id = ''rp'',
     wa_origins = [''o''], wa_frontend_url = ''f''\<rparr>"

definition toy_passkey :: passkey where
  "toy_passkey = \<lparr>pk_id = 3, pk_org = 1, pk_user = 5, pk_credential = ''c'',
     pk_key = JDict [(''kty'', JStr ''EC''), (''crv'', JStr ''P-256''), (''x'', JStr (b64url_encode ''a'')),
       (''y'', JStr (b64url_encode ''b''))],
     pk_sign_count = 7, pk_transports = [], pk_created_at = 0, pk_last_used_at = None\<rparr>"

definition toy_challenge :: challenge where
  "toy_challenge = \<lparr>ch_id = 4, ch_org = Some 1, ch_user = 5, ch_text = ''t'', ch_purpose = ''passkey_login'',
     ch_expires_at = 10, ch_consumed_at = None\<rparr>"

definition toy_passkey_db :: auth_db where
  "toy_passkey_db = toy_db\<lparr>challenges := [toy_challenge], passkeys := [toy_passkey]\<rparr>"

definition toy_login :: "nat \<Rightarrow> passkey_login" where
  "toy_login n = \<lparr>pl_email = ''u@x'', pl_challenge = ''t'', pl_credential_id = ''c'',
     pl_client_data = b64url_encode ''x'',
     pl_authenticator_data = b64url_encode (sha256_bytes toy_platform ''rp'' @ CHR 0x01 # be_bytes 4 n),
     pl_signature = b64url_encode ''s'', pl_sign_count = 0\<rparr>"

lemma check_built_data:
  assumes "n < 2 ^ 32"
  shows "check_authenticator_data pf env False (b64url_encode (sha256_bytes pf (wa_rp_id env) @ CHR 0x01 # be_bytes 4 n)) = Inr n"
proof -
  let ?h = "sha256_bytes pf (wa_rp_id env)"
  have h: "length ?h = 32" by (simp add: sha256_bytes_def)
  have "sub_bytes (?h @ CHR 0x01 # be_bytes 4 n) 33 4 = be_bytes 4 n"
    using sub_bytes_mid [of "?h @ [CHR 0x01]" "be_bytes 4 n" "[]"] h by simp
  then show ?thesis
    using h be_value_bytes [of n 4] assms
    by (simp add: check_authenticator_data_def parse_authenticator_data_def nth_append)
qed

lemma toy_login_evidence:
  assumes "n < 2 ^ 32"
  shows "login_evidence toy_platform toy_env toy_call (toy_login n) toy_passkey_db toy_user toy_challenge toy_passkey
    (JStr ''o'') n"
proof -
  have rp: "wa_rp_id toy_env = ''rp''" by (simp add: toy_env_def)
  note data = check_built_data [OF assms, of toy_platform toy_env, unfolded rp]
  have client: "parse_client_data toy_env (b64url_encode ''x'')
      = Inr (JDict [(''type'', JStr ''webauthn.get''), (''challenge'', JStr ''t''), (''origin'', JStr ''o'')], ''x'')"
    by (simp add: parse_client_data_def utf8_decode_def toy_env_def del: b64url_encode.simps)
  have "check_login toy_platform toy_env (toy_login n) = Inr (JStr ''o'', n)"
    by (simp add: check_login_def check_client_data_def toy_login_def client data json_get_def origin_allowed_def
        require_def del: b64url_encode.simps) (simp add: toy_env_def)
  moreover have "verify_assertion_signature toy_platform toy_env (pk_key toy_passkey) (pl_authenticator_data (toy_login n))
      (pl_client_data (toy_login n)) (pl_signature (toy_login n)) = Inr ()"
    by (simp add: verify_assertion_signature_def toy_login_def toy_passkey_def client json_get_def jwk_coordinate_def
        require_def del: b64url_encode.simps) (simp add: toy_env_def)
  ultimately show ?thesis
    by (simp add: login_evidence_def toy_login_def toy_passkey_db_def toy_db_def get_user_by_email_def row_find_def
        challenge_rows_def toy_challenge_def toy_call_def users_passkey_def toy_passkey_def del: b64url_encode.simps)
qed

theorem unsigned_counter_accepted_witness:
  "\<exists>v. fst (verify_passkey_login toy_platform toy_crypto toy_env toy_call
     ((toy_login 2)\<lparr>pl_sign_count := pk_sign_count toy_passkey\<rparr>) toy_passkey_db) = Inr v"
  by (rule conjunct2 [OF unsigned_counter_accepted [OF toy_login_evidence, of 2]])
    (simp_all add: toy_passkey_def toy_login_def del: b64url_encode.simps)

theorem passkey_login_once_witness:
  "\<exists>v d. verify_passkey_login toy_platform toy_crypto toy_env toy_call (toy_login 9) toy_passkey_db = (Inr v, d)
     \<and> isl (fst (verify_passkey_login toy_platform toy_crypto toy_env toy_call (toy_login 10) d))"
proof -
  have ev: "login_evidence toy_platform toy_env toy_call (toy_login 9) toy_passkey_db toy_user toy_challenge
      toy_passkey (JStr ''o'') 9" by (rule toy_login_evidence) simp
  have counts: "pk_sign_count toy_passkey = 7" "pl_sign_count (toy_login 9) = 0"
    by (simp_all add: toy_passkey_def toy_login_def del: b64url_encode.simps)
  from login_shape [OF ev, of toy_crypto] counts obtain v d
    where r: "verify_passkey_login toy_platform toy_crypto toy_env toy_call (toy_login 9) toy_passkey_db = (Inr v, d)"
      and ch: "challenges d = challenge_used toy_call toy_challenge toy_passkey_db" by auto
  have "isl (fst (verify_passkey_login toy_platform toy_crypto toy_env toy_call (toy_login 10) d))"
    by (rule conjunct2 [OF passkey_login_once [OF _ r, where new = "[]" and dbn = d]])
      (simp_all add: ch challenge_used_def row_put_def toy_passkey_db_def toy_login_def del: b64url_encode.simps)
  with r show ?thesis by blast
qed

section \<open>Registration\<close>

text \<open>
  The public key of a registration is taken from the request; neither attestation
  format compares it with the key in the attested authenticator data. So an accepted registration is
  accepted with any other key as well, and that key is what logins are checked against.
\<close>

theorem registration_ignores_key:
  "fst (verify_passkey_registration pf env c u (r\<lparr>pr_key := j\<rparr>) db)
     = map_sum id (\<lambda>k. k\<lparr>pk_key := j\<rparr>) (fst (verify_passkey_registration pf env c u r db))"
proof -
  have "check_registration pf env (r\<lparr>pr_key := j\<rparr>) = check_registration pf env r"
    by (simp add: check_registration_def cong: option.case_cong)
  then show ?thesis
    by (auto simp: verify_passkey_registration_def Let_def new_passkey_def split: prod.split sum.split option.split)
qed

end
