(* ===== verification/OidcLaws.thy ===== *)
theory OidcLaws
  imports Oidc AccountLaws PasskeyLaws
begin

text \<open>
  Laws of the sign-in through Azure: the search for a slug ends, a new address always gets a workspace,
  what a sign-in proves, and what it does not when no tenant is configured.
\<close>

section \<open>New accounts\<close>

lemma free_slug_found:
  "1 \<le> i \<Longrightarrow> slug_at base (free_slug base taken i) \<notin> set taken \<and> i \<le> free_slug base taken i
     \<and> (\<forall>j. i \<le> j \<and> j < free_slug base taken i \<longrightarrow> slug_at base j \<in> set taken)"
proof (induction base taken i rule: free_slug.induct)
  case (1 base taken i)
  show ?case
  proof (cases "slug_at base i \<in> set taken")
    case True
    with 1(2) have eq: "free_slug base taken i = free_slug base taken (i + 1)" by (simp add: free_slug.simps)
    have rec: "slug_at base (free_slug base taken (i + 1)) \<notin> set taken" "i + 1 \<le> free_slug base taken (i + 1)"
      "\<And>j. i + 1 \<le> j \<Longrightarrow> j < free_slug base taken (i + 1) \<Longrightarrow> slug_at base j \<in> set taken"
      using 1(1) 1(2) True by auto
    have "slug_at base j \<in> set taken" if "i \<le> j" "j < free_slug base taken (i + 1)" for j
      using rec(3) [of j] True that by (cases "j = i") simp_all
    with rec show ?thesis by (simp add: eq)
  qed (use 1(2) in \<open>auto simp: free_slug.simps\<close>)
qed

lemma free_slug_bound: "free_slug base taken 1 \<le> length taken + 1"
proof -
  let ?r = "free_slug base taken 1"
  have "slug_at base ` {1..<?r} \<subseteq> set taken" using free_slug_found [of 1 base taken] by auto
  moreover have "inj_on (slug_at base) {1..<?r}" using slug_at_inj by (auto intro!: inj_onI)
  ultimately have "card {1..<?r} \<le> card (set taken)" by (metis card_image card_mono List.finite_set)
  with card_length [of taken] show ?thesis by simp
qed

text \<open>
  The search for a free slug tries at most one candidate more than there are
  workspaces and stops at the first free one; so a sign-in with a new address never fails on the unique
  slug: it creates a workspace and its administrator, and the accounts stay consistent.
\<close>

theorem oidc_provisioning:
  assumes new: "get_user_by_email email db = None" and ok: "accounts_ok db"
    and ids: "fresh c 0 \<notin> og_id ` set (orgs db)" "fresh c 1 \<notin> us_id ` set (users db)"
  shows "\<exists>g u. ensure_oidc_user cr c salt noise email full_name db
      = (Inr u, db\<lparr>orgs := orgs db @ [g], users := users db @ [u]\<rparr>)
    \<and> us_email u = email \<and> us_role u = ADMIN \<and> us_org u = Some (og_id g)
    \<and> og_slug g \<notin> og_slug ` set (orgs db)
    \<and> (\<exists>i \<le> length (orgs db) + 1. og_slug g = slug_at (''oidc-'' @ slugify (email_domain email)) i)
    \<and> og_lifecycle g = ACTIVE \<and> og_suspended_at g = None \<and> og_suspended_reason g = None
    \<and> accounts_ok (snd (ensure_oidc_user cr c salt noise email full_name db))"
proof -
  let ?base = "''oidc-'' @ slugify (email_domain email)"
  let ?i = "free_slug ?base (map og_slug (orgs db)) 1"
  let ?g = "blank_org (fresh c 0) (email_domain email @ '' Workspace'') (slug_at ?base ?i)"
  let ?u = "blank_user (fresh c 1) (Some (fresh c 0)) email
     (case full_name of Some (a # n) \<Rightarrow> a # n | _ \<Rightarrow> email_local email) (pw_hash cr salt noise) ADMIN (clock c 0)"
  let ?d = "db\<lparr>orgs := row_add ?g (orgs db)\<rparr>"
  have g: "og_id ?g = fresh c 0" "og_slug ?g = slug_at ?base ?i" "og_quota ?g = 10" "og_lifecycle ?g = ACTIVE"
    "og_suspended_at ?g = None" "og_suspended_reason ?g = None" by (simp_all add: blank_org_def)
  have u: "us_email ?u = email" "us_role ?u = ADMIN" "us_org ?u = Some (fresh c 0)" "us_id ?u = fresh c 1"
    by (simp_all add: blank_user_def)
  have free: "slug_at ?base ?i \<notin> og_slug ` set (orgs db)" using free_slug_found [of 1 ?base "map og_slug (orgs db)"] by simp
  have "email \<notin> us_email ` set (users db)" using new by (simp add: get_user_by_email_def row_find_None)
  then have r: "ensure_oidc_user cr c salt noise email full_name db
      = (Inr ?u, db\<lparr>orgs := orgs db @ [?g], users := users db @ [?u]\<rparr>)"
    using free by (simp add: ensure_oidc_user_def Let_def new insert_org_def insert_user_def g u row_add_def)
  note org = new_org_ok [OF ok, of ?g, unfolded g(1), OF ids(1)]
  have "accounts_ok (snd (insert_user ?u ?d))"
  proof (rule insert_user_ok [OF org(2)])
    show "us_id ?u \<notin> us_id ` set (users ?d)" using ids(2) by (simp add: u)
    show "\<forall>g\<in>set (orgs ?d). us_org ?u = Some (og_id g) \<longrightarrow> int (active_members (og_id g) ?d) < og_quota g"
      using org(1) ids(1) by (auto simp: u g row_add_def)
  qed (simp add: g)
  moreover have "snd (insert_user ?u ?d) = db\<lparr>orgs := orgs db @ [?g], users := users db @ [?u]\<rparr>"
    using new by (simp add: insert_user_def u g row_add_def get_user_by_email_def row_find_None)
  ultimately show ?thesis
    using r free free_slug_bound [of ?base "map og_slug (orgs db)"]
    by (intro exI [of _ ?g] exI [of _ ?u]) (auto simp: g u)
qed

section \<open>What a sign-in proves\<close>

lemma callback_ok:
  "login_with_azure_oidc_callback pf cr env c salt noise code state (db, cache) = (Inr r, s') \<longleftrightarrow>
     (\<exists>claims. azure_claims cr env c code state cache = (Inr claims, snd s')
        \<and> azure_session pf cr c salt noise (Inr claims) db = (Inr r, fst s'))"
proof -
  have no: "azure_session pf cr c salt noise (Inl err) db = (Inl err, db)" for err by (simp add: azure_session_def)
  obtain x cache' where x: "azure_claims cr env c code state cache = (x, cache')" by force
  show ?thesis
    using no by (cases s'; cases x) (auto simp: login_with_azure_oidc_callback_def x split: prod.splits)
qed

lemma azure_claims_ok:
  "azure_claims cr env c code state cache = (Inr (email, name), cache') \<longleftrightarrow>
     (\<exists>nonce id_token jwks claims. nonce_of_state cr env (clock c 0) state = Inr nonce
        \<and> exchange_code env code = Inr id_token \<and> fetch_azure_jwks env (clock c 1) cache = (Inr jwks, cache')
        \<and> verify_azure_id_token env id_token jwks nonce = Inr claims
        \<and> email_claim claims = Inr email \<and> name_claim claims = name)"
  by (auto simp: azure_claims_def res_bind_Inr split: prod.splits sum.splits)

lemma fetched_keys:
  assumes "fetch_azure_jwks env now cache = (Inr jwks, cache')"
  shows "jc_data cache = Some jwks \<and> now - jc_fetched_at cache < oi_ttl env * 1000000
    \<or> (\<exists>status body. oi_fetch env = Inr (status, body, Inr jwks) \<and> status < 400)"
  using assms by (auto simp: fetch_azure_jwks_def Let_def not_le split: option.splits sum.splits prod.splits
    if_splits json.splits)

lemma found_key:
  "find_key kid ks = Inr key \<Longrightarrow> json_truthy key \<Longrightarrow> key \<in> set ks \<and> json_get ''kid'' JNull key = Inr kid"
  by (induction kid ks rule: find_key.induct) (auto simp: json_truthy_def split: sum.splits if_splits)

lemma signing_key_found:
  assumes "signing_key header jwks = Inr key"
  shows "\<exists>ks. json_get ''keys'' (JList []) jwks = Inr (JList ks) \<and> key \<in> set ks
    \<and> json_get ''kid'' JNull key = Inr (dict_get ''kid'' JNull header)"
proof -
  let ?kid = "dict_get ''kid'' JNull header"
  obtain keys where keys: "json_get ''keys'' (JList []) jwks = Inr keys"
    "(case keys of JList ks \<Rightarrow> find_key ?kid ks | _ \<Rightarrow> Inl (TypeError ''not iterable'')) = Inr key" "json_truthy key"
    using assms by (auto simp: signing_key_def res_bind_Inr split: if_splits)
  then obtain ks where "keys = JList ks" "find_key ?kid ks = Inr key" by (cases keys) auto
  with keys found_key show ?thesis by blast
qed

lemma verified_claims:
  assumes "verify_azure_id_token env id_token jwks nonce = Inr claims"
  shows "\<exists>t header key alg. id_token = JStr t \<and> oi_header env t = Some header
    \<and> dict_get ''alg'' (JStr ''RS256'') header = JStr alg \<and> alg \<in> set RSA_ALGS
    \<and> signing_key header jwks = Inr key \<and> oi_decode env t key alg (oi_client_id env) = Inr claims
    \<and> check_issuer (tenant env) claims = Inr () \<and> dict_get ''nonce'' JNull claims = JStr nonce"
proof -
  from assms obtain t header alg key where "id_token = JStr t" "oi_header env t = Some header"
    "signing_alg header = Inr alg" "signing_key header jwks = Inr key" "decode_id_token env t key alg = Inr claims"
    "check_issuer (tenant env) claims = Inr ()" "dict_get ''nonce'' JNull claims = JStr nonce"
    by (auto simp: verify_azure_id_token_def res_bind_Inr split: option.splits json.splits)
  then show ?thesis
    by (auto simp: signing_alg_def decode_id_token_def split: json.splits if_splits sum.splits)
qed

lemma checked_issuer:
  "check_issuer tn claims = Inr () \<Longrightarrow> \<exists>iss. dict_get ''iss'' (JStr []) claims = JStr iss
     \<and> (if tn = ''common'' then py_startswith iss AZURE \<and> py_endswith iss ''/v2.0'' else iss = AZURE @ tn @ ''/v2.0'')"
  by (auto simp: check_issuer_def Let_def split: json.splits if_splits)

lemma ensure_oidc_user_email:
  assumes "ensure_oidc_user cr c salt noise email full_name db = (Inr u, db')"
  shows "us_email u = email \<and> us_active u"
proof (cases "get_user_by_email email db")
  case (Some v)
  with assms show ?thesis by (auto simp: ensure_oidc_user_def dest: get_user_by_email_Some split: if_splits)
qed (use assms in \<open>auto simp: ensure_oidc_user_def Let_def insert_org_def insert_user_def blank_user_def
    split: if_splits option.splits list.splits\<close>)

lemma azure_session_user:
  assumes "azure_session pf cr c salt noise (Inr (email, name)) db = (Inr (u, t), db')"
  shows "us_email u = email \<and> us_active u"
proof -
  from assms obtain w d where w: "ensure_oidc_user cr (c\<lparr>clock := (\<lambda>i. clock c (i + 2))\<rparr>) salt noise email name db = (Inr w, d)"
    and u: "u = w\<lparr>us_last_login := Some (clock c 3)\<rparr>"
    by (auto simp: azure_session_def Let_def split: sum.splits prod.splits)
  show ?thesis using ensure_oidc_user_email [OF w] by (simp add: u)
qed

text \<open>
  C40 (safety): a sign-in succeeds only with a state token this service signed for Azure and not expired,
  and an identity token that names an RSA algorithm and the identifier of a key of Azure's key set, as it
  was just fetched or cached for less than the configured time, and that the library accepted under that
  very key for this client. Its issuer is the directory of the configured tenant, with no tenant some
  directory of Azure, it carries the nonce of that state, and the session opened is that of the active
  user with the first address of the token's three address claims.
\<close>

theorem oidc_login_evidence:
  assumes "login_with_azure_oidc_callback pf cr env c salt noise code state (db, cache) = (Inr (u, t), s')"
  shows "\<exists>p nonce id_token header jwks keys key alg claims iss.
      jwt_decode cr (clock c 0) state = Some p \<and> cl_type p = ''oidc_state'' \<and> cl_provider p = Some ''azure''
    \<and> cl_nonce p = Some nonce \<and> nonce \<noteq> [] \<and> exchange_code env code = Inr (JStr id_token)
    \<and> (jc_data cache = Some jwks \<and> clock c 1 - jc_fetched_at cache < oi_ttl env * 1000000
        \<or> (\<exists>status body. oi_fetch env = Inr (status, body, Inr jwks) \<and> status < 400))
    \<and> json_get ''keys'' (JList []) jwks = Inr (JList keys) \<and> key \<in> set keys
    \<and> oi_header env id_token = Some header \<and> json_get ''kid'' JNull key = Inr (dict_get ''kid'' JNull header)
    \<and> dict_get ''alg'' (JStr ''RS256'') header = JStr alg \<and> alg \<in> {''RS256'', ''RS384'', ''RS512''}
    \<and> oi_decode env id_token key alg (oi_client_id env) = Inr claims
    \<and> dict_get ''iss'' (JStr []) claims = JStr iss
    \<and> (if tenant env = ''common'' then py_startswith iss AZURE \<and> py_endswith iss ''/v2.0''
       else iss = AZURE @ tenant env @ ''/v2.0'')
    \<and> dict_get ''nonce'' JNull claims = JStr nonce
    \<and> first_truthy (map (\<lambda>k. dict_get k JNull claims) [''preferred_username'', ''email'', ''upn'']) = JStr (us_email u)
    \<and> us_active u"
proof -
  from assms obtain email name where a: "azure_claims cr env c code state cache = (Inr (email, name), snd s')"
    and session: "azure_session pf cr c salt noise (Inr (email, name)) db = (Inr (u, t), fst s')"
    by (auto simp: callback_ok)
  from a obtain nonce id_token jwks claims where n: "nonce_of_state cr env (clock c 0) state = Inr nonce"
    and x: "exchange_code env code = Inr id_token" and f: "fetch_azure_jwks env (clock c 1) cache = (Inr jwks, snd s')"
    and v: "verify_azure_id_token env id_token jwks nonce = Inr claims" and e: "email_claim claims = Inr email"
    by (auto simp: azure_claims_ok)
  from n obtain p where p: "jwt_decode cr (clock c 0) state = Some p" "cl_type p = ''oidc_state''"
    "cl_provider p = Some ''azure''" "cl_nonce p = Some nonce" "nonce \<noteq> []"
    by (auto simp: nonce_of_state_def split: option.splits if_splits list.splits)
  from verified_claims [OF v] obtain i header key alg where k: "id_token = JStr i" "oi_header env i = Some header"
    "dict_get ''alg'' (JStr ''RS256'') header = JStr alg" "alg \<in> set RSA_ALGS" "signing_key header jwks = Inr key"
    "oi_decode env i key alg (oi_client_id env) = Inr claims" "check_issuer (tenant env) claims = Inr ()"
    "dict_get ''nonce'' JNull claims = JStr nonce" by blast
  obtain keys where keys: "json_get ''keys'' (JList []) jwks = Inr (JList keys)" "key \<in> set keys"
    "json_get ''kid'' JNull key = Inr (dict_get ''kid'' JNull header)" using signing_key_found [OF k(5)] by blast
  obtain iss where iss: "dict_get ''iss'' (JStr []) claims = JStr iss"
    "if tenant env = ''common'' then py_startswith iss AZURE \<and> py_endswith iss ''/v2.0''
       else iss = AZURE @ tenant env @ ''/v2.0''" using checked_issuer [OF k(7)] by blast
  have mail: "first_truthy (map (\<lambda>k. dict_get k JNull claims) [''preferred_username'', ''email'', ''upn'']) = JStr (us_email u)"
    using e azure_session_user [OF session] by (auto simp: email_claim_def split: json.splits)
  show ?thesis
    by (rule exI [of _ p], rule exI [of _ nonce], rule exI [of _ i], rule exI [of _ header], rule exI [of _ jwks],
      rule exI [of _ keys], rule exI [of _ key], rule exI [of _ alg], rule exI [of _ claims], rule exI [of _ iss])
      (use p x k keys iss mail fetched_keys [OF f] azure_session_user [OF session] in \<open>simp add: RSA_ALGS_def\<close>)
qed

text \<open>The same provider, but every token it accepts comes from the given directory.\<close>

definition from_directory :: "string \<Rightarrow> oidc_env \<Rightarrow> oidc_env" where
  "from_directory directory env = env\<lparr>oi_decode := (\<lambda>t k a aud.
     map_sum id (\<lambda>claims. (''iss'', JStr (AZURE @ directory @ ''/v2.0'')) # claims) (oi_decode env t k a aud))\<rparr>"

text \<open>
  Without a configured tenant the issuer of a token only has to look like one of
  Azure's, and nothing else about it is compared or stored: a sign-in that opens an account opens the same
  account when the token was issued by any other directory, although the address in it is that
  directory's to choose.
\<close>

theorem any_directory_signs_in:
  assumes "oi_tenant_id env = []"
    and "login_with_azure_oidc_callback pf cr env c salt noise code state s = (Inr r, s')"
  shows "login_with_azure_oidc_callback pf cr (from_directory directory env) c salt noise code state s = (Inr r, s')"
proof -
  let ?env = "from_directory directory env"
  let ?iss = "(''iss'', JStr (AZURE @ directory @ ''/v2.0''))"
  have same: "oi_exchange ?env = oi_exchange env" "oi_fetch ?env = oi_fetch env" "oi_ttl ?env = oi_ttl env"
    "oi_header ?env = oi_header env" "oi_client_id ?env = oi_client_id env" "tenant ?env = ''common''"
    "tenant env = ''common''" "oi_expired ?env = oi_expired env"
    using assms(1) by (simp_all add: from_directory_def tenant_def)
  have iss: "check_issuer ''common'' (?iss # claims) = Inr ()" for claims
    by (simp add: check_issuer_def dict_get_def py_endswith_def)
  have other: "dict_get k d (?iss # claims) = dict_get k d claims" if "k \<noteq> ''iss''" for k d claims
    using that by (simp add: dict_get_def)
  have verified: "verify_azure_id_token ?env t jwks nonce = Inr (?iss # claims)"
    if v: "verify_azure_id_token env t jwks nonce = Inr claims" for t jwks nonce claims
  proof -
    from v obtain i header alg key where h: "t = JStr i" "oi_header env i = Some header" "signing_alg header = Inr alg"
      "signing_key header jwks = Inr key" "decode_id_token env i key alg = Inr claims"
      "dict_get ''nonce'' JNull claims = JStr nonce"
      by (auto simp: verify_azure_id_token_def res_bind_Inr split: option.splits json.splits)
    then have "decode_id_token ?env i key alg = Inr (?iss # claims)"
      by (auto simp: decode_id_token_def from_directory_def split: sum.splits)
    with h iss show ?thesis by (simp add: verify_azure_id_token_def same other)
  qed
  obtain db cache where s: "s = (db, cache)" by force
  obtain email name where a: "azure_claims cr env c code state cache = (Inr (email, name), snd s')"
    and session: "azure_session pf cr c salt noise (Inr (email, name)) db = (Inr r, fst s')"
    using assms(2) by (auto simp: s callback_ok)
  then obtain nonce t jwks claims where steps: "nonce_of_state cr env (clock c 0) state = Inr nonce"
    "exchange_code env code = Inr t" "fetch_azure_jwks env (clock c 1) cache = (Inr jwks, snd s')"
    "verify_azure_id_token env t jwks nonce = Inr claims" "email_claim claims = Inr email" "name_claim claims = name"
    by (auto simp: azure_claims_ok)
  moreover have "exchange_code ?env = exchange_code env" "fetch_azure_jwks ?env = fetch_azure_jwks env"
    "nonce_of_state cr ?env = nonce_of_state cr env"
    unfolding exchange_code_def fetch_azure_jwks_def nonce_of_state_def same by (rule refl)+
  moreover have "email_claim (?iss # claims) = email_claim claims" "name_claim (?iss # claims) = name_claim claims"
    by (simp_all add: email_claim_def name_claim_def other)
  ultimately have "azure_claims cr ?env c code state cache = (Inr (email, name), snd s')"
    unfolding azure_claims_ok using verified [OF steps(4)] by auto
  with session show ?thesis by (auto simp: s callback_ok)
qed

section \<open>Instances\<close>

definition toy_oidc :: oidc_env where
  "toy_oidc = \<lparr>oi_tenant_id = [], oi_client_id = ''id'', oi_redirect = [], oi_scopes = [], oi_ttl = 300,
     oi_urlencode = (\<lambda>kvs. []), oi_exchange = (\<lambda>code. Inr (200, [], Inr (JDict [(''id_token'', JStr code)]))),
     oi_fetch = Inr (200, [], Inr (JDict [(''keys'', JList [JDict [(''kid'', JStr ''k'')]])])),
     oi_header = (\<lambda>t. Some [(''kid'', JStr ''k'')]),
     oi_decode = (\<lambda>t k a aud. Inr [(''iss'', JStr (AZURE @ ''a/v2.0'')), (''nonce'', JStr ''n''), (''email'', JStr t)]),
     oi_expired = (\<lambda>now t. False)\<rparr>"

definition toy_state :: string where
  "toy_state = jwt_encode toy_crypto (state_claims 0 ''n'')"

lemma toy_nonce: "nonce_of_state toy_crypto env 0 toy_state = Inr ''n''"
proof -
  have "jwt_decode toy_crypto 0 toy_state = Some (state_claims 0 ''n'')"
    using toy_jwt by (simp add: jwt_ok_def toy_state_def state_claims_def seconds_def minutes_us_def)
  then show ?thesis by (simp add: nonce_of_state_def state_claims_def)
qed

lemma toy_sign_in:
  "\<exists>v t s. login_with_azure_oidc_callback toy_platform toy_crypto toy_oidc toy_call [] [] ''u@x'' toy_state
     (toy_db, \<lparr>jc_data = None, jc_fetched_at = 0\<rparr>) = (Inr (v, t), s) \<and> us_id v = 5"
proof -
  have "\<exists>cache. azure_claims toy_crypto toy_oidc toy_call ''u@x'' toy_state \<lparr>jc_data = None, jc_fetched_at = 0\<rparr>
      = (Inr (''u@x'', None), cache)"
    by (simp add: azure_claims_def res_bind_def toy_call_def toy_nonce exchange_code_def toy_oidc_def json_get_def json_truthy_def
        fetch_azure_jwks_def verify_azure_id_token_def signing_alg_def signing_key_def decode_id_token_def dict_get_def RSA_ALGS_def check_issuer_def tenant_def
        py_endswith_def AZURE_def email_claim_def first_truthy_def name_claim_def require_def py_startswith_def)
  then show ?thesis
    by (auto simp: login_with_azure_oidc_callback_def azure_session_def ensure_oidc_user_def get_user_by_email_def
        row_find_def toy_db_def user_event_def Let_def)
qed

theorem any_directory_signs_in_witness:
  "\<exists>v t s. login_with_azure_oidc_callback toy_platform toy_crypto (from_directory ''evil'' toy_oidc) toy_call [] []
     ''u@x'' toy_state (toy_db, \<lparr>jc_data = None, jc_fetched_at = 0\<rparr>) = (Inr (v, t), s) \<and> us_id v = 5"
proof -
  from toy_sign_in obtain v t s where r: "login_with_azure_oidc_callback toy_platform toy_crypto toy_oidc toy_call [] []
      ''u@x'' toy_state (toy_db, \<lparr>jc_data = None, jc_fetched_at = 0\<rparr>) = (Inr (v, t), s)" and v: "us_id v = 5" by blast
  have "oi_tenant_id toy_oidc = []" by (simp add: toy_oidc_def)
  from any_directory_signs_in [OF this r] v show ?thesis by blast
qed

theorem oidc_login_evidence_witness:
  "\<exists>p. jwt_decode toy_crypto (clock toy_call 0) toy_state = Some p \<and> cl_type p = ''oidc_state''"
proof -
  from toy_sign_in obtain v t s where r: "login_with_azure_oidc_callback toy_platform toy_crypto toy_oidc toy_call [] []
      ''u@x'' toy_state (toy_db, \<lparr>jc_data = None, jc_fetched_at = 0\<rparr>) = (Inr (v, t), s)" by blast
  from oidc_login_evidence [OF r] show ?thesis by blast
qed

theorem oidc_provisioning_witness:
  "\<exists>g u. ensure_oidc_user toy_crypto toy_call [] [] ''v@y'' None empty_auth_db
     = (Inr u, empty_auth_db\<lparr>orgs := [g], users := [u]\<rparr>) \<and> us_email u = ''v@y''"
proof -
  have "get_user_by_email ''v@y'' empty_auth_db = None" "accounts_ok empty_auth_db"
    by (simp_all add: get_user_by_email_def empty_auth_db_def row_find_def accounts_ok_def quota_kept_def)
  from oidc_provisioning [OF this, of toy_call toy_crypto "[]" "[]" None] show ?thesis
    by (simp add: empty_auth_db_def) blast
qed

end
