(* ===== verification/MembershipLaws.thy ===== *)
theory MembershipLaws
  imports WorkspaceLaws OidcLaws
begin

text \<open>
  One relation for everything that writes the tables of users and of workspaces: the five ways an account
  comes into being, the operations on accounts, passwords, second factors and passkeys, and the actions on
  the lifecycle of workspaces. Over any sequence of them the accounts stay consistent and no workspace
  leaves its archive.
\<close>

section \<open>More operations that add or edit accounts\<close>

lemma get_by_token_tables:
  assumes "get_by_token now token db = (r, db')"
  shows "users db' = users db" and "orgs db' = orgs db"
  using assms by (auto simp: get_by_token_def put_invite_def Let_def split: option.splits if_splits)

lemma append_event_ok: "accounts_ok db \<Longrightarrow> accounts_ok (append_event pf org a kind entity eid p st db)"
  by (rule edits_user_ok [OF _ edits_same]) simp_all

lemma accept_invite_ok:
  assumes ok: "accounts_ok db" and new: "fresh c 0 \<notin> us_id ` set (users db)"
  shows "accounts_ok (snd (accept_invite pf cr c salt token req db)) \<and> orgs (snd (accept_invite pf cr c salt token req db)) = orgs db"
proof -
  obtain f d where f: "get_by_token (clock c 0) token db = (f, d)" by fastforce
  note t = get_by_token_tables [OF f]
  have okd: "accounts_ok d" using edits_user_ok [OF ok edits_same] t by blast
  show ?thesis
  proof (cases "\<exists>i g. f = Inr i \<and> get_org (in_org i) d = Some g \<and> \<not> og_quota g \<le> int (active_members (in_org i) d)")
    case False
    then show ?thesis using t okd
      by (auto simp: accept_invite_def f Let_def split: sum.splits option.splits)
  next
    case True
    then obtain i g where i: "f = Inr i" and g: "get_org (in_org i) d = Some g"
      and quota: "int (active_members (in_org i) d) < og_quota g" by auto
    define u where "u = (blank_user (fresh c 0) (Some (in_org i)) (in_email i) (ia_full_name req)
       (pw_hash cr salt (ia_password req)) (in_role i) (clock c 1))
       \<lparr>us_terms_accepted_at := Some (clock c 1), us_terms_version := Some CURRENT_TERMS_VERSION\<rparr>"
    define e where "e = put_invite (i\<lparr>in_status := ACCEPTED, in_accepted_at := Some (clock c 1)\<rparr>) d"
    have te: "users e = users db" "orgs e = orgs db" using t by (simp_all add: e_def put_invite_def)
    have oke: "accounts_ok e" using edits_user_ok [OF ok edits_same] te by blast
    have "distinct (map og_id (orgs d))" using okd by (simp add: accounts_ok_def)
    note only = org_by_id [OF this g [unfolded get_org_def]]
    have "\<forall>g'\<in>set (orgs e). us_org u = Some (og_id g') \<longrightarrow> int (active_members (og_id g') e) < og_quota g'"
    proof (intro ballI impI)
      fix g' assume "g' \<in> set (orgs e)" and o: "us_org u = Some (og_id g')"
      with only [of g'] t te have "g' = g" by (simp add: u_def)
      with quota o t te show "int (active_members (og_id g') e) < og_quota g'" by (simp add: u_def active_members_def)
    qed
    then have "accounts_ok (snd (insert_user u e))"
      using insert_user_ok [OF oke] new te by (simp add: u_def)
    moreover have "orgs (snd (insert_user u e)) = orgs db" using te by (simp add: insert_user_def)
    moreover obtain r d2 where r: "insert_user u e = (r, d2)" by fastforce
    ultimately show ?thesis using okd t quota
      by (cases r) (simp_all add: accept_invite_def f i g Let_def r append_event_ok del: One_nat_def flip: u_def e_def)
  qed
qed

lemma insert_free_user_ok:
  assumes "accounts_ok db" and "us_id u \<notin> us_id ` set (users db)" and "us_org u = None"
  shows "accounts_ok (snd (insert_user u db))"
  using insert_user_ok [OF assms(1,2)] assms(3) by simp

lemma seed_ok:
  assumes ok: "accounts_ok db" and new: "fresh c 0 \<notin> us_id ` set (users db)"
  shows "accounts_ok (snd (seed_platform_admin cr c salt noise email full_name password db))
    \<and> orgs (snd (seed_platform_admin cr c salt noise email full_name password db)) = orgs db"
proof (cases "get_user_by_email (py_strip (py_lower email)) db")
  case None
  let ?pw = "case password of Some (a # p) \<Rightarrow> a # p | _ \<Rightarrow> noise"
  let ?u = "blank_user (fresh c 0) None (py_strip (py_lower email)) full_name (pw_hash cr salt ?pw) PLATFORM_ADMIN (clock c 0)"
  obtain r d where r: "insert_user ?u db = (r, d)" by fastforce
  have "accounts_ok d" using insert_free_user_ok [OF ok, of ?u] new by (simp add: r)
  moreover have "orgs d = orgs db" using r by (auto simp: insert_user_def split: if_splits)
  ultimately show ?thesis by (cases r) (simp_all add: seed_platform_admin_def None Let_def r)
next
  case (Some u)
  let ?u = "(case password of Some (a # p) \<Rightarrow> u\<lparr>us_password := pw_hash cr salt (a # p)\<rparr> | _ \<Rightarrow> u)\<lparr>us_role := PLATFORM_ADMIN\<rparr>"
  have keeps: "us_id ?u = us_id u" "us_org ?u = us_org u" "us_active ?u = us_active u" "us_email ?u = us_email u"
    by (auto split: option.split list.split)
  have "edits_user db (put_user ?u db)"
    by (rule put_edits [OF ok, of u ?u]) (use keeps get_user_by_email_Some [OF Some] in simp_all)
  with edits_user_ok [OF ok] show ?thesis by (simp add: seed_platform_admin_def Some Let_def)
qed

lemma ensure_oidc_ok:
  assumes ok: "accounts_ok db"
    and ids: "fresh c 0 \<notin> og_id ` set (orgs db)" "fresh c 1 \<notin> us_id ` set (users db)"
    and run: "ensure_oidc_user cr c salt noise email full_name db = (r, db')"
  shows "accounts_ok db' \<and> (\<exists>gs. orgs db' = orgs db @ gs \<and> list_all org_ok gs)
    \<and> (\<forall>u. r = Inr u \<longrightarrow> u \<in> set (users db'))"
proof (cases "get_user_by_email email db")
  case None
  from oidc_provisioning [OF None ok ids, of cr salt noise full_name] obtain g u where
    "db' = db\<lparr>orgs := orgs db @ [g], users := users db @ [u]\<rparr>" "r = Inr u" "accounts_ok db'" "org_ok g"
    using run by (auto simp: org_ok_def)
  then show ?thesis by simp
next
  case (Some u)
  with ok run get_user_by_email_Some [OF Some] show ?thesis by (auto simp: ensure_oidc_user_def split: if_splits)
qed

lemma azure_session_ok:
  assumes ok: "accounts_ok db"
    and ids: "fresh c 0 \<notin> og_id ` set (orgs db)" "fresh c 1 \<notin> us_id ` set (users db)"
  shows "accounts_ok (snd (azure_session pf cr c salt noise claims db))
    \<and> (\<exists>gs. orgs (snd (azure_session pf cr c salt noise claims db)) = orgs db @ gs \<and> list_all org_ok gs)"
proof (cases claims)
  case (Inr x)
  obtain email name where x: "x = (email, name)" by force
  obtain r d where r: "ensure_oidc_user cr (c\<lparr>clock := (\<lambda>i. clock c (i + 2))\<rparr>) salt noise email name db = (r, d)" by fastforce
  from ensure_oidc_ok [OF ok _ _ r] ids have d: "accounts_ok d" "\<exists>gs. orgs d = orgs db @ gs \<and> list_all org_ok gs"
    and u: "\<And>u. r = Inr u \<Longrightarrow> u \<in> set (users d)" by simp_all
  show ?thesis
  proof (cases r)
    case (Inr u)
    let ?u = "u\<lparr>us_last_login := Some (clock c 3)\<rparr>"
    obtain e d2 where e: "user_event pf (us_org ?u) (us_id ?u) ''auth.oidc.login'' ''user'' (uuid_str (us_id ?u))
       [(''provider'', PStr ''azure''), (''email'', PStr email)] (fresh c 2, clock c 4) (put_user ?u d) = (e, d2)" by fastforce
    have "edits_user d d2"
      by (rule put_edits [OF d(1), of u ?u]) (use user_event_tables [OF e] u [OF Inr] in simp_all)
    with edits_user_ok [OF d(1)] d(2) have "accounts_ok d2" "\<exists>gs. orgs d2 = orgs db @ gs \<and> list_all org_ok gs"
      by (simp_all add: edits_user_def)
    then show ?thesis using e by (cases e) (simp_all add: azure_session_def \<open>claims = Inr x\<close> x r [simplified] Inr Let_def)
  qed (use d \<open>claims = Inr x\<close> in \<open>simp add: azure_session_def x r [simplified]\<close>)
qed (use ok in \<open>simp add: azure_session_def\<close>)

section \<open>Passkeys\<close>

lemma consume_tables:
  assumes "consume_challenge now u token purpose db = (r, db')"
  shows "users db' = users db" and "orgs db' = orgs db"
  using assms by (auto simp: consume_challenge_def Let_def split: sum.splits option.splits if_splits)

lemma passkey_registration_edits:
  assumes ok: "accounts_ok db" and own: "own_row u db"
  shows "edits_user db (snd (verify_passkey_registration pf env c u r db))"
proof -
  obtain f d where f: "consume_challenge (clock c 0) u (pr_challenge r) ''passkey_register'' db = (f, d)" by fastforce
  note t = consume_tables [OF f]
  have "edits_user db (append_event pf org a kind entity eid p st
      (put_user (u\<lparr>us_passkey_enabled := True\<rparr>) (d\<lparr>passkeys := ks\<rparr>)))" for org a kind entity eid p st ks
    using own t by (intro put_edits [OF ok, of u "u\<lparr>us_passkey_enabled := True\<rparr>"]) (simp_all add: own_row_def)
  with t show ?thesis
    by (cases f) (auto simp: verify_passkey_registration_def f Let_def edits_same split: sum.split option.split)
qed

lemma passkey_login_edits:
  assumes ok: "accounts_ok db"
  shows "edits_user db (snd (verify_passkey_login pf cr env c r db))"
proof (cases "get_user_by_email (pl_email r) db")
  case (Some u)
  obtain f d where f: "consume_challenge (clock c 0) u (pl_challenge r) ''passkey_login'' db = (f, d)" by fastforce
  note t = consume_tables [OF f]
  have last: "edits_user db (snd (case user_event pf org who kind entity eid data st
      (put_user (u\<lparr>us_last_login := Some (clock c 2)\<rparr>) (d\<lparr>passkeys := ks\<rparr>)) of
        (Inl err, d) \<Rightarrow> (Inl err, d) | (Inr _, d) \<Rightarrow> (Inr x, d)))"
    for org who kind entity eid data st ks and x :: "user \<times> string \<times> string"
    using get_user_by_email_Some [OF Some] t by (intro put_event_edits [OF _ _ ok, of _ "u\<lparr>us_last_login := Some (clock c 2)\<rparr>" u]) simp_all
  with t Some show ?thesis
    by (cases f) (auto simp: verify_passkey_login_def f Let_def edits_same split: sum.split option.split)
qed (simp add: verify_passkey_login_def)

lemma revoke_passkey_edits:
  assumes ok: "accounts_ok db" and own: "own_row u db"
  shows "edits_user db (snd (revoke_user_passkey pf u kid st db))"
proof (cases "row_find pk_id kid (filter (\<lambda>k. pk_user k = us_id u) (passkeys db))")
  case (Some k)
  let ?d = "db\<lparr>passkeys := filter (\<lambda>k'. pk_id k' \<noteq> kid) (passkeys db)\<rparr>"
  let ?u = "u\<lparr>us_passkey_enabled := (0 < length (list_user_passkeys u ?d))\<rparr>"
  show ?thesis
    by (rule put_edits [OF ok, of u ?u]) (use own Some in \<open>simp_all add: own_row_def revoke_user_passkey_def Let_def\<close>)
qed (simp add: revoke_user_passkey_def)

section \<open>The relation\<close>

inductive member_step :: "platform \<Rightarrow> crypto \<Rightarrow> 'z tenant_db_scheme \<Rightarrow> 'z tenant_db_scheme \<Rightarrow> bool" for pf cr where
  register: "fresh c 1 \<notin> og_id ` set (orgs db) \<Longrightarrow> fresh c 2 \<notin> us_id ` set (users db) \<Longrightarrow>
     member_step pf cr db (snd (register pf cr c sec req db))"
| create: "fresh c 0 \<notin> us_id ` set (users db) \<Longrightarrow>
     member_step pf cr db (snd (create_user_route cr c salt actor new_user db))"
| accept: "fresh c 0 \<notin> us_id ` set (users db) \<Longrightarrow>
     member_step pf cr db (snd (accept_invite pf cr c salt token answer db))"
| azure: "fresh c 0 \<notin> og_id ` set (orgs db) \<Longrightarrow> fresh c 1 \<notin> us_id ` set (users db) \<Longrightarrow>
     member_step pf cr db (fst (snd (login_with_azure_oidc_callback pf cr oidc c salt noise code state (db, cache))))"
| seed: "fresh c 0 \<notin> us_id ` set (users db) \<Longrightarrow>
     member_step pf cr db (snd (seed_platform_admin cr c salt noise email full_name password db))"
| update: "member_step pf cr db (snd (admin_update_user pf actor tid upd st db))"
| delete: "member_step pf cr db (snd (admin_delete_user pf c actor tid why db))"
| purge: "member_step pf cr db (snd (lgpd_purge_user pf cr c salt noise actor tid db))"
| reset_by_admin: "member_step pf cr db (snd (admin_reset_password pf cr salt temp actor tid st db))"
| reset_mfa: "member_step pf cr db (snd (admin_reset_mfa pf actor tid st db))"
| deactivate: "member_step pf cr db (snd (admin_deactivate_user pf c actor tid why db))"
| change_password: "own_row u db \<Longrightarrow> member_step pf cr db (snd (change_password pf cr c salt u current new db))"
| forgot: "member_step pf cr db (snd (request_password_reset c token email db))"
| reset_by_token: "member_step pf cr db (snd (reset_password cr now salt token new db))"
| login: "member_step pf cr db (snd (login pf cr c email pass code db))"
| begin_totp: "own_row u db \<Longrightarrow> member_step pf cr db (snd (begin_totp_setup pf cr c sec rnd rp u db))"
| enable_totp: "own_row u db \<Longrightarrow> member_step pf cr db (snd (enable_totp pf cr c raw u code db))"
| disable_totp: "own_row u db \<Longrightarrow> member_step pf cr db (snd (disable_totp pf cr c u code db))"
| register_passkey: "own_row u db \<Longrightarrow> member_step pf cr db (snd (verify_passkey_registration pf env c u registration db))"
| passkey_login: "member_step pf cr db (snd (verify_passkey_login pf cr env c assertion db))"
| revoke_passkey: "own_row u db \<Longrightarrow> member_step pf cr db (snd (revoke_user_passkey pf u kid st db))"
| status: "member_step pf cr db (snd (update_workspace_status pf c actor org to why db))"
| suspend: "member_step pf cr db (snd (force_suspend pf c who org reason_text db))"
| restore: "member_step pf cr db (snd (force_restore pf c who org reason_text db))"
| archive: "member_step pf cr db (snd (force_archive pf c who org reason_text db))"
| policy: "member_step pf cr db (snd (update_passwordless_policy org enabled db))"
| elsewhere: "users db' = users db \<Longrightarrow> orgs db' = orgs db \<Longrightarrow> member_step pf cr db db'"

text \<open>What a step does: the accounts stay consistent, and it moves a workspace or adds some.\<close>

definition step_effect :: "'z auth_db_scheme \<Rightarrow> 'z auth_db_scheme \<Rightarrow> bool" where
  "step_effect db db' \<longleftrightarrow> accounts_ok db' \<and>
     (moves_org db db' \<or> (\<exists>gs. orgs db' = orgs db @ gs \<and> list_all org_ok gs))"

lemma effect_edit: "accounts_ok db \<Longrightarrow> edits_user db db' \<Longrightarrow> step_effect db db'"
  using edits_user_ok [of db db'] by (simp add: step_effect_def edits_user_def)

lemma effect_add: "accounts_ok db' \<and> (\<exists>gs. orgs db' = orgs db @ gs \<and> list_all org_ok gs) \<Longrightarrow> step_effect db db'"
  by (simp add: step_effect_def)

lemma effect_same_orgs: "accounts_ok db' \<Longrightarrow> orgs db' = orgs db \<Longrightarrow> step_effect db db'"
  by (simp add: step_effect_def)

lemma same_row: "list_all2 P xs ys \<Longrightarrow> y \<in> set ys \<Longrightarrow> \<exists>x\<in>set xs. P x y"
  by (induction rule: list_all2_induct) auto

lemma effect_move:
  assumes ok: "accounts_ok db" and m: "moves_org db db'"
  shows "step_effect db db'"
proof -
  have "list_all2 (\<lambda>g g'. og_id g' = og_id g \<and> og_quota g' = og_quota g) (orgs db) (orgs db')"
  proof (cases "orgs db' = orgs db")
    case False
    with m obtain g g' where g: "g \<in> set (orgs db)" "org_move g g'" "orgs db' = row_put og_id g' (orgs db)"
      by (auto simp: moves_org_def)
    have "x = g" if "x \<in> set (orgs db)" "og_id x = og_id g'" for x
      using that g ok by (auto simp: org_move_def accounts_ok_def distinct_map dest: inj_onD)
    then have "og_quota g' = og_quota x" if "x \<in> set (orgs db)" "og_id x = og_id g'" for x
      using that g(2) by (auto simp: org_move_def)
    then show ?thesis unfolding g(3) row_put_def list.rel_map by (intro list.rel_refl_strong) auto
  qed (simp add: list.rel_refl)
  then have ids: "map og_id (orgs db') = map og_id (orgs db)"
    and quota: "\<And>g'. g' \<in> set (orgs db') \<Longrightarrow> \<exists>g\<in>set (orgs db). og_id g' = og_id g \<and> og_quota g' = og_quota g"
    using same_row [of "\<lambda>g g'. og_id g' = og_id g \<and> og_quota g' = og_quota g" "orgs db" "orgs db'"]
    by (auto simp: list_all2_conv_all_nth list_eq_iff_nth_eq)
  from ids have "og_id ` set (orgs db') = og_id ` set (orgs db)" by (metis set_map)
  with ok ids quota m have "accounts_ok db'"
    by (fastforce simp: accounts_ok_def quota_kept_def moves_org_def active_members_def)
  with m show ?thesis by (simp add: step_effect_def)
qed

lemma register_orgs:
  "\<exists>gs. orgs (snd (register pf cr c sec req db)) = orgs db @ gs \<and> list_all org_ok gs"
proof -
  let ?g = "blank_org (fresh c 1) (rr_org_name req) (rr_org_slug req)"
  have g: "org_ok ?g" by (simp add: org_ok_def blank_org_def)
  have "orgs (snd (register pf cr c sec req db)) \<in> {orgs db, orgs db @ [?g]}"
    by (auto simp: register_def insert_org_def insert_user_def ensure_workspace_keyring_def row_add_def Let_def
        split: prod.split sum.split option.split)
  with g show ?thesis by auto
qed

lemma member_step_effect: "member_step pf cr db db' \<Longrightarrow> accounts_ok db \<Longrightarrow> step_effect db db'"
proof (induction rule: member_step.induct)
  case (register c db sec req)
  then show ?case by (intro effect_add) (simp add: register_ok register_orgs)
next
  case (create c db salt actor new_user)
  have "orgs (snd (create_user_route cr c salt actor new_user db)) = orgs db"
    by (auto simp: create_user_route_def create_user_def insert_user_def Let_def split: sum.split option.split)
  with create show ?case by (intro effect_same_orgs) (auto simp: create_user_route_def create_user_ok split: sum.split)
next
  case (accept c db salt token answer)
  then show ?case using accept_invite_ok by (blast intro: effect_same_orgs)
next
  case (azure c db oidc salt noise code state cache)
  obtain claims cache' where a: "azure_claims cr oidc c code state cache = (claims, cache')" by force
  have "fst (snd (login_with_azure_oidc_callback pf cr oidc c salt noise code state (db, cache)))
      = snd (azure_session pf cr c salt noise claims db)"
    by (simp add: login_with_azure_oidc_callback_def a split: prod.split)
  with azure azure_session_ok show ?case by (intro effect_add) simp
next
  case (seed c db salt noise email full_name password)
  then show ?case using seed_ok by (blast intro: effect_same_orgs)
next
  case (update db actor tid upd st)
  then show ?case using effect_edit admin_update_edits by (metis prod.collapse)
qed (blast intro: effect_edit effect_move admin_delete_edits lgpd_purge_edits admin_reset_password_edits
    admin_reset_mfa_edits admin_deactivate_edits change_password_edits request_reset_edits reset_password_edits
    login_edits begin_totp_edits enable_totp_edits disable_totp_edits passkey_registration_edits passkey_login_edits
    revoke_passkey_edits update_workspace_moves force_moves policy_moves edits_same)+

lemma member_steps_ok: "(member_step pf cr)\<^sup>*\<^sup>* db0 db \<Longrightarrow> accounts_ok db0 \<Longrightarrow> accounts_ok db"
  by (induction rule: rtranclp_induct) (auto dest: member_step_effect simp: step_effect_def)

section \<open>Reachable accounts and workspaces\<close>


text \<open>
  C36 (invariant): over the same steps every workspace stays in the table; an archived one never changes again
  but for its login policy, which is set without a look at the lifecycle; and every workspace that was
  consistent, like every new one, stays so: an active one carries no suspension, a suspended one its
  time and reason.
\<close>

theorem lifecycle_reachable:
  assumes "(member_step pf cr)\<^sup>*\<^sup>* db db'" and "accounts_ok db"
  shows "length (orgs db) \<le> length (orgs db')
    \<and> list_all2 lifecycle_kept (orgs db) (take (length (orgs db)) (orgs db'))
    \<and> list_all org_ok (drop (length (orgs db)) (orgs db'))"
  using assms(1)
proof (induction rule: rtranclp_induct)
  case base
  show ?case by (simp add: list.rel_refl)
next
  case (step y z)
  let ?n = "length (orgs db)"
  have ok: "accounts_ok y" using step.hyps(1) assms(2) by (rule member_steps_ok)
  have grown: "\<exists>gs. list_all2 lifecycle_kept (orgs y) (take (length (orgs y)) (orgs z))
      \<and> orgs z = take (length (orgs y)) (orgs z) @ gs \<and> list_all org_ok gs"
    using member_step_effect [OF step.hyps(2) ok] unfolding step_effect_def
  proof (elim conjE disjE)
    assume "moves_org y z"
    with moves_kept ok have "list_all2 lifecycle_kept (orgs y) (orgs z)" by (auto simp: accounts_ok_def)
    then show ?thesis by (simp add: list_all2_lengthD)
  qed (auto simp: list.rel_refl)
  then obtain zs gs where z: "orgs z = zs @ gs" "list_all2 lifecycle_kept (orgs y) zs" "list_all org_ok gs"
    by blast
  have len: "length zs = length (orgs y)" using z(2) by (simp add: list_all2_lengthD)
  from step.IH have ih: "list_all2 lifecycle_kept (orgs db) (take ?n (orgs y))" by (elim conjE)
  have "list_all2 lifecycle_kept (orgs db) (take ?n zs)"
    by (rule list_all2_trans [OF kept_trans ih list_all2_takeI [OF z(2)]])
  moreover have "list_all org_ok (drop ?n zs)"
    using step.IH list_all2_dropI [OF z(2), of ?n]
    by (auto simp: list_all2_conv_all_nth list_all_length lifecycle_kept_def)
  ultimately show ?case using step.IH len z(1,3) by simp
qed

section \<open>A sequence of steps\<close>


definition empty_tenant :: tenant_db where
  "empty_tenant = auth_db.extend empty_auth_db (tenant_db.fields [] [])"



definition toy_tenant :: tenant_db where
  "toy_tenant = empty_tenant\<lparr>orgs := [toy_org], users := [toy_user]\<rparr>"

theorem lifecycle_reachable_witness:
  "list_all2 lifecycle_kept [toy_org] (take 1 (orgs (snd (force_archive toy_platform toy_call 9 1 ''r'' toy_tenant))))
   \<and> map og_lifecycle (orgs (snd (force_archive toy_platform toy_call 9 1 ''r'' toy_tenant))) = [ARCHIVED]"
proof
  have step: "member_step toy_platform toy_crypto toy_tenant (snd (force_archive toy_platform toy_call 9 1 ''r'' toy_tenant))"
    by (rule member_step.archive)
  have "accounts_ok toy_tenant"
    by (simp add: accounts_ok_def quota_kept_def active_members_def toy_tenant_def toy_org_def toy_user_def)
  from lifecycle_reachable [OF r_into_rtranclp [where r = "member_step toy_platform toy_crypto", OF step] this]
  show "list_all2 lifecycle_kept [toy_org] (take 1 (orgs (snd (force_archive toy_platform toy_call 9 1 ''r'' toy_tenant))))"
    by (simp add: toy_tenant_def)
  show "map og_lifecycle (orgs (snd (force_archive toy_platform toy_call 9 1 ''r'' toy_tenant))) = [ARCHIVED]"
    by (simp add: force_archive_def admin_get_org_def get_org_def row_find_def toy_tenant_def toy_org_def row_put_def Let_def)
qed

end
