(* ===== verification/Url.thy ===== *)
theory Url
  imports Prelude
begin

text \<open>
  The part of \<open>urllib.parse.urlparse\<close> the program uses: scheme, network location and host name of a URL,
  and the string operations around it. Whether the text between square brackets is an IPv6 or a future
  address (\<open>ipaddress\<close>) is the argument \<open>ip6\<close>; the Unicode check of a network location concerns
  only text outside ASCII and is not modelled.
\<close>

section \<open>Splitting text\<close>

text \<open>\<open>s.partition(c)\<close> and \<open>s.rpartition(c)\<close>: the text before and after the first or last \<open>c\<close>.\<close>

definition before :: "char \<Rightarrow> string \<Rightarrow> string" where
  "before c s = takeWhile (\<lambda>x. x \<noteq> c) s"

definition after :: "char \<Rightarrow> string \<Rightarrow> string" where
  "after c s = drop 1 (dropWhile (\<lambda>x. x \<noteq> c) s)"

definition after_last :: "char \<Rightarrow> string \<Rightarrow> string" where
  "after_last c s = rev (takeWhile (\<lambda>x. x \<noteq> c) (rev s))"

definition rstrip_slash :: "string \<Rightarrow> string" where
  "rstrip_slash s = rev (dropWhile (\<lambda>x. x = CHR ''/'') (rev s))"

text \<open>\<open>s.split(c)\<close>.\<close>

fun py_split :: "char \<Rightarrow> string \<Rightarrow> string list" where
  "py_split c [] = [[]]"
| "py_split c (x # s) =
     (if x = c then [] # py_split c s
      else case py_split c s of [] \<Rightarrow> [[x]] | t # ts \<Rightarrow> (x # t) # ts)"

text \<open>\<open>[o.strip() for o in s.split(",") if o.strip()]\<close>.\<close>

definition comma_list :: "string \<Rightarrow> string list" where
  "comma_list s = filter (\<lambda>t. t \<noteq> []) (map py_strip (py_split (CHR '','') s))"

section \<open>URLs\<close>

record url =
  url_scheme :: string
  url_netloc :: string

definition is_alpha_char :: "char \<Rightarrow> bool" where
  "is_alpha_char c \<longleftrightarrow> (let n = of_char c :: nat in 65 \<le> n \<and> n \<le> 90 \<or> 97 \<le> n \<and> n \<le> 122)"

definition scheme_char :: "char \<Rightarrow> bool" where
  "scheme_char c \<longleftrightarrow> is_alpha_char c \<or> is_digit_char c \<or> c \<in> {CHR ''+'', CHR ''-'', CHR ''.''}"

definition url_clean :: "string \<Rightarrow> string" where
  "url_clean s =
     filter (\<lambda>c. c \<notin> {CHR 0x09, CHR 0x0A, CHR 0x0D}) (dropWhile (\<lambda>c. (of_char c :: nat) \<le> 32) s)"

definition split_scheme :: "string \<Rightarrow> string \<times> string" where
  "split_scheme s =
     (let p = before (CHR '':'') s in
      if CHR '':'' \<in> set s \<and> p \<noteq> [] \<and> is_alpha_char (hd p) \<and> list_all scheme_char p
      then (py_lower p, after (CHR '':'') s) else ([], s))"

definition urlparse :: "(string \<Rightarrow> bool) \<Rightarrow> string \<Rightarrow> url result" where
  "urlparse ip6 s =
     (let (scheme, rest) = split_scheme (url_clean s);
          netloc = (if take 2 rest = ''//''
                    then takeWhile (\<lambda>c. c \<notin> {CHR ''/'', CHR ''?'', CHR ''#''}) (drop 2 rest) else []);
          opens = (CHR ''['' \<in> set netloc); closes = (CHR '']'' \<in> set netloc)
      in if opens \<noteq> closes then Inl (ValueError ''Invalid IPv6 URL'')
         else if opens \<and> \<not> ip6 (before (CHR '']'') (after (CHR ''['') netloc))
         then Inl (ValueError ''Invalid IPv6 URL'')
         else Inr \<lparr>url_scheme = scheme, url_netloc = netloc\<rparr>)"

text \<open>\<open>parsed.hostname\<close>, with the empty text for \<open>None\<close> (\<open>hostname or ""\<close> at every use).\<close>

definition url_hostname :: "url \<Rightarrow> string" where
  "url_hostname u =
     (let info = after_last (CHR ''@'') (url_netloc u);
          host = (if CHR ''['' \<in> set info then before (CHR '']'') (after (CHR ''['') info)
                  else before (CHR '':'') info);
          name = before (CHR ''%'') host
      in py_lower name @ drop (length name) host)"

definition local_hosts :: "string list" where
  "local_hosts = [''localhost'', ''127.0.0.1'', ''::1'']"

end
