(* ===== verification/Config.thy ===== *)
theory Config
  imports Url
begin

text \<open>
  \<open>core/config.py\<close>: the settings the modelled components read, the properties derived from them and from
  the process environment (\<open>os.getenv\<close>, the argument \<open>getenv\<close>), and the checks a production
  process makes before it starts.
\<close>

section \<open>Settings\<close>

record settings =
  st_app_env :: string
  st_secret_key :: string
  st_encryption_key :: string
  st_database_url :: string
  st_sqlite_fallback_url :: string
  st_db_ssl_enabled :: bool
  st_db_ssl_min_version :: string
  st_redis_url :: string
  st_redis_ssl_min_version :: string
  st_clickhouse_secure :: bool
  st_clickhouse_verify :: bool
  st_clickhouse_ssl_min_version :: string
  st_auth_cookie_secure :: "bool option"
  st_auth_cookie_samesite :: string
  st_auth_cookie_access_name :: string
  st_cors_origins :: string
  st_origin_validation_enabled :: bool
  st_security_headers_enabled :: bool
  st_csp_policy :: string
  st_csp_policy_landing :: string
  st_csp_policy_dev :: string
  st_permissions_policy :: string
  st_hsts_max_age :: int
  st_rate_limit_enabled :: bool
  st_rate_limit_window_seconds :: int
  st_rate_limit_trusted_proxy_header :: string
  st_rate_limit_auth_ip_per_minute :: int
  st_rate_limit_auth_login_ip_per_window :: int
  st_rate_limit_auth_email_per_window :: int
  st_rate_limit_api_ip_per_minute :: int
  st_rate_limit_api_tenant_per_minute :: int
  st_force_secure_datastores :: bool

text \<open>\<open>os.getenv(name, "").strip()\<close>.\<close>

definition env_text :: "(string \<Rightarrow> string option) \<Rightarrow> string \<Rightarrow> string" where
  "env_text getenv name = (case getenv name of None \<Rightarrow> [] | Some v \<Rightarrow> py_strip v)"

definition hsts_header_value :: "settings \<Rightarrow> string" where
  "hsts_header_value st = ''max-age='' @ int_str (st_hsts_max_age st) @ ''; includeSubDomains''"

definition cors_origins_list :: "settings \<Rightarrow> string list" where
  "cors_origins_list st = comma_list (st_cors_origins st)"

definition is_production :: "(string \<Rightarrow> string option) \<Rightarrow> settings \<Rightarrow> bool" where
  "is_production getenv st =
     (let app_env = py_lower (py_strip (st_app_env st));
          env_runtime = py_lower (env_text getenv ''ENVIRONMENT'');
          azure_site_name = env_text getenv ''WEBSITE_SITE_NAME''
      in if app_env = ''production'' \<or> env_runtime = ''production'' then True
         else if azure_site_name \<noteq> []
         then let db_url = env_text getenv ''DATABASE_URL'' in
              if db_url = [] \<and> app_env \<in> {'''', ''development'', ''dev'', ''local'', ''staging''} then False
              else app_env \<in> {'''', ''development'', ''dev'', ''local''}
         else False)"

definition database_url_effective :: "(string \<Rightarrow> string option) \<Rightarrow> settings \<Rightarrow> string" where
  "database_url_effective getenv st =
     (if env_text getenv ''DATABASE_URL'' \<noteq> [] then env_text getenv ''DATABASE_URL''
      else if env_text getenv ''WEBSITE_SITE_NAME'' \<noteq> [] then py_strip (st_sqlite_fallback_url st)
      else if py_strip (st_database_url st) \<noteq> [] then py_strip (st_database_url st)
      else py_strip (st_sqlite_fallback_url st))"

definition redis_url_effective :: "(string \<Rightarrow> string option) \<Rightarrow> settings \<Rightarrow> string" where
  "redis_url_effective getenv st =
     (if env_text getenv ''REDIS_URL'' \<noteq> [] then env_text getenv ''REDIS_URL''
      else if env_text getenv ''WEBSITE_SITE_NAME'' \<noteq> [] then []
      else py_strip (st_redis_url st))"

definition redis_enabled :: "(string \<Rightarrow> string option) \<Rightarrow> settings \<Rightarrow> bool" where
  "redis_enabled getenv st = (redis_url_effective getenv st \<noteq> [])"

definition effective_csp_policy :: "(string \<Rightarrow> string option) \<Rightarrow> settings \<Rightarrow> string" where
  "effective_csp_policy getenv st =
     (if is_production getenv st then st_csp_policy st else st_csp_policy_dev st)"

definition auth_cookie_secure_effective :: "(string \<Rightarrow> string option) \<Rightarrow> settings \<Rightarrow> bool" where
  "auth_cookie_secure_effective getenv st =
     (case st_auth_cookie_secure st of None \<Rightarrow> is_production getenv st | Some b \<Rightarrow> b)"

definition auth_cookie_samesite_effective :: "(string \<Rightarrow> string option) \<Rightarrow> settings \<Rightarrow> string" where
  "auth_cookie_samesite_effective getenv st =
     (let raw = py_lower (py_strip (st_auth_cookie_samesite st));
          raw = (if raw \<notin> {''lax'', ''strict'', ''none''} then ''lax'' else raw)
      in if raw = ''none'' \<and> \<not> auth_cookie_secure_effective getenv st then ''lax'' else raw)"

section \<open>The production checks\<close>

definition DEFAULT_SECRET :: string where
  "DEFAULT_SECRET = ''change-me-in-production-at-least-32-chars''"

definition DEFAULT_ENC_KEY :: string where
  "DEFAULT_ENC_KEY = ''dGVzdC1lbmNyeXB0aW9uLWtleS1mb3ItZGV2ZWxvcA==''"

definition url_has_tls_mode :: "string \<Rightarrow> bool" where
  "url_has_tls_mode db_url =
     list_ex (py_contains db_url) [''sslmode=require'', ''sslmode=verify-ca'', ''sslmode=verify-full'']"

text \<open>The checks that follow the SQLite fallback, in the order of the code.\<close>

definition validate_datastores ::
  "(string \<Rightarrow> bool) \<Rightarrow> settings \<Rightarrow> string \<Rightarrow> string \<Rightarrow> unit result" where
  "validate_datastores ip6 st db_url_raw redis_url_raw =
     (if db_url_raw = [] then Inl (ValueError ''DATABASE_URL is required in production.'')
      else case urlparse ip6 db_url_raw of
        Inl err \<Rightarrow> Inl err
      | Inr db \<Rightarrow>
        (case urlparse ip6 redis_url_raw of
           Inl err \<Rightarrow> Inl err
         | Inr rd \<Rightarrow>
             let db_url = py_lower db_url_raw in
             if py_lower (py_strip (url_hostname db)) \<in> set local_hosts
             then Inl (ValueError ''DATABASE_URL points to localhost in production.'')
             else if redis_url_raw \<noteq> [] \<and> py_lower (py_strip (url_hostname rd)) \<in> set local_hosts
             then Inl (ValueError ''REDIS_URL points to localhost in production.'')
             else if py_contains db_url ''sslmode='' \<and> \<not> url_has_tls_mode db_url
             then Inl (ValueError ''DATABASE_URL sslmode must be require/verify-ca/verify-full in production'')
             else if \<not> (url_has_tls_mode db_url \<or> st_db_ssl_enabled st)
             then Inl (ValueError ''PostgreSQL TLS must be enabled in production'')
             else if redis_url_raw \<noteq> [] \<and> \<not> py_startswith (py_lower redis_url_raw) ''rediss://''
             then Inl (ValueError ''REDIS_URL must use rediss:// in production'')
             else if \<not> st_clickhouse_secure st
             then Inl (ValueError ''CLICKHOUSE_SECURE must be true in production'')
             else if \<not> py_contains (st_csp_policy st) ''upgrade-insecure-requests''
             then Inl (ValueError ''CSP_POLICY must include 'upgrade-insecure-requests' in production'')
             else if st_hsts_max_age st < 31536000
             then Inl (ValueError ''HSTS_MAX_AGE must be at least 31536000 (1 year) in production'')
             else if st_db_ssl_min_version st \<noteq> ''TLSv1.3''
             then Inl (ValueError ''DB_SSL_MIN_VERSION must be TLSv1.3 in production'')
             else if redis_url_raw \<noteq> [] \<and> st_redis_ssl_min_version st \<notin> {''TLSv1.2'', ''TLSv1.3''}
             then Inl (ValueError ''REDIS_SSL_MIN_VERSION must be TLSv1.2 or TLSv1.3 in production'')
             else if \<not> st_clickhouse_verify st
             then Inl (ValueError ''CLICKHOUSE_VERIFY must be true in production'')
             else if st_clickhouse_ssl_min_version st \<noteq> ''TLSv1.3''
             then Inl (ValueError ''CLICKHOUSE_SSL_MIN_VERSION must be TLSv1.3 in production'')
             else Inr ()))"

definition validate_production_security ::
  "(string \<Rightarrow> bool) \<Rightarrow> (string \<Rightarrow> string option) \<Rightarrow> settings \<Rightarrow> unit result" where
  "validate_production_security ip6 getenv st =
     (if \<not> is_production getenv st then Inr ()
      else if st_secret_key st = DEFAULT_SECRET
      then Inl (RuntimeError ''CRITICAL: Refusing to start in production with default SECRET_KEY.'')
      else if length (st_secret_key st) < 32
      then Inl (RuntimeError ''CRITICAL: SECRET_KEY must be at least 32 characters in production.'')
      else if st_encryption_key st = DEFAULT_ENC_KEY
      then Inl (RuntimeError ''CRITICAL: Refusing to start in production with default ENCRYPTION_KEY.'')
      else if \<not> st_force_secure_datastores st then Inr ()
      else if \<not> st_security_headers_enabled st
      then Inl (ValueError ''SECURITY_HEADERS_ENABLED must be true in production'')
      else if py_startswith (py_lower (py_strip (database_url_effective getenv st))) ''sqlite+'' then Inr ()
      else validate_datastores ip6 st (py_strip (database_url_effective getenv st))
             (py_strip (redis_url_effective getenv st)))"

end
