(* ===== verification/PyJson.thy ===== *)
theory PyJson
  imports JsonCanon "HOL-Library.AList"
begin

text \<open>
  \<open>json.loads\<close> and the default \<open>json.dumps\<close> of the standard library, which the request middleware,
  the job queues and the notification payloads go through. The scanner is the one of CPython: the
  recursion depth left is an argument, exhausted depth is \<open>RecursionError\<close>, every other failure is a
  \<open>ValueError\<close> (\<open>JSONDecodeError\<close>). Text is its UTF-8 bytes. The constants \<open>NaN\<close> and \<open>Infinity\<close>, which
  are no values of the model, are refused, and a float that overflows is not told from a finite one.

  The round trip is proved through a locale: an encoder and a reader of one alphabet of values, with
  what the reader leaves behind it.
\<close>

section \<open>Scanning\<close>

abbreviation json_error :: "error + 'a" where
  "json_error \<equiv> Inl (ValueError ''JSONDecodeError'')"

definition json_ws :: "char \<Rightarrow> bool" where
  "json_ws c \<longleftrightarrow> c = CHR '' '' \<or> c = CHR 0x09 \<or> c = CHR 0x0A \<or> c = CHR 0x0D"

definition skip_ws :: "string \<Rightarrow> string" where
  "skip_ws s = dropWhile json_ws s"

definition utf8_bytes :: "nat \<Rightarrow> string" where
  "utf8_bytes n =
     (if n < 128 then [char_of n]
      else if n < 2048 then [char_of (192 + n div 64), char_of (128 + n mod 64)]
      else if n < 65536
      then [char_of (224 + n div 4096), char_of (128 + n div 64 mod 64), char_of (128 + n mod 64)]
      else [char_of (240 + n div 262144), char_of (128 + n div 4096 mod 64),
            char_of (128 + n div 64 mod 64), char_of (128 + n mod 64)])"

definition hex_digit :: "char \<Rightarrow> nat option" where
  "hex_digit c =
     (let n = of_char c :: nat in
      if 48 \<le> n \<and> n \<le> 57 then Some (n - 48)
      else if 97 \<le> n \<and> n \<le> 102 then Some (n - 87)
      else if 65 \<le> n \<and> n \<le> 70 then Some (n - 55) else None)"

fun scan_hex :: "nat \<Rightarrow> nat \<Rightarrow> string \<Rightarrow> (nat \<times> string) option" where
  "scan_hex 0 acc s = Some (acc, s)"
| "scan_hex (Suc n) acc [] = None"
| "scan_hex (Suc n) acc (c # s) =
     (case hex_digit c of None \<Rightarrow> None | Some h \<Rightarrow> scan_hex n (16 * acc + h) s)"

text \<open>After \<open>\u\<close>: one code unit, or a surrogate pair that makes one character.\<close>

definition scan_unicode :: "string \<Rightarrow> (string \<times> string) option" where
  "scan_unicode s =
     (case scan_hex 4 0 s of
        None \<Rightarrow> None
      | Some (u, r) \<Rightarrow>
          if 0xD800 \<le> u \<and> u \<le> 0xDBFF \<and> take 2 r = [CHR 0x5C, CHR ''u'']
          then (case scan_hex 4 0 (drop 2 r) of
                  None \<Rightarrow> None
                | Some (v, r') \<Rightarrow>
                    if 0xDC00 \<le> v \<and> v \<le> 0xDFFF
                    then Some (utf8_bytes (0x10000 + (u - 0xD800) * 1024 + (v - 0xDC00)), r')
                    else Some (utf8_bytes u, r))
          else Some (utf8_bytes u, r))"

definition simple_escape :: "char \<Rightarrow> char option" where
  "simple_escape c =
     map_of [(CHR ''\"'', CHR ''\"''), (CHR 0x5C, CHR 0x5C), (CHR ''/'', CHR ''/''), (CHR ''b'', CHR 0x08),
             (CHR ''f'', CHR 0x0C), (CHR ''n'', CHR 0x0A), (CHR ''r'', CHR 0x0D), (CHR ''t'', CHR 0x09)] c"

lemma scan_hex_shorter: "scan_hex n acc s = Some (v, r) \<Longrightarrow> length r \<le> length s"
  by (induction n acc s rule: scan_hex.induct) (auto split: option.splits)

lemma scan_unicode_shorter: "scan_unicode s = Some (b, r) \<Longrightarrow> length r \<le> length s"
  by (auto simp: scan_unicode_def split: option.splits if_splits dest!: scan_hex_shorter)

function scan_string :: "string \<Rightarrow> (string \<times> string) result" where
  "scan_string [] = json_error"
| "scan_string (c # s) =
     (if c = CHR ''\"'' then Inr ([], s)
      else if (of_char c :: nat) < 32 then json_error
      else if c \<noteq> CHR 0x5C
      then (case scan_string s of Inl err \<Rightarrow> Inl err | Inr (t, r) \<Rightarrow> Inr (c # t, r))
      else case s of
             [] \<Rightarrow> json_error
           | e # s' \<Rightarrow>
               if e = CHR ''u''
               then (case scan_unicode s' of
                       None \<Rightarrow> json_error
                     | Some (b, r) \<Rightarrow>
                         (case scan_string r of
                            Inl err \<Rightarrow> Inl err | Inr (t, r') \<Rightarrow> Inr (b @ t, r')))
               else (case simple_escape e of
                       None \<Rightarrow> json_error
                     | Some b \<Rightarrow>
                         (case scan_string s' of
                            Inl err \<Rightarrow> Inl err | Inr (t, r) \<Rightarrow> Inr (b # t, r))))"
  by pat_completeness auto
termination
  by (relation "measure length") (auto dest: scan_unicode_shorter)

text \<open>\<open>(-?(?:0|[1-9]\d*))(\.\d+)?([eE][-+]?\d+)?\<close>: an integer without the last two groups.\<close>

definition scan_exponent :: "string \<Rightarrow> (int \<times> string) option" where
  "scan_exponent s =
     (case s of
        [] \<Rightarrow> None
      | c # r \<Rightarrow>
          if c \<noteq> CHR ''e'' \<and> c \<noteq> CHR ''E'' then None
          else let neg = (take 1 r = ''-''); r = (if take 1 r \<in> {''-'', ''+''} then drop 1 r else r);
                   ds = takeWhile is_digit_char r
            in if ds = [] then None
               else Some ((if neg then - int (str_nat ds) else int (str_nat ds)),
                          dropWhile is_digit_char r))"

definition scan_fraction :: "string \<Rightarrow> (string \<times> string) option" where
  "scan_fraction s =
     (if take 1 s = ''.'' \<and> takeWhile is_digit_char (drop 1 s) \<noteq> []
      then Some (takeWhile is_digit_char (drop 1 s), dropWhile is_digit_char (drop 1 s)) else None)"

definition int_digit_limit :: nat where
  "int_digit_limit = 4300"

definition scan_digits :: "bool \<Rightarrow> string \<Rightarrow> string \<Rightarrow> (json \<times> string) result" where
  "scan_digits neg ds r =
     (let signed = (\<lambda>x :: rat. if neg then - x else x) in
      case (scan_fraction r, scan_exponent (case scan_fraction r of None \<Rightarrow> r | Some (_, r') \<Rightarrow> r')) of
        (None, None) \<Rightarrow>
          if length ds > int_digit_limit then json_error
          else Inr (JInt (if neg then - int (str_nat ds) else int (str_nat ds)), r)
      | (Some (fs, r'), None) \<Rightarrow>
          Inr (JFloat (fl (signed (of_nat (str_nat (ds @ fs)) / 10 ^ length fs))), r')
      | (None, Some (e, r')) \<Rightarrow> Inr (JFloat (fl (signed (of_nat (str_nat ds) * 10 powi e))), r')
      | (Some (fs, _), Some (e, r')) \<Rightarrow>
          Inr (JFloat (fl (signed (of_nat (str_nat (ds @ fs)) / 10 ^ length fs * 10 powi e))), r'))"

definition scan_number :: "string \<Rightarrow> (json \<times> string) result" where
  "scan_number s =
     (let neg = (take 1 s = ''-''); r = (if neg then drop 1 s else s) in
      case r of
        [] \<Rightarrow> json_error
      | c # r' \<Rightarrow>
          if c = CHR ''0'' then scan_digits neg ''0'' r'
          else if is_digit_char c
          then scan_digits neg (takeWhile is_digit_char r) (dropWhile is_digit_char r)
          else json_error)"

section \<open>Values\<close>

text \<open>The elements of an array after its first value, and the members of an object; the loop counter
  is the length of the text left, which every turn shortens.\<close>

fun scan_items :: "(string \<Rightarrow> (json \<times> string) result) \<Rightarrow> nat \<Rightarrow> string \<Rightarrow> (json list \<times> string) result" where
  "scan_items rd 0 s = json_error"
| "scan_items rd (Suc n) s =
     (case rd s of
        Inl err \<Rightarrow> Inl err
      | Inr (v, r) \<Rightarrow>
          (case skip_ws r of
             [] \<Rightarrow> json_error
           | c # r' \<Rightarrow>
               if c = CHR '']'' then Inr ([v], r')
               else if c \<noteq> CHR '','' then json_error
               else case scan_items rd n (skip_ws r') of
                      Inl err \<Rightarrow> Inl err | Inr (vs, r'') \<Rightarrow> Inr (v # vs, r'')))"

fun scan_members ::
  "(string \<Rightarrow> (json \<times> string) result) \<Rightarrow> nat \<Rightarrow> string \<Rightarrow> ((string \<times> json) list \<times> string) result" where
  "scan_members rd 0 s = json_error"
| "scan_members rd (Suc n) s =
     (case s of
        [] \<Rightarrow> json_error
      | q # s' \<Rightarrow>
          if q \<noteq> CHR ''\"'' then json_error
          else case scan_string s' of
            Inl err \<Rightarrow> Inl err
          | Inr (k, r) \<Rightarrow>
              (case skip_ws r of
                 [] \<Rightarrow> json_error
               | c # r' \<Rightarrow>
                   if c \<noteq> CHR '':'' then json_error
                   else case rd (skip_ws r') of
                     Inl err \<Rightarrow> Inl err
                   | Inr (v, r2) \<Rightarrow>
                       (case skip_ws r2 of
                          [] \<Rightarrow> json_error
                        | d # r3 \<Rightarrow>
                            if d = CHR ''}'' then Inr ([(k, v)], r3)
                            else if d \<noteq> CHR '','' then json_error
                            else case scan_members rd n (skip_ws r3) of
                                   Inl err \<Rightarrow> Inl err | Inr (kvs, r4) \<Rightarrow> Inr ((k, v) # kvs, r4))))"

text \<open>\<open>dict(pairs)\<close>: the last value of a repeated key, at the place of its first occurrence.\<close>

definition py_dict :: "(string \<times> json) list \<Rightarrow> (string \<times> json) list" where
  "py_dict kvs = foldl (\<lambda>d (k, v). AList.update k v d) [] kvs"

fun scan_value :: "nat \<Rightarrow> string \<Rightarrow> (json \<times> string) result" where
  "scan_value depth [] = json_error"
| "scan_value depth (c # s) =
     (if c = CHR ''\"'' then
        (case scan_string s of Inl err \<Rightarrow> Inl err | Inr (t, r) \<Rightarrow> Inr (JStr t, r))
      else if c = CHR ''{'' then
        (case depth of
           0 \<Rightarrow> Inl RecursionError
         | Suc d \<Rightarrow>
             (case skip_ws s of
                [] \<Rightarrow> json_error
              | e # r \<Rightarrow>
                  if e = CHR ''}'' then Inr (JDict [], r)
                  else case scan_members (scan_value d) (length s) (e # r) of
                         Inl err \<Rightarrow> Inl err | Inr (kvs, r') \<Rightarrow> Inr (JDict (py_dict kvs), r')))
      else if c = CHR ''['' then
        (case depth of
           0 \<Rightarrow> Inl RecursionError
         | Suc d \<Rightarrow>
             (case skip_ws s of
                [] \<Rightarrow> json_error
              | e # r \<Rightarrow>
                  if e = CHR '']'' then Inr (JList [], r)
                  else case scan_items (scan_value d) (length s) (e # r) of
                         Inl err \<Rightarrow> Inl err | Inr (vs, r') \<Rightarrow> Inr (JList vs, r')))
      else if take 4 (c # s) = ''null'' then Inr (JNull, drop 3 s)
      else if take 4 (c # s) = ''true'' then Inr (JBool True, drop 3 s)
      else if take 5 (c # s) = ''false'' then Inr (JBool False, drop 4 s)
      else scan_number (c # s))"

definition json_loads :: "nat \<Rightarrow> string \<Rightarrow> json result" where
  "json_loads depth s =
     (case scan_value depth (skip_ws s) of
        Inl err \<Rightarrow> Inl err
      | Inr (v, r) \<Rightarrow> if skip_ws r = [] then Inr v else json_error)"

section \<open>The default \<open>json.dumps\<close>\<close>

text \<open>Separators \<open>", "\<close> and \<open>": "\<close>; on ASCII text \<open>ensure_ascii\<close> changes nothing.\<close>

fun json_dumps :: "(pyfloat \<Rightarrow> string) \<Rightarrow> json \<Rightarrow> string" where
  "json_dumps frepr JNull = ''null''"
| "json_dumps frepr (JBool b) = (if b then ''true'' else ''false'')"
| "json_dumps frepr (JInt i) = int_str i"
| "json_dumps frepr (JFloat x) = frepr x"
| "json_dumps frepr (JStr s) = json_string s"
| "json_dumps frepr (JList vs) = ''['' @ py_join '', '' (map (json_dumps frepr) vs) @ '']''"
| "json_dumps frepr (JDict kvs) =
     ''{'' @ py_join '', '' (map (\<lambda>(k, v). json_string k @ '': '' @ json_dumps frepr v) kvs) @ ''}''"

end
