(* ===== verification/Middleware.thy ===== *)
theory Middleware
  imports Config Tokens Idempotency PyJson Webauthn
begin

text \<open>
  \<open>core/middleware.py\<close>: the origin check, the sliding-window rate limiter with its Lua script, the
  security headers, and the two middlewares around every request. The handler a request is passed on to
  is the argument \<open>call_next\<close>; it returns a response or an exception. The counters of the limiter are
  keys of the Redis model of \<open>Idempotency\<close>, as decimal text. \<open>mw_up n\<close> says whether the n-th command sent
  to Redis answers, \<open>mw_clock n\<close> is the n-th reading of the clock, which Redis shares.
\<close>

section \<open>Requests and responses\<close>

record http_request =
  rq_path :: string
  rq_verb :: string
  rq_headers :: "(string \<times> string) list"
  rq_cookies :: "(string \<times> string) list"
  rq_client :: "string option"
  rq_body :: string

record response =
  rs_status :: nat
  rs_headers :: "(string \<times> string) list"
  rs_body :: json

text \<open>Header names are kept in lower case, as Starlette keeps them.\<close>

definition header_get :: "http_request \<Rightarrow> string \<Rightarrow> string" where
  "header_get rq name = (case map_of (rq_headers rq) (py_lower name) of None \<Rightarrow> [] | Some v \<Rightarrow> v)"

text \<open>\<open>response.headers[name] = value\<close>: the first occurrence is replaced, further ones removed.\<close>

fun header_set :: "string \<Rightarrow> string \<Rightarrow> (string \<times> string) list \<Rightarrow> (string \<times> string) list" where
  "header_set k v [] = [(k, v)]"
| "header_set k v ((k', v') # hs) =
     (if k' = k then (k, v) # filter (\<lambda>h. fst h \<noteq> k) hs else (k', v') # header_set k v hs)"

definition set_header :: "string \<Rightarrow> string \<Rightarrow> response \<Rightarrow> response" where
  "set_header name value rs = rs\<lparr>rs_headers := header_set (py_lower name) value (rs_headers rs)\<rparr>"

definition header_of :: "response \<Rightarrow> string \<Rightarrow> string option" where
  "header_of rs name = map_of (rs_headers rs) (py_lower name)"

definition json_response :: "nat \<Rightarrow> json \<Rightarrow> response" where
  "json_response code body =
     \<lparr>rs_status = code, rs_headers = [(''content-type'', ''application/json'')], rs_body = body\<rparr>"

definition detail_response :: "nat \<Rightarrow> string \<Rightarrow> response" where
  "detail_response code msg = json_response code (JDict [(''detail'', JStr msg)])"

record 's mw_env =
  mw_settings :: settings
  mw_getenv :: "string \<Rightarrow> string option"
  mw_platform :: platform
  mw_crypto :: crypto
  mw_ip6 :: "string \<Rightarrow> bool"
  mw_to_text :: "json \<Rightarrow> string"
  mw_depth :: nat
  mw_backend :: backend
  mw_up :: "nat \<Rightarrow> bool"
  mw_clock :: "nat \<Rightarrow> instant"
  mw_next :: "http_request \<Rightarrow> 's \<Rightarrow> response result \<times> 's"

section \<open>What a request says of its sender\<close>

definition extract_real_ip :: "http_request \<Rightarrow> string \<Rightarrow> string" where
  "extract_real_ip rq trusted_header =
     (let direct = (case rq_client rq of None \<Rightarrow> ''unknown'' | Some h \<Rightarrow> h);
          raw = py_strip (header_get rq trusted_header);
          first = py_strip (before (CHR '','') raw)
      in if trusted_header \<noteq> [] \<and> raw \<noteq> [] \<and> first \<noteq> [] then first else direct)"

definition extract_org_id :: "'s mw_env \<Rightarrow> http_request \<Rightarrow> string option" where
  "extract_org_id env rq =
     (let auth = header_get rq ''authorization'';
          bearer = (if py_startswith (py_lower auth) ''bearer '' then py_strip (after (CHR '' '') auth) else []);
          token = (if bearer \<noteq> [] then Some bearer
                   else map_of (rq_cookies rq) (st_auth_cookie_access_name (mw_settings env)))
      in case token of
           None \<Rightarrow> None
         | Some t \<Rightarrow>
             if t = [] then None
             else case decode_token (mw_crypto env) (mw_clock env 0) t of
               Inl _ \<Rightarrow> None
             | Inr p \<Rightarrow>
                 if cl_type p \<noteq> ''access'' then None
                 else case cl_org p of None \<Rightarrow> None | Some i \<Rightarrow> if i = [] then None else Some i)"

definition extract_login_email :: "'s mw_env \<Rightarrow> http_request \<Rightarrow> string option" where
  "extract_login_email env rq =
     (case utf8_decode (rq_body rq) of
        Inl _ \<Rightarrow> None
      | Inr t \<Rightarrow>
          (case json_loads (mw_depth env) t of
             Inr (JDict kvs) \<Rightarrow>
               let v = (case map_of kvs ''email'' of None \<Rightarrow> JStr [] | Some v \<Rightarrow> v);
                   email = py_lower (py_strip (case v of JStr s \<Rightarrow> s | _ \<Rightarrow> mw_to_text env v))
               in if email = [] then None else Some email
           | _ \<Rightarrow> None))"

definition email_to_key :: "platform \<Rightarrow> string \<Rightarrow> string" where
  "email_to_key pf email = take 24 (hexdigest (sha256 pf email))"

section \<open>Origin validation\<close>

definition ORIGIN_VALIDATED_PATHS :: "string list" where
  "ORIGIN_VALIDATED_PATHS =
     [''/api/v1/auth/login'', ''/api/v1/auth/register'', ''/api/v1/auth/refresh'', ''/api/v1/auth/logout'',
      ''/api/v1/auth/passkey/login/verify'', ''/api/v1/auth/passkey/register/verify'']"

definition extract_request_origin :: "'s mw_env \<Rightarrow> http_request \<Rightarrow> string option result" where
  "extract_request_origin env rq =
     (let origin_header = py_strip (header_get rq ''origin''); referer = py_strip (header_get rq ''referer'')
      in if origin_header \<noteq> [] then Inr (Some (rstrip_slash origin_header))
         else if referer = [] then Inr None
         else case urlparse (mw_ip6 env) referer of
                Inl err \<Rightarrow> Inl err
              | Inr u \<Rightarrow>
                  if url_scheme u \<noteq> [] \<and> url_netloc u \<noteq> []
                  then Inr (Some (url_scheme u @ ''://'' @ url_netloc u)) else Inr None)"

definition is_origin_allowed :: "string \<Rightarrow> string list \<Rightarrow> bool" where
  "is_origin_allowed origin origins =
     list_ex (\<lambda>a. py_lower (rstrip_slash a) = py_lower (rstrip_slash origin)) origins"

definition is_local_dev_origin :: "(string \<Rightarrow> bool) \<Rightarrow> string \<Rightarrow> bool" where
  "is_local_dev_origin ip6 origin =
     (case urlparse ip6 origin of
        Inl _ \<Rightarrow> False
      | Inr u \<Rightarrow> url_scheme u \<in> {''http'', ''https''} \<and> py_lower (url_hostname u) \<in> set local_hosts)"

definition check_origin :: "'s mw_env \<Rightarrow> http_request \<Rightarrow> response option result" where
  "check_origin env rq =
     (let st = mw_settings env; production = is_production (mw_getenv env) st in
      if \<not> st_origin_validation_enabled st \<or> rq_path rq \<notin> set ORIGIN_VALIDATED_PATHS
         \<or> rq_verb rq \<notin> {''POST'', ''PUT'', ''PATCH'', ''DELETE''} then Inr None
      else case extract_request_origin env rq of
        Inl err \<Rightarrow> Inl err
      | Inr None \<Rightarrow>
          Inr (if production then Some (detail_response 403 ''Missing Origin or Referer header.'') else None)
      | Inr (Some origin) \<Rightarrow>
          Inr (if is_origin_allowed origin (cors_origins_list st)
                  \<or> \<not> production \<and> is_local_dev_origin (mw_ip6 env) origin
               then None else Some (detail_response 403 ''Origin not allowed.'')))"

section \<open>The sliding window\<close>

text \<open>\<open>tonumber(redis.call('GET', key)) or 0\<close> of a counter.\<close>

definition lua_counter :: "'p cell option \<Rightarrow> nat" where
  "lua_counter c =
     (case c of
        Some (Text t) \<Rightarrow> if t \<noteq> [] \<and> list_all is_digit_char t then str_nat t else 0
      | _ \<Rightarrow> 0)"

definition window_estimate :: "nat \<Rightarrow> pyfloat \<Rightarrow> nat \<Rightarrow> int" where
  "window_estimate prev weight cur = \<lfloor>fmul (of_nat prev) weight\<rfloor> + int cur"

text \<open>The script: the reply and the contents after it; nothing runs between its commands.\<close>

definition SLIDING_WINDOW_LUA ::
  "instant \<Rightarrow> string \<Rightarrow> string \<Rightarrow> int \<Rightarrow> pyfloat \<Rightarrow> int \<Rightarrow> 'p redis \<Rightarrow> (int \<times> int \<times> int) \<times> 'p redis" where
  "SLIDING_WINDOW_LUA now prev_key curr_key limit weight window r =
     (let prev = lua_counter (redis_get now prev_key r);
          cur = lua_counter (redis_get now curr_key r);
          estimated = window_estimate prev weight cur
      in if limit \<le> estimated then ((estimated, 0, 1), r)
         else let new_curr = Suc cur;
                  remaining = max 0 (limit - window_estimate prev weight new_curr)
              in ((int new_curr, remaining, 0),
                  redis_set now curr_key (Text (nat_str new_curr)) (2 * window) r))"

text \<open>\<open>time.time()\<close>, the bucket of an instant and the weight of the bucket before it, printed with six
  decimals and read back by the script.\<close>

definition py_time :: "instant \<Rightarrow> pyfloat" where
  "py_time now = fl (of_int now / 1000000)"

definition window_bucket :: "int \<Rightarrow> instant \<Rightarrow> int" where
  "window_bucket window now = \<lfloor>py_time now / of_int window\<rfloor>"

definition window_weight :: "int \<Rightarrow> instant \<Rightarrow> pyfloat" where
  "window_weight window now =
     fsub 1 (fdiv (py_time now - of_int (window_bucket window now * window)) (of_int window))"

definition bucket_key :: "string \<Rightarrow> int \<Rightarrow> string" where
  "bucket_key prefix b = prefix @ '':'' @ int_str b"

definition check_sliding_window ::
  "backend \<Rightarrow> bool \<Rightarrow> instant \<Rightarrow> string \<Rightarrow> int \<Rightarrow> int \<Rightarrow> 'p redis
   \<Rightarrow> (bool \<times> int \<times> int) result \<times> 'p redis" where
  "check_sliding_window bk up now prefix limit window r =
     (if window = 0 then (Inl ZeroDivisionError, r)
      else if \<not> up then (Inl (RuntimeError ''redis''), r)
      else let b = window_bucket window now; reset_at = (b + 1) * window;
               (reply, r') =
                 (case bk of
                    Disabled \<Rightarrow> ((0, 0, 0), r)
                  | Live \<Rightarrow> SLIDING_WINDOW_LUA now (bucket_key prefix (b - 1)) (bucket_key prefix b) limit
                              (py_round 6 (window_weight window now)) window r)
           in (Inr (snd (snd reply) \<noteq> 0, fst (snd reply), reset_at), r'))"

section \<open>Security headers\<close>

definition apply_security_headers ::
  "(string \<Rightarrow> string option) \<Rightarrow> settings \<Rightarrow> bool \<Rightarrow> bool \<Rightarrow> response \<Rightarrow> response" where
  "apply_security_headers getenv st is_api_path is_landing_path rs =
     (if \<not> st_security_headers_enabled st then rs
      else let rs = set_header ''X-Content-Type-Options'' ''nosniff'' rs;
               rs = set_header ''X-Frame-Options'' ''DENY'' rs;
               rs = set_header ''Referrer-Policy'' ''strict-origin-when-cross-origin'' rs;
               rs = set_header ''Permissions-Policy'' (st_permissions_policy st) rs;
               rs = set_header ''Content-Security-Policy''
                      (if is_landing_path then st_csp_policy_landing st else effective_csp_policy getenv st) rs;
               rs = set_header ''Cross-Origin-Resource-Policy'' ''same-site'' rs;
               rs = set_header ''X-Permitted-Cross-Domain-Policies'' ''none'' rs;
               rs = (if is_api_path then set_header ''Cache-Control'' ''no-store'' rs else rs)
           in if is_production getenv st
              then let rs = set_header ''Cross-Origin-Opener-Policy'' ''same-origin'' rs;
                       rs = set_header ''Cross-Origin-Embedder-Policy'' ''require-corp'' rs
                   in set_header ''Strict-Transport-Security'' (hsts_header_value st) rs
              else rs)"

section \<open>The middlewares\<close>

definition limit_rules :: "'s mw_env \<Rightarrow> http_request \<Rightarrow> (string \<times> int) list" where
  "limit_rules env rq =
     (let st = mw_settings env; ip = extract_real_ip rq (st_rate_limit_trusted_proxy_header st) in
      if rq_path rq = ''/api/v1/auth/login'' \<and> rq_verb rq = ''POST''
      then (''rl:login:ip:'' @ ip, st_rate_limit_auth_login_ip_per_window st)
           # (case extract_login_email env rq of
                None \<Rightarrow> []
              | Some email \<Rightarrow> [(''rl:login:email:'' @ email_to_key (mw_platform env) email,
                                 st_rate_limit_auth_email_per_window st)])
      else if py_startswith (rq_path rq) ''/api/v1/auth''
      then [(''rl:auth:ip:'' @ ip, st_rate_limit_auth_ip_per_minute st)]
      else (''rl:api:ip:'' @ ip, st_rate_limit_api_ip_per_minute st)
           # (case extract_org_id env rq of
                None \<Rightarrow> []
              | Some org \<Rightarrow> [(''rl:api:tenant:'' @ org, st_rate_limit_api_tenant_per_minute st)]))"

text \<open>
  The loop over the rules: the limit and reset instant of the rule that blocked, if any; the numbers
  reported of the first rule; an exception ends the loop and the request is served.
\<close>

fun run_rules ::
  "'s mw_env \<Rightarrow> int \<Rightarrow> nat \<Rightarrow> (string \<times> int) list \<Rightarrow> int \<times> int \<times> int \<Rightarrow> 'p redis
   \<Rightarrow> ((int \<times> int) option \<times> (int \<times> int \<times> int)) \<times> 'p redis" where
  "run_rules env window i [] primary r = ((None, primary), r)"
| "run_rules env window i ((prefix, limit) # rules) primary r =
     (case check_sliding_window (mw_backend env) (mw_up env i) (mw_clock env (i + 2)) prefix limit window r of
        (Inl _, r') \<Rightarrow> ((None, primary), r')
      | (Inr (blocked, remaining, reset_at), r') \<Rightarrow>
          let primary = (if i = 0 then (limit, remaining, reset_at) else primary) in
          if blocked then ((Some (limit, reset_at), primary), r')
          else run_rules env window (Suc i) rules primary r')"

definition rate_headers :: "int \<Rightarrow> int \<Rightarrow> int \<Rightarrow> response \<Rightarrow> response" where
  "rate_headers limit remaining reset_at rs =
     (let rs = set_header ''X-RateLimit-Limit'' (int_str limit) rs;
          rs = set_header ''X-RateLimit-Remaining'' (int_str remaining) rs
      in set_header ''X-RateLimit-Reset'' (int_str reset_at) rs)"

definition landing_path :: "string \<Rightarrow> bool" where
  "landing_path path \<longleftrightarrow>
     path = ''/'' \<or> py_startswith path ''/landing/''
     \<or> path \<in> {''/login'', ''/forgot-password'', ''/reset-password'', ''/activate''}"

definition limited_request ::
  "('p redis \<times> 's) mw_env \<Rightarrow> http_request \<Rightarrow> 'p redis \<times> 's \<Rightarrow> response result \<times> ('p redis \<times> 's)" where
  "limited_request env rq s =
     (let st = mw_settings env; window = st_rate_limit_window_seconds st; rules = limit_rules env rq;
          headers = apply_security_headers (mw_getenv env) st True False;
          primary = (snd (hd rules), snd (hd rules), \<lfloor>py_time (mw_clock env 1)\<rfloor> + window);
          ((verdict, primary), r) = run_rules env window 0 rules primary (fst s)
      in case verdict of
           Some (limit, reset_at) \<Rightarrow>
             let rs = detail_response 429 ''Rate limit exceeded. Please slow down.'';
                 rs = set_header ''Retry-After'' (int_str window) rs
             in (Inr (headers (rate_headers limit 0 reset_at rs)), (r, snd s))
         | None \<Rightarrow>
             (case mw_next env rq (r, snd s) of
                (Inl err, s') \<Rightarrow> (Inl err, s')
              | (Inr rs, s') \<Rightarrow>
                  (Inr (rate_headers (fst primary) (max 0 (fst (snd primary))) (snd (snd primary)) (headers rs)), s')))"

definition security_middleware ::
  "('p redis \<times> 's) mw_env \<Rightarrow> http_request \<Rightarrow> 'p redis \<times> 's \<Rightarrow> response result \<times> ('p redis \<times> 's)" where
  "security_middleware env rq s =
     (let st = mw_settings env; is_api = py_startswith (rq_path rq) ''/api/'' in
      case check_origin env rq of
        Inl err \<Rightarrow> (Inl err, s)
      | Inr (Some rs) \<Rightarrow> (Inr (apply_security_headers (mw_getenv env) st True False rs), s)
      | Inr None \<Rightarrow>
          if \<not> st_rate_limit_enabled st \<or> \<not> is_api
          then (case mw_next env rq s of
                  (Inl err, s') \<Rightarrow> (Inl err, s')
                | (Inr rs, s') \<Rightarrow>
                    (Inr (apply_security_headers (mw_getenv env) st is_api (landing_path (rq_path rq)) rs), s'))
          else limited_request env rq s)"

definition resolve_trace_id :: "uuid \<Rightarrow> http_request \<Rightarrow> string" where
  "resolve_trace_id new rq =
     (if header_get rq ''x-trace-id'' \<noteq> [] then py_strip (header_get rq ''x-trace-id'')
      else if header_get rq ''x-request-id'' \<noteq> [] then py_strip (header_get rq ''x-request-id'')
      else uuid_str new)"

definition tag_response :: "string \<Rightarrow> response \<Rightarrow> response" where
  "tag_response trace_id rs =
     (let rs = set_header ''X-Trace-ID'' trace_id rs in
      if header_of rs ''X-Request-ID'' \<in> {None, Some []} then set_header ''X-Request-ID'' trace_id rs else rs)"

text \<open>The outer middleware: an exception of anything inside becomes a 500 response.\<close>

definition observability_middleware ::
  "uuid \<Rightarrow> (http_request \<Rightarrow> 's \<Rightarrow> response result \<times> 's) \<Rightarrow> http_request \<Rightarrow> 's \<Rightarrow> response \<times> 's" where
  "observability_middleware new call_next rq s =
     (let trace_id = resolve_trace_id new rq in
      case call_next rq s of
        (Inl _, s') \<Rightarrow>
          (tag_response trace_id (json_response 500 (JDict
             [(''detail'', JStr ''Internal Server Error''), (''trace_id'', JStr trace_id)])), s')
      | (Inr rs, s') \<Rightarrow> (tag_response trace_id rs, s'))"

definition serve :: "uuid \<Rightarrow> ('p redis \<times> 's) mw_env \<Rightarrow> http_request \<Rightarrow> 'p redis \<times> 's \<Rightarrow> response \<times> ('p redis \<times> 's)" where
  "serve new env rq s = observability_middleware new (security_middleware env) rq s"

end
