(* ===== verification/MiddlewareLaws.thy ===== *)
theory MiddlewareLaws
  imports Middleware AuthExample
begin

text \<open>
  Laws of the request middleware: the rate limiter refines a log of the requests it let through and so
  bounds them, the security headers are on every response the inner middleware returns, the origin check
  decides before anything else happens, and an unreachable Redis lets requests pass.
\<close>

section \<open>Buckets of the clock\<close>

definition clock_range :: "instant \<Rightarrow> bool" where
  "clock_range t \<longleftrightarrow> 0 \<le> t \<and> t < 2 ^ 52"

lemma py_time_close:
  assumes "clock_range t"
  shows "py_time t < of_int t / 1000000 + 1 / 1000000"
proof (cases "t = 0")
  case True
  then show ?thesis by (simp add: py_time_def)
next
  case False
  let ?x = "of_int t / 1000000 :: rat"
  from assms False have pos: "0 < ?x" by (simp add: clock_range_def)
  have "t < 2 ^ 52" using assms by (simp add: clock_range_def)
  then have "(of_int t :: rat) < of_int (2 ^ 52)" by (simp only: of_int_less_iff)
  then have "?x < pow2 33" by (simp add: pow2_def)
  from fexp_less [OF pos this] have "max (fexp ?x - 52) (- 1074) \<le> - 20" by simp
  then have "ulp ?x \<le> pow2 (- 20)" unfolding ulp_def by (rule pow2_mono)
  then have "ulp ?x / 2 < 1 / 1000000" by (simp add: pow2_def)
  moreover have "\<bar>fl ?x - ?x\<bar> \<le> ulp ?x / 2" using fl_error [of ?x] pos by simp
  ultimately show ?thesis unfolding py_time_def by linarith
qed

lemma bucket_bounds:
  assumes "clock_range t" and "0 < w"
  shows "window_bucket w t * w * 1000000 \<le> t" and "t < (window_bucket w t + 1) * w * 1000000"
proof -
  define b where "b = t div (w * 1000000)"
  let ?m = "w * 1000000"
  have m: "0 < ?m" using assms(2) by simp
  have "t = b * ?m + t mod ?m" by (simp only: b_def div_mult_mod_eq)
  with pos_mod_bound [OF m, of t] pos_mod_sign [OF m, of t]
  have lo: "b * ?m \<le> t" and "t < b * ?m + ?m" by linarith+
  then have hi: "t + 1 \<le> (b + 1) * ?m" by (simp only: distrib_right mult_1_left)
  have t: "0 \<le> t" "t < 2 ^ 52" using assms(1) by (simp_all add: clock_range_def)
  from t assms(2) have b: "0 \<le> b" by (simp add: b_def pos_imp_zdiv_nonneg_iff)
  have "0 \<le> b * w" using b assms(2) by simp
  moreover have "b * w * 1000000 \<le> t" using lo by (simp only: mult.assoc)
  ultimately have bw: "b * w \<le> t" by linarith
  have "of_int (b * w) \<le> py_time t"
    unfolding py_time_def
  proof (rule fl_ge_int)
    from lo have "(of_int (b * w * 1000000) :: rat) \<le> of_int t" by (simp only: of_int_le_iff mult.assoc)
    then show "(of_int (b * w) :: rat) \<le> of_int t / 1000000" by simp
    show "\<bar>b * w\<bar> < 2 ^ 53" using bw t b assms(2) by (simp add: abs_mult)
  qed
  moreover have "py_time t < of_int ((b + 1) * w)"
  proof -
    from hi have "(of_int (t + 1) :: rat) \<le> of_int ((b + 1) * w * 1000000)"
      by (simp only: of_int_le_iff mult.assoc)
    then have "of_int t / 1000000 + 1 / 1000000 \<le> (of_int ((b + 1) * w) :: rat)" by simp
    with py_time_close [OF assms(1)] show ?thesis by linarith
  qed
  ultimately have "window_bucket w t = b"
    using assms(2) by (simp add: window_bucket_def floor_eq_iff pos_le_divide_eq pos_divide_less_eq)
  with lo hi show "window_bucket w t * w * 1000000 \<le> t" and "t < (window_bucket w t + 1) * w * 1000000"
    by (simp_all add: mult.assoc)
qed

lemma weight_nonneg:
  assumes "0 < w"
  shows "0 \<le> py_round 6 (window_weight w t)"
proof -
  have "py_time t / of_int w < of_int (window_bucket w t) + 1"
    unfolding window_bucket_def by linarith
  then have "(py_time t - of_int (window_bucket w t * w)) / of_int w \<le> of_int 1"
    using assms by (simp add: divide_simps) (simp add: algebra_simps)
  then have "fdiv (py_time t - of_int (window_bucket w t * w)) (of_int w) \<le> of_int 1"
    unfolding fdiv_def by (rule fl_le_int) simp
  then show ?thesis by (simp add: window_weight_def fsub_def py_round_nonneg fl_nonneg)
qed

section \<open>The limiter and the log of accepted requests\<close>

text \<open>
  The abstract limiter keeps no counters: it looks at the instants of the requests it accepted, weighs
  those of the bucket before the current one, and accepts while the estimate is below the limit.
\<close>

definition in_bucket :: "int \<Rightarrow> int \<Rightarrow> instant list \<Rightarrow> nat" where
  "in_bucket w b hist = length (filter (\<lambda>t. window_bucket w t = b) hist)"

definition log_estimate :: "int \<Rightarrow> instant list \<Rightarrow> instant \<Rightarrow> int" where
  "log_estimate w hist now =
     window_estimate (in_bucket w (window_bucket w now - 1) hist) (py_round 6 (window_weight w now))
       (in_bucket w (window_bucket w now) hist)"

fun accept_all :: "int \<Rightarrow> int \<Rightarrow> instant list \<Rightarrow> instant list \<Rightarrow> instant list" where
  "accept_all limit w hist [] = hist"
| "accept_all limit w hist (t # ts) =
     (if limit \<le> log_estimate w hist t then accept_all limit w hist ts else accept_all limit w (hist @ [t]) ts)"

text \<open>A sequence of checks under many keys, and the instants accepted under each.\<close>

fun run_checks :: "int \<Rightarrow> (string \<times> int \<times> instant) list \<Rightarrow> 'p redis \<Rightarrow> (string \<times> instant) list \<times> 'p redis" where
  "run_checks w [] r = ([], r)"
| "run_checks w ((p, limit, t) # calls) r =
     (case check_sliding_window Live True t p limit w r of
        (Inr (False, _), r') \<Rightarrow> (let (acc, r'') = run_checks w calls r' in ((p, t) # acc, r''))
      | (_, r') \<Rightarrow> run_checks w calls r')"

text \<open>A counter holds the number of accepted requests of its bucket and outlives the bucket after it.\<close>

definition counters_ok :: "int \<Rightarrow> string \<Rightarrow> instant list \<Rightarrow> 'p redis \<Rightarrow> bool" where
  "counters_ok w p hist r \<longleftrightarrow>
     (\<forall>b. case r (bucket_key p b) of
        None \<Rightarrow> in_bucket w b hist = 0
      | Some (c, ex) \<Rightarrow> c = Text (nat_str (in_bucket w b hist)) \<and> (b + 2) * w * 1000000 \<le> ex)"

lemma int_str_no_colon: "CHR '':'' \<notin> set (int_str i)"
  using nat_str_digits [of "CHR '':''"] by (auto simp: int_str_def is_digit_char_def)

lemma bucket_key_inject: "bucket_key p b = bucket_key q c \<longleftrightarrow> p = q \<and> b = c"
proof
  assume eq: "bucket_key p b = bucket_key q c"
  have tail: "takeWhile (\<lambda>x. x \<noteq> CHR '':'') (rev (bucket_key p b)) = rev (int_str b)" for p b
  proof -
    have "takeWhile (\<lambda>x. x \<noteq> CHR '':'') (rev (int_str b) @ CHR '':'' # rev p) = rev (int_str b)"
      using int_str_no_colon [of b] by (subst takeWhile_append2) auto
    then show ?thesis by (simp add: bucket_key_def)
  qed
  from eq tail [of p b] tail [of q c] have "rev (int_str b) = rev (int_str c)" by simp
  then have "b = c" by simp
  with eq show "p = q \<and> b = c" by (simp add: bucket_key_def)
qed simp

lemma lua_counter_text: "lua_counter (Some (Text (nat_str n))) = n"
  using nat_str_digits by (auto simp: lua_counter_def list_all_iff)

lemma counter_read:
  assumes ok: "counters_ok w p hist r" and now: "clock_range now" "0 < w"
    and b: "b = window_bucket w now \<or> b = window_bucket w now - 1"
  shows "lua_counter (redis_get now (bucket_key p b) r) = in_bucket w b hist"
proof (cases "r (bucket_key p b)")
  case None
  with ok have "in_bucket w b hist = 0" by (auto simp: counters_ok_def dest: spec [of _ b])
  with None show ?thesis by (simp add: redis_get_def lua_counter_def)
next
  case (Some v)
  obtain c ex where v: "v = (c, ex)" by (cases v)
  from ok [unfolded counters_ok_def, rule_format, of b] Some v
  have c: "c = Text (nat_str (in_bucket w b hist))" and ex: "(b + 2) * w * 1000000 \<le> ex" by simp_all
  have "window_bucket w now + 1 \<le> b + 2" using b by auto
  then have "(window_bucket w now + 1) * w * 1000000 \<le> (b + 2) * w * 1000000"
    using now(2) by (intro mult_right_mono) simp_all
  with bucket_bounds(2) [OF now] ex have "now < ex" by linarith
  with Some v c show ?thesis by (simp add: redis_get_def lua_counter_text)
qed

lemma counters_accept:
  assumes "counters_ok w p hist r" and now: "clock_range now" "0 < w"
  defines "b \<equiv> window_bucket w now"
  shows "counters_ok w p (hist @ [now]) (redis_set now (bucket_key p b) (Text (nat_str (Suc (in_bucket w b hist)))) (2 * w) r)"
proof -
  have "(b + 2) * w * 1000000 \<le> now + 2 * w * 1000000"
    using bucket_bounds(1) [OF now] by (simp add: b_def algebra_simps)
  moreover have more: "in_bucket w c (hist @ [now]) = (if c = b then Suc (in_bucket w b hist) else in_bucket w c hist)" for c
    by (auto simp: in_bucket_def b_def)
  ultimately show ?thesis
    unfolding counters_ok_def redis_set_def
    using assms(1) [unfolded counters_ok_def] by (auto simp: bucket_key_inject more cong: option.case_cong)
qed

lemma counters_other:
  "counters_ok w p hist r \<Longrightarrow> q \<noteq> p \<Longrightarrow> counters_ok w p hist (redis_set now (bucket_key q b) v ttl r)"
  by (simp add: counters_ok_def redis_set_def bucket_key_inject)

lemma check_own:
  assumes ok: "counters_ok w p hist r" and now: "clock_range now" "0 < w"
  obtains reply r' where "check_sliding_window Live True now p limit w r = (Inr (limit \<le> log_estimate w hist now, reply), r')"
    and "counters_ok w p (if limit \<le> log_estimate w hist now then hist else hist @ [now]) r'"
proof -
  let ?b = "window_bucket w now"
  have prev: "lua_counter (redis_get now (bucket_key p (?b - 1)) r) = in_bucket w (?b - 1) hist"
    and cur: "lua_counter (redis_get now (bucket_key p ?b) r) = in_bucket w ?b hist"
    using counter_read [OF ok now] by simp_all
  show ?thesis
  proof (cases "limit \<le> log_estimate w hist now")
    case True
    with that ok now(2) show ?thesis
      by (simp add: check_sliding_window_def SLIDING_WINDOW_LUA_def prev cur log_estimate_def Let_def)
  next
    case False
    with that counters_accept [OF ok now] now(2) show ?thesis
      by (simp add: check_sliding_window_def SLIDING_WINDOW_LUA_def prev cur log_estimate_def Let_def)
  qed
qed

lemma check_other:
  assumes "counters_ok w p hist r" and "q \<noteq> p"
  shows "counters_ok w p hist (snd (check_sliding_window Live True now q limit w r))"
  using assms
  by (auto simp: check_sliding_window_def SLIDING_WINDOW_LUA_def Let_def counters_other)

abbreviation accepted_under :: "string \<Rightarrow> (string \<times> instant) list \<Rightarrow> instant list" where
  "accepted_under p acc \<equiv> map snd (filter (\<lambda>a. fst a = p) acc)"

abbreviation asked_under :: "string \<Rightarrow> (string \<times> int \<times> instant) list \<Rightarrow> instant list" where
  "asked_under p calls \<equiv> map (\<lambda>c. snd (snd c)) (filter (\<lambda>c. fst c = p) calls)"

definition proper_calls :: "string \<Rightarrow> int \<Rightarrow> (string \<times> int \<times> instant) list \<Rightarrow> bool" where
  "proper_calls p limit calls \<longleftrightarrow> list_all (\<lambda>(q, l, t). clock_range t \<and> (q = p \<longrightarrow> l = limit)) calls"

lemma run_checks_log:
  "counters_ok w p hist r \<Longrightarrow> 0 < w \<Longrightarrow> proper_calls p limit calls \<Longrightarrow>
   hist @ accepted_under p (fst (run_checks w calls r)) = accept_all limit w hist (asked_under p calls)"
proof (induction calls arbitrary: hist r)
  case (Cons call calls)
  obtain q l t where call: "call = (q, l, t)" by (cases call)
  have t: "clock_range t" and limit: "q = p \<Longrightarrow> l = limit" and rest: "proper_calls p limit calls"
    using Cons.prems(3) by (auto simp: call proper_calls_def)
  show ?case
  proof (cases "q = p")
    case True
    obtain reply r' where chk: "check_sliding_window Live True t p limit w r = (Inr (limit \<le> log_estimate w hist t, reply), r')"
      and ok: "counters_ok w p (if limit \<le> log_estimate w hist t then hist else hist @ [t]) r'"
      using check_own [OF Cons.prems(1) t Cons.prems(2)] by blast
    show ?thesis
      using Cons.IH [OF ok Cons.prems(2) rest] chk True limit
      by (cases "limit \<le> log_estimate w hist t") (simp_all add: call case_prod_unfold Let_def)
  next
    case False
    obtain res r' where chk: "check_sliding_window Live True t q l w r = (res, r')" by fastforce
    with check_other [OF Cons.prems(1) False, of t l] have "counters_ok w p hist r'" by simp
    from Cons.IH [OF this Cons.prems(2) rest] False chk show ?thesis
      by (auto simp: call Let_def split: sum.split prod.split bool.split)
  qed
qed simp

section \<open>How many requests pass\<close>

lemma estimate_ge:
  assumes "0 < w"
  shows "int (in_bucket w (window_bucket w t) hist) \<le> log_estimate w hist t"
proof -
  have "0 \<le> fmul (of_nat n) (py_round 6 (window_weight w t))" for n
    by (rule fmul_nonneg) (simp_all add: weight_nonneg [OF assms])
  then show ?thesis by (simp add: log_estimate_def window_estimate_def)
qed

lemma accept_all_bucket:
  "0 < w \<Longrightarrow> int (in_bucket w b hist) \<le> max 0 limit \<Longrightarrow> int (in_bucket w b (accept_all limit w hist ts)) \<le> max 0 limit"
proof (induction ts arbitrary: hist)
  case (Cons t ts)
  have "int (in_bucket w b (hist @ [t])) \<le> max 0 limit" if "\<not> limit \<le> log_estimate w hist t"
    using that Cons.prems estimate_ge [OF Cons.prems(1), of t hist] by (auto simp: in_bucket_def)
  with Cons show ?case by simp
qed simp

lemma accept_all_subset: "set (accept_all limit w hist ts) \<subseteq> set hist \<union> set ts"
  by (induction ts arbitrary: hist) (auto, fastforce+)

lemma span_buckets:
  assumes "clock_range t" and "0 < w" and "a \<le> t" and "t < a + w * 1000000"
  shows "window_bucket w t = a div (w * 1000000) \<or> window_bucket w t = a div (w * 1000000) + 1"
proof -
  let ?m = "w * 1000000"
  have m: "0 < ?m" using assms(2) by simp
  have "t div ?m = window_bucket w t"
    by (rule int_div_pos_eq [where r = "t - ?m * window_bucket w t"])
      (use bucket_bounds [OF assms(1,2)] in \<open>simp_all add: algebra_simps\<close>)
  moreover have "a div ?m \<le> t div ?m" using assms(3) m by (simp add: zdiv_mono1)
  moreover have "t div ?m \<le> (a + ?m) div ?m" by (rule zdiv_mono1) (use assms(4) m in simp_all)
  moreover have "(a + ?m) div ?m = a div ?m + 1" using m by (intro div_add_self2) simp
  ultimately show ?thesis by linarith
qed

lemma span_count:
  assumes "0 < w" and "\<forall>t \<in> set ts. clock_range t"
  shows "length (filter (\<lambda>t. a \<le> t \<and> t < a + w * 1000000) ts)
    \<le> in_bucket w (a div (w * 1000000)) ts + in_bucket w (a div (w * 1000000) + 1) ts"
  using assms(2)
proof (induction ts)
  case (Cons t ts)
  with span_buckets [OF _ assms(1), of t a] show ?case by (auto simp: in_bucket_def)
qed (simp add: in_bucket_def)

lemma fresh_counters: "\<forall>b. r (bucket_key p b) = None \<Longrightarrow> counters_ok w p [] r"
  by (simp add: counters_ok_def in_bucket_def)

text \<open>
  C9 (refinement): through any sequence of checks under any keys, with clock readings in range, the
  requests the Redis script lets through under a key that had no counters are exactly those the abstract
  limiter accepts from the log of the instants it accepted: no counter is lost, expires too early or
  leaks into another key.
\<close>

theorem limiter_refines_log:
  assumes "0 < w" and "proper_calls p limit calls" and "\<forall>b. r (bucket_key p b) = None"
  shows "accepted_under p (fst (run_checks w calls r)) = accept_all limit w [] (asked_under p calls)"
  using run_checks_log [OF fresh_counters [OF assms(3)] assms(1,2)] by simp

definition toy_calls :: "(string \<times> int \<times> instant) list" where
  "toy_calls = [(''rl:a'', 1, 1700000000000000), (''rl:b'', 5, 1700000000000001), (''rl:a'', 1, 1700000000500000)]"

lemma toy_calls_proper: "proper_calls ''rl:a'' 1 toy_calls"
  by (simp add: proper_calls_def toy_calls_def clock_range_def)

theorem limiter_refines_log_witness:
  "accepted_under ''rl:a'' (fst (run_checks 60 toy_calls (Map.empty :: unit redis)))
   = accept_all 1 60 [] [1700000000000000, 1700000000500000]"
  using limiter_refines_log [where w = 60 and p = "''rl:a''" and limit = 1 and calls = toy_calls
      and r = "Map.empty :: unit redis"] toy_calls_proper
  by (simp add: toy_calls_def)

text \<open>
  C10 (bounds): a rule with limit n lets at most n requests of a key through in one bucket, and at most
  2n in any span of one window, wherever it starts.
\<close>

theorem limiter_bounds:
  assumes "0 < w" and "proper_calls p limit calls" and "\<forall>b. r (bucket_key p b) = None"
  defines "passed \<equiv> accepted_under p (fst (run_checks w calls r))"
  shows "int (in_bucket w b passed) \<le> max 0 limit \<and>
    int (length (filter (\<lambda>t. a \<le> t \<and> t < a + w * 1000000) passed)) \<le> 2 * max 0 limit"
proof -
  have passed: "passed = accept_all limit w [] (asked_under p calls)"
    using run_checks_log [OF fresh_counters [OF assms(3)] assms(1,2)] by (simp add: passed_def)
  have each: "int (in_bucket w b passed) \<le> max 0 limit" for b
    unfolding passed using assms(1) by (rule accept_all_bucket) (simp add: in_bucket_def)
  have "\<forall>t \<in> set passed. clock_range t"
    using accept_all_subset [of limit w "[]" "asked_under p calls"] assms(2)
    by (fastforce simp: passed proper_calls_def list_all_iff)
  from span_count [OF assms(1) this, of a] each [of "a div (w * 1000000)"] each [of "a div (w * 1000000) + 1"]
  have "int (length (filter (\<lambda>t. a \<le> t \<and> t < a + w * 1000000) passed)) \<le> 2 * max 0 limit" by linarith
  with each [of b] show ?thesis by blast
qed

theorem limiter_bounds_witness:
  "int (in_bucket 60 28333333 (accepted_under ''rl:a'' (fst (run_checks 60 toy_calls (Map.empty :: unit redis))))) \<le> 1"
  using limiter_bounds [where w = 60 and p = "''rl:a''" and limit = 1 and calls = toy_calls
      and r = "Map.empty :: unit redis" and b = 28333333 and a = 0] toy_calls_proper
  by simp

section \<open>Headers\<close>

lemma map_of_header_set: "map_of (header_set k v hs) m = (if m = k then Some v else map_of hs m)"
proof (induction hs)
  case (Cons h hs)
  have "map_of (filter (\<lambda>h. fst h \<noteq> k) hs) m = map_of hs m" if "m \<noteq> k" for hs :: "(string \<times> string) list"
    using that by (induction hs) auto
  with Cons show ?case by (cases h) auto
qed simp

lemma header_of_set [simp]:
  "header_of (set_header n v rs) m = (if py_lower m = py_lower n then Some v else header_of rs m)"
  by (simp add: header_of_def set_header_def map_of_header_set)

lemma status_set [simp]: "rs_status (set_header n v rs) = rs_status rs" "rs_body (set_header n v rs) = rs_body rs"
  by (simp_all add: set_header_def)

lemma header_names [simp]:
  "py_lower ''X-Content-Type-Options'' = ''x-content-type-options''"
  "py_lower ''X-Frame-Options'' = ''x-frame-options''"
  "py_lower ''Referrer-Policy'' = ''referrer-policy''"
  "py_lower ''Permissions-Policy'' = ''permissions-policy''"
  "py_lower ''Content-Security-Policy'' = ''content-security-policy''"
  "py_lower ''Cross-Origin-Resource-Policy'' = ''cross-origin-resource-policy''"
  "py_lower ''X-Permitted-Cross-Domain-Policies'' = ''x-permitted-cross-domain-policies''"
  "py_lower ''Cache-Control'' = ''cache-control''"
  "py_lower ''Cross-Origin-Opener-Policy'' = ''cross-origin-opener-policy''"
  "py_lower ''Cross-Origin-Embedder-Policy'' = ''cross-origin-embedder-policy''"
  "py_lower ''Strict-Transport-Security'' = ''strict-transport-security''"
  "py_lower ''X-RateLimit-Limit'' = ''x-ratelimit-limit''"
  "py_lower ''X-RateLimit-Remaining'' = ''x-ratelimit-remaining''"
  "py_lower ''X-RateLimit-Reset'' = ''x-ratelimit-reset''"
  "py_lower ''Retry-After'' = ''retry-after''"
  "py_lower ''X-Trace-ID'' = ''x-trace-id''"
  "py_lower ''X-Request-ID'' = ''x-request-id''"
  by code_simp+

text \<open>What the headers must be for a response to a path.\<close>

definition hardened :: "(string \<Rightarrow> string option) \<Rightarrow> settings \<Rightarrow> string \<Rightarrow> response \<Rightarrow> bool" where
  "hardened getenv st path rs \<longleftrightarrow>
     header_of rs ''X-Content-Type-Options'' = Some ''nosniff'' \<and> header_of rs ''X-Frame-Options'' = Some ''DENY'' \<and>
     header_of rs ''Content-Security-Policy'' =
       Some (if landing_path path then st_csp_policy_landing st else effective_csp_policy getenv st) \<and>
     (py_startswith path ''/api/'' \<longrightarrow> header_of rs ''Cache-Control'' = Some ''no-store'') \<and>
     (is_production getenv st \<longrightarrow> header_of rs ''Strict-Transport-Security'' = Some (hsts_header_value st))"

lemma applied_headers:
  assumes "st_security_headers_enabled st"
  shows "hardened getenv st path (apply_security_headers getenv st (py_startswith path ''/api/'') (landing_path path) rs)"
  using assms by (simp add: hardened_def apply_security_headers_def Let_def)

lemma rate_headers_hardened: "hardened getenv st path rs \<Longrightarrow> hardened getenv st path (rate_headers limit remaining reset rs)"
  by (simp add: hardened_def rate_headers_def Let_def)

lemma api_not_landing: "py_startswith path ''/api/'' \<Longrightarrow> \<not> landing_path path"
proof
  assume api: "py_startswith path ''/api/''" and "landing_path path"
  then consider "path = ''/''" | "py_startswith path ''/landing/''"
    | "path \<in> {''/login'', ''/forgot-password'', ''/reset-password'', ''/activate''}"
    by (auto simp: landing_path_def)
  then show False
  proof cases
    case 2
    have "take 2 (take (length ''/api/'') path) = take 2 (take (length ''/landing/'') path)" by simp
    then have "take 2 ''/api/'' = take 2 ''/landing/''"
      by (simp only: api [unfolded py_startswith_def] 2 [unfolded py_startswith_def])
    then show False by simp
  qed (use api in \<open>auto simp: py_startswith_def\<close>)
qed

lemma validated_path_api: "path \<in> set ORIGIN_VALIDATED_PATHS \<Longrightarrow> py_startswith path ''/api/''"
  by (auto simp: ORIGIN_VALIDATED_PATHS_def py_startswith_def)

lemma check_origin_path: "check_origin env rq = Inr (Some rs) \<Longrightarrow> rq_path rq \<in> set ORIGIN_VALIDATED_PATHS"
  by (auto simp: check_origin_def Let_def split: if_splits)

lemma middleware_hardened:
  assumes "st_security_headers_enabled (mw_settings env)" and "security_middleware env rq s = (Inr rs, s')"
  shows "hardened (mw_getenv env) (mw_settings env) (rq_path rq) rs"
proof (cases "check_origin env rq")
  case (Inl err)
  with assms(2) show ?thesis by (simp add: security_middleware_def Let_def)
next
  case (Inr res)
  note origin = Inr
  have api: "hardened (mw_getenv env) (mw_settings env) (rq_path rq)
      (apply_security_headers (mw_getenv env) (mw_settings env) True False rs)"
    if "py_startswith (rq_path rq) ''/api/''" for rs
    using applied_headers [OF assms(1), of "mw_getenv env" "rq_path rq" rs] that api_not_landing [OF that] by simp
  show ?thesis
  proof (cases res)
    case (Some bad)
    with origin assms(2) api [OF validated_path_api [OF check_origin_path]] show ?thesis
      by (auto simp: security_middleware_def Let_def)
  next
    case None
    show ?thesis
    proof (cases "\<not> st_rate_limit_enabled (mw_settings env) \<or> \<not> py_startswith (rq_path rq) ''/api/''")
      case True
      with None origin assms applied_headers show ?thesis
        by (auto simp: security_middleware_def Let_def split: prod.splits sum.splits)
    next
      case False
      with None origin assms(2) have "limited_request env rq s = (Inr rs, s')"
        by (simp add: security_middleware_def Let_def)
      with False api rate_headers_hardened show ?thesis
        by (auto simp: limited_request_def Let_def split: prod.splits sum.splits option.splits)
    qed
  qed
qed

section \<open>A production process\<close>

definition secured :: "settings \<Rightarrow> (string \<Rightarrow> string option) \<Rightarrow> bool" where
  "secured st getenv \<longleftrightarrow>
     is_production getenv st \<and> st_force_secure_datastores st
     \<and> \<not> py_startswith (py_lower (py_strip (database_url_effective getenv st))) ''sqlite+''"

lemma validated_settings:
  assumes "validate_production_security ip6 getenv st = Inr ()" and "secured st getenv"
  shows "st_security_headers_enabled st" and "31536000 \<le> st_hsts_max_age st"
    and "py_contains (st_csp_policy st) ''upgrade-insecure-requests''"
  using assms
  by (simp_all add: validate_production_security_def secured_def validate_datastores_def Let_def
      split: if_splits sum.splits)

text \<open>
  C22 (safety): in a production process that passed its startup checks, with the setting that forces secure
  datastores on and no SQLite database address (otherwise the checks return before they look at the headers),
  every response the security middleware returns, whatever the handler answered and also when
  the middleware answers itself, forbids sniffing and framing, asks for HTTPS for at least a year, is not
  cached on API paths, and upgrades insecure requests outside the landing pages.
\<close>

theorem production_responses_hardened:
  assumes "validate_production_security ip6 (mw_getenv env) (mw_settings env) = Inr ()"
    and "secured (mw_settings env) (mw_getenv env)"
    and "security_middleware env rq s = (Inr rs, s')"
  shows "header_of rs ''X-Content-Type-Options'' = Some ''nosniff'' \<and> header_of rs ''X-Frame-Options'' = Some ''DENY''
    \<and> (\<exists>age \<ge> 31536000. header_of rs ''Strict-Transport-Security''
          = Some (''max-age='' @ int_str age @ ''; includeSubDomains''))
    \<and> (py_startswith (rq_path rq) ''/api/'' \<longrightarrow> header_of rs ''Cache-Control'' = Some ''no-store'')
    \<and> (\<not> landing_path (rq_path rq) \<longrightarrow> (\<exists>csp. header_of rs ''Content-Security-Policy'' = Some csp
          \<and> py_contains csp ''upgrade-insecure-requests''))"
proof -
  let ?st = "mw_settings env"
  note valid = validated_settings [OF assms(1,2)]
  from middleware_hardened [OF valid(1) assms(3)]
  have hard: "hardened (mw_getenv env) ?st (rq_path rq) rs" .
  from assms(2) have prod: "is_production (mw_getenv env) ?st" by (simp add: secured_def)
  with hard have "header_of rs ''Strict-Transport-Security'' = Some (hsts_header_value ?st)"
    by (simp add: hardened_def)
  moreover from hard prod have "\<not> landing_path (rq_path rq) \<Longrightarrow>
      header_of rs ''Content-Security-Policy'' = Some (st_csp_policy ?st)"
    by (simp add: hardened_def effective_csp_policy_def)
  ultimately show ?thesis
    using hard valid(2,3) unfolding hardened_def hsts_header_value_def by blast
qed

text \<open>
  An exception that leaves the handler passes the security middleware by: the 500 response the outer
  middleware makes of it carries none of these headers.
\<close>

theorem crash_response_bare:
  assumes "security_middleware env rq s = (Inl err, s')"
  shows "\<exists>rs. serve new env rq s = (rs, s') \<and> rs_status rs = 500
    \<and> header_of rs ''X-Content-Type-Options'' = None \<and> header_of rs ''Strict-Transport-Security'' = None
    \<and> header_of rs ''Content-Security-Policy'' = None \<and> header_of rs ''Cache-Control'' = None"
proof -
  have "py_lower ''X-Content-Type-Options'' = ''x-content-type-options''" by simp
  have bare: "header_of (json_response 500 b) n = None" if "py_lower n \<noteq> ''content-type''" for n b
    using that by (simp add: header_of_def json_response_def)
  show ?thesis
    by (simp add: serve_def observability_middleware_def assms Let_def tag_response_def bare) (simp add: json_response_def)
qed

section \<open>Origins and forwarded addresses\<close>

text \<open>
  C23 (safety): in production, a state-changing request to one of the validated endpoints whose origin is
  missing or not in the configured list is answered 403 with nothing else done: the handler does not
  run and no counter moves; an origin in the list passes the check.
\<close>

theorem origin_gate:
  assumes "is_production (mw_getenv env) (mw_settings env)"
    and "st_origin_validation_enabled (mw_settings env)"
    and "rq_path rq \<in> set ORIGIN_VALIDATED_PATHS" and "rq_verb rq \<in> {''POST'', ''PUT'', ''PATCH'', ''DELETE''}"
    and "extract_request_origin env rq = Inr origin"
  shows "if origin = None \<or> \<not> is_origin_allowed (the origin) (cors_origins_list (mw_settings env))
    then \<exists>rs. security_middleware env rq s = (Inr rs, s) \<and> rs_status rs = 403
    else check_origin env rq = Inr None"
proof -
  have status: "rs_status (apply_security_headers g st a l rs) = rs_status rs" for g st a l rs
    by (simp add: apply_security_headers_def Let_def)
  show ?thesis
    using assms
    by (cases origin)
      (auto simp: check_origin_def security_middleware_def Let_def status detail_response_def json_response_def)
qed

text \<open>
  The limiter's address of a request is the leftmost entry of the forwarding header. A proxy that
  appends the peer's address leaves what the client sent in front, so the client names its own bucket.
\<close>

theorem client_names_its_bucket:
  assumes "py_strip claim = claim" and "claim \<noteq> []" and "CHR '','' \<notin> set claim" and "trusted \<noteq> []"
    and "header_get rq trusted = claim @ '', '' @ peer" and "py_strip (claim @ '', '' @ peer) = claim @ '', '' @ peer"
  shows "extract_real_ip rq trusted = claim"
proof -
  have "before (CHR '','') (claim @ '', '' @ peer) = claim"
    using assms(3) unfolding before_def by (subst takeWhile_append2) auto
  with assms show ?thesis by (simp add: extract_real_ip_def Let_def)
qed

text \<open>
  When Redis does not answer, an API request that passes the origin check reaches the handler
  with the counters as they were; the first rule's full quota is reported as remaining.
\<close>

theorem limiter_fails_open:
  assumes "st_rate_limit_enabled (mw_settings env)" and "py_startswith (rq_path rq) ''/api/''"
    and "check_origin env rq = Inr None" and "\<not> mw_up env 0"
  shows "\<exists>limit reset_at. security_middleware env rq s =
    (case mw_next env rq s of
       (Inl err, s') \<Rightarrow> (Inl err, s')
     | (Inr rs, s') \<Rightarrow>
         (Inr (rate_headers limit (max 0 limit) reset_at
            (apply_security_headers (mw_getenv env) (mw_settings env) True False rs)), s'))"
proof -
  have "limit_rules env rq \<noteq> []" by (simp add: limit_rules_def Let_def)
  then obtain p l rules where rules: "limit_rules env rq = (p, l) # rules"
    by (cases "limit_rules env rq") auto
  show ?thesis
    unfolding security_middleware_def limited_request_def Let_def
    by (rule exI [of _ l], rule exI [of _ "\<lfloor>py_time (mw_clock env 1)\<rfloor> + st_rate_limit_window_seconds (mw_settings env)"])
      (use assms in \<open>auto simp: rules check_sliding_window_def split: sum.split prod.split\<close>)
qed

section \<open>An instance\<close>

definition toy_getenv :: "string \<Rightarrow> string option" where
  "toy_getenv name =
     (if name = ''ENVIRONMENT'' then Some ''production''
      else if name = ''DATABASE_URL'' then Some ''postgresql+asyncpg://u:p@db/c?sslmode=require''
      else if name = ''REDIS_URL'' then Some ''rediss://cache'' else None)"

definition toy_settings :: settings where
  "toy_settings =
     \<lparr>st_app_env = ''production'', st_secret_key = replicate 32 CHR ''k'', st_encryption_key = ''e'',
      st_database_url = [], st_sqlite_fallback_url = ''sqlite+aiosqlite:///a'', st_db_ssl_enabled = False,
      st_db_ssl_min_version = ''TLSv1.3'', st_redis_url = [], st_redis_ssl_min_version = ''TLSv1.2'',
      st_clickhouse_secure = True, st_clickhouse_verify = True, st_clickhouse_ssl_min_version = ''TLSv1.3'',
      st_auth_cookie_secure = None, st_auth_cookie_samesite = ''lax'', st_auth_cookie_access_name = ''access'',
      st_cors_origins = ''https://app'', st_origin_validation_enabled = True, st_security_headers_enabled = True,
      st_csp_policy = ''upgrade-insecure-requests'', st_csp_policy_landing = [], st_csp_policy_dev = [],
      st_permissions_policy = ''usb=()'', st_hsts_max_age = 31536000, st_rate_limit_enabled = True,
      st_rate_limit_window_seconds = 60, st_rate_limit_trusted_proxy_header = ''X-Forwarded-For'',
      st_rate_limit_auth_ip_per_minute = 20, st_rate_limit_auth_login_ip_per_window = 10,
      st_rate_limit_auth_email_per_window = 5, st_rate_limit_api_ip_per_minute = 300,
      st_rate_limit_api_tenant_per_minute = 1200, st_force_secure_datastores = True\<rparr>"

definition toy_env :: "bool \<Rightarrow> (unit redis \<times> nat) mw_env" where
  "toy_env reachable =
     \<lparr>mw_settings = toy_settings, mw_getenv = toy_getenv,
      mw_platform = \<lparr>sha256 = (\<lambda>s. 0), hmac_sha256 = (\<lambda>k s. 0), float_repr = (\<lambda>x. []), float_of_str = (\<lambda>s. None),
                     secret_key = []\<rparr>,
      mw_crypto = toy_crypto, mw_ip6 = (\<lambda>s. False), mw_to_text = (\<lambda>j. []), mw_depth = 10, mw_backend = Live,
      mw_up = (\<lambda>n. reachable), mw_clock = (\<lambda>n. 0),
      mw_next = (\<lambda>rq s. (Inr (json_response 200 JNull), (fst s, Suc (snd s))))\<rparr>"

definition toy_request :: "string \<Rightarrow> http_request" where
  "toy_request path = \<lparr>rq_path = path, rq_verb = ''POST'', rq_headers = [(''origin'', ''https://evil'')], rq_cookies = [],
     rq_client = Some ''10.0.0.1'', rq_body = []\<rparr>"

lemma toy_production: "is_production toy_getenv toy_settings"
  by code_simp

lemma toy_validated: "validate_production_security (\<lambda>s. False) toy_getenv toy_settings = Inr ()"
  by code_simp

lemma toy_secured: "secured toy_settings toy_getenv"
  by code_simp

lemma toy_env_simps [simp]:
  "mw_settings (toy_env b) = toy_settings" "mw_getenv (toy_env b) = toy_getenv" "mw_up (toy_env b) n = b"
  "st_origin_validation_enabled toy_settings" "st_rate_limit_enabled toy_settings"
  by (simp_all add: toy_env_def toy_settings_def)

lemma toy_origin: "extract_request_origin (toy_env b) (toy_request path) = Inr (Some ''https://evil'')"
  by (cases b) (simp_all add: extract_request_origin_def toy_request_def header_get_def Let_def py_strip_def
      is_space_char_def rstrip_slash_def py_lower_def is_upper_char_def)

lemma toy_evil: "\<not> is_origin_allowed ''https://evil'' (cors_origins_list toy_settings)"
  by code_simp

theorem origin_gate_witness:
  "\<exists>rs. security_middleware (toy_env True) (toy_request ''/api/v1/auth/login'') (Map.empty, 0) = (Inr rs, (Map.empty, 0))
     \<and> rs_status rs = 403"
  using origin_gate [of "toy_env True" "toy_request ''/api/v1/auth/login''" "Some ''https://evil''" "(Map.empty, 0)"]
    toy_production toy_origin toy_evil
  by (simp add: ORIGIN_VALIDATED_PATHS_def toy_request_def)

lemma toy_refused:
  "\<exists>rs. security_middleware (toy_env True) (toy_request ''/api/v1/auth/login'') (Map.empty, 0) = (Inr rs, (Map.empty, 0))"
  by (simp add: security_middleware_def check_origin_def toy_production toy_origin toy_evil Let_def
      ORIGIN_VALIDATED_PATHS_def) (simp add: toy_request_def)

theorem production_responses_hardened_witness:
  "\<exists>rs. security_middleware (toy_env True) (toy_request ''/api/v1/auth/login'') (Map.empty, 0) = (Inr rs, (Map.empty, 0))
     \<and> header_of rs ''X-Frame-Options'' = Some ''DENY''"
proof -
  obtain rs where "security_middleware (toy_env True) (toy_request ''/api/v1/auth/login'') (Map.empty, 0) = (Inr rs, (Map.empty, 0))"
    using toy_refused by blast
  with production_responses_hardened [of "\<lambda>s. False" "toy_env True" "toy_request ''/api/v1/auth/login''" "(Map.empty, 0)" rs "(Map.empty, 0)"]
    toy_validated toy_secured
  show ?thesis by auto
qed

theorem limiter_fails_open_witness:
  "\<exists>rs. security_middleware (toy_env False) (toy_request ''/api/v1/plans'') (Map.empty, 0) = (Inr rs, (Map.empty, 1))"
proof -
  have "check_origin (toy_env False) (toy_request ''/api/v1/plans'') = Inr None"
    by (simp add: check_origin_def toy_request_def ORIGIN_VALIDATED_PATHS_def Let_def)
  moreover have "mw_next (toy_env False) rq (r, n) = (Inr (json_response 200 JNull), (r, Suc n))" for rq r n
    by (simp add: toy_env_def)
  ultimately show ?thesis
    using limiter_fails_open [of "toy_env False" "toy_request ''/api/v1/plans''" "(Map.empty, 0)"]
    by (auto simp: toy_request_def py_startswith_def)
qed

end
