(* ===== verification/Jobs.thy ===== *)
theory Jobs
  imports Idempotency PyJson Keyring
begin

text \<open>
  The background jobs of \<open>workers/\<close>: the payload parser, the retry protocol and the dead letter queue of
  \<open>job_runtime.py\<close>, the ingestion, scoring and carbon workers with the periodic scheduler, and the
  operations of \<open>domains/admin/service.py\<close> and \<open>maintenance_worker.py\<close> on the dead letter queue. Redis
  answers every command here: its lists, its counters (\<open>INCR\<close> without expiry) and its keys with expiry.
  What a job runs (the cost ledger, the decision engine, notifications) is a record of functions; their
  exceptions are values, and the ledger returned with one is what they had committed.
\<close>

section \<open>Payloads\<close>

record queue_job =
  qj_queue :: string
  qj_org :: "uuid option"
  qj_account :: "uuid option"
  qj_lookback :: "int option"
  qj_payload :: string

text \<open>\<open>UUID(s)\<close>: the prefixes \<open>urn:\<close> and \<open>uuid:\<close>, braces and hyphens are dropped.\<close>

function py_remove :: "string \<Rightarrow> string \<Rightarrow> string" where
  "py_remove p [] = []"
| "py_remove p (c # s) =
     (if p \<noteq> [] \<and> take (length p) (c # s) = p then py_remove p (drop (length p) (c # s))
      else c # py_remove p s)"
  by pat_completeness auto
termination
  by (relation "measure (\<lambda>(p, s). length s)") auto

definition strip_braces :: "string \<Rightarrow> string" where
  "strip_braces s =
     (let brace = (\<lambda>c. c = CHR ''{'' \<or> c = CHR ''}'') in rev (dropWhile brace (rev (dropWhile brace s))))"

definition py_uuid :: "string \<Rightarrow> uuid option" where
  "py_uuid s = uuid_of_str (strip_braces (py_remove ''uuid:'' (py_remove ''urn:'' s)))"

text \<open>The first match of the UUID pattern (8-4-4-4-12 hexadecimal digits) in a text.\<close>

definition uuid_shape :: "string \<Rightarrow> bool" where
  "uuid_shape s \<longleftrightarrow> length s = 36
     \<and> list_all (\<lambda>i. if i \<in> {8, 13, 18, 23} then s ! i = CHR ''-'' else hex_digit (s ! i) \<noteq> None) [0..<36]"

fun uuid_search :: "string \<Rightarrow> string option" where
  "uuid_search [] = None"
| "uuid_search (c # s) = (if uuid_shape (take 36 (c # s)) then Some (take 36 (c # s)) else uuid_search s)"

text \<open>Truth of a JSON value, \<open>UUID(v)\<close> and \<open>int(v)\<close> of one.\<close>

fun truthy :: "json \<Rightarrow> bool" where
  "truthy JNull = False"
| "truthy (JBool b) = b"
| "truthy (JInt i) = (i \<noteq> 0)"
| "truthy (JFloat x) = (x \<noteq> 0)"
| "truthy (JStr s) = (s \<noteq> [])"
| "truthy (JList vs) = (vs \<noteq> [])"
| "truthy (JDict kvs) = (kvs \<noteq> [])"

definition field :: "(string \<times> json) list \<Rightarrow> string \<Rightarrow> json" where
  "field kvs k = (case map_of kvs k of None \<Rightarrow> JNull | Some v \<Rightarrow> v)"

definition json_uuid :: "json \<Rightarrow> uuid option result" where
  "json_uuid v =
     (if \<not> truthy v then Inr None
      else case v of
        JStr s \<Rightarrow> (case py_uuid s of
            None \<Rightarrow> Inl (ValueError ''badly formed hexadecimal UUID string'') | Some u \<Rightarrow> Inr (Some u))
      | _ \<Rightarrow> Inl (AttributeError ''replace''))"

definition json_int :: "json \<Rightarrow> int option result" where
  "json_int v =
     (case v of
        JNull \<Rightarrow> Inr None
      | JInt i \<Rightarrow> Inr (Some i)
      | JBool b \<Rightarrow> Inr (Some (if b then 1 else 0))
      | JFloat x \<Rightarrow> Inr (Some (if x < 0 then \<lceil>x\<rceil> else \<lfloor>x\<rfloor>))
      | JStr s \<Rightarrow> (case py_int s of None \<Rightarrow> Inl (ValueError ''invalid literal for int()'') | Some i \<Rightarrow> Inr (Some i))
      | _ \<Rightarrow> Inl (TypeError ''int() argument''))"

definition parse_structured :: "nat \<Rightarrow> string \<Rightarrow> string \<Rightarrow> queue_job result" where
  "parse_structured depth queue_name raw =
     (case json_loads depth raw of
        Inl err \<Rightarrow> Inl err
      | Inr (JDict kvs) \<Rightarrow>
          (case json_uuid (field kvs ''org_id'') of
             Inl err \<Rightarrow> Inl err
           | Inr org \<Rightarrow>
               (case json_uuid (field kvs ''account_id'') of
                  Inl err \<Rightarrow> Inl err
                | Inr account \<Rightarrow>
                    (case json_int (field kvs ''lookback_days'') of
                       Inl err \<Rightarrow> Inl err
                     | Inr lookback \<Rightarrow>
                         Inr \<lparr>qj_queue = queue_name, qj_org = org, qj_account = account, qj_lookback = lookback,
                              qj_payload = raw\<rparr>)))
      | Inr _ \<Rightarrow> Inl (AttributeError ''get''))"

definition parse_job :: "nat \<Rightarrow> string \<Rightarrow> string \<Rightarrow> queue_job" where
  "parse_job depth queue_name raw =
     (case parse_structured depth queue_name raw of
        Inr j \<Rightarrow> j
      | Inl _ \<Rightarrow>
          let account = (case py_uuid raw of
                Some u \<Rightarrow> Some u
              | None \<Rightarrow> (case uuid_search raw of None \<Rightarrow> None | Some t \<Rightarrow> py_uuid t))
          in \<lparr>qj_queue = queue_name, qj_org = None, qj_account = account, qj_lookback = None, qj_payload = raw\<rparr>)"

section \<open>State\<close>

datatype connector_status = CONNECTOR_ACTIVE | CONNECTOR_INACTIVE | CONNECTOR_ERROR | CONNECTOR_PENDING

record cloud_account =
  ca_id :: uuid
  ca_org :: uuid
  ca_status :: connector_status
  ca_last_sync :: "instant option"
  ca_display_name :: string

datatype dlq_status = DLQ_OPEN | DLQ_REQUEUED | DLQ_RESOLVED

record dlq_message =
  dm_id :: uuid
  dm_queue :: string
  dm_org :: "uuid option"
  dm_account :: "uuid option"
  dm_payload :: string
  dm_error :: string
  dm_retry_count :: nat
  dm_status :: dlq_status
  dm_created_at :: instant

record job_alert =
  ja_org :: uuid
  ja_event_type :: string
  ja_severity :: string
  ja_source_id :: string

text \<open>The Redis part, and the tables the workers write; \<open>jd_ledger\<close> is everything the jobs themselves change.\<close>

record queue_store =
  qs_lists :: "string \<Rightarrow> string list"
  qs_retry :: "string \<Rightarrow> nat"
  qs_keys :: "unit redis"

record 'l job_db =
  jd_accounts :: "cloud_account list"
  jd_dlq :: "dlq_message list"
  jd_alerts :: "job_alert list"
  jd_ledger :: 'l

record 'l job_state =
  js_store :: queue_store
  js_db :: "'l job_db"

text \<open>
  \<open>je_ingest org account start end\<close>, \<open>je_score\<close> and \<open>je_carbon\<close> are the services the jobs call, \<open>je_notify\<close> is
  \<open>create_realtime_alert\<close>, which answers an alert it already has with no new one, and \<open>je_text\<close> is \<open>str(e)\<close>.
\<close>

record ingest_result =
  ir_status :: string
  ir_costs :: nat
  ir_events :: nat

record 'l job_env =
  je_depth :: nat
  je_ingest :: "uuid \<Rightarrow> uuid \<Rightarrow> int \<Rightarrow> int \<Rightarrow> 'l \<Rightarrow> ingest_result result \<times> 'l"
  je_score :: "uuid \<Rightarrow> uuid \<Rightarrow> 'l \<Rightarrow> nat result \<times> 'l"
  je_carbon :: "uuid \<Rightarrow> uuid \<Rightarrow> int \<Rightarrow> int \<Rightarrow> 'l \<Rightarrow> nat result \<times> 'l"
  je_notify :: "job_alert \<Rightarrow> job_alert list \<Rightarrow> job_alert list"
  je_text :: "error \<Rightarrow> string"
  je_now :: instant
  je_fresh :: uuid

section \<open>Lists and counters of Redis\<close>

definition lpush :: "string \<Rightarrow> string \<Rightarrow> queue_store \<Rightarrow> queue_store" where
  "lpush q v st = st\<lparr>qs_lists := (qs_lists st)(q := v # qs_lists st q)\<rparr>"

definition brpop :: "string \<Rightarrow> queue_store \<Rightarrow> (string \<times> queue_store) option" where
  "brpop q st =
     (if qs_lists st q = [] then None
      else Some (last (qs_lists st q), st\<lparr>qs_lists := (qs_lists st)(q := butlast (qs_lists st q))\<rparr>))"

definition incr_retry :: "string \<Rightarrow> queue_store \<Rightarrow> nat \<times> queue_store" where
  "incr_retry k st = (Suc (qs_retry st k), st\<lparr>qs_retry := (qs_retry st)(k := Suc (qs_retry st k))\<rparr>)"

definition delete_retry :: "string \<Rightarrow> queue_store \<Rightarrow> queue_store" where
  "delete_retry k st = st\<lparr>qs_retry := (qs_retry st)(k := 0)\<rparr>"

definition delete_key :: "string \<Rightarrow> queue_store \<Rightarrow> queue_store" where
  "delete_key k st = st\<lparr>qs_keys := (qs_keys st)(k := None)\<rparr>"

section \<open>Retries and the dead letter queue\<close>

definition MAX_RETRIES :: nat where
  "MAX_RETRIES = 3"

definition retry_key :: "string \<Rightarrow> string \<Rightarrow> string" where
  "retry_key queue_name raw = ''retry:'' @ queue_name @ '':'' @ raw"

definition push_to_dlq ::
  "'l job_env \<Rightarrow> queue_job \<Rightarrow> string \<Rightarrow> nat \<Rightarrow> 'l job_db \<Rightarrow> 'l job_db" where
  "push_to_dlq env job msg retry_count db =
     db\<lparr>jd_dlq := jd_dlq db @ [\<lparr>dm_id = je_fresh env, dm_queue = qj_queue job, dm_org = qj_org job,
       dm_account = qj_account job, dm_payload = qj_payload job, dm_error = msg, dm_retry_count = retry_count,
       dm_status = DLQ_OPEN, dm_created_at = je_now env\<rparr>]\<rparr>"

datatype job_outcome =
    Invalid_payload
  | Skipped_locked
  | Account_missing
  | Org_mismatch
  | Completed_job
  | Retry_scheduled nat
  | Dead_lettered nat

text \<open>
  The exception handler the queue workers share: count the attempt, put the payload back or move it to
  the dead letter queue with an alert of the job's organization (\<open>alert\<close>, none for the scoring worker).
\<close>

definition retry_or_bury ::
  "'l job_env \<Rightarrow> (uuid \<Rightarrow> nat \<Rightarrow> job_alert) option \<Rightarrow> queue_job \<Rightarrow> error \<Rightarrow> 'l job_state \<Rightarrow> job_outcome \<times> 'l job_state" where
  "retry_or_bury env alert job e st =
     (let k = retry_key (qj_queue job) (qj_payload job);
          (attempts, rds) = incr_retry k (js_store st)
      in if attempts < MAX_RETRIES
         then (Retry_scheduled attempts, st\<lparr>js_store := lpush (qj_queue job) (qj_payload job) rds\<rparr>)
         else let db = push_to_dlq env job (je_text env e) attempts (js_db st);
                  db = (case (alert, qj_org job) of
                          (Some a, Some org) \<Rightarrow> db\<lparr>jd_alerts := je_notify env (a org attempts) (jd_alerts db)\<rparr>
                        | _ \<Rightarrow> db)
              in (Dead_lettered attempts, \<lparr>js_store = delete_retry k rds, js_db = db\<rparr>))"

definition failure_alert :: "string \<Rightarrow> string \<Rightarrow> uuid \<Rightarrow> uuid \<Rightarrow> nat \<Rightarrow> job_alert" where
  "failure_alert kind source account org attempts =
     \<lparr>ja_org = org, ja_event_type = kind, ja_severity = ''critical'',
      ja_source_id = source @ uuid_str account @ '':'' @ nat_str attempts\<rparr>"

text \<open>The account a job names, checked against the organization it names.\<close>

definition job_account :: "queue_job \<Rightarrow> uuid \<Rightarrow> cloud_account list \<Rightarrow> (job_outcome + cloud_account) result" where
  "job_account job account accounts =
     (case scalar_one_or_none (filter (\<lambda>a. ca_id a = account) accounts) of
        Inl err \<Rightarrow> Inl err
      | Inr None \<Rightarrow> Inr (Inl Account_missing)
      | Inr (Some a) \<Rightarrow>
          Inr (if qj_org job \<noteq> None \<and> qj_org job \<noteq> Some (ca_org a) then Inl Org_mismatch else Inr a))"

section \<open>Ingestion\<close>

definition INGESTION_QUEUE :: string where "INGESTION_QUEUE = ''ingestion:queue''"
definition SCORING_QUEUE :: string where "SCORING_QUEUE = ''scoring:queue''"
definition CARBON_QUEUE :: string where "CARBON_QUEUE = ''carbon:queue''"
definition LOCK_TTL :: int where "LOCK_TTL = 3600"

definition opt_uuid_text :: "uuid option \<Rightarrow> string" where
  "opt_uuid_text u = (case u of None \<Rightarrow> ''None'' | Some i \<Rightarrow> uuid_str i)"

definition ingestion_lock_key :: "uuid option \<Rightarrow> uuid \<Rightarrow> string" where
  "ingestion_lock_key org account = ''ingestion:lock:'' @ opt_uuid_text org @ '':'' @ uuid_str account"

definition today :: "instant \<Rightarrow> int" where
  "today now = now div 86400000000"

definition ingestion_lookback :: "int option \<Rightarrow> int" where
  "ingestion_lookback requested = max 7 (min (case requested of None \<Rightarrow> 30 | Some d \<Rightarrow> d) 90)"

definition account_payload :: "uuid \<Rightarrow> uuid \<Rightarrow> string" where
  "account_payload org account =
     json_dumps (\<lambda>x. []) (JDict [(''org_id'', JStr (uuid_str org)), (''account_id'', JStr (uuid_str account))])"

text \<open>
  The body under the lock. The session commits the ledger; the alert of the finished sync is added after
  that commit, nothing commits it, and closing the session rolls it back.
\<close>

definition ingest_locked ::
  "'l job_env \<Rightarrow> queue_job \<Rightarrow> uuid \<Rightarrow> 'l job_state \<Rightarrow> job_outcome \<times> 'l job_state" where
  "ingest_locked env job account st =
     (let alert = failure_alert ''worker.ingestion.dlq_failure'' ''ingestion:'' account
      in case job_account job account (jd_accounts (js_db st)) of
        Inl err \<Rightarrow> retry_or_bury env (Some alert) job err st
      | Inr (Inl refused) \<Rightarrow> (refused, st)
      | Inr (Inr a) \<Rightarrow>
          let lookback = ingestion_lookback (qj_lookback job); end_day = today (je_now env);
              start_day = end_day - lookback;
              (r, ledger) = je_ingest env (ca_org a) account start_day end_day (jd_ledger (js_db st));
              st' = st\<lparr>js_db := (js_db st)\<lparr>jd_ledger := ledger\<rparr>\<rparr>
          in case r of
            Inl err \<Rightarrow> retry_or_bury env (Some alert) job err st'
          | Inr _ \<Rightarrow>
              let rds = delete_retry (retry_key (qj_queue job) (qj_payload job)) (js_store st');
                  next_payload = account_payload (ca_org a) account;
                  rds = lpush CARBON_QUEUE next_payload (lpush SCORING_QUEUE next_payload rds)
              in (Completed_job, st'\<lparr>js_store := rds\<rparr>))"

definition acquire_lock :: "instant \<Rightarrow> string \<Rightarrow> queue_store \<Rightarrow> bool \<times> queue_store" where
  "acquire_lock now k st =
     (let (won, keys) = redis_set_nx now k (Text ''1'') LOCK_TTL (qs_keys st) in (won, st\<lparr>qs_keys := keys\<rparr>))"

definition process_account :: "'l job_env \<Rightarrow> string \<Rightarrow> 'l job_state \<Rightarrow> job_outcome \<times> 'l job_state" where
  "process_account env raw st =
     (let job = parse_job (je_depth env) INGESTION_QUEUE raw in
      case qj_account job of
        None \<Rightarrow> (Invalid_payload, st)
      | Some account \<Rightarrow>
          let lock = ingestion_lock_key (qj_org job) account;
              (won, rds) = acquire_lock (je_now env) lock (js_store st)
          in if \<not> won then (Skipped_locked, st\<lparr>js_store := rds\<rparr>)
             else let (outcome, st') = ingest_locked env job account (st\<lparr>js_store := rds\<rparr>)
                  in (outcome, st'\<lparr>js_store := delete_key lock (js_store st')\<rparr>))"

section \<open>Scoring and carbon\<close>

definition process_scoring :: "'l job_env \<Rightarrow> string \<Rightarrow> 'l job_state \<Rightarrow> job_outcome \<times> 'l job_state" where
  "process_scoring env raw st =
     (let job = parse_job (je_depth env) SCORING_QUEUE raw in
      case qj_account job of
        None \<Rightarrow> (Invalid_payload, st)
      | Some account \<Rightarrow>
          (case job_account job account (jd_accounts (js_db st)) of
             Inl err \<Rightarrow> retry_or_bury env None job err st
           | Inr (Inl refused) \<Rightarrow> (refused, st)
           | Inr (Inr a) \<Rightarrow>
               let (r, ledger) = je_score env (ca_org a) account (jd_ledger (js_db st));
                   st' = st\<lparr>js_db := (js_db st)\<lparr>jd_ledger := ledger\<rparr>\<rparr>
               in case r of
                 Inl err \<Rightarrow> retry_or_bury env None job err st'
               | Inr _ \<Rightarrow>
                   (Completed_job, st'\<lparr>js_store := delete_retry (retry_key SCORING_QUEUE raw) (js_store st')\<rparr>)))"

definition process_carbon_sync :: "'l job_env \<Rightarrow> string \<Rightarrow> 'l job_state \<Rightarrow> job_outcome \<times> 'l job_state" where
  "process_carbon_sync env raw st =
     (let job = parse_job (je_depth env) CARBON_QUEUE raw in
      case qj_account job of
        None \<Rightarrow> (Invalid_payload, st)
      | Some account \<Rightarrow>
          let alert = failure_alert ''worker.carbon_sync.dlq_failure'' ''carbon_sync:'' account;
              end_day = today (je_now env)
          in case job_account job account (jd_accounts (js_db st)) of
             Inl err \<Rightarrow> retry_or_bury env (Some alert) job err st
           | Inr (Inl refused) \<Rightarrow> (refused, st)
           | Inr (Inr a) \<Rightarrow>
               let (r, ledger) = je_carbon env (ca_org a) (ca_id a) (end_day - 90) end_day (jd_ledger (js_db st));
                   st' = st\<lparr>js_db := (js_db st)\<lparr>jd_ledger := ledger\<rparr>\<rparr>
               in case r of
                 Inl err \<Rightarrow> retry_or_bury env (Some alert) job err st'
               | Inr _ \<Rightarrow>
                   (Completed_job, st'\<lparr>js_store := delete_retry (retry_key CARBON_QUEUE raw) (js_store st')\<rparr>))"

section \<open>The scheduler\<close>

definition smart_lookback :: "instant \<Rightarrow> instant option \<Rightarrow> int" where
  "smart_lookback now last_sync =
     (case last_sync of
        None \<Rightarrow> 90
      | Some t \<Rightarrow> max 2 (min ((now - t) div 86400000000 + 2) 90))"

definition schedule_key :: "uuid \<Rightarrow> uuid \<Rightarrow> int \<Rightarrow> string" where
  "schedule_key org account bucket =
     ''ingestion:scheduled:'' @ uuid_str org @ '':'' @ uuid_str account @ '':'' @ int_str bucket"

definition sync_payload :: "uuid \<Rightarrow> uuid \<Rightarrow> int \<Rightarrow> string" where
  "sync_payload org account lookback =
     json_dumps (\<lambda>x. []) (JDict [(''org_id'', JStr (uuid_str org)), (''account_id'', JStr (uuid_str account)),
       (''lookback_days'', JInt lookback)])"

definition eligible_account :: "cloud_account \<Rightarrow> bool" where
  "eligible_account a \<longleftrightarrow> ca_status a \<in> {CONNECTOR_ACTIVE, CONNECTOR_ERROR, CONNECTOR_PENDING}"

fun enqueue_accounts ::
  "instant \<Rightarrow> int \<Rightarrow> int \<Rightarrow> cloud_account list \<Rightarrow> queue_store \<Rightarrow> nat \<times> queue_store" where
  "enqueue_accounts now interval bucket [] st = (0, st)"
| "enqueue_accounts now interval bucket (a # as) st =
     (let (won, keys) = redis_set_nx now (schedule_key (ca_org a) (ca_id a) bucket) (Text ''1'') (interval + 300)
            (qs_keys st);
          st = st\<lparr>qs_keys := keys\<rparr>
      in if \<not> won then enqueue_accounts now interval bucket as st
         else let raw = sync_payload (ca_org a) (ca_id a) (smart_lookback now (ca_last_sync a));
                  (n, st') = enqueue_accounts now interval bucket as (lpush INGESTION_QUEUE raw st)
              in (Suc n, st'))"

definition enqueue_periodic_sync_jobs :: "instant \<Rightarrow> int \<Rightarrow> 'l job_state \<Rightarrow> nat \<times> 'l job_state" where
  "enqueue_periodic_sync_jobs now interval st =
     (let bucket = now div (max interval 1 * 1000000);
          (n, rds) = enqueue_accounts now interval bucket (filter eligible_account (jd_accounts (js_db st))) (js_store st)
      in (n, st\<lparr>js_store := rds\<rparr>))"

section \<open>Operations on the dead letter queue\<close>

definition requeue_dlq :: "uuid \<Rightarrow> ('l job_state, dlq_message) svc" where
  "requeue_dlq dlq_id st =
     (case scalar_one_or_none (filter (\<lambda>m. dm_id m = dlq_id) (jd_dlq (js_db st))) of
        Inl err \<Rightarrow> (Inl err, st)
      | Inr None \<Rightarrow> (Inl (HTTPException 404 ''DLQ message not found''), st)
      | Inr (Some m) \<Rightarrow>
          let m' = m\<lparr>dm_status := DLQ_REQUEUED\<rparr>;
              dlq = map (\<lambda>x. if dm_id x = dlq_id then m' else x) (jd_dlq (js_db st))
          in (Inr m', \<lparr>js_store = lpush (dm_queue m) (dm_payload m) (js_store st), js_db = (js_db st)\<lparr>jd_dlq := dlq\<rparr>\<rparr>))"

definition DLQ_RETENTION_DAYS :: int where "DLQ_RETENTION_DAYS = 30"

definition run_dlq_cleanup :: "instant \<Rightarrow> 'l job_db \<Rightarrow> nat \<times> 'l job_db" where
  "run_dlq_cleanup now db =
     (let cutoff = now - days_us DLQ_RETENTION_DAYS;
          old = (\<lambda>m. dm_created_at m < cutoff \<and> dm_status m \<in> {DLQ_RESOLVED, DLQ_REQUEUED})
      in (length (filter old (jd_dlq db)), db\<lparr>jd_dlq := filter (\<lambda>m. \<not> old m) (jd_dlq db)\<rparr>))"

section \<open>The loop of a worker\<close>

text \<open>One turn: take a payload, if there is one, and process it.\<close>

definition worker_turn ::
  "(string \<Rightarrow> 'l job_state \<Rightarrow> job_outcome \<times> 'l job_state) \<Rightarrow> string \<Rightarrow> 'l job_state \<Rightarrow> job_outcome option \<times> 'l job_state" where
  "worker_turn handle q st =
     (case brpop q (js_store st) of
        None \<Rightarrow> (None, st)
      | Some (raw, rds) \<Rightarrow>
          let (outcome, st') = handle raw (st\<lparr>js_store := rds\<rparr>) in (Some outcome, st'))"


text \<open>Consecutive turns; the services may answer differently in each.\<close>

primrec worker_turns ::
  "('e \<Rightarrow> string \<Rightarrow> 'l job_state \<Rightarrow> job_outcome \<times> 'l job_state) \<Rightarrow> string \<Rightarrow> 'e list \<Rightarrow> 'l job_state
   \<Rightarrow> job_outcome list \<times> 'l job_state" where
  "worker_turns handle q [] st = ([], st)"
| "worker_turns handle q (e # es) st =
     (case worker_turn (handle e) q st of
        (None, st') \<Rightarrow> worker_turns handle q es st'
      | (Some res, st') \<Rightarrow> (let (rest, st'') = worker_turns handle q es st' in (res # rest, st'')))"

end
