(* ===== verification/JsonLaws.thy ===== *)
theory JsonLaws
  imports PyJson Codec
begin

text \<open>
  The round trip of JSON text: what \<open>json.dumps\<close> writes, \<open>json.loads\<close> reads back, for values without
  floats, ASCII text and distinct keys, nested at most as deep as the reader may recurse.
\<close>

section \<open>Strings\<close>

definition ascii :: "string \<Rightarrow> bool" where
  "ascii s \<longleftrightarrow> list_all (\<lambda>c. (of_char c :: nat) < 128) s"

lemma hex_digit_char: "d < 16 \<Longrightarrow> hex_digit (hex_char d) = Some d"
  by (auto simp: hex_digit_def hex_char_def Let_def)

lemma scan_hex_snoc:
  "scan_hex n acc (xs @ r) = Some (v, r) \<Longrightarrow> length xs = n \<Longrightarrow> d < 16 \<Longrightarrow>
   scan_hex (Suc n) acc (xs @ hex_char d # r) = Some (16 * v + d, r)"
proof (induction n arbitrary: acc xs)
  case 0
  then show ?case by (simp add: hex_digit_char)
next
  case (Suc n)
  then obtain x ys where xs: "xs = x # ys" "length ys = n" by (cases xs) auto
  with Suc.prems obtain h where h: "hex_digit x = Some h" and v: "scan_hex n (16 * acc + h) (ys @ r) = Some (v, r)"
    by (auto split: option.splits)
  show ?case using Suc.IH [OF v xs(2) Suc.prems(3)] by (simp add: xs(1) h)
qed

lemma scan_hex_rest: "scan_hex n acc (xs @ r) = Some (v, r) \<Longrightarrow> length xs = n \<Longrightarrow> scan_hex n acc (xs @ r') = Some (v, r')"
proof (induction n arbitrary: acc xs)
  case (Suc n)
  then show ?case by (cases xs) (auto split: option.splits)
qed simp

lemma scan_hex_digits: "m < 16 ^ w \<Longrightarrow> scan_hex w 0 (hex_digits w m @ r) = Some (m, r)"
proof (induction w arbitrary: m r)
  case (Suc w)
  then have "m div 16 < 16 ^ w" by (simp add: less_mult_imp_div_less mult.commute)
  from Suc.IH [OF this] have "scan_hex w 0 (hex_digits w (m div 16) @ r) = Some (m div 16, r)" .
  from scan_hex_snoc [OF this] show ?case by simp
qed simp

lemma scan_escaped:
  assumes "(of_char c :: nat) < 128"
  shows "scan_string (json_esc c @ s) =
    (case scan_string s of Inl err \<Rightarrow> Inl err | Inr (t, r) \<Rightarrow> Inr (c # t, r))"
proof (cases "json_esc c = CHR 0x5C # CHR ''u'' # hex_digits 4 (of_char c)")
  case True
  then have small: "(of_char c :: nat) < 32"
    by (auto simp: json_esc_def split: if_splits)
  have "scan_hex 4 0 (hex_digits 4 (of_char c) @ s) = Some (of_char c, s)"
    by (rule scan_hex_digits) (use small in simp)
  with small have "scan_unicode (hex_digits 4 (of_char c) @ s) = Some ([c], s)"
    by (simp add: scan_unicode_def utf8_bytes_def)
  with True show ?thesis by (simp split: sum.split)
next
  case False
  then show ?thesis
    by (auto simp: json_esc_def simple_escape_def split: if_splits sum.split)
qed

lemma scan_string_back: "ascii s \<Longrightarrow> scan_string (concat (map json_esc s) @ CHR ''\"'' # r) = Inr (s, r)"
  by (induction s) (simp_all add: ascii_def scan_escaped)

section \<open>Numbers\<close>

definition stops :: "string \<Rightarrow> bool" where
  "stops r \<longleftrightarrow> r = [] \<or> hd r \<in> {CHR '','', CHR '']'', CHR ''}''}"

lemma nat_str_head: "0 < n \<Longrightarrow> hd (nat_str n) \<noteq> CHR ''0''"
proof (induction n rule: nat_str.induct)
  case (1 n)
  show ?case
  proof (cases "n < 10")
    case True
    with 1 have "of_char (digit_char n) = (48 + n :: nat)" by simp
    moreover have "of_char (CHR ''0'') = (48 :: nat)" by simp
    ultimately have "digit_char n \<noteq> CHR ''0''" using "1.prems" by (metis add_eq_self_zero less_irrefl)
    with True show ?thesis by (subst nat_str.simps) simp
  next
    case False
    then have "0 < n div 10" by simp
    with 1 False have "hd (nat_str (n div 10)) \<noteq> CHR ''0''" by simp
    with False show ?thesis by (subst nat_str.simps) simp
  qed
qed

lemma digits_end:
  assumes "\<forall>c \<in> set ds. is_digit_char c" and "stops r"
  shows "takeWhile is_digit_char (ds @ r) = ds" and "dropWhile is_digit_char (ds @ r) = r"
proof -
  from assms(2) have "r = [] \<or> \<not> is_digit_char (hd r)" by (auto simp: stops_def is_digit_char_def)
  with assms(1) show "takeWhile is_digit_char (ds @ r) = ds" and "dropWhile is_digit_char (ds @ r) = r"
    by (cases r; simp add: takeWhile_append2 dropWhile_append2)+
qed

lemma scan_digits_int:
  assumes "stops r" and "length ds \<le> int_digit_limit"
  shows "scan_digits neg ds r = Inr (JInt (if neg then - int (str_nat ds) else int (str_nat ds)), r)"
proof -
  from assms(1) have "scan_fraction r = None" and "scan_exponent r = None"
    by (cases r; auto simp: stops_def scan_fraction_def scan_exponent_def)+
  with assms(2) show ?thesis by (simp add: scan_digits_def)
qed

lemma scan_number_nat:
  assumes "stops r" and "length (nat_str n) \<le> int_digit_limit"
  shows "scan_number (nat_str n @ r) = Inr (JInt (int n), r)"
    and "scan_number (CHR ''-'' # nat_str n @ r) = Inr (JInt (- int n), r)"
proof -
  obtain c ds where cds: "nat_str n = c # ds" by (cases "nat_str n") auto
  have digits: "\<forall>x \<in> set (nat_str n). is_digit_char x" using nat_str_digits by blast
  with cds have c: "is_digit_char c" by simp
  then have minus: "c \<noteq> CHR ''-''" using minus_not_digit by blast
  have zero: "ds = []" if "c = CHR ''0''"
  proof -
    have "n = 0" using nat_str_head [of n] cds that by (cases "n = 0") auto
    with cds show ?thesis by (subst (asm) nat_str.simps) simp
  qed
  have run: "(if c = CHR ''0'' then scan_digits neg ''0'' (ds @ r)
      else scan_digits neg (takeWhile is_digit_char (c # ds @ r)) (dropWhile is_digit_char (c # ds @ r))) =
      Inr (JInt (if neg then - int n else int n), r)" for neg
  proof (cases "c = CHR ''0''")
    case True
    with zero cds have "nat_str n = ''0''" by simp
    with str_nat_nat_str [of n] scan_digits_int [OF assms(1), of "nat_str n" neg] assms(2) True zero
    show ?thesis by simp
  next
    case False
    from digits_end [OF digits assms(1)] cds
    have "takeWhile is_digit_char (c # ds @ r) = nat_str n" and "dropWhile is_digit_char (c # ds @ r) = r"
      by (simp_all del: takeWhile.simps dropWhile.simps)
    with False scan_digits_int [OF assms] show ?thesis by simp
  qed
  from run [of False] run [of True] minus c
  show "scan_number (nat_str n @ r) = Inr (JInt (int n), r)"
    and "scan_number (CHR ''-'' # nat_str n @ r) = Inr (JInt (- int n), r)"
    by (simp_all add: scan_number_def cds split: if_splits)
qed

section \<open>Values\<close>

fun plain :: "json \<Rightarrow> bool" where
  "plain JNull = True"
| "plain (JBool b) = True"
| "plain (JInt i) = (length (nat_str (nat \<bar>i\<bar>)) \<le> int_digit_limit)"
| "plain (JFloat x) = False"
| "plain (JStr s) = ascii s"
| "plain (JList vs) = list_all plain vs"
| "plain (JDict kvs) = (distinct (map fst kvs) \<and> list_all (\<lambda>(k, v). ascii k \<and> plain v) kvs)"

fun nest :: "json \<Rightarrow> nat" where
  "nest (JList vs) = Suc (foldr max (map nest vs) 0)"
| "nest (JDict kvs) = Suc (foldr max (map (\<lambda>(k, v). nest v) kvs) 0)"
| "nest v = 0"

lemma nest_le: "foldr max ns 0 \<le> (d :: nat) \<longleftrightarrow> list_all (\<lambda>n. n \<le> d) ns"
  by (induction ns) auto

definition value_head :: "char \<Rightarrow> bool" where
  "value_head c \<longleftrightarrow> \<not> json_ws c \<and> c \<noteq> CHR '']'' \<and> c \<noteq> CHR ''}''"

lemma digit_head: "is_digit_char c \<Longrightarrow> value_head c \<and> c \<notin> {CHR ''\"'', CHR ''{'', CHR ''['', CHR ''n'', CHR ''t'', CHR ''f''}"
  by (auto simp: value_head_def json_ws_def is_digit_char_def)

lemma dumps_head: "plain v \<Longrightarrow> \<exists>c s. json_dumps frepr v = c # s \<and> value_head c"
proof (cases v)
  case (JInt i)
  obtain c s where "nat_str (nat i) = c # s" by (cases "nat_str (nat i)") auto
  moreover from this have "is_digit_char c" using nat_str_digits [of c "nat i"] by simp
  ultimately show ?thesis using JInt digit_head by (auto simp: int_str_def value_head_def json_ws_def)
qed (auto simp: value_head_def json_ws_def json_string_def)

lemma skip_value: "plain v \<Longrightarrow> skip_ws (json_dumps frepr v @ r) = json_dumps frepr v @ r"
  using dumps_head [of v frepr] by (auto simp: skip_ws_def value_head_def)

lemma skip_ws_simps [simp]:
  "skip_ws (CHR '' '' # s) = skip_ws s" "skip_ws (CHR '','' # s) = CHR '','' # s"
  "skip_ws (CHR '']'' # s) = CHR '']'' # s" "skip_ws (CHR ''}'' # s) = CHR ''}'' # s"
  "skip_ws (CHR '':'' # s) = CHR '':'' # s" "skip_ws (CHR ''\"'' # s) = CHR ''\"'' # s" "skip_ws [] = []"
  by (simp_all add: skip_ws_def json_ws_def)

text \<open>A value is read back wherever its text stands, with what follows left unread.\<close>

definition value_back :: "(pyfloat \<Rightarrow> string) \<Rightarrow> (string \<Rightarrow> (json \<times> string) result) \<Rightarrow> json \<Rightarrow> bool" where
  "value_back frepr rd v \<longleftrightarrow> plain v \<and> (\<forall>r. stops r \<longrightarrow> rd (json_dumps frepr v @ r) = Inr (v, r))"

lemma stops_simps [simp]: "stops (CHR '','' # r)" "stops (CHR '']'' # r)" "stops (CHR ''}'' # r)" "stops []"
  by (simp_all add: stops_def)

lemma scan_items_back:
  "list_all (value_back frepr rd) vs \<Longrightarrow> vs \<noteq> [] \<Longrightarrow> length vs \<le> n \<Longrightarrow>
   scan_items rd n (py_join '', '' (map (json_dumps frepr) vs) @ CHR '']'' # r) = Inr (vs, r)"
proof (induction vs arbitrary: n)
  case (Cons v vs)
  then obtain m where n: "n = Suc m" by (cases n) auto
  show ?case
  proof (cases vs)
    case Nil
    with Cons.prems n show ?thesis by (simp add: value_back_def)
  next
    case (Cons w ws)
    have more: "skip_ws (py_join '', '' (map (json_dumps frepr) vs) @ CHR '']'' # r) =
        py_join '', '' (map (json_dumps frepr) vs) @ CHR '']'' # r"
      using Cons.prems Cons by (cases ws) (auto simp: value_back_def skip_value)
    have "scan_items rd m (py_join '', '' (map (json_dumps frepr) vs) @ CHR '']'' # r) = Inr (vs, r)"
      using Cons.IH Cons.prems n Cons by simp
    with more Cons.prems n show ?thesis by (simp add: Cons value_back_def)
  qed
qed simp

abbreviation member_text :: "(pyfloat \<Rightarrow> string) \<Rightarrow> (string \<times> json) list \<Rightarrow> string" where
  "member_text frepr kvs \<equiv>
     py_join '', '' (map (\<lambda>(k, v). json_string k @ '': '' @ json_dumps frepr v) kvs)"

lemma scan_members_back:
  "list_all (\<lambda>(k, v). ascii k \<and> value_back frepr rd v) kvs \<Longrightarrow> kvs \<noteq> [] \<Longrightarrow> length kvs \<le> n \<Longrightarrow>
   scan_members rd n (member_text frepr kvs @ CHR ''}'' # r) = Inr (kvs, r)"
proof (induction kvs arbitrary: n)
  case (Cons kv kvs)
  obtain k v where kv: "kv = (k, v)" by (cases kv)
  from Cons.prems obtain m where n: "n = Suc m" by (cases n) auto
  have head: "skip_ws (json_dumps frepr v @ r') = json_dumps frepr v @ r'" for r'
    using Cons.prems kv by (simp add: value_back_def skip_value)
  have val: "stops r' \<Longrightarrow> rd (json_dumps frepr v @ r') = Inr (v, r')" for r'
    using Cons.prems kv by (simp add: value_back_def)
  have key: "scan_string (concat (map json_esc k) @ CHR ''\"'' # r') = Inr (k, r')" for r'
    using Cons.prems kv by (simp add: scan_string_back)
  show ?case
  proof (cases kvs)
    case Nil
    show ?thesis by (simp add: Nil kv n json_string_def key head val)
  next
    case (Cons w ws)
    have more: "skip_ws (member_text frepr kvs @ CHR ''}'' # r) = member_text frepr kvs @ CHR ''}'' # r"
      unfolding Cons by (cases w; cases ws) (auto simp: json_string_def)
    have "scan_members rd m (member_text frepr kvs @ CHR ''}'' # r) = Inr (kvs, r)"
      using Cons.IH Cons.prems n Cons by simp
    with more show ?thesis by (simp add: Cons kv n json_string_def key head val)
  qed
qed simp

lemma py_dict_distinct: "distinct (map fst kvs) \<Longrightarrow> py_dict kvs = kvs"
proof -
  have fresh: "k \<notin> fst ` set d \<Longrightarrow> AList.update k v d = d @ [(k, v)]" for k :: string and v :: json and d
    by (induction d) auto
  have "distinct (map fst (d @ kvs)) \<Longrightarrow> foldl (\<lambda>d (k, v). AList.update k v d) d kvs = d @ kvs" for d
  proof (induction kvs arbitrary: d)
    case (Cons kv kvs)
    obtain k v where kv: "kv = (k, v)" by (cases kv)
    with Cons.prems have "AList.update k v d = d @ [kv]" by (intro fresh [of k d v, folded kv]) auto
    with Cons.IH [of "d @ [kv]"] Cons.prems kv show ?case by simp
  qed simp
  from this [of "[]"] show "distinct (map fst kvs) \<Longrightarrow> py_dict kvs = kvs" by (simp add: py_dict_def)
qed

lemma length_py_join: "list_all (\<lambda>x. x \<noteq> []) xs \<Longrightarrow> length xs \<le> length (py_join sep xs)"
proof (induction xs)
  case (Cons x xs)
  then have "0 < length x" and "length xs \<le> length (py_join sep xs)" by auto
  moreover have "length x + length (py_join sep xs) \<le> length (py_join sep (x # xs))" by (cases xs) simp_all
  ultimately have "Suc (length xs) \<le> length (py_join sep (x # xs))" by linarith
  then show ?case by simp
qed simp

lemma scan_value_list:
  assumes "list_all (value_back frepr (scan_value d)) vs"
  shows "scan_value (Suc d) (json_dumps frepr (JList vs) @ r) = Inr (JList vs, r)"
proof (cases vs)
  case (Cons v ws)
  let ?t = "py_join '', '' (map (json_dumps frepr) vs)"
  have ne: "list_all (\<lambda>x. x \<noteq> []) (map (json_dumps frepr) vs)"
  proof -
    have "json_dumps frepr x \<noteq> []" if "plain x" for x using dumps_head [OF that, of frepr] by auto
    with assms show ?thesis by (auto simp: list_all_iff value_back_def)
  qed
  have len: "length vs \<le> length (?t @ CHR '']'' # r)" using length_py_join [OF ne, of "'', ''"] by simp
  obtain c s where "json_dumps frepr v = c # s" and c: "value_head c"
    using assms Cons dumps_head [of v frepr] by (auto simp: value_back_def)
  then obtain t where t: "?t = c # t" by (cases ws) (auto simp: Cons)
  have "scan_items (scan_value d) (length (?t @ CHR '']'' # r)) (?t @ CHR '']'' # r) = Inr (vs, r)"
    by (rule scan_items_back [OF assms _ len]) (simp add: Cons)
  then have "scan_items (scan_value d) (length (c # t @ CHR '']'' # r)) (c # t @ CHR '']'' # r) = Inr (vs, r)"
    by (simp only: t append_Cons)
  with c show ?thesis
    by (simp add: t skip_ws_def value_head_def del: scan_items.simps)
qed simp

lemma scan_value_dict:
  assumes "list_all (\<lambda>(k, v). ascii k \<and> value_back frepr (scan_value d) v) kvs"
    and "distinct (map fst kvs)"
  shows "scan_value (Suc d) (json_dumps frepr (JDict kvs) @ r) = Inr (JDict kvs, r)"
proof (cases kvs)
  case (Cons kv ws)
  let ?t = "member_text frepr kvs"
  have "length (map (\<lambda>(k, v). json_string k @ '': '' @ json_dumps frepr v) kvs) \<le> length ?t"
    by (rule length_py_join) (auto simp: list_all_iff)
  then have len: "length kvs \<le> length (?t @ CHR ''}'' # r)" by simp
  obtain t where t: "?t = CHR ''\"'' # t" by (cases ws; cases kv) (auto simp: Cons json_string_def)
  have "scan_members (scan_value d) (length (?t @ CHR ''}'' # r)) (?t @ CHR ''}'' # r) = Inr (kvs, r)"
    by (rule scan_members_back [OF assms(1) _ len]) (simp add: Cons)
  then have "scan_members (scan_value d) (length (CHR ''\"'' # t @ CHR ''}'' # r)) (CHR ''\"'' # t @ CHR ''}'' # r) = Inr (kvs, r)"
    unfolding t by (simp only: append_Cons)
  moreover have "json_dumps frepr (JDict kvs) @ r = CHR ''{'' # CHR ''\"'' # t @ CHR ''}'' # r"
    using t by simp
  ultimately show ?thesis
    by (simp add: py_dict_distinct [OF assms(2)] del: scan_members.simps json_dumps.simps)
qed (simp add: py_dict_def)

lemma scan_value_int:
  assumes "plain (JInt i)" and "stops r"
  shows "scan_value d (int_str i @ r) = Inr (JInt i, r)"
proof -
  obtain c s where cs: "nat_str (nat i) = c # s" by (cases "nat_str (nat i)") auto
  then have "is_digit_char c" using nat_str_digits [of c "nat i"] by simp
  from digit_head [OF this] cs scan_number_nat [OF assms(2), of "nat i"]
    scan_number_nat [OF assms(2), of "nat (- i)"] assms(1)
  show ?thesis by (cases "i < 0") (auto simp: int_str_def)
qed

lemma scan_value_back: "plain v \<Longrightarrow> nest v \<le> d \<Longrightarrow> value_back frepr (scan_value d) v"
proof (induction v arbitrary: d)
  case (JInt i)
  then show ?case by (auto simp: value_back_def scan_value_int)
next
  case (JStr s)
  then show ?case by (simp add: value_back_def json_string_def scan_string_back)
next
  case (JList vs)
  then obtain e where d: "d = Suc e" by (cases d) auto
  with JList have "list_all (value_back frepr (scan_value e)) vs"
    by (auto simp: list_all_iff nest_le)
  from scan_value_list [OF this] JList.prems d show ?case by (simp add: value_back_def)
next
  case (JDict kvs)
  then obtain e where d: "d = Suc e" by (cases d) auto
  have "list_all (\<lambda>(k, v). ascii k \<and> value_back frepr (scan_value e) v) kvs"
    using JDict d by (fastforce simp: list_all_iff nest_le)
  from scan_value_dict [OF this] JDict.prems d show ?case by (simp add: value_back_def)
qed (simp_all add: value_back_def)

lemma loads_dumps:
  assumes "plain v" and "nest v \<le> depth"
  shows "json_loads depth (json_dumps frepr v) = Inr v"
proof -
  have "scan_value depth (json_dumps frepr v @ []) = Inr (v, [])"
    using scan_value_back [OF assms] by (simp only: value_back_def stops_simps simp_thms)
  moreover have "skip_ws (json_dumps frepr v @ []) = json_dumps frepr v @ []"
    by (rule skip_value [OF assms(1)])
  ultimately show ?thesis by (simp add: json_loads_def)
qed

interpretation json_text: codec "\<lambda>v. plain v \<and> nest v \<le> depth" "json_dumps frepr" "json_loads depth" for depth frepr
  by unfold_locales (simp add: loads_dumps)

end
