(* ===== verification/JobLaws.thy ===== *)
theory JobLaws
  imports Jobs JsonLaws
begin

text \<open>
  Laws of the background jobs: payloads read back, the scheduler, the retry protocol of one worker (a
  locale over its handler, interpreted for the ingestion, scoring and carbon workers), and the ingestion
  lock under concurrent workers as a step relation.
\<close>

section \<open>Payloads\<close>

lemma uuid_str_chars: "c \<in> set (uuid_str u) \<Longrightarrow> c = CHR ''-'' \<or> (\<exists>d < 16. c = hex_char d)"
proof -
  have digits: "c \<in> set (hex_digits w n) \<Longrightarrow> \<exists>d < 16. c = hex_char d" for c w n
  proof (induction w arbitrary: n)
    case (Suc w)
    then consider "c \<in> set (hex_digits w (n div 16))" | "c = hex_char (n mod 16)" by auto
    then show ?case by cases (use Suc.IH in \<open>auto intro: exI [where x = "n mod 16"]\<close>)
  qed simp
  assume "c \<in> set (uuid_str u)"
  then have "c = CHR ''-'' \<or> c \<in> set (hex_digits 32 (unat u))"
    by (auto simp: uuid_str_def Let_def dest: in_set_takeD in_set_dropD)
  with digits show ?thesis by blast
qed

lemma hex_char_code: "d < 16 \<Longrightarrow> (of_char (hex_char d) :: nat) = (if d < 10 then 48 + d else 87 + d)"
  by (simp add: hex_char_def)

lemma uuid_str_plain:
  assumes "c \<in> set (uuid_str u)"
  shows "(of_char c :: nat) < 103"
  using uuid_str_chars [OF assms] by (auto simp: hex_char_code split: if_splits)

lemma ascii_uuid_str [simp]: "ascii (uuid_str u)"
  using uuid_str_plain by (fastforce simp: ascii_def list_all_iff)

lemma py_remove_other: "hd p \<notin> set s \<Longrightarrow> p \<noteq> [] \<Longrightarrow> py_remove p s = s"
proof (induction p s rule: py_remove.induct)
  case (2 p c s)
  then have "take (length p) (c # s) \<noteq> p" by (cases p) auto
  with 2 show ?case by simp
qed simp

lemma py_uuid_str [simp]: "py_uuid (uuid_str u) = Some u"
proof -
  have free: "c \<notin> set (uuid_str u)" if "103 \<le> (of_char c :: nat)" for c
    using that uuid_str_plain [of c u] by auto
  have "dropWhile (\<lambda>c. c = CHR ''{'' \<or> c = CHR ''}'') s = s"
    if "CHR ''{'' \<notin> set s" "CHR ''}'' \<notin> set s" for s
    using that by (cases s) auto
  then have "strip_braces (uuid_str u) = uuid_str u"
    using free [of "CHR ''{''"] free [of "CHR ''}''"] by (simp add: strip_braces_def Let_def)
  moreover have "py_remove ''urn:'' (uuid_str u) = uuid_str u" "py_remove ''uuid:'' (uuid_str u) = uuid_str u"
    using free [of "CHR ''u''"] by (simp_all add: py_remove_other)
  ultimately show ?thesis by (simp add: py_uuid_def)
qed

lemma uuid_str_nonempty [simp]: "uuid_str u \<noteq> []"
proof
  assume "uuid_str u = []"
  then have "uuid_of_str [] = Some u" using uuid_of_str_inverse [of u] by simp
  then show False by (simp add: uuid_of_str_def)
qed

lemma json_uuid_str [simp]: "json_uuid (JStr (uuid_str u)) = Inr (Some u)"
  by (simp add: json_uuid_def)

lemma ascii_names [simp]: "ascii ''org_id''" "ascii ''account_id''" "ascii ''lookback_days''"
  by (simp_all add: ascii_def)

lemma payloads_back:
  assumes "0 < depth" and "length (nat_str (nat \<bar>n\<bar>)) \<le> int_digit_limit"
  shows "parse_job depth q (sync_payload org account n) =
      \<lparr>qj_queue = q, qj_org = Some org, qj_account = Some account, qj_lookback = Some n,
       qj_payload = sync_payload org account n\<rparr> \<and>
    parse_job depth q (account_payload org account) =
      \<lparr>qj_queue = q, qj_org = Some org, qj_account = Some account, qj_lookback = None,
       qj_payload = account_payload org account\<rparr>"
proof -
  have "json_loads depth (sync_payload org account n) =
      Inr (JDict [(''org_id'', JStr (uuid_str org)), (''account_id'', JStr (uuid_str account)), (''lookback_days'', JInt n)])"
    unfolding sync_payload_def using assms by (intro json_text.scan_render) simp
  moreover have "json_loads depth (account_payload org account) =
      Inr (JDict [(''org_id'', JStr (uuid_str org)), (''account_id'', JStr (uuid_str account))])"
    unfolding account_payload_def using assms by (intro json_text.scan_render) simp
  ultimately show ?thesis
    by (simp add: parse_job_def parse_structured_def field_def json_int_def json_uuid_def)
qed

text \<open>
  A payload the scheduler or the sync endpoint writes is read back by the worker as the
  organization, account and number of days it was written for, and a payload the ingestion worker hands
  on as its organization and account, whatever the queue.
\<close>

theorem scheduled_job_reads_back:
  assumes "0 < depth" and "length (nat_str (nat \<bar>n\<bar>)) \<le> int_digit_limit"
  shows "parse_job depth q (sync_payload org account n) =
      \<lparr>qj_queue = q, qj_org = Some org, qj_account = Some account, qj_lookback = Some n,
       qj_payload = sync_payload org account n\<rparr> \<and>
    parse_job depth q (account_payload org account) =
      \<lparr>qj_queue = q, qj_org = Some org, qj_account = Some account, qj_lookback = None,
       qj_payload = account_payload org account\<rparr>"
  using assms by (rule payloads_back)

theorem scheduled_job_reads_back_witness:
  "qj_lookback (parse_job 1 INGESTION_QUEUE (sync_payload 1 2 90)) = Some 90"
  using scheduled_job_reads_back [of 1 90 INGESTION_QUEUE 1 2]
  by (simp add: int_digit_limit_def nat_str.simps)

section \<open>The scheduler\<close>

text \<open>
  The job scheduled for an account asks for 2 to 90 days and is run over 7 to 90; for an
  account synchronised within the last 88 days the run starts before the day of that synchronisation.
\<close>

theorem scheduled_window_covers:
  "2 \<le> smart_lookback now last_sync \<and> smart_lookback now last_sync \<le> 90 \<and>
   7 \<le> ingestion_lookback d \<and> ingestion_lookback d \<le> 90 \<and>
   (t \<le> now \<and> now - t < days_us 89 \<longrightarrow>
     today now - ingestion_lookback (Some (smart_lookback now (Some t))) < today t)"
proof -
  have "today now - ingestion_lookback (Some (smart_lookback now (Some t))) < today t"
    if "t \<le> now" and "now - t < days_us 89"
  proof -
    let ?d = "86400000000 :: int"
    from that(2) have gap: "(now - t) div ?d \<le> 88" unfolding days_us_def by linarith
    have "now div ?d \<le> t div ?d + (now - t) div ?d + 1" by linarith
    with gap show ?thesis by (simp add: today_def ingestion_lookback_def smart_lookback_def)
  qed
  then show ?thesis by (auto simp: smart_lookback_def ingestion_lookback_def split: option.split)
qed

theorem scheduled_window_covers_witness:
  "today 100000000000 - ingestion_lookback (Some (smart_lookback 100000000000 (Some 0))) < today 0"
  using scheduled_window_covers [of 100000000000 None None 0] by (simp add: days_us_def)

section \<open>The retry protocol of one worker\<close>

abbreviation pending :: "string \<Rightarrow> 'l job_state \<Rightarrow> string list" where
  "pending q st \<equiv> qs_lists (js_store st) q"

definition tries :: "string \<Rightarrow> 'l job_state \<Rightarrow> string \<Rightarrow> nat" where
  "tries q st raw = qs_retry (js_store st) (retry_key q raw)"

text \<open>How the outcome of a job shows in its queue and in the counters of its payloads.\<close>

definition protocol :: "string \<Rightarrow> string \<Rightarrow> job_outcome \<Rightarrow> 'l job_state \<Rightarrow> 'l job_state \<Rightarrow> bool" where
  "protocol q raw res st st' \<longleftrightarrow>
     (case res of
        Retry_scheduled n \<Rightarrow> n = Suc (tries q st raw) \<and> n < MAX_RETRIES
          \<and> pending q st' = raw # pending q st \<and> tries q st' = (tries q st)(raw := n)
      | Dead_lettered n \<Rightarrow> n = Suc (tries q st raw) \<and> MAX_RETRIES \<le> n
          \<and> pending q st' = pending q st \<and> tries q st' = (tries q st)(raw := 0)
      | Completed_job \<Rightarrow> pending q st' = pending q st \<and> tries q st' = (tries q st)(raw := 0)
      | _ \<Rightarrow> pending q st' = pending q st \<and> tries q st' = tries q st)"

definition is_final :: "job_outcome \<Rightarrow> bool" where
  "is_final res \<longleftrightarrow> (case res of Retry_scheduled _ \<Rightarrow> False | _ \<Rightarrow> True)"

text \<open>
  The contract of a worker's handler, under which the queue drains. Each turn is handled by a handler of
  the family (what the services do may differ from one turn to the next).
\<close>

locale queue_worker =
  fixes q :: string and handle :: "'e \<Rightarrow> string \<Rightarrow> 'l job_state \<Rightarrow> job_outcome \<times> 'l job_state"
  assumes follows: "handle e raw st = (res, st') \<Longrightarrow> protocol q raw res st st'"
begin

definition steady :: "'l job_state \<Rightarrow> bool" where
  "steady st \<longleftrightarrow> (\<forall>raw. tries q st raw < MAX_RETRIES)"

definition work_left :: "'l job_state \<Rightarrow> int" where
  "work_left st = 3 * int (length (pending q st)) - (\<Sum>raw \<in> set (pending q st). int (tries q st raw))"

lemma turn_cases:
  obtains (empty) "pending q st = []" "worker_turn (handle e) q st = (None, st)"
  | (job) ys raw res st' where "pending q st = ys @ [raw]" "worker_turn (handle e) q st = (Some res, st')"
      "protocol q raw res (st\<lparr>js_store := (js_store st)\<lparr>qs_lists := (qs_lists (js_store st))(q := ys)\<rparr>\<rparr>) st'"
proof (cases "pending q st" rule: rev_cases)
  case Nil
  then show ?thesis using empty by (simp add: worker_turn_def brpop_def)
next
  case (snoc ys raw)
  let ?st = "st\<lparr>js_store := (js_store st)\<lparr>qs_lists := (qs_lists (js_store st))(q := ys)\<rparr>\<rparr>"
  obtain res st' where h: "handle e raw ?st = (res, st')" by fastforce
  show ?thesis using job [OF snoc _ follows [OF h]] h snoc by (simp add: worker_turn_def brpop_def)
qed

lemma protocol_steady:
  assumes "protocol q raw res st st'" and "steady st"
  shows "steady st'" and "res = Dead_lettered n \<Longrightarrow> n = MAX_RETRIES"
proof -
  have "tries q st raw < 3" using assms(2) by (simp add: steady_def MAX_RETRIES_def)
  with assms(1) show "res = Dead_lettered n \<Longrightarrow> n = MAX_RETRIES"
    by (auto simp: protocol_def MAX_RETRIES_def)
  from assms show "steady st'"
    by (auto simp: protocol_def steady_def MAX_RETRIES_def split: job_outcome.splits)
qed

lemma sum_fun_upd_in:
  fixes f :: "string \<Rightarrow> nat"
  assumes "finite A" and "x \<in> A"
  shows "(\<Sum>y \<in> A. int ((f(x := n)) y)) = (\<Sum>y \<in> A. int (f y)) - int (f x) + int n"
proof -
  have "(\<Sum>y \<in> A. int ((f(x := n)) y)) = int n + (\<Sum>y \<in> A - {x}. int ((f(x := n)) y))"
    using assms by (simp add: sum.remove)
  also have "(\<Sum>y \<in> A - {x}. int ((f(x := n)) y)) = (\<Sum>y \<in> A - {x}. int (f y))"
    by (rule sum.cong) auto
  finally show ?thesis using assms by (simp add: sum.remove)
qed

lemma sum_fun_upd_out: "x \<notin> A \<Longrightarrow> (\<Sum>y \<in> A. int ((f(x := n)) y)) = (\<Sum>y \<in> A. int (f y))"
  by (rule sum.cong) auto

lemma protocol_progress:
  assumes p: "protocol q raw res (st\<lparr>js_store := (js_store st)\<lparr>qs_lists := (qs_lists (js_store st))(q := ys)\<rparr>\<rparr>) st'"
    and st: "pending q st = ys @ [raw]" "steady st"
  shows "work_left st' < work_left st"
    and "length (pending q st') + (if is_final res then 1 else 0) = length (pending q st)"
proof -
  let ?f = "tries q st"
  have f: "tries q (st\<lparr>js_store := (js_store st)\<lparr>qs_lists := (qs_lists (js_store st))(q := ys)\<rparr>\<rparr>) = ?f"
    by (simp add: tries_def fun_eq_iff)
  have small: "?f raw \<le> 2"
    using st(2) by (simp add: steady_def MAX_RETRIES_def) (metis less_Suc_eq_le numeral_3_eq_3 numeral_2_eq_2)
  have insert: "(\<Sum>r \<in> insert raw (set ys). int (?f r)) =
      (\<Sum>r \<in> set ys. int (?f r)) + (if raw \<in> set ys then 0 else int (?f raw))"
    by (simp add: insert_absorb)
  have dropped: "(\<Sum>r \<in> set ys. int ((?f(raw := 0)) r)) = (\<Sum>r \<in> set ys. int (?f r)) - (if raw \<in> set ys then int (?f raw) else 0)"
    by (cases "raw \<in> set ys") (simp_all only: sum_fun_upd_in sum_fun_upd_out List.finite_set if_True if_False of_nat_0 add_0_right diff_zero not_False_eq_True)
  have raised: "(\<Sum>r \<in> insert raw (set ys). int ((?f(raw := Suc (?f raw))) r)) = (\<Sum>r \<in> insert raw (set ys). int (?f r)) + 1"
    by (subst sum_fun_upd_in) simp_all
  show "work_left st' < work_left st"
    using p st(1) small insert dropped raised
    by (cases res; cases "raw \<in> set ys") (simp_all add: protocol_def f work_left_def)
  show "length (pending q st') + (if is_final res then 1 else 0) = length (pending q st)"
    using p st(1) by (cases res) (simp_all add: protocol_def is_final_def)
qed

lemma work_bounds: "steady st \<Longrightarrow> int (length (pending q st)) \<le> work_left st \<and> work_left st \<le> 3 * int (length (pending q st))"
proof -
  assume "steady st"
  then have "(\<Sum>raw \<in> set (pending q st). int (tries q st raw)) \<le> (\<Sum>raw \<in> set (pending q st). 2)"
    by (intro sum_mono) (simp add: steady_def MAX_RETRIES_def, metis less_Suc_eq_le numeral_3_eq_3 numeral_2_eq_2 of_nat_le_iff of_nat_numeral)
  also have "\<dots> = 2 * int (card (set (pending q st)))" by simp
  also have "\<dots> \<le> 2 * int (length (pending q st))" using card_length [of "pending q st"] by simp
  finally show ?thesis by (simp add: work_left_def sum_nonneg)
qed

text \<open>
  Enough turns empty the queue; every job that was in it ended once, and those given up on had been
  tried exactly \<open>MAX_RETRIES\<close> times.
\<close>

lemma drains:
  "steady st \<Longrightarrow> work_left st \<le> int (length es) \<Longrightarrow> worker_turns handle q es st = (outs, st') \<Longrightarrow>
   pending q st' = [] \<and> steady st' \<and> length (filter is_final outs) = length (pending q st) \<and>
   (\<forall>n. Dead_lettered n \<in> set outs \<longrightarrow> n = MAX_RETRIES)"
proof (induction es arbitrary: st outs)
  case Nil
  from work_bounds [OF Nil.prems(1)] Nil.prems(2) [unfolded list.size of_nat_0]
  have "int (length (pending q st)) \<le> 0" by linarith
  with Nil.prems show ?case by simp
next
  case (Cons e es)
  show ?case
  proof (cases rule: turn_cases [of st e])
    case empty
    with Cons.prems have "worker_turns handle q es st = (outs, st')" by simp
    moreover have "work_left st \<le> int (length es)" using empty(1) by (simp add: work_left_def)
    ultimately show ?thesis using Cons.IH Cons.prems(1) by blast
  next
    case (job ys raw res st1)
    obtain rest where rest: "worker_turns handle q es st1 = (rest, st')" and outs: "outs = res # rest"
      using Cons.prems(3) job(2) by (auto split: prod.splits)
    let ?st = "st\<lparr>js_store := (js_store st)\<lparr>qs_lists := (qs_lists (js_store st))(q := ys)\<rparr>\<rparr>"
    have "steady ?st" using Cons.prems(1) by (simp add: steady_def tries_def)
    note step = protocol_steady [OF job(3) this] protocol_progress [OF job(3,1) Cons.prems(1)]
    from step(3) Cons.prems(2) have "work_left st1 \<le> int (length es)" by simp
    from Cons.IH [OF step(1) this rest] step(2,4) show ?thesis by (auto simp: outs)
  qed
qed

lemma drains_queue:
  assumes "steady st" and "3 * length (pending q st) \<le> length es"
  shows "pending q (snd (worker_turns handle q es st)) = [] \<and> length (filter is_final (fst (worker_turns handle q es st))) = length (pending q st)
    \<and> (\<forall>n. Dead_lettered n \<in> set (fst (worker_turns handle q es st)) \<longrightarrow> n = MAX_RETRIES)"
proof -
  obtain outs st' where t: "worker_turns handle q es st = (outs, st')" by fastforce
  have "work_left st \<le> int (length es)" using work_bounds [OF assms(1)] assms(2) by linarith
  from drains [OF assms(1) this t] t show ?thesis by simp
qed

end

section \<open>The workers follow the protocol\<close>

lemma retry_key_inject [simp]: "retry_key q raw = retry_key q raw' \<longleftrightarrow> raw = raw'"
  by (simp add: retry_key_def)

lemma parse_job_fields [simp]: "qj_queue (parse_job d q raw) = q" "qj_payload (parse_job d q raw) = raw"
  by (auto simp: parse_job_def parse_structured_def Let_def split: sum.split json.split)

lemma retry_or_bury_protocol:
  assumes "retry_or_bury env alert job err st = (res, st')" and "qj_queue job = q" and "qj_payload job = raw"
  shows "protocol q raw res st st'" and "qs_keys (js_store st') = qs_keys (js_store st)" and "res \<noteq> Skipped_locked"
  using assms
  by (auto simp: retry_or_bury_def incr_retry_def lpush_def delete_retry_def protocol_def tries_def fun_eq_iff
      Let_def split: if_splits)

lemma protocol_frame:
  "qs_lists (js_store st1) q = qs_lists (js_store st) q \<Longrightarrow> qs_retry (js_store st1) = qs_retry (js_store st) \<Longrightarrow>
   qs_lists (js_store st') q = qs_lists (js_store st2) q \<Longrightarrow> qs_retry (js_store st') = qs_retry (js_store st2) \<Longrightarrow>
   protocol q raw res st st' = protocol q raw res st1 st2"
  by (simp add: protocol_def tries_def fun_eq_iff split: job_outcome.split)

lemma queue_names [simp]:
  "SCORING_QUEUE \<noteq> INGESTION_QUEUE" "CARBON_QUEUE \<noteq> INGESTION_QUEUE"
  "INGESTION_QUEUE \<noteq> SCORING_QUEUE" "INGESTION_QUEUE \<noteq> CARBON_QUEUE"
  by (simp_all add: SCORING_QUEUE_def INGESTION_QUEUE_def CARBON_QUEUE_def)

lemma job_account_refusal: "job_account job a as = Inr (Inl res) \<Longrightarrow> res = Account_missing \<or> res = Org_mismatch"
  by (auto simp: job_account_def split: sum.splits option.splits if_splits)

lemma protocol_refused: "res = Account_missing \<or> res = Org_mismatch \<Longrightarrow> protocol q raw res st st \<and> res \<noteq> Skipped_locked"
  by (auto simp: protocol_def)

lemma ingest_locked_protocol:
  assumes "ingest_locked env job account st = (res, st')" and "qj_queue job = INGESTION_QUEUE" and "qj_payload job = raw"
  shows "protocol INGESTION_QUEUE raw res st st' \<and> qs_keys (js_store st') = qs_keys (js_store st) \<and> res \<noteq> Skipped_locked"
proof (cases "job_account job account (jd_accounts (js_db st))")
  case (Inl err)
  with assms retry_or_bury_protocol show ?thesis by (fastforce simp: ingest_locked_def Let_def)
next
  case (Inr found)
  note acc = Inr
  show ?thesis
  proof (cases found)
    case (Inl refused)
    with acc have "job_account job account (jd_accounts (js_db st)) = Inr (Inl refused)" by simp
    from protocol_refused [OF job_account_refusal [OF this], of INGESTION_QUEUE raw st] acc Inl assms(1)
    show ?thesis by (auto simp: ingest_locked_def Let_def)
  next
    case (Inr a)
    obtain r ledger where run: "je_ingest env (ca_org a) account
        (today (je_now env) - ingestion_lookback (qj_lookback job)) (today (je_now env)) (jd_ledger (js_db st)) = (r, ledger)"
      by fastforce
    let ?st = "st\<lparr>js_db := (js_db st)\<lparr>jd_ledger := ledger\<rparr>\<rparr>"
    show ?thesis
    proof (cases r)
      case (Inl err)
      with acc Inr run assms(1) obtain alert where "retry_or_bury env alert job err ?st = (res, st')"
        by (auto simp: ingest_locked_def Let_def)
      from retry_or_bury_protocol [OF this assms(2,3)] protocol_frame [of ?st INGESTION_QUEUE st st' st' raw res]
      show ?thesis by simp
    next
      case (Inr n)
      with acc \<open>found = Inr a\<close> run assms show ?thesis
        by (auto simp: ingest_locked_def Let_def protocol_def tries_def lpush_def delete_retry_def fun_eq_iff)
    qed
  qed
qed

lemma process_account_protocol:
  assumes "process_account env raw st = (res, st')"
  shows "protocol INGESTION_QUEUE raw res st st'"
proof -
  let ?job = "parse_job (je_depth env) INGESTION_QUEUE raw"
  show ?thesis
  proof (cases "qj_account ?job")
    case None
    with assms show ?thesis by (auto simp: process_account_def Let_def protocol_def)
  next
    case (Some account)
    let ?lock = "ingestion_lock_key (qj_org ?job) account"
    obtain won keys where lock: "redis_set_nx (je_now env) ?lock (Text ''1'') LOCK_TTL (qs_keys (js_store st)) = (won, keys)"
      by fastforce
    let ?st = "st\<lparr>js_store := (js_store st)\<lparr>qs_keys := keys\<rparr>\<rparr>"
    show ?thesis
    proof (cases won)
      case False
      with Some lock assms show ?thesis
        by (auto simp: process_account_def acquire_lock_def Let_def protocol_def tries_def)
    next
      case True
      obtain st1 where run: "ingest_locked env ?job account ?st = (res, st1)"
        and st': "st' = st1\<lparr>js_store := delete_key ?lock (js_store st1)\<rparr>"
        using True Some lock assms
        by (auto simp: process_account_def acquire_lock_def Let_def split: prod.splits)
      from ingest_locked_protocol [OF run] have "protocol INGESTION_QUEUE raw res ?st st1" by simp
      with protocol_frame [of ?st INGESTION_QUEUE st st' st1 raw res] show ?thesis by (simp add: st' delete_key_def)
    qed
  qed
qed

lemma service_protocol:
  assumes "qj_queue job = q" and "qj_payload job = raw"
    and "(case job_account job account (jd_accounts (js_db st)) of
        Inl err \<Rightarrow> retry_or_bury env alert job err st
      | Inr (Inl refused) \<Rightarrow> (refused, st)
      | Inr (Inr a) \<Rightarrow>
          let (r, ledger) = call a; st1 = st\<lparr>js_db := (js_db st)\<lparr>jd_ledger := ledger\<rparr>\<rparr> in
          case r of Inl err \<Rightarrow> retry_or_bury env alert job err st1
          | Inr _ \<Rightarrow> (Completed_job, st1\<lparr>js_store := delete_retry (retry_key q raw) (js_store st1)\<rparr>)) = (res, st')"
  shows "protocol q raw res st st'"
proof (cases "job_account job account (jd_accounts (js_db st))")
  case (Inl err)
  with assms retry_or_bury_protocol(1) show ?thesis by fastforce
next
  case (Inr found)
  note acc = Inr
  show ?thesis
  proof (cases found)
    case (Inl refused)
    with acc have "job_account job account (jd_accounts (js_db st)) = Inr (Inl refused)" by simp
    from protocol_refused [OF job_account_refusal [OF this], of q raw st] acc Inl assms(3)
    show ?thesis by auto
  next
    case (Inr a)
    obtain r ledger where run: "call a = (r, ledger)" by fastforce
    let ?st = "st\<lparr>js_db := (js_db st)\<lparr>jd_ledger := ledger\<rparr>\<rparr>"
    show ?thesis
    proof (cases r)
      case (Inl err)
      with acc Inr run assms(3) have "retry_or_bury env alert job err ?st = (res, st')" by simp
      from retry_or_bury_protocol(1) [OF this assms(1,2)] protocol_frame [of ?st q st st' st' raw res]
      show ?thesis by simp
    next
      case (Inr n)
      with acc \<open>found = Inr a\<close> run assms(3) show ?thesis
        by (auto simp: protocol_def tries_def delete_retry_def fun_eq_iff)
    qed
  qed
qed

lemma process_scoring_protocol:
  assumes "process_scoring env raw st = (res, st')"
  shows "protocol SCORING_QUEUE raw res st st'"
proof (cases "qj_account (parse_job (je_depth env) SCORING_QUEUE raw)")
  case None
  with assms show ?thesis by (auto simp: process_scoring_def protocol_def Let_def)
next
  case (Some account)
  show ?thesis
    by (rule service_protocol [where job = "parse_job (je_depth env) SCORING_QUEUE raw" and account = account and env = env
          and call = "\<lambda>a. je_score env (ca_org a) account (jd_ledger (js_db st))" and alert = None])
      (use assms Some in \<open>simp_all add: process_scoring_def Let_def\<close>)
qed

lemma process_carbon_protocol:
  assumes "process_carbon_sync env raw st = (res, st')"
  shows "protocol CARBON_QUEUE raw res st st'"
proof (cases "qj_account (parse_job (je_depth env) CARBON_QUEUE raw)")
  case None
  with assms show ?thesis by (auto simp: process_carbon_sync_def protocol_def Let_def)
next
  case (Some account)
  show ?thesis
    by (rule service_protocol [where job = "parse_job (je_depth env) CARBON_QUEUE raw" and account = account and env = env
          and call = "\<lambda>a. je_carbon env (ca_org a) (ca_id a) (today (je_now env) - 90) (today (je_now env)) (jd_ledger (js_db st))"
          and alert = "Some (failure_alert ''worker.carbon_sync.dlq_failure'' ''carbon_sync:'' account)"])
      (use assms Some in \<open>simp_all add: process_carbon_sync_def Let_def\<close>)
qed

interpretation ingestion: queue_worker INGESTION_QUEUE process_account
  by unfold_locales (rule process_account_protocol)

interpretation scoring: queue_worker SCORING_QUEUE process_scoring
  by unfold_locales (rule process_scoring_protocol)

interpretation carbon: queue_worker CARBON_QUEUE process_carbon_sync
  by unfold_locales (rule process_carbon_protocol)


text \<open>
  C21 (liveness): whatever the services answer in each turn, three turns for every queued payload empty
  the ingestion queue; every job has then ended exactly once, and each that was given up on had been tried
  exactly three times.
\<close>

theorem ingestion_drains:
  assumes "\<forall>raw. tries INGESTION_QUEUE st raw < MAX_RETRIES"
    and "3 * length (pending INGESTION_QUEUE st) \<le> length envs"
  shows "pending INGESTION_QUEUE (snd (worker_turns process_account INGESTION_QUEUE envs st)) = [] \<and>
    length (filter is_final (fst (worker_turns process_account INGESTION_QUEUE envs st))) = length (pending INGESTION_QUEUE st) \<and>
    (\<forall>n. Dead_lettered n \<in> set (fst (worker_turns process_account INGESTION_QUEUE envs st)) \<longrightarrow> n = MAX_RETRIES)"
  by (rule ingestion.drains_queue) (use assms in \<open>simp_all add: ingestion.steady_def\<close>)

section \<open>A job that keeps failing\<close>

definition failing :: "'l job_env \<Rightarrow> string \<Rightarrow> uuid \<Rightarrow> uuid \<Rightarrow> error \<Rightarrow> 'l job_state \<Rightarrow> bool" where
  "failing env raw org account err st \<longleftrightarrow>
     qj_org (parse_job (je_depth env) INGESTION_QUEUE raw) = Some org \<and>
     qj_account (parse_job (je_depth env) INGESTION_QUEUE raw) = Some account \<and>
     (\<exists>a. filter (\<lambda>a. ca_id a = account) (jd_accounts (js_db st)) = [a] \<and> ca_org a = org) \<and>
     (\<forall>s e l. je_ingest env org account s e l = (Inl err, l)) \<and>
     qs_keys (js_store st) (ingestion_lock_key (Some org) account) = None"

lemma failing_turn:
  assumes "failing env raw org account err st"
  shows "process_account env raw st =
    (let (res, st') = retry_or_bury env (Some (failure_alert ''worker.ingestion.dlq_failure'' ''ingestion:'' account))
         (parse_job (je_depth env) INGESTION_QUEUE raw) err st
     in (res, st'))"
proof -
  let ?k = "ingestion_lock_key (Some org) account"
  obtain a where a: "filter (\<lambda>a. ca_id a = account) (jd_accounts (js_db st)) = [a]" "ca_org a = org"
    using assms by (auto simp: failing_def)
  have unlock: "(qs_keys (js_store st))(?k := None) = qs_keys (js_store st)"
    using assms by (auto simp: failing_def)
  show ?thesis
    using assms a unlock
    by (simp add: failing_def process_account_def acquire_lock_def redis_set_nx_def redis_get_def redis_set_def
        ingest_locked_def job_account_def retry_or_bury_def incr_retry_def lpush_def delete_key_def delete_retry_def
        push_to_dlq_def Let_def)
qed


lemma failing_turns:
  assumes "failing env raw org account err st" and "pending INGESTION_QUEUE st = [raw]"
    and "tries INGESTION_QUEUE st raw = n" and "Suc n < MAX_RETRIES"
  obtains st' where "worker_turn (process_account env) INGESTION_QUEUE st = (Some (Retry_scheduled (Suc n)), st')"
    and "failing env raw org account err st'" and "pending INGESTION_QUEUE st' = [raw]"
    and "tries INGESTION_QUEUE st' raw = Suc n" and "js_db st' = js_db st"
proof -
  let ?st = "st\<lparr>js_store := (js_store st)\<lparr>qs_lists := (qs_lists (js_store st))(INGESTION_QUEUE := [])\<rparr>\<rparr>"
  have "failing env raw org account err ?st" using assms(1) by (simp add: failing_def)
  note turn = failing_turn [OF this]
  show ?thesis
    using assms
    by (intro that [of "snd (worker_turn (process_account env) INGESTION_QUEUE st)"])
      (simp_all add: worker_turn_def brpop_def turn retry_or_bury_def incr_retry_def lpush_def tries_def Let_def failing_def)
qed

text \<open>
  A job whose ingestion fails every time is tried three times and then stands in the dead
  letter queue once, open, with its payload, its organization and account and three attempts; nothing of
  it is left in the queue and its counter is gone.
\<close>

theorem failing_job_dead_lettered:
  assumes "failing env raw org account err st" and "pending INGESTION_QUEUE st = [raw]"
    and "tries INGESTION_QUEUE st raw = 0"
  shows "\<exists>st'. worker_turns process_account INGESTION_QUEUE [env, env, env] st =
      ([Retry_scheduled 1, Retry_scheduled 2, Dead_lettered 3], st') \<and>
    pending INGESTION_QUEUE st' = [] \<and> tries INGESTION_QUEUE st' raw = 0 \<and>
    jd_dlq (js_db st') = jd_dlq (js_db st) @ [\<lparr>dm_id = je_fresh env, dm_queue = INGESTION_QUEUE, dm_org = Some org,
      dm_account = Some account, dm_payload = raw, dm_error = je_text env err, dm_retry_count = 3,
      dm_status = DLQ_OPEN, dm_created_at = je_now env\<rparr>]"
proof -
  obtain st1 where one: "worker_turn (process_account env) INGESTION_QUEUE st = (Some (Retry_scheduled 1), st1)"
    and st1: "failing env raw org account err st1" "pending INGESTION_QUEUE st1 = [raw]"
      "tries INGESTION_QUEUE st1 raw = 1" "js_db st1 = js_db st"
    using failing_turns [OF assms] by (auto simp: MAX_RETRIES_def)
  obtain st2 where two: "worker_turn (process_account env) INGESTION_QUEUE st1 = (Some (Retry_scheduled 2), st2)"
    and st2: "failing env raw org account err st2" "pending INGESTION_QUEUE st2 = [raw]"
      "tries INGESTION_QUEUE st2 raw = 2" "js_db st2 = js_db st1"
    using failing_turns [OF st1(1-3)] by (auto simp: MAX_RETRIES_def numeral_2_eq_2)
  let ?st = "st2\<lparr>js_store := (js_store st2)\<lparr>qs_lists := (qs_lists (js_store st2))(INGESTION_QUEUE := [])\<rparr>\<rparr>"
  have "failing env raw org account err ?st" using st2(1) by (simp add: failing_def)
  note turn = failing_turn [OF this]
  have job: "qj_org (parse_job (je_depth env) INGESTION_QUEUE raw) = Some org"
    "qj_account (parse_job (je_depth env) INGESTION_QUEUE raw) = Some account"
    using assms(1) by (simp_all add: failing_def)
  obtain st3 where three: "worker_turn (process_account env) INGESTION_QUEUE st2 = (Some (Dead_lettered 3), st3)"
    and st3: "pending INGESTION_QUEUE st3 = []" "tries INGESTION_QUEUE st3 raw = 0"
      "jd_dlq (js_db st3) = jd_dlq (js_db st2) @ [\<lparr>dm_id = je_fresh env, dm_queue = INGESTION_QUEUE, dm_org = Some org,
      dm_account = Some account, dm_payload = raw, dm_error = je_text env err, dm_retry_count = 3,
      dm_status = DLQ_OPEN, dm_created_at = je_now env\<rparr>]"
    using st2(2,3)
    by (intro that [of "snd (worker_turn (process_account env) INGESTION_QUEUE st2)"])
      (simp_all add: worker_turn_def brpop_def turn retry_or_bury_def incr_retry_def delete_retry_def tries_def
        push_to_dlq_def job Let_def MAX_RETRIES_def numeral_3_eq_3)
  from one two three st3 st2(4) st1(4) show ?thesis by simp
qed


definition toy_payload :: string where
  "toy_payload = sync_payload 1 2 30"

definition toy_job_env :: "unit job_env" where
  "toy_job_env = \<lparr>je_depth = 10, je_ingest = (\<lambda>org account s e l. (Inl AssertionError, l)),
     je_score = (\<lambda>org account l. (Inr 0, l)), je_carbon = (\<lambda>org account s e l. (Inr 0, l)),
     je_notify = (\<lambda>a as. as @ [a]), je_text = (\<lambda>err. ''failed''), je_now = 0, je_fresh = 7\<rparr>"

definition toy_jobs :: "unit job_state" where
  "toy_jobs = \<lparr>js_store = \<lparr>qs_lists = (\<lambda>q. if q = INGESTION_QUEUE then [toy_payload] else []),
       qs_retry = (\<lambda>k. 0), qs_keys = Map.empty\<rparr>,
     js_db = \<lparr>jd_accounts = [\<lparr>ca_id = 2, ca_org = 1, ca_status = CONNECTOR_ACTIVE, ca_last_sync = None,
       ca_display_name = ''a''\<rparr>], jd_dlq = [], jd_alerts = [], jd_ledger = ()\<rparr>\<rparr>"

lemma toy_payload_job:
  "0 < d \<Longrightarrow> parse_job d q toy_payload = \<lparr>qj_queue = q, qj_org = Some 1, qj_account = Some 2, qj_lookback = Some 30,
     qj_payload = toy_payload\<rparr>"
  using payloads_back [of d 30 q 1 2] by (simp add: toy_payload_def int_digit_limit_def nat_str.simps)

lemma toy_failing: "failing toy_job_env toy_payload 1 2 AssertionError toy_jobs"
  by (simp add: failing_def toy_job_env_def toy_payload_job toy_jobs_def)

lemma toy_jobs_pending [simp]: "pending INGESTION_QUEUE toy_jobs = [toy_payload]" "tries q toy_jobs raw = 0"
  by (simp_all add: toy_jobs_def tries_def)

theorem failing_job_dead_lettered_witness:
  "\<exists>st'. fst (worker_turns process_account INGESTION_QUEUE [toy_job_env, toy_job_env, toy_job_env] toy_jobs)
      = [Retry_scheduled 1, Retry_scheduled 2, Dead_lettered 3]
    \<and> snd (worker_turns process_account INGESTION_QUEUE [toy_job_env, toy_job_env, toy_job_env] toy_jobs) = st'
    \<and> length (jd_dlq (js_db st')) = 1"
  using failing_job_dead_lettered [OF toy_failing toy_jobs_pending]
  by (auto simp: toy_jobs_def)

theorem ingestion_drains_witness:
  "pending INGESTION_QUEUE (snd (worker_turns process_account INGESTION_QUEUE (replicate 3 toy_job_env) toy_jobs)) = []"
  using ingestion_drains [of toy_jobs "replicate 3 toy_job_env"] by (simp add: MAX_RETRIES_def)

section \<open>The dead letter queue and the alert of a finished sync\<close>

text \<open>Requeuing does not look at the status: a message can be put back any number of times.\<close>

theorem requeue_repeats:
  assumes "filter (\<lambda>m. dm_id m = i) (jd_dlq (js_db st)) = [m]"
  shows "\<exists>st1 st2 m1 m2. requeue_dlq i st = (Inr m1, st1) \<and> requeue_dlq i st1 = (Inr m2, st2)
    \<and> dm_status m1 = DLQ_REQUEUED
    \<and> pending (dm_queue m) st2 = dm_payload m # dm_payload m # pending (dm_queue m) st"
proof -
  let ?m = "m\<lparr>dm_status := DLQ_REQUEUED\<rparr>"
  have "m \<in> set (filter (\<lambda>m. dm_id m = i) (jd_dlq (js_db st)))" using assms by simp
  then have "dm_id m = i" by simp
  then have "filter (\<lambda>m. dm_id m = i) (map (\<lambda>x. if dm_id x = i then ?m else x) (jd_dlq (js_db st))) = [?m]"
    using assms by (simp add: filter_map comp_def if_distrib cong: if_cong)
  with assms show ?thesis by (simp add: requeue_dlq_def lpush_def Let_def)
qed

text \<open>
  The success alert is added to the session after the commit and nothing commits it: a finished ingestion
  leaves the alerts as they were.
\<close>

theorem sync_alert_lost:
  assumes "process_account env raw st = (Completed_job, st')"
  shows "jd_alerts (js_db st') = jd_alerts (js_db st)"
  using assms
  by (auto simp: process_account_def acquire_lock_def ingest_locked_def retry_or_bury_def Let_def
      split: option.splits prod.splits sum.splits if_splits)

end
