(* ===== verification/IngestionLock.thy ===== *)
theory IngestionLock
  imports JobLaws
begin

text \<open>
  Several processes running \<open>run_ingestion_worker\<close> over one Redis: the steps of \<open>process_account\<close> that other
  processes can come between, as a step relation. A worker takes a payload, tries to set the lock, runs
  the job (on an exception it has then already put the payload back), and deletes the lock in the
  \<open>finally\<close> block. With \<open>timely\<close> no job outlives the one hour of its lock.
\<close>

section \<open>The pool of workers\<close>

datatype worker_phase =
    Idle
  | Popped string
  | Running string string instant
  | Unlocking string instant

type_synonym 'l pool = "'l job_state \<times> (nat \<Rightarrow> worker_phase) \<times> instant"

definition lock_us :: int where
  "lock_us = LOCK_TTL * 1000000"

fun holding :: "worker_phase \<Rightarrow> (string \<times> instant) option" where
  "holding (Running raw k t) = Some (k, t)"
| "holding (Unlocking k t) = Some (k, t)"
| "holding _ = None"

inductive pool_step :: "nat \<Rightarrow> 'l job_env set \<Rightarrow> bool \<Rightarrow> 'l pool \<Rightarrow> 'l pool \<Rightarrow> bool"
  for depth :: nat and envs :: "'l job_env set" and timely :: bool where
  pool_take: "ph i = Idle \<Longrightarrow> brpop INGESTION_QUEUE (js_store st) = Some (raw, rds) \<Longrightarrow>
    pool_step depth envs timely (st, ph, now) (st\<lparr>js_store := rds\<rparr>, ph(i := Popped raw), now)"
| pool_invalid: "ph i = Popped raw \<Longrightarrow> qj_account (parse_job depth INGESTION_QUEUE raw) = None \<Longrightarrow>
    pool_step depth envs timely (st, ph, now) (st, ph(i := Idle), now)"
| pool_lock: "ph i = Popped raw \<Longrightarrow> qj_account (parse_job depth INGESTION_QUEUE raw) = Some account \<Longrightarrow>
    k = ingestion_lock_key (qj_org (parse_job depth INGESTION_QUEUE raw)) account \<Longrightarrow>
    acquire_lock now k (js_store st) = (won, rds) \<Longrightarrow>
    pool_step depth envs timely (st, ph, now)
      (st\<lparr>js_store := rds\<rparr>, ph(i := if won then Running raw k now else Idle), now)"
| pool_run: "ph i = Running raw k t \<Longrightarrow> qj_account (parse_job depth INGESTION_QUEUE raw) = Some account \<Longrightarrow>
    env \<in> envs \<Longrightarrow> je_depth env = depth \<Longrightarrow> je_now env = now \<Longrightarrow>
    ingest_locked env (parse_job depth INGESTION_QUEUE raw) account st = (res, st') \<Longrightarrow>
    pool_step depth envs timely (st, ph, now) (st', ph(i := Unlocking k t), now)"
| pool_unlock: "ph i = Unlocking k t \<Longrightarrow>
    pool_step depth envs timely (st, ph, now)
      (st\<lparr>js_store := delete_key k (js_store st)\<rparr>, ph(i := Idle), now)"
| pool_tick: "now \<le> now' \<Longrightarrow> \<forall>i k t. timely \<and> holding (ph i) = Some (k, t) \<longrightarrow> now' < t + lock_us \<Longrightarrow>
    pool_step depth envs timely (st, ph, now) (st, ph, now')"

inductive_cases pool_stepE: "pool_step depth envs timely (st, ph, now) p"

abbreviation pool_reach :: "nat \<Rightarrow> 'l job_env set \<Rightarrow> bool \<Rightarrow> 'l pool \<Rightarrow> 'l pool \<Rightarrow> bool" where
  "pool_reach depth envs timely \<equiv> (pool_step depth envs timely)\<^sup>*\<^sup>*"

section \<open>Exclusion\<close>

definition lock_inv :: "'l pool \<Rightarrow> bool" where
  "lock_inv p \<longleftrightarrow> (case p of (st, ph, now) \<Rightarrow>
     (\<forall>i k t. holding (ph i) = Some (k, t) \<longrightarrow>
        qs_keys (js_store st) k = Some (Text ''1'', t + lock_us) \<and> now < t + lock_us) \<and>
     (\<forall>i j k t u. holding (ph i) = Some (k, t) \<and> holding (ph j) = Some (k, u) \<longrightarrow> i = j))"

lemma brpop_keys: "brpop q st = Some (raw, st') \<Longrightarrow> qs_keys st' = qs_keys st"
  by (auto simp: brpop_def split: if_splits)

lemma acquire_cases:
  assumes "acquire_lock now k st = (won, st')"
  obtains (won) "won" "redis_get now k (qs_keys st) = None"
      "qs_keys st' = (qs_keys st)(k \<mapsto> (Text ''1'', now + lock_us))"
  | (busy) "\<not> won" "st' = st" "redis_get now k (qs_keys st) \<noteq> None"
  using assms by (auto simp: acquire_lock_def redis_set_nx_def redis_set_def lock_us_def split: if_splits)

lemma lock_inv_step: "pool_step depth envs True p p' \<Longrightarrow> lock_inv p \<Longrightarrow> lock_inv p'"
proof (induction rule: pool_step.induct)
  case (pool_take ph i st raw rds now)
  then show ?case by (auto simp: lock_inv_def brpop_keys split: if_splits)
next
  case (pool_lock ph i raw account k now st won rds)
  from pool_lock.hyps(4) show ?case
  proof (cases rule: acquire_cases)
    case won
    have "holding (ph j) \<noteq> Some (k, t)" for j t
      using pool_lock.prems won(2) by (auto simp: lock_inv_def redis_get_def split: if_splits)
    with pool_lock won show ?thesis by (auto simp: lock_inv_def lock_us_def LOCK_TTL_def)
  next
    case busy
    with pool_lock show ?thesis by (auto simp: lock_inv_def)
  qed
next
  case (pool_run ph i raw k t account env now st res st')
  have "qs_keys (js_store st') = qs_keys (js_store st)"
    using ingest_locked_protocol [OF pool_run.hyps(6)] by simp
  with pool_run show ?case by (auto simp: lock_inv_def split: if_splits) (metis holding.simps(1))+
next
  case (pool_unlock ph i k t st now)
  have "holding (ph j) = Some (k, u) \<Longrightarrow> j = i" for j u
    using pool_unlock by (auto simp: lock_inv_def)
  with pool_unlock show ?case by (auto simp: lock_inv_def delete_key_def split: if_splits)
qed (auto simp: lock_inv_def split: if_splits)

lemma lock_inv_reach: "pool_reach depth envs True p p' \<Longrightarrow> lock_inv p \<Longrightarrow> lock_inv p'"
  by (induction rule: rtranclp_induct) (auto intro: lock_inv_step)


lemma running_key:
  "pool_reach depth envs timely (st0, \<lambda>i. Idle, now0) p \<Longrightarrow> fst (snd p) i = Running raw k t \<Longrightarrow>
   \<exists>account. qj_account (parse_job depth INGESTION_QUEUE raw) = Some account \<and>
     k = ingestion_lock_key (qj_org (parse_job depth INGESTION_QUEUE raw)) account"
proof (induction arbitrary: i raw k t rule: rtranclp_induct)
  case (step p p')
  from step.hyps(2) step.prems step.IH show ?case
    by (cases rule: pool_step.cases) (auto split: if_splits)
qed simp

text \<open>
  C20 (invariant): as long as no job outlives the hour of its lock, two workers never run at the same time
  jobs whose payloads name the same organization and account, however the workers are interleaved and
  whatever their jobs do.
\<close>

theorem ingestion_exclusive:
  assumes "pool_reach depth envs True (st0, \<lambda>i. Idle, now0) (st, ph, now)"
    and "ph i = Running raw k t" and "ph j = Running raw' k' t'" and "i \<noteq> j"
  shows "qj_org (parse_job depth INGESTION_QUEUE raw) \<noteq> qj_org (parse_job depth INGESTION_QUEUE raw') \<or>
    qj_account (parse_job depth INGESTION_QUEUE raw) \<noteq> qj_account (parse_job depth INGESTION_QUEUE raw')"
proof -
  have "lock_inv (st0, \<lambda>i. Idle, now0)" by (simp add: lock_inv_def)
  from lock_inv_reach [OF assms(1) this] have "k \<noteq> k'"
    using assms(2-4) by (auto simp: lock_inv_def)
  with running_key [OF assms(1), of i raw k t] running_key [OF assms(1), of j raw' k' t'] assms(2,3)
  show ?thesis by auto
qed

section \<open>What the lock does not give\<close>

text \<open>Two copies of a payload, or one payload in the new and one in the legacy format.\<close>

definition pool_state :: "string list \<Rightarrow> unit redis \<Rightarrow> nat \<Rightarrow> unit job_state" where
  "pool_state raws keys n = toy_jobs\<lparr>js_store := \<lparr>qs_lists = (\<lambda>q. if q = INGESTION_QUEUE then raws else []),
     qs_retry = (\<lambda>k. if k = retry_key INGESTION_QUEUE toy_payload then n else 0), qs_keys = keys\<rparr>\<rparr>"

abbreviation toy_key :: string where
  "toy_key \<equiv> ingestion_lock_key (Some 1) 2"

abbreviation toy_pool :: "bool \<Rightarrow> unit pool \<Rightarrow> unit pool \<Rightarrow> bool" where
  "toy_pool timely \<equiv> pool_step 10 {toy_job_env} timely"

lemma toy_take:
  assumes "ph i = Idle"
  shows "toy_pool timely (pool_state (xs @ [raw]) keys n, ph, now) (pool_state xs keys n, ph(i := Popped raw), now)"
proof -
  have "brpop INGESTION_QUEUE (js_store (pool_state (xs @ [raw]) keys n)) = Some (raw, js_store (pool_state xs keys n))"
    by (simp add: brpop_def pool_state_def fun_eq_iff)
  from pool_take [of ph, OF assms this] show ?thesis by (simp add: pool_state_def)
qed

lemma toy_lock:
  assumes "ph i = Popped raw" and "parse_job 10 INGESTION_QUEUE raw = job" and "qj_account job = Some account"
  defines "k \<equiv> ingestion_lock_key (qj_org job) account"
  shows "redis_get now k keys = None \<Longrightarrow> toy_pool timely (pool_state xs keys n, ph, now)
      (pool_state xs (keys(k \<mapsto> (Text ''1'', now + lock_us))) n, ph(i := Running raw k now), now)"
    and "redis_get now k keys \<noteq> None \<Longrightarrow> toy_pool timely (pool_state xs keys n, ph, now)
      (pool_state xs keys n, ph(i := Idle), now)"
proof -
  note lock = pool_lock [where ph = ph and i = i and raw = raw and depth = 10 and account = account and now = now
      and st = "pool_state xs keys n" and envs = "{toy_job_env}" and timely = timely, OF assms(1) _ refl]
  {
    assume "redis_get now k keys = None"
    then have "acquire_lock now k (js_store (pool_state xs keys n)) =
        (True, js_store (pool_state xs (keys(k \<mapsto> (Text ''1'', now + lock_us))) n))"
      by (simp add: acquire_lock_def redis_set_nx_def redis_set_def lock_us_def pool_state_def)
    from lock [unfolded assms(2), OF assms(3), folded k_def, OF this]
    show "toy_pool timely (pool_state xs keys n, ph, now)
        (pool_state xs (keys(k \<mapsto> (Text ''1'', now + lock_us))) n, ph(i := Running raw k now), now)"
      by (simp add: pool_state_def)
  next
    assume "redis_get now k keys \<noteq> None"
    then have "acquire_lock now k (js_store (pool_state xs keys n)) = (False, js_store (pool_state xs keys n))"
      by (simp add: acquire_lock_def redis_set_nx_def pool_state_def)
    from lock [unfolded assms(2), OF assms(3), folded k_def, OF this]
    show "toy_pool timely (pool_state xs keys n, ph, now) (pool_state xs keys n, ph(i := Idle), now)"
      by (simp add: pool_state_def)
  }
qed

lemma toy_job: "parse_job 10 INGESTION_QUEUE toy_payload = \<lparr>qj_queue = INGESTION_QUEUE, qj_org = Some 1,
    qj_account = Some 2, qj_lookback = Some 30, qj_payload = toy_payload\<rparr>"
  by (simp add: toy_payload_job)

lemma toy_lock_payload:
  assumes "ph i = Popped toy_payload"
  shows "redis_get now toy_key keys = None \<Longrightarrow> toy_pool timely (pool_state xs keys n, ph, now)
      (pool_state xs (keys(toy_key \<mapsto> (Text ''1'', now + lock_us))) n, ph(i := Running toy_payload toy_key now), now)"
    and "redis_get now toy_key keys \<noteq> None \<Longrightarrow> toy_pool timely (pool_state xs keys n, ph, now)
      (pool_state xs keys n, ph(i := Idle), now)"
  using toy_lock [where ph = ph and i = i and raw = toy_payload and job = "parse_job 10 INGESTION_QUEUE toy_payload" and account = 2, OF assms refl]
  by (simp_all add: toy_job)

lemma toy_env_fields [simp]: "je_depth toy_job_env = 10" "je_now toy_job_env = 0"
  by (simp_all add: toy_job_env_def)

lemma toy_fail:
  assumes "ph i = Running toy_payload k t" and "Suc n < MAX_RETRIES"
  shows "toy_pool timely (pool_state xs keys n, ph, 0) (pool_state (toy_payload # xs) keys (Suc n), ph(i := Unlocking k t), 0)"
proof -
  have "ingest_locked toy_job_env (parse_job 10 INGESTION_QUEUE toy_payload) 2 (pool_state xs keys n) =
      (Retry_scheduled (Suc n), pool_state (toy_payload # xs) keys (Suc n))"
    using assms(2)
    by (simp add: ingest_locked_def toy_payload_job job_account_def toy_job_env_def pool_state_def toy_jobs_def
        retry_or_bury_def incr_retry_def lpush_def Let_def fun_eq_iff)
  with assms(1) show ?thesis
    by (intro pool_run [where raw = toy_payload and account = 2 and env = toy_job_env and res = "Retry_scheduled (Suc n)"]) (simp_all add: toy_job)
qed

lemma toy_unlock:
  "ph i = Unlocking k t \<Longrightarrow> toy_pool timely (pool_state xs keys n, ph, now) (pool_state xs (keys(k := None)) n, ph(i := Idle), now)"
  using pool_unlock [of ph i k t 10 "{toy_job_env}" timely "pool_state xs keys n" now]
  by (simp add: delete_key_def pool_state_def)

text \<open>
  A retry can be lost. A failing job is put back before its lock is released; a second
  worker that takes it in between finds the lock set and drops it. The payload is then in no queue, not
  in the dead letter queue, and was tried once.
\<close>

theorem retry_lost_to_lock:
  "\<exists>st ph. pool_reach 10 {toy_job_env} True (pool_state [toy_payload] Map.empty 0, \<lambda>i. Idle, 0) (st, ph, 0) \<and>
     (\<forall>i. ph i = Idle) \<and> (\<forall>q. pending q st = []) \<and> jd_dlq (js_db st) = [] \<and>
     tries INGESTION_QUEUE st toy_payload = 1 \<and> jd_ledger (js_db st) = jd_ledger (js_db toy_jobs)"
proof -
  let ?keys = "[toy_key \<mapsto> (Text ''1'', 0 + lock_us)] :: unit redis"
  let ?idle = "(\<lambda>i. Idle) :: nat \<Rightarrow> worker_phase"
  let ?run = "?idle(0 := Unlocking toy_key 0)"
  have held: "redis_get 0 toy_key ?keys \<noteq> None" by (simp add: redis_get_def lock_us_def LOCK_TTL_def)
  have "pool_reach 10 {toy_job_env} True (pool_state [toy_payload] Map.empty 0, ?idle, 0)
      (pool_state [] Map.empty 0, ?idle(0 := Popped toy_payload), 0)"
    using toy_take [of ?idle 0 True "[]" toy_payload Map.empty 0 0] by (simp add: r_into_rtranclp)
  also have "toy_pool True \<dots> (pool_state [] ?keys 0, ?idle(0 := Running toy_payload toy_key 0), 0)"
    using toy_lock_payload(1) [where ph = "?idle(0 := Popped toy_payload)" and i = 0 and now = 0 and keys = Map.empty
        and timely = True and xs = "[]" and n = 0]
    by (simp add: redis_get_def)
  also have "toy_pool True \<dots> (pool_state [toy_payload] ?keys 1, ?run, 0)"
    using toy_fail [of "?idle(0 := Running toy_payload toy_key 0)" 0 toy_key 0 0 True "[]" ?keys]
    by (simp add: MAX_RETRIES_def)
  also have "toy_pool True \<dots> (pool_state [] ?keys 1, ?run(1 := Popped toy_payload), 0)"
    using toy_take [of ?run 1 True "[]" toy_payload ?keys 1 0] by simp
  also have "toy_pool True \<dots> (pool_state [] ?keys 1, ?run, 0)"
    using toy_lock_payload(2) [where ph = "?run(1 := Popped toy_payload)" and i = 1 and timely = True and xs = "[]"
        and n = 1, OF _ held]
    by (simp add: fun_upd_idem)
  also have "toy_pool True \<dots> (pool_state [] (?keys(toy_key := None)) 1, ?idle, 0)"
    using toy_unlock [of ?run 0 toy_key 0 True "[]" ?keys 1 0] by (simp add: fun_upd_idem)
  finally show ?thesis
    by (intro exI conjI) (assumption, auto simp: pool_state_def tries_def toy_jobs_def)
qed


lemma legacy_job: "parse_job 10 INGESTION_QUEUE (uuid_str 2) = \<lparr>qj_queue = INGESTION_QUEUE, qj_org = None,
    qj_account = Some 2, qj_lookback = None, qj_payload = uuid_str 2\<rparr>"
proof -
  have "json_loads 10 ''00000000-0000-0000-0000-000000000002'' = json_error" by code_simp
  moreover have "uuid_str 2 = ''00000000-0000-0000-0000-000000000002''" by code_simp
  ultimately have "json_loads 10 (uuid_str 2) = json_error" by simp
  then show ?thesis by (simp add: parse_job_def parse_structured_def)
qed

text \<open>
  The lock names the organization of the payload. A legacy payload names none, so it does not exclude a
  job of the same account in the current format: both run at once.
\<close>

theorem legacy_payload_escapes_lock:
  "\<exists>st ph k k'. pool_reach 10 {toy_job_env} True (pool_state [uuid_str 2, toy_payload] Map.empty 0, \<lambda>i. Idle, 0) (st, ph, 0)
     \<and> ph 0 = Running toy_payload k 0 \<and> ph 1 = Running (uuid_str 2) k' 0
     \<and> qj_account (parse_job 10 INGESTION_QUEUE toy_payload) = qj_account (parse_job 10 INGESTION_QUEUE (uuid_str 2))"
proof -
  let ?keys = "[toy_key \<mapsto> (Text ''1'', 0 + lock_us)] :: unit redis"
  let ?idle = "(\<lambda>i. Idle) :: nat \<Rightarrow> worker_phase"
  let ?one = "?idle(0 := Running toy_payload toy_key 0)"
  let ?k = "ingestion_lock_key None 2"
  have "ingestion_lock_key None 2 \<noteq> toy_key"
    by (simp add: ingestion_lock_key_def opt_uuid_text_def) code_simp
  then have free: "redis_get 0 ?k ?keys = None" by (simp add: redis_get_def)
  have "pool_reach 10 {toy_job_env} True (pool_state [uuid_str 2, toy_payload] Map.empty 0, ?idle, 0)
      (pool_state [uuid_str 2] Map.empty 0, ?idle(0 := Popped toy_payload), 0)"
    using toy_take [of ?idle 0 True "[uuid_str 2]" toy_payload Map.empty 0 0] by (simp add: r_into_rtranclp)
  also have "toy_pool True \<dots> (pool_state [uuid_str 2] ?keys 0, ?one, 0)"
    using toy_lock_payload(1) [where ph = "?idle(0 := Popped toy_payload)" and i = 0 and now = 0 and keys = Map.empty
        and timely = True and xs = "[uuid_str 2]" and n = 0]
    by (simp add: redis_get_def)
  also have "toy_pool True \<dots> (pool_state [] ?keys 0, ?one(1 := Popped (uuid_str 2)), 0)"
    using toy_take [of ?one 1 True "[]" "uuid_str 2" ?keys 0 0] by simp
  also have "toy_pool True \<dots> (pool_state [] (?keys(?k \<mapsto> (Text ''1'', 0 + lock_us))) 0, ?one(1 := Running (uuid_str 2) ?k 0), 0)"
    using toy_lock(1) [where ph = "?one(1 := Popped (uuid_str 2))" and i = 1 and raw = "uuid_str 2" and account = 2
        and job = "parse_job 10 INGESTION_QUEUE (uuid_str 2)" and now = 0 and keys = ?keys and timely = True
        and xs = "[]" and n = 0, OF _ refl] free
    by (simp add: legacy_job)
  finally show ?thesis by (intro exI conjI) (assumption, auto simp: legacy_job toy_job)
qed

text \<open>
  A job that outlives the hour of its lock loses the exclusion: a second worker runs the same payload
  beside it.
\<close>

theorem slow_job_overlaps:
  "\<exists>st ph now. pool_reach 10 {toy_job_env} False (pool_state [toy_payload, toy_payload] Map.empty 0, \<lambda>i. Idle, 0) (st, ph, now)
     \<and> ph 0 = Running toy_payload toy_key 0 \<and> ph 1 = Running toy_payload toy_key now"
proof -
  let ?keys = "[toy_key \<mapsto> (Text ''1'', 0 + lock_us)] :: unit redis"
  let ?idle = "(\<lambda>i. Idle) :: nat \<Rightarrow> worker_phase"
  let ?one = "?idle(0 := Running toy_payload toy_key 0)"
  have gone: "redis_get lock_us toy_key ?keys = None" by (simp add: redis_get_def)
  have "pool_reach 10 {toy_job_env} False (pool_state [toy_payload, toy_payload] Map.empty 0, ?idle, 0)
      (pool_state [toy_payload] Map.empty 0, ?idle(0 := Popped toy_payload), 0)"
    using toy_take [of ?idle 0 False "[toy_payload]" toy_payload Map.empty 0 0] by (simp add: r_into_rtranclp)
  also have "toy_pool False \<dots> (pool_state [toy_payload] ?keys 0, ?one, 0)"
    using toy_lock_payload(1) [where ph = "?idle(0 := Popped toy_payload)" and i = 0 and now = 0 and keys = Map.empty
        and timely = False and xs = "[toy_payload]" and n = 0]
    by (simp add: redis_get_def)
  also have "toy_pool False \<dots> (pool_state [toy_payload] ?keys 0, ?one, lock_us)"
    by (rule pool_tick) (simp_all add: lock_us_def LOCK_TTL_def)
  also have "toy_pool False \<dots> (pool_state [] ?keys 0, ?one(1 := Popped toy_payload), lock_us)"
    using toy_take [of ?one 1 False "[]" toy_payload ?keys 0 lock_us] by simp
  also have "toy_pool False \<dots> (pool_state [] (?keys(toy_key \<mapsto> (Text ''1'', lock_us + lock_us))) 0,
      ?one(1 := Running toy_payload toy_key lock_us), lock_us)"
    using toy_lock_payload(1) [where ph = "?one(1 := Popped toy_payload)" and i = 1 and now = lock_us and keys = ?keys
        and timely = False and xs = "[]" and n = 0] gone
    by simp
  finally show ?thesis by (intro exI conjI) (assumption, auto)
qed

theorem ingestion_exclusive_witness:
  "\<exists>raw. qj_org (parse_job 10 INGESTION_QUEUE toy_payload) \<noteq> qj_org (parse_job 10 INGESTION_QUEUE raw) \<or>
    qj_account (parse_job 10 INGESTION_QUEUE toy_payload) \<noteq> qj_account (parse_job 10 INGESTION_QUEUE raw)"
proof -
  obtain st ph k k' where "pool_reach 10 {toy_job_env} True
      (pool_state [uuid_str 2, toy_payload] Map.empty 0, \<lambda>i. Idle, 0) (st, ph, 0)"
    and "ph 0 = Running toy_payload k 0" and "ph 1 = Running (uuid_str 2) k' 0"
    using legacy_payload_escapes_lock by blast
  from ingestion_exclusive [OF this] show ?thesis by auto
qed

end
