(* ===== verification/Workflow.thy ===== *)
theory Workflow
  imports Opportunities
begin

text \<open>
  \<open>domains/workflow\<close>: initiatives, their status machine (\<open>VALID_TRANSITIONS\<close>), their comments and the
  board (\<open>models.py\<close>, \<open>service.py\<close>, \<open>schemas.py\<close>), and the routes (\<open>router.py\<close>). The state extends
  the opportunity tables, because creating an initiative and completing it change the opportunity it is
  linked to. Rows of users live in another component: whether an owner exists is the argument \<open>is_user\<close>.
\<close>

section \<open>Data\<close>

datatype initiative_status =
  INI_BACKLOG | INI_PLANNED | INI_IN_PROGRESS | INI_REVIEW | INI_DONE | INI_CANCELLED

fun initiative_status_value :: "initiative_status \<Rightarrow> string" where
  "initiative_status_value INI_BACKLOG = ''backlog''"
| "initiative_status_value INI_PLANNED = ''planned''"
| "initiative_status_value INI_IN_PROGRESS = ''in_progress''"
| "initiative_status_value INI_REVIEW = ''review''"
| "initiative_status_value INI_DONE = ''done''"
| "initiative_status_value INI_CANCELLED = ''cancelled''"

definition all_initiative_statuses :: "initiative_status list" where
  "all_initiative_statuses =
     [INI_BACKLOG, INI_PLANNED, INI_IN_PROGRESS, INI_REVIEW, INI_DONE, INI_CANCELLED]"

fun valid_initiative_transitions :: "initiative_status \<Rightarrow> initiative_status list" where
  "valid_initiative_transitions INI_BACKLOG = [INI_PLANNED, INI_CANCELLED]"
| "valid_initiative_transitions INI_PLANNED = [INI_IN_PROGRESS, INI_BACKLOG, INI_CANCELLED]"
| "valid_initiative_transitions INI_IN_PROGRESS = [INI_REVIEW, INI_PLANNED, INI_CANCELLED]"
| "valid_initiative_transitions INI_REVIEW = [INI_DONE, INI_IN_PROGRESS]"
| "valid_initiative_transitions INI_DONE = []"
| "valid_initiative_transitions INI_CANCELLED = [INI_BACKLOG]"

record initiative =
  in_id :: uuid
  in_org :: uuid
  in_opportunity :: "uuid option"
  in_owner :: "uuid option"
  in_title :: string
  in_description :: "string option"
  in_status :: initiative_status
  in_sla_date :: "int option"
  in_completed_at :: "instant option"
  in_external_ref :: "string option"
  in_external_url :: "string option"
  in_realized_savings :: "pyfloat option"
  in_created :: instant
  in_updated :: instant

text \<open>\<open>InitiativeOut\<close>: the columns of the row and \<open>is_overdue\<close>.\<close>

record initiative_out = initiative +
  is_overdue :: bool

record initiative_comment =
  cm_id :: uuid
  cm_initiative :: uuid
  cm_user :: uuid
  cm_body :: string
  cm_created :: instant

record workflow_db = opp_db +
  initiatives :: "initiative list"
  initiative_comments :: "initiative_comment list"

record initiative_create =
  ic_title :: string
  ic_description :: "string option"
  ic_opportunity :: "uuid option"
  ic_owner :: "uuid option"
  ic_sla_date :: "int option"
  ic_external_ref :: "string option"
  ic_external_url :: "string option"

record initiative_update =
  iu_title :: "string option"
  iu_description :: "string option"
  iu_owner :: "uuid option"
  iu_sla_date :: "int option"
  iu_external_ref :: "string option"
  iu_external_url :: "string option"
  iu_realized_savings :: "pyfloat option"

text \<open>The number of characters of a text: its bytes that do not continue a character.\<close>

definition char_count :: "string \<Rightarrow> nat" where
  "char_count s = length (filter (\<lambda>ch. let n = of_char ch :: nat in n < 128 \<or> 192 \<le> n) s)"

definition initiative_create_valid :: "initiative_create \<Rightarrow> bool" where
  "initiative_create_valid r \<longleftrightarrow> 3 \<le> char_count (ic_title r) \<and> char_count (ic_title r) \<le> 500"

definition comment_create_valid :: "string \<Rightarrow> bool" where
  "comment_create_valid body \<longleftrightarrow> 1 \<le> char_count body \<and> char_count body \<le> 5000"

section \<open>Service\<close>

definition new_initiative :: "call \<Rightarrow> uuid \<Rightarrow> initiative_create \<Rightarrow> initiative" where
  "new_initiative c org r =
     \<lparr>in_id = fresh c 0, in_org = org, in_opportunity = ic_opportunity r, in_owner = ic_owner r,
      in_title = ic_title r, in_description = ic_description r, in_status = INI_BACKLOG,
      in_sla_date = ic_sla_date r, in_completed_at = None, in_external_ref = ic_external_ref r,
      in_external_url = ic_external_url r, in_realized_savings = None,
      in_created = clock c 0, in_updated = clock c 0\<rparr>"

text \<open>The constraints the database checks when the row is flushed.\<close>

definition initiative_constraints ::
  "(uuid \<Rightarrow> bool) \<Rightarrow> initiative \<Rightarrow> 'z workflow_db_scheme \<Rightarrow> string option" where
  "initiative_constraints is_user i db =
     (if in_id i \<in> in_id ` set (initiatives db) then Some ''initiatives_pkey''
      else case in_opportunity i of
        Some o1 \<Rightarrow>
          if row_find op_id o1 (opportunities db) = None then Some ''initiatives_opportunity_id_fkey''
          else (case in_owner i of
            Some u \<Rightarrow> if is_user u then None else Some ''initiatives_owner_id_fkey'' | None \<Rightarrow> None)
      | None \<Rightarrow>
          (case in_owner i of
            Some u \<Rightarrow> if is_user u then None else Some ''initiatives_owner_id_fkey'' | None \<Rightarrow> None))"

definition set_opportunity_status ::
  "uuid \<Rightarrow> (opportunity_status \<Rightarrow> bool) \<Rightarrow> opportunity_status \<Rightarrow> 'z opp_db_scheme \<Rightarrow> 'z opp_db_scheme" where
  "set_opportunity_status oid guard st db =
     (case row_find op_id oid (opportunities db) of
        None \<Rightarrow> db
      | Some o1 \<Rightarrow>
          if guard (op_status o1)
          then db\<lparr>opportunities := row_put op_id (o1\<lparr>op_status := st\<rparr>) (opportunities db)\<rparr>
          else db)"

definition initiative_created_payload :: "initiative_create \<Rightarrow> initiative \<Rightarrow> pyval" where
  "initiative_created_payload r i =
     PDict [(''title'', PStr (in_title i)), (''opportunity_id'', opt_uuid_str (ic_opportunity r)),
            (''owner_id'', opt_uuid_str (ic_owner r))]"

definition create_initiative ::
  "platform \<Rightarrow> call \<Rightarrow> (uuid \<Rightarrow> bool) \<Rightarrow> uuid \<Rightarrow> initiative_create \<Rightarrow> uuid option
   \<Rightarrow> ('z workflow_db_scheme, initiative) svc" where
  "create_initiative pf c is_user org r actor db =
     (let i = new_initiative c org r in
      case initiative_constraints is_user i db of
        Some name \<Rightarrow> (Inl (IntegrityError name), db)
      | None \<Rightarrow>
          let db = db\<lparr>initiatives := row_add i (initiatives db)\<rparr>;
              db = (case ic_opportunity r of
                      None \<Rightarrow> db
                    | Some oid \<Rightarrow> set_opportunity_status oid (\<lambda>s. s = OPP_OPEN) OPP_IN_PROGRESS db);
              db = (case actor of
                      None \<Rightarrow> db
                    | Some _ \<Rightarrow> append_event pf org actor ''initiative.created'' ''initiative''
                        (uuid_str (in_id i)) (initiative_created_payload r i) (fresh c 1, clock c 1) db)
          in (Inr i, db))"

definition initiative_matches ::
  "uuid \<Rightarrow> initiative_status option \<Rightarrow> uuid option \<Rightarrow> initiative \<Rightarrow> bool" where
  "initiative_matches org st owner i \<longleftrightarrow>
     in_org i = org \<and> (case st of None \<Rightarrow> True | Some s \<Rightarrow> in_status i = s)
     \<and> (case owner of None \<Rightarrow> True | Some u \<Rightarrow> in_owner i = Some u)"

definition list_initiatives ::
  "uuid \<Rightarrow> initiative_status option \<Rightarrow> uuid option \<Rightarrow> nat \<Rightarrow> nat \<Rightarrow> 'z workflow_db_scheme
   \<Rightarrow> initiative list \<times> nat" where
  "list_initiatives org st owner limit offset db =
     (let matching = filter (initiative_matches org st owner) (initiatives db)
      in (take limit (drop offset (rev (sort_key in_updated matching))), length matching))"

definition get_initiative :: "uuid \<Rightarrow> uuid \<Rightarrow> 'z workflow_db_scheme \<Rightarrow> initiative option" where
  "get_initiative org iid db =
     (case row_find in_id iid (initiatives db) of
        None \<Rightarrow> None | Some i \<Rightarrow> if in_org i = org then Some i else None)"

definition put_initiative :: "initiative \<Rightarrow> 'z workflow_db_scheme \<Rightarrow> 'z workflow_db_scheme" where
  "put_initiative i db = db\<lparr>initiatives := row_put in_id i (initiatives db)\<rparr>"

definition apply_initiative_update :: "initiative_update \<Rightarrow> initiative \<Rightarrow> initiative" where
  "apply_initiative_update r i =
     i\<lparr>in_title := set_opt the (iu_title r) (in_title i),
       in_description := set_opt id (iu_description r) (in_description i),
       in_owner := set_opt id (iu_owner r) (in_owner i),
       in_sla_date := set_opt id (iu_sla_date r) (in_sla_date i),
       in_external_ref := set_opt id (iu_external_ref r) (in_external_ref i),
       in_external_url := set_opt id (iu_external_url r) (in_external_url i),
       in_realized_savings := set_opt id (iu_realized_savings r) (in_realized_savings i)\<rparr>"

text \<open>A row whose attributes did not change is not written, so its \<open>updated_at\<close> stays.\<close>

definition touch :: "instant \<Rightarrow> initiative \<Rightarrow> initiative \<Rightarrow> initiative" where
  "touch now before i = (if i = before then i else i\<lparr>in_updated := now\<rparr>)"

definition update_initiative ::
  "call \<Rightarrow> (uuid \<Rightarrow> bool) \<Rightarrow> uuid \<Rightarrow> uuid \<Rightarrow> initiative_update
   \<Rightarrow> ('z workflow_db_scheme, initiative option) svc" where
  "update_initiative c is_user org iid r db =
     (case get_initiative org iid db of
        None \<Rightarrow> (Inr None, db)
      | Some i \<Rightarrow>
          let i' = touch (clock c 0) i (apply_initiative_update r i) in
          if (case iu_owner r of None \<Rightarrow> False | Some u \<Rightarrow> iu_owner r \<noteq> in_owner i \<and> \<not> is_user u)
          then (Inl (IntegrityError ''initiatives_owner_id_fkey''), db)
          else (Inr (Some i'), put_initiative i' db))"

definition initiative_transition_error :: "initiative_status \<Rightarrow> initiative_status \<Rightarrow> string" where
  "initiative_transition_error old new =
     ''Cannot transition from '' @ initiative_status_value old @ '' to '' @ initiative_status_value new
     @ ''. Allowed: '' @ py_list_repr (map initiative_status_value (valid_initiative_transitions old))"

definition transitioned_initiative :: "call \<Rightarrow> initiative_status \<Rightarrow> initiative \<Rightarrow> initiative" where
  "transitioned_initiative c new i =
     (let i = i\<lparr>in_status := new, in_updated := clock c 1\<rparr>
      in if new = INI_DONE then i\<lparr>in_completed_at := Some (clock c 0)\<rparr> else i)"

definition initiative_transitioned_payload :: "initiative_status \<Rightarrow> initiative_status \<Rightarrow> pyval" where
  "initiative_transitioned_payload old new =
     PDict [(''from'', PStr (initiative_status_value old)), (''to'', PStr (initiative_status_value new))]"

definition transition_status ::
  "platform \<Rightarrow> call \<Rightarrow> uuid \<Rightarrow> uuid \<Rightarrow> initiative_status \<Rightarrow> uuid option
   \<Rightarrow> ('z workflow_db_scheme, initiative) svc" where
  "transition_status pf c org iid new actor db =
     (case get_initiative org iid db of
        None \<Rightarrow> (Inl (ValueError ''Initiative not found''), db)
      | Some i \<Rightarrow>
          if new \<notin> set (valid_initiative_transitions (in_status i))
          then (Inl (ValueError (initiative_transition_error (in_status i) new)), db)
          else
            let i' = transitioned_initiative c new i;
                db = put_initiative i' db;
                db = (case (if new = INI_DONE then in_opportunity i else None) of
                        None \<Rightarrow> db
                      | Some oid \<Rightarrow> set_opportunity_status oid (\<lambda>_. True) OPP_RESOLVED db);
                db = (case actor of
                        None \<Rightarrow> db
                      | Some _ \<Rightarrow> append_event pf org actor ''initiative.transitioned'' ''initiative''
                          (uuid_str iid) (initiative_transitioned_payload (in_status i) new)
                          (fresh c 0, clock c 2) db)
            in (Inr i', db))"

definition add_comment ::
  "call \<Rightarrow> uuid \<Rightarrow> uuid \<Rightarrow> uuid \<Rightarrow> string \<Rightarrow> ('z workflow_db_scheme, initiative_comment) svc" where
  "add_comment c org iid user body db =
     (case get_initiative org iid db of
        None \<Rightarrow> (Inl (ValueError ''Initiative not found''), db)
      | Some i \<Rightarrow>
          let cm = \<lparr>cm_id = fresh c 0, cm_initiative = iid, cm_user = user, cm_body = body,
                    cm_created = clock c 0\<rparr>
          in (Inr cm, db\<lparr>initiative_comments := row_add cm (initiative_comments db)\<rparr>))"

definition list_comments :: "uuid \<Rightarrow> uuid \<Rightarrow> 'z workflow_db_scheme \<Rightarrow> initiative_comment list" where
  "list_comments org iid db =
     (case get_initiative org iid db of
        None \<Rightarrow> []
      | Some i \<Rightarrow> sort_key cm_created (filter (\<lambda>cm. cm_initiative cm = iid) (initiative_comments db)))"

section \<open>The board\<close>

text \<open>\<open>InitiativeOut.from_model\<close> on the day \<open>today\<close>, a number of days.\<close>

definition out_of :: "int \<Rightarrow> initiative \<Rightarrow> initiative_out" where
  "out_of today i = initiative.extend i (initiative_out.fields
     (case in_sla_date i of
        None \<Rightarrow> False
      | Some sla \<Rightarrow> if in_status i \<notin> {INI_DONE, INI_CANCELLED} then sla < today else False))"

record initiative_board =
  bd_backlog :: "initiative_out list"
  bd_planned :: "initiative_out list"
  bd_in_progress :: "initiative_out list"
  bd_review :: "initiative_out list"
  bd_done :: "initiative_out list"
  bd_cancelled :: "initiative_out list"

definition by_status ::
  "int \<Rightarrow> initiative list \<Rightarrow> initiative_status \<Rightarrow> initiative_out list" where
  "by_status today xs = foldl (\<lambda>m i. m(in_status i := m (in_status i) @ [out_of today i])) (\<lambda>_. []) xs"

definition get_board :: "int \<Rightarrow> uuid \<Rightarrow> 'z workflow_db_scheme \<Rightarrow> initiative_board" where
  "get_board today org db =
     (let all_initiatives = fst (list_initiatives org None None 500 0 db);
          m = by_status today all_initiatives
      in \<lparr>bd_backlog = m INI_BACKLOG, bd_planned = m INI_PLANNED, bd_in_progress = m INI_IN_PROGRESS,
          bd_review = m INI_REVIEW, bd_done = m INI_DONE, bd_cancelled = m INI_CANCELLED\<rparr>)"

section \<open>Routes\<close>

definition post_initiative ::
  "platform \<Rightarrow> call \<Rightarrow> (uuid \<Rightarrow> bool) \<Rightarrow> int \<Rightarrow> uuid \<Rightarrow> uuid \<Rightarrow> initiative_create
   \<Rightarrow> ('z workflow_db_scheme, initiative_out) svc" where
  "post_initiative pf c is_user today org user r =
     request_scope
       (if \<not> initiative_create_valid r then raise (HTTPException 422 ''title'')
        else andthen (create_initiative pf c is_user org r (Some user)) (\<lambda>i. ret (out_of today i)))"

definition patch_initiative ::
  "call \<Rightarrow> (uuid \<Rightarrow> bool) \<Rightarrow> int \<Rightarrow> uuid \<Rightarrow> uuid \<Rightarrow> initiative_update
   \<Rightarrow> ('z workflow_db_scheme, initiative_out) svc" where
  "patch_initiative c is_user today org iid r =
     request_scope (andthen (update_initiative c is_user org iid r) (\<lambda>found. case found of
        None \<Rightarrow> raise (HTTPException 404 ''Initiative not found'')
      | Some i \<Rightarrow> ret (out_of today i)))"

text \<open>\<open>except ValueError as e: raise HTTPException(code, detail=str(e))\<close>.\<close>

definition value_error_as :: "nat \<Rightarrow> ('s, 'a) svc \<Rightarrow> ('s, 'a) svc" where
  "value_error_as code m s =
     (case m s of (Inl (ValueError msg), s') \<Rightarrow> (Inl (HTTPException code msg), s') | r \<Rightarrow> r)"

definition post_transition ::
  "platform \<Rightarrow> call \<Rightarrow> int \<Rightarrow> uuid \<Rightarrow> uuid \<Rightarrow> uuid \<Rightarrow> initiative_status
   \<Rightarrow> ('z workflow_db_scheme, initiative_out) svc" where
  "post_transition pf c today org user iid new =
     request_scope (andthen (value_error_as 400 (transition_status pf c org iid new (Some user)))
       (\<lambda>i. ret (out_of today i)))"

definition post_comment ::
  "call \<Rightarrow> uuid \<Rightarrow> uuid \<Rightarrow> uuid \<Rightarrow> string \<Rightarrow> ('z workflow_db_scheme, initiative_comment) svc" where
  "post_comment c org user iid body =
     request_scope
       (if \<not> comment_create_valid body then raise (HTTPException 422 ''body'')
        else value_error_as 404 (add_comment c org iid user body))"

definition get_initiative_route ::
  "int \<Rightarrow> uuid \<Rightarrow> uuid \<Rightarrow> ('z workflow_db_scheme, initiative_out) svc" where
  "get_initiative_route today org iid db =
     (case get_initiative org iid db of
        None \<Rightarrow> raise (HTTPException 404 ''Initiative not found'') db
      | Some i \<Rightarrow> ret (out_of today i) db)"

end
