(* ===== verification/WorkflowLaws.thy ===== *)
theory WorkflowLaws
  imports Workflow PlanLaws
begin

text \<open>
  Laws of the initiatives: every request is a move of the relation \<open>wf_step\<close> on the rows and the log of
  transitions; the rows stay well formed, the status of an initiative is what its audit log replays to
  along the transition table, a completed initiative stays completed, and the board is the newest 500
  initiatives sorted into their columns.
\<close>

section \<open>Frames\<close>

interpretation initiative_rows: keyed_table in_id "row_find in_id" "row_put in_id" row_add
  by (rule keyed_table_rows)

lemma workflow_append_event [simp]:
  "initiatives (append_event pf org a t n i p st db) = initiatives db"
  "initiative_comments (append_event pf org a t n i p st db) = initiative_comments db"
  by (simp_all add: append_event_def Let_def)

lemma put_initiative_frame [simp]:
  "initiatives (put_initiative i db) = row_put in_id i (initiatives db)"
  "initiative_comments (put_initiative i db) = initiative_comments db"
  "opportunities (put_initiative i db) = opportunities db"
  "events (put_initiative i db) = events db"
  by (simp_all add: put_initiative_def)

lemma keys_row_put [simp]: "key ` set (row_put key r rs) = key ` set rs"
  by (metis map_key_row_put set_map)

lemma set_opportunity_frame [simp]:
  "initiatives (set_opportunity_status oid g st db) = initiatives db"
  "initiative_comments (set_opportunity_status oid g st db) = initiative_comments db"
  "events (set_opportunity_status oid g st db) = events db"
  "op_id ` set (opportunities (set_opportunity_status oid g st db)) = op_id ` set (opportunities db)"
  unfolding set_opportunity_status_def
  by (simp_all split: option.splits)

lemma get_initiative_Some:
  "get_initiative org k db = Some i \<longleftrightarrow> row_find in_id k (initiatives db) = Some i \<and> in_org i = org"
  by (auto simp: get_initiative_def split: option.splits)

lemma initiative_updated_fields [simp]:
  "in_id (touch now b (apply_initiative_update r i)) = in_id i"
  "in_org (touch now b (apply_initiative_update r i)) = in_org i"
  "in_status (touch now b (apply_initiative_update r i)) = in_status i"
  "in_completed_at (touch now b (apply_initiative_update r i)) = in_completed_at i"
  "in_opportunity (touch now b (apply_initiative_update r i)) = in_opportunity i"
  by (auto simp: touch_def apply_initiative_update_def)

lemma transitioned_fields [simp]:
  "in_id (transitioned_initiative c new i) = in_id i"
  "in_org (transitioned_initiative c new i) = in_org i"
  "in_status (transitioned_initiative c new i) = new"
  "in_opportunity (transitioned_initiative c new i) = in_opportunity i"
  "in_completed_at (transitioned_initiative c new i) =
     (if new = INI_DONE then Some (clock c 0) else in_completed_at i)"
  by (simp_all add: transitioned_initiative_def Let_def)

section \<open>Requests\<close>

datatype workflow_request =
    PostInitiative initiative_create
  | PatchInitiative uuid initiative_update
  | PostTransition uuid initiative_status
  | PostComment uuid string

record workflow_caller =
  wc_call :: call
  wc_today :: int
  wc_org :: uuid
  wc_user :: uuid

text \<open>The tables after a request of a caller.\<close>

fun wf_serve ::
  "platform \<Rightarrow> (uuid \<Rightarrow> bool) \<Rightarrow> 'z workflow_db_scheme \<Rightarrow> workflow_caller \<times> workflow_request
   \<Rightarrow> 'z workflow_db_scheme" where
  "wf_serve pf is_user db (w, PostInitiative r) =
     snd (post_initiative pf (wc_call w) is_user (wc_today w) (wc_org w) (wc_user w) r db)"
| "wf_serve pf is_user db (w, PatchInitiative k r) =
     snd (patch_initiative (wc_call w) is_user (wc_today w) (wc_org w) k r db)"
| "wf_serve pf is_user db (w, PostTransition k new) =
     snd (post_transition pf (wc_call w) (wc_today w) (wc_org w) (wc_user w) k new db)"
| "wf_serve pf is_user db (w, PostComment k body) =
     snd (post_comment (wc_call w) (wc_org w) (wc_user w) k body db)"

definition wf_serve_all ::
  "platform \<Rightarrow> (uuid \<Rightarrow> bool) \<Rightarrow> (workflow_caller \<times> workflow_request) list
   \<Rightarrow> 'z workflow_db_scheme \<Rightarrow> 'z workflow_db_scheme" where
  "wf_serve_all pf is_user reqs db = foldl (wf_serve pf is_user) db reqs"

definition transition_log :: "'z audit_db_scheme \<Rightarrow> audit_event list" where
  "transition_log db = filter (\<lambda>e. event_type e = ''initiative.transitioned'') (events db)"

inductive wf_step ::
  "initiative list \<Rightarrow> audit_event list \<Rightarrow> initiative list \<Rightarrow> audit_event list \<Rightarrow> bool" where
  stay: "wf_step xs es xs es"
| created: "\<lbrakk>in_id i \<notin> in_id ` set xs; in_status i = INI_BACKLOG; in_completed_at i = None\<rbrakk>
    \<Longrightarrow> wf_step xs es (row_add i xs) es"
| edited: "\<lbrakk>row_find in_id k xs = Some i; in_id i' = in_id i; in_status i' = in_status i;
    in_completed_at i' = in_completed_at i\<rbrakk> \<Longrightarrow> wf_step xs es (row_put in_id i' xs) es"
| moved: "\<lbrakk>row_find in_id k xs = Some i; new \<in> set (valid_initiative_transitions (in_status i));
    entity_id e = uuid_str k;
    payload e = normalize_payload (initiative_transitioned_payload (in_status i) new)\<rbrakk>
    \<Longrightarrow> wf_step xs es (row_put in_id (transitioned_initiative c new i) xs) (es @ [e])"

lemma new_event_entity [simp]: "entity_id (new_event pf org a t n i p st db) = i"
  by (simp add: new_event_def Let_def)

lemma transition_log_frame [simp]:
  "transition_log (append_event pf org a t n i p st db) =
     transition_log db @ (if t = ''initiative.transitioned'' then [new_event pf org a t n i p st db] else [])"
  "transition_log (set_opportunity_status oid g s db) = transition_log db"
  "transition_log (put_initiative x db) = transition_log db"
  "transition_log (db\<lparr>initiatives := xs\<rparr>) = transition_log db"
  "transition_log (db\<lparr>initiative_comments := cs\<rparr>) = transition_log db"
  by (simp_all add: transition_log_def)

lemma constraints_pkey: "initiative_constraints u i db = None \<Longrightarrow> in_id i \<notin> in_id ` set (initiatives db)"
  by (auto simp: initiative_constraints_def split: if_splits)

lemma constraints_opportunity:
  "\<lbrakk>initiative_constraints u i db = None; in_opportunity i = Some oid\<rbrakk>
     \<Longrightarrow> oid \<in> op_id ` set (opportunities db)"
  using row_find_None [of op_id oid "opportunities db"]
  by (auto simp: initiative_constraints_def split: if_splits)

text \<open>What each route leaves in the tables.\<close>

lemma post_initiative_state:
  "snd (post_initiative pf c is_user today org user r db) = db \<or>
   initiative_constraints is_user (new_initiative c org r) db = None \<and>
   snd (post_initiative pf c is_user today org user r db) =
     snd (create_initiative pf c is_user org r (Some user) db)"
  by (auto simp: post_initiative_def create_initiative_def request_scope_def raise_def ret_def andthen_def
      Let_def split: option.splits)

lemma create_initiative_state:
  assumes "initiative_constraints is_user (new_initiative c org r) db = None"
  shows "initiatives (snd (create_initiative pf c is_user org r actor db))
      = row_add (new_initiative c org r) (initiatives db)"
    and "initiative_comments (snd (create_initiative pf c is_user org r actor db)) = initiative_comments db"
    and "transition_log (snd (create_initiative pf c is_user org r actor db)) = transition_log db"
    and "op_id ` set (opportunities (snd (create_initiative pf c is_user org r actor db)))
      = op_id ` set (opportunities db)"
  using assms by (auto simp: create_initiative_def Let_def split: option.splits)

lemma patch_initiative_state:
  "snd (patch_initiative c is_user today org k r db) = db \<or>
   (\<exists>i. row_find in_id k (initiatives db) = Some i \<and>
     snd (patch_initiative c is_user today org k r db)
       = put_initiative (touch (clock c 0) i (apply_initiative_update r i)) db)"
  by (auto simp: patch_initiative_def update_initiative_def request_scope_def raise_def ret_def andthen_def
      Let_def get_initiative_Some split: option.splits if_splits)

lemma post_transition_state:
  "snd (post_transition pf c today org user k new db) = db \<or>
   (\<exists>i. row_find in_id k (initiatives db) = Some i \<and> in_org i = org
     \<and> new \<in> set (valid_initiative_transitions (in_status i)) \<and>
     snd (post_transition pf c today org user k new db)
       = snd (transition_status pf c org k new (Some user) db))"
  by (auto simp: post_transition_def transition_status_def request_scope_def raise_def ret_def andthen_def
      value_error_as_def Let_def get_initiative_Some split: option.splits if_splits)

lemma transition_status_state:
  assumes "row_find in_id k (initiatives db) = Some i" and "in_org i = org"
    and "new \<in> set (valid_initiative_transitions (in_status i))"
  shows "initiatives (snd (transition_status pf c org k new (Some user) db))
      = row_put in_id (transitioned_initiative c new i) (initiatives db)"
    and "initiative_comments (snd (transition_status pf c org k new (Some user) db)) = initiative_comments db"
    and "op_id ` set (opportunities (snd (transition_status pf c org k new (Some user) db)))
      = op_id ` set (opportunities db)"
    and "\<exists>e. transition_log (snd (transition_status pf c org k new (Some user) db)) = transition_log db @ [e]
      \<and> entity_id e = uuid_str k
      \<and> payload e = normalize_payload (initiative_transitioned_payload (in_status i) new)"
proof -
  have g: "get_initiative org k db = Some i" using assms by (simp add: get_initiative_Some)
  show "initiatives (snd (transition_status pf c org k new (Some user) db))
      = row_put in_id (transitioned_initiative c new i) (initiatives db)"
    "initiative_comments (snd (transition_status pf c org k new (Some user) db)) = initiative_comments db"
    "op_id ` set (opportunities (snd (transition_status pf c org k new (Some user) db)))
      = op_id ` set (opportunities db)"
    "\<exists>e. transition_log (snd (transition_status pf c org k new (Some user) db)) = transition_log db @ [e]
      \<and> entity_id e = uuid_str k
      \<and> payload e = normalize_payload (initiative_transitioned_payload (in_status i) new)"
    using assms by (auto simp: transition_status_def g Let_def split: option.splits)
qed

lemma post_comment_state:
  "snd (post_comment c org user k body db) = db \<or>
   (\<exists>cm. cm_initiative cm = k \<and> row_find in_id k (initiatives db) \<noteq> None \<and>
     snd (post_comment c org user k body db)
       = db\<lparr>initiative_comments := row_add cm (initiative_comments db)\<rparr>)"
proof (cases "get_initiative org k db")
  case (Some i)
  let ?cm = "\<lparr>cm_id = fresh c 0, cm_initiative = k, cm_user = user, cm_body = body, cm_created = clock c 0\<rparr>"
  have "snd (post_comment c org user k body db) = db \<or>
    snd (post_comment c org user k body db)
      = db\<lparr>initiative_comments := row_add ?cm (initiative_comments db)\<rparr>"
    by (simp add: post_comment_def add_comment_def request_scope_def raise_def value_error_as_def Some Let_def)
  moreover have "row_find in_id k (initiatives db) \<noteq> None" using Some by (simp add: get_initiative_Some)
  moreover have "cm_initiative ?cm = k" by simp
  ultimately show ?thesis by blast
qed (simp add: post_comment_def add_comment_def request_scope_def raise_def value_error_as_def)

theorem wf_serve_step:
  "wf_step (initiatives db) (transition_log db)
     (initiatives (wf_serve pf is_user db rq)) (transition_log (wf_serve pf is_user db rq))"
proof -
  obtain w q where rq: "rq = (w, q)" by force
  show ?thesis
proof (cases q)
  case 1: (PostInitiative r)
  from post_initiative_state [of pf "wc_call w" is_user "wc_today w" "wc_org w" "wc_user w" r db]
  show ?thesis
  proof (elim disjE conjE)
    let ?i = "new_initiative (wc_call w) (wc_org w) r"
    assume ok: "initiative_constraints is_user ?i db = None"
      and eq: "snd (post_initiative pf (wc_call w) is_user (wc_today w) (wc_org w) (wc_user w) r db) =
        snd (create_initiative pf (wc_call w) is_user (wc_org w) r (Some (wc_user w)) db)"
    have "wf_step (initiatives db) (transition_log db) (row_add ?i (initiatives db)) (transition_log db)"
      using constraints_pkey [OF ok] by (intro wf_step.created) (simp_all add: new_initiative_def)
    with 1 rq eq show ?thesis by (simp add: create_initiative_state [OF ok])
  qed (use 1 rq in \<open>simp add: wf_step.stay\<close>)
next
  case (PatchInitiative k r)
  then show ?thesis
    using patch_initiative_state [of "wc_call w" is_user "wc_today w" "wc_org w" k r db] rq
    by (elim disjE exE conjE) (simp_all add: wf_step.stay wf_step.edited)
next
  case 3: (PostTransition k new)
  from post_transition_state [of pf "wc_call w" "wc_today w" "wc_org w" "wc_user w" k new db]
  show ?thesis
  proof (elim disjE exE conjE)
    fix i assume i: "row_find in_id k (initiatives db) = Some i" "in_org i = wc_org w"
      "new \<in> set (valid_initiative_transitions (in_status i))"
      and eq: "snd (post_transition pf (wc_call w) (wc_today w) (wc_org w) (wc_user w) k new db) =
        snd (transition_status pf (wc_call w) (wc_org w) k new (Some (wc_user w)) db)"
    from transition_status_state(4) [OF i, of pf "wc_call w" "wc_user w"] show ?thesis
      using 3 rq i eq by (auto simp: transition_status_state(1) [OF i] intro: wf_step.moved)
  qed (use 3 rq in \<open>simp add: wf_step.stay\<close>)
next
  case (PostComment k body)
  then show ?thesis using post_comment_state [of "wc_call w" "wc_org w" "wc_user w" k body db] rq
    by (auto intro!: wf_step.stay)
qed
qed

section \<open>The rows stay well formed\<close>

definition rows_ok :: "initiative list \<Rightarrow> bool" where
  "rows_ok xs \<longleftrightarrow> distinct (map in_id xs) \<and>
     list_all (\<lambda>i. in_completed_at i \<noteq> None \<longleftrightarrow> in_status i = INI_DONE) xs"

definition references_ok :: "'z workflow_db_scheme \<Rightarrow> bool" where
  "references_ok db \<longleftrightarrow>
     (\<forall>i \<in> set (initiatives db). \<forall>oid. in_opportunity i = Some oid \<longrightarrow> oid \<in> op_id ` set (opportunities db))
     \<and> cm_initiative ` set (initiative_comments db) \<subseteq> in_id ` set (initiatives db)"

lemma not_done_before: "new \<in> set (valid_initiative_transitions s) \<Longrightarrow> s \<noteq> INI_DONE"
  by (cases s) auto

lemma wf_step_rows:
  assumes "wf_step xs es xs' es'" and "rows_ok xs"
  shows "rows_ok xs'"
  using assms
proof induction
  case (created i xs es)
  then show ?case by (simp add: rows_ok_def row_add_def)
next
  case (edited k xs i i' es)
  then show ?case by (auto simp: rows_ok_def list_all_iff dest!: row_find_Some set_row_put)
next
  case (moved k xs i new e es c)
  then show ?case
    by (auto simp: rows_ok_def list_all_iff dest!: row_find_Some set_row_put not_done_before
        split: if_splits)
qed

lemma wf_serve_all_Cons [simp]:
  "wf_serve_all pf u [] db = db" "wf_serve_all pf u (rq # rqs) db = wf_serve_all pf u rqs (wf_serve pf u db rq)"
  by (simp_all add: wf_serve_all_def)

lemma wf_serve_all_induct:
  assumes "P db" and "\<And>db rq. P db \<Longrightarrow> P (wf_serve pf u db rq)"
  shows "P (wf_serve_all pf u rqs db)"
  using assms(1) by (induction rqs arbitrary: db) (simp_all add: assms(2))

lemma wf_serve_references:
  assumes "references_ok db"
  shows "references_ok (wf_serve pf is_user db rq)"
proof -
  obtain w q where rq: "rq = (w, q)" by force
  show ?thesis
  proof (cases q)
    case 1: (PostInitiative r)
    let ?i = "new_initiative (wc_call w) (wc_org w) r"
    from post_initiative_state [of pf "wc_call w" is_user "wc_today w" "wc_org w" "wc_user w" r db]
    show ?thesis
    proof (elim disjE conjE)
      assume ok: "initiative_constraints is_user ?i db = None"
        and eq: "snd (post_initiative pf (wc_call w) is_user (wc_today w) (wc_org w) (wc_user w) r db) =
          snd (create_initiative pf (wc_call w) is_user (wc_org w) r (Some (wc_user w)) db)"
      from constraints_opportunity [OF ok] assms show ?thesis
        using 1 rq eq by (auto simp: references_ok_def create_initiative_state [OF ok] row_add_def)
    qed (use 1 rq assms in simp)
  next
    case (PatchInitiative k r)
    then show ?thesis
      using patch_initiative_state [of "wc_call w" is_user "wc_today w" "wc_org w" k r db] rq assms
      by (elim disjE exE conjE)
        (auto simp: references_ok_def dest!: set_row_put dest: row_find_Some)
  next
    case 3: (PostTransition k new)
    from post_transition_state [of pf "wc_call w" "wc_today w" "wc_org w" "wc_user w" k new db]
    show ?thesis
    proof (elim disjE exE conjE)
      fix i assume i: "row_find in_id k (initiatives db) = Some i" "in_org i = wc_org w"
        "new \<in> set (valid_initiative_transitions (in_status i))"
        and eq: "snd (post_transition pf (wc_call w) (wc_today w) (wc_org w) (wc_user w) k new db) =
          snd (transition_status pf (wc_call w) (wc_org w) k new (Some (wc_user w)) db)"
      from row_find_Some [OF i(1)] assms 3 rq eq show ?thesis
        by (auto simp: references_ok_def transition_status_state(1-3) [OF i] dest!: set_row_put)
    qed (use 3 rq assms in simp)
  next
    case 4: (PostComment k body)
    from post_comment_state [of "wc_call w" "wc_org w" "wc_user w" k body db] show ?thesis
    proof (elim disjE exE conjE)
      fix cm assume cm: "cm_initiative cm = k" "row_find in_id k (initiatives db) \<noteq> None"
        and eq: "snd (post_comment (wc_call w) (wc_org w) (wc_user w) k body db)
          = db\<lparr>initiative_comments := row_add cm (initiative_comments db)\<rparr>"
      from cm have "cm_initiative cm \<in> in_id ` set (initiatives db)"
        using row_find_None [of in_id k "initiatives db"] by simp
      with assms 4 rq eq show ?thesis by (simp add: references_ok_def row_add_def)
    qed (use 4 rq assms in simp)
  qed
qed

text \<open>
  C12 (type). Every sequence of requests keeps the tables of initiatives well typed: identifiers are
  distinct, an initiative has a completion time exactly when its status is done, the opportunity of an
  initiative is a row, and a comment belongs to an initiative.
\<close>

theorem workflow_well_formed:
  assumes "rows_ok (initiatives db)" and "references_ok db"
  shows "rows_ok (initiatives (wf_serve_all pf is_user reqs db)) \<and> references_ok (wf_serve_all pf is_user reqs db)"
proof (rule wf_serve_all_induct)
  show "rows_ok (initiatives db) \<and> references_ok db" using assms by simp
qed (use wf_step_rows [OF wf_serve_step] wf_serve_references in blast)

section \<open>The status is the replay of the audit log\<close>

definition log_step :: "initiative_status option \<Rightarrow> audit_event \<Rightarrow> initiative_status option" where
  "log_step s e = (case s of None \<Rightarrow> None | Some old \<Rightarrow>
     find (\<lambda>new. payload e = normalize_payload (initiative_transitioned_payload old new))
       (valid_initiative_transitions old))"

definition replayed :: "uuid \<Rightarrow> audit_event list \<Rightarrow> initiative_status option" where
  "replayed k es = foldl log_step (Some INI_BACKLOG) (filter (\<lambda>e. entity_id e = uuid_str k) es)"

definition status_of :: "uuid \<Rightarrow> initiative list \<Rightarrow> initiative_status" where
  "status_of k xs = (case row_find in_id k xs of None \<Rightarrow> INI_BACKLOG | Some i \<Rightarrow> in_status i)"

lemma initiative_status_value_inject [simp]:
  "initiative_status_value a = initiative_status_value b \<longleftrightarrow> a = b"
  by (cases a; cases b) simp_all

lemma find_member: "x \<in> set xs \<Longrightarrow> find ((=) x) xs = Some x"
  by (induction xs) auto

lemma log_step_moved:
  assumes "payload e = normalize_payload (initiative_transitioned_payload old new)"
    and "new \<in> set (valid_initiative_transitions old)"
  shows "log_step (Some old) e = Some new"
  using assms by (simp add: log_step_def initiative_transitioned_payload_def find_member)

lemma replayed_snoc:
  "replayed k (es @ [e]) = (if entity_id e = uuid_str k then log_step (replayed k es) e else replayed k es)"
  by (simp add: replayed_def)

lemma wf_step_replay:
  assumes "wf_step xs es xs' es'" and "\<forall>k. replayed k es = Some (status_of k xs)"
  shows "\<forall>k. replayed k es' = Some (status_of k xs')"
  using assms
proof induction
  case (created i xs es)
  then show ?case using row_find_None [of in_id "in_id i" xs]
    by (auto simp: status_of_def initiative_rows.lookup_add)
next
  case (edited k xs i i' es)
  then show ?case using row_find_Some [OF edited(1)] by (auto simp: status_of_def initiative_rows.lookup_put)
next
  case (moved k xs i new e es c)
  from row_find_Some [OF moved(1)] have k: "in_id i = k" by simp
  have "log_step (replayed k es) e = Some new"
    using moved log_step_moved [OF moved(4,2)] by (simp add: status_of_def)
  with moved k show ?case by (auto simp: replayed_snoc status_of_def initiative_rows.lookup_put)
qed

text \<open>
  C11 (refinement). Starting with no initiatives and an empty log, after every sequence of requests the
  status of every initiative is the one its audit events replay to: the events of its transitions, in
  order, form a walk of \<open>VALID_TRANSITIONS\<close> from backlog to the stored status.
\<close>

theorem initiative_log_replays:
  assumes "initiatives db = []" and "transition_log db = []"
    and "row_find in_id k (initiatives (wf_serve_all pf is_user reqs db)) = Some i"
  shows "replayed k (transition_log (wf_serve_all pf is_user reqs db)) = Some (in_status i)"
proof -
  have "\<forall>k. replayed k (transition_log (wf_serve_all pf is_user reqs db))
      = Some (status_of k (initiatives (wf_serve_all pf is_user reqs db)))"
  proof (rule wf_serve_all_induct)
    show "\<forall>k. replayed k (transition_log db) = Some (status_of k (initiatives db))"
      using assms(1,2) by (simp add: replayed_def status_of_def row_find_def)
  qed (rule wf_step_replay [OF wf_serve_step])
  with assms(3) show ?thesis by (simp add: status_of_def)
qed

section \<open>Done is final\<close>

lemma wf_step_done:
  assumes "wf_step xs es xs' es'" and "row_find in_id k xs = Some i" and "in_status i = INI_DONE"
  shows "\<exists>i'. row_find in_id k xs' = Some i' \<and> in_status i' = INI_DONE \<and> in_completed_at i' = in_completed_at i"
  using assms
proof induction
  case (edited k' xs j j' es)
  then show ?case using row_find_Some [OF edited(1)] by (auto simp: initiative_rows.lookup_put)
next
  case (moved k' xs j new e es c)
  then show ?case using row_find_Some [OF moved(1)] not_done_before [OF moved(2)]
    by (auto simp: initiative_rows.lookup_put)
qed (auto simp: initiative_rows.lookup_add)

text \<open>
  A completed initiative stays completed, with the same completion time, through every later
  sequence of requests: no status leads out of done, and an update does not touch either column.
\<close>

theorem done_is_final:
  assumes "row_find in_id k (initiatives db) = Some i" and "in_status i = INI_DONE"
  shows "\<exists>i'. row_find in_id k (initiatives (wf_serve_all pf is_user reqs db)) = Some i'
    \<and> in_status i' = INI_DONE \<and> in_completed_at i' = in_completed_at i"
proof (rule wf_serve_all_induct)
  fix db :: "'a workflow_db_scheme" and rq
  assume "\<exists>i'. row_find in_id k (initiatives db) = Some i' \<and> in_status i' = INI_DONE
    \<and> in_completed_at i' = in_completed_at i"
  then show "\<exists>i'. row_find in_id k (initiatives (wf_serve pf is_user db rq)) = Some i'
    \<and> in_status i' = INI_DONE \<and> in_completed_at i' = in_completed_at i"
    using wf_step_done [OF wf_serve_step, of k db _ pf is_user rq] by fastforce
qed (use assms in auto)

section \<open>The board\<close>

text \<open>The initiatives of an organization, most recently changed first.\<close>

definition newest_first :: "uuid \<Rightarrow> 'z workflow_db_scheme \<Rightarrow> initiative list" where
  "newest_first org db = rev (sort_key in_updated (filter (\<lambda>i. in_org i = org) (initiatives db)))"

definition board_column :: "int \<Rightarrow> uuid \<Rightarrow> 'z workflow_db_scheme \<Rightarrow> initiative_status \<Rightarrow> initiative_out list" where
  "board_column today org db s =
     map (out_of today) (filter (\<lambda>i. in_status i = s) (take 500 (newest_first org db)))"

definition board_rows :: "initiative_board \<Rightarrow> initiative_out list" where
  "board_rows b = bd_backlog b @ bd_planned b @ bd_in_progress b @ bd_review b @ bd_done b @ bd_cancelled b"

lemma by_status_filter: "by_status today xs s = map (out_of today) (filter (\<lambda>i. in_status i = s) xs)"
proof -
  have "foldl (\<lambda>m i. m(in_status i := m (in_status i) @ [out_of today i])) m xs s
    = m s @ map (out_of today) (filter (\<lambda>i. in_status i = s) xs)" for m
    by (induction xs arbitrary: m) simp_all
  then show ?thesis by (simp add: by_status_def)
qed

lemma get_board_columns:
  "get_board today org db =
     \<lparr>bd_backlog = board_column today org db INI_BACKLOG, bd_planned = board_column today org db INI_PLANNED,
      bd_in_progress = board_column today org db INI_IN_PROGRESS,
      bd_review = board_column today org db INI_REVIEW, bd_done = board_column today org db INI_DONE,
      bd_cancelled = board_column today org db INI_CANCELLED\<rparr>"
  by (simp add: get_board_def list_initiatives_def board_column_def by_status_filter newest_first_def
      initiative_matches_def [abs_def] Let_def)

lemma mset_by_status:
  "mset (filter (\<lambda>i. in_status i = INI_BACKLOG) xs) + mset (filter (\<lambda>i. in_status i = INI_PLANNED) xs)
   + mset (filter (\<lambda>i. in_status i = INI_IN_PROGRESS) xs) + mset (filter (\<lambda>i. in_status i = INI_REVIEW) xs)
   + mset (filter (\<lambda>i. in_status i = INI_DONE) xs) + mset (filter (\<lambda>i. in_status i = INI_CANCELLED) xs)
   = mset xs"
proof (induction xs)
  case (Cons i xs)
  then show ?case by (cases "in_status i") (simp_all add: ac_simps)
qed simp

lemma board_mset: "mset (board_rows (get_board today org db)) = mset (map (out_of today) (take 500 (newest_first org db)))"
  unfolding board_rows_def get_board_columns board_column_def mset_append mset_map
  by (simp flip: image_mset_union add: mset_by_status add.assoc [symmetric] del: mset_filter)

text \<open>
  C13 (equivalence). The board of an organization is a partition of its 500 most recently changed
  initiatives: the columns together hold those rows and each as often as it occurs, every row stands in
  the column of its status, and the board has as many rows as the organization has initiatives, 500 at
  most.
\<close>

theorem board_partition:
  "mset (board_rows (get_board today org db)) = mset (map (out_of today) (take 500 (newest_first org db)))
   \<and> length (board_rows (get_board today org db))
     = min 500 (length (filter (\<lambda>i. in_org i = org) (initiatives db)))
   \<and> list_all (\<lambda>r. in_status r = INI_BACKLOG) (bd_backlog (get_board today org db))
   \<and> list_all (\<lambda>r. in_status r = INI_PLANNED) (bd_planned (get_board today org db))
   \<and> list_all (\<lambda>r. in_status r = INI_IN_PROGRESS) (bd_in_progress (get_board today org db))
   \<and> list_all (\<lambda>r. in_status r = INI_REVIEW) (bd_review (get_board today org db))
   \<and> list_all (\<lambda>r. in_status r = INI_DONE) (bd_done (get_board today org db))
   \<and> list_all (\<lambda>r. in_status r = INI_CANCELLED) (bd_cancelled (get_board today org db))"
proof -
  have "length (board_rows (get_board today org db)) = size (mset (board_rows (get_board today org db)))"
    by simp
  also have "\<dots> = min 500 (length (filter (\<lambda>i. in_org i = org) (initiatives db)))"
    by (simp add: board_mset newest_first_def)
  finally have size: "length (board_rows (get_board today org db))
    = min 500 (length (filter (\<lambda>i. in_org i = org) (initiatives db)))" .
  have column: "list_all (\<lambda>r. in_status r = s) (board_column today org db s)" for s
    by (auto simp: board_column_def list_all_iff out_of_def initiative.defs)
  show ?thesis using size column by (simp add: board_mset) (simp add: get_board_columns)
qed

section \<open>Initiatives and opportunities\<close>

lemma set_opportunity_status_find:
  assumes "row_find op_id oid (opportunities db) = Some o1" and "g (op_status o1)"
  shows "row_find op_id oid (opportunities (set_opportunity_status oid g st db)) = Some (o1\<lparr>op_status := st\<rparr>)"
  using assms row_find_Some [OF assms(1)] by (simp add: set_opportunity_status_def opportunity_rows.lookup_put)

text \<open>
  Moving a reviewed initiative to done succeeds and resolves the opportunity it is linked
  to, whatever state that opportunity was in: the initiative is found within the caller's organization,
  the opportunity by its identifier alone.
\<close>

theorem done_resolves_opportunity:
  assumes "get_initiative org k db = Some i" and "in_status i = INI_REVIEW"
    and "in_opportunity i = Some oid" and "row_find op_id oid (opportunities db) = Some o1"
  shows "fst (post_transition pf c today org user k INI_DONE db)
      = Inr (out_of today (transitioned_initiative c INI_DONE i))
    \<and> row_find op_id oid (opportunities (snd (post_transition pf c today org user k INI_DONE db)))
      = Some (o1\<lparr>op_status := OPP_RESOLVED\<rparr>)"
proof -
  have "row_find op_id oid (opportunities (set_opportunity_status oid (\<lambda>_. True) OPP_RESOLVED (put_initiative x db)))
    = Some (o1\<lparr>op_status := OPP_RESOLVED\<rparr>)" for x
    by (rule set_opportunity_status_find) (simp_all add: assms(4))
  then show ?thesis
    by (simp add: post_transition_def request_scope_def andthen_def value_error_as_def transition_status_def
        assms ret_def Let_def)
qed

section \<open>Examples\<close>

definition sample_initiative :: "uuid \<Rightarrow> uuid \<Rightarrow> uuid option \<Rightarrow> initiative_status \<Rightarrow> initiative" where
  "sample_initiative k org opp s =
     \<lparr>in_id = k, in_org = org, in_opportunity = opp, in_owner = None, in_title = ''t'', in_description = None,
      in_status = s, in_sla_date = None, in_completed_at = (if s = INI_DONE then Some 5 else None),
      in_external_ref = None, in_external_url = None, in_realized_savings = None, in_created = 0,
      in_updated = 0\<rparr>"

definition ini_opportunity :: "uuid \<Rightarrow> uuid \<Rightarrow> opportunity" where
  "ini_opportunity k org =
     \<lparr>op_id = k, op_org = org, op_title = ''o'', op_category = RIGHTSIZING, op_composite_score = 0,
      op_savings = None, op_risk = RISK_LOW, op_effort = EFFORT_LOW, op_status = OPP_OPEN,
      op_resource_id = None, op_playbook = None, op_evidence = None, op_account = None,
     op_description = [], op_financial_score = 0, op_risk_score = 0, op_effort_score = 0,
     op_criticality_score = 0, op_annual_savings = 0, op_current_cost = 0, op_resource_name = None,
     op_sku_name = None, op_machine_family = None, op_service = None, op_region = None,
     op_environment = None, op_owner_team = None, op_rationale = None, op_created = 0, op_detected = 0\<rparr>"

definition sample_db :: "opportunity list \<Rightarrow> initiative list \<Rightarrow> workflow_db" where
  "sample_db opps xs =
     \<lparr>events = [], checkpoints = [], alerts = [], bundles = [], evidence = [], experiments = [], runs = [],
      approvals = [], opportunities = opps, calibrations = [], initiatives = xs, initiative_comments = []\<rparr>"

definition sample_caller :: "uuid \<Rightarrow> nat \<Rightarrow> workflow_caller" where
  "sample_caller org n = \<lparr>wc_call = \<lparr>fresh = (\<lambda>j. of_nat (10 * n + j)), clock = (\<lambda>j. int (10 * n + j))\<rparr>,
     wc_today = 3, wc_org = org, wc_user = 9\<rparr>"

definition sample_walk :: "(workflow_caller \<times> workflow_request) list" where
  "sample_walk =
     [(sample_caller 1 1, PostInitiative \<lparr>ic_title = ''cut'', ic_description = None, ic_opportunity = Some 7,
         ic_owner = None, ic_sla_date = None, ic_external_ref = None, ic_external_url = None\<rparr>),
      (sample_caller 1 2, PostTransition 10 INI_PLANNED), (sample_caller 1 3, PostTransition 10 INI_DONE)]"

lemma workflow_well_formed_witness:
  "rows_ok (initiatives (wf_serve_all undefined (\<lambda>_. True) sample_walk (sample_db [ini_opportunity 7 1] [])))
   \<and> references_ok (wf_serve_all undefined (\<lambda>_. True) sample_walk (sample_db [ini_opportunity 7 1] []))"
  by (rule workflow_well_formed) (simp_all add: sample_db_def rows_ok_def references_ok_def)

lemma sample_walk_status:
  "row_find in_id 10 (initiatives (wf_serve_all pf (\<lambda>_. True) sample_walk (sample_db [ini_opportunity 7 1] [])))
   = Some \<lparr>in_id = 10, in_org = 1, in_opportunity = Some 7, in_owner = None, in_title = ''cut'',
      in_description = None, in_status = INI_PLANNED, in_sla_date = None, in_completed_at = None,
      in_external_ref = None, in_external_url = None, in_realized_savings = None, in_created = 10,
      in_updated = 21\<rparr>"
  by (simp add: sample_walk_def sample_db_def sample_caller_def ini_opportunity_def post_initiative_def
      initiative_create_valid_def char_count_def create_initiative_def initiative_constraints_def
      new_initiative_def post_transition_def transition_status_def svc_simps value_error_as_def
      get_initiative_def row_find_def row_add_def row_put_def Let_def transitioned_initiative_def
      set_opportunity_status_def put_initiative_def append_event_def)

lemma initiative_log_replays_witness:
  "replayed 10 (transition_log (wf_serve_all undefined (\<lambda>_. True) sample_walk
     (sample_db [ini_opportunity 7 1] []))) = Some INI_PLANNED"
  using initiative_log_replays [OF _ _ sample_walk_status [of undefined]]
  by (simp add: sample_db_def transition_log_def)

lemma done_is_final_witness:
  "\<exists>i'. row_find in_id 10 (initiatives (wf_serve_all undefined (\<lambda>_. True) sample_walk
       (sample_db [ini_opportunity 7 1] [sample_initiative 10 1 None INI_DONE]))) = Some i'
     \<and> in_status i' = INI_DONE \<and> in_completed_at i' = Some 5"
  using done_is_final [of 10 "sample_db [ini_opportunity 7 1] [sample_initiative 10 1 None INI_DONE]"
      "sample_initiative 10 1 None INI_DONE" undefined "\<lambda>_. True" sample_walk]
  by (simp add: sample_db_def row_find_def sample_initiative_def)

text \<open>The opportunity belongs to organization 2, the initiative and the caller to organization 1.\<close>

lemma done_resolves_opportunity_witness:
  "row_find op_id 7 (opportunities (snd (post_transition undefined (wc_call (sample_caller 1 1)) 3 1 9 10 INI_DONE
      (sample_db [ini_opportunity 7 2] [sample_initiative 10 1 (Some 7) INI_REVIEW]))))
   = Some ((ini_opportunity 7 2)\<lparr>op_status := OPP_RESOLVED\<rparr>)"
  using done_resolves_opportunity [of 1 10 "sample_db [ini_opportunity 7 2] [sample_initiative 10 1 (Some 7) INI_REVIEW]"
      "sample_initiative 10 1 (Some 7) INI_REVIEW" 7 "ini_opportunity 7 2"]
  by (simp add: sample_db_def sample_initiative_def ini_opportunity_def get_initiative_def row_find_def)

end
