(* ===== verification/Notifications.thy ===== *)
theory Notifications
  imports Keyring Jobs Url ExecutionPlans
begin

text \<open>
  \<open>domains/notifications/service.py\<close>: alerts with their deduplication, alert rules, preferences, the
  Slack configuration and activity events, on tables that extend those of the users. The unique indexes
  of the alert table are checked where a row is flushed. What a call publishes to the in-process broker
  is appended to \<open>published\<close>. Metadata is a JSON dictionary; the text of a value as Python's \<open>str\<close>
  prints a list or a dictionary (\<open>ne_repr\<close>) and as PostgreSQL extracts a value that is no string
  (\<open>ne_jsonb\<close>) are arguments.
\<close>

section \<open>Data\<close>

datatype alert_category = CAT_FINANCIAL | CAT_OPTIMIZATION | CAT_GOVERNANCE | CAT_ACTIVITY | CAT_SECURITY

fun alert_category_value :: "alert_category \<Rightarrow> string" where
  "alert_category_value CAT_FINANCIAL = ''financial''"
| "alert_category_value CAT_OPTIMIZATION = ''optimization''"
| "alert_category_value CAT_GOVERNANCE = ''governance''"
| "alert_category_value CAT_ACTIVITY = ''activity''"
| "alert_category_value CAT_SECURITY = ''security''"

datatype alert_status = AL_UNREAD | AL_READ | AL_ARCHIVED

datatype frequency = FREQ_INSTANT | FREQ_DAILY | FREQ_WEEKLY

record alert_record =
  al_id :: uuid
  al_org :: uuid
  al_user :: "uuid option"
  al_category :: alert_category
  al_severity :: severity
  al_status :: alert_status
  al_title :: string
  al_body :: "string option"
  al_action_url :: "string option"
  al_source_type :: "string option"
  al_source_id :: "string option"
  al_logical_key :: "string option"
  al_metadata :: "dict option"
  al_read_at :: "instant option"
  al_archived_at :: "instant option"
  al_email_sent :: "instant option"
  al_slack_sent :: "instant option"
  al_created :: instant
  al_updated :: instant

record preference =
  np_id :: uuid
  np_org :: uuid
  np_user :: uuid
  np_in_app :: bool
  np_email :: bool
  np_slack :: bool
  np_frequency :: frequency
  np_categories :: "dict option"

record slack_config =
  sc_id :: uuid
  sc_org :: uuid
  sc_enabled :: bool
  sc_webhook :: "string option"

record alert_rule =
  ru_id :: uuid
  ru_org :: uuid
  ru_category :: alert_category
  ru_enabled :: bool
  ru_min_severity :: severity
  ru_prefix :: "string option"

record activity_event =
  ac_id :: uuid
  ac_org :: uuid
  ac_account :: "uuid option"
  ac_provider :: string
  ac_event_type :: string
  ac_severity :: severity
  ac_service :: "string option"
  ac_resource :: "string option"
  ac_title :: string
  ac_body :: "string option"
  ac_metadata :: "dict option"
  ac_occurred :: instant
  ac_created :: instant

record notif_db = auth_db +
  alert_records :: "alert_record list"
  preferences :: "preference list"
  slack_configs :: "slack_config list"
  alert_rules :: "alert_rule list"
  activity_events :: "activity_event list"
  published :: "(uuid \<times> alert_record) list"

record notif_env =
  ne_platform :: platform
  ne_repr :: "json \<Rightarrow> string"
  ne_jsonb :: "json \<Rightarrow> string"

text \<open>The arguments of \<open>create\<close>.\<close>

record alert_args =
  aa_org :: uuid
  aa_user :: "uuid option"
  aa_category :: alert_category
  aa_severity :: severity
  aa_title :: string
  aa_body :: "string option"
  aa_action_url :: "string option"
  aa_source_type :: "string option"
  aa_source_id :: "string option"
  aa_metadata :: "dict option"
  aa_logical_key :: "string option"

fun severity_rank :: "severity \<Rightarrow> nat" where
  "severity_rank INFO = 1"
| "severity_rank WARNING = 2"
| "severity_rank CRITICAL = 3"

definition SYNC_DEDUPE_EVENT_TYPES :: "string list" where
  "SYNC_DEDUPE_EVENT_TYPES = [''cloud_account.sync.completed'', ''cloud_account.sync.warning'']"

definition SYNC_DEDUPE_WINDOW_MINUTES :: int where
  "SYNC_DEDUPE_WINDOW_MINUTES = 30"

definition ANOMALY_DEDUPE_EVENT_TYPES :: "string list" where
  "ANOMALY_DEDUPE_EVENT_TYPES = [''cost.anomaly.detected'']"

definition BUDGET_DEDUPE_EVENT_TYPES :: "string list" where
  "BUDGET_DEDUPE_EVENT_TYPES = [''budget.threshold.crossed'']"

section \<open>Logical keys\<close>

definition default_logical_key :: "string option \<Rightarrow> string option \<Rightarrow> string option" where
  "default_logical_key source_type source_id =
     (if \<not> given source_type \<or> \<not> given source_id then None
      else Some (text_of source_type @ '':'' @ text_of source_id))"

definition resolved_key :: "alert_args \<Rightarrow> string option" where
  "resolved_key a = (if given (aa_logical_key a) then aa_logical_key a
     else default_logical_key (aa_source_type a) (aa_source_id a))"

definition has_logical_key :: "uuid \<Rightarrow> uuid option \<Rightarrow> alert_category \<Rightarrow> string \<Rightarrow> alert_record \<Rightarrow> bool" where
  "has_logical_key org user cat key r \<longleftrightarrow>
     al_org r = org \<and> al_category r = cat \<and> al_logical_key r = Some key \<and> al_user r = user"

definition get_alert_by_logical_key ::
  "uuid \<Rightarrow> uuid option \<Rightarrow> alert_category \<Rightarrow> string \<Rightarrow> 'z notif_db_scheme \<Rightarrow> alert_record option result" where
  "get_alert_by_logical_key org user cat key db =
     scalar_one_or_none (filter (has_logical_key org user cat key) (alert_records db))"

section \<open>Reading\<close>

definition visible :: "uuid \<Rightarrow> uuid option \<Rightarrow> alert_record \<Rightarrow> bool" where
  "visible org user r \<longleftrightarrow> al_org r = org \<and> (al_user r = None \<or> user \<noteq> None \<and> al_user r = user)"

definition list_alerts ::
  "uuid \<Rightarrow> uuid option \<Rightarrow> alert_category option \<Rightarrow> alert_status option \<Rightarrow> nat \<Rightarrow> nat
   \<Rightarrow> 'z notif_db_scheme \<Rightarrow> alert_record list \<times> nat" where
  "list_alerts org user cat st limit offset db =
     (let matching = filter (\<lambda>r. visible org user r
            \<and> (case cat of None \<Rightarrow> True | Some k \<Rightarrow> al_category r = k)
            \<and> (case st of None \<Rightarrow> al_status r \<noteq> AL_ARCHIVED | Some s \<Rightarrow> al_status r = s)) (alert_records db)
      in (take limit (drop offset (rev (sort_key al_created matching))), length matching))"

definition unread_alerts :: "uuid \<Rightarrow> uuid option \<Rightarrow> alert_category option \<Rightarrow> 'z notif_db_scheme \<Rightarrow> alert_record list" where
  "unread_alerts org user cat db =
     filter (\<lambda>r. al_status r = AL_UNREAD \<and> visible org user r
       \<and> (case cat of None \<Rightarrow> True | Some k \<Rightarrow> al_category r = k)) (alert_records db)"

definition unread_count :: "uuid \<Rightarrow> uuid option \<Rightarrow> alert_category option \<Rightarrow> 'z notif_db_scheme \<Rightarrow> nat \<times> nat" where
  "unread_count org user cat db =
     (length (unread_alerts org user cat db),
      length (filter (\<lambda>r. al_severity r = CRITICAL) (unread_alerts org user cat db)))"

definition get_alert :: "uuid \<Rightarrow> uuid \<Rightarrow> 'z notif_db_scheme \<Rightarrow> alert_record option" where
  "get_alert org aid db =
     (case row_find al_id aid (alert_records db) of
        None \<Rightarrow> None | Some r \<Rightarrow> if al_org r = org then Some r else None)"

section \<open>Marking\<close>

definition with_status :: "instant \<Rightarrow> alert_status \<Rightarrow> alert_record \<Rightarrow> alert_record" where
  "with_status now new r =
     (let r = r\<lparr>al_status := new\<rparr>
      in if new = AL_READ \<and> al_read_at r = None then r\<lparr>al_read_at := Some now\<rparr>
         else if new = AL_ARCHIVED then r\<lparr>al_archived_at := Some now\<rparr>
         else r)"

definition changed_at :: "instant \<Rightarrow> alert_record \<Rightarrow> alert_record \<Rightarrow> alert_record" where
  "changed_at now old r = (if r = old then r else r\<lparr>al_updated := now\<rparr>)"

definition put_alert :: "alert_record \<Rightarrow> 'z notif_db_scheme \<Rightarrow> 'z notif_db_scheme" where
  "put_alert r db = db\<lparr>alert_records := row_put al_id r (alert_records db)\<rparr>"

definition set_alert_status ::
  "call \<Rightarrow> uuid \<Rightarrow> uuid \<Rightarrow> alert_status \<Rightarrow> 'z notif_db_scheme \<Rightarrow> alert_record option \<times> 'z notif_db_scheme" where
  "set_alert_status c org aid new db =
     (case get_alert org aid db of
        None \<Rightarrow> (None, db)
      | Some r \<Rightarrow>
          let r' = changed_at (clock c 1) r (with_status (clock c 0) new r)
          in (Some r', put_alert r' db))"

definition mark_all_read :: "call \<Rightarrow> uuid \<Rightarrow> uuid option \<Rightarrow> 'z notif_db_scheme \<Rightarrow> nat \<times> 'z notif_db_scheme" where
  "mark_all_read c org user db =
     (let unread = (\<lambda>r. al_org r = org \<and> al_status r = AL_UNREAD \<and> visible org user r)
      in (length (filter unread (alert_records db)),
          db\<lparr>alert_records := map (\<lambda>r. if unread r
               then changed_at (clock c 1) r (with_status (clock c 0) AL_READ r) else r) (alert_records db)\<rparr>))"

section \<open>Creating\<close>

definition new_alert_record :: "call \<Rightarrow> alert_args \<Rightarrow> alert_record" where
  "new_alert_record c a =
     \<lparr>al_id = fresh c 0, al_org = aa_org a, al_user = aa_user a, al_category = aa_category a,
      al_severity = aa_severity a, al_status = AL_UNREAD, al_title = aa_title a, al_body = aa_body a,
      al_action_url = aa_action_url a, al_source_type = aa_source_type a, al_source_id = aa_source_id a,
      al_logical_key = resolved_key a, al_metadata = aa_metadata a, al_read_at = None,
      al_archived_at = None, al_email_sent = None, al_slack_sent = None, al_created = clock c 0,
      al_updated = clock c 0\<rparr>"

text \<open>The primary key and the two unique indexes.\<close>

definition violates_unique :: "alert_record \<Rightarrow> 'z notif_db_scheme \<Rightarrow> bool" where
  "violates_unique r db \<longleftrightarrow>
     al_id r \<in> al_id ` set (alert_records db)
     \<or> (case al_logical_key r of None \<Rightarrow> False
        | Some key \<Rightarrow> list_ex (has_logical_key (al_org r) (al_user r) (al_category r) key) (alert_records db))"

definition create_alert :: "call \<Rightarrow> alert_args \<Rightarrow> ('z notif_db_scheme, alert_record) svc" where
  "create_alert c a db =
     (let r = new_alert_record c a in
      if violates_unique r db
      then (case resolved_key a of
              None \<Rightarrow> (Inl (IntegrityError ''alert_records''), db)
            | Some key \<Rightarrow>
                (case get_alert_by_logical_key (aa_org a) (aa_user a) (aa_category a) key db of
                   Inl err \<Rightarrow> (Inl err, db)
                 | Inr None \<Rightarrow> (Inl (IntegrityError ''alert_records''), db)
                 | Inr (Some existing) \<Rightarrow> (Inr existing, db)))
      else (Inr r, db\<lparr>alert_records := row_add r (alert_records db),
                     published := published db @ [(aa_org a, r)]\<rparr>))"

section \<open>Signatures\<close>

definition str_of :: "notif_env \<Rightarrow> json \<Rightarrow> string" where
  "str_of env j =
     (case j of JStr s \<Rightarrow> s | JInt i \<Rightarrow> int_str i | JFloat x \<Rightarrow> float_repr (ne_platform env) x
      | JBool b \<Rightarrow> if b then ''True'' else ''False'' | JNull \<Rightarrow> ''None'' | _ \<Rightarrow> ne_repr env j)"

text \<open>\<open>str(value or "").strip()\<close>, and \<open>text or None\<close>.\<close>

definition stripped :: "notif_env \<Rightarrow> json \<Rightarrow> string" where
  "stripped env j = py_strip (if truthy j then str_of env j else [])"

definition or_none :: "string \<Rightarrow> string option" where
  "or_none s = (if s = [] then None else Some s)"

definition meta_text :: "notif_env \<Rightarrow> string \<Rightarrow> dict option \<Rightarrow> string option" where
  "meta_text env k m =
     (case jget k (case m of None \<Rightarrow> [] | Some d \<Rightarrow> d) of JNull \<Rightarrow> None | JStr s \<Rightarrow> Some s | j \<Rightarrow> Some (ne_jsonb env j))"

text \<open>\<open>text.split(":", 2)\<close> into exactly three parts is \<open>split_colon2\<close> of the key ring.\<close>

definition extract_sync_account_id :: "notif_env \<Rightarrow> string option \<Rightarrow> dict \<Rightarrow> string option" where
  "extract_sync_account_id env source_id metadata =
     (let raw = jget ''account_id'' metadata;
          from_meta = (if truthy raw then map_option uuid_str (py_uuid (str_of env raw)) else None);
          first = before (CHR '':'') (text_of source_id)
      in case from_meta of
           Some i \<Rightarrow> Some i
         | None \<Rightarrow> if first = [] then None else map_option uuid_str (py_uuid first))"

definition normalize_observed_date :: "string \<Rightarrow> string option" where
  "normalize_observed_date t = or_none (if CHR ''T'' \<in> set t then before (CHR ''T'') t else t)"

type_synonym signature = "(string \<times> string) list"

text \<open>
  The date of a text that only holds what follows its first T is empty: Python keeps the empty text, and
  every use of it treats an empty text as missing.
\<close>

definition extract_anomaly_signature :: "notif_env \<Rightarrow> string option \<Rightarrow> dict \<Rightarrow> signature option" where
  "extract_anomaly_signature env source_id metadata =
     (let provider = or_none (py_lower (stripped env (jget ''provider'' metadata)));
          service = or_none (py_lower (stripped env (jget ''service'' metadata)));
          observed = normalize_observed_date (stripped env (jget ''observed_date'' metadata));
          (provider, service, observed) =
            (if (provider = None \<or> service = None \<or> observed = None) \<and> given source_id
             then case split_colon2 (text_of source_id) of
                    None \<Rightarrow> (provider, service, observed)
                  | Some (d, p, s) \<Rightarrow>
                      ((case provider of None \<Rightarrow> or_none (py_lower (py_strip p)) | x \<Rightarrow> x),
                       (case service of None \<Rightarrow> or_none (py_lower (py_strip s)) | x \<Rightarrow> x),
                       (case observed of None \<Rightarrow> normalize_observed_date (py_strip d) | x \<Rightarrow> x))
             else (provider, service, observed))
      in case (provider, service, observed) of
           (Some p, Some s, Some d) \<Rightarrow> Some [(''provider'', p), (''service'', s), (''observed_date'', d)]
         | _ \<Rightarrow> None)"

text \<open>\<open>str(int(text)) if text.isdigit() else text or None\<close>.\<close>

definition normal_threshold :: "string \<Rightarrow> string option" where
  "normal_threshold t =
     (if t \<noteq> [] \<and> list_all is_digit_char t then Some (nat_str (str_nat t)) else or_none t)"

text \<open>\<open>int(value)\<close>, and the text of the value where that raises.\<close>

definition metadata_threshold :: "notif_env \<Rightarrow> json \<Rightarrow> string option" where
  "metadata_threshold env j =
     (case j of
        JNull \<Rightarrow> None
      | JInt i \<Rightarrow> Some (int_str i)
      | JBool b \<Rightarrow> Some (if b then ''1'' else ''0'')
      | JFloat x \<Rightarrow> Some (int_str (if 0 \<le> x then \<lfloor>x\<rfloor> else \<lceil>x\<rceil>))
      | JStr s \<Rightarrow> (case py_int s of Some i \<Rightarrow> Some (int_str i) | None \<Rightarrow> or_none (py_strip s))
      | _ \<Rightarrow> or_none (py_strip (str_of env j)))"

definition extract_budget_signature :: "notif_env \<Rightarrow> string option \<Rightarrow> dict \<Rightarrow> signature option" where
  "extract_budget_signature env source_id metadata =
     (let (budget, period, threshold) =
            (case (if given source_id then split_colon2 (text_of source_id) else None) of
               None \<Rightarrow> (None, None, None)
             | Some (b, p, t) \<Rightarrow>
                 (or_none (py_strip b), normalize_observed_date (py_strip p),
                  normal_threshold (py_strip (before (CHR '':'') (py_strip t)))));
          budget = (case budget of None \<Rightarrow> or_none (stripped env (jget ''budget_id'' metadata)) | x \<Rightarrow> x);
          period = (case period of
                      None \<Rightarrow> normalize_observed_date (stripped env (jget ''period_start'' metadata)) | x \<Rightarrow> x);
          threshold = (case threshold of None \<Rightarrow> metadata_threshold env (jget ''threshold'' metadata) | x \<Rightarrow> x)
      in case (budget, period, threshold) of
           (Some b, Some p, Some t) \<Rightarrow> Some [(''budget_id'', b), (''period_start'', p), (''threshold'', t)]
         | _ \<Rightarrow> None)"

section \<open>Rules\<close>

definition default_rule :: "uuid \<Rightarrow> uuid \<Rightarrow> alert_category \<Rightarrow> alert_rule" where
  "default_rule i org cat =
     \<lparr>ru_id = i, ru_org = org, ru_category = cat, ru_enabled = True, ru_min_severity = CRITICAL, ru_prefix = None\<rparr>"

definition get_alert_rule :: "call \<Rightarrow> uuid \<Rightarrow> alert_category \<Rightarrow> ('z notif_db_scheme, alert_rule) svc" where
  "get_alert_rule c org cat db =
     (case scalar_one_or_none (filter (\<lambda>r. ru_org r = org \<and> ru_category r = cat) (alert_rules db)) of
        Inl err \<Rightarrow> (Inl err, db)
      | Inr (Some r) \<Rightarrow> (Inr r, db)
      | Inr None \<Rightarrow>
          let r = default_rule (fresh c 1) org cat in (Inr r, db\<lparr>alert_rules := row_add r (alert_rules db)\<rparr>))"

definition apply_rule_update :: "bool option \<Rightarrow> severity option \<Rightarrow> string option \<Rightarrow> alert_rule \<Rightarrow> alert_rule" where
  "apply_rule_update enabled min_sev prefix r =
     r\<lparr>ru_enabled := (case enabled of None \<Rightarrow> ru_enabled r | Some b \<Rightarrow> b),
       ru_min_severity := (case min_sev of None \<Rightarrow> ru_min_severity r | Some m \<Rightarrow> m),
       ru_prefix := (case prefix of None \<Rightarrow> ru_prefix r | Some p \<Rightarrow> or_none (py_strip p))\<rparr>"

definition upsert_alert_rule ::
  "call \<Rightarrow> uuid \<Rightarrow> alert_category \<Rightarrow> bool option \<Rightarrow> severity option \<Rightarrow> string option
   \<Rightarrow> ('z notif_db_scheme, alert_rule) svc" where
  "upsert_alert_rule c org cat enabled min_sev prefix =
     andthen (get_alert_rule c org cat) (\<lambda>r db.
       let r' = apply_rule_update enabled min_sev prefix r
       in (Inr r', db\<lparr>alert_rules := row_put ru_id r' (alert_rules db)\<rparr>))"

definition rule_admits :: "alert_rule \<Rightarrow> string \<Rightarrow> severity \<Rightarrow> bool" where
  "rule_admits r event sev \<longleftrightarrow>
     ru_enabled r \<and> \<not> severity_rank sev < severity_rank (ru_min_severity r)
     \<and> \<not> (given (ru_prefix r) \<and> \<not> py_startswith event (text_of (ru_prefix r)))"

definition should_create_alert ::
  "call \<Rightarrow> uuid \<Rightarrow> alert_category \<Rightarrow> string \<Rightarrow> severity \<Rightarrow> ('z notif_db_scheme, bool) svc" where
  "should_create_alert c org cat event sev =
     andthen (get_alert_rule c org cat) (\<lambda>r. ret (rule_admits r event sev))"

section \<open>Alerts by rule\<close>

definition get_recent_sync_equivalent ::
  "notif_env \<Rightarrow> instant \<Rightarrow> uuid \<Rightarrow> string \<Rightarrow> string \<Rightarrow> 'z notif_db_scheme \<Rightarrow> alert_record option" where
  "get_recent_sync_equivalent env now org event account db =
     (let cutoff = now - minutes_us SYNC_DEDUPE_WINDOW_MINUTES;
          matching = filter (\<lambda>r. al_org r = org \<and> cutoff \<le> al_created r
            \<and> meta_text env ''event_type'' (al_metadata r) = Some event
            \<and> meta_text env ''account_id'' (al_metadata r) = Some account) (alert_records db)
      in case rev (sort_key al_created matching) of [] \<Rightarrow> None | r # _ \<Rightarrow> Some r)"

definition semantic_match ::
  "notif_env \<Rightarrow> uuid \<Rightarrow> alert_category \<Rightarrow> string \<Rightarrow> signature \<Rightarrow> alert_record \<Rightarrow> bool" where
  "semantic_match env org cat event sig r \<longleftrightarrow>
     al_org r = org \<and> al_category r = cat \<and> meta_text env ''event_type'' (al_metadata r) = Some event
     \<and> list_all (\<lambda>(k, v). meta_text env k (al_metadata r) = Some v) sig"

definition get_semantic_equivalent ::
  "notif_env \<Rightarrow> uuid \<Rightarrow> alert_category \<Rightarrow> string \<Rightarrow> signature \<Rightarrow> 'z notif_db_scheme \<Rightarrow> alert_record option" where
  "get_semantic_equivalent env org cat event sig db =
     (case rev (sort_key al_created (filter (semantic_match env org cat event sig) (alert_records db))) of
        [] \<Rightarrow> None | r # _ \<Rightarrow> Some r)"

definition add_signature :: "signature \<Rightarrow> dict \<Rightarrow> dict" where
  "add_signature sig m = foldl (\<lambda>m (k, v). jset k (JStr v) m) m sig"

text \<open>
  The metadata an alert of an event gets and the alert it repeats, by the kind of the event: a
  synchronization in the last half hour, or an anomaly or a budget threshold reported before.
\<close>

definition sync_equivalent ::
  "notif_env \<Rightarrow> instant \<Rightarrow> string \<Rightarrow> alert_args \<Rightarrow> dict \<Rightarrow> 'z notif_db_scheme \<Rightarrow> dict \<times> alert_record option" where
  "sync_equivalent env now event a m db =
     (let account = extract_sync_account_id env (aa_source_id a) m;
          m = jset ''event_type'' (JStr event) m
      in case account of
           None \<Rightarrow> (m, None)
         | Some i \<Rightarrow> (jset ''account_id'' (JStr i) m, get_recent_sync_equivalent env now (aa_org a) event i db))"

definition signature_equivalent ::
  "notif_env \<Rightarrow> string \<Rightarrow> alert_args \<Rightarrow> signature option \<Rightarrow> dict \<Rightarrow> 'z notif_db_scheme \<Rightarrow> dict \<times> alert_record option" where
  "signature_equivalent env event a sig m db =
     (let m = jset ''event_type'' (JStr event) m
      in case sig of
           None \<Rightarrow> (m, None)
         | Some s \<Rightarrow> (add_signature s m, get_semantic_equivalent env (aa_org a) (aa_category a) event s db))"

definition equivalent_alert ::
  "notif_env \<Rightarrow> instant \<Rightarrow> string \<Rightarrow> alert_args \<Rightarrow> 'z notif_db_scheme \<Rightarrow> dict \<times> alert_record option" where
  "equivalent_alert env now event a db =
     (let m = (case aa_metadata a of None \<Rightarrow> [] | Some d \<Rightarrow> d) in
      if event \<in> set SYNC_DEDUPE_EVENT_TYPES then sync_equivalent env now event a m db
      else if event \<in> set ANOMALY_DEDUPE_EVENT_TYPES
      then signature_equivalent env event a (extract_anomaly_signature env (aa_source_id a) m) m db
      else if event \<in> set BUDGET_DEDUPE_EVENT_TYPES
      then signature_equivalent env event a (extract_budget_signature env (aa_source_id a) m) m db
      else (m, None))"

definition same_source :: "alert_args \<Rightarrow> 'z notif_db_scheme \<Rightarrow> alert_record option result" where
  "same_source a db =
     (if given (aa_source_type a) \<and> given (aa_source_id a)
      then case resolved_key a of
             None \<Rightarrow> Inr None
           | Some key \<Rightarrow> get_alert_by_logical_key (aa_org a) (aa_user a) (aa_category a) key db
      else Inr None)"

definition deduplicated ::
  "notif_env \<Rightarrow> call \<Rightarrow> string \<Rightarrow> alert_args \<Rightarrow> ('z notif_db_scheme, alert_record) svc" where
  "deduplicated env c event a db =
     (case same_source a db of
        Inl err \<Rightarrow> (Inl err, db)
      | Inr (Some existing) \<Rightarrow> (Inr existing, db)
      | Inr None \<Rightarrow>
          (case equivalent_alert env (clock c 2) event a db of
             (m, Some existing) \<Rightarrow> (Inr existing, db)
           | (m, None) \<Rightarrow> create_alert c (a\<lparr>aa_metadata := (if m = [] then None else Some m)\<rparr>) db))"

definition create_if_rule_matches ::
  "notif_env \<Rightarrow> call \<Rightarrow> string \<Rightarrow> bool \<Rightarrow> alert_args \<Rightarrow> ('z notif_db_scheme, alert_record option) svc" where
  "create_if_rule_matches env c event ignore_rules a =
     andthen (if ignore_rules then ret True
              else should_create_alert c (aa_org a) (aa_category a) event (aa_severity a))
       (\<lambda>wanted. if wanted then andthen (deduplicated env c event a) (\<lambda>r. ret (Some r)) else ret None)"

definition create_realtime_alert ::
  "notif_env \<Rightarrow> call \<Rightarrow> string \<Rightarrow> alert_args \<Rightarrow> ('z notif_db_scheme, alert_record option) svc" where
  "create_realtime_alert env c event a = create_if_rule_matches env c event True a"

text \<open>The alert the audit log requests for an event of its list (\<open>append_event\<close>).\<close>

definition audit_alert_args :: "alert_request \<Rightarrow> dict \<Rightarrow> alert_args" where
  "audit_alert_args q m =
     \<lparr>aa_org = alert_org q, aa_user = None, aa_category = CAT_ACTIVITY, aa_severity = alert_severity q,
      aa_title = alert_title q, aa_body = Some (alert_body q), aa_action_url = None,
      aa_source_type = Some ''audit_event'', aa_source_id = Some (alert_source_id q), aa_metadata = Some m,
      aa_logical_key = None\<rparr>"

section \<open>Activity events\<close>

definition activity_args :: "activity_event \<Rightarrow> alert_args" where
  "activity_args e =
     \<lparr>aa_org = ac_org e, aa_user = None, aa_category = CAT_ACTIVITY, aa_severity = ac_severity e,
      aa_title = ''Activity event: '' @ ac_event_type e, aa_body = Some (ac_title e), aa_action_url = None,
      aa_source_type = Some ''activity_event'', aa_source_id = Some (uuid_str (ac_id e)),
      aa_metadata = Some [(''provider'', JStr (ac_provider e)), (''service'', jopt (ac_service e)),
        (''resource_id'', jopt (ac_resource e))],
      aa_logical_key = None\<rparr>"

definition create_activity_event ::
  "notif_env \<Rightarrow> call \<Rightarrow> activity_event \<Rightarrow> ('z notif_db_scheme, activity_event) svc" where
  "create_activity_event env c e db =
     (let e = e\<lparr>ac_id := fresh c 3, ac_created := clock c 3\<rparr>
      in andthen (create_if_rule_matches env c (ac_event_type e) False (activity_args e)) (\<lambda>_. ret e)
           (db\<lparr>activity_events := row_add e (activity_events db)\<rparr>))"

definition activity_matches ::
  "uuid \<Rightarrow> string option \<Rightarrow> string option \<Rightarrow> string option \<Rightarrow> instant option \<Rightarrow> instant option
   \<Rightarrow> activity_event \<Rightarrow> bool" where
  "activity_matches org event resource service from_time to_time e \<longleftrightarrow>
     ac_org e = org \<and> (given event \<longrightarrow> Some (ac_event_type e) = event)
     \<and> (given resource \<longrightarrow> ac_resource e = resource) \<and> (given service \<longrightarrow> ac_service e = service)
     \<and> (case from_time of None \<Rightarrow> True | Some t \<Rightarrow> t \<le> ac_occurred e)
     \<and> (case to_time of None \<Rightarrow> True | Some t \<Rightarrow> ac_occurred e \<le> t)"

definition list_activity_events ::
  "uuid \<Rightarrow> string option \<Rightarrow> string option \<Rightarrow> string option \<Rightarrow> instant option \<Rightarrow> instant option
   \<Rightarrow> nat \<Rightarrow> nat \<Rightarrow> 'z notif_db_scheme \<Rightarrow> activity_event list \<times> nat" where
  "list_activity_events org event resource service from_time to_time limit offset db =
     (let matching = filter (activity_matches org event resource service from_time to_time) (activity_events db)
      in (take limit (drop offset (rev (sort_key ac_occurred matching))), length matching))"

section \<open>Preferences and Slack\<close>

definition default_preference :: "uuid \<Rightarrow> uuid \<Rightarrow> uuid \<Rightarrow> preference" where
  "default_preference i org user =
     \<lparr>np_id = i, np_org = org, np_user = user, np_in_app = True, np_email = True, np_slack = False,
      np_frequency = FREQ_INSTANT,
      np_categories = Some [(''financial'', JBool True), (''optimization'', JBool True),
        (''governance'', JBool True), (''activity'', JBool True), (''security'', JBool True)]\<rparr>"

definition get_preference :: "call \<Rightarrow> uuid \<Rightarrow> uuid \<Rightarrow> ('z notif_db_scheme, preference) svc" where
  "get_preference c org user db =
     (case scalar_one_or_none (filter (\<lambda>p. np_org p = org \<and> np_user p = user) (preferences db)) of
        Inl err \<Rightarrow> (Inl err, db)
      | Inr (Some p) \<Rightarrow> (Inr p, db)
      | Inr None \<Rightarrow>
          let p = default_preference (fresh c 0) org user
          in (Inr p, db\<lparr>preferences := row_add p (preferences db)\<rparr>))"

definition upsert_preference ::
  "call \<Rightarrow> uuid \<Rightarrow> uuid \<Rightarrow> bool option \<Rightarrow> bool option \<Rightarrow> bool option \<Rightarrow> frequency option \<Rightarrow> dict option
   \<Rightarrow> ('z notif_db_scheme, preference) svc" where
  "upsert_preference c org user in_app email slack freq cats =
     andthen (get_preference c org user) (\<lambda>p db.
       let p' = p\<lparr>np_in_app := (case in_app of None \<Rightarrow> np_in_app p | Some b \<Rightarrow> b),
                  np_email := (case email of None \<Rightarrow> np_email p | Some b \<Rightarrow> b),
                  np_slack := (case slack of None \<Rightarrow> np_slack p | Some b \<Rightarrow> b),
                  np_frequency := (case freq of None \<Rightarrow> np_frequency p | Some f \<Rightarrow> f),
                  np_categories := (case cats of None \<Rightarrow> np_categories p | Some d \<Rightarrow> Some d)\<rparr>
       in (Inr p', db\<lparr>preferences := row_put np_id p' (preferences db)\<rparr>))"

definition get_slack_config :: "call \<Rightarrow> uuid \<Rightarrow> ('z notif_db_scheme, slack_config) svc" where
  "get_slack_config c org db =
     (case scalar_one_or_none (filter (\<lambda>g. sc_org g = org) (slack_configs db)) of
        Inl err \<Rightarrow> (Inl err, db)
      | Inr (Some g) \<Rightarrow> (Inr g, db)
      | Inr None \<Rightarrow>
          let g = \<lparr>sc_id = fresh c 0, sc_org = org, sc_enabled = False, sc_webhook = None\<rparr>
          in (Inr g, db\<lparr>slack_configs := row_add g (slack_configs db)\<rparr>))"

definition put_slack_config :: "slack_config \<Rightarrow> ('z notif_db_scheme, slack_config) svc" where
  "put_slack_config g db = (Inr g, db\<lparr>slack_configs := row_put sc_id g (slack_configs db)\<rparr>)"

definition upsert_slack_config ::
  "crypto \<Rightarrow> call \<Rightarrow> (nat \<Rightarrow> string) \<Rightarrow> uuid \<Rightarrow> bool option \<Rightarrow> string option
   \<Rightarrow> ('z notif_db_scheme, slack_config) svc" where
  "upsert_slack_config cr c sec org enabled webhook_url =
     andthen (get_slack_config c org) (\<lambda>g.
       let g = (case enabled of None \<Rightarrow> g | Some b \<Rightarrow> g\<lparr>sc_enabled := b\<rparr>) in
       case webhook_url of
         None \<Rightarrow> put_slack_config g
       | Some w \<Rightarrow>
           let normalized = py_strip w in
           if normalized \<noteq> [] \<and> \<not> py_startswith normalized ''https://hooks.slack.com/''
           then raise (ValueError ''Invalid Slack webhook URL'')
           else if normalized = [] then put_slack_config (g\<lparr>sc_webhook := None\<rparr>)
           else andthen (encrypt_secret_for_org cr c sec (Some org) normalized)
                  (\<lambda>token. put_slack_config (g\<lparr>sc_webhook := Some token\<rparr>)))"

end
