(* ===== verification/NotificationLaws.thy ===== *)
theory NotificationLaws
  imports Notifications KeyringLaws JobLaws
begin

text \<open>
  Laws of the notifications service: the alert table keeps its unique keys and its time stamps through
  every operation, an alert is raised once per source and stays the only one through any later
  operations, synchronization alerts are one per half hour, and marking all as read clears the count.
\<close>

section \<open>The table of alerts\<close>

definition alert_key :: "alert_record \<Rightarrow> uuid \<times> uuid option \<times> alert_category \<times> string option" where
  "alert_key r = (al_org r, al_user r, al_category r, al_logical_key r)"

definition keyed_alerts :: "alert_record list \<Rightarrow> alert_record list" where
  "keyed_alerts rs = filter (\<lambda>r. al_logical_key r \<noteq> None) rs"

definition marks_ok :: "alert_record \<Rightarrow> bool" where
  "marks_ok r \<longleftrightarrow> (al_status r = AL_READ \<longrightarrow> al_read_at r \<noteq> None)
     \<and> (al_status r = AL_ARCHIVED \<longrightarrow> al_archived_at r \<noteq> None)"

definition alerts_ok :: "alert_record list \<Rightarrow> bool" where
  "alerts_ok rs \<longleftrightarrow> distinct (map al_id rs) \<and> distinct (map alert_key (keyed_alerts rs)) \<and> list_all marks_ok rs"

lemma has_logical_key_iff:
  "has_logical_key org user cat key r \<longleftrightarrow> al_logical_key r \<noteq> None \<and> alert_key r = (org, user, cat, Some key)"
  by (auto simp: has_logical_key_def alert_key_def)

lemma filter_key_single:
  assumes "alerts_ok rs" and "r \<in> set rs" and "has_logical_key org user cat key r"
  shows "filter (has_logical_key org user cat key) rs = [r]"
proof -
  have "filter (has_logical_key org user cat key) rs
    = filter (\<lambda>x. alert_key x = (org, user, cat, Some key)) (keyed_alerts rs)"
    by (auto simp: keyed_alerts_def has_logical_key_iff conj_commute intro: filter_cong)
  also have "\<dots> = [r]"
    using assms by (intro filter_single [where f = alert_key])
      (auto simp: alerts_ok_def keyed_alerts_def has_logical_key_iff)
  finally show ?thesis .
qed

lemma filter_key_none:
  "\<not> list_ex (has_logical_key org user cat key) rs \<Longrightarrow> filter (has_logical_key org user cat key) rs = []"
  by (simp add: list_ex_iff filter_empty_conv)

text \<open>A lookup by key never finds two rows.\<close>

lemma key_lookup:
  assumes "alerts_ok (alert_records db)"
  shows "get_alert_by_logical_key org user cat key db =
    Inr (find (has_logical_key org user cat key) (alert_records db))"
proof (cases "find (has_logical_key org user cat key) (alert_records db)")
  case None
  then have "filter (has_logical_key org user cat key) (alert_records db) = []"
    by (auto simp: find_None_iff filter_empty_conv)
  with None show ?thesis by (simp add: get_alert_by_logical_key_def)
next
  case (Some r)
  then have "filter (has_logical_key org user cat key) (alert_records db) = [r]"
    by (intro filter_key_single [OF assms]) (auto simp: find_Some_iff)
  with Some show ?thesis by (simp add: get_alert_by_logical_key_def)
qed

section \<open>Steps\<close>

text \<open>
  An alert table develops: a row with a fresh key is added, or rows change in their status, their time
  stamps and their delivery marks only.
\<close>

definition same_alert :: "alert_record \<Rightarrow> alert_record \<Rightarrow> bool" where
  "same_alert r r' \<longleftrightarrow> al_id r' = al_id r \<and> alert_key r' = alert_key r \<and> al_metadata r' = al_metadata r
     \<and> al_created r' = al_created r \<and> (marks_ok r \<longrightarrow> marks_ok r')"

inductive alert_step :: "alert_record list \<Rightarrow> alert_record list \<Rightarrow> bool" where
  added: "\<lbrakk>al_id r \<notin> al_id ` set rs; al_logical_key r \<noteq> None \<Longrightarrow> alert_key r \<notin> alert_key ` set (keyed_alerts rs);
    marks_ok r\<rbrakk> \<Longrightarrow> alert_step rs (rs @ [r])"
| changed: "list_all2 same_alert rs rs' \<Longrightarrow> alert_step rs rs'"

lemma same_alert_refl [simp]: "same_alert r r"
  by (simp add: same_alert_def)

lemma alert_step_refl [simp]: "alert_step rs rs"
  by (rule alert_step.changed) (simp add: list_all2_refl)

lemma same_alerts_maps:
  assumes "list_all2 same_alert rs rs'"
  shows "map al_id rs' = map al_id rs" "map alert_key (keyed_alerts rs') = map alert_key (keyed_alerts rs)"
    "list_all marks_ok rs \<Longrightarrow> list_all marks_ok rs'"
  using assms by (induction rule: list_all2_induct)
    (auto simp: same_alert_def keyed_alerts_def alert_key_def)

lemma alert_step_ok:
  assumes "alert_step rs rs'" and "alerts_ok rs"
  shows "alerts_ok rs'"
  using assms
proof induction
  case (added r rs)
  then show ?case by (auto simp: alerts_ok_def keyed_alerts_def)
next
  case (changed rs rs')
  then show ?case by (simp add: alerts_ok_def same_alerts_maps)
qed

text \<open>What a row is found as after a step: the same alert, with the same key.\<close>

lemma alert_step_find:
  assumes "alert_step rs rs'" and "find (has_logical_key org user cat key) rs = Some r"
  shows "\<exists>r'. find (has_logical_key org user cat key) rs' = Some r' \<and> al_id r' = al_id r"
  using assms
proof induction
  case (added x rs)
  then show ?case by (simp add: find_append)
next
  case (changed rs rs')
  then show ?case
  proof (induction rule: list_all2_induct)
    case (Cons x xs y ys)
    then show ?case by (auto simp: same_alert_def has_logical_key_iff alert_key_def split: if_splits)
  qed simp
qed

subsection \<open>Operations are steps\<close>

lemma with_status_same: "same_alert r (changed_at n r (with_status t s r))"
  by (auto simp: same_alert_def changed_at_def with_status_def alert_key_def marks_ok_def Let_def)

lemma row_put_same:
  assumes "same_alert r r'" and "distinct (map al_id rs)" and "r \<in> set rs"
  shows "list_all2 same_alert rs (row_put al_id r' rs)"
proof -
  have "al_id r' = al_id r" using assms(1) by (simp add: same_alert_def)
  moreover have "x = r" if "x \<in> set rs" "al_id x = al_id r" for x
    using that assms(2,3) by (auto simp: distinct_map dest: inj_onD)
  ultimately have "same_alert x (if al_id x = al_id r' then r' else x)" if "x \<in> set rs" for x
    using assms(1) that by auto
  then show ?thesis by (simp add: row_put_def list.rel_map list_all2_same)
qed

lemma set_status_step:
  assumes "alerts_ok (alert_records db)"
  shows "alert_step (alert_records db) (alert_records (snd (set_alert_status c org aid new db)))"
proof (cases "get_alert org aid db")
  case (Some r)
  then have "r \<in> set (alert_records db)"
    by (auto simp: get_alert_def dest: row_find_Some split: option.splits if_splits)
  with assms Some show ?thesis
    by (auto simp: set_alert_status_def put_alert_def alerts_ok_def Let_def intro!: alert_step.changed row_put_same with_status_same)
qed (simp add: set_alert_status_def)

lemma mark_all_step: "alert_step (alert_records db) (alert_records (snd (mark_all_read c org user db)))"
  by (auto simp: mark_all_read_def Let_def list_all2_conv_all_nth with_status_same intro!: alert_step.changed)

lemma create_alert_cases:
  assumes "alerts_ok (alert_records db)"
  shows "(\<exists>r. create_alert c a db = (Inr r, db\<lparr>alert_records := alert_records db @ [r],
            published := published db @ [(aa_org a, r)]\<rparr>) \<and> r = new_alert_record c a \<and> \<not> violates_unique r db)
    \<or> (\<exists>r key. resolved_key a = Some key \<and> create_alert c a db = (Inr r, db)
        \<and> find (has_logical_key (aa_org a) (aa_user a) (aa_category a) key) (alert_records db) = Some r)
    \<or> create_alert c a db = (Inl (IntegrityError ''alert_records''), db)"
  by (auto simp: create_alert_def Let_def row_add_def key_lookup [OF assms] split: option.splits)

lemma new_alert_fields [simp]:
  "al_id (new_alert_record c a) = fresh c 0"
  "alert_key (new_alert_record c a) = (aa_org a, aa_user a, aa_category a, resolved_key a)"
  "al_logical_key (new_alert_record c a) = resolved_key a"
  "al_metadata (new_alert_record c a) = aa_metadata a" "al_created (new_alert_record c a) = clock c 0"
  "al_org (new_alert_record c a) = aa_org a" "al_category (new_alert_record c a) = aa_category a"
  "marks_ok (new_alert_record c a)"
  by (simp_all add: new_alert_record_def alert_key_def marks_ok_def)

lemma not_violates_step:
  assumes "\<not> violates_unique r db" and "marks_ok r"
  shows "alert_step (alert_records db) (alert_records db @ [r])"
proof (rule alert_step.added)
  show "al_id r \<notin> al_id ` set (alert_records db)" using assms(1) by (auto simp: violates_unique_def)
  assume "al_logical_key r \<noteq> None"
  then obtain key where key: "al_logical_key r = Some key" by auto
  with assms(1) have "\<not> list_ex (has_logical_key (al_org r) (al_user r) (al_category r) key) (alert_records db)"
    by (simp add: violates_unique_def)
  with key show "alert_key r \<notin> alert_key ` set (keyed_alerts (alert_records db))"
    by (force simp: list_ex_iff has_logical_key_iff keyed_alerts_def alert_key_def)
qed (rule assms(2))

lemma create_alert_step:
  assumes "alerts_ok (alert_records db)"
  shows "alert_step (alert_records db) (alert_records (snd (create_alert c a db)))"
  using create_alert_cases [OF assms, of c a] by (auto intro!: not_violates_step)

lemma get_alert_rule_alerts:
  "alert_records (snd (get_alert_rule c org cat db)) = alert_records db"
  by (simp add: get_alert_rule_def Let_def split: sum.splits option.splits)

lemma deduplicated_step:
  assumes "alerts_ok (alert_records db)"
  shows "alert_step (alert_records db) (alert_records (snd (deduplicated env c ev a db)))"
  using create_alert_step [OF assms] by (simp add: deduplicated_def split: sum.splits option.splits prod.splits)

lemma create_if_rule_step:
  assumes "alerts_ok (alert_records db)"
  shows "alert_step (alert_records db) (alert_records (snd (create_if_rule_matches env c ev ign a db)))"
proof -
  have rule: "alert_records (snd (should_create_alert c org cat ev sev db)) = alert_records db" for org cat sev
    using get_alert_rule_alerts [of c org cat db]
    by (auto simp: should_create_alert_def andthen_def ret_def split: prod.splits sum.splits)
  show ?thesis
  proof (cases ign)
    case True
    with deduplicated_step [OF assms, of env c ev a] show ?thesis
      by (auto simp: create_if_rule_matches_def andthen_def ret_def split: prod.splits sum.splits)
  next
    case False
    obtain w db1 where s: "should_create_alert c (aa_org a) (aa_category a) ev (aa_severity a) db = (w, db1)" by force
    with rule have db1: "alert_records db1 = alert_records db" by (metis snd_conv)
    with assms have "alert_step (alert_records db) (alert_records (snd (deduplicated env c ev a db1)))"
      using deduplicated_step [of db1 env c ev a] by simp
    with s db1 False show ?thesis
      by (auto simp: create_if_rule_matches_def andthen_def ret_def split: prod.splits sum.splits)
  qed
qed

section \<open>Sequences of operations\<close>

datatype notif_op =
    OpAlert string bool alert_args
  | OpActivity activity_event
  | OpStatus uuid uuid alert_status
  | OpMarkAll uuid "uuid option"
  | OpRule uuid alert_category "bool option" "severity option" "string option"
  | OpPreference uuid uuid "bool option" "bool option" "bool option" "frequency option" "dict option"

fun notif_run :: "notif_env \<Rightarrow> 'z notif_db_scheme \<Rightarrow> call \<times> notif_op \<Rightarrow> 'z notif_db_scheme" where
  "notif_run env db (c, OpAlert ev ign a) = snd (create_if_rule_matches env c ev ign a db)"
| "notif_run env db (c, OpActivity e) = snd (create_activity_event env c e db)"
| "notif_run env db (c, OpStatus org aid new) = snd (set_alert_status c org aid new db)"
| "notif_run env db (c, OpMarkAll org user) = snd (mark_all_read c org user db)"
| "notif_run env db (c, OpRule org cat en sev pre) = snd (upsert_alert_rule c org cat en sev pre db)"
| "notif_run env db (c, OpPreference org user i e s f cats) = snd (upsert_preference c org user i e s f cats db)"

definition notif_all :: "notif_env \<Rightarrow> (call \<times> notif_op) list \<Rightarrow> 'z notif_db_scheme \<Rightarrow> 'z notif_db_scheme" where
  "notif_all env ops db = foldl (notif_run env) db ops"

lemma upsert_rule_alerts: "alert_records (snd (upsert_alert_rule c org cat en sev pre db)) = alert_records db"
  using get_alert_rule_alerts [of c org cat db]
  by (auto simp: upsert_alert_rule_def andthen_def Let_def split: prod.splits sum.splits)

lemma upsert_preference_alerts:
  "alert_records (snd (upsert_preference c org user i e s f cats db)) = alert_records db"
  by (auto simp: upsert_preference_def get_preference_def andthen_def Let_def split: sum.splits option.splits)

lemma activity_event_step:
  assumes "alerts_ok (alert_records db)"
  shows "alert_step (alert_records db) (alert_records (snd (create_activity_event env c e db)))"
proof -
  let ?e = "e\<lparr>ac_id := fresh c 3, ac_created := clock c 3\<rparr>"
  let ?db = "db\<lparr>activity_events := row_add ?e (activity_events db)\<rparr>"
  have "snd (create_activity_event env c e db)
    = snd (create_if_rule_matches env c (ac_event_type e) False (activity_args ?e) ?db)"
    by (simp add: create_activity_event_def andthen_def ret_def Let_def split: prod.splits sum.splits)
  with create_if_rule_step [of ?db env c "ac_event_type e" False "activity_args ?e"] assms
  show ?thesis by simp
qed

lemma notif_run_step:
  assumes "alerts_ok (alert_records db)"
  shows "alert_step (alert_records db) (alert_records (notif_run env db cop))"
proof -
  obtain c q where [simp]: "cop = (c, q)" by force
  show ?thesis
    using assms by (cases q) (simp_all add: create_if_rule_step activity_event_step set_status_step mark_all_step
        upsert_rule_alerts upsert_preference_alerts)
qed

lemma notif_all_Cons [simp]:
  "notif_all env [] db = db" "notif_all env (x # xs) db = notif_all env xs (notif_run env db x)"
  by (simp_all add: notif_all_def)

lemma notif_all_find:
  assumes "alerts_ok (alert_records db)"
    and "find (has_logical_key org user cat key) (alert_records db) = Some r"
  shows "\<exists>r'. find (has_logical_key org user cat key) (alert_records (notif_all env ops db)) = Some r'
    \<and> al_id r' = al_id r"
  using assms
proof (induction ops arbitrary: db r)
  case (Cons x ops)
  from notif_run_step [OF Cons.prems(1)] have step: "alert_step (alert_records db) (alert_records (notif_run env db x))" .
  from alert_step_find [OF step Cons.prems(2)] obtain r1 where
    r1: "find (has_logical_key org user cat key) (alert_records (notif_run env db x)) = Some r1" "al_id r1 = al_id r"
    by blast
  from Cons.IH [OF alert_step_ok [OF step Cons.prems(1)] r1(1)] r1(2) show ?case by simp
qed simp

lemma notif_all_ok: "alerts_ok (alert_records db) \<Longrightarrow> alerts_ok (alert_records (notif_all env ops db))"
  by (induction ops arbitrary: db) (simp_all add: alert_step_ok [OF notif_run_step])

text \<open>
  Every sequence of operations of the service keeps the alert table well typed: identifiers
  and logical keys are unique, an alert that is read or archived says since when.
\<close>

theorem alert_table_well_formed:
  assumes "alerts_ok (alert_records db)"
  shows "alerts_ok (alert_records (notif_all env ops db))"
  using assms by (rule notif_all_ok)

section \<open>One alert per source\<close>

definition plain_event :: "string \<Rightarrow> bool" where
  "plain_event ev \<longleftrightarrow> ev \<notin> set SYNC_DEDUPE_EVENT_TYPES \<and> ev \<notin> set ANOMALY_DEDUPE_EVENT_TYPES
     \<and> ev \<notin> set BUDGET_DEDUPE_EVENT_TYPES"

lemma resolved_key_given:
  "given (aa_source_type a) \<and> given (aa_source_id a) \<Longrightarrow> \<exists>key. resolved_key a = Some key"
  by (auto simp: resolved_key_def default_logical_key_def given_def split: option.splits)

lemma realtime_known:
  assumes "alerts_ok (alert_records db)" and "given (aa_source_type a)" "given (aa_source_id a)"
    and "resolved_key a = Some key"
    and "find (has_logical_key (aa_org a) (aa_user a) (aa_category a) key) (alert_records db) = Some r"
  shows "create_realtime_alert env c ev a db = (Inr (Some r), db)"
  using assms by (simp add: create_realtime_alert_def create_if_rule_matches_def andthen_def ret_def
      deduplicated_def same_source_def key_lookup)

lemma create_alert_finds:
  assumes "alerts_ok (alert_records db)" and "resolved_key a = Some key"
    and "create_alert c a db = (Inr r, db')"
  shows "find (has_logical_key (aa_org a) (aa_user a) (aa_category a) key) (alert_records db') = Some r"
  using create_alert_cases [OF assms(1), of c a]
proof (elim disjE exE conjE)
  fix x assume x: "create_alert c a db = (Inr x, db\<lparr>alert_records := alert_records db @ [x],
      published := published db @ [(aa_org a, x)]\<rparr>)" "x = new_alert_record c a" "\<not> violates_unique x db"
  then have "find (has_logical_key (aa_org a) (aa_user a) (aa_category a) key) (alert_records db) = None"
    using assms(2) by (auto simp: violates_unique_def find_None_iff list_ex_iff new_alert_record_def)
  moreover have "has_logical_key (aa_org a) (aa_user a) (aa_category a) key x"
    using x(2) assms(2) by (simp add: has_logical_key_iff)
  ultimately show ?thesis using x assms(3) by (simp add: find_append)
qed (use assms in auto)

lemma realtime_finds:
  assumes ok: "alerts_ok (alert_records db)" and src: "given (aa_source_type a)" "given (aa_source_id a)"
    and key: "resolved_key a = Some key" and ev: "plain_event ev"
    and run: "create_realtime_alert env c ev a db = (Inr (Some r), db')"
  shows "alerts_ok (alert_records db')"
    "find (has_logical_key (aa_org a) (aa_user a) (aa_category a) key) (alert_records db') = Some r"
proof -
  show "alerts_ok (alert_records db')"
    using alert_step_ok [OF create_if_rule_step [OF ok] ok, of env c ev True a] run
    by (simp add: create_realtime_alert_def)
  show "find (has_logical_key (aa_org a) (aa_user a) (aa_category a) key) (alert_records db') = Some r"
  proof (cases "find (has_logical_key (aa_org a) (aa_user a) (aa_category a) key) (alert_records db)")
    case (Some x)
    with realtime_known [OF ok src key Some, of env c ev] run show ?thesis by simp
  next
    case None
    let ?a = "a\<lparr>aa_metadata := (case aa_metadata a of None \<Rightarrow> None | Some m \<Rightarrow> if m = [] then None else Some m)\<rparr>"
    have key': "resolved_key ?a = Some key" using key by (auto simp: resolved_key_def split: if_splits)
    from run None have "create_alert c ?a db = (Inr r, db')"
      using ev src key
      by (auto simp: create_realtime_alert_def create_if_rule_matches_def andthen_def ret_def deduplicated_def
          same_source_def key_lookup [OF ok] equivalent_alert_def plain_event_def
          split: prod.splits sum.splits option.splits)
    from create_alert_finds [OF ok key' this] show ?thesis by simp
  qed
qed

text \<open>
  C17 (safety). An alert is raised once per source. When a service raised an alert for a source, then,
  whatever operations follow, raising an alert for the same source again, for any event, returns that alert, creates
  nothing and publishes nothing, also when it was read or archived in between.
\<close>

theorem alert_raised_once:
  assumes "alerts_ok (alert_records db)"
    and "given (aa_source_type a)" "given (aa_source_id a)" and "plain_event ev"
    and "create_realtime_alert env c ev a db = (Inr (Some r), db1)"
    and "db2 = notif_all env ops db1"
  shows "\<exists>r'. create_realtime_alert env c' ev' a db2 = (Inr (Some r'), db2) \<and> al_id r' = al_id r"
proof -
  from assms(2,3) obtain key where key: "resolved_key a = Some key" using resolved_key_given by blast
  note first = realtime_finds [OF assms(1-3) key assms(4,5)]
  from notif_all_find [OF first] obtain r' where
    "find (has_logical_key (aa_org a) (aa_user a) (aa_category a) key) (alert_records db2) = Some r'"
    "al_id r' = al_id r" unfolding assms(6) by blast
  moreover have "alerts_ok (alert_records db2)" unfolding assms(6) by (rule notif_all_ok [OF first(1)])
  ultimately show ?thesis using realtime_known [OF _ assms(2,3) key] by blast
qed

text \<open>
  Two requests that race to raise the alert of one source agree: both looked the alert
  up before either wrote it; the second insert runs into the unique index and answers with the row of
  the first, whatever was done to the table in between.
\<close>

theorem racing_creates_agree:
  assumes "alerts_ok (alert_records db)" and "resolved_key a = Some key"
    and "create_alert c a db = (Inr r, db1)" and "db2 = notif_all env ops db1"
    and "aa_org b = aa_org a" "aa_user b = aa_user a" "aa_category b = aa_category a"
    and "resolved_key b = Some key"
  shows "\<exists>r'. create_alert c' b db2 = (Inr r', db2) \<and> al_id r' = al_id r"
proof -
  have ok1: "alerts_ok (alert_records db1)"
    using alert_step_ok [OF create_alert_step [OF assms(1)] assms(1), of c a] assms(3) by simp
  from notif_all_find [OF ok1 create_alert_finds [OF assms(1-3)]] obtain r' where
    r': "find (has_logical_key (aa_org a) (aa_user a) (aa_category a) key) (alert_records db2) = Some r'"
    "al_id r' = al_id r" unfolding assms(4) by blast
  then have "list_ex (has_logical_key (aa_org b) (aa_user b) (aa_category b) key) (alert_records db2)"
    using assms(5-7) by (auto simp: find_Some_iff list_ex_iff)
  then have "violates_unique (new_alert_record c' b) db2"
    using assms(8) by (simp add: violates_unique_def new_alert_record_def)
  moreover have "alerts_ok (alert_records db2)" unfolding assms(4) by (rule notif_all_ok [OF ok1])
  ultimately show ?thesis using r' assms(5-8) by (simp add: create_alert_def Let_def key_lookup)
qed

section \<open>Synchronization alerts\<close>

lemma meta_text_jset [simp]:
  "meta_text env k (Some (jset k' (JStr v) m)) = (if k = k' then Some v else meta_text env k (Some m))"
  by (simp add: meta_text_def)

lemma sync_equivalent_known:
  assumes "ev \<in> set SYNC_DEDUPE_EVENT_TYPES"
    and "extract_sync_account_id env (aa_source_id a) (case aa_metadata a of None \<Rightarrow> [] | Some m \<Rightarrow> m) = Some i"
    and "r \<in> set (alert_records db)" "al_org r = aa_org a" "now - minutes_us 30 \<le> al_created r"
    and "meta_text env ''event_type'' (al_metadata r) = Some ev"
    and "meta_text env ''account_id'' (al_metadata r) = Some i"
  shows "\<exists>m x. equivalent_alert env now ev a db = (m, Some x) \<and> x \<in> set (alert_records db)
    \<and> al_org x = aa_org a \<and> meta_text env ''event_type'' (al_metadata x) = Some ev
    \<and> meta_text env ''account_id'' (al_metadata x) = Some i"
proof -
  let ?P = "\<lambda>r. al_org r = aa_org a \<and> now - minutes_us SYNC_DEDUPE_WINDOW_MINUTES \<le> al_created r
    \<and> meta_text env ''event_type'' (al_metadata r) = Some ev
    \<and> meta_text env ''account_id'' (al_metadata r) = Some i"
  let ?L = "rev (sort_key al_created (filter ?P (alert_records db)))"
  have "r \<in> set ?L" using assms by (simp add: SYNC_DEDUPE_WINDOW_MINUTES_def)
  then obtain x L where L: "?L = x # L" by (cases ?L) auto
  then have "x \<in> set ?L" by simp
  then have x: "x \<in> set (alert_records db)" "?P x" by auto
  show ?thesis using assms(1,2) L x
    by (simp add: equivalent_alert_def sync_equivalent_def Let_def get_recent_sync_equivalent_def)
qed

lemma created_row:
  assumes "create_alert c a db = (Inr r, db1)" and "db1 \<noteq> db"
  shows "r = new_alert_record c a" "r \<in> set (alert_records db1)"
  using assms by (auto simp: create_alert_def Let_def row_add_def split: if_splits option.splits sum.splits)

lemma same_alert_trans: "same_alert a b \<Longrightarrow> same_alert b c \<Longrightarrow> same_alert a c"
  by (auto simp: same_alert_def)

lemma alert_step_row:
  assumes "alert_step rs rs'" and "r \<in> set rs"
  shows "\<exists>r' \<in> set rs'. same_alert r r'"
  using assms
proof induction
  case (changed rs rs')
  then show ?case by (metis in_set_conv_nth list_all2_conv_all_nth)
next
  case (added x rs)
  then show ?case by (metis UnI1 same_alert_refl set_append)
qed

lemma notif_all_row:
  assumes "alerts_ok (alert_records db)" and "r \<in> set (alert_records db)"
  shows "\<exists>r' \<in> set (alert_records (notif_all env ops db)). same_alert r r'"
  using assms
proof (induction ops arbitrary: db r)
  case (Cons x ops)
  note step = notif_run_step [OF Cons.prems(1), of env x]
  from alert_step_row [OF step Cons.prems(2)] obtain r1 where
    r1: "r1 \<in> set (alert_records (notif_run env db x))" "same_alert r r1" by blast
  from Cons.IH [OF alert_step_ok [OF step Cons.prems(1)] r1(1)] r1(2) show ?case
    by (auto intro: same_alert_trans)
qed (use same_alert_refl in fastforce)

lemma realtime_sync:
  assumes ok: "alerts_ok (alert_records db)" and ev: "ev \<in> set SYNC_DEDUPE_EVENT_TYPES"
    and i: "extract_sync_account_id env (aa_source_id b) (case aa_metadata b of None \<Rightarrow> [] | Some m \<Rightarrow> m) = Some i"
    and r: "r \<in> set (alert_records db)" "al_org r = aa_org b" "clock c 2 - minutes_us 30 \<le> al_created r"
      "meta_text env ''event_type'' (al_metadata r) = Some ev"
      "meta_text env ''account_id'' (al_metadata r) = Some i"
  shows "\<exists>x. create_realtime_alert env c ev b db = (Inr (Some x), db)"
proof -
  from sync_equivalent_known [OF ev i r] obtain m x where
    "equivalent_alert env (clock c 2) ev b db = (m, Some x)" by blast
  moreover have "\<exists>f. same_source b db = Inr f"
    by (simp add: same_source_def key_lookup [OF ok] split: option.split)
  then obtain f where "same_source b db = Inr f" by blast
  ultimately show ?thesis
    by (cases f) (simp_all add: create_realtime_alert_def create_if_rule_matches_def andthen_def ret_def
        deduplicated_def)
qed

lemma realtime_sync_created:
  assumes ev: "ev \<in> set SYNC_DEDUPE_EVENT_TYPES"
    and i: "extract_sync_account_id env (aa_source_id a) (case aa_metadata a of None \<Rightarrow> [] | Some m \<Rightarrow> m) = Some i"
    and run: "create_realtime_alert env c ev a db = (Inr (Some r), db1)" and "db1 \<noteq> db"
  shows "r \<in> set (alert_records db1)" "al_org r = aa_org a" "al_created r = clock c 0"
    "meta_text env ''event_type'' (al_metadata r) = Some ev"
    "meta_text env ''account_id'' (al_metadata r) = Some i"
proof -
  let ?m = "jset ''account_id'' (JStr i) (jset ''event_type'' (JStr ev)
    (case aa_metadata a of None \<Rightarrow> [] | Some m \<Rightarrow> m))"
  have "jset k v d \<noteq> []" for k v d by (cases d) (auto split: if_splits)
  then have m: "?m \<noteq> []" by blast
  have eq: "fst (equivalent_alert env (clock c 2) ev a db) = ?m"
    using ev i by (simp add: equivalent_alert_def sync_equivalent_def Let_def)
  from run \<open>db1 \<noteq> db\<close> eq have "create_alert c (a\<lparr>aa_metadata := Some ?m\<rparr>) db = (Inr r, db1)"
    using m by (auto simp: create_realtime_alert_def create_if_rule_matches_def andthen_def ret_def
        deduplicated_def split: prod.splits sum.splits option.splits)
  from created_row [OF this \<open>db1 \<noteq> db\<close>] show "r \<in> set (alert_records db1)" "al_org r = aa_org a"
    "al_created r = clock c 0" "meta_text env ''event_type'' (al_metadata r) = Some ev"
    "meta_text env ''account_id'' (al_metadata r) = Some i"
    by simp_all
qed

text \<open>
  C18 (bounds). At most one alert per account and kind of synchronization event in half an hour: when a
  synchronization of an account raised an alert, then for thirty minutes, whatever operations follow, an
  event of the same kind for the same account raises no other, whatever its source, category or user.
\<close>

theorem sync_alert_window:
  assumes "alerts_ok (alert_records db)" and "ev \<in> set SYNC_DEDUPE_EVENT_TYPES"
    and "extract_sync_account_id env (aa_source_id a) (case aa_metadata a of None \<Rightarrow> [] | Some m \<Rightarrow> m) = Some i"
    and "extract_sync_account_id env (aa_source_id b) (case aa_metadata b of None \<Rightarrow> [] | Some m \<Rightarrow> m) = Some i"
    and "aa_org b = aa_org a"
    and "create_realtime_alert env c ev a db = (Inr (Some r), db1)" and "db1 \<noteq> db"
    and "db2 = notif_all env ops db1" and "clock c' 2 \<le> clock c 0 + minutes_us 30"
  shows "\<exists>x. create_realtime_alert env c' ev b db2 = (Inr (Some x), db2)"
proof -
  note r = realtime_sync_created [OF assms(2,3,6,7)]
  have ok1: "alerts_ok (alert_records db1)"
    using alert_step_ok [OF create_if_rule_step [OF assms(1)] assms(1), of env c ev True a] assms(6)
    by (simp add: create_realtime_alert_def)
  from notif_all_row [OF ok1 r(1)] obtain r2 where
    r2: "r2 \<in> set (alert_records db2)" "same_alert r r2" unfolding assms(8) by blast
  have ok2: "alerts_ok (alert_records db2)" unfolding assms(8) by (rule notif_all_ok [OF ok1])
  from r2(2) have "al_org r2 = al_org r" by (simp add: same_alert_def alert_key_def)
  with r r2 assms(5,9) show ?thesis
    by (intro realtime_sync [OF ok2 assms(2,4) r2(1)]) (auto simp: same_alert_def)
qed

section \<open>Marking all as read\<close>

lemma visible_with_status [simp]:
  "visible org u (changed_at n r (with_status t s r)) = visible org u r"
  "al_status (changed_at n r (with_status t s r)) = s"
  by (auto simp: visible_def changed_at_def with_status_def Let_def dest: arg_cong [where f = al_status])

text \<open>
  Marking all as read clears the unread count of the caller in every category, keeps the
  alerts of every other organization as they were, and answers how many alerts it changed.
\<close>

theorem mark_all_read_clears:
  "unread_count org user cat (snd (mark_all_read c org user db)) = (0, 0)
   \<and> filter (\<lambda>r. al_org r \<noteq> org) (alert_records (snd (mark_all_read c org user db)))
     = filter (\<lambda>r. al_org r \<noteq> org) (alert_records db)
   \<and> fst (mark_all_read c org user db) = fst (unread_count org user None db)"
proof (intro conjI)
  have "unread_alerts org user cat (snd (mark_all_read c org user db)) = []"
    by (auto simp: unread_alerts_def mark_all_read_def Let_def filter_empty_conv visible_def)
  then show "unread_count org user cat (snd (mark_all_read c org user db)) = (0, 0)"
    by (simp add: unread_count_def)
  have org: "al_org (changed_at n r (with_status t s r)) = al_org r" for n t s r
    by (auto simp: changed_at_def with_status_def Let_def)
  have "filter (\<lambda>r. al_org r \<noteq> org) (map (\<lambda>r. if al_org r = org \<and> Q r then f r else r) rs)
    = filter (\<lambda>r. al_org r \<noteq> org) rs" if "\<And>r. al_org (f r) = al_org r" for Q f and rs :: "alert_record list"
    by (induction rs) (auto simp: that)
  from this [OF org, where Q = "\<lambda>r. al_status r = AL_UNREAD \<and> visible org user r"]
  show "filter (\<lambda>r. al_org r \<noteq> org) (alert_records (snd (mark_all_read c org user db)))
     = filter (\<lambda>r. al_org r \<noteq> org) (alert_records db)"
    by (simp add: mark_all_read_def Let_def)
  show "fst (mark_all_read c org user db) = fst (unread_count org user None db)"
    by (simp add: mark_all_read_def Let_def unread_count_def unread_alerts_def visible_def conj_ac)
qed

section \<open>Examples\<close>

definition sample_notif_db :: "user list \<Rightarrow> preference list \<Rightarrow> alert_record list \<Rightarrow> notif_db" where
  "sample_notif_db us ps rs =
     \<lparr>events = [], checkpoints = [], alerts = [], orgs = [], keyrings = [], users = us, challenges = [],
      backup_codes = [], passkeys = [], revoked = [], alert_records = rs, preferences = ps,
      slack_configs = [], alert_rules = [], activity_events = [], published = []\<rparr>"

definition sample_args :: "string \<Rightarrow> alert_args" where
  "sample_args source =
     \<lparr>aa_org = 1, aa_user = None, aa_category = CAT_FINANCIAL, aa_severity = INFO, aa_title = ''t'', aa_body = None,
      aa_action_url = None, aa_source_type = Some ''sync'', aa_source_id = Some source, aa_metadata = None,
      aa_logical_key = None\<rparr>"

definition notif_call :: "nat \<Rightarrow> call" where
  "notif_call n = \<lparr>fresh = (\<lambda>j. of_nat (10 * n + j)), clock = (\<lambda>j. int (10 * n + j))\<rparr>"

lemma alerts_ok_Nil [simp]: "alerts_ok []"
  by (simp add: alerts_ok_def keyed_alerts_def)

lemma sample_alerts_ok [simp]: "alert_records (sample_notif_db us ps rs) = rs"
  by (simp add: sample_notif_db_def)

lemma sample_given [simp]: "given (aa_source_type (sample_args s))" "given (aa_source_id (sample_args ''k''))"
  "resolved_key (sample_args ''k'') = Some ''sync:k''"
  by (simp_all add: sample_args_def given_def resolved_key_def default_logical_key_def text_of_def)

lemma alert_table_well_formed_witness:
  "alerts_ok (alert_records (notif_all undefined
     [(notif_call 1, OpAlert ''risk_budget.created'' True (sample_args ''k'')), (notif_call 2, OpStatus 1 10 AL_READ)]
     (sample_notif_db [] [] [])))"
  by (rule alert_table_well_formed) simp

text \<open>Raising an alert on an empty table creates it; archiving it does not make room for another one.\<close>

lemma notif_created:
  "create_realtime_alert env (notif_call 1) ''risk_budget.created'' (sample_args ''k'') (sample_notif_db [] [] [])
     = (Inr (Some (new_alert_record (notif_call 1) (sample_args ''k''))),
        (sample_notif_db [] [] [])\<lparr>alert_records := [new_alert_record (notif_call 1) (sample_args ''k'')],
          published := [(1, new_alert_record (notif_call 1) (sample_args ''k''))]\<rparr>)"
proof -
  let ?db = "sample_notif_db [] [] []"
  have "same_source (sample_args ''k'') ?db = Inr None"
    by (simp add: same_source_def key_lookup)
  moreover have "equivalent_alert env t ''risk_budget.created'' (sample_args ''k'') ?db = ([], None)" for t
    by (simp add: equivalent_alert_def SYNC_DEDUPE_EVENT_TYPES_def ANOMALY_DEDUPE_EVENT_TYPES_def
        BUDGET_DEDUPE_EVENT_TYPES_def sample_args_def)
  moreover have "(sample_args ''k'')\<lparr>aa_metadata := None\<rparr> = sample_args ''k''" by (simp add: sample_args_def)
  moreover have "\<not> violates_unique r ?db" for r by (simp add: violates_unique_def split: option.split)
  moreover have "aa_org (sample_args ''k'') = 1" by (simp add: sample_args_def)
  moreover have "published ?db = []" by (simp add: sample_notif_db_def)
  ultimately show ?thesis
    by (simp add: create_realtime_alert_def create_if_rule_matches_def andthen_def ret_def deduplicated_def
        create_alert_def row_add_def Let_def)
qed

lemma sample_key_created:
  "create_alert (notif_call 1) (sample_args ''k'') (sample_notif_db [] [] [])
     = (Inr (new_alert_record (notif_call 1) (sample_args ''k'')),
        (sample_notif_db [] [] [])\<lparr>alert_records := [new_alert_record (notif_call 1) (sample_args ''k'')],
          published := [(1, new_alert_record (notif_call 1) (sample_args ''k''))]\<rparr>)"
proof -
  have "\<not> violates_unique r (sample_notif_db [] [] [])" for r
    by (simp add: violates_unique_def split: option.split)
  moreover have "aa_org (sample_args ''k'') = 1" by (simp add: sample_args_def)
  moreover have "published (sample_notif_db [] [] []) = []" by (simp add: sample_notif_db_def)
  ultimately show ?thesis by (simp add: create_alert_def row_add_def Let_def)
qed

lemma sample_id: "al_id (new_alert_record (notif_call 1) a) = 10"
  by (simp add: notif_call_def)

lemma alert_raised_once_witness:
  "\<exists>r'. create_realtime_alert undefined (notif_call 3) ''dlq.failure'' (sample_args ''k'')
       (notif_all undefined [(notif_call 2, OpStatus 1 10 AL_ARCHIVED)]
         (snd (create_realtime_alert undefined (notif_call 1) ''risk_budget.created'' (sample_args ''k'') (sample_notif_db [] [] []))))
     = (Inr (Some r'), notif_all undefined [(notif_call 2, OpStatus 1 10 AL_ARCHIVED)]
         (snd (create_realtime_alert undefined (notif_call 1) ''risk_budget.created'' (sample_args ''k'') (sample_notif_db [] [] []))))
     \<and> al_id r' = 10"
proof -
  have "plain_event ''risk_budget.created''"
    by (simp add: plain_event_def SYNC_DEDUPE_EVENT_TYPES_def ANOMALY_DEDUPE_EVENT_TYPES_def BUDGET_DEDUPE_EVENT_TYPES_def)
  from alert_raised_once [OF _ sample_given(1,2) this notif_created refl,
      where ops = "[(notif_call 2, OpStatus 1 10 AL_ARCHIVED)]" and c' = "notif_call 3" and env = undefined]
  show ?thesis unfolding notif_created snd_conv sample_id by simp
qed

lemma racing_creates_agree_witness:
  "\<exists>r'. create_alert (notif_call 2) (sample_args ''k'')
       (snd (create_alert (notif_call 1) (sample_args ''k'') (sample_notif_db [] [] [])))
     = (Inr r', snd (create_alert (notif_call 1) (sample_args ''k'') (sample_notif_db [] [] []))) \<and> al_id r' = 10"
  using racing_creates_agree [OF _ sample_given(3) sample_key_created refl refl refl refl sample_given(3),
      where ops = "[]" and c' = "notif_call 2" and env = undefined]
  unfolding sample_key_created snd_conv sample_id notif_all_Cons by simp

text \<open>Two synchronizations of one account with different sources, ten microseconds apart.\<close>

definition sync_args :: "string \<Rightarrow> alert_args" where
  "sync_args source = (sample_args source)\<lparr>aa_metadata := Some [(''account_id'', JStr (uuid_str 7))]\<rparr>"

lemma sync_account:
  "extract_sync_account_id env (aa_source_id (sync_args s))
     (case aa_metadata (sync_args s) of None \<Rightarrow> [] | Some m \<Rightarrow> m) = Some (uuid_str 7)"
  by (simp add: extract_sync_account_id_def sync_args_def jget_def str_of_def Let_def)

lemma sync_created:
  "\<exists>r db1. create_realtime_alert env (notif_call 1) ''cloud_account.sync.completed'' (sync_args ''k'')
      (sample_notif_db [] [] []) = (Inr (Some r), db1) \<and> db1 \<noteq> sample_notif_db [] [] []"
proof -
  let ?db = "sample_notif_db [] [] []"
  have "same_source (sync_args ''k'') ?db = Inr None"
    by (simp add: same_source_def key_lookup split: option.split)
  moreover have "\<exists>m. equivalent_alert env (clock (notif_call 1) 2) ''cloud_account.sync.completed'' (sync_args ''k'') ?db = (m, None)"
    using sync_account [of env "''k''"]
    by (simp add: equivalent_alert_def SYNC_DEDUPE_EVENT_TYPES_def sync_equivalent_def Let_def
        get_recent_sync_equivalent_def)
  moreover have "\<not> violates_unique r ?db" for r by (simp add: violates_unique_def split: option.split)
  moreover have "?db\<lparr>alert_records := [r], published := p\<rparr> \<noteq> ?db" for r p
    by (simp add: sample_notif_db_def)
  ultimately show ?thesis
    by (auto simp: create_realtime_alert_def create_if_rule_matches_def andthen_def ret_def deduplicated_def
        create_alert_def row_add_def Let_def)
qed

lemma sync_alert_window_witness:
  "\<exists>x. create_realtime_alert undefined (notif_call 2) ''cloud_account.sync.completed'' (sync_args ''other'')
       (snd (create_realtime_alert undefined (notif_call 1) ''cloud_account.sync.completed'' (sync_args ''k'') (sample_notif_db [] [] [])))
     = (Inr (Some x), snd (create_realtime_alert undefined (notif_call 1) ''cloud_account.sync.completed'' (sync_args ''k'') (sample_notif_db [] [] [])))"
proof -
  from sync_created [of undefined] obtain r db1 where run:
    "create_realtime_alert undefined (notif_call 1) ''cloud_account.sync.completed'' (sync_args ''k'')
      (sample_notif_db [] [] []) = (Inr (Some r), db1)" "db1 \<noteq> sample_notif_db [] [] []" by blast
  have "aa_org (sync_args ''other'') = aa_org (sync_args ''k'')" by (simp add: sync_args_def sample_args_def)
  moreover have "clock (notif_call 2) 2 \<le> clock (notif_call 1) 0 + minutes_us 30"
    by (simp add: notif_call_def minutes_us_def)
  ultimately have "\<exists>x. create_realtime_alert undefined (notif_call 2) ''cloud_account.sync.completed''
      (sync_args ''other'') db1 = (Inr (Some x), db1)"
    using sync_alert_window [OF _ _ sync_account sync_account _ run, of "''other''" db1 "[]" "notif_call 2"]
    by (simp add: SYNC_DEDUPE_EVENT_TYPES_def)
  then show ?thesis using run(1) by simp
qed

end
