(* ===== verification/Delivery.thy ===== *)
theory Delivery
  imports Notifications
begin

text \<open>
  The delivery of alerts: the mail service (\<open>core/email.py\<close>), the Slack service (\<open>core/slack.py\<close>) and the
  notification worker (\<open>workers/notification_worker.py\<close>). What leaves the process, mails and Slack posts,
  is recorded in a trace that no rollback undoes. Whether the transport takes a mail or a post (SMTP, the
  webhook) is an argument, asked with the number of messages sent before.
\<close>

section \<open>Mail\<close>

text \<open>
  \<open>str.splitlines\<close>: the line boundaries are LF, VT, FF, CR, CR LF, the separators FS, GS and RS, and the
  UTF-8 forms of U+0085, U+2028 and U+2029.
\<close>

definition line_break :: "string \<Rightarrow> nat" where
  "line_break s =
     (if take 2 s = [CHR 0x0D, CHR 0x0A] then 2
      else if take 2 s = [CHR 0xC2, CHR 0x85] then 2
      else if take 3 s \<in> {[CHR 0xE2, CHR 0x80, CHR 0xA8], [CHR 0xE2, CHR 0x80, CHR 0xA9]} then 3
      else case s of [] \<Rightarrow> 0
        | ch # _ \<Rightarrow> if (of_char ch :: nat) \<in> {10, 11, 12, 13, 28, 29, 30} then 1 else 0)"

function splitlines :: "string \<Rightarrow> string list" where
  "splitlines s =
     (if s = [] then []
      else if line_break s > 0 then [] # splitlines (drop (line_break s) s)
      else case splitlines (tl s) of
        [] \<Rightarrow> [[hd s]] | l # ls \<Rightarrow> (hd s # l) # ls)"
  by pat_completeness auto
termination
proof (relation "measure length")
  fix s :: string assume "s \<noteq> []"
  then show "(tl s, s) \<in> measure length" by (cases s) auto
next
  fix s :: string assume "s \<noteq> []" "0 < line_break s"
  then show "(drop (line_break s) s, s) \<in> measure length" by simp
qed simp

declare splitlines.simps [simp del]

text \<open>
  Assigning a header of an \<open>EmailMessage\<close> raises for a value of more than one line
  (\<open>email.policy\<close>): the worker's subject carries the title of the alert.
\<close>

definition header_ok :: "string \<Rightarrow> bool" where
  "header_ok v \<longleftrightarrow> length (splitlines v) \<le> 1"

record mail_settings =
  ml_enabled :: bool
  ml_host :: string
  ml_from :: string

definition mail_enabled :: "mail_settings \<Rightarrow> bool" where
  "mail_enabled st \<longleftrightarrow> ml_enabled st \<and> ml_host st \<noteq> [] \<and> ml_from st \<noteq> []"

text \<open>A mail; \<open>mail_alert\<close> keeps in the model which alert it is about.\<close>

record mail =
  mail_alert :: uuid
  to_email :: string
  mail_subject :: string
  mail_text :: string

record outside =
  outbox :: "mail list"
  posts :: "(uuid \<times> string \<times> string) list"

record delivery_env =
  de_mail :: mail_settings
  de_smtp :: "nat \<Rightarrow> bool"
  de_webhook :: "nat \<Rightarrow> bool"
  de_crypto :: crypto

definition send_email :: "delivery_env \<Rightarrow> mail \<Rightarrow> (outside, bool) svc" where
  "send_email env m out =
     (if \<not> mail_enabled (de_mail env) then (Inr False, out)
      else if \<not> header_ok (to_email m) \<or> \<not> header_ok (mail_subject m)
      then (Inl (ValueError ''Header values may not contain linefeed or carriage return characters''), out)
      else if de_smtp env (length (outbox out)) then (Inr True, out\<lparr>outbox := outbox out @ [m]\<rparr>)
      else (Inr False, out))"

section \<open>Slack\<close>

definition slack_message :: "string \<Rightarrow> string \<Rightarrow> string" where
  "slack_message subject body =
     '':rotating_light: *CauSium Critical Alert*'' @ [CHR 0x0A] @ ''*Subject:* '' @ subject
     @ [CHR 0x0A, CHR 0x0A] @ py_strip body"

definition slack_critical_alert ::
  "delivery_env \<Rightarrow> uuid \<Rightarrow> string \<Rightarrow> string \<Rightarrow> 'z notif_db_scheme \<Rightarrow> (outside, bool) svc" where
  "slack_critical_alert env org subject body db out =
     (case scalar_one_or_none (filter (\<lambda>g. sc_org g = org) (slack_configs db)) of
        Inl err \<Rightarrow> (Inl err, out)
      | Inr None \<Rightarrow> (Inr False, out)
      | Inr (Some g) \<Rightarrow>
          if \<not> sc_enabled g \<or> \<not> given (sc_webhook g) then (Inr False, out)
          else case decrypt_secret_for_org (de_crypto env) (Some (sc_org g)) (text_of (sc_webhook g)) db of
            Inl _ \<Rightarrow> (Inr False, out)
          | Inr url \<Rightarrow>
              if de_webhook env (length (posts out))
              then (Inr True, out\<lparr>posts := posts out @ [(org, url, slack_message subject body)]\<rparr>)
              else (Inr False, out))"

section \<open>The worker\<close>

definition LOOKBACK_HOURS :: int where "LOOKBACK_HOURS = 24"
definition BATCH_SIZE :: nat where "BATCH_SIZE = 50"

definition pending_alerts :: "(alert_record \<Rightarrow> instant option) \<Rightarrow> instant \<Rightarrow> 'z notif_db_scheme \<Rightarrow> alert_record list" where
  "pending_alerts sent now db =
     (let cutoff = now - minutes_us (60 * LOOKBACK_HOURS)
      in take BATCH_SIZE (sort_key al_created
           (filter (\<lambda>r. sent r = None \<and> cutoff \<le> al_created r) (alert_records db))))"

text \<open>\<open>pref_categories.get(category_key, True)\<close>, and true for no preferences (an empty dictionary has none either).\<close>

definition category_enabled :: "string \<Rightarrow> dict option \<Rightarrow> bool" where
  "category_enabled key cats =
     (case cats of None \<Rightarrow> True
      | Some d \<Rightarrow> (case map_of d key of None \<Rightarrow> True | Some v \<Rightarrow> truthy v))"

definition preference_of :: "uuid \<Rightarrow> uuid \<Rightarrow> 'z notif_db_scheme \<Rightarrow> preference option" where
  "preference_of org user db = find (\<lambda>p. np_org p = org \<and> np_user p = user) (preferences db)"

definition instant_email_recipients :: "uuid \<Rightarrow> string \<Rightarrow> 'z notif_db_scheme \<Rightarrow> user list" where
  "instant_email_recipients org key db =
     filter (\<lambda>u. us_org u = Some org \<and> us_active u \<and>
       (case preference_of org (us_id u) db of
          None \<Rightarrow> False
        | Some p \<Rightarrow> np_email p \<and> np_frequency p = FREQ_INSTANT \<and> category_enabled key (np_categories p)))
       (users db)"

fun severity_label :: "severity \<Rightarrow> string" where
  "severity_label INFO = ''Info''"
| "severity_label WARNING = ''Aviso''"
| "severity_label CRITICAL = ''Cr'' @ [CHR 0xC3, CHR 0xAD] @ ''tico''"

definition alert_subject :: "alert_record \<Rightarrow> string" where
  "alert_subject r = ''[CauSium]['' @ severity_label (al_severity r) @ ''] '' @ al_title r"

definition alert_text :: "alert_record \<Rightarrow> string" where
  "alert_text r =
     ''Categoria: '' @ alert_category_value (al_category r) @ [CHR 0x0A]
     @ ''Severidade: '' @ severity_label (al_severity r) @ [CHR 0x0A, CHR 0x0A]
     @ al_title r @ [CHR 0x0A]
     @ (if given (al_body r) then [CHR 0x0A] @ text_of (al_body r) @ [CHR 0x0A] else [])
     @ (if given (al_action_url r) then [CHR 0x0A] @ ''Acesse: '' @ text_of (al_action_url r) else [])
     @ [CHR 0x0A] @ ''Esta '' @ [CHR 0xC3, CHR 0xA9] @ '' uma mensagem autom'' @ [CHR 0xC3, CHR 0xA1]
     @ ''tica do CauSium.''"

definition mail_for :: "alert_record \<Rightarrow> user \<Rightarrow> mail" where
  "mail_for r u = \<lparr>mail_alert = al_id r, to_email = us_email u, mail_subject = alert_subject r, mail_text = alert_text r\<rparr>"

fun send_each :: "delivery_env \<Rightarrow> mail list \<Rightarrow> (outside, unit) svc" where
  "send_each env [] out = (Inr (), out)"
| "send_each env (m # ms) out =
     (case send_email env m out of
        (Inl err, out) \<Rightarrow> (Inl err, out)
      | (Inr _, out) \<Rightarrow> send_each env ms out)"

text \<open>The state of a transaction of the worker: the session's tables and the world outside.\<close>

type_synonym 'd work = "'d \<times> outside"

fun dispatch_emails ::
  "delivery_env \<Rightarrow> instant \<Rightarrow> alert_record list \<Rightarrow> ('z notif_db_scheme work, unit) svc" where
  "dispatch_emails env now [] (db, out) = (Inr (), (db, out))"
| "dispatch_emails env now (r # rs) (db, out) =
     (let db = put_alert (r\<lparr>al_email_sent := Some now, al_updated := now\<rparr>) db;
          recipients = instant_email_recipients (al_org r) (alert_category_value (al_category r)) db
      in case send_each env (map (mail_for r) recipients) out of
           (Inl err, out) \<Rightarrow> (Inl err, (db, out))
         | (Inr _, out) \<Rightarrow> dispatch_emails env now rs (db, out))"

definition slack_body :: "alert_record \<Rightarrow> string" where
  "slack_body r =
     py_join [CHR 0x0A] ([''Categoria: '' @ alert_category_value (al_category r)]
       @ (if given (al_body r) then [text_of (al_body r)] else [])
       @ (if given (al_action_url r) then [''<'' @ text_of (al_action_url r) @ ''|Ver no CauSium>''] else []))"

definition slack_wanted :: "uuid \<Rightarrow> 'z notif_db_scheme \<Rightarrow> bool" where
  "slack_wanted org db \<longleftrightarrow>
     list_ex (\<lambda>p. np_org p = org \<and> np_slack p \<and> np_frequency p = FREQ_INSTANT) (preferences db)"

fun dispatch_slack ::
  "delivery_env \<Rightarrow> instant \<Rightarrow> alert_record list \<Rightarrow> ('z notif_db_scheme work, unit) svc" where
  "dispatch_slack env now [] (db, out) = (Inr (), (db, out))"
| "dispatch_slack env now (r # rs) (db, out) =
     (let wanted = slack_wanted (al_org r) db;
          db = put_alert (r\<lparr>al_slack_sent := Some now, al_updated := now\<rparr>) db
      in if \<not> wanted then dispatch_slack env now rs (db, out)
         else case slack_critical_alert env (al_org r)
                ([CHR ''[''] @ severity_label (al_severity r) @ ''] '' @ al_title r) (slack_body r) db out of
           (Inl err, out) \<Rightarrow> (Inl err, (db, out))
         | (Inr _, out) \<Rightarrow> dispatch_slack env now rs (db, out))"

text \<open>\<open>async with db.begin()\<close>: an exception takes the tables back to the start; what was sent stays sent.\<close>

definition transaction :: "('d work, unit) svc \<Rightarrow> ('d work, unit) svc" where
  "transaction m s = (case m s of (Inl err, s') \<Rightarrow> (Inl err, (fst s, snd s')) | r \<Rightarrow> r)"

definition run_once :: "delivery_env \<Rightarrow> instant \<Rightarrow> ('z notif_db_scheme work, unit) svc" where
  "run_once env now =
     andthen (transaction (\<lambda>s. dispatch_emails env now (pending_alerts al_email_sent now (fst s)) s))
       (\<lambda>_. transaction (\<lambda>s. dispatch_slack env now (pending_alerts al_slack_sent now (fst s)) s))"

text \<open>\<open>run_notification_worker\<close>: every error is logged, and the next poll follows.\<close>

definition poll :: "delivery_env \<Rightarrow> 'z notif_db_scheme work \<Rightarrow> instant \<Rightarrow> 'z notif_db_scheme work" where
  "poll env s now = snd (run_once env now s)"

definition polls :: "delivery_env \<Rightarrow> instant list \<Rightarrow> 'z notif_db_scheme work \<Rightarrow> 'z notif_db_scheme work" where
  "polls env ts s = foldl (poll env) s ts"

end
