(* ===== verification/DeliveryLaws.thy ===== *)
theory DeliveryLaws
  imports Delivery NotificationLaws "HOL-Library.Sublist"
begin

text \<open>
  Laws of the delivery of alerts. While every subject is one line, a poll marks its batch, mails each
  alert to each of its recipients at most once over all polls, and the backlog drains at 50 alerts a
  poll. An alert whose title has a line break stops the batch it is in: the marks of the alerts before
  it are rolled back, their mails are sent again at every poll, and Slack is never reached.
\<close>

section \<open>Marks\<close>

definition mark_sent :: "instant \<Rightarrow> alert_record \<Rightarrow> alert_record" where
  "mark_sent now r = r\<lparr>al_email_sent := Some now, al_updated := now\<rparr>"

definition mark_rows :: "instant \<Rightarrow> uuid set \<Rightarrow> alert_record list \<Rightarrow> alert_record list" where
  "mark_rows now ids rows = map (\<lambda>x. if al_id x \<in> ids then mark_sent now x else x) rows"

lemma mark_sent_fields [simp]:
  "al_id (mark_sent now r) = al_id r" "al_email_sent (mark_sent now r) = Some now"
  "al_created (mark_sent now r) = al_created r" "al_slack_sent (mark_sent now r) = al_slack_sent r"
  "al_org (mark_sent now r) = al_org r" "al_category (mark_sent now r) = al_category r"
  "alert_subject (mark_sent now r) = alert_subject r"
  by (simp_all add: mark_sent_def alert_subject_def)

lemma row_put_mark:
  assumes "distinct (map al_id rows)" and "r \<in> set rows"
  shows "row_put al_id (mark_sent now r) rows = mark_rows now {al_id r} rows"
  using assms by (auto simp: row_put_def mark_rows_def distinct_map dest: inj_onD)

lemma mark_rows_mark: "mark_rows now A (mark_rows now B rows) = mark_rows now (A \<union> B) rows"
  by (auto simp: mark_rows_def mark_sent_def)

lemma mark_rows_id [simp]: "map al_id (mark_rows now ids rows) = map al_id rows"
  by (simp add: mark_rows_def list_emb_Nil)

lemma mark_rows_other: "\<lbrakk>r \<in> set rows; al_id r \<notin> ids\<rbrakk> \<Longrightarrow> r \<in> set (mark_rows now ids rows)"
  by (force simp: mark_rows_def)

lemma same_id: "\<lbrakk>distinct (map al_id rows); x \<in> set rows; y \<in> set rows; al_id x = al_id y\<rbrakk> \<Longrightarrow> x = y"
  by (auto simp: distinct_map dest: inj_onD)

lemma head_id: "\<lbrakk>distinct (map al_id (r # rs)); x \<in> set rs\<rbrakk> \<Longrightarrow> al_id x \<noteq> al_id r"
  by (metis distinct.simps(2) image_eqI list.set_map list.simps(9))

text \<open>The recipients of an alert do not depend on the alert table.\<close>

lemma recipients_frame [simp]:
  "instant_email_recipients org key (db\<lparr>alert_records := rows\<rparr>) = instant_email_recipients org key db"
  by (simp add: instant_email_recipients_def preference_of_def cong: option.case_cong)

lemma recipients_put [simp]:
  "instant_email_recipients org key (put_alert r db) = instant_email_recipients org key db"
  by (simp add: put_alert_def)

definition mails_of :: "'z notif_db_scheme \<Rightarrow> alert_record \<Rightarrow> mail list" where
  "mails_of db r = map (mail_for r) (instant_email_recipients (al_org r) (alert_category_value (al_category r)) db)"

lemma mails_of_frame [simp]: "mails_of (db\<lparr>alert_records := rows\<rparr>) = mails_of db"
  by (simp add: mails_of_def fun_eq_iff)

lemma mails_of_alert: "m \<in> set (mails_of db r) \<Longrightarrow> mail_alert m = al_id r \<and> mail_subject m = alert_subject r"
  by (auto simp: mails_of_def mail_for_def)

section \<open>Sending\<close>

definition sendable :: "mail \<Rightarrow> bool" where
  "sendable m \<longleftrightarrow> header_ok (to_email m) \<and> header_ok (mail_subject m)"

lemma send_each_ok:
  assumes "list_all sendable ms"
  shows "\<exists>sent. fst (send_each env ms out) = Inr () \<and> snd (send_each env ms out) = out\<lparr>outbox := outbox out @ sent\<rparr>
    \<and> subseq sent ms"
  using assms
proof (induction ms arbitrary: out)
  case Nil
  show ?case by (intro exI [of _ "[]"]) (simp add: list_emb_Nil)
next
  case (Cons m ms)
  obtain b sent1 where 1: "send_email env m out = (Inr b, out\<lparr>outbox := outbox out @ sent1\<rparr>)" "subseq sent1 [m]"
  proof -
    have "send_email env m out = (Inr True, out\<lparr>outbox := outbox out @ [m]\<rparr>)
      \<or> send_email env m out = (Inr False, out\<lparr>outbox := outbox out @ []\<rparr>)"
      using Cons.prems by (simp add: send_email_def sendable_def)
    then show ?thesis using that [of True "[m]"] that [of False "[]"] by auto
  qed
  from Cons.IH [of "out\<lparr>outbox := outbox out @ sent1\<rparr>"] Cons.prems obtain sent where
    2: "fst (send_each env ms (out\<lparr>outbox := outbox out @ sent1\<rparr>)) = Inr ()"
      "snd (send_each env ms (out\<lparr>outbox := outbox out @ sent1\<rparr>)) = out\<lparr>outbox := (outbox out @ sent1) @ sent\<rparr>"
      "subseq sent ms" by auto
  have "subseq (sent1 @ sent) ([m] @ ms)" using 1(2) 2(3) by (rule list_emb_append_mono)
  with 1 2 show ?case by (intro exI [of _ "sent1 @ sent"]) simp
qed

text \<open>A batch without an unsendable mail: every alert is marked, and some of its mails leave.\<close>

lemma dispatch_emails_ok:
  assumes "distinct (map al_id (alert_records db))" and "set rs \<subseteq> set (alert_records db)"
    and "distinct (map al_id rs)" and "list_all (\<lambda>r. list_all sendable (mails_of db r)) rs"
  shows "\<exists>sent. dispatch_emails env now rs (db, out) =
      (Inr (), (db\<lparr>alert_records := mark_rows now (al_id ` set rs) (alert_records db)\<rparr>,
        out\<lparr>outbox := outbox out @ sent\<rparr>)) \<and> subseq sent (concat (map (mails_of db) rs))"
  using assms
proof (induction rs arbitrary: db out)
  case Nil
  show ?case by (intro exI [of _ "[]"]) (simp add: mark_rows_def list_emb_Nil)
next
  case (Cons r rs)
  let ?db = "db\<lparr>alert_records := mark_rows now {al_id r} (alert_records db)\<rparr>"
  have put: "put_alert (mark_sent now r) db = ?db"
    using Cons.prems by (simp add: put_alert_def row_put_mark)
  from Cons.prems have "list_all sendable (mails_of db r)" by simp
  from send_each_ok [OF this, of env out] obtain sent1 where
    1: "send_each env (mails_of db r) out = (Inr (), out\<lparr>outbox := outbox out @ sent1\<rparr>)"
      "subseq sent1 (mails_of db r)" by (metis prod.collapse)
  have "\<exists>sent. dispatch_emails env now rs (?db, out\<lparr>outbox := outbox out @ sent1\<rparr>) =
      (Inr (), (?db\<lparr>alert_records := mark_rows now (al_id ` set rs) (alert_records ?db)\<rparr>,
        out\<lparr>outbox := (outbox out @ sent1) @ sent\<rparr>)) \<and> subseq sent (concat (map (mails_of ?db) rs))"
  proof -
    have "set rs \<subseteq> set (alert_records ?db)"
    proof
      fix x assume x: "x \<in> set rs"
      then have "al_id x \<noteq> al_id r" by (rule head_id [OF Cons.prems(3)])
      with x Cons.prems(2) show "x \<in> set (alert_records ?db)" by (auto intro: mark_rows_other)
    qed
    with Cons.IH [of ?db "out\<lparr>outbox := outbox out @ sent1\<rparr>"] Cons.prems show ?thesis by simp
  qed
  then obtain sent where 2: "dispatch_emails env now rs (?db, out\<lparr>outbox := outbox out @ sent1\<rparr>) =
      (Inr (), (db\<lparr>alert_records := mark_rows now (al_id ` set (r # rs)) (alert_records db)\<rparr>,
        out\<lparr>outbox := outbox out @ (sent1 @ sent)\<rparr>))" "subseq sent (concat (map (mails_of db) rs))"
    by (auto simp: mark_rows_mark Un_commute)
  have "dispatch_emails env now (r # rs) (db, out) = dispatch_emails env now rs (?db, out\<lparr>outbox := outbox out @ sent1\<rparr>)"
    using put 1(1) by (simp add: mark_sent_def mails_of_def)
  moreover have "subseq (sent1 @ sent) (concat (map (mails_of db) (r # rs)))"
    using 1(2) 2(2) by (simp add: list_emb_append_mono)
  ultimately show ?case using 2(1) by (intro exI [of _ "sent1 @ sent"]) simp
qed

section \<open>Polls\<close>

definition slack_same :: "alert_record \<Rightarrow> alert_record \<Rightarrow> bool" where
  "slack_same x y \<longleftrightarrow> (\<exists>t u. y = x\<lparr>al_slack_sent := t, al_updated := u\<rparr>)"

lemma slack_same_refl [simp]: "slack_same x x"
  unfolding slack_same_def by (intro exI [of _ "al_slack_sent x"] exI [of _ "al_updated x"]) simp

lemma slack_same_trans: "slack_same x y \<Longrightarrow> slack_same y z \<Longrightarrow> slack_same x z"
  unfolding slack_same_def by (elim exE) (simp, blast)

lemma slack_same_fields:
  assumes "slack_same x y"
  shows "al_id y = al_id x" "al_email_sent y = al_email_sent x" "al_created y = al_created x"
    "mails_of db y = mails_of db x"
  using assms by (auto simp: slack_same_def mails_of_def mail_for_def alert_subject_def alert_text_def)

definition slack_rows :: "alert_record list \<Rightarrow> alert_record list \<Rightarrow> bool" where
  "slack_rows xs ys \<longleftrightarrow> list_all2 slack_same xs ys"

lemma slack_rows_refl [simp]: "slack_rows xs xs"
  by (simp add: slack_rows_def list_all2_refl)

lemma slack_rows_trans: "slack_rows xs ys \<Longrightarrow> slack_rows ys zs \<Longrightarrow> slack_rows xs zs"
  unfolding slack_rows_def by (rule list_all2_trans [OF slack_same_trans])

lemma slack_rows_ids: "slack_rows xs ys \<Longrightarrow> map al_id ys = map al_id xs"
  unfolding slack_rows_def by (induction rule: list_all2_induct) (simp_all add: slack_same_fields)

lemma slack_rows_put:
  assumes "distinct (map al_id rows)" and "x \<in> set rows" and "slack_same x y"
  shows "slack_rows rows (row_put al_id y rows)"
proof -
  have "slack_same z (if al_id z = al_id y then y else z)" if "z \<in> set rows" for z
    using assms that by (auto simp: distinct_map slack_same_fields dest: inj_onD)
  then show ?thesis by (simp add: slack_rows_def row_put_def list.rel_map list_all2_same)
qed

lemma slack_post_outbox [simp]: "outbox (snd (slack_critical_alert env org s b db out)) = outbox out"
proof (cases "scalar_one_or_none (filter (\<lambda>g. sc_org g = org) (slack_configs db))")
  case (Inr f)
  show ?thesis
  proof (cases f)
    case (Some g)
    then show ?thesis
      by (cases "decrypt_secret_for_org (de_crypto env) (Some (sc_org g)) (text_of (sc_webhook g)) db")
        (simp_all add: slack_critical_alert_def Inr)
  qed (simp add: slack_critical_alert_def Inr)
qed (simp add: slack_critical_alert_def)

lemma dispatch_slack_frame:
  assumes "distinct (map al_id (alert_records db))" and "set rs \<subseteq> set (alert_records db)"
    and "distinct (map al_id rs)" and "dispatch_slack env now rs (db, out) = (res, (db', out'))"
  shows "outbox out' = outbox out \<and> (\<exists>rows. db' = db\<lparr>alert_records := rows\<rparr> \<and> slack_rows (alert_records db) rows)"
  using assms
proof (induction rs arbitrary: db out)
  case Nil
  then have "db' = db" "out' = out" by simp_all
  then show ?case by (intro conjI exI [of _ "alert_records db"]) simp_all
next
  case (Cons r rs)
  let ?r = "r\<lparr>al_slack_sent := Some now, al_updated := now\<rparr>"
  let ?rows = "row_put al_id ?r (alert_records db)"
  let ?db = "db\<lparr>alert_records := ?rows\<rparr>"
  have put: "put_alert ?r db = ?db" by (simp add: put_alert_def)
  have same: "slack_rows (alert_records db) ?rows"
    by (rule slack_rows_put [of _ r]) (use Cons.prems in \<open>auto simp: slack_same_def\<close>)
  have sub: "set rs \<subseteq> set (alert_records ?db)"
  proof
    fix x assume "x \<in> set rs"
    moreover from this have "al_id x \<noteq> al_id r" by (rule head_id [OF Cons.prems(3)])
    ultimately show "x \<in> set (alert_records ?db)"
      using Cons.prems(2) by (force simp: row_put_def)
  qed
  have fin: "outbox out' = outbox out \<and> (\<exists>rows. db' = db\<lparr>alert_records := rows\<rparr> \<and> slack_rows (alert_records db) rows)"
    if "dispatch_slack env now rs (?db, out1) = (res, (db', out'))" "outbox out1 = outbox out" for out1
  proof -
    have "outbox out' = outbox out1 \<and> (\<exists>rows. db' = ?db\<lparr>alert_records := rows\<rparr> \<and> slack_rows (alert_records ?db) rows)"
      using Cons.prems sub that(1) by (intro Cons.IH) simp_all
    with that(2) same show ?thesis by (auto intro: slack_rows_trans)
  qed
  show ?case
  proof (cases "slack_wanted (al_org r) db")
    case False
    with Cons.prems(4) put fin [of out] show ?thesis by simp
  next
    case True
    let ?post = "slack_critical_alert env (al_org r) ([CHR ''[''] @ severity_label (al_severity r) @ ''] '' @ al_title r)
      (slack_body r) ?db out"
    obtain p out1 where post: "?post = (p, out1)" by force
    then have out1: "outbox out1 = outbox out" using slack_post_outbox by (metis snd_conv)
    show ?thesis
    proof (cases p)
      case (Inl err)
      with Cons.prems(4) put True post have "db' = ?db" "out' = out1" by simp_all
      with out1 same show ?thesis by (intro conjI exI [of _ ?rows]) simp_all
    next
      case (Inr b)
      with Cons.prems(4) put True post fin [OF _ out1] show ?thesis by simp
    qed
  qed
qed

definition waiting :: "instant \<Rightarrow> alert_record \<Rightarrow> bool" where
  "waiting now r \<longleftrightarrow> al_email_sent r = None \<and> now - minutes_us (60 * LOOKBACK_HOURS) \<le> al_created r"

definition backlog :: "instant \<Rightarrow> 'z notif_db_scheme \<Rightarrow> alert_record list" where
  "backlog now db = filter (waiting now) (alert_records db)"

lemma pending_backlog: "pending_alerts al_email_sent now db = take BATCH_SIZE (sort_key al_created (backlog now db))"
  by (simp add: pending_alerts_def backlog_def waiting_def [abs_def])

lemma pending_props:
  assumes "distinct (map al_id (alert_records db))"
  shows "set (pending_alerts sent now db) \<subseteq> set (alert_records db)"
    "distinct (map al_id (pending_alerts sent now db))"
    "r \<in> set (pending_alerts sent now db) \<Longrightarrow> sent r = None"
proof -
  let ?L = "sort_key al_created (filter (\<lambda>r. sent r = None \<and> now - minutes_us (60 * LOOKBACK_HOURS) \<le> al_created r) (alert_records db))"
  have p: "pending_alerts sent now db = take BATCH_SIZE ?L" by (simp add: pending_alerts_def Let_def)
  have "distinct (map al_id ?L)" using assms by (auto simp: distinct_map intro: inj_on_subset)
  then show "distinct (map al_id (pending_alerts sent now db))" by (simp add: p take_map [symmetric])
  have "set (pending_alerts sent now db) \<subseteq> set ?L" unfolding p by (rule set_take_subset)
  then show "set (pending_alerts sent now db) \<subseteq> set (alert_records db)"
    "r \<in> set (pending_alerts sent now db) \<Longrightarrow> sent r = None" by auto
qed

definition deliverable :: "'z notif_db_scheme \<Rightarrow> bool" where
  "deliverable db \<longleftrightarrow> list_all (\<lambda>r. list_all sendable (mails_of db r)) (alert_records db)"

text \<open>A poll of deliverable alerts: the batch is marked, some of its mails left, Slack marks changed.\<close>

lemma poll_ok:
  assumes "distinct (map al_id (alert_records db))" and "deliverable db"
  shows "\<exists>sent rows out'. poll env (db, out) now = (db\<lparr>alert_records := rows\<rparr>, out')
    \<and> outbox out' = outbox out @ sent
    \<and> subseq sent (concat (map (mails_of db) (pending_alerts al_email_sent now db)))
    \<and> slack_rows (mark_rows now (al_id ` set (pending_alerts al_email_sent now db)) (alert_records db)) rows"
proof -
  let ?p = "pending_alerts al_email_sent now db"
  let ?rows = "mark_rows now (al_id ` set ?p) (alert_records db)"
  let ?db = "db\<lparr>alert_records := ?rows\<rparr>"
  note p = pending_props [OF assms(1), where sent = al_email_sent and now = now]
  from assms(2) p(1) have "list_all (\<lambda>r. list_all sendable (mails_of db r)) ?p"
    by (auto simp: deliverable_def list_all_iff)
  from dispatch_emails_ok [OF assms(1) p(1,2) this] obtain sent where
    1: "dispatch_emails env now ?p (db, out) = (Inr (), (?db, out\<lparr>outbox := outbox out @ sent\<rparr>))"
      "subseq sent (concat (map (mails_of db) ?p))" by blast
  let ?out = "out\<lparr>outbox := outbox out @ sent\<rparr>"
  have ids: "distinct (map al_id (alert_records ?db))" using assms(1) by simp
  obtain res db2 out2 where 2: "dispatch_slack env now (pending_alerts al_slack_sent now ?db) (?db, ?out) = (res, (db2, out2))"
    by (metis prod.collapse)
  from dispatch_slack_frame [OF ids pending_props(1,2) [OF ids] 2] obtain rows where
    3: "outbox out2 = outbox out @ sent" "db2 = ?db\<lparr>alert_records := rows\<rparr>" "slack_rows ?rows rows" by auto
  have run: "poll env (db, out) now = snd (transaction (\<lambda>s. dispatch_slack env now (pending_alerts al_slack_sent now (fst s)) s) (?db, ?out))"
    using 1 by (simp add: poll_def run_once_def andthen_def transaction_def)
  show ?thesis
  proof (cases res)
    case (Inl err)
    with run 2 have "poll env (db, out) now = (?db, out2)" by (simp add: transaction_def)
    with 1(2) 3 show ?thesis by (intro exI [of _ sent] exI [of _ ?rows] exI [of _ out2]) simp
  next
    case (Inr u)
    with run 2 3 have "poll env (db, out) now = (db\<lparr>alert_records := rows\<rparr>, out2)" by (simp add: transaction_def)
    with 1(2) 3 show ?thesis by (intro exI [of _ sent] exI [of _ rows] exI [of _ out2]) simp
  qed
qed

lemma slack_rows_deliverable:
  assumes "slack_rows (mark_rows now ids (alert_records db)) rows" and "deliverable db"
  shows "deliverable (db\<lparr>alert_records := rows\<rparr>)"
proof -
  have mark: "mails_of db (mark_sent now x) = mails_of db x" for x
    by (simp add: mails_of_def mail_for_def alert_text_def mark_sent_def alert_subject_def)
  have all: "list_all (\<lambda>r. list_all sendable (mails_of db r)) (mark_rows now ids (alert_records db))"
    using assms(2) by (auto simp: deliverable_def mark_rows_def list_all_iff mark)
  have "list_all (\<lambda>r. list_all sendable (mails_of db r)) ys"
    if "list_all2 slack_same xs ys" "list_all (\<lambda>r. list_all sendable (mails_of db r)) xs" for xs ys
    using that by (induction rule: list_all2_induct) (auto simp: slack_same_fields)
  with all assms(1) show ?thesis by (simp add: deliverable_def slack_rows_def)
qed

section \<open>At most once\<close>

definition mail_key :: "mail \<Rightarrow> uuid \<times> string" where
  "mail_key m = (mail_alert m, to_email m)"

definition sent_once :: "'z notif_db_scheme work \<Rightarrow> bool" where
  "sent_once s \<longleftrightarrow> distinct (map mail_key (outbox (snd s))) \<and>
     (\<forall>m \<in> set (outbox (snd s)). \<exists>r \<in> set (alert_records (fst s)). al_id r = mail_alert m \<and> al_email_sent r \<noteq> None)"

lemma mails_distinct:
  assumes "distinct (map us_email (users db))" and "distinct (map al_id rs)"
  shows "distinct (map mail_key (concat (map (mails_of db) rs)))"
  using assms(2)
proof (induction rs)
  case (Cons r rs)
  have "distinct (map us_email (instant_email_recipients org key db))" for org key
    using assms(1) by (auto simp: instant_email_recipients_def distinct_map intro: inj_on_subset)
  then have "distinct (map mail_key (mails_of db r))"
    by (auto simp: mails_of_def mail_for_def mail_key_def distinct_map inj_on_def)
  moreover have "al_id x = al_id r" if "x \<in> set rs" "m \<in> set (mails_of db r)" "m' \<in> set (mails_of db x)"
    "mail_key m' = mail_key m" for x m m'
    using that mails_of_alert by (metis Pair_inject mail_key_def)
  moreover have "al_id x \<noteq> al_id r" if "x \<in> set rs" for x using head_id [OF Cons.prems that] .
  ultimately have "set (map mail_key (mails_of db r)) \<inter> set (map mail_key (concat (map (mails_of db) rs))) = {}"
    by (auto simp: image_iff) metis
  with \<open>distinct (map mail_key (mails_of db r))\<close> show ?case using Cons by simp
qed simp

lemma subseq_distinct_map: "subseq xs ys \<Longrightarrow> distinct (map f ys) \<Longrightarrow> distinct (map f xs) \<and> set xs \<subseteq> set ys"
  by (induction rule: list_emb.induct) auto

lemma slack_rows_in:
  assumes "slack_rows xs ys" and "x \<in> set xs"
  shows "\<exists>y \<in> set ys. slack_same x y"
  using assms by (metis in_set_conv_nth list_all2_conv_all_nth slack_rows_def)

lemma poll_sent_once:
  assumes "distinct (map al_id (alert_records db))" and "deliverable db"
    and "distinct (map us_email (users db))" and "sent_once (db, out)"
  shows "sent_once (poll env (db, out) now)"
proof -
  let ?p = "pending_alerts al_email_sent now db"
  let ?marked = "mark_rows now (al_id ` set ?p) (alert_records db)"
  note p = pending_props [OF assms(1), where sent = al_email_sent and now = now]
  from poll_ok [OF assms(1,2)] obtain sent rows out' where
    run: "poll env (db, out) now = (db\<lparr>alert_records := rows\<rparr>, out')" "outbox out' = outbox out @ sent"
      "subseq sent (concat (map (mails_of db) ?p))" "slack_rows ?marked rows" by blast
  from subseq_distinct_map [OF run(3) mails_distinct [OF assms(3) p(2)]]
  have sent: "distinct (map mail_key sent)" "set sent \<subseteq> set (concat (map (mails_of db) ?p))" by simp_all
  have marked: "\<exists>y \<in> set rows. al_id y = al_id r \<and> al_email_sent y \<noteq> None"
    if "r \<in> set (alert_records db)" "al_email_sent r \<noteq> None \<or> al_id r \<in> al_id ` set ?p" for r
  proof -
    let ?x = "if al_id r \<in> al_id ` set ?p then mark_sent now r else r"
    from that(1) have "?x \<in> set ?marked" by (auto simp: mark_rows_def)
    from slack_rows_in [OF run(4) this] obtain y where "y \<in> set rows" "slack_same ?x y" by blast
    with that(2) show ?thesis by (intro bexI [of _ y]) (auto simp: slack_same_fields)
  qed
  have new: "\<exists>r \<in> set ?p. mail_alert m = al_id r" if "m \<in> set sent" for m
    using that sent(2) mails_of_alert by fastforce
  have "mail_key m \<noteq> mail_key m'" if "m \<in> set sent" "m' \<in> set (outbox out)" for m m'
  proof
    assume eq: "mail_key m = mail_key m'"
    from new [OF that(1)] obtain r where r: "r \<in> set ?p" "mail_alert m = al_id r" by blast
    from assms(4) that(2) obtain r' where r': "r' \<in> set (alert_records db)" "al_id r' = mail_alert m'" "al_email_sent r' \<noteq> None"
      by (auto simp: sent_once_def)
    from r r' eq p(1) have "r = r'" by (intro same_id [OF assms(1)]) (auto simp: mail_key_def)
    with p(3) [OF r(1)] r'(3) show False by simp
  qed
  with sent(1) assms(4) run(2) have "distinct (map mail_key (outbox out'))" by (fastforce simp: sent_once_def)
  moreover have "\<exists>y \<in> set rows. al_id y = mail_alert m \<and> al_email_sent y \<noteq> None" if m: "m \<in> set (outbox out')" for m
  proof (cases "m \<in> set sent")
    case True
    from new [OF this] p(1) marked show ?thesis by (metis image_eqI subsetD)
  next
    case False
    with m run(2) assms(4) marked show ?thesis by (fastforce simp: sent_once_def)
  qed
  ultimately show ?thesis by (simp add: run(1) sent_once_def)
qed

lemma poll_frame:
  assumes "distinct (map al_id (alert_records db))" and "deliverable db"
  shows "\<exists>rows out'. poll env (db, out) now = (db\<lparr>alert_records := rows\<rparr>, out')
    \<and> map al_id rows = map al_id (alert_records db) \<and> deliverable (db\<lparr>alert_records := rows\<rparr>)"
proof -
  from poll_ok [OF assms] obtain rows out' where
    run: "poll env (db, out) now = (db\<lparr>alert_records := rows\<rparr>, out')"
      "slack_rows (mark_rows now (al_id ` set (pending_alerts al_email_sent now db)) (alert_records db)) rows"
    by blast
  from slack_rows_ids [OF run(2)] have "map al_id rows = map al_id (alert_records db)" by simp
  with run(1) slack_rows_deliverable [OF run(2) assms(2)] show ?thesis by blast
qed

lemma polls_induct:
  assumes "P db out" and "distinct (map al_id (alert_records db))" and "deliverable db"
    and step: "\<And>db out now. \<lbrakk>P db out; distinct (map al_id (alert_records db)); deliverable db; Q db\<rbrakk>
      \<Longrightarrow> P (fst (poll env (db, out) now)) (snd (poll env (db, out) now))"
    and "Q db" and Q: "\<And>db rows. Q db \<Longrightarrow> Q (db\<lparr>alert_records := rows\<rparr>)"
  shows "P (fst (polls env ts (db, out))) (snd (polls env ts (db, out)))"
  using assms(1-3,5)
proof (induction ts arbitrary: db out)
  case (Cons t ts)
  from poll_frame [OF Cons.prems(2,3)] obtain rows out' where
    run: "poll env (db, out) t = (db\<lparr>alert_records := rows\<rparr>, out')" "map al_id rows = map al_id (alert_records db)"
      "deliverable (db\<lparr>alert_records := rows\<rparr>)" by blast
  from step [OF Cons.prems, of t] have "P (db\<lparr>alert_records := rows\<rparr>) out'" by (simp add: run(1))
  from Cons.IH [OF this] run Cons.prems Q show ?case by (simp add: polls_def)
qed (simp add: polls_def)

text \<open>
  C14 (safety). While every subject and address is one line, each recipient gets each alert at most once,
  over any number of polls at any times and whichever mails the transport refuses.
\<close>

theorem mailed_at_most_once:
  assumes "distinct (map al_id (alert_records db))" and "distinct (map us_email (users db))"
    and "deliverable db" and "outbox out = []"
  shows "distinct (map (\<lambda>m. (mail_alert m, to_email m)) (outbox (snd (polls env ts (db, out)))))"
proof -
  have "sent_once (fst (polls env ts (db, out)), snd (polls env ts (db, out)))"
  proof (rule polls_induct [where Q = "\<lambda>db. distinct (map us_email (users db))"])
    show "sent_once (db, out)" using assms(4) by (simp add: sent_once_def)
    fix db :: "'a notif_db_scheme" and out now
    assume "sent_once (db, out)" "distinct (map al_id (alert_records db))" "deliverable db"
      "distinct (map us_email (users db))"
    then show "sent_once (fst (poll env (db, out) now), snd (poll env (db, out) now))"
      using poll_sent_once [of db out env now] by simp
  qed (use assms in auto)
  then show ?thesis by (simp add: sent_once_def mail_key_def [abs_def])
qed

section \<open>The backlog drains\<close>

lemma slack_rows_count:
  assumes "slack_rows xs ys"
  shows "length (filter (waiting now) ys) = length (filter (waiting now) xs)"
  using assms unfolding slack_rows_def
  by (induction rule: list_all2_induct) (auto simp: waiting_def slack_same_fields)

lemma filter_rest:
  assumes "distinct (map f xs)"
  shows "filter (\<lambda>x. f x \<notin> f ` set (take n xs)) xs = drop n xs"
proof -
  have "filter (\<lambda>x. f x \<notin> f ` set (take n xs)) (take n xs) = []" by (auto simp: filter_empty_conv)
  moreover have "filter (\<lambda>x. f x \<notin> f ` set (take n xs)) (drop n xs) = drop n xs"
  proof (rule filter_True, rule ballI)
    fix x assume "x \<in> set (drop n xs)"
    have "distinct (map f (take n xs @ drop n xs))" using assms by simp
    then have "f ` set (take n xs) \<inter> f ` set (drop n xs) = {}" unfolding map_append distinct_append set_map by blast
    with \<open>x \<in> set (drop n xs)\<close> show "f x \<notin> f ` set (take n xs)" by blast
  qed
  ultimately show ?thesis by (metis append_Nil append_take_drop_id filter_append)
qed

lemma backlog_marked:
  assumes "distinct (map al_id (alert_records db))"
  shows "length (filter (waiting now) (mark_rows now (al_id ` set (pending_alerts al_email_sent now db)) (alert_records db)))
    = length (backlog now db) - BATCH_SIZE"
proof -
  let ?S = "sort_key al_created (backlog now db)"
  let ?ids = "al_id ` set (take BATCH_SIZE ?S)"
  have S: "distinct (map al_id ?S)"
    using assms by (auto simp: backlog_def distinct_map intro: inj_on_subset)
  have "filter (waiting now) (mark_rows now ?ids rows) = filter (\<lambda>r. al_id r \<notin> ?ids) (filter (waiting now) rows)" for rows
    by (induction rows) (auto simp: mark_rows_def waiting_def)
  then have "length (filter (waiting now) (mark_rows now ?ids (alert_records db)))
    = size (mset (filter (\<lambda>r. al_id r \<notin> ?ids) (backlog now db)))" by (simp only: backlog_def size_mset)
  also have "mset (filter (\<lambda>r. al_id r \<notin> ?ids) (backlog now db)) = mset (filter (\<lambda>r. al_id r \<notin> ?ids) ?S)"
    by simp
  also have "\<dots> = mset (drop BATCH_SIZE ?S)" by (simp only: filter_rest [OF S])
  finally show ?thesis by (simp add: pending_backlog)
qed

text \<open>
  C15 (liveness). While every subject and address is one line, the backlog of alerts drains: each poll
  takes 50 of the alerts that still wait, so that k polls within the window leave all but 50 k of them.
\<close>

theorem backlog_drains:
  assumes "distinct (map al_id (alert_records db))" and "deliverable db"
  shows "length (backlog now (fst (polls env (replicate k now) (db, out)))) = length (backlog now db) - 50 * k"
  using assms
proof (induction k arbitrary: db out)
  case (Suc k)
  from poll_ok [OF Suc.prems] obtain rows out' where
    run: "poll env (db, out) now = (db\<lparr>alert_records := rows\<rparr>, out')"
      "slack_rows (mark_rows now (al_id ` set (pending_alerts al_email_sent now db)) (alert_records db)) rows"
    by blast
  let ?db = "db\<lparr>alert_records := rows\<rparr>"
  have "length (backlog now ?db) = length (backlog now db) - 50"
    using slack_rows_count [OF run(2), of now] backlog_marked [OF Suc.prems(1), of now]
    by (simp add: backlog_def BATCH_SIZE_def)
  moreover have "length (backlog now (fst (polls env (replicate k now) (?db, out')))) = length (backlog now ?db) - 50 * k"
    using slack_rows_ids [OF run(2)] Suc.prems slack_rows_deliverable [OF run(2) Suc.prems(2)]
    by (intro Suc.IH) simp_all
  ultimately show ?case using run(1) by (simp add: polls_def)
qed (simp add: polls_def)

section \<open>A subject of two lines\<close>

lemma send_each_prefix:
  assumes "list_all sendable ms" and "mail_enabled (de_mail env)" and "\<And>n. de_smtp env n"
  shows "send_each env (ms @ rest) out = send_each env rest (out\<lparr>outbox := outbox out @ ms\<rparr>)"
  using assms(1) by (induction ms arbitrary: out) (simp_all add: send_email_def sendable_def assms(2,3))

lemma dispatch_emails_stuck:
  assumes "list_all (\<lambda>r. list_all sendable (mails_of db r)) rs" and "mail_enabled (de_mail env)"
    and "\<And>n. de_smtp env n" and "mails_of db bad \<noteq> []" and "\<not> header_ok (alert_subject bad)"
  shows "\<exists>err db'. dispatch_emails env now (rs @ bad # rest) (db, out)
    = (Inl err, (db', out\<lparr>outbox := outbox out @ concat (map (mails_of db) rs)\<rparr>))"
  using assms(1,4)
proof (induction rs arbitrary: db out)
  case Nil
  let ?db = "put_alert (bad\<lparr>al_email_sent := Some now, al_updated := now\<rparr>) db"
  obtain m ms where m: "mails_of db bad = m # ms" using Nil by (cases "mails_of db bad") auto
  then have "\<not> header_ok (mail_subject m)" using mails_of_alert [of m db bad] assms(5) by simp
  then have "\<exists>err. send_each env (mails_of db bad) out = (Inl err, out)"
    by (simp add: m send_email_def assms(2))
  moreover have "mails_of ?db bad = mails_of db bad" by (simp add: put_alert_def)
  ultimately show ?case by (auto simp: mails_of_def Let_def)
next
  case (Cons r rs)
  let ?db = "put_alert (r\<lparr>al_email_sent := Some now, al_updated := now\<rparr>) db"
  have frame: "mails_of ?db = mails_of db" by (simp add: put_alert_def)
  have "send_each env (mails_of db r) out = (Inr (), out\<lparr>outbox := outbox out @ mails_of db r\<rparr>)"
    using send_each_prefix [of "mails_of db r" env "[]" out] Cons.prems assms(2,3) by simp
  then have "dispatch_emails env now (r # rs @ bad # rest) (db, out)
    = dispatch_emails env now (rs @ bad # rest) (?db, out\<lparr>outbox := outbox out @ mails_of db r\<rparr>)"
    using frame by (simp add: mails_of_def Let_def)
  with Cons.IH [of ?db "out\<lparr>outbox := outbox out @ mails_of db r\<rparr>"] Cons.prems frame show ?case by simp
qed

lemma poll_stuck:
  assumes "pending_alerts al_email_sent now db = rs @ bad # rest"
    and "list_all (\<lambda>r. list_all sendable (mails_of db r)) rs" and "mail_enabled (de_mail env)"
    and "\<And>n. de_smtp env n" and "mails_of db bad \<noteq> []" and "\<not> header_ok (alert_subject bad)"
  shows "poll env (db, out) now = (db, out\<lparr>outbox := outbox out @ concat (map (mails_of db) rs)\<rparr>)"
  using dispatch_emails_stuck [OF assms(2-6), of now rest out]
  by (auto simp: poll_def run_once_def andthen_def transaction_def assms(1))

text \<open>
  C16 (liveness). An alert with a line break in its title, one of the batch that is due, stops the worker:
  as long as it is due, every poll mails the alerts before it in the batch to all their recipients again,
  marks nothing, so that the batch is the same at the next poll, and posts nothing to Slack.
\<close>

theorem two_line_title_stops_delivery:
  assumes "\<forall>now \<in> set ts. pending_alerts al_email_sent now db = rs @ bad # rest"
    and "list_all (\<lambda>r. list_all sendable (mails_of db r)) rs" and "mail_enabled (de_mail env)"
    and "\<And>n. de_smtp env n" and "mails_of db bad \<noteq> []" and "\<not> header_ok (alert_subject bad)"
  shows "polls env ts (db, out)
    = (db, out\<lparr>outbox := outbox out @ concat (replicate (length ts) (concat (map (mails_of db) rs)))\<rparr>)"
  using assms(1)
proof (induction ts arbitrary: out)
  case (Cons t ts)
  then have "poll env (db, out) t = (db, out\<lparr>outbox := outbox out @ concat (map (mails_of db) rs)\<rparr>)"
    by (intro poll_stuck [OF _ assms(2-6)]) simp
  with Cons show ?case by (simp add: polls_def)
qed (simp add: polls_def)

section \<open>Examples\<close>

definition sample_alert :: "uuid \<Rightarrow> string \<Rightarrow> instant \<Rightarrow> alert_record" where
  "sample_alert k title t =
     \<lparr>al_id = k, al_org = 1, al_user = None, al_category = CAT_GOVERNANCE, al_severity = CRITICAL,
      al_status = AL_UNREAD, al_title = title, al_body = None, al_action_url = None, al_source_type = None,
      al_source_id = None, al_logical_key = None, al_metadata = None, al_read_at = None,
      al_archived_at = None, al_email_sent = None, al_slack_sent = None, al_created = t, al_updated = t\<rparr>"

definition mail_user :: "uuid \<Rightarrow> string \<Rightarrow> user" where
  "mail_user k email =
     \<lparr>us_id = k, us_org = Some 1, us_email = email, us_full_name = ''n'', us_password = ''p'',
      us_role = VIEWER, us_active = True, us_passkey_enabled = False, us_totp_enabled = False,
      us_totp_secret = None, us_totp_verified_at = None, us_must_change = False,
      us_password_changed_at = None, us_terms_accepted_at = None, us_terms_version = None,
      us_created_at = 0, us_last_login = None, us_deleted_at = None\<rparr>"

definition sample_delivery :: delivery_env where
  "sample_delivery =
     \<lparr>de_mail = \<lparr>ml_enabled = True, ml_host = ''h'', ml_from = ''f''\<rparr>, de_smtp = (\<lambda>_. True),
      de_webhook = (\<lambda>_. True), de_crypto = undefined\<rparr>"

text \<open>Two alerts and one recipient; the second title has a line break.\<close>

definition good_and_bad :: notif_db where
  "good_and_bad = sample_notif_db [mail_user 5 ''a''] [default_preference 6 1 5]
     [sample_alert 10 ''x'' 0, sample_alert 11 [CHR ''x'', CHR 0x0A, CHR ''y''] 1]"

lemma one_line [simp]: "header_ok ''a''" "header_ok (alert_subject (sample_alert 10 ''x'' 0))"
  by code_simp+

lemma two_lines: "\<not> header_ok (alert_subject (sample_alert 11 [CHR ''x'', CHR 0x0A, CHR ''y''] 1))"
  by code_simp

lemma sample_mails:
  "mails_of (sample_notif_db [mail_user 5 ''a''] [default_preference 6 1 5] rows) r
     = (if al_org r = 1 then [mail_for r (mail_user 5 ''a'')] else [])"
  by (cases "al_category r") (simp_all add: mails_of_def instant_email_recipients_def sample_notif_db_def
      preference_of_def default_preference_def category_enabled_def mail_user_def)

lemma sample_org [simp]: "al_org (sample_alert k t u) = 1"
  by (simp add: sample_alert_def)

lemma sample_sendable [simp]: "sendable (mail_for (sample_alert 10 ''x'' 0) (mail_user 5 ''a''))"
  by (simp add: sendable_def mail_for_def) (simp add: mail_user_def)

lemma good_and_bad_due:
  "pending_alerts al_email_sent 2 good_and_bad
     = [sample_alert 10 ''x'' 0] @ sample_alert 11 [CHR ''x'', CHR 0x0A, CHR ''y''] 1 # []"
  by (simp add: pending_alerts_def good_and_bad_def sample_notif_db_def sample_alert_def LOOKBACK_HOURS_def
      minutes_us_def BATCH_SIZE_def)

text \<open>Three polls mail the first alert three times.\<close>

lemma two_line_title_stops_delivery_witness:
  "polls sample_delivery [2, 2, 2] (good_and_bad, \<lparr>outbox = [], posts = []\<rparr>)
    = (good_and_bad, \<lparr>outbox = replicate 3 (mail_for (sample_alert 10 ''x'' 0) (mail_user 5 ''a'')), posts = []\<rparr>)"
proof -
  have mails: "mails_of good_and_bad r = (if al_org r = 1 then [mail_for r (mail_user 5 ''a'')] else [])" for r
    by (simp add: good_and_bad_def sample_mails)
  have "polls sample_delivery [2, 2, 2] (good_and_bad, \<lparr>outbox = [], posts = []\<rparr>)
    = (good_and_bad, \<lparr>outbox = [], posts = []\<rparr>\<lparr>outbox := outbox \<lparr>outbox = [], posts = []\<rparr>
        @ concat (replicate (length [2, 2, 2 :: instant]) (concat (map (mails_of good_and_bad) [sample_alert 10 ''x'' 0])))\<rparr>)"
    by (rule two_line_title_stops_delivery [OF _ _ _ _ _ two_lines, where rest = "[]"])
      (simp_all add: good_and_bad_due mails sample_delivery_def mail_enabled_def)
  then show ?thesis by (simp add: mails numeral_eq_Suc)
qed

definition one_alert :: notif_db where
  "one_alert = sample_notif_db [mail_user 5 ''a''] [default_preference 6 1 5] [sample_alert 10 ''x'' 0]"

lemma one_alert_deliverable: "deliverable one_alert"
  unfolding deliverable_def one_alert_def sample_mails by (simp add: sample_notif_db_def)

lemma mailed_at_most_once_witness:
  "distinct (map (\<lambda>m. (mail_alert m, to_email m))
     (outbox (snd (polls sample_delivery [2, 3] (one_alert, \<lparr>outbox = [], posts = []\<rparr>)))))"
  by (rule mailed_at_most_once [OF _ _ one_alert_deliverable])
    (simp_all add: one_alert_def sample_notif_db_def)

lemma backlog_drains_witness:
  "backlog 2 (fst (polls sample_delivery [2] (one_alert, \<lparr>outbox = [], posts = []\<rparr>))) = []"
  using backlog_drains [OF _ one_alert_deliverable, of 2 sample_delivery 1 "\<lparr>outbox = [], posts = []\<rparr>"]
  by (simp add: one_alert_def sample_notif_db_def backlog_def)

end
