(* ===== verification/RiskBudgets.thy ===== *)
theory RiskBudgets
  imports Delivery Workflow
begin

text \<open>
  \<open>domains/risk_budgets\<close>: risk budgets with their audit events and the alert each new budget raises
  (\<open>service.py\<close>, \<open>schemas.py\<close>, \<open>router.py\<close>). The order of text in the database (\<open>ORDER BY\<close>) is the
  argument \<open>collate\<close>. A number in the body of an alert is printed by the platform's \<open>float_repr\<close>.
\<close>

datatype budget_period = BUDGET_DAILY | BUDGET_WEEKLY | BUDGET_MONTHLY

fun budget_period_value :: "budget_period \<Rightarrow> string" where
  "budget_period_value BUDGET_DAILY = ''daily''"
| "budget_period_value BUDGET_WEEKLY = ''weekly''"
| "budget_period_value BUDGET_MONTHLY = ''monthly''"

datatype budget_type = BLAST_RADIUS | COST_VARIANCE | ERROR_RATE | CHANGE_FREQUENCY

fun budget_type_value :: "budget_type \<Rightarrow> string" where
  "budget_type_value BLAST_RADIUS = ''blast_radius''"
| "budget_type_value COST_VARIANCE = ''cost_variance''"
| "budget_type_value ERROR_RATE = ''error_rate''"
| "budget_type_value CHANGE_FREQUENCY = ''change_frequency''"

record risk_budget =
  rb_id :: uuid
  rb_org :: uuid
  rb_name :: string
  rb_domain :: string
  rb_environment :: string
  rb_type :: budget_type
  rb_period :: budget_period
  rb_limit :: pyfloat
  rb_current :: "pyfloat option"
  rb_active :: bool
  rb_created :: instant
  rb_updated :: instant

record risk_db = notif_db +
  risk_budgets :: "risk_budget list"

record risk_budget_create =
  bc_name :: string
  bc_domain :: string
  bc_environment :: string
  bc_type :: budget_type
  bc_period :: budget_period
  bc_limit :: pyfloat

record risk_budget_update =
  bu_name :: "string option"
  bu_limit :: "pyfloat option"
  bu_period :: "budget_period option"
  bu_active :: "bool option"

definition budget_create_valid :: "risk_budget_create \<Rightarrow> bool" where
  "budget_create_valid r \<longleftrightarrow>
     2 \<le> char_count (bc_name r) \<and> char_count (bc_name r) \<le> 255
     \<and> 1 \<le> char_count (bc_domain r) \<and> char_count (bc_domain r) \<le> 100
     \<and> 1 \<le> char_count (bc_environment r) \<and> char_count (bc_environment r) \<le> 50 \<and> 0 < bc_limit r"

definition budget_update_valid :: "risk_budget_update \<Rightarrow> bool" where
  "budget_update_valid r \<longleftrightarrow> (case bu_limit r of None \<Rightarrow> True | Some x \<Rightarrow> 0 < x)"

section \<open>Service\<close>

definition new_budget :: "call \<Rightarrow> uuid \<Rightarrow> risk_budget_create \<Rightarrow> risk_budget" where
  "new_budget c org r =
     \<lparr>rb_id = fresh c 4, rb_org = org, rb_name = bc_name r, rb_domain = bc_domain r,
      rb_environment = bc_environment r, rb_type = bc_type r, rb_period = bc_period r,
      rb_limit = bc_limit r, rb_current = None, rb_active = True, rb_created = clock c 0,
      rb_updated = clock c 0\<rparr>"

definition budget_alert :: "notif_env \<Rightarrow> risk_budget \<Rightarrow> alert_args" where
  "budget_alert env b =
     \<lparr>aa_org = rb_org b, aa_user = None, aa_category = CAT_GOVERNANCE, aa_severity = CRITICAL,
      aa_title = ''Risk budget configured: '' @ rb_domain b @ '' / '' @ rb_environment b,
      aa_body = Some (''Limit '' @ budget_type_value (rb_type b) @ '' set to ''
        @ float_repr (ne_platform env) (rb_limit b) @ ''.''),
      aa_action_url = None, aa_source_type = Some ''risk_budget'', aa_source_id = Some (uuid_str (rb_id b)),
      aa_metadata = Some [(''domain'', JStr (rb_domain b)), (''environment'', JStr (rb_environment b)),
        (''budget_type'', JStr (budget_type_value (rb_type b)))],
      aa_logical_key = None\<rparr>"

definition budget_payload :: "risk_budget \<Rightarrow> pyval" where
  "budget_payload b =
     PDict [(''domain'', PStr (rb_domain b)), (''environment'', PStr (rb_environment b)),
            (''budget_type'', PStr (budget_type_value (rb_type b))), (''limit_value'', PFloat (rb_limit b))]"

definition budget_event ::
  "notif_env \<Rightarrow> call \<Rightarrow> uuid \<Rightarrow> uuid option \<Rightarrow> string \<Rightarrow> uuid \<Rightarrow> pyval \<Rightarrow> 'z risk_db_scheme \<Rightarrow> 'z risk_db_scheme" where
  "budget_event env c org actor kind i pl db =
     (case actor of
        None \<Rightarrow> db
      | Some _ \<Rightarrow> append_event (ne_platform env) org actor kind ''risk_budget'' (uuid_str i) pl
          (fresh c 5, clock c 5) db)"

definition create_budget ::
  "notif_env \<Rightarrow> call \<Rightarrow> uuid \<Rightarrow> risk_budget_create \<Rightarrow> uuid option \<Rightarrow> ('z risk_db_scheme, risk_budget) svc" where
  "create_budget env c org r actor db =
     (let b = new_budget c org r in
      if rb_id b \<in> rb_id ` set (risk_budgets db) then (Inl (IntegrityError ''risk_budgets_pkey''), db)
      else andthen (create_realtime_alert env c ''risk_budget.created'' (budget_alert env b))
        (\<lambda>_ db. (Inr b, budget_event env c org actor ''risk_budget.created'' (rb_id b) (budget_payload b) db))
        (db\<lparr>risk_budgets := row_add b (risk_budgets db)\<rparr>))"

definition list_budgets ::
  "(string \<Rightarrow> nat list) \<Rightarrow> uuid \<Rightarrow> bool \<Rightarrow> nat \<Rightarrow> nat \<Rightarrow> 'z risk_db_scheme \<Rightarrow> risk_budget list \<times> nat" where
  "list_budgets collate org active_only limit offset db =
     (let matching = filter (\<lambda>b. rb_org b = org \<and> (active_only \<longrightarrow> rb_active b)) (risk_budgets db)
      in (take limit (drop offset (sort_key (\<lambda>b. (collate (rb_domain b), collate (rb_environment b))) matching)),
          length matching))"

definition get_budget :: "uuid \<Rightarrow> uuid \<Rightarrow> 'z risk_db_scheme \<Rightarrow> risk_budget option" where
  "get_budget org i db =
     (case row_find rb_id i (risk_budgets db) of
        None \<Rightarrow> None | Some b \<Rightarrow> if rb_org b = org then Some b else None)"

definition apply_budget_update :: "risk_budget_update \<Rightarrow> risk_budget \<Rightarrow> risk_budget" where
  "apply_budget_update r b =
     b\<lparr>rb_name := set_opt the (bu_name r) (rb_name b), rb_limit := set_opt the (bu_limit r) (rb_limit b),
       rb_period := set_opt the (bu_period r) (rb_period b), rb_active := set_opt the (bu_active r) (rb_active b)\<rparr>"

definition budget_changes :: "risk_budget_update \<Rightarrow> pyval" where
  "budget_changes r = PDict (
     opt_field ''name'' PStr (bu_name r) @ opt_field ''limit_value'' PFloat (bu_limit r) @
     opt_field ''period'' (\<lambda>p. PEnum (budget_period_value p)) (bu_period r) @
     opt_field ''is_active'' PBool (bu_active r))"

definition update_budget ::
  "notif_env \<Rightarrow> call \<Rightarrow> uuid \<Rightarrow> uuid \<Rightarrow> risk_budget_update \<Rightarrow> uuid option \<Rightarrow> 'z risk_db_scheme
   \<Rightarrow> risk_budget option \<times> 'z risk_db_scheme" where
  "update_budget env c org i r actor db =
     (case get_budget org i db of
        None \<Rightarrow> (None, db)
      | Some b \<Rightarrow>
          let b' = apply_budget_update r b;
              b' = (if b' = b then b else b'\<lparr>rb_updated := clock c 0\<rparr>);
              db = db\<lparr>risk_budgets := row_put rb_id b' (risk_budgets db)\<rparr>
          in (Some b', budget_event env c org actor ''risk_budget.updated'' i (budget_changes r) db))"

definition delete_budget ::
  "notif_env \<Rightarrow> call \<Rightarrow> uuid \<Rightarrow> uuid \<Rightarrow> uuid option \<Rightarrow> 'z risk_db_scheme \<Rightarrow> bool \<times> 'z risk_db_scheme" where
  "delete_budget env c org i actor db =
     (case get_budget org i db of
        None \<Rightarrow> (False, db)
      | Some b \<Rightarrow>
          let db = budget_event env c org actor ''risk_budget.deleted'' i (budget_payload b) db
          in (True, db\<lparr>risk_budgets := filter (\<lambda>x. rb_id x \<noteq> rb_id b) (risk_budgets db)\<rparr>))"

section \<open>Routes\<close>

definition post_budget ::
  "notif_env \<Rightarrow> call \<Rightarrow> uuid \<Rightarrow> uuid \<Rightarrow> risk_budget_create \<Rightarrow> ('z risk_db_scheme, risk_budget) svc" where
  "post_budget env c org user r =
     request_scope (if budget_create_valid r then create_budget env c org r (Some user)
       else raise (HTTPException 422 ''body''))"

definition patch_budget ::
  "notif_env \<Rightarrow> call \<Rightarrow> uuid \<Rightarrow> uuid \<Rightarrow> uuid \<Rightarrow> risk_budget_update \<Rightarrow> ('z risk_db_scheme, risk_budget) svc" where
  "patch_budget env c org user i r =
     request_scope (\<lambda>db.
       if \<not> budget_update_valid r then raise (HTTPException 422 ''body'') db
       else case update_budget env c org i r (Some user) db of
         (None, db) \<Rightarrow> raise (HTTPException 404 ''Risk budget not found'') db
       | (Some b, db) \<Rightarrow> ret b db)"

definition delete_budget_route ::
  "notif_env \<Rightarrow> call \<Rightarrow> uuid \<Rightarrow> uuid \<Rightarrow> uuid \<Rightarrow> ('z risk_db_scheme, unit) svc" where
  "delete_budget_route env c org user i =
     request_scope (\<lambda>db. case delete_budget env c org i (Some user) db of
         (False, db) \<Rightarrow> raise (HTTPException 404 ''Risk budget not found'') db
       | (True, db) \<Rightarrow> ret () db)"

end
