(* ===== verification/RiskBudgetLaws.thy ===== *)
theory RiskBudgetLaws
  imports RiskBudgets DeliveryLaws WorkflowLaws
begin

text \<open>
  Laws of the risk budgets: identifiers stay unique and limits positive, an organization's requests leave
  the budgets of the others alone, and a budget whose domain has a line break raises an alert that no
  mail can carry.
\<close>

interpretation budget_rows: keyed_table rb_id "row_find rb_id" "row_put rb_id" row_add
  by (rule keyed_table_rows)

section \<open>Frames\<close>

lemma budgets_append_event [simp]:
  "risk_budgets (append_event pf org a t n i p st db) = risk_budgets db"
  "alert_records (append_event pf org a t n i p st db) = alert_records db"
  by (simp_all add: append_event_def Let_def)

lemma budget_event_frame [simp]:
  "risk_budgets (budget_event env c org actor k i p db) = risk_budgets db"
  "alert_records (budget_event env c org actor k i p db) = alert_records db"
  by (simp_all add: budget_event_def split: option.split)

lemma realtime_budgets [simp]: "risk_budgets (snd (create_realtime_alert env c ev a db)) = risk_budgets db"
  by (auto simp: create_realtime_alert_def create_if_rule_matches_def andthen_def ret_def deduplicated_def
      create_alert_def Let_def split: sum.splits option.splits prod.splits if_splits)

section \<open>Requests\<close>

datatype budget_request =
    PostBudget risk_budget_create
  | PatchBudget uuid risk_budget_update
  | DeleteBudget uuid

record budget_caller =
  bl_call :: call
  bl_org :: uuid
  bl_user :: uuid

fun budget_serve :: "notif_env \<Rightarrow> 'z risk_db_scheme \<Rightarrow> budget_caller \<times> budget_request \<Rightarrow> 'z risk_db_scheme" where
  "budget_serve env db (w, PostBudget r) = snd (post_budget env (bl_call w) (bl_org w) (bl_user w) r db)"
| "budget_serve env db (w, PatchBudget i r) = snd (patch_budget env (bl_call w) (bl_org w) (bl_user w) i r db)"
| "budget_serve env db (w, DeleteBudget i) = snd (delete_budget_route env (bl_call w) (bl_org w) (bl_user w) i db)"

definition budgets_ok :: "risk_budget list \<Rightarrow> bool" where
  "budgets_ok bs \<longleftrightarrow> distinct (map rb_id bs) \<and> list_all (\<lambda>b. 0 < rb_limit b) bs"

text \<open>What a request does to the budgets, given who sends it.\<close>

inductive budget_step :: "uuid \<Rightarrow> risk_budget list \<Rightarrow> risk_budget list \<Rightarrow> bool" where
  same: "budget_step org bs bs"
| add: "\<lbrakk>rb_id b \<notin> rb_id ` set bs; 0 < rb_limit b; rb_org b = org\<rbrakk> \<Longrightarrow> budget_step org bs (row_add b bs)"
| change: "\<lbrakk>row_find rb_id (rb_id b') bs = Some b; rb_org b = org; rb_org b' = org; 0 < rb_limit b \<longrightarrow> 0 < rb_limit b'\<rbrakk>
    \<Longrightarrow> budget_step org bs (row_put rb_id b' bs)"
| remove: "\<lbrakk>row_find rb_id i bs = Some b; rb_org b = org\<rbrakk>
    \<Longrightarrow> budget_step org bs (filter (\<lambda>x. rb_id x \<noteq> i) bs)"

lemma get_budget_Some:
  "get_budget org i db = Some b \<longleftrightarrow> row_find rb_id i (risk_budgets db) = Some b \<and> rb_org b = org"
  by (auto simp: get_budget_def split: option.splits)

lemma post_budget_step:
  "budget_step org (risk_budgets db) (risk_budgets (snd (post_budget env c org user r db)))"
proof (cases "budget_create_valid r \<and> rb_id (new_budget c org r) \<notin> rb_id ` set (risk_budgets db)")
  case True
  let ?db = "db\<lparr>risk_budgets := row_add (new_budget c org r) (risk_budgets db)\<rparr>"
  have "budget_step org (risk_budgets db) (row_add (new_budget c org r) (risk_budgets db))"
    using True by (intro budget_step.add) (simp_all add: new_budget_def budget_create_valid_def)
  moreover obtain res db1 where
    alert: "create_realtime_alert env c ''risk_budget.created'' (budget_alert env (new_budget c org r)) ?db = (res, db1)"
    by force
  moreover have "risk_budgets db1 = risk_budgets ?db"
    using alert realtime_budgets [of env c "''risk_budget.created''" "budget_alert env (new_budget c org r)" ?db] by simp
  ultimately show ?thesis using True
    by (cases res) (simp_all add: post_budget_def create_budget_def andthen_def request_scope_def Let_def budget_step.same)
next
  case False
  then show ?thesis
    by (auto simp: post_budget_def create_budget_def request_scope_def raise_def Let_def intro: budget_step.same)
qed

lemma budget_serve_step:
  "budget_step (bl_org w) (risk_budgets db) (risk_budgets (budget_serve env db (w, q)))"
proof (cases q)
  case (PostBudget r)
  then show ?thesis using post_budget_step by simp
next
  case (PatchBudget i r)
  let ?org = "bl_org w" and ?c = "bl_call w"
  show ?thesis
  proof (cases "get_budget ?org i db")
    case (Some b)
    then have b: "row_find rb_id i (risk_budgets db) = Some b" "rb_org b = ?org" by (simp_all add: get_budget_Some)
    have "budget_step ?org (risk_budgets db) (row_put rb_id b' (risk_budgets db))"
      if "b' = (if apply_budget_update r b = b then b else (apply_budget_update r b)\<lparr>rb_updated := clock ?c 0\<rparr>)"
        "budget_update_valid r" for b'
    proof (rule budget_step.change)
      show "row_find rb_id (rb_id b') (risk_budgets db) = Some b"
        using row_find_Some [OF b(1)] b(1) that(1) by (simp add: apply_budget_update_def)
      show "rb_org b = ?org" by (rule b(2))
      show "rb_org b' = ?org" using b(2) that(1) by (simp add: apply_budget_update_def)
      show "0 < rb_limit b \<longrightarrow> 0 < rb_limit b'"
        using that by (auto simp: apply_budget_update_def set_opt_def budget_update_valid_def split: option.splits)
    qed
    then show ?thesis using PatchBudget Some
      by (simp add: patch_budget_def request_scope_def raise_def ret_def update_budget_def Let_def budget_step.same)
  qed (use PatchBudget in \<open>simp add: patch_budget_def request_scope_def raise_def update_budget_def budget_step.same\<close>)
next
  case (DeleteBudget i)
  show ?thesis
  proof (cases "get_budget (bl_org w) i db")
    case (Some b)
    then have b: "row_find rb_id i (risk_budgets db) = Some b" "rb_org b = bl_org w" by (simp_all add: get_budget_Some)
    from budget_step.remove [OF b] row_find_Some [OF b(1)] show ?thesis using DeleteBudget Some
      by (simp add: delete_budget_route_def request_scope_def ret_def delete_budget_def Let_def)
  qed (use DeleteBudget in \<open>simp add: delete_budget_route_def request_scope_def raise_def delete_budget_def budget_step.same\<close>)
qed

lemma budget_step_others:
  assumes "budget_step org bs bs'" and "distinct (map rb_id bs)" and "other \<noteq> org"
  shows "filter (\<lambda>b. rb_org b = other) bs' = filter (\<lambda>b. rb_org b = other) bs"
  using assms
proof induction
  case (change b' bs b org)
  from row_find_Some [OF change(1)] have b: "b \<in> set bs" "rb_id b = rb_id b'" by simp_all
  have "x = b" if "x \<in> set bs" "rb_id x = rb_id b'" for x
    using change.prems(1) b that by (metis (no_types, lifting) distinct_map inj_onD)
  then have "filter (\<lambda>b. rb_org b = other) (row_put rb_id b' ys) = filter (\<lambda>b. rb_org b = other) ys"
    if "set ys \<subseteq> set bs" for ys
    using that change by (induction ys) (auto simp: row_put_def)
  then show ?case by simp
next
  case (remove i bs b org)
  from row_find_Some [OF remove(1)] have b: "b \<in> set bs" "rb_id b = i" by simp_all
  have "x = b" if "x \<in> set bs" "rb_id x = i" for x
    using remove.prems(1) b that by (metis (no_types, lifting) distinct_map inj_onD)
  with remove show ?case by (auto intro!: filter_cong)
qed (auto simp: row_add_def)

lemma budget_step_ok:
  assumes "budget_step org bs bs'" and "budgets_ok bs"
  shows "budgets_ok bs'"
  using assms
proof induction
  case (change b' bs b org)
  then show ?case by (auto simp: budgets_ok_def list_all_iff dest!: row_find_Some set_row_put)
next
  case (remove i bs b org)
  then show ?case by (auto simp: budgets_ok_def list_all_iff distinct_map intro: inj_on_subset)
qed (auto simp: budgets_ok_def row_add_def)

text \<open>
  Every sequence of requests keeps the identifiers of budgets unique and their limits
  positive, and as long as only other organizations send requests, the budgets of an organization stay
  as they are.
\<close>

theorem budgets_isolated:
  assumes "budgets_ok (risk_budgets db)" and "list_all (\<lambda>(w, q). bl_org w \<noteq> org) reqs"
  shows "budgets_ok (risk_budgets (foldl (budget_serve env) db reqs))
    \<and> filter (\<lambda>b. rb_org b = org) (risk_budgets (foldl (budget_serve env) db reqs))
      = filter (\<lambda>b. rb_org b = org) (risk_budgets db)"
  using assms
proof (induction reqs arbitrary: db)
  case (Cons x reqs)
  obtain w q where x: "x = (w, q)" by force
  note step = budget_serve_step [of w db env q]
  have "distinct (map rb_id (risk_budgets db))" using Cons.prems(1) by (simp add: budgets_ok_def)
  moreover have "org \<noteq> bl_org w" using Cons.prems(2) x by auto
  ultimately have "filter (\<lambda>b. rb_org b = org) (risk_budgets (budget_serve env db x))
    = filter (\<lambda>b. rb_org b = org) (risk_budgets db)" unfolding x by (rule budget_step_others [OF step])
  with Cons.IH [OF budget_step_ok [OF step Cons.prems(1)]] Cons.prems(2) x show ?case by simp
qed simp

section \<open>A domain of two lines\<close>

lemma splitlines_nonempty: "s \<noteq> [] \<Longrightarrow> splitlines s \<noteq> []"
  by (subst splitlines.simps) (simp split: list.split)

lemma splitlines_break: "0 < line_break s \<Longrightarrow> s \<noteq> [] \<Longrightarrow> length (splitlines s) = Suc (length (splitlines (drop (line_break s) s)))"
  by (subst splitlines.simps) simp

lemma splitlines_char: "line_break (x # s) = 0 \<Longrightarrow> length (splitlines (x # s)) = max 1 (length (splitlines s))"
  by (subst splitlines.simps) (simp split: list.split)

lemma line_break_cases:
  "line_break (x # s) \<in> {0, 1} \<or> (line_break (x # s) = 2 \<and> (\<exists>y t. s = y # t \<and> (y = CHR 0x0A \<and> x = CHR 0x0D \<or> y = CHR 0x85)))
   \<or> (line_break (x # s) = 3 \<and> (\<exists>z t. s = CHR 0x80 # z # t \<and> z \<noteq> CHR 0x0A))"
  by (cases s; cases "tl s") (auto simp: line_break_def)

lemma line_break_newline: "line_break (CHR 0x0A # s) = 1"
  by (simp add: line_break_def numeral_eq_Suc)

lemma splitlines_two:
  assumes "s = xs @ CHR 0x0A # y # ys"
  shows "2 \<le> length (splitlines s)"
  using assms
proof (induction "length s" arbitrary: s xs rule: less_induct)
  case less
  show ?case
  proof (cases xs)
    case Nil
    then have "length (splitlines s) = Suc (length (splitlines (y # ys)))"
      using less.prems splitlines_break [of s] line_break_newline [of "y # ys"] by simp
    then show ?thesis using splitlines_nonempty [of "y # ys"] by (cases "splitlines (y # ys)") simp_all
  next
    case (Cons x xs')
    let ?t = "xs' @ CHR 0x0A # y # ys"
    have s: "s = x # ?t" using less.prems Cons by simp
    have tail: "2 \<le> length (splitlines ?t)" by (rule less.hyps [OF _ refl]) (simp add: s)
    show ?thesis
    proof (cases "line_break s = 0")
      case True
      with tail s splitlines_char [of x ?t] show ?thesis by simp
    next
      case False
      then have len: "length (splitlines s) = Suc (length (splitlines (drop (line_break s) s)))"
        using s by (intro splitlines_break) simp_all
      have "drop (line_break s) s \<noteq> []"
        using line_break_cases [of x ?t] False s
        by (cases xs'; cases "tl xs'") (auto simp: numeral_eq_Suc)
      then show ?thesis using len splitlines_nonempty [of "drop (line_break s) s"]
        by (cases "splitlines (drop (line_break s) s)") simp_all
    qed
  qed
qed

lemma two_line_header: "CHR 0x0A \<in> set t \<Longrightarrow> \<not> header_ok (pre @ t @ y # ys)"
proof -
  assume "CHR 0x0A \<in> set t"
  then obtain a b where "t = a @ CHR 0x0A # b" by (meson split_list)
  then obtain z zs where "pre @ t @ y # ys = (pre @ a) @ CHR 0x0A # z # zs" by (cases b) auto
  from splitlines_two [OF this] show ?thesis by (simp add: header_ok_def)
qed

lemma budget_subject:
  "CHR 0x0A \<in> set (rb_domain b) \<Longrightarrow> al_title r = aa_title (budget_alert env b) \<Longrightarrow> \<not> header_ok (alert_subject r)"
  using two_line_header [of "rb_domain b" "''[CauSium]['' @ severity_label (al_severity r) @ ''] '' @ ''Risk budget configured: ''"
      "CHR '' ''" "''/ '' @ rb_environment b"]
  by (simp add: alert_subject_def budget_alert_def)

text \<open>The logical key of the alert a new budget raises.\<close>

definition budget_key :: "uuid \<Rightarrow> string" where
  "budget_key i = ''risk_budget:'' @ uuid_str i"

text \<open>
  One valid request of any user stops the delivery of mail: creating a risk budget whose
  domain holds a line break succeeds and leaves an alert that waits for delivery and that no mail can
  carry, the kind of alert a batch does not get past.
\<close>

theorem budget_with_line_break:
  assumes "post_budget env c org user r db = (Inr b, db')" and "CHR 0x0A \<in> set (bc_domain r)"
    and "list_all (\<lambda>x. al_logical_key x \<noteq> Some (budget_key (fresh c 4))) (alert_records db)"
  shows "\<exists>x \<in> set (alert_records db'). waiting (clock c 0) x \<and> al_org x = org \<and> \<not> header_ok (alert_subject x)"
proof -
  let ?b = "new_budget c org r"
  let ?db = "db\<lparr>risk_budgets := row_add ?b (risk_budgets db)\<rparr>"
  let ?a = "budget_alert env ?b"
  have key: "resolved_key ?a = Some (budget_key (fresh c 4))"
    by (simp add: resolved_key_def budget_alert_def given_def default_logical_key_def text_of_def
        new_budget_def budget_key_def)
  have "filter (has_logical_key o1 u k (budget_key (fresh c 4))) (alert_records db) = []" for o1 u k
    using assms(3) by (auto simp: has_logical_key_def filter_empty_conv list_all_iff)
  then have none: "get_alert_by_logical_key o1 u k (budget_key (fresh c 4)) ?db = Inr None" for o1 u k
    by (simp add: get_alert_by_logical_key_def)
  have src: "same_source ?a ?db = Inr None" by (simp add: same_source_def key none split: if_split)
  obtain m where m: "equivalent_alert env (clock c 2) ''risk_budget.created'' ?a ?db = (m, None)"
    by (simp add: equivalent_alert_def SYNC_DEDUPE_EVENT_TYPES_def ANOMALY_DEDUPE_EVENT_TYPES_def
        BUDGET_DEDUPE_EVENT_TYPES_def)
  let ?a' = "?a\<lparr>aa_metadata := (if m = [] then None else Some m)\<rparr>"
  let ?r = "new_alert_record c ?a'"
  have key': "resolved_key ?a' = Some (budget_key (fresh c 4))"
    using key by (auto simp: resolved_key_def split: if_splits)
  have org: "aa_org ?a' = org" by (simp add: budget_alert_def new_budget_def)
  have general: "create_alert c A ?db = (Inr (new_alert_record c A), ?db\<lparr>alert_records := alert_records db @ [new_alert_record c A],
      published := published ?db @ [(aa_org A, new_alert_record c A)]\<rparr>) \<or> (\<exists>e. create_alert c A ?db = (Inl e, ?db))"
    if "resolved_key A = Some (budget_key (fresh c 4))" for A
    by (simp add: create_alert_def Let_def row_add_def that none [unfolded row_add_def])
  note create = general [OF key', unfolded org]
  from assms(1) have "?r \<in> set (alert_records db')"
    using create by (auto simp: post_budget_def create_budget_def create_realtime_alert_def create_if_rule_matches_def
        andthen_def ret_def raise_def request_scope_def deduplicated_def src m Let_def split: if_splits)
  moreover have "waiting (clock c 0) ?r"
    by (simp add: waiting_def new_alert_record_def LOOKBACK_HOURS_def minutes_us_def)
  moreover have "al_org ?r = org" by (simp add: budget_alert_def new_budget_def)
  moreover have "\<not> header_ok (alert_subject ?r)"
    by (rule budget_subject [of ?b _ env]) (simp_all add: assms(2) new_budget_def new_alert_record_def)
  ultimately show ?thesis by blast
qed

section \<open>Examples\<close>

definition sample_risk_db :: "risk_budget list \<Rightarrow> risk_db" where
  "sample_risk_db bs = notif_db.extend (sample_notif_db [] [] []) (risk_db.fields bs)"

definition two_line_budget :: risk_budget_create where
  "two_line_budget = \<lparr>bc_name = ''nm'', bc_domain = [CHR ''a'', CHR 0x0A], bc_environment = ''p'', bc_type = ERROR_RATE,
     bc_period = BUDGET_WEEKLY, bc_limit = 5\<rparr>"

definition sample_budget_caller :: "uuid \<Rightarrow> budget_caller" where
  "sample_budget_caller org = \<lparr>bl_call = notif_call 1, bl_org = org, bl_user = 9\<rparr>"

lemma budgets_isolated_witness:
  "budgets_ok (risk_budgets (foldl (budget_serve undefined)
      (sample_risk_db [new_budget (notif_call 7) 1 two_line_budget]) [(sample_budget_caller 2, DeleteBudget 74)]))
   \<and> filter (\<lambda>b. rb_org b = 1) (risk_budgets (foldl (budget_serve undefined)
      (sample_risk_db [new_budget (notif_call 7) 1 two_line_budget]) [(sample_budget_caller 2, DeleteBudget 74)]))
     = filter (\<lambda>b. rb_org b = 1) (risk_budgets (sample_risk_db [new_budget (notif_call 7) 1 two_line_budget]))"
  by (rule budgets_isolated)
    (simp_all add: sample_risk_db_def notif_db.defs risk_db.defs budgets_ok_def new_budget_def two_line_budget_def
      sample_budget_caller_def)

lemma sample_budget_posted:
  "\<exists>b db'. post_budget undefined (notif_call 1) 1 9 two_line_budget (sample_risk_db []) = (Inr b, db')"
proof -
  let ?b = "new_budget (notif_call 1) 1 two_line_budget"
  let ?db = "(sample_risk_db [])\<lparr>risk_budgets := row_add ?b (risk_budgets (sample_risk_db []))\<rparr>"
  let ?a = "budget_alert undefined ?b"
  have empty: "alert_records ?db = []" "alert_records (sample_risk_db []) = []" "risk_budgets (sample_risk_db []) = []"
    by (simp_all add: sample_risk_db_def notif_db.defs risk_db.defs sample_notif_db_def)
  have "same_source ?a ?db = Inr None"
    by (simp add: same_source_def get_alert_by_logical_key_def empty split: option.split)
  moreover obtain m where "equivalent_alert undefined (clock (notif_call 1) 2) ''risk_budget.created'' ?a ?db = (m, None)"
    by (simp add: equivalent_alert_def SYNC_DEDUPE_EVENT_TYPES_def ANOMALY_DEDUPE_EVENT_TYPES_def
        BUDGET_DEDUPE_EVENT_TYPES_def)
  moreover have "\<not> violates_unique x ?db" for x by (simp add: violates_unique_def empty split: option.split)
  moreover have "budget_create_valid two_line_budget"
    by (simp add: budget_create_valid_def two_line_budget_def char_count_def)
  ultimately show ?thesis
    by (simp add: post_budget_def create_budget_def create_realtime_alert_def create_if_rule_matches_def andthen_def
        ret_def request_scope_def deduplicated_def create_alert_def Let_def empty)
qed

lemma budget_with_line_break_witness:
  "\<exists>x \<in> set (alert_records (snd (post_budget undefined (notif_call 1) 1 9 two_line_budget (sample_risk_db [])))).
     waiting 10 x \<and> al_org x = 1 \<and> \<not> header_ok (alert_subject x)"
proof -
  from sample_budget_posted obtain b db' where
    run: "post_budget undefined (notif_call 1) 1 9 two_line_budget (sample_risk_db []) = (Inr b, db')" by blast
  have "alert_records (sample_risk_db []) = []"
    by (simp add: sample_risk_db_def notif_db.defs risk_db.defs sample_notif_db_def)
  moreover have "clock (notif_call 1) 0 = 10" by (simp add: notif_call_def)
  moreover have "CHR 0x0A \<in> set (bc_domain two_line_budget)" by (simp add: two_line_budget_def)
  ultimately show ?thesis using budget_with_line_break [OF run] run by simp
qed

end
