(* ===== verification/Realtime.thy ===== *)
theory Realtime
  imports Prelude "HOL-Library.Sublist"
begin

text \<open>
  \<open>domains/notifications/realtime.py\<close>: the in-process broker that hands notification events to the
  streams of an organization, each through a queue of at most 200 events. A queue drops its oldest event
  to make room, so a stream that keeps up misses nothing and one that falls behind sees the newest
  events, in order and each at most once. The lock of the broker makes each operation one step.
\<close>

section \<open>The broker\<close>

definition QUEUE_SIZE :: nat where "QUEUE_SIZE = 200"

type_synonym 'e broker = "uuid \<Rightarrow> (nat \<times> 'e list) list"

definition put_nowait :: "'e \<Rightarrow> 'e list \<Rightarrow> 'e list option" where
  "put_nowait e q = (if length q < QUEUE_SIZE then Some (q @ [e]) else None)"

definition offer :: "'e \<Rightarrow> 'e list \<Rightarrow> 'e list" where
  "offer e q =
     (case put_nowait e q of
        Some q' \<Rightarrow> q'
      | None \<Rightarrow> let q = tl q in (case put_nowait e q of Some q' \<Rightarrow> q' | None \<Rightarrow> q))"

text \<open>A new queue is named by an identifier of its own.\<close>

definition subscribe :: "uuid \<Rightarrow> nat \<Rightarrow> 'e broker \<Rightarrow> 'e broker" where
  "subscribe org k b = b(org := b org @ [(k, [])])"

definition unsubscribe :: "uuid \<Rightarrow> nat \<Rightarrow> 'e broker \<Rightarrow> 'e broker" where
  "unsubscribe org k b = b(org := filter (\<lambda>(j, q). j \<noteq> k) (b org))"

definition publish :: "uuid \<Rightarrow> 'e \<Rightarrow> 'e broker \<Rightarrow> 'e broker" where
  "publish org e b = b(org := map (\<lambda>(k, q). (k, offer e q)) (b org))"

text \<open>\<open>queue.get()\<close> of a stream: its oldest event, none while it has to wait.\<close>

definition take_event :: "uuid \<Rightarrow> nat \<Rightarrow> 'e broker \<Rightarrow> 'e option \<times> 'e broker" where
  "take_event org k b =
     (case map_of (b org) k of
        None \<Rightarrow> (None, b)
      | Some [] \<Rightarrow> (None, b)
      | Some (e # _) \<Rightarrow> (Some e, b(org := map (\<lambda>(j, q). (j, if j = k then tl q else q)) (b org))))"

section \<open>What a stream receives\<close>

datatype 'e broker_op = Publish uuid 'e | Take uuid nat | Join uuid nat | Leave uuid nat

fun broker_step :: "'e broker \<times> 'e list \<Rightarrow> uuid \<Rightarrow> nat \<Rightarrow> 'e broker_op \<Rightarrow> 'e broker \<times> 'e list" where
  "broker_step (b, got) org k (Publish o1 e) = (publish o1 e b, got)"
| "broker_step (b, got) org k (Take o1 j) =
     (let (x, b') = take_event o1 j b
      in (b', if o1 = org \<and> j = k then got @ (case x of None \<Rightarrow> [] | Some e \<Rightarrow> [e]) else got))"
| "broker_step (b, got) org k (Join o1 j) = (subscribe o1 j b, got)"
| "broker_step (b, got) org k (Leave o1 j) = (unsubscribe o1 j b, got)"

definition broker_run :: "uuid \<Rightarrow> nat \<Rightarrow> 'e broker_op list \<Rightarrow> 'e broker \<times> 'e list \<Rightarrow> 'e broker \<times> 'e list" where
  "broker_run org k ops s = foldl (\<lambda>s op. broker_step s org k op) s ops"

text \<open>The stream under observation neither joins again nor leaves.\<close>

fun keeps_stream :: "uuid \<Rightarrow> nat \<Rightarrow> 'e broker_op \<Rightarrow> bool" where
  "keeps_stream org k (Join o1 j) \<longleftrightarrow> o1 \<noteq> org \<or> j \<noteq> k"
| "keeps_stream org k (Leave o1 j) \<longleftrightarrow> o1 \<noteq> org \<or> j \<noteq> k"
| "keeps_stream org k _ \<longleftrightarrow> True"

fun published_to :: "uuid \<Rightarrow> 'e broker_op list \<Rightarrow> 'e list" where
  "published_to org [] = []"
| "published_to org (Publish o1 e # ops) = (if o1 = org then e # published_to org ops else published_to org ops)"
| "published_to org (_ # ops) = published_to org ops"

definition queue_of :: "uuid \<Rightarrow> nat \<Rightarrow> 'e broker \<Rightarrow> 'e list option" where
  "queue_of org k b = map_of (b org) k"

lemma offer_tl: "length q \<le> QUEUE_SIZE \<Longrightarrow> offer e q = (if length q < QUEUE_SIZE then q else tl q) @ [e]"
  by (cases q) (auto simp: offer_def put_nowait_def QUEUE_SIZE_def)

lemma map_of_map_snd: "map_of (map (\<lambda>(k, q). (k, f k q)) xs) k = map_option (f k) (map_of xs k)"
  by (induction xs) auto

lemma map_of_filter_other: "j \<noteq> k \<Longrightarrow> map_of (filter (\<lambda>(i, q). i \<noteq> j) xs) k = map_of xs k"
  by (induction xs) auto

lemma queue_publish [simp]:
  "queue_of org k (publish o1 e b) = (if o1 = org then map_option (offer e) (queue_of org k b) else queue_of org k b)"
  using map_of_map_snd [of "\<lambda>_. offer e" "b org" k] by (simp add: queue_of_def publish_def)

lemma queue_take [simp]:
  "queue_of org k (snd (take_event o1 j b)) =
     (if o1 = org \<and> j = k then map_option tl (queue_of org k b) else queue_of org k b)"
  using map_of_map_snd [of "\<lambda>i q. if i = j then tl q else q" "b org" k]
  by (auto simp: queue_of_def take_event_def split: option.split list.split)

lemma taken_event:
  "fst (take_event org k b) = (case queue_of org k b of None \<Rightarrow> None | Some [] \<Rightarrow> None | Some (e # _) \<Rightarrow> Some e)"
  by (simp add: queue_of_def take_event_def split: option.split list.split)

lemma queue_join [simp]: "o1 \<noteq> org \<or> j \<noteq> k \<Longrightarrow> queue_of org k (subscribe o1 j b) = queue_of org k b"
  by (auto simp: queue_of_def subscribe_def map_add_def split: option.split)

lemma queue_leave [simp]: "o1 \<noteq> org \<or> j \<noteq> k \<Longrightarrow> queue_of org k (unsubscribe o1 j b) = queue_of org k b"
  by (auto simp: queue_of_def unsubscribe_def map_of_filter_other)

text \<open>
  The stream as its specification sees it: the events received, then those queued, are the published
  events less some that were dropped from the front of the queue.
\<close>

definition stream_ok :: "'e list \<Rightarrow> 'e list \<Rightarrow> 'e list \<Rightarrow> bool" where
  "stream_ok got q pub \<longleftrightarrow> length q \<le> QUEUE_SIZE \<and> suffix q pub
     \<and> (\<exists>early. pub = early @ q \<and> subseq got early)"

lemma stream_publish:
  assumes "stream_ok got q pub"
  shows "stream_ok got (offer e q) (pub @ [e])"
proof -
  from assms obtain early where e: "pub = early @ q" "subseq got early" and len: "length q \<le> QUEUE_SIZE"
    by (auto simp: stream_ok_def)
  show ?thesis
  proof (cases "length q < QUEUE_SIZE")
    case True
    with e len show ?thesis by (auto simp: stream_ok_def offer_tl suffix_def)
  next
    case False
    then obtain x xs where q: "q = x # xs" by (cases q) (auto simp: QUEUE_SIZE_def)
    have "subseq got (early @ [x])" using e(2) by (metis append_Nil2 list_emb_Nil list_emb_append_mono)
    moreover have "pub @ [e] = (early @ [x]) @ (xs @ [e])" using e(1) q by simp
    moreover have "length (xs @ [e]) \<le> QUEUE_SIZE" using len q by simp
    ultimately show ?thesis using False len q by (auto simp: stream_ok_def offer_tl suffix_def)
  qed
qed

lemma stream_take:
  assumes "stream_ok got (e # q) pub"
  shows "stream_ok (got @ [e]) q pub"
proof -
  from assms obtain early where e: "pub = early @ e # q" "subseq got early"
    by (auto simp: stream_ok_def)
  have "subseq (got @ [e]) (early @ [e])" using e(2) by (simp add: list_emb_append_mono)
  moreover have "pub = (early @ [e]) @ q" using e(1) by simp
  moreover have "length q \<le> QUEUE_SIZE" using assms by (simp add: stream_ok_def)
  ultimately show ?thesis by (auto simp: stream_ok_def suffix_def)
qed

lemma broker_step_stream:
  assumes "queue_of org k b = Some q" and "stream_ok got q pub" and "keeps_stream org k op"
  shows "\<exists>q'. queue_of org k (fst (broker_step (b, got) org k op)) = Some q'
    \<and> stream_ok (snd (broker_step (b, got) org k op)) q' (pub @ published_to org [op])"
proof (cases op)
  case (Publish o1 e)
  then show ?thesis using assms stream_publish [OF assms(2), of e] by simp
next
  case (Take o1 j)
  obtain x b' where t: "take_event o1 j b = (x, b')" by force
  then have b': "queue_of org k b' = (if o1 = org \<and> j = k then Some (tl q) else Some q)"
    using queue_take [of org k o1 j b] assms(1) by simp
  show ?thesis
  proof (cases "o1 = org \<and> j = k")
    case True
    with t taken_event [of org k b] assms(1) have x: "x = (case q of [] \<Rightarrow> None | e # _ \<Rightarrow> Some e)"
      by (auto split: list.splits)
    show ?thesis using True Take t b' x assms(2) stream_take by (cases q) auto
  qed (use Take t b' assms(2) in auto)
next
  case (Join o1 j)
  then show ?thesis using assms by simp
next
  case (Leave o1 j)
  then show ?thesis using assms by simp
qed

lemma published_to_append: "published_to org (xs @ ys) = published_to org xs @ published_to org ys"
  by (induction org xs rule: published_to.induct) simp_all

text \<open>
  The abstract stream: the log of the organization since the stream joined, how many of its last events
  wait, and what was received. Publishing adds to the log and one more event waits, 200 at most; reading
  takes the first of those that wait.
\<close>

fun stream_step :: "uuid \<Rightarrow> nat \<Rightarrow> 'e list \<times> nat \<times> 'e list \<Rightarrow> 'e broker_op \<Rightarrow> 'e list \<times> nat \<times> 'e list" where
  "stream_step org k (evs, n, got) (Publish o1 e) =
     (if o1 = org then (evs @ [e], min 200 (n + 1), got) else (evs, n, got))"
| "stream_step org k (evs, n, got) (Take o1 j) =
     (if o1 = org \<and> j = k \<and> 0 < n then (evs, n - 1, got @ [evs ! (length evs - n)]) else (evs, n, got))"
| "stream_step org k s _ = s"

definition stream_run :: "uuid \<Rightarrow> nat \<Rightarrow> 'e broker_op list \<Rightarrow> 'e list \<times> nat \<times> 'e list" where
  "stream_run org k ops = foldl (stream_step org k) ([], 0, []) ops"

definition abstracts_stream :: "uuid \<Rightarrow> nat \<Rightarrow> 'e broker \<times> 'e list \<Rightarrow> 'e list \<times> nat \<times> 'e list \<Rightarrow> bool" where
  "abstracts_stream org k s a \<longleftrightarrow> (case a of (evs, n, got) \<Rightarrow>
     queue_of org k (fst s) = Some (drop (length evs - n) evs) \<and> snd s = got \<and> n \<le> length evs \<and> n \<le> 200)"

lemma offer_drop:
  assumes "n \<le> length evs" "n \<le> 200"
  shows "offer e (drop (length evs - n) evs) = drop (Suc (length evs) - min 200 (n + 1)) (evs @ [e])"
proof (cases "n < 200")
  case True
  then show ?thesis using assms by (simp add: offer_def put_nowait_def QUEUE_SIZE_def)
next
  case False
  with assms have n: "n = 200" by simp
  have "Suc (length evs) - 200 = Suc (length evs - 200)" using assms(1) n by simp
  with n assms(1) show ?thesis
    by (simp add: offer_tl QUEUE_SIZE_def tl_drop drop_Suc)
qed

lemma step_abstracts:
  assumes "abstracts_stream org k s a" and "keeps_stream org k op"
  shows "abstracts_stream org k (broker_step s org k op) (stream_step org k a op)"
proof -
  obtain b got evs n where s: "s = (b, got)" and a: "a = (evs, n, got)"
    using assms(1) by (cases s; cases a) (auto simp: abstracts_stream_def)
  have q: "queue_of org k b = Some (drop (length evs - n) evs)" "n \<le> length evs" "n \<le> 200"
    using assms(1) by (simp_all add: s a abstracts_stream_def)
  show ?thesis
  proof (cases op)
    case (Publish o1 e)
    then show ?thesis using q offer_drop [OF q(2,3)] by (auto simp: s a abstracts_stream_def)
  next
    case (Take o1 j)
    obtain x b' where t: "take_event o1 j b = (x, b')" by force
    have b': "queue_of org k b' = (if o1 = org \<and> j = k then Some (tl (drop (length evs - n) evs)) else queue_of org k b)"
      using queue_take [of org k o1 j b] q(1) t by simp
    show ?thesis
    proof (cases "o1 = org \<and> j = k")
      case mine: True
      with t taken_event [of org k b] q(1)
      have x: "x = (case drop (length evs - n) evs of [] \<Rightarrow> None | e # _ \<Rightarrow> Some e)" by (auto split: list.splits)
      show ?thesis
      proof (cases n)
        case 0
        with mine Take t b' x q show ?thesis by (simp add: s a abstracts_stream_def)
      next
        case (Suc m)
        then have front: "drop (length evs - n) evs = evs ! (length evs - n) # drop (length evs - m) evs"
          using q(2) Cons_nth_drop_Suc [of "length evs - n" evs] by (simp add: Suc_diff_Suc)
        then have "x = Some (evs ! (length evs - n))" using x by simp
        with mine Take t b' front Suc q(2,3) show ?thesis by (simp add: s a abstracts_stream_def)
      qed
    qed (use Take t b' q in \<open>auto simp: s a abstracts_stream_def\<close>)
  qed (use assms(2) q in \<open>auto simp: s a abstracts_stream_def\<close>)
qed

lemma events_of_run: "fst (stream_run org k ops) = published_to org ops"
proof -
  have "fst (foldl (stream_step org k) a ops) = fst a @ published_to org ops" for a :: "'a list \<times> nat \<times> 'a list"
  proof (induction ops arbitrary: a)
    case (Cons op ops)
    then show ?case by (cases a; cases op) auto
  qed simp
  then show ?thesis by (simp add: stream_run_def)
qed

text \<open>
  C19 (refinement): the broker refines a log of the events of an organization. From the moment a stream
  joins, for every interleaving of publishing, reading, joining and leaving, its queue is exactly the last
  events of the log that wait, where each event published to the organization adds one up to 200 and each
  reading takes the oldest, and it received exactly the events those readings name. So what it received is
  in the order of the log, none twice, before the queue, and never of another organization.
\<close>

theorem broker_refines_log:
  assumes "map_of (b org) k = None" and "list_all (keeps_stream org k) ops"
  shows "case stream_run org k ops of (evs, n, got) \<Rightarrow>
      queue_of org k (fst (broker_run org k ops (subscribe org k b, []))) = Some (drop (length evs - n) evs)
    \<and> snd (broker_run org k ops (subscribe org k b, [])) = got
    \<and> evs = published_to org ops \<and> n \<le> 200 \<and> n \<le> length evs
    \<and> subseq got (take (length evs - n) evs)"
proof -
  let ?s = "broker_run org k ops (subscribe org k b, [])"
  have run: "abstracts_stream org k (broker_run org k ops s) (foldl (stream_step org k) a ops)"
    if "abstracts_stream org k s a" "list_all (keeps_stream org k) ops" for s a and ops :: "'a broker_op list"
    using that by (induction ops arbitrary: s a) (simp_all add: broker_run_def step_abstracts)
  have "abstracts_stream org k (subscribe org k b, []) ([], 0, [])"
    using assms(1) by (simp add: abstracts_stream_def queue_of_def subscribe_def map_add_def)
  from run [OF this assms(2)] have abs: "abstracts_stream org k ?s (stream_run org k ops)" by (simp add: stream_run_def)
  have old: "\<exists>q. queue_of org k (fst (broker_run org k ops s)) = Some q
      \<and> stream_ok (snd (broker_run org k ops s)) q (pub @ published_to org ops)"
    if "queue_of org k (fst s) = Some q" "stream_ok (snd s) q pub" "list_all (keeps_stream org k) ops"
    for s and q pub :: "'a list" and ops
    using that
  proof (induction ops arbitrary: s q pub)
    case (Cons op ops)
    obtain c got where s: "s = (c, got)" by force
    from broker_step_stream [of org k c q got pub op] Cons.prems s obtain q' where
      q': "queue_of org k (fst (broker_step s org k op)) = Some q'"
        "stream_ok (snd (broker_step s org k op)) q' (pub @ published_to org [op])" by auto
    from Cons.IH [OF q'] Cons.prems(3) published_to_append [of org "[op]" ops] show ?case
      by (simp add: broker_run_def)
  qed (auto simp: broker_run_def)
  obtain q where q: "queue_of org k (fst ?s) = Some q" "stream_ok (snd ?s) q (published_to org ops)"
    using old [of "(subscribe org k b, [])" "[]" "[]" ops] assms
    by (auto simp: queue_of_def subscribe_def stream_ok_def map_add_def)
  obtain evs n got where l: "stream_run org k ops = (evs, n, got)" by (cases "stream_run org k ops")
  with abs q(1) have "q = drop (length evs - n) evs" "got = snd ?s" "n \<le> length evs" by (simp_all add: abstracts_stream_def)
  moreover have "evs = published_to org ops" using events_of_run [of org k ops] l by simp
  ultimately have "subseq got (take (length evs - n) evs)"
    using q(2) by (auto simp: stream_ok_def) (metis append_eq_append_conv append_take_drop_id)
  then show ?thesis using abs l events_of_run [of org k ops] by (simp add: abstracts_stream_def)
qed

lemma broker_refines_log_witness:
  "queue_of 1 0 (fst (broker_run 1 0 [Publish 1 ''a'', Publish 2 ''b'', Take 1 0, Publish 1 ''c'']
       (subscribe 1 0 (\<lambda>_. []), []))) = Some [''c'']
    \<and> snd (broker_run 1 0 [Publish 1 ''a'', Publish 2 ''b'', Take 1 0, Publish 1 ''c'']
       (subscribe 1 0 (\<lambda>_. []), [])) = [''a'']"
  using broker_refines_log [of "\<lambda>_. []" 1 0 "[Publish 1 ''a'', Publish 2 ''b'', Take 1 0, Publish 1 ''c'']"]
  by (simp add: stream_run_def)

end
