(* ===== verification/EngineText.thy ===== *)
theory EngineText
  imports Opportunities Url Jobs VmRightsizing
begin

text \<open>
  The pure helpers of \<open>domains/decision_engine/service.py\<close>: the text of amounts and of Python values,
  the classification of services and Advisor descriptions, the machine family of a SKU, the reading of
  query rows and tags, and the key that identifies the target of an opportunity. Text is ASCII where the
  code depends on the character (\<open>str.lower\<close>, \<open>str.strip\<close>, slices, the regular expressions); a byte above
  127 counts as a letter of a word for \<open>\b\<close>. \<open>frepr\<close> is \<open>float.__repr__\<close>.
\<close>

section \<open>The text of Python values\<close>

text \<open>\<open>repr\<close> of a string and of the values an evidence dictionary holds, and \<open>str\<close> of a value.\<close>

definition repr_char :: "char \<Rightarrow> char \<Rightarrow> string" where
  "repr_char q c =
     (if c = q \<or> c = CHR 0x5C then [CHR 0x5C, c]
      else if c = CHR 0x0A then [CHR 0x5C, CHR ''n'']
      else if c = CHR 0x0D then [CHR 0x5C, CHR ''r'']
      else if c = CHR 0x09 then [CHR 0x5C, CHR ''t'']
      else if (of_char c :: nat) < 32 \<or> (of_char c :: nat) = 127
        then CHR 0x5C # CHR ''x'' # hex_digits 2 (of_char c)
      else [c])"

definition str_repr :: "string \<Rightarrow> string" where
  "str_repr s =
     (let q = (if CHR 0x27 \<in> set s \<and> CHR 0x22 \<notin> set s then CHR 0x22 else CHR 0x27)
      in [q] @ concat (map (repr_char q) s) @ [q])"

fun py_repr :: "(pyfloat \<Rightarrow> string) \<Rightarrow> json \<Rightarrow> string" where
  "py_repr frepr JNull = ''None''"
| "py_repr frepr (JBool b) = (if b then ''True'' else ''False'')"
| "py_repr frepr (JInt i) = int_str i"
| "py_repr frepr (JFloat x) = frepr x"
| "py_repr frepr (JStr s) = str_repr s"
| "py_repr frepr (JList vs) = ''['' @ py_join '', '' (map (py_repr frepr) vs) @ '']''"
| "py_repr frepr (JDict kvs) =
     ''{'' @ py_join '', '' (map (\<lambda>(k, v). str_repr k @ '': '' @ py_repr frepr v) kvs) @ ''}''"

definition py_str :: "(pyfloat \<Rightarrow> string) \<Rightarrow> json \<Rightarrow> string" where
  "py_str frepr v = (case v of JStr s \<Rightarrow> s | _ \<Rightarrow> py_repr frepr v)"

text \<open>\<open>str(v or "")\<close>.\<close>

definition text_or_empty :: "(pyfloat \<Rightarrow> string) \<Rightarrow> json \<Rightarrow> string" where
  "text_or_empty frepr v = (if truthy v then py_str frepr v else [])"

text \<open>The integer part of \<open>f"{k:,}"\<close> with points between the groups.\<close>

definition dotted :: "nat \<Rightarrow> string" where
  "dotted k = map (\<lambda>c. if c = CHR '','' then CHR ''.'' else c) (group_str k)"

definition fmt_brl :: "pyfloat option \<Rightarrow> string" where
  "fmt_brl value =
     (case value of
        None \<Rightarrow> ''R$ 0''
      | Some v \<Rightarrow>
          (let minus = (if v < 0 then ''-'' else []) in
           if of_int (if v < 0 then \<lceil>v\<rceil> else \<lfloor>v\<rfloor>) = v
           then ''R$ '' @ minus @ dotted (nat (round_even \<bar>v\<bar>))
           else let k = nat (round_even (\<bar>v\<bar> * 100))
                in ''R$ '' @ minus @ dotted (k div 100) @ '','' @ pad_digits 2 (k mod 100)))"

section \<open>Classification\<close>

definition contains_any :: "string \<Rightarrow> string list \<Rightarrow> bool" where
  "contains_any s ks \<longleftrightarrow> list_ex (py_contains s) ks"

definition classify_service :: "string \<Rightarrow> opportunity_category" where
  "classify_service service =
     (let s = py_lower service in
      if contains_any s [''kubernetes'', ''aks''] then AKS_NODEPOOL_RIGHTSIZING
      else if contains_any s [''virtual machine'', ''compute''] then RIGHTSIZING
      else if contains_any s [''storage'', ''blob'', ''disk''] then STORAGE_OPTIMIZATION
      else if contains_any s [''bandwidth'', ''network'', ''cdn''] then NETWORK_OPTIMIZATION
      else if contains_any s [''sql'', ''database'', ''cosmos''] then RIGHTSIZING
      else IDLE_RESOURCES)"

definition status_value :: "opportunity_status \<Rightarrow> string" where
  "status_value s = (case s of OPP_OPEN \<Rightarrow> ''open'' | OPP_IN_PROGRESS \<Rightarrow> ''in_progress''
     | OPP_RESOLVED \<Rightarrow> ''resolved'' | OPP_DISMISSED \<Rightarrow> ''dismissed'' | OPP_VALIDATED \<Rightarrow> ''validated'')"

definition status_alias :: "opportunity_status \<Rightarrow> string" where
  "status_alias s = (if s = OPP_OPEN then ''detected'' else status_value s)"

definition map_status_to_audit_event ::
  "opportunity_status \<Rightarrow> opportunity_status \<Rightarrow> (string \<times> string) option" where
  "map_status_to_audit_event previous_status new_status =
     (if new_status = OPP_RESOLVED then Some (''opportunity.accepted'', ''accepted'')
      else if new_status = OPP_DISMISSED then
        (if previous_status = OPP_OPEN then Some (''opportunity.ignored'', ''ignored'')
         else Some (''opportunity.dismissed'', ''dismissed''))
      else None)"

definition generate_title :: "opportunity_category \<Rightarrow> string \<Rightarrow> string \<Rightarrow> string" where
  "generate_title category service team =
     (case category of
        IDLE_RESOURCES \<Rightarrow> ''Idle '' @ service @ '' resources in team '' @ team
      | RIGHTSIZING \<Rightarrow> ''Rightsize '' @ service @ '' for team '' @ team
      | AKS_NODEPOOL_RIGHTSIZING \<Rightarrow> ''Rightsize AKS node pool for team '' @ team
      | AKS_AUTOSCALER_RECOMMENDATION \<Rightarrow> ''Enable AKS autoscaler for team '' @ team
      | STORAGE_OPTIMIZATION \<Rightarrow> ''Optimize '' @ service @ '' storage tier''
      | NETWORK_OPTIMIZATION \<Rightarrow> ''Reduce '' @ service @ '' network costs''
      | RESERVED_INSTANCES \<Rightarrow> ''Purchase Reserved Instances for '' @ service
      | LICENSE_OPTIMIZATION \<Rightarrow> ''Optimize '' @ service @ '' licenses''
      | ARCHITECTURE_CHANGE \<Rightarrow> ''Architectural optimization for '' @ service)"

text \<open>The runs of \<open>[a-z0-9]\<close> in the first fifty characters, joined by \<open>_\<close>.\<close>

definition is_key_char :: "char \<Rightarrow> bool" where
  "is_key_char c \<longleftrightarrow> is_digit_char c \<or> (let n = of_char c :: nat in 97 \<le> n \<and> n \<le> 122)"

fun squeeze :: "string \<Rightarrow> string" where
  "squeeze [] = []"
| "squeeze (c # s) =
     (if is_key_char c then c # squeeze s
      else case squeeze s of [] \<Rightarrow> [CHR ''_'']
        | d # t \<Rightarrow> if d = CHR ''_'' then d # t else CHR ''_'' # d # t)"

definition strip_underscores :: "string \<Rightarrow> string" where
  "strip_underscores s = (let f = dropWhile (\<lambda>c. c = CHR ''_'') in rev (f (rev (f s))))"

definition normalize_advisor_type :: "string \<Rightarrow> string" where
  "normalize_advisor_type d =
     (if contains_any d [''savings plan'', ''saving plan''] then ''savings_plan''
      else if contains_any d [''reserved'', ''reservation''] then ''reserved_instance''
      else if contains_any d [''shut down'', ''idle'', ''deallocate''] then ''idle_resource''
      else if contains_any d [''right-size'', ''rightsize'', ''resize''] then ''rightsizing''
      else let t = strip_underscores (squeeze (take 50 d)) in if t = [] then ''other'' else t)"

definition advisor_group_category_title ::
  "string \<Rightarrow> string \<Rightarrow> nat \<Rightarrow> string option \<Rightarrow> opportunity_category \<times> string" where
  "advisor_group_category_title norm_type subscription_id rec_count subscription_name =
     (let sub_display = (case subscription_name of
            Some n \<Rightarrow> if n \<noteq> [] then n else take 8 subscription_id @ ''...''
          | None \<Rightarrow> take 8 subscription_id @ ''...'');
          count_suffix = (if rec_count > 1 then '' ('' @ nat_str rec_count @ '' options)'' else [])
      in if norm_type = ''savings_plan''
           then (RESERVED_INSTANCES, ''Azure Savings Plan for '' @ sub_display @ count_suffix)
         else if norm_type = ''reserved_instance''
           then (RESERVED_INSTANCES, ''Reserved Instance coverage for '' @ sub_display @ count_suffix)
         else if norm_type = ''idle_resource''
           then (IDLE_RESOURCES, ''Idle resources in '' @ sub_display @ count_suffix)
         else if norm_type = ''rightsizing''
           then (RIGHTSIZING, ''Rightsizing opportunities in '' @ sub_display @ count_suffix)
         else (ARCHITECTURE_CHANGE,
           ''Azure Advisor: cost optimization for '' @ sub_display @ count_suffix))"

section \<open>Machine families\<close>

definition is_word_char :: "char \<Rightarrow> bool" where
  "is_word_char c \<longleftrightarrow> is_alnum c \<or> c = CHR ''_'' \<or> (of_char c :: nat) > 127"

text \<open>\<open>^standard[_-]\<close> removed, and the two prefixes \<open>^([a-z]\d+)\.\<close> and \<open>^([a-z]\d+)-\<close>, ignoring case.\<close>

definition drop_standard :: "string \<Rightarrow> string" where
  "drop_standard s =
     (if py_startswith (py_lower s) ''standard'' \<and> length s > 8 \<and> s ! 8 \<in> {CHR ''_'', CHR ''-''}
      then drop 9 s else s)"

definition letter_digits :: "char \<Rightarrow> string \<Rightarrow> string option" where
  "letter_digits stop s =
     (case s of
        [] \<Rightarrow> None
      | c # r \<Rightarrow>
          (let ds = takeWhile is_digit_char r; t = dropWhile is_digit_char r in
           if is_alpha c \<and> ds \<noteq> [] \<and> t \<noteq> [] \<and> hd t = stop then Some (py_lower (c # ds)) else None))"

text \<open>
  The first match of \<open>\b([A-Za-z]+\d+[A-Za-z0-9]*)\b\<close>: at the start of a word, letters and then a digit,
  up to the end of the run of letters and digits, which must be the end of the word. \<open>prev\<close> says whether
  the character before is of a word.
\<close>

definition family_at :: "string \<Rightarrow> string option" where
  "family_at s =
     (let run = takeWhile is_alnum s; rest = dropWhile is_alnum s; ds = dropWhile is_alpha run in
      if run \<noteq> [] \<and> is_alpha (hd run) \<and> ds \<noteq> [] \<and> (rest = [] \<or> \<not> is_word_char (hd rest))
      then Some run else None)"

fun family_search :: "bool \<Rightarrow> string \<Rightarrow> string option" where
  "family_search prev [] = None"
| "family_search prev (c # s) =
     (case (if prev then None else family_at (c # s)) of
        Some t \<Rightarrow> Some t
      | None \<Rightarrow> family_search (is_word_char c) s)"

definition extract_family_token :: "string \<Rightarrow> string option" where
  "extract_family_token raw_value =
     (let normalized = py_strip (drop_standard (py_strip raw_value)) in
      if normalized = [] then None
      else case letter_digits (CHR ''.'') normalized of
        Some t \<Rightarrow> Some t
      | None \<Rightarrow> (case letter_digits (CHR ''-'') normalized of
          Some t \<Rightarrow> Some t
        | None \<Rightarrow> family_search False normalized))"

text \<open>
  The pattern is meant for Azure names as well, but \<open>\\b\<close> finds no boundary before an underscore, so a
  name with a version has no family.
\<close>

lemma versioned_sku_has_no_family:
  "extract_family_token ''Standard_D4s_v5'' = None" and "extract_family_token ''Standard_D4s'' = Some ''D4s''"
  by code_simp+

definition infer_machine_family :: "string \<Rightarrow> string \<Rightarrow> string \<Rightarrow> string option" where
  "infer_machine_family sku_name resource_name service =
     (case extract_family_token sku_name of
        Some t \<Rightarrow> Some t
      | None \<Rightarrow> (case extract_family_token resource_name of
          Some t \<Rightarrow> Some t
        | None \<Rightarrow> extract_family_token service))"

section \<open>Resource identifiers and the key of an opportunity\<close>

definition norm_text :: "string \<Rightarrow> string" where
  "norm_text v = py_lower (py_strip v)"

definition norm_resource_id :: "string \<Rightarrow> string" where
  "norm_resource_id v = rstrip_slash (norm_text v)"

definition or_empty :: "string option \<Rightarrow> string" where
  "or_empty v = (case v of None \<Rightarrow> [] | Some s \<Rightarrow> s)"

definition norm_uuid :: "uuid option \<Rightarrow> string" where
  "norm_uuid v = (case v of None \<Rightarrow> [] | Some u \<Rightarrow> uuid_str u)"

definition build_aks_nodepool_resource_id :: "string \<Rightarrow> string \<Rightarrow> string" where
  "build_aks_nodepool_resource_id cluster_id node_pool_name =
     ''aks:'' @ norm_resource_id cluster_id @ '':'' @ norm_text node_pool_name"

definition opportunity_dedupe_key ::
  "opportunity_category \<Rightarrow> string option \<Rightarrow> string option \<Rightarrow> string option \<Rightarrow> string option
   \<Rightarrow> string option \<Rightarrow> uuid option \<Rightarrow> string" where
  "opportunity_dedupe_key category service owner_team environment region resource_id account_id =
     py_join ''|'' [norm_uuid account_id, category_value category, norm_resource_id (or_empty resource_id),
       norm_text (or_empty service), norm_text (or_empty owner_team), norm_text (or_empty environment),
       norm_text (or_empty region)]"

text \<open>The text after the last \<open>/providers/\<close>, searched from the left.\<close>

fun after_providers :: "string \<Rightarrow> string option" where
  "after_providers [] = None"
| "after_providers (c # s) =
     (if py_startswith (c # s) ''/providers/'' then Some (drop 11 (c # s)) else after_providers s)"

lemma after_providers_shorter: "after_providers s = Some r \<Longrightarrow> length r < length s"
  by (induction s) (auto split: if_splits simp: less_SucI)

function last_provider :: "string \<Rightarrow> string" where
  "last_provider s = (case after_providers s of None \<Rightarrow> s | Some r \<Rightarrow> last_provider r)"
  by pat_completeness auto
termination by (relation "measure length") (auto dest: after_providers_shorter)

declare last_provider.simps [simp del]

definition extract_service_from_resource_id :: "string \<Rightarrow> string" where
  "extract_service_from_resource_id resource_id =
     (case after_providers (py_lower resource_id) of
        None \<Rightarrow> ''Azure Subscription''
      | Some r \<Rightarrow> (case py_split (CHR ''/'') (last_provider r) of
            a # b # _ \<Rightarrow> a @ ''/'' @ b
          | [a] \<Rightarrow> a
          | [] \<Rightarrow> ''Azure''))"

section \<open>Cells of a query row\<close>

text \<open>
  \<open>float(v)\<close> of a value, none for the exceptions the code catches; \<open>fos\<close> is \<open>float\<close> of a text. \<open>int\<close>
  of a float cuts toward zero.
\<close>

definition coerce_float :: "(string \<Rightarrow> pyfloat option) \<Rightarrow> json \<Rightarrow> pyfloat option" where
  "coerce_float fos v =
     (case v of JBool b \<Rightarrow> Some (if b then 1 else 0) | JInt i \<Rightarrow> Some (fl (of_int i)) | JFloat x \<Rightarrow> Some x
      | JStr s \<Rightarrow> fos s | _ \<Rightarrow> None)"

definition trunc :: "pyfloat \<Rightarrow> int" where
  "trunc x = (if x < 0 then \<lceil>x\<rceil> else \<lfloor>x\<rfloor>)"

definition coerce_int :: "(string \<Rightarrow> pyfloat option) \<Rightarrow> json \<Rightarrow> int option" where
  "coerce_int fos v = map_option trunc (coerce_float fos v)"

text \<open>\<open>_to_str_dict\<close> and \<open>_first_non_empty\<close>: of names equal up to spaces or case the last one counts.\<close>

definition to_str_dict :: "(pyfloat \<Rightarrow> string) \<Rightarrow> json \<Rightarrow> (string \<times> string) list" where
  "to_str_dict frepr value =
     (case value of
        JDict kvs \<Rightarrow> foldl (\<lambda>out (k, v). if py_strip k = [] then out
            else AList.update (py_strip k) (py_strip (text_or_empty frepr v)) out) [] kvs
      | _ \<Rightarrow> [])"

definition first_non_empty :: "(string \<times> string) list \<Rightarrow> string list \<Rightarrow> string" where
  "first_non_empty tags ks =
     (let lowered = foldl (\<lambda>m (k, v). AList.update (py_lower k) v m) [] tags;
          found = filter (\<lambda>v. v \<noteq> []) (map (\<lambda>k. py_strip (or_empty (map_of lowered (py_lower k)))) ks)
      in case found of [] \<Rightarrow> [] | v # _ \<Rightarrow> v)"

definition parse_bool :: "string \<Rightarrow> bool" where
  "parse_bool v \<longleftrightarrow> norm_text v \<in> {''1'', ''true'', ''yes'', ''y'', ''enabled'', ''on''}"

definition parse_int :: "(string \<Rightarrow> pyfloat option) \<Rightarrow> string \<Rightarrow> int option" where
  "parse_int fos v = (if py_strip v = [] then None else map_option trunc (fos (py_strip v)))"

section \<open>Candidate node pools\<close>

record nodepool_candidate =
  nc_cluster_id :: string
  nc_cluster_name :: string
  nc_node_pool_name :: string
  nc_node_count :: int
  nc_node_sku :: "string option"
  nc_region :: string
  nc_cpu_p95 :: pyfloat
  nc_memory_p95 :: pyfloat
  nc_monthly_cost :: pyfloat
  nc_history_days :: int
  nc_owner_team :: string
  nc_environment :: string
  nc_allocated_cpu :: "pyfloat option"
  nc_allocated_memory :: "pyfloat option"
  nc_requested_cpu :: "pyfloat option"
  nc_requested_memory :: "pyfloat option"
  nc_is_system_pool :: bool
  nc_autoscaler_enabled :: bool
  nc_autoscaler_min_count :: "int option"
  nc_autoscaler_max_count :: "int option"
  nc_kube_system_workloads :: bool
  nc_critical_workloads :: bool
  nc_cpu_p95_stddev :: "pyfloat option"
  nc_memory_p95_stddev :: "pyfloat option"

definition no_team :: string where
  "no_team = ''Sem equipe identificada''"

text \<open>A Boolean column when the row has one, else what the tags and names say; \<open>x or y\<close> on integers.\<close>

definition bool_cell :: "(string \<times> json) list \<Rightarrow> string \<Rightarrow> bool \<Rightarrow> bool" where
  "bool_cell row k other = (case field row k of JBool b \<Rightarrow> b | _ \<Rightarrow> other)"

definition int_or :: "int option \<Rightarrow> int option \<Rightarrow> int option" where
  "int_or a b = (case a of None \<Rightarrow> b | Some i \<Rightarrow> if i = 0 then b else Some i)"

definition int_or_zero :: "int option \<Rightarrow> int" where
  "int_or_zero a = (case a of None \<Rightarrow> 0 | Some i \<Rightarrow> i)"

definition text_or :: "(pyfloat \<Rightarrow> string) \<Rightarrow> string \<Rightarrow> json \<Rightarrow> string" where
  "text_or frepr other v =
     (let t = py_strip (if truthy v then py_str frepr v else other) in if t = [] then other else t)"

definition is_system_name :: "string \<Rightarrow> (string \<times> string) list \<Rightarrow> bool" where
  "is_system_name node_pool_name tags \<longleftrightarrow>
     py_contains (py_lower node_pool_name) ''system''
   \<or> py_lower (first_non_empty tags
        [''kubernetes.azure.com/mode'', ''aks_nodepool_mode'', ''nodepool_mode'']) = ''system''"

definition nodepool_candidate_of ::
  "(pyfloat \<Rightarrow> string) \<Rightarrow> (string \<Rightarrow> pyfloat option) \<Rightarrow> (string \<times> json) list \<Rightarrow> nodepool_candidate option" where
  "nodepool_candidate_of frepr fos row =
     (let text = (\<lambda>k. py_strip (text_or_empty frepr (field row k)));
          num = (\<lambda>k. coerce_float fos (field row k));
          int = (\<lambda>k. coerce_int fos (field row k));
          tags = to_str_dict frepr (field row ''tags'');
          count_tag = (\<lambda>ks k. int_or (parse_int fos (first_non_empty tags ks)) (int k));
          node_count = int_or_zero (int ''node_count'')
      in if text ''cluster_id'' = [] \<or> text ''cluster_name'' = [] \<or> text ''node_pool_name'' = [] then None
         else if node_count \<le> 0 then None
         else case (num ''cpu_p95'', num ''memory_p95'') of
           (Some cpu, Some mem) \<Rightarrow> Some
             \<lparr>nc_cluster_id = text ''cluster_id'', nc_cluster_name = text ''cluster_name'',
              nc_node_pool_name = text ''node_pool_name'', nc_node_count = node_count,
              nc_node_sku = (if text ''node_sku'' = [] then None else Some (text ''node_sku'')),
              nc_region = text ''region'', nc_cpu_p95 = cpu, nc_memory_p95 = mem,
              nc_monthly_cost = or_zero (num ''monthly_cost''),
              nc_history_days = int_or_zero (int ''history_days''),
              nc_owner_team = text_or frepr no_team (field row ''owner_team''),
              nc_environment = text_or frepr ''unknown'' (field row ''environment''),
              nc_allocated_cpu = num ''allocated_cpu'', nc_allocated_memory = num ''allocated_memory'',
              nc_requested_cpu = num ''requested_cpu'', nc_requested_memory = num ''requested_memory'',
              nc_is_system_pool = bool_cell row ''is_system_pool''
                (is_system_name (text ''node_pool_name'') tags),
              nc_autoscaler_enabled = bool_cell row ''autoscaler_enabled'' (parse_bool (first_non_empty tags
                [''cluster_autoscaler_enabled'', ''autoscaler_enabled'', ''k8s_autoscaler_enabled''])),
              nc_autoscaler_min_count = count_tag
                [''autoscaler_min_count'', ''min_count'', ''nodepool_min_count''] ''autoscaler_min_count'',
              nc_autoscaler_max_count = count_tag
                [''autoscaler_max_count'', ''max_count'', ''nodepool_max_count''] ''autoscaler_max_count'',
              nc_kube_system_workloads = bool_cell row ''has_kube_system_workloads''
                (0 < int_or_zero (int ''kube_system_pods'')),
              nc_critical_workloads = bool_cell row ''has_critical_workloads''
                (0 < int_or_zero (int ''critical_workloads'')),
              nc_cpu_p95_stddev = num ''cpu_p95_stddev'', nc_memory_p95_stddev = num ''memory_p95_stddev''\<rparr>
         | _ \<Rightarrow> None)"

definition get_aks_nodepool_candidates ::
  "(pyfloat \<Rightarrow> string) \<Rightarrow> (string \<Rightarrow> pyfloat option) \<Rightarrow> (string \<times> json) list list option
   \<Rightarrow> nodepool_candidate list" where
  "get_aks_nodepool_candidates frepr fos result =
     (case result of None \<Rightarrow> []
      | Some rows \<Rightarrow> concat (map (\<lambda>row. case nodepool_candidate_of frepr fos row of
          None \<Rightarrow> [] | Some c \<Rightarrow> [c]) rows))"

end
