(* ===== verification/Generation.thy ===== *)
theory Generation
  imports EngineText AksNodepool AksAutoscaler ExecutionPlans
begin

text \<open>
  \<open>DecisionEngineService.generate_opportunities_for_account\<close> (\<open>domains/decision_engine/service.py\<close>): one
  scoring run of an account. Its inputs are the rows of the three ClickHouse queries (none when a query
  failed), the usage observations and the subscription names; its state is the table of opportunities
  with the run's \<open>existing_by_key\<close>, \<open>seen_keys_in_run\<close> and result list. A row object the code holds and
  changes is its identifier here. The phases are those of the code: cost rows, candidate node pools,
  dismissal of duplicates, grouped Advisor recommendations.
\<close>

section \<open>Inputs and state\<close>

record cost_row =
  cr_service :: string
  cr_owner_team :: string
  cr_environment :: string
  cr_region :: string
  cr_monthly_cost :: pyfloat
  cr_resource_id :: string
  cr_resource_name :: string
  cr_sku_name :: string

record advisor_row =
  ar_resource_id :: string
  ar_estimated_savings :: pyfloat
  ar_savings_period :: string
  ar_short_description :: string
  ar_impact :: string
  ar_recommendation_id :: string
  ar_subscription_id :: string

record usage_row =
  uo_org :: uuid
  uo_account :: uuid
  uo_resource_id :: string
  uo_observation :: observation

record subscription_row =
  sub_org :: uuid
  sub_id :: string
  sub_name :: "string option"

record engine_input =
  ei_cost_rows :: "cost_row list option"
  ei_advisor_rows :: "advisor_row list option"
  ei_nodepool_rows :: "(string \<times> json) list list option"
  ei_usage :: "usage_row list"
  ei_subscriptions :: "subscription_row list"

text \<open>What one scoring writes to a row.\<close>

record target =
  tg_category :: opportunity_category
  tg_description :: string
  tg_score :: score_result
  tg_savings :: pyfloat
  tg_cost :: pyfloat
  tg_resource_id :: string
  tg_resource_name :: string
  tg_sku_name :: string
  tg_service :: string
  tg_region :: string
  tg_environment :: string
  tg_owner_team :: string
  tg_rationale :: string
  tg_evidence :: dict

record engine_run =
  er_opportunities :: "opportunity list"
  er_keys :: "(string \<times> uuid) list"
  er_seen :: "string list"
  er_result :: "uuid list"
  er_new :: nat

section \<open>Evidence\<close>

definition jnum :: "pyfloat option \<Rightarrow> json" where
  "jnum v = (case v of None \<Rightarrow> JNull | Some x \<Rightarrow> JFloat x)"

definition jint :: "int option \<Rightarrow> json" where
  "jint v = (case v of None \<Rightarrow> JNull | Some i \<Rightarrow> JInt i)"

definition vm_evidence_dict :: "vm_evidence \<Rightarrow> dict" where
  "vm_evidence_dict ev =
     [(''cpu_p95'', jnum (ve_cpu_p95 ev)), (''memory_p95'', jnum (ve_memory_p95 ev)),
      (''window_days'', JInt (ve_window_days ev)), (''history_days'', JInt (int (ve_history_days ev))),
      (''current_sku'', str_json (ve_current_sku ev)), (''recommended_sku'', str_json (ve_recommended_sku ev)),
      (''current_monthly_cost'', JFloat (ve_current_monthly_cost ev)),
      (''estimated_monthly_cost'', jnum (ve_estimated_monthly_cost ev)),
      (''estimated_savings'', JFloat (ve_estimated_savings ev)),
      (''estimated_savings_pct'', JFloat (ve_estimated_savings_pct ev)),
      (''confidence'', JFloat (ve_confidence ev)), (''risk_level'', JStr (ve_risk_level ev)),
      (''reason'', JStr (ve_reason ev))]"

definition np_evidence_dict :: "np_evidence \<Rightarrow> dict" where
  "np_evidence_dict ev =
     (let i = ne_input ev; st = ne_stats ev in
      [(''resource_type'', JStr ''aks_node_pool''), (''cluster_name'', str_json (np_cluster_name i)),
       (''node_pool'', str_json (np_node_pool i)), (''current_node_count'', JInt (np_node_count i)),
       (''recommended_node_count'', jint (ne_recommended_node_count ev)),
       (''node_sku'', str_json (np_node_sku i)),
       (''cpu_p95'', jnum (ne_cpu_p95 ev)), (''memory_p95'', jnum (ne_memory_p95 ev)),
       (''window_days'', JInt (ne_window_days ev)), (''history_days'', JInt (ns_history st)),
       (''allocated_cpu'', jnum (ns_allocated_cpu st)), (''allocated_memory'', jnum (ns_allocated_memory st)),
       (''requested_cpu'', jnum (ns_requested_cpu st)), (''requested_memory'', jnum (ns_requested_memory st)),
       (''is_system_pool'', JBool (np_is_system_pool i)),
       (''autoscaler_enabled'', JBool (np_autoscaler_enabled i)),
       (''autoscaler_min_count'', jint (np_autoscaler_min_count i)),
       (''autoscaler_max_count'', jint (np_autoscaler_max_count i)),
       (''has_kube_system_workloads'', JBool (np_kube_system_workloads i)),
       (''has_critical_workloads'', JBool (np_critical_workloads i)),
       (''cpu_p95_stddev'', jnum (np_cpu_stddev i)), (''memory_p95_stddev'', jnum (np_memory_stddev i)),
       (''current_monthly_cost'', JFloat (ne_current_monthly_cost ev)),
       (''estimated_monthly_cost'', jnum (ne_estimated_monthly_cost ev)),
       (''estimated_savings'', JFloat (ne_estimated_savings ev)),
       (''estimated_savings_pct'', JFloat (ne_estimated_savings_pct ev)),
       (''confidence'', JFloat (ne_confidence ev)), (''risk_level'', JStr (ne_risk_level ev)),
       (''reason'', JStr (ne_reason ev))]
      @ (case ne_requested_pressure ev of None \<Rightarrow> [] | Some b \<Rightarrow> [(''requested_pressure'', JBool b)]))"

definition autoscaler_evidence_dict :: "autoscaler_evidence \<Rightarrow> dict" where
  "autoscaler_evidence_dict ev =
     (let i = ae_input ev in
      [(''resource_type'', JStr ''aks_node_pool''), (''cluster_name'', str_json (cluster_name i)),
       (''node_pool'', str_json (node_pool i)), (''node_sku'', str_json (node_sku i)),
       (''current_node_count'', JInt (current_node_count i)),
       (''autoscaler_enabled'', JBool (autoscaler_enabled i)),
       (''autoscaler_min_count'', jint (autoscaler_min_count i)),
       (''autoscaler_max_count'', jint (autoscaler_max_count i)),
       (''recommended_min_count'', jint (ae_recommended_min_count ev)),
       (''recommended_max_count'', jint (ae_recommended_max_count ev)),
       (''autoscaler_action'', JStr (ae_autoscaler_action ev)),
       (''cpu_p95'', jnum (ae_cpu_p95 ev)), (''memory_p95'', jnum (ae_memory_p95 ev)),
       (''cpu_p95_stddev'', jnum (cpu_p95_stddev i)), (''memory_p95_stddev'', jnum (memory_p95_stddev i)),
       (''variability_score'', JFloat (ae_variability_score ev)),
       (''history_days'', JInt (AksAutoscaler.history_days i)), (''is_system_pool'', JBool (is_system_pool i)),
       (''has_kube_system_workloads'', JBool (has_kube_system_workloads i)),
       (''has_critical_workloads'', JBool (has_critical_workloads i)),
       (''current_monthly_cost'', JFloat (ae_current_monthly_cost ev)),
       (''estimated_monthly_cost'', jnum (ae_estimated_monthly_cost ev)),
       (''estimated_savings'', JFloat (ae_estimated_savings ev)),
       (''estimated_savings_pct'', JFloat (ae_estimated_savings_pct ev)),
       (''risk_level'', JStr (ae_risk_level ev)), (''confidence'', JFloat (ae_confidence ev)),
       (''reason'', JStr (ae_reason ev)), (''blocked_by'', JList (map JStr (ae_blocked_by ev)))])"

section \<open>The adaptive strategy of a node pool\<close>

definition clamp_01 :: "pyfloat \<Rightarrow> pyfloat" where
  "clamp_01 x = max 0 (min 1 x)"

record strategy_side =
  ss_confidence :: pyfloat
  ss_recommended :: string
  ss_alternative :: "string option"
  ss_boosted :: bool
  ss_score :: pyfloat
  ss_accuracy :: "pyfloat option"
  ss_adjustment :: pyfloat

definition history_bonus :: "calibration_snapshot option \<Rightarrow> pyfloat" where
  "history_bonus cal = (case cal of None \<Rightarrow> 0
     | Some s \<Rightarrow> fmul (fsub (snap_accuracy s) (fl (5/10))) (fl (1/10)))"

definition adjustment_of :: "calibration_snapshot option \<Rightarrow> pyfloat" where
  "adjustment_of cal = (case cal of None \<Rightarrow> 0 | Some s \<Rightarrow> snap_adjustment s)"

definition strategy_score :: "bool \<Rightarrow> pyfloat \<Rightarrow> calibration_snapshot option \<Rightarrow> pyfloat \<Rightarrow> pyfloat" where
  "strategy_score recommended conf cal context_bonus =
     (if recommended
      then clamp_01 (fadd (fadd (fadd conf (adjustment_of cal)) (history_bonus cal)) context_bonus)
      else 0)"

definition strategy_of :: "bool \<Rightarrow> bool \<Rightarrow> pyfloat \<Rightarrow> pyfloat \<Rightarrow> string \<times> string option" where
  "strategy_of rightsizing autoscaler rightsizing_score autoscaler_score =
     (if rightsizing \<and> autoscaler then
        (if autoscaler_score \<ge> rightsizing_score then (''autoscaler'', Some ''nodepool_rightsizing'')
         else (''nodepool_rightsizing'', Some ''autoscaler''))
      else if rightsizing then (''nodepool_rightsizing'', None)
      else if autoscaler then (''autoscaler'', None)
      else (''none'', None))"

definition resolve_adaptive_aks_strategy ::
  "bool \<Rightarrow> pyfloat \<Rightarrow> bool \<Rightarrow> pyfloat \<Rightarrow> pyfloat \<Rightarrow> pyfloat \<Rightarrow> pyfloat
   \<Rightarrow> (opportunity_category \<Rightarrow> calibration_snapshot option) \<Rightarrow> strategy_side \<times> strategy_side" where
  "resolve_adaptive_aks_strategy rs rs_conf auto auto_conf cpu mem variability calibration =
     (let rs_cal = calibration AKS_NODEPOOL_RIGHTSIZING;
          auto_cal = calibration AKS_AUTOSCALER_RECOMMENDATION;
          rs_score = strategy_score rs rs_conf rs_cal (if cpu \<le> 35 \<and> mem \<le> 50 then fl (3/100) else 0);
          auto_score = strategy_score auto auto_conf auto_cal
            (if variability \<ge> fl (55/100) then fl (4/100) else 0);
          (chosen, alternative) = strategy_of rs auto rs_score auto_score;
          both = (rs \<and> auto);
          boost = (if both then fl (8/100) else 0);
          penalty = (if both then - fl (5/100) else 0);
          rs_final = (if chosen = ''nodepool_rightsizing'' then clamp_01 (fadd rs_conf boost)
            else if chosen = ''autoscaler'' \<and> rs then clamp_01 (fadd rs_conf penalty) else rs_conf);
          auto_final = (if chosen = ''autoscaler'' then clamp_01 (fadd auto_conf boost)
            else if chosen = ''nodepool_rightsizing'' \<and> auto then clamp_01 (fadd auto_conf penalty)
            else auto_conf);
          side = (\<lambda>name final score cal.
            \<lparr>ss_confidence = py_round 4 final, ss_recommended = chosen, ss_alternative = alternative,
             ss_boosted = (chosen = name \<and> boost > 0), ss_score = py_round 4 score,
             ss_accuracy = map_option (\<lambda>s. py_round 4 (snap_accuracy s)) cal,
             ss_adjustment = py_round 4 (adjustment_of cal)\<rparr>)
      in (side ''nodepool_rightsizing'' rs_final rs_score rs_cal,
          side ''autoscaler'' auto_final auto_score auto_cal))"

text \<open>\<open>evidence.update(adaptive[...])\<close>.\<close>

definition with_strategy :: "strategy_side \<Rightarrow> dict \<Rightarrow> dict" where
  "with_strategy s d =
     jset ''confidence_adjustment'' (JFloat (ss_adjustment s))
       (jset ''historical_accuracy'' (jnum (ss_accuracy s))
         (jset ''strategy_score'' (JFloat (ss_score s))
           (jset ''confidence_boosted'' (JBool (ss_boosted s))
             (jset ''alternative_strategy'' (str_json (ss_alternative s))
               (jset ''recommended_strategy'' (JStr (ss_recommended s))
                 (jset ''confidence'' (JFloat (ss_confidence s)) d))))))"

section \<open>Targets of the cost rows\<close>

definition max_savings_default :: pyfloat where
  "max_savings_default = 5000"

definition risk_of_level :: "string \<Rightarrow> risk_level" where
  "risk_of_level level = (if level = ''low'' then RISK_LOW else if level = ''medium'' then RISK_MEDIUM
     else RISK_HIGH)"

definition rationale_of ::
  "(pyfloat \<Rightarrow> string) \<Rightarrow> string \<Rightarrow> pyfloat \<Rightarrow> dict \<Rightarrow> string" where
  "rationale_of frepr msg conf ev =
     msg @ '' Confian'' @ c_cedil @ ''a: '' @ fixed_str 2 conf @ ''. Evid'' @ [CHR 0xC3, CHR 0xAA]
     @ ''ncia: '' @ py_repr frepr (JDict ev) @ ''.''"

definition num_text :: "(pyfloat \<Rightarrow> string) \<Rightarrow> pyfloat option \<Rightarrow> string" where
  "num_text frepr v = py_str frepr (jnum v)"

definition opt_text :: "string option \<Rightarrow> string" where
  "opt_text v = (case v of None \<Rightarrow> ''None'' | Some s \<Rightarrow> s)"

definition int_text :: "int option \<Rightarrow> string" where
  "int_text v = (case v of None \<Rightarrow> ''None'' | Some i \<Rightarrow> int_str i)"

definition vm_description :: "(pyfloat \<Rightarrow> string) \<Rightarrow> vm_evidence \<Rightarrow> string" where
  "vm_description frepr ev =
     ''Current VM: '' @ opt_text (ve_current_sku ev)
     @ ''. Usage p95: CPU '' @ num_text frepr (ve_cpu_p95 ev) @ ''% / memory ''
     @ num_text frepr (ve_memory_p95 ev) @ ''%. Recommendation: '' @ opt_text (ve_recommended_sku ev)
     @ ''. Current cost: '' @ fmt_brl (Some (ve_current_monthly_cost ev))
     @ ''/month. Estimated cost: '' @ fmt_brl (ve_estimated_monthly_cost ev)
     @ ''/month. Savings: '' @ fmt_brl (Some (ve_estimated_savings ev)) @ ''/month (''
     @ frepr (ve_estimated_savings_pct ev) @ ''%).''"

definition list_usage_observations ::
  "uuid \<Rightarrow> uuid \<Rightarrow> string \<Rightarrow> usage_row list \<Rightarrow> observation list" where
  "list_usage_observations org account resource rows =
     (if resource = [] then []
      else map uo_observation (filter (\<lambda>u. uo_org u = org \<and> uo_account u = account
        \<and> uo_resource_id u = resource) rows))"

definition base_target :: "cost_row \<Rightarrow> opportunity_category \<Rightarrow> pyfloat \<Rightarrow> string \<Rightarrow> string \<Rightarrow> dict
    \<Rightarrow> score_result \<Rightarrow> target" where
  "base_target row cat savings description msg ev score =
     \<lparr>tg_category = cat, tg_description = description, tg_score = score, tg_savings = savings,
      tg_cost = cr_monthly_cost row, tg_resource_id = cr_resource_id row,
      tg_resource_name = cr_resource_name row, tg_sku_name = py_strip (cr_sku_name row),
      tg_service = cr_service row, tg_region = cr_region row, tg_environment = cr_environment row,
      tg_owner_team = cr_owner_team row, tg_rationale = (if msg = [] then rationale score else msg),
      tg_evidence = ev\<rparr>"

definition vm_target ::
  "platform \<Rightarrow> instant \<Rightarrow> observation list \<Rightarrow> cost_row \<Rightarrow> target option result" where
  "vm_target pf now observations row =
     (let sku = py_strip (cr_sku_name row);
          d = decide_vm_rightsizing now (if sku = [] then None else Some sku) (cr_monthly_cost row) observations;
          ev = vm_evidence d
      in if \<not> vm_recommend d then Inr None
         else case compute_score RIGHTSIZING (ve_estimated_savings ev) (cr_environment row)
             (Some (risk_of_level (vm_risk_level d))) None max_savings_default of
           Inl err \<Rightarrow> Inl err
         | Inr score \<Rightarrow> Inr (Some (base_target row RIGHTSIZING (ve_estimated_savings ev)
             (vm_description (float_repr pf) ev)
             (rationale_of (float_repr pf) (vm_reason d) (vm_confidence d) (vm_evidence_dict ev))
             (vm_evidence_dict ev) score)))"

definition advisor_by_resource :: "advisor_row list \<Rightarrow> string \<Rightarrow> advisor_row option" where
  "advisor_by_resource rows rid =
     (if rid = [] then None else find (\<lambda>r. py_lower (ar_resource_id r) = rid) rows)"

definition savings_period_of :: "advisor_row \<Rightarrow> string" where
  "savings_period_of r = (if ar_savings_period r = [] then ''annual'' else ar_savings_period r)"

definition monthly_savings_of :: "advisor_row \<Rightarrow> pyfloat" where
  "monthly_savings_of r =
     (if savings_period_of r = ''annual'' then py_round 2 (fdiv (ar_estimated_savings r) 12)
      else py_round 2 (ar_estimated_savings r))"

definition advisor_evidence :: "cost_row \<Rightarrow> advisor_row \<Rightarrow> dict" where
  "advisor_evidence row r =
     [(''source'', JStr ''azure_advisor''), (''advisor_recommendation_id'', JStr (ar_recommendation_id r)),
      (''advisor_impact'', JStr (ar_impact r)), (''advisor_description'', JStr (ar_short_description r)),
      (''savings_period'', JStr (savings_period_of r)),
      (''raw_savings_value'', JFloat (ar_estimated_savings r)),
      (''estimated_savings'', JFloat (monthly_savings_of r)),
      (''current_monthly_cost'', JFloat (py_round 2 (cr_monthly_cost row)))]"

definition advisor_rationale :: "advisor_row \<Rightarrow> string" where
  "advisor_rationale r =
     ''Azure Advisor: '' @ ar_short_description r @ ''. Impacto: ''
     @ (if ar_impact r = [] then ''N/A'' else ar_impact r) @ ''. Estimated savings: ''
     @ fmt_brl (Some (monthly_savings_of r)) @ ''/month (source: Advisor).''"

definition advisor_description :: "cost_row \<Rightarrow> advisor_row \<Rightarrow> string" where
  "advisor_description row r =
     ''Azure Advisor: '' @ ar_short_description r @ ''. Current cost: ''
     @ fmt_brl (Some (py_round 2 (cr_monthly_cost row))) @ ''/month. Estimated savings: ''
     @ fmt_brl (Some (monthly_savings_of r)) @ ''/month (source: Azure Advisor, impact: '' @ ar_impact r @ '').''"

definition advisor_target ::
  "advisor_row list \<Rightarrow> opportunity_category \<Rightarrow> cost_row \<Rightarrow> target option result" where
  "advisor_target advisor cat row =
     (case advisor_by_resource advisor (py_lower (cr_resource_id row)) of
        None \<Rightarrow> Inr None
      | Some r \<Rightarrow>
          if monthly_savings_of r < 10 then Inr None
          else case compute_score cat (monthly_savings_of r) (cr_environment row) None None
              max_savings_default of
            Inl err \<Rightarrow> Inl err
          | Inr score \<Rightarrow> Inr (Some (base_target row cat (monthly_savings_of r)
              (advisor_description row r) (advisor_rationale r) (advisor_evidence row r) score)))"

text \<open>The target of a cost row, none for a row the loop skips.\<close>

definition cost_target ::
  "platform \<Rightarrow> instant \<Rightarrow> uuid \<Rightarrow> uuid \<Rightarrow> engine_input \<Rightarrow> advisor_row list \<Rightarrow> cost_row
   \<Rightarrow> target option result" where
  "cost_target pf now org account inp advisor row =
     (case classify_service (cr_service row) of
        RIGHTSIZING \<Rightarrow>
          vm_target pf now (list_usage_observations org account (cr_resource_id row) (ei_usage inp)) row
      | AKS_NODEPOOL_RIGHTSIZING \<Rightarrow> Inr None
      | cat \<Rightarrow> advisor_target advisor cat row)"

section \<open>Targets of the candidate node pools\<close>

definition nodepool_input :: "nodepool_candidate \<Rightarrow> np_input" where
  "nodepool_input c =
     \<lparr>np_cluster_name = Some (nc_cluster_name c), np_node_pool = Some (nc_node_pool_name c),
      np_node_sku = nc_node_sku c, np_node_count = nc_node_count c, np_monthly_cost = nc_monthly_cost c,
      np_observations = [], np_cpu_p95 = Some (nc_cpu_p95 c), np_memory_p95 = Some (nc_memory_p95 c),
      np_history_days = Some (nc_history_days c), np_allocated_cpu = nc_allocated_cpu c,
      np_allocated_memory = nc_allocated_memory c, np_requested_cpu = nc_requested_cpu c,
      np_requested_memory = nc_requested_memory c, np_is_system_pool = nc_is_system_pool c,
      np_autoscaler_enabled = nc_autoscaler_enabled c, np_autoscaler_min_count = nc_autoscaler_min_count c,
      np_autoscaler_max_count = nc_autoscaler_max_count c,
      np_kube_system_workloads = nc_kube_system_workloads c,
      np_critical_workloads = nc_critical_workloads c, np_cpu_stddev = nc_cpu_p95_stddev c,
      np_memory_stddev = nc_memory_p95_stddev c\<rparr>"

definition autoscaler_input_of :: "nodepool_candidate \<Rightarrow> autoscaler_input" where
  "autoscaler_input_of c =
     \<lparr>cluster_name = Some (nc_cluster_name c), node_pool = Some (nc_node_pool_name c),
      node_sku = nc_node_sku c, current_node_count = nc_node_count c,
      current_monthly_cost = nc_monthly_cost c, cpu_p95 = Some (nc_cpu_p95 c),
      memory_p95 = Some (nc_memory_p95 c), history_days = nc_history_days c,
      autoscaler_enabled = nc_autoscaler_enabled c, autoscaler_min_count = nc_autoscaler_min_count c,
      autoscaler_max_count = nc_autoscaler_max_count c, is_system_pool = nc_is_system_pool c,
      has_kube_system_workloads = nc_kube_system_workloads c,
      has_critical_workloads = nc_critical_workloads c, cpu_p95_stddev = nc_cpu_p95_stddev c,
      memory_p95_stddev = nc_memory_p95_stddev c\<rparr>"

definition pool_description :: "(pyfloat \<Rightarrow> string) \<Rightarrow> np_evidence \<Rightarrow> strategy_side \<Rightarrow> string" where
  "pool_description frepr ev side =
     (let i = ne_input ev in
      ''AKS '' @ opt_text (np_cluster_name i) @ '', node pool '' @ opt_text (np_node_pool i)
      @ ''. Nodes: '' @ int_str (np_node_count i) @ '' -> '' @ int_text (ne_recommended_node_count ev)
      @ ''. Usage p95: CPU '' @ num_text frepr (ne_cpu_p95 ev) @ ''% / memory ''
      @ num_text frepr (ne_memory_p95 ev) @ ''%. Current cost: ''
      @ fmt_brl (Some (ne_current_monthly_cost ev)) @ ''/month. Estimated cost: ''
      @ fmt_brl (ne_estimated_monthly_cost ev) @ ''/month. Savings: ''
      @ fmt_brl (Some (ne_estimated_savings ev)) @ ''/month ('' @ frepr (ne_estimated_savings_pct ev)
      @ ''%). Recommended strategy: '' @ ss_recommended side @ ''.'')"

definition autoscaler_description ::
  "(pyfloat \<Rightarrow> string) \<Rightarrow> autoscaler_evidence \<Rightarrow> strategy_side \<Rightarrow> string" where
  "autoscaler_description frepr ev side =
     (let i = ae_input ev in
      ''AKS '' @ opt_text (cluster_name i) @ '', node pool '' @ opt_text (node_pool i)
      @ ''. Autoscaler: disabled. Current: '' @ int_str (current_node_count i)
      @ '' fixed nodes. Recommended: min='' @ int_text (ae_recommended_min_count ev)
      @ '', max='' @ int_text (ae_recommended_max_count ev)
      @ ''. Usage p95: CPU '' @ num_text frepr (ae_cpu_p95 ev) @ ''% / memory ''
      @ num_text frepr (ae_memory_p95 ev) @ ''%. Conservative estimated savings: ''
      @ fmt_brl (Some (ae_estimated_savings ev)) @ ''/month ('' @ frepr (ae_estimated_savings_pct ev)
      @ ''%). Recommended strategy: '' @ ss_recommended side @ ''.'')"

definition pool_target :: "nodepool_candidate \<Rightarrow> opportunity_category \<Rightarrow> pyfloat \<Rightarrow> string \<Rightarrow> string \<Rightarrow> dict
    \<Rightarrow> score_result \<Rightarrow> target" where
  "pool_target c cat savings description msg ev score =
     \<lparr>tg_category = cat, tg_description = description, tg_score = score, tg_savings = savings,
      tg_cost = nc_monthly_cost c,
      tg_resource_id = build_aks_nodepool_resource_id (nc_cluster_id c) (nc_node_pool_name c),
      tg_resource_name = nc_cluster_name c @ ''/'' @ nc_node_pool_name c,
      tg_sku_name = or_empty (nc_node_sku c), tg_service = ''Azure Kubernetes Service'',
      tg_region = nc_region c,
      tg_environment = (if nc_environment c = [] then ''unknown'' else nc_environment c),
      tg_owner_team = (if nc_owner_team c = [] then no_team else nc_owner_team c),
      tg_rationale = msg, tg_evidence = ev\<rparr>"

definition pool_score :: "nodepool_candidate \<Rightarrow> opportunity_category \<Rightarrow> pyfloat \<Rightarrow> string \<Rightarrow> score_result result" where
  "pool_score c cat savings level =
     compute_score cat savings (if nc_environment c = [] then ''unknown'' else nc_environment c)
       (Some (risk_of_level level)) None max_savings_default"

definition rightsizing_target ::
  "platform \<Rightarrow> nodepool_candidate \<Rightarrow> np_decision \<Rightarrow> strategy_side \<Rightarrow> target option result" where
  "rightsizing_target pf c d side =
     (let ev = np_evidence d; dict = with_strategy side (np_evidence_dict ev) in
      if \<not> np_recommend d then Inr None
      else case pool_score c AKS_NODEPOOL_RIGHTSIZING (ne_estimated_savings ev) (np_risk_level d) of
        Inl err \<Rightarrow> Inl err
      | Inr score \<Rightarrow> Inr (Some (pool_target c AKS_NODEPOOL_RIGHTSIZING (ne_estimated_savings ev)
          (pool_description (float_repr pf) ev side)
          (rationale_of (float_repr pf) (np_reason d) (ss_confidence side) dict) dict score)))"

definition autoscaler_target ::
  "platform \<Rightarrow> nodepool_candidate \<Rightarrow> autoscaler_decision \<Rightarrow> strategy_side \<Rightarrow> target option result" where
  "autoscaler_target pf c d side =
     (let ev = AksAutoscaler.evidence d; dict = with_strategy side (autoscaler_evidence_dict ev) in
      if \<not> recommend d then Inr None
      else case pool_score c AKS_AUTOSCALER_RECOMMENDATION (ae_estimated_savings ev) (AksAutoscaler.risk_level d) of
        Inl err \<Rightarrow> Inl err
      | Inr score \<Rightarrow> Inr (Some (pool_target c AKS_AUTOSCALER_RECOMMENDATION (ae_estimated_savings ev)
          (autoscaler_description (float_repr pf) ev side)
          (rationale_of (float_repr pf) (reason d) (ss_confidence side) dict) dict score)))"

text \<open>The two targets of a candidate, the rightsizing first.\<close>

definition nodepool_targets ::
  "platform \<Rightarrow> instant \<Rightarrow> (opportunity_category \<Rightarrow> calibration_snapshot option) \<Rightarrow> nodepool_candidate
   \<Rightarrow> (target option \<times> target option) result" where
  "nodepool_targets pf now calibration c =
     (case (decide_aks_nodepool_rightsizing now (nodepool_input c),
            decide_aks_autoscaler_recommendation (autoscaler_input_of c)) of
        (Inl err, _) \<Rightarrow> Inl err
      | (_, Inl err) \<Rightarrow> Inl err
      | (Inr d, Inr a) \<Rightarrow>
          (let (rs_side, auto_side) = resolve_adaptive_aks_strategy (np_recommend d) (np_confidence d)
                 (recommend a) (AksAutoscaler.confidence a) (nc_cpu_p95 c) (nc_memory_p95 c)
                 (ae_variability_score (AksAutoscaler.evidence a)) calibration
           in case (rightsizing_target pf c d rs_side, autoscaler_target pf c a auto_side) of
                (Inl err, _) \<Rightarrow> Inl err
              | (_, Inl err) \<Rightarrow> Inl err
              | (Inr x, Inr y) \<Rightarrow> Inr (x, y)))"
end
