(* ===== verification/GenerationRun.thy ===== *)
theory GenerationRun
  imports Generation
begin

text \<open>
  The run of \<open>generate_opportunities_for_account\<close>: what it makes of the targets of \<open>Generation\<close>. A target
  whose key is new in the run updates the active row of that key or inserts one; older active rows of
  one key are dismissed; Advisor recommendations are grouped by subscription and type, one row a group.
\<close>

section \<open>One target\<close>

definition some_text :: "string \<Rightarrow> string option" where
  "some_text s = (if s = [] then None else Some s)"

definition with_score :: "score_result \<Rightarrow> opportunity \<Rightarrow> opportunity" where
  "with_score s o1 = o1\<lparr>
     op_financial_score := financial_impact_score s, op_risk_score := risk_score s,
     op_effort_score := effort_score s, op_criticality_score := criticality_score s,
     op_composite_score := composite_score s, op_risk := sr_risk_level s, op_effort := sr_effort_level s\<rparr>"

definition with_savings :: "pyfloat \<Rightarrow> opportunity \<Rightarrow> opportunity" where
  "with_savings x o1 = o1\<lparr>op_savings := Some x, op_annual_savings := py_round 2 (fmul x 12)\<rparr>"

definition written :: "target \<Rightarrow> opportunity \<Rightarrow> opportunity" where
  "written t o1 = with_savings (tg_savings t) (with_score (tg_score t) o1)\<lparr>
     op_title := generate_title (tg_category t) (tg_service t) (tg_owner_team t),
     op_description := tg_description t, op_category := tg_category t, op_current_cost := tg_cost t,
     op_resource_id := Some (tg_resource_id t), op_resource_name := Some (tg_resource_name t),
     op_sku_name := some_text (tg_sku_name t),
     op_machine_family := infer_machine_family (tg_sku_name t) (tg_resource_name t) (tg_service t),
     op_service := Some (tg_service t), op_region := Some (tg_region t),
     op_environment := Some (tg_environment t), op_owner_team := Some (tg_owner_team t),
     op_rationale := Some (tg_rationale t), op_evidence := Some (JDict (tg_evidence t)),
     op_playbook := Some (PLAYBOOKS (tg_category t))\<rparr>"

definition refreshed :: "instant \<Rightarrow> target \<Rightarrow> opportunity \<Rightarrow> opportunity" where
  "refreshed now t o1 = (written t o1)\<lparr>op_detected := now\<rparr>"

text \<open>A row with the column defaults; \<open>now()\<close> of the database is the second clock reading.\<close>

definition blank_opportunity :: "call \<Rightarrow> nat \<Rightarrow> uuid \<Rightarrow> uuid option \<Rightarrow> opportunity" where
  "blank_opportunity c k org account =
     \<lparr>op_id = fresh c k, op_org = org, op_title = [], op_category = IDLE_RESOURCES, op_composite_score = 0,
      op_savings = Some 0, op_risk = RISK_LOW, op_effort = EFFORT_MEDIUM, op_status = OPP_OPEN,
      op_resource_id = None, op_playbook = None, op_evidence = None, op_account = account,
      op_description = [], op_financial_score = 0, op_risk_score = 0, op_effort_score = 0,
      op_criticality_score = 0, op_annual_savings = 0, op_current_cost = 0, op_resource_name = None,
      op_sku_name = None, op_machine_family = None, op_service = None, op_region = None,
      op_environment = None, op_owner_team = None, op_rationale = None, op_created = clock c 1,
      op_detected = clock c 1\<rparr>"

definition op_key :: "opportunity \<Rightarrow> string" where
  "op_key o1 = opportunity_dedupe_key (op_category o1) (op_service o1) (op_owner_team o1)
     (op_environment o1) (op_region o1) (op_resource_id o1) (op_account o1)"

definition target_key :: "uuid \<Rightarrow> target \<Rightarrow> string" where
  "target_key account t = opportunity_dedupe_key (tg_category t) (Some (tg_service t))
     (Some (tg_owner_team t)) (Some (tg_environment t)) (Some (tg_region t)) (Some (tg_resource_id t))
     (Some account)"

definition change_row :: "uuid \<Rightarrow> (opportunity \<Rightarrow> opportunity) \<Rightarrow> opportunity list \<Rightarrow> opportunity list" where
  "change_row i f rows = map (\<lambda>o1. if op_id o1 = i then f o1 else o1) rows"

definition upsert_target :: "call \<Rightarrow> uuid \<Rightarrow> uuid \<Rightarrow> target \<Rightarrow> engine_run \<Rightarrow> engine_run" where
  "upsert_target c org account t run =
     (let key = target_key account t in
      if key \<in> set (er_seen run) then run
      else case map_of (er_keys run) key of
        Some i \<Rightarrow> run\<lparr>er_seen := key # er_seen run,
            er_opportunities := change_row i (refreshed (clock c 0) t) (er_opportunities run),
            er_result := er_result run @ [i]\<rparr>
      | None \<Rightarrow>
          let o1 = written t (blank_opportunity c (er_new run) org (Some account))
          in run\<lparr>er_seen := key # er_seen run, er_opportunities := row_add o1 (er_opportunities run),
               er_keys := er_keys run @ [(key, op_id o1)], er_result := er_result run @ [op_id o1],
               er_new := er_new run + 1\<rparr>)"

definition upsert_some :: "call \<Rightarrow> uuid \<Rightarrow> uuid \<Rightarrow> target option \<Rightarrow> engine_run \<Rightarrow> engine_run" where
  "upsert_some c org account t run = (case t of None \<Rightarrow> run | Some x \<Rightarrow> upsert_target c org account x run)"

section \<open>The loops over rows and candidates\<close>

fun each :: "('x \<Rightarrow> 's \<Rightarrow> 's result) \<Rightarrow> 'x list \<Rightarrow> 's \<Rightarrow> 's result" where
  "each f [] s = Inr s"
| "each f (x # xs) s = (case f x s of Inl err \<Rightarrow> Inl err | Inr s' \<Rightarrow> each f xs s')"

definition cost_step ::
  "platform \<Rightarrow> call \<Rightarrow> uuid \<Rightarrow> uuid \<Rightarrow> engine_input \<Rightarrow> advisor_row list \<Rightarrow> cost_row \<Rightarrow> engine_run
   \<Rightarrow> engine_run result" where
  "cost_step pf c org account inp advisor row run =
     (case cost_target pf (clock c 0) org account inp advisor row of
        Inl err \<Rightarrow> Inl err
      | Inr t \<Rightarrow> Inr (upsert_some c org account t run))"

definition nodepool_step ::
  "platform \<Rightarrow> call \<Rightarrow> uuid \<Rightarrow> uuid \<Rightarrow> (opportunity_category \<Rightarrow> calibration_snapshot option)
   \<Rightarrow> nodepool_candidate \<Rightarrow> engine_run \<Rightarrow> engine_run result" where
  "nodepool_step pf c org account calibration candidate run =
     (case nodepool_targets pf (clock c 0) calibration candidate of
        Inl err \<Rightarrow> Inl err
      | Inr (t, u) \<Rightarrow> Inr (upsert_some c org account u (upsert_some c org account t run)))"

section \<open>Active rows and duplicates\<close>

definition active_status :: "opportunity_status \<Rightarrow> bool" where
  "active_status s \<longleftrightarrow> s \<in> {OPP_OPEN, OPP_IN_PROGRESS, OPP_VALIDATED}"

definition active_in :: "uuid \<Rightarrow> uuid \<Rightarrow> opportunity \<Rightarrow> bool" where
  "active_in org account o1 \<longleftrightarrow>
     op_org o1 = org \<and> op_account o1 = Some account \<and> active_status (op_status o1)"

text \<open>The active rows, the latest first; the database may order rows of one instant in any way.\<close>

definition existing_items :: "uuid \<Rightarrow> uuid \<Rightarrow> opportunity list \<Rightarrow> opportunity list" where
  "existing_items org account rows = rev (sort_key op_created (filter (active_in org account) rows))"

fun split_existing :: "opportunity list \<Rightarrow> (string \<times> uuid) list \<Rightarrow> uuid list \<Rightarrow> (string \<times> uuid) list \<times> uuid list" where
  "split_existing [] ks dups = (ks, dups)"
| "split_existing (o1 # os) ks dups =
     (if map_of ks (op_key o1) \<noteq> None then split_existing os ks (dups @ [op_id o1])
      else split_existing os (ks @ [(op_key o1, op_id o1)]) dups)"

definition dismissed_note :: string where
  "dismissed_note = [CHR 0x0A, CHR 0x0A] @ ''[system] Auto-dismissed duplicate opportunity.''"

definition dismissed :: "opportunity \<Rightarrow> opportunity" where
  "dismissed o1 = (if op_status o1 \<noteq> OPP_OPEN then o1
     else o1\<lparr>op_status := OPP_DISMISSED,
       op_rationale := Some (py_strip (py_strip (or_empty (op_rationale o1)) @ dismissed_note))\<rparr>)"

definition dismiss_duplicates :: "uuid list \<Rightarrow> engine_run \<Rightarrow> engine_run" where
  "dismiss_duplicates dups run = run\<lparr>er_opportunities :=
     foldl (\<lambda>rows i. change_row i dismissed rows) (er_opportunities run) dups\<rparr>"

text \<open>The run up to the grouped recommendations: rows, candidates, duplicates.\<close>

definition start_run :: "uuid \<Rightarrow> uuid \<Rightarrow> opportunity list \<Rightarrow> engine_run \<times> uuid list" where
  "start_run org account rows =
     (let (ks, dups) = split_existing (existing_items org account rows) [] []
      in (\<lparr>er_opportunities = rows, er_keys = ks, er_seen = [], er_result = [], er_new = 0\<rparr>, dups))"

definition rows_of :: "'a list option \<Rightarrow> 'a list" where
  "rows_of r = (case r of None \<Rightarrow> [] | Some xs \<Rightarrow> xs)"

definition strategy_calibration ::
  "uuid \<Rightarrow> 'z opp_db_scheme \<Rightarrow> opportunity_category \<Rightarrow> calibration_snapshot option" where
  "strategy_calibration org db =
     get_category_snapshots org [AKS_NODEPOOL_RIGHTSIZING, AKS_AUTOSCALER_RECOMMENDATION] db"

definition scored_run ::
  "platform \<Rightarrow> call \<Rightarrow> uuid \<Rightarrow> uuid \<Rightarrow> engine_input \<Rightarrow> 'z opp_db_scheme \<Rightarrow> engine_run result" where
  "scored_run pf c org account inp db =
     (let (run, dups) = start_run org account (opportunities db) in
      case each (cost_step pf c org account inp (rows_of (ei_advisor_rows inp)))
             (rows_of (ei_cost_rows inp)) run of
        Inl err \<Rightarrow> Inl err
      | Inr run \<Rightarrow>
          (case each (nodepool_step pf c org account (strategy_calibration org db))
               (get_aks_nodepool_candidates (float_repr pf) (float_of_str pf) (ei_nodepool_rows inp)) run of
             Inl err \<Rightarrow> Inl err
           | Inr run \<Rightarrow> Inr (dismiss_duplicates dups run)))"

section \<open>Grouped Advisor recommendations\<close>

text \<open>The lower-cased resources of \<open>advisor_by_resource\<close> that occur among the keys of the run.\<close>

definition advisor_used_rids :: "advisor_row list \<Rightarrow> string list \<Rightarrow> string list" where
  "advisor_used_rids rows seen =
     filter (\<lambda>k. k \<noteq> [] \<and> k \<in> set seen) (map (\<lambda>r. py_lower (ar_resource_id r)) rows)"

fun eligible_advisor :: "string list \<Rightarrow> string list \<Rightarrow> advisor_row list \<Rightarrow> advisor_row list" where
  "eligible_advisor used seen_ids [] = []"
| "eligible_advisor used seen_ids (r # rs) =
     (if ar_estimated_savings r \<le> 0 \<or> monthly_savings_of r < 10
        \<or> py_lower (py_strip (ar_resource_id r)) \<in> set used \<or> ar_recommendation_id r \<in> set seen_ids
      then eligible_advisor used seen_ids rs
      else r # eligible_advisor used (ar_recommendation_id r # seen_ids) rs)"

definition group_key_of :: "advisor_row \<Rightarrow> string" where
  "group_key_of r =
     ar_subscription_id r @ ''|'' @ normalize_advisor_type (py_lower (ar_short_description r))"

definition advisor_groups :: "advisor_row list \<Rightarrow> (string \<times> advisor_row list) list" where
  "advisor_groups rs = foldl (\<lambda>gs r. AList.update (group_key_of r)
     ((case map_of gs (group_key_of r) of None \<Rightarrow> [] | Some xs \<Rightarrow> xs) @ [r]) gs) [] rs"

definition subscription_names ::
  "uuid \<Rightarrow> string list \<Rightarrow> subscription_row list \<Rightarrow> string \<Rightarrow> string option" where
  "subscription_names org ids rows =
     map_of (rev (concat (map (\<lambda>s. case sub_name s of
        None \<Rightarrow> []
      | Some n \<Rightarrow> if sub_org s = org \<and> sub_id s \<in> set ids then [(sub_id s, n)] else []) rows)))"

definition impact_of :: "advisor_row \<Rightarrow> string" where
  "impact_of r = (if ar_impact r = [] then ''Medium'' else ar_impact r)"

definition child_of :: "advisor_row \<Rightarrow> json" where
  "child_of r = JDict
     [(''recommendation_id'', JStr (ar_recommendation_id r)),
      (''estimated_savings'', JFloat (monthly_savings_of r)),
      (''description'', JStr (ar_short_description r)), (''impact'', JStr (impact_of r)),
      (''resource_id'', JStr (py_strip (ar_resource_id r)))]"

definition subscription_level :: "string \<Rightarrow> bool" where
  "subscription_level rid \<longleftrightarrow> rid \<noteq> [] \<and> py_startswith (py_lower rid) ''/subscriptions/''
     \<and> \<not> py_contains (py_lower rid) ''resourcegroups''"

text \<open>The query does not select \<open>extended_properties\<close>, so the current spend is never known.\<close>

definition group_evidence :: "string \<Rightarrow> string \<Rightarrow> advisor_row list \<Rightarrow> dict" where
  "group_evidence sub norm_type recs =
     (let best = hd recs; monthly = monthly_savings_of best in
      [(''source'', JStr ''azure_advisor''), (''is_grouped'', JBool True),
       (''is_subscription_level'', JBool (subscription_level (py_strip (ar_resource_id best)))),
       (''recommendation_type'', JStr norm_type), (''recommendation_count'', JInt (int (length recs))),
       (''best_recommendation_id'', JStr (ar_recommendation_id best)),
       (''total_potential_savings'', JFloat (py_round 2 (float_sum (map monthly_savings_of recs)))),
       (''child_recommendations'', JList (map child_of recs)), (''subscription_id'', JStr sub),
       (''advisor_description'', JStr (ar_short_description best)), (''advisor_impact'', JStr (impact_of best)),
       (''savings_period'', JStr (savings_period_of best)), (''estimated_savings'', JFloat monthly),
       (''estimated_annual_savings'', JFloat (py_round 2 (fmul monthly 12))), (''current_spend'', JNull),
       (''confidence'', JFloat (fl (9/10)))])"

definition group_description :: "advisor_row list \<Rightarrow> string" where
  "group_description recs =
     (let best = hd recs;
          monthly = monthly_savings_of best;
          amounts = fmt_brl (Some monthly) @ ''/month ('' @ fmt_brl (Some (py_round 2 (fmul monthly 12)))
            @ ''/year). Source: Azure Advisor, impact: '' @ impact_of best @ ''.''
      in if length recs = 1
         then ''Azure Advisor: '' @ ar_short_description best @ ''. Estimated savings: '' @ amounts
         else ''Azure Advisor identified '' @ nat_str (length recs)
           @ '' optimization options. Best option saves '' @ amounts)"

text \<open>What a group writes to its row, found or new.\<close>

definition group_written ::
  "opportunity_category \<Rightarrow> string \<Rightarrow> string \<Rightarrow> string \<Rightarrow> advisor_row list \<Rightarrow> score_result
   \<Rightarrow> opportunity \<Rightarrow> opportunity" where
  "group_written cat title sub norm_type recs score o1 =
     (let best = hd recs; rid = py_strip (ar_resource_id best) in
      with_savings (monthly_savings_of best) (with_score score o1)\<lparr>
        op_title := title, op_description := group_description recs, op_category := cat,
        op_resource_id := Some rid, op_resource_name := Some [],
        op_service := Some (if rid \<noteq> [] then extract_service_from_resource_id rid else ''Azure Subscription''),
        op_rationale := Some (rationale score),
        op_evidence := Some (JDict (group_evidence sub norm_type recs))\<rparr>)"

definition group_new :: "opportunity \<Rightarrow> opportunity" where
  "group_new o1 = o1\<lparr>op_current_cost := 0, op_region := Some [], op_environment := Some ''production'',
     op_owner_team := Some no_team, op_playbook := Some (PLAYBOOKS (op_category o1))\<rparr>"

definition group_row ::
  "call \<Rightarrow> nat \<Rightarrow> uuid \<Rightarrow> uuid \<Rightarrow> opportunity_category \<Rightarrow> string \<Rightarrow> string \<Rightarrow> string
   \<Rightarrow> advisor_row list \<Rightarrow> score_result \<Rightarrow> opportunity" where
  "group_row c k org account cat title sub norm_type recs score =
     group_new (group_written cat title sub norm_type recs score (blank_opportunity c k org (Some account)))"

text \<open>The evidence of the row an entry of \<open>existing_by_key\<close> refers to.\<close>

definition entry_evidence :: "opportunity list \<Rightarrow> uuid \<Rightarrow> dict" where
  "entry_evidence rows i =
     (case row_find op_id i rows of None \<Rightarrow> []
      | Some o1 \<Rightarrow> (case op_evidence o1 of None \<Rightarrow> [] | Some ev \<Rightarrow> as_dict ev))"

fun find_grouped ::
  "(pyfloat \<Rightarrow> string) \<Rightarrow> string \<Rightarrow> string \<Rightarrow> opportunity list \<Rightarrow> uuid list \<Rightarrow> uuid option result" where
  "find_grouped frepr sub norm_type rows [] = Inr None"
| "find_grouped frepr sub norm_type rows (i # is) =
     (let ev = entry_evidence rows i; s = field ev ''subscription_id'' in
      if field ev ''source'' \<noteq> JStr ''azure_advisor'' \<or> field ev ''is_grouped'' \<noteq> JBool True
      then find_grouped frepr sub norm_type rows is
      else if truthy s \<and> \<not> (case s of JStr _ \<Rightarrow> True | _ \<Rightarrow> False) then Inl (AttributeError ''strip'')
      else if norm_text (text_or_empty frepr s) = norm_text sub
        \<and> normalize_advisor_type (py_lower (text_or_empty frepr (field ev ''advisor_description''))) = norm_type
      then Inr (Some i)
      else find_grouped frepr sub norm_type rows is)"

definition find_recommended :: "string \<Rightarrow> opportunity list \<Rightarrow> uuid list \<Rightarrow> uuid option" where
  "find_recommended rec_id rows is =
     find (\<lambda>i. field (entry_evidence rows i) ''source'' = JStr ''azure_advisor''
        \<and> field (entry_evidence rows i) ''advisor_recommendation_id'' = JStr rec_id) is"

definition existing_advisor ::
  "(pyfloat \<Rightarrow> string) \<Rightarrow> string \<Rightarrow> string \<Rightarrow> string \<Rightarrow> engine_run \<Rightarrow> uuid option result" where
  "existing_advisor frepr sub norm_type rec_id run =
     (case find_grouped frepr sub norm_type (er_opportunities run) (map snd (er_keys run)) of
        Inl err \<Rightarrow> Inl err
      | Inr (Some i) \<Rightarrow> Inr (Some i)
      | Inr None \<Rightarrow> Inr (if rec_id = [] then None
          else find_recommended rec_id (er_opportunities run) (map snd (er_keys run))))"

definition advisor_group_key :: "uuid \<Rightarrow> string \<Rightarrow> string \<Rightarrow> string" where
  "advisor_group_key account sub norm_type =
     ''advisor_group|'' @ norm_text (uuid_str account) @ ''|'' @ norm_text sub @ ''|'' @ norm_type"

definition group_step ::
  "platform \<Rightarrow> call \<Rightarrow> uuid \<Rightarrow> uuid \<Rightarrow> (string \<Rightarrow> string option) \<Rightarrow> string \<times> advisor_row list \<Rightarrow> engine_run
   \<Rightarrow> engine_run result" where
  "group_step pf c org account names g run =
     (let sub = before (CHR ''|'') (fst g);
          norm_type = after (CHR ''|'') (fst g);
          recs = sort_key (\<lambda>r. - monthly_savings_of r) (snd g);
          best = hd recs;
          key = advisor_group_key account sub norm_type;
          (cat, title) = advisor_group_category_title norm_type sub (length recs) (names sub)
      in if key \<in> set (er_seen run) then Inr run
         else case compute_score cat (monthly_savings_of best) ''production'' (Some RISK_LOW) None
             max_savings_default of
           Inl err \<Rightarrow> Inl err
         | Inr score \<Rightarrow>
             (case existing_advisor (float_repr pf) sub norm_type (ar_recommendation_id best) run of
                Inl err \<Rightarrow> Inl err
              | Inr (Some i) \<Rightarrow> Inr (run\<lparr>er_opportunities := change_row i
                    (\<lambda>o1. (group_written cat title sub norm_type recs score o1)\<lparr>op_detected := clock c 0\<rparr>)
                    (er_opportunities run),
                  er_seen := key # er_seen run, er_result := er_result run @ [i]\<rparr>)
              | Inr None \<Rightarrow>
                  let o1 = group_row c (er_new run) org account cat title sub norm_type recs score
                  in Inr (run\<lparr>er_opportunities := row_add o1 (er_opportunities run),
                       er_seen := key # er_seen run, er_result := er_result run @ [op_id o1],
                       er_new := er_new run + 1\<rparr>)))"

text \<open>The groups of a run: the recommendations not used by a row of the run, by subscription and type.\<close>

definition run_groups :: "engine_input \<Rightarrow> engine_run \<Rightarrow> (string \<times> advisor_row list) list" where
  "run_groups inp run =
     (let rows = rows_of (ei_advisor_rows inp)
      in advisor_groups (eligible_advisor (advisor_used_rids rows (er_seen run)) [] rows))"

definition group_phase ::
  "platform \<Rightarrow> call \<Rightarrow> uuid \<Rightarrow> uuid \<Rightarrow> engine_input \<Rightarrow> engine_run \<Rightarrow> engine_run result" where
  "group_phase pf c org account inp run =
     (let groups = run_groups inp run;
          names = subscription_names org (map (\<lambda>g. before (CHR ''|'') (fst g)) groups) (ei_subscriptions inp)
      in each (group_step pf c org account names) groups run)"

section \<open>The whole run\<close>

definition generate_opportunities_for_account ::
  "platform \<Rightarrow> call \<Rightarrow> uuid \<Rightarrow> uuid \<Rightarrow> engine_input \<Rightarrow> ('z opp_db_scheme, opportunity list) svc" where
  "generate_opportunities_for_account pf c org account inp db =
     (case scored_run pf c org account inp db of
        Inl err \<Rightarrow> (Inl err, db)
      | Inr run \<Rightarrow>
          (case group_phase pf c org account inp run of
             Inl err \<Rightarrow> (Inl err, db)
           | Inr run \<Rightarrow>
               if \<not> distinct (map op_id (er_opportunities run))
               then (Inl (IntegrityError ''optimization_opportunities_pkey''), db)
               else
               (Inr (List.map_filter (\<lambda>i. row_find op_id i (er_opportunities run)) (er_result run)),
                db\<lparr>opportunities := er_opportunities run\<rparr>)))"

end
