(* ===== verification/GenerationLaws.thy ===== *)
theory GenerationLaws
  imports GenerationRun
begin

text \<open>
  What a scoring run of an account (\<open>GenerationRun\<close>) does to the table: it never raises, it keeps at
  most one open row per target, a second run over the same targets adds none, and the adaptive strategy
  of a node pool stays in range. Also where grouped Advisor recommendations break this: the guard
  against counting a recommendation twice never applies, and the savings plan and the reservations of one
  subscription share a key.
\<close>

section \<open>The parts of the table a write keeps\<close>

lemma written_keeps [simp]:
  "op_id (written t o1) = op_id o1" "op_org (written t o1) = op_org o1"
  "op_account (written t o1) = op_account o1" "op_status (written t o1) = op_status o1"
  by (simp_all add: written_def with_savings_def with_score_def)

lemma refreshed_keeps [simp]:
  "op_id (refreshed now t o1) = op_id o1" "op_org (refreshed now t o1) = op_org o1"
  "op_account (refreshed now t o1) = op_account o1" "op_status (refreshed now t o1) = op_status o1"
  by (simp_all add: refreshed_def)

lemma blank_opportunity_fields [simp]:
  "op_id (blank_opportunity c k org a) = fresh c k" "op_org (blank_opportunity c k org a) = org"
  "op_account (blank_opportunity c k org a) = a" "op_status (blank_opportunity c k org a) = OPP_OPEN"
  by (simp_all add: blank_opportunity_def)

lemma key_written: "op_account o1 = Some account \<Longrightarrow> op_key (written t o1) = target_key account t"
  by (simp add: op_key_def target_key_def written_def with_savings_def with_score_def)

lemma key_refreshed: "op_account o1 = Some account \<Longrightarrow> op_key (refreshed now t o1) = target_key account t"
  using key_written [of o1 account t] by (simp add: refreshed_def op_key_def)

lemma dismissed_keeps [simp]:
  "op_id (dismissed o1) = op_id o1" "op_org (dismissed o1) = op_org o1"
  "op_account (dismissed o1) = op_account o1" "op_key (dismissed o1) = op_key o1"
  "op_status (dismissed o1) \<noteq> OPP_OPEN"
  by (simp_all add: dismissed_def op_key_def)

lemma dismissed_idem [simp]: "dismissed (dismissed o1) = dismissed o1"
  using dismissed_keeps(5) [of o1] by (simp add: dismissed_def [of "dismissed o1"])

lemma active_open: "active_in org account o1 \<Longrightarrow> op_org o1 = org \<and> op_account o1 = Some account"
  by (simp add: active_in_def)

lemma active_same:
  "op_org x = op_org y \<Longrightarrow> op_account x = op_account y \<Longrightarrow> op_status x = op_status y \<Longrightarrow>
   active_in org account x = active_in org account y"
  by (simp add: active_in_def)

lemma ids_change_row [simp]:
  "(\<And>o1. op_id (f o1) = op_id o1) \<Longrightarrow> map op_id (change_row i f rows) = map op_id rows"
  by (simp add: change_row_def)

lemma set_change_row: "set (change_row i f rows) = (\<lambda>x. if op_id x = i then f x else x) ` set rows"
  by (simp add: change_row_def)

lemma change_dismissed:
  "foldl (\<lambda>rows i. change_row i dismissed rows) rows is
     = map (\<lambda>o1. if op_id o1 \<in> set is then dismissed o1 else o1) rows"
  by (induction "is" arbitrary: rows) (auto simp: change_row_def)

section \<open>The invariant of a run\<close>

text \<open>
  Every active row of the account is the row of its key, or a duplicate found at the start; the keys
  seen so far have a row; the first \<open>cap\<close> identifiers are distinct and those still to be drawn are not in use.
\<close>

definition run_ok :: "call \<Rightarrow> nat \<Rightarrow> uuid \<Rightarrow> uuid \<Rightarrow> uuid list \<Rightarrow> engine_run \<Rightarrow> bool" where
  "run_ok c cap org account dups run \<longleftrightarrow>
     distinct (map op_id (er_opportunities run)) \<and> distinct (map fst (er_keys run))
   \<and> (\<forall>(k, i)\<in>set (er_keys run). i \<notin> set dups
        \<and> (\<exists>o1\<in>set (er_opportunities run). op_id o1 = i \<and> op_key o1 = k \<and> active_in org account o1))
   \<and> (\<forall>o1\<in>set (er_opportunities run). active_in org account o1 \<longrightarrow>
        (op_key o1, op_id o1) \<in> set (er_keys run) \<or> op_id o1 \<in> set dups)
   \<and> (\<forall>o1\<in>set (er_opportunities run). \<forall>n\<in>{er_new run..<cap}. op_id o1 \<noteq> fresh c n)
   \<and> (\<forall>i\<in>set dups. \<forall>n<cap. i \<noteq> fresh c n)
   \<and> set (er_seen run) \<subseteq> fst ` set (er_keys run)"

definition draws_new :: "call \<Rightarrow> nat \<Rightarrow> opportunity list \<Rightarrow> bool" where
  "draws_new c cap rows \<longleftrightarrow> distinct (map op_id rows @ map (fresh c) [0..<cap])"

lemma split_keys_distinct:
  "distinct (map fst ks) \<Longrightarrow> distinct (map fst (fst (split_existing os ks dups)))"
  by (induction os ks dups rule: split_existing.induct) (auto simp: map_of_eq_None_iff)

lemma split_monotone:
  "set ks \<subseteq> set (fst (split_existing os ks dups)) \<and> set dups \<subseteq> set (snd (split_existing os ks dups))"
  by (induction os ks dups rule: split_existing.induct) auto

lemma split_rows:
  "set (fst (split_existing os ks dups)) \<subseteq> set ks \<union> (\<lambda>o1. (op_key o1, op_id o1)) ` set os"
  "set (snd (split_existing os ks dups)) \<subseteq> set dups \<union> op_id ` set os"
  by (induction os ks dups rule: split_existing.induct) auto

lemma split_complete:
  "o1 \<in> set os \<Longrightarrow> (op_key o1, op_id o1) \<in> set (fst (split_existing os ks dups))
     \<or> op_id o1 \<in> set (snd (split_existing os ks dups))"
proof (induction os ks dups rule: split_existing.induct)
  case (2 o2 os ks dups)
  then show ?case
    using split_monotone [of "ks @ [(op_key o2, op_id o2)]" os dups] split_monotone [of ks os "dups @ [op_id o2]"]
    by auto
qed simp

lemma split_covers: "fst ` set ks \<union> op_key ` set os \<subseteq> fst ` set (fst (split_existing os ks dups))"
proof (induction os ks dups rule: split_existing.induct)
  case (2 o2 os ks dups)
  show ?case
  proof (cases "map_of ks (op_key o2) \<noteq> None")
    case True
    then have "op_key o2 \<in> fst ` set ks" by (auto simp: map_of_eq_None_iff)
    with 2(1) [OF True] True show ?thesis by auto
  qed (use 2(2) in auto)
qed simp

lemma split_apart:
  assumes "distinct (map op_id os)" and "op_id ` set os \<inter> (snd ` set ks \<union> set dups) = {}"
    and "snd ` set ks \<inter> set dups = {}"
  shows "snd ` set (fst (split_existing os ks dups)) \<inter> set (snd (split_existing os ks dups)) = {}"
  using assms by (induction os ks dups rule: split_existing.induct) auto

lemma existing_rows:
  "set (existing_items org account rows) = {o1 \<in> set rows. active_in org account o1}"
  "distinct (map op_id rows) \<Longrightarrow> distinct (map op_id (existing_items org account rows))"
proof -
  show "set (existing_items org account rows) = {o1 \<in> set rows. active_in org account o1}"
    by (simp add: existing_items_def)
  assume "distinct (map op_id rows)"
  then show "distinct (map op_id (existing_items org account rows))"
    unfolding existing_items_def
    by (simp add: rev_map [symmetric] distinct_map inj_on_def)
qed

lemma start_run_ok:
  assumes "draws_new c cap rows" and "start_run org account rows = (run, dups)"
  shows "run_ok c cap org account dups run" and "er_opportunities run = rows" and "er_new run = 0"
    and "op_key ` {o1 \<in> set rows. active_in org account o1} \<subseteq> fst ` set (er_keys run)"
proof -
  let ?os = "existing_items org account rows"
  let ?s = "split_existing ?os [] []"
  have run: "run = \<lparr>er_opportunities = rows, er_keys = fst ?s, er_seen = [], er_result = [], er_new = 0\<rparr>"
    and dups: "dups = snd ?s"
    using assms(2) by (auto simp: start_run_def split: prod.splits)
  have d: "distinct (map op_id rows)" using assms(1) by (simp add: draws_new_def)
  have ks: "distinct (map fst (fst ?s))" by (rule split_keys_distinct) simp
  have apart: "snd ` set (fst ?s) \<inter> set (snd ?s) = {}"
    by (rule split_apart) (simp_all add: existing_rows(2) [OF d])
  have rows: "set (fst ?s) \<subseteq> (\<lambda>o1. (op_key o1, op_id o1)) ` set ?os" "set (snd ?s) \<subseteq> op_id ` set ?os"
    using split_rows [of ?os "[]" "[]"] by simp_all
  show "er_opportunities run = rows" "er_new run = 0" by (simp_all add: run)
  show "op_key ` {o1 \<in> set rows. active_in org account o1} \<subseteq> fst ` set (er_keys run)"
    using split_covers [of "[]" ?os "[]"] by (simp add: run existing_rows(1))
  have keys: "i \<notin> set dups \<and> (\<exists>o1\<in>set rows. op_id o1 = i \<and> op_key o1 = k \<and> active_in org account o1)"
    if "(k, i) \<in> set (fst ?s)" for k i
    using that rows(1) apart by (fastforce simp: dups existing_rows(1))
  have covered: "(op_key o1, op_id o1) \<in> set (fst ?s) \<or> op_id o1 \<in> set dups"
    if "o1 \<in> set rows" "active_in org account o1" for o1
    using that split_complete [of o1 ?os "[]" "[]"] by (simp add: dups existing_rows(1))
  have fresh: "i \<noteq> fresh c n" if "i \<in> set dups" "n < cap" for i n
  proof -
    from that(1) rows(2) obtain x where "x \<in> set rows" "i = op_id x" by (auto simp: dups existing_rows(1))
    with assms(1) that(2) show ?thesis by (auto simp: draws_new_def)
  qed
  show "run_ok c cap org account dups run"
    using d ks keys covered fresh assms(1) by (auto simp: run_ok_def run draws_new_def)
qed

lemma upsert_cases:
  obtains (seen) "target_key account t \<in> set (er_seen run)" "upsert_target c org account t run = run"
  | (known) i where "target_key account t \<notin> set (er_seen run)"
      "map_of (er_keys run) (target_key account t) = Some i"
      "upsert_target c org account t run = run\<lparr>er_seen := target_key account t # er_seen run,
         er_opportunities := change_row i (refreshed (clock c 0) t) (er_opportunities run),
         er_result := er_result run @ [i]\<rparr>"
  | (added) "target_key account t \<notin> set (er_seen run)"
      "map_of (er_keys run) (target_key account t) = None"
      "upsert_target c org account t run = run\<lparr>er_seen := target_key account t # er_seen run,
         er_opportunities := er_opportunities run
           @ [written t (blank_opportunity c (er_new run) org (Some account))],
         er_keys := er_keys run @ [(target_key account t, fresh c (er_new run))],
         er_result := er_result run @ [fresh c (er_new run)], er_new := er_new run + 1\<rparr>"
proof (cases "map_of (er_keys run) (target_key account t)")
  case None
  then show thesis using seen added by (auto simp: upsert_target_def Let_def row_add_def split: if_splits)
next
  case (Some i)
  then show thesis using seen known by (auto simp: upsert_target_def Let_def split: if_splits)
qed

lemma run_ok_map:
  assumes "run_ok c cap org account dups run" and "er_new run' = er_new run" and "er_keys run' = er_keys run"
    and "er_opportunities run' = map f (er_opportunities run)"
    and "set (er_seen run') \<subseteq> fst ` set (er_keys run)"
    and f: "\<And>x. x \<in> set (er_opportunities run) \<Longrightarrow>
      op_id (f x) = op_id x \<and> op_key (f x) = op_key x \<and> active_in org account (f x) = active_in org account x"
  shows "run_ok c cap org account dups run'"
proof -
  have "map op_id (map f (er_opportunities run)) = map op_id (er_opportunities run)"
    using f by simp
  then show ?thesis
    using assms(1,5) f unfolding run_ok_def assms(2-4) by (auto simp del: map_map)
qed

definition touched :: "instant \<Rightarrow> target \<Rightarrow> uuid \<Rightarrow> opportunity \<Rightarrow> opportunity" where
  "touched now t i x = (if op_id x = i then refreshed now t x else x)"

lemma change_touched: "change_row i (refreshed now t) rows = map (touched now t i) rows"
  by (simp add: change_row_def touched_def)

lemma touched_same:
  assumes ok: "run_ok c cap org account dups run" and key: "map_of (er_keys run) (target_key account t) = Some i"
    and x: "x \<in> set (er_opportunities run)"
  shows "op_id (touched now t i x) = op_id x \<and> op_key (touched now t i x) = op_key x
    \<and> active_in org account (touched now t i x) = active_in org account x"
proof (cases "op_id x = i")
  case True
  have "(target_key account t, i) \<in> set (er_keys run)" using key by (rule map_of_SomeD)
  then obtain z where z: "z \<in> set (er_opportunities run)" "op_id z = i" "op_key z = target_key account t"
    "active_in org account z" using ok by (fastforce simp: run_ok_def)
  have "x = z" using ok x z(1,2) True by (auto simp: run_ok_def distinct_map inj_on_def)
  with z show ?thesis
    by (simp add: touched_def key_refreshed [OF conjunct2 [OF active_open [OF z(4)]]] active_in_def)
qed (simp add: touched_def)

lemma run_ok_added:
  assumes "run_ok c cap org account dups run" and "inj_on (fresh c) {..<cap}" and "er_new run < cap"
    and "map_of (er_keys run) k = None"
    and "op_id o1 = fresh c (er_new run)" and "op_key o1 = k" and "active_in org account o1"
  shows "run_ok c cap org account dups (run\<lparr>er_seen := k # er_seen run,
     er_opportunities := er_opportunities run @ [o1], er_keys := er_keys run @ [(k, op_id o1)],
     er_result := r, er_new := er_new run + 1\<rparr>)"
proof -
  have "k \<notin> fst ` set (er_keys run)" using assms(4) by (simp add: map_of_eq_None_iff)
  moreover have new: "fresh c (er_new run) \<noteq> fresh c n" if "n \<in> {er_new run + 1..<cap}" for n
    using that assms(2) by (auto dest: inj_onD)
  moreover have "op_id x \<noteq> fresh c (er_new run)" if "x \<in> set (er_opportunities run)" for x
    using that assms(1,3) by (simp add: run_ok_def)
  then have "fresh c (er_new run) \<notin> op_id ` set (er_opportunities run)" by fastforce
  moreover have "fresh c (er_new run) \<notin> set dups" using assms(1,3) by (auto simp: run_ok_def)
  ultimately show ?thesis
    using assms(1,5-7) unfolding run_ok_def by (simp add: image_iff ball_Un subset_insertI2) (auto 0 3)
qed

lemma upsert_ok:
  assumes ok: "run_ok c cap org account dups run" and "inj_on (fresh c) {..<cap}"
    and "er_new (upsert_target c org account t run) \<le> cap"
  shows "run_ok c cap org account dups (upsert_target c org account t run)"
proof (cases rule: upsert_cases [of account t run c org])
  case seen
  with ok show ?thesis by simp
next
  case (known i)
  have "target_key account t \<in> fst ` set (er_keys run)"
    using map_of_SomeD [OF known(2)] by (rule image_eqI [rotated]) simp
  moreover have "set (er_seen run) \<subseteq> fst ` set (er_keys run)" using ok by (simp add: run_ok_def)
  ultimately show ?thesis
    unfolding known(3) change_touched
    by (intro run_ok_map [OF ok, where f = "touched (clock c 0) t i"]) (simp_all add: touched_same [OF ok known(2)])
next
  case added
  let ?o = "written t (blank_opportunity c (er_new run) org (Some account))"
  have "active_in org account ?o" by (simp add: active_in_def active_status_def)
  moreover have "er_new run < cap" using assms(3) by (simp add: added(3))
  ultimately show ?thesis using run_ok_added [OF ok assms(2) _ added(2), of ?o]
    by (simp add: added(3) key_written)
qed

section \<open>The loops\<close>

lemma each_induct:
  assumes "each f xs s = Inr s'" and "I s" and "\<And>x a b. x \<in> set xs \<Longrightarrow> I a \<Longrightarrow> f x a = Inr b \<Longrightarrow> I b"
  shows "I s'"
  using assms
proof (induction xs arbitrary: s)
  case (Cons x xs)
  then obtain b where b: "f x s = Inr b" "each f xs b = Inr s'" by (auto split: sum.splits)
  show ?case
    by (rule Cons.IH [OF b(2)]) (use Cons.prems(2,3) b(1) in \<open>auto\<close>)
qed simp

lemma each_total:
  assumes "\<And>x a. \<exists>b. f x a = Inr b"
  shows "\<exists>s'. each f xs s = Inr s'"
proof (induction xs arbitrary: s)
  case (Cons x xs)
  obtain b where "f x s = Inr b" using assms by blast
  with Cons show ?case by simp
qed simp

text \<open>Every step of the loops is a sequence of upserts, so what these keep the phases keep.\<close>

lemma upsert_some_induct:
  assumes "I run" and "\<And>t r. I r \<Longrightarrow> I (upsert_target c org account t r)"
  shows "I (upsert_some c org account t run)"
  using assms by (simp add: upsert_some_def split: option.split)

lemma cost_step_induct:
  assumes "cost_step pf c org account inp advisor row run = Inr run'" and "I run"
    and "\<And>t r. I r \<Longrightarrow> I (upsert_target c org account t r)"
  shows "I run'"
  using assms upsert_some_induct [of I] by (auto simp: cost_step_def split: sum.splits)

lemma nodepool_step_induct:
  assumes "nodepool_step pf c org account cal cand run = Inr run'" and "I run"
    and "\<And>t r. I r \<Longrightarrow> I (upsert_target c org account t r)"
  shows "I run'"
proof -
  obtain t u where "run' = upsert_some c org account u (upsert_some c org account t run)"
    using assms(1) by (auto simp: nodepool_step_def split: sum.splits prod.splits)
  then show ?thesis by (simp add: upsert_some_induct [of I] assms(2,3))
qed

lemma scored_run_induct:
  assumes "scored_run pf c org account inp db = Inr run"
  obtains start dups mid where "start_run org account (opportunities db) = (start, dups)"
    "run = dismiss_duplicates dups mid"
    "\<And>I. I start \<Longrightarrow> (\<And>t r. I r \<Longrightarrow> I (upsert_target c org account t r)) \<Longrightarrow> I mid"
proof -
  obtain start dups where start: "start_run org account (opportunities db) = (start, dups)" by fastforce
  let ?f = "cost_step pf c org account inp (rows_of (ei_advisor_rows inp))"
  let ?g = "nodepool_step pf c org account (strategy_calibration org db)"
  obtain r mid where 1: "each ?f (rows_of (ei_cost_rows inp)) start = Inr r"
    and 2: "each ?g (get_aks_nodepool_candidates (float_repr pf) (float_of_str pf) (ei_nodepool_rows inp)) r
      = Inr mid"
    and run: "run = dismiss_duplicates dups mid"
    using assms by (auto simp: scored_run_def start split: sum.splits)
  show thesis
  proof (rule that [OF start run])
    fix I :: "engine_run \<Rightarrow> bool"
    assume I: "I start" "\<And>t r. I r \<Longrightarrow> I (upsert_target c org account t r)"
    have "I r"
      by (rule each_induct [OF 1, of I, OF I(1)]) (erule cost_step_induct [of _ _ _ _ _ _ _ _ _ I], assumption, rule I(2))
    then show "I mid"
      by (rule each_induct [OF 2, of I]) (erule nodepool_step_induct [of _ _ _ _ _ _ _ _ I], assumption, rule I(2))
  qed
qed

lemma sum_Inr: "(\<exists>b. x = Inr b) \<longleftrightarrow> (\<forall>e. x \<noteq> Inl e)"
  by (cases x) auto

lemma max_savings_score [simp]: "compute_score cat x env r e max_savings_default \<noteq> Inl err"
  by (simp add: compute_score_def normalize_financial_impact_def max_savings_default_def Let_def)

lemma cost_target_total: "cost_target pf now org account inp advisor row \<noteq> Inl err"
proof -
  have "vm_target pf now obs row \<noteq> Inl err" for obs
    by (simp add: vm_target_def Let_def split: sum.split)
  moreover have "advisor_target advisor cat row \<noteq> Inl err" for cat
    by (simp add: advisor_target_def split: option.split sum.split)
  ultimately show ?thesis by (simp add: cost_target_def split: opportunity_category.split)
qed

lemma nodepool_targets_total: "nodepool_targets pf now calibration c \<noteq> Inl err"
proof -
  obtain d where d: "decide_aks_nodepool_rightsizing now (nodepool_input c) = Inr d"
    using nodepool_exact by blast
  obtain a where a: "decide_aks_autoscaler_recommendation (autoscaler_input_of c) = Inr a"
    using autoscaler_exact by blast
  have t: "rightsizing_target pf c x y \<noteq> Inl e" "autoscaler_target pf c u y \<noteq> Inl e" for x y u e
    by (simp_all add: rightsizing_target_def autoscaler_target_def pool_score_def Let_def split: sum.split)
  show ?thesis by (simp add: nodepool_targets_def d a t split: prod.split sum.split)
qed

lemma scored_run_total: "\<exists>run. scored_run pf c org account inp db = Inr run"
proof -
  have "\<exists>b. cost_step pf c org account inp advisor row run = Inr b" for advisor row run
    by (simp add: sum_Inr cost_step_def cost_target_total split: sum.split)
  moreover have "\<exists>b. nodepool_step pf c org account cal cand run = Inr b" for cal cand run
    by (simp add: sum_Inr nodepool_step_def nodepool_targets_total split: sum.split)
  ultimately show ?thesis
    using each_total [of "cost_step pf c org account inp (rows_of (ei_advisor_rows inp))"]
      each_total [of "nodepool_step pf c org account (strategy_calibration org db)"]
    by (simp add: scored_run_def split: prod.split sum.split) (metis sum.distinct(1))
qed

section \<open>One open row per target\<close>

definition open_in :: "uuid \<Rightarrow> uuid \<Rightarrow> opportunity \<Rightarrow> bool" where
  "open_in org account o1 \<longleftrightarrow> op_org o1 = org \<and> op_account o1 = Some account \<and> op_status o1 = OPP_OPEN"

lemma dismissed_open:
  assumes "run_ok c cap org account dups run"
    and "x \<in> set (er_opportunities (dismiss_duplicates dups run))" and "open_in org account x"
  shows "x \<in> set (er_opportunities run)" and "(op_key x, op_id x) \<in> set (er_keys run)"
proof -
  from assms(2) obtain y where y: "y \<in> set (er_opportunities run)"
    "x = (if op_id y \<in> set dups then dismissed y else y)"
    by (auto simp: dismiss_duplicates_def change_dismissed)
  have "op_id y \<notin> set dups" using y(2) assms(3) by (auto simp: open_in_def split: if_splits)
  with y show "x \<in> set (er_opportunities run)" by simp
  moreover have "active_in org account x" using assms(3) by (simp add: open_in_def active_in_def active_status_def)
  ultimately show "(op_key x, op_id x) \<in> set (er_keys run)"
    using assms(1) y \<open>op_id y \<notin> set dups\<close> by (fastforce simp: run_ok_def)
qed

text \<open>How many rows a run can add: one for a cost row, two for a candidate.\<close>

definition new_limit :: "engine_input \<Rightarrow> nat" where
  "new_limit inp = length (rows_of (ei_cost_rows inp)) + 2 * length (rows_of (ei_nodepool_rows inp))"

lemma upsert_new: "er_new (upsert_target c org account t run) \<in> {er_new run, er_new run + 1}"
  by (cases rule: upsert_cases [of account t run c org]) auto

lemma upsert_some_new: "er_new (upsert_some c org account t run) \<le> er_new run + 1"
proof (cases t)
  case (Some x)
  then show ?thesis using upsert_new [of c org account x run] by (auto simp: upsert_some_def)
qed (simp add: upsert_some_def)

lemma each_counts:
  assumes "each f xs s = Inr s'" and "\<And>x a b. f x a = Inr b \<Longrightarrow> er_new b \<le> er_new a + k"
  shows "er_new s' \<le> er_new s + k * length xs"
  using assms(1)
proof (induction xs arbitrary: s)
  case (Cons x xs)
  then obtain b where b: "f x s = Inr b" "each f xs b = Inr s'" by (auto split: sum.splits)
  show ?case using Cons.IH [OF b(2)] assms(2) [OF b(1)] by simp
qed simp

lemma length_candidates: "length (get_aks_nodepool_candidates frepr fos res) \<le> length (rows_of res)"
proof -
  have "length (concat (map (\<lambda>row. case nodepool_candidate_of frepr fos row of None \<Rightarrow> [] | Some c \<Rightarrow> [c]) rows))
    \<le> length rows" for rows
    by (induction rows) (auto split: option.split)
  then show ?thesis by (simp add: get_aks_nodepool_candidates_def rows_of_def split: option.split)
qed

lemma scored_run_new:
  assumes "scored_run pf c org account inp db = Inr run"
  shows "er_new run \<le> new_limit inp"
proof -
  obtain start dups where start: "start_run org account (opportunities db) = (start, dups)" by fastforce
  then have 0: "er_new start = 0" by (auto simp: start_run_def split: prod.splits)
  let ?f = "cost_step pf c org account inp (rows_of (ei_advisor_rows inp))"
  let ?g = "nodepool_step pf c org account (strategy_calibration org db)"
  let ?cs = "get_aks_nodepool_candidates (float_repr pf) (float_of_str pf) (ei_nodepool_rows inp)"
  obtain r mid where 1: "each ?f (rows_of (ei_cost_rows inp)) start = Inr r"
    and 2: "each ?g ?cs r = Inr mid" and run: "run = dismiss_duplicates dups mid"
    using assms by (auto simp: scored_run_def start split: sum.splits)
  have "er_new r \<le> er_new start + 1 * length (rows_of (ei_cost_rows inp))"
    by (rule each_counts [OF 1]) (use upsert_some_new in \<open>auto simp: cost_step_def split: sum.splits\<close>)
  moreover have "er_new mid \<le> er_new r + 2 * length ?cs"
  proof (rule each_counts [OF 2])
    fix x a b assume "?g x a = Inr b"
    then obtain t u where "b = upsert_some c org account u (upsert_some c org account t a)"
      by (auto simp: nodepool_step_def split: sum.splits prod.splits)
    then show "er_new b \<le> er_new a + 2"
      using upsert_some_new [of c org account u "upsert_some c org account t a"]
        upsert_some_new [of c org account t a] by simp
  qed
  ultimately show ?thesis
    using length_candidates [of "float_repr pf" "float_of_str pf" "ei_nodepool_rows inp"] 0
    by (simp add: run dismiss_duplicates_def new_limit_def)
qed

lemma scored_run_ok:
  assumes "scored_run pf c org account inp db = Inr run"
    and "draws_new c (new_limit inp) (opportunities db)"
  obtains mid dups where "run_ok c (new_limit inp) org account dups mid" "run = dismiss_duplicates dups mid"
proof -
  let ?n = "new_limit inp"
  obtain start dups mid where s: "start_run org account (opportunities db) = (start, dups)"
    "run = dismiss_duplicates dups mid"
    and I: "\<And>I. I start \<Longrightarrow> (\<And>t r. I r \<Longrightarrow> I (upsert_target c org account t r)) \<Longrightarrow> I mid"
    using scored_run_induct [OF assms(1)] by blast
  have inj: "inj_on (fresh c) {..<?n}"
    using assms(2) by (simp add: draws_new_def distinct_map lessThan_atLeast0)
  have "er_new mid \<le> ?n \<longrightarrow> run_ok c ?n org account dups mid"
  proof (rule I)
    show "er_new start \<le> ?n \<longrightarrow> run_ok c ?n org account dups start"
      using start_run_ok(1) [OF assms(2) s(1)] by simp
  next
    fix t r
    assume r: "er_new r \<le> ?n \<longrightarrow> run_ok c ?n org account dups r"
    show "er_new (upsert_target c org account t r) \<le> ?n
      \<longrightarrow> run_ok c ?n org account dups (upsert_target c org account t r)"
      using upsert_ok [OF _ inj] r upsert_new [of c org account t r] by auto
  qed
  then have "run_ok c ?n org account dups mid"
    using scored_run_new [OF assms(1)] by (simp add: s(2) dismiss_duplicates_def)
  with s(2) show thesis by (rule that [rotated])
qed

lemma dismissed_ids:
  "map op_id (er_opportunities (dismiss_duplicates dups run)) = map op_id (er_opportunities run)"
  by (simp add: dismiss_duplicates_def change_dismissed)

lemma open_keys_distinct:
  assumes run: "scored_run pf c org account inp db = Inr run"
    and new: "draws_new c (new_limit inp) (opportunities db)"
  shows "distinct (map op_key (filter (open_in org account) (er_opportunities run)))"
proof -
  obtain mid dups where m: "run_ok c (new_limit inp) org account dups mid" "run = dismiss_duplicates dups mid"
    using scored_run_ok [OF run new] .
  let ?rows = "filter (open_in org account) (er_opportunities run)"
  have "distinct (map op_id (er_opportunities run))"
    using m(1) unfolding m(2) dismissed_ids by (simp add: run_ok_def)
  then have ids: "distinct (er_opportunities run)" "inj_on op_id (set (er_opportunities run))"
    by (simp_all add: distinct_map)
  have key: "(op_key z, op_id z) \<in> set (er_keys mid)" if "z \<in> set ?rows" for z
    using that dismissed_open(2) [OF m(1), of z] m(2) by simp
  have "x = y" if "x \<in> set ?rows" "y \<in> set ?rows" "op_key x = op_key y" for x y
  proof -
    have "op_id x = op_id y"
      using key [OF that(1)] key [OF that(2)] that(3) m(1)
      by (auto simp: run_ok_def dest: eq_key_imp_eq_value)
    then show ?thesis using that(1,2) ids(2) by (auto dest: inj_onD)
  qed
  with ids(1) show ?thesis by (auto simp: distinct_map inj_on_def)
qed

text \<open>
  C5 (invariant): A scoring run up to the grouped recommendations never raises, whatever the query rows, the
  observations and the table; and afterwards no two open opportunities of the account have the same
  key, also where the table held duplicates before.
\<close>

theorem one_open_row_per_target:
  assumes "draws_new c (new_limit inp) (opportunities db)"
  shows "\<exists>run. scored_run pf c org account inp db = Inr run
     \<and> distinct (map op_key (filter (open_in org account) (er_opportunities run)))"
  using scored_run_total [of pf c org account inp db] open_keys_distinct [OF _ assms] by blast

section \<open>A second run\<close>

lemma start_covers:
  assumes "start_run org account rows = (run, dups)"
  shows "op_key ` {o1 \<in> set rows. active_in org account o1} \<subseteq> fst ` set (er_keys run)"
    and "er_opportunities run = rows" and "er_seen run = []"
proof -
  have run: "run = \<lparr>er_opportunities = rows, er_keys = fst (split_existing (existing_items org account rows) [] []),
      er_seen = [], er_result = [], er_new = 0\<rparr>"
    using assms by (auto simp: start_run_def split: prod.splits)
  show "op_key ` {o1 \<in> set rows. active_in org account o1} \<subseteq> fst ` set (er_keys run)"
    using split_covers [of "[]" "existing_items org account rows" "[]"] by (simp add: run existing_rows(1))
qed (use assms in \<open>auto simp: start_run_def split: prod.splits\<close>)



text \<open>A group rewrites one row or adds one.\<close>

lemma ids_change [simp]: "(\<And>x. op_id (f x) = op_id x) \<Longrightarrow> map op_id (change_row i f rows) = map op_id rows"
  by (simp add: change_row_def)

lemma group_written_id [simp]: "op_id (group_written cat title sub n recs score o1) = op_id o1"
  by (simp add: group_written_def with_savings_def with_score_def Let_def)

lemma group_row_fields [simp]:
  "op_id (group_row c k org account cat title sub n recs score) = fresh c k"
  "op_org (group_row c k org account cat title sub n recs score) = org"
  "op_account (group_row c k org account cat title sub n recs score) = Some account"
  "op_status (group_row c k org account cat title sub n recs score) = OPP_OPEN"
  by (simp_all add: group_row_def group_new_def group_written_def with_savings_def with_score_def Let_def)







section \<open>Grouped Advisor recommendations\<close>

lemma bar_in_key: "CHR ''|'' \<in> set (opportunity_dedupe_key cat s t e r i a)"
  by (simp add: opportunity_dedupe_key_def)

lemma bar_lowered: "CHR ''|'' \<in> set (py_lower s) \<Longrightarrow> CHR ''|'' \<in> set s"
proof -
  have "c = CHR ''|''" if "CHR ''|'' = (if is_upper_char c then char_of (of_char c + 32 :: nat) else c)" for c
  proof (cases "is_upper_char c")
    case True
    then have n: "65 \<le> (of_char c :: nat)" "(of_char c :: nat) \<le> 90" by (simp_all add: is_upper_char_def Let_def)
    from that True have "(of_char (CHR ''|'') :: nat) = of_char (char_of (of_char c + 32 :: nat) :: char)" by simp
    then have "of_char (CHR ''|'') = (of_char c + 32 :: nat) mod 256" by (simp only: of_char_of)
    moreover have "(of_char (CHR ''|'') :: nat) = 124" by simp
    ultimately have "(124 :: nat) = (of_char c + 32) mod 256" by (rule trans [OF sym, rotated])
    with n show ?thesis by simp
  qed (use that in simp)
  moreover assume "CHR ''|'' \<in> set (py_lower s)"
  then obtain x where "x \<in> set s" "CHR ''|'' = (if is_upper_char x then char_of (of_char x + 32 :: nat) else x)"
    unfolding py_lower_def set_map by blast
  ultimately show "CHR ''|'' \<in> set s" by metis
qed

lemma seen_are_keys:
  assumes "scored_run pf c org account inp db = Inr run" and "k \<in> set (er_seen run)"
  shows "CHR ''|'' \<in> set k"
proof -
  obtain start dups mid where s: "start_run org account (opportunities db) = (start, dups)"
    "run = dismiss_duplicates dups mid"
    and I: "\<And>I. I start \<Longrightarrow> (\<And>t r. I r \<Longrightarrow> I (upsert_target c org account t r)) \<Longrightarrow> I mid"
    using scored_run_induct [OF assms(1)] by blast
  have "\<forall>k\<in>set (er_seen mid). CHR ''|'' \<in> set k"
  proof (rule I)
    fix t and r :: engine_run assume r: "\<forall>k\<in>set (er_seen r). CHR ''|'' \<in> set k"
    show "\<forall>k\<in>set (er_seen (upsert_target c org account t r)). CHR ''|'' \<in> set k"
      by (cases rule: upsert_cases [of account t r c org]) (use r bar_in_key in \<open>simp_all add: target_key_def\<close>)
  qed (simp add: start_covers(3) [OF s(1)])
  with assms(2) show ?thesis by (simp add: s(2) dismiss_duplicates_def)
qed

text \<open>
  The grouping means to leave out the recommendations a cost row already used, but it looks for their
  resource identifiers among the keys of the run, which are joined with \<open>|\<close>: for resources without that
  character no recommendation is ever left out, so a used one becomes part of a group as well.
\<close>

theorem used_recommendations_regrouped:
  assumes "scored_run pf c org account inp db = Inr run"
    and "list_all (\<lambda>r. CHR ''|'' \<notin> set (ar_resource_id r)) rows"
  shows "eligible_advisor (advisor_used_rids rows (er_seen run)) [] rows = eligible_advisor [] [] rows"
proof -
  have "k \<notin> set (er_seen run)" if "k \<in> set (map (\<lambda>r. py_lower (ar_resource_id r)) rows)" for k
    using that assms(2) seen_are_keys [OF assms(1), of k] bar_lowered by (auto simp: list_all_iff)
  then have "advisor_used_rids rows (er_seen run) = []" by (auto simp: advisor_used_rids_def filter_empty_conv)
  then show ?thesis by simp
qed

lemma group_row_key:
  assumes "py_strip (ar_resource_id (hd p)) = py_strip (ar_resource_id (hd r))"
  shows "op_key (group_row c k org account cat t1 sub1 n1 p s1) = op_key (group_row c' k' org account cat t2 sub2 n2 r s2)"
  using assms
  by (simp add: op_key_def group_row_def group_new_def group_written_def with_savings_def with_score_def
    blank_opportunity_def Let_def)

definition still_open :: "engine_run \<Rightarrow> uuid \<Rightarrow> bool" where
  "still_open run i \<longleftrightarrow> list_ex (\<lambda>o1. op_id o1 = i \<and> op_status o1 = OPP_OPEN) (er_opportunities run)"

lemma duplicate_dismissed:
  assumes "scored_run pf c org account inp db = Inr run" and "draws_new c (new_limit inp) (opportunities db)"
    and "x \<in> set (opportunities db)" "y \<in> set (opportunities db)"
    and "active_in org account x" "active_in org account y" "op_key x = op_key y" "op_id x \<noteq> op_id y"
  shows "\<not> (still_open run (op_id x) \<and> still_open run (op_id y))"
proof -
  obtain start dups mid where s: "start_run org account (opportunities db) = (start, dups)"
    "run = dismiss_duplicates dups mid"
    using scored_run_induct [OF assms(1)] by blast
  note ok = start_run_ok(1) [OF assms(2) s(1)]
  have "(op_key z, op_id z) \<in> set (er_keys start) \<or> op_id z \<in> set dups" if "z \<in> {x, y}" for z
    using that ok assms(3-6) start_covers(2) [OF s(1)] by (auto simp: run_ok_def)
  moreover have "\<not> ((op_key x, op_id x) \<in> set (er_keys start) \<and> (op_key y, op_id y) \<in> set (er_keys start))"
    using ok assms(7,8) by (auto simp: run_ok_def dest: eq_key_imp_eq_value)
  ultimately obtain z where "z \<in> {x, y}" "op_id z \<in> set dups" by blast
  moreover from this(2) have "\<not> still_open run (op_id z)"
    by (auto simp: still_open_def s(2) dismiss_duplicates_def change_dismissed list_ex_iff)
  ultimately show ?thesis by auto
qed

text \<open>
  C29 (safety): The savings plan and the reserved instances of one subscription share a key when their best
  recommendations name the same resource (for Advisor, the subscription itself): both are of category
  reserved instances and the key has nothing else of the group. So of the two rows one run created,
  the next run dismisses one as a duplicate.
\<close>

theorem savings_plan_collides_with_reservation:
  assumes "scored_run pf c org account inp db = Inr run" and "draws_new c (new_limit inp) (opportunities db)"
    and "group_row c1 i org account (fst (advisor_group_category_title ''savings_plan'' sub n1 nm)) t1 sub
      ''savings_plan'' p s1 \<in> set (opportunities db)"
    and "group_row c1 j org account (fst (advisor_group_category_title ''reserved_instance'' sub n2 nm)) t2 sub
      ''reserved_instance'' r s2 \<in> set (opportunities db)"
    and "py_strip (ar_resource_id (hd p)) = py_strip (ar_resource_id (hd r))" and "fresh c1 i \<noteq> fresh c1 j"
  shows "\<not> (still_open run (fresh c1 i) \<and> still_open run (fresh c1 j))"
proof -
  have "fst (advisor_group_category_title ''savings_plan'' sub n1 nm) = RESERVED_INSTANCES"
    "fst (advisor_group_category_title ''reserved_instance'' sub n2 nm) = RESERVED_INSTANCES"
    by (simp_all add: advisor_group_category_title_def Let_def)
  then show ?thesis
    using duplicate_dismissed [OF assms(1-4)] group_row_key [OF assms(5)] assms(6)
    by (simp add: active_in_def active_status_def)
qed

section \<open>The adaptive strategy\<close>

lemma clamp_raise:
  assumes "fl x = x" "0 \<le> x" "x \<le> 1" "0 \<le> d" shows "x \<le> clamp_01 (fadd x d)" "clamp_01 (fadd x d) \<le> 1"
  using fadd_ge [OF assms(1,4)] assms(2,3) by (auto simp: clamp_01_def)

lemma clamp_lower:
  assumes "fl x = x" "0 \<le> x" "0 \<le> d" shows "clamp_01 (fadd x (- d)) \<le> x" "0 \<le> clamp_01 (fadd x (- d))"
proof -
  have "fadd x (- d) \<le> x" using fsub_le [OF assms(1,3)] by (simp add: fadd_def fsub_def)
  then show "clamp_01 (fadd x (- d)) \<le> x" "0 \<le> clamp_01 (fadd x (- d))"
    using assms(2) by (auto simp: clamp_01_def)
qed

text \<open>
  C28 (bounds): When both engines recommend something for a node pool, exactly one side is boosted, both name it as
  the recommended strategy and the other as the alternative; its confidence does not fall, the other's
  does not rise, and both stay between 0 and 1.
\<close>

theorem adaptive_strategy_picks_one:
  assumes "fl a = a" "0 \<le> a" "a \<le> 1" and "fl b = b" "0 \<le> b" "b \<le> 1"
  shows "case resolve_adaptive_aks_strategy True a True b cpu mem v cal of (s, t) \<Rightarrow>
    ss_boosted s \<noteq> ss_boosted t
    \<and> ss_recommended s = (if ss_boosted s then ''nodepool_rightsizing'' else ''autoscaler'')
    \<and> ss_alternative s = Some (if ss_boosted s then ''autoscaler'' else ''nodepool_rightsizing'')
    \<and> ss_recommended t = ss_recommended s \<and> ss_alternative t = ss_alternative s
    \<and> (if ss_boosted s then py_round 4 a \<le> ss_confidence s \<and> ss_confidence t \<le> py_round 4 b
       else ss_confidence s \<le> py_round 4 a \<and> py_round 4 b \<le> ss_confidence t)
    \<and> list_all (\<lambda>x. 0 \<le> x \<and> x \<le> 1) [ss_confidence s, ss_confidence t]"
proof -
  have d: "0 < fl (8/100)" "0 \<le> fl (8/100)" "0 \<le> fl (5/100)"
    using fl_lit [of "-4" "8/100" 5764607523034235] by (simp_all add: pow2_def fl_nonneg)
  note up = clamp_raise [OF assms(1-3) d(2)] clamp_raise [OF assms(4-6) d(2)]
  note down = clamp_lower [OF assms(1,2) d(3)] clamp_lower [OF assms(4,5) d(3)]
  have one: "py_round 4 x \<le> 1" if "x \<le> 1" for x using py_round_mono [OF that, of 4] py_round_of_int [of 1 4] by simp
  show ?thesis
    using up down assms d(1)
    by (auto simp: resolve_adaptive_aks_strategy_def strategy_of_def Let_def py_round_mono py_round_nonneg
      intro!: one split: if_splits)
qed

section \<open>A table and a run\<close>

definition gen_call :: "nat \<Rightarrow> call" where
  "gen_call n = \<lparr>fresh = (\<lambda>k. of_nat (100 * n + k)), clock = (\<lambda>k. int (100 * n + k))\<rparr>"

definition gen_rec :: "string \<Rightarrow> string \<Rightarrow> advisor_row" where
  "gen_rec rid description =
     \<lparr>ar_resource_id = rid, ar_estimated_savings = 1200, ar_savings_period = ''annual'',
      ar_short_description = description, ar_impact = ''High'', ar_recommendation_id = ''r'',
      ar_subscription_id = ''s''\<rparr>"

definition gen_row :: cost_row where
  "gen_row = \<lparr>cr_service = ''Blob'', cr_owner_team = ''t'', cr_environment = ''production'', cr_region = ''r'',
     cr_monthly_cost = 500, cr_resource_id = ''disk'', cr_resource_name = ''d'', cr_sku_name = []\<rparr>"

definition gen_input :: engine_input where
  "gen_input = \<lparr>ei_cost_rows = Some [gen_row], ei_advisor_rows = Some [gen_rec ''disk'' ''move''],
     ei_nodepool_rows = None, ei_usage = [], ei_subscriptions = []\<rparr>"

definition gen_db :: "opportunity list \<Rightarrow> opp_db" where
  "gen_db rows = \<lparr>events = [], checkpoints = [], alerts = [], bundles = [], evidence = [], experiments = [],
     runs = [], approvals = [], opportunities = rows, calibrations = []\<rparr>"

definition gen_twins :: "opportunity list" where
  "gen_twins = [blank_opportunity (gen_call 1) 0 1 (Some 2), blank_opportunity (gen_call 1) 1 1 (Some 2)]"

lemma gen_new_limit [simp]: "new_limit gen_input = 1"
  by (simp add: new_limit_def gen_input_def rows_of_def)

lemma gen_draws: "draws_new (gen_call 2) 1 gen_twins" "draws_new (gen_call 1) 1 []"
  by (simp_all add: draws_new_def gen_twins_def gen_call_def)

theorem one_open_row_per_target_witness:
  "\<exists>run. scored_run toy_platform (gen_call 2) 1 2 gen_input (gen_db gen_twins) = Inr run
     \<and> distinct (map op_key (filter (open_in 1 2) (er_opportunities run)))"
  by (rule one_open_row_per_target) (simp add: gen_db_def gen_draws [simplified])

lemma gen_target:
  "\<exists>t. \<forall>pf now org account.
     cost_target pf now org account gen_input [gen_rec ''disk'' ''move''] gen_row = Inr (Some t)"
proof -
  have "classify_service ''Blob'' = STORAGE_OPTIMIZATION" "py_lower ''disk'' = ''disk''" by code_simp+
  moreover have "fdiv 1200 12 = 100" "py_round 2 100 = 100"
    using py_round_of_int [of 100 2] by (simp_all add: fdiv_def)
  moreover obtain s where "compute_score STORAGE_OPTIMIZATION 100 ''production'' None None max_savings_default = Inr s"
    using max_savings_score by (meson sum_Inr)
  ultimately show ?thesis
    by (simp add: cost_target_def gen_row_def advisor_target_def advisor_by_resource_def gen_rec_def
      monthly_savings_of_def savings_period_of_def)
qed

lemma gen_seen:
  "\<exists>k. \<forall>c run (db :: opp_db). scored_run toy_platform c 1 2 gen_input db = Inr run \<longrightarrow> er_seen run = [k]"
proof -
  obtain t where t: "\<And>pf now org account.
      cost_target pf now org account gen_input [gen_rec ''disk'' ''move''] gen_row = Inr (Some t)"
    using gen_target by blast
  have "er_seen run = [target_key 2 t]" if "scored_run toy_platform c 1 2 gen_input db = Inr run"
    for c run and db :: opp_db
  proof -
    obtain start dups where s: "start_run 1 2 (opportunities db) = (start, dups)" by fastforce
    have rows: "rows_of (ei_cost_rows gen_input) = [gen_row]"
      "rows_of (ei_advisor_rows gen_input) = [gen_rec ''disk'' ''move'']" "ei_nodepool_rows gen_input = None"
      by (simp_all add: rows_of_def gen_input_def)
    have "run = dismiss_duplicates dups (upsert_target c 1 2 t start)"
      using that t by (simp add: scored_run_def s rows cost_step_def upsert_some_def get_aks_nodepool_candidates_def)
    moreover have "er_seen (upsert_target c 1 2 t start) = [target_key 2 t]"
      by (cases rule: upsert_cases [of 2 t start c 1]) (simp_all add: start_covers(3) [OF s])
    ultimately show ?thesis by (simp add: dismiss_duplicates_def)
  qed
  then show ?thesis by blast
qed

















theorem used_recommendations_regrouped_witness:
  "\<exists>run. scored_run toy_platform (gen_call 1) 1 2 gen_input (gen_db []) = Inr run \<and> er_seen run \<noteq> []
     \<and> eligible_advisor (advisor_used_rids [gen_rec ''disk'' ''move''] (er_seen run)) [] [gen_rec ''disk'' ''move'']
       = eligible_advisor [] [] [gen_rec ''disk'' ''move'']"
proof -
  obtain run where run: "scored_run toy_platform (gen_call 1) 1 2 gen_input (gen_db []) = Inr run"
    using scored_run_total by blast
  then obtain k where k: "er_seen run = [k]" using gen_seen by blast
  have "list_all (\<lambda>r. CHR ''|'' \<notin> set (ar_resource_id r)) [gen_rec ''disk'' ''move'']"
    by (simp add: gen_rec_def)
  from used_recommendations_regrouped [OF run this] show ?thesis
    using run k by (intro exI conjI) (assumption | simp)+
qed

definition gen_score :: score_result where
  "gen_score = \<lparr>financial_impact_score = 0, risk_score = 0, effort_score = 0, criticality_score = 0,
     composite_score = 0, sr_risk_level = RISK_LOW, sr_effort_level = EFFORT_LOW, rationale = []\<rparr>"

definition gen_pair :: "opportunity list" where
  "gen_pair =
     [group_row (gen_call 1) 0 1 2 (fst (advisor_group_category_title ''savings_plan'' ''s'' 1 None)) [] ''s''
        ''savings_plan'' [gen_rec ''/subscriptions/s'' ''savings plan''] gen_score,
      group_row (gen_call 1) 1 1 2 (fst (advisor_group_category_title ''reserved_instance'' ''s'' 1 None)) [] ''s''
        ''reserved_instance'' [gen_rec ''/subscriptions/s'' ''reservation''] gen_score]"

theorem savings_plan_collides_with_reservation_witness:
  "\<exists>run. scored_run toy_platform (gen_call 2) 1 2 gen_input (gen_db gen_pair) = Inr run
     \<and> \<not> (still_open run 100 \<and> still_open run 101)"
proof -
  obtain run where run: "scored_run toy_platform (gen_call 2) 1 2 gen_input (gen_db gen_pair) = Inr run"
    using scored_run_total by blast
  have new: "draws_new (gen_call 2) (new_limit gen_input) (opportunities (gen_db gen_pair))"
    by (simp add: draws_new_def gen_db_def gen_pair_def gen_call_def)
  have ids: "fresh (gen_call 1) 0 = 100" "fresh (gen_call 1) 1 = 101" by (simp_all add: gen_call_def)
  have "\<not> (still_open run (fresh (gen_call 1) 0) \<and> still_open run (fresh (gen_call 1) 1))"
    by (rule savings_plan_collides_with_reservation [OF run new, where sub = "''s''" and ?n1.0 = 1 and nm = None
        and ?t1.0 = "[]" and p = "[gen_rec ''/subscriptions/s'' ''savings plan'']" and ?s1.0 = gen_score
        and ?n2.0 = 1 and ?t2.0 = "[]" and r = "[gen_rec ''/subscriptions/s'' ''reservation'']" and ?s2.0 = gen_score])
      (simp_all add: gen_db_def gen_pair_def ids [simplified] gen_rec_def)
  then have "\<not> (still_open run 100 \<and> still_open run 101)" unfolding ids .
  with run show ?thesis by blast
qed

theorem adaptive_strategy_picks_one_witness:
  "case resolve_adaptive_aks_strategy True (1/2) True (3/4) 30 40 0 (\<lambda>_. None) of (s, t) \<Rightarrow>
     ss_boosted s \<noteq> ss_boosted t"
proof -
  have "fl (1/2) = 1/2" "fl (3/4) = 3/4"
    using fl_lit [of "-1" "1/2" 4503599627370496] fl_lit [of "-1" "3/4" 6755399441055744]
    by (simp_all add: pow2_def)
  with adaptive_strategy_picks_one [of "1/2" "3/4" 30 40 0 "\<lambda>_. None"] show ?thesis
    by (simp split: prod.splits)
qed

end
