(* ===== verification/OpportunityService.thy ===== *)
theory OpportunityService
  imports GenerationRun Notifications
begin

text \<open>
  The other operations of \<open>DecisionEngineService\<close> (\<open>domains/decision_engine/service.py\<close>) and the routes
  of \<open>domains/decision_engine/router.py\<close>: creation with its alert, lists and the summary, the change of
  status with its audit event. The projections the routes add to a row when they answer (savings
  evidence, resource and performance context) are not modelled: a route answers with the rows.
\<close>

section \<open>Creation\<close>

record opportunity_create =
  oc_title :: string
  oc_description :: string
  oc_category :: opportunity_category
  oc_savings :: pyfloat
  oc_cost :: pyfloat
  oc_account :: "uuid option"
  oc_resource_id :: "string option"
  oc_resource_name :: "string option"
  oc_sku_name :: "string option"
  oc_machine_family :: "string option"
  oc_service :: "string option"
  oc_region :: "string option"
  oc_environment :: string
  oc_owner_team :: "string option"
  oc_risk_level :: "risk_level option"
  oc_effort_level :: "effort_level option"

definition created_opportunity :: "call \<Rightarrow> uuid \<Rightarrow> opportunity_create \<Rightarrow> score_result \<Rightarrow> opportunity" where
  "created_opportunity c org req score =
     (with_savings (oc_savings req) (with_score score (blank_opportunity c 0 org (oc_account req))))\<lparr>
       op_title := oc_title req, op_description := oc_description req, op_category := oc_category req,
       op_current_cost := oc_cost req, op_resource_id := oc_resource_id req,
       op_resource_name := oc_resource_name req, op_sku_name := oc_sku_name req,
       op_machine_family := oc_machine_family req, op_service := oc_service req,
       op_region := oc_region req, op_environment := Some (oc_environment req),
       op_owner_team := oc_owner_team req, op_rationale := Some (rationale score),
       op_playbook := Some (PLAYBOOKS (oc_category req))\<rparr>"

definition opportunity_alert_args :: "opportunity \<Rightarrow> alert_args" where
  "opportunity_alert_args o1 =
     \<lparr>aa_org = op_org o1, aa_user = None, aa_category = CAT_OPTIMIZATION, aa_severity = CRITICAL,
      aa_title = ''New optimization opportunity: '' @ op_title o1, aa_body = Some (op_description o1),
      aa_action_url = None, aa_source_type = Some ''optimization_opportunity'',
      aa_source_id = Some (uuid_str (op_id o1)),
      aa_metadata = Some [(''estimated_monthly_savings_usd'', jnum (op_savings o1)),
        (''category'', JStr (category_value (op_category o1)))],
      aa_logical_key = None\<rparr>"

text \<open>
  The tables of opportunities and of alerts are one database, here a pair: the operation changes no
  table the two records share.
\<close>

definition create_opportunity ::
  "notif_env \<Rightarrow> call \<Rightarrow> uuid \<Rightarrow> opportunity_create
   \<Rightarrow> ('z opp_db_scheme \<times> 'y notif_db_scheme, opportunity) svc" where
  "create_opportunity env c org req s =
     (case s of (db, ndb) \<Rightarrow>
        (case compute_score (oc_category req) (oc_savings req) (oc_environment req) (oc_risk_level req)
             (oc_effort_level req) max_savings_default of
           Inl err \<Rightarrow> (Inl err, s)
         | Inr score \<Rightarrow>
             let o1 = created_opportunity c org req score in
             if op_id o1 \<in> op_id ` set (opportunities db)
             then (Inl (IntegrityError ''optimization_opportunities_pkey''), s)
             else (case create_realtime_alert env c ''opportunity.created'' (opportunity_alert_args o1) ndb of
                (r, ndb) \<Rightarrow> (case r of Inl err \<Rightarrow> Inl err | Inr _ \<Rightarrow> Inr o1,
                  (db\<lparr>opportunities := row_add o1 (opportunities db)\<rparr>, ndb)))))"

section \<open>Reads\<close>

definition list_opportunities ::
  "uuid \<Rightarrow> opportunity_status option \<Rightarrow> opportunity_category option \<Rightarrow> string option \<Rightarrow> nat \<Rightarrow> nat
   \<Rightarrow> 'z opp_db_scheme \<Rightarrow> opportunity list \<times> nat" where
  "list_opportunities org st cat team limit offset db =
     (let matching = filter (\<lambda>o1. op_org o1 = org \<and> (case st of None \<Rightarrow> True | Some x \<Rightarrow> op_status o1 = x)
            \<and> (case cat of None \<Rightarrow> True | Some x \<Rightarrow> op_category o1 = x)
            \<and> (truthy_str team \<longrightarrow> op_owner_team o1 = team)) (opportunities db)
      in (take limit (drop offset (sort_key (\<lambda>o1. - op_composite_score o1) matching)), length matching))"

definition get_opportunity :: "uuid \<Rightarrow> uuid \<Rightarrow> 'z opp_db_scheme \<Rightarrow> opportunity option" where
  "get_opportunity org i db = find (\<lambda>o1. op_id o1 = i \<and> op_org o1 = org) (opportunities db)"

record opportunity_summary =
  os_total :: nat
  os_open :: nat
  os_in_progress :: nat
  os_resolved :: nat
  os_savings :: pyfloat
  os_top_category :: "string option"

definition count_by_status :: "opportunity_status \<Rightarrow> opportunity list \<Rightarrow> nat" where
  "count_by_status st rows = length (filter (\<lambda>o1. op_status o1 = st) rows)"

text \<open>A category with most open rows; the database may choose any of equal ones.\<close>

definition top_category :: "opportunity list \<Rightarrow> opportunity_category option" where
  "top_category open_rows =
     (let cats = remdups (map op_category open_rows);
          n = (\<lambda>cat. length (filter (\<lambda>o1. op_category o1 = cat) open_rows))
      in case sort_key (\<lambda>cat. - int (n cat)) cats of [] \<Rightarrow> None | cat # _ \<Rightarrow> Some cat)"

definition get_opportunity_summary :: "uuid \<Rightarrow> 'z opp_db_scheme \<Rightarrow> opportunity_summary" where
  "get_opportunity_summary org db =
     (let rows = filter (\<lambda>o1. op_org o1 = org) (opportunities db) in
      \<lparr>os_total = length rows, os_open = count_by_status OPP_OPEN rows,
       os_in_progress = count_by_status OPP_IN_PROGRESS rows,
       os_resolved = count_by_status OPP_RESOLVED rows,
       os_savings = py_sum (List.map_filter op_savings rows),
       os_top_category = map_option category_value
         (top_category (filter (\<lambda>o1. op_status o1 = OPP_OPEN) rows))\<rparr>)"

section \<open>Change of status\<close>

definition evidence_of :: "opportunity \<Rightarrow> dict" where
  "evidence_of o1 = (case op_evidence o1 of None \<Rightarrow> [] | Some ev \<Rightarrow> as_dict ev)"

definition status_payload :: "opportunity \<Rightarrow> opportunity_status \<Rightarrow> string \<Rightarrow> pyval" where
  "status_payload o1 previous mapped =
     (let ev = evidence_of o1 in
      PDict [(''opportunity_id'', PStr (uuid_str (op_id o1))),
        (''resource_id'', of_json (str_json (if truthy_str (op_resource_name o1)
          then op_resource_name o1 else op_resource_id o1))),
        (''recommendation_type'', PStr (py_upper (category_value (op_category o1)))),
        (''previous_status'', PStr (status_alias previous)), (''new_status'', PStr mapped),
        (''estimated_savings_usd'', PFloat (or_zero (op_savings o1))),
        (''confidence'', of_json (field ev ''confidence'')),
        (''risk_level'', if truthy (field ev ''risk_level'') then of_json (field ev ''risk_level'')
          else PStr (risk_value (op_risk o1))),
        (''decision_evidence'', of_json (JDict ev))])"

definition append_status_audit_event ::
  "platform \<Rightarrow> call \<Rightarrow> uuid \<Rightarrow> uuid option \<Rightarrow> opportunity \<Rightarrow> opportunity_status \<Rightarrow> opportunity_status
   \<Rightarrow> 'z opp_db_scheme \<Rightarrow> 'z opp_db_scheme" where
  "append_status_audit_event pf c org actor o1 previous new db =
     (case map_status_to_audit_event previous new of
        None \<Rightarrow> db
      | Some (event, mapped) \<Rightarrow>
          append_event pf org actor event ''optimization_opportunity'' (uuid_str (op_id o1))
            (status_payload o1 previous mapped) (fresh c 0, clock c 0) db)"

definition update_opportunity_status ::
  "platform \<Rightarrow> call \<Rightarrow> uuid \<Rightarrow> uuid \<Rightarrow> opportunity_status \<Rightarrow> uuid option
   \<Rightarrow> ('z opp_db_scheme, opportunity option) svc" where
  "update_opportunity_status pf c org i new actor db =
     (case get_opportunity org i db of
        None \<Rightarrow> (Inr None, db)
      | Some o1 \<Rightarrow>
          let o2 = o1\<lparr>op_status := new\<rparr>;
              db = db\<lparr>opportunities := row_put op_id o2 (opportunities db)\<rparr>
          in (Inr (Some o2), append_status_audit_event pf c org actor o2 (op_status o1) new db))"

section \<open>Routes\<close>

definition not_found_opportunity :: error where
  "not_found_opportunity = HTTPException 404 ''Opportunity not found''"

definition get_opportunity_route :: "uuid \<Rightarrow> uuid \<Rightarrow> ('z opp_db_scheme, opportunity) svc" where
  "get_opportunity_route org i =
     request_scope (\<lambda>db. (case get_opportunity org i db of
        None \<Rightarrow> Inl not_found_opportunity | Some o1 \<Rightarrow> Inr o1, db))"

definition update_status_route ::
  "platform \<Rightarrow> call \<Rightarrow> uuid \<Rightarrow> uuid \<Rightarrow> uuid \<Rightarrow> opportunity_status \<Rightarrow> ('z opp_db_scheme, opportunity) svc" where
  "update_status_route pf c org user i new =
     request_scope (andthen (update_opportunity_status pf c org i new (Some user))
       (\<lambda>r. case r of None \<Rightarrow> raise not_found_opportunity | Some o1 \<Rightarrow> ret o1))"

definition create_opportunity_route ::
  "notif_env \<Rightarrow> call \<Rightarrow> uuid \<Rightarrow> user_role \<Rightarrow> opportunity_create
   \<Rightarrow> ('z opp_db_scheme \<times> 'y notif_db_scheme, opportunity) svc" where
  "create_opportunity_route env c org role req =
     request_scope (\<lambda>s. case require_roles [ADMIN, ENGINEER, FINOPS] role of
        Inl err \<Rightarrow> (Inl err, s) | Inr _ \<Rightarrow> create_opportunity env c org req s)"

text \<open>
  \<open>[_enrich_opportunity(OpportunityOut.model_validate(o), o) for o in opps]\<close>: the call lacks the third
  argument of \<open>_enrich_opportunity\<close>, so the first element raises.
\<close>

definition enrich_without_names :: "opportunity list \<Rightarrow> opportunity list result" where
  "enrich_without_names opps =
     (if opps = [] then Inr []
      else Inl (TypeError (''_enrich_opportunity() missing 1 required positional argument: ''
        @ [CHR 0x27] @ ''subscription_names_by_id'' @ [CHR 0x27])))"

definition generate_opportunities_route ::
  "platform \<Rightarrow> call \<Rightarrow> uuid \<Rightarrow> user_role \<Rightarrow> uuid \<Rightarrow> engine_input \<Rightarrow> ('z opp_db_scheme, opportunity list) svc" where
  "generate_opportunities_route pf c org role account inp =
     request_scope (\<lambda>db. case require_roles [ADMIN, ENGINEER] role of
        Inl err \<Rightarrow> (Inl err, db)
      | Inr _ \<Rightarrow> andthen (generate_opportunities_for_account pf c org account inp)
          (\<lambda>opps db. (enrich_without_names opps, db)) db)"

end
