(* ===== verification/OpportunityLaws.thy ===== *)
theory OpportunityLaws
  imports OpportunityService GenerationLaws
begin

text \<open>
  The change of an opportunity's status and the audit log, and the route that starts a scoring run.
\<close>

lemma opportunities_append_event [simp]:
  "opportunities (append_event pf org a t n i p st db) = opportunities db"
  by (simp add: append_event_def Let_def)

lemma found_after_put:
  assumes "find (\<lambda>r. key r = i \<and> P r) rs = Some x" and "key y = i" and "P y"
  shows "find (\<lambda>r. key r = i \<and> P r) (row_put key y rs) = Some y"
  using assms unfolding row_put_def by (induction rs) (auto split: if_splits)

lemma map_status_cases:
  "map_status_to_audit_event previous new =
     (if new \<in> {OPP_RESOLVED, OPP_DISMISSED} then
        Some (if new = OPP_RESOLVED then (''opportunity.accepted'', ''accepted'')
          else if previous = OPP_OPEN then (''opportunity.ignored'', ''ignored'')
          else (''opportunity.dismissed'', ''dismissed''))
      else None)"
  by (simp add: map_status_to_audit_event_def)

text \<open>
  C30 (functional): A change of status of an opportunity of the caller's organization always succeeds, whatever the two
  states, and is found by the next read. It leaves one event in the audit log when the new state is
  resolved or dismissed, also when it was that before, and none otherwise: a resolved or dismissed
  opportunity is reopened without a trace.
\<close>

theorem status_change_logged:
  assumes "get_opportunity org i db = Some o1"
  shows "fst (update_opportunity_status pf c org i new actor db) = Inr (Some (o1\<lparr>op_status := new\<rparr>))
    \<and> get_opportunity org i (snd (update_opportunity_status pf c org i new actor db)) = Some (o1\<lparr>op_status := new\<rparr>)
    \<and> (if new \<in> {OPP_RESOLVED, OPP_DISMISSED}
       then \<exists>e. events (snd (update_opportunity_status pf c org i new actor db)) = events db @ [e]
         \<and> ev_org e = org \<and> ev_actor e = actor \<and> entity_id e = uuid_str i
         \<and> event_type e = (if new = OPP_RESOLVED then ''opportunity.accepted''
             else if op_status o1 = OPP_OPEN then ''opportunity.ignored'' else ''opportunity.dismissed'')
       else events (snd (update_opportunity_status pf c org i new actor db)) = events db)"
proof -
  let ?o = "o1\<lparr>op_status := new\<rparr>"
  have found: "op_id o1 = i" "op_org o1 = org"
    using assms by (auto simp: get_opportunity_def find_Some_iff)
  have "find (\<lambda>r. op_id r = i \<and> op_org r = org) (row_put op_id ?o (opportunities db)) = Some ?o"
    using assms found by (intro found_after_put) (simp_all add: get_opportunity_def)
  then show ?thesis
    using assms found
    by (cases new) (auto simp: update_opportunity_status_def append_status_audit_event_def map_status_cases
      get_opportunity_def append_event_def new_event_def row_add_def Let_def)
qed

theorem status_change_logged_witness:
  "length (events (snd (update_opportunity_status toy_platform (gen_call 3) 1 100 OPP_RESOLVED None (gen_db gen_twins)))) = 1
   \<and> events (snd (update_opportunity_status toy_platform (gen_call 3) 1 100 OPP_OPEN None (gen_db gen_twins))) = []"
proof -
  let ?o = "blank_opportunity (gen_call 1) 0 1 (Some 2)"
  have "get_opportunity 1 100 (gen_db gen_twins) = Some ?o"
    by (simp add: get_opportunity_def gen_db_def gen_twins_def gen_call_def)
  from status_change_logged [OF this, of toy_platform "gen_call 3" OPP_RESOLVED None]
    status_change_logged [OF this, of toy_platform "gen_call 3" OPP_OPEN None]
  show ?thesis by (auto simp: gen_db_def)
qed

text \<open>
  The route that starts a scoring run never answers with an opportunity: as soon as the run has a
  result, building the answer raises and the transaction, with all the run wrote, is rolled back.
\<close>

theorem generate_route_never_answers:
  "case generate_opportunities_route pf c org role account inp db of
     (Inl err, db') \<Rightarrow> db' = db
   | (Inr opps, db') \<Rightarrow> opps = []"
  by (auto simp: generate_opportunities_route_def request_scope_def andthen_def enrich_without_names_def
    split: prod.splits sum.splits if_splits)

end
