(* ===== verification/OptimizationPlan.thy ===== *)
theory OptimizationPlan
  imports ExecutionPlans Delivery
begin

text \<open>
  \<open>OptimizationPlanService\<close> (\<open>domains/decision_engine/optimization_plan_service.py\<close>): the open
  opportunities of an organization in order of priority, with the conflicts of recommendations for one
  node pool, the savings counted once for them, quick wins, groups and a summary. What the language model
  answers is an argument, none when it raised. A recommendation object the code holds and changes is
  its opportunity's identifier here.
\<close>

section \<open>Priority\<close>

fun RISK_SCORE :: "risk_level \<Rightarrow> pyfloat" where
  "RISK_SCORE RISK_LOW = 1"
| "RISK_SCORE RISK_MEDIUM = fl (6/10)"
| "RISK_SCORE RISK_HIGH = fl (2/10)"

fun EFFORT_SCORE :: "effort_level \<Rightarrow> pyfloat" where
  "EFFORT_SCORE EFFORT_LOW = 1"
| "EFFORT_SCORE EFFORT_MEDIUM = fl (6/10)"
| "EFFORT_SCORE EFFORT_HIGH = fl (2/10)"

fun CATEGORY_LABEL :: "opportunity_category \<Rightarrow> string" where
  "CATEGORY_LABEL RIGHTSIZING = ''VM Rightsizing''"
| "CATEGORY_LABEL AKS_NODEPOOL_RIGHTSIZING = ''AKS Node Pool Rightsizing''"
| "CATEGORY_LABEL AKS_AUTOSCALER_RECOMMENDATION = ''AKS Autoscaler''"
| "CATEGORY_LABEL IDLE_RESOURCES = ''Idle Resources''"
| "CATEGORY_LABEL RESERVED_INSTANCES = ''Reserved Instances''"
| "CATEGORY_LABEL STORAGE_OPTIMIZATION = ''Storage Optimization''"
| "CATEGORY_LABEL NETWORK_OPTIMIZATION = ''Network Optimization''"
| "CATEGORY_LABEL LICENSE_OPTIMIZATION = ''License Optimization''"
| "CATEGORY_LABEL ARCHITECTURE_CHANGE = ''Architecture Change''"

record score_breakdown =
  sb_savings :: pyfloat
  sb_confidence :: pyfloat
  sb_base :: pyfloat
  sb_adjustment :: pyfloat
  sb_accuracy :: "pyfloat option"
  sb_risk :: pyfloat
  sb_effort :: pyfloat
  sb_priority :: pyfloat

definition unit_clamp :: "pyfloat \<Rightarrow> pyfloat" where
  "unit_clamp x = max 0 (min 1 x)"

definition weighted_priority :: "pyfloat \<Rightarrow> pyfloat \<Rightarrow> pyfloat \<Rightarrow> pyfloat \<Rightarrow> pyfloat" where
  "weighted_priority savings conf risk effort =
     fadd (fadd (fadd (fmul savings (fl (45/100))) (fmul conf (fl (30/100)))) (fmul risk (fl (15/100))))
       (fmul effort (fl (10/100)))"

definition compute_priority_score ::
  "platform \<Rightarrow> opportunity \<Rightarrow> pyfloat \<Rightarrow> (opportunity_category \<Rightarrow> calibration_snapshot option) \<Rightarrow> score_breakdown" where
  "compute_priority_score pf o1 max_savings calibration =
     (let savings = unit_clamp (fdiv (or_zero (op_savings o1)) max_savings);
          base = extract_confidence pf o1;
          snapshot = calibration (op_category o1);
          adjustment = (case snapshot of None \<Rightarrow> 0 | Some s \<Rightarrow> snap_adjustment s);
          conf = unit_clamp (fadd base adjustment);
          risk = RISK_SCORE (op_risk o1);
          effort = EFFORT_SCORE (op_effort o1)
      in \<lparr>sb_savings = savings, sb_confidence = conf, sb_base = base, sb_adjustment = adjustment,
          sb_accuracy = map_option snap_accuracy snapshot, sb_risk = risk, sb_effort = effort,
          sb_priority = weighted_priority savings conf risk effort\<rparr>)"

section \<open>Recommendations\<close>

record recommendation =
  re_opportunity :: uuid
  re_category :: opportunity_category
  re_title :: string
  re_resource_id :: "string option"
  re_resource_name :: "string option"
  re_service :: "string option"
  re_environment :: "string option"
  re_owner_team :: "string option"
  re_savings :: pyfloat
  re_confidence :: pyfloat
  re_base :: pyfloat
  re_adjustment :: pyfloat
  re_accuracy :: "pyfloat option"
  re_risk :: risk_level
  re_effort :: effort_level
  re_priority :: pyfloat
  re_rank :: nat
  re_why_now :: string
  re_next_step :: string
  re_conflict_hints :: "string list"
  re_conflicting :: "uuid list"

definition build_why_now :: "score_breakdown \<Rightarrow> string" where
  "build_why_now s =
     ''Savings norm='' @ fixed_str 2 (sb_savings s) @ '', confidence='' @ fixed_str 2 (sb_confidence s)
     @ '', risk_score='' @ fixed_str 2 (sb_risk s) @ '', effort_score='' @ fixed_str 2 (sb_effort s)
     @ (case sb_accuracy s of None \<Rightarrow> []
        | Some a \<Rightarrow> '', base_confidence='' @ fixed_str 2 (sb_base s) @ '', adjustment=''
            @ fixed_str 2 (sb_adjustment s) @ '', historical_accuracy='' @ fixed_str 2 a) @ ''.''"

definition build_next_step :: "opportunity \<Rightarrow> string" where
  "build_next_step o1 =
     (let first = (case op_playbook o1 of None \<Rightarrow> []
          | Some p \<Rightarrow> if p = [] then [] else py_strip (hd (splitlines p)))
      in if first \<noteq> [] then first
         else if op_environment o1 = Some ''production''
         then ''Abrir execu'' @ c_cedil @ a_tilde @ ''o controlada com valida'' @ c_cedil @ a_tilde @ ''o de impacto.''
         else ''Aplicar em janela controlada e monitorar por 24h.'')"

definition recommendation_of :: "opportunity \<Rightarrow> score_breakdown \<Rightarrow> recommendation" where
  "recommendation_of o1 s =
     \<lparr>re_opportunity = op_id o1, re_category = op_category o1, re_title = op_title o1,
      re_resource_id = op_resource_id o1, re_resource_name = op_resource_name o1, re_service = op_service o1,
      re_environment = op_environment o1, re_owner_team = op_owner_team o1,
      re_savings = py_round 2 (or_zero (op_savings o1)), re_confidence = py_round 4 (sb_confidence s),
      re_base = py_round 4 (sb_base s), re_adjustment = py_round 4 (sb_adjustment s),
      re_accuracy = map_option (py_round 4) (sb_accuracy s), re_risk = op_risk o1, re_effort = op_effort o1,
      re_priority = py_round 4 (sb_priority s), re_rank = 0, re_why_now = build_why_now s,
      re_next_step = build_next_step o1, re_conflict_hints = [], re_conflicting = []\<rparr>"

text \<open>\<open>sorted(key=(priority, savings, confidence), reverse=True)\<close> keeps the order of equal elements.\<close>

definition prioritize :: "recommendation list \<Rightarrow> recommendation list" where
  "prioritize rs = map (\<lambda>(k, r). r\<lparr>re_rank := k\<rparr>)
     (enumerate 1 (sort_key (\<lambda>r. (- re_priority r, - re_savings r, - re_confidence r)) rs))"

section \<open>Conflicts\<close>

text \<open>\<open>groups.setdefault(key, []).append(x)\<close> over a list: groups in the order of their first elements.\<close>

fun group_add :: "'k \<Rightarrow> 'a \<Rightarrow> ('k \<times> 'a list) list \<Rightarrow> ('k \<times> 'a list) list" where
  "group_add k x [] = [(k, [x])]"
| "group_add k x ((k', xs) # m) = (if k' = k then (k, xs @ [x]) # m else (k', xs) # group_add k x m)"

definition grouped :: "('a \<Rightarrow> 'k) \<Rightarrow> 'a list \<Rightarrow> ('k \<times> 'a list) list" where
  "grouped key xs = foldl (\<lambda>m x. group_add (key x) x m) [] xs"

definition pool_rec :: "recommendation \<Rightarrow> bool" where
  "pool_rec r \<longleftrightarrow> re_category r \<in> set aks_categories \<and> re_resource_id r \<noteq> None \<and> re_resource_id r \<noteq> Some []"

definition pool_key :: "recommendation \<Rightarrow> string" where
  "pool_key r = (case re_resource_id r of None \<Rightarrow> [] | Some t \<Rightarrow> py_lower (py_strip t))"

definition both_kinds :: "recommendation list \<Rightarrow> bool" where
  "both_kinds rs \<longleftrightarrow> list_ex (\<lambda>r. re_category r = AKS_NODEPOOL_RIGHTSIZING) rs
     \<and> list_ex (\<lambda>r. re_category r = AKS_AUTOSCALER_RECOMMENDATION) rs"

definition pool_groups :: "recommendation list \<Rightarrow> (string \<times> recommendation list) list" where
  "pool_groups rs = grouped pool_key (filter pool_rec rs)"

definition conflict_hint :: "string \<Rightarrow> string" where
  "conflict_hint resource = ''Conflito potencial em '' @ resource
     @ '': AKS nodepool rightsizing e autoscaler podem coexistir, mas nao devem ser aplicados simultaneamente sem revisao.''"

definition mark_conflict :: "string \<Rightarrow> uuid list \<Rightarrow> recommendation \<Rightarrow> recommendation" where
  "mark_conflict hint ids r =
     (if re_opportunity r \<in> set ids
      then r\<lparr>re_conflict_hints := re_conflict_hints r @ [hint],
             re_conflicting := filter (\<lambda>i. i \<noteq> re_opportunity r) ids\<rparr>
      else r)"

definition apply_conflict_hints :: "recommendation list \<Rightarrow> recommendation list \<times> string list" where
  "apply_conflict_hints prioritized =
     foldl (\<lambda>(rs, hints) (resource, g).
         if both_kinds g
         then (map (mark_conflict (conflict_hint resource) (map re_opportunity g)) rs, hints @ [conflict_hint resource])
         else (rs, hints))
       (prioritized, []) (pool_groups prioritized)"

section \<open>Totals, quick wins, groups\<close>

definition savings_sum :: "recommendation list \<Rightarrow> pyfloat" where
  "savings_sum rs = float_sum (map re_savings rs)"

definition compute_adjusted_savings :: "recommendation list \<Rightarrow> pyfloat" where
  "compute_adjusted_savings rs =
     foldl (\<lambda>total (_, g).
         if length g \<le> 1 \<or> \<not> both_kinds g then total
         else fsub total (fsub (savings_sum g) (case py_max (map re_savings g) of None \<Rightarrow> 0 | Some x \<Rightarrow> x)))
       (savings_sum rs) (pool_groups rs)"

definition compute_global_confidence :: "recommendation list \<Rightarrow> pyfloat" where
  "compute_global_confidence rs =
     (if savings_sum rs \<le> 0 then 0
      else fdiv (float_sum (map (\<lambda>r. fmul (re_confidence r) (re_savings r)) rs)) (savings_sum rs))"

definition is_quick_win :: "recommendation \<Rightarrow> bool" where
  "is_quick_win r \<longleftrightarrow> re_risk r = RISK_LOW \<and> re_effort r = EFFORT_LOW \<and> 0 < re_savings r
     \<and> fl (75/100) \<le> re_confidence r"

definition quick_wins_of :: "recommendation list \<Rightarrow> recommendation list" where
  "quick_wins_of rs = take 5 (filter is_quick_win rs)"

record plan_group =
  pg_key :: string
  pg_label :: string
  pg_items :: nat
  pg_savings :: pyfloat
  pg_opportunities :: "uuid list"

definition plan_group_of :: "opportunity_category \<times> recommendation list \<Rightarrow> plan_group" where
  "plan_group_of g =
     \<lparr>pg_key = category_value (fst g), pg_label = CATEGORY_LABEL (fst g), pg_items = length (snd g),
      pg_savings = py_round 2 (savings_sum (snd g)), pg_opportunities = map re_opportunity (snd g)\<rparr>"

definition build_groups :: "recommendation list \<Rightarrow> plan_group list" where
  "build_groups rs = sort_key (\<lambda>g. - pg_savings g) (map plan_group_of (grouped re_category rs))"

section \<open>The plan\<close>

text \<open>\<open>f"{x:,.2f}"\<close>.\<close>

definition amount_str :: "pyfloat \<Rightarrow> string" where
  "amount_str x =
     (let k = nat (round_even (\<bar>x\<bar> * 100))
      in (if x < 0 then ''-'' else []) @ group_str (k div 100) @ ''.'' @ pad_digits 2 (k mod 100))"

definition start_with :: "string \<Rightarrow> recommendation list \<Rightarrow> string" where
  "start_with verb rs =
     (case rs of r1 # r2 # _ \<Rightarrow> verb @ '' 1) '' @ re_title r1 @ ''; 2) '' @ re_title r2 @ ''.''
      | r1 # _ \<Rightarrow> verb @ '' '' @ re_title r1 @ ''.'' | [] \<Rightarrow> [])"

definition build_deterministic_summary ::
  "recommendation list \<Rightarrow> pyfloat \<Rightarrow> recommendation list \<Rightarrow> string list \<Rightarrow> string \<Rightarrow> string" where
  "build_deterministic_summary prioritized adjusted quick_wins hints language =
     (if language = ''pt''
      then py_join '' '' ([''Plano priorizado com '' @ nat_str (length prioritized)
          @ '' recomendacoes e economia ajustada estimada de US$'' @ amount_str adjusted @ ''/mes.'',
          start_with ''Comece por:'' prioritized]
        @ (if quick_wins \<noteq> [] then [''Quick wins identificados: '' @ nat_str (length quick_wins) @ ''.''] else [])
        @ (if hints \<noteq> [] then [''Ha conflitos potenciais que exigem revisao antes de execucao simultanea.''] else []))
      else py_join '' '' ([''Prioritized plan with '' @ nat_str (length prioritized)
          @ '' recommendations and adjusted estimated savings of $'' @ amount_str adjusted @ ''/month.'',
          start_with ''Start with:'' prioritized]
        @ (if quick_wins \<noteq> [] then [''Quick wins identified: '' @ nat_str (length quick_wins) @ ''.''] else [])
        @ (if hints \<noteq> [] then [''Potential conflicts require review before simultaneous execution.''] else [])))"

record optimization_plan =
  pn_total :: nat
  pn_raw :: pyfloat
  pn_adjusted :: pyfloat
  pn_annual :: pyfloat
  pn_confidence :: pyfloat
  pn_summary :: string
  pn_summary_source :: string
  pn_ai_summary :: "string option"
  pn_ai_model :: "string option"
  pn_quick_wins :: "recommendation list"
  pn_prioritized :: "recommendation list"
  pn_groups :: "plan_group list"
  pn_hints :: "string list"

definition empty_plan :: "string \<Rightarrow> optimization_plan" where
  "empty_plan language =
     \<lparr>pn_total = 0, pn_raw = 0, pn_adjusted = 0, pn_annual = 0, pn_confidence = 0,
      pn_summary = (if language = ''pt''
        then ''Nenhuma oportunidade aberta para montar plano de otimiza'' @ c_cedil @ a_tilde @ ''o.''
        else ''No open opportunities available to build an optimization plan.''),
      pn_summary_source = ''deterministic'', pn_ai_summary = None, pn_ai_model = None,
      pn_quick_wins = [], pn_prioritized = [], pn_groups = [], pn_hints = []\<rparr>"

definition list_open_opportunities :: "uuid \<Rightarrow> 'z opp_db_scheme \<Rightarrow> opportunity list" where
  "list_open_opportunities org db =
     filter (\<lambda>o1. op_org o1 = org \<and> op_status o1 = OPP_OPEN) (opportunities db)"

definition max_savings_of :: "opportunity list \<Rightarrow> pyfloat" where
  "max_savings_of ops =
     (case py_max (map (\<lambda>o1. or_zero (op_savings o1)) ops) of
        None \<Rightarrow> 1 | Some x \<Rightarrow> if x = 0 then 1 else x)"

definition recommendations_of :: "platform \<Rightarrow> uuid \<Rightarrow> 'z opp_db_scheme \<Rightarrow> recommendation list" where
  "recommendations_of pf org db =
     (let ops = list_open_opportunities org db;
          calibration = get_category_snapshots org (map op_category ops) db
      in map (\<lambda>o1. recommendation_of o1 (compute_priority_score pf o1 (max_savings_of ops) calibration)) ops)"

text \<open>\<open>f"{summary} {action}".strip()\<close> of the two texts the model answered, and its name.\<close>

definition build_ai_summary ::
  "(string \<times> string \<times> string option) option \<Rightarrow> string option \<times> string option" where
  "build_ai_summary answer =
     (case answer of None \<Rightarrow> (None, None)
      | Some (trend, action, model) \<Rightarrow> (Some (py_strip (trend @ '' '' @ action)), model))"

definition build_plan ::
  "platform \<Rightarrow> (string \<times> string \<times> string option) option \<Rightarrow> uuid \<Rightarrow> string \<Rightarrow> bool \<Rightarrow> 'z opp_db_scheme
   \<Rightarrow> optimization_plan" where
  "build_plan pf answer org language include_ai db =
     (if list_open_opportunities org db = [] then empty_plan language
      else
        let (prioritized, hints) = apply_conflict_hints (prioritize (recommendations_of pf org db));
            adjusted = py_round 2 (compute_adjusted_savings prioritized);
            quick_wins = quick_wins_of prioritized;
            summary = build_deterministic_summary prioritized adjusted quick_wins hints language;
            (ai_summary, ai_model) = (if include_ai then build_ai_summary answer else (None, None));
            use_ai = truthy_str ai_summary
        in \<lparr>pn_total = length prioritized, pn_raw = py_round 2 (savings_sum prioritized),
            pn_adjusted = adjusted, pn_annual = py_round 2 (fmul adjusted 12),
            pn_confidence = py_round 4 (compute_global_confidence prioritized),
            pn_summary = (if use_ai then text_of ai_summary else summary),
            pn_summary_source = (if use_ai then ''ai'' else ''deterministic''),
            pn_ai_summary = ai_summary, pn_ai_model = ai_model, pn_quick_wins = quick_wins,
            pn_prioritized = prioritized, pn_groups = build_groups prioritized, pn_hints = hints\<rparr>)"

text \<open>The route \<open>GET /intel/optimization-plan\<close>.\<close>

definition get_optimization_plan ::
  "platform \<Rightarrow> (string \<times> string \<times> string option) option \<Rightarrow> uuid \<Rightarrow> string \<Rightarrow> bool
   \<Rightarrow> ('z opp_db_scheme, optimization_plan) svc" where
  "get_optimization_plan pf answer org language include_ai =
     request_scope (\<lambda>db. (Inr (build_plan pf answer org
       (py_lower (if language = [] then ''pt'' else language)) include_ai db), db))"

end
