(* ===== verification/OptimizationPlanLaws.thy ===== *)
theory OptimizationPlanLaws
  imports OptimizationPlan FloatValues
begin

text \<open>
  The optimization plan: its order and ranks, which recommendations it calls conflicting, and what its
  adjusted savings count.
\<close>

section \<open>Grouping\<close>

lemma map_of_group_add:
  "map_of (group_add k x m) = (map_of m)(k \<mapsto> (case map_of m k of None \<Rightarrow> [x] | Some xs \<Rightarrow> xs @ [x]))"
  by (induction k x m rule: group_add.induct) (auto simp: fun_eq_iff split: option.splits)

lemma keys_group_add: "fst ` set (group_add k x m) = insert k (fst ` set m)"
  by (induction k x m rule: group_add.induct) auto

lemma distinct_group_add: "distinct (map fst m) \<Longrightarrow> distinct (map fst (group_add k x m))"
proof (induction k x m rule: group_add.induct)
  case (2 k x k' xs m)
  then show ?case using keys_group_add [of k x m] by (auto simp: image_iff)
qed simp

lemma grouped_snoc: "grouped key (xs @ [x]) = group_add (key x) x (grouped key xs)"
  by (simp add: grouped_def)

lemma distinct_grouped: "distinct (map fst (grouped key xs))"
  by (induction xs rule: rev_induct) (simp_all add: grouped_snoc distinct_group_add, simp add: grouped_def)

lemma map_of_grouped:
  "map_of (grouped key xs) k =
     (if k \<in> key ` set xs then Some (filter (\<lambda>x. key x = k) xs) else None)"
  by (induction xs rule: rev_induct)
    (auto simp: grouped_snoc map_of_group_add image_iff filter_empty_conv split: option.splits if_splits,
     simp add: grouped_def)

lemma in_grouped:
  "(k, g) \<in> set (grouped key xs) \<longleftrightarrow> k \<in> key ` set xs \<and> g = filter (\<lambda>x. key x = k) xs"
proof -
  have "(k, g) \<in> set (grouped key xs) \<longleftrightarrow> map_of (grouped key xs) k = Some g"
    using distinct_grouped [of key xs] by (metis map_of_SomeD map_of_is_SomeI)
  then show ?thesis by (auto simp: map_of_grouped split: if_splits)
qed

lemma keys_grouped: "fst ` set (grouped key xs) = key ` set xs"
  by (auto simp: in_grouped image_iff) (metis fst_conv in_grouped image_eqI)

section \<open>Conflicts\<close>

text \<open>
  Two recommendations are about one node pool; a recommendation is contested when its pool has
  recommendations of both kinds.
\<close>

definition rivals :: "recommendation \<Rightarrow> recommendation \<Rightarrow> bool" where
  "rivals r s \<longleftrightarrow> pool_rec r \<and> pool_rec s \<and> pool_key r = pool_key s"

definition contested :: "recommendation list \<Rightarrow> recommendation \<Rightarrow> bool" where
  "contested rs r \<longleftrightarrow> pool_rec r \<and> both_kinds (filter (rivals r) rs)"

definition warned :: "recommendation list \<Rightarrow> recommendation \<Rightarrow> recommendation" where
  "warned rs r = (if contested rs r
     then r\<lparr>re_conflict_hints := re_conflict_hints r @ [conflict_hint (pool_key r)],
            re_conflicting := map re_opportunity
              (filter (\<lambda>s. rivals r s \<and> re_opportunity s \<noteq> re_opportunity r) rs)\<rparr>
     else r)"

definition mark_group :: "string \<times> recommendation list \<Rightarrow> recommendation \<Rightarrow> recommendation" where
  "mark_group g r = (if both_kinds (snd g)
     then mark_conflict (conflict_hint (fst g)) (map re_opportunity (snd g)) r else r)"

lemma mark_group_opportunity [simp]: "re_opportunity (mark_group g r) = re_opportunity r"
  by (simp add: mark_group_def mark_conflict_def)

lemma mark_group_other: "re_opportunity r \<notin> re_opportunity ` set (snd g) \<Longrightarrow> mark_group g r = r"
  by (simp add: mark_group_def mark_conflict_def)

lemma fold_marks:
  "foldl (\<lambda>(rs, hints) (resource, g).
       if both_kinds g
       then (map (mark_conflict (conflict_hint resource) (map re_opportunity g)) rs, hints @ [conflict_hint resource])
       else (rs, hints)) (rs, hints) gs
   = (map (\<lambda>r. foldl (\<lambda>r g. mark_group g r) r gs) rs,
      hints @ map (\<lambda>g. conflict_hint (fst g)) (filter (\<lambda>g. both_kinds (snd g)) gs))"
  by (induction gs arbitrary: rs hints) (auto simp: mark_group_def)

lemma no_marks:
  "(\<And>g. g \<in> set gs \<Longrightarrow> re_opportunity r \<notin> re_opportunity ` set (snd g)) \<Longrightarrow> foldl (\<lambda>r g. mark_group g r) r gs = r"
  by (induction gs) (simp_all add: mark_group_other)

lemma one_mark:
  assumes "distinct (map fst gs)"
    and "\<And>g. g \<in> set gs \<Longrightarrow> re_opportunity r \<in> re_opportunity ` set (snd g) \<Longrightarrow> fst g = k"
  shows "foldl (\<lambda>r g. mark_group g r) r gs = (case map_of gs k of None \<Rightarrow> r | Some g \<Rightarrow> mark_group (k, g) r)"
  using assms
proof (induction gs arbitrary: r)
  case (Cons g gs)
  show ?case
  proof (cases "fst g = k")
    case True
    have "foldl (\<lambda>r g. mark_group g r) (mark_group g r) gs = mark_group g r"
    proof (rule no_marks)
      fix h assume h: "h \<in> set gs"
      then have "fst h \<noteq> k" using Cons.prems(1) True by (metis distinct.simps(2) image_eqI list.simps(9) set_map)
      then show "re_opportunity (mark_group g r) \<notin> re_opportunity ` set (snd h)"
        using Cons.prems(2) [of h] h by auto
    qed
    with True show ?thesis by (cases g) simp
  next
    case False
    then have "mark_group g r = r" using Cons.prems(2) [of g] by (auto intro: mark_group_other)
    with False Cons show ?thesis by (cases g) auto
  qed
qed simp

lemma pool_group:
  "(k, g) \<in> set (pool_groups rs) \<longleftrightarrow> (\<exists>r\<in>set rs. pool_rec r \<and> pool_key r = k \<and> g = filter (rivals r) rs)"
proof -
  have "filter (\<lambda>x. pool_key x = pool_key r) (filter pool_rec rs) = filter (rivals r) rs" if "pool_rec r" for r
    using that by (auto simp: rivals_def intro: filter_cong)
  then show ?thesis by (auto simp: pool_groups_def in_grouped)
qed

lemma apply_conflict_hints_eq:
  assumes "distinct (map re_opportunity rs)"
  shows "apply_conflict_hints rs = (map (warned rs) rs,
    map (\<lambda>g. conflict_hint (fst g)) (filter (\<lambda>g. both_kinds (snd g)) (pool_groups rs)))"
proof -
  have "foldl (\<lambda>r g. mark_group g r) r (pool_groups rs) = warned rs r" if r: "r \<in> set rs" for r
  proof -
    have same: "s = r" if "s \<in> set rs" "re_opportunity s = re_opportunity r" for s
      using that r assms by (auto simp: distinct_map dest: inj_onD)
    have mine: "pool_rec r \<and> fst g = pool_key r"
      if "g \<in> set (pool_groups rs)" "re_opportunity r \<in> re_opportunity ` set (snd g)" for g
    proof -
      have "(fst g, snd g) \<in> set (pool_groups rs)" using that(1) by simp
      then obtain q where "q \<in> set rs" "pool_rec q" "pool_key q = fst g" "snd g = filter (rivals q) rs"
        unfolding pool_group by blast
      moreover from this that(2) same have "rivals q r" by auto
      ultimately show ?thesis by (simp add: rivals_def)
    qed
    have keys: "distinct (map fst (pool_groups rs))" by (simp add: pool_groups_def distinct_grouped)
    show ?thesis
    proof (cases "pool_rec r")
      case True
      then have "map_of (pool_groups rs) (pool_key r) = Some (filter (rivals r) rs)"
        using r keys pool_group [of "pool_key r" _ rs] by (intro map_of_is_SomeI) auto
      moreover have "filter (\<lambda>i. i \<noteq> re_opportunity r) (map re_opportunity (filter (rivals r) rs))
        = map re_opportunity (filter (\<lambda>s. rivals r s \<and> re_opportunity s \<noteq> re_opportunity r) rs)"
        by (simp add: filter_map comp_def conj_commute)
      moreover have "re_opportunity r \<in> re_opportunity ` set (filter (rivals r) rs)"
        using r True by (auto simp: rivals_def)
      ultimately show ?thesis
        using one_mark [OF keys, of r "pool_key r"] mine True
        by (auto simp: warned_def contested_def mark_group_def mark_conflict_def)
    next
      case False
      then have "foldl (\<lambda>r g. mark_group g r) r (pool_groups rs) = r" using mine by (intro no_marks) auto
      with False show ?thesis by (simp add: warned_def contested_def)
    qed
  qed
  then show ?thesis by (simp add: apply_conflict_hints_def fold_marks)
qed

section \<open>Order and ranks\<close>

lemma marks_keep [simp]:
  "re_opportunity (foldl (\<lambda>r g. mark_group g r) r gs) = re_opportunity r"
  "re_category (foldl (\<lambda>r g. mark_group g r) r gs) = re_category r"
  "re_resource_id (foldl (\<lambda>r g. mark_group g r) r gs) = re_resource_id r"
  "re_rank (foldl (\<lambda>r g. mark_group g r) r gs) = re_rank r"
  "re_priority (foldl (\<lambda>r g. mark_group g r) r gs) = re_priority r"
  "re_savings (foldl (\<lambda>r g. mark_group g r) r gs) = re_savings r"
  "re_confidence (foldl (\<lambda>r g. mark_group g r) r gs) = re_confidence r"
  by (induction gs arbitrary: r) (simp_all add: mark_group_def mark_conflict_def)

lemma prioritize_alt:
  "prioritize rs = map2 (\<lambda>k r. r\<lparr>re_rank := k\<rparr>) [1..<Suc (length rs)]
     (sort_key (\<lambda>r. (- re_priority r, - re_savings r, - re_confidence r)) rs)"
  by (simp add: prioritize_def enumerate_eq_zip split_def)

lemma map_prioritize:
  assumes "\<And>r k. f (r\<lparr>re_rank := k\<rparr>) = f r"
  shows "map f (prioritize rs) = map f (sort_key (\<lambda>r. (- re_priority r, - re_savings r, - re_confidence r)) rs)"
  unfolding prioritize_def by (rule nth_equalityI) (simp_all add: assms nth_enumerate_eq)

lemma mset_prioritize:
  assumes "\<And>r k. f (r\<lparr>re_rank := k\<rparr>) = f r"
  shows "mset (map f (prioritize rs)) = mset (map f rs)"
  by (simp add: map_prioritize [of f, OF assms])

lemma prioritize_ranks: "map re_rank (prioritize rs) = [1..<Suc (length rs)]"
  unfolding prioritize_def by (rule nth_equalityI) (simp_all add: nth_enumerate_eq del: upt_Suc)

lemma prioritize_sorted:
  "sorted (map (\<lambda>r. (- re_priority r, - re_savings r, - re_confidence r)) (prioritize rs))"
  using map_prioritize [of "\<lambda>r. (- re_priority r, - re_savings r, - re_confidence r)" rs]
  by simp

lemma length_prioritize [simp]: "length (prioritize rs) = length rs"
  by (simp add: prioritize_def)

lemma weighted_priority_unit:
  assumes "0 \<le> a" "a \<le> 1" "0 \<le> b" "b \<le> 1" "0 \<le> c" "c \<le> 1" "0 \<le> d" "d \<le> 1"
  shows "0 \<le> weighted_priority a b c d \<and> py_round 4 (weighted_priority a b c d) \<le> 1"
proof -
  have w: "0 \<le> fl (45/100)" "0 \<le> fl (30/100)" "0 \<le> fl (15/100)" "0 \<le> fl (10/100)" by (simp_all add: fl_nonneg)
  have "weighted_priority a b c d \<le> weighted_priority 1 1 1 1"
    unfolding weighted_priority_def using assms w by (intro fadd_mono fmul_mono)
  moreover have "py_round 4 (weighted_priority 1 1 1 1) = 1" by code_simp
  ultimately have "py_round 4 (weighted_priority a b c d) \<le> 1" using py_round_mono by metis
  moreover have "0 \<le> weighted_priority a b c d"
    unfolding weighted_priority_def using assms w by (intro fadd_nonneg fmul_nonneg)
  ultimately show ?thesis by simp
qed

lemma unit_clamp_unit [simp]: "0 \<le> unit_clamp x" "unit_clamp x \<le> 1"
  by (simp_all add: unit_clamp_def)

lemma risk_score_unit [simp]: "0 \<le> RISK_SCORE r" "RISK_SCORE r \<le> 1"
  by (cases r; simp add: fl_nonneg fl_le_int [of _ 1, simplified])+

lemma effort_score_unit [simp]: "0 \<le> EFFORT_SCORE e" "EFFORT_SCORE e \<le> 1"
  by (cases e; simp add: fl_nonneg fl_le_int [of _ 1, simplified])+

lemma priority_unit:
  "r \<in> set (recommendations_of pf org db) \<Longrightarrow> 0 \<le> re_priority r \<and> re_priority r \<le> 1"
  by (auto simp: recommendations_of_def recommendation_of_def compute_priority_score_def Let_def
    weighted_priority_unit py_round_nonneg)

lemma recommended_ids: "map re_opportunity (recommendations_of pf org db) = map op_id (list_open_opportunities org db)"
  by (simp add: recommendations_of_def recommendation_of_def Let_def comp_def)

lemma plan_prioritized:
  "pn_prioritized (build_plan pf answer org language ai db)
     = fst (apply_conflict_hints (prioritize (recommendations_of pf org db)))"
proof (cases "list_open_opportunities org db = []")
  case True
  then have "recommendations_of pf org db = []" by (simp add: recommendations_of_def)
  with True show ?thesis
    by (simp add: build_plan_def empty_plan_def apply_conflict_hints_def prioritize_def pool_groups_def grouped_def)
qed (simp add: build_plan_def Let_def split: prod.splits)

text \<open>
  The plan lists every open opportunity of the organization once, ranked from one on by
  falling priority, equal priorities by savings and then by confidence; priorities lie between 0 and 1, and
  the quick wins are the first five that are of low risk and effort with savings and high confidence.
\<close>

theorem plan_in_order:
  "let plan = build_plan pf answer org language ai db; ps = pn_prioritized plan in
     mset (map re_opportunity ps) = mset (map op_id (list_open_opportunities org db))
   \<and> map re_rank ps = [1..<Suc (length ps)]
   \<and> sorted (map (\<lambda>r. (- re_priority r, - re_savings r, - re_confidence r)) ps)
   \<and> list_all (\<lambda>r. 0 \<le> re_priority r \<and> re_priority r \<le> 1) ps
   \<and> pn_quick_wins plan = take 5 (filter is_quick_win ps) \<and> pn_total plan = length ps"
proof -
  let ?rs = "recommendations_of pf org db"
  let ?M = "\<lambda>r. foldl (\<lambda>r g. mark_group g r) r (pool_groups (prioritize ?rs))"
  have ps: "pn_prioritized (build_plan pf answer org language ai db) = map ?M (prioritize ?rs)"
    by (simp add: plan_prioritized apply_conflict_hints_def fold_marks)
  have "set (map re_priority (prioritize ?rs)) = set (map re_priority ?rs)"
    using mset_prioritize [of re_priority ?rs] mset_eq_setD by fastforce
  then have "\<forall>p\<in>set (map re_priority (prioritize ?rs)). 0 \<le> p \<and> p \<le> 1"
    using priority_unit [of _ pf org db] by (metis (no_types, lifting) imageE list.set_map)
  then have "list_all (\<lambda>r. 0 \<le> re_priority r \<and> re_priority r \<le> 1) (map ?M (prioritize ?rs))"
    by (simp add: list_all_iff)
  moreover have "pn_quick_wins (build_plan pf answer org language ai db) = take 5 (filter is_quick_win (map ?M (prioritize ?rs)))
    \<and> pn_total (build_plan pf answer org language ai db) = length ?rs"
    unfolding ps [symmetric]
    by (simp add: build_plan_def empty_plan_def quick_wins_of_def recommendations_of_def Let_def apply_conflict_hints_def
      fold_marks split: prod.splits)
  ultimately show ?thesis
    using mset_prioritize [of re_opportunity ?rs] prioritize_ranks [of ?rs] prioritize_sorted [of ?rs]
    by (simp add: Let_def ps comp_def recommended_ids del: mset_map upt_Suc)
qed

section \<open>Conflicts of a plan\<close>

lemma warned_keep [simp]:
  "re_opportunity (warned rs r) = re_opportunity r" "re_category (warned rs r) = re_category r"
  "re_resource_id (warned rs r) = re_resource_id r" "re_savings (warned rs r) = re_savings r"
  "pool_rec (warned rs r) = pool_rec r" "pool_key (warned rs r) = pool_key r"
  by (simp_all add: warned_def pool_rec_def pool_key_def)

lemma rivals_warned [simp]: "rivals (warned rs r) s = rivals r s" "rivals r (warned rs s) = rivals r s"
  by (simp_all add: rivals_def)

lemma both_kinds_warned [simp]: "both_kinds (map (warned rs) qs) = both_kinds qs"
  by (simp add: both_kinds_def list_ex_iff)

lemma contested_warned [simp]: "contested (map (warned rs) qs) (warned rs r) = contested qs r"
  by (simp add: contested_def filter_map comp_def)

lemma rivals_contested:
  assumes "rivals r s" shows "contested rs r = contested rs s"
proof -
  have "rivals r = rivals s" "pool_rec r" "pool_rec s" using assms by (auto simp: rivals_def fun_eq_iff)
  then show ?thesis by (simp add: contested_def)
qed

lemma distinct_ranked:
  assumes "distinct (map op_id (opportunities db))"
  shows "distinct (map re_opportunity (prioritize (recommendations_of pf org db)))"
proof -
  have "distinct (map op_id (list_open_opportunities org db))"
    using assms by (simp add: list_open_opportunities_def distinct_map_filter)
  moreover have "mset (map re_opportunity (prioritize (recommendations_of pf org db)))
    = mset (map op_id (list_open_opportunities org db))"
    using mset_prioritize [of re_opportunity "recommendations_of pf org db"]
    by (simp add: recommended_ids del: mset_map)
  ultimately show ?thesis using mset_eq_imp_distinct_iff by blast
qed

lemma plan_warned:
  assumes "distinct (map op_id (opportunities db))"
  shows "pn_prioritized (build_plan pf answer org language ai db)
    = map (warned (prioritize (recommendations_of pf org db))) (prioritize (recommendations_of pf org db))"
  using apply_conflict_hints_eq [OF distinct_ranked [OF assms]] by (simp add: plan_prioritized)

lemma unmarked:
  assumes "r \<in> set (prioritize (recommendations_of pf org db))"
  shows "re_conflict_hints r = [] \<and> re_conflicting r = []"
proof -
  have "set (map (\<lambda>r. (re_conflict_hints r, re_conflicting r)) (prioritize (recommendations_of pf org db)))
    = set (map (\<lambda>r. (re_conflict_hints r, re_conflicting r)) (recommendations_of pf org db))"
    by (intro mset_eq_setD mset_prioritize) simp
  also have "\<dots> \<subseteq> {([], [])}" by (auto simp: recommendations_of_def recommendation_of_def Let_def)
  finally show ?thesis using assms by auto
qed

lemma plan_marks:
  assumes "distinct (map op_id (opportunities db))"
    and "r \<in> set (pn_prioritized (build_plan pf answer org language ai db))"
  shows "re_conflicting r = (if contested (pn_prioritized (build_plan pf answer org language ai db)) r
      then map re_opportunity (filter (\<lambda>s. rivals r s \<and> re_opportunity s \<noteq> re_opportunity r)
        (pn_prioritized (build_plan pf answer org language ai db))) else [])
    \<and> re_conflict_hints r = (if contested (pn_prioritized (build_plan pf answer org language ai db)) r
      then [conflict_hint (pool_key r)] else [])"
proof -
  let ?qs = "prioritize (recommendations_of pf org db)"
  obtain q where q: "q \<in> set ?qs" "r = warned ?qs q" using assms(2) by (auto simp: plan_warned [OF assms(1)])
  have "re_conflict_hints r = (if contested ?qs q then [conflict_hint (pool_key q)] else [])"
    "re_conflicting r = (if contested ?qs q
      then map re_opportunity (filter (\<lambda>s. rivals q s \<and> re_opportunity s \<noteq> re_opportunity q) ?qs) else [])"
    using unmarked [OF q(1)] by (simp_all add: q(2) warned_def)
  then show ?thesis by (simp add: plan_warned [OF assms(1)] q(2) filter_map comp_def)
qed

text \<open>
  In a plan a recommendation is in conflict exactly when its node pool has open
  recommendations of both kinds, and then with all other recommendations for that pool; conflicts are
  mutual.
\<close>

theorem plan_conflicts_mutual:
  assumes "distinct (map op_id (opportunities db))"
    and "r \<in> set (pn_prioritized (build_plan pf answer org language ai db))"
    and "s \<in> set (pn_prioritized (build_plan pf answer org language ai db))"
  shows "(re_conflict_hints r \<noteq> [] \<longleftrightarrow> contested (pn_prioritized (build_plan pf answer org language ai db)) r)
    \<and> (re_opportunity s \<in> set (re_conflicting r) \<longleftrightarrow>
        contested (pn_prioritized (build_plan pf answer org language ai db)) r \<and> rivals r s
        \<and> re_opportunity s \<noteq> re_opportunity r)
    \<and> (re_opportunity s \<in> set (re_conflicting r) \<longleftrightarrow> re_opportunity r \<in> set (re_conflicting s))"
proof -
  let ?ps = "pn_prioritized (build_plan pf answer org language ai db)"
  have "distinct (map re_opportunity ?ps)"
    using distinct_ranked [OF assms(1)] by (simp add: plan_warned [OF assms(1)] comp_def)
  then have same: "a = b" if "a \<in> set ?ps" "b \<in> set ?ps" "re_opportunity a = re_opportunity b" for a b
    using that by (auto simp: distinct_map dest: inj_onD)
  have in_conflict: "re_opportunity b \<in> set (re_conflicting a) \<longleftrightarrow>
      contested ?ps a \<and> rivals a b \<and> re_opportunity b \<noteq> re_opportunity a" if "a \<in> set ?ps" "b \<in> set ?ps" for a b
    using that plan_marks [OF assms(1) that(1)] same by (auto simp: image_iff)
  have "re_conflict_hints r \<noteq> [] \<longleftrightarrow> contested ?ps r" using plan_marks [OF assms(1,2)] by auto
  moreover have "rivals r s \<longleftrightarrow> rivals s r" by (auto simp: rivals_def)
  ultimately show ?thesis
    using in_conflict [OF assms(2,3)] in_conflict [OF assms(3,2)] rivals_contested [of r s ?ps] by auto
qed

section \<open>Savings counted once\<close>

definition whole_amounts :: "pyfloat list \<Rightarrow> bool" where
  "whole_amounts xs \<longleftrightarrow> list_all (\<lambda>x. 0 \<le> x \<and> of_int \<lfloor>x\<rfloor> = x) xs \<and> sum_list xs < 2 ^ 53"

lemma fl_whole: "of_int \<lfloor>x\<rfloor> = x \<Longrightarrow> \<bar>x\<bar> < 2 ^ 53 \<Longrightarrow> fl x = x"
  using fl_of_int [of "\<lfloor>x\<rfloor>"] by (metis of_int_abs of_int_less_iff of_int_numeral of_int_power)

lemma whole_ops:
  fixes x y :: pyfloat
  assumes "of_int \<lfloor>x\<rfloor> = x" "of_int \<lfloor>y\<rfloor> = y"
  shows "of_int \<lfloor>x + y\<rfloor> = x + y" "of_int \<lfloor>x - y\<rfloor> = x - y"
  using assms by (metis floor_of_int of_int_add) (use assms in \<open>metis floor_of_int of_int_diff\<close>)

lemma whole_sum: "list_all (\<lambda>x. 0 \<le> x \<and> of_int \<lfloor>x\<rfloor> = x) xs \<Longrightarrow> 0 \<le> sum_list xs \<and> of_int \<lfloor>sum_list xs\<rfloor> = sum_list xs"
  for xs :: "pyfloat list"
  by (induction xs) (auto simp: whole_ops)

lemma float_sum_loop_whole:
  "list_all (\<lambda>x. 0 \<le> x \<and> of_int \<lfloor>x\<rfloor> = x) xs \<Longrightarrow> 0 \<le> hi \<Longrightarrow> of_int \<lfloor>hi\<rfloor> = hi \<Longrightarrow> hi + sum_list xs < 2 ^ 53
   \<Longrightarrow> float_sum_loop hi 0 xs = hi + sum_list xs"
proof (induction xs arbitrary: hi)
  case Nil
  then show ?case by (simp add: fadd_def fl_whole)
next
  case (Cons x xs)
  then have x: "0 \<le> x" "of_int \<lfloor>x\<rfloor> = x" "0 \<le> sum_list xs" using whole_sum [of xs] by auto
  with Cons.prems have less: "hi + x < 2 ^ 53" "x < 2 ^ 53" "hi < 2 ^ 53" by simp_all
  have t: "fadd hi x = hi + x" using x Cons.prems less by (simp add: fadd_def fl_whole whole_ops)
  have "fsub hi (hi + x) = - x" "fsub x (hi + x) = - hi"
    using x Cons.prems less fl_minus [of x] fl_minus [of hi] by (simp_all add: fsub_def fl_whole)
  then have "float_sum_loop hi 0 (x # xs) = float_sum_loop (hi + x) 0 xs"
    using t by (simp add: Let_def fadd_def)
  also have "\<dots> = hi + x + sum_list xs"
    using Cons.prems x less by (intro Cons.IH) (simp_all add: whole_ops add.assoc)
  finally show ?case by (simp add: add.assoc)
qed

lemma float_sum_whole: "whole_amounts xs \<Longrightarrow> float_sum xs = sum_list xs"
  using float_sum_loop_whole [of xs 0] by (simp add: float_sum_def whole_amounts_def)

lemma whole_filter:
  assumes "whole_amounts (map f xs)" shows "whole_amounts (map f (filter P xs))"
proof -
  have "sum_list (map f (filter P xs)) \<le> sum_list (map f xs)"
    using assms by (induction xs) (auto simp: whole_amounts_def list_all_iff)
  with assms show ?thesis by (auto simp: whole_amounts_def list_all_iff)
qed

lemma fold_subtract:
  fixes d :: "'a \<Rightarrow> pyfloat"
  assumes "list_all (\<lambda>x. 0 \<le> x \<and> of_int \<lfloor>x\<rfloor> = x) (map d (filter c gs))"
    and "sum_list (map d (filter c gs)) \<le> t" "of_int \<lfloor>t\<rfloor> = t" "t < 2 ^ 53"
  shows "foldl (\<lambda>t g. if c g then fsub t (d g) else t) t gs = t - sum_list (map d (filter c gs))"
  using assms
proof (induction gs arbitrary: t)
  case (Cons g gs)
  show ?case
  proof (cases "c g")
    case True
    then have g: "0 \<le> d g" "of_int \<lfloor>d g\<rfloor> = d g" "0 \<le> sum_list (map d (filter c gs))"
      using Cons.prems(1) whole_sum [of "map d (filter c gs)"] by auto
    have "fsub t (d g) = t - d g" using Cons.prems True g by (simp add: fsub_def fl_whole whole_ops)
    then have "foldl (\<lambda>t g. if c g then fsub t (d g) else t) t (g # gs)
      = foldl (\<lambda>t g. if c g then fsub t (d g) else t) (t - d g) gs" using True by simp
    also have "\<dots> = t - d g - sum_list (map d (filter c gs))"
      using Cons.prems True g by (intro Cons.IH) (auto simp: whole_ops simp del: floor_of_int)
    finally show ?thesis using True by simp
  qed (use Cons in simp)
qed simp

lemma sum_group_add:
  fixes f :: "'a \<Rightarrow> pyfloat"
  shows "distinct (map fst m) \<Longrightarrow>
    sum_list (map (\<lambda>g. sum_list (map f (snd g))) (filter (\<lambda>g. Q (fst g)) (group_add k x m)))
    = sum_list (map (\<lambda>g. sum_list (map f (snd g))) (filter (\<lambda>g. Q (fst g)) m)) + (if Q k then f x else 0)"
  by (induction k x m rule: group_add.induct) auto

lemma sum_grouped:
  fixes f :: "'a \<Rightarrow> pyfloat"
  shows "sum_list (map (\<lambda>g. sum_list (map f (snd g))) (filter (\<lambda>g. Q (fst g)) (grouped key xs)))
    = sum_list (map f (filter (\<lambda>x. Q (key x)) xs))"
  by (induction xs rule: rev_induct)
    (simp_all add: grouped_snoc sum_group_add distinct_grouped, simp add: grouped_def)

definition contested_groups :: "recommendation list \<Rightarrow> (string \<times> recommendation list) list" where
  "contested_groups ps = filter (\<lambda>g. both_kinds (snd g)) (pool_groups ps)"

lemma pool_filter:
  "pool_rec r \<Longrightarrow> filter (\<lambda>x. pool_rec x \<and> pool_key x = pool_key r) ps = filter (rivals r) ps"
  by (auto simp: rivals_def intro: filter_cong)

lemma contested_key:
  "pool_rec r \<Longrightarrow> both_kinds (filter (\<lambda>x. pool_key x = pool_key r) (filter pool_rec ps)) = contested ps r"
  by (simp add: pool_filter contested_def)

lemma contested_groups_alt:
  "contested_groups ps = filter (\<lambda>g. both_kinds (filter (\<lambda>x. pool_key x = fst g) (filter pool_rec ps))) (pool_groups ps)"
  unfolding contested_groups_def by (rule filter_cong) (auto simp: pool_groups_def in_grouped)

lemma contested_groups_sum:
  fixes f :: "recommendation \<Rightarrow> pyfloat"
  shows "sum_list (map (\<lambda>g. sum_list (map f (snd g))) (contested_groups ps))
    = sum_list (map f (filter (contested ps) ps))"
proof -
  have "pool_rec r \<and> both_kinds (filter (\<lambda>x. pool_key x = pool_key r) (filter pool_rec ps)) \<longleftrightarrow> contested ps r" for r
    using contested_key [of r ps] by (auto simp: contested_def)
  then have "filter (\<lambda>r. both_kinds (filter (\<lambda>x. pool_key x = pool_key r) (filter pool_rec ps))) (filter pool_rec ps)
    = filter (contested ps) ps" by simp
  with sum_grouped [of f "\<lambda>k. both_kinds (filter (\<lambda>x. pool_key x = k) (filter pool_rec ps))" pool_key "filter pool_rec ps"]
  show ?thesis by (simp only: contested_groups_alt pool_groups_def)
qed

lemma contested_group_members:
  assumes "g \<in> set (contested_groups ps)"
  shows "snd g = filter (\<lambda>r. contested ps r \<and> pool_key r = fst g) ps" and "snd g \<noteq> []"
proof -
  have g: "(fst g, snd g) \<in> set (pool_groups ps)" "both_kinds (snd g)" using assms by (simp_all add: contested_groups_def)
  obtain q where q: "q \<in> set ps" "pool_rec q" "pool_key q = fst g" "snd g = filter (rivals q) ps"
    using g(1) unfolding pool_group by blast
  have "rivals q = (\<lambda>r. contested ps r \<and> pool_key r = fst g)"
    using q g(2) rivals_contested [of q _ ps] by (auto simp: contested_def rivals_def)
  with q(4) show "snd g = filter (\<lambda>r. contested ps r \<and> pool_key r = fst g) ps" by simp
  show "snd g \<noteq> []" using g(2) by (auto simp: both_kinds_def)
qed

lemma contested_group_keys:
  "distinct (map fst (contested_groups ps))"
  "fst ` set (contested_groups ps) = pool_key ` {r \<in> set ps. contested ps r}"
proof -
  show "distinct (map fst (contested_groups ps))"
    by (simp add: contested_groups_def pool_groups_def distinct_map_filter distinct_grouped)
  show "fst ` set (contested_groups ps) = pool_key ` {r \<in> set ps. contested ps r}"
  proof (intro equalityI subsetI)
    fix k assume "k \<in> fst ` set (contested_groups ps)"
    then obtain g where g: "g \<in> set (contested_groups ps)" "k = fst g" by auto
    obtain r where "r \<in> set (snd g)" using contested_group_members(2) [OF g(1)] by (cases "snd g") auto
    then show "k \<in> pool_key ` {r \<in> set ps. contested ps r}"
      using contested_group_members(1) [OF g(1)] g(2) by (auto intro!: image_eqI)
  next
    fix k assume "k \<in> pool_key ` {r \<in> set ps. contested ps r}"
    then obtain r where r: "r \<in> set ps" "contested ps r" "k = pool_key r" by auto
    then have "(k, filter (rivals r) ps) \<in> set (contested_groups ps)"
      by (auto simp: contested_groups_def pool_group contested_def)
    then show "k \<in> fst ` set (contested_groups ps)" by force
  qed
qed

lemma sum_list_split:
  fixes f :: "'a \<Rightarrow> pyfloat"
  shows "sum_list (map f xs) = sum_list (map f (filter P xs)) + sum_list (map f (filter (\<lambda>x. \<not> P x) xs))"
  by (induction xs) auto

lemma adjusted_whole:
  assumes "whole_amounts (map re_savings ps)"
  shows "compute_adjusted_savings ps = sum_list (map re_savings (filter (\<lambda>r. \<not> contested ps r) ps))
    + sum_list (map (\<lambda>g. Max (re_savings ` set (snd g))) (contested_groups ps))"
    and "\<bar>compute_adjusted_savings ps\<bar> < 2 ^ 53 \<and> of_int \<lfloor>compute_adjusted_savings ps\<rfloor> = compute_adjusted_savings ps"
proof -
  let ?d = "\<lambda>g. fsub (savings_sum (snd g)) (case py_max (map re_savings (snd g)) of None \<Rightarrow> 0 | Some x \<Rightarrow> x)"
  let ?S = "sum_list (map re_savings ps)" and ?G = "contested_groups ps"
  have d: "?d g = sum_list (map re_savings (snd g)) - Max (re_savings ` set (snd g)) \<and>
      0 \<le> Max (re_savings ` set (snd g)) \<and> 0 \<le> ?d g \<and> of_int \<lfloor>?d g\<rfloor> = ?d g" if g: "g \<in> set ?G" for g
  proof -
    let ?xs = "map re_savings (snd g)"
    have w: "whole_amounts ?xs" using whole_filter [OF assms] contested_group_members(1) [OF g] by metis
    then have all: "0 \<le> x \<and> of_int \<lfloor>x\<rfloor> = x" if "x \<in> set ?xs" for x using w that by (auto simp: whole_amounts_def list_all_iff)
    obtain m where m: "py_max ?xs = Some m" using contested_group_members(2) [OF g] by (cases "py_max ?xs") auto
    then have "m \<in> set ?xs" "\<And>x. x \<in> set ?xs \<Longrightarrow> x \<le> m" using py_max_Some by blast+
    moreover from this have "Max (set ?xs) = m" by (intro Max_eqI) auto
    moreover have "m \<le> sum_list ?xs" using \<open>m \<in> set ?xs\<close> all by (intro member_le_sum_list) auto
    moreover have "0 \<le> sum_list ?xs \<and> of_int \<lfloor>sum_list ?xs\<rfloor> = sum_list ?xs" "sum_list ?xs < 2 ^ 53"
      using w whole_sum [of ?xs] by (auto simp: whole_amounts_def)
    ultimately show ?thesis
      using all [of m] by (simp add: savings_sum_def float_sum_whole [OF w] m fsub_def fl_whole whole_ops)
  qed
  have whole_d: "list_all (\<lambda>x. 0 \<le> x \<and> of_int \<lfloor>x\<rfloor> = x) (map ?d ?G)" using d by (auto simp only: list_all_iff set_map image_iff)
  have total: "savings_sum ps = ?S" "0 \<le> ?S" "of_int \<lfloor>?S\<rfloor> = ?S" "?S < 2 ^ 53"
    using assms whole_sum [of "map re_savings ps"] by (auto simp: savings_sum_def float_sum_whole whole_amounts_def)
  have parts: "?S = sum_list (map re_savings (filter (contested ps) ps))
      + sum_list (map re_savings (filter (\<lambda>r. \<not> contested ps r) ps))"
    by (rule sum_list_split)
  have sums: "sum_list (map ?d ?G) = sum_list (map re_savings (filter (contested ps) ps))
      - sum_list (map (\<lambda>g. Max (re_savings ` set (snd g))) ?G)"
  proof -
    have "map ?d ?G = map (\<lambda>g. sum_list (map re_savings (snd g)) - Max (re_savings ` set (snd g))) ?G" using d by simp
    then show ?thesis by (simp only: sum_list_subtractf contested_groups_sum)
  qed
  have "0 \<le> sum_list (map (\<lambda>g. Max (re_savings ` set (snd g))) ?G)" using d by (intro sum_list_nonneg) auto
  moreover have "0 \<le> sum_list (map re_savings (filter (\<lambda>r. \<not> contested ps r) ps))"
    using whole_filter [OF assms] whole_sum by (simp add: whole_amounts_def)
  ultimately have le: "sum_list (map ?d ?G) \<le> ?S" using parts sums by simp
  have "compute_adjusted_savings ps = foldl (\<lambda>t g. if both_kinds (snd g) then fsub t (?d g) else t) ?S (pool_groups ps)"
  proof -
    have "\<not> (length g \<le> 1 \<or> \<not> both_kinds g) \<longleftrightarrow> both_kinds g" for g
      by (cases g rule: remdups_adj.cases) (auto simp: both_kinds_def)
    then have "(\<lambda>total (_ :: string, g). if length g \<le> 1 \<or> \<not> both_kinds g then total
        else fsub total (fsub (savings_sum g) (case py_max (map re_savings g) of None \<Rightarrow> 0 | Some x \<Rightarrow> x)))
      = (\<lambda>t g. if both_kinds (snd g) then fsub t (?d g) else t)"
      by (auto simp: fun_eq_iff split: prod.splits)
    then show ?thesis by (simp only: compute_adjusted_savings_def total(1))
  qed
  also have "\<dots> = ?S - sum_list (map ?d ?G)"
    using fold_subtract [OF whole_d [unfolded contested_groups_def] le [unfolded contested_groups_def] total(3,4)]
    by (simp only: contested_groups_def)
  finally have eq: "compute_adjusted_savings ps = ?S - sum_list (map ?d ?G)" .
  then show "compute_adjusted_savings ps = sum_list (map re_savings (filter (\<lambda>r. \<not> contested ps r) ps))
    + sum_list (map (\<lambda>g. Max (re_savings ` set (snd g))) ?G)" using sums parts by simp
  from whole_sum [OF whole_d]
  show "\<bar>compute_adjusted_savings ps\<bar> < 2 ^ 53 \<and> of_int \<lfloor>compute_adjusted_savings ps\<rfloor> = compute_adjusted_savings ps"
    using eq le total by (simp add: whole_ops)
qed

definition whole_savings :: "uuid \<Rightarrow> 'z opp_db_scheme \<Rightarrow> bool" where
  "whole_savings org db \<longleftrightarrow>
     whole_amounts (map (\<lambda>o1. or_zero (op_savings o1)) (list_open_opportunities org db))"

lemma round_whole: "of_int \<lfloor>x\<rfloor> = x \<Longrightarrow> \<bar>x\<bar> < 2 ^ 53 \<Longrightarrow> py_round n x = x"
  using py_round_of_int [of "\<lfloor>x\<rfloor>" n] by (metis of_int_abs of_int_less_iff of_int_numeral of_int_power)

lemma plan_whole:
  assumes "distinct (map op_id (opportunities db))" and "whole_savings org db"
  shows "mset (map re_savings (pn_prioritized (build_plan pf answer org language ai db)))
      = mset (map (\<lambda>o1. or_zero (op_savings o1)) (list_open_opportunities org db))"
    and "whole_amounts (map re_savings (pn_prioritized (build_plan pf answer org language ai db)))"
proof -
  let ?xs = "map (\<lambda>o1. or_zero (op_savings o1)) (list_open_opportunities org db)"
  have w: "list_all (\<lambda>x. 0 \<le> x \<and> of_int \<lfloor>x\<rfloor> = x) ?xs" "sum_list ?xs < 2 ^ 53"
    using assms(2) by (simp_all add: whole_savings_def whole_amounts_def)
  have "x \<le> sum_list ?xs" if "x \<in> set ?xs" for x
    using w that by (intro member_le_sum_list) (auto simp: list_all_iff)
  then have "py_round 2 x = x" if "x \<in> set ?xs" for x
    using w that by (intro round_whole) (fastforce simp: list_all_iff)+
  then have "map re_savings (recommendations_of pf org db) = ?xs"
    by (simp add: recommendations_of_def recommendation_of_def Let_def)
  then show "mset (map re_savings (pn_prioritized (build_plan pf answer org language ai db))) = mset ?xs"
    using mset_prioritize [of re_savings "recommendations_of pf org db"]
    by (simp add: plan_warned [OF assms(1)] comp_def del: mset_map)
  then have "set (map re_savings (pn_prioritized (build_plan pf answer org language ai db))) = set ?xs"
    "sum_list (map re_savings (pn_prioritized (build_plan pf answer org language ai db))) = sum_list ?xs"
    by (metis mset_eq_setD, metis sum_mset_sum_list)
  with w show "whole_amounts (map re_savings (pn_prioritized (build_plan pf answer org language ai db)))"
    by (simp add: whole_amounts_def list_all_iff)
qed

lemma list_open_empty: "list_open_opportunities org db = [] \<Longrightarrow>
    pn_raw (build_plan pf answer org language ai db) = 0 \<and> pn_adjusted (build_plan pf answer org language ai db) = 0
    \<and> pn_prioritized (build_plan pf answer org language ai db) = []"
  by (simp add: build_plan_def empty_plan_def)

lemma plan_amounts:
  assumes "list_open_opportunities org db \<noteq> []"
  shows "pn_raw (build_plan pf answer org language ai db)
      = py_round 2 (savings_sum (pn_prioritized (build_plan pf answer org language ai db)))"
    and "pn_adjusted (build_plan pf answer org language ai db)
      = py_round 2 (compute_adjusted_savings (pn_prioritized (build_plan pf answer org language ai db)))"
  using assms by (simp_all add: build_plan_def Let_def split: prod.splits)

text \<open>
  C24 (equivalence): For whole amounts the raw savings of a plan are the sum over its recommendations, and the
  adjusted savings count each recommendation without a conflict in full and of each node pool in conflict
  the best recommendation only.
\<close>

theorem conflicting_savings_counted_once:
  assumes "distinct (map op_id (opportunities db))" and "whole_savings org db"
  shows "let plan = build_plan pf answer org language ai db; ps = pn_prioritized plan;
           conflict = (\<lambda>r. re_conflict_hints r \<noteq> []) in
     pn_raw plan = (\<Sum>r\<leftarrow>ps. re_savings r)
   \<and> pn_adjusted plan = (\<Sum>r\<leftarrow>filter (\<lambda>r. \<not> conflict r) ps. re_savings r)
       + (\<Sum>k\<in>pool_key ` {r \<in> set ps. conflict r}. Max (re_savings ` {r \<in> set ps. conflict r \<and> pool_key r = k}))"
proof -
  let ?plan = "build_plan pf answer org language ai db"
  let ?ps = "pn_prioritized ?plan"
  have conflict: "re_conflict_hints r \<noteq> [] \<longleftrightarrow> contested ?ps r" if "r \<in> set ?ps" for r
    using plan_marks [OF assms(1) that] by auto
  have w: "whole_amounts (map re_savings ?ps)" by (rule plan_whole(2) [OF assms])
  define G where "G = contested_groups ?ps"
  have group: "Max (re_savings ` set (snd g)) = Max (re_savings ` {r \<in> set ?ps. re_conflict_hints r \<noteq> [] \<and> pool_key r = fst g})"
    if "g \<in> set G" for g
  proof -
    have "set (snd g) = {r \<in> set ?ps. re_conflict_hints r \<noteq> [] \<and> pool_key r = fst g}"
      using contested_group_members(1) [of g ?ps] that conflict by (auto simp: G_def)
    then show ?thesis by simp
  qed
  then have "sum_list (map (\<lambda>g. Max (re_savings ` set (snd g))) G)
      = sum_list (map (\<lambda>k. Max (re_savings ` {r \<in> set ?ps. re_conflict_hints r \<noteq> [] \<and> pool_key r = k})) (map fst G))"
    by (simp add: comp_def cong: map_cong)
  also have "\<dots> = (\<Sum>k\<in>fst ` set G. Max (re_savings ` {r \<in> set ?ps. re_conflict_hints r \<noteq> [] \<and> pool_key r = k}))"
    by (metis (no_types, lifting) G_def contested_group_keys(1) list.set_map sum_list_distinct_conv_sum_set)
  also have "fst ` set G = pool_key ` {r \<in> set ?ps. re_conflict_hints r \<noteq> []}"
    using contested_group_keys(2) [of ?ps] conflict by (auto simp: G_def)
  finally have best: "sum_list (map (\<lambda>g. Max (re_savings ` set (snd g))) G)
      = (\<Sum>k\<in>pool_key ` {r \<in> set ?ps. re_conflict_hints r \<noteq> []}.
          Max (re_savings ` {r \<in> set ?ps. re_conflict_hints r \<noteq> [] \<and> pool_key r = k}))" .
  have "filter (\<lambda>r. \<not> re_conflict_hints r \<noteq> []) ?ps = filter (\<lambda>r. \<not> contested ?ps r) ?ps"
    using conflict by (intro filter_cong) auto
  then have adjusted: "compute_adjusted_savings ?ps = (\<Sum>r\<leftarrow>filter (\<lambda>r. \<not> re_conflict_hints r \<noteq> []) ?ps. re_savings r)
      + sum_list (map (\<lambda>g. Max (re_savings ` set (snd g))) G)"
    using adjusted_whole(1) [OF w] by (simp add: G_def)
  show ?thesis
  proof (cases "list_open_opportunities org db = []")
    case True
    with list_open_empty [OF True, of pf answer language ai] show ?thesis by (simp add: Let_def)
  next
    case False
    have "savings_sum ?ps = sum_list (map re_savings ?ps)" "\<bar>sum_list (map re_savings ?ps)\<bar> < 2 ^ 53"
      "of_int \<lfloor>sum_list (map re_savings ?ps)\<rfloor> = sum_list (map re_savings ?ps)"
      using w whole_sum [of "map re_savings ?ps"] by (auto simp: savings_sum_def float_sum_whole whole_amounts_def)
    then have "pn_raw ?plan = sum_list (map re_savings ?ps)" by (simp add: plan_amounts(1) [OF False] round_whole)
    moreover have "pn_adjusted ?plan = compute_adjusted_savings ?ps"
      using adjusted_whole(2) [OF w] by (simp add: plan_amounts(2) [OF False] round_whole)
    ultimately show ?thesis unfolding Let_def using adjusted best by simp
  qed
qed

section \<open>Samples\<close>

definition plan_opp :: "uuid \<Rightarrow> opportunity_category \<Rightarrow> string \<Rightarrow> pyfloat \<Rightarrow> opportunity" where
  "plan_opp i cat resource savings =
     \<lparr>op_id = i, op_org = 1, op_title = ''t'', op_category = cat, op_composite_score = 0,
      op_savings = Some savings, op_risk = RISK_LOW, op_effort = EFFORT_LOW, op_status = OPP_OPEN,
      op_resource_id = Some resource, op_playbook = None, op_evidence = None, op_account = None,
      op_description = [], op_financial_score = 0, op_risk_score = 0, op_effort_score = 0,
      op_criticality_score = 0, op_annual_savings = 0, op_current_cost = 0, op_resource_name = None,
      op_sku_name = None, op_machine_family = None, op_service = None, op_region = None,
      op_environment = None, op_owner_team = None, op_rationale = None, op_created = 0, op_detected = 0\<rparr>"

definition plan_sample :: opp_db where
  "plan_sample = \<lparr>events = [], checkpoints = [], alerts = [], bundles = [], evidence = [], experiments = [],
     runs = [], approvals = [], opportunities = [plan_opp 1 AKS_NODEPOOL_RIGHTSIZING ''aks:c:p'' 100,
       plan_opp 2 AKS_AUTOSCALER_RECOMMENDATION ''AKS:c:p '' 60, plan_opp 3 IDLE_RESOURCES ''d'' 40],
     calibrations = []\<rparr>"

lemma plan_sample_facts:
  "distinct (map op_id (opportunities plan_sample))" "whole_savings 1 plan_sample"
  "list_open_opportunities 1 plan_sample = opportunities plan_sample"
  by (simp_all add: plan_sample_def plan_opp_def whole_savings_def whole_amounts_def list_open_opportunities_def or_zero_def)

lemma plan_member:
  assumes "distinct (map op_id (opportunities db))" and "o1 \<in> set (list_open_opportunities org db)"
  shows "\<exists>r\<in>set (pn_prioritized (build_plan pf answer org language ai db)).
    re_opportunity r = op_id o1 \<and> re_category r = op_category o1 \<and> re_resource_id r = op_resource_id o1"
proof -
  let ?f = "\<lambda>r. (re_opportunity r, re_category r, re_resource_id r)"
  have "set (map ?f (prioritize (recommendations_of pf org db))) = set (map ?f (recommendations_of pf org db))"
    by (intro mset_eq_setD mset_prioritize) simp
  moreover have "(op_id o1, op_category o1, op_resource_id o1) \<in> set (map ?f (recommendations_of pf org db))"
    using assms(2) by (auto simp: recommendations_of_def recommendation_of_def Let_def image_iff)
  ultimately have "(op_id o1, op_category o1, op_resource_id o1) \<in> ?f ` set (prioritize (recommendations_of pf org db))"
    by simp
  then show ?thesis by (auto simp: plan_warned [OF assms(1)])
qed

theorem plan_conflicts_mutual_witness:
  "\<exists>r s. re_opportunity r = 1 \<and> re_opportunity s = 2 \<and> 2 \<in> set (re_conflicting r) \<and> 1 \<in> set (re_conflicting s)
     \<and> {r, s} \<subseteq> set (pn_prioritized (build_plan toy_platform None 1 ''pt'' False plan_sample))"
proof -
  let ?ps = "pn_prioritized (build_plan toy_platform None 1 ''pt'' False plan_sample)"
  have "plan_opp 1 AKS_NODEPOOL_RIGHTSIZING ''aks:c:p'' 100 \<in> set (list_open_opportunities 1 plan_sample)"
    "plan_opp 2 AKS_AUTOSCALER_RECOMMENDATION ''AKS:c:p '' 60 \<in> set (list_open_opportunities 1 plan_sample)"
    by (simp_all add: plan_sample_facts(3), simp_all add: plan_sample_def)
  from this [THEN plan_member [OF plan_sample_facts(1), of _ 1 toy_platform None "''pt''" False]]
  obtain r s where r: "r \<in> set ?ps" "re_opportunity r = 1" "re_category r = AKS_NODEPOOL_RIGHTSIZING"
      "re_resource_id r = Some ''aks:c:p''"
    and s: "s \<in> set ?ps" "re_opportunity s = 2" "re_category s = AKS_AUTOSCALER_RECOMMENDATION"
      "re_resource_id s = Some ''AKS:c:p ''"
    by (auto simp: plan_opp_def)
  have "py_lower (py_strip ''aks:c:p'') = py_lower (py_strip ''AKS:c:p '')" by code_simp
  then have rs: "rivals r s" "rivals r r"
    using r s by (simp_all add: rivals_def pool_rec_def pool_key_def aks_categories_def)
  then have "contested ?ps r" using r s by (auto simp: contested_def both_kinds_def list_ex_iff rivals_def)
  with plan_conflicts_mutual [OF plan_sample_facts(1) r(1) s(1)] rs r s show ?thesis by (intro exI [of _ r] exI [of _ s]) auto
qed

theorem conflicting_savings_counted_once_witness:
  "let plan = build_plan toy_platform None 1 ''pt'' False plan_sample; ps = pn_prioritized plan in
     pn_raw plan = 200
   \<and> pn_adjusted plan = (\<Sum>r\<leftarrow>filter (\<lambda>r. re_conflict_hints r = []) ps. re_savings r)
       + (\<Sum>k\<in>pool_key ` {r \<in> set ps. re_conflict_hints r \<noteq> []}.
           Max (re_savings ` {r \<in> set ps. re_conflict_hints r \<noteq> [] \<and> pool_key r = k}))"
proof -
  let ?ps = "pn_prioritized (build_plan toy_platform None 1 ''pt'' False plan_sample)"
  have "sum_list (map re_savings ?ps) = sum_list (map (\<lambda>o1. or_zero (op_savings o1)) (opportunities plan_sample))"
    using plan_whole(1) [OF plan_sample_facts(1,2)] plan_sample_facts(3) by (metis sum_mset_sum_list)
  also have "\<dots> = 200" by (simp add: plan_sample_def plan_opp_def or_zero_def)
  finally show ?thesis
    using conflicting_savings_counted_once [OF plan_sample_facts(1,2), of toy_platform None "''pt''" False]
    by (simp add: Let_def)
qed

end
