(* ===== verification/Spec2Isabelle.thy ===== *)
theory Spec2Isabelle
  imports RetryLaws PolicyLog AksAutoscaler VmRightsizing AksNodepool PlanLaws TokenLaws MfaLaws MembershipLaws PasskeyLaws MiddlewareLaws IngestionLock WorkflowLaws NotificationLaws DeliveryLaws RiskBudgetLaws Realtime GenerationLaws OpportunityLaws OptimizationPlanLaws
begin

text \<open>
  CauSium is a decision support service for cloud costs: a FastAPI backend under \<open>backend/app\<close>, with
  PostgreSQL (SQLAlchemy sessions), Redis, and a web client that is not modelled. This development
  models the parts of the backend that decide, record and guard: paths below are relative to
  \<open>backend/app\<close>.

  \<^bold>\<open>How the program is modelled.\<close> A table is a list of rows, a row a record with the columns the
  code uses, and the database session a record of tables; the session of a component extends the
  session of the components it calls, so that one polymorphic definition serves all callers. A
  service method is a function from the session to an error or a value, and the session after it
  (\<open>svc\<close>); what it draws from outside (\<open>uuid4()\<close>, clock readings) is an argument \<open>call\<close>. Doubles are
  rationals rounded by \<open>fl\<close> after every operation as IEEE 754 does; overflow, infinities and NaN are
  outside the model. Text is UTF-8 bytes, case folding is for ASCII. SHA-256, HMAC, the printer and
  reader of floats and the signing key are arguments (\<open>platform\<close>); properties that need them to be
  collision free say so as a case of their conclusion.

  \<^bold>\<open>Theories.\<close>
  \<^item> \<open>Prelude\<close>, \<open>Float64\<close>, \<open>PyText\<close>, \<open>FloatValues\<close>: errors, service calls, request scope
    (\<open>core/database.py\<close>), text, identifiers, instants, tables with the interface \<open>keyed_table\<close>, doubles,
    formatting, the values of the literals of the decision engine.
  \<^item> \<open>Identity\<close>, \<open>Policy\<close>, \<open>PolicyLog\<close>: roles (\<open>domains/auth/models.py\<close>, the rank table of
    \<open>domains/auth/service.py\<close>), the authorization decision (\<open>core/policy.py\<close>) with its declarative
    specification, and the evidence it leaves (\<open>domains/policy/service.py\<close>).
  \<^item> \<open>HashChain\<close>, \<open>JsonCanon\<close>, \<open>AuditChain\<close>, \<open>AuditService\<close>: the hash-chained audit log
    (\<open>domains/audit_chain/service.py\<close>): canonical JSON, appending, verification, checkpoints, export.
  \<^item> \<open>Idempotency\<close>: idempotency keys over Redis (\<open>core/idempotency.py\<close>, \<open>core/redis.py\<close>), with the
    interface \<open>kv_commands\<close>: a call is the run of its commands, and concurrent calls interleave them.
  \<^item> \<open>Experiments\<close>, \<open>ExperimentLaws\<close>: the experiment service (\<open>domains/experiments/service.py\<close>) and its
    invariant over all reachable databases.
  \<^item> \<open>ExperimentRouter\<close>, \<open>RouterLaws\<close>, \<open>RetryLaws\<close>: the handlers (\<open>domains/experiments/router.py\<close>), which
    compose policy, idempotency, service and request scope; the two person rule, retries, refusals.
  \<^item> \<open>Scorer\<close>, \<open>Observations\<close>, \<open>VmRightsizing\<close>, \<open>AksNodepool\<close>, \<open>AksAutoscaler\<close>: the decision engines
    (\<open>domains/decision_engine/\<close>).
  \<^item> \<open>Opportunities\<close>: opportunities and the calibration of the engines
    (\<open>confidence_calibration_service.py\<close>), which refines a fold over the history of results.
  \<^item> \<open>EngineText\<close>, \<open>Generation\<close>, \<open>GenerationRun\<close>, \<open>GenerationLaws\<close>: a scoring run of an account
    (\<open>decision_engine/service.py\<close>): its text rules and keys, the candidate node pools, what each row of
    cost becomes, the phases of the run; one open row per target, runs again, the strategy of a pool.
  \<^item> \<open>OpportunityService\<close>, \<open>OpportunityLaws\<close>: the other operations of that service and its routes.
  \<^item> \<open>OptimizationPlan\<close>, \<open>OptimizationPlanLaws\<close>: the plan of the open opportunities
    (\<open>decision_engine/optimization_plan_service.py\<close>): its order, conflicts, and savings counted once.
  \<^item> \<open>ExecutionPlans\<close>, \<open>PlanFlow\<close>, \<open>PlanLaws\<close>: execution plans
    (\<open>domains/intel/execution_plan_service.py\<close>), which create experiments and feed the calibration.
  \<^item> \<open>AuthState\<close>, \<open>AuthExample\<close>: users, organizations and credentials (\<open>domains/auth/models.py\<close>), the
    external cryptography as a record of functions, and concrete instances of both for the witnesses.
  \<^item> \<open>Keyring\<close>, \<open>KeyringLaws\<close>, \<open>Tokens\<close>, \<open>TokenLaws\<close>: versioned keys of workspaces and their rotation, JWT
    pairs and revocation (\<open>core/security.py\<close>, \<open>domains/auth/token_blacklist.py\<close>), the user of a request
    (\<open>core/dependencies.py\<close>).
  \<^item> \<open>Mfa\<close>, \<open>MfaLaws\<close>, \<open>Accounts\<close>, \<open>AccountLaws\<close>: time based and backup codes, password login, accounts,
    quotas, anonymization, resets (\<open>domains/auth/service.py\<close>).
  \<^item> \<open>Workspaces\<close>, \<open>Invites\<close>, \<open>WorkspaceLaws\<close>: lifecycle of workspaces, support access, invitations, pages
    (\<open>domains/workspaces/router.py\<close>, \<open>domains/admin/service.py\<close>, \<open>domains/invites/service.py\<close>,
    \<open>core/schemas.py\<close>).
  \<^item> \<open>Webauthn\<close>, \<open>WebauthnLaws\<close>, \<open>Passkeys\<close>, \<open>PasskeyLaws\<close>, \<open>Oidc\<close>, \<open>OidcLaws\<close>: the CBOR reader and
    attestation objects, passkey registration and login, the sign-in through Azure
    (\<open>domains/auth/service.py\<close>).
  \<^item> \<open>MembershipLaws\<close>: one step relation for every operation that writes users or workspaces, over the
    theories before, with the invariants of both tables.
  \<^item> \<open>Codec\<close>, \<open>PyJson\<close>, \<open>JsonLaws\<close>, \<open>Url\<close>, \<open>Config\<close>, \<open>Middleware\<close>, \<open>MiddlewareLaws\<close>: base64, the JSON reader of
    the standard library with its round trip, URLs, the settings with their production checks
    (\<open>core/config.py\<close>), the origin check, the rate limit script and the security headers
    (\<open>core/middleware.py\<close>); the limiter refines a log of accepted requests.
  \<^item> \<open>Jobs\<close>, \<open>JobLaws\<close>, \<open>IngestionLock\<close>: the queue workers with retries, dead letters and locks
    (\<open>workers/\<close>); the queue drains, the lock excludes.
  \<^item> \<open>Workflow\<close>, \<open>WorkflowLaws\<close>: initiatives and their board (\<open>domains/workflow/\<close>); the audit log replays to
    their status.
  \<^item> \<open>Notifications\<close>, \<open>NotificationLaws\<close>, \<open>Delivery\<close>, \<open>DeliveryLaws\<close>, \<open>Realtime\<close>, \<open>RiskBudgets\<close>,
    \<open>RiskBudgetLaws\<close>: alerts with their deduplication (\<open>domains/notifications/\<close>), the worker that mails them
    (\<open>workers/notification_worker.py\<close>), the in-process broker, risk budgets (\<open>domains/risk_budgets/\<close>).

  \<^bold>\<open>Bounds and fuel.\<close> Recursions are structural or have a measure. The readers of CBOR and JSON take
  the recursion depth that is left as an argument, as Python counts it, and exhausted depth is
  \<open>RecursionError\<close>; for CBOR a property shows that one level per byte is enough, for JSON the round trip
  says which depth is. Loops of the workers are sequences of turns or
  polls of any length. A poll of the notification worker takes 50 alerts, the queue of a stream holds 200
  events, a scoring run inserts at most one row for each cost row and two for each node pool
  (\<open>new_limit\<close>), for which its identifiers have to be fresh. The proof that rounding is monotone and exact on
  doubles carries the bounds of scores, savings and confidences.

  \<^bold>\<open>Not modelled.\<close> Network clients (cloud providers, mail, chat, language model), ClickHouse and the text of
  its queries, whose rows are inputs, tracing, migrations, demo seeding, the frontend, and report queries
  that are SQL aggregation. Column widths of the database are not checked, and whether the object mapper
  stores an assignment of a dictionary it already holds is outside the model. Also left out: the
  projections added to an opportunity when it is read, anomaly detection and the administration reports.
\<close>

end
